(* ===== verification/Go_Prelude.thy ===== *)
theory Go_Prelude
  imports Main "HOL-Library.Word" "HOL-Library.Signed_Division" "HOL-Library.AList"
    "HOL-Library.Monad_Syntax"
begin

text \<open>
  What the components share: the Go values that the engine passes around (bytes, errors,
  64-bit integers, slices) and the list, association-list and option lemmas the component
  proofs are carried by.

  Conventions of the whole development.
  \<^item> A Go function that can panic (index or slice out of range, nil dereference) returns an
    option; None is the panic.  A loop that may run forever is a partial_function, where None
    also stands for not returning.
  \<^item> A Go error is a value of type error; the error result of a function is an error option,
    None being nil.
  \<^item> A map is an association list with distinct keys, in the order in which a range statement
    would visit it; nothing proved depends on a particular order unless the lemma says so.
\<close>

named_theorems slice_simps \<open>pointwise facts about slices and copies\<close>
named_theorems go_int_simps \<open>Go's truncating division on non-negative operands\<close>

type_synonym byte = "8 word"
type_synonym bytes = "byte list"

section \<open>Errors\<close>

text \<open>
  The dynamic types of the error values of the program: fmt.Errorf and errors.New, the
  wrapping of github.com/pkg/errors, the io sentinels, types.Error (code, message, rollback
  message), and the three aggregate errors of the controller.
\<close>

datatype error =
    Errorf string
  | Wrapped string error
  | EOF
  | ErrUnexpectedEOF
  | ErrNotExist string
  | TypesError string string string
  | BackendErr "(string \<times> error) list"
  | MultiWriterErr "error option list"
  | MultiUnmapperErr "error option list"

fun join :: "string \<Rightarrow> string list \<Rightarrow> string" where
  "join sep [] = []"
| "join sep [x] = x"
| "join sep (x # y # ys) = x @ sep @ join sep (y # ys)"

definition somes :: "'a option list \<Rightarrow> 'a list" where
  "somes xs = List.map_filter id xs"

lemma somes_simps [simp]:
  "somes [] = []" "somes (Some x # xs) = x # somes xs" "somes (None # xs) = somes xs"
  by (simp_all add: somes_def)

lemma set_somes [simp]: "set (somes xs) = {x. Some x \<in> set xs}"
proof (induction xs)
  case (Cons a xs)
  then show ?case by (cases a) auto
qed simp

lemma somes_eq_Nil: "somes xs = [] \<longleftrightarrow> (\<forall>x \<in> set xs. x = None)"
proof (induction xs)
  case (Cons a xs)
  then show ?case by (cases a) auto
qed simp

text \<open>errors.Wrapf of a nil error is nil.\<close>

definition Wrapf :: "error option \<Rightarrow> string \<Rightarrow> error option" where
  "Wrapf e msg = map_option (Wrapped msg) e"

lemma Wrapf_None_iff [simp]: "Wrapf e msg = None \<longleftrightarrow> e = None"
  by (simp add: Wrapf_def)

lemma Wrapf_Some [simp]: "Wrapf (Some e) msg = Some (Wrapped msg e)"
  by (simp add: Wrapf_def)

section \<open>Decimal numbers\<close>

fun showNat :: "nat \<Rightarrow> string" where
  "showNat n = (if n < 10 then [char_of (48 + n)]
     else showNat (n div 10) @ [char_of (48 + n mod 10)])"

declare showNat.simps [simp del]

definition showInt :: "int \<Rightarrow> string" where
  "showInt i = (if i < 0 then CHR ''-'' # showNat (nat (- i)) else showNat (nat i))"

definition isDigit :: "char \<Rightarrow> bool" where
  "isDigit c \<longleftrightarrow> 48 \<le> (of_char c :: nat) \<and> (of_char c :: nat) \<le> 57"

definition digitVal :: "char \<Rightarrow> nat" where
  "digitVal c = of_char c - 48"

definition readNat :: "string \<Rightarrow> nat" where
  "readNat s = foldl (\<lambda>n c. 10 * n + digitVal c) 0 s"

lemma of_char_digit: "k < 10 \<Longrightarrow> (of_char (char_of (48 + k :: nat)) :: nat) = 48 + k"
  by simp

lemma digit_char [simp]:
  assumes "k < 10"
  shows "isDigit (char_of (48 + k :: nat))" "digitVal (char_of (48 + k :: nat)) = k"
  using assms by (simp_all add: isDigit_def digitVal_def)

lemma showNat_digits: "list_all isDigit (showNat n)"
proof (induction n rule: showNat.induct)
  case (1 n)
  show ?case
    using 1 by (subst showNat.simps) simp
qed

lemma showNat_not_Nil [simp]: "showNat n \<noteq> []"
  by (subst showNat.simps) simp

lemma readNat_snoc: "readNat (s @ [c]) = 10 * readNat s + digitVal c"
  by (simp add: readNat_def)

lemma readNat_showNat [simp]: "readNat (showNat n) = n"
proof (induction n rule: showNat.induct)
  case (1 n)
  show ?case
  proof (cases "n < 10")
    case True
    then show ?thesis by (subst showNat.simps) (simp add: readNat_def)
  next
    case False
    then show ?thesis using 1 by (subst showNat.simps) (simp add: readNat_snoc)
  qed
qed

text \<open>strconv.ParseInt(s, 10, 64) and strconv.Itoa / FormatInt.\<close>

definition maxInt64 :: int where "maxInt64 = 9223372036854775807"
definition minInt64 :: int where "minInt64 = - 9223372036854775808"

definition parseDigits :: "string \<Rightarrow> nat option" where
  "parseDigits s = (if s \<noteq> [] \<and> list_all isDigit s then Some (readNat s) else None)"

definition ParseInt :: "string \<Rightarrow> int option" where
  "ParseInt s =
     (let (neg, ds) = (case s of c # r \<Rightarrow> if c = CHR ''-'' then (True, r)
                                          else if c = CHR ''+'' then (False, r) else (False, s)
                               | [] \<Rightarrow> (False, s))
      in case parseDigits ds of
           None \<Rightarrow> None
         | Some n \<Rightarrow> (let i = (if neg then - int n else int n)
                     in if minInt64 \<le> i \<and> i \<le> maxInt64 then Some i else None))"

lemma parseDigits_showNat [simp]: "parseDigits (showNat n) = Some n"
  by (simp add: parseDigits_def showNat_digits)

lemma isDigit_sign [simp]: "\<not> isDigit CHR ''-''" "\<not> isDigit CHR ''+''"
  by (simp_all add: isDigit_def)

lemma ParseInt_showInt:
  assumes "minInt64 \<le> i" "i \<le> maxInt64"
  shows "ParseInt (showInt i) = Some i"
proof (cases "i < 0")
  case True
  then show ?thesis using assms by (simp add: ParseInt_def showInt_def)
next
  case False
  obtain c r where cr: "showNat (nat i) = c # r" by (cases "showNat (nat i)") auto
  have "isDigit c" using showNat_digits [of "nat i"] cr by simp
  then have "c \<noteq> CHR ''-''" "c \<noteq> CHR ''+''" by auto
  moreover have "parseDigits (c # r) = Some (nat i)" using parseDigits_showNat [of "nat i"] cr by simp
  ultimately show ?thesis using False assms by (simp add: ParseInt_def showInt_def cr)
qed

lemma showInt_inj: "showInt i = showInt j \<longleftrightarrow> i = j"
proof
  have no_minus: "showNat n \<noteq> CHR ''-'' # r" for n r
    using showNat_digits [of n] by auto
  assume eq: "showInt i = showInt j"
  show "i = j"
  proof (cases "i < 0"; cases "j < 0")
    assume "i < 0" "j < 0"
    then have "showNat (nat (- i)) = showNat (nat (- j))" using eq by (simp add: showInt_def)
    then have "nat (- i) = nat (- j)" using readNat_showNat by metis
    then show ?thesis using \<open>i < 0\<close> \<open>j < 0\<close> by simp
  next
    assume "\<not> i < 0" "\<not> j < 0"
    then have "showNat (nat i) = showNat (nat j)" using eq by (simp add: showInt_def)
    then have "nat i = nat j" using readNat_showNat by metis
    then show ?thesis using \<open>\<not> i < 0\<close> \<open>\<not> j < 0\<close> by simp
  next
    assume "i < 0" "\<not> j < 0"
    then show ?thesis using eq no_minus by (auto simp: showInt_def dest: sym)
  next
    assume "\<not> i < 0" "j < 0"
    then show ?thesis using eq no_minus by (auto simp: showInt_def)
  qed
qed simp

section \<open>64-bit integers\<close>

text \<open>The value that an int64 expression has when its mathematical value is \<open>x\<close>.\<close>

definition int64 :: "int \<Rightarrow> int" where
  "int64 x = (x + 2 ^ 63) mod 2 ^ 64 - 2 ^ 63"

lemma int64_id [simp]: "minInt64 \<le> x \<Longrightarrow> x \<le> maxInt64 \<Longrightarrow> int64 x = x"
  by (simp add: int64_def minInt64_def maxInt64_def)

lemma int64_range: "minInt64 \<le> int64 x" "int64 x \<le> maxInt64"
  unfolding int64_def minInt64_def maxInt64_def by simp_all

text \<open>Go's / and % truncate towards zero; on non-negative operands they are div and mod.\<close>

lemma sdiv_nonneg [go_int_simps]: "0 \<le> a \<Longrightarrow> 0 < b \<Longrightarrow> a sdiv b = a div (b :: int)"
  by (simp add: signed_divide_int_def sgn_if)

lemma smod_nonneg [go_int_simps]: "0 \<le> a \<Longrightarrow> 0 < b \<Longrightarrow> a smod b = a mod (b :: int)"
  by (cases "a = 0") (simp_all add: signed_modulo_int_def sdiv_nonneg sgn_if minus_div_mult_eq_mod)

section \<open>Slices\<close>

definition zeros :: "nat \<Rightarrow> bytes" where
  "zeros n = replicate n 0"

lemma zeros_simps [simp]: "length (zeros n) = n" "i < n \<Longrightarrow> zeros n ! i = 0"
  by (simp_all add: zeros_def)

text \<open>The slice expression s[lo:hi]; out of range it panics.\<close>

definition slice_of :: "'a list \<Rightarrow> int \<Rightarrow> int \<Rightarrow> 'a list option" where
  "slice_of xs lo hi =
     (if 0 \<le> lo \<and> lo \<le> hi \<and> hi \<le> int (length xs)
      then Some (take (nat (hi - lo)) (drop (nat lo) xs)) else None)"

text \<open>Writing ys over xs from position k on, within xs: what copy(xs[k:], ys) leaves in xs.\<close>

definition blit :: "'a list \<Rightarrow> nat \<Rightarrow> 'a list \<Rightarrow> 'a list" where
  "blit xs k ys = take k xs @ take (length xs - k) ys @ drop (k + length ys) xs"

lemma length_blit [simp, slice_simps]: "k \<le> length xs \<Longrightarrow> length (blit xs k ys) = length xs"
  by (simp add: blit_def)

lemma blit_Nil [simp]: "blit xs k [] = xs"
  by (simp add: blit_def)

lemma nth_blit [slice_simps]:
  "k \<le> length xs \<Longrightarrow> i < length xs \<Longrightarrow>
     blit xs k ys ! i = (if k \<le> i \<and> i < k + length ys then ys ! (i - k) else xs ! i)"
  by (auto simp: blit_def nth_append min_def)

lemma slice_of_Some_iff:
  "slice_of xs lo hi = Some ys \<longleftrightarrow>
     0 \<le> lo \<and> lo \<le> hi \<and> hi \<le> int (length xs) \<and> ys = take (nat (hi - lo)) (drop (nat lo) xs)"
  by (auto simp: slice_of_def)

lemma slice_of_nat [slice_simps]:
  "lo \<le> hi \<Longrightarrow> hi \<le> length xs \<Longrightarrow> slice_of xs (int lo) (int hi) = Some (take (hi - lo) (drop lo xs))"
  by (auto simp: slice_of_def nat_diff_distrib)

lemma list_eq_pointwise: "length xs = length ys \<Longrightarrow> (\<And>i. i < length ys \<Longrightarrow> xs ! i = ys ! i) \<Longrightarrow> xs = ys"
  by (simp add: list_eq_iff_nth_eq)

text \<open>Access and update of an array element by a Go index, which may be negative.\<close>

definition index :: "'a list \<Rightarrow> int \<Rightarrow> 'a option" where
  "index xs i = (if 0 \<le> i \<and> i < int (length xs) then Some (xs ! nat i) else None)"

definition assign :: "'a list \<Rightarrow> int \<Rightarrow> 'a \<Rightarrow> 'a list option" where
  "assign xs i v = (if 0 \<le> i \<and> i < int (length xs) then Some (xs[nat i := v]) else None)"

lemma index_nat [simp]: "i < length xs \<Longrightarrow> index xs (int i) = Some (xs ! i)"
  by (simp add: index_def)

lemma assign_nat [simp]: "i < length xs \<Longrightarrow> assign xs (int i) v = Some (xs[i := v])"
  by (simp add: assign_def)

lemma index_None_iff: "index xs i = None \<longleftrightarrow> i < 0 \<or> int (length xs) \<le> i"
  by (auto simp: index_def)

text \<open>A new key is added at the end of a map.\<close>

lemma update_fresh: "k \<notin> fst ` set al \<Longrightarrow> AList.update k v al = al @ [(k, v)]"
  by (induction al) auto

section \<open>Texts as bytes\<close>

definition text_bytes :: "string \<Rightarrow> bytes" where
  "text_bytes s = map (\<lambda>c. word_of_nat (of_char c)) s"

definition bytes_text :: "bytes \<Rightarrow> string" where
  "bytes_text b = map (\<lambda>x. char_of (unat x)) b"

lemma text_bytes_text [simp]: "bytes_text (text_bytes s) = s"
proof -
  have "char_of (unat (word_of_nat (of_char c) :: 8 word)) = c" for c :: char
  proof -
    have "of_char c < (256 :: nat)" by simp
    then have "unat (word_of_nat (of_char c) :: 8 word) = of_char c" by (simp add: unat_of_nat)
    then show ?thesis by simp
  qed
  then show ?thesis by (simp add: bytes_text_def text_bytes_def comp_def)
qed

end
