(* ===== verification/Disk_Layer.thy ===== *)
theory Disk_Layer
  imports Go_Prelude
begin

text \<open>
  The interface types.DiffDisk (src/pkg/types/types.go) through which a replica reaches one
  file of its chain, together with fibmap.Fiemap and util.GetFileActualSize, which work on the
  same file.  The files are O_DIRECT files of a sparse-file library and of the kernel, so the
  operations are a parameter of the model: a record of functions over a handle and a store.
  The locale disk_layer states what the replica relies on; sf_ops is a store of sparse files in
  memory, and the interpretation at the end shows that the laws can be met.
\<close>

record extent =
  Logical :: int
  Length :: int
  Extent_Last :: bool

record ('h, 's) disk_ops =
  op_ReadAt :: "'h \<Rightarrow> bytes \<Rightarrow> int \<Rightarrow> 's \<Rightarrow> int \<times> error option \<times> bytes"
  op_WriteAt :: "'h \<Rightarrow> bytes \<Rightarrow> int \<Rightarrow> 's \<Rightarrow> int \<times> error option \<times> 's"
  op_UnmapAt :: "'h \<Rightarrow> 32 word \<Rightarrow> int \<Rightarrow> 's \<Rightarrow> int \<times> error option \<times> 's"
  op_Close :: "'h \<Rightarrow> 's \<Rightarrow> error option \<times> 's"
  op_Size :: "'h \<Rightarrow> 's \<Rightarrow> int \<times> error option"
  op_Fiemap :: "'h \<Rightarrow> int \<Rightarrow> int \<Rightarrow> nat \<Rightarrow> 's \<Rightarrow> extent list \<times> error option"
  op_ActualSize :: "string \<Rightarrow> 's \<Rightarrow> int"

section \<open>The contract of a layer\<close>

text \<open>
  The logical view of a store: which handles are open and healthy, the apparent size of a file,
  its bytes, which of its blocks are allocated, and the block size of the file system.
\<close>

record ('h, 's) layer_view =
  v_live :: "'s \<Rightarrow> 'h \<Rightarrow> bool"
  v_size :: "'s \<Rightarrow> 'h \<Rightarrow> nat"
  v_data :: "'s \<Rightarrow> 'h \<Rightarrow> nat \<Rightarrow> byte"
  v_alloc :: "'s \<Rightarrow> 'h \<Rightarrow> nat \<Rightarrow> bool"
  v_bs :: nat

text \<open>The blocks that an extent covers, for a file system with blocks of \<open>bs\<close> bytes.\<close>

definition extent_blocks :: "nat \<Rightarrow> extent \<Rightarrow> nat set" where
  "extent_blocks bs e = {nat (Logical e) div bs ..< nat (Logical e + Length e) div bs}"

definition extent_aligned :: "nat \<Rightarrow> extent \<Rightarrow> bool" where
  "extent_aligned bs e \<longleftrightarrow> 0 \<le> Logical e \<and> 0 < Length e \<and> int bs dvd Logical e \<and> int bs dvd Length e"

definition extent_end :: "extent \<Rightarrow> int" where
  "extent_end e = Logical e + Length e"

text \<open>
  A reply of Fiemap is a prefix of the list of extents that overlap the requested range: every
  extent is aligned and allocated, what is allocated between the start and the end of the last
  extent is reported, and the flag FIEMAP_EXTENT_LAST is set only on an extent after which
  the file has no data.
\<close>

definition fiemap_reply :: "('h, 's) layer_view \<Rightarrow> 's \<Rightarrow> 'h \<Rightarrow> nat \<Rightarrow> nat \<Rightarrow> extent list \<Rightarrow> bool" where
  "fiemap_reply V s h start len es \<longleftrightarrow>
     (\<forall>e \<in> set es. extent_aligned (v_bs V) e \<and> (\<forall>b \<in> extent_blocks (v_bs V) e. v_alloc V s h b)) \<and>
     (es = [] \<longleftrightarrow> \<not> (\<exists>b. v_alloc V s h b \<and> start < Suc b * v_bs V \<and> b * v_bs V < start + len)) \<and>
     (es \<noteq> [] \<longrightarrow> int start < extent_end (last es)) \<and>
     (es \<noteq> [] \<longrightarrow> (\<forall>b. v_alloc V s h b \<and> start \<le> b * v_bs V \<and> int (b * v_bs V) < extent_end (last es) \<longrightarrow>
         (\<exists>e \<in> set es. b \<in> extent_blocks (v_bs V) e))) \<and>
     (\<forall>k < length es. Extent_Last (es ! k) \<longrightarrow>
        Suc k = length es \<and> (\<forall>b. v_alloc V s h b \<longrightarrow> int (b * v_bs V) < extent_end (es ! k)))"

locale disk_layer =
  fixes ops :: "('h, 's) disk_ops"
    and V :: "('h, 's) layer_view"
  assumes bs_pos: "0 < v_bs V"
    and size_law: "v_live V s h \<Longrightarrow> op_Size ops h s = (int (v_size V s h), None)"
    and read_law: "v_live V s h \<Longrightarrow> off + length buf \<le> v_size V s h \<Longrightarrow>
      op_ReadAt ops h buf (int off) s =
        (int (length buf), None, map (v_data V s h) [off ..< off + length buf])"
    and write_law: "v_live V s h \<Longrightarrow> v_bs V dvd off \<Longrightarrow> v_bs V dvd length buf \<Longrightarrow>
      off + length buf \<le> v_size V s h \<Longrightarrow>
      \<exists>s'. op_WriteAt ops h buf (int off) s = (int (length buf), None, s') \<and>
        v_live V s' = v_live V s \<and> v_size V s' = v_size V s \<and>
        v_data V s' = (v_data V s)(h := \<lambda>p. if off \<le> p \<and> p < off + length buf
                                             then buf ! (p - off) else v_data V s h p) \<and>
        v_alloc V s' = (v_alloc V s)(h := \<lambda>b. v_alloc V s h b \<or>
                                             (off div v_bs V \<le> b \<and> b < (off + length buf) div v_bs V))"
    and unmap_law: "v_live V s h \<Longrightarrow> v_bs V dvd off \<Longrightarrow> v_bs V dvd unat ulen \<Longrightarrow>
      off + unat ulen \<le> v_size V s h \<Longrightarrow>
      \<exists>cnt s'. op_UnmapAt ops h ulen (int off) s = (cnt, None, s') \<and>
        v_live V s' = v_live V s \<and> v_size V s' = v_size V s \<and>
        v_data V s' = (v_data V s)(h := \<lambda>p. if off \<le> p \<and> p < off + unat ulen
                                             then 0 else v_data V s h p) \<and>
        v_alloc V s' = (v_alloc V s)(h := \<lambda>b. v_alloc V s h b \<and>
                                             \<not> (off div v_bs V \<le> b \<and> b < (off + unat ulen) div v_bs V))"
    and close_law: "v_live V s h \<Longrightarrow>
      \<exists>s'. op_Close ops h s = (None, s') \<and>
        (\<forall>h'. h' \<noteq> h \<longrightarrow> v_live V s' h' = v_live V s h' \<and> v_size V s' h' = v_size V s h' \<and>
           v_data V s' h' = v_data V s h' \<and> v_alloc V s' h' = v_alloc V s h')"
    and fiemap_law: "v_live V s h \<Longrightarrow> 0 < n \<Longrightarrow>
      \<exists>es. op_Fiemap ops h (int start) (int len) n s = (es, None) \<and> fiemap_reply V s h start len es"
    and alloc_inside: "v_live V s h \<Longrightarrow> v_alloc V s h b \<Longrightarrow> b * v_bs V < v_size V s h"
    and hole_zero: "v_live V s h \<Longrightarrow> \<not> v_alloc V s h (p div v_bs V) \<Longrightarrow> v_data V s h p = 0"
begin

text \<open>Whether a block is allocated can be asked with one Fiemap call over that block.\<close>

lemma fiemap_block:
  assumes "v_live V s h" "0 < n"
  shows "\<exists>es. op_Fiemap ops h (int (i * v_bs V)) (int (v_bs V)) n s = (es, None) \<and>
    (es = [] \<longleftrightarrow> \<not> v_alloc V s h i)"
proof -
  have only_i: "i * v_bs V < Suc b * v_bs V \<and> b * v_bs V < i * v_bs V + v_bs V \<longleftrightarrow> b = i" for b
  proof -
    have "b * v_bs V < Suc i * v_bs V \<longleftrightarrow> b < Suc i" "i * v_bs V < Suc b * v_bs V \<longleftrightarrow> i < Suc b"
      using bs_pos by (simp_all only: mult_less_cancel2) auto
    then show ?thesis by (auto simp: add.commute)
  qed
  from fiemap_law [OF assms, of "i * v_bs V" "v_bs V"] obtain es where
    "op_Fiemap ops h (int (i * v_bs V)) (int (v_bs V)) n s = (es, None)"
    "es = [] \<longleftrightarrow> \<not> (\<exists>b. v_alloc V s h b \<and> i * v_bs V < Suc b * v_bs V \<and> b * v_bs V < i * v_bs V + v_bs V)"
    unfolding fiemap_reply_def by blast
  then have "op_Fiemap ops h (int (i * v_bs V)) (int (v_bs V)) n s = (es, None)"
    "es = [] \<longleftrightarrow> \<not> (\<exists>b. v_alloc V s h b \<and> b = i)"
    by (simp_all only: only_i)
  then show ?thesis by auto
qed

end

section \<open>A store of sparse files in memory\<close>

record sfile =
  sf_bytes :: bytes
  sf_blocks :: "bool list"
  sf_open :: bool

type_synonym sstore = "string \<Rightarrow> sfile option"

definition sf_wf :: "nat \<Rightarrow> sfile \<Rightarrow> bool" where
  "sf_wf bs f \<longleftrightarrow> length (sf_bytes f) = length (sf_blocks f) * bs \<and>
     (\<forall>p < length (sf_bytes f). \<not> sf_blocks f ! (p div bs) \<longrightarrow> sf_bytes f ! p = 0)"

text \<open>Creating a file of \<open>n\<close> blocks as a single hole: truncate(2).\<close>

definition sf_hole :: "nat \<Rightarrow> nat \<Rightarrow> sfile" where
  "sf_hole bs n = \<lparr>sf_bytes = zeros (n * bs), sf_blocks = replicate n False, sf_open = True\<rparr>"

definition sf_read :: "string \<Rightarrow> bytes \<Rightarrow> int \<Rightarrow> sstore \<Rightarrow> int \<times> error option \<times> bytes" where
  "sf_read h buf off s =
     (case s h of
        None \<Rightarrow> (0, Some (Errorf ''bad file descriptor''), buf)
      | Some f \<Rightarrow>
          if \<not> sf_open f then (0, Some (Errorf ''bad file descriptor''), buf)
          else if off < 0 then (0, Some (Errorf ''invalid argument''), buf)
          else if length (sf_bytes f) < nat off + length buf
          then (int (length (sf_bytes f) - nat off), Some EOF, blit buf 0 (drop (nat off) (sf_bytes f)))
          else (int (length buf), None, take (length buf) (drop (nat off) (sf_bytes f))))"

definition sf_write :: "nat \<Rightarrow> string \<Rightarrow> bytes \<Rightarrow> int \<Rightarrow> sstore \<Rightarrow> int \<times> error option \<times> sstore" where
  "sf_write bs h buf off s =
     (case s h of
        None \<Rightarrow> (0, Some (Errorf ''bad file descriptor''), s)
      | Some f \<Rightarrow>
          if \<not> sf_open f then (0, Some (Errorf ''bad file descriptor''), s)
          else if off < 0 \<or> length (sf_bytes f) < nat off + length buf
            \<or> nat off mod bs \<noteq> 0 \<or> length buf mod bs \<noteq> 0
          then (0, Some (Errorf ''invalid argument''), s)
          else (int (length buf), None,
                s(h \<mapsto> f\<lparr>sf_bytes := blit (sf_bytes f) (nat off) buf,
                          sf_blocks := map (\<lambda>b. sf_blocks f ! b \<or>
                             (nat off div bs \<le> b \<and> b < (nat off + length buf) div bs))
                             [0 ..< length (sf_blocks f)]\<rparr>)))"

definition sf_unmap :: "nat \<Rightarrow> string \<Rightarrow> 32 word \<Rightarrow> int \<Rightarrow> sstore \<Rightarrow> int \<times> error option \<times> sstore" where
  "sf_unmap bs h len off s =
     (case s h of
        None \<Rightarrow> (0, Some (Errorf ''bad file descriptor''), s)
      | Some f \<Rightarrow>
          if \<not> sf_open f then (0, Some (Errorf ''bad file descriptor''), s)
          else if off < 0 \<or> length (sf_bytes f) < nat off + unat len
            \<or> nat off mod bs \<noteq> 0 \<or> unat len mod bs \<noteq> 0
          then (0, Some (Errorf ''invalid argument''), s)
          else (int (unat len), None,
                s(h \<mapsto> f\<lparr>sf_bytes := blit (sf_bytes f) (nat off) (zeros (unat len)),
                          sf_blocks := map (\<lambda>b. sf_blocks f ! b \<and>
                             \<not> (nat off div bs \<le> b \<and> b < (nat off + unat len) div bs))
                             [0 ..< length (sf_blocks f)]\<rparr>)))"

definition sf_close :: "string \<Rightarrow> sstore \<Rightarrow> error option \<times> sstore" where
  "sf_close h s =
     (case s h of
        None \<Rightarrow> (Some (Errorf ''bad file descriptor''), s)
      | Some f \<Rightarrow> if sf_open f then (None, s(h \<mapsto> f\<lparr>sf_open := False\<rparr>))
                  else (Some (Errorf ''bad file descriptor''), s))"

definition sf_size :: "string \<Rightarrow> sstore \<Rightarrow> int \<times> error option" where
  "sf_size h s =
     (case s h of
        None \<Rightarrow> (0, Some (Errorf ''bad file descriptor''))
      | Some f \<Rightarrow> if sf_open f then (int (length (sf_bytes f)), None)
                  else (0, Some (Errorf ''bad file descriptor'')))"

definition sf_fiemap :: "nat \<Rightarrow> string \<Rightarrow> int \<Rightarrow> int \<Rightarrow> nat \<Rightarrow> sstore \<Rightarrow> extent list \<times> error option" where
  "sf_fiemap bs h start len n s =
     (case s h of
        None \<Rightarrow> ([], Some (Errorf ''bad file descriptor''))
      | Some f \<Rightarrow>
          if \<not> sf_open f then ([], Some (Errorf ''bad file descriptor''))
          else (let allocated = filter (\<lambda>b. sf_blocks f ! b) [0 ..< length (sf_blocks f)];
                    hit = filter (\<lambda>b. nat start < Suc b * bs \<and> b * bs < nat start + nat len) allocated
                in (map (\<lambda>b. \<lparr>Logical = int (b * bs), Length = int bs, Extent_Last = (b = last allocated)\<rparr>)
                      (take n hit), None)))"

definition sf_actual_size :: "nat \<Rightarrow> string \<Rightarrow> sstore \<Rightarrow> int" where
  "sf_actual_size bs path s =
     (case s path of
        None \<Rightarrow> - 1
      | Some f \<Rightarrow> int (length (filter id (sf_blocks f)) * bs))"

definition sf_ops :: "nat \<Rightarrow> (string, sstore) disk_ops" where
  "sf_ops bs = \<lparr>op_ReadAt = sf_read, op_WriteAt = sf_write bs, op_UnmapAt = sf_unmap bs,
     op_Close = sf_close, op_Size = sf_size, op_Fiemap = sf_fiemap bs,
     op_ActualSize = sf_actual_size bs\<rparr>"

definition sf_view :: "nat \<Rightarrow> (string, sstore) layer_view" where
  "sf_view bs = \<lparr>
     v_live = \<lambda>s h. case s h of None \<Rightarrow> False | Some f \<Rightarrow> sf_open f \<and> sf_wf bs f,
     v_size = \<lambda>s h. case s h of None \<Rightarrow> 0 | Some f \<Rightarrow> length (sf_bytes f),
     v_data = \<lambda>s h p. case s h of None \<Rightarrow> 0
                        | Some f \<Rightarrow> if p < length (sf_bytes f) then sf_bytes f ! p else 0,
     v_alloc = \<lambda>s h b. case s h of None \<Rightarrow> False
                        | Some f \<Rightarrow> b < length (sf_blocks f) \<and> sf_blocks f ! b,
     v_bs = bs\<rparr>"

lemmas sf_ops_simps = sf_ops_def disk_ops.simps
lemmas sf_view_simps = sf_view_def layer_view.simps


lemma sf_live_iff: "v_live (sf_view bs) s h \<longleftrightarrow> (\<exists>f. s h = Some f \<and> sf_open f \<and> sf_wf bs f)"
  by (simp add: sf_view_def split: option.split)

lemma sf_wf_block_bound:
  assumes "sf_wf bs f" "0 < bs" "p < length (sf_bytes f)"
  shows "p div bs < length (sf_blocks f)"
  using assms by (simp add: sf_wf_def less_mult_imp_div_less)

lemma sf_wf_hole [simp]: "0 < bs \<Longrightarrow> sf_wf bs (sf_hole bs n)"
  by (simp add: sf_wf_def sf_hole_def)

lemma sf_write_wf:
  assumes "sf_wf bs f" "0 < bs" "off + length buf \<le> length (sf_bytes f)"
    and "bs dvd off" "bs dvd length buf"
  shows "sf_wf bs (f\<lparr>sf_bytes := blit (sf_bytes f) off buf,
           sf_blocks := map (\<lambda>b. sf_blocks f ! b \<or> (off div bs \<le> b \<and> b < (off + length buf) div bs))
                          [0 ..< length (sf_blocks f)]\<rparr>)"
proof -
  have "off div bs \<le> p div bs \<and> p div bs < (off + length buf) div bs"
    if "off \<le> p" "p < off + length buf" for p
    using that assms by (metis div_le_mono dvd_add less_mult_imp_div_less dvd_div_mult_self)
  then show ?thesis
    using assms(1,3) sf_wf_block_bound [OF assms(1,2)]
    by (auto simp: sf_wf_def nth_blit)
qed

lemma sf_unmap_wf:
  assumes "sf_wf bs f" "0 < bs" "off + n \<le> length (sf_bytes f)" "bs dvd off" "bs dvd n"
  shows "sf_wf bs (f\<lparr>sf_bytes := blit (sf_bytes f) off (zeros n),
           sf_blocks := map (\<lambda>b. sf_blocks f ! b \<and> \<not> (off div bs \<le> b \<and> b < (off + n) div bs))
                          [0 ..< length (sf_blocks f)]\<rparr>)"
proof -
  have inside: "off \<le> p \<and> p < off + n" if "off div bs \<le> p div bs" "p div bs < (off + n) div bs" for p
  proof -
    have "off = off div bs * bs" "off + n = (off + n) div bs * bs" using assms by (simp_all only: dvd_div_mult_self dvd_add)
    moreover have "p div bs * bs \<le> p" by simp
    moreover have "p < Suc (p div bs) * bs" using assms(2) by (simp add: dividend_less_div_times)
    moreover have "off div bs * bs \<le> p div bs * bs" using that(1) by simp
    moreover have "Suc (p div bs) * bs \<le> (off + n) div bs * bs" using that(2) by (intro mult_le_mono1) simp
    ultimately show ?thesis by linarith
  qed
  then have "zeros n ! (p - off) = 0" if "off div bs \<le> p div bs" "p div bs < (off + n) div bs" for p
    using that by fastforce
  then show ?thesis
    using inside assms(1,3) sf_wf_block_bound [OF assms(1,2)]
    by (auto simp: sf_wf_def nth_blit)
qed


lemma sf_write_law:
  assumes "0 < bs" "v_live (sf_view bs) s h" "bs dvd off" "bs dvd length buf"
    and "off + length buf \<le> v_size (sf_view bs) s h"
  shows "\<exists>s'. op_WriteAt (sf_ops bs) h buf (int off) s = (int (length buf), None, s') \<and>
        v_live (sf_view bs) s' = v_live (sf_view bs) s \<and> v_size (sf_view bs) s' = v_size (sf_view bs) s \<and>
        v_data (sf_view bs) s' = (v_data (sf_view bs) s)(h := \<lambda>p. if off \<le> p \<and> p < off + length buf
                                             then buf ! (p - off) else v_data (sf_view bs) s h p) \<and>
        v_alloc (sf_view bs) s' = (v_alloc (sf_view bs) s)(h := \<lambda>b. v_alloc (sf_view bs) s h b \<or>
                                             (off div bs \<le> b \<and> b < (off + length buf) div bs))"
proof -
  obtain f where f: "s h = Some f" "sf_open f" "sf_wf bs f" using assms(2) by (auto simp: sf_live_iff)
  have fit: "off + length buf \<le> length (sf_bytes f)" using assms(5) f by (simp add: sf_view_def)
  let ?f = "f\<lparr>sf_bytes := blit (sf_bytes f) off buf,
           sf_blocks := map (\<lambda>b. sf_blocks f ! b \<or> (off div bs \<le> b \<and> b < (off + length buf) div bs))
                          [0 ..< length (sf_blocks f)]\<rparr>"
  have wf: "sf_wf bs ?f" using sf_write_wf [OF f(3) assms(1) fit assms(3,4)] .
  have op: "op_WriteAt (sf_ops bs) h buf (int off) s = (int (length buf), None, s(h \<mapsto> ?f))"
    using f fit assms(3,4) by (auto simp: sf_ops_def sf_write_def)
  have blk: "(off + length buf) div bs \<le> length (sf_blocks f)"
    using fit f(3) assms(1) by (metis div_le_mono nonzero_mult_div_cancel_right sf_wf_def less_not_refl)
  have "v_live (sf_view bs) (s(h \<mapsto> ?f)) = v_live (sf_view bs) s"
    using f wf by (auto simp: fun_eq_iff sf_live_iff)
  moreover have "v_size (sf_view bs) (s(h \<mapsto> ?f)) = v_size (sf_view bs) s"
    using f fit by (auto simp: fun_eq_iff sf_view_def)
  moreover have "v_data (sf_view bs) (s(h \<mapsto> ?f)) = (v_data (sf_view bs) s)(h := \<lambda>p. if off \<le> p \<and> p < off + length buf
                                             then buf ! (p - off) else v_data (sf_view bs) s h p)"
    using f fit by (auto simp: fun_eq_iff sf_view_def nth_blit)
  moreover have "v_alloc (sf_view bs) (s(h \<mapsto> ?f)) = (v_alloc (sf_view bs) s)(h := \<lambda>b. v_alloc (sf_view bs) s h b \<or>
                                             (off div bs \<le> b \<and> b < (off + length buf) div bs))"
    using f blk by (auto simp: fun_eq_iff sf_view_def)
  ultimately show ?thesis using op by blast
qed

lemma sf_unmap_law:
  assumes "0 < bs" "v_live (sf_view bs) s h" "bs dvd off" "bs dvd unat len"
    and "off + unat len \<le> v_size (sf_view bs) s h"
  shows "\<exists>n s'. op_UnmapAt (sf_ops bs) h len (int off) s = (n, None, s') \<and>
        v_live (sf_view bs) s' = v_live (sf_view bs) s \<and> v_size (sf_view bs) s' = v_size (sf_view bs) s \<and>
        v_data (sf_view bs) s' = (v_data (sf_view bs) s)(h := \<lambda>p. if off \<le> p \<and> p < off + unat len
                                             then 0 else v_data (sf_view bs) s h p) \<and>
        v_alloc (sf_view bs) s' = (v_alloc (sf_view bs) s)(h := \<lambda>b. v_alloc (sf_view bs) s h b \<and>
                                             \<not> (off div bs \<le> b \<and> b < (off + unat len) div bs))"
proof -
  obtain f where f: "s h = Some f" "sf_open f" "sf_wf bs f" using assms(2) by (auto simp: sf_live_iff)
  have fit: "off + unat len \<le> length (sf_bytes f)" using assms(5) f by (simp add: sf_view_def)
  let ?f = "f\<lparr>sf_bytes := blit (sf_bytes f) off (zeros (unat len)),
           sf_blocks := map (\<lambda>b. sf_blocks f ! b \<and> \<not> (off div bs \<le> b \<and> b < (off + unat len) div bs))
                          [0 ..< length (sf_blocks f)]\<rparr>"
  have wf: "sf_wf bs ?f" using sf_unmap_wf [OF f(3) assms(1) fit assms(3,4)] .
  have op: "op_UnmapAt (sf_ops bs) h len (int off) s = (int (unat len), None, s(h \<mapsto> ?f))"
    using f fit assms(3,4) by (auto simp: sf_ops_def sf_unmap_def)
  have "v_live (sf_view bs) (s(h \<mapsto> ?f)) = v_live (sf_view bs) s"
    using f wf by (auto simp: fun_eq_iff sf_live_iff)
  moreover have "v_size (sf_view bs) (s(h \<mapsto> ?f)) = v_size (sf_view bs) s"
    using f fit by (auto simp: fun_eq_iff sf_view_def)
  moreover have "v_data (sf_view bs) (s(h \<mapsto> ?f)) = (v_data (sf_view bs) s)(h := \<lambda>p. if off \<le> p \<and> p < off + unat len
                                             then 0 else v_data (sf_view bs) s h p)"
    using f fit by (auto simp: fun_eq_iff sf_view_def nth_blit)
  moreover have "v_alloc (sf_view bs) (s(h \<mapsto> ?f)) = (v_alloc (sf_view bs) s)(h := \<lambda>b. v_alloc (sf_view bs) s h b \<and>
                                             \<not> (off div bs \<le> b \<and> b < (off + unat len) div bs))"
    using f by (auto simp: fun_eq_iff sf_view_def)
  ultimately show ?thesis using op by blast
qed


text \<open>A list that increases strictly and a prefix of it: the shape of a Fiemap reply.\<close>

lemma sorted_last_max: "sorted_wrt (<) xs \<Longrightarrow> (x :: nat) \<in> set xs \<Longrightarrow> x \<le> last xs"
proof (induction xs rule: rev_induct)
  case (snoc y ys)
  then show ?case by (auto simp: sorted_wrt_append)
qed simp

lemma sorted_take_closed:
  assumes "sorted_wrt (<) xs" "(x :: nat) \<in> set xs" "take n xs \<noteq> []" "x \<le> last (take n xs)"
  shows "x \<in> set (take n xs)"
proof (rule ccontr)
  assume "x \<notin> set (take n xs)"
  moreover have "sorted_wrt (<) (take n xs @ drop n xs)" "x \<in> set (take n xs @ drop n xs)"
    using assms(1,2) by simp_all
  ultimately have "last (take n xs) < x" using assms(3) by (auto simp: sorted_wrt_append simp del: append_take_drop_id)
  then show False using assms(4) by simp
qed

lemma sorted_nth_last:
  assumes "sorted_wrt (<) xs" "k < length xs" "\<And>x. x \<in> set xs \<Longrightarrow> (x :: nat) \<le> xs ! k"
  shows "Suc k = length xs"
proof (rule ccontr)
  assume "Suc k \<noteq> length xs"
  then have k: "Suc k < length xs" using assms(2) by simp
  then have "xs ! k < xs ! Suc k" using assms(1) by (simp add: sorted_wrt_iff_nth_less)
  then show False using assms(3) [of "xs ! Suc k"] k by simp
qed

definition block_extent :: "nat \<Rightarrow> nat \<Rightarrow> nat \<Rightarrow> extent" where
  "block_extent bs m b = \<lparr>Logical = int (b * bs), Length = int bs, Extent_Last = (b = m)\<rparr>"

lemma block_extent_simps [simp]:
  assumes "0 < bs"
  shows "extent_blocks bs (block_extent bs m b) = {b}"
    and "extent_aligned bs (block_extent bs m b)"
    and "extent_end (block_extent bs m b) = int (Suc b * bs)"
    and "Extent_Last (block_extent bs m b) \<longleftrightarrow> b = m"
proof -
  have "int (b * bs) + int bs = int (Suc b * bs)" by simp
  then have "nat (int (b * bs) + int bs) div bs = Suc b" using assms by (simp only: nat_int) simp
  moreover have "nat (int (b * bs)) div bs = b" using assms by (simp only: nat_int) simp
  ultimately show "extent_blocks bs (block_extent bs m b) = {b}"
    by (auto simp: extent_blocks_def block_extent_def simp del: of_nat_mult)
qed (use assms in \<open>simp_all add: block_extent_def extent_aligned_def extent_end_def\<close>)

lemma sorted_reply:
  assumes "0 < bs" "0 < n" "v_bs V = bs" "sorted_wrt (<) al" "\<And>b. b \<in> set al \<longleftrightarrow> v_alloc V s h b"
    and hit: "hit = filter (\<lambda>b. start < Suc b * bs \<and> b * bs < start + len) al"
  shows "fiemap_reply V s h start len (map (block_extent bs (last al)) (take n hit))"
proof -
  have sorted_hit: "sorted_wrt (<) hit" using assms(4) by (simp add: hit sorted_wrt_filter)
  let ?t = "take n hit"
  have last_hit: "last ?t \<in> set hit" if "?t \<noteq> []" using that by (meson in_set_takeD last_in_set)
  have cover: "b \<in> set ?t"
    if b: "?t \<noteq> []" "v_alloc V s h b" "start \<le> b * bs" "b * bs < Suc (last ?t) * bs" for b
  proof (rule sorted_take_closed [OF sorted_hit _ b(1)])
    show le: "b \<le> last ?t" using b(4) assms(1) by (simp only: mult_less_cancel2) simp
    then have "b * bs \<le> last ?t * bs" by simp
    also have "\<dots> < start + len" using last_hit [OF b(1)] by (simp add: hit)
    finally show "b \<in> set hit" using b assms(1,5) by (simp add: hit)
  qed
  have last_flag: "Suc k = length ?t \<and> (\<forall>b. v_alloc V s h b \<longrightarrow> b * bs < Suc (last al) * bs)"
    if "k < length ?t" "?t ! k = last al" for k
  proof -
    have "b * bs < Suc (last al) * bs" if "v_alloc V s h b" for b
      using sorted_last_max [OF assms(4), of b] assms(1,5) that
      by (simp only: mult_less_cancel2) (simp add: le_imp_less_Suc)
    moreover have "Suc k = length hit" using that sorted_hit sorted_last_max [OF assms(4)]
      by (intro sorted_nth_last) (auto simp: hit)
    ultimately show ?thesis using that by (auto simp del: mult_Suc)
  qed
  let ?mk = "block_extent bs (last al)"
  have sound: "\<forall>e \<in> set (map ?mk ?t). extent_aligned bs e \<and> (\<forall>b \<in> extent_blocks bs e. v_alloc V s h b)"
  proof
    fix e assume "e \<in> set (map ?mk ?t)"
    then obtain b where b: "e = ?mk b" "b \<in> set hit" by (auto dest: in_set_takeD)
    then have "v_alloc V s h b" using assms(5) [of b] by (simp add: hit)
    then show "extent_aligned bs e \<and> (\<forall>b \<in> extent_blocks bs e. v_alloc V s h b)" using b assms(1) by simp
  qed
  have "map ?mk ?t = [] \<longleftrightarrow> hit = []" using assms(2) by auto
  then have empty: "map ?mk ?t = [] \<longleftrightarrow>
      \<not> (\<exists>b. v_alloc V s h b \<and> start < Suc b * bs \<and> b * bs < start + len)"
    using assms(5) by (simp only: hit filter_empty_conv) blast
  have beyond: "map ?mk ?t \<noteq> [] \<longrightarrow> int start < extent_end (last (map ?mk ?t))"
  proof
    assume "map ?mk ?t \<noteq> []"
    then have ne: "?t \<noteq> []" by simp
    have "start < Suc (last ?t) * bs" using last_hit [OF ne] by (simp only: hit set_filter mem_Collect_eq)
    then show "int start < extent_end (last (map ?mk ?t))"
      using ne assms(1) by (simp add: last_map del: of_nat_mult mult_Suc take_eq_Nil)
  qed
  have complete: "map ?mk ?t \<noteq> [] \<longrightarrow> (\<forall>b. v_alloc V s h b \<and> start \<le> b * bs \<and>
      int (b * bs) < extent_end (last (map ?mk ?t)) \<longrightarrow> (\<exists>e \<in> set (map ?mk ?t). b \<in> extent_blocks bs e))"
    using cover assms(1) by (auto simp: last_map simp del: of_nat_mult mult_Suc)
  have "\<forall>k < length (map ?mk ?t). Extent_Last (map ?mk ?t ! k) \<longrightarrow>
      Suc k = length (map ?mk ?t) \<and> (\<forall>b. v_alloc V s h b \<longrightarrow> int (b * bs) < extent_end (map ?mk ?t ! k))"
  proof (intro allI impI)
    fix k assume k: "k < length (map ?mk ?t)" and "Extent_Last (map ?mk ?t ! k)"
    then have kt: "k < length ?t" "?t ! k = last al" using assms(1) by (simp_all only: length_map nth_map block_extent_simps)
    then show "Suc k = length (map ?mk ?t) \<and> (\<forall>b. v_alloc V s h b \<longrightarrow> int (b * bs) < extent_end (map ?mk ?t ! k))"
      using last_flag [OF kt] assms(1)
      by (simp only: length_map nth_map block_extent_simps of_nat_less_iff simp_thms) blast
  qed
  then show ?thesis
    unfolding fiemap_reply_def assms(3) using sound empty beyond complete by blast
qed

lemma sf_fiemap_law:
  assumes "0 < bs" "v_live (sf_view bs) s h" "0 < n"
  shows "\<exists>es. op_Fiemap (sf_ops bs) h (int start) (int len) n s = (es, None) \<and>
           fiemap_reply (sf_view bs) s h start len es"
proof -
  obtain f where f: "s h = Some f" "sf_open f" using assms(2) by (auto simp: sf_live_iff)
  define al where "al = filter (\<lambda>b. sf_blocks f ! b) [0 ..< length (sf_blocks f)]"
  have "fiemap_reply (sf_view bs) s h start len (map (block_extent bs (last al))
      (take n (filter (\<lambda>b. start < Suc b * bs \<and> b * bs < start + len) al)))"
    using assms(1,3) f
    by (intro sorted_reply) (auto simp: al_def sf_view_def intro: sorted_wrt_filter)
  moreover have "op_Fiemap (sf_ops bs) h (int start) (int len) n s = (map (block_extent bs (last al))
      (take n (filter (\<lambda>b. start < Suc b * bs \<and> b * bs < start + len) al)), None)"
    using f by (simp add: sf_ops_def sf_fiemap_def al_def Let_def block_extent_def [abs_def])
  ultimately show ?thesis by blast
qed

lemma disk_layer_sf:
  assumes "0 < bs"
  shows "disk_layer (sf_ops bs) (sf_view bs)"
proof -
  have bs: "v_bs (sf_view bs) = bs" by (simp add: sf_view_def)
  show ?thesis
  proof (unfold_locales, unfold bs, goal_cases)
    case (3 s h off buf)
    then obtain f where f: "s h = Some f" "sf_open f" by (auto simp: sf_live_iff)
    then show ?case using 3
      by (auto simp: sf_ops_def sf_read_def sf_view_def intro!: nth_equalityI)
  next
    case (4 s h off buf)
    then show ?case by (intro sf_write_law assms)
  next
    case (5 s h off ulen)
    then show ?case by (intro sf_unmap_law assms)
  next
    case (6 s h)
    then show ?case by (auto simp: sf_ops_def sf_close_def sf_live_iff) (auto simp: sf_view_def)
  next
    case (7 s h n start len)
    then show ?case by (intro sf_fiemap_law assms)
  next
    case (8 s h b)
    then show ?case using assms by (auto simp: sf_live_iff sf_wf_def) (auto simp: sf_view_def)
  next
    case (9 s h p)
    then show ?case using sf_wf_block_bound assms by (auto simp: sf_live_iff sf_wf_def) (auto simp: sf_view_def)
  qed (use assms in \<open>auto simp: sf_ops_def sf_size_def sf_view_def split: option.splits\<close>)
qed

text \<open>The sector size of a volume is the constant VolumeSectorSize, 4096 bytes.\<close>

interpretation sparse4k: disk_layer "sf_ops 4096" "sf_view 4096"
  by (rule disk_layer_sf) simp

end
