(* ===== verification/Diff_Disk.thy ===== *)
theory Diff_Disk
  imports Disk_Layer
begin

text \<open>
  The volume of a replica as a chain of differencing files
  (src/pkg/replica/diff_disk.go and src/pkg/replica/extents.go).  files lists the layers from
  the oldest to the newest with nil at index 0, the last one being the volume head; location
  caches for every sector the layer that holds it, 0 meaning that it is not known yet.

  Every operation takes the record of the layer operations and the store the files live in,
  and returns its Go results together with the changed diffDisk, buffer and store; None is a
  panic.  The mutex rmLock of readModifyWrite and Expand makes each of them one atomic step.
  Offsets are unbounded integers here: the controller checks a request against the volume size
  before it gets to a replica (theory Controller treats the 64-bit overflow of that check).
\<close>

record 'h diffDisk =
  location :: "8 word list"
  files :: "'h option list"
  sectorSize :: int
  dd_size :: int

text \<open>The handle d.files[i]; an index out of range and the nil at index 0 panic.\<close>

definition file_at :: "'h diffDisk \<Rightarrow> int \<Rightarrow> 'h option" where
  "file_at d i = (case index (files d) i of Some (Some h) \<Rightarrow> Some h | _ \<Rightarrow> None)"

abbreviation num_files :: "'h diffDisk \<Rightarrow> int" where
  "num_files d \<equiv> int (length (files d))"

definition head_index :: "'h diffDisk \<Rightarrow> 8 word" where
  "head_index d = of_int (num_files d - 1)"

section \<open>Chain maintenance\<close>

definition RemoveIndex ::
  "('h, 's) disk_ops \<Rightarrow> 'h diffDisk \<Rightarrow> int \<Rightarrow> 's \<Rightarrow> (error option \<times> 'h diffDisk \<times> 's) option" where
  "RemoveIndex ops d ix s = do {
     h \<leftarrow> file_at d ix;
     (case op_Close ops h s of
        (Some e, s') \<Rightarrow> Some (Some e, d, s')
      | (None, s') \<Rightarrow>
          Some (None,
            d\<lparr>location := map (\<lambda>l. if l = of_int ix then 0 else if l > of_int ix then l - 1 else l) (location d),
              files := take (nat ix) (files d) @ drop (nat ix + 1) (files d)\<rparr>, s'))
   }"

definition Expand :: "'h diffDisk \<Rightarrow> int \<Rightarrow> 'h diffDisk option" where
  "Expand d newSize =
     (let newLocationSize = newSize sdiv sectorSize d + (if newSize smod sectorSize d \<noteq> 0 then 1 else 0)
      in if newLocationSize < int (length (location d)) then None
         else Some (d\<lparr>location := location d @ replicate (nat newLocationSize - length (location d)) 0,
                      dd_size := newSize\<rparr>))"

section \<open>Lookup of a sector\<close>

fun lookup_scan ::
  "('h, 's) disk_ops \<Rightarrow> 'h diffDisk \<Rightarrow> int \<Rightarrow> 's \<Rightarrow> nat \<Rightarrow> (8 word \<times> error option) option" where
  "lookup_scan ops d sector s i =
     (if i \<le> 1 then Some (0, None)
      else do {
        h \<leftarrow> file_at d (int i);
        (case op_Fiemap ops h (sector * sectorSize d) (sectorSize d) 1 s of
           (_, Some errno) \<Rightarrow> Some (0, Some errno)
         | (e, None) \<Rightarrow> if e \<noteq> [] then Some (of_nat i, None) else lookup_scan ops d sector s (i - 1))
      })"

declare lookup_scan.simps [simp del]

definition lookup ::
  "('h, 's) disk_ops \<Rightarrow> 'h diffDisk \<Rightarrow> int \<Rightarrow> 's \<Rightarrow> (8 word \<times> error option \<times> 'h diffDisk) option" where
  "lookup ops d sector s =
     (if int (length (location d)) \<le> sector then Some (head_index d, None, d)
      else if length (files d) < 2
      then Some (0, Some (Errorf ''BUG: replica files cannot be less than 2''), d)
      else do {
        l \<leftarrow> index (location d) sector;
        (if l \<noteq> 0 then Some (l, None, d)
         else do {
           (v, errno) \<leftarrow> lookup_scan ops d sector s (length (files d) - 1);
           (case errno of
              Some e \<Rightarrow> Some (0, Some e, d)
            | None \<Rightarrow> (let l' = (if v = 0 then 1 else v)
                      in Some (l', None, d\<lparr>location := (location d)[nat sector := l']\<rparr>)))
         })
      })"

section \<open>Reading\<close>

definition read ::
  "('h, 's) disk_ops \<Rightarrow> 'h diffDisk \<Rightarrow> 8 word \<Rightarrow> bytes \<Rightarrow> int \<Rightarrow> int \<Rightarrow> int \<Rightarrow> 's \<Rightarrow>
     (int \<times> error option \<times> bytes) option" where
  "read ops d target buf offset startSector sectors s =
     (let bufStart = startSector * sectorSize d;
          bufLength = sectors * sectorSize d;
          diskReadStartOffset = offset + bufStart;
          diskReadEndOffset = diskReadStartOffset + bufLength;
          volumeSize = dd_size d
      in do {
        h \<leftarrow> file_at d (uint target);
        (case op_Size ops h s of
           (_, Some e) \<Rightarrow> Some (0, Some e, buf)
         | (diskSize, None) \<Rightarrow> do {
             (count, err, buf') \<leftarrow>
               (if diskReadStartOffset < diskSize then do {
                  newBuf \<leftarrow> slice_of buf bufStart (bufStart + min bufLength (diskSize - diskReadStartOffset));
                  (let (n, err, newBuf') = op_ReadAt ops h newBuf diskReadStartOffset s
                   in Some (n, err, blit buf (nat bufStart) newBuf'))
                } else Some (0, None, buf));
             (if err \<noteq> None then Some (count, err, buf')
              else if diskReadEndOffset \<le> diskSize then Some (count, None, buf')
              else if diskReadEndOffset \<le> volumeSize
              then Some (count + (diskReadEndOffset - max diskSize diskReadStartOffset), None, buf')
              else Some (count + (volumeSize - max diskSize diskReadStartOffset), Some ErrUnexpectedEOF, buf'))
           })
      })"

text \<open>
  The loop of fullReadAt: consecutive sectors of one layer are read by one call.  The arguments
  are the sector numbers still to visit, then count, readSectors, target, and the buffer.
\<close>

fun fullRead_loop ::
  "('h, 's) disk_ops \<Rightarrow> int \<Rightarrow> int \<Rightarrow> 's \<Rightarrow> int list \<Rightarrow> 'h diffDisk \<Rightarrow> int \<Rightarrow> int \<Rightarrow> 8 word \<Rightarrow> bytes \<Rightarrow>
     (int \<times> error option \<times> int \<times> 8 word \<times> bytes \<times> 'h diffDisk) option" where
  "fullRead_loop ops offset startSector s [] d count readSectors target buf =
     Some (count, None, readSectors, target, buf, d)"
| "fullRead_loop ops offset startSector s (i # is) d count readSectors target buf = do {
     (newTarget, err, d) \<leftarrow> lookup ops d (startSector + i) s;
     (if err \<noteq> None then Some (count, err, readSectors, target, buf, d)
      else if newTarget = target
      then fullRead_loop ops offset startSector s is d count (readSectors + 1) target buf
      else do {
        (c, err, buf) \<leftarrow> read ops d target buf offset (i - readSectors) readSectors s;
        (if err \<noteq> None then Some (count + c, err, readSectors, target, buf, d)
         else fullRead_loop ops offset startSector s is d (count + c) 1 newTarget buf)
      })
   }"

definition fullReadAt ::
  "('h, 's) disk_ops \<Rightarrow> 'h diffDisk \<Rightarrow> bytes \<Rightarrow> int \<Rightarrow> 's \<Rightarrow>
     (int \<times> error option \<times> bytes \<times> 'h diffDisk) option" where
  "fullReadAt ops d buf offset s =
     (if int (length buf) smod sectorSize d \<noteq> 0 \<or> offset smod sectorSize d \<noteq> 0
      then Some (0, Some (Errorf (''read not a multiple of '' @ showInt (sectorSize d))), buf, d)
      else if buf = [] then Some (0, None, buf, d)
      else
        let sectors = int (length buf) sdiv sectorSize d;
            startSector = offset sdiv sectorSize d
        in do {
          (target, err, d) \<leftarrow> lookup ops d startSector s;
          (if err \<noteq> None then Some (0, err, buf, d)
           else do {
             (count, err, readSectors, target, buf, d) \<leftarrow>
               fullRead_loop ops offset startSector s [1 .. sectors - 1] d 0 1 target buf;
             (if err \<noteq> None then Some (count, err, buf, d)
              else if readSectors > 0 then do {
                (c, err, buf) \<leftarrow> read ops d target buf offset (sectors - readSectors) readSectors s;
                Some (count + c, err, buf, d)
              } else Some (count, None, buf, d))
           })
        })"

definition ReadAt ::
  "('h, 's) disk_ops \<Rightarrow> 'h diffDisk \<Rightarrow> bytes \<Rightarrow> int \<Rightarrow> 's \<Rightarrow>
     (int \<times> error option \<times> bytes \<times> 'h diffDisk) option" where
  "ReadAt ops d buf offset s =
     (let len = int (length buf);
          startOffset = offset smod sectorSize d;
          startCut = sectorSize d - startOffset;
          endOffset = (len + offset) smod sectorSize d
      in if len = 0 then Some (0, None, buf, d)
      else if startOffset = 0 \<and> endOffset = 0 then fullReadAt ops d buf offset s
      else do {
        (_, err, readBuf, d) \<leftarrow> fullReadAt ops d (zeros (nat (sectorSize d))) (offset - startOffset) s;
        (if err \<noteq> None then Some (0, err, buf, d)
         else do {
           cut \<leftarrow> slice_of readBuf startOffset (int (length readBuf));
           let buf = blit buf 0 cut;
           (if startCut \<ge> len then Some (len, None, buf, d)
            else do {
              middle \<leftarrow> slice_of buf startCut (len - endOffset);
              (_, err, middle, d) \<leftarrow> fullReadAt ops d middle (offset + startCut) s;
              let buf = blit buf (nat startCut) middle;
              (if err \<noteq> None then Some (0, err, buf, d)
               else if endOffset > 0 then do {
                 (_, err, readBuf, d) \<leftarrow> fullReadAt ops d readBuf (offset + len - endOffset) s;
                 (if err \<noteq> None then Some (0, err, buf, d)
                  else do {
                    tail \<leftarrow> slice_of readBuf 0 endOffset;
                    Some (len, None, blit buf (nat (len - endOffset)) tail, d)
                  })
               } else Some (len, None, buf, d))
            })
         })
      })"

section \<open>Writing\<close>

fun mark_written :: "8 word \<Rightarrow> int list \<Rightarrow> 8 word list \<Rightarrow> 8 word list option" where
  "mark_written target [] loc = Some loc"
| "mark_written target (i # is) loc = do { loc \<leftarrow> assign loc i target; mark_written target is loc }"

definition fullWriteAt ::
  "('h, 's) disk_ops \<Rightarrow> 'h diffDisk \<Rightarrow> bytes \<Rightarrow> int \<Rightarrow> 's \<Rightarrow>
     (int \<times> error option \<times> 'h diffDisk \<times> 's) option" where
  "fullWriteAt ops d buf offset s =
     (let len = int (length buf)
      in if len smod sectorSize d \<noteq> 0 \<or> offset smod sectorSize d \<noteq> 0
      then Some (0, Some (Errorf (''write len('' @ showInt len @ ''), offset '' @ showInt offset @
                    '' not a multiple of '' @ showInt (sectorSize d))), d, s)
      else
        let target = head_index d;
            startSector = offset sdiv sectorSize d;
            sectors = len sdiv sectorSize d
        in do {
          h \<leftarrow> file_at d (uint target);
          let (c, err, s) = op_WriteAt ops h buf offset s;
          loc \<leftarrow> mark_written target [startSector .. startSector + sectors - 1] (location d);
          Some (c, err, d\<lparr>location := loc\<rparr>, s)
        })"

definition readModifyWrite ::
  "('h, 's) disk_ops \<Rightarrow> 'h diffDisk \<Rightarrow> bytes \<Rightarrow> int \<Rightarrow> 's \<Rightarrow>
     (int \<times> error option \<times> 'h diffDisk \<times> 's) option" where
  "readModifyWrite ops d buf offset s =
     (if buf = [] then Some (0, None, d, s)
      else
        let readOffset = (offset sdiv sectorSize d) * sectorSize d;
            at = offset smod sectorSize d
        in do {
          (_, err, readBuf, d) \<leftarrow> fullReadAt ops d (zeros (nat (sectorSize d))) readOffset s;
          (if err \<noteq> None then Some (0, err, d, s)
           else if at < 0 \<or> int (length readBuf) < at then None
           else fullWriteAt ops d (blit readBuf (nat at) buf) readOffset s)
        })"

definition WriteAt ::
  "('h, 's) disk_ops \<Rightarrow> 'h diffDisk \<Rightarrow> bytes \<Rightarrow> int \<Rightarrow> 's \<Rightarrow>
     (int \<times> error option \<times> 'h diffDisk \<times> 's) option" where
  "WriteAt ops d buf offset s =
     (let len = int (length buf);
          startOffset = offset smod sectorSize d;
          startCut = sectorSize d - startOffset;
          endOffset = (len + offset) smod sectorSize d
      in if len = 0 then Some (0, None, d, s)
      else if startOffset = 0 \<and> endOffset = 0 then fullWriteAt ops d buf offset s
      else if startCut \<ge> len then readModifyWrite ops d buf offset s
      else do {
        first \<leftarrow> slice_of buf 0 startCut;
        (_, err, d, s) \<leftarrow> readModifyWrite ops d first offset s;
        (if err \<noteq> None then Some (0, err, d, s)
         else do {
           middle \<leftarrow> slice_of buf startCut (len - endOffset);
           (_, err, d, s) \<leftarrow> fullWriteAt ops d middle (offset + startCut) s;
           (if err \<noteq> None then Some (0, err, d, s)
            else do {
              tail \<leftarrow> slice_of buf (len - endOffset) len;
              (_, err, d, s) \<leftarrow> readModifyWrite ops d tail (offset + len - endOffset) s;
              (if err \<noteq> None then Some (0, err, d, s) else Some (len, None, d, s))
            })
         })
      })"

section \<open>Unmapping\<close>

text \<open>
  The bookkeeping of the actual sizes around one unmap (lines 325-330 and 351-356): the size of
  the file and unmappedSizeErr.
\<close>

definition actual_size_before ::
  "('h, 's) disk_ops \<Rightarrow> string \<Rightarrow> error option \<Rightarrow> int \<Rightarrow> 's \<Rightarrow> int \<times> error option" where
  "actual_size_before ops path sizeErr before s =
     (if sizeErr \<noteq> None then (before, sizeErr)
      else let b = op_ActualSize ops path s in
        (b, if b < 0 then Some (Errorf (''failed to get the disk file '' @ path @ '' actual size before unmap''))
            else None))"

definition actual_size_after ::
  "('h, 's) disk_ops \<Rightarrow> string \<Rightarrow> error option \<Rightarrow> 's \<Rightarrow> int \<times> error option" where
  "actual_size_after ops path sizeErr s =
     (if sizeErr \<noteq> None then (0, sizeErr)
      else let a = op_ActualSize ops path s in
        (a, if a < 0 then Some (Errorf (''failed to get the disk file '' @ path @ '' actual size after unmap''))
            else None))"

text \<open>
  The loop over the head and the layers below it, from index \<open>idx\<close> downwards; the
  accumulators are unmappedSizeErr, actualSizeBefore and unmappedSize.
\<close>

fun unmap_loop ::
  "('h, 's) disk_ops \<Rightarrow> 'h diffDisk \<Rightarrow> string list \<Rightarrow> 32 word \<Rightarrow> int \<Rightarrow> nat \<Rightarrow> error option \<Rightarrow> int \<Rightarrow> int \<Rightarrow> 's \<Rightarrow>
     (int \<times> error option \<times> 's) option" where
  "unmap_loop ops d unmappableDisks len offset idx sizeErr before unmapped s =
     (if \<not> (idx > 0 \<and> length unmappableDisks > length (files d) - 1 - idx)
      then Some ((if sizeErr \<noteq> None then 0 else unmapped), None, s)
      else
        let path = unmappableDisks ! (length (files d) - 1 - idx);
            (before, sizeErr) = actual_size_before ops path sizeErr before s
        in do {
          h \<leftarrow> file_at d (int idx);
          (case op_Size ops h s of
             (_, Some e) \<Rightarrow>
               Some (0, Some (Wrapped (''failed to get the disk file '' @ path @ '' apparent size before unmap'') e), s)
           | (apparentSize, None) \<Rightarrow>
               if apparentSize < offset
               then unmap_loop ops d unmappableDisks len offset (idx - 1) sizeErr before unmapped s
               else
                 let curLength = (if apparentSize < offset + uint len then of_int (apparentSize - offset) else len)
                 in if curLength \<le> 0
                    then unmap_loop ops d unmappableDisks len offset (idx - 1) sizeErr before unmapped s
                    else
                      (case op_UnmapAt ops h curLength offset s of
                         (_, Some e, s') \<Rightarrow>
                           Some (0, Some (Wrapped (''failed to do unmap with offset '' @ showInt offset @
                             '' and length '' @ showInt (uint curLength) @ '' for the disk file '' @ path) e), s')
                       | (_, None, s') \<Rightarrow>
                           let (after, sizeErr) = actual_size_after ops path sizeErr s'
                           in unmap_loop ops d unmappableDisks len offset (idx - 1) sizeErr before
                                (if sizeErr = None then unmapped + (before - after) else unmapped) s'))
        })"

declare unmap_loop.simps [simp del]

text \<open>
  The sector-aligned range that UnmapAt works on: None when it returns (0, nil) at once, an
  error when the 32-bit subtraction has wrapped around.
\<close>

definition unmap_range :: "int \<Rightarrow> 32 word \<Rightarrow> int \<Rightarrow> error + (32 word \<times> int) option" where
  "unmap_range ss len offset =
     (if len < of_int ss then Inr None
      else
        let startSectorOffset = offset smod ss;
            endSectorOffset = (uint len + offset) smod ss;
            (offset', len1) = (if startSectorOffset \<noteq> 0
               then (offset + (ss - startSectorOffset), len - of_int (ss - startSectorOffset)) else (offset, len));
            len2 = (if endSectorOffset \<noteq> 0 then len1 - of_int endSectorOffset else len1)
        in if len2 = 0 then Inr None
           else if len < len2
           then Inl (Errorf (''final unmap length('' @ showInt (uint len2) @
                  '') should not be larger than original length('' @ showInt (uint len) @ '')''))
           else Inr (Some (len2, offset')))"

definition UnmapAt ::
  "('h, 's) disk_ops \<Rightarrow> 'h diffDisk \<Rightarrow> string list \<Rightarrow> 32 word \<Rightarrow> int \<Rightarrow> 's \<Rightarrow>
     (int \<times> error option \<times> 's) option" where
  "UnmapAt ops d unmappableDisks len offset s =
     (case unmap_range (sectorSize d) len offset of
        Inl e \<Rightarrow> Some (0, Some e, s)
      | Inr None \<Rightarrow> Some (0, None, s)
      | Inr (Some (len', offset')) \<Rightarrow>
          unmap_loop ops d unmappableDisks len' offset' (length (files d) - 1) None 0 0 s)"

section \<open>Preloading the location table\<close>

definition initializeSectorLocation :: "'h diffDisk \<Rightarrow> 8 word \<Rightarrow> 'h diffDisk" where
  "initializeSectorLocation d value = d\<lparr>location := map (\<lambda>_. value) (location d)\<rparr>"

definition MaxExtentsBuffer :: nat where "MaxExtentsBuffer = 1024"

partial_function (option) mark_extent ::
  "int \<Rightarrow> int \<Rightarrow> int \<Rightarrow> 8 word \<Rightarrow> int \<Rightarrow> 8 word list \<Rightarrow> 8 word list option" where
  "mark_extent ss logical len currentFileIndex i loc =
     (if i < len then do {
        loc \<leftarrow> assign loc ((logical + i) sdiv ss) currentFileIndex;
        mark_extent ss logical len currentFileIndex (i + ss) loc
      } else Some loc)"

text \<open>The loop over the extents of one reply; the flag says that the last extent was seen.\<close>

fun mark_extents :: "int \<Rightarrow> 8 word \<Rightarrow> extent list \<Rightarrow> 8 word list \<Rightarrow> (bool \<times> 8 word list) option" where
  "mark_extents ss currentFileIndex [] loc = Some (False, loc)"
| "mark_extents ss currentFileIndex (e # es) loc = do {
     loc \<leftarrow> mark_extent ss (Logical e) (Length e) currentFileIndex 0 loc;
     (if Extent_Last e then Some (True, loc) else mark_extents ss currentFileIndex es loc)
   }"

partial_function (option) load_loop ::
  "('h, 's) disk_ops \<Rightarrow> int \<Rightarrow> 'h \<Rightarrow> 8 word \<Rightarrow> int \<Rightarrow> 's \<Rightarrow> int \<Rightarrow> 8 word list \<Rightarrow> (error option \<times> 8 word list) option" where
  "load_loop ops ss h currentFileIndex fin s start loc =
     (case op_Fiemap ops h start ((fin - start) mod 2 ^ 64) MaxExtentsBuffer s of
        (_, Some errno) \<Rightarrow> Some (Some errno, loc)
      | (extents, None) \<Rightarrow>
          if extents = [] then Some (None, loc)
          else do {
            (fini, loc) \<leftarrow> mark_extents ss currentFileIndex extents loc;
            (if fini then Some (None, loc)
             else load_loop ops ss h currentFileIndex fin s (extent_end (last extents)) loc)
          })"

definition LoadDiffDiskLocationList ::
  "('h, 's) disk_ops \<Rightarrow> 'h diffDisk \<Rightarrow> 'h \<Rightarrow> 8 word \<Rightarrow> 's \<Rightarrow> (error option \<times> 'h diffDisk) option" where
  "LoadDiffDiskLocationList ops d h currentFileIndex s = do {
     (err, loc) \<leftarrow> load_loop ops (sectorSize d) h currentFileIndex
        (int (length (location d)) * sectorSize d) s 0 (location d);
     Some (err, d\<lparr>location := loc\<rparr>)
   }"

fun preload_loop ::
  "('h, 's) disk_ops \<Rightarrow> bool \<Rightarrow> 's \<Rightarrow> nat list \<Rightarrow> 'h diffDisk \<Rightarrow> (error option \<times> 'h diffDisk) option" where
  "preload_loop ops isThereBackingFile s [] d = Some (None, d)"
| "preload_loop ops isThereBackingFile s (i # is) d =
     (if i = 0 \<or> (i = 1 \<and> isThereBackingFile) then preload_loop ops isThereBackingFile s is d
      else do {
        f \<leftarrow> file_at d (int i);
        (err, d) \<leftarrow> LoadDiffDiskLocationList ops d f (of_nat i) s;
        (if err \<noteq> None then Some (err, d)
         else if i = length (files d) - 1
         then (case op_Size ops f s of
                 (_, Some e) \<Rightarrow> Some (Some e, d)
               | (newSize, None) \<Rightarrow> preload_loop ops isThereBackingFile s is (d\<lparr>dd_size := newSize\<rparr>))
         else preload_loop ops isThereBackingFile s is d)
      })"

definition preload ::
  "('h, 's) disk_ops \<Rightarrow> bool \<Rightarrow> 'h diffDisk \<Rightarrow> 's \<Rightarrow> (error option \<times> 'h diffDisk) option" where
  "preload ops isThereBackingFile d s = preload_loop ops isThereBackingFile s [0 ..< length (files d)] d"

end
