(* ===== verification/Diff_Disk_Spec.thy ===== *)
theory Diff_Disk_Spec
  imports Diff_Disk
begin

text \<open>
  What a chain of differencing files means: the byte that the volume has at a position, and the
  proof that the operations of diffDisk read and write that volume.  The proofs are done once
  for any layer that meets the contract disk_layer.
\<close>

section \<open>The volume that a chain represents\<close>

text \<open>The newest layer from index \<open>n\<close> downwards that has the sector allocated, else 1.\<close>

definition has_sector :: "('h, 's) layer_view \<Rightarrow> 's \<Rightarrow> 'h option list \<Rightarrow> nat \<Rightarrow> nat \<Rightarrow> bool" where
  "has_sector V s fs sector k = (case fs ! k of Some h \<Rightarrow> v_alloc V s h sector | None \<Rightarrow> False)"

primrec topmost :: "('h, 's) layer_view \<Rightarrow> 's \<Rightarrow> 'h option list \<Rightarrow> nat \<Rightarrow> nat \<Rightarrow> nat" where
  "topmost V s fs sector 0 = 1"
| "topmost V s fs sector (Suc n) =
     (if 0 < n \<and> has_sector V s fs sector (Suc n) then Suc n else topmost V s fs sector n)"

definition layer_of :: "('h, 's) layer_view \<Rightarrow> 's \<Rightarrow> 'h option list \<Rightarrow> nat \<Rightarrow> nat" where
  "layer_of V s fs sector = topmost V s fs sector (length fs - 1)"

text \<open>The layer a sector is read from: the cached one if there is one.\<close>

definition holder :: "('h, 's) layer_view \<Rightarrow> 's \<Rightarrow> 'h diffDisk \<Rightarrow> nat \<Rightarrow> nat" where
  "holder V s d sector =
     (if location d ! sector \<noteq> 0 then unat (location d ! sector) else layer_of V s (files d) sector)"

definition layer_size :: "('h, 's) layer_view \<Rightarrow> 's \<Rightarrow> 'h option list \<Rightarrow> nat \<Rightarrow> nat" where
  "layer_size V s fs k = (case fs ! k of Some h \<Rightarrow> v_size V s h | None \<Rightarrow> 0)"

definition layer_byte :: "('h, 's) layer_view \<Rightarrow> 's \<Rightarrow> 'h option list \<Rightarrow> nat \<Rightarrow> nat \<Rightarrow> byte" where
  "layer_byte V s fs k p =
     (case fs ! k of Some h \<Rightarrow> if p < v_size V s h then v_data V s h p else 0 | None \<Rightarrow> 0)"

definition vol_byte :: "('h, 's) layer_view \<Rightarrow> 's \<Rightarrow> 'h diffDisk \<Rightarrow> nat \<Rightarrow> byte" where
  "vol_byte V s d p = layer_byte V s (files d) (holder V s d (p div v_bs V)) p"

definition vol_range :: "('h, 's) layer_view \<Rightarrow> 's \<Rightarrow> 'h diffDisk \<Rightarrow> nat \<Rightarrow> nat \<Rightarrow> bytes" where
  "vol_range V s d off n = map (vol_byte V s d) [off ..< off + n]"

abbreviation vol_size :: "('h, 's) layer_view \<Rightarrow> 'h diffDisk \<Rightarrow> nat" where
  "vol_size V d \<equiv> length (location d) * v_bs V"

definition dd_wf :: "('h, 's) layer_view \<Rightarrow> 's \<Rightarrow> 'h diffDisk \<Rightarrow> bool" where
  "dd_wf V s d \<longleftrightarrow>
     sectorSize d = int (v_bs V) \<and> dd_size d = int (vol_size V d) \<and>
     2 \<le> length (files d) \<and> length (files d) \<le> 256 \<and>
     (\<forall>k \<in> {1 ..< length (files d)}. \<exists>h. files d ! k = Some h \<and> v_live V s h) \<and>
     distinct (files d) \<and>
     (\<forall>l \<in> set (location d). unat l < length (files d)) \<and>
     layer_size V s (files d) (length (files d) - 1) = vol_size V d"

text \<open>The cache is coherent when what it knows is what Fiemap would say.\<close>

definition coherent :: "('h, 's) layer_view \<Rightarrow> 's \<Rightarrow> 'h diffDisk \<Rightarrow> bool" where
  "coherent V s d \<longleftrightarrow>
     (\<forall>i < length (location d). location d ! i = 0 \<or> unat (location d ! i) = layer_of V s (files d) i)"

text \<open>Two diffDisks that differ only in how much of the cache is filled.\<close>

definition same_volume :: "('h, 's) layer_view \<Rightarrow> 's \<Rightarrow> 'h diffDisk \<Rightarrow> 'h diffDisk \<Rightarrow> bool" where
  "same_volume V s d d' \<longleftrightarrow>
     (\<exists>loc. d' = d\<lparr>location := loc\<rparr> \<and> length loc = length (location d) \<and>
        (\<forall>i < length loc. loc ! i = location d ! i \<or> loc ! i = of_nat (holder V s d i)))"

section \<open>Basic facts\<close>

lemma topmost_bounds: "1 \<le> topmost V s fs sector n" "topmost V s fs sector n \<le> max 1 n"
  by (induction n) auto

lemma topmost_cong:
  "(\<And>k. 1 < k \<Longrightarrow> k \<le> n \<Longrightarrow> has_sector V s fs sector k = has_sector V s' fs' sector k) \<Longrightarrow>
   topmost V s fs sector n = topmost V s' fs' sector n"
  by (induction n) auto

lemma layer_of_bounds:
  assumes "2 \<le> length fs"
  shows "1 \<le> layer_of V s fs sector" "layer_of V s fs sector < length fs"
  using assms topmost_bounds [of V s fs sector "length fs - 1"] by (auto simp: layer_of_def)

lemma layer_of_head:
  assumes "2 \<le> length fs" "has_sector V s fs sector (length fs - 1)"
  shows "layer_of V s fs sector = length fs - 1"
proof -
  obtain n where "length fs = 2 + n" using le_Suc_ex [OF assms(1)] by blast
  then show ?thesis using assms(2) by (cases n) (auto simp: layer_of_def)
qed

lemma dd_wfD:
  assumes "dd_wf V s d"
  shows "sectorSize d = int (v_bs V)" "dd_size d = int (vol_size V d)" "2 \<le> length (files d)"
    "length (files d) \<le> 256" "distinct (files d)"
    "layer_size V s (files d) (length (files d) - 1) = vol_size V d"
  using assms by (simp_all add: dd_wf_def)

lemma dd_wf_file:
  assumes "dd_wf V s d" "1 \<le> k" "k < length (files d)"
  obtains h where "files d ! k = Some h" "v_live V s h" "file_at d (int k) = Some h"
  using assms unfolding dd_wf_def by (force simp: file_at_def)

lemma holder_bounds:
  assumes "dd_wf V s d" "i < length (location d)"
  shows "1 \<le> holder V s d i" "holder V s d i < length (files d)"
proof -
  have "location d ! i \<noteq> 0 \<Longrightarrow> 1 \<le> unat (location d ! i)"
    by (simp add: Suc_le_eq unat_gt_0)
  then show "1 \<le> holder V s d i" "holder V s d i < length (files d)"
    using assms layer_of_bounds [of "files d" V s i] by (auto simp: holder_def dd_wf_def)
qed

lemma unat_of_nat8: "n < 256 \<Longrightarrow> unat (of_nat n :: 8 word) = n"
  by (simp add: unat_of_nat take_bit_eq_mod)

lemma uint_of_nat8: "n < 256 \<Longrightarrow> uint (of_nat n :: 8 word) = int n"
proof -
  have "uint (of_nat n :: 8 word) = int (unat (of_nat n :: 8 word))" by simp
  then show "n < 256 \<Longrightarrow> uint (of_nat n :: 8 word) = int n" by (simp only: unat_of_nat8)
qed

lemma of_nat8_eq_0: "n < 256 \<Longrightarrow> (of_nat n :: 8 word) = 0 \<longleftrightarrow> n = 0"
  using unat_of_nat8 [of n] unat_eq_0 [of "of_nat n :: 8 word"] by simp

lemma head_index_nat: "dd_wf V s d \<Longrightarrow> head_index d = of_nat (length (files d) - 1)"
  by (simp add: head_index_def dd_wf_def of_nat_diff)

lemma same_volume_refl [simp]: "same_volume V s d d"
  unfolding same_volume_def by (intro exI [of _ "location d"]) simp

lemma same_volumeD:
  assumes "same_volume V s d d'"
  shows "files d' = files d" "sectorSize d' = sectorSize d" "dd_size d' = dd_size d"
    "length (location d') = length (location d)"
  using assms by (auto simp: same_volume_def)

lemma same_volume_holder:
  assumes "same_volume V s d d'" "dd_wf V s d" "i < length (location d)"
  shows "holder V s d' i = holder V s d i"
proof -
  obtain loc where loc: "d' = d\<lparr>location := loc\<rparr>" "length loc = length (location d)"
    "loc ! i = location d ! i \<or> loc ! i = of_nat (holder V s d i)"
    using assms by (auto simp: same_volume_def)
  have "holder V s d i < 256" "holder V s d i \<noteq> 0"
    using holder_bounds [OF assms(2,3)] dd_wfD(4) [OF assms(2)] by auto
  then have "loc ! i = of_nat (holder V s d i) \<Longrightarrow> ?thesis"
    unfolding loc(1) holder_def [of V s "d\<lparr>location := loc\<rparr>"] by (simp add: unat_of_nat8 of_nat8_eq_0)
  moreover have "loc ! i = location d ! i \<Longrightarrow> ?thesis" using loc by (simp add: holder_def)
  ultimately show ?thesis using loc by blast
qed

lemma same_volume_wf:
  assumes "same_volume V s d d'" "dd_wf V s d"
  shows "dd_wf V s d'"
proof -
  obtain loc where loc: "d' = d\<lparr>location := loc\<rparr>" "length loc = length (location d)"
    "\<forall>i < length loc. loc ! i = location d ! i \<or> loc ! i = of_nat (holder V s d i)"
    using assms by (auto simp: same_volume_def)
  have "unat (loc ! i) < length (files d)" if "i < length loc" for i
  proof -
    have "unat (location d ! i) < length (files d)" using assms(2) loc that by (simp add: dd_wf_def)
    moreover have "unat (of_nat (holder V s d i) :: 8 word) < length (files d)"
      using holder_bounds(2) [OF assms(2), of i] loc(2) that dd_wfD(4) [OF assms(2)]
      by (subst unat_of_nat8) auto
    ultimately show ?thesis using loc(3) that by metis
  qed
  then show ?thesis using assms(2) loc by (auto simp: dd_wf_def in_set_conv_nth)
qed

lemma same_volume_trans:
  assumes "same_volume V s d d'" "same_volume V s d' d''" "dd_wf V s d"
  shows "same_volume V s d d''"
proof -
  have "holder V s d' i = holder V s d i" if "i < length (location d)" for i
    using same_volume_holder [OF assms(1,3) that] .
  moreover obtain loc where "d' = d\<lparr>location := loc\<rparr>" "length loc = length (location d)"
    "\<forall>i < length loc. loc ! i = location d ! i \<or> loc ! i = of_nat (holder V s d i)"
    using assms(1) by (auto simp: same_volume_def)
  moreover obtain loc' where "d'' = d'\<lparr>location := loc'\<rparr>" "length loc' = length (location d')"
    "\<forall>i < length loc'. loc' ! i = location d' ! i \<or> loc' ! i = of_nat (holder V s d' i)"
    using assms(2) by (auto simp: same_volume_def)
  ultimately show ?thesis unfolding same_volume_def by (intro exI [of _ loc'], auto) metis
qed

lemma same_volume_vol_byte:
  assumes "same_volume V s d d'" "dd_wf V s d" "p < vol_size V d"
  shows "vol_byte V s d' p = vol_byte V s d p"
proof -
  have "p div v_bs V < length (location d)" using assms(3) by (rule less_mult_imp_div_less)
  then show ?thesis using same_volume_holder [OF assms(1,2)] same_volumeD(1) [OF assms(1)]
    by (simp add: vol_byte_def)
qed

lemma same_volume_coherent:
  assumes "same_volume V s d d'" "dd_wf V s d" "coherent V s d"
  shows "coherent V s d'"
  unfolding coherent_def
proof (intro allI impI)
  fix i assume i: "i < length (location d')"
  then have i': "i < length (location d)" using same_volumeD(4) [OF assms(1)] by simp
  have "holder V s d i = layer_of V s (files d) i"
    using assms(3) i' by (auto simp: coherent_def holder_def)
  then have "holder V s d' i = layer_of V s (files d') i"
    using same_volume_holder [OF assms(1,2) i'] same_volumeD(1) [OF assms(1)] by simp
  then show "location d' ! i = 0 \<or> unat (location d' ! i) = layer_of V s (files d') i"
    by (auto simp: holder_def split: if_splits)
qed

lemmas same_volume_facts = same_volumeD same_volume_holder same_volume_wf same_volume_vol_byte

section \<open>Reading\<close>

text \<open>What a read leaves at position \<open>j\<close> of a buffer: the byte of the layer, or the old byte of the
  buffer where the layer is too short.\<close>

definition fetch :: "('h, 's) layer_view \<Rightarrow> 's \<Rightarrow> 'h option list \<Rightarrow> nat \<Rightarrow> nat \<Rightarrow> byte \<Rightarrow> byte" where
  "fetch V s fs k p old =
     (case fs ! k of Some h \<Rightarrow> if p < v_size V s h then v_data V s h p else old | None \<Rightarrow> old)"

definition overlay :: "('h, 's) layer_view \<Rightarrow> 's \<Rightarrow> 'h diffDisk \<Rightarrow> nat \<Rightarrow> nat \<Rightarrow> bytes \<Rightarrow> bytes" where
  "overlay V s d off n buf =
     map (\<lambda>j. if j < n then fetch V s (files d) (holder V s d ((off + j) div v_bs V)) (off + j) (buf ! j)
              else buf ! j) [0 ..< length buf]"

lemma fetch_zero: "fetch V s fs k p 0 = layer_byte V s fs k p"
  by (simp add: fetch_def layer_byte_def split: option.split)

lemma fetch_covered: "p < layer_size V s fs k \<Longrightarrow> fetch V s fs k p old = layer_byte V s fs k p"
  by (simp add: fetch_def layer_byte_def layer_size_def split: option.splits)

lemma length_overlay [simp]: "length (overlay V s d off n buf) = length buf"
  by (simp add: overlay_def)

lemma nth_overlay:
  "j < length buf \<Longrightarrow> overlay V s d off n buf ! j =
     (if j < n then fetch V s (files d) (holder V s d ((off + j) div v_bs V)) (off + j) (buf ! j) else buf ! j)"
  by (simp add: overlay_def)

lemma overlay_0 [simp]: "overlay V s d off 0 buf = buf"
  by (simp add: overlay_def map_nth)

lemma overlay_zeros: "overlay V s d off n (zeros n) = vol_range V s d off n"
  by (auto simp: nth_overlay fetch_zero vol_range_def vol_byte_def intro!: list_eq_pointwise)

lemma overlay_same_volume:
  assumes "same_volume V s d d'" "dd_wf V s d" "off + n \<le> vol_size V d"
  shows "overlay V s d' off n buf = overlay V s d off n buf"
proof (rule list_eq_pointwise)
  fix j assume "j < length (overlay V s d off n buf)"
  moreover have "(off + j) div v_bs V < length (location d)" if "j < n"
    using assms(3) that by (intro less_mult_imp_div_less) simp
  ultimately show "overlay V s d' off n buf ! j = overlay V s d off n buf ! j"
    using same_volume_holder [OF assms(1,2)] same_volumeD(1) [OF assms(1)] by (simp add: nth_overlay)
qed simp

lemma length_vol_range [simp]: "length (vol_range V s d off n) = n"
  by (simp add: vol_range_def)

lemma nth_vol_range [simp]: "j < n \<Longrightarrow> vol_range V s d off n ! j = vol_byte V s d (off + j)"
  by (simp add: vol_range_def)

lemma drop_vol_range: "drop k (vol_range V s d off n) = vol_range V s d (off + k) (n - k)"
  by (rule list_eq_pointwise) (auto simp: add.assoc)

lemma take_vol_range: "k \<le> n \<Longrightarrow> take k (vol_range V s d off n) = vol_range V s d off k"
  by (rule list_eq_pointwise) auto

lemma vol_range_same_volume:
  assumes "same_volume V s d d'" "dd_wf V s d" "off + n \<le> vol_size V d"
  shows "vol_range V s d' off n = vol_range V s d off n"
  using same_volume_vol_byte [OF assms(1,2)] assms(3) by (intro list_eq_pointwise) auto

text \<open>A buffer of \<open>n\<close> bytes whose first \<open>k\<close> bytes have been read from the volume.\<close>

definition partial_buf :: "('h, 's) layer_view \<Rightarrow> 's \<Rightarrow> 'h diffDisk \<Rightarrow> nat \<Rightarrow> nat \<Rightarrow> nat \<Rightarrow> bytes" where
  "partial_buf V s d off n k = vol_range V s d off k @ zeros (n - k)"

lemma partial_buf_full [simp]: "partial_buf V s d off n n = vol_range V s d off n"
  by (simp add: partial_buf_def zeros_def)

lemma length_partial_buf [simp]: "k \<le> n \<Longrightarrow> length (partial_buf V s d off n k) = n"
  by (simp add: partial_buf_def)

lemma partial_buf_start: "blit (zeros n) 0 (vol_range V s d off m) = partial_buf V s d off n (min m n)"
  by (rule list_eq_pointwise) (auto simp: partial_buf_def nth_blit nth_append)

lemma partial_buf_step:
  "k + c \<le> n \<Longrightarrow> blit (partial_buf V s d off n k) k (vol_range V s d (off + k) c) = partial_buf V s d off n (k + c)"
  by (rule list_eq_pointwise) (auto simp: partial_buf_def nth_blit nth_append add.assoc)

lemma partial_buf_rest:
  "k \<le> m \<Longrightarrow> m \<le> n \<Longrightarrow> slice_of (partial_buf V s d off n k) (int k) (int m) = Some (zeros (m - k))"
  by (simp add: slice_of_nat partial_buf_def zeros_def min_def)

text \<open>One call of read fetches a run of sectors of one layer.\<close>

definition run_fetch ::
  "('h, 's) layer_view \<Rightarrow> 's \<Rightarrow> 'h option list \<Rightarrow> nat \<Rightarrow> nat \<Rightarrow> nat \<Rightarrow> nat \<Rightarrow> bytes \<Rightarrow> bytes" where
  "run_fetch V s fs k off lo hi buf =
     map (\<lambda>j. if lo \<le> j \<and> j < hi then fetch V s fs k (off + j) (buf ! j) else buf ! j) [0 ..< length buf]"

lemma run_fetch_blit:
  assumes "fs ! k = Some h" "lo + m \<le> length buf" "m = min n (v_size V s h - (off + lo))"
  shows "blit buf lo (map (v_data V s h) [off + lo ..< off + lo + m]) = run_fetch V s fs k off lo (lo + n) buf"
proof (rule list_eq_pointwise)
  fix j assume j: "j < length (run_fetch V s fs k off lo (lo + n) buf)"
  have "lo \<le> j \<and> j < lo + m \<longleftrightarrow> (lo \<le> j \<and> j < lo + n) \<and> off + j < v_size V s h"
    using assms(3) by auto
  then show "blit buf lo (map (v_data V s h) [off + lo ..< off + lo + m]) ! j = run_fetch V s fs k off lo (lo + n) buf ! j"
    using j assms(1,2) by (auto simp: nth_blit run_fetch_def fetch_def)
qed (use assms in \<open>simp add: run_fetch_def\<close>)

lemma overlay_run:
  assumes "0 < v_bs V" "st * v_bs V = off" "\<forall>t \<in> {a ..< a + c}. holder V s d (st + t) = k"
  shows "run_fetch V s (files d) k off (a * v_bs V) ((a + c) * v_bs V) (overlay V s d off (a * v_bs V) buf)
    = overlay V s d off ((a + c) * v_bs V) buf"
proof (rule list_eq_pointwise)
  fix j assume j: "j < length (overlay V s d off ((a + c) * v_bs V) buf)"
  have dv: "(off + j) div v_bs V = st + j div v_bs V" using assms(1,2) by (auto simp: add.commute)
  have "holder V s d ((off + j) div v_bs V) = k" if "a * v_bs V \<le> j" "j < (a + c) * v_bs V"
    using that assms(1,3) by (simp add: dv less_eq_div_iff_mult_less_eq less_mult_imp_div_less)
  moreover have "j < (a + c) * v_bs V" if "j < a * v_bs V" using that by (simp add: algebra_simps)
  ultimately show "run_fetch V s (files d) k off (a * v_bs V) ((a + c) * v_bs V)
      (overlay V s d off (a * v_bs V) buf) ! j = overlay V s d off ((a + c) * v_bs V) buf ! j"
    using j by (auto simp: run_fetch_def nth_overlay)
qed (simp add: run_fetch_def)

text \<open>
  The last sector of a request that starts in an earlier sector and ends inside a sector is read
  into a buffer that still holds the first sector, so its layer must reach to the sector's end.
\<close>

definition tail_covered :: "('h, 's) layer_view \<Rightarrow> 's \<Rightarrow> 'h diffDisk \<Rightarrow> nat \<Rightarrow> nat \<Rightarrow> bool" where
  "tail_covered V s d off n \<longleftrightarrow>
     (let bs = v_bs V; t = (off + n) div bs
      in (off + n) mod bs = 0 \<or> off div bs = t \<or>
         Suc t * bs \<le> layer_size V s (files d) (holder V s d t))"

lemma int_mod_nat: "int a smod int b = int (a mod b)" if "0 < b"
  using that by (simp add: go_int_simps zmod_int)

text \<open>The arithmetic of a request that starts in one sector and ends in a later one.\<close>

lemma split_request:
  fixes bs off n :: nat
  assumes "0 < bs" "bs - off mod bs < n"
  defines "sc \<equiv> bs - off mod bs" and "eo \<equiv> (n + off) mod bs"
  shows "bs dvd off + sc" "sc \<le> n - eo" "eo \<le> n" "bs dvd n - eo - sc" "off + n - eo = (off + n) div bs * bs"
    "off div bs \<noteq> (off + n) div bs" "bs dvd off + n - eo"
proof -
  have o: "off = off div bs * bs + off mod bs" "off mod bs < bs" using assms(1) by simp_all
  have t: "off + n = (off + n) div bs * bs + eo" "eo < bs" using assms(1) by (simp_all add: eo_def add.commute)
  have osc: "off + sc = Suc (off div bs) * bs" unfolding sc_def mult_Suc using o by linarith
  have "Suc (off div bs) * bs < off + n" using osc assms(2) by (simp add: sc_def)
  then have "Suc (off div bs) \<le> (off + n) div bs" using assms(1) by (simp add: less_eq_div_iff_mult_less_eq)
  then have le: "Suc (off div bs) * bs \<le> (off + n) div bs * bs" by (rule mult_le_mono1)
  show "bs dvd off + sc" using osc by simp
  show "sc \<le> n - eo" "eo \<le> n" using le osc t by linarith+
  show tl: "off + n - eo = (off + n) div bs * bs" using t by linarith
  then have "n - eo - sc = (off + n) div bs * bs - Suc (off div bs) * bs" using osc \<open>eo \<le> n\<close> by linarith
  then show "bs dvd n - eo - sc" by simp
  show "off div bs \<noteq> (off + n) div bs" using \<open>Suc (off div bs) \<le> (off + n) div bs\<close> by simp
  show "bs dvd off + n - eo" using tl by simp
qed

lemma sector_inside:
  fixes bs off m :: nat
  assumes "0 < bs" "off < m * bs"
  shows "off - off mod bs + bs \<le> m * bs"
proof -
  have "off div bs < m" using assms(2) by (rule less_mult_imp_div_less)
  then have "Suc (off div bs) * bs \<le> m * bs" by (intro mult_le_mono1) simp
  then show ?thesis by (simp add: minus_mod_eq_div_mult)
qed

context disk_layer
begin

lemma lookup_scan_topmost:
  assumes "dd_wf V s d" "n < length (files d)"
  shows "\<exists>w. lookup_scan ops d (int i) s n = Some (w, None) \<and>
    (if w = 0 then 1 else w) = of_nat (topmost V s (files d) i n)"
  using assms(2)
proof (induction n)
  case 0
  then show ?case by (subst lookup_scan.simps) simp
next
  case (Suc n)
  show ?case
  proof (cases "n = 0")
    case True
    then show ?thesis by (subst lookup_scan.simps) simp
  next
    case False
    have len: "length (files d) \<le> 256" using assms(1) by (simp add: dd_wf_def)
    obtain h where h: "files d ! Suc n = Some h" "v_live V s h" "file_at d (int (Suc n)) = Some h"
      using dd_wf_file [OF assms(1), of "Suc n"] Suc.prems by auto
    obtain es where es: "op_Fiemap ops h (int i * sectorSize d) (sectorSize d) 1 s = (es, None)"
      "es = [] \<longleftrightarrow> \<not> v_alloc V s h i"
      using fiemap_block [OF h(2), of 1 i] dd_wfD(1) [OF assms(1)] by auto
    have "(of_nat (Suc n) :: 8 word) \<noteq> 0" using Suc.prems len of_nat8_eq_0 [of "Suc n"] by simp
    then show ?thesis
      using Suc False h es by (subst lookup_scan.simps) (auto simp: has_sector_def)
  qed
qed

lemma lookup_holder:
  assumes "dd_wf V s d" "i < length (location d)"
  shows "lookup ops d (int i) s =
    Some (of_nat (holder V s d i), None, d\<lparr>location := (location d)[i := of_nat (holder V s d i)]\<rparr>)"
proof (cases "location d ! i = 0")
  case True
  have "length (files d) - 1 < length (files d)" using dd_wfD(3) [OF assms(1)] by simp
  then obtain w where w: "lookup_scan ops d (int i) s (length (files d) - 1) = Some (w, None)"
    "(if w = 0 then 1 else w) = of_nat (holder V s d i)"
    using lookup_scan_topmost [OF assms(1), of "length (files d) - 1" i] True
    by (auto simp: holder_def layer_of_def)
  then show ?thesis
    using assms True dd_wfD(3) [OF assms(1)] by (simp add: lookup_def w(2) Let_def)
next
  case False
  then show ?thesis
    using assms dd_wfD(3) [OF assms(1)] by (simp add: lookup_def holder_def)
qed

lemma lookup_same_volume:
  assumes "dd_wf V s d" "i < length (location d)"
  shows "\<exists>d'. lookup ops d (int i) s = Some (of_nat (holder V s d i), None, d') \<and> same_volume V s d d'"
proof -
  have "same_volume V s d (d\<lparr>location := (location d)[i := of_nat (holder V s d i)]\<rparr>)"
    unfolding same_volume_def using assms(2)
    by (intro exI [of _ "(location d)[i := of_nat (holder V s d i)]"]) (auto simp: nth_list_update)
  then show ?thesis using lookup_holder [OF assms] by blast
qed

lemma read_run:
  assumes wf: "dd_wf V s d" and k: "1 \<le> k" "k < length (files d)"
    and fit: "(a + c) * v_bs V \<le> length buf" "off + (a + c) * v_bs V \<le> vol_size V d"
  shows "read ops d (of_nat k) buf (int off) (int a) (int c) s =
    Some (int (c * v_bs V), None, run_fetch V s (files d) k off (a * v_bs V) ((a + c) * v_bs V) buf)"
proof -
  obtain h where h: "files d ! k = Some h" "v_live V s h" "file_at d (int k) = Some h"
    using dd_wf_file [OF wf k] .
  define A where "A = a * v_bs V"
  define C where "C = c * v_bs V"
  define sz where "sz = v_size V s h"
  define m where "m = min C (sz - (off + A))"
  let ?new = "map (v_data V s h) [off + A ..< off + A + m]"
  have k8: "uint (of_nat k :: 8 word) = int k" using k dd_wfD(4) [OF wf] by (simp add: uint_of_nat8)
  have prods: "int a * sectorSize d = int A" "int c * sectorSize d = int C" "(a + c) * v_bs V = A + C"
    using dd_wfD [OF wf] by (simp_all add: A_def C_def algebra_simps)
  have fit': "A + m \<le> length buf" using fit(1) by (simp add: prods m_def)
  have "off + A + C \<le> vol_size V d" using fit(2) by (simp add: prods)
  then have inside: "int off + int A + int C \<le> dd_size d" using dd_wfD(2) [OF wf] by linarith
  have out: "blit buf A ?new = run_fetch V s (files d) k off A (A + C) buf"
    using h(1) fit' by (intro run_fetch_blit) (simp_all add: m_def sz_def)
  have sl: "slice_of buf (int A) (int A + int m) = Some (take m (drop A buf))"
    using slice_of_nat [of A "A + m" buf] fit' by simp
  have rd: "op_ReadAt ops h (take m (drop A buf)) (int off + int A) s = (int m, None, ?new)" if "off + A < sz"
    using read_law [OF h(2), of "off + A" "take m (drop A buf)"] fit' that
    by (simp add: sz_def m_def)
  have size: "op_Size ops h s = (int sz, None)" using size_law [OF h(2)] by (simp add: sz_def)
  show ?thesis
  proof (cases "off + A < sz")
    case True
    then have "min (int C) (int sz - (int off + int A)) = int m" by (simp add: m_def)
    moreover have "int m = int C" if "off + A + C \<le> sz" using that by (simp add: m_def)
    moreover have "int m = int sz - (int off + int A)" if "\<not> off + A + C \<le> sz" using that True by (simp add: m_def)
    ultimately show ?thesis
      using True h(3) k8 inside size sl rd out
      by (simp add: read_def Let_def prods flip: A_def C_def)
  next
    case False
    then have "run_fetch V s (files d) k off A (A + C) buf = buf" using out by (simp add: m_def)
    then show ?thesis
      using False h(3) k8 inside size
      by (simp add: read_def Let_def prods flip: A_def C_def)
  qed
qed

text \<open>
  The loop invariant of fullReadAt: the sectors before the current run are in the buffer and the
  run of readSectors sectors up to the current one belongs to the layer target.
\<close>

lemma fullRead_loop_run:
  assumes "dd_wf V s d0" "bs = v_bs V" "st * bs = off" "n * bs = length buf0" "off + length buf0 \<le> vol_size V d0"
    and "same_volume V s d0 d" "1 \<le> r" "r \<le> i" "i \<le> n"
    and "\<forall>t \<in> {i - r ..< i}. holder V s d0 (st + t) = k"
    and "buf = overlay V s d0 off ((i - r) * bs) buf0"
  shows "\<exists>d' r' k'. fullRead_loop ops (int off) (int st) s [int i .. int n - 1] d
      (int ((i - r) * bs)) (int r) (of_nat k) buf =
        Some (int ((n - r') * bs), None, int r', of_nat k', overlay V s d0 off ((n - r') * bs) buf0, d') \<and>
      same_volume V s d0 d' \<and> 1 \<le> r' \<and> r' \<le> n \<and> (\<forall>t \<in> {n - r' ..< n}. holder V s d0 (st + t) = k')"
  using assms(6-)
proof (induction "n - i" arbitrary: i d r k buf)
  case 0
  then show ?case by auto
next
  case (Suc x)
  then have i: "i < n" by simp
  then have upto: "[int i .. int n - 1] = int i # [int (Suc i) .. int n - 1]"
    by (simp add: upto.simps [of "int i"] add.commute)
  have wf: "dd_wf V s d" by (rule same_volume_wf [OF Suc.prems(1) assms(1)])
  have "i * bs < n * bs" using i bs_pos assms(2) by simp
  then have "(st + i) * bs < vol_size V d0" using assms(3-5) by (simp add: add_mult_distrib)
  then have loc: "st + i < length (location d0)" by (simp add: assms(2))
  then have hold: "holder V s d (st + i) = holder V s d0 (st + i)"
    by (rule same_volume_holder [OF Suc.prems(1) assms(1)])
  obtain d1 where d1: "lookup ops d (int st + int i) s = Some (of_nat (holder V s d0 (st + i)), None, d1)"
    "same_volume V s d d1"
    using lookup_same_volume [OF wf, of "st + i"] loc hold same_volumeD(4) [OF Suc.prems(1)] by auto
  have sv: "same_volume V s d0 d1" using same_volume_trans [OF Suc.prems(1) d1(2) assms(1)] .
  have kh: "holder V s d0 (st + (i - 1)) = k" using bspec [OF Suc.prems(5), of "i - 1"] Suc.prems(2,3) by simp
  have "st + (i - 1) < length (location d0)" using loc by simp
  then have k: "1 \<le> k" "k < length (files d0)" "k < 256" "holder V s d0 (st + i) < 256"
    using holder_bounds [OF assms(1), of "st + (i - 1)"] holder_bounds [OF assms(1) loc] kh
      dd_wfD(4) [OF assms(1)] by (auto simp del: One_nat_def)
  show ?case
  proof (cases "holder V s d0 (st + i) = k")
    case True
    have "\<forall>t \<in> {Suc i - Suc r ..< Suc i}. holder V s d0 (st + t) = k"
      using Suc.prems(5) True by (auto simp: less_Suc_eq)
    from Suc.hyps(1) [of "Suc i" d1 "Suc r" k buf, OF _ sv _ _ _ this] Suc.prems Suc.hyps(2) i d1(1) True
    show ?thesis by (simp add: upto add.commute)
  next
    case False
    then have ne: "(of_nat (holder V s d0 (st + i)) :: 8 word) \<noteq> of_nat k"
      using k unat_of_nat8 by metis
    have ir: "i - r + r = i" using Suc.prems(3) by simp
    have "off + i * bs \<le> vol_size V d1" "i * bs \<le> length buf"
      using \<open>i * bs < n * bs\<close> assms(4,5) Suc.prems(6) same_volumeD(4) [OF sv] by simp_all
    then have rd: "read ops d1 (of_nat k) buf (int off) (int i - int r) (int r) s =
        Some (int (r * bs), None, overlay V s d0 off (i * bs) buf0)"
      using read_run [OF same_volume_wf [OF sv assms(1)] k(1), of "i - r" r buf off]
        overlay_run [OF bs_pos, of st off "i - r" r s d0 k buf0] k(2) Suc.prems(3,5,6) assms(2,3) ir
        same_volumeD(1) [OF sv] by (simp add: of_nat_diff)
    have cnt: "int ((i - r) * bs) + int (r * bs) = int (i * bs)"
      using ir by (metis add_mult_distrib of_nat_add)
    have "\<forall>t \<in> {Suc i - 1 ..< Suc i}. holder V s d0 (st + t) = holder V s d0 (st + i)"
      by (auto simp: less_Suc_eq)
    from Suc.hyps(1) [of "Suc i" d1 1 _ "overlay V s d0 off (i * bs) buf0", OF _ sv _ _ _ this]
      Suc.hyps(2) i d1(1) ne rd cnt
    show ?thesis by (simp add: upto)
  qed
qed

theorem fullReadAt_overlay:
  assumes wf: "dd_wf V s d" and al: "v_bs V dvd off" "v_bs V dvd length buf"
    and fit: "off + length buf \<le> vol_size V d"
  shows "\<exists>d'. fullReadAt ops d buf (int off) s =
      Some (int (length buf), None, overlay V s d off (length buf) buf, d') \<and> same_volume V s d d'"
proof (cases "buf = []")
  case True
  then show ?thesis using al bs_pos dd_wfD(1) [OF wf] by (auto simp: fullReadAt_def overlay_def go_int_simps)
next
  case False
  define bs where "bs = v_bs V"
  have bs: "0 < bs" "sectorSize d = int bs" using bs_pos dd_wfD(1) [OF wf] by (simp_all add: bs_def)
  obtain st n where st: "off = st * bs" and n: "length buf = n * bs"
    using al by (metis bs_def dvd_div_mult_self)
  have n1: "1 \<le> n" using n False by (cases n) auto
  have "(st + n) * bs \<le> length (location d) * bs" using fit st n by (simp add: bs_def add_mult_distrib)
  then have loc: "st < length (location d)" using bs n1 by simp
  obtain d1 where d1: "lookup ops d (int st) s = Some (of_nat (holder V s d st), None, d1)" "same_volume V s d d1"
    using lookup_same_volume [OF wf loc] by blast
  have hd: "\<forall>t \<in> {1 - 1 ..< 1}. holder V s d (st + t) = holder V s d st" by simp
  from fullRead_loop_run [OF wf refl, of st off n buf d1 1 1 _ buf, OF _ _ fit d1(2) _ _ n1 hd]
  obtain d2 r k where lp: "fullRead_loop ops (int off) (int st) s [1 .. int n - 1] d1 0 1 (of_nat (holder V s d st)) buf =
        Some (int ((n - r) * bs), None, int r, of_nat k, overlay V s d off ((n - r) * bs) buf, d2)"
    "same_volume V s d d2" "1 \<le> r" "r \<le> n" "\<forall>t \<in> {n - r ..< n}. holder V s d (st + t) = k"
    using st n by (auto simp: bs_def)
  have nr: "n - r + r = n" using lp(4) by simp
  have "1 \<le> k" "k < length (files d)"
    using holder_bounds [OF wf, of "st + (n - 1)"] bspec [OF lp(5), of "n - 1"] lp(3) n1
      \<open>(st + n) * bs \<le> length (location d) * bs\<close> bs by auto
  then have rd: "read ops d2 (of_nat k) (overlay V s d off ((n - r) * bs) buf) (int off) (int n - int r) (int r) s =
      Some (int (r * bs), None, overlay V s d off (n * bs) buf)"
    using read_run [OF same_volume_wf [OF lp(2) wf], of k "n - r" r _ off] lp(4,5) st n fit nr
      overlay_run [OF bs_pos, of st off "n - r" r s d k buf] same_volumeD [OF lp(2)]
    by (simp add: bs_def of_nat_diff)
  have cnt: "int ((n - r) * bs) + int (r * bs) = int (n * bs)" using nr by (metis add_mult_distrib of_nat_add)
  have sizes: "int (length buf) smod int bs = 0" "int off smod int bs = 0"
    "int (length buf) sdiv int bs = int n" "int off sdiv int bs = int st"
    using bs(1) st n by (simp_all add: go_int_simps)
  show ?thesis
    using False d1 lp rd cnt sizes by (simp add: fullReadAt_def bs(2) Let_def n)
qed

corollary fullReadAt_zeros:
  assumes "dd_wf V s d" "v_bs V dvd off" "v_bs V dvd n" "off + n \<le> vol_size V d"
  shows "\<exists>d'. fullReadAt ops d (zeros n) (int off) s = Some (int n, None, vol_range V s d off n, d') \<and>
    same_volume V s d d'"
  using fullReadAt_overlay [OF assms(1,2), of "zeros n"] assms(3,4) by (simp add: overlay_zeros)

corollary fullReadAt_covered:
  assumes "dd_wf V s d" "v_bs V dvd off" "v_bs V dvd length buf" "off + length buf \<le> vol_size V d"
    and "\<forall>j < length buf. off + j < layer_size V s (files d) (holder V s d ((off + j) div v_bs V))"
  shows "\<exists>d'. fullReadAt ops d buf (int off) s =
    Some (int (length buf), None, vol_range V s d off (length buf), d') \<and> same_volume V s d d'"
proof -
  have "overlay V s d off (length buf) buf = vol_range V s d off (length buf)"
    using assms(5) by (intro list_eq_pointwise) (auto simp: nth_overlay fetch_covered vol_byte_def)
  then show ?thesis using fullReadAt_overlay [OF assms(1-4)] by simp
qed

lemma ReadAt_first_sector:
  assumes wf: "dd_wf V s d" and off: "off < vol_size V d"
  shows "\<exists>R d'. fullReadAt ops d (zeros (v_bs V)) (int off - int (off mod v_bs V)) s = Some (int (v_bs V), None, R, d') \<and>
    same_volume V s d d' \<and> length R = v_bs V \<and>
    slice_of R (int (off mod v_bs V)) (int (v_bs V)) = Some (vol_range V s d off (v_bs V - off mod v_bs V))"
proof -
  let ?so = "off mod v_bs V"
  have so: "?so \<le> v_bs V" "?so \<le> off" using bs_pos by (simp_all add: less_imp_le)
  have "off - ?so + v_bs V \<le> vol_size V d" using sector_inside [OF bs_pos off] .
  then obtain d' where "fullReadAt ops d (zeros (v_bs V)) (int off - int ?so) s =
      Some (int (v_bs V), None, vol_range V s d (off - ?so) (v_bs V), d')" "same_volume V s d d'"
    using fullReadAt_zeros [OF wf, of "off - ?so" "v_bs V"] so by (auto simp: of_nat_diff)
  moreover have "slice_of (vol_range V s d (off - ?so) (v_bs V)) (int ?so) (int (v_bs V)) =
      Some (vol_range V s d off (v_bs V - ?so))"
    using slice_of_nat [of ?so "v_bs V" "vol_range V s d (off - ?so) (v_bs V)"] so
    by (simp add: drop_vol_range take_vol_range)
  ultimately show ?thesis by (auto intro!: exI)
qed

lemma ReadAt_tail_sector:
  assumes wf: "dd_wf V s d" and R: "length R = v_bs V" and t: "t < length (location d)"
    and cov: "Suc t * v_bs V \<le> layer_size V s (files d) (holder V s d t)" and eo: "eo \<le> v_bs V"
  shows "\<exists>R' d'. fullReadAt ops d R (int (t * v_bs V)) s = Some (int (v_bs V), None, R', d') \<and>
    same_volume V s d d' \<and> slice_of R' 0 (int eo) = Some (vol_range V s d (t * v_bs V) eo)"
proof -
  have "t * v_bs V + v_bs V \<le> vol_size V d" using t by (metis Suc_leI add.commute mult_Suc mult_le_mono1)
  moreover have "t * v_bs V + j < layer_size V s (files d) (holder V s d ((t * v_bs V + j) div v_bs V))"
    if "j < v_bs V" for j
    using cov that by simp
  ultimately obtain d' where "fullReadAt ops d R (int (t * v_bs V)) s =
      Some (int (v_bs V), None, vol_range V s d (t * v_bs V) (v_bs V), d')" "same_volume V s d d'"
    using fullReadAt_covered [OF wf, of "t * v_bs V" R] R by auto
  moreover have "slice_of (vol_range V s d (t * v_bs V) (v_bs V)) 0 (int eo) = Some (vol_range V s d (t * v_bs V) eo)"
    using slice_of_nat [of 0 eo "vol_range V s d (t * v_bs V) (v_bs V)"] eo by (simp add: take_vol_range)
  ultimately show ?thesis by auto
qed

lemma ReadAt_aligned:
  assumes "dd_wf V s d" "off + n \<le> vol_size V d" "v_bs V dvd off" "v_bs V dvd n"
  shows "\<exists>d'. ReadAt ops d (zeros n) (int off) s = Some (int n, None, vol_range V s d off n, d') \<and> same_volume V s d d'"
proof (cases "n = 0")
  case False
  have "int off smod sectorSize d = 0" "(int n + int off) smod sectorSize d = 0"
    using int_mod_nat [OF bs_pos, of off] int_mod_nat [OF bs_pos, of "n + off"] assms(3,4) dd_wfD(1) [OF assms(1)]
    by simp_all
  then show ?thesis using fullReadAt_zeros [OF assms(1,3,4,2)] False by (simp add: ReadAt_def)
qed (auto simp: ReadAt_def zeros_def vol_range_def)

lemma ReadAt_within:
  assumes wf: "dd_wf V s d" and fit: "off + n \<le> vol_size V d" and ne: "n \<noteq> 0"
    and un: "\<not> (v_bs V dvd off \<and> v_bs V dvd n)" and n: "n \<le> v_bs V - off mod v_bs V"
  shows "\<exists>d'. ReadAt ops d (zeros n) (int off) s = Some (int n, None, vol_range V s d off n, d') \<and> same_volume V s d d'"
proof -
  obtain R d' where rd: "fullReadAt ops d (zeros (v_bs V)) (int off - int (off mod v_bs V)) s = Some (int (v_bs V), None, R, d')"
    "same_volume V s d d'" "length R = v_bs V"
    "slice_of R (int (off mod v_bs V)) (int (v_bs V)) = Some (vol_range V s d off (v_bs V - off mod v_bs V))"
    using ReadAt_first_sector [OF wf, of off] fit ne by auto
  have so: "off mod v_bs V < v_bs V" using bs_pos by simp
  have ss: "sectorSize d = int (v_bs V)" using dd_wfD(1) [OF wf] .
  have offs: "int off smod int (v_bs V) = int (off mod v_bs V)" "(int n + int off) smod int (v_bs V) = int ((n + off) mod v_bs V)"
    using int_mod_nat [OF bs_pos, of off] int_mod_nat [OF bs_pos, of "n + off"] by simp_all
  have un': "\<not> (off mod v_bs V = 0 \<and> (n + off) mod v_bs V = 0)"
    using un by (metis dvd_add_left_iff dvd_eq_mod_eq_0)
  have n': "int n \<le> int (v_bs V) - int (off mod v_bs V)" using n so by linarith
  show ?thesis
    using ne rd n n' un' by (auto simp add: ReadAt_def ss offs Let_def partial_buf_start min_def)
qed

lemma ReadAt_split:
  assumes wf: "dd_wf V s d" and fit: "off + n \<le> vol_size V d" and tail: "tail_covered V s d off n"
    and un: "\<not> (v_bs V dvd off \<and> v_bs V dvd n)" and n: "v_bs V - off mod v_bs V < n"
  shows "\<exists>d'. ReadAt ops d (zeros n) (int off) s = Some (int n, None, vol_range V s d off n, d') \<and> same_volume V s d d'"
proof -
  define eo where "eo = (n + off) mod v_bs V"
  define sc where "sc = v_bs V - off mod v_bs V"
  define t where "t = (off + n) div v_bs V"
  note sp = split_request [OF bs_pos n, folded eo_def sc_def t_def]
  have so: "off mod v_bs V < v_bs V" "eo < v_bs V" using bs_pos by (simp_all add: eo_def)
  have ints: "int (v_bs V) - int (off mod v_bs V) = int sc" "int n - int eo = int (n - eo)"
    using so sp(3) by (simp_all add: sc_def of_nat_diff)
  have "int off + int n - int eo = int (off + n - eo)" using sp(3) by linarith
  then have ints': "int off + int n - int eo = int (t * v_bs V)" using sp(5) by simp
  obtain R d1 where d1: "fullReadAt ops d (zeros (v_bs V)) (int off - int (off mod v_bs V)) s = Some (int (v_bs V), None, R, d1)"
    "same_volume V s d d1" "length R = v_bs V"
    "slice_of R (int (off mod v_bs V)) (int (v_bs V)) = Some (vol_range V s d off sc)"
    using ReadAt_first_sector [OF wf, of off] fit n by (auto simp: sc_def)
  have wf1: "dd_wf V s d1" using same_volume_wf [OF d1(2) wf] .
  have mid: "off + sc + (n - eo - sc) \<le> vol_size V d" "off + sc + (n - eo - sc) \<le> vol_size V d1"
    using sp(2,3) fit same_volumeD(4) [OF d1(2)] by simp_all
  obtain d2 where d2: "fullReadAt ops d1 (zeros (n - eo - sc)) (int off + int sc) s =
      Some (int (n - eo - sc), None, vol_range V s d (off + sc) (n - eo - sc), d2)" "same_volume V s d1 d2"
    using fullReadAt_zeros [OF wf1 sp(1,4) mid(2)] vol_range_same_volume [OF d1(2) wf mid(1)] by auto
  have sv2: "same_volume V s d d2" using same_volume_trans [OF d1(2) d2(2) wf] .
  have offs: "int off smod int (v_bs V) = int (off mod v_bs V)" "(int n + int off) smod int (v_bs V) = int eo"
    using int_mod_nat [OF bs_pos, of off] int_mod_nat [OF bs_pos, of "n + off"] by (simp_all add: eo_def)
  have un': "\<not> (off mod v_bs V = 0 \<and> eo = 0)"
    using un by (metis dvd_add_left_iff dvd_eq_mod_eq_0 eo_def)
  have scn: "\<not> int n \<le> int sc" "n \<noteq> 0" "min sc n = sc" "sc \<le> n" using n by (auto simp: sc_def)
  have pb: "blit (zeros n) 0 (vol_range V s d off sc) = partial_buf V s d off n sc"
    "slice_of (partial_buf V s d off n sc) (int sc) (int (n - eo)) = Some (zeros (n - eo - sc))"
    using sp(2) scn by (simp_all add: partial_buf_start partial_buf_rest)
  have "sc + (n - eo - sc) = n - eo" using sp(2) by simp
  then have pb': "blit (partial_buf V s d off n sc) sc (vol_range V s d (off + sc) (n - eo - sc)) = partial_buf V s d off n (n - eo)"
    using partial_buf_step [of sc "n - eo - sc" n V s d off] by simp
  show ?thesis
  proof (cases "eo = 0")
    case True
    then show ?thesis
      using un' scn d1 d2(1) sv2 pb pb'
      by (simp add: ReadAt_def dd_wfD(1) [OF wf] offs Let_def ints)
  next
    case False
    have "t * v_bs V < vol_size V d" using False sp(3,5) fit by linarith
    then have t: "t < length (location d)" by simp
    have "Suc t * v_bs V \<le> layer_size V s (files d) (holder V s d t)"
      using tail False sp(6) unfolding tail_covered_def Let_def t_def eo_def by (simp add: add.commute)
    then have "Suc t * v_bs V \<le> layer_size V s (files d2) (holder V s d2 t)"
      using same_volume_holder [OF sv2 wf t] same_volumeD(1) [OF sv2] by simp
    moreover have "vol_range V s d2 (t * v_bs V) eo = vol_range V s d (t * v_bs V) eo"
      using vol_range_same_volume [OF sv2 wf] sp(3,5) fit by simp
    ultimately obtain R' d3 where d3: "fullReadAt ops d2 R (int (t * v_bs V)) s = Some (int (v_bs V), None, R', d3)"
        "same_volume V s d2 d3" "slice_of R' 0 (int eo) = Some (vol_range V s d (t * v_bs V) eo)"
      using ReadAt_tail_sector [OF same_volume_wf [OF sv2 wf] d1(3), of t eo] t so(2) same_volumeD(4) [OF sv2]
      by auto
    have "blit (partial_buf V s d off n (n - eo)) (n - eo) (vol_range V s d (t * v_bs V) eo) = vol_range V s d off n"
      using partial_buf_step [of "n - eo" eo n V s d off] sp(3,5) by simp
    then show ?thesis
      using False un' scn d1 d2(1) d3 same_volume_trans [OF sv2 d3(2) wf] pb pb'
      by (simp add: ReadAt_def dd_wfD(1) [OF wf] offs Let_def ints ints' del: of_nat_mult)
  qed
qed

theorem ReadAt_zeros:
  assumes "dd_wf V s d" "off + n \<le> vol_size V d" "tail_covered V s d off n"
  shows "\<exists>d'. ReadAt ops d (zeros n) (int off) s = Some (int n, None, vol_range V s d off n, d') \<and> same_volume V s d d'"
proof (cases "v_bs V dvd off \<and> v_bs V dvd n")
  case False
  show ?thesis
  proof (cases "n \<le> v_bs V - off mod v_bs V")
    case True
    then show ?thesis
      by (cases "n = 0") (use ReadAt_within [OF assms(1,2) _ False True] in
          \<open>auto simp: ReadAt_def zeros_def vol_range_def\<close>)
  next
    case n: False
    then show ?thesis using ReadAt_split [OF assms False] by simp
  qed
qed (use ReadAt_aligned [OF assms(1,2)] in blast)

end

end
