(* ===== verification/Diff_Disk_Write.thy ===== *)
theory Diff_Disk_Write
  imports Diff_Disk_Spec
begin

text \<open>
  Writing to a chain: fullWriteAt, readModifyWrite and WriteAt change exactly the bytes of the
  request, only in the volume head, and keep the invariant and the coherence of the cache.
\<close>

section \<open>The effect of a write\<close>

definition write_effect ::
  "('h, 's) layer_view \<Rightarrow> 's \<Rightarrow> 'h diffDisk \<Rightarrow> nat \<Rightarrow> bytes \<Rightarrow> 's \<Rightarrow> 'h diffDisk \<Rightarrow> bool" where
  "write_effect V s d off buf s' d' \<longleftrightarrow>
     dd_wf V s' d' \<and> files d' = files d \<and> length (location d') = length (location d) \<and>
     (\<forall>p < vol_size V d. vol_byte V s' d' p =
        (if off \<le> p \<and> p < off + length buf then buf ! (p - off) else vol_byte V s d p)) \<and>
     (coherent V s d \<longrightarrow> coherent V s' d') \<and>
     (\<forall>i < length (location d). holder V s' d' i = length (files d) - 1 \<or> holder V s' d' i = holder V s d i) \<and>
     (\<forall>p < vol_size V d. off \<le> p \<and> p < off + length buf \<longrightarrow> holder V s' d' (p div v_bs V) = length (files d) - 1) \<and>
     v_live V s' = v_live V s \<and> v_size V s' = v_size V s \<and>
     (\<forall>h. Some h \<noteq> last (files d) \<longrightarrow> v_data V s' h = v_data V s h \<and> v_alloc V s' h = v_alloc V s h)"

lemma write_effect_same_volume:
  assumes "same_volume V s d0 d" "dd_wf V s d0" "write_effect V s d off buf s' d'"
  shows "write_effect V s d0 off buf s' d'"
  using assms(3) same_volume_facts [OF assms(1)] same_volume_coherent [OF assms(1,2)] assms(2)
  by (auto simp: write_effect_def same_volume_vol_byte [OF assms(1,2)] same_volume_holder [OF assms(1,2)])

lemma write_effect_append:
  assumes "write_effect V s d off b1 s1 d1" "write_effect V s1 d1 (off + length b1) b2 s2 d2"
  shows "write_effect V s d off (b1 @ b2) s2 d2"
proof -
  have "holder V s2 d2 (p div v_bs V) = length (files d) - 1"
    if "p < vol_size V d" "off \<le> p" "p < off + length (b1 @ b2)" for p
    using that assms less_mult_imp_div_less [OF that(1)] unfolding write_effect_def
    by (cases "p < off + length b1") (auto simp: not_less)
  moreover have "holder V s2 d2 i = length (files d) - 1 \<or> holder V s2 d2 i = holder V s d i"
    if "i < length (location d)" for i
    using that assms unfolding write_effect_def by metis
  ultimately show ?thesis using assms by (auto simp: write_effect_def nth_append)
qed

lemma write_effect_widen:
  assumes "write_effect V s d o1 b1 s' d'" "o1 \<le> o2" "o2 + length b2 \<le> o1 + length b1"
    and "b1 = blit (vol_range V s d o1 (length b1)) (o2 - o1) b2"
  shows "write_effect V s d o2 b2 s' d'"
proof -
  have "b1 ! (p - o1) = (if o2 \<le> p \<and> p < o2 + length b2 then b2 ! (p - o2) else vol_byte V s d p)"
    if "o1 \<le> p" "p < o1 + length b1" for p
  proof -
    have "b1 ! (p - o1) = blit (vol_range V s d o1 (length b1)) (o2 - o1) b2 ! (p - o1)"
      by (rule arg_cong [OF assms(4)])
    also have "\<dots> = (if o2 \<le> p \<and> p < o2 + length b2 then b2 ! (p - o2) else vol_byte V s d p)"
      using that assms(2,3) by (auto simp: nth_blit)
    finally show ?thesis .
  qed
  then show ?thesis using assms(1-3) by (auto simp: write_effect_def)
qed

lemma mark_written_range:
  assumes "st + n \<le> length loc"
  shows "mark_written t [int st .. int (st + n) - 1] loc =
    Some (map (\<lambda>i. if st \<le> i \<and> i < st + n then t else loc ! i) [0 ..< length loc])"
  using assms
proof (induction n arbitrary: st loc)
  case 0
  then show ?case by (auto intro!: nth_equalityI)
next
  case (Suc n)
  have "[int st .. int (st + Suc n) - 1] = int st # [int (Suc st) .. int (Suc st + n) - 1]"
    by (simp add: upto.simps [of "int st"] add.commute)
  moreover have "map (\<lambda>i. if Suc st \<le> i \<and> i < Suc st + n then t else loc[st := t] ! i) [0 ..< length loc] =
      map (\<lambda>i. if st \<le> i \<and> i < st + Suc n then t else loc ! i) [0 ..< length loc]"
    by (auto simp: nth_list_update)
  ultimately show ?case using Suc.IH [of "Suc st" "loc[st := t]"] Suc.prems by simp
qed

text \<open>
  WriteAt of any request inside the volume succeeds.  The count it returns is the sector size,
  not the request's length, when the request lies inside one sector.
\<close>

definition WriteAt_count :: "nat \<Rightarrow> nat \<Rightarrow> nat \<Rightarrow> nat" where
  "WriteAt_count bs off n =
     (if n \<noteq> 0 \<and> \<not> (bs dvd off \<and> bs dvd n) \<and> off mod bs + n \<le> bs then bs else n)"

lemma write_effect_Nil:
  "dd_wf V s d \<Longrightarrow> write_effect V s d off [] s d"
  by (auto simp: write_effect_def)

context disk_layer
begin

lemma head_file:
  assumes "dd_wf V s d"
  obtains h where "last (files d) = Some h" "files d ! (length (files d) - 1) = Some h" "v_live V s h"
    "file_at d (uint (head_index d)) = Some h" "v_size V s h = vol_size V d"
proof -
  let ?n = "length (files d) - 1"
  have n: "1 \<le> ?n" "?n < length (files d)" "?n < 256" using dd_wfD(3,4) [OF assms] by auto
  obtain h where h: "files d ! ?n = Some h" "v_live V s h" "file_at d (int ?n) = Some h"
    using dd_wf_file [OF assms n(1,2)] .
  have "uint (head_index d) = int ?n" using head_index_nat [OF assms] uint_of_nat8 [OF n(3)] by simp
  moreover have "last (files d) = files d ! ?n" using n by (intro last_conv_nth) auto
  ultimately show ?thesis using that h dd_wfD(6) [OF assms] by (simp add: layer_size_def)
qed

text \<open>The chain after a write of whole sectors to the head.\<close>

lemma head_write_effect:
  assumes wf: "dd_wf V s d" and h: "last (files d) = Some h"
    and off: "off = st * v_bs V" "length buf = n * v_bs V" "st + n \<le> length (location d)"
    and loc: "loc = map (\<lambda>i. if st \<le> i \<and> i < st + n then head_index d else location d ! i) [0 ..< length (location d)]"
    and s': "v_live V s' = v_live V s" "v_size V s' = v_size V s"
      "v_data V s' = (v_data V s)(h := \<lambda>p. if off \<le> p \<and> p < off + length buf then buf ! (p - off) else v_data V s h p)"
      "v_alloc V s' = (v_alloc V s)(h := \<lambda>b. v_alloc V s h b \<or> (st \<le> b \<and> b < st + n))"
  shows "write_effect V s d off buf s' (d\<lparr>location := loc\<rparr>)"
proof -
  let ?d = "d\<lparr>location := loc\<rparr>"
  let ?N = "length (files d) - 1"
  have N: "1 \<le> ?N" "?N < 256" "?N < length (files d)" "files d \<noteq> []" using dd_wfD(3,4) [OF wf] by auto
  have fN: "files d ! ?N = Some h" using h N(4) by (simp add: last_conv_nth)
  have len: "length loc = length (location d)" by (simp add: loc)
  have outer: "layer_of V s' (files d) i = layer_of V s (files d) i" if "\<not> (st \<le> i \<and> i < st + n)" for i
    unfolding layer_of_def using that
    by (intro topmost_cong) (auto simp: has_sector_def s'(4) split: option.split)
  have inner: "layer_of V s' (files d) i = ?N" if "st \<le> i" "i < st + n" for i
    using that fN dd_wfD(3) [OF wf] by (intro layer_of_head) (auto simp: has_sector_def s'(4))
  have hi: "head_index d \<noteq> 0" "unat (head_index d) = ?N"
    using head_index_nat [OF wf] N of_nat8_eq_0 [OF N(2)] unat_of_nat8 [OF N(2)] by simp_all
  have hold: "holder V s' ?d i = (if st \<le> i \<and> i < st + n then ?N else holder V s d i)"
    if "i < length (location d)" for i
    using that outer [of i] hi by (auto simp: holder_def loc)
  have sect: "st \<le> p div v_bs V \<and> p div v_bs V < st + n \<longleftrightarrow> off \<le> p \<and> p < off + length buf" for p
    using bs_pos by (simp add: off div_less_iff_less_mult less_eq_div_iff_mult_less_eq flip: add_mult_distrib)
  have byte: "vol_byte V s' ?d p = (if off \<le> p \<and> p < off + length buf then buf ! (p - off) else vol_byte V s d p)"
    if "p < vol_size V d" for p
  proof -
    have "p div v_bs V < length (location d)" using that by (rule less_mult_imp_div_less)
    then show ?thesis
      using hold [of "p div v_bs V"] sect [of p] fN that dd_wfD(6) [OF wf]
      by (auto simp: vol_byte_def layer_byte_def layer_size_def s' split: option.split)
  qed
  have "\<forall>l \<in> set loc. unat l < length (files d)"
    using wf hi N(3) by (auto simp: loc dd_wf_def)
  then have "dd_wf V s' ?d"
    using wf len by (auto simp: dd_wf_def s' layer_size_def split: option.splits)
  moreover have "coherent V s' ?d" if "coherent V s d"
    using that inner outer hi len by (auto simp: coherent_def loc)
  moreover have "holder V s' ?d (p div v_bs V) = ?N" if "p < vol_size V d" "off \<le> p" "p < off + length buf" for p
    using hold [OF less_mult_imp_div_less [OF that(1)]] sect [of p] that by simp
  ultimately show ?thesis using byte hold len h unfolding write_effect_def by (simp add: s')
qed

theorem fullWriteAt_effect:
  assumes wf: "dd_wf V s d" and al: "v_bs V dvd off" "v_bs V dvd length buf"
    and fit: "off + length buf \<le> vol_size V d"
  shows "\<exists>s' d'. fullWriteAt ops d buf (int off) s = Some (int (length buf), None, d', s') \<and>
    write_effect V s d off buf s' d'"
proof -
  obtain st n where st: "off = st * v_bs V" and n: "length buf = n * v_bs V"
    using al by (metis dvd_div_mult_self)
  have "(st + n) * v_bs V \<le> length (location d) * v_bs V" using fit st n by (simp add: add_mult_distrib)
  then have sn: "st + n \<le> length (location d)" using bs_pos by simp
  obtain h where h: "last (files d) = Some h" "v_live V s h" "file_at d (uint (head_index d)) = Some h"
    "v_size V s h = vol_size V d"
    using head_file [OF wf] by metis
  obtain s' where s': "op_WriteAt ops h buf (int off) s = (int (length buf), None, s')"
    "v_live V s' = v_live V s" "v_size V s' = v_size V s"
    "v_data V s' = (v_data V s)(h := \<lambda>p. if off \<le> p \<and> p < off + length buf then buf ! (p - off) else v_data V s h p)"
    "v_alloc V s' = (v_alloc V s)(h := \<lambda>b. v_alloc V s h b \<or> (off div v_bs V \<le> b \<and> b < (off + length buf) div v_bs V))"
    using write_law [OF h(2) al] fit h(4) by auto
  have dv: "off div v_bs V = st" "(off + length buf) div v_bs V = st + n"
    using bs_pos by (simp_all add: st n flip: add_mult_distrib)
  have ints: "int off sdiv int (v_bs V) = int st" "int (length buf) sdiv int (v_bs V) = int n"
    "int off smod int (v_bs V) = 0" "int (length buf) smod int (v_bs V) = 0"
    using bs_pos st n by (simp_all add: go_int_simps)
  have "write_effect V s d off buf s' (d\<lparr>location := map (\<lambda>i. if st \<le> i \<and> i < st + n then head_index d
      else location d ! i) [0 ..< length (location d)]\<rparr>)"
    using head_write_effect [OF wf h(1) st n sn refl s'(2-4)] s'(5) by (simp add: dv)
  moreover have "fullWriteAt ops d buf (int off) s = Some (int (length buf), None,
      d\<lparr>location := map (\<lambda>i. if st \<le> i \<and> i < st + n then head_index d else location d ! i)
        [0 ..< length (location d)]\<rparr>, s')"
    using h(3) s'(1) ints mark_written_range [OF sn, of "head_index d"] dd_wfD(1) [OF wf]
    by (simp add: fullWriteAt_def Let_def)
  ultimately show ?thesis by blast
qed

theorem readModifyWrite_effect:
  assumes wf: "dd_wf V s d" and ne: "buf \<noteq> []" and fit: "off + length buf \<le> vol_size V d"
    and one: "off mod v_bs V + length buf \<le> v_bs V"
  shows "\<exists>s' d'. readModifyWrite ops d buf (int off) s = Some (int (v_bs V), None, d', s') \<and>
    write_effect V s d off buf s' d'"
proof -
  define so where "so = off mod v_bs V"
  define ro where "ro = off - so"
  have so: "so < v_bs V" "so \<le> off" using bs_pos by (simp_all add: so_def)
  have "off < vol_size V d" using fit ne by (cases buf) auto
  then have inside: "ro + v_bs V \<le> vol_size V d"
    using sector_inside [OF bs_pos] by (simp add: ro_def so_def)
  have al: "v_bs V dvd ro" by (simp add: ro_def so_def)
  obtain d1 where d1: "fullReadAt ops d (zeros (v_bs V)) (int ro) s =
      Some (int (v_bs V), None, vol_range V s d ro (v_bs V), d1)" "same_volume V s d d1"
    using fullReadAt_zeros [OF wf al _ inside] by auto
  define blk where "blk = blit (vol_range V s d ro (v_bs V)) so buf"
  have blk: "length blk = v_bs V" using so by (simp add: blk_def)
  obtain s' d' where w: "fullWriteAt ops d1 blk (int ro) s = Some (int (v_bs V), None, d', s')"
    "write_effect V s d1 ro blk s' d'"
    using fullWriteAt_effect [OF same_volume_wf [OF d1(2) wf] al, of blk] blk inside same_volumeD(4) [OF d1(2)]
    by auto
  have "write_effect V s d off buf s' d'"
    using write_effect_same_volume [OF d1(2) wf w(2)] so one
    by (elim write_effect_widen) (simp_all add: blk blk_def ro_def so_def)
  moreover have "int off sdiv int (v_bs V) * int (v_bs V) = int ro" "int off smod int (v_bs V) = int so"
    using int_mod_nat [OF bs_pos, of off] bs_pos
    by (simp_all add: go_int_simps ro_def so_def minus_mod_eq_div_mult [symmetric] of_nat_diff zmod_int)
  then have "readModifyWrite ops d buf (int off) s = Some (int (v_bs V), None, d', s')"
    using ne d1(1) w(1) so by (simp add: readModifyWrite_def dd_wfD(1) [OF wf] Let_def blk_def)
  ultimately show ?thesis by blast
qed

lemma readModifyWrite_any:
  assumes "dd_wf V s d" "off + length buf \<le> vol_size V d" "buf \<noteq> [] \<Longrightarrow> off mod v_bs V + length buf \<le> v_bs V"
  shows "\<exists>c s' d'. readModifyWrite ops d buf (int off) s = Some (c, None, d', s') \<and> write_effect V s d off buf s' d'"
proof (cases "buf = []")
  case True
  then show ?thesis using write_effect_Nil [OF assms(1)] by (simp add: readModifyWrite_def)
next
  case False
  then show ?thesis using readModifyWrite_effect [OF assms(1) False assms(2)] assms(3) by blast
qed

lemma WriteAt_split:
  assumes wf: "dd_wf V s d" and fit: "off + length buf \<le> vol_size V d"
    and un: "\<not> (v_bs V dvd off \<and> v_bs V dvd length buf)" and n: "v_bs V - off mod v_bs V < length buf"
  shows "\<exists>s' d'. WriteAt ops d buf (int off) s = Some (int (length buf), None, d', s') \<and> write_effect V s d off buf s' d'"
proof -
  define eo where "eo = (length buf + off) mod v_bs V"
  define sc where "sc = v_bs V - off mod v_bs V"
  define m where "m = length buf - eo"
  note sp = split_request [OF bs_pos n, folded eo_def sc_def, folded m_def]
  have so: "off mod v_bs V < v_bs V" "eo < v_bs V" using bs_pos by (simp_all add: eo_def)
  have m: "sc \<le> m" "m \<le> length buf" "length buf - m = eo" using sp(2,3) by (auto simp: m_def)
  let ?b1 = "take sc buf" and ?b2 = "take (m - sc) (drop sc buf)" and ?b3 = "drop m buf"
  have lens: "length ?b1 = sc" "length ?b2 = m - sc" "length ?b3 = eo" using m by auto
  obtain c1 s1 d1 where w1: "readModifyWrite ops d ?b1 (int off) s = Some (c1, None, d1, s1)"
    "write_effect V s d off ?b1 s1 d1"
  proof -
    have "off + length ?b1 \<le> vol_size V d" "off mod v_bs V + length ?b1 \<le> v_bs V"
      using fit lens(1) m so(1) by (simp_all only: lens(1)) (simp_all add: sc_def)
    then show ?thesis using that readModifyWrite_any [OF wf] by blast
  qed
  have e1: "dd_wf V s1 d1" "length (location d1) = length (location d)" using w1(2) by (simp_all add: write_effect_def)
  obtain s2 d2 where w2: "fullWriteAt ops d1 ?b2 (int (off + sc)) s1 = Some (int (m - sc), None, d2, s2)"
    "write_effect V s1 d1 (off + sc) ?b2 s2 d2"
    using fullWriteAt_effect [OF e1(1) sp(1), of ?b2] sp(4) fit lens m e1(2) by auto
  have e2: "dd_wf V s2 d2" "length (location d2) = length (location d)" using w2(2) e1(2) by (simp_all add: write_effect_def)
  have "(off + m) mod v_bs V = 0" using sp(7) sp(3) by (simp add: m_def mod_eq_0_iff_dvd)
  then obtain c3 s3 d3 where w3: "readModifyWrite ops d2 ?b3 (int (off + m)) s2 = Some (c3, None, d3, s3)"
    "write_effect V s2 d2 (off + m) ?b3 s3 d3"
    using readModifyWrite_any [OF e2(1), of "off + m" ?b3] fit lens(3) m so(2) e2(2) by auto
  have "write_effect V s d off (?b1 @ ?b2) s2 d2" using write_effect_append [OF w1(2), of ?b2] w2(2) lens by simp
  then have "write_effect V s d off ((?b1 @ ?b2) @ ?b3) s3 d3"
    using write_effect_append [of V s d off "?b1 @ ?b2" s2 d2 ?b3] w3(2) lens m by simp
  moreover have "(?b1 @ ?b2) @ ?b3 = buf" using m by (simp flip: take_add)
  ultimately have eff: "write_effect V s d off buf s3 d3" by simp
  have "slice_of buf 0 (int sc) = Some ?b1" "slice_of buf (int sc) (int m) = Some ?b2"
    "slice_of buf (int m) (int (length buf)) = Some ?b3"
    using slice_of_nat [of 0 sc buf] slice_of_nat [of sc m buf] slice_of_nat [of m "length buf" buf] m by simp_all
  moreover have ints: "int (v_bs V) - int (off mod v_bs V) = int sc" "int (length buf) - int eo = int m"
    "int off + int (length buf) - int eo = int off + int m"
    using so m by (auto simp: sc_def of_nat_diff)
  moreover have "\<not> int (length buf) \<le> int sc" "length buf \<noteq> 0" using n by (auto simp: sc_def)
  moreover have "int off smod int (v_bs V) = int (off mod v_bs V)"
    "(int (length buf) + int off) smod int (v_bs V) = int eo"
    using int_mod_nat [OF bs_pos, of off] int_mod_nat [OF bs_pos, of "length buf + off"] by (simp_all add: eo_def)
  moreover have "\<not> (off mod v_bs V = 0 \<and> eo = 0)"
    using un by (metis dvd_add_left_iff dvd_eq_mod_eq_0 eo_def)
  ultimately have "WriteAt ops d buf (int off) s = Some (int (length buf), None, d3, s3)"
    using w1(1) w2(1) w3(1) by (auto simp: WriteAt_def dd_wfD(1) [OF wf] Let_def ints)
  then show ?thesis using eff by blast
qed

theorem WriteAt_effect:
  assumes wf: "dd_wf V s d" and fit: "off + length buf \<le> vol_size V d"
  shows "\<exists>s' d'. WriteAt ops d buf (int off) s = Some (int (WriteAt_count (v_bs V) off (length buf)), None, d', s') \<and>
    write_effect V s d off buf s' d'"
proof -
  let ?n = "length buf"
  have offs: "int off smod int (v_bs V) = int (off mod v_bs V)"
    "(int ?n + int off) smod int (v_bs V) = int ((?n + off) mod v_bs V)"
    using int_mod_nat [OF bs_pos, of off] int_mod_nat [OF bs_pos, of "?n + off"] by simp_all
  have so: "off mod v_bs V < v_bs V" using bs_pos by simp
  have al: "off mod v_bs V = 0 \<and> (?n + off) mod v_bs V = 0 \<longleftrightarrow> v_bs V dvd off \<and> v_bs V dvd ?n"
    by (metis dvd_add_left_iff dvd_eq_mod_eq_0)
  consider "buf = []" | "buf \<noteq> []" "v_bs V dvd off" "v_bs V dvd ?n"
    | "buf \<noteq> []" "\<not> (v_bs V dvd off \<and> v_bs V dvd ?n)" "off mod v_bs V + ?n \<le> v_bs V"
    | "\<not> (v_bs V dvd off \<and> v_bs V dvd ?n)" "v_bs V - off mod v_bs V < ?n" "\<not> off mod v_bs V + ?n \<le> v_bs V"
    using so by (metis leI less_diff_conv2 less_imp_le add.commute)
  then show ?thesis
  proof cases
    case 1
    then show ?thesis using write_effect_Nil [OF wf] by (simp add: WriteAt_def WriteAt_count_def)
  next
    case 2
    then show ?thesis using fullWriteAt_effect [OF wf 2(2,3) fit] offs al
      by (simp add: WriteAt_def WriteAt_count_def dd_wfD(1) [OF wf])
  next
    case 3
    then have "int ?n \<le> int (v_bs V) - int (off mod v_bs V)" by linarith
    then have "WriteAt ops d buf (int off) s = readModifyWrite ops d buf (int off) s"
      using 3(1,2) offs al by (auto simp: WriteAt_def dd_wfD(1) [OF wf] Let_def)
    then show ?thesis using 3 readModifyWrite_effect [OF wf 3(1) fit 3(3)] by (simp add: WriteAt_count_def)
  next
    case 4
    then show ?thesis using WriteAt_split [OF wf fit 4(1,2)] by (simp add: WriteAt_count_def)
  qed
qed

end

end
