(* ===== verification/Diff_Disk_Chain.thy ===== *)
theory Diff_Disk_Chain
  imports Diff_Disk_Write
begin

text \<open>
  Changes of the chain itself: removing a layer, expanding the volume, adding a new head,
  rebuilding the location table (preload), and unmapping.
\<close>

section \<open>Removing a layer\<close>

definition drop_layer :: "nat \<Rightarrow> 'a list \<Rightarrow> 'a list" where
  "drop_layer k fs = take k fs @ drop (Suc k) fs"

lemma length_drop_layer [simp]: "k < length fs \<Longrightarrow> length (drop_layer k fs) = length fs - 1"
  by (simp add: drop_layer_def)

lemma nth_drop_layer:
  "k < length fs \<Longrightarrow> j < length fs - 1 \<Longrightarrow> drop_layer k fs ! j = (if j < k then fs ! j else fs ! Suc j)"
  by (auto simp: drop_layer_def nth_append)

lemma topmost_below:
  assumes "k < length fs" "j < k"
  shows "topmost V s (drop_layer k fs) sector j = topmost V s fs sector j"
  using assms by (intro topmost_cong) (auto simp: has_sector_def nth_drop_layer)

lemma topmost_drop_layer:
  assumes "1 \<le> k" "k < length fs" "k \<le> j" "j < length fs - 1"
  shows "topmost V s (drop_layer k fs) sector j = (let t = topmost V s fs sector (Suc j) in
    if k < t then t - 1 else if t < k then t else topmost V s fs sector (k - 1))"
  using assms(3,4) unfolding Let_def
proof (induction j rule: dec_induct)
  case base
  show ?case
  proof (cases "k = 1")
    case True
    then show ?thesis by simp
  next
    case False
    then obtain m where m: "k = Suc m" "0 < m" using assms(1) by (cases k) auto
    have b: "topmost V s fs sector m \<le> m" using topmost_bounds(2) [of V s fs sector m] m by simp
    show ?thesis
      using topmost_below [of k fs m V s sector] m base assms(2) b
      by (auto simp: has_sector_def nth_drop_layer)
  qed
next
  case (step j)
  have "has_sector V s (drop_layer k fs) sector (Suc j) = has_sector V s fs sector (Suc (Suc j))"
    using step assms(1,2) by (simp add: has_sector_def nth_drop_layer)
  then show ?case using step assms(1) by auto
qed

lemma layer_of_drop_layer:
  assumes "1 \<le> k" "Suc k < length fs"
  shows "layer_of V s (drop_layer k fs) sector = (let t = layer_of V s fs sector in
    if k < t then t - 1 else if t < k then t else topmost V s fs sector (k - 1))"
  using topmost_drop_layer [of k fs "length fs - 2" V s sector] assms
  by (simp add: layer_of_def Suc_diff_Suc numeral_2_eq_2)

lemma dec8: "0 < l \<Longrightarrow> unat (l - 1 :: 8 word) = unat l - 1"
  by (simp add: unat_minus_one unat_gt_0 word_neq_0_conv)

definition relocate :: "8 word \<Rightarrow> 8 word \<Rightarrow> 8 word" where
  "relocate k l = (if l = k then 0 else if l > k then l - 1 else l)"

lemma relocate_cases:
  assumes "0 < k" "k < 256"
  shows "unat (relocate (of_nat k) l) = (if unat l = k then 0 else if k < unat l then unat l - 1 else unat l)"
proof -
  have k: "unat (of_nat k :: 8 word) = k" using assms by (simp add: unat_of_nat8)
  have "l = of_nat k \<longleftrightarrow> unat l = k" using k by (simp add: word_unat_eq_iff)
  moreover have "of_nat k < l \<longleftrightarrow> k < unat l" using k by (simp add: word_less_nat_alt)
  moreover have "unat (l - 1) = unat l - 1" if "k < unat l"
    using that by (intro dec8) (simp add: word_less_nat_alt)
  ultimately show ?thesis by (simp add: relocate_def)
qed

text \<open>
  What a chain looks like after its layer \<open>k\<close> is gone: the sectors of that layer are resolved
  again among the remaining ones, every other sector is read from the file it was read from.
\<close>

definition remove_effect ::
  "('h, 's) layer_view \<Rightarrow> 's \<Rightarrow> 'h diffDisk \<Rightarrow> nat \<Rightarrow> 's \<Rightarrow> 'h diffDisk \<Rightarrow> bool" where
  "remove_effect V s d k s' d' \<longleftrightarrow>
     dd_wf V s' d' \<and> files d' = drop_layer k (files d) \<and> length (location d') = length (location d) \<and>
     (coherent V s d \<longrightarrow> coherent V s' d') \<and>
     (\<forall>p < vol_size V d. vol_byte V s' d' p =
        (if holder V s d (p div v_bs V) \<noteq> k then vol_byte V s d p
         else layer_byte V s (files d') (layer_of V s (files d') (p div v_bs V)) p))"

lemma files_unaffected:
  assumes "\<And>h. Some h \<in> set fs \<Longrightarrow>
     v_size V s' h = v_size V s h \<and> v_data V s' h = v_data V s h \<and> v_alloc V s' h = v_alloc V s h"
  shows "k < length fs \<Longrightarrow> layer_byte V s' fs k p = layer_byte V s fs k p"
    and "k < length fs \<Longrightarrow> layer_size V s' fs k = layer_size V s fs k"
    and "k < length fs \<Longrightarrow> has_sector V s' fs sector k = has_sector V s fs sector k"
    and "2 \<le> length fs \<Longrightarrow> layer_of V s' fs sector = layer_of V s fs sector"
proof -
  have k: "Some h \<in> set fs" if "k < length fs" "fs ! k = Some h" for k h using that by (metis nth_mem)
  show "k < length fs \<Longrightarrow> layer_byte V s' fs k p = layer_byte V s fs k p"
    and "k < length fs \<Longrightarrow> layer_size V s' fs k = layer_size V s fs k"
    and hs: "k < length fs \<Longrightarrow> has_sector V s' fs sector k = has_sector V s fs sector k" for k
    using assms k by (auto simp: layer_byte_def layer_size_def has_sector_def split: option.split)
  show "2 \<le> length fs \<Longrightarrow> layer_of V s' fs sector = layer_of V s fs sector"
    unfolding layer_of_def by (intro topmost_cong hs) auto
qed

lemma set_drop_layer: "set (drop_layer k fs) \<subseteq> set fs"
  by (auto simp: drop_layer_def dest: in_set_takeD in_set_dropD)

lemma distinct_drop_layer: "distinct fs \<Longrightarrow> distinct (drop_layer k fs)"
  by (auto simp: drop_layer_def dest: distinct_take distinct_drop set_take_disj_set_drop_if_distinct [of fs k "Suc k"])

lemma drop_layer_omits:
  assumes "distinct fs" "k < length fs"
  shows "fs ! k \<notin> set (drop_layer k fs)"
proof
  assume "fs ! k \<in> set (drop_layer k fs)"
  then obtain j where "j < length fs - 1" "drop_layer k fs ! j = fs ! k"
    using assms(2) by (metis in_set_conv_nth length_drop_layer)
  then show False using assms by (auto simp: nth_drop_layer nth_eq_iff_index_eq split: if_splits)
qed

context disk_layer
begin

lemma relocated_holder:
  assumes wf: "dd_wf V s d" and k: "1 \<le> k" "Suc k < length (files d)" and i: "i < length (location d)"
    and d': "d' = d\<lparr>location := map (relocate (of_nat k)) (location d), files := drop_layer k (files d)\<rparr>"
  shows "holder V s d' i = (if holder V s d i = k then layer_of V s (files d') i
    else if k < holder V s d i then holder V s d i - 1 else holder V s d i)"
proof -
  let ?l = "location d ! i"
  have k256: "k < 256" using k dd_wfD(4) [OF wf] by simp
  have rl: "unat (relocate (of_nat k) ?l) = (if unat ?l = k then 0 else if k < unat ?l then unat ?l - 1 else unat ?l)"
    using relocate_cases k k256 by simp
  have nz: "relocate (of_nat k) ?l \<noteq> 0 \<longleftrightarrow> unat (relocate (of_nat k) ?l) \<noteq> 0" by (simp add: unat_eq_0)
  show ?thesis
  proof (cases "?l = 0")
    case True
    then show ?thesis using layer_of_drop_layer [OF k, of V s i] i rl nz k(1) by (auto simp: d' holder_def Let_def)
  next
    case False
    then have "unat ?l \<noteq> 0" by (simp add: unat_eq_0)
    then show ?thesis using False i rl nz k(1) by (auto simp: d' holder_def)
  qed
qed

lemma relocated_wf:
  assumes wf: "dd_wf V s d" and k: "1 \<le> k" "Suc k < length (files d)"
    and d': "d' = d\<lparr>location := map (relocate (of_nat k)) (location d), files := drop_layer k (files d)\<rparr>"
  shows "dd_wf V s d'"
proof -
  have kl: "k < length (files d)" "k < 256" using k dd_wfD(4) [OF wf] by simp_all
  have live: "\<exists>h. drop_layer k (files d) ! j = Some h \<and> v_live V s h" if "1 \<le> j" "j < length (files d) - 1" for j
    using that wf kl(1) unfolding dd_wf_def by (auto simp: nth_drop_layer)
  have "unat (relocate (of_nat k) l) < length (files d) - 1" if "l \<in> set (location d)" for l
    using that wf k kl(2) unfolding dd_wf_def by (subst relocate_cases) auto
  moreover have "drop_layer k (files d) ! (length (files d) - 1 - 1) = files d ! (length (files d) - 1)"
    using nth_drop_layer [of k "files d" "length (files d) - 1 - 1"] k by (auto simp: Suc_diff_Suc)
  then have "layer_size V s (drop_layer k (files d)) (length (files d) - 1 - 1) = vol_size V d"
    using dd_wfD(6) [OF wf] by (simp add: layer_size_def)
  ultimately show ?thesis
    using dd_wfD [OF wf] k kl(1) live distinct_drop_layer by (auto simp: d' dd_wf_def)
qed

lemma dd_wf_store:
  assumes "dd_wf V s d" "\<And>h. Some h \<in> set (files d) \<Longrightarrow> v_live V s' h = v_live V s h \<and> v_size V s' h = v_size V s h"
  shows "dd_wf V s' d"
proof -
  have mem: "Some h \<in> set (files d)" if "files d ! k = Some h" "k < length (files d)" for k h using that by (metis nth_mem)
  have "\<exists>h. files d ! k = Some h \<and> v_live V s' h" if "1 \<le> k" "k < length (files d)" for k
    using dd_wf_file [OF assms(1) that] assms(2) mem that(2) by metis
  moreover have "layer_size V s' (files d) (length (files d) - 1) = layer_size V s (files d) (length (files d) - 1)"
    using assms(2) mem dd_wfD(3) [OF assms(1)] by (auto simp: layer_size_def split: option.split)
  ultimately show ?thesis using assms(1) by (auto simp: dd_wf_def)
qed

theorem RemoveIndex_effect:
  assumes wf: "dd_wf V s d" and k: "1 \<le> k" "Suc k < length (files d)"
  shows "\<exists>s' d'. RemoveIndex ops d (int k) s = Some (None, d', s') \<and> remove_effect V s d k s' d'"
proof -
  obtain h where h: "files d ! k = Some h" "v_live V s h" "file_at d (int k) = Some h"
    using dd_wf_file [OF wf, of k] k by auto
  obtain s' where s': "op_Close ops h s = (None, s')" "\<And>h'. h' \<noteq> h \<Longrightarrow> v_live V s' h' = v_live V s h' \<and>
      v_size V s' h' = v_size V s h' \<and> v_data V s' h' = v_data V s h' \<and> v_alloc V s' h' = v_alloc V s h'"
    using close_law [OF h(2)] by auto
  define d' where "d' = d\<lparr>location := map (relocate (of_nat k)) (location d), files := drop_layer k (files d)\<rparr>"
  have rm: "RemoveIndex ops d (int k) s = Some (None, d', s')"
    using h(3) s'(1) by (simp add: RemoveIndex_def d'_def relocate_def [abs_def] drop_layer_def)
  let ?fs = "drop_layer k (files d)"
  have kl: "k < length (files d)" "length ?fs = length (files d) - 1" using k by simp_all
  have other: "h' \<noteq> h" if "Some h' \<in> set ?fs" for h'
    using drop_layer_omits [OF dd_wfD(5) [OF wf] kl(1)] h(1) that by auto
  note same = files_unaffected [of ?fs V s' s, OF s'(2) [OF other, THEN conjunct2]]
  have fd: "files d' = ?fs" "length (location d') = length (location d)" by (simp_all add: d'_def)
  have lof: "layer_of V s' ?fs i = layer_of V s ?fs i" for i using same(4) kl k by simp
  have wf': "dd_wf V s d'" using relocated_wf [OF wf k d'_def] .
  have wf'': "dd_wf V s' d'" by (rule dd_wf_store [OF wf']) (use s'(2) other in \<open>simp add: fd\<close>)
  have hold: "holder V s' d' i = (if holder V s d i = k then layer_of V s ?fs i
      else if k < holder V s d i then holder V s d i - 1 else holder V s d i)" if "i < length (location d)" for i
  proof -
    have "holder V s' d' i = holder V s d' i" by (simp add: holder_def fd lof)
    then show ?thesis using relocated_holder [OF wf k that d'_def] by (simp only: fd)
  qed
  have "coherent V s' d'" if co: "coherent V s d"
    unfolding coherent_def
  proof (intro allI impI)
    fix i assume "i < length (location d')"
    then have i: "i < length (location d)" by (simp add: fd)
    then have "holder V s d i = layer_of V s (files d) i" using co by (auto simp: coherent_def holder_def)
    then have "holder V s' d' i = layer_of V s' ?fs i"
      using hold [OF i] layer_of_drop_layer [OF k, of V s i] lof by (auto simp: Let_def)
    then show "location d' ! i = 0 \<or> unat (location d' ! i) = layer_of V s' (files d') i"
      by (auto simp: holder_def fd split: if_splits)
  qed
  moreover have "vol_byte V s' d' p = (if holder V s d (p div v_bs V) \<noteq> k then vol_byte V s d p
         else layer_byte V s ?fs (layer_of V s ?fs (p div v_bs V)) p)" if p: "p < vol_size V d" for p
  proof -
    have i: "p div v_bs V < length (location d)" using p by (rule less_mult_imp_div_less)
    have b: "holder V s' d' (p div v_bs V) < length (files d) - 1" "holder V s d (p div v_bs V) < length (files d)"
      using holder_bounds(2) [OF wf''] holder_bounds(2) [OF wf] i fd kl by auto
    show ?thesis
      using hold [OF i] same(1) b kl by (auto simp: vol_byte_def fd layer_byte_def nth_drop_layer split: if_splits)
  qed
  ultimately show ?thesis using rm wf'' fd by (auto simp: remove_effect_def)
qed

text \<open>Removing a layer from which nothing is read leaves the volume as it is.\<close>

corollary RemoveIndex_unused:
  assumes "dd_wf V s d" "1 \<le> k" "Suc k < length (files d)"
    and "\<forall>i < length (location d). holder V s d i \<noteq> k"
  shows "\<exists>s' d'. RemoveIndex ops d (int k) s = Some (None, d', s') \<and> dd_wf V s' d' \<and>
    vol_range V s' d' 0 (vol_size V d) = vol_range V s d 0 (vol_size V d)"
proof -
  obtain s' d' where rm: "RemoveIndex ops d (int k) s = Some (None, d', s')" "remove_effect V s d k s' d'"
    using RemoveIndex_effect [OF assms(1-3)] by blast
  have "vol_range V s' d' 0 (vol_size V d) = vol_range V s d 0 (vol_size V d)"
    using rm(2) assms(4) by (intro list_eq_pointwise) (auto simp: remove_effect_def less_mult_imp_div_less)
  then show ?thesis using rm by (auto simp: remove_effect_def)
qed

end

section \<open>A new head\<close>

text \<open>Appending an empty file of the volume's size as the new head keeps the volume.\<close>

definition push_head :: "'h diffDisk \<Rightarrow> 'h \<Rightarrow> 'h diffDisk" where
  "push_head d h = d\<lparr>files := files d @ [Some h]\<rparr>"

lemma push_head_effect:
  assumes wf: "dd_wf V s d" and len: "length (files d) < 256"
    and h: "v_live V s h" "Some h \<notin> set (files d)" "\<And>b. \<not> v_alloc V s h b" "v_size V s h = vol_size V d"
  shows "dd_wf V s (push_head d h)" "i < length (location d) \<Longrightarrow> holder V s (push_head d h) i = holder V s d i"
    "p < vol_size V d \<Longrightarrow> vol_byte V s (push_head d h) p = vol_byte V s d p"
    "coherent V s d \<Longrightarrow> coherent V s (push_head d h)"
proof -
  let ?fs = "files d @ [Some h]"
  have n: "2 \<le> length (files d)" using dd_wfD(3) [OF wf] .
  have lof: "layer_of V s ?fs i = layer_of V s (files d) i" for i
  proof -
    have "topmost V s ?fs i (length (files d) - 1) = topmost V s (files d) i (length (files d) - 1)"
      by (intro topmost_cong) (auto simp: has_sector_def nth_append)
    moreover have "topmost V s ?fs i (length (files d)) = topmost V s ?fs i (length (files d) - 1)"
      using n h(3) by (cases "length (files d)") (auto simp: has_sector_def nth_append)
    ultimately show ?thesis by (simp add: layer_of_def)
  qed
  have live: "\<exists>h'. ?fs ! k = Some h' \<and> v_live V s h'" if "1 \<le> k" "k \<le> length (files d)" for k
    using that wf h(1) unfolding dd_wf_def by (cases "k = length (files d)") (auto simp: nth_append)
  have locs: "\<forall>l \<in> set (location d). unat l < Suc (length (files d))"
    using wf by (auto simp: dd_wf_def)
  show "dd_wf V s (push_head d h)"
    using dd_wfD [OF wf] len h live locs by (auto simp: dd_wf_def push_head_def layer_size_def nth_append)
  show hold: "holder V s (push_head d h) i = holder V s d i" if "i < length (location d)" for i
    by (simp add: holder_def push_head_def lof)
  show "vol_byte V s (push_head d h) p = vol_byte V s d p" if "p < vol_size V d"
    using hold [of "p div v_bs V"] holder_bounds(2) [OF wf, of "p div v_bs V"] that
    by (simp add: vol_byte_def layer_byte_def push_head_def nth_append less_mult_imp_div_less)
  show "coherent V s d \<Longrightarrow> coherent V s (push_head d h)"
    by (simp add: coherent_def push_head_def lof)
qed

section \<open>Expansion\<close>

lemma Expand_grow:
  assumes "0 < v_bs V" "sectorSize d = int (v_bs V)" "length (location d) \<le> m"
  shows "Expand d (int (m * v_bs V)) =
    Some (d\<lparr>location := location d @ replicate (m - length (location d)) 0, dd_size := int (m * v_bs V)\<rparr>)"
  using assms by (simp add: Expand_def go_int_simps)

lemma Expand_shrink_panics:
  assumes "0 < v_bs V" "sectorSize d = int (v_bs V)" "m < length (location d)"
  shows "Expand d (int (m * v_bs V)) = None"
  using assms by (simp add: Expand_def go_int_simps)

end
