(* ===== verification/Diff_Disk_Preload.thy ===== *)
theory Diff_Disk_Preload
  imports Diff_Disk_Chain
begin

text \<open>
  The location table that LoadDiffDiskLocationList and preload build from the extent maps is the
  one that the lookups would build sector by sector.
\<close>

definition mark_layer :: "('h, 's) layer_view \<Rightarrow> 's \<Rightarrow> 'h \<Rightarrow> 8 word \<Rightarrow> 8 word list \<Rightarrow> 8 word list" where
  "mark_layer V s h idx loc = map (\<lambda>x. if v_alloc V s h x then idx else loc ! x) [0 ..< length loc]"

lemma length_mark_layer [simp]: "length (mark_layer V s h idx loc) = length loc"
  by (simp add: mark_layer_def)

lemma nth_mark_layer [simp]:
  "x < length loc \<Longrightarrow> mark_layer V s h idx loc ! x = (if v_alloc V s h x then idx else loc ! x)"
  by (simp add: mark_layer_def)

lemma mark_extent_blocks:
  assumes "0 < bs" "j \<le> c" "a + c \<le> length loc"
  shows "mark_extent (int bs) (int (a * bs)) (int (c * bs)) idx (int (j * bs)) loc =
    Some (map (\<lambda>x. if a + j \<le> x \<and> x < a + c then idx else loc ! x) [0 ..< length loc])"
  using assms(2,3)
proof (induction "c - j" arbitrary: j loc)
  case 0
  then show ?case by (subst mark_extent.simps) (auto intro!: nth_equalityI)
next
  case (Suc n)
  then have j: "j < c" by simp
  then have "int (j * bs) < int (c * bs)" using assms(1) by (simp only: of_nat_less_iff) simp
  moreover have "(int (a * bs) + int (j * bs)) sdiv int bs = int (a + j)"
    using assms(1) by (simp add: go_int_simps flip: of_nat_add add_mult_distrib)
  moreover have step: "int (j * bs) + int bs = int (Suc j * bs)" by simp
  moreover have meq: "map (\<lambda>x. if a + Suc j \<le> x \<and> x < a + c then idx else loc[a + j := idx] ! x) [0 ..< length loc] =
      map (\<lambda>x. if a + j \<le> x \<and> x < a + c then idx else loc ! x) [0 ..< length loc]"
    using j by (auto simp: nth_list_update)
  have "n = c - Suc j" "Suc j \<le> c" "a + c \<le> length (loc[a + j := idx])"
    using Suc.hyps(2) Suc.prems j by simp_all
  note ih = Suc.hyps(1) [OF this, unfolded length_list_update meq]
  have "assign loc (int (a + j)) idx = Some (loc[a + j := idx])" using Suc.prems j by (intro assign_nat) simp
  ultimately show ?case
    using ih by (subst mark_extent.simps) (simp del: of_nat_mult of_nat_add mult_Suc assign_nat)
qed

lemma mark_extents_blocks:
  assumes "0 < bs" "\<forall>e \<in> set es. extent_aligned bs e \<and> extent_blocks bs e \<subseteq> {..< length loc}"
    and "\<forall>k < length es. Extent_Last (es ! k) \<longrightarrow> Suc k = length es"
  shows "mark_extents (int bs) idx es loc = Some (es \<noteq> [] \<and> Extent_Last (last es),
    map (\<lambda>x. if \<exists>e \<in> set es. x \<in> extent_blocks bs e then idx else loc ! x) [0 ..< length loc])"
  using assms(2,3)
proof (induction es arbitrary: loc)
  case Nil
  then show ?case by (simp add: map_nth)
next
  case (Cons e es)
  obtain a c where ac: "Logical e = int (a * bs)" "Length e = int (c * bs)" "0 < c"
  proof -
    have "0 \<le> Logical e" "0 < Length e" "int bs dvd Logical e" "int bs dvd Length e"
      using Cons.prems(1) by (auto simp: extent_aligned_def)
    then obtain x y where xy: "Logical e = int bs * x" "Length e = int bs * y" by (auto elim!: dvdE)
    then have "0 \<le> x" "0 < y" using \<open>0 \<le> Logical e\<close> \<open>0 < Length e\<close> assms(1)
      by (simp_all add: zero_le_mult_iff zero_less_mult_iff)
    then show ?thesis using that [of "nat x" "nat y"] xy by (simp add: mult.commute)
  qed
  have eb: "extent_blocks bs e = {a ..< a + c}"
    using assms(1) by (simp add: extent_blocks_def ac nat_int flip: of_nat_add add_mult_distrib del: of_nat_mult)
  then have "a + c \<le> length loc" using Cons.prems(1) ac(3) by (auto simp: subset_iff dest: spec [of _ "a + c - 1"])
  then have me: "mark_extent (int bs) (Logical e) (Length e) idx 0 loc =
      Some (map (\<lambda>x. if x \<in> extent_blocks bs e then idx else loc ! x) [0 ..< length loc])"
    using mark_extent_blocks [OF assms(1), of 0 c a loc idx] by (simp add: ac eb)
  show ?case
  proof (cases "Extent_Last e")
    case True
    then have "es = []" using Cons.prems(2) by auto
    then show ?thesis using True me by simp
  next
    case False
    have "\<forall>k < length es. Extent_Last (es ! k) \<longrightarrow> Suc k = length es" using Cons.prems(2) by auto
    then show ?thesis using Cons.IH Cons.prems(1) False me by (auto simp: split: if_splits)
  qed
qed

lemma fiemap_reply_marks:
  assumes reply: "fiemap_reply V s h (st * bs) len es" and ne: "es \<noteq> []" and bs: "0 < bs" "v_bs V = bs"
    and al: "\<And>x. v_alloc V s h x \<Longrightarrow> x < length loc" and pre: "\<forall>x < st. v_alloc V s h x \<longrightarrow> loc ! x = idx"
  obtains en loc' where "extent_end (last es) = int (en * bs)" "st < en" "en \<le> length loc"
    "mark_extents (int bs) idx es loc = Some (Extent_Last (last es), loc')" "length loc' = length loc"
    "\<And>x. x < length loc \<Longrightarrow> loc' ! x = idx \<or> loc' ! x = loc ! x"
    "\<And>x. x < length loc \<Longrightarrow> \<not> v_alloc V s h x \<Longrightarrow> loc' ! x = loc ! x"
    "\<And>x. x < en \<Longrightarrow> v_alloc V s h x \<Longrightarrow> loc' ! x = idx"
    "\<And>x. Extent_Last (last es) \<Longrightarrow> v_alloc V s h x \<Longrightarrow> x < en"
proof -
  have ext: "extent_aligned bs e" "\<forall>b \<in> extent_blocks bs e. v_alloc V s h b" if "e \<in> set es" for e
    using reply that unfolding fiemap_reply_def bs by auto
  have last: "last es \<in> set es" using ne by simp
  obtain a c where ac: "Logical (last es) = int a" "Length (last es) = int c" "bs dvd a" "bs dvd c" "0 < c"
    using ext(1) [OF last] unfolding extent_aligned_def
    by (metis int_dvd_int_iff nat_0_le nat_int of_nat_0_less_iff less_imp_le)
  define en where "en = (a + c) div bs"
  have "en * bs = a + c" using ac(3,4) by (simp only: en_def dvd_div_mult_self dvd_add)
  then have en: "extent_end (last es) = int (en * bs)" using ac by (simp add: extent_end_def del: of_nat_mult)
  have "en - 1 \<in> extent_blocks bs (last es)"
  proof -
    have "a div bs < (a + c) div bs" using ac bs(1) by (metis add_cancel_right_right dvd_add dvd_div_mult_self
      div_le_mono le_add1 le_neq_implies_less neq0_conv)
    then show ?thesis by (auto simp: extent_blocks_def ac en_def nat_int_add)
  qed
  then have en1: "en \<le> length loc" using ext(2) [OF last] al [of "en - 1"] by fastforce
  have "int (st * bs) < int (en * bs)" using reply ne en unfolding fiemap_reply_def by simp
  then have st: "st < en" by (simp only: of_nat_less_iff mult_less_cancel2)
  define loc' where "loc' = map (\<lambda>x. if \<exists>e \<in> set es. x \<in> extent_blocks bs e then idx else loc ! x) [0 ..< length loc]"
  have me: "mark_extents (int bs) idx es loc = Some (Extent_Last (last es), loc')"
  proof -
    have "\<forall>e \<in> set es. extent_aligned bs e \<and> extent_blocks bs e \<subseteq> {..< length loc}" using ext al by blast
    moreover have "\<forall>k < length es. Extent_Last (es ! k) \<longrightarrow> Suc k = length es" using reply unfolding fiemap_reply_def by blast
    ultimately show ?thesis using mark_extents_blocks [OF bs(1)] ne by (simp add: loc'_def)
  qed
  have mk: "loc' ! x = idx" if "x < en" "v_alloc V s h x" for x
  proof (cases "x < st")
    case True
    then show ?thesis using pre that al [OF that(2)] by (simp add: loc'_def)
  next
    case False
    have "st * bs \<le> x * bs" "int (x * bs) < extent_end (last es)"
      using False en that(1) bs(1) by (simp_all only: en of_nat_less_iff mult_less_cancel2 mult_le_mono1 not_less)
    then have "\<exists>e \<in> set es. x \<in> extent_blocks bs e"
      using reply ne that(2) unfolding fiemap_reply_def bs by blast
    then show ?thesis using al [OF that(2)] by (simp add: loc'_def)
  qed
  have fin: "x < en" if "Extent_Last (last es)" "v_alloc V s h x" for x
  proof -
    have "int (x * bs) < extent_end (es ! (length es - 1))"
      using reply that ne unfolding fiemap_reply_def bs by (simp add: last_conv_nth)
    then show ?thesis using en ne by (simp add: last_conv_nth del: of_nat_mult)
  qed
  show ?thesis
    by (rule that [OF en st en1 me _ _ _ mk fin]) (use ext(2) in \<open>auto simp: loc'_def\<close>)
qed

definition marks :: "('h, 's) layer_view \<Rightarrow> 's \<Rightarrow> 'h option list \<Rightarrow> nat list \<Rightarrow> 8 word list \<Rightarrow> 8 word list" where
  "marks V s fs ks loc = foldl (\<lambda>loc k. mark_layer V s (the (fs ! k)) (of_nat k) loc) loc ks"

lemma length_marks [simp]: "length (marks V s fs ks loc) = length loc"
  by (induction ks arbitrary: loc) (simp_all add: marks_def)

text \<open>Marking the layers from index 2 on finds the newest layer that has the sector.\<close>

lemma marks_topmost:
  assumes "2 \<le> n" "x < length loc" "\<And>k. 2 \<le> k \<Longrightarrow> k < n \<Longrightarrow> fs ! k \<noteq> None"
  shows "marks V s fs [2 ..< n] loc ! x =
    (if 1 < topmost V s fs x (n - 1) then of_nat (topmost V s fs x (n - 1)) else loc ! x)"
  using assms(1,3)
proof (induction n rule: dec_induct)
  case base
  then show ?case by (simp add: marks_def)
next
  case (step n)
  obtain m where m: "n = Suc m" "0 < m" using step.hyps(1) by (cases n) auto
  obtain h where h: "fs ! n = Some h" using step.prems [of n] step.hyps by auto
  have "marks V s fs [2 ..< Suc n] loc = mark_layer V s h (of_nat n) (marks V s fs [2 ..< n] loc)"
    using step.hyps(1) h by (simp add: marks_def)
  then show ?case using step assms(2) m h by (auto simp: has_sector_def)
qed

text \<open>The layers exist, are open, and none is longer than the volume.\<close>

definition chain_ok :: "('h, 's) layer_view \<Rightarrow> 's \<Rightarrow> 'h diffDisk \<Rightarrow> bool" where
  "chain_ok V s d \<longleftrightarrow>
     (\<forall>k \<in> {1 ..< length (files d)}. \<exists>h. files d ! k = Some h \<and> v_live V s h \<and> v_size V s h \<le> vol_size V d)"

context disk_layer
begin

lemma load_loop_marks:
  assumes h: "v_live V s h" "v_size V s h \<le> N * v_bs V" and N: "N * v_bs V < 2 ^ 64"
    and "length loc = N" "st \<le> N" "\<forall>x < st. v_alloc V s h x \<longrightarrow> loc ! x = idx"
  shows "load_loop ops (int (v_bs V)) h idx (int (N * v_bs V)) s (int (st * v_bs V)) loc =
    Some (None, mark_layer V s h idx loc)"
  using assms(4-)
proof (induction "N - st" arbitrary: st loc rule: less_induct)
  case less
  define bs where "bs = v_bs V"
  have bs: "0 < bs" using bs_pos by (simp add: bs_def)
  have al: "x < N" if "v_alloc V s h x" for x
  proof -
    have "x * bs < N * bs" using less_le_trans [OF alloc_inside [OF h(1) that] h(2)] by (simp only: bs_def)
    then show ?thesis by simp
  qed
  have le: "st * bs \<le> N * bs" using less.prems(2) by simp
  have len: "(int (N * bs) - int (st * bs)) mod 2 ^ 64 = int (N * bs - st * bs)"
  proof -
    have "int (N * bs) - int (st * bs) = int (N * bs - st * bs)" using le by (rule of_nat_diff [symmetric])
    moreover have "int (N * bs - st * bs) < 2 ^ 64" 
    proof -
      have "N * bs - st * bs < 2 ^ 64" using N unfolding bs_def by (rule le_less_trans [OF diff_le_self])
      then have "int (N * bs - st * bs) < int (2 ^ 64)" by (simp only: of_nat_less_iff)
      then show ?thesis by simp
    qed
    ultimately show ?thesis by (simp only: mod_pos_pos_trivial of_nat_0_le_iff)
  qed
  obtain es where es: "op_Fiemap ops h (int (st * bs)) (int (N * bs - st * bs)) MaxExtentsBuffer s = (es, None)"
    and reply: "fiemap_reply V s h (st * bs) (N * bs - st * bs) es"
    using fiemap_law [OF h(1), of MaxExtentsBuffer "st * bs" "N * bs - st * bs"]
    by (auto simp: MaxExtentsBuffer_def simp del: of_nat_mult)
  show ?case
  proof (cases "es = []")
    case True
    then have none: "\<not> (st * bs < Suc x * bs \<and> x * bs < N * bs)" if "v_alloc V s h x" for x
      using reply le that unfolding fiemap_reply_def by (auto simp flip: bs_def)
    have "x < st" if "v_alloc V s h x" for x
      using none [OF that] al [OF that] bs by (simp only: mult_less_cancel2) auto
    then have "mark_layer V s h idx loc = loc" using less.prems by (intro list_eq_pointwise) auto
    then show ?thesis using True es len by (subst load_loop.simps) (simp del: of_nat_mult flip: bs_def)
  next
    case False
    obtain en loc' where m: "extent_end (last es) = int (en * bs)" "st < en" "en \<le> length loc"
      "mark_extents (int bs) idx es loc = Some (Extent_Last (last es), loc')" "length loc' = length loc"
      "\<And>x. x < length loc \<Longrightarrow> loc' ! x = idx \<or> loc' ! x = loc ! x"
      "\<And>x. x < length loc \<Longrightarrow> \<not> v_alloc V s h x \<Longrightarrow> loc' ! x = loc ! x"
      "\<And>x. x < en \<Longrightarrow> v_alloc V s h x \<Longrightarrow> loc' ! x = idx"
      "\<And>x. Extent_Last (last es) \<Longrightarrow> v_alloc V s h x \<Longrightarrow> x < en"
      using fiemap_reply_marks [OF reply False bs bs_def [symmetric], of loc idx] al less.prems by blast
    have eq: "mark_layer V s h idx loc' = mark_layer V s h idx loc"
      using m(5,7) by (intro list_eq_pointwise) auto
    show ?thesis
    proof (cases "Extent_Last (last es)")
      case True
      then have "mark_layer V s h idx loc = loc'"
        using m(5,7,8,9) by (intro list_eq_pointwise) auto
      then show ?thesis using True False es len m(4) by (subst load_loop.simps) (simp del: of_nat_mult flip: bs_def)
    next
      case notlast: False
      have "load_loop ops (int bs) h idx (int (N * bs)) s (int (en * bs)) loc' = Some (None, mark_layer V s h idx loc')"
        using less.hyps [of en loc'] m less.prems by (simp add: bs_def del: of_nat_mult)
      then show ?thesis using False notlast es len m(1,4) eq
        by (subst load_loop.simps) (simp del: of_nat_mult flip: bs_def)
    qed
  qed
qed

lemma LoadDiffDiskLocationList_marks:
  assumes "v_live V s h" "v_size V s h \<le> vol_size V d" "vol_size V d < 2 ^ 64" "sectorSize d = int (v_bs V)"
  shows "LoadDiffDiskLocationList ops d h idx s = Some (None, d\<lparr>location := mark_layer V s h idx (location d)\<rparr>)"
  using load_loop_marks [OF assms(1-3) refl, of 0 idx] assms(4)
  by (simp add: LoadDiffDiskLocationList_def)

lemma preload_loop_marks:
  assumes "sectorSize d = int (v_bs V)" "vol_size V d < 2 ^ 64" "chain_ok V s d"
    and "i < length (files d)" "1 \<le> i" "bk \<longrightarrow> 2 \<le> i"
  shows "preload_loop ops bk s [i ..< length (files d)] d =
    Some (None, d\<lparr>location := marks V s (files d) [i ..< length (files d)] (location d),
      dd_size := int (layer_size V s (files d) (length (files d) - 1))\<rparr>)"
  using assms
proof (induction "length (files d) - i" arbitrary: i d)
  case 0
  then show ?case by simp
next
  case (Suc n)
  let ?N = "length (files d)"
  obtain h where h: "files d ! i = Some h" "v_live V s h" "v_size V s h \<le> vol_size V d"
    using Suc.prems(3-5) unfolding chain_ok_def by (metis atLeastLessThan_iff)
  have fa: "file_at d (int i) = Some h" using h(1) Suc.prems(4) by (simp add: file_at_def)
  have ks: "[i ..< ?N] = i # [Suc i ..< ?N]" using Suc.prems(4) by (rule upt_conv_Cons)
  let ?d = "d\<lparr>location := mark_layer V s h (of_nat i) (location d)\<rparr>"
  have load: "LoadDiffDiskLocationList ops d h (of_nat i) s = Some (None, ?d)"
    using LoadDiffDiskLocationList_marks [OF h(2,3) Suc.prems(2,1)] .
  have mk: "marks V s (files d) [i ..< ?N] (location d) = marks V s (files d) [Suc i ..< ?N] (location ?d)"
    by (simp add: ks marks_def h(1))
  have nsk: "\<not> (i = 0 \<or> i = 1 \<and> bk)" using Suc.prems(5,6) by auto
  show ?case
  proof (cases "i = ?N - 1")
    case True
    have "[Suc i ..< ?N] = []" using True by simp
    then have ks1: "[i ..< ?N] = [i]" using ks by simp
    show ?thesis
      using fa load size_law [OF h(2)] nsk h(1)
      by (auto simp: ks1 marks_def layer_size_def True [symmetric, unfolded One_nat_def])
  next
    case False
    then have "Suc i < ?N" using Suc.prems(4) by simp
    then have "preload_loop ops bk s [Suc i ..< ?N] ?d = Some (None, ?d\<lparr>location := marks V s (files d) [Suc i ..< ?N] (location ?d),
      dd_size := int (layer_size V s (files d) (?N - 1))\<rparr>)"
      using Suc.hyps(1) [of ?d "Suc i"] Suc.hyps(2) Suc.prems by (auto simp: chain_ok_def)
    then show ?thesis using False fa load mk nsk by (auto simp: ks)
  qed
qed

lemma preloaded_coherent:
  assumes wf: "dd_wf V s d" and len: "length base = length (location d)" and base: "\<And>l. l \<in> set base \<Longrightarrow> l = 0 \<or> l = 1"
    and d': "d' = d\<lparr>location := marks V s (files d) [2 ..< length (files d)] base\<rparr>"
  shows "dd_wf V s d'" "coherent V s d'" "i < length (location d) \<Longrightarrow> holder V s d' i = layer_of V s (files d) i"
proof -
  have N: "2 \<le> length (files d)" "length (files d) \<le> 256" using dd_wfD(3,4) [OF wf] .
  have files: "files d ! k \<noteq> None" if "2 \<le> k" "k < length (files d)" for k
    using dd_wf_file [OF wf, of k] that by fastforce
  have loc: "unat (location d' ! i) = layer_of V s (files d) i \<or>
      location d' ! i = 0 \<and> layer_of V s (files d) i = 1" if "i < length (location d)" for i
  proof -
    have lb: "1 \<le> layer_of V s (files d) i" "layer_of V s (files d) i < 256"
      using layer_of_bounds [OF N(1), of V s i] N(2) by auto
    have b: "base ! i = 0 \<or> base ! i = 1" using base that len by simp
    show ?thesis
      using marks_topmost [OF N(1), of i base "files d" V s] files that len lb b
      by (auto simp: d' layer_of_def unat_of_nat8)
  qed
  show hold: "holder V s d' i = layer_of V s (files d) i" if "i < length (location d)" for i
    using loc [OF that] layer_of_bounds(1) [OF N(1), of V s i] by (auto simp: holder_def d')
  have len': "length (location d') = length (location d)" by (simp add: d' len)
  have "unat (location d' ! i) < length (files d)" if "i < length (location d)" for i
    using loc [OF that] layer_of_bounds(2) [OF N(1), of V s i] N(1) by auto
  then show "dd_wf V s d'" using wf len' by (auto simp: dd_wf_def d' in_set_conv_nth)
  show "coherent V s d'" using loc len' by (auto simp: coherent_def d')
qed

text \<open>
  Preload in the way the replica calls it, after initializeSectorLocation: with a backing file the
  table starts with 1 everywhere and layer 1 is skipped, without one it starts with 0.
\<close>

theorem preload_coherent:
  assumes wf: "dd_wf V s d" "chain_ok V s d" and sz: "vol_size V d < 2 ^ 64"
  shows "\<exists>d'. preload ops bk (initializeSectorLocation d (if bk then 1 else 0)) s = Some (None, d') \<and>
    files d' = files d \<and> dd_wf V s d' \<and> coherent V s d' \<and>
    (\<forall>i < length (location d). holder V s d' i = layer_of V s (files d) i)"
proof -
  let ?N = "length (files d)"
  define d0 where "d0 = initializeSectorLocation d (if bk then 1 else 0)"
  have d0: "sectorSize d0 = int (v_bs V)" "vol_size V d0 < 2 ^ 64" "chain_ok V s d0" "files d0 = files d"
    "d0\<lparr>location := L, dd_size := dd_size d\<rparr> = d\<lparr>location := L\<rparr>" "d0\<lparr>location := L\<rparr> = d\<lparr>location := L\<rparr>"
    "length (location d0) = length (location d)" "d0 = d\<lparr>location := location d0\<rparr>" for L
    using dd_wfD [OF wf(1)] wf(2) sz by (simp_all add: d0_def initializeSectorLocation_def chain_ok_def)
  have N: "2 \<le> ?N" using dd_wfD(3) [OF wf(1)] .
  have hs: "int (layer_size V s (files d) (?N - 1)) = dd_size d" using dd_wfD(2,6) [OF wf(1)] by simp
  obtain h1 where h1: "files d ! 1 = Some h1" using dd_wf_file [OF wf(1), of 1] N by auto
  have upt: "[0 ..< ?N] = 0 # 1 # [2 ..< ?N]" using N by (auto simp: upt_rec [of 0] upt_rec [of "Suc 0"] numeral_2_eq_2)
  define base where "base = (if bk then location d0 else mark_layer V s h1 1 (location d0))"
  have "preload ops bk d0 s = Some (None, d\<lparr>location := marks V s (files d) [2 ..< ?N] base\<rparr>)"
  proof (cases bk)
    case True
    then have "preload ops bk d0 s = preload_loop ops bk s [2 ..< ?N] d0"
      using d0(4) upt by (simp add: preload_def)
    moreover have "preload_loop ops bk s [2 ..< ?N] d0 = Some (None, d\<lparr>location := marks V s (files d) [2 ..< ?N] base\<rparr>)"
    proof (cases "?N = 2")
      case True
      then show ?thesis using d0(8) \<open>bk\<close> by (simp add: base_def marks_def)
    next
      case False
      then show ?thesis using preload_loop_marks [OF d0(1-3), of 2 bk] N True d0(4,5) hs by (simp add: base_def)
    qed
    ultimately show ?thesis by simp
  next
    case False
    then have "preload ops bk d0 s = preload_loop ops bk s [1 ..< ?N] d0"
      using d0(4) N by (auto simp: preload_def upt_rec [of 0])
    moreover have "marks V s (files d) [1 ..< ?N] (location d0) = marks V s (files d) [2 ..< ?N] base"
      using False N h1 by (simp add: base_def marks_def upt_rec [of "Suc 0"] numeral_2_eq_2)
    ultimately show ?thesis using preload_loop_marks [OF d0(1-3), of 1 bk] N False d0(4,5) hs by simp
  qed
  moreover have "length base = length (location d)" "\<And>l. l \<in> set base \<Longrightarrow> l = 0 \<or> l = 1"
    using d0(7) by (cases bk; auto simp: base_def mark_layer_def d0_def initializeSectorLocation_def)+
  ultimately show ?thesis
    using preloaded_coherent [OF wf(1) _ _ refl, of base] by (auto simp flip: d0_def)
qed

end

end
