(* ===== verification/Diff_Disk_Unmap.thy ===== *)
theory Diff_Disk_Unmap
  imports Diff_Disk_Chain
begin

text \<open>
  Unmapping: the 32-bit arithmetic of the aligned range, and what UnmapAt does to the layers and
  to the volume.
\<close>

section \<open>The aligned range\<close>

definition unmap_lo :: "nat \<Rightarrow> nat \<Rightarrow> nat" where
  "unmap_lo bs off = (if off mod bs = 0 then off else off - off mod bs + bs)"

definition unmap_hi :: "nat \<Rightarrow> nat \<Rightarrow> nat \<Rightarrow> nat" where
  "unmap_hi bs off n = off + n - (off + n) mod bs"

lemma unmap_lo_hi:
  assumes "0 < bs" "bs \<le> n"
  shows "bs dvd unmap_lo bs off" "bs dvd unmap_hi bs off n" "off \<le> unmap_lo bs off"
    "unmap_lo bs off \<le> unmap_hi bs off n" "unmap_hi bs off n \<le> off + n"
proof -
  show "bs dvd unmap_lo bs off"
    unfolding unmap_lo_def using dvd_minus_mod [of bs off] by (auto simp only: dvd_add dvd_refl dvd_eq_mod_eq_0 [of bs off] split: if_splits)
  show "bs dvd unmap_hi bs off n" by (simp add: unmap_hi_def)
  show "off \<le> unmap_lo bs off" using mod_less_divisor [OF assms(1), of off] by (auto simp: unmap_lo_def)
  show "unmap_hi bs off n \<le> off + n" by (simp add: unmap_hi_def)
  have "off div bs + 1 \<le> (off + n) div bs"
    using assms by (metis add_le_cancel_left div_add_self2 div_le_mono less_not_refl3)
  then have "(off div bs + 1) * bs \<le> (off + n) div bs * bs" by (rule mult_le_mono1)
  then show "unmap_lo bs off \<le> unmap_hi bs off n"
    by (auto simp: unmap_lo_def unmap_hi_def minus_mod_eq_div_mult intro: order_trans [OF _ \<open>(off div bs + 1) * bs \<le> _\<close>])
qed

lemma of_nat32_le: "m \<le> unat (len :: 32 word) \<Longrightarrow> unat (of_nat m :: 32 word) = m"
proof -
  assume "m \<le> unat len"
  also have "unat len < 2 ^ 32" using unsigned_less [of len] by simp
  finally show ?thesis by (simp add: unat_of_nat take_bit_nat_eq_self_iff)
qed

text \<open>
  The range that is unmapped is the largest aligned one inside the request; the protection
  against a wrapped-around length never fires.
\<close>

lemma unmap_range_aligned:
  assumes "0 < bs" "bs < 2 ^ 32"
  shows "unmap_range (int bs) len (int off) =
    Inr (if unat len < bs \<or> unmap_lo bs off = unmap_hi bs off (unat len) then None
         else Some (of_nat (unmap_hi bs off (unat len) - unmap_lo bs off), int (unmap_lo bs off)))"
proof (cases "unat len < bs")
  case True
  then have "len < of_int (int bs)" using assms(2)
    by (simp add: word_less_nat_alt unat_of_nat take_bit_nat_eq_self_iff)
  then show ?thesis using True by (simp add: unmap_range_def)
next
  case False
  define L where "L = unat len"
  define so where "so = off mod bs"
  define eo where "eo = (off + L) mod bs"
  define lo where "lo = unmap_lo bs off"
  define hi where "hi = unmap_hi bs off L"
  have L: "bs \<le> L" "len = of_nat L" using False by (simp_all add: L_def)
  note lh = unmap_lo_hi [OF assms(1) L(1), of off, folded lo_def hi_def]
  have so: "so < bs" "lo = (if so = 0 then off else off + (bs - so))" "lo - off \<le> L"
    using assms(1) L(1) by (auto simp: so_def lo_def unmap_lo_def)
  have hi: "hi + eo = off + L" by (simp add: hi_def unmap_hi_def eo_def)
  have ge: "\<not> len < of_int (int bs)" using False assms(2)
    by (simp add: word_less_nat_alt unat_of_nat take_bit_nat_eq_self_iff)
  have offs: "int off smod int bs = int so" "(uint len + int off) smod int bs = int eo"
    using int_mod_nat [OF assms(1), of off] int_mod_nat [OF assms(1), of "off + L"]
    by (simp_all add: so_def eo_def L_def add.commute)
  have l1: "(if int so \<noteq> 0 then (int off + (int bs - int so), len - of_int (int bs - int so)) else (int off, len))
      = (int lo, of_nat (L - (lo - off)))"
    using so L by (auto simp: of_nat_diff)
  have l2: "(if int eo \<noteq> 0 then of_nat (L - (lo - off)) - of_int (int eo) else of_nat (L - (lo - off))) = (of_nat (hi - lo) :: 32 word)"
  proof -
    have "L - (lo - off) - eo = hi - lo" "eo \<le> L - (lo - off)" using hi lh(3,4) so(3) by linarith+
    then show ?thesis by (cases "eo = 0") (simp_all flip: of_nat_diff)
  qed
  have "hi - lo \<le> L" using hi lh(3,4) by linarith
  then have w: "unat (of_nat (hi - lo) :: 32 word) = hi - lo" unfolding L_def by (rule of_nat32_le)
  have "(of_nat (hi - lo) :: 32 word) = 0 \<longleftrightarrow> lo = hi"
    using w lh(4) by (metis diff_is_0_eq' diff_self_eq_0 of_nat_0 unat_eq_0 le_antisym diff_is_0_eq)
  moreover have "\<not> len < (of_nat (hi - lo) :: 32 word)"
    using w \<open>hi - lo \<le> L\<close> by (simp add: word_less_nat_alt L_def)
  ultimately show ?thesis
    using ge False
    unfolding unmap_range_def Let_def L_def [symmetric] lo_def [symmetric] hi_def [symmetric] offs l1 l2 prod.case
    by simp
qed

section \<open>The effect on the layers\<close>

definition unmapped :: "('h, 's) layer_view \<Rightarrow> 's \<Rightarrow> 's \<Rightarrow> 'h set \<Rightarrow> nat \<Rightarrow> nat \<Rightarrow> bool" where
  "unmapped V s s' H lo hi \<longleftrightarrow>
     v_live V s' = v_live V s \<and> v_size V s' = v_size V s \<and>
     (\<forall>h. v_live V s h \<longrightarrow>
        v_data V s' h = (\<lambda>p. if h \<in> H \<and> lo \<le> p \<and> p < hi then 0 else v_data V s h p) \<and>
        v_alloc V s' h = (\<lambda>b. v_alloc V s h b \<and> \<not> (h \<in> H \<and> lo div v_bs V \<le> b \<and> b < hi div v_bs V)))"

lemma unmapped_refl: "unmapped V s s {} lo hi"
  by (simp add: unmapped_def)

lemma unmapped_trans:
  assumes "unmapped V s s' H lo hi" "unmapped V s' s'' H' lo hi"
  shows "unmapped V s s'' (H \<union> H') lo hi"
  using assms by (auto simp: unmapped_def fun_eq_iff)

text \<open>The files that the loop visits from index \<open>idx\<close> downwards, for \<open>m\<close> unmappable disks.\<close>

definition unmap_targets :: "'h option list \<Rightarrow> nat \<Rightarrow> nat \<Rightarrow> 'h set" where
  "unmap_targets fs m idx = {h. \<exists>k. 0 < k \<and> k \<le> idx \<and> length fs - 1 - k < m \<and> fs ! k = Some h}"

lemma unmap_targets_stop:
  "idx < length fs \<Longrightarrow> \<not> (0 < idx \<and> length fs - 1 - idx < m) \<Longrightarrow> unmap_targets fs m idx = {}"
  by (auto simp: unmap_targets_def)

lemma unmap_targets_step:
  "0 < idx \<Longrightarrow> length fs - 1 - idx < m \<Longrightarrow> fs ! idx = Some h \<Longrightarrow>
   unmap_targets fs m idx = {h} \<union> unmap_targets fs m (idx - 1)"
proof -
  assume *: "0 < idx" "length fs - 1 - idx < m" "fs ! idx = Some h"
  have "k \<le> idx \<longleftrightarrow> k = idx \<or> k \<le> idx - 1" for k using *(1) by linarith
  then show ?thesis using * unfolding unmap_targets_def by auto
qed

context disk_layer
begin

text \<open>A file that ends at or before the range has nothing to unmap.\<close>

lemma unmapped_beyond:
  assumes "v_live V s h" "v_size V s h \<le> lo" "v_bs V dvd lo"
  shows "unmapped V s s {h} lo hi"
proof -
  have na: "\<not> v_alloc V s h b" if "lo div v_bs V \<le> b" for b
  proof
    assume "v_alloc V s h b"
    then have "b * v_bs V < lo div v_bs V * v_bs V"
      using less_le_trans [OF alloc_inside [OF assms(1)] assms(2)] assms(3) by simp
    then show False using that by simp
  qed
  have "v_data V s h p = 0" if "lo \<le> p" for p
    using hole_zero [OF assms(1) na [OF div_le_mono [OF that]]] .
  then show ?thesis using na by (auto simp: unmapped_def fun_eq_iff)
qed

lemma unmapped_step:
  assumes h: "v_live V s h" "v_bs V dvd v_size V s h" and al: "v_bs V dvd lo" "v_bs V dvd n"
    and len: "n = unat len" "lo < v_size V s h"
  defines "cur \<equiv> (if int (v_size V s h) < int lo + uint len then of_int (int (v_size V s h) - int lo) else len)"
  shows "\<exists>c s'. op_UnmapAt ops h cur (int lo) s = (c, None, s') \<and> unmapped V s s' {h} lo (lo + n)"
    "0 < n \<Longrightarrow> \<not> cur \<le> 0"
proof -
  define m where "m = min n (v_size V s h - lo)"
  have m: "m \<le> unat len" "lo + m \<le> v_size V s h" "v_bs V dvd m"
    using len al h(2) by (auto simp: m_def min_def intro: dvd_diff_nat)
  have "uint len = int n" using len(1) by simp
  then have short: "int (v_size V s h) < int lo + uint len \<longleftrightarrow> v_size V s h - lo < n" using len(2) by linarith
  have cur: "cur = of_nat m" unfolding cur_def short using len by (auto simp: m_def min_def of_nat_diff)
  then have uc: "unat cur = m" using of_nat32_le [OF m(1)] by simp
  obtain c s' where s': "op_UnmapAt ops h cur (int lo) s = (c, None, s')"
    "v_live V s' = v_live V s" "v_size V s' = v_size V s"
    "v_data V s' = (v_data V s)(h := \<lambda>p. if lo \<le> p \<and> p < lo + m then 0 else v_data V s h p)"
    "v_alloc V s' = (v_alloc V s)(h := \<lambda>b. v_alloc V s h b \<and> \<not> (lo div v_bs V \<le> b \<and> b < (lo + m) div v_bs V))"
    using unmap_law [OF h(1) al(1), of cur] m uc by auto
  have tail: "unmapped V s s {h} (lo + m) (lo + n)"
  proof (cases "m = n")
    case True
    then show ?thesis by (auto simp: unmapped_def fun_eq_iff)
  next
    case False
    then have "lo + m = v_size V s h" using len(2) by (auto simp: m_def min_def split: if_splits)
    then show ?thesis using unmapped_beyond [OF h(1) _ h(2)] by simp
  qed
  have "m \<le> n" by (simp add: m_def)
  then have "(lo + m) div v_bs V \<le> (lo + n) div v_bs V" by (intro div_le_mono) simp
  have tz: "v_data V s h p = 0" if "lo + m \<le> p" "p < lo + n" for p
    using tail h(1) that unfolding unmapped_def by (metis singletonI)
  have ta: "(lo + n) div v_bs V \<le> b" if "v_alloc V s h b" "(lo + m) div v_bs V \<le> b" for b
    using tail h(1) that unfolding unmapped_def by (metis singletonI not_less)
  have "unmapped V s s' {h} lo (lo + n)"
    using tz ta s'(2-) \<open>m \<le> n\<close> \<open>(lo + m) div v_bs V \<le> (lo + n) div v_bs V\<close>
    unfolding unmapped_def by (auto simp: fun_eq_iff not_less)
  then show "\<exists>c s'. op_UnmapAt ops h cur (int lo) s = (c, None, s') \<and> unmapped V s s' {h} lo (lo + n)"
    using s'(1) by blast
  have "0 < n \<Longrightarrow> 0 < m" using len(2) by (simp add: m_def)
  then show "0 < n \<Longrightarrow> \<not> cur \<le> 0" using uc by (auto simp: unat_eq_0)
qed

text \<open>One round of the loop, whatever the bookkeeping of the actual sizes does.\<close>

lemma unmap_loop_round:
  assumes wf: "dd_wf V s d" and al: "v_bs V dvd lo" "v_bs V dvd n" "n = unat len" "0 < n"
    and idx: "Suc idx < length (files d)" "length (files d) - 1 - Suc idx < length disks"
    and h: "files d ! Suc idx = Some h" "v_bs V dvd v_size V s h"
  shows "\<exists>e b t s1. unmap_loop ops d disks len (int lo) (Suc idx) sizeErr before tot s =
      unmap_loop ops d disks len (int lo) idx e b t s1 \<and> unmapped V s s1 {h} lo (lo + n)"
proof -
  have live: "v_live V s h" and fa: "file_at d (int (Suc idx)) = Some h"
    using dd_wf_file [OF wf, of "Suc idx"] idx(1) h(1) by auto
  have size: "op_Size ops h s = (int (v_size V s h), None)" using size_law [OF live] .
  obtain b e where be: "actual_size_before ops (disks ! (length (files d) - 1 - Suc idx)) sizeErr before s = (b, e)"
    by fastforce
  show ?thesis
  proof (cases "lo < v_size V s h")
    case True
    obtain c s1 where s1: "op_UnmapAt ops h (if int (v_size V s h) < int lo + uint len
        then of_int (int (v_size V s h) - int lo) else len) (int lo) s = (c, None, s1)" "unmapped V s s1 {h} lo (lo + n)"
      and nz: "\<not> (if int (v_size V s h) < int lo + uint len then of_int (int (v_size V s h) - int lo) else len) \<le> 0"
      using unmapped_step [OF live h(2) al(1-3) True] al(4) by blast
    obtain a' e' where ae: "actual_size_after ops (disks ! (length (files d) - 1 - Suc idx)) e s1 = (a', e')"
      by fastforce
    have "unmap_loop ops d disks len (int lo) (Suc idx) sizeErr before tot s =
        unmap_loop ops d disks len (int lo) idx e' b (if e' = None then tot + (b - a') else tot) s1"
      using idx(2) fa size True s1(1) nz be ae by (subst unmap_loop.simps) (simp add: Let_def)
    then show ?thesis using s1(2) by blast
  next
    case False
    then have un: "unmapped V s s {h} lo (lo + n)" using unmapped_beyond [OF live _ al(1)] by simp
    have "0 < uint len" 
    proof -
      have "uint len = int n" using al(3) by simp
      then show ?thesis using al(4) by simp
    qed
    then have "unmap_loop ops d disks len (int lo) (Suc idx) sizeErr before tot s =
        unmap_loop ops d disks len (int lo) idx e b tot s"
      using idx(2) fa size False be by (subst unmap_loop.simps) (auto simp: Let_def)
    then show ?thesis using un by blast
  qed
qed

lemma unmap_loop_effect:
  assumes wf: "dd_wf V s d" "\<forall>k \<in> {1 ..< length (files d)}. v_bs V dvd layer_size V s (files d) k"
    and al: "v_bs V dvd lo" "v_bs V dvd n" "n = unat len" "0 < n" and idx: "idx < length (files d)"
  shows "\<exists>c s'. unmap_loop ops d disks len (int lo) idx sizeErr before tot s = Some (c, None, s') \<and>
    unmapped V s s' (unmap_targets (files d) (length disks) idx) lo (lo + n)"
  using wf idx
proof (induction idx arbitrary: s sizeErr before tot)
  case 0
  then show ?case using unmap_targets_stop [of 0 "files d" "length disks"] unmapped_refl
    by (subst unmap_loop.simps) simp
next
  case (Suc idx)
  show ?case
  proof (cases "length (files d) - 1 - Suc idx < length disks")
    case False
    then show ?thesis using unmap_targets_stop [of "Suc idx" "files d" "length disks"] Suc.prems(3) unmapped_refl
      by (subst unmap_loop.simps) simp
  next
    case True
    obtain h where h: "files d ! Suc idx = Some h"
      using dd_wf_file [OF Suc.prems(1), of "Suc idx"] Suc.prems(3) by auto
    have dv: "v_bs V dvd v_size V s h"
      using bspec [OF Suc.prems(2), of "Suc idx"] Suc.prems(3) h by (simp add: layer_size_def)
    obtain e b t s1 where s1: "unmap_loop ops d disks len (int lo) (Suc idx) sizeErr before tot s =
        unmap_loop ops d disks len (int lo) idx e b t s1" "unmapped V s s1 {h} lo (lo + n)"
      using unmap_loop_round [OF Suc.prems(1) al Suc.prems(3) True h dv] by blast
    have sz: "v_live V s1 = v_live V s" "v_size V s1 = v_size V s" using s1(2) by (simp_all add: unmapped_def)
    have "dd_wf V s1 d" by (rule dd_wf_store [OF Suc.prems(1)]) (simp add: sz)
    moreover have "layer_size V s1 = layer_size V s" by (intro ext) (simp add: layer_size_def sz split: option.split)
    ultimately obtain c s' where s': "unmap_loop ops d disks len (int lo) idx e b t s1 = Some (c, None, s')"
      "unmapped V s1 s' (unmap_targets (files d) (length disks) idx) lo (lo + n)"
      using Suc.IH [of s1 e b t] Suc.prems(2,3) by auto
    then show ?thesis
      using unmapped_trans [OF s1(2) s'(2)] unmap_targets_step [of "Suc idx" "files d" "length disks" h] True h s1(1)
      by simp
  qed
qed

text \<open>
  UnmapAt discards the largest aligned range inside the request from the head and from the
  layers listed after it, and touches nothing else.
\<close>

theorem UnmapAt_effect:
  assumes wf: "dd_wf V s d" "\<forall>k \<in> {1 ..< length (files d)}. v_bs V dvd layer_size V s (files d) k"
    and bs32: "v_bs V < 2 ^ 32"
  shows "\<exists>c s'. UnmapAt ops d disks len (int off) s = Some (c, None, s') \<and>
    (if unat len < v_bs V then s' = s
     else unmapped V s s' (unmap_targets (files d) (length disks) (length (files d) - 1))
            (unmap_lo (v_bs V) off) (unmap_hi (v_bs V) off (unat len)))"
proof -
  define lo where "lo = unmap_lo (v_bs V) off"
  define hi where "hi = unmap_hi (v_bs V) off (unat len)"
  have rng: "unmap_range (sectorSize d) len (int off) =
      Inr (if unat len < v_bs V \<or> lo = hi then None else Some (of_nat (hi - lo), int lo))"
    using unmap_range_aligned [OF bs_pos bs32, of len off] dd_wfD(1) [OF wf(1)] by (simp add: lo_def hi_def)
  show ?thesis
  proof (cases "unat len < v_bs V \<or> lo = hi")
    case True
    moreover have "unmapped V s s H lo lo" for H by (auto simp: unmapped_def fun_eq_iff)
    ultimately show ?thesis using rng by (auto simp: UnmapAt_def simp flip: lo_def hi_def)
  next
    case False
    note lh = unmap_lo_hi [OF bs_pos, of "unat len" off, folded lo_def hi_def]
    have "hi - lo \<le> unat len" "lo < hi" using lh False by linarith+
    then have w: "hi - lo = unat (of_nat (hi - lo) :: 32 word)" "0 < hi - lo" by (simp_all only: of_nat32_le zero_less_diff)
    have "length (files d) - 1 < length (files d)" using dd_wfD(3) [OF wf(1)] by simp
    then obtain c s' where "unmap_loop ops d disks (of_nat (hi - lo)) (int lo) (length (files d) - 1) None 0 0 s = Some (c, None, s')"
      "unmapped V s s' (unmap_targets (files d) (length disks) (length (files d) - 1)) lo (lo + (hi - lo))"
      using unmap_loop_effect [OF wf _ _ w, of lo "length (files d) - 1" disks None 0 0] lh False
      by (auto simp: dvd_diff_nat)
    then show ?thesis using False \<open>lo < hi\<close> rng by (auto simp: UnmapAt_def simp flip: lo_def hi_def)
  qed
qed

text \<open>What is left of the volume: every byte outside the unmapped range.\<close>

lemma unmapped_vol_byte:
  assumes wf: "dd_wf V s d" and un: "unmapped V s s' H lo hi" and al: "v_bs V dvd lo" "v_bs V dvd hi"
    and p: "p < vol_size V d" "\<not> (lo \<le> p \<and> p < hi)"
  shows "vol_byte V s' d p = vol_byte V s d p"
proof -
  let ?i = "p div v_bs V"
  have i: "?i < length (location d)" using p(1) by (rule less_mult_imp_div_less)
  have out: "\<not> (lo div v_bs V \<le> ?i \<and> ?i < hi div v_bs V)"
  proof
    assume "lo div v_bs V \<le> ?i \<and> ?i < hi div v_bs V"
    then have "lo div v_bs V * v_bs V \<le> p" "p < hi div v_bs V * v_bs V"
      using bs_pos by (simp_all add: less_eq_div_iff_mult_less_eq div_less_iff_less_mult)
    then show False using p(2) al by simp
  qed
  have live: "v_live V s h" if "files d ! k = Some h" "1 \<le> k" "k < length (files d)" for k h
    using dd_wf_file [OF wf that(2,3)] that(1) by auto
  have hs: "has_sector V s' (files d) ?i k = has_sector V s (files d) ?i k" if "1 < k" "k \<le> length (files d) - 1" for k
    using un out live [of k] that by (auto simp: has_sector_def unmapped_def split: option.split)
  have "layer_of V s' (files d) ?i = layer_of V s (files d) ?i"
    unfolding layer_of_def using hs by (intro topmost_cong)
  then have hold: "holder V s' d ?i = holder V s d ?i" by (simp add: holder_def)
  show ?thesis
    using un p(2) live [of "holder V s d ?i"] holder_bounds [OF wf i]
    by (auto simp: vol_byte_def hold layer_byte_def unmapped_def split: option.split)
qed

end

end
