(* ===== verification/Diff_Disk_Thms.thy ===== *)
theory Diff_Disk_Thms
  imports Diff_Disk_Preload Diff_Disk_Unmap
begin

text \<open>
  The properties of the differencing disk, stated for every layer implementation that meets the
  contract disk_layer, with witnesses on the sparse files in memory.
\<close>

section \<open>A small volume\<close>

text \<open>
  A volume of four sectors of two bytes over a base file and a head that holds sector 2; the
  location of sector 0 is known already.
\<close>

definition ex_store :: sstore where
  "ex_store = [''base'' \<mapsto> \<lparr>sf_bytes = [1, 2, 3, 4, 5, 6, 7, 8], sf_blocks = [True, True, True, True], sf_open = True\<rparr>,
               ''head'' \<mapsto> \<lparr>sf_bytes = [0, 0, 0, 0, 9, 10, 0, 0], sf_blocks = [False, False, True, False], sf_open = True\<rparr>,
               ''new'' \<mapsto> sf_hole 2 4]"

definition ex_dd :: "string diffDisk" where
  "ex_dd = \<lparr>location = [1, 0, 0, 0], files = [None, Some ''base'', Some ''head''], sectorSize = 2, dd_size = 8\<rparr>"

lemma ex_wf: "dd_wf (sf_view 2) ex_store ex_dd"
proof -
  have "{1 ..< 3 :: nat} = {1, 2}" by auto
  then show ?thesis
    by (simp add: dd_wf_def ex_dd_def sf_view_def ex_store_def layer_size_def sf_wf_def numeral_3_eq_3 less_Suc_eq nth_Cons')
qed

lemma ex_layer: "disk_layer (sf_ops 2) (sf_view 2)"
  by (rule disk_layer_sf) simp

lemma ex_simps: "v_bs (sf_view 2) = 2" "vol_size (sf_view 2) ex_dd = 8" "length (location ex_dd) = 4"
  "length (files ex_dd) = 3"
  by (simp_all add: sf_view_def ex_dd_def)

section \<open>Reading and writing\<close>


lemma ex_tail: "tail_covered (sf_view 2) ex_store ex_dd 3 4"
  by code_simp


text \<open>
  C7: diffDisk.WriteAt of any request inside the volume succeeds and afterwards the volume is the
  old one with exactly the bytes of the request replaced; the invariant and the coherence of
  the location cache with the extents on disk are kept, and the sectors written belong to the head.
  The count returned is the one of WriteAt_count.
\<close>

theorem diffDisk_WriteAt_correct:
  assumes "disk_layer ops V" "dd_wf V s d" "off + length buf \<le> vol_size V d"
  shows "\<exists>s' d'. WriteAt ops d buf (int off) s = Some (int (WriteAt_count (v_bs V) off (length buf)), None, d', s') \<and>
    write_effect V s d off buf s' d'"
  using assms by (rule disk_layer.WriteAt_effect)

theorem diffDisk_WriteAt_correct_witness:
  "\<exists>s' d'. WriteAt (sf_ops 2) ex_dd [21, 22, 23] (int 3) ex_store =
      Some (int (WriteAt_count (v_bs (sf_view 2)) 3 (length [21, 22, 23 :: byte])), None, d', s') \<and>
    write_effect (sf_view 2) ex_store ex_dd 3 [21, 22, 23] s' d'"
  by (rule diffDisk_WriteAt_correct [OF ex_layer ex_wf]) (simp add: ex_simps)

lemma write_effect_tail:
  assumes "write_effect V s d off buf s' d'" "off + length buf \<le> vol_size V d" "0 < v_bs V"
  shows "tail_covered V s' d' off (length buf)"
proof -
  let ?t = "(off + length buf) div v_bs V"
  have wf: "dd_wf V s' d'" and fs: "files d' = files d" "length (location d') = length (location d)"
    using assms(1) by (simp_all add: write_effect_def)
  have "Suc ?t * v_bs V \<le> layer_size V s' (files d') (holder V s' d' ?t)"
    if "(off + length buf) mod v_bs V \<noteq> 0" "off div v_bs V \<noteq> ?t"
  proof -
    have pos: "0 < length buf" using that(2) by (cases buf) auto
    have lt: "?t * v_bs V < off + length buf" using that(1) by (metis div_mult_mod_eq less_add_same_cancel1 neq0_conv)
    have dv: "(off + length buf - 1) div v_bs V = ?t"
    proof (rule div_nat_eqI)
      show "v_bs V * ?t \<le> off + length buf - 1" using lt by (simp add: mult.commute)
      have "off + length buf < v_bs V * Suc ?t" using assms(3) by (simp add: dividend_less_times_div)
      then show "off + length buf - 1 < v_bs V * Suc ?t" by simp
    qed
    have "off + length buf - 1 < vol_size V d" "off \<le> off + length buf - 1" "off + length buf - 1 < off + length buf"
      using pos assms(2) by linarith+
    then have "holder V s' d' ((off + length buf - 1) div v_bs V) = length (files d) - 1"
      using assms(1) unfolding write_effect_def by blast
    then have "layer_size V s' (files d') (holder V s' d' ?t) = vol_size V d"
      using dd_wfD(6) [OF wf] fs dv by simp
    moreover have "?t < length (location d)" using lt assms(2) by (meson less_le_trans mult_less_cancel2)
    then have "Suc ?t * v_bs V \<le> vol_size V d" by (intro mult_le_mono1) simp
    ultimately show ?thesis by simp
  qed
  then show ?thesis by (auto simp: tail_covered_def Let_def)
qed

text \<open>
  What has been written is read back: ReadAt of the range of a WriteAt returns the buffer
  that was written, whatever the alignment and whichever layers the range had before.
\<close>

lemma diffDisk_write_then_read:
  assumes "disk_layer ops V" "dd_wf V s d" "off + length buf \<le> vol_size V d"
  shows "\<exists>c s' d' d''. WriteAt ops d buf (int off) s = Some (c, None, d', s') \<and>
    ReadAt ops d' (zeros (length buf)) (int off) s' = Some (int (length buf), None, buf, d'')"
proof -
  obtain c s' d' where w: "WriteAt ops d buf (int off) s = Some (c, None, d', s')" "write_effect V s d off buf s' d'"
    using disk_layer.WriteAt_effect [OF assms] by blast
  have fit: "off + length buf \<le> vol_size V d'" and wf: "dd_wf V s' d'"
    using w(2) assms(3) by (simp_all add: write_effect_def)
  have "vol_range V s' d' off (length buf) = buf"
    using w(2) assms(3) by (intro list_eq_pointwise) (auto simp: write_effect_def)
  then show ?thesis
    using w(1) disk_layer.ReadAt_zeros [OF assms(1) wf fit write_effect_tail [OF w(2) assms(3)]]
      disk_layer.bs_pos [OF assms(1)] by auto
qed

text \<open>
  C8: a write never changes a snapshot: every file of the chain but the volume head keeps its
  bytes, its extents and its size.
\<close>

theorem diffDisk_WriteAt_keeps_snapshots:
  assumes "disk_layer ops V" "dd_wf V s d" "off + length buf \<le> vol_size V d"
    and "WriteAt ops d buf (int off) s = Some (c, err, d', s')" "k < length (files d) - 1" "files d ! k = Some h"
  shows "files d' = files d \<and> v_data V s' h = v_data V s h \<and> v_alloc V s' h = v_alloc V s h \<and> v_size V s' h = v_size V s h"
proof -
  have "write_effect V s d off buf s' d'" using disk_layer.WriteAt_effect [OF assms(1-3)] assms(4) by auto
  moreover have "Some h \<noteq> last (files d)"
  proof -
    have "files d ! k \<noteq> files d ! (length (files d) - 1)"
      using dd_wfD(3,5) [OF assms(2)] assms(5) by (simp add: nth_eq_iff_index_eq)
    then show ?thesis using assms(5,6) by (metis last_conv_nth length_0_conv not_less0 diff_0_eq_0)
  qed
  ultimately show ?thesis by (simp add: write_effect_def)
qed

theorem diffDisk_WriteAt_keeps_snapshots_witness:
  "\<exists>c d' s'. WriteAt (sf_ops 2) ex_dd [21, 22, 23] (int 3) ex_store = Some (c, None, d', s') \<and>
     files d' = files ex_dd \<and> v_data (sf_view 2) s' ''base'' = v_data (sf_view 2) ex_store ''base'' \<and>
     v_alloc (sf_view 2) s' ''base'' = v_alloc (sf_view 2) ex_store ''base'' \<and>
     v_size (sf_view 2) s' ''base'' = v_size (sf_view 2) ex_store ''base''"
proof -
  have fit: "3 + length [21, 22, 23 :: byte] \<le> vol_size (sf_view 2) ex_dd" by (simp add: ex_simps)
  obtain c d' s' where "WriteAt (sf_ops 2) ex_dd [21, 22, 23] (int 3) ex_store = Some (c, None, d', s')"
    using disk_layer.WriteAt_effect [OF ex_layer ex_wf fit] by blast
  moreover have "1 < length (files ex_dd) - 1" "files ex_dd ! 1 = Some ''base''" by (simp_all add: ex_dd_def)
  ultimately show ?thesis
    using diffDisk_WriteAt_keeps_snapshots [OF ex_layer ex_wf fit] by blast
qed

section \<open>Changing the chain\<close>

text \<open>
  C9: diffDisk.RemoveIndex of a layer below the head closes that file, takes it out of the
  chain and renumbers the location cache so that every sector that was not read from that layer
  is read from the same file as before, while its own sectors are looked up again; a coherent
  cache stays coherent.
\<close>

theorem diffDisk_RemoveIndex_correct:
  assumes "disk_layer ops V" "dd_wf V s d" "1 \<le> k" "Suc k < length (files d)"
  shows "\<exists>s' d'. RemoveIndex ops d (int k) s = Some (None, d', s') \<and> remove_effect V s d k s' d'"
  using assms by (rule disk_layer.RemoveIndex_effect)

theorem diffDisk_RemoveIndex_correct_witness:
  "\<exists>s' d'. RemoveIndex (sf_ops 2) ex_dd (int 1) ex_store = Some (None, d', s') \<and>
     remove_effect (sf_view 2) ex_store ex_dd 1 s' d'"
  by (rule diffDisk_RemoveIndex_correct [OF ex_layer ex_wf]) (simp_all add: ex_simps)


lemma ex_chain_ok: "chain_ok (sf_view 2) ex_store ex_dd"
proof -
  have "{1 ..< 3 :: nat} = {1, 2}" by auto
  then show ?thesis
    by (simp add: chain_ok_def ex_dd_def sf_view_def ex_store_def sf_wf_def numeral_3_eq_3 less_Suc_eq nth_Cons')
qed


section \<open>Unmapping\<close>

text \<open>
  C11: diffDisk.UnmapAt succeeds and discards, from the head and from the next layers for which a
  path was passed, exactly the largest sector-aligned range inside the request; all other bytes
  of all layers, and every byte of the volume outside that range, stay as they were.
\<close>

theorem diffDisk_UnmapAt_correct:
  assumes "disk_layer ops V" "dd_wf V s d" "\<forall>k \<in> {1 ..< length (files d)}. v_bs V dvd layer_size V s (files d) k"
    and "v_bs V < 2 ^ 32" "v_bs V \<le> unat len"
  shows "\<exists>c s'. UnmapAt ops d disks len (int off) s = Some (c, None, s') \<and>
    unmapped V s s' (unmap_targets (files d) (length disks) (length (files d) - 1))
      (unmap_lo (v_bs V) off) (unmap_hi (v_bs V) off (unat len)) \<and>
    (\<forall>p < vol_size V d. p < off \<or> off + unat len \<le> p \<longrightarrow> vol_byte V s' d p = vol_byte V s d p)"
proof -
  let ?lo = "unmap_lo (v_bs V) off" and ?hi = "unmap_hi (v_bs V) off (unat len)"
  obtain c s' where u: "UnmapAt ops d disks len (int off) s = Some (c, None, s')"
    "unmapped V s s' (unmap_targets (files d) (length disks) (length (files d) - 1)) ?lo ?hi"
    using disk_layer.UnmapAt_effect [OF assms(1-4), of disks len off] assms(5) by (auto simp: not_less split: if_splits)
  note lh = unmap_lo_hi [OF disk_layer.bs_pos [OF assms(1)] assms(5), of off]
  have "vol_byte V s' d p = vol_byte V s d p" if "p < vol_size V d" "p < off \<or> off + unat len \<le> p" for p
    using disk_layer.unmapped_vol_byte [OF assms(1,2) u(2) lh(1,2) that(1)] that(2) lh(3-5) by linarith
  then show ?thesis using u by blast
qed

theorem diffDisk_UnmapAt_correct_witness:
  "\<exists>c s'. UnmapAt (sf_ops 2) ex_dd [''head''] 5 (int 3) ex_store = Some (c, None, s') \<and>
    unmapped (sf_view 2) ex_store s' (unmap_targets (files ex_dd) (length [''head'']) (length (files ex_dd) - 1))
      (unmap_lo (v_bs (sf_view 2)) 3) (unmap_hi (v_bs (sf_view 2)) 3 (unat (5 :: 32 word))) \<and>
    (\<forall>p < vol_size (sf_view 2) ex_dd. p < 3 \<or> 3 + unat (5 :: 32 word) \<le> p \<longrightarrow>
       vol_byte (sf_view 2) s' ex_dd p = vol_byte (sf_view 2) ex_store ex_dd p)"
proof -
  have "{1 ..< 3 :: nat} = {1, 2}" by auto
  then have "\<forall>k \<in> {1 ..< length (files ex_dd)}. v_bs (sf_view 2) dvd layer_size (sf_view 2) ex_store (files ex_dd) k"
    by (simp add: ex_dd_def layer_size_def sf_view_def ex_store_def numeral_3_eq_3)
  then show ?thesis
    by (rule diffDisk_UnmapAt_correct [OF ex_layer ex_wf]) (simp_all add: ex_simps)
qed

text \<open>
  The protection of UnmapAt against an unsigned length that wrapped around below zero never
  fires: for every sector size that fits 32 bits, every length and every non-negative offset, the
  computation of the aligned range gives no error.
\<close>

lemma diffDisk_unmap_guard_unreachable:
  assumes "0 < bs" "bs < 2 ^ 32"
  shows "\<exists>r. unmap_range (int bs) len (int off) = Inr r"
  using unmap_range_aligned [OF assms] by blast

section \<open>Stale bytes in an unaligned read of an expanded volume\<close>

text \<open>
  A volume of one sector that has been expanded to two: the base file still ends after the first
  sector, the new head is empty.
\<close>

definition stale_store :: sstore where
  "stale_store = [''base'' \<mapsto> \<lparr>sf_bytes = [5, 6], sf_blocks = [True], sf_open = True\<rparr>, ''head'' \<mapsto> sf_hole 2 2]"

definition stale_dd :: "string diffDisk" where
  "stale_dd = \<lparr>location = [0, 0], files = [None, Some ''base'', Some ''head''], sectorSize = 2, dd_size = 4\<rparr>"

text \<open>
  DiffDisk.ReadAt reuses the buffer of the first sector for the last one without clearing it.
  Where the layer of the last sector ends before that sector, an unaligned read returns bytes of
  the first sector: here the volume reads 6, 0 at offset 1, and ReadAt returns 6, 5, although
  two reads of one byte each return 6 and 0.
\<close>

lemma diffDisk_ReadAt_stale_tail:
  "vol_range (sf_view 2) stale_store stale_dd 1 2 = [6, 0] \<and>
   map_option (\<lambda>(n, err, buf, d). (n, err, buf)) (ReadAt (sf_ops 2) stale_dd (zeros 2) 1 stale_store) = Some (2, None, [6, 5]) \<and>
   map_option (\<lambda>(n, err, buf, d). (n, err, buf)) (ReadAt (sf_ops 2) stale_dd (zeros 1) 1 stale_store) = Some (1, None, [6]) \<and>
   map_option (\<lambda>(n, err, buf, d). (n, err, buf)) (ReadAt (sf_ops 2) stale_dd (zeros 1) 2 stale_store) = Some (1, None, [0])"
  by code_simp

end
