(* ===== verification/Types_Error.thy ===== *)
theory Types_Error
  imports Go_Prelude
begin

text \<open>
  The package types: replica modes (src/pkg/types/types.go) and the error values that carry a
  rollback code (src/pkg/types/error.go), with the texts that the Error methods of the controller's
  aggregate errors produce (multi_writer_at.go, multi_unmapper_at.go, replicator.go).
\<close>

datatype mode = WO | RW | ERR

text \<open>The numbering of enginerpc.ReplicaMode: WO, RW, ERR.\<close>

datatype grpcMode = ReplicaMode_WO | ReplicaMode_RW | ReplicaMode_ERR

fun ReplicaModeToGRPCReplicaMode :: "mode \<Rightarrow> grpcMode" where
  "ReplicaModeToGRPCReplicaMode WO = ReplicaMode_WO"
| "ReplicaModeToGRPCReplicaMode RW = ReplicaMode_RW"
| "ReplicaModeToGRPCReplicaMode ERR = ReplicaMode_ERR"

fun GRPCReplicaModeToReplicaMode :: "grpcMode \<Rightarrow> mode" where
  "GRPCReplicaModeToReplicaMode ReplicaMode_WO = WO"
| "GRPCReplicaModeToReplicaMode ReplicaMode_RW = RW"
| "GRPCReplicaModeToReplicaMode ReplicaMode_ERR = ERR"

lemma mode_grpc_roundtrip [simp]:
  "GRPCReplicaModeToReplicaMode (ReplicaModeToGRPCReplicaMode mo) = mo"
  "ReplicaModeToGRPCReplicaMode (GRPCReplicaModeToReplicaMode g) = g"
  by (cases mo; simp) (cases g; simp)

definition ErrorCodeResultUnknown :: string where
  "ErrorCodeResultUnknown = ''ResultUnknown''"
definition ErrorCodeFunctionFailedWithoutRollback :: string where
  "ErrorCodeFunctionFailedWithoutRollback = ''FunctionFailedWithoutRollback''"
definition ErrorCodeFunctionFailedRollbackSucceeded :: string where
  "ErrorCodeFunctionFailedRollbackSucceeded = ''FunctionFailedRollbackSucceeded''"
definition ErrorCodeFunctionFailedRollbackFailed :: string where
  "ErrorCodeFunctionFailedRollbackFailed = ''FunctionFailedRollbackFailed''"

lemmas error_codes = ErrorCodeResultUnknown_def ErrorCodeFunctionFailedWithoutRollback_def
  ErrorCodeFunctionFailedRollbackSucceeded_def ErrorCodeFunctionFailedRollbackFailed_def

definition NewError :: "string \<Rightarrow> string \<Rightarrow> string \<Rightarrow> error" where
  "NewError code msg rollbackMsg = TypesError code msg rollbackMsg"

text \<open>types.Error.Error.\<close>

definition types_Error_msg :: "string \<Rightarrow> string \<Rightarrow> string \<Rightarrow> string" where
  "types_Error_msg code msg rollbackMsg =
     (if rollbackMsg = '''' then ''error: code = '' @ code @ '', message = '' @ msg
      else ''error: code = '' @ code @ '', message = '' @ msg @ '', rollbackMessage: '' @ rollbackMsg)"

text \<open>MultiWriterError.Error, MultiUnmapperError.Error and BackendError.Error from the member texts.\<close>

definition aggregate_msg :: "string list \<Rightarrow> string" where
  "aggregate_msg errors = (if errors = [] then ''Unknown'' else join ''; '' errors)"

primrec Error_msg :: "error \<Rightarrow> string" where
  "Error_msg (Errorf s) = s"
| "Error_msg (Wrapped msg e) = msg @ '': '' @ Error_msg e"
| "Error_msg EOF = ''EOF''"
| "Error_msg ErrUnexpectedEOF = ''unexpected EOF''"
| "Error_msg (ErrNotExist path) = ''open '' @ path @ '': no such file or directory''"
| "Error_msg (TypesError code msg rb) = types_Error_msg code msg rb"
| "Error_msg (BackendErr es) = aggregate_msg (map (\<lambda>(a, msg). a @ '': '' @ msg) (map (map_prod id Error_msg) es))"
| "Error_msg (MultiWriterErr es) = aggregate_msg (somes (map (map_option Error_msg) es))"
| "Error_msg (MultiUnmapperErr es) = aggregate_msg (somes (map (map_option Error_msg) es))"

definition WrapError :: "error option \<Rightarrow> string \<Rightarrow> error option" where
  "WrapError inp text = (case inp of
       None \<Rightarrow> None
     | Some (TypesError code msg rb) \<Rightarrow> Some (TypesError code (text @ '': '' @ msg) rb)
     | Some e \<Rightarrow> Some (NewError ErrorCodeResultUnknown (text @ '': '' @ Error_msg e) ''''))"

fun CombineErrors_loop :: "error option list \<Rightarrow> error option \<Rightarrow> error option" where
  "CombineErrors_loop [] retErr = retErr"
| "CombineErrors_loop (None # errs) retErr = CombineErrors_loop errs retErr"
| "CombineErrors_loop (Some e # errs) None = CombineErrors_loop errs (Some e)"
| "CombineErrors_loop (Some e # errs) (Some r) =
     CombineErrors_loop errs (Some (Errorf (Error_msg r @ '', '' @ Error_msg e)))"

definition CombineErrors :: "error option list \<Rightarrow> error option" where
  "CombineErrors errorList = CombineErrors_loop errorList None"

definition GenerateFunctionErrorWithRollback :: "error option \<Rightarrow> error option \<Rightarrow> error option" where
  "GenerateFunctionErrorWithRollback functionErr rollbackErr =
     (case functionErr of
        Some fe \<Rightarrow> (case rollbackErr of
            Some re \<Rightarrow> Some (NewError ErrorCodeFunctionFailedRollbackFailed (Error_msg fe) (Error_msg re))
          | None \<Rightarrow> Some (NewError ErrorCodeFunctionFailedRollbackSucceeded (Error_msg fe) ''''))
      | None \<Rightarrow> (case rollbackErr of
            Some re \<Rightarrow> Some (NewError ErrorCodeResultUnknown
              (''function succeeds but there is rollback error: '' @ Error_msg re) '''')
          | None \<Rightarrow> None))"

text \<open>UnmarshalGRPCError, with status.FromError and json.Unmarshal as parameters.\<close>

definition UnmarshalGRPCError ::
  "(error \<Rightarrow> string option) \<Rightarrow> (string \<Rightarrow> error + (string \<times> string \<times> string)) \<Rightarrow> error \<Rightarrow> error" where
  "UnmarshalGRPCError fromError unmarshal err =
     (case fromError err of
        None \<Rightarrow> NewError ErrorCodeResultUnknown (''the error is not a gRPC error: '' @ Error_msg err) ''''
      | Some message \<Rightarrow>
          (case unmarshal message of
             Inl jsonErr \<Rightarrow> NewError ErrorCodeResultUnknown
               (''failed to unmarshal gRPC error message, gRPC err: '' @ Error_msg err @ '', json error: '' @ Error_msg jsonErr) ''''
           | Inr (code, msg, rb) \<Rightarrow> TypesError code msg rb))"

text \<open>strings.HasPrefix, HasSuffix, Contains.\<close>

fun HasPrefix :: "string \<Rightarrow> string \<Rightarrow> bool" where
  "HasPrefix s [] = True"
| "HasPrefix [] (c # cs) = False"
| "HasPrefix (x # xs) (c # cs) = (x = c \<and> HasPrefix xs cs)"

definition HasSuffix :: "string \<Rightarrow> string \<Rightarrow> bool" where
  "HasSuffix s suf = HasPrefix (rev s) (rev suf)"

fun Contains :: "string \<Rightarrow> string \<Rightarrow> bool" where
  "Contains [] sub = (sub = [])"
| "Contains (x # xs) sub = (HasPrefix (x # xs) sub \<or> Contains xs sub)"

lemma HasPrefix_iff: "HasPrefix s p \<longleftrightarrow> (\<exists>r. s = p @ r)"
  by (induction s p rule: HasPrefix.induct) auto

lemma HasSuffix_iff: "HasSuffix s p \<longleftrightarrow> (\<exists>r. s = r @ p)"
  unfolding HasSuffix_def HasPrefix_iff
proof
  assume "\<exists>r. rev s = rev p @ r"
  then obtain r where "rev s = rev p @ r" by blast
  then have "s = rev r @ p" by (metis rev_append rev_rev_ident)
  then show "\<exists>r. s = r @ p" by blast
qed (auto simp: rev_append)

lemma Contains_iff: "Contains s sub \<longleftrightarrow> (\<exists>a b. s = a @ sub @ b)"
proof (induction s)
  case (Cons x xs)
  show ?case
  proof
    assume "Contains (x # xs) sub"
    then consider b where "x # xs = [] @ sub @ b" | a b where "x # xs = (x # a) @ sub @ b"
      using Cons by (auto simp: HasPrefix_iff)
    then show "\<exists>a b. x # xs = a @ sub @ b" by cases blast+
  next
    assume "\<exists>a b. x # xs = a @ sub @ b"
    then obtain a b where ab: "x # xs = a @ sub @ b" by blast
    then show "Contains (x # xs) sub"
    proof (cases a)
      case Nil
      then have "HasPrefix (x # xs) sub" using ab by (auto simp only: HasPrefix_iff append_Nil)
      then show ?thesis by simp
    next
      case (Cons y ys)
      then show ?thesis using ab Cons.IH by auto
    qed
  qed
qed auto

text \<open>types.IsAlreadyPurgingError.\<close>

definition IsAlreadyPurgingError :: "error \<Rightarrow> bool" where
  "IsAlreadyPurgingError err = Contains (Error_msg err) ''already purging''"

text \<open>
  controller.isSnapshotDiskExist: the unanchored pattern "snapshot (.*) is already existing",
  where the dot matches every character but a newline.
\<close>

fun gap_then :: "string \<Rightarrow> string \<Rightarrow> bool" where
  "gap_then [] sub = (sub = [])"
| "gap_then (x # xs) sub = (HasPrefix (x # xs) sub \<or> (x \<noteq> CHR 0x0A \<and> gap_then xs sub))"

fun match_snapshot_exists :: "string \<Rightarrow> bool" where
  "match_snapshot_exists [] = False"
| "match_snapshot_exists (x # xs) =
     ((HasPrefix (x # xs) ''snapshot '' \<and> gap_then (drop 9 (x # xs)) '' is already existing'')
      \<or> match_snapshot_exists xs)"

definition isSnapshotDiskExist :: "error \<Rightarrow> bool" where
  "isSnapshotDiskExist err = match_snapshot_exists (Error_msg err)"

lemma CombineErrors_None_iff: "CombineErrors errs = None \<longleftrightarrow> (\<forall>e \<in> set errs. e = None)"
proof -
  have "CombineErrors_loop errs r = None \<longleftrightarrow> r = None \<and> (\<forall>e \<in> set errs. e = None)" for r
    by (induction errs r rule: CombineErrors_loop.induct) auto
  then show ?thesis by (simp add: CombineErrors_def)
qed

end
