(* ===== verification/Replicator.thy ===== *)
theory Replicator
  imports Types_Error
begin

text \<open>
  The replicator of the controller (src/pkg/controller/replicator.go) with the fan-out of writes
  and unmaps (multi_writer_at.go, multi_unmapper_at.go).

  A backend (types.Backend, the client of one replica) is a parameter: backend_ops is the
  record of its operations over a handle and a world, the state of everything outside the
  controller.  A fan-out starts one goroutine per backend and waits for all of them; the argument
  \<open>sched\<close> of MultiWriterAt and MultiUnmapperAt is the order in which their calls take effect.  The fan-outs of
  Snapshot and Expand run in the order of the map, which is arbitrary.
\<close>

record ('b, 'w) backend_ops =
  be_ReadAt :: "'b \<Rightarrow> bytes \<Rightarrow> int \<Rightarrow> 'w \<Rightarrow> int \<times> error option \<times> bytes"
  be_WriteAt :: "'b \<Rightarrow> bytes \<Rightarrow> int \<Rightarrow> 'w \<Rightarrow> int \<times> error option \<times> 'w"
  be_UnmapAt :: "'b \<Rightarrow> 32 word \<Rightarrow> int \<Rightarrow> 'w \<Rightarrow> int \<times> error option \<times> 'w"
  be_Snapshot :: "'b \<Rightarrow> string \<Rightarrow> bool \<Rightarrow> string \<Rightarrow> (string \<times> string) list \<Rightarrow> 'w \<Rightarrow> error option \<times> 'w"
  be_Expand :: "'b \<Rightarrow> int \<Rightarrow> 'w \<Rightarrow> error option \<times> 'w"
  be_Size :: "'b \<Rightarrow> 'w \<Rightarrow> int \<times> error option"
  be_SectorSize :: "'b \<Rightarrow> 'w \<Rightarrow> int \<times> error option"
  be_GetRevisionCounter :: "'b \<Rightarrow> 'w \<Rightarrow> int \<times> error option"
  be_SetRevisionCounter :: "'b \<Rightarrow> int \<Rightarrow> 'w \<Rightarrow> error option \<times> 'w"
  be_GetState :: "'b \<Rightarrow> 'w \<Rightarrow> string \<times> error option"
  be_StopMonitoring :: "'b \<Rightarrow> 'w \<Rightarrow> 'w"
  be_IsRevisionCounterDisabled :: "'b \<Rightarrow> 'w \<Rightarrow> bool \<times> error option"
  be_GetLastModifyTime :: "'b \<Rightarrow> 'w \<Rightarrow> int \<times> error option"
  be_GetHeadFileSize :: "'b \<Rightarrow> 'w \<Rightarrow> int \<times> error option"
  be_GetUnmapMarkSnapChainRemoved :: "'b \<Rightarrow> 'w \<Rightarrow> bool \<times> error option"
  be_SetUnmapMarkSnapChainRemoved :: "'b \<Rightarrow> bool \<Rightarrow> 'w \<Rightarrow> error option \<times> 'w"
  be_ResetRebuild :: "'b \<Rightarrow> 'w \<Rightarrow> error option \<times> 'w"
  be_SetSnapshotMaxCount :: "'b \<Rightarrow> int \<Rightarrow> 'w \<Rightarrow> error option \<times> 'w"
  be_SetSnapshotMaxSize :: "'b \<Rightarrow> int \<Rightarrow> 'w \<Rightarrow> error option \<times> 'w"
  be_GetSnapshotCountAndSizeUsage :: "'b \<Rightarrow> 'w \<Rightarrow> int \<times> int \<times> error option"
  be_Close :: "'b \<Rightarrow> 'w \<Rightarrow> error option \<times> 'w"

section \<open>Fan-out\<close>

text \<open>The goroutines of MultiWriterAt.WriteAt in the order \<open>sched\<close>, and the errors by index.\<close>

fun multi_write_run ::
  "('b, 'w) backend_ops \<Rightarrow> 'b option list \<Rightarrow> bytes \<Rightarrow> int \<Rightarrow> nat list \<Rightarrow> error option list \<Rightarrow> 'w \<Rightarrow>
     (error option list \<times> 'w) option" where
  "multi_write_run ops writers p off [] errs w = Some (errs, w)"
| "multi_write_run ops writers p off (i # sched) errs w =
     (case writers ! i of
        None \<Rightarrow> None
      | Some b \<Rightarrow> (case be_WriteAt ops b p off w of
          (_, err, w') \<Rightarrow> multi_write_run ops writers p off sched (errs[i := err]) w'))"

definition MultiWriterAt_WriteAt ::
  "('b, 'w) backend_ops \<Rightarrow> 'b option list \<Rightarrow> nat list \<Rightarrow> bytes \<Rightarrow> int \<Rightarrow> 'w \<Rightarrow> (int \<times> error option \<times> 'w) option" where
  "MultiWriterAt_WriteAt ops writers sched p off w = do {
     (errs, w') \<leftarrow> multi_write_run ops writers p off sched (map (\<lambda>_. None) writers) w;
     Some (if None \<in> set errs then int (length p) else 0,
           if list_all (\<lambda>e. e = None) errs then None else Some (MultiWriterErr errs), w')
   }"

text \<open>The goroutines of MultiUnmapperAt.UnmapAt; the accumulator after errs is unmappedSize.\<close>

fun multi_unmap_run ::
  "('b, 'w) backend_ops \<Rightarrow> 'b option list \<Rightarrow> 32 word \<Rightarrow> int \<Rightarrow> nat list \<Rightarrow> error option list \<Rightarrow> int \<Rightarrow> 'w \<Rightarrow>
     (error option list \<times> int \<times> 'w) option" where
  "multi_unmap_run ops unmappers len off [] errs unmappedSize w = Some (errs, unmappedSize, w)"
| "multi_unmap_run ops unmappers len off (i # sched) errs unmappedSize w =
     (case unmappers ! i of
        None \<Rightarrow> None
      | Some b \<Rightarrow> (case be_UnmapAt ops b len off w of
          (n, err, w') \<Rightarrow> multi_unmap_run ops unmappers len off sched (errs[i := err])
                            (if unmappedSize = 0 then n else unmappedSize) w'))"

definition MultiUnmapperAt_UnmapAt ::
  "('b, 'w) backend_ops \<Rightarrow> 'b option list \<Rightarrow> nat list \<Rightarrow> 32 word \<Rightarrow> int \<Rightarrow> 'w \<Rightarrow> (int \<times> error option \<times> 'w) option" where
  "MultiUnmapperAt_UnmapAt ops unmappers sched len off w = do {
     (errs, n, w') \<leftarrow> multi_unmap_run ops unmappers len off sched (map (\<lambda>_. None) unmappers) 0 w;
     Some (n, if list_all (\<lambda>e. e = None) errs then None else Some (MultiUnmapperErr errs), w')
   }"

section \<open>The replicator\<close>

record 'b backendWrapper =
  bw_backend :: "'b option"
  bw_mode :: mode

record 'b replicator =
  backendsAvailable :: bool
  backends :: "(string \<times> 'b backendWrapper) list"
  writerIndex :: "(nat \<times> string) list"
  readerIndex :: "(nat \<times> string) list"
  unmapperIndex :: "(nat \<times> string) list"
  readers :: "'b option list"
  writer :: "'b option list option"
  unmapper :: "'b option list option"
  r_next :: int

definition new_replicator :: "'b replicator" where
  "new_replicator = \<lparr>backendsAvailable = False, backends = [], writerIndex = [], readerIndex = [],
     unmapperIndex = [], readers = [], writer = None, unmapper = None, r_next = 0\<rparr>"

text \<open>A read of a map[int]string: the empty string for a missing key.\<close>

definition index_name :: "(nat \<times> string) list \<Rightarrow> nat \<Rightarrow> string" where
  "index_name ix i = (case map_of ix i of Some a \<Rightarrow> a | None \<Rightarrow> '''')"

definition reset :: "bool \<Rightarrow> 'b replicator \<Rightarrow> 'b replicator" where
  "reset full r =
     (let r' = r\<lparr>backendsAvailable := False, writer := None, unmapper := None,
                 writerIndex := [], readerIndex := [], unmapperIndex := []\<rparr>
      in if full then r'\<lparr>backends := []\<rparr> else r')"

text \<open>
  The loop of buildReaderWriterUnmappers over the map; the accumulators are the three index maps
  and the lists of readers, writers and unmappers.
\<close>

fun build_loop ::
  "(string \<times> 'b backendWrapper) list \<Rightarrow> 'b replicator \<Rightarrow> 'b option list \<Rightarrow> 'b option list \<Rightarrow> 'b option list \<Rightarrow>
     'b replicator \<times> 'b option list \<times> 'b option list \<times> 'b option list" where
  "build_loop [] r rs ws us = (r, rs, ws, us)"
| "build_loop ((address, b) # bs) r rs ws us =
     (let (r, ws, us) =
            (if bw_mode b \<noteq> ERR
             then (r\<lparr>writerIndex := (length ws, address) # writerIndex r,
                     unmapperIndex := (length us, address) # unmapperIndex r\<rparr>,
                   ws @ [bw_backend b], us @ [bw_backend b])
             else (r, ws, us));
          (r, rs) =
            (if bw_mode b = RW
             then (r\<lparr>readerIndex := (length rs, address) # readerIndex r\<rparr>, rs @ [bw_backend b])
             else (r, rs))
      in build_loop bs r rs ws us)"

definition buildReaderWriterUnmappers :: "'b replicator \<Rightarrow> 'b replicator" where
  "buildReaderWriterUnmappers r =
     (let r = reset False r;
          (r, rs, ws, us) = build_loop (backends r) r [] [] [];
          r = r\<lparr>writer := Some ws, unmapper := Some us, readers := rs\<rparr>
      in if readers r \<noteq> [] then r\<lparr>backendsAvailable := True\<rparr> else r)"

definition AddBackend :: "string \<Rightarrow> 'b option \<Rightarrow> mode \<Rightarrow> 'b replicator \<Rightarrow> 'b replicator" where
  "AddBackend address backend mo r =
     (if map_of (backends r) address \<noteq> None then r
      else buildReaderWriterUnmappers
             (r\<lparr>backends := backends r @ [(address, \<lparr>bw_backend = backend, bw_mode = mo\<rparr>)]\<rparr>))"

text \<open>The asynchronous Close of RemoveBackend takes effect right after StopMonitoring here.\<close>

definition RemoveBackend :: "('b, 'w) backend_ops \<Rightarrow> string \<Rightarrow> 'b replicator \<Rightarrow> 'w \<Rightarrow> 'b replicator \<times> 'w" where
  "RemoveBackend ops address r w =
     (case map_of (backends r) address of
        None \<Rightarrow> (r, w)
      | Some b \<Rightarrow>
          (let w' = (case bw_backend b of None \<Rightarrow> w | Some h \<Rightarrow> snd (be_Close ops h (be_StopMonitoring ops h w)))
           in (buildReaderWriterUnmappers (r\<lparr>backends := AList.delete address (backends r)\<rparr>), w')))"

definition SetMode :: "('b, 'w) backend_ops \<Rightarrow> string \<Rightarrow> mode \<Rightarrow> 'b replicator \<Rightarrow> 'w \<Rightarrow> ('b replicator \<times> 'w) option" where
  "SetMode ops address mo r w =
     (case map_of (backends r) address of
        None \<Rightarrow> Some (r, w)
      | Some b \<Rightarrow>
          (let r' = r\<lparr>backends := AList.update address (b\<lparr>bw_mode := mo\<rparr>) (backends r)\<rparr>
           in if mo = ERR
              then (case bw_backend b of
                      None \<Rightarrow> None
                    | Some h \<Rightarrow> Some (buildReaderWriterUnmappers r', be_StopMonitoring ops h w))
              else Some (buildReaderWriterUnmappers r', w)))"

section \<open>Data path\<close>

definition ErrNoBackend :: error where
  "ErrNoBackend = Errorf ''no backend available''"

text \<open>The loop of ReadAt: the number of readers still to try, the index, and the error map.\<close>

fun read_loop ::
  "('b, 'w) backend_ops \<Rightarrow> 'b replicator \<Rightarrow> int \<Rightarrow> 'w \<Rightarrow> nat \<Rightarrow> nat \<Rightarrow> bytes \<Rightarrow> int \<Rightarrow> (string \<times> error) list \<Rightarrow>
     (int \<times> (string \<times> error) list \<times> bytes) option" where
  "read_loop ops r off w 0 ix buf n errs = Some (n, errs, buf)"
| "read_loop ops r off w (Suc k) ix buf n errs =
     (case readers r ! ix of
        None \<Rightarrow> None
      | Some b \<Rightarrow> (case be_ReadAt ops b buf off w of
          (n, None, buf) \<Rightarrow> Some (n, errs, buf)
        | (n, Some e, buf) \<Rightarrow>
            read_loop ops r off w k ((ix + 1) mod length (readers r)) buf n
              (AList.update (index_name (readerIndex r) ix) e errs)))"

definition rep_ReadAt ::
  "('b, 'w) backend_ops \<Rightarrow> 'b replicator \<Rightarrow> bytes \<Rightarrow> int \<Rightarrow> 'w \<Rightarrow> (int \<times> error option \<times> bytes \<times> 'b replicator) option" where
  "rep_ReadAt ops r buf off w =
     (if \<not> backendsAvailable r then Some (0, Some ErrNoBackend, buf, r)
      else if readers r = [] then None
      else
        let r = r\<lparr>r_next := (r_next r + 1) smod int (length (readers r))\<rparr>
        in do {
          (n, errs, buf) \<leftarrow> read_loop ops r off w (length (readers r)) (nat (r_next r)) buf 0 [];
          Some (n, if errs \<noteq> [] then Some (BackendErr errs) else None, buf, r)
        })"

text \<open>The errors by index turned into a map by address.\<close>

fun errors_by_address :: "(nat \<times> string) list \<Rightarrow> nat \<Rightarrow> error option list \<Rightarrow> (string \<times> error) list \<Rightarrow> (string \<times> error) list" where
  "errors_by_address ix i [] m = m"
| "errors_by_address ix i (None # es) m = errors_by_address ix (Suc i) es m"
| "errors_by_address ix i (Some e # es) m = errors_by_address ix (Suc i) es (AList.update (index_name ix i) e m)"

definition rep_WriteAt ::
  "('b, 'w) backend_ops \<Rightarrow> nat list \<Rightarrow> 'b replicator \<Rightarrow> bytes \<Rightarrow> int \<Rightarrow> 'w \<Rightarrow> (int \<times> error option \<times> 'w) option" where
  "rep_WriteAt ops sched r p off w =
     (if \<not> backendsAvailable r then Some (0, Some ErrNoBackend, w)
      else do {
        ws \<leftarrow> writer r;
        (n, err, w') \<leftarrow> MultiWriterAt_WriteAt ops ws sched p off w;
        (case err of
           None \<Rightarrow> Some (n, None, w')
         | Some (MultiWriterErr es) \<Rightarrow> Some (n, Some (BackendErr (errors_by_address (writerIndex r) 0 es [])), w')
         | Some e \<Rightarrow> Some (n, Some (BackendErr [(index_name (writerIndex r) 0, e)]), w'))
      })"

text \<open>UnmapAt tests the error for the type MultiWriterError, as the source does (line 157).\<close>

definition rep_UnmapAt ::
  "('b, 'w) backend_ops \<Rightarrow> nat list \<Rightarrow> 'b replicator \<Rightarrow> 32 word \<Rightarrow> int \<Rightarrow> 'w \<Rightarrow> (int \<times> error option \<times> 'w) option" where
  "rep_UnmapAt ops sched r len off w =
     (if \<not> backendsAvailable r then Some (0, Some ErrNoBackend, w)
      else do {
        us \<leftarrow> unmapper r;
        (n, err, w') \<leftarrow> MultiUnmapperAt_UnmapAt ops us sched len off w;
        (case err of
           None \<Rightarrow> Some (n, None, w')
         | Some (MultiWriterErr es) \<Rightarrow> Some (n, Some (BackendErr (errors_by_address (unmapperIndex r) 0 es [])), w')
         | Some e \<Rightarrow> Some (n, Some (BackendErr [(index_name (unmapperIndex r) 0, e)]), w'))
      })"

section \<open>Snapshot and expansion\<close>

fun snapshot_loop ::
  "('b, 'w) backend_ops \<Rightarrow> string \<Rightarrow> bool \<Rightarrow> string \<Rightarrow> (string \<times> string) list \<Rightarrow> (string \<times> 'b backendWrapper) list \<Rightarrow>
     (string \<times> error) list \<Rightarrow> 'w \<Rightarrow> ((string \<times> error) list \<times> 'w) option" where
  "snapshot_loop ops name userCreated created labels [] errs w = Some (errs, w)"
| "snapshot_loop ops name userCreated created labels ((addr, b) # bs) errs w =
     (if bw_mode b = ERR then snapshot_loop ops name userCreated created labels bs errs w
      else do {
        h \<leftarrow> bw_backend b;
        (case be_Snapshot ops h name userCreated created labels w of
           (None, w') \<Rightarrow> snapshot_loop ops name userCreated created labels bs errs w'
         | (Some e, w') \<Rightarrow> snapshot_loop ops name userCreated created labels bs (AList.update addr e errs) w')
      })"

definition rep_Snapshot ::
  "('b, 'w) backend_ops \<Rightarrow> 'b replicator \<Rightarrow> string \<Rightarrow> bool \<Rightarrow> string \<Rightarrow> (string \<times> string) list \<Rightarrow> 'w \<Rightarrow>
     (error option \<times> 'w) option" where
  "rep_Snapshot ops r name userCreated created labels w = do {
     (errs, w') \<leftarrow> snapshot_loop ops name userCreated created labels (backends r) [] w;
     Some (if errs \<noteq> [] then Some (BackendErr errs) else None, w')
   }"

text \<open>An error of Backend.Expand with its code, as *types.Error.\<close>

fun with_code :: "error \<Rightarrow> string \<times> error" where
  "with_code (TypesError code msg rb) = (code, TypesError code msg rb)"
| "with_code e = (ErrorCodeResultUnknown, NewError ErrorCodeResultUnknown (Error_msg e) '''')"

fun expand_loop ::
  "('b, 'w) backend_ops \<Rightarrow> int \<Rightarrow> (string \<times> 'b backendWrapper) list \<Rightarrow> nat \<Rightarrow>
     (string \<times> error) list \<Rightarrow> (string \<times> error) list \<Rightarrow> 'w \<Rightarrow>
     (nat \<times> (string \<times> error) list \<times> (string \<times> error) list \<times> 'w) option" where
  "expand_loop ops sz [] cnt errs outOfSync w = Some (cnt, errs, outOfSync, w)"
| "expand_loop ops sz ((addr, b) # bs) cnt errs outOfSync w =
     (if bw_mode b = ERR then expand_loop ops sz bs cnt errs outOfSync w
      else do {
        h \<leftarrow> bw_backend b;
        (case be_Expand ops h sz w of
           (None, w') \<Rightarrow> expand_loop ops sz bs (cnt + 1) errs outOfSync w'
         | (Some e, w') \<Rightarrow>
             expand_loop ops sz bs (cnt + 1) (AList.update addr (snd (with_code e)) errs)
               (if fst (with_code e) \<noteq> ErrorCodeFunctionFailedRollbackSucceeded
                then AList.update addr (snd (with_code e)) outOfSync else outOfSync) w')
      })"

definition rep_Expand ::
  "('b, 'w) backend_ops \<Rightarrow> 'b replicator \<Rightarrow> int \<Rightarrow> 'w \<Rightarrow> (bool \<times> error option \<times> error option \<times> 'w) option" where
  "rep_Expand ops r sz w = do {
     (rwReplicaCount, errs, outOfSyncErrs, w') \<leftarrow> expand_loop ops sz (backends r) 0 [] [] w;
     Some (if errs \<noteq> []
           then if length errs < rwReplicaCount then (True, Some (BackendErr errs), Some (BackendErr errs), w')
                else if outOfSyncErrs \<noteq> [] then (False, Some (BackendErr outOfSyncErrs), Some (BackendErr errs), w')
                else (False, None, Some (BackendErr errs), w')
           else (True, None, None, w'))
   }"

section \<open>Shutdown and queries\<close>

fun close_loop ::
  "('b, 'w) backend_ops \<Rightarrow> (string \<times> 'b backendWrapper) list \<Rightarrow> error option \<Rightarrow> 'w \<Rightarrow> (error option \<times> 'w) option" where
  "close_loop ops [] lastErr w = Some (lastErr, w)"
| "close_loop ops ((addr, b) # bs) lastErr w =
     (if bw_mode b = ERR then close_loop ops bs lastErr w
      else do {
        h \<leftarrow> bw_backend b;
        (case be_Close ops h (be_StopMonitoring ops h w) of
           (Some e, w') \<Rightarrow> close_loop ops bs (Some e) w'
         | (None, w') \<Rightarrow> close_loop ops bs lastErr w')
      })"

definition rep_Close :: "('b, 'w) backend_ops \<Rightarrow> 'b replicator \<Rightarrow> 'w \<Rightarrow> (error option \<times> 'b replicator \<times> 'w) option" where
  "rep_Close ops r w = do {
     (lastErr, w') \<leftarrow> close_loop ops (backends r) None w;
     Some (lastErr, reset True r, w')
   }"

fun usage_loop ::
  "('b, 'w) backend_ops \<Rightarrow> 'w \<Rightarrow> (string \<times> 'b backendWrapper) list \<Rightarrow> bool \<Rightarrow> int \<Rightarrow> int \<Rightarrow> (bool \<times> int \<times> int) option" where
  "usage_loop ops w [] hasResult countUsage sizeUsage = Some (hasResult, countUsage, sizeUsage)"
| "usage_loop ops w ((addr, b) # bs) hasResult countUsage sizeUsage =
     (if bw_mode b = ERR then usage_loop ops w bs hasResult countUsage sizeUsage
      else do {
        h \<leftarrow> bw_backend b;
        (case be_GetSnapshotCountAndSizeUsage ops h w of
           (_, _, Some e) \<Rightarrow> usage_loop ops w bs hasResult countUsage sizeUsage
         | (cnt, sz, None) \<Rightarrow> usage_loop ops w bs True (max countUsage cnt) (max sizeUsage sz))
      })"

definition rep_GetSnapshotCountAndSizeUsage ::
  "('b, 'w) backend_ops \<Rightarrow> 'b replicator \<Rightarrow> 'w \<Rightarrow> (int \<times> int \<times> error option) option" where
  "rep_GetSnapshotCountAndSizeUsage ops r w = do {
     (hasResult, countUsage, sizeUsage) \<leftarrow> usage_loop ops w (backends r) False 0 0;
     Some (if \<not> hasResult then (0, 0, Some (Errorf ''cannot get an valid result for snapshot usage''))
           else (countUsage, sizeUsage, None))
   }"

fun head_size_loop ::
  "('b, 'w) backend_ops \<Rightarrow> 'w \<Rightarrow> (string \<times> 'b backendWrapper) list \<Rightarrow> bool \<Rightarrow> int \<Rightarrow> (bool \<times> int) option" where
  "head_size_loop ops w [] hasResult sizeUsage = Some (hasResult, sizeUsage)"
| "head_size_loop ops w ((addr, b) # bs) hasResult sizeUsage =
     (if bw_mode b = ERR then head_size_loop ops w bs hasResult sizeUsage
      else do {
        h \<leftarrow> bw_backend b;
        (case be_GetHeadFileSize ops h w of
           (_, Some e) \<Rightarrow> head_size_loop ops w bs hasResult sizeUsage
         | (sz, None) \<Rightarrow> head_size_loop ops w bs True (max sizeUsage sz))
      })"

definition rep_GetHeadFileSize :: "('b, 'w) backend_ops \<Rightarrow> 'b replicator \<Rightarrow> 'w \<Rightarrow> (int \<times> error option) option" where
  "rep_GetHeadFileSize ops r w = do {
     (hasResult, sizeUsage) \<leftarrow> head_size_loop ops w (backends r) False 0;
     Some (if \<not> hasResult then (0, Some (Errorf ''cannot get valid result for head file size'')) else (sizeUsage, None))
   }"

definition cannot_find :: "string \<Rightarrow> error" where
  "cannot_find address = Errorf (''cannot find backend '' @ address)"

definition rep_SetRevisionCounter ::
  "('b, 'w) backend_ops \<Rightarrow> 'b replicator \<Rightarrow> string \<Rightarrow> int \<Rightarrow> 'w \<Rightarrow> (error option \<times> 'w) option" where
  "rep_SetRevisionCounter ops r address counter w =
     (case map_of (backends r) address of
        None \<Rightarrow> Some (Some (cannot_find address), w)
      | Some b \<Rightarrow> do { h \<leftarrow> bw_backend b; Some (be_SetRevisionCounter ops h counter w) })"

definition rep_GetRevisionCounter ::
  "('b, 'w) backend_ops \<Rightarrow> 'b replicator \<Rightarrow> string \<Rightarrow> 'w \<Rightarrow> (int \<times> error option) option" where
  "rep_GetRevisionCounter ops r address w =
     (case map_of (backends r) address of
        None \<Rightarrow> Some (- 1, Some (cannot_find address))
      | Some b \<Rightarrow> do {
          h \<leftarrow> bw_backend b;
          (case be_GetRevisionCounter ops h w of
             (_, Some e) \<Rightarrow> Some (0, Some e)
           | (counter, None) \<Rightarrow> Some (counter, None))
        })"

definition rep_SetUnmapMarkSnapChainRemoved ::
  "('b, 'w) backend_ops \<Rightarrow> 'b replicator \<Rightarrow> string \<Rightarrow> bool \<Rightarrow> 'w \<Rightarrow> (error option \<times> 'w) option" where
  "rep_SetUnmapMarkSnapChainRemoved ops r address enabled w =
     (case map_of (backends r) address of
        None \<Rightarrow> Some (Some (cannot_find address), w)
      | Some b \<Rightarrow> do { h \<leftarrow> bw_backend b; Some (be_SetUnmapMarkSnapChainRemoved ops h enabled w) })"

definition rep_GetUnmapMarkSnapChainRemoved ::
  "('b, 'w) backend_ops \<Rightarrow> 'b replicator \<Rightarrow> string \<Rightarrow> 'w \<Rightarrow> (bool \<times> error option) option" where
  "rep_GetUnmapMarkSnapChainRemoved ops r address w =
     (case map_of (backends r) address of
        None \<Rightarrow> Some (False, Some (cannot_find address))
      | Some b \<Rightarrow> do {
          h \<leftarrow> bw_backend b;
          (case be_GetUnmapMarkSnapChainRemoved ops h w of
             (_, Some e) \<Rightarrow> Some (False, Some e)
           | (enabled, None) \<Rightarrow> Some (enabled, None))
        })"

definition rep_SetSnapshotMaxCount ::
  "('b, 'w) backend_ops \<Rightarrow> 'b replicator \<Rightarrow> string \<Rightarrow> int \<Rightarrow> 'w \<Rightarrow> (error option \<times> 'w) option" where
  "rep_SetSnapshotMaxCount ops r address cnt w =
     (case map_of (backends r) address of
        None \<Rightarrow> Some (Some (cannot_find address), w)
      | Some b \<Rightarrow> do { h \<leftarrow> bw_backend b; Some (be_SetSnapshotMaxCount ops h cnt w) })"

definition rep_SetSnapshotMaxSize ::
  "('b, 'w) backend_ops \<Rightarrow> 'b replicator \<Rightarrow> string \<Rightarrow> int \<Rightarrow> 'w \<Rightarrow> (error option \<times> 'w) option" where
  "rep_SetSnapshotMaxSize ops r address sz w =
     (case map_of (backends r) address of
        None \<Rightarrow> Some (Some (cannot_find address), w)
      | Some b \<Rightarrow> do { h \<leftarrow> bw_backend b; Some (be_SetSnapshotMaxSize ops h sz w) })"

end
