(* ===== verification/Replicator_Props.thy ===== *)
theory Replicator_Props
  imports Replicator
begin

text \<open>
  The replicator keeps its reader, writer and unmapper lists in step with the map of
  backends, a write reaches every backend that is not in mode ERR whatever the order of the
  goroutines, and its errors are attributed to the right addresses.
\<close>

section \<open>The lists built from the map of backends\<close>

definition active :: "(string \<times> 'b backendWrapper) list \<Rightarrow> (string \<times> 'b backendWrapper) list" where
  "active bs = filter (\<lambda>(a, b). bw_mode b \<noteq> ERR) bs"

definition readable :: "(string \<times> 'b backendWrapper) list \<Rightarrow> (string \<times> 'b backendWrapper) list" where
  "readable bs = filter (\<lambda>(a, b). bw_mode b = RW) bs"

definition names_match :: "(nat \<times> string) list \<Rightarrow> (string \<times> 'b backendWrapper) list \<Rightarrow> bool" where
  "names_match ix bs \<longleftrightarrow> (\<forall>i. map_of ix i = (if i < length bs then Some (fst (bs ! i)) else None))"

abbreviation handles :: "(string \<times> 'b backendWrapper) list \<Rightarrow> 'b option list" where
  "handles bs \<equiv> map (\<lambda>(a, b). bw_backend b) bs"

definition built :: "'b replicator \<Rightarrow> bool" where
  "built r \<longleftrightarrow>
     writer r = Some (handles (active (backends r))) \<and> unmapper r = Some (handles (active (backends r))) \<and>
     readers r = handles (readable (backends r)) \<and>
     names_match (writerIndex r) (active (backends r)) \<and> names_match (unmapperIndex r) (active (backends r)) \<and>
     names_match (readerIndex r) (readable (backends r)) \<and>
     (backendsAvailable r \<longleftrightarrow> readable (backends r) \<noteq> [])"

text \<open>The invariant: distinct addresses, a handle for every backend that is not ERR, lists in step.\<close>

definition rep_inv :: "'b replicator \<Rightarrow> bool" where
  "rep_inv r \<longleftrightarrow> distinct (map fst (backends r)) \<and>
     (\<forall>(a, b) \<in> set (backends r). bw_mode b \<noteq> ERR \<longrightarrow> bw_backend b \<noteq> None) \<and>
     (if backends r = [] then \<not> backendsAvailable r else built r)"

lemma names_match_Nil [simp]: "names_match [] []"
  by (simp add: names_match_def)

lemma names_match_snoc:
  "names_match ix bs \<Longrightarrow> names_match ((length bs, a) # ix) (bs @ [(a, b)])"
  by (auto simp: names_match_def nth_append)

lemma active_simps [simp]: "active [] = []"
  "active ((a, b) # bs) = (if bw_mode b \<noteq> ERR then (a, b) # active bs else active bs)"
  "active (bs @ cs) = active bs @ active cs"
  by (simp_all add: active_def)

lemma readable_simps [simp]: "readable [] = []"
  "readable ((a, b) # bs) = (if bw_mode b = RW then (a, b) # readable bs else readable bs)"
  "readable (bs @ cs) = readable bs @ readable cs"
  by (simp_all add: readable_def)

lemma build_loop_spec:
  assumes "build_loop bs r rs ws us = (r', rs', ws', us')"
    and "rs = handles (readable done)" "ws = handles (active done)" "us = handles (active done)"
    and "names_match (writerIndex r) (active done)" "names_match (unmapperIndex r) (active done)"
      "names_match (readerIndex r) (readable done)"
  shows "rs' = handles (readable (done @ bs)) \<and> ws' = handles (active (done @ bs)) \<and> us' = ws' \<and>
    names_match (writerIndex r') (active (done @ bs)) \<and> names_match (unmapperIndex r') (active (done @ bs)) \<and>
    names_match (readerIndex r') (readable (done @ bs)) \<and>
    backends r' = backends r \<and> r_next r' = r_next r \<and> backendsAvailable r' = backendsAvailable r"
  using assms
proof (induction bs arbitrary: r rs ws us "done")
  case (Cons x bs)
  obtain a b where x: "x = (a, b)" by (cases x)
  note nm = names_match_snoc [of _ "active done" a b] names_match_snoc [of _ "readable done" a b]
  show ?case
  proof (cases "bw_mode b")
    case RW
    show ?thesis
      using Cons.IH [of _ _ _ _ "done @ [x]"] Cons.prems nm RW by (auto simp: x)
  next
    case WO
    show ?thesis
      using Cons.IH [of _ _ _ _ "done @ [x]"] Cons.prems nm WO by (auto simp: x)
  next
    case ERR
    show ?thesis
      using Cons.IH [of _ _ _ _ "done @ [x]"] Cons.prems ERR by (auto simp: x)
  qed
qed auto

lemma build_built:
  "built (buildReaderWriterUnmappers r)"
  "backends (buildReaderWriterUnmappers r) = backends r"
  "r_next (buildReaderWriterUnmappers r) = r_next r"
proof -
  obtain r' rs ws us where b: "build_loop (backends r) (reset False r) [] [] [] = (r', rs, ws, us)"
    by (metis prod_cases4)
  have "rs = handles (readable (backends r)) \<and> ws = handles (active (backends r)) \<and> us = ws \<and>
    names_match (writerIndex r') (active (backends r)) \<and> names_match (unmapperIndex r') (active (backends r)) \<and>
    names_match (readerIndex r') (readable (backends r)) \<and>
    backends r' = backends r \<and> r_next r' = r_next r \<and> \<not> backendsAvailable r'"
    using build_loop_spec [OF b, of "[]"] by (simp add: reset_def)
  then show "built (buildReaderWriterUnmappers r)" "backends (buildReaderWriterUnmappers r) = backends r"
    "r_next (buildReaderWriterUnmappers r) = r_next r"
    using b by (auto simp: buildReaderWriterUnmappers_def built_def reset_def Let_def)
qed

lemma rep_inv_build:
  assumes "distinct (map fst (backends r))"
    "\<And>a b. (a, b) \<in> set (backends r) \<Longrightarrow> bw_mode b \<noteq> ERR \<Longrightarrow> bw_backend b \<noteq> None"
  shows "rep_inv (buildReaderWriterUnmappers r)"
  using assms build_built [of r] by (auto simp: rep_inv_def built_def)

lemma rep_inv_new: "rep_inv new_replicator"
  by (simp add: rep_inv_def new_replicator_def)

lemma rep_invD:
  assumes "rep_inv r"
  shows "distinct (map fst (backends r))" "(a, b) \<in> set (backends r) \<Longrightarrow> bw_mode b \<noteq> ERR \<Longrightarrow> bw_backend b \<noteq> None"
    "backends r \<noteq> [] \<Longrightarrow> built r"
  using assms by (auto simp: rep_inv_def split: if_splits)

lemma map_of_backend: "rep_inv r \<Longrightarrow> map_of (backends r) a = Some b \<longleftrightarrow> (a, b) \<in> set (backends r)"
  by (simp add: rep_invD(1) map_of_eq_Some_iff)

lemma AddBackend_inv:
  assumes "rep_inv r" "mo \<noteq> ERR \<longrightarrow> backend \<noteq> None"
  shows "rep_inv (AddBackend address backend mo r)"
proof (cases "map_of (backends r) address")
  case None
  then have "address \<notin> fst ` set (backends r)" by (simp add: map_of_eq_None_iff)
  then show ?thesis
    using None assms rep_invD(1,2) [OF assms(1)] by (fastforce simp: AddBackend_def intro!: rep_inv_build)
qed (use assms in \<open>simp add: AddBackend_def\<close>)

lemma RemoveBackend_inv:
  assumes "rep_inv r"
  shows "rep_inv (fst (RemoveBackend ops address r w))"
proof (cases "map_of (backends r) address")
  case (Some b)
  have "set (AList.delete address (backends r)) \<subseteq> set (backends r)" by (auto simp: AList.delete_eq)
  then show ?thesis using Some rep_invD [OF assms] distinct_delete
    by (auto simp: RemoveBackend_def Let_def intro!: rep_inv_build)
qed (use assms in \<open>simp add: RemoveBackend_def\<close>)

lemma SetMode_inv:
  assumes "rep_inv r" "SetMode ops address mo r w = Some (r', w')"
    and "\<And>b. map_of (backends r) address = Some b \<Longrightarrow> mo \<noteq> ERR \<Longrightarrow> bw_mode b \<noteq> ERR"
  shows "rep_inv r'"
proof (cases "map_of (backends r) address")
  case None
  then show ?thesis using assms by (simp add: SetMode_def)
next
  case (Some b)
  let ?bs = "AList.update address (b\<lparr>bw_mode := mo\<rparr>) (backends r)"
  have d: "distinct (map fst ?bs)" using rep_invD(1) [OF assms(1)] by (simp add: distinct_update)
  have "bw_backend c \<noteq> None" if "(a, c) \<in> set ?bs" "bw_mode c \<noteq> ERR" for a c
  proof -
    have "map_of ?bs a = Some c" using that(1) d by (simp add: map_of_eq_Some_iff)
    then have "a = address \<and> c = b\<lparr>bw_mode := mo\<rparr> \<or> map_of (backends r) a = Some c"
      by (auto simp: update_conv split: if_splits)
    then show ?thesis
      using that(2) Some assms(3) [OF Some] rep_invD(2) [OF assms(1)] map_of_backend [OF assms(1)] by auto
  qed
  then have "rep_inv (buildReaderWriterUnmappers (r\<lparr>backends := ?bs\<rparr>))"
    using d by (intro rep_inv_build) auto
  then show ?thesis using assms(2) Some by (auto simp: SetMode_def Let_def split: if_splits option.splits)
qed

section \<open>Errors by address\<close>


lemma index_name_match: "names_match ix bs \<Longrightarrow> i < length bs \<Longrightarrow> index_name ix i = fst (bs ! i)"
  by (simp add: names_match_def index_name_def)

lemma errors_by_address_untouched:
  assumes "names_match ix bs" "i + length es \<le> length bs" "\<And>k. k < length es \<Longrightarrow> fst (bs ! (i + k)) \<noteq> a"
  shows "map_of (errors_by_address ix i es m) a = map_of m a"
  using assms(2,3)
proof (induction es arbitrary: i m)
  case (Cons e es)
  have rest: "\<And>k. k < length es \<Longrightarrow> fst (bs ! (Suc i + k)) \<noteq> a" using Cons.prems(2) by force
  have "fst (bs ! i) \<noteq> a" using Cons.prems(2) [of 0] by simp
  then show ?case
    using Cons.IH [of "Suc i"] rest Cons.prems(1) index_name_match [OF assms(1), of i]
    by (cases e) (simp_all add: update_conv)
qed simp

lemma errors_by_address_at:
  assumes "names_match ix bs" "distinct (map fst bs)" "i + length es \<le> length bs" "k < length es"
    and "map_of m (fst (bs ! (i + k))) = None"
  shows "map_of (errors_by_address ix i es m) (fst (bs ! (i + k))) = es ! k"
  using assms(3-)
proof (induction es arbitrary: i k m)
  case (Cons e es)
  have dist: "fst (bs ! x) \<noteq> fst (bs ! y)" if "x \<noteq> y" "x < length bs" "y < length bs" for x y
    using nth_eq_iff_index_eq [OF assms(2), of x y] that by simp
  show ?case
  proof (cases k)
    case 0
    have "fst (bs ! (Suc i + j)) \<noteq> fst (bs ! i)" if "j < length es" for j
      using dist [of "Suc i + j" i] that Cons.prems(1) by simp
    then show ?thesis
      using 0 errors_by_address_untouched [OF assms(1), of "Suc i" es "fst (bs ! i)"] Cons.prems
        index_name_match [OF assms(1), of i]
      by (cases e) (simp_all add: update_conv)
  next
    case (Suc j)
    have "fst (bs ! i) \<noteq> fst (bs ! (Suc i + j))" using dist [of i "Suc i + j"] Suc Cons.prems by simp
    then show ?thesis
      using Suc Cons.IH [of "Suc i" j] Cons.prems index_name_match [OF assms(1), of i]
      by (cases e) (simp_all add: update_conv)
  qed
qed simp

text \<open>Exactly the backends whose call failed are in the map, each with its own error.\<close>

lemma errors_by_address_iff:
  assumes "names_match ix bs" "distinct (map fst bs)" "length es = length bs"
  shows "map_of (errors_by_address ix 0 es []) a = Some e \<longleftrightarrow> (\<exists>k < length bs. fst (bs ! k) = a \<and> es ! k = Some e)"
proof (cases "\<exists>k < length bs. fst (bs ! k) = a")
  case True
  then obtain k where k: "k < length bs" "fst (bs ! k) = a" by blast
  have "j = k" if "j < length bs" "fst (bs ! j) = a" for j
    using nth_eq_iff_index_eq [OF assms(2), of j k] that k by simp
  then have "(\<exists>k < length bs. fst (bs ! k) = a \<and> es ! k = Some e) \<longleftrightarrow> es ! k = Some e" using k by blast
  then show ?thesis using errors_by_address_at [OF assms(1,2), of 0 es k "[]"] k assms(3) by simp
next
  case False
  then show ?thesis using errors_by_address_untouched [OF assms(1), of 0 es a "[]"] assms(3) by auto
qed

lemma errors_by_address_distinct: "distinct (map fst m) \<Longrightarrow> distinct (map fst (errors_by_address ix i es m))"
  by (induction ix i es m rule: errors_by_address.induct) (simp_all add: distinct_update)

section \<open>Backends that do not interfere\<close>

text \<open>
  What a fanned-out write has to do: every backend that is not ERR ends in the state its own write
  leads to, nothing else changes, and the error names exactly the addresses whose write failed.
\<close>

definition write_replicated ::
  "('b, 'w) backend_ops \<Rightarrow> ('w \<Rightarrow> 'b \<Rightarrow> 's) \<Rightarrow> 'b replicator \<Rightarrow> bytes \<Rightarrow> int \<Rightarrow> 'w \<Rightarrow> int \<Rightarrow> error option \<Rightarrow> 'w \<Rightarrow> bool" where
  "write_replicated ops get r p off w n err w' \<longleftrightarrow>
     (\<forall>(a, b) \<in> set (active (backends r)).
        get w' (the (bw_backend b)) = get (snd (snd (be_WriteAt ops (the (bw_backend b)) p off w))) (the (bw_backend b))) \<and>
     (\<forall>h. Some h \<notin> set (handles (active (backends r))) \<longrightarrow> get w' h = get w h) \<and>
     (err = None \<longleftrightarrow> (\<forall>(a, b) \<in> set (active (backends r)). fst (snd (be_WriteAt ops (the (bw_backend b)) p off w)) = None)) \<and>
     (err \<noteq> None \<longrightarrow> (\<exists>es. err = Some (BackendErr es) \<and> distinct (map fst es) \<and>
        (\<forall>a e. map_of es a = Some e \<longleftrightarrow>
           (\<exists>b. (a, b) \<in> set (active (backends r)) \<and> fst (snd (be_WriteAt ops (the (bw_backend b)) p off w)) = Some e)))) \<and>
     n = (if \<exists>(a, b) \<in> set (active (backends r)). fst (snd (be_WriteAt ops (the (bw_backend b)) p off w)) = None
          then int (length p) else 0)"

text \<open>
  The contract of a pool of replicas: each backend has its own part of the world, a call through
  one handle depends on and changes only that part.
\<close>

locale backend_pool =
  fixes ops :: "('b, 'w) backend_ops"
    and get :: "'w \<Rightarrow> 'b \<Rightarrow> 's"
  assumes write_frame: "b' \<noteq> b \<Longrightarrow> get (snd (snd (be_WriteAt ops b p off w))) b' = get w b'"
    and write_local: "get w1 b = get w2 b \<Longrightarrow>
      fst (snd (be_WriteAt ops b p off w1)) = fst (snd (be_WriteAt ops b p off w2)) \<and>
      get (snd (snd (be_WriteAt ops b p off w1))) b = get (snd (snd (be_WriteAt ops b p off w2))) b"
begin

abbreviation write_err :: "bytes \<Rightarrow> int \<Rightarrow> 'w \<Rightarrow> 'b \<Rightarrow> error option" where
  "write_err p off w b \<equiv> fst (snd (be_WriteAt ops b p off w))"

abbreviation write_state :: "bytes \<Rightarrow> int \<Rightarrow> 'w \<Rightarrow> 'b \<Rightarrow> 's" where
  "write_state p off w b \<equiv> get (snd (snd (be_WriteAt ops b p off w))) b"

lemma multi_write_run_spec:
  assumes "distinct hs" "distinct sched" "set sched \<subseteq> {..< length hs}" "length errs = length hs"
    and "\<And>i. i \<in> set sched \<Longrightarrow> get w (hs ! i) = get w0 (hs ! i)"
  shows "\<exists>w'. multi_write_run ops (map Some hs) p off sched errs w =
      Some (map (\<lambda>i. if i \<in> set sched then write_err p off w0 (hs ! i) else errs ! i) [0 ..< length hs], w') \<and>
    (\<forall>i < length hs. get w' (hs ! i) = (if i \<in> set sched then write_state p off w0 (hs ! i) else get w (hs ! i))) \<and>
    (\<forall>b. b \<notin> set hs \<longrightarrow> get w' b = get w b)"
  using assms(2-)
proof (induction sched arbitrary: errs w)
  case Nil
  have "map (\<lambda>i. errs ! i) [0 ..< length hs] = errs" using Nil.prems(3) by (metis map_nth)
  then show ?case by simp
next
  case (Cons i sched)
  let ?w = "snd (snd (be_WriteAt ops (hs ! i) p off w))"
  let ?e = "write_err p off w (hs ! i)"
  have i: "i < length hs" "i \<notin> set sched" using Cons.prems by auto
  have e: "?e = write_err p off w0 (hs ! i)" "write_state p off w (hs ! i) = write_state p off w0 (hs ! i)"
    using write_local [of w "hs ! i" w0 p off] Cons.prems(4) [of i] by auto
  have ne: "hs ! j \<noteq> hs ! i" if "j < length hs" "j \<noteq> i" for j
    using assms(1) that i by (simp add: nth_eq_iff_index_eq)
  have frame: "get ?w (hs ! j) = get w (hs ! j)" if "j < length hs" "j \<noteq> i" for j
    using write_frame [OF ne [OF that]] .
  have "get ?w (hs ! j) = get w0 (hs ! j)" if "j \<in> set sched" for j
    using frame [of j] that Cons.prems i by auto
  then obtain w' where w': "multi_write_run ops (map Some hs) p off sched (errs[i := ?e]) ?w =
      Some (map (\<lambda>j. if j \<in> set sched then write_err p off w0 (hs ! j) else errs[i := ?e] ! j) [0 ..< length hs], w')"
    "\<forall>j < length hs. get w' (hs ! j) = (if j \<in> set sched then write_state p off w0 (hs ! j) else get ?w (hs ! j))"
    "\<forall>b. b \<notin> set hs \<longrightarrow> get w' b = get ?w b"
    using Cons.IH [of "errs[i := ?e]" ?w] Cons.prems by auto
  have "map (\<lambda>j. if j \<in> set sched then write_err p off w0 (hs ! j) else errs[i := ?e] ! j) [0 ..< length hs] =
      map (\<lambda>j. if j \<in> set (i # sched) then write_err p off w0 (hs ! j) else errs ! j) [0 ..< length hs]"
    using e(1) Cons.prems(3) i by (auto simp: nth_list_update)
  moreover have "get ?w b = get w b" if "b \<notin> set hs" for b
    using write_frame [of b "hs ! i"] that i by (metis nth_mem)
  ultimately show ?case
    using w' frame e(2) i by (auto split: prod.split)
qed

theorem rep_WriteAt_replicates:
  assumes inv: "rep_inv r" and av: "backendsAvailable r" and dist: "distinct (handles (active (backends r)))"
    and sched: "distinct sched" "set sched = {..< length (active (backends r))}"
  shows "\<exists>n err w'. rep_WriteAt ops sched r p off w = Some (n, err, w') \<and> write_replicated ops get r p off w n err w'"
proof -
  define bs where "bs = active (backends r)"
  define hs where "hs = map (\<lambda>(a, b). the (bw_backend b)) bs"
  have ne: "backends r \<noteq> []" using inv av by (auto simp: rep_inv_def)
  then have bt: "writer r = Some (handles bs)" "names_match (writerIndex r) bs"
    using rep_invD(3) [OF inv] by (simp_all add: built_def bs_def)
  have sub: "set bs \<subseteq> set (backends r)" by (auto simp: bs_def active_def)
  have hd: "handles bs = map Some hs"
    using rep_invD(2) [OF inv] by (auto simp: hs_def bs_def active_def)
  have len: "length hs = length bs" by (simp add: hs_def)
  have dh: "distinct hs" using dist unfolding bs_def [symmetric] hd by (simp add: distinct_map)
  have da: "distinct (map fst bs)"
    using rep_invD(1) [OF inv] unfolding bs_def active_def by (simp add: distinct_map_filter)
  let ?E = "map (write_err p off w) hs"
  have nth: "hs ! k = the (bw_backend b)" if "k < length bs" "bs ! k = (a, b)" for k a b using that by (simp add: hs_def)
  obtain w' where run: "multi_write_run ops (map Some hs) p off sched (map (\<lambda>_. None) (map Some hs)) w = Some (?E, w')"
    "\<forall>i < length hs. get w' (hs ! i) = write_state p off w (hs ! i)" "\<forall>b. b \<notin> set hs \<longrightarrow> get w' b = get w b"
  proof -
    have "map (\<lambda>i. if i \<in> set sched then write_err p off w (hs ! i) else map (\<lambda>_. None) (map Some hs) ! i) [0 ..< length hs] = ?E"
      using sched(2) len by (intro nth_equalityI) (auto simp: bs_def)
    then show ?thesis
      using that multi_write_run_spec [OF dh sched(1), of "map (\<lambda>_. None) (map Some hs)" w w p off] sched(2) len
      by (auto simp: bs_def)
  qed
  have err: "map_of (errors_by_address (writerIndex r) 0 ?E []) a = Some e \<longleftrightarrow>
      (\<exists>b. (a, b) \<in> set bs \<and> write_err p off w (the (bw_backend b)) = Some e)" for a e
  proof -
    have "map_of (errors_by_address (writerIndex r) 0 ?E []) a = Some e \<longleftrightarrow>
        (\<exists>k < length bs. fst (bs ! k) = a \<and> ?E ! k = Some e)"
      using errors_by_address_iff [OF bt(2) da, of ?E] len by simp
    also have "\<dots> \<longleftrightarrow> (\<exists>k < length bs. \<exists>b. bs ! k = (a, b) \<and> write_err p off w (the (bw_backend b)) = Some e)"
    proof -
      have "fst (bs ! k) = a \<and> ?E ! k = Some e \<longleftrightarrow> (\<exists>b. bs ! k = (a, b) \<and> write_err p off w (the (bw_backend b)) = Some e)"
        if "k < length bs" for k
        using that len nth by (cases "bs ! k") auto
      then show ?thesis by blast
    qed
    finally show ?thesis by (metis in_set_conv_nth)
  qed
  have none: "(\<forall>x \<in> set hs. write_err p off w x = None) \<longleftrightarrow>
      (\<forall>(a, b) \<in> set bs. write_err p off w (the (bw_backend b)) = None)" by (auto simp: hs_def)
  have some: "None \<in> set ?E \<longleftrightarrow> (\<exists>(a, b) \<in> set bs. write_err p off w (the (bw_backend b)) = None)"
    by (force simp: hs_def)
  have st: "get w' (the (bw_backend b)) = write_state p off w (the (bw_backend b))" if "(a, b) \<in> set bs" for a b
    using run(2) that nth len by (metis in_set_conv_nth)
  have out: "get w' h = get w h" if "Some h \<notin> set (handles bs)" for h
    using run(3) that unfolding hd by auto
  let ?err = "if list_all (\<lambda>e. e = None) ?E then None else Some (BackendErr (errors_by_address (writerIndex r) 0 ?E []))"
  have "rep_WriteAt ops sched r p off w = Some (if None \<in> set ?E then int (length p) else 0, ?err, w')"
    using av bt(1) run(1) unfolding hd by (simp add: rep_WriteAt_def MultiWriterAt_WriteAt_def)
  moreover have "write_replicated ops get r p off w (if None \<in> set ?E then int (length p) else 0) ?err w'"
    unfolding write_replicated_def bs_def [symmetric]
    using st out err some none errors_by_address_distinct [of "[]" "writerIndex r" 0 ?E]
    by (auto simp: list_all_iff split: if_splits)
  ultimately show ?thesis by blast
qed

end

section \<open>Reading with fail-over\<close>

text \<open>
  The readers tried from index \<open>ix\<close> on: the first \<open>j\<close> of them failed, and either the next one
  answered or there was none left; the errors recorded are those of the failed ones.
\<close>

definition tried :: "'b replicator \<Rightarrow> nat \<Rightarrow> nat \<Rightarrow> nat" where
  "tried r ix j = (ix + j) mod length (readers r)"

lemma read_loop_failover:
  assumes "read_loop ops r off w k ix buf n errs = Some (n', errs', buf')" "ix < length (readers r)"
  shows "\<exists>j \<le> k. (\<forall>i < j. \<exists>h bf m e bf'. readers r ! tried r ix i = Some h \<and> be_ReadAt ops h bf off w = (m, Some e, bf') \<and>
        map_of errs' (index_name (readerIndex r) (tried r ix i)) \<noteq> None) \<and>
      (j < k \<longrightarrow> (\<exists>h bf. readers r ! tried r ix j = Some h \<and> be_ReadAt ops h bf off w = (n', None, buf'))) \<and>
      (\<forall>a. map_of errs' a \<noteq> None \<longrightarrow> map_of errs a \<noteq> None \<or> (\<exists>i < j. a = index_name (readerIndex r) (tried r ix i))) \<and>
      (\<forall>a. map_of errs a \<noteq> None \<longrightarrow> map_of errs' a \<noteq> None)"
  using assms
proof (induction k arbitrary: ix buf n errs)
  case 0
  then show ?case by auto
next
  case (Suc k)
  let ?N = "length (readers r)"
  obtain h where h: "readers r ! ix = Some h" using Suc.prems by (auto split: option.splits)
  have t0: "tried r ix 0 = ix" using Suc.prems(2) by (simp add: tried_def)
  obtain m e bf where rd: "be_ReadAt ops h buf off w = (m, e, bf)" by (cases "be_ReadAt ops h buf off w")
  show ?case
  proof (cases e)
    case None
    then show ?thesis using Suc.prems h rd t0 by (intro exI [of _ 0]) auto
  next
    case (Some err)
    let ?name = "index_name (readerIndex r) ix"
    have "read_loop ops r off w k ((ix + 1) mod ?N) bf m (AList.update ?name err errs) = Some (n', errs', buf')"
      using Suc.prems(1) h rd Some by simp
    moreover have "(ix + 1) mod ?N < ?N" using Suc.prems(2) by (intro mod_less_divisor) linarith
    moreover have step: "tried r ((ix + 1) mod ?N) i = tried r ix (Suc i)" for i
      by (simp add: tried_def mod_add_left_eq)
    ultimately obtain j where j: "j \<le> k"
      "\<forall>i < j. \<exists>h bf m e bf'. readers r ! tried r ix (Suc i) = Some h \<and> be_ReadAt ops h bf off w = (m, Some e, bf') \<and>
        map_of errs' (index_name (readerIndex r) (tried r ix (Suc i))) \<noteq> None"
      "j < k \<longrightarrow> (\<exists>h bf. readers r ! tried r ix (Suc j) = Some h \<and> be_ReadAt ops h bf off w = (n', None, buf'))"
      "\<forall>a. map_of errs' a \<noteq> None \<longrightarrow> map_of (AList.update ?name err errs) a \<noteq> None \<or>
        (\<exists>i < j. a = index_name (readerIndex r) (tried r ix (Suc i)))"
      "\<forall>a. map_of (AList.update ?name err errs) a \<noteq> None \<longrightarrow> map_of errs' a \<noteq> None"
      using Suc.IH [of "(ix + 1) mod ?N" bf m "AList.update ?name err errs"] by (simp only: step) blast
    have name: "map_of errs' ?name \<noteq> None" using j(5) by (simp add: update_conv)
    show ?thesis
    proof (intro exI [of _ "Suc j"] conjI allI impI)
      fix i assume "i < Suc j"
      then show "\<exists>h bf m e bf'. readers r ! tried r ix i = Some h \<and> be_ReadAt ops h bf off w = (m, Some e, bf') \<and>
        map_of errs' (index_name (readerIndex r) (tried r ix i)) \<noteq> None"
        using j(2) h rd Some t0 name by (cases i) auto
    next
      fix a assume "map_of errs' a \<noteq> None"
      then consider "a = ?name" | "map_of errs a \<noteq> None" | i where "i < j" "a = index_name (readerIndex r) (tried r ix (Suc i))"
        using j(4) [THEN spec, of a] by (auto simp: update_conv split: if_splits)
      then show "map_of errs a \<noteq> None \<or> (\<exists>i < Suc j. a = index_name (readerIndex r) (tried r ix i))"
        using t0 by cases (metis zero_less_Suc, blast, metis Suc_less_eq)
    qed (use j in \<open>auto simp: update_conv\<close>)
  qed
qed

section \<open>Expansion\<close>

text \<open>The answers of the backends to an expansion, and what the comment of Expand says about them.\<close>

fun expand_results ::
  "('b, 'w) backend_ops \<Rightarrow> int \<Rightarrow> (string \<times> 'b backendWrapper) list \<Rightarrow> 'w \<Rightarrow> (string \<times> error option) list \<times> 'w" where
  "expand_results ops sz [] w = ([], w)"
| "expand_results ops sz ((a, b) # bs) w =
     (let (e, w') = be_Expand ops (the (bw_backend b)) sz w; (rs, w'') = expand_results ops sz bs w'
      in ((a, map_option (\<lambda>e. snd (with_code e)) e) # rs, w''))"

definition failed :: "(string \<times> error option) list \<Rightarrow> (string \<times> error) list" where
  "failed rs = map (\<lambda>(a, e). (a, the e)) (filter (\<lambda>(a, e). e \<noteq> None) rs)"

definition rollback_failed :: "(string \<times> error) list \<Rightarrow> (string \<times> error) list" where
  "rollback_failed es = filter (\<lambda>(a, e). fst (with_code e) \<noteq> ErrorCodeFunctionFailedRollbackSucceeded) es"

text \<open>
  Success if at least one replica was expanded; then every replica that failed is out of sync.
  If all failed, those whose rollback failed as well are out of sync.
\<close>

definition classify_expansion :: "(string \<times> error option) list \<Rightarrow> bool \<times> error option \<times> error option" where
  "classify_expansion rs =
     (if failed rs = [] then (True, None, None)
      else if \<exists>(a, e) \<in> set rs. e = None then (True, Some (BackendErr (failed rs)), Some (BackendErr (failed rs)))
      else (False, if rollback_failed (failed rs) = [] then None else Some (BackendErr (rollback_failed (failed rs))),
            Some (BackendErr (failed rs))))"

lemma with_code_idem [simp]: "with_code (snd (with_code e)) = with_code e"
  by (cases e) (simp_all add: NewError_def)

lemma expand_loop_results:
  assumes "distinct (map fst bs)" "\<forall>x \<in> set bs. bw_mode (snd x) \<noteq> ERR \<longrightarrow> bw_backend (snd x) \<noteq> None"
    and "fst ` set errs \<inter> fst ` set bs = {}" "out = rollback_failed errs"
    and "expand_results ops sz (active bs) w = (rs, w')"
  shows "expand_loop ops sz bs cnt errs out w =
    Some (cnt + length rs, errs @ failed rs, rollback_failed (errs @ failed rs), w')"
  using assms
proof (induction bs arbitrary: cnt errs out w rs)
  case (Cons x bs)
  obtain a b where x: "x = (a, b)" by (cases x)
  show ?case
  proof (cases "bw_mode b = ERR")
    case True
    then show ?thesis using Cons x by (auto simp: failed_def)
  next
    case False
    obtain h where h: "bw_backend b = Some h" using Cons.prems(2) False x by auto
    obtain e w1 where e: "be_Expand ops h sz w = (e, w1)" by (cases "be_Expand ops h sz w")
    obtain rs1 where rs1: "expand_results ops sz (active bs) w1 = (rs1, w')"
      "rs = (a, map_option (\<lambda>e. snd (with_code e)) e) # rs1"
      using Cons.prems(5) False x h e by (auto split: prod.splits)
    have fresh: "a \<notin> fst ` set errs" "a \<notin> fst ` set bs" using Cons.prems(1,3) x by auto
    show ?thesis
    proof (cases e)
      case None
      then show ?thesis using Cons.IH [of errs out w1 rs1 "cnt + 1"] Cons.prems False h e rs1 x
        by (auto simp: failed_def)
    next
      case (Some err)
      let ?errs = "errs @ [(a, snd (with_code err))]"
      have "AList.update a (snd (with_code err)) errs = ?errs" using fresh by (simp add: update_fresh)
      moreover have "(if fst (with_code err) \<noteq> ErrorCodeFunctionFailedRollbackSucceeded
          then AList.update a (snd (with_code err)) out else out) = rollback_failed ?errs"
        using fresh Cons.prems(4) by (auto simp: rollback_failed_def intro!: update_fresh)
      moreover have "fst ` set ?errs \<inter> fst ` set bs = {}" using Cons.prems(3) fresh x by auto
      ultimately show ?thesis
        using Cons.IH [of ?errs "rollback_failed ?errs" w1 rs1 "cnt + 1"] Cons.prems(1,2) False h e rs1 x Some
        by (auto simp: failed_def)
    qed
  qed
qed (simp add: failed_def)

lemma failed_length: "length (failed rs) < length rs \<longleftrightarrow> (\<exists>(a, e) \<in> set rs. e = None)"
proof -
  have "length (filter (\<lambda>(a, e). e \<noteq> None) rs) = length rs \<longleftrightarrow> (\<forall>x \<in> set rs. case x of (a, e) \<Rightarrow> e \<noteq> None)"
    by (metis (no_types, lifting) filter_id_conv length_filter_less nat_neq_iff)
  moreover have "length (filter (\<lambda>(a, e). e \<noteq> None) rs) \<le> length rs" by simp
  ultimately show ?thesis by (auto simp: failed_def case_prod_beta order_le_less)
qed

lemma rep_Expand_classified:
  assumes "rep_inv r" "expand_results ops sz (active (backends r)) w = (rs, w')"
  shows "rep_Expand ops r sz w = Some (case classify_expansion rs of (ok, fatal, recd) \<Rightarrow> (ok, fatal, recd, w'))"
proof -
  have "\<forall>x \<in> set (backends r). bw_mode (snd x) \<noteq> ERR \<longrightarrow> bw_backend (snd x) \<noteq> None"
    using rep_invD(2) [OF assms(1)] by (metis prod.collapse)
  then have "expand_loop ops sz (backends r) 0 [] [] w = Some (length rs, failed rs, rollback_failed (failed rs), w')"
    using expand_loop_results [of "backends r" "[]" "[]" ops sz w rs w' 0] rep_invD(1) [OF assms(1)] assms(2)
    by (simp add: rollback_failed_def)
  then show ?thesis using failed_length [of rs] by (auto simp: rep_Expand_def classify_expansion_def)
qed

end
