(* ===== verification/Disk_Names.thy ===== *)
theory Disk_Names
  imports Types_Error
begin

text \<open>
  The names of the files of a replica (src/pkg/util/disk): generation from a snapshot name,
  recovery of the name, and the sector sizes.
\<close>

definition VolumeHeadDiskPrefix :: string where "VolumeHeadDiskPrefix = ''volume-head-''"
definition VolumeHeadDiskSuffix :: string where "VolumeHeadDiskSuffix = ''.img''"
definition SnapshotDiskPrefix :: string where "SnapshotDiskPrefix = ''volume-snap-''"
definition SnapshotDiskSuffix :: string where "SnapshotDiskSuffix = ''.img''"
definition DeltaDiskPrefix :: string where "DeltaDiskPrefix = ''volume-delta-''"
definition DeltaDiskSuffix :: string where "DeltaDiskSuffix = ''.img''"
definition DiskMetadataSuffix :: string where "DiskMetadataSuffix = ''.meta''"
definition DiskChecksumSuffix :: string where "DiskChecksumSuffix = ''.checksum''"
definition snapTmpSuffix :: string where "snapTmpSuffix = ''.snap_tmp''"
definition replicaExpansionLabelKey :: string where "replicaExpansionLabelKey = ''replica-expansion''"

definition VolumeSectorSize :: int where "VolumeSectorSize = 4096"
definition ReplicaSectorSize :: int where "ReplicaSectorSize = 512"
definition BackingImageSectorSize :: int where "BackingImageSectorSize = 512"

lemmas disk_names = VolumeHeadDiskPrefix_def VolumeHeadDiskSuffix_def SnapshotDiskPrefix_def SnapshotDiskSuffix_def
  DeltaDiskPrefix_def DeltaDiskSuffix_def DiskMetadataSuffix_def DiskChecksumSuffix_def snapTmpSuffix_def

text \<open>strings.TrimPrefix and strings.TrimSuffix.\<close>

definition TrimPrefix :: "string \<Rightarrow> string \<Rightarrow> string" where
  "TrimPrefix s p = (if HasPrefix s p then drop (length p) s else s)"

definition TrimSuffix :: "string \<Rightarrow> string \<Rightarrow> string" where
  "TrimSuffix s p = (if HasSuffix s p then take (length s - length p) s else s)"

lemma TrimPrefix_append [simp]: "TrimPrefix (p @ s) p = s"
  by (simp add: TrimPrefix_def HasPrefix_iff)

lemma TrimSuffix_append [simp]: "TrimSuffix (s @ p) p = s"
  by (auto simp: TrimSuffix_def HasSuffix_iff)

lemma HasPrefix_append [simp]: "HasPrefix (p @ s) p"
  by (simp add: HasPrefix_iff)

lemma HasSuffix_append [simp]: "HasSuffix (s @ p) p"
  by (auto simp: HasSuffix_iff)

definition GenerateSnapshotDiskName :: "string \<Rightarrow> string" where
  "GenerateSnapshotDiskName name = SnapshotDiskPrefix @ name @ SnapshotDiskSuffix"

definition GenerateSnapshotDiskChecksumName :: "string \<Rightarrow> string" where
  "GenerateSnapshotDiskChecksumName diskName = diskName @ DiskChecksumSuffix"

definition GenerateSnapshotDiskMetaName :: "string \<Rightarrow> string" where
  "GenerateSnapshotDiskMetaName diskName = diskName @ DiskMetadataSuffix"

definition GenerateDeltaFileName :: "string \<Rightarrow> string" where
  "GenerateDeltaFileName name = DeltaDiskPrefix @ name @ DeltaDiskSuffix"

definition GenerateSnapTempFileName :: "string \<Rightarrow> string" where
  "GenerateSnapTempFileName fileName = fileName @ snapTmpSuffix"

definition GetSnapshotNameFromTempFileName :: "string \<Rightarrow> error + string" where
  "GetSnapshotNameFromTempFileName tmpFileName =
     (if \<not> HasSuffix tmpFileName snapTmpSuffix then Inl (Errorf ''invalid snapshot tmp filename'')
      else Inr (TrimSuffix tmpFileName snapTmpSuffix))"

definition GetSnapshotNameFromDiskName :: "string \<Rightarrow> error + string" where
  "GetSnapshotNameFromDiskName diskName =
     (if \<not> HasPrefix diskName SnapshotDiskPrefix \<or> \<not> HasSuffix diskName SnapshotDiskSuffix
      then Inl (Errorf (''invalid snapshot disk name '' @ diskName))
      else Inr (TrimSuffix (TrimPrefix diskName SnapshotDiskPrefix) SnapshotDiskSuffix))"

definition GenerateExpansionSnapshotName :: "int \<Rightarrow> string" where
  "GenerateExpansionSnapshotName sz = ''expand-'' @ showInt sz"

definition GenerateExpansionSnapshotLabels :: "int \<Rightarrow> (string \<times> string) list" where
  "GenerateExpansionSnapshotLabels sz = [(replicaExpansionLabelKey, showInt sz)]"

definition IsHeadDisk :: "string \<Rightarrow> bool" where
  "IsHeadDisk diskName = (HasPrefix diskName VolumeHeadDiskPrefix \<and> HasSuffix diskName VolumeHeadDiskSuffix)"

section \<open>Names determine what they name\<close>

lemma GenerateSnapshotDiskName_inject [simp]:
  "GenerateSnapshotDiskName a = GenerateSnapshotDiskName b \<longleftrightarrow> a = b"
  by (simp add: GenerateSnapshotDiskName_def)

lemma GetSnapshotName_Generate [simp]: "GetSnapshotNameFromDiskName (GenerateSnapshotDiskName name) = Inr name"
proof -
  have "HasSuffix (SnapshotDiskPrefix @ name @ SnapshotDiskSuffix) SnapshotDiskSuffix"
    using HasSuffix_append [of "SnapshotDiskPrefix @ name" SnapshotDiskSuffix] by simp
  then show ?thesis by (simp add: GetSnapshotNameFromDiskName_def GenerateSnapshotDiskName_def)
qed

text \<open>A prefix that ends in a dash and a suffix that starts with a dot cannot overlap.\<close>

lemma GetSnapshotName_sound:
  assumes "GetSnapshotNameFromDiskName d = Inr name"
  shows "d = GenerateSnapshotDiskName name"
proof -
  obtain r s where r: "d = SnapshotDiskPrefix @ r" and s: "d = s @ SnapshotDiskSuffix"
    and nm: "name = TrimSuffix (TrimPrefix d SnapshotDiskPrefix) SnapshotDiskSuffix"
    using assms unfolding GetSnapshotNameFromDiskName_def HasPrefix_iff HasSuffix_iff
    by (metis Inl_Inr_False Inr_inject)
  have name: "name = TrimSuffix r SnapshotDiskSuffix" using nm unfolding r by simp
  have suf: "drop (length d - 4) d = ''.img''" using s by (simp add: SnapshotDiskSuffix_def)
  have "length r \<ge> 4"
  proof (rule ccontr)
    assume "\<not> length r \<ge> 4"
    then consider "r = []" | a where "r = [a]" | a b where "r = [a, b]" | a b c where "r = [a, b, c]"
      by (cases r; cases "tl r"; cases "tl (tl r)"; cases "tl (tl (tl r))") auto
    then show False using r suf by cases (simp_all add: SnapshotDiskPrefix_def)
  qed
  then have "drop (length r - 4) r = ''.img''"
    using r suf by (simp add: drop_append)
  then have "r = take (length r - 4) r @ SnapshotDiskSuffix"
    by (metis SnapshotDiskSuffix_def append_take_drop_id)
  then have "r = name @ SnapshotDiskSuffix" using name by (metis TrimSuffix_append)
  then show ?thesis using r by (simp add: GenerateSnapshotDiskName_def)
qed

lemma GetSnapshotNameFromTemp_Generate [simp]:
  "GetSnapshotNameFromTempFileName (GenerateSnapTempFileName f) = Inr f"
  by (simp add: GetSnapshotNameFromTempFileName_def GenerateSnapTempFileName_def)

lemma IsHeadDisk_snapshot [simp]: "\<not> IsHeadDisk (GenerateSnapshotDiskName name)"
  by (simp add: IsHeadDisk_def GenerateSnapshotDiskName_def disk_names)

lemma meta_not_head [simp]: "\<not> IsHeadDisk (GenerateSnapshotDiskMetaName d)"
proof -
  have "d @ ''.meta'' \<noteq> r @ ''.img''" for r
  proof
    assume "d @ ''.meta'' = r @ ''.img''"
    then have "last (d @ ''.meta'') = last (r @ ''.img'')" by simp
    then show False by simp
  qed
  then show ?thesis by (simp add: IsHeadDisk_def GenerateSnapshotDiskMetaName_def HasSuffix_iff disk_names)
qed

lemma GenerateExpansionSnapshotName_inject [simp]:
  "GenerateExpansionSnapshotName a = GenerateExpansionSnapshotName b \<longleftrightarrow> a = b"
  by (simp add: GenerateExpansionSnapshotName_def showInt_inj)

end
