(* ===== verification/Fs_Freeze.thy ===== *)
theory Fs_Freeze
  imports Types_Error
begin

text \<open>
  Freezing the filesystem on top of a volume: src/pkg/util/fsfreeze.go and tryFreeze,
  attemptBindMountFilesystem of src/pkg/controller/control.go.  The mounter (k8s.io/mount-utils),
  the fsfreeze binary, os.MkdirAll and the system sync are the parameters host_ops.
\<close>

record 'w host_ops =
  mt_List :: "'w \<Rightarrow> (string \<times> string) list \<times> error option"
  mt_IsMountPoint :: "string \<Rightarrow> 'w \<Rightarrow> bool \<times> error option"
  mt_Mount :: "string \<Rightarrow> string \<Rightarrow> 'w \<Rightarrow> error option \<times> 'w"
  mt_GetDeviceNameFromMount :: "string \<Rightarrow> 'w \<Rightarrow> string \<times> error option"
  mt_CleanupMountPoint :: "string \<Rightarrow> 'w \<Rightarrow> error option \<times> 'w"
  os_MkdirAll :: "string \<Rightarrow> 'w \<Rightarrow> error option \<times> 'w"
  ex_fsfreeze :: "string list \<Rightarrow> 'w \<Rightarrow> error option \<times> 'w"
  ns_Sync :: "'w \<Rightarrow> error option \<times> 'w"

section \<open>Paths\<close>

text \<open>filepath.Base and filepath.Join on slash-separated paths.\<close>

fun split_path :: "string \<Rightarrow> string \<Rightarrow> string list" where
  "split_path cur [] = [rev cur]"
| "split_path cur (c # cs) = (if c = CHR ''/'' then rev cur # split_path [] cs else split_path (c # cur) cs)"

definition path_Base :: "string \<Rightarrow> string" where
  "path_Base p =
     (if p = '''' then ''.''
      else let r = dropWhile (\<lambda>c. c = CHR ''/'') (rev p)
           in if r = [] then ''/'' else rev (takeWhile (\<lambda>c. c \<noteq> CHR ''/'') r))"

fun clean_loop :: "string list \<Rightarrow> string list \<Rightarrow> string list" where
  "clean_loop [] acc = rev acc"
| "clean_loop (e # es) acc =
     (if e = '''' \<or> e = ''.'' then clean_loop es acc
      else if e = ''..'' then clean_loop es (tl acc)
      else clean_loop es (e # acc))"

text \<open>filepath.Join when the first element is rooted: the joined path, cleaned.\<close>

definition path_Join :: "string \<Rightarrow> string \<Rightarrow> string" where
  "path_Join dir e = CHR ''/'' # join ''/'' (clean_loop (split_path [] (dir @ ''/'' @ e)) [])"

definition freezePointDirectory :: string where
  "freezePointDirectory = ''/var/lib/longhorn/freeze''"

definition GetFreezePointFromVolumeName :: "string \<Rightarrow> string" where
  "GetFreezePointFromVolumeName volumeName =
     (if volumeName = '''' then '''' else path_Join freezePointDirectory volumeName)"

definition GetFreezePointFromDevicePath :: "string \<Rightarrow> string" where
  "GetFreezePointFromDevicePath devicePath =
     (if devicePath = '''' then '''' else GetFreezePointFromVolumeName (path_Base devicePath))"

text \<open>GetDevicePathFromVolumeName, with longhorndev.DevPath as the parameter.\<close>

definition GetDevicePathFromVolumeName :: "string \<Rightarrow> string \<Rightarrow> string" where
  "GetDevicePathFromVolumeName devPath volumeName = (if volumeName = '''' then '''' else path_Join devPath volumeName)"

section \<open>fsfreeze\<close>

definition FreezeFilesystem :: "'w host_ops \<Rightarrow> string \<Rightarrow> 'w \<Rightarrow> error option \<times> 'w" where
  "FreezeFilesystem H freezePoint w = ex_fsfreeze H [''-f'', freezePoint] w"

definition UnfreezeFilesystem :: "'w host_ops \<Rightarrow> string \<Rightarrow> 'w \<Rightarrow> bool \<times> error option \<times> 'w" where
  "UnfreezeFilesystem H freezePoint w =
     (case ex_fsfreeze H [''-u'', freezePoint] w of
        (None, w') \<Rightarrow> (True, None, w')
      | (Some e, w') \<Rightarrow> if Contains (Error_msg e) ''Invalid argument'' then (False, None, w') else (False, Some e, w'))"

definition UnfreezeAndUnmountFilesystem :: "'w host_ops \<Rightarrow> string \<Rightarrow> 'w \<Rightarrow> bool \<times> error option \<times> 'w" where
  "UnfreezeAndUnmountFilesystem H freezePoint w =
     (case UnfreezeFilesystem H freezePoint w of
        (unfroze, Some e, w') \<Rightarrow> (unfroze, Some e, w')
      | (unfroze, None, w') \<Rightarrow> (case mt_CleanupMountPoint H freezePoint w' of (err, w'') \<Rightarrow> (unfroze, err, w'')))"

fun unfreeze_first :: "'w host_ops \<Rightarrow> string \<Rightarrow> (string \<times> string) list \<Rightarrow> 'w \<Rightarrow> error option \<times> 'w" where
  "unfreeze_first H devicePath [] w = (None, w)"
| "unfreeze_first H devicePath ((device, path) # ms) w =
     (if device = devicePath
      then (case UnfreezeFilesystem H path w of (_, err, w') \<Rightarrow> (err, w'))
      else unfreeze_first H devicePath ms w)"

definition UnfreezeFilesystemForDevice :: "'w host_ops \<Rightarrow> string \<Rightarrow> 'w \<Rightarrow> error option \<times> 'w" where
  "UnfreezeFilesystemForDevice H devicePath w =
     (let freezePoint = GetFreezePointFromDevicePath devicePath in
      if fst (mt_IsMountPoint H freezePoint w)
      then (case UnfreezeAndUnmountFilesystem H freezePoint w of (_, err, w') \<Rightarrow> (err, w'))
      else case mt_List H w of
             (_, Some e) \<Rightarrow> (Some (Wrapped ''failed to list mount points while deciding whether or not unfreeze'' e), w)
           | (mountPoints, None) \<Rightarrow> unfreeze_first H devicePath mountPoints w)"

section \<open>Freezing before a snapshot\<close>

text \<open>An existing mount is reported by wrapping the nil error of IsMountPoint.\<close>

definition attemptBindMountFilesystem :: "'w host_ops \<Rightarrow> string \<Rightarrow> string \<Rightarrow> 'w \<Rightarrow> error option \<times> 'w" where
  "attemptBindMountFilesystem H sourcePoint mountPoint w =
     (case os_MkdirAll H mountPoint w of
        (Some e, w') \<Rightarrow> (Some e, w')
      | (None, w') \<Rightarrow>
          (case mt_IsMountPoint H mountPoint w' of
             (_, Some e) \<Rightarrow> (Some e, w')
           | (isMountPoint, None) \<Rightarrow>
               if isMountPoint then (Wrapf None (''filesystem is already mounted to '' @ mountPoint), w')
               else mt_Mount H sourcePoint mountPoint w'))"

text \<open>The loop of tryFreeze over the mount points; the results are mounted, frozen and the error.\<close>

fun freeze_loop ::
  "'w host_ops \<Rightarrow> string \<Rightarrow> string \<Rightarrow> (string \<times> string) list \<Rightarrow> error option \<Rightarrow> 'w \<Rightarrow> bool \<times> bool \<times> error option \<times> 'w" where
  "freeze_loop H devicePath freezePoint [] err w = (False, False, err, w)"
| "freeze_loop H devicePath freezePoint ((device, path) # ms) err w =
     (if device \<noteq> devicePath then freeze_loop H devicePath freezePoint ms err w
      else case attemptBindMountFilesystem H path freezePoint w of
        (Some e, w1) \<Rightarrow> (False, False, Some (Wrapped (''failed to bind mount filesystem from '' @ path @ '' to '' @ freezePoint) e), w1)
      | (None, w1) \<Rightarrow>
          (case mt_GetDeviceNameFromMount H freezePoint w1 of
             (device', err') \<Rightarrow>
               if err' \<noteq> None \<or> device' \<noteq> devicePath
               then (True, False, Wrapf err' (''cannot verify mount point '' @ freezePoint @ '' refers to volume''), w1)
               else (case FreezeFilesystem H freezePoint w1 of
                       (None, w2) \<Rightarrow> (True, True, None, w2)
                     | (Some e, w2) \<Rightarrow> (True, False, Some e, w2))))"

definition tryFreeze :: "'w host_ops \<Rightarrow> string \<Rightarrow> string \<Rightarrow> 'w \<Rightarrow> bool \<times> bool \<times> error option \<times> 'w" where
  "tryFreeze H devicePath freezePoint w =
     (case mt_List H w of (sourcePoints, err) \<Rightarrow> freeze_loop H devicePath freezePoint sourcePoints err w)"

text \<open>The deferred cleanup of Controller.Snapshot.\<close>

definition thaw :: "'w host_ops \<Rightarrow> string \<Rightarrow> bool \<Rightarrow> bool \<Rightarrow> 'w \<Rightarrow> 'w" where
  "thaw H freezePoint mounted frozen w =
     (let w1 = (if frozen then snd (snd (UnfreezeFilesystem H freezePoint w)) else w)
      in if mounted then snd (mt_CleanupMountPoint H freezePoint w1) else w1)"

section \<open>Properties of freezing\<close>

lemma freeze_loop_frozen:
  "freeze_loop H dev fp ms err w = (mounted, True, e, w') \<Longrightarrow> mounted \<and> e = None \<and> dev \<in> fst ` set ms"
  by (induction H dev fp ms err w rule: freeze_loop.induct) (auto split: if_splits prod.splits option.splits)

lemma freeze_loop_nothing_mounted:
  "dev \<notin> fst ` set ms \<Longrightarrow> freeze_loop H dev fp ms err w = (False, False, err, w)"
  by (induction H dev fp ms err w rule: freeze_loop.induct) auto

text \<open>Nothing is mounted or frozen when no mount point belongs to the device.\<close>

lemma tryFreeze_not_mounted:
  assumes "mt_List H w = (ms, err)" "dev \<notin> fst ` set ms"
  shows "tryFreeze H dev fp w = (False, False, err, w)"
  using assms by (simp add: tryFreeze_def freeze_loop_nothing_mounted)

lemma tryFreeze_frozen: "tryFreeze H dev fp w = (mounted, True, e, w') \<Longrightarrow> mounted \<and> e = None"
  by (auto simp: tryFreeze_def dest: freeze_loop_frozen split: prod.splits)

text \<open>A freeze point that already has a mount is taken as if the bind mount had been made.\<close>

lemma attemptBindMount_already_mounted:
  assumes "os_MkdirAll H mp w = (None, w')" "mt_IsMountPoint H mp w' = (True, None)"
  shows "attemptBindMountFilesystem H src mp w = (None, w')"
  using assms by (simp add: attemptBindMountFilesystem_def)

end
