(* ===== verification/Controller.thy ===== *)
theory Controller
  imports Replicator_Props Disk_Names Fs_Freeze
begin

text \<open>
  The volume controller (src/pkg/controller/control.go): its list of replicas with their modes, the
  replicator behind it, and the operations of the data and the control path.

  What is outside the controller is the record ctl_env: the backends, the factory that connects to
  a replica, the frontend that exports the volume, the clock and the identifiers.  An operation
  holds the controller's lock from its first to its last access of the state, so each is one
  step here; the operations that release it in between (Snapshot, Expand, the error handling of the
  data path) are compositions of one definition per locked section.
\<close>

record ('b, 'f, 'w) ctl_env =
  bops :: "('b, 'w) backend_ops"
  factory_Create :: "string \<Rightarrow> 'w \<Rightarrow> (error + 'b) \<times> 'w"
  fe_FrontendName :: "'f \<Rightarrow> string"
  fe_State :: "'f \<Rightarrow> 'w \<Rightarrow> string"
  fe_Init :: "'f \<Rightarrow> string \<Rightarrow> int \<Rightarrow> int \<Rightarrow> 'w \<Rightarrow> error option \<times> 'w"
  fe_Startup :: "'f \<Rightarrow> 'w \<Rightarrow> error option \<times> 'w"
  fe_Shutdown :: "'f \<Rightarrow> 'w \<Rightarrow> error option \<times> 'w"
  fe_Upgrade :: "'f \<Rightarrow> string \<Rightarrow> int \<Rightarrow> int \<Rightarrow> 'w \<Rightarrow> error option \<times> 'w"
  fe_Expand :: "'f \<Rightarrow> int \<Rightarrow> 'w \<Rightarrow> error option \<times> 'w"
  fe_Endpoint :: "'f \<Rightarrow> 'w \<Rightarrow> string"
  rest_New :: 'f
  socket_New :: 'f
  tgt_New :: "string \<Rightarrow> int \<Rightarrow> int \<Rightarrow> int \<Rightarrow> 'f"
  host :: "'w host_ops"
  env_now :: "'w \<Rightarrow> string"
  env_UUID :: "'w \<Rightarrow> string"

record rw_metrics =
  m_Read :: "64 word"
  m_Write :: "64 word"

record metrics =
  Throughput :: rw_metrics
  TotalLatency :: rw_metrics
  IOPS :: rw_metrics

record ('b, 'f) controller =
  VolumeName :: string
  c_size :: int
  c_sectorSize :: int
  c_replicas :: "(string \<times> mode) list"
  c_backend :: "'b replicator"
  c_frontend :: "'f option"
  isUpgrade :: bool
  isExpanding :: bool
  revisionCounterDisabled :: bool
  salvageRequested :: bool
  unmapMarkSnapChainRemoved :: bool
  snapshotMaxCount :: int
  snapshotMaxSize :: int
  c_metrics :: metrics
  latestMetrics :: metrics
  lastExpansionFailedAt :: string
  lastExpansionError :: string
  snapshotFreezeLock :: bool
  iscsiTargetRequestTimeout :: int



section \<open>Replicas and their modes\<close>

definition c_reset :: "('b, 'f) controller \<Rightarrow> ('b, 'f) controller" where
  "c_reset c = c\<lparr>c_replicas := [], c_backend := new_replicator\<rparr>"

definition zero_rw :: rw_metrics where
  "zero_rw = \<lparr>m_Read = 0, m_Write = 0\<rparr>"

definition zero_metrics :: metrics where
  "zero_metrics = \<lparr>Throughput = zero_rw, TotalLatency = zero_rw, IOPS = zero_rw\<rparr>"

definition NewController ::
  "string \<Rightarrow> 'f option \<Rightarrow> bool \<Rightarrow> bool \<Rightarrow> bool \<Rightarrow> bool \<Rightarrow> int \<Rightarrow> int \<Rightarrow> int \<Rightarrow> ('b, 'f) controller" where
  "NewController name frontend upgrade disableRevCounter salvage unmapMark iscsiTimeout maxCount maxSize = c_reset
     \<lparr>VolumeName = name, c_size = 0, c_sectorSize = 0, c_replicas = [], c_backend = new_replicator,
      c_frontend = frontend, isUpgrade = upgrade, isExpanding = False, revisionCounterDisabled = disableRevCounter,
      salvageRequested = salvage, unmapMarkSnapChainRemoved = unmapMark, snapshotMaxCount = maxCount,
      snapshotMaxSize = maxSize, c_metrics = zero_metrics, latestMetrics = zero_metrics,
      lastExpansionFailedAt = '''', lastExpansionError = '''', snapshotFreezeLock = False,
      iscsiTargetRequestTimeout = iscsiTimeout\<rparr>"

definition hasWOReplica :: "('b, 'f) controller \<Rightarrow> bool" where
  "hasWOReplica c = list_ex (\<lambda>(a, m). m = WO) (c_replicas c)"

definition hasReplica :: "('b, 'f) controller \<Rightarrow> string \<Rightarrow> bool" where
  "hasReplica c address = list_ex (\<lambda>(a, m). a = address) (c_replicas c)"

text \<open>canAdd: the boolean and the error.\<close>

definition canAdd :: "('b, 'f) controller \<Rightarrow> string \<Rightarrow> bool \<times> error option" where
  "canAdd c address =
     (if hasReplica c address then (False, None)
      else if hasWOReplica c then (False, Some (Errorf ''can only have one WO replica at a time''))
      else if isExpanding c then (False, Some (Errorf ''cannot add WO replica during expansion''))
      else (True, None))"

text \<open>setReplicaModeNoLock: the loop over the replicas, with the part of the list already passed.\<close>

fun set_mode_loop ::
  "('b, 'w) backend_ops \<Rightarrow> string \<Rightarrow> mode \<Rightarrow> (string \<times> mode) list \<Rightarrow> (string \<times> mode) list \<Rightarrow> 'b replicator \<Rightarrow> 'w \<Rightarrow>
     ((string \<times> mode) list \<times> 'b replicator \<times> 'w) option" where
  "set_mode_loop ops address mo [] passed r w = Some (rev passed, r, w)"
| "set_mode_loop ops address mo ((a, m) # rest) passed r w =
     (if a = address \<and> m \<noteq> ERR
      then do { (r', w') \<leftarrow> SetMode ops address mo r w; set_mode_loop ops address mo rest ((a, mo) # passed) r' w' }
      else set_mode_loop ops address mo rest ((a, m) # passed) r w)"

definition setReplicaModeNoLock ::
  "('b, 'w) backend_ops \<Rightarrow> ('b, 'f) controller \<Rightarrow> string \<Rightarrow> mode \<Rightarrow> 'w \<Rightarrow> (('b, 'f) controller \<times> 'w) option" where
  "setReplicaModeNoLock ops c address mo w = do {
     (reps, r, w') \<leftarrow> set_mode_loop ops address mo (c_replicas c) [] (c_backend c) w;
     Some (c\<lparr>c_replicas := reps, c_backend := r\<rparr>, w')
   }"

definition mode_name :: "mode \<Rightarrow> string" where
  "mode_name m = (case m of WO \<Rightarrow> ''WO'' | RW \<Rightarrow> ''RW'' | ERR \<Rightarrow> ''ERR'')"

definition SetReplicaMode ::
  "('b, 'w) backend_ops \<Rightarrow> ('b, 'f) controller \<Rightarrow> string \<Rightarrow> mode \<Rightarrow> 'w \<Rightarrow> (error option \<times> ('b, 'f) controller \<times> 'w) option" where
  "SetReplicaMode ops c address mo w =
     (if mo \<noteq> ERR \<and> mo \<noteq> RW then Some (Some (Errorf (''cannot set to mode '' @ mode_name mo)), c, w)
      else do { (c', w') \<leftarrow> setReplicaModeNoLock ops c address mo w; Some (None, c', w') })"

text \<open>monitoring: what happens when the monitor channel of a backend delivers a value.\<close>

definition monitoring ::
  "('b, 'w) backend_ops \<Rightarrow> ('b, 'f) controller \<Rightarrow> string \<Rightarrow> error option \<Rightarrow> 'w \<Rightarrow> (('b, 'f) controller \<times> 'w) option" where
  "monitoring ops c address received w =
     (case received of
        None \<Rightarrow> Some (c, w)
      | Some e \<Rightarrow> do { (_, c', w') \<leftarrow> SetReplicaMode ops c address ERR w; Some (c', w') })"

text \<open>
  RemoveReplica deletes from the slice it ranges over.  The range keeps the old length \<open>n\<close>
  and reads the shared array \<open>arr\<close>, in which append has shifted the tail to the left; \<open>len\<close> is the
  current length of c.replicas, a prefix of that array.
\<close>

fun remove_loop ::
  "('b, 'f, 'w) ctl_env \<Rightarrow> string \<Rightarrow> 'f option \<Rightarrow> nat \<Rightarrow> nat \<Rightarrow> (string \<times> mode) list \<Rightarrow> nat \<Rightarrow> 'b replicator \<Rightarrow> 'w \<Rightarrow>
     error option \<times> (string \<times> mode) list \<times> 'b replicator \<times> 'w" where
  "remove_loop E address fe 0 i arr len r w = (None, take len arr, r, w)"
| "remove_loop E address fe (Suc k) i arr len r w =
     (if fst (arr ! i) = address
      then if len = 1 \<and> fe \<noteq> None \<and> fe_State E (the fe) w = ''up''
           then (Some (Errorf ''cannot remove last replica if volume is up''), take len arr, r, w)
           else
             let arr' = take i arr @ drop (Suc i) (take len arr) @ drop (len - 1) arr;
                 (r', w') = RemoveBackend (bops E) (fst (arr ! i)) r w
             in remove_loop E address fe k (Suc i) arr' (len - 1) r' w'
      else remove_loop E address fe k (Suc i) arr len r w)"

definition RemoveReplica ::
  "('b, 'f, 'w) ctl_env \<Rightarrow> ('b, 'f) controller \<Rightarrow> string \<Rightarrow> 'w \<Rightarrow> error option \<times> ('b, 'f) controller \<times> 'w" where
  "RemoveReplica E c address w =
     (if \<not> hasReplica c address then (None, c, w)
      else
        let n = length (c_replicas c);
            (err, reps, r, w') = remove_loop E address (c_frontend c) n 0 (c_replicas c) n (c_backend c) w
        in (err, c\<lparr>c_replicas := reps, c_backend := r\<rparr>, w'))"

section \<open>Errors of the backends\<close>

text \<open>The loop over the error map: sets replicas to ERR and collects snapshotExistList.\<close>

fun handle_loop ::
  "('b, 'w) backend_ops \<Rightarrow> ('b, 'f) controller \<Rightarrow> (string \<times> error) list \<Rightarrow> string list \<Rightarrow> 'w \<Rightarrow>
     (string list \<times> ('b, 'f) controller \<times> 'w) option" where
  "handle_loop ops c [] exist w = Some (exist, c, w)"
| "handle_loop ops c ((address, e) # es) exist w =
     (if isSnapshotDiskExist e then handle_loop ops c es (address # exist) w
      else do { (c', w') \<leftarrow> setReplicaModeNoLock ops c address ERR w; handle_loop ops c' es exist w' })"

definition handleErrorNoLock ::
  "('b, 'w) backend_ops \<Rightarrow> ('b, 'f) controller \<Rightarrow> error option \<Rightarrow> 'w \<Rightarrow> (error option \<times> ('b, 'f) controller \<times> 'w) option" where
  "handleErrorNoLock ops c err w =
     (case err of
        Some (BackendErr es) \<Rightarrow>
          if es = [] then Some (err, c, w)
          else do {
            (exist, c', w') \<leftarrow> handle_loop ops c es [] w;
            Some (if exist = [] \<and> list_ex (\<lambda>(a, m). m = RW) (c_replicas c') then None else err, c', w')
          }
      | _ \<Rightarrow> Some (err, c, w))"

section \<open>Data path\<close>

text \<open>recordMetrics, with the latency in nanoseconds; the counters are uint64.\<close>

definition recordMetrics :: "('b, 'f) controller \<Rightarrow> bool \<Rightarrow> int \<Rightarrow> int \<Rightarrow> ('b, 'f) controller" where
  "recordMetrics c isRead dataLength latency =
     (let m = c_metrics c in
      c\<lparr>c_metrics := (if isRead
         then \<lparr>Throughput = (Throughput m)\<lparr>m_Read := m_Read (Throughput m) + of_int dataLength\<rparr>,
               TotalLatency = (TotalLatency m)\<lparr>m_Read := m_Read (TotalLatency m) + of_int latency\<rparr>,
               IOPS = (IOPS m)\<lparr>m_Read := m_Read (IOPS m) + 1\<rparr>\<rparr>
         else \<lparr>Throughput = (Throughput m)\<lparr>m_Write := m_Write (Throughput m) + of_int dataLength\<rparr>,
               TotalLatency = (TotalLatency m)\<lparr>m_Write := m_Write (TotalLatency m) + of_int latency\<rparr>,
               IOPS = (IOPS m)\<lparr>m_Write := m_Write (IOPS m) + 1\<rparr>\<rparr>)\<rparr>)"

text \<open>One round of metricsStart.\<close>

definition metrics_tick :: "('b, 'f) controller \<Rightarrow> ('b, 'f) controller" where
  "metrics_tick c = c\<lparr>latestMetrics := c_metrics c, c_metrics := zero_metrics\<rparr>"

text \<open>GetLatestMetics: throughput, latency and IOPS for reading and for writing.\<close>

definition GetLatestMetics :: "('b, 'f) controller \<Rightarrow> (64 word \<times> 64 word \<times> 64 word) \<times> (64 word \<times> 64 word \<times> 64 word)" where
  "GetLatestMetics c =
     (let m = latestMetrics c in
      ((m_Read (Throughput m), if m_Read (IOPS m) \<noteq> 0 then m_Read (TotalLatency m) div m_Read (IOPS m) else 0, m_Read (IOPS m)),
       (m_Write (Throughput m), if m_Write (IOPS m) \<noteq> 0 then m_Write (TotalLatency m) div m_Write (IOPS m) else 0, m_Write (IOPS m))))"

definition beyond :: "string \<Rightarrow> int \<Rightarrow> int \<Rightarrow> int \<Rightarrow> error" where
  "beyond verb l off sz = Errorf (''EOF: '' @ verb @ '' of '' @ showInt l @ '' bytes at offset '' @ showInt off @
     '' is beyond volume size '' @ showInt sz)"

definition writeInNormalMode ::
  "('b, 'w) backend_ops \<Rightarrow> nat list \<Rightarrow> ('b, 'f) controller \<Rightarrow> bytes \<Rightarrow> int \<Rightarrow> 'w \<Rightarrow>
     (int \<times> error option \<times> ('b, 'f) controller \<times> 'w) option" where
  "writeInNormalMode ops sched c b off w = do {
     (n, err, w') \<leftarrow> rep_WriteAt ops sched (c_backend c) b off w;
     Some (n, err, c, w')
   }"

definition writeInWOMode ::
  "('b, 'w) backend_ops \<Rightarrow> nat list \<Rightarrow> ('b, 'f) controller \<Rightarrow> bytes \<Rightarrow> int \<Rightarrow> 'w \<Rightarrow>
     (int \<times> error option \<times> ('b, 'f) controller \<times> 'w) option" where
  "writeInWOMode ops sched c b off w =
     (let bufLen = int (length b) in
      if bufLen = 0 \<or> (off smod VolumeSectorSize = 0 \<and> bufLen smod VolumeSectorSize = 0)
      then do {
        (n, err, w') \<leftarrow> rep_WriteAt ops sched (c_backend c) b off w;
        Some (n, err, c, w')
      }
      else
        let readOffsetStart = (off sdiv VolumeSectorSize) * VolumeSectorSize;
            endOffset = int64 (off + bufLen);
            readOffsetEnd = (if endOffset smod VolumeSectorSize = 0 then endOffset
                             else int64 ((endOffset sdiv VolumeSectorSize + 1) * VolumeSectorSize))
        in if readOffsetEnd < readOffsetStart then None
        else do {
          (_, err, readBuf, r) \<leftarrow> rep_ReadAt ops (c_backend c) (zeros (nat (readOffsetEnd - readOffsetStart))) readOffsetStart w;
          let c = c\<lparr>c_backend := r\<rparr>;
          (case err of
             Some e \<Rightarrow> Some (0, Some (Wrapped ''failed to retrieve aligned sectors from RW replicas'' e), c, w)
           | None \<Rightarrow>
               let startCut = off smod VolumeSectorSize in do {
                 _ \<leftarrow> slice_of readBuf startCut (startCut + bufLen);
                 (n, err, w') \<leftarrow> rep_WriteAt ops sched (c_backend c) (blit readBuf (nat startCut) b) readOffsetStart w;
                 Some (if err = None then bufLen
                       else if n < startCut then 0 else if n - startCut < bufLen then n - startCut else bufLen,
                       err, c, w')
               })
        })"

text \<open>
  The arithmetic of the bounds check is that of int64.  The argument \<open>sched\<close> is the order of the
  fan-out, \<open>lat\<close> the measured latency.
\<close>

definition ctl_WriteAt ::
  "('b, 'f, 'w) ctl_env \<Rightarrow> nat list \<Rightarrow> int \<Rightarrow> ('b, 'f) controller \<Rightarrow> bytes \<Rightarrow> int \<Rightarrow> 'w \<Rightarrow>
     (int \<times> error option \<times> ('b, 'f) controller \<times> 'w) option" where
  "ctl_WriteAt E sched lat c b off w =
     (let l = int (length b) in
      if off < 0 \<or> int64 (off + l) > c_size c then Some (0, Some (beyond ''Write'' l off (c_size c)), c, w)
      else do {
        (n, err, c, w) \<leftarrow> (if hasWOReplica c then writeInWOMode (bops E) sched c b off w
                          else writeInNormalMode (bops E) sched c b off w);
        (if err \<noteq> None
         then do { (err, c, w) \<leftarrow> handleErrorNoLock (bops E) c err w; Some (n, err, c, w) }
         else Some (n, None, recordMetrics c False l lat, w))
      })"

definition ctl_ReadAt ::
  "('b, 'f, 'w) ctl_env \<Rightarrow> int \<Rightarrow> ('b, 'f) controller \<Rightarrow> bytes \<Rightarrow> int \<Rightarrow> 'w \<Rightarrow>
     (int \<times> error option \<times> bytes \<times> ('b, 'f) controller \<times> 'w) option" where
  "ctl_ReadAt E lat c b off w =
     (let l = int (length b) in
      if off < 0 \<or> int64 (off + l) > c_size c then Some (0, Some (beyond ''Read'' l off (c_size c)), b, c, w)
      else do {
        (n, err, b, r) \<leftarrow> rep_ReadAt (bops E) (c_backend c) b off w;
        let c = c\<lparr>c_backend := r\<rparr>;
        (if err \<noteq> None
         then do { (err, c, w) \<leftarrow> handleErrorNoLock (bops E) c err w; Some (n, err, b, c, w) }
         else Some (n, None, b, recordMetrics c True l lat, w))
      })"

definition ctl_UnmapAt ::
  "('b, 'f, 'w) ctl_env \<Rightarrow> nat list \<Rightarrow> ('b, 'f) controller \<Rightarrow> 32 word \<Rightarrow> int \<Rightarrow> 'w \<Rightarrow>
     (int \<times> error option \<times> ('b, 'f) controller \<times> 'w) option" where
  "ctl_UnmapAt E sched c len off w =
     (if off < 0 \<or> int64 (off + uint len) > c_size c then Some (0, Some (beyond ''unmap'' (uint len) off (c_size c)), c, w)
      else if hasWOReplica c then Some (0, None, c, w)
      else if isExpanding c
      then Some (0, Some (Errorf (''cannot unmap '' @ showInt (uint len) @ '' bytes at offset '' @ showInt off @
                            '' while expansion in is progress'')), c, w)
      else do {
        (n, err, w) \<leftarrow> rep_UnmapAt (bops E) sched (c_backend c) len off w;
        (if err \<noteq> None
         then do { (err, c, w) \<leftarrow> handleErrorNoLock (bops E) c err w; Some (n, err, c, w) }
         else Some (n, None, c, w))
      })"

section \<open>Snapshots\<close>

definition canDoSnapshot :: "('b, 'w) backend_ops \<Rightarrow> ('b, 'f) controller \<Rightarrow> 'w \<Rightarrow> error option option" where
  "canDoSnapshot ops c w = do {
     (countUsage, sizeUsage, err) \<leftarrow> rep_GetSnapshotCountAndSizeUsage ops (c_backend c) w;
     (if err \<noteq> None then Some err
      else if countUsage \<ge> snapshotMaxCount c
      then Some (Some (Errorf (''snapshot count usage '' @ showInt countUsage @
                  '' is equal or larger than snapshotMaxCount '' @ showInt (snapshotMaxCount c))))
      else if snapshotMaxSize c = 0 then Some None
      else do {
        (headFileSize, err) \<leftarrow> rep_GetHeadFileSize ops (c_backend c) w;
        (if err \<noteq> None then Some err
         else let remainSize = int64 (snapshotMaxSize c - sizeUsage) in
              if headFileSize > remainSize
              then Some (Some (Errorf (''snapshot free space '' @ showInt remainSize @
                          '' is not enough for head file '' @ showInt headFileSize)))
              else Some None)
      })
   }"

definition Endpoint :: "('b, 'f, 'w) ctl_env \<Rightarrow> ('b, 'f) controller \<Rightarrow> 'w \<Rightarrow> string" where
  "Endpoint E c w = (case c_frontend c of None \<Rightarrow> '''' | Some f \<Rightarrow> fe_Endpoint E f w)"

definition FrontendState :: "('b, 'f, 'w) ctl_env \<Rightarrow> ('b, 'f) controller \<Rightarrow> 'w \<Rightarrow> string" where
  "FrontendState E c w = (case c_frontend c of None \<Rightarrow> '''' | Some f \<Rightarrow> fe_State E f w)"

text \<open>The first locked section of Snapshot: the check and the endpoint; c.frontend is dereferenced.\<close>

definition snapshot_check ::
  "('b, 'f, 'w) ctl_env \<Rightarrow> ('b, 'f) controller \<Rightarrow> 'w \<Rightarrow> (error option \<times> string) option" where
  "snapshot_check E c w = do {
     err \<leftarrow> canDoSnapshot (bops E) c w;
     f \<leftarrow> c_frontend c;
     Some (err, if fe_FrontendName E f = ''tgt-blockdev'' then Endpoint E c w else '''')
   }"

text \<open>The second locked section of Snapshot.\<close>

definition snapshot_take ::
  "('b, 'f, 'w) ctl_env \<Rightarrow> ('b, 'f) controller \<Rightarrow> string \<Rightarrow> (string \<times> string) list \<Rightarrow> 'w \<Rightarrow>
     (string \<times> error option \<times> ('b, 'f) controller \<times> 'w) option" where
  "snapshot_take E c name labels w = do {
     err \<leftarrow> canDoSnapshot (bops E) c w;
     (if err \<noteq> None then Some ('''', err, c, w)
      else do {
        (err, w') \<leftarrow> rep_Snapshot (bops E) (c_backend c) name True (env_now E w) labels w;
        (err, c, w') \<leftarrow> handleErrorNoLock (bops E) c err w';
        Some (if err \<noteq> None then '''' else name, err, c, w')
      })
   }"

definition ctl_Snapshot ::
  "('b, 'f, 'w) ctl_env \<Rightarrow> ('b, 'f) controller \<Rightarrow> string \<Rightarrow> (string \<times> string) list \<Rightarrow> bool \<Rightarrow> 'w \<Rightarrow>
     (string \<times> error option \<times> ('b, 'f) controller \<times> 'w) option" where
  "ctl_Snapshot E c inputName labels shouldFreeze w =
     (let name = (if inputName = '''' then env_UUID E w else inputName) in do {
        (err, endpoint) \<leftarrow> snapshot_check E c w;
        let freezePoint = GetFreezePointFromDevicePath endpoint;
        (if err \<noteq> None then Some ('''', err, c, w)
         else if shouldFreeze \<and> endpoint \<noteq> '''' \<and> snapshotFreezeLock c
         then Some ('''', Some (Errorf ''filesystem is already being frozen for a different snapshot''), c, w)
         else
           let (mounted, frozen, err, w) = (if shouldFreeze \<and> endpoint \<noteq> ''''
                 then tryFreeze (host E) endpoint freezePoint w else (False, False, None, w))
           in if err \<noteq> None then Some ('''', err, c, thaw (host E) freezePoint mounted frozen w)
              else
                let w = (if \<not> frozen then snd (ns_Sync (host E) w) else w) in do {
                  (name, err, c, w) \<leftarrow> snapshot_take E c name labels w;
                  Some (name, err, c, thaw (host E) freezePoint mounted frozen w)
                })
      })"

section \<open>Expansion\<close>

definition startExpansion ::
  "('b, 'f, 'w) ctl_env \<Rightarrow> ('b, 'f) controller \<Rightarrow> int \<Rightarrow> 'w \<Rightarrow> error option \<times> ('b, 'f) controller" where
  "startExpansion E c sz w =
     (if isExpanding c then (Some (Errorf ''controller expansion is in progress''), c)
      else
        let (err, c) =
              (if sz smod VolumeSectorSize \<noteq> 0
               then (Some (Errorf (''requested expansion size '' @ showInt sz @
                       '' not multiple of volume sector size '' @ showInt VolumeSectorSize)), c)
               else if c_size c = sz then (None, c)
               else if c_size c > sz
               then (Some (Errorf (''controller cannot be expanded to a smaller size '' @ showInt sz)), c)
               else (None, c\<lparr>isExpanding := True\<rparr>))
        in (err,
            if isExpanding c then c\<lparr>lastExpansionFailedAt := '''', lastExpansionError := ''''\<rparr>
            else case err of
              Some e \<Rightarrow> c\<lparr>lastExpansionFailedAt := env_now E w,
                          lastExpansionError := ''controller failed to start expansion: '' @ Error_msg e\<rparr>
            | None \<Rightarrow> c))"

text \<open>The locked section of the goroutine of Expand; the boolean is the variable expanded.\<close>

definition expand_backends ::
  "('b, 'f, 'w) ctl_env \<Rightarrow> ('b, 'f) controller \<Rightarrow> int \<Rightarrow> 'w \<Rightarrow> (bool \<times> ('b, 'f) controller \<times> 'w) option" where
  "expand_backends E c sz w = do {
     err \<leftarrow> canDoSnapshot (bops E) c w;
     (if err \<noteq> None then Some (False, c, w)
      else do {
        (expansionSuccess, errsNeedToBeHandled, errsForRecording, w) \<leftarrow> rep_Expand (bops E) (c_backend c) sz w;
        (case errsForRecording of
           None \<Rightarrow> Some (True, c, w)
         | Some e \<Rightarrow> do {
             let c = c\<lparr>lastExpansionFailedAt := env_now E w,
                       lastExpansionError :=
                         (if expansionSuccess then ''the expansion succeeded, but some replica expansion failed: ''
                          else ''the expansion failed since all replica expansion failed: '') @ Error_msg e\<rparr>;
             (_, c, w) \<leftarrow> handleErrorNoLock (bops E) c errsNeedToBeHandled w;
             Some (expansionSuccess, c, w)
           })
      })
   }"

definition finishExpansion :: "('b, 'f) controller \<Rightarrow> bool \<Rightarrow> int \<Rightarrow> ('b, 'f) controller" where
  "finishExpansion c expanded sz = (if expanded then c\<lparr>c_size := sz\<rparr> else c)\<lparr>isExpanding := False\<rparr>"

text \<open>The deferred frontend expansion, outside of the lock.\<close>

definition expand_frontend :: "('b, 'f, 'w) ctl_env \<Rightarrow> ('b, 'f) controller \<Rightarrow> bool \<Rightarrow> int \<Rightarrow> 'w \<Rightarrow> bool \<times> 'w" where
  "expand_frontend E c expanded sz w =
     (case c_frontend c of
        Some f \<Rightarrow> if expanded then (case fe_Expand E f sz w of (err, w') \<Rightarrow> (err = None, w')) else (expanded, w)
      | None \<Rightarrow> (expanded, w))"

definition expansion_goroutine ::
  "('b, 'f, 'w) ctl_env \<Rightarrow> ('b, 'f) controller \<Rightarrow> int \<Rightarrow> 'w \<Rightarrow> (('b, 'f) controller \<times> 'w) option" where
  "expansion_goroutine E c sz w = do {
     (expanded, c, w) \<leftarrow> expand_backends E c sz (snd (ns_Sync (host E) w));
     let (expanded, w) = expand_frontend E c expanded sz w;
     Some (finishExpansion c expanded sz, w)
   }"

text \<open>Expand when its goroutine runs without anything in between.\<close>

definition ctl_Expand ::
  "('b, 'f, 'w) ctl_env \<Rightarrow> ('b, 'f) controller \<Rightarrow> int \<Rightarrow> 'w \<Rightarrow> (error option \<times> ('b, 'f) controller \<times> 'w) option" where
  "ctl_Expand E c sz w =
     (case startExpansion E c sz w of
        (Some e, c) \<Rightarrow> Some (Some e, c, w)
      | (None, c) \<Rightarrow> do { (c, w) \<leftarrow> expansion_goroutine E c sz w; Some (None, c, w) })"

end
