(* ===== verification/Controller_Start.thy ===== *)
theory Controller_Start
  imports Controller
begin

text \<open>
  Adding replicas, starting and stopping the controller, and the checks that bring the replicas in
  line (src/pkg/controller/control.go, init_frontend.go).  A loop over c.replicas reads the slice by
  index, because the loop bodies overwrite its elements in place.
\<close>

section \<open>Frontends\<close>

definition second :: int where
  "second = 1000000000"

definition NewFrontend :: "('b, 'f, 'w) ctl_env \<Rightarrow> string \<Rightarrow> int \<Rightarrow> error + 'f" where
  "NewFrontend E frontendType timeout =
     (if frontendType = ''rest'' then Inr (rest_New E)
      else if frontendType = ''socket'' then Inr (socket_New E)
      else if frontendType = ''tgt-blockdev'' then Inr (tgt_New E ''tgt-blockdev'' (60 * second) (15 * second) timeout)
      else if frontendType = ''tgt-iscsi'' then Inr (tgt_New E ''tgt-iscsi'' (60 * second) (15 * second) timeout)
      else Inl (Errorf (''unsupported frontend type: '' @ frontendType)))"

definition DetermineEngineReplicaTimeout :: "int \<Rightarrow> int" where
  "DetermineEngineReplicaTimeout timeout =
     (if timeout < 8 * second \<or> timeout > 30 * second then 8 * second else timeout)"

definition DetermineIscsiTargetRequestTimeout :: "int \<Rightarrow> int" where
  "DetermineIscsiTargetRequestTimeout engineReplicaTimeout = int64 (engineReplicaTimeout + 7 * second)"

definition startFrontend :: "('b, 'f, 'w) ctl_env \<Rightarrow> ('b, 'f) controller \<Rightarrow> 'w \<Rightarrow> error option \<times> 'w" where
  "startFrontend E c w =
     (case c_frontend c of
        None \<Rightarrow> (None, w)
      | Some f \<Rightarrow>
          if c_replicas c = [] then (None, w)
          else if isUpgrade c
          then (case fe_Upgrade E f (VolumeName c) (c_size c) (c_sectorSize c) w of
                  (err, w') \<Rightarrow> (Wrapf err ''failed to upgrade frontend'', w'))
          else (case fe_Init E f (VolumeName c) (c_size c) (c_sectorSize c) w of
                  (Some e, w') \<Rightarrow> (Some (Wrapped ''failed to init frontend'' e), w')
                | (None, w') \<Rightarrow> (case fe_Startup E f w' of
                    (err, w'') \<Rightarrow> (Wrapf err ''failed to start up frontend'', w''))))"

definition StartFrontend ::
  "('b, 'f, 'w) ctl_env \<Rightarrow> ('b, 'f) controller \<Rightarrow> string \<Rightarrow> 'w \<Rightarrow> error option \<times> ('b, 'f) controller \<times> 'w" where
  "StartFrontend E c frontend w =
     (if isExpanding c then (Some (Errorf ''cannot start frontend during the engine expansion''), c, w)
      else if frontend = '''' then (Some (Errorf ''cannot start empty frontend''), c, w)
      else case c_frontend c of
        Some f \<Rightarrow>
          if fe_FrontendName E f \<noteq> frontend \<and> fe_State E f w \<noteq> ''down''
          then (Some (Errorf (''frontend '' @ fe_FrontendName E f @ '' is already started, cannot be set as '' @ frontend)), c, w)
          else (case NewFrontend E frontend (iscsiTargetRequestTimeout c) of
                  Inl e \<Rightarrow> (Some (Wrapped (''failed to find frontend: '' @ frontend) e), c, w)
                | Inr f' \<Rightarrow> let c' = c\<lparr>c_frontend := Some f'\<rparr>; (err, w') = startFrontend E c' w in (err, c', w'))
      | None \<Rightarrow>
          (case NewFrontend E frontend (iscsiTargetRequestTimeout c) of
             Inl e \<Rightarrow> (Some (Wrapped (''failed to find frontend: '' @ frontend) e), c, w)
           | Inr f' \<Rightarrow> let c' = c\<lparr>c_frontend := Some f'\<rparr>; (err, w') = startFrontend E c' w in (err, c', w')))"

section \<open>Adding a replica\<close>

definition close_on_error :: "('b, 'w) backend_ops \<Rightarrow> 'b option \<Rightarrow> error option \<Rightarrow> 'w \<Rightarrow> 'w" where
  "close_on_error ops newBackend err w =
     (case (err, newBackend) of (Some _, Some h) \<Rightarrow> snd (be_Close ops h w) | _ \<Rightarrow> w)"

text \<open>The two snapshots taken before a replica is added: on the present backends and on the new one.\<close>

definition snapshot_for_add ::
  "('b, 'f, 'w) ctl_env \<Rightarrow> ('b, 'f) controller \<Rightarrow> 'b option \<Rightarrow> 'w \<Rightarrow> (error option \<times> 'w) option" where
  "snapshot_for_add E c newBackend w =
     (let uuid = env_UUID E w; created = env_now E w in do {
        err \<leftarrow> (if backends (c_backend c) \<noteq> [] then canDoSnapshot (bops E) c w else Some None);
        (if err \<noteq> None then Some (err, w)
         else do {
           (err, w) \<leftarrow> rep_Snapshot (bops E) (c_backend c) uuid False created [] w;
           (if err \<noteq> None then Some (err, w)
            else do { h \<leftarrow> newBackend; Some (be_Snapshot (bops E) h uuid False created [] w) })
         })
      })"

definition addReplicaNoLock ::
  "('b, 'f, 'w) ctl_env \<Rightarrow> ('b, 'f) controller \<Rightarrow> 'b option \<Rightarrow> string \<Rightarrow> bool \<Rightarrow> mode \<Rightarrow> 'w \<Rightarrow>
     (error option \<times> ('b, 'f) controller \<times> 'w) option" where
  "addReplicaNoLock E c newBackend address snapshot mo w =
     (case canAdd c address of
        (False, err) \<Rightarrow> Some (err, c, close_on_error (bops E) newBackend err w)
      | (True, _) \<Rightarrow> do {
          (err, w) \<leftarrow> (if snapshot \<and> mo \<noteq> ERR then snapshot_for_add E c newBackend w else Some (None, w));
          (if err \<noteq> None then Some (err, c, close_on_error (bops E) newBackend err w)
           else Some (None, c\<lparr>c_replicas := c_replicas c @ [(address, mo)],
                              c_backend := AddBackend address newBackend mo (c_backend c)\<rparr>, w))
        })"

definition addReplica ::
  "('b, 'f, 'w) ctl_env \<Rightarrow> ('b, 'f) controller \<Rightarrow> string \<Rightarrow> bool \<Rightarrow> mode \<Rightarrow> 'w \<Rightarrow>
     (error option \<times> ('b, 'f) controller \<times> 'w) option" where
  "addReplica E c address snapshotRequired mo w =
     (case canAdd c address of
        (False, err) \<Rightarrow> Some (err, c, w)
      | (True, _) \<Rightarrow>
          (case factory_Create E address w of
             (Inl e, w) \<Rightarrow> Some (Some e, c, w)
           | (Inr newBackend, w) \<Rightarrow>
               (case be_Size (bops E) newBackend w of
                  (_, Some e) \<Rightarrow> Some (Some (Wrapped ''failed to get the size before adding a replica'' e), c, w)
                | (replicaSize, None) \<Rightarrow>
                    let c = (if c_size c = 0 \<and> c_replicas c = [] then c\<lparr>c_size := replicaSize\<rparr> else c)
                    in addReplicaNoLock E c (Some newBackend) address snapshotRequired mo w)))"

section \<open>Checks on the replicas\<close>

text \<open>c.backend.backends[address].backend; the zero value has no backend and calling it panics.\<close>

definition backend_of :: "('b, 'f) controller \<Rightarrow> string \<Rightarrow> 'b option" where
  "backend_of c address = Option.bind (map_of (backends (c_backend c)) address) bw_backend"

fun match_loop ::
  "('b, 'w) backend_ops \<Rightarrow> nat \<Rightarrow> nat \<Rightarrow> ('b, 'f) controller \<Rightarrow> 'w \<Rightarrow> (error option \<times> ('b, 'f) controller \<times> 'w) option" where
  "match_loop ops 0 i c w = Some (None, c, w)"
| "match_loop ops (Suc k) i c w =
     (let (address, mo) = c_replicas c ! i in
      if mo = ERR then match_loop ops k (Suc i) c w
      else do {
        h \<leftarrow> backend_of c address;
        (case be_IsRevisionCounterDisabled ops h w of
           (_, Some e) \<Rightarrow> Some (Some e, c, w)
         | (disabled, None) \<Rightarrow>
             if revisionCounterDisabled c \<noteq> disabled
             then do { (c, w) \<leftarrow> setReplicaModeNoLock ops c address ERR w; match_loop ops k (Suc i) c w }
             else match_loop ops k (Suc i) c w)
      })"

definition checkReplicaRevCounterSettingMatch ::
  "('b, 'w) backend_ops \<Rightarrow> ('b, 'f) controller \<Rightarrow> 'w \<Rightarrow> (error option \<times> ('b, 'f) controller \<times> 'w) option" where
  "checkReplicaRevCounterSettingMatch ops c w = match_loop ops (length (c_replicas c)) 0 c w"

record salvage_info =
  si_Address :: string
  si_LastModifyTime :: int
  si_HeadFileSize :: int

definition lastModifyCheckPeriod :: int where
  "lastModifyCheckPeriod = 5 * second"

text \<open>The first loop of salvage: the candidates and the latest modification time (None: the zero Time).\<close>

fun candidates_loop ::
  "('b, 'w) backend_ops \<Rightarrow> ('b, 'f) controller \<Rightarrow> 'w \<Rightarrow> (string \<times> mode) list \<Rightarrow> salvage_info list \<Rightarrow> int option \<Rightarrow>
     (error + (salvage_info list \<times> int option)) option" where
  "candidates_loop ops c w [] cands latest = Some (Inr (cands, latest))"
| "candidates_loop ops c w ((address, mo) # rs) cands latest =
     (if mo = ERR then candidates_loop ops c w rs cands latest
      else do {
        h \<leftarrow> backend_of c address;
        (case be_GetLastModifyTime ops h w of
           (_, Some e) \<Rightarrow> Some (Inl e)
         | (t, None) \<Rightarrow>
             (case be_GetHeadFileSize ops h w of
                (_, Some e) \<Rightarrow> Some (Inl e)
              | (sz, None) \<Rightarrow>
                  candidates_loop ops c w rs
                    (cands @ [\<lparr>si_Address = address, si_LastModifyTime = t, si_HeadFileSize = sz\<rparr>])
                    (case latest of None \<Rightarrow> Some t | Some l \<Rightarrow> if t > l then Some t else latest)))
      })"

definition recent :: "int option \<Rightarrow> salvage_info \<Rightarrow> bool" where
  "recent latest s = (case latest of None \<Rightarrow> True | Some l \<Rightarrow> si_LastModifyTime s + lastModifyCheckPeriod > l)"

definition better :: "salvage_info \<Rightarrow> salvage_info \<Rightarrow> bool" where
  "better s b \<longleftrightarrow> si_HeadFileSize s > si_HeadFileSize b \<or>
     si_HeadFileSize s = si_HeadFileSize b \<and> si_LastModifyTime s > si_LastModifyTime b"

fun best_loop :: "int option \<Rightarrow> salvage_info list \<Rightarrow> salvage_info option \<Rightarrow> salvage_info option" where
  "best_loop latest [] best = best"
| "best_loop latest (s # ss) best =
     best_loop latest ss (if recent latest s \<and> (case best of None \<Rightarrow> True | Some b \<Rightarrow> better s b) then Some s else best)"

fun salvage_modes ::
  "('b, 'w) backend_ops \<Rightarrow> string \<Rightarrow> nat \<Rightarrow> nat \<Rightarrow> ('b, 'f) controller \<Rightarrow> 'w \<Rightarrow> (('b, 'f) controller \<times> 'w) option" where
  "salvage_modes ops best 0 i c w = Some (c, w)"
| "salvage_modes ops best (Suc k) i c w = do {
     let address = fst (c_replicas c ! i);
     (c, w) \<leftarrow> setReplicaModeNoLock ops c address (if address \<noteq> best then ERR else RW) w;
     salvage_modes ops best k (Suc i) c w
   }"

definition salvageRevisionCounterDisabledReplicas ::
  "('b, 'w) backend_ops \<Rightarrow> ('b, 'f) controller \<Rightarrow> 'w \<Rightarrow> (error option \<times> ('b, 'f) controller \<times> 'w) option" where
  "salvageRevisionCounterDisabledReplicas ops c w = do {
     res \<leftarrow> candidates_loop ops c w (c_replicas c) [] None;
     (case res of
        Inl e \<Rightarrow> Some (Some e, c, w)
      | Inr (cands, latest) \<Rightarrow>
          if cands = [] then Some (Some (Errorf ''cannot find any replica for salvage''), c, w)
          else (case best_loop latest cands None of
            None \<Rightarrow> Some (Some (Errorf ''BUG: Should find one candidate for salvage''), c, w)
          | Some best \<Rightarrow> do {
              (c, w) \<leftarrow> salvage_modes ops (si_Address best) (length (c_replicas c)) 0 c w;
              Some (None, c, w)
            }))
   }"

fun counters_loop ::
  "('b, 'w) backend_ops \<Rightarrow> ('b, 'f) controller \<Rightarrow> 'w \<Rightarrow> (string \<times> mode) list \<Rightarrow> int \<Rightarrow> (string \<times> int) list \<Rightarrow>
     (error + (int \<times> (string \<times> int) list)) option" where
  "counters_loop ops c w [] expected m = Some (Inr (expected, m))"
| "counters_loop ops c w ((address, mo) # rs) expected m =
     (if mo = ERR then counters_loop ops c w rs expected m
      else do {
        (counter, err) \<leftarrow> rep_GetRevisionCounter ops (c_backend c) address w;
        (case err of
           Some e \<Rightarrow> Some (Inl e)
         | None \<Rightarrow> counters_loop ops c w rs (if counter > expected then counter else expected) (AList.update address counter m))
      })"

fun conflict_loop ::
  "('b, 'w) backend_ops \<Rightarrow> int \<Rightarrow> (string \<times> int) list \<Rightarrow> ('b, 'f) controller \<Rightarrow> 'w \<Rightarrow> (('b, 'f) controller \<times> 'w) option" where
  "conflict_loop ops expected [] c w = Some (c, w)"
| "conflict_loop ops expected ((address, counter) # m) c w =
     (if counter \<noteq> expected
      then do { (c, w) \<leftarrow> setReplicaModeNoLock ops c address ERR w; conflict_loop ops expected m c w }
      else conflict_loop ops expected m c w)"

definition checkReplicasRevisionCounter ::
  "('b, 'w) backend_ops \<Rightarrow> ('b, 'f) controller \<Rightarrow> 'w \<Rightarrow> (error option \<times> ('b, 'f) controller \<times> 'w) option" where
  "checkReplicasRevisionCounter ops c w = do {
     res \<leftarrow> counters_loop ops c w (c_replicas c) 0 [];
     (case res of
        Inl e \<Rightarrow> Some (Some e, c, w)
      | Inr (expected, m) \<Rightarrow> do { (c, w) \<leftarrow> conflict_loop ops expected m c w; Some (None, c, w) })
   }"

fun unmap_mark_loop ::
  "('b, 'w) backend_ops \<Rightarrow> nat \<Rightarrow> nat \<Rightarrow> bool \<Rightarrow> ('b, 'f) controller \<Rightarrow> 'w \<Rightarrow>
     (error option \<times> bool \<times> ('b, 'f) controller \<times> 'w) option" where
  "unmap_mark_loop ops 0 i allFailed c w = Some (None, allFailed, c, w)"
| "unmap_mark_loop ops (Suc k) i allFailed c w =
     (let (address, mo) = c_replicas c ! i; expected = unmapMarkSnapChainRemoved c in
      if mo = ERR then unmap_mark_loop ops k (Suc i) allFailed c w
      else do {
        (enabled, err) \<leftarrow> rep_GetUnmapMarkSnapChainRemoved ops (c_backend c) address w;
        (if err \<noteq> None then Some (err, allFailed, c, w)
         else if enabled \<noteq> expected
         then do {
           (err, w) \<leftarrow> rep_SetUnmapMarkSnapChainRemoved ops (c_backend c) address expected w;
           (if err \<noteq> None
            then do { (c, w) \<leftarrow> setReplicaModeNoLock ops c address ERR w; unmap_mark_loop ops k (Suc i) allFailed c w }
            else unmap_mark_loop ops k (Suc i) False c w)
         }
         else unmap_mark_loop ops k (Suc i) False c w)
      })"

definition bool_text :: "bool \<Rightarrow> string" where
  "bool_text b = (if b then ''true'' else ''false'')"

definition checkUnmapMarkSnapChainRemoved ::
  "('b, 'w) backend_ops \<Rightarrow> ('b, 'f) controller \<Rightarrow> 'w \<Rightarrow> (error option \<times> ('b, 'f) controller \<times> 'w) option" where
  "checkUnmapMarkSnapChainRemoved ops c w = do {
     (err, allFailed, c, w) \<leftarrow> unmap_mark_loop ops (length (c_replicas c)) 0 True c w;
     Some (if err \<noteq> None then err
           else if allFailed
           then Some (Errorf (''failed to correct Unmatched flag UnmapMarkSnapChainRemoved for all replicas, expect '' @
                  bool_text (unmapMarkSnapChainRemoved c)))
           else None, c, w)
   }"

definition SetUnmapMarkSnapChainRemoved ::
  "('b, 'w) backend_ops \<Rightarrow> ('b, 'f) controller \<Rightarrow> bool \<Rightarrow> 'w \<Rightarrow> (error option \<times> ('b, 'f) controller \<times> 'w) option" where
  "SetUnmapMarkSnapChainRemoved ops c enabled w =
     checkUnmapMarkSnapChainRemoved ops (c\<lparr>unmapMarkSnapChainRemoved := enabled\<rparr>) w"

fun max_count_loop ::
  "('b, 'w) backend_ops \<Rightarrow> ('b, 'f) controller \<Rightarrow> int \<Rightarrow> (string \<times> mode) list \<Rightarrow> 'w \<Rightarrow> (error option \<times> 'w) option" where
  "max_count_loop ops c cnt [] w = Some (None, w)"
| "max_count_loop ops c cnt ((address, mo) # rs) w =
     (if mo = ERR then max_count_loop ops c cnt rs w
      else do {
        (err, w) \<leftarrow> rep_SetSnapshotMaxCount ops (c_backend c) address cnt w;
        (case err of
           Some e \<Rightarrow> Some (Some (Errorf (''failed to set flag SnapshotMaxCount to '' @ showInt cnt @ '' in replica '' @
                        address @ '', err: '' @ Error_msg e)), w)
         | None \<Rightarrow> max_count_loop ops c cnt rs w)
      })"

definition SetSnapshotMaxCount ::
  "('b, 'w) backend_ops \<Rightarrow> ('b, 'f) controller \<Rightarrow> int \<Rightarrow> 'w \<Rightarrow> (error option \<times> ('b, 'f) controller \<times> 'w) option" where
  "SetSnapshotMaxCount ops c cnt w = do {
     (countUsage, _, err) \<leftarrow> rep_GetSnapshotCountAndSizeUsage ops (c_backend c) w;
     (if err \<noteq> None then Some (err, c, w)
      else if cnt < countUsage
      then Some (Some (Errorf (''cannot set snapshotMaxCount='' @ showInt cnt @ '' smaller than current snapshot count usage='' @
             showInt countUsage @ '', please purge snapshots first'')), c, w)
      else do {
        let c = c\<lparr>snapshotMaxCount := cnt\<rparr>;
        (err, w) \<leftarrow> max_count_loop ops c cnt (c_replicas c) w;
        Some (err, c, w)
      })
   }"

fun max_size_loop ::
  "('b, 'w) backend_ops \<Rightarrow> ('b, 'f) controller \<Rightarrow> int \<Rightarrow> (string \<times> mode) list \<Rightarrow> 'w \<Rightarrow> (error option \<times> 'w) option" where
  "max_size_loop ops c sz [] w = Some (None, w)"
| "max_size_loop ops c sz ((address, mo) # rs) w =
     (if mo = ERR then max_size_loop ops c sz rs w
      else do {
        (err, w) \<leftarrow> rep_SetSnapshotMaxSize ops (c_backend c) address sz w;
        (case err of
           Some e \<Rightarrow> Some (Some (Errorf (''Failed to set flag SnapshotMaxSize to '' @ showInt sz @ '' in replica '' @
                        address @ '', err: '' @ Error_msg e)), w)
         | None \<Rightarrow> max_size_loop ops c sz rs w)
      })"

definition SetSnapshotMaxSize ::
  "('b, 'w) backend_ops \<Rightarrow> ('b, 'f) controller \<Rightarrow> int \<Rightarrow> 'w \<Rightarrow> (error option \<times> ('b, 'f) controller \<times> 'w) option" where
  "SetSnapshotMaxSize ops c sz w = do {
     (_, sizeUsage, err) \<leftarrow> rep_GetSnapshotCountAndSizeUsage ops (c_backend c) w;
     (if err \<noteq> None then Some (err, c, w)
      else if sz < sizeUsage
      then Some (Some (Errorf (''cannot set snapshotMaxSize='' @ showInt sz @ '' smaller than current snapshot size usage='' @
             showInt sizeUsage @ '', please purge snapshots first'')), c, w)
      else do {
        let c = c\<lparr>snapshotMaxSize := sz\<rparr>;
        (err, w) \<leftarrow> max_size_loop ops c sz (c_replicas c) w;
        Some (err, c, w)
      })
   }"

section \<open>Start and shutdown\<close>

definition isReplicaInInvalidState :: "string \<Rightarrow> bool" where
  "isReplicaInInvalidState state = (state \<noteq> ''open'' \<and> state \<noteq> ''dirty'')"

fun duplicate_loop :: "string list \<Rightarrow> string list \<Rightarrow> error option" where
  "duplicate_loop seen [] = None"
| "duplicate_loop seen (a # as) =
     (if a \<in> set seen then Some (Errorf (''invalid ReplicaAddress: duplicate replica addresses '' @ a))
      else duplicate_loop (a # seen) as)"

definition checkDuplicateAddress :: "string list \<Rightarrow> error option" where
  "checkDuplicateAddress addresses = duplicate_loop [] addresses"

text \<open>The set of backend sizes is the list of its elements.\<close>

definition determineCorrectVolumeSize :: "int \<Rightarrow> int \<Rightarrow> int list \<Rightarrow> int" where
  "determineCorrectVolumeSize volumeSize volumeCurrentSize backendSizes =
     (if volumeCurrentSize = 0 then volumeSize
      else case backendSizes of
        [backendSize] \<Rightarrow> if backendSize = volumeSize then volumeSize else volumeCurrentSize
      | _ \<Rightarrow> volumeCurrentSize)"

text \<open>The error codes that Start collects: the map from address to codes.Unavailable, by its keys.\<close>

definition isBackendServiceUnavailable :: "string list \<Rightarrow> bool" where
  "isBackendServiceUnavailable errorCodes = (errorCodes \<noteq> [])"

definition unavailable :: "error \<Rightarrow> bool" where
  "unavailable err = Contains (Error_msg err) ''rpc error: code = Unavailable''"

text \<open>What Start learns from one address: the backend with its size and sector size, or whether the failure was Unavailable.\<close>

definition probe :: "('b, 'f, 'w) ctl_env \<Rightarrow> bool \<Rightarrow> string \<Rightarrow> 'w \<Rightarrow> (bool + ('b \<times> int \<times> int)) \<times> 'w" where
  "probe E single address w =
     (case factory_Create E address w of
        (Inl e, w) \<Rightarrow> (Inl (unavailable e), w)
      | (Inr b, w) \<Rightarrow>
          let w = (if single then snd (be_ResetRebuild (bops E) b w) else w) in
          (case be_Size (bops E) b w of
             (_, Some e) \<Rightarrow> (Inl (unavailable e), w)
           | (newSize, None) \<Rightarrow>
               (case be_SectorSize (bops E) b w of
                  (_, Some e) \<Rightarrow> (Inl (unavailable e), w)
                | (newSectorSize, None) \<Rightarrow>
                    (case be_GetState (bops E) b w of
                       (_, Some e) \<Rightarrow> (Inl (unavailable e), w)
                     | (state, None) \<Rightarrow>
                         if isReplicaInInvalidState state then (Inl False, w)
                         else (Inr (b, newSize, newSectorSize), w)))))"

text \<open>The first loop of Start; the accumulators are first, availableBackends, backendSizes and errorCodes.\<close>

fun probe_loop ::
  "('b, 'f, 'w) ctl_env \<Rightarrow> bool \<Rightarrow> string list \<Rightarrow> bool \<Rightarrow> int \<Rightarrow> (string \<times> 'b) list \<Rightarrow> int list \<Rightarrow> string list \<Rightarrow> 'w \<Rightarrow>
     int \<times> (string \<times> 'b) list \<times> int list \<times> string list \<times> 'w" where
  "probe_loop E single [] first sector avail sizes codes w = (sector, avail, sizes, codes, w)"
| "probe_loop E single (address # as) first sector avail sizes codes w =
     (case probe E single address w of
        (Inl u, w) \<Rightarrow> probe_loop E single as first sector avail sizes (if u then List.insert address codes else codes) w
      | (Inr (b, newSize, newSectorSize), w) \<Rightarrow>
          let sector = (if first then newSectorSize else sector) in
          if sector \<noteq> newSectorSize then probe_loop E single as False sector avail sizes codes w
          else probe_loop E single as False sector (AList.update address b avail) (List.insert newSize sizes) codes w)"

text \<open>The second loop: backends whose size is not the volume's are dropped.\<close>

definition size_matches :: "('b, 'w) backend_ops \<Rightarrow> int \<Rightarrow> 'w \<Rightarrow> (string \<times> 'b) list \<Rightarrow> (string \<times> 'b) list" where
  "size_matches ops sz w avail = filter (\<lambda>(a, b). be_Size ops b w = (sz, None)) avail"

fun add_loop ::
  "('b, 'f, 'w) ctl_env \<Rightarrow> (string \<times> 'b) list \<Rightarrow> string list \<Rightarrow> ('b, 'f) controller \<Rightarrow> 'w \<Rightarrow>
     (error option \<times> ('b, 'f) controller \<times> 'w) option" where
  "add_loop E avail [] c w = Some (None, c, w)"
| "add_loop E avail (address # as) c w = do {
     (err, c, w) \<leftarrow> (case map_of avail address of
          Some b \<Rightarrow> addReplicaNoLock E c (Some b) address False RW w
        | None \<Rightarrow> addReplicaNoLock E c None address False ERR w);
     (if err \<noteq> None then Some (err, c, w) else add_loop E avail as c w)
   }"

text \<open>The checks of Start after the replicas are in place, and the start of the frontend.\<close>

definition start_checks ::
  "('b, 'f, 'w) ctl_env \<Rightarrow> ('b, 'f) controller \<Rightarrow> 'w \<Rightarrow> (error option \<times> ('b, 'f) controller \<times> 'w) option" where
  "start_checks E c w = do {
     (err, c, w) \<leftarrow> checkUnmapMarkSnapChainRemoved (bops E) c w;
     (if err \<noteq> None then Some (err, c, w)
      else do {
        (err, c, w) \<leftarrow>
          (if isUpgrade c then Some (None, c, w)
           else do {
             (err, c, w) \<leftarrow> checkReplicaRevCounterSettingMatch (bops E) c w;
             (if err \<noteq> None then Some (err, c, w)
              else if revisionCounterDisabled c
              then if salvageRequested c then salvageRevisionCounterDisabledReplicas (bops E) c w else Some (None, c, w)
              else checkReplicasRevisionCounter (bops E) c w)
           });
        (if err \<noteq> None then Some (err, c, w)
         else let (err, w) = startFrontend E c w in Some (err, c, w))
      })
   }"

definition address_list :: "string list \<Rightarrow> string" where
  "address_list as = ''['' @ join '' '' as @ '']''"

definition ctl_Start ::
  "('b, 'f, 'w) ctl_env \<Rightarrow> ('b, 'f) controller \<Rightarrow> int \<Rightarrow> int \<Rightarrow> string list \<Rightarrow> 'w \<Rightarrow>
     (error option \<times> ('b, 'f) controller \<times> 'w) option" where
  "ctl_Start E c volumeSize volumeCurrentSize addresses w =
     (if addresses = [] then Some (None, c, w)
      else case checkDuplicateAddress addresses of
        Some e \<Rightarrow> Some (Some e, c, w)
      | None \<Rightarrow>
          if c_replicas c \<noteq> [] then Some (None, c, w)
          else
            let c = c_reset c;
                (sector, avail, sizes, codes, w) =
                  probe_loop E (length addresses = 1) addresses True (c_sectorSize c) [] [] [] w;
                c = c\<lparr>c_sectorSize := sector, c_size := determineCorrectVolumeSize volumeSize volumeCurrentSize sizes\<rparr>;
                avail = size_matches (bops E) (c_size c) w avail
            in do {
              (err, c, w) \<leftarrow> add_loop E avail addresses c w;
              (if err \<noteq> None then Some (err, c, w)
               else if avail = []
               then Some (Some (Errorf ((if isBackendServiceUnavailable codes
                       then ''no available backend due to service unavailable''
                       else ''no available backend due to replica error'') @ '' from the addresses '' @ address_list addresses)), c, w)
               else start_checks E c w)
            })"

definition shutdownFrontend :: "('b, 'f, 'w) ctl_env \<Rightarrow> ('b, 'f) controller \<Rightarrow> 'w \<Rightarrow> error option \<times> 'w" where
  "shutdownFrontend E c w = (case c_frontend c of None \<Rightarrow> (None, w) | Some f \<Rightarrow> fe_Shutdown E f w)"

definition shutdownBackend ::
  "('b, 'w) backend_ops \<Rightarrow> ('b, 'f) controller \<Rightarrow> 'w \<Rightarrow> (error option \<times> ('b, 'f) controller \<times> 'w) option" where
  "shutdownBackend ops c w = do {
     (err, r, w) \<leftarrow> rep_Close ops (c_backend c) w;
     Some (err, c_reset (c\<lparr>c_backend := r\<rparr>), w)
   }"

text \<open>Shutdown wraps the backend's error, whichever of the two failed.\<close>

definition Shutdown ::
  "('b, 'f, 'w) ctl_env \<Rightarrow> ('b, 'f) controller \<Rightarrow> 'w \<Rightarrow> (error option \<times> ('b, 'f) controller \<times> 'w) option" where
  "Shutdown E c w =
     (let (errFrontend, w) = shutdownFrontend E c w in do {
        (errBackend, c, w) \<leftarrow> shutdownBackend (bops E) c w;
        Some (if errFrontend \<noteq> None \<or> errBackend \<noteq> None
              then Wrapf errBackend (''errors when shutting down controller: frontend: '' @
                     (case errFrontend of None \<Rightarrow> ''<nil>'' | Some e \<Rightarrow> Error_msg e) @ '' backend'')
              else None, c, w)
      })"

end
