(* ===== verification/Resources.thy ===== *)
theory Resources
  imports Go_Prelude
begin

text \<open>The records that the services exchange (src/pkg/types/resource.go).\<close>

record DiskInfo =
  di_Name :: string
  di_Parent :: string
  di_Children :: "(string \<times> bool) list"
  di_Removed :: bool
  di_UserCreated :: bool
  di_Created :: string
  di_Size :: string
  di_Labels :: "(string \<times> string) list"

record ReplicaInfo =
  ri_Dirty :: bool
  ri_Rebuilding :: bool
  ri_Head :: string
  ri_Parent :: string
  ri_Size :: string
  ri_SectorSize :: int
  ri_BackingFile :: string
  ri_State :: string
  ri_Chain :: "string list"
  ri_Disks :: "(string \<times> DiskInfo) list"
  ri_RemainSnapshots :: int
  ri_RevisionCounter :: int
  ri_LastModifyTime :: int
  ri_HeadFileSize :: int
  ri_RevisionCounterDisabled :: bool
  ri_UnmapMarkDiskChainRemoved :: bool
  ri_SnapshotCountUsage :: int
  ri_SnapshotSizeUsage :: int

record PrepareRemoveAction =
  pa_Action :: string
  pa_Source :: string
  pa_Target :: string

record SyncFileInfo =
  FromFileName :: string
  ToFileName :: string
  ActualSize :: int

end
