(* ===== verification/Controller_Rebuild.thy ===== *)
theory Controller_Rebuild
  imports Controller_Start Resources
begin

text \<open>
  Rebuilding a replica and reverting a volume (src/pkg/controller/rebuild.go, revert.go, util.go).
  The clients of the replica and sync services are the parameters rclient, by address; the dumps of
  whole maps in error texts are left out.
\<close>

record 'w rclient =
  rc_New :: "string \<Rightarrow> string \<Rightarrow> error option"
  rc_GetReplica :: "string \<Rightarrow> 'w \<Rightarrow> error + ReplicaInfo"
  rc_RemoveDisk :: "string \<Rightarrow> string \<Rightarrow> bool \<Rightarrow> 'w \<Rightarrow> error option \<times> 'w"
  rc_Revert :: "string \<Rightarrow> string \<Rightarrow> string \<Rightarrow> 'w \<Rightarrow> error option \<times> 'w"
  rc_LaunchReceiver :: "string \<Rightarrow> string \<Rightarrow> 'w \<Rightarrow> (error + (string \<times> int)) \<times> 'w"
  rc_SendFile :: "string \<Rightarrow> string \<Rightarrow> string \<Rightarrow> int \<Rightarrow> 'w \<Rightarrow> error option \<times> 'w"

definition GetReplicaDisksAndHead ::
  "'w rclient \<Rightarrow> string \<Rightarrow> string \<Rightarrow> 'w \<Rightarrow> error + ((string \<times> DiskInfo) list \<times> string)" where
  "GetReplicaDisksAndHead R address instanceName w =
     (case rc_New R address instanceName of
        Some e \<Rightarrow> Inl (Wrapped (''cannot get replica client for '' @ address) e)
      | None \<Rightarrow>
          (case rc_GetReplica R address w of
             Inl e \<Rightarrow> Inl (Wrapped (''cannot get replica for '' @ address) e)
           | Inr rep \<Rightarrow>
               (case ri_Chain rep of
                  [] \<Rightarrow> Inl (Errorf (''replica on '' @ address @ '' does not have any non-removed disks''))
                | head # _ \<Rightarrow>
                    Inr (filter (\<lambda>(diskName, info). diskName \<noteq> head \<and> diskName \<noteq> ri_BackingFile rep) (ri_Disks rep), head))))"

section \<open>Rebuild\<close>

text \<open>getCurrentAndRWReplica: the loop keeps the latest match of each kind.\<close>

fun current_rw_loop ::
  "string \<Rightarrow> (string \<times> mode) list \<Rightarrow> (string \<times> mode) option \<Rightarrow> (string \<times> mode) option \<Rightarrow>
     (string \<times> mode) option \<times> (string \<times> mode) option" where
  "current_rw_loop address [] cur rw = (cur, rw)"
| "current_rw_loop address ((a, m) # rs) cur rw =
     (if a = address then current_rw_loop address rs (Some (a, m)) rw
      else if m = RW then current_rw_loop address rs cur (Some (a, m))
      else current_rw_loop address rs cur rw)"

definition getCurrentAndRWReplica ::
  "('b, 'f) controller \<Rightarrow> string \<Rightarrow> error + ((string \<times> mode) \<times> (string \<times> mode))" where
  "getCurrentAndRWReplica c address =
     (case current_rw_loop address (c_replicas c) None None of
        (None, _) \<Rightarrow> Inl (Errorf (''cannot find replica '' @ address))
      | (Some cur, None) \<Rightarrow> Inl (Errorf ''cannot find any healthy replica'')
      | (Some cur, Some rw) \<Rightarrow> Inr (cur, rw))"

text \<open>The revision counter of the rebuilt replica is taken from the RW one.\<close>

definition copy_revision_counter ::
  "('b, 'w) backend_ops \<Rightarrow> ('b, 'f) controller \<Rightarrow> string \<Rightarrow> string \<Rightarrow> 'w \<Rightarrow> (bool \<times> error option \<times> 'w) option" where
  "copy_revision_counter ops c rwAddress address w = do {
     (counter, err) \<leftarrow> rep_GetRevisionCounter ops (c_backend c) rwAddress w;
     (if err \<noteq> None \<or> counter = - 1
      then Some (False, Wrapf err (''failed to get revision counter of RW Replica '' @ rwAddress @ '': counter '' @ showInt counter), w)
      else do {
        (err, w) \<leftarrow> rep_SetRevisionCounter ops (c_backend c) address counter w;
        (if err \<noteq> None then Some (False, Wrapf err (''failed to set revision counter for '' @ address), w)
         else Some (True, None, w))
      })
   }"

definition VerifyRebuildReplica ::
  "('b, 'w) backend_ops \<Rightarrow> 'w rclient \<Rightarrow> ('b, 'f) controller \<Rightarrow> string \<Rightarrow> string \<Rightarrow> 'w \<Rightarrow>
     (error option \<times> ('b, 'f) controller \<times> 'w) option" where
  "VerifyRebuildReplica ops R c address instanceName w =
     (case getCurrentAndRWReplica c address of
        Inl e \<Rightarrow> Some (Some e, c, w)
      | Inr ((_, mo), (rwAddress, _)) \<Rightarrow>
          if mo = RW then Some (None, c, w)
          else if mo \<noteq> WO
          then Some (Some (Errorf (''invalid mode '' @ mode_name mo @ '' for replica '' @ address @ '' to check'')), c, w)
          else case GetReplicaDisksAndHead R rwAddress '''' w of
            Inl e \<Rightarrow> Some (Some e, c, w)
          | Inr (fromDisks, _) \<Rightarrow>
              (case GetReplicaDisksAndHead R address instanceName w of
                 Inl e \<Rightarrow> Some (Some e, c, w)
               | Inr (toDisks, _) \<Rightarrow>
                   if length fromDisks \<noteq> length toDisks
                   then Some (Some (Errorf (''replica '' @ address @ [CHR 0x27] @ ''s disk number is not equal to that of RW replica '' @ rwAddress)), c, w)
                   else if \<not> list_all (\<lambda>(diskName, _). map_of toDisks diskName \<noteq> None) fromDisks
                   then Some (Some (Errorf (''replica '' @ address @ [CHR 0x27] @ ''s chain not equal to RW replica '' @ rwAddress @ [CHR 0x27] @ ''s chain'')), c, w)
                   else do {
                     (ok, err, w) \<leftarrow> (if \<not> revisionCounterDisabled c
                        then copy_revision_counter ops c rwAddress address w else Some (True, None, w));
                     (if \<not> ok then Some (err, c, w)
                      else do { (c, w) \<leftarrow> setReplicaModeNoLock ops c address RW w; Some (None, c, w) })
                   }))"

definition syncFile ::
  "'w rclient \<Rightarrow> string \<Rightarrow> string \<Rightarrow> string \<Rightarrow> string \<Rightarrow> string \<Rightarrow> 'w \<Rightarrow> error option \<times> 'w" where
  "syncFile R from to0 fromAddress toAddress toInstanceName w =
     (let to = (if to0 = '''' then from else to0) in
      case rc_New R fromAddress '''' of
        Some e \<Rightarrow> (Some (Wrapped (''cannot get replica client for '' @ fromAddress) e), w)
      | None \<Rightarrow>
          (case rc_New R toAddress toInstanceName of
             Some e \<Rightarrow> (Some (Wrapped (''cannot get replica client for '' @ toAddress) e), w)
           | None \<Rightarrow>
               (case rc_LaunchReceiver R toAddress to w of
                  (Inl e, w) \<Rightarrow> (Some e, w)
                | (Inr (hst, port), w) \<Rightarrow> rc_SendFile R fromAddress from hst port w)))"

text \<open>removeExtraDisks; the deferred function wraps whatever error is returned.\<close>

fun remove_disks_loop :: "'w rclient \<Rightarrow> string \<Rightarrow> string list \<Rightarrow> 'w \<Rightarrow> error option \<times> 'w" where
  "remove_disks_loop R address [] w = (None, w)"
| "remove_disks_loop R address (d # ds) w =
     (case rc_RemoveDisk R address d True w of
        (Some e, w) \<Rightarrow> (Some (Wrapped (''cannot remove disk '' @ d) e), w)
      | (None, w) \<Rightarrow> remove_disks_loop R address ds w)"

definition removeExtraDisks ::
  "'w rclient \<Rightarrow> (string \<times> DiskInfo) list \<Rightarrow> string \<Rightarrow> string \<Rightarrow> 'w \<Rightarrow> error option \<times> 'w" where
  "removeExtraDisks R extraDisks address instanceName w =
     (let (err, w) =
            (if extraDisks = [] then (None, w)
             else case rc_New R address instanceName of
               Some e \<Rightarrow> (Some (Wrapped (''cannot create replica client for address '' @ address) e), w)
             | None \<Rightarrow> remove_disks_loop R address (map fst extraDisks) w)
      in (Wrapf err (''failed to remove extra disks in replica '' @ address), w))"

text \<open>The loop over the disks of the RW replica; the accumulators are syncFileInfoList and extraDisks.\<close>

fun sync_list_loop ::
  "(string \<times> DiskInfo) list \<Rightarrow> SyncFileInfo list \<Rightarrow> (string \<times> DiskInfo) list \<Rightarrow>
     error + (SyncFileInfo list \<times> (string \<times> DiskInfo) list)" where
  "sync_list_loop [] infos extra = Inr (infos, extra)"
| "sync_list_loop ((diskName, info) # ds) infos extra =
     (case ParseInt (di_Size info) of
        None \<Rightarrow> Inl (Errorf (''strconv.ParseInt: parsing '' @ di_Size info @ '': invalid syntax''))
      | Some diskSize \<Rightarrow>
          sync_list_loop ds
            (infos @ [\<lparr>FromFileName = diskName, ToFileName = diskName, ActualSize = diskSize\<rparr>,
                      \<lparr>FromFileName = GenerateSnapshotDiskMetaName diskName,
                       ToFileName = GenerateSnapshotDiskMetaName diskName, ActualSize = 0\<rparr>])
            (AList.delete diskName extra))"

definition PrepareRebuildReplica ::
  "('b, 'w) backend_ops \<Rightarrow> 'w rclient \<Rightarrow> ('b, 'f) controller \<Rightarrow> string \<Rightarrow> string \<Rightarrow> 'w \<Rightarrow>
     ((error + SyncFileInfo list) \<times> 'w) option" where
  "PrepareRebuildReplica ops R c address instanceName w = do {
     (err, w) \<leftarrow> (if \<not> revisionCounterDisabled c then rep_SetRevisionCounter ops (c_backend c) address 0 w else Some (None, w));
     Some (case err of
        Some e \<Rightarrow> (Inl (Wrapped (''failed to set revision counter for '' @ address) e), w)
      | None \<Rightarrow>
          (case getCurrentAndRWReplica c address of
             Inl e \<Rightarrow> (Inl e, w)
           | Inr ((_, mo), (rwAddress, _)) \<Rightarrow>
               if mo \<noteq> WO
               then (Inl (Errorf (''invalid mode '' @ mode_name mo @ '' for replica '' @ address @ '' to prepare rebuild'')), w)
               else case GetReplicaDisksAndHead R rwAddress '''' w of
                 Inl e \<Rightarrow> (Inl e, w)
               | Inr (fromDisks, fromHead) \<Rightarrow>
                   (case GetReplicaDisksAndHead R address instanceName w of
                      Inl e \<Rightarrow> (Inl e, w)
                    | Inr (toDisks, toHead) \<Rightarrow>
                        (case sync_list_loop fromDisks [] toDisks of
                           Inl e \<Rightarrow> (Inl e, w)
                         | Inr (infos, extraDisks) \<Rightarrow>
                             (case removeExtraDisks R extraDisks address instanceName w of
                                (Some e, w) \<Rightarrow> (Inl e, w)
                              | (None, w) \<Rightarrow>
                                  (case syncFile R (fromHead @ ''.meta'') (toHead @ ''.meta'') rwAddress address instanceName w of
                                     (Some e, w) \<Rightarrow> (Inl e, w)
                                   | (None, w) \<Rightarrow> (Inr infos, w)))))))
   }"

section \<open>Revert\<close>

text \<open>
  Whether some RW replica has the snapshot: replicas are asked in order until one has it.  Disks
  are compared by their Name field.
\<close>

fun find_snapshot :: "string \<Rightarrow> DiskInfo list \<Rightarrow> bool option" where
  "find_snapshot snapshotDiskName [] = Some False"
| "find_snapshot snapshotDiskName (d # ds) =
     (if di_Name d \<noteq> snapshotDiskName then find_snapshot snapshotDiskName ds
      else if di_Removed d then None else Some True)"

fun find_loop :: "'w rclient \<Rightarrow> string \<Rightarrow> 'w \<Rightarrow> (string \<times> mode) list \<Rightarrow> error + bool" where
  "find_loop R name w [] = Inr False"
| "find_loop R name w ((address, mo) # rs) =
     (if mo \<noteq> RW then find_loop R name w rs
      else case GetReplicaDisksAndHead R address '''' w of
        Inl e \<Rightarrow> Inl e
      | Inr (disks, _) \<Rightarrow>
          (case find_snapshot (GenerateSnapshotDiskName name) (map snd disks) of
             None \<Rightarrow> Inl (Errorf (''cannot revert to removed snapshot '' @ name))
           | Some True \<Rightarrow> Inr True
           | Some False \<Rightarrow> find_loop R name w rs))"

text \<open>clientsAndSnapshot: the clients are the addresses, in the order of the replicas.\<close>

fun clients_loop :: "'w rclient \<Rightarrow> 'w \<Rightarrow> (string \<times> mode) list \<Rightarrow> string list \<Rightarrow> error + string list" where
  "clients_loop R w [] clients = Inr clients"
| "clients_loop R w ((address, mo) # rs) clients =
     (if mo = WO then Inl (Errorf (''cannot revert '' @ address @ '' during rebuilding process''))
      else if mo \<noteq> RW then clients_loop R w rs clients
      else if \<not> HasPrefix address ''tcp://'' then Inl (Errorf (''backend '' @ address @ '' does not support revert''))
      else case rc_New R address '''' of
        Some e \<Rightarrow> Inl e
      | None \<Rightarrow>
          (case rc_GetReplica R address w of
             Inl e \<Rightarrow> Inl e
           | Inr _ \<Rightarrow> clients_loop R w rs (clients @ [address])))"

definition clientsAndSnapshot ::
  "'w rclient \<Rightarrow> ('b, 'f) controller \<Rightarrow> string \<Rightarrow> 'w \<Rightarrow> error + (string list \<times> string)" where
  "clientsAndSnapshot R c name w =
     (case clients_loop R w (c_replicas c) [] of
        Inl e \<Rightarrow> Inl e
      | Inr clients \<Rightarrow> Inr (clients, GenerateSnapshotDiskName name))"

fun revert_loop ::
  "('b, 'w) backend_ops \<Rightarrow> 'w rclient \<Rightarrow> string \<Rightarrow> string \<Rightarrow> string list \<Rightarrow> bool \<Rightarrow> ('b, 'f) controller \<Rightarrow> 'w \<Rightarrow>
     (bool \<times> ('b, 'f) controller \<times> 'w) option" where
  "revert_loop ops R name now [] success c w = Some (success, c, w)"
| "revert_loop ops R name now (address # as) success c w =
     (case rc_Revert R address name now w of
        (Some e, w) \<Rightarrow> do {
          (c, w) \<leftarrow> setReplicaModeNoLock ops c address ERR w;
          revert_loop ops R name now as success c w
        }
      | (None, w) \<Rightarrow> revert_loop ops R name now as True c w)"

definition ctl_Revert ::
  "('b, 'f, 'w) ctl_env \<Rightarrow> 'w rclient \<Rightarrow> ('b, 'f) controller \<Rightarrow> string \<Rightarrow> 'w \<Rightarrow>
     (error option \<times> ('b, 'f) controller \<times> 'w) option" where
  "ctl_Revert E R c name w =
     (let rw = list_ex (\<lambda>(a, m). m = RW) (c_replicas c); wo = list_ex (\<lambda>(a, m). m = WO) (c_replicas c) in
      if \<not> (rw \<and> \<not> wo)
      then Some (Some (Errorf ''not valid state to revert, rebuilding in process or all replica are in ERR state''), c, w)
      else case find_loop R name w (c_replicas c) of
        Inl e \<Rightarrow> Some (Some e, c, w)
      | Inr found \<Rightarrow>
          if \<not> found
          then Some (Some (Errorf (''cannot do revert since the target snapshot '' @ name @ '' is not found'')), c, w)
          else case clientsAndSnapshot R c name w of
            Inl e \<Rightarrow> Some (Some e, c, w)
          | Inr (clients, name) \<Rightarrow>
              if FrontendState E c w = ''up''
              then Some (Some (Errorf ''volume frontend enabled, aborting snapshot revert''), c, w)
              else do {
                (minimalSuccess, c, w) \<leftarrow> revert_loop (bops E) R name (env_now E w) clients False c w;
                Some (if \<not> minimalSuccess then Some (Errorf (''failed to revert to '' @ name @ '' on all replicas'')) else None, c, w)
              })"

end
