(* ===== verification/Controller_Inv.thy ===== *)
theory Controller_Inv
  imports Controller_Rebuild
begin

text \<open>
  The invariant of the controller: its list of replicas and the backends of the replicator
  name the same addresses with the same modes, and at most one replica is in mode WO.  Every operation keeps it
  and none of them panics when it holds.
\<close>

definition modes_agree :: "('b, 'f) controller \<Rightarrow> bool" where
  "modes_agree c \<longleftrightarrow> (\<forall>a. map_of (c_replicas c) a = map_option bw_mode (map_of (backends (c_backend c)) a))"

definition wo_count :: "(string \<times> mode) list \<Rightarrow> nat" where
  "wo_count rs = length (filter (\<lambda>(a, m). m = WO) rs)"

definition ctl_inv :: "('b, 'f) controller \<Rightarrow> bool" where
  "ctl_inv c \<longleftrightarrow> distinct (map fst (c_replicas c)) \<and> rep_inv (c_backend c) \<and> modes_agree c \<and> wo_count (c_replicas c) \<le> 1"

lemma wo_count_simps [simp]: "wo_count [] = 0"
  "wo_count ((a, m) # rs) = (if m = WO then Suc (wo_count rs) else wo_count rs)"
  "wo_count (xs @ ys) = wo_count xs + wo_count ys"
  by (simp_all add: wo_count_def)

lemma hasWOReplica_iff: "hasWOReplica c \<longleftrightarrow> wo_count (c_replicas c) \<noteq> 0"
  by (auto simp: hasWOReplica_def wo_count_def list_ex_iff filter_empty_conv)

lemma hasReplica_iff: "hasReplica c a \<longleftrightarrow> a \<in> fst ` set (c_replicas c)"
  by (force simp: hasReplica_def list_ex_iff)

lemma ctl_invD:
  assumes "ctl_inv c"
  shows "distinct (map fst (c_replicas c))" "rep_inv (c_backend c)" "wo_count (c_replicas c) \<le> 1"
    "map_of (c_replicas c) a = map_option bw_mode (map_of (backends (c_backend c)) a)"
  using assms by (simp_all add: ctl_inv_def modes_agree_def)

lemma ctl_inv_reset [simp]: "ctl_inv (c_reset c)"
  by (simp add: ctl_inv_def c_reset_def modes_agree_def rep_inv_new) (simp add: new_replicator_def)

lemma ctl_inv_cong:
  "c_replicas c' = c_replicas c \<Longrightarrow> c_backend c' = c_backend c \<Longrightarrow> ctl_inv c' = ctl_inv c"
  by (simp add: ctl_inv_def modes_agree_def)

text \<open>A backend of a replica that is not ERR has a handle.\<close>

lemma backend_of_Some:
  assumes "ctl_inv c" "map_of (c_replicas c) a = Some mo" "mo \<noteq> ERR"
  obtains h where "backend_of c a = Some h"
proof -
  obtain b where b: "map_of (backends (c_backend c)) a = Some b" "bw_mode b = mo"
    using ctl_invD(4) [OF assms(1), of a] assms(2) by (cases "map_of (backends (c_backend c)) a") auto
  then have "(a, b) \<in> set (backends (c_backend c))" by (simp add: map_of_SomeD)
  then obtain h where "bw_backend b = Some h"
    using rep_invD(2) [OF ctl_invD(2) [OF assms(1)]] b assms(3) by blast
  then show ?thesis using that b by (simp add: backend_of_def)
qed

section \<open>Changing a mode\<close>

text \<open>The effect of setReplicaModeNoLock on the list: ERR is final.\<close>

definition set_mode :: "string \<Rightarrow> mode \<Rightarrow> (string \<times> mode) list \<Rightarrow> (string \<times> mode) list" where
  "set_mode address mo rs = map (\<lambda>(a, m). if a = address \<and> m \<noteq> ERR then (a, mo) else (a, m)) rs"

lemma set_mode_simps [simp]: "set_mode address mo [] = []"
  "set_mode address mo ((a, m) # rs) = (if a = address \<and> m \<noteq> ERR then (a, mo) else (a, m)) # set_mode address mo rs"
  by (simp_all add: set_mode_def)

lemma map_fst_set_mode [simp]: "map fst (set_mode address mo rs) = map fst rs"
  by (induction rs) auto

lemma fst_set_set_mode [simp]: "fst ` set (set_mode address mo rs) = fst ` set rs"
  by (metis list.set_map map_fst_set_mode)

lemma length_set_mode [simp]: "length (set_mode address mo rs) = length rs"
  by (simp add: set_mode_def)

lemma set_mode_absent: "address \<notin> fst ` set rs \<Longrightarrow> set_mode address mo rs = rs"
  by (induction rs) auto

lemma map_of_set_mode:
  "map_of (set_mode address mo rs) a =
     (if a = address then map_option (\<lambda>m. if m \<noteq> ERR then mo else m) (map_of rs a) else map_of rs a)"
  by (induction rs) auto

lemma wo_count_set_mode: "mo \<noteq> WO \<Longrightarrow> wo_count (set_mode address mo rs) \<le> wo_count rs"
  by (induction rs) auto

lemma set_mode_loop_eq:
  assumes "distinct (map fst rs)"
  shows "set_mode_loop ops address mo rs passed r w =
    (case map_of rs address of
       Some m \<Rightarrow> if m \<noteq> ERR then map_option (\<lambda>(r', w'). (rev passed @ set_mode address mo rs, r', w')) (SetMode ops address mo r w)
                else Some (rev passed @ set_mode address mo rs, r, w)
     | None \<Rightarrow> Some (rev passed @ set_mode address mo rs, r, w))"
  using assms
proof (induction rs arbitrary: passed r w)
  case (Cons x rs)
  obtain a m where x: "x = (a, m)" by (cases x)
  show ?case
  proof (cases "a = address \<and> m \<noteq> ERR")
    case True
    then have "map_of rs address = None" "address \<notin> fst ` set rs" using Cons.prems x by (auto simp: map_of_eq_None_iff)
    then show ?thesis
      using Cons True x by (cases "SetMode ops address mo r w") (auto simp: set_mode_absent)
  next
    case False
    show ?thesis
    proof (cases "a = address")
      case True
      then have "map_of rs address = None" using Cons.prems x by (simp add: map_of_eq_None_iff)
      then show ?thesis using Cons False True x by simp
    next
      case False
      then show ?thesis using Cons x by (auto split: option.split)
    qed
  qed
qed simp

lemma backends_SetMode:
  assumes "SetMode ops address mo r w = Some (r', w')"
  shows "map_of (backends r') a =
    (if a = address then map_option (\<lambda>b. b\<lparr>bw_mode := mo\<rparr>) (map_of (backends r) a) else map_of (backends r) a)"
  using assms by (auto simp: SetMode_def Let_def build_built(2) update_conv split: option.splits if_splits)

text \<open>setReplicaModeNoLock never panics under the invariant, and its effect is set_mode.\<close>

lemma setReplicaModeNoLock_spec:
  assumes inv: "ctl_inv c" and mo: "mo \<noteq> WO"
  obtains r w' where
    "setReplicaModeNoLock ops c address mo w = Some (c\<lparr>c_replicas := set_mode address mo (c_replicas c), c_backend := r\<rparr>, w')"
    "ctl_inv (c\<lparr>c_replicas := set_mode address mo (c_replicas c), c_backend := r\<rparr>)"
proof -
  let ?rs = "c_replicas c" and ?r = "c_backend c"
  note d = ctl_invD(1) [OF inv] and ri = ctl_invD(2) [OF inv] and agree = ctl_invD(4) [OF inv]
  have eq: "set_mode_loop ops address mo ?rs [] ?r w = Some (set_mode address mo ?rs, r, w') \<Longrightarrow>
      rep_inv r \<Longrightarrow>
      (\<And>a. map_of (set_mode address mo ?rs) a = map_option bw_mode (map_of (backends r) a)) \<Longrightarrow> thesis" for r w'
    using that [of r w'] d wo_count_set_mode [OF mo, of address ?rs] ctl_invD(3) [OF inv]
    by (simp add: setReplicaModeNoLock_def ctl_inv_def modes_agree_def)
  show ?thesis
  proof (cases "map_of ?rs address")
    case None
    have "set_mode_loop ops address mo ?rs [] ?r w = Some (set_mode address mo ?rs, ?r, w)"
      by (simp add: set_mode_loop_eq [OF d] None)
    moreover have "map_of (set_mode address mo ?rs) a = map_of ?rs a" for a
      using None by (simp add: map_of_set_mode)
    ultimately show ?thesis using eq [of ?r w] ri agree by metis
  next
    case (Some m)
    show ?thesis
    proof (cases "m = ERR")
      case True
      then have "set_mode_loop ops address mo ?rs [] ?r w = Some (set_mode address mo ?rs, ?r, w)"
        by (simp add: set_mode_loop_eq [OF d] Some)
      moreover have "map_of (set_mode address mo ?rs) a = map_of ?rs a" for a
        using Some True by (simp add: map_of_set_mode)
      ultimately show ?thesis using eq [of ?r w] ri agree by metis
    next
      case False
      obtain h where h: "backend_of c address = Some h" using backend_of_Some [OF inv Some False] .
      obtain b where b: "map_of (backends ?r) address = Some b" "bw_backend b = Some h" "bw_mode b = m"
        using h agree [of address] Some by (cases "map_of (backends ?r) address") (auto simp: backend_of_def)
      obtain r w' where sm: "SetMode ops address mo ?r w = Some (r, w')"
        using b by (cases "mo = ERR") (auto simp: SetMode_def Let_def)
      have "map_of (set_mode address mo ?rs) a = map_option bw_mode (map_of (backends r) a)" for a
        using agree [of a] Some False b by (auto simp: map_of_set_mode backends_SetMode [OF sm])
      moreover have "rep_inv r" using SetMode_inv [OF ri sm] b False by simp
      ultimately show ?thesis using eq [of r w'] by (simp add: set_mode_loop_eq [OF d] Some False sm)
    qed
  qed
qed

section \<open>Evolution of the modes\<close>

text \<open>ERR is final, and a replica becomes WO only by being added as such.\<close>

definition mode_step :: "mode \<Rightarrow> mode \<Rightarrow> bool" where
  "mode_step m m' \<longleftrightarrow> (m = ERR \<longrightarrow> m' = ERR) \<and> (m' = WO \<longrightarrow> m = WO)"

definition evolves :: "('b, 'f) controller \<Rightarrow> ('b, 'f) controller \<Rightarrow> bool" where
  "evolves c c' \<longleftrightarrow> ctl_inv c' \<and> list_all2 (\<lambda>(a, m) (b, m'). a = b \<and> mode_step m m') (c_replicas c) (c_replicas c')"

named_theorems evolve \<open>rules that establish an evolution\<close>

lemma mode_step_refl [simp]: "mode_step m m"
  by (simp add: mode_step_def)

lemma mode_step_trans: "mode_step a b \<Longrightarrow> mode_step b c \<Longrightarrow> mode_step a c"
  unfolding mode_step_def by blast

lemma evolves_refl [evolve]: "ctl_inv c \<Longrightarrow> evolves c c"
  by (auto simp: evolves_def intro!: list_all2_refl)

lemma evolves_inv [dest]: "evolves c c' \<Longrightarrow> ctl_inv c'"
  by (simp add: evolves_def)

lemma evolves_trans:
  assumes "evolves a b" "evolves b c"
  shows "evolves a c"
proof -
  let ?P = "\<lambda>(a, m) (b, m'). a = b \<and> mode_step m m'"
  have "\<forall>x y z. ?P x y \<longrightarrow> ?P y z \<longrightarrow> ?P x z" using mode_step_trans by fast
  then have "list_all2 ?P (c_replicas a) (c_replicas c)"
    using assms list_all2_trans [of ?P ?P ?P "c_replicas a" "c_replicas b" "c_replicas c"]
    unfolding evolves_def by blast
  then show ?thesis using assms by (simp add: evolves_def)
qed

lemma evolves_cong:
  "c_replicas c' = c_replicas d' \<Longrightarrow> c_backend c' = c_backend d' \<Longrightarrow> c_replicas c = c_replicas d \<Longrightarrow>
     evolves c c' \<longleftrightarrow> evolves d d'"
  by (simp add: evolves_def ctl_inv_def modes_agree_def)

lemma evolves_fields [simp]:
  "evolves (c\<lparr>lastExpansionFailedAt := t\<rparr>) c' = evolves c c'" "evolves (c\<lparr>lastExpansionError := t\<rparr>) c' = evolves c c'"
  "evolves (c\<lparr>isExpanding := e\<rparr>) c' = evolves c c'" "evolves (c\<lparr>c_size := n\<rparr>) c' = evolves c c'"
  "evolves (c\<lparr>unmapMarkSnapChainRemoved := e\<rparr>) c' = evolves c c'" "evolves (c\<lparr>c_metrics := mt\<rparr>) c' = evolves c c'"
  "evolves (c\<lparr>snapshotMaxCount := n\<rparr>) c' = evolves c c'" "evolves (c\<lparr>snapshotMaxSize := n\<rparr>) c' = evolves c c'"
  "evolves (c\<lparr>c_frontend := fe\<rparr>) c' = evolves c c'"
  by (simp_all add: evolves_def)

lemma ctl_inv_fields [simp]:
  "ctl_inv (c\<lparr>lastExpansionFailedAt := t\<rparr>) = ctl_inv c" "ctl_inv (c\<lparr>lastExpansionError := t\<rparr>) = ctl_inv c"
  "ctl_inv (c\<lparr>isExpanding := e\<rparr>) = ctl_inv c" "ctl_inv (c\<lparr>c_size := n\<rparr>) = ctl_inv c" "ctl_inv (c\<lparr>c_sectorSize := n\<rparr>) = ctl_inv c"
  "ctl_inv (c\<lparr>unmapMarkSnapChainRemoved := e\<rparr>) = ctl_inv c" "ctl_inv (c\<lparr>c_metrics := mt\<rparr>) = ctl_inv c"
  "ctl_inv (c\<lparr>snapshotMaxCount := n\<rparr>) = ctl_inv c" "ctl_inv (c\<lparr>snapshotMaxSize := n\<rparr>) = ctl_inv c"
  "ctl_inv (c\<lparr>latestMetrics := mt\<rparr>) = ctl_inv c" "ctl_inv (c\<lparr>c_frontend := fe\<rparr>) = ctl_inv c"
  by (simp_all add: ctl_inv_def modes_agree_def)

lemma evolves_set_mode:
  assumes "ctl_inv (c\<lparr>c_replicas := set_mode address mo (c_replicas c), c_backend := r\<rparr>)" "mo \<noteq> WO"
  shows "evolves c (c\<lparr>c_replicas := set_mode address mo (c_replicas c), c_backend := r\<rparr>)"
proof -
  have "list_all2 (\<lambda>(a, m) (b, m'). a = b \<and> mode_step m m') rs (set_mode address mo rs)" for rs
    using assms(2) by (induction rs) (auto simp: mode_step_def)
  then show ?thesis using assms(1) by (simp add: evolves_def)
qed

lemma setReplicaModeNoLock_evolves:
  assumes "ctl_inv c" "mo \<noteq> WO"
  obtains c' w' where "setReplicaModeNoLock ops c address mo w = Some (c', w')" "evolves c c'"
  using setReplicaModeNoLock_spec [OF assms, of ops address w] evolves_set_mode assms(2) by metis

text \<open>A replica is never out of ERR again, and no replica turns WO.\<close>

lemma evolves_map_of:
  assumes "evolves c c'" "map_of (c_replicas c') a = Some m'"
  shows "\<exists>m. map_of (c_replicas c) a = Some m \<and> mode_step m m'"
proof -
  have "list_all2 (\<lambda>(a, m) (b, m'). a = b \<and> mode_step m m') xs ys \<Longrightarrow> map_of ys a = Some m' \<Longrightarrow>
      \<exists>m. map_of xs a = Some m \<and> mode_step m m'" for xs ys :: "(string \<times> mode) list"
    by (induction xs ys rule: list_all2_induct) (auto split: if_splits)
  then show ?thesis using assms by (auto simp: evolves_def)
qed

lemma evolves_addresses: "evolves c c' \<Longrightarrow> map fst (c_replicas c') = map fst (c_replicas c)"
proof -
  have "list_all2 (\<lambda>(a, m) (b, m'). a = b \<and> mode_step m m') xs ys \<Longrightarrow> map fst ys = map fst xs"
    for xs ys :: "(string \<times> mode) list"
    by (induction xs ys rule: list_all2_induct) auto
  then show "evolves c c' \<Longrightarrow> ?thesis" by (auto simp: evolves_def)
qed

lemma evolves_length: "evolves c c' \<Longrightarrow> length (c_replicas c') = length (c_replicas c)"
  by (auto simp: evolves_def dest: list_all2_lengthD)

section \<open>No operation panics\<close>

definition handled :: "(string \<times> 'b backendWrapper) list \<Rightarrow> bool" where
  "handled bs \<longleftrightarrow> (\<forall>(a, b) \<in> set bs. bw_mode b \<noteq> ERR \<longrightarrow> bw_backend b \<noteq> None)"

lemma rep_inv_handled: "rep_inv r \<Longrightarrow> handled (backends r)"
  by (auto simp: handled_def dest: rep_invD(2))

lemma handled_Cons [simp]: "handled ((a, b) # bs) \<longleftrightarrow> (bw_mode b \<noteq> ERR \<longrightarrow> bw_backend b \<noteq> None) \<and> handled bs"
  by (auto simp: handled_def)

lemma usage_loop_total: "handled bs \<Longrightarrow> usage_loop ops w bs hr cu su \<noteq> None"
  by (induction ops w bs hr cu su rule: usage_loop.induct) (auto split: prod.splits option.splits)

lemma head_size_loop_total: "handled bs \<Longrightarrow> head_size_loop ops w bs hr su \<noteq> None"
  by (induction ops w bs hr su rule: head_size_loop.induct) (auto split: prod.splits option.splits)

lemma snapshot_loop_total: "handled bs \<Longrightarrow> snapshot_loop ops name uc cr lb bs errs w \<noteq> None"
  by (induction ops name uc cr lb bs errs w rule: snapshot_loop.induct) (auto split: prod.splits option.splits)

lemma expand_loop_total: "handled bs \<Longrightarrow> expand_loop ops sz bs cnt errs oos w \<noteq> None"
  by (induction ops sz bs cnt errs oos w rule: expand_loop.induct) (auto split: prod.splits option.splits)

lemma close_loop_total: "handled bs \<Longrightarrow> close_loop ops bs e w \<noteq> None"
  by (induction ops bs e w rule: close_loop.induct) (auto split: prod.splits option.splits)

lemma rep_GetHeadFileSize_total: "rep_inv r \<Longrightarrow> \<exists>x y. rep_GetHeadFileSize ops r w = Some (x, y)"
  using head_size_loop_total [OF rep_inv_handled, of r ops w False 0] by (auto simp: rep_GetHeadFileSize_def)

lemma rep_GetUsage_total: "rep_inv r \<Longrightarrow> \<exists>x y z. rep_GetSnapshotCountAndSizeUsage ops r w = Some (x, y, z)"
  using usage_loop_total [OF rep_inv_handled, of r ops w False 0 0] by (auto simp: rep_GetSnapshotCountAndSizeUsage_def)

lemma canDoSnapshot_total:
  assumes "ctl_inv c"
  shows "\<exists>err. canDoSnapshot ops c w = Some err"
proof -
  obtain x y z where u: "rep_GetSnapshotCountAndSizeUsage ops (c_backend c) w = Some (x, y, z)"
    using rep_GetUsage_total [OF ctl_invD(2) [OF assms], of ops w] by blast
  obtain h e where "rep_GetHeadFileSize ops (c_backend c) w = Some (h, e)"
    using rep_GetHeadFileSize_total [OF ctl_invD(2) [OF assms], of ops w] by blast
  then show ?thesis using u by (simp add: canDoSnapshot_def Let_def)
qed

lemma rep_Snapshot_total: "rep_inv r \<Longrightarrow> \<exists>err w'. rep_Snapshot ops r name uc cr lb w = Some (err, w')"
  using snapshot_loop_total [OF rep_inv_handled, of r ops name uc cr lb "[]" w] by (auto simp: rep_Snapshot_def)

lemma rep_Expand_total: "rep_inv r \<Longrightarrow> \<exists>ok e1 e2 w'. rep_Expand ops r sz w = Some (ok, e1, e2, w')"
  using expand_loop_total [OF rep_inv_handled, of r ops sz 0 "[]" "[]" w] by (auto simp: rep_Expand_def)

section \<open>The operations under the invariant\<close>

lemma handle_loop_evolves:
  "ctl_inv c \<Longrightarrow> \<exists>ex c' w'. handle_loop ops c es exist w = Some (ex, c', w') \<and> evolves c c'"
proof (induction es arbitrary: c exist w)
  case Nil
  then show ?case by (simp add: evolves_refl)
next
  case (Cons x es)
  obtain a e where x: "x = (a, e)" by (cases x)
  obtain c1 w1 where s: "setReplicaModeNoLock ops c a ERR w = Some (c1, w1)" "evolves c c1"
    using setReplicaModeNoLock_evolves [OF Cons.prems, of ERR ops a w] by auto
  show ?case
  proof (cases "isSnapshotDiskExist e")
    case True
    then show ?thesis using Cons x by simp
  next
    case False
    obtain ex c' w' where "handle_loop ops c1 es exist w1 = Some (ex, c', w')" "evolves c1 c'"
      using Cons.IH s(2) by blast
    then show ?thesis using False x s by (auto intro: evolves_trans)
  qed
qed

lemma handleErrorNoLock_evolves:
  assumes "ctl_inv c"
  obtains err' c' w' where "handleErrorNoLock ops c err w = Some (err', c', w')" "evolves c c'"
proof -
  have "\<exists>err' c' w'. handleErrorNoLock ops c err w = Some (err', c', w') \<and> evolves c c'"
  proof (cases "\<exists>es. err = Some (BackendErr es) \<and> es \<noteq> []")
    case True
    then obtain es where es: "err = Some (BackendErr es)" "es \<noteq> []" by blast
    obtain ex c' w' where "handle_loop ops c es [] w = Some (ex, c', w')" "evolves c c'"
      using handle_loop_evolves [OF assms, of ops es "[]" w] by blast
    then show ?thesis using es by (simp add: handleErrorNoLock_def)
  next
    case False
    then show ?thesis using evolves_refl [OF assms]
      by (auto simp: handleErrorNoLock_def split: option.split error.split)
  qed
  then show ?thesis using that by blast
qed

lemma SetReplicaMode_evolves:
  assumes "ctl_inv c"
  obtains err c' w' where "SetReplicaMode ops c a mo w = Some (err, c', w')" "evolves c c'"
proof (cases "mo = WO")
  case True
  then show ?thesis using that evolves_refl [OF assms] by (simp add: SetReplicaMode_def)
next
  case False
  then obtain c' w' where "setReplicaModeNoLock ops c a mo w = Some (c', w')" "evolves c c'"
    using setReplicaModeNoLock_evolves [OF assms, of mo ops a w] by blast
  then show ?thesis using that False by (cases mo) (simp_all add: SetReplicaMode_def)
qed

lemma monitoring_evolves:
  assumes "ctl_inv c"
  obtains c' w' where "monitoring ops c a received w = Some (c', w')" "evolves c c'"
proof (cases received)
  case None
  then show ?thesis using that evolves_refl [OF assms] by (simp add: monitoring_def)
next
  case (Some e)
  obtain err c' w' where "SetReplicaMode ops c a ERR w = Some (err, c', w')" "evolves c c'"
    using SetReplicaMode_evolves [OF assms] .
  then show ?thesis using that Some by (simp add: monitoring_def)
qed

lemma snapshot_take_evolves:
  assumes "ctl_inv c"
  obtains n err c' w' where "snapshot_take E c name labels w = Some (n, err, c', w')" "evolves c c'"
proof -
  obtain e where e: "canDoSnapshot (bops E) c w = Some e" using canDoSnapshot_total [OF assms, of "bops E" w] by blast
  obtain err w1 where s: "rep_Snapshot (bops E) (c_backend c) name True (env_now E w) labels w = Some (err, w1)"
    using rep_Snapshot_total [OF ctl_invD(2) [OF assms], of "bops E" name True "env_now E w" labels w] by blast
  obtain err' c' w' where h: "handleErrorNoLock (bops E) c err w1 = Some (err', c', w')" "evolves c c'"
    using handleErrorNoLock_evolves [OF assms, of "bops E" err w1] by blast
  show ?thesis
  proof (cases e)
    case None
    then show ?thesis using that e s h by (simp add: snapshot_take_def)
  next
    case (Some x)
    then show ?thesis using that e evolves_refl [OF assms] by (simp add: snapshot_take_def)
  qed
qed

lemma expand_backends_evolves:
  assumes "ctl_inv c"
  obtains ok c' w' where "expand_backends E c sz w = Some (ok, c', w')" "evolves c c'"
proof -
  obtain e where e: "canDoSnapshot (bops E) c w = Some e" using canDoSnapshot_total [OF assms, of "bops E" w] by blast
  obtain s e1 e2 w1 where x: "rep_Expand (bops E) (c_backend c) sz w = Some (s, e1, e2, w1)"
    using rep_Expand_total [OF ctl_invD(2) [OF assms], of "bops E" sz w] by blast
  let ?c = "\<lambda>y. c\<lparr>lastExpansionFailedAt := env_now E w1, lastExpansionError :=
      (if s then ''the expansion succeeded, but some replica expansion failed: ''
       else ''the expansion failed since all replica expansion failed: '') @ Error_msg y\<rparr>"
  consider "e \<noteq> None" | "e = None" "e2 = None" | y where "e = None" "e2 = Some y" by fastforce
  then show ?thesis
  proof cases
    case 1
    then show ?thesis using that e evolves_refl [OF assms] by (auto simp: expand_backends_def)
  next
    case 2
    then show ?thesis using that e x evolves_refl [OF assms] by (simp add: expand_backends_def)
  next
    case 3
    obtain err' c' w' where "handleErrorNoLock (bops E) (?c y) e1 w1 = Some (err', c', w')" "evolves (?c y) c'"
      using handleErrorNoLock_evolves [of "?c y" "bops E" e1 w1] assms by auto
    then show ?thesis using that e x 3 by (simp add: expand_backends_def)
  qed
qed

lemma revert_loop_evolves:
  "ctl_inv c \<Longrightarrow> \<exists>ok c' w'. revert_loop ops R name now as s c w = Some (ok, c', w') \<and> evolves c c'"
proof (induction as arbitrary: c s w)
  case Nil
  then show ?case by (simp add: evolves_refl)
next
  case (Cons a as)
  obtain e w1 where r: "rc_Revert R a name now w = (e, w1)" by (cases "rc_Revert R a name now w")
  obtain c1 w2 where s: "setReplicaModeNoLock ops c a ERR w1 = Some (c1, w2)" "evolves c c1"
    using setReplicaModeNoLock_evolves [OF Cons.prems, of ERR ops a w1] by auto
  show ?case
  proof (cases e)
    case None
    then show ?thesis using Cons r by simp
  next
    case (Some x)
    obtain ok c' w' where "revert_loop ops R name now as s c1 w2 = Some (ok, c', w')" "evolves c1 c'"
      using Cons.IH s(2) by blast
    then show ?thesis using Some r s by (auto intro: evolves_trans)
  qed
qed

lemma ctl_Revert_evolves:
  assumes "ctl_inv c"
  obtains err c' w' where "ctl_Revert E R c name w = Some (err, c', w')" "evolves c c'"
proof -
  note rl = revert_loop_evolves [OF assms, of "bops E" R]
  have "\<exists>err c' w'. ctl_Revert E R c name w = Some (err, c', w') \<and> evolves c c'"
  proof -
    obtain ok c' w' where *: "revert_loop (bops E) R (GenerateSnapshotDiskName name) (env_now E w)
        (case clients_loop R w (c_replicas c) [] of Inr cl \<Rightarrow> cl | Inl e \<Rightarrow> []) False c w = Some (ok, c', w')" "evolves c c'"
      using rl by blast
    then show ?thesis
      using evolves_refl [OF assms]
      by (auto simp: ctl_Revert_def clientsAndSnapshot_def Let_def split: sum.splits)
  qed
  then show ?thesis using that by blast
qed

section \<open>The checks at start\<close>

lemma replica_nth:
  assumes "ctl_inv c" "i < length (c_replicas c)" "c_replicas c ! i = (a, mo)"
  shows "map_of (c_replicas c) a = Some mo"
  using assms ctl_invD(1) [OF assms(1)] by (metis map_of_eq_Some_iff nth_mem)

text \<open>The queries and settings by address do not panic on a replica that is not ERR.\<close>

lemma rep_queries_total:
  assumes "backend_of c a = Some h"
  shows "\<exists>n e. rep_GetRevisionCounter ops (c_backend c) a w = Some (n, e)"
    "\<exists>e w'. rep_SetRevisionCounter ops (c_backend c) a k w = Some (e, w')"
    "\<exists>b e. rep_GetUnmapMarkSnapChainRemoved ops (c_backend c) a w = Some (b, e)"
    "\<exists>e w'. rep_SetUnmapMarkSnapChainRemoved ops (c_backend c) a en w = Some (e, w')"
    "\<exists>e w'. rep_SetSnapshotMaxCount ops (c_backend c) a k w = Some (e, w')"
    "\<exists>e w'. rep_SetSnapshotMaxSize ops (c_backend c) a k w = Some (e, w')"
proof -
  obtain b where b: "map_of (backends (c_backend c)) a = Some b" "bw_backend b = Some h"
    using assms by (cases "map_of (backends (c_backend c)) a") (auto simp: backend_of_def)
  show "\<exists>n e. rep_GetRevisionCounter ops (c_backend c) a w = Some (n, e)"
    "\<exists>b e. rep_GetUnmapMarkSnapChainRemoved ops (c_backend c) a w = Some (b, e)"
    using b by (auto simp: rep_GetRevisionCounter_def rep_GetUnmapMarkSnapChainRemoved_def split: prod.split option.split)
  show "\<exists>e w'. rep_SetRevisionCounter ops (c_backend c) a k w = Some (e, w')"
    "\<exists>e w'. rep_SetUnmapMarkSnapChainRemoved ops (c_backend c) a en w = Some (e, w')"
    "\<exists>e w'. rep_SetSnapshotMaxCount ops (c_backend c) a k w = Some (e, w')"
    "\<exists>e w'. rep_SetSnapshotMaxSize ops (c_backend c) a k w = Some (e, w')"
    using b by (simp_all add: rep_SetRevisionCounter_def rep_SetUnmapMarkSnapChainRemoved_def
        rep_SetSnapshotMaxCount_def rep_SetSnapshotMaxSize_def)
qed

lemma match_loop_evolves:
  "ctl_inv c \<Longrightarrow> i + k \<le> length (c_replicas c) \<Longrightarrow>
     \<exists>err c' w'. match_loop ops k i c w = Some (err, c', w') \<and> evolves c c'"
proof (induction k arbitrary: i c w)
  case 0
  then show ?case by (simp add: evolves_refl)
next
  case (Suc k)
  obtain a mo where am: "c_replicas c ! i = (a, mo)" by (cases "c_replicas c ! i")
  have next': "\<exists>err c' w'. match_loop ops k (Suc i) c w = Some (err, c', w') \<and> evolves c c'" for w
    using Suc by simp
  show ?case
  proof (cases "mo = ERR")
    case True
    then show ?thesis using next' am by simp
  next
    case False
    obtain h where h: "backend_of c a = Some h"
      using backend_of_Some [OF Suc.prems(1) replica_nth [OF Suc.prems(1) _ am] False] Suc.prems(2) by auto
    obtain d e where d: "be_IsRevisionCounterDisabled ops h w = (d, e)" by (cases "be_IsRevisionCounterDisabled ops h w")
    obtain c1 w1 where s: "setReplicaModeNoLock ops c a ERR w = Some (c1, w1)" "evolves c c1"
      using setReplicaModeNoLock_evolves [OF Suc.prems(1), of ERR ops a w] by auto
    obtain err c' w' where r: "match_loop ops k (Suc i) c1 w1 = Some (err, c', w')" "evolves c1 c'"
      using Suc.IH [of c1 "Suc i" w1] s(2) evolves_length [OF s(2)] Suc.prems(2) by auto
    show ?thesis
    proof (cases e)
      case None
      then show ?thesis using next' [of w] am False h d s r by (auto intro: evolves_trans)
    next
      case (Some x)
      then show ?thesis using am False h d evolves_refl [OF Suc.prems(1)] by simp
    qed
  qed
qed

lemma unmap_mark_loop_evolves:
  "ctl_inv c \<Longrightarrow> i + k \<le> length (c_replicas c) \<Longrightarrow>
     \<exists>err af' c' w'. unmap_mark_loop ops k i af c w = Some (err, af', c', w') \<and> evolves c c'"
proof (induction k arbitrary: i c w af)
  case 0
  then show ?case by (simp add: evolves_refl)
next
  case (Suc k)
  obtain a mo where am: "c_replicas c ! i = (a, mo)" by (cases "c_replicas c ! i")
  have next': "\<exists>err af' c' w'. unmap_mark_loop ops k (Suc i) af c w = Some (err, af', c', w') \<and> evolves c c'" for w af
    using Suc by simp
  show ?case
  proof (cases "mo = ERR")
    case True
    then show ?thesis using next' am by simp
  next
    case False
    obtain h where h: "backend_of c a = Some h"
      using backend_of_Some [OF Suc.prems(1) replica_nth [OF Suc.prems(1) _ am] False] Suc.prems(2) by auto
    obtain d e where d: "rep_GetUnmapMarkSnapChainRemoved ops (c_backend c) a w = Some (d, e)"
      using rep_queries_total(3) [OF h, of ops w] by blast
    obtain e1 w0 where t: "rep_SetUnmapMarkSnapChainRemoved ops (c_backend c) a (unmapMarkSnapChainRemoved c) w = Some (e1, w0)"
      using rep_queries_total(4) [OF h, of ops _ w] by blast
    obtain c1 w1 where s: "setReplicaModeNoLock ops c a ERR w0 = Some (c1, w1)" "evolves c c1"
      using setReplicaModeNoLock_evolves [OF Suc.prems(1), of ERR ops a w0] by auto
    obtain err af' c' w' where r: "unmap_mark_loop ops k (Suc i) af c1 w1 = Some (err, af', c', w')" "evolves c1 c'"
      using Suc.IH [OF evolves_inv [OF s(2)], of "Suc i" af w1] evolves_length [OF s(2)] Suc.prems(2) by auto
    show ?thesis
    proof (cases "e = None \<and> d \<noteq> unmapMarkSnapChainRemoved c \<and> e1 \<noteq> None")
      case True
      then show ?thesis using am False d t s r by (auto intro: evolves_trans)
    next
      case f: False
      then show ?thesis using am False d t next' [of False w] next' [of False w0] evolves_refl [OF Suc.prems(1)] by (auto simp: Let_def)
    qed
  qed
qed

lemma salvage_modes_evolves:
  "ctl_inv c \<Longrightarrow> \<exists>c' w'. salvage_modes ops best k i c w = Some (c', w') \<and> evolves c c'"
proof (induction k arbitrary: i c w)
  case 0
  then show ?case by (simp add: evolves_refl)
next
  case (Suc k)
  let ?a = "fst (c_replicas c ! i)"
  have "(if ?a \<noteq> best then ERR else RW) \<noteq> WO" by simp
  then obtain c1 w1 where s: "setReplicaModeNoLock ops c ?a (if ?a \<noteq> best then ERR else RW) w = Some (c1, w1)" "evolves c c1"
    using setReplicaModeNoLock_evolves [OF Suc.prems, of "if ?a \<noteq> best then ERR else RW" ops ?a w] by blast
  obtain c' w' where "salvage_modes ops best k (Suc i) c1 w1 = Some (c', w')" "evolves c1 c'"
    using Suc.IH s(2) by blast
  then show ?case using s by (auto simp: Let_def intro: evolves_trans)
qed

lemma conflict_loop_evolves:
  "ctl_inv c \<Longrightarrow> \<exists>c' w'. conflict_loop ops expected m c w = Some (c', w') \<and> evolves c c'"
proof (induction m arbitrary: c w)
  case Nil
  then show ?case by (simp add: evolves_refl)
next
  case (Cons x m)
  obtain a n where x: "x = (a, n)" by (cases x)
  obtain c1 w1 where s: "setReplicaModeNoLock ops c a ERR w = Some (c1, w1)" "evolves c c1"
    using setReplicaModeNoLock_evolves [OF Cons.prems, of ERR ops a w] by auto
  obtain c' w' where "conflict_loop ops expected m c1 w1 = Some (c', w')" "evolves c1 c'"
    using Cons.IH s(2) by blast
  then show ?case using Cons x s by (auto intro: evolves_trans)
qed

lemma counters_loop_total:
  assumes "ctl_inv c"
  shows "(\<And>a mo. (a, mo) \<in> set rs \<Longrightarrow> map_of (c_replicas c) a = Some mo) \<Longrightarrow> counters_loop ops c w rs ex m \<noteq> None"
proof (induction rs arbitrary: ex m)
  case (Cons x rs)
  obtain a mo where x: "x = (a, mo)" by (cases x)
  have IH: "counters_loop ops c w rs ex m \<noteq> None" for ex m using Cons by simp
  show ?case
  proof (cases "mo = ERR")
    case False
    have "map_of (c_replicas c) a = Some mo" using Cons.prems x by simp
    then obtain h where "backend_of c a = Some h" using backend_of_Some [OF assms _ False] by blast
    then obtain n e where "rep_GetRevisionCounter ops (c_backend c) a w = Some (n, e)"
      using rep_queries_total(1) [of c a h ops w] by blast
    then show ?thesis using IH x by (cases e) auto
  qed (use IH x in simp)
qed simp

lemma candidates_loop_total:
  assumes "ctl_inv c"
  shows "(\<And>a mo. (a, mo) \<in> set rs \<Longrightarrow> map_of (c_replicas c) a = Some mo) \<Longrightarrow> candidates_loop ops c w rs cands latest \<noteq> None"
proof (induction rs arbitrary: cands latest)
  case (Cons x rs)
  obtain a mo where x: "x = (a, mo)" by (cases x)
  have IH: "candidates_loop ops c w rs cands latest \<noteq> None" for cands latest using Cons by simp
  show ?case
  proof (cases "mo = ERR")
    case False
    have "map_of (c_replicas c) a = Some mo" using Cons.prems x by simp
    then obtain h where "backend_of c a = Some h" using backend_of_Some [OF assms _ False] by blast
    then show ?thesis using IH x False by (auto split: prod.splits option.splits)
  qed (use IH x in simp)
qed simp

lemma replicas_map_of: "ctl_inv c \<Longrightarrow> (a, mo) \<in> set (c_replicas c) \<Longrightarrow> map_of (c_replicas c) a = Some mo"
  by (simp add: ctl_invD(1) map_of_eq_Some_iff)

end
