(* ===== verification/Controller_Step.thy ===== *)
theory Controller_Step
  imports Controller_Inv
begin

text \<open>
  The controller as a state machine: adding and removing replicas, starting, stopping, the data
  path, and the step relation over the locked sections of all operations with its invariant.
\<close>

section \<open>Checks\<close>

lemma checkUnmapMark_evolves:
  assumes "ctl_inv c"
  obtains err c' w' where "checkUnmapMarkSnapChainRemoved ops c w = Some (err, c', w')" "evolves c c'"
proof -
  obtain err af c' w' where "unmap_mark_loop ops (length (c_replicas c)) 0 True c w = Some (err, af, c', w')" "evolves c c'"
    using unmap_mark_loop_evolves [OF assms, of 0 "length (c_replicas c)" ops True w] by auto
  then show ?thesis using that by (simp add: checkUnmapMarkSnapChainRemoved_def)
qed

lemma checkMatch_evolves:
  assumes "ctl_inv c"
  obtains err c' w' where "checkReplicaRevCounterSettingMatch ops c w = Some (err, c', w')" "evolves c c'"
  using match_loop_evolves [OF assms, of 0 "length (c_replicas c)" ops w]
  by (auto simp: checkReplicaRevCounterSettingMatch_def)

lemma salvage_evolves:
  assumes "ctl_inv c"
  obtains err c' w' where "salvageRevisionCounterDisabledReplicas ops c w = Some (err, c', w')" "evolves c c'"
proof -
  obtain res where res: "candidates_loop ops c w (c_replicas c) [] None = Some res"
    using candidates_loop_total [OF assms, of "c_replicas c" ops w "[]" None] replicas_map_of [OF assms] by blast
  have "\<exists>err c' w'. salvageRevisionCounterDisabledReplicas ops c w = Some (err, c', w') \<and> evolves c c'"
  proof (cases "\<exists>cands latest best. res = Inr (cands, latest) \<and> cands \<noteq> [] \<and> best_loop latest cands None = Some best")
    case True
    then obtain cands latest best where b: "res = Inr (cands, latest)" "cands \<noteq> []" "best_loop latest cands None = Some best"
      by blast
    obtain c' w' where "salvage_modes ops (si_Address best) (length (c_replicas c)) 0 c w = Some (c', w')" "evolves c c'"
      using salvage_modes_evolves [OF assms, of ops "si_Address best" "length (c_replicas c)" 0 w] by blast
    then show ?thesis using b res by (simp add: salvageRevisionCounterDisabledReplicas_def)
  next
    case False
    then show ?thesis using res evolves_refl [OF assms]
      by (auto simp: salvageRevisionCounterDisabledReplicas_def split: sum.split prod.split option.split)
  qed
  then show ?thesis using that by blast
qed

lemma checkCounters_evolves:
  assumes "ctl_inv c"
  obtains err c' w' where "checkReplicasRevisionCounter ops c w = Some (err, c', w')" "evolves c c'"
proof -
  obtain res where res: "counters_loop ops c w (c_replicas c) 0 [] = Some res"
    using counters_loop_total [OF assms, of "c_replicas c" ops w 0 "[]"] replicas_map_of [OF assms] by blast
  show ?thesis
  proof (cases res)
    case (Inl e)
    then show ?thesis using that res evolves_refl [OF assms] by (simp add: checkReplicasRevisionCounter_def)
  next
    case (Inr x)
    obtain expected m where x: "x = (expected, m)" by (cases x)
    obtain c' w' where "conflict_loop ops expected m c w = Some (c', w')" "evolves c c'"
      using conflict_loop_evolves [OF assms, of ops expected m w] by blast
    then show ?thesis using that res Inr x by (simp add: checkReplicasRevisionCounter_def)
  qed
qed

lemma start_checks_evolves:
  assumes "ctl_inv c"
  shows "\<exists>err c' w'. start_checks E c w = Some (err, c', w') \<and> evolves c c'"
proof -
  obtain e1 c1 w1 where 1: "checkUnmapMarkSnapChainRemoved (bops E) c w = Some (e1, c1, w1)" "evolves c c1"
    using checkUnmapMark_evolves [OF assms] .
  obtain e2 c2 w2 where 2: "checkReplicaRevCounterSettingMatch (bops E) c1 w1 = Some (e2, c2, w2)" "evolves c1 c2"
    using checkMatch_evolves [OF evolves_inv [OF 1(2)]] .
  obtain e3 c3 w3 where 3: "salvageRevisionCounterDisabledReplicas (bops E) c2 w2 = Some (e3, c3, w3)" "evolves c2 c3"
    using salvage_evolves [OF evolves_inv [OF 2(2)]] .
  obtain e4 c4 w4 where 4: "checkReplicasRevisionCounter (bops E) c2 w2 = Some (e4, c4, w4)" "evolves c2 c4"
    using checkCounters_evolves [OF evolves_inv [OF 2(2)]] .
  have "evolves c c2" "evolves c c3" "evolves c c4" using 1 2 3 4 by (meson evolves_trans)+
  then show ?thesis using 1 2(1) 3(1) 4(1) by (auto simp: start_checks_def split: prod.split)
qed

lemma max_count_loop_total:
  assumes "ctl_inv c"
  shows "(\<And>a mo. (a, mo) \<in> set rs \<Longrightarrow> map_of (c_replicas c) a = Some mo) \<Longrightarrow>
    max_count_loop ops c k rs w \<noteq> None \<and> max_size_loop ops c k rs w \<noteq> None"
proof (induction rs arbitrary: w)
  case (Cons x rs)
  obtain a mo where x: "x = (a, mo)" by (cases x)
  have IH: "max_count_loop ops c k rs w \<noteq> None \<and> max_size_loop ops c k rs w \<noteq> None" for w using Cons by simp
  show ?case
  proof (cases "mo = ERR")
    case False
    have "map_of (c_replicas c) a = Some mo" using Cons.prems x by simp
    then obtain h where h: "backend_of c a = Some h" using backend_of_Some [OF assms _ False] by blast
    obtain e1 w1 where 1: "rep_SetSnapshotMaxCount ops (c_backend c) a k w = Some (e1, w1)"
      using rep_queries_total(5) [OF h, of ops k w] by blast
    obtain e2 w2 where 2: "rep_SetSnapshotMaxSize ops (c_backend c) a k w = Some (e2, w2)"
      using rep_queries_total(6) [OF h, of ops k w] by blast
    show ?thesis using IH [of w1] IH [of w2] 1 2 x False by (auto split: option.split)
  qed (use IH x in simp)
qed simp

lemma SetSnapshotMax_evolves:
  assumes "ctl_inv c"
  shows "\<exists>err c' w'. SetSnapshotMaxCount ops c k w = Some (err, c', w') \<and> evolves c c'"
    "\<exists>err c' w'. SetSnapshotMaxSize ops c k w = Some (err, c', w') \<and> evolves c c'"
proof -
  obtain x y z where u: "rep_GetSnapshotCountAndSizeUsage ops (c_backend c) w = Some (x, y, z)"
    using rep_GetUsage_total [OF ctl_invD(2) [OF assms], of ops w] by blast
  let ?c = "c\<lparr>snapshotMaxCount := k\<rparr>" and ?d = "c\<lparr>snapshotMaxSize := k\<rparr>"
  have i: "ctl_inv ?c" "ctl_inv ?d" using assms by simp_all
  obtain r1 where 1: "max_count_loop ops ?c k (c_replicas c) w = Some r1"
    using max_count_loop_total [OF i(1), of "c_replicas c" ops k w] replicas_map_of [OF assms] by auto
  obtain r2 where 2: "max_size_loop ops ?d k (c_replicas c) w = Some r2"
    using max_count_loop_total [OF i(2), of "c_replicas c" ops k w] replicas_map_of [OF assms] by auto
  have e: "evolves c ?c" "evolves c ?d" using evolves_refl i by fastforce+
  show "\<exists>err c' w'. SetSnapshotMaxCount ops c k w = Some (err, c', w') \<and> evolves c c'"
    using u 1 e evolves_refl [OF assms] by (cases r1) (auto simp: SetSnapshotMaxCount_def)
  show "\<exists>err c' w'. SetSnapshotMaxSize ops c k w = Some (err, c', w') \<and> evolves c c'"
    using u 2 e evolves_refl [OF assms] by (cases r2) (auto simp: SetSnapshotMaxSize_def)
qed


section \<open>Rebuild\<close>

lemma current_rw_loop_mem:
  assumes "current_rw_loop a rs cur rw = (cur', rw')"
  shows "cur' = cur \<or> (\<exists>m. cur' = Some (a, m) \<and> (a, m) \<in> set rs)"
    "rw' = rw \<or> (\<exists>b. b \<noteq> a \<and> rw' = Some (b, RW) \<and> (b, RW) \<in> set rs)"
  using assms by (induction a rs cur rw rule: current_rw_loop.induct) (auto split: if_splits)

lemma getCurrentAndRWReplica_mem:
  assumes "getCurrentAndRWReplica c a = Inr (cur, rw)"
  shows "fst cur = a" "cur \<in> set (c_replicas c)" "snd rw = RW" "fst rw \<noteq> a" "rw \<in> set (c_replicas c)"
  using assms current_rw_loop_mem [of a "c_replicas c" None None]
  by (fastforce simp: getCurrentAndRWReplica_def split: prod.splits option.splits)+

lemma copy_revision_counter_total:
  assumes "backend_of c b = Some h" "backend_of c a = Some h'"
  shows "\<exists>ok err w'. copy_revision_counter ops c b a w = Some (ok, err, w')"
proof -
  obtain n e where 1: "rep_GetRevisionCounter ops (c_backend c) b w = Some (n, e)"
    using rep_queries_total(1) [OF assms(1), of ops w] by blast
  obtain e' w' where "rep_SetRevisionCounter ops (c_backend c) a n w = Some (e', w')"
    using rep_queries_total(2) [OF assms(2), of ops n w] by blast
  then show ?thesis using 1 by (auto simp: copy_revision_counter_def)
qed

lemma VerifyRebuild_evolves:
  assumes inv: "ctl_inv c"
  shows "\<exists>err c' w'. VerifyRebuildReplica ops R c a i w = Some (err, c', w') \<and> evolves c c'"
proof (cases "getCurrentAndRWReplica c a")
  case (Inl e)
  then show ?thesis using evolves_refl [OF inv] by (simp add: VerifyRebuildReplica_def)
next
  case (Inr x)
  obtain a' mo b m where x: "x = ((a', mo), (b, m))" by (metis prod.exhaust_sel)
  note mem = getCurrentAndRWReplica_mem [OF Inr [unfolded x], simplified]
  show ?thesis
  proof (cases "mo = WO")
    case False
    then show ?thesis using Inr x evolves_refl [OF inv] by (simp add: VerifyRebuildReplica_def)
  next
    case True
    obtain h where h: "backend_of c b = Some h"
      using backend_of_Some [OF inv replicas_map_of [OF inv mem(5)]] mem(3) by auto
    obtain h' where h': "backend_of c a = Some h'"
      using backend_of_Some [OF inv replicas_map_of [OF inv mem(2)]] mem(1) True by auto
    have set: "\<exists>c' w'. setReplicaModeNoLock ops c a RW w = Some (c', w') \<and> evolves c c'" for w
      using setReplicaModeNoLock_evolves [OF inv, of RW ops a w] by (metis mode.distinct(1))
    obtain ok e w1 where cp: "(if \<not> revisionCounterDisabled c then copy_revision_counter ops c b a w else Some (True, None, w)) =
        Some (ok, e, w1)"
      using copy_revision_counter_total [OF h h', of ops w] by (cases "revisionCounterDisabled c") auto
    then show ?thesis using Inr x True set [of w1] evolves_refl [OF inv]
      by (auto simp: VerifyRebuildReplica_def split: sum.split)
  qed
qed

section \<open>Removing a replica\<close>

lemma remove_loop_none:
  "(\<And>j. j < k \<Longrightarrow> fst (arr ! (i + j)) \<noteq> a) \<Longrightarrow> remove_loop E a fe k i arr len r w = (None, take len arr, r, w)"
proof (induction k arbitrary: i)
  case (Suc k)
  have "fst (arr ! (Suc i + j)) \<noteq> a" if "j < k" for j using Suc.prems [of "Suc j"] that by simp
  then show ?case using Suc.IH [of "Suc i"] Suc.prems [of 0] by simp
qed simp

lemma remove_loop_skip:
  "(\<And>j. j < d \<Longrightarrow> fst (arr ! (i + j)) \<noteq> a) \<Longrightarrow>
     remove_loop E a fe (d + k) i arr len r w = remove_loop E a fe k (i + d) arr len r w"
proof (induction d arbitrary: i)
  case (Suc d)
  have "fst (arr ! (Suc i + j)) \<noteq> a" if "j < d" for j using Suc.prems [of "Suc j"] that by simp
  then show ?case using Suc.IH [of "Suc i"] Suc.prems [of 0] by simp
qed simp

lemma filter_fst_split:
  assumes "distinct (map fst rs)" "i < length rs" "fst (rs ! i) = a"
  shows "filter (\<lambda>(b, m). b \<noteq> a) rs = take i rs @ drop (Suc i) rs"
proof -
  have split: "rs = take i rs @ rs ! i # drop (Suc i) rs" using assms(2) by (simp add: id_take_nth_drop)
  have "distinct (map fst (take i rs) @ a # map fst (drop (Suc i) rs))"
    using assms(1,3) arg_cong [OF split, of "map fst"] by simp
  then have "a \<notin> fst ` set (take i rs)" "a \<notin> fst ` set (drop (Suc i) rs)" by auto
  then have "filter (\<lambda>(b, m). b \<noteq> a) (take i rs) = take i rs" "filter (\<lambda>(b, m). b \<noteq> a) (drop (Suc i) rs) = drop (Suc i) rs"
    by (force simp: filter_id_conv)+
  then show ?thesis using assms(3) split by (metis (mono_tags, lifting) case_prod_beta filter.simps(2) filter_append)
qed

text \<open>
  RemoveReplica removes exactly the replica of the address, although it deletes from the slice it
  ranges over; the last replica stays while the frontend is up.
\<close>

lemma RemoveReplica_eq:
  assumes "distinct (map fst (c_replicas c))"
  shows "RemoveReplica E c a w =
    (if \<not> hasReplica c a then (None, c, w)
     else if length (c_replicas c) = 1 \<and> FrontendState E c w = ''up''
     then (Some (Errorf ''cannot remove last replica if volume is up''), c, w)
     else let (r, w') = RemoveBackend (bops E) a (c_backend c) w
          in (None, c\<lparr>c_replicas := filter (\<lambda>(b, m). b \<noteq> a) (c_replicas c), c_backend := r\<rparr>, w'))"
proof (cases "hasReplica c a")
  case True
  let ?rs = "c_replicas c" and ?fe = "c_frontend c"
  let ?n = "length ?rs"
  obtain i where i: "i < ?n" "fst (?rs ! i) = a"
    using True by (auto simp: hasReplica_iff in_set_conv_nth)
  have other: "fst (?rs ! j) \<noteq> a" if "j < ?n" "j \<noteq> i" for j
    using nth_eq_iff_index_eq [OF assms, of j i] that i by simp
  have skip: "remove_loop E a ?fe ?n 0 ?rs ?n r w = remove_loop E a ?fe (?n - i) i ?rs ?n r w" for r
    using remove_loop_skip [of i ?rs 0 a E ?fe "?n - i" ?n r w] other i(1) by simp
  obtain k where k: "?n - i = Suc k" using i(1) by (cases "?n - i") auto
  have up: "(?fe \<noteq> None \<and> fe_State E (the ?fe) w = ''up'') = (FrontendState E c w = ''up'')"
    by (cases ?fe) (simp_all add: FrontendState_def)
  let ?arr = "take i ?rs @ drop (Suc i) ?rs @ drop (?n - 1) ?rs"
  have none: "fst (?arr ! (Suc i + j)) \<noteq> a" if "j < k" for j
  proof (cases "Suc i + j < ?n - 1")
    case True
    then have "?arr ! (Suc i + j) = ?rs ! (Suc (Suc i) + j)" using i(1) by (auto simp: nth_append)
    then show ?thesis using other [of "Suc (Suc i) + j"] True by simp
  next
    case False
    then have "Suc i + j = ?n - 1" using that k by simp
    then have "?arr ! (Suc i + j) = ?rs ! (?n - 1)" using i(1) by (simp add: nth_append)
    then show ?thesis using other [of "?n - 1"] that k i(1) by simp
  qed
  have take: "take (?n - Suc 0) ?arr = filter (\<lambda>(b, m). b \<noteq> a) ?rs"
    using filter_fst_split [OF assms i] i(1) by simp
  show ?thesis
    using True skip k i(2) up remove_loop_none [of k ?arr "Suc i" a E ?fe "?n - Suc 0"] none take
    by (auto simp: RemoveReplica_def Let_def split: prod.splits)
qed (simp add: RemoveReplica_def)

lemma map_of_filter_fst: "map_of (filter (\<lambda>(b, m). b \<noteq> a) rs) x = (if x = a then None else map_of rs x)"
  by (induction rs) auto

lemma backends_RemoveBackend:
  "map_of (backends (fst (RemoveBackend ops a r w))) x = (if x = a then None else map_of (backends r) x)"
  by (cases "map_of (backends r) a") (auto simp: RemoveBackend_def Let_def build_built(2) delete_conv)

lemma wo_count_filter: "wo_count (filter P rs) \<le> wo_count rs"
  by (induction rs) auto

lemma RemoveReplica_inv:
  assumes "ctl_inv c" "RemoveReplica E c a w = (err, c', w')"
  shows "ctl_inv c'"
proof -
  obtain r w1 where rb: "RemoveBackend (bops E) a (c_backend c) w = (r, w1)" by (cases "RemoveBackend (bops E) a (c_backend c) w")
  let ?c = "c\<lparr>c_replicas := filter (\<lambda>(b, m). b \<noteq> a) (c_replicas c), c_backend := r\<rparr>"
  have "rep_inv r" using RemoveBackend_inv [OF ctl_invD(2) [OF assms(1)], of "bops E" a w] rb by simp
  moreover have "wo_count (filter (\<lambda>(b, m). b \<noteq> a) (c_replicas c)) \<le> 1"
    using wo_count_filter [of "\<lambda>(b, m). b \<noteq> a" "c_replicas c"] ctl_invD(3) [OF assms(1)] by linarith
  moreover have "modes_agree ?c"
    using backends_RemoveBackend [of "bops E" a "c_backend c" w] rb ctl_invD(4) [OF assms(1)]
    by (auto simp: modes_agree_def map_of_filter_fst)
  ultimately have "ctl_inv ?c" using ctl_invD(1) [OF assms(1)] by (simp add: ctl_inv_def distinct_map_filter)
  then show ?thesis
    using assms rb RemoveReplica_eq [OF ctl_invD(1) [OF assms(1)], of E a w] by (auto split: if_splits)
qed

section \<open>Adding replicas\<close>

text \<open>A replica that is in mode ERR and is still there afterwards is still in mode ERR.\<close>

definition err_sticky :: "('b, 'f) controller \<Rightarrow> ('b, 'f) controller \<Rightarrow> bool" where
  "err_sticky c c' \<longleftrightarrow> (\<forall>a m. map_of (c_replicas c) a = Some ERR \<longrightarrow> map_of (c_replicas c') a = Some m \<longrightarrow> m = ERR)"

lemma err_sticky_refl [simp]: "err_sticky c c"
  by (simp add: err_sticky_def)

lemma evolves_err_sticky: "evolves c c' \<Longrightarrow> err_sticky c c'"
  by (fastforce simp: err_sticky_def mode_step_def dest: evolves_map_of)

lemma canAdd_iff: "fst (canAdd c a) \<longleftrightarrow> \<not> hasReplica c a \<and> \<not> hasWOReplica c \<and> \<not> isExpanding c"
  by (simp add: canAdd_def)

definition added :: "('b, 'f) controller \<Rightarrow> 'b option \<Rightarrow> string \<Rightarrow> mode \<Rightarrow> ('b, 'f) controller" where
  "added c nb a mo = c\<lparr>c_replicas := c_replicas c @ [(a, mo)], c_backend := AddBackend a nb mo (c_backend c)\<rparr>"

lemma added_inv:
  assumes "ctl_inv c" "fst (canAdd c a)" "mo \<noteq> ERR \<longrightarrow> nb \<noteq> None"
  shows "ctl_inv (added c nb a mo)"
proof -
  have new: "a \<notin> fst ` set (c_replicas c)" and wo: "wo_count (c_replicas c) = 0"
    using assms(2) by (auto simp: canAdd_iff hasReplica_iff hasWOReplica_iff)
  then have none: "map_of (c_replicas c) a = None" by (simp add: map_of_eq_None_iff)
  then have nb: "map_of (backends (c_backend c)) a = None"
    using ctl_invD(4) [OF assms(1), of a] by simp
  have "map_of (c_replicas c @ [(a, mo)]) x = map_option bw_mode (map_of (backends (AddBackend a nb mo (c_backend c))) x)" for x
    using ctl_invD(4) [OF assms(1), of x] nb none
    by (auto simp: AddBackend_def build_built(2) map_add_Some_iff map_add_def split: option.split)
  then show ?thesis
    using new wo AddBackend_inv [OF ctl_invD(2) [OF assms(1)] assms(3)] ctl_invD(1) [OF assms(1)]
    by (auto simp: added_def ctl_inv_def modes_agree_def)
qed

lemma added_sticky:
  assumes "fst (canAdd c a)"
  shows "err_sticky c (added c nb a mo)"
proof -
  have "map_of (c_replicas c) a = None" using assms by (simp add: canAdd_iff hasReplica_iff map_of_eq_None_iff)
  then show ?thesis by (auto simp: err_sticky_def added_def map_add_def split: option.splits)
qed

lemma snapshot_for_add_total:
  assumes "ctl_inv c"
  shows "\<exists>err w'. snapshot_for_add E c (Some h) w = Some (err, w')"
proof -
  obtain e where e: "canDoSnapshot (bops E) c w = Some e" using canDoSnapshot_total [OF assms, of "bops E" w] by blast
  obtain err w1 where s: "rep_Snapshot (bops E) (c_backend c) (env_UUID E w) False (env_now E w) [] w = Some (err, w1)"
    using rep_Snapshot_total [OF ctl_invD(2) [OF assms], of "bops E" "env_UUID E w" False "env_now E w" "[]" w] by blast
  show ?thesis using e s
    by (cases "be_Snapshot (bops E) h (env_UUID E w) False (env_now E w) [] w") (auto simp: snapshot_for_add_def Let_def)
qed

text \<open>Either the replica was added, or the controller is as before.\<close>

lemma addReplicaNoLock_cases:
  assumes "ctl_inv c" "mo \<noteq> ERR \<longrightarrow> nb \<noteq> None"
  obtains err c' w' where "addReplicaNoLock E c nb a sn mo w = Some (err, c', w')"
    "c' = c \<or> c' = added c nb a mo \<and> fst (canAdd c a) \<and> err = None"
proof (cases "fst (canAdd c a)")
  case False
  then show ?thesis using that by (cases "canAdd c a") (simp add: addReplicaNoLock_def)
next
  case True
  have "\<exists>err w'. (if sn \<and> mo \<noteq> ERR then snapshot_for_add E c nb w else Some (None, w)) = Some (err, w')"
  proof (cases "sn \<and> mo \<noteq> ERR")
    case True
    then obtain h where "nb = Some h" using assms(2) by auto
    then show ?thesis using snapshot_for_add_total [OF assms(1), of E h w] True by simp
  qed auto
  then obtain err w1 where s: "(if sn \<and> mo \<noteq> ERR then snapshot_for_add E c nb w else Some (None, w)) = Some (err, w1)"
    by blast
  show ?thesis
  proof (cases err)
    case None
    then show ?thesis using that [of None "added c nb a mo" w1] True s
      by (cases "canAdd c a") (simp add: addReplicaNoLock_def added_def)
  next
    case (Some e)
    then show ?thesis using that [of "Some e" c] True s by (cases "canAdd c a") (simp add: addReplicaNoLock_def)
  qed
qed

lemma addReplica_inv:
  assumes "ctl_inv c"
  shows "\<exists>err c' w'. addReplica E c a sn mo w = Some (err, c', w') \<and> ctl_inv c' \<and> err_sticky c c'"
proof (cases "fst (canAdd c a)")
  case False
  then show ?thesis using assms by (cases "canAdd c a") (simp add: addReplica_def)
next
  case True
  obtain res w1 where f: "factory_Create E a w = (res, w1)" by (cases "factory_Create E a w")
  show ?thesis
  proof (cases res)
    case (Inl e)
    then show ?thesis using True f assms by (cases "canAdd c a") (simp add: addReplica_def)
  next
    case (Inr nb)
    obtain sz e where z: "be_Size (bops E) nb w1 = (sz, e)" by (cases "be_Size (bops E) nb w1")
    let ?c = "if c_size c = 0 \<and> c_replicas c = [] then c\<lparr>c_size := sz\<rparr> else c"
    have inv: "ctl_inv ?c" using assms by simp
    have sticky: "err_sticky c d" if "err_sticky ?c d" for d using that by (auto simp: err_sticky_def split: if_splits)
    obtain err c' w' where a: "addReplicaNoLock E ?c (Some nb) a sn mo w1 = Some (err, c', w')"
      "c' = ?c \<or> c' = added ?c (Some nb) a mo \<and> fst (canAdd ?c a) \<and> err = None"
      using addReplicaNoLock_cases [OF inv, of mo "Some nb" E a sn w1] by auto
    have "ctl_inv c' \<and> err_sticky c c'"
      using a(2) inv added_inv [OF inv, of a mo "Some nb"] added_sticky [of ?c a "Some nb" mo] sticky err_sticky_refl by blast
    then show ?thesis using True f Inr z a(1) assms by (cases "canAdd c a"; cases e) (auto simp: addReplica_def Let_def)
  qed
qed

section \<open>Starting and stopping\<close>

lemma add_loop_inv:
  "ctl_inv c \<Longrightarrow> \<exists>err c' w'. add_loop E avail as c w = Some (err, c', w') \<and> ctl_inv c'"
proof (induction as arbitrary: c w)
  case (Cons a as)
  let ?nb = "map_of avail a" and ?mo = "if map_of avail a = None then ERR else RW"
  obtain err c1 w1 where a: "addReplicaNoLock E c ?nb a False ?mo w = Some (err, c1, w1)"
    "c1 = c \<or> c1 = added c ?nb a ?mo \<and> fst (canAdd c a) \<and> err = None"
    using addReplicaNoLock_cases [OF Cons.prems, of ?mo ?nb E a False w] by (metis)
  then have inv: "ctl_inv c1" using Cons.prems added_inv [OF Cons.prems, of a ?mo ?nb] by auto
  have eq: "(case map_of avail a of Some b \<Rightarrow> addReplicaNoLock E c (Some b) a False RW w
      | None \<Rightarrow> addReplicaNoLock E c None a False ERR w) = Some (err, c1, w1)"
    using a(1) by (cases "map_of avail a") simp_all
  show ?case using eq Cons.IH [OF inv, of w1] inv by (cases err) auto
qed simp

lemma ctl_Start_inv:
  assumes "ctl_inv c"
  shows "\<exists>err c' w'. ctl_Start E c vs vcs as w = Some (err, c', w') \<and> ctl_inv c' \<and> err_sticky c c'"
proof (cases "as = [] \<or> checkDuplicateAddress as \<noteq> None \<or> c_replicas c \<noteq> []")
  case True
  then show ?thesis using assms by (auto simp: ctl_Start_def split: option.split)
next
  case False
  obtain sector avail sizes codes w1 where p:
    "probe_loop E (length as = 1) as True (c_sectorSize (c_reset c)) [] [] [] w = (sector, avail, sizes, codes, w1)"
    by (metis prod_cases5)
  let ?c = "(c_reset c)\<lparr>c_sectorSize := sector, c_size := determineCorrectVolumeSize vs vcs sizes\<rparr>"
  let ?av = "size_matches (bops E) (c_size ?c) w1 avail"
  obtain err c1 w2 where a: "add_loop E ?av as ?c w1 = Some (err, c1, w2)" "ctl_inv c1"
    using add_loop_inv [of ?c E ?av as w1] by auto
  obtain err' c2 w3 where s: "start_checks E c1 w2 = Some (err', c2, w3)" "evolves c1 c2"
    using start_checks_evolves [OF a(2), of E w2] by blast
  have sticky: "err_sticky c d" for d using False by (simp add: err_sticky_def)
  have "\<exists>err c' w'. ctl_Start E c vs vcs as w = Some (err, c', w') \<and> ctl_inv c'"
    using False p a s by (auto simp: ctl_Start_def Let_def)
  then show ?thesis using sticky by blast
qed

lemma shutdownBackend_inv:
  assumes "ctl_inv c"
  shows "\<exists>err c' w'. shutdownBackend ops c w = Some (err, c', w') \<and> ctl_inv c' \<and> c_replicas c' = []"
  using close_loop_total [OF rep_inv_handled [OF ctl_invD(2) [OF assms]], of ops None w]
  by (auto simp: shutdownBackend_def rep_Close_def) (simp add: c_reset_def)

section \<open>Data path\<close>

text \<open>A schedule of the fan-out: every goroutine takes effect exactly once.\<close>

definition schedule :: "'b replicator \<Rightarrow> nat list \<Rightarrow> bool" where
  "schedule r sched \<longleftrightarrow> distinct sched \<and> set sched = {..< length (active (backends r))}"

lemma multi_write_run_total:
  "(\<forall>i \<in> set sched. writers ! i \<noteq> None) \<Longrightarrow> multi_write_run ops writers p off sched errs w \<noteq> None"
  by (induction ops writers p off sched errs w rule: multi_write_run.induct) (auto split: option.split prod.split)

lemma multi_unmap_run_total:
  "(\<forall>i \<in> set sched. us ! i \<noteq> None) \<Longrightarrow> multi_unmap_run ops us len off sched errs n w \<noteq> None"
  by (induction ops us len off sched errs n w rule: multi_unmap_run.induct) (auto split: option.split prod.split)

lemma available_built:
  assumes "rep_inv r" "backendsAvailable r"
  shows "built r"
proof -
  have "backends r \<noteq> []" using assms by (auto simp: rep_inv_def)
  then show ?thesis using rep_invD(3) [OF assms(1)] by simp
qed

lemma handle_active:
  assumes "rep_inv r" "i < length (active (backends r))"
  shows "handles (active (backends r)) ! i \<noteq> None"
proof -
  obtain a b where ab: "active (backends r) ! i = (a, b)" by (cases "active (backends r) ! i")
  then have "(a, b) \<in> set (active (backends r))" using assms(2) by (metis nth_mem)
  then have "bw_backend b \<noteq> None" using rep_invD(2) [OF assms(1)] by (auto simp: active_def)
  then show ?thesis using ab assms(2) by simp
qed

lemma handle_readable:
  assumes "rep_inv r" "i < length (readable (backends r))"
  shows "handles (readable (backends r)) ! i \<noteq> None"
proof -
  obtain a b where ab: "readable (backends r) ! i = (a, b)" by (cases "readable (backends r) ! i")
  then have "(a, b) \<in> set (readable (backends r))" using assms(2) by (metis nth_mem)
  then have "bw_backend b \<noteq> None" using rep_invD(2) [OF assms(1)] by (auto simp: readable_def)
  then show ?thesis using ab assms(2) by simp
qed

lemma rep_WriteAt_total:
  assumes "rep_inv r" "schedule r sched"
  shows "rep_WriteAt ops sched r p off w \<noteq> None"
proof (cases "backendsAvailable r")
  case True
  then have "writer r = Some (handles (active (backends r)))"
    using available_built [OF assms(1)] by (simp add: built_def)
  moreover have "\<forall>i \<in> set sched. handles (active (backends r)) ! i \<noteq> None"
    using handle_active [OF assms(1)] assms(2) by (simp add: schedule_def)
  moreover obtain errs w' where
    "multi_write_run ops (handles (active (backends r))) p off sched (map (\<lambda>_. None) (handles (active (backends r)))) w = Some (errs, w')"
    using multi_write_run_total calculation(2) by fast
  ultimately show ?thesis using True by (simp add: rep_WriteAt_def MultiWriterAt_WriteAt_def)
qed (simp add: rep_WriteAt_def)

lemma rep_UnmapAt_total:
  assumes "rep_inv r" "schedule r sched"
  shows "rep_UnmapAt ops sched r len off w \<noteq> None"
proof (cases "backendsAvailable r")
  case True
  then have "unmapper r = Some (handles (active (backends r)))"
    using available_built [OF assms(1)] by (simp add: built_def)
  moreover have "\<forall>i \<in> set sched. handles (active (backends r)) ! i \<noteq> None"
    using handle_active [OF assms(1)] assms(2) by (simp add: schedule_def)
  moreover obtain errs n w' where
    "multi_unmap_run ops (handles (active (backends r))) len off sched (map (\<lambda>_. None) (handles (active (backends r)))) 0 w =
       Some (errs, n, w')"
    using multi_unmap_run_total calculation(2) by (metis not_None_eq prod_cases3)
  ultimately show ?thesis using True by (simp add: rep_UnmapAt_def MultiUnmapperAt_UnmapAt_def)
qed (simp add: rep_UnmapAt_def)

lemma read_loop_total:
  assumes "\<And>i. i < length (readers r) \<Longrightarrow> readers r ! i \<noteq> None"
  shows "ix < length (readers r) \<Longrightarrow> read_loop ops r off w k ix buf n errs \<noteq> None"
proof (induction k arbitrary: ix buf n errs)
  case (Suc k)
  obtain h where h: "readers r ! ix = Some h" using assms [OF Suc.prems] by blast
  have "(ix + 1) mod length (readers r) < length (readers r)" using Suc.prems by (intro mod_less_divisor) linarith
  then show ?case using Suc.IH h by (auto split: prod.split option.split)
qed simp

lemma next_reader_less: "0 < n \<Longrightarrow> nat (i smod int n) < n"
  using smod_int_range [of "int n" i] by auto

lemma rep_ReadAt_total:
  assumes "rep_inv r"
  shows "\<exists>n err b k. rep_ReadAt ops r buf off w = Some (n, err, b, r\<lparr>r_next := k\<rparr>)"
proof (cases "backendsAvailable r")
  case True
  then have rd: "readers r = handles (readable (backends r))" "readable (backends r) \<noteq> []"
    using available_built [OF assms] by (auto simp: built_def)
  let ?r = "r\<lparr>r_next := (r_next r + 1) smod int (length (readers r))\<rparr>"
  have "readers ?r ! i \<noteq> None" if "i < length (readers ?r)" for i
    using handle_readable [OF assms, of i] that rd(1) by simp
  moreover have "nat (r_next ?r) < length (readers ?r)" using next_reader_less rd by simp
  ultimately obtain x where "read_loop ops ?r off w (length (readers ?r)) (nat (r_next ?r)) buf 0 [] = Some x"
    using read_loop_total [of ?r "nat (r_next ?r)" ops off w "length (readers ?r)" buf 0 "[]"] by blast
  then show ?thesis using True rd by (cases x) (auto simp: rep_ReadAt_def Let_def)
next
  case False
  then show ?thesis by (intro exI [of _ 0] exI [of _ "Some ErrNoBackend"] exI [of _ buf] exI [of _ "r_next r"])
      (simp add: rep_ReadAt_def)
qed

lemma rep_inv_next [simp]: "rep_inv (r\<lparr>r_next := k\<rparr>) = rep_inv r"
  by (simp add: rep_inv_def built_def)

lemma ctl_inv_next [simp]: "ctl_inv (c\<lparr>c_backend := (c_backend c)\<lparr>r_next := k\<rparr>\<rparr>) = ctl_inv c"
  by (simp add: ctl_inv_def modes_agree_def)

lemma evolves_next [simp]: "ctl_inv c \<Longrightarrow> evolves c (c\<lparr>c_backend := (c_backend c)\<lparr>r_next := k\<rparr>\<rparr>)"
  by (simp add: evolves_def list.rel_refl case_prod_beta)

lemma recordMetrics_frame [simp]:
  "c_replicas (recordMetrics c rd n t) = c_replicas c" "c_backend (recordMetrics c rd n t) = c_backend c"
  by (simp_all add: recordMetrics_def Let_def)

lemma recordMetrics_evolves: "evolves c c' \<Longrightarrow> evolves c (recordMetrics c' rd n t)"
  by (simp add: evolves_def ctl_inv_cong [of "recordMetrics c' rd n t" c'])

lemma ctl_ReadAt_evolves:
  assumes "ctl_inv c"
  shows "\<exists>n err b' c' w'. ctl_ReadAt E lat c b off w = Some (n, err, b', c', w') \<and> evolves c c'"
proof -
  obtain n err b' k where r: "rep_ReadAt (bops E) (c_backend c) b off w = Some (n, err, b', (c_backend c)\<lparr>r_next := k\<rparr>)"
    using rep_ReadAt_total [OF ctl_invD(2) [OF assms], of "bops E" b off w] by blast
  let ?c = "c\<lparr>c_backend := (c_backend c)\<lparr>r_next := k\<rparr>\<rparr>"
  have inv: "ctl_inv ?c" using assms by simp
  have ev: "evolves c ?c" using assms by simp
  obtain err' c' w' where "handleErrorNoLock (bops E) ?c err w = Some (err', c', w')" "evolves ?c c'"
    using handleErrorNoLock_evolves [OF inv, of "bops E" err w] by blast
  then show ?thesis
    using r ev evolves_refl [OF assms] evolves_trans recordMetrics_evolves [OF ev]
    by (auto simp: ctl_ReadAt_def Let_def)
qed

text \<open>io.ReaderAt fills the buffer it is given.\<close>

definition reads_in_place :: "('b, 'w) backend_ops \<Rightarrow> bool" where
  "reads_in_place ops \<longleftrightarrow> (\<forall>h buf off w. length (snd (snd (be_ReadAt ops h buf off w))) = length buf)"

lemma read_loop_length:
  assumes "reads_in_place ops"
  shows "read_loop ops r off w k ix buf n errs = Some (n', errs', buf') \<Longrightarrow> length buf' = length buf"
proof (induction k arbitrary: ix buf n errs)
  case (Suc k)
  have "length b = length buf" if "be_ReadAt ops h buf off w = (m, e, b)" for h m e b
    using assms that by (metis reads_in_place_def snd_conv)
  then show ?case using Suc by (fastforce split: option.splits prod.splits)
qed simp

lemma rep_ReadAt_length:
  "reads_in_place ops \<Longrightarrow> rep_ReadAt ops r buf off w = Some (n, err, b, r') \<Longrightarrow> length b = length buf"
  by (auto simp: rep_ReadAt_def Let_def bind_eq_Some_conv dest: read_loop_length split: if_splits)

text \<open>The aligned range of a write in WO mode contains the request.\<close>

lemma wo_range:
  fixes off l :: int
  assumes "0 \<le> off" "0 < l" "off + l \<le> maxInt64 - 4096"
  defines "s \<equiv> (off sdiv VolumeSectorSize) * VolumeSectorSize"
    and "e \<equiv> (if int64 (off + l) smod VolumeSectorSize = 0 then int64 (off + l)
               else int64 ((int64 (off + l) sdiv VolumeSectorSize + 1) * VolumeSectorSize))"
  shows "s = off - off mod 4096" "off smod VolumeSectorSize = off mod 4096" "0 \<le> s" "s \<le> off" "off + l \<le> e" "e mod 4096 = 0"
    "e < off + l + 4096"
proof -
  have i: "int64 (off + l) = off + l" using assms(1-3) by (intro int64_id) (auto simp: minInt64_def maxInt64_def)
  have sm: "off smod VolumeSectorSize = off mod 4096" "(off + l) smod VolumeSectorSize = (off + l) mod 4096"
    "(off + l) sdiv VolumeSectorSize = (off + l) div 4096"
    using assms(1,2) by (simp_all add: VolumeSectorSize_def smod_nonneg sdiv_nonneg)
  then show "off smod VolumeSectorSize = off mod 4096" by simp
  have s: "s = off div 4096 * 4096" using assms(1) by (simp add: s_def VolumeSectorSize_def sdiv_nonneg)
  then show "s = off - off mod 4096" by (simp add: minus_mod_eq_div_mult)
  show "0 \<le> s" "s \<le> off" using s assms(1) div_mult_mod_eq [of off 4096] by simp_all
  let ?x = "off + l"
  have dm: "?x div 4096 * 4096 + ?x mod 4096 = ?x" by simp
  have j: "int64 ((?x div 4096 + 1) * 4096) = (?x div 4096 + 1) * 4096" if "?x mod 4096 \<noteq> 0"
    using dm assms(1-3) that by (intro int64_id) (auto simp: minInt64_def maxInt64_def)
  have e: "e = (if ?x mod 4096 = 0 then ?x else (?x div 4096 + 1) * 4096)"
    using i sm j by (simp add: e_def VolumeSectorSize_def)
  have "?x mod 4096 < 4096" "0 \<le> ?x mod 4096" by simp_all
  moreover have "e = ?x \<or> ?x mod 4096 \<noteq> 0 \<and> e = ?x - ?x mod 4096 + 4096"
    using e by (auto simp: minus_mod_eq_div_mult algebra_simps)
  ultimately show "off + l \<le> e" "e < off + l + 4096" by linarith+
  show "e mod 4096 = 0" using e by simp
qed

text \<open>The write that writeInWOMode hands to the replicas.\<close>

lemma writeInWOMode_eq:
  assumes "0 \<le> off" "off + int (length b) \<le> maxInt64 - 4096"
    and "b \<noteq> []" "\<not> (off mod 4096 = 0 \<and> int (length b) mod 4096 = 0)"
  defines "s \<equiv> off - off mod 4096"
  obtains e where "off + int (length b) \<le> e" "e < off + int (length b) + 4096" "e mod 4096 = 0"
    "writeInWOMode ops sched c b off w = do {
       (_, err, readBuf, r) \<leftarrow> rep_ReadAt ops (c_backend c) (zeros (nat (e - s))) s w;
       (case err of
          Some x \<Rightarrow> Some (0, Some (Wrapped ''failed to retrieve aligned sectors from RW replicas'' x), c\<lparr>c_backend := r\<rparr>, w)
        | None \<Rightarrow> do {
            _ \<leftarrow> slice_of readBuf (off mod 4096) (off mod 4096 + int (length b));
            (n, err, w') \<leftarrow> rep_WriteAt ops sched r (blit readBuf (nat (off mod 4096)) b) s w;
            Some (if err = None then int (length b)
                  else if n < off mod 4096 then 0
                  else if n - off mod 4096 < int (length b) then n - off mod 4096 else int (length b),
                  err, c\<lparr>c_backend := r\<rparr>, w')
          })
     }"
proof -
  let ?l = "int (length b)"
  have l: "0 < ?l" using assms(3) by simp
  note wr = wo_range [OF assms(1) l assms(2)]
  have lm: "?l smod VolumeSectorSize = ?l mod 4096" by (simp add: VolumeSectorSize_def smod_nonneg)
  have u: "\<not> (?l = 0 \<or> off smod VolumeSectorSize = 0 \<and> ?l smod VolumeSectorSize = 0)"
    using assms(3,4) lm wr(2) by simp
  define e where "e = (if int64 (off + ?l) smod VolumeSectorSize = 0 then int64 (off + ?l)
               else int64 ((int64 (off + ?l) sdiv VolumeSectorSize + 1) * VolumeSectorSize))"
  note wr = wr [folded e_def]
  have ne: "\<not> e < off - off mod 4096" using wr(1,4,5) l by linarith
  show ?thesis
  proof (rule that [of e, OF wr(5) wr(7) wr(6)])
    show "writeInWOMode ops sched c b off w = do {
       (_, err, readBuf, r) \<leftarrow> rep_ReadAt ops (c_backend c) (zeros (nat (e - s))) s w;
       (case err of
          Some x \<Rightarrow> Some (0, Some (Wrapped ''failed to retrieve aligned sectors from RW replicas'' x), c\<lparr>c_backend := r\<rparr>, w)
        | None \<Rightarrow> do {
            _ \<leftarrow> slice_of readBuf (off mod 4096) (off mod 4096 + int (length b));
            (n, err, w') \<leftarrow> rep_WriteAt ops sched r (blit readBuf (nat (off mod 4096)) b) s w;
            Some (if err = None then int (length b)
                  else if n < off mod 4096 then 0
                  else if n - off mod 4096 < int (length b) then n - off mod 4096 else int (length b),
                  err, c\<lparr>c_backend := r\<rparr>, w')
          })
     }"
      unfolding writeInWOMode_def Let_def e_def [symmetric] wr(1,2) s_def
      using u ne wr(2) by (auto cong: option.case_cong)
  qed
qed

lemma writeInWOMode_total:
  assumes inv: "ctl_inv c" and sched: "schedule (c_backend c) sched" and ip: "reads_in_place ops"
    and off: "0 \<le> off" "off + int (length b) \<le> maxInt64 - 4096"
  shows "\<exists>n err k w'. writeInWOMode ops sched c b off w = Some (n, err, c\<lparr>c_backend := (c_backend c)\<lparr>r_next := k\<rparr>\<rparr>, w')"
proof (cases "b = [] \<or> (off mod 4096 = 0 \<and> int (length b) mod 4096 = 0)")
  case True
  then have "int (length b) = 0 \<or> off smod VolumeSectorSize = 0 \<and> int (length b) smod VolumeSectorSize = 0"
    using off(1) by (auto simp: VolumeSectorSize_def smod_nonneg)
  moreover obtain n err w1 where "rep_WriteAt ops sched (c_backend c) b off w = Some (n, err, w1)"
    using rep_WriteAt_total [OF ctl_invD(2) [OF inv] sched, of ops b off w] by auto
  ultimately have "writeInWOMode ops sched c b off w =
      Some (n, err, c\<lparr>c_backend := (c_backend c)\<lparr>r_next := r_next (c_backend c)\<rparr>\<rparr>, w1)"
    by (auto simp: writeInWOMode_def Let_def)
  then show ?thesis by blast
next
  case False
  let ?s = "off - off mod 4096"
  have f: "b \<noteq> []" "\<not> (off mod 4096 = 0 \<and> int (length b) mod 4096 = 0)" using False by auto
  obtain e where e: "off + int (length b) \<le> e" and eq:
    "writeInWOMode ops sched c b off w = do {
       (_, err, readBuf, r) \<leftarrow> rep_ReadAt ops (c_backend c) (zeros (nat (e - ?s))) ?s w;
       (case err of
          Some x \<Rightarrow> Some (0, Some (Wrapped ''failed to retrieve aligned sectors from RW replicas'' x), c\<lparr>c_backend := r\<rparr>, w)
        | None \<Rightarrow> do {
            _ \<leftarrow> slice_of readBuf (off mod 4096) (off mod 4096 + int (length b));
            (n, err, w') \<leftarrow> rep_WriteAt ops sched r (blit readBuf (nat (off mod 4096)) b) ?s w;
            Some (if err = None then int (length b)
                  else if n < off mod 4096 then 0
                  else if n - off mod 4096 < int (length b) then n - off mod 4096 else int (length b),
                  err, c\<lparr>c_backend := r\<rparr>, w')
          })
     }"
    using writeInWOMode_eq [OF off f, of ops sched c w] by blast
  obtain n err bf k where r: "rep_ReadAt ops (c_backend c) (zeros (nat (e - ?s))) ?s w =
      Some (n, err, bf, (c_backend c)\<lparr>r_next := k\<rparr>)"
    using rep_ReadAt_total [OF ctl_invD(2) [OF inv], of ops "zeros (nat (e - ?s))" ?s w] by blast
  have len: "length bf = nat (e - ?s)" using rep_ReadAt_length [OF ip r] by simp
  have sl: "slice_of bf (off mod 4096) (off mod 4096 + int (length b)) \<noteq> None"
  proof -
    have "0 \<le> off mod 4096" by simp
    then have "off - off mod 4096 \<le> e" using e by linarith
    then show ?thesis using len e by (simp add: slice_of_def)
  qed
  have "schedule ((c_backend c)\<lparr>r_next := k\<rparr>) sched" using sched by (simp add: schedule_def)
  then obtain x where x: "rep_WriteAt ops sched ((c_backend c)\<lparr>r_next := k\<rparr>) (blit bf (nat (off mod 4096)) b) ?s w = Some x"
    using rep_WriteAt_total [of "(c_backend c)\<lparr>r_next := k\<rparr>" sched ops "blit bf (nat (off mod 4096)) b" ?s w] ctl_invD(2) [OF inv]
    by auto
  obtain n1 e1 w1 where x1: "x = (n1, e1, w1)" by (cases x)
  obtain sl' where sl': "slice_of bf (off mod 4096) (off mod 4096 + int (length b)) = Some sl'" using sl by blast
  show ?thesis
    by (cases err) (unfold eq r, simp_all add: sl' x x1, blast+)
qed

lemma ctl_WriteAt_evolves:
  assumes inv: "ctl_inv c" and sched: "schedule (c_backend c) sched" and ip: "reads_in_place (bops E)"
    and off: "off + int (length b) \<le> maxInt64 - 4096"
  shows "\<exists>n err c' w'. ctl_WriteAt E sched lat c b off w = Some (n, err, c', w') \<and> evolves c c'"
proof (cases "off < 0 \<or> int64 (off + int (length b)) > c_size c")
  case True
  then show ?thesis using evolves_refl [OF inv] by (simp add: ctl_WriteAt_def)
next
  case False
  have wr: "\<exists>n err k w'. (if hasWOReplica c then writeInWOMode (bops E) sched c b off w
      else writeInNormalMode (bops E) sched c b off w) = Some (n, err, c\<lparr>c_backend := (c_backend c)\<lparr>r_next := k\<rparr>\<rparr>, w')"
  proof (cases "hasWOReplica c")
    case True
    then show ?thesis using writeInWOMode_total [OF inv sched ip _ off] False by auto
  next
    case f: False
    obtain n err w1 where "rep_WriteAt (bops E) sched (c_backend c) b off w = Some (n, err, w1)"
      using rep_WriteAt_total [OF ctl_invD(2) [OF inv] sched, of "bops E" b off w] by auto
    then have "writeInNormalMode (bops E) sched c b off w =
        Some (n, err, c\<lparr>c_backend := (c_backend c)\<lparr>r_next := r_next (c_backend c)\<rparr>\<rparr>, w1)"
      by (simp add: writeInNormalMode_def)
    then show ?thesis using f unfolding if_not_P [OF f] by blast
  qed
  then obtain n err k w1 where w: "(if hasWOReplica c then writeInWOMode (bops E) sched c b off w
      else writeInNormalMode (bops E) sched c b off w) = Some (n, err, c\<lparr>c_backend := (c_backend c)\<lparr>r_next := k\<rparr>\<rparr>, w1)"
    by blast
  let ?c = "c\<lparr>c_backend := (c_backend c)\<lparr>r_next := k\<rparr>\<rparr>"
  have ev: "evolves c ?c" using inv by simp
  obtain err' c' w' where h: "handleErrorNoLock (bops E) ?c err w1 = Some (err', c', w')" "evolves ?c c'"
    using handleErrorNoLock_evolves [OF evolves_inv [OF ev], of "bops E" err w1] by blast
  show ?thesis
    using False w h ev evolves_trans [OF ev h(2)] recordMetrics_evolves [OF ev] by (auto simp: ctl_WriteAt_def Let_def)
qed

lemma ctl_UnmapAt_evolves:
  assumes inv: "ctl_inv c" and sched: "schedule (c_backend c) sched"
  shows "\<exists>n err c' w'. ctl_UnmapAt E sched c len off w = Some (n, err, c', w') \<and> evolves c c'"
proof -
  obtain n err w1 where u: "rep_UnmapAt (bops E) sched (c_backend c) len off w = Some (n, err, w1)"
    using rep_UnmapAt_total [OF ctl_invD(2) [OF inv] sched, of "bops E" len off w] by auto
  obtain err' c' w' where "handleErrorNoLock (bops E) c err w1 = Some (err', c', w')" "evolves c c'"
    using handleErrorNoLock_evolves [OF inv, of "bops E" err w1] by blast
  then show ?thesis using u evolves_refl [OF inv] by (auto simp: ctl_UnmapAt_def)
qed

section \<open>The step relation\<close>

text \<open>
  One step is one locked section of an operation, run by any of the goroutines of the engine in any
  order: requests of the frontend, calls of the gRPC service, the monitors of the backends, the goroutine of
  an expansion.  The world may change on its own at any time.  R are the clients of the replicas.
\<close>

inductive ctl_step ::
  "('b, 'f, 'w) ctl_env \<Rightarrow> 'w rclient \<Rightarrow> ('b, 'f) controller \<times> 'w \<Rightarrow> ('b, 'f) controller \<times> 'w \<Rightarrow> bool"
  for E :: "('b, 'f, 'w) ctl_env" and R :: "'w rclient" where
  step_world: "ctl_step E R (c, w) (c, w')"
| step_SetReplicaMode: "SetReplicaMode (bops E) c a mo w = Some (err, c', w') \<Longrightarrow> ctl_step E R (c, w) (c', w')"
| step_monitoring: "monitoring (bops E) c a received w = Some (c', w') \<Longrightarrow> ctl_step E R (c, w) (c', w')"
| step_RemoveReplica: "RemoveReplica E c a w = (err, c', w') \<Longrightarrow> ctl_step E R (c, w) (c', w')"
| step_addReplica: "addReplica E c a sn mo w = Some (err, c', w') \<Longrightarrow> ctl_step E R (c, w) (c', w')"
| step_Start: "ctl_Start E c vs vcs as w = Some (err, c', w') \<Longrightarrow> ctl_step E R (c, w) (c', w')"
| step_StartFrontend: "StartFrontend E c f w = (err, c', w') \<Longrightarrow> ctl_step E R (c, w) (c', w')"
| step_shutdownBackend: "shutdownBackend (bops E) c w = Some (err, c', w') \<Longrightarrow> ctl_step E R (c, w) (c', w')"
| step_read: "rep_ReadAt (bops E) (c_backend c) b off w = Some (n, err, b', r) \<Longrightarrow> ctl_step E R (c, w) (c\<lparr>c_backend := r\<rparr>, w)"
| step_writeWO: "writeInWOMode (bops E) sched c b off w = Some (n, err, c', w') \<Longrightarrow> ctl_step E R (c, w) (c', w')"
| step_write: "writeInNormalMode (bops E) sched c b off w = Some (n, err, c', w') \<Longrightarrow> ctl_step E R (c, w) (c', w')"
| step_unmap: "rep_UnmapAt (bops E) sched (c_backend c) len off w = Some (n, err, w') \<Longrightarrow> ctl_step E R (c, w) (c, w')"
| step_handleError: "handleErrorNoLock (bops E) c err w = Some (err', c', w') \<Longrightarrow> ctl_step E R (c, w) (c', w')"
| step_metrics: "ctl_step E R (c, w) (recordMetrics c rd n t, w)"
| step_tick: "ctl_step E R (c, w) (metrics_tick c, w)"
| step_snapshot: "snapshot_take E c name labels w = Some (n, err, c', w') \<Longrightarrow> ctl_step E R (c, w) (c', w')"
| step_startExpansion: "startExpansion E c sz w = (err, c') \<Longrightarrow> ctl_step E R (c, w) (c', w)"
| step_expand: "expand_backends E c sz w = Some (ok, c', w') \<Longrightarrow> ctl_step E R (c, w) (c', w')"
| step_finishExpansion: "ctl_step E R (c, w) (finishExpansion c ok sz, w)"
| step_unmapMark: "SetUnmapMarkSnapChainRemoved (bops E) c en w = Some (err, c', w') \<Longrightarrow> ctl_step E R (c, w) (c', w')"
| step_maxCount: "SetSnapshotMaxCount (bops E) c k w = Some (err, c', w') \<Longrightarrow> ctl_step E R (c, w) (c', w')"
| step_maxSize: "SetSnapshotMaxSize (bops E) c k w = Some (err, c', w') \<Longrightarrow> ctl_step E R (c, w) (c', w')"
| step_verify: "VerifyRebuildReplica (bops E) R c a i w = Some (err, c', w') \<Longrightarrow> ctl_step E R (c, w) (c', w')"
| step_prepare: "PrepareRebuildReplica (bops E) R c a i w = Some (res, w') \<Longrightarrow> ctl_step E R (c, w) (c, w')"
| step_revert: "revert_loop (bops E) R name now as False c w = Some (ok, c', w') \<Longrightarrow> ctl_step E R (c, w) (c', w')"

lemma rep_ReadAt_frame:
  "rep_inv r \<Longrightarrow> rep_ReadAt ops r b off w = Some (n, err, b', r') \<Longrightarrow> \<exists>k. r' = r\<lparr>r_next := k\<rparr>"
  using rep_ReadAt_total [of r ops b off w] by auto

lemma writeInWOMode_frame:
  assumes inv: "ctl_inv c" and w: "writeInWOMode ops sched c b off w = Some (n, err, c', w')"
  shows "evolves c c'"
proof (cases "int (length b) = 0 \<or> off smod VolumeSectorSize = 0 \<and> int (length b) smod VolumeSectorSize = 0")
  case True
  then show ?thesis using w evolves_refl [OF inv] by (auto simp: writeInWOMode_def Let_def bind_eq_Some_conv)
next
  case False
  define s e where "s = (off sdiv VolumeSectorSize) * VolumeSectorSize"
    and "e = (if int64 (off + int (length b)) smod VolumeSectorSize = 0 then int64 (off + int (length b))
               else int64 ((int64 (off + int (length b)) sdiv VolumeSectorSize + 1) * VolumeSectorSize))"
  note w' = w [unfolded writeInWOMode_def Let_def if_not_P [OF False], folded s_def e_def]
  have ne: "\<not> e < s" using w' by (auto split: if_splits)
  obtain m er z r where r: "rep_ReadAt ops (c_backend c) (zeros (nat (e - s))) s w = Some (m, er, z, r)"
    using w' [unfolded if_not_P [OF ne] bind_eq_Some_conv] by auto
  have "c' = c\<lparr>c_backend := r\<rparr>"
    using w' [unfolded if_not_P [OF ne] r bind.bind_lunit] by (cases er) (auto simp: bind_eq_Some_conv)
  then show ?thesis
    using rep_ReadAt_frame [OF ctl_invD(2) [OF inv] r] evolves_next [OF inv] by auto
qed

lemma same_replicas_step:
  "ctl_inv c \<Longrightarrow> c_replicas c' = c_replicas c \<Longrightarrow> c_backend c' = c_backend c \<Longrightarrow> evolves c c'"
  using evolves_cong [of c' c c c] evolves_refl by blast

lemma ctl_step_preserves:
  assumes "ctl_step E R (c, w) (c', w')" "ctl_inv c"
  shows "ctl_inv c' \<and> err_sticky c c'"
proof -
  have ev: "evolves c c' \<Longrightarrow> ?thesis" by (simp add: evolves_err_sticky evolves_inv)
  note same = same_replicas_step [OF assms(2), THEN ev]
  note inv = assms(2)
  from assms(1) show ?thesis
  proof cases
    case step_SetReplicaMode
    then show ?thesis using SetReplicaMode_evolves [OF inv] ev by (metis option.inject prod.inject)
  next
    case step_monitoring
    then show ?thesis using monitoring_evolves [OF inv] ev by (metis option.inject prod.inject)
  next
    case (step_RemoveReplica a err)
    have "err_sticky c c'"
      using step_RemoveReplica RemoveReplica_eq [OF ctl_invD(1) [OF inv], of E a w]
      by (auto simp: err_sticky_def map_of_filter_fst split: if_splits prod.splits)
    then show ?thesis using RemoveReplica_inv [OF inv step_RemoveReplica] by simp
  next
    case step_addReplica
    then show ?thesis using addReplica_inv [OF inv] by (metis option.inject prod.inject)
  next
    case step_Start
    then show ?thesis using ctl_Start_inv [OF inv] by (metis option.inject prod.inject)
  next
    case step_StartFrontend
    then show ?thesis
      by (intro same) (auto simp: StartFrontend_def Let_def split: if_splits option.splits sum.splits prod.splits)
  next
    case step_shutdownBackend
    then show ?thesis using shutdownBackend_inv [OF inv, of "bops E" w] by (auto simp: err_sticky_def)
  next
    case (step_read b off n err b' r)
    then show ?thesis using rep_ReadAt_frame [OF ctl_invD(2) [OF inv]] evolves_next [OF inv] ev by metis
  next
    case step_writeWO
    then show ?thesis using writeInWOMode_frame [OF inv, THEN ev] by metis
  next
    case step_write
    then show ?thesis by (intro same) (auto simp: writeInNormalMode_def bind_eq_Some_conv)
  next
    case step_handleError
    then show ?thesis using handleErrorNoLock_evolves [OF inv] ev by (metis option.inject prod.inject)
  next
    case step_metrics
    then show ?thesis by (intro same) simp_all
  next
    case step_tick
    then show ?thesis by (intro same) (simp_all add: metrics_tick_def)
  next
    case step_snapshot
    then show ?thesis using snapshot_take_evolves [OF inv] ev by (metis option.inject prod.inject)
  next
    case step_startExpansion
    then show ?thesis by (intro same) (auto simp: startExpansion_def Let_def split: if_splits option.splits)
  next
    case step_expand
    then show ?thesis using expand_backends_evolves [OF inv] ev by (metis option.inject prod.inject)
  next
    case step_finishExpansion
    then show ?thesis by (intro same) (simp_all add: finishExpansion_def)
  next
    case (step_unmapMark en err)
    have "ctl_inv (c\<lparr>unmapMarkSnapChainRemoved := en\<rparr>)" using inv by simp
    then have "evolves (c\<lparr>unmapMarkSnapChainRemoved := en\<rparr>) c'"
      using step_unmapMark checkUnmapMark_evolves unfolding SetUnmapMarkSnapChainRemoved_def
      by (metis option.inject prod.inject)
    then show ?thesis by (intro ev) simp
  next
    case step_maxCount
    then show ?thesis using SetSnapshotMax_evolves(1) [OF inv] ev by (metis option.inject prod.inject)
  next
    case step_maxSize
    then show ?thesis using SetSnapshotMax_evolves(2) [OF inv] ev by (metis option.inject prod.inject)
  next
    case step_verify
    then show ?thesis using VerifyRebuild_evolves [OF inv] ev by (metis option.inject prod.inject)
  next
    case step_revert
    then show ?thesis using revert_loop_evolves [OF inv] ev by (metis option.inject prod.inject)
  qed (use inv in simp_all)
qed

lemma ctl_inv_NewController [simp]: "ctl_inv (NewController n f u d s m t mc ms)"
  by (simp add: NewController_def)

lemma ctl_steps_inv:
  assumes "(ctl_step E R)\<^sup>*\<^sup>* (c, w) (c', w')" "ctl_inv c"
  shows "ctl_inv c'"
  using assms by (induction "(c', w')" arbitrary: c' w' rule: rtranclp_induct) (auto dest: ctl_step_preserves)

end
