(* ===== verification/Controller_Errors.thy ===== *)
theory Controller_Errors
  imports Controller_Step
begin

text \<open>
  What handleErrorNoLock does with the errors of a fan-out: exactly the replicas named in
  the error become ERR, and the error is swallowed if a replica in mode RW is left.
\<close>

text \<open>Backends whose StopMonitoring only concerns their own monitor.\<close>

definition quiet_stop :: "('b, 'w) backend_ops \<Rightarrow> bool" where
  "quiet_stop ops \<longleftrightarrow> (\<forall>h w. be_StopMonitoring ops h w = w)"

lemma SetMode_backend:
  assumes "SetMode ops a mo r w = Some (r', w')"
  shows "map_option bw_backend (map_of (backends r') x) = map_option bw_backend (map_of (backends r) x)"
  using backends_SetMode [OF assms, of x] by (cases "map_of (backends r) x") auto

lemma SetMode_world:
  assumes "SetMode ops a mo r w = Some (r', w')" "quiet_stop ops"
  shows "w' = w"
  using assms by (auto simp: SetMode_def Let_def quiet_stop_def split: option.splits if_splits)

lemma set_mode_effect:
  assumes inv: "ctl_inv c" and mo: "mo \<noteq> WO" and q: "quiet_stop ops"
  obtains r where
    "setReplicaModeNoLock ops c a mo w = Some (c\<lparr>c_replicas := set_mode a mo (c_replicas c), c_backend := r\<rparr>, w)"
    "ctl_inv (c\<lparr>c_replicas := set_mode a mo (c_replicas c), c_backend := r\<rparr>)"
    "\<And>x. backend_of (c\<lparr>c_replicas := set_mode a mo (c_replicas c), c_backend := r\<rparr>) x = backend_of c x"
proof -
  obtain r w' where s: "setReplicaModeNoLock ops c a mo w =
      Some (c\<lparr>c_replicas := set_mode a mo (c_replicas c), c_backend := r\<rparr>, w')"
    "ctl_inv (c\<lparr>c_replicas := set_mode a mo (c_replicas c), c_backend := r\<rparr>)"
    using setReplicaModeNoLock_spec [OF inv mo] .
  obtain reps r0 where l: "set_mode_loop ops a mo (c_replicas c) [] (c_backend c) w = Some (reps, r0, w')"
    "c\<lparr>c_replicas := reps, c_backend := r0\<rparr> = c\<lparr>c_replicas := set_mode a mo (c_replicas c), c_backend := r\<rparr>"
    using s(1) by (auto simp: setReplicaModeNoLock_def bind_eq_Some_conv)
  have "r0 = r" using arg_cong [OF l(2), of c_backend] by simp
  then have "r = c_backend c \<and> w' = w \<or> SetMode ops a mo (c_backend c) w = Some (r, w')"
    using l(1) unfolding set_mode_loop_eq [OF ctl_invD(1) [OF inv]] by (auto split: option.splits if_splits)
  then have w: "w' = w" and b: "map_option bw_backend (map_of (backends r) x) = map_option bw_backend (map_of (backends (c_backend c)) x)" for x
    using SetMode_world [OF _ q] SetMode_backend by metis+
  have "backend_of (c\<lparr>c_replicas := set_mode a mo (c_replicas c), c_backend := r\<rparr>) x = backend_of c x" for x
    using b [of x] by (cases "map_of (backends r) x"; cases "map_of (backends (c_backend c)) x") (auto simp: backend_of_def)
  then show ?thesis using that s w by blast
qed

text \<open>The replicas after the errors of the addresses in \<open>as\<close> have been handled.\<close>

definition demoted :: "('b, 'f) controller \<Rightarrow> string set \<Rightarrow> ('b, 'f) controller \<Rightarrow> bool" where
  "demoted c as c' \<longleftrightarrow> ctl_inv c' \<and> (\<forall>x. backend_of c' x = backend_of c x) \<and> c_size c' = c_size c \<and>
     (\<forall>x. map_of (c_replicas c') x = (if x \<in> as then map_option (\<lambda>_. ERR) (map_of (c_replicas c) x) else map_of (c_replicas c) x))"

lemma demoted_refl: "ctl_inv c \<Longrightarrow> demoted c {} c"
  by (simp add: demoted_def)

lemma demoted_trans: "demoted c as c1 \<Longrightarrow> demoted c1 bs c2 \<Longrightarrow> demoted c (as \<union> bs) c2"
  by (auto simp: demoted_def option.map_comp o_def)

lemma demoted_set_mode:
  assumes "ctl_inv c" "quiet_stop ops"
  obtains c' where "setReplicaModeNoLock ops c a ERR w = Some (c', w)" "demoted c {a} c'"
proof -
  have mo: "ERR \<noteq> WO" by simp
  obtain r where r: "setReplicaModeNoLock ops c a ERR w = Some (c\<lparr>c_replicas := set_mode a ERR (c_replicas c), c_backend := r\<rparr>, w)"
    "ctl_inv (c\<lparr>c_replicas := set_mode a ERR (c_replicas c), c_backend := r\<rparr>)"
    "\<And>x. backend_of (c\<lparr>c_replicas := set_mode a ERR (c_replicas c), c_backend := r\<rparr>) x = backend_of c x"
    using set_mode_effect [OF assms(1) mo assms(2), of a w] by blast
  have "map_of (set_mode a ERR (c_replicas c)) x =
      (if x \<in> {a} then map_option (\<lambda>_. ERR) (map_of (c_replicas c) x) else map_of (c_replicas c) x)" for x
    by (cases "map_of (c_replicas c) x") (auto simp: map_of_set_mode)
  then have "demoted c {a} (c\<lparr>c_replicas := set_mode a ERR (c_replicas c), c_backend := r\<rparr>)"
    using r(2,3) by (simp add: demoted_def)
  then show ?thesis using that r(1) by blast
qed

lemma handle_loop_effect:
  assumes "quiet_stop ops"
  shows "ctl_inv c \<Longrightarrow> (\<And>a e. (a, e) \<in> set es \<Longrightarrow> \<not> isSnapshotDiskExist e) \<Longrightarrow>
    \<exists>c'. handle_loop ops c es ex w = Some (ex, c', w) \<and> demoted c (fst ` set es) c'"
proof (induction es arbitrary: c)
  case Nil
  then show ?case by (simp add: demoted_refl)
next
  case (Cons x es)
  obtain a e where x: "x = (a, e)" by (cases x)
  obtain c1 where c1: "setReplicaModeNoLock ops c a ERR w = Some (c1, w)" "demoted c {a} c1"
    using demoted_set_mode [OF Cons.prems(1) assms, of a w] .
  have ne: "\<not> isSnapshotDiskExist e" using Cons.prems(2) [of a e] x by simp
  obtain c' where "handle_loop ops c1 es ex w = Some (ex, c', w)" "demoted c1 (fst ` set es) c'"
    using Cons.IH [of c1] c1(2) Cons.prems(2) by (auto simp: demoted_def)
  then show ?case using c1 x ne demoted_trans [OF c1(2)] by fastforce
qed

lemma handleErrorNoLock_effect:
  assumes "ctl_inv c" "quiet_stop ops" "es \<noteq> []" "\<And>a e. (a, e) \<in> set es \<Longrightarrow> \<not> isSnapshotDiskExist e"
  obtains c' where "handleErrorNoLock ops c (Some (BackendErr es)) w =
      Some (if \<exists>x. map_of (c_replicas c) x = Some RW \<and> x \<notin> fst ` set es then None else Some (BackendErr es), c', w)"
    "demoted c (fst ` set es) c'"
proof -
  obtain c' where h: "handle_loop ops c es [] w = Some ([], c', w)" "demoted c (fst ` set es) c'"
    using handle_loop_effect [OF assms(2,1), of es "[]" w] assms(4) by blast
  have "ctl_inv c'" using h(2) by (simp add: demoted_def)
  then have "list_ex (\<lambda>(a, m). m = RW) (c_replicas c') \<longleftrightarrow> (\<exists>x. map_of (c_replicas c') x = Some RW)"
    by (force simp: list_ex_iff intro: replicas_map_of dest: map_of_SomeD)
  also have "\<dots> \<longleftrightarrow> (\<exists>x. map_of (c_replicas c) x = Some RW \<and> x \<notin> fst ` set es)"
    using h(2) by (auto simp: demoted_def split: if_splits)
  finally show ?thesis using that h assms(3) by (simp add: handleErrorNoLock_def)
qed

end
