(* ===== verification/Volume_Pool.thy ===== *)
theory Volume_Pool
  imports Controller_Errors Diff_Disk_Thms
begin

text \<open>
  Replicas as differencing disks: the backend of an address reads and writes the diffDisk of that
  address.  Faults are injected per address: a read that fails returns an error, a
  write that fails returns an error and leaves its replica in any state.  This instance of the
  backends interprets the contract backend_pool and carries the end-to-end theorems.
\<close>

type_synonym ('h, 's) volume = "'h diffDisk \<times> 's"

record ('h, 's) faults =
  fail_read :: "string \<Rightarrow> bool"
  fail_write :: "string \<Rightarrow> bool"
  garble :: "('h, 's) volume \<Rightarrow> ('h, 's) volume"

definition io_error :: error where
  "io_error = Errorf ''i/o error''"

definition pool_ReadAt ::
  "('h, 's) disk_ops \<Rightarrow> ('h, 's) faults \<Rightarrow> string \<Rightarrow> bytes \<Rightarrow> int \<Rightarrow> (string \<Rightarrow> ('h, 's) volume) \<Rightarrow> int \<times> error option \<times> bytes" where
  "pool_ReadAt dops F h buf off w =
     (if fail_read F h then (0, Some io_error, buf)
      else case ReadAt dops (fst (w h)) buf off (snd (w h)) of
        Some (n, err, b, d) \<Rightarrow> (n, err, b)
      | None \<Rightarrow> (0, Some io_error, buf))"

definition pool_WriteAt ::
  "('h, 's) disk_ops \<Rightarrow> ('h, 's) faults \<Rightarrow> string \<Rightarrow> bytes \<Rightarrow> int \<Rightarrow> (string \<Rightarrow> ('h, 's) volume) \<Rightarrow>
     int \<times> error option \<times> (string \<Rightarrow> ('h, 's) volume)" where
  "pool_WriteAt dops F h p off w =
     (if fail_write F h then (0, Some io_error, w(h := garble F (w h)))
      else case WriteAt dops (fst (w h)) p off (snd (w h)) of
        Some (n, err, d, s) \<Rightarrow> (n, err, w(h := (d, s)))
      | None \<Rightarrow> (0, Some io_error, w))"

text \<open>The operations of \<open>rest\<close>, with the data path going to the diffDisks.\<close>

definition pool_ops ::
  "('h, 's) disk_ops \<Rightarrow> ('h, 's) faults \<Rightarrow> (string, string \<Rightarrow> ('h, 's) volume) backend_ops \<Rightarrow>
     (string, string \<Rightarrow> ('h, 's) volume) backend_ops" where
  "pool_ops dops F rest = rest\<lparr>be_ReadAt := pool_ReadAt dops F, be_WriteAt := pool_WriteAt dops F, be_StopMonitoring := \<lambda>h w. w\<rparr>"

lemma pool_ops_simps [simp]:
  "be_ReadAt (pool_ops dops F rest) = pool_ReadAt dops F" "be_WriteAt (pool_ops dops F rest) = pool_WriteAt dops F"
  "quiet_stop (pool_ops dops F rest)"
  by (simp_all add: pool_ops_def quiet_stop_def)

interpretation volumes: backend_pool "pool_ops dops F rest" "\<lambda>w h. w h" for dops F rest
proof unfold_locales
  fix b' b :: string and p off and w :: "string \<Rightarrow> ('a, 'b) volume"
  assume "b' \<noteq> b"
  then show "snd (snd (be_WriteAt (pool_ops dops F rest) b p off w)) b' = w b'"
    by (auto simp: pool_WriteAt_def split: option.split)
next
  fix w1 w2 :: "string \<Rightarrow> ('a, 'b) volume" and b :: string and p off
  assume "w1 b = w2 b"
  then show "fst (snd (be_WriteAt (pool_ops dops F rest) b p off w1)) = fst (snd (be_WriteAt (pool_ops dops F rest) b p off w2)) \<and>
      snd (snd (be_WriteAt (pool_ops dops F rest) b p off w1)) b = snd (snd (be_WriteAt (pool_ops dops F rest) b p off w2)) b"
    by (auto simp: pool_WriteAt_def split: option.split)
qed

section \<open>One replica\<close>

definition content :: "('h, 's) layer_view \<Rightarrow> ('h, 's) volume \<Rightarrow> nat \<Rightarrow> byte" where
  "content V x p = vol_byte V (snd x) (fst x) p"

text \<open>A well-formed volume of \<open>n\<close> bytes, all of whose layers have that size.\<close>

definition volume_ok :: "('h, 's) layer_view \<Rightarrow> nat \<Rightarrow> ('h, 's) volume \<Rightarrow> bool" where
  "volume_ok V n x \<longleftrightarrow> dd_wf V (snd x) (fst x) \<and> vol_size V (fst x) = n \<and>
     (\<forall>k \<in> {1 ..< length (files (fst x))}. layer_size V (snd x) (files (fst x)) k = n)"

text \<open>Overwriting a range of an abstract volume.\<close>

definition overwrite :: "(nat \<Rightarrow> byte) \<Rightarrow> nat \<Rightarrow> bytes \<Rightarrow> nat \<Rightarrow> byte" where
  "overwrite data off b p = (if off \<le> p \<and> p < off + length b then b ! (p - off) else data p)"

lemma volume_tail_covered:
  assumes "disk_layer dops V" "volume_ok V n x" "off + m \<le> n"
  shows "tail_covered V (snd x) (fst x) off m"
proof -
  let ?t = "(off + m) div v_bs V"
  have wf: "dd_wf V (snd x) (fst x)" and sz: "vol_size V (fst x) = n" using assms(2) by (simp_all add: volume_ok_def)
  have "Suc ?t * v_bs V \<le> layer_size V (snd x) (files (fst x)) (holder V (snd x) (fst x) ?t)" if "(off + m) mod v_bs V \<noteq> 0"
  proof -
    have "?t * v_bs V < off + m" using that by (metis div_mult_mod_eq less_add_same_cancel1 neq0_conv)
    then have "?t < length (location (fst x))" using assms(3) sz by (metis less_le_trans mult_less_cancel2)
    moreover from this have "1 \<le> holder V (snd x) (fst x) ?t" "holder V (snd x) (fst x) ?t < length (files (fst x))"
      using holder_bounds [OF wf] by auto
    then have "layer_size V (snd x) (files (fst x)) (holder V (snd x) (fst x) ?t) = n"
      using assms(2) by (simp add: volume_ok_def)
    moreover have "Suc ?t * v_bs V \<le> n" using calculation(1) sz by (metis Suc_leI mult_le_mono1)
    ultimately show ?thesis by simp
  qed
  then show ?thesis by (auto simp: tail_covered_def Let_def)
qed

lemma pool_read_ok:
  assumes "disk_layer dops V" "volume_ok V n (w h)" "off + m \<le> n" "\<not> fail_read F h"
  shows "pool_ReadAt dops F h (zeros m) (int off) w = (int m, None, map (content V (w h)) [off ..< off + m])"
proof -
  have "dd_wf V (snd (w h)) (fst (w h))" "off + m \<le> vol_size V (fst (w h))"
    using assms(2,3) by (simp_all add: volume_ok_def)
  then obtain d' where "ReadAt dops (fst (w h)) (zeros m) (int off) (snd (w h)) =
      Some (int m, None, vol_range V (snd (w h)) (fst (w h)) off m, d')"
    using disk_layer.ReadAt_zeros [OF assms(1) _ _ volume_tail_covered [OF assms(1-3)]] by blast
  then show ?thesis
    using assms(4) by (simp add: pool_ReadAt_def vol_range_def content_def)
qed

lemma pool_write_ok:
  assumes "disk_layer dops V" "volume_ok V n (w h)" "off + length b \<le> n" "\<not> fail_write F h"
  obtains cnt x where "pool_WriteAt dops F h b (int off) w = (cnt, None, w(h := x))"
    "volume_ok V n x" "\<And>p. p < n \<Longrightarrow> content V x p = overwrite (content V (w h)) off b p"
proof -
  have wf: "dd_wf V (snd (w h)) (fst (w h))" "off + length b \<le> vol_size V (fst (w h))" and sz: "vol_size V (fst (w h)) = n"
    using assms(2,3) by (simp_all add: volume_ok_def)
  obtain cnt d' s' where e: "WriteAt dops (fst (w h)) b (int off) (snd (w h)) = Some (cnt, None, d', s')"
    "write_effect V (snd (w h)) (fst (w h)) off b s' d'"
    using disk_layer.WriteAt_effect [OF assms(1) wf] by blast
  have "pool_WriteAt dops F h b (int off) w = (cnt, None, w(h := (d', s')))"
    using e(1) assms(4) by (simp add: pool_WriteAt_def)
  moreover have "layer_size V s' (files d') = layer_size V (snd (w h)) (files (fst (w h)))"
  proof
    fix k
    have "v_size V s' = v_size V (snd (w h))" "files d' = files (fst (w h))" using e(2) by (simp_all add: write_effect_def)
    then show "layer_size V s' (files d') k = layer_size V (snd (w h)) (files (fst (w h))) k" by (simp only: layer_size_def)
  qed
  then have "volume_ok V n (d', s')"
    using e(2) assms(2) by (simp add: volume_ok_def write_effect_def)
  moreover have "content V (d', s') p = overwrite (content V (w h)) off b p" if "p < n" for p
    using e(2) that sz by (simp add: content_def overwrite_def write_effect_def)
  ultimately show ?thesis using that by blast
qed

end
