(* ===== verification/Volume_Sync.thy ===== *)
theory Volume_Sync
  imports Volume_Pool
begin

text \<open>
  The volume that the controller serves: all replicas in mode RW hold the same bytes.  A write
  through the controller keeps that, with faulty replicas and with a replica under rebuild, and a read
  returns those bytes.
\<close>

section \<open>Replicas in sync\<close>

text \<open>In a pool of volumes the backend of an address is the volume of that address.\<close>

definition by_address :: "(string, 'f) controller \<Rightarrow> bool" where
  "by_address c \<longleftrightarrow> (\<forall>a h. backend_of c a = Some h \<longrightarrow> h = a)"

definition in_sync ::
  "('h, 's) layer_view \<Rightarrow> nat \<Rightarrow> (string, 'f) controller \<Rightarrow> (string \<Rightarrow> ('h, 's) volume) \<Rightarrow> (nat \<Rightarrow> byte) \<Rightarrow> bool" where
  "in_sync V n c w data \<longleftrightarrow>
     (\<forall>a. map_of (c_replicas c) a = Some RW \<longrightarrow> volume_ok V n (w a) \<and> (\<forall>p < n. content V (w a) p = data p))"

definition is_active :: "('b, 'f) controller \<Rightarrow> string \<Rightarrow> bool" where
  "is_active c a \<longleftrightarrow> map_of (c_replicas c) a = Some WO \<or> map_of (c_replicas c) a = Some RW"

lemma is_active_iff: "is_active c a \<longleftrightarrow> (\<exists>mo. map_of (c_replicas c) a = Some mo \<and> mo \<noteq> ERR)"
  by (auto simp: is_active_def) (metis mode.exhaust)

lemma backend_entry:
  assumes "ctl_inv c" "by_address c" "(a, b) \<in> set (backends (c_backend c))"
  shows "map_of (c_replicas c) a = Some (bw_mode b)" "bw_backend b = Some h \<Longrightarrow> h = a"
proof -
  have m: "map_of (backends (c_backend c)) a = Some b" using assms(3) map_of_backend [OF ctl_invD(2) [OF assms(1)]] by simp
  then show "map_of (c_replicas c) a = Some (bw_mode b)" using ctl_invD(4) [OF assms(1), of a] by simp
  show "bw_backend b = Some h \<Longrightarrow> h = a" using m assms(2) by (simp add: by_address_def backend_of_def)
qed

lemma active_entry:
  assumes "ctl_inv c" "by_address c" "(a, b) \<in> set (active (backends (c_backend c)))"
  shows "is_active c a" "bw_backend b = Some a"
proof -
  have b: "(a, b) \<in> set (backends (c_backend c))" "bw_mode b \<noteq> ERR" using assms(3) by (auto simp: active_def)
  then show "is_active c a" using backend_entry(1) [OF assms(1,2) b(1)] by (simp add: is_active_iff)
  show "bw_backend b = Some a"
    using backend_entry(2) [OF assms(1,2) b(1)] rep_invD(2) [OF ctl_invD(2) [OF assms(1)] b] by auto
qed

lemma active_exists:
  assumes "ctl_inv c" "is_active c a"
  shows "\<exists>b. (a, b) \<in> set (active (backends (c_backend c)))"
proof -
  obtain mo where mo: "map_of (c_replicas c) a = Some mo" "mo \<noteq> ERR" using assms(2) by (auto simp: is_active_iff)
  then obtain b where "map_of (backends (c_backend c)) a = Some b" "bw_mode b = mo"
    using ctl_invD(4) [OF assms(1), of a] by (cases "map_of (backends (c_backend c)) a") auto
  then show ?thesis using mo(2) by (auto simp: active_def dest: map_of_SomeD)
qed

lemma active_distinct:
  assumes "ctl_inv c" "by_address c"
  shows "distinct (handles (active (backends (c_backend c))))"
proof -
  let ?bs = "active (backends (c_backend c))"
  have "handles ?bs = map Some (map fst ?bs)" using active_entry(2) [OF assms] by auto
  moreover have "distinct (map fst ?bs)"
    using rep_invD(1) [OF ctl_invD(2) [OF assms(1)]] by (simp add: active_def distinct_map_filter)
  moreover have "distinct (map Some xs) = distinct xs" for xs :: "string list" by (induction xs) auto
  ultimately show ?thesis by metis
qed

lemma available_iff:
  assumes "ctl_inv c"
  shows "backendsAvailable (c_backend c) \<longleftrightarrow> (\<exists>a. map_of (c_replicas c) a = Some RW)"
proof -
  let ?r = "c_backend c"
  have "backendsAvailable ?r \<longleftrightarrow> readable (backends ?r) \<noteq> []"
    using ctl_invD(2) [OF assms] by (auto simp: rep_inv_def built_def split: if_splits)
  also have "\<dots> \<longleftrightarrow> (\<exists>a b. (a, b) \<in> set (backends ?r) \<and> bw_mode b = RW)"
    by (auto simp: readable_def filter_empty_conv)
  also have "\<dots> \<longleftrightarrow> (\<exists>a. map_of (c_replicas c) a = Some RW)"
    unfolding ctl_invD(4) [OF assms] map_of_backend [OF ctl_invD(2) [OF assms], symmetric] by auto
  finally show ?thesis .
qed

section \<open>A replicated write\<close>

text \<open>The outcome of a write to healthy and faulty volumes: count, error and the new volumes.\<close>

definition write_outcome ::
  "('h, 's) layer_view \<Rightarrow> ('h, 's) faults \<Rightarrow> nat \<Rightarrow> (string, 'f) controller \<Rightarrow> (string \<Rightarrow> ('h, 's) volume) \<Rightarrow> nat \<Rightarrow> bytes \<Rightarrow>
     int \<Rightarrow> error option \<Rightarrow> (string \<Rightarrow> ('h, 's) volume) \<Rightarrow> bool" where
  "write_outcome V F n c w off b cnt err w' \<longleftrightarrow>
     (\<forall>a. is_active c a \<and> \<not> fail_write F a \<longrightarrow>
        volume_ok V n (w' a) \<and> (\<forall>p < n. content V (w' a) p = overwrite (content V (w a)) off b p) \<and> cnt = int (length b)) \<and>
     (err = None \<and> (\<forall>a. is_active c a \<longrightarrow> \<not> fail_write F a) \<or>
      (\<exists>es. err = Some (BackendErr es) \<and> es \<noteq> [] \<and> (\<forall>(a, e) \<in> set es. e = io_error) \<and>
         fst ` set es = {a. is_active c a \<and> fail_write F a}))"

lemma rep_write_pool:
  assumes dl: "disk_layer dops V" and inv: "ctl_inv c" and ba: "by_address c" and sched: "schedule (c_backend c) sched"
    and ok: "\<And>a. is_active c a \<Longrightarrow> volume_ok V n (w a)" and fit: "off + length b \<le> n"
    and rw: "\<exists>a. map_of (c_replicas c) a = Some RW"
  shows "\<exists>cnt err w'. rep_WriteAt (pool_ops dops F rest) sched (c_backend c) b (int off) w = Some (cnt, err, w') \<and>
    write_outcome V F n c w off b cnt err w'"
proof -
  let ?ops = "pool_ops dops F rest" and ?r = "c_backend c"
  have av: "backendsAvailable ?r" using available_iff [OF inv] rw by simp
  obtain cnt err w' where w': "rep_WriteAt ?ops sched ?r b (int off) w = Some (cnt, err, w')"
    and rp: "write_replicated ?ops (\<lambda>w h. w h) ?r b (int off) w cnt err w'"
    using volumes.rep_WriteAt_replicates [OF ctl_invD(2) [OF inv] av active_distinct [OF inv ba], of sched dops F rest b "int off" w]
      sched by (auto simp: schedule_def)
  have entry: "\<exists>e. (a, e) \<in> set (active (backends ?r)) \<and> the (bw_backend e) = a" if "is_active c a" for a
    using active_exists [OF inv that] active_entry(2) [OF inv ba] by fastforce
  have good: "fst (snd (pool_WriteAt dops F a b (int off) w)) = None \<and>
      volume_ok V n (snd (snd (pool_WriteAt dops F a b (int off) w)) a) \<and>
      (\<forall>p < n. content V (snd (snd (pool_WriteAt dops F a b (int off) w)) a) p = overwrite (content V (w a)) off b p)"
    if "is_active c a" "\<not> fail_write F a" for a
    using pool_write_ok [where w = w and h = a, OF dl ok [OF that(1)] fit that(2)] by (metis fst_conv snd_conv fun_upd_same)
  have bad: "fst (snd (pool_WriteAt dops F a b (int off) w)) = Some io_error" if "fail_write F a" for a
    using that by (simp add: pool_WriteAt_def)
  have errs: "fst (snd (pool_WriteAt dops F a b (int off) w)) = (if fail_write F a then Some io_error else None)"
    if "is_active c a" for a using good [OF that] bad by simp
  have st: "w' a = snd (snd (pool_WriteAt dops F a b (int off) w)) a" if "is_active c a" for a
    using rp entry [OF that] by (fastforce simp: write_replicated_def)
  have "write_outcome V F n c w off b cnt err w'"
    unfolding write_outcome_def
  proof (intro conjI allI impI)
    fix a p assume "is_active c a \<and> \<not> fail_write F a"
    then have a: "is_active c a" "\<not> fail_write F a" by simp_all
    show "volume_ok V n (w' a)" using good [OF a] st [OF a(1)] by simp
    show "p < n \<Longrightarrow> content V (w' a) p = overwrite (content V (w a)) off b p" using good [OF a] st [OF a(1)] by simp
    show "cnt = int (length b)"
    proof -
      obtain e where e: "(a, e) \<in> set (active (backends ?r))" "the (bw_backend e) = a" using entry [OF a(1)] by blast
      then have "\<exists>(a, e) \<in> set (active (backends ?r)). fst (snd (be_WriteAt ?ops (the (bw_backend e)) b (int off) w)) = None"
        using errs [OF a(1)] a(2) by (intro bexI [of _ "(a, e)"]) simp_all
      then show ?thesis using rp unfolding write_replicated_def by simp
    qed
  next
    show "err = None \<and> (\<forall>a. is_active c a \<longrightarrow> \<not> fail_write F a) \<or>
      (\<exists>es. err = Some (BackendErr es) \<and> es \<noteq> [] \<and> (\<forall>(a, e) \<in> set es. e = io_error) \<and> fst ` set es = {a. is_active c a \<and> fail_write F a})"
    proof (cases err)
      case None
      then have "\<forall>(a, e) \<in> set (active (backends ?r)). fst (snd (pool_WriteAt dops F (the (bw_backend e)) b (int off) w)) = None"
        using rp by (simp add: write_replicated_def)
      then have "\<not> fail_write F a" if "is_active c a" for a using entry [OF that] errs [OF that] by force
      then show ?thesis using None by simp
    next
      case (Some e)
      then obtain es where es: "err = Some (BackendErr es)" "distinct (map fst es)"
        "\<And>a e. map_of es a = Some e \<longleftrightarrow>
          (\<exists>b'. (a, b') \<in> set (active (backends ?r)) \<and> fst (snd (pool_WriteAt dops F (the (bw_backend b')) b (int off) w)) = Some e)"
        using rp by (auto simp: write_replicated_def)
      have mem: "(a, e) \<in> set es \<longleftrightarrow> is_active c a \<and> fail_write F a \<and> e = io_error" for a e
      proof -
        have "(a, e) \<in> set es \<longleftrightarrow> (\<exists>b'. (a, b') \<in> set (active (backends ?r)) \<and> fst (snd (pool_WriteAt dops F a b (int off) w)) = Some e)"
          unfolding map_of_eq_Some_iff [OF es(2), symmetric] es(3)
          by (intro ex_cong1 conj_cong refl) (simp add: active_entry(2) [OF inv ba])
        also have "\<dots> \<longleftrightarrow> is_active c a \<and> fail_write F a \<and> e = io_error"
          using active_entry(1) [OF inv ba] active_exists [OF inv] errs by (auto split: if_splits)
        finally show ?thesis .
      qed
      have "es \<noteq> []"
      proof
        assume "es = []"
        then have "\<not> fail_write F a" if "is_active c a" for a using mem [of a io_error] that by simp
        then have "\<forall>(a, e) \<in> set (active (backends ?r)). fst (snd (pool_WriteAt dops F (the (bw_backend e)) b (int off) w)) = None"
          using active_entry [OF inv ba] errs by fastforce
        then show False using rp Some by (auto simp: write_replicated_def)
      qed
      then show ?thesis using es(1) mem by (force simp: image_iff)
    qed
  qed
  then show ?thesis using w' by blast
qed

lemma io_error_not_exists [simp]: "\<not> isSnapshotDiskExist io_error"
  by code_simp

text \<open>After the errors of a write have been handled, what is left in mode RW has taken the write.\<close>

lemma demoted_sync:
  assumes "demoted c {a. is_active c a \<and> fail_write F a} c'" "in_sync V n c w data"
    and "write_outcome V F n c w off b cnt err w'"
  shows "in_sync V n c' w' (overwrite data off b)"
proof (unfold in_sync_def, intro allI impI)
  fix a assume a: "map_of (c_replicas c') a = Some RW"
  then have rw: "map_of (c_replicas c) a = Some RW" "\<not> (is_active c a \<and> fail_write F a)"
    using assms(1) by (auto simp: demoted_def split: if_splits)
  then have act: "is_active c a" "\<not> fail_write F a" by (auto simp: is_active_def)
  show "volume_ok V n (w' a) \<and> (\<forall>p < n. content V (w' a) p = overwrite data off b p)"
    using assms(3) act assms(2) rw(1) by (simp add: in_sync_def overwrite_def write_outcome_def)
qed

lemma demoted_by_address: "demoted c as c' \<Longrightarrow> by_address c \<Longrightarrow> by_address c'"
  by (simp add: demoted_def by_address_def)

lemma int64_in_range: "0 \<le> x \<Longrightarrow> x \<le> maxInt64 \<Longrightarrow> int64 x = x"
  by (simp add: minInt64_def)

text \<open>Handling the outcome of rep_write_pool.\<close>

lemma handle_write_errors:
  assumes inv: "ctl_inv c" and good: "\<exists>a. map_of (c_replicas c) a = Some RW \<and> \<not> fail_write F a"
    and err: "err = Some (BackendErr es)" "es \<noteq> []" "\<forall>(a, e) \<in> set es. e = io_error"
      "fst ` set es = {a. is_active c a \<and> fail_write F a}"
  obtains c' where "handleErrorNoLock (pool_ops dops F rest) c err w = Some (None, c', w)"
    "demoted c {a. is_active c a \<and> fail_write F a} c'"
proof -
  have "\<not> isSnapshotDiskExist e" if "(a, e) \<in> set es" for a e using err(3) that by auto
  then obtain c' where h: "handleErrorNoLock (pool_ops dops F rest) c (Some (BackendErr es)) w =
      Some (if \<exists>x. map_of (c_replicas c) x = Some RW \<and> x \<notin> fst ` set es then None else Some (BackendErr es), c', w)"
    "demoted c (fst ` set es) c'"
    using handleErrorNoLock_effect [OF inv pool_ops_simps(3) err(2), of dops F rest w] by blast
  have "\<exists>x. map_of (c_replicas c) x = Some RW \<and> x \<notin> fst ` set es" using good err(4) by auto
  then show ?thesis using that h err(1,4) by simp
qed

lemma ctl_write_sync:
  assumes E: "bops E = pool_ops dops F rest"
    and dl: "disk_layer dops V" and inv: "ctl_inv c" and ba: "by_address c" and sched: "schedule (c_backend c) sched"
    and sync: "in_sync V n c w data" and size: "c_size c = int n" "int n \<le> maxInt64"
    and nowo: "\<not> hasWOReplica c" and fit: "off + length b \<le> n"
    and good: "\<exists>a. map_of (c_replicas c) a = Some RW \<and> \<not> fail_write F a"
  shows "\<exists>c' w'. ctl_WriteAt E sched lat c b (int off) w = Some (int (length b), None, c', w') \<and>
    demoted c {a. is_active c a \<and> fail_write F a} c' \<and> in_sync V n c' w' (overwrite data off b)"
proof -
  let ?F = "{a. is_active c a \<and> fail_write F a}"
  have nw: "map_of (c_replicas c) a \<noteq> Some WO" for a
    using nowo by (auto simp: hasWOReplica_def list_ex_iff dest!: map_of_SomeD)
  have ok: "volume_ok V n (w a)" if "is_active c a" for a using that sync nw by (auto simp: is_active_def in_sync_def)
  have ex: "\<exists>a. map_of (c_replicas c) a = Some RW" using good by blast
  obtain cnt err w' where rw: "rep_WriteAt (pool_ops dops F rest) sched (c_backend c) b (int off) w = Some (cnt, err, w')"
    and wr: "write_outcome V F n c w off b cnt err w'"
    using rep_write_pool [where w = w and F = F and rest = rest, OF dl inv ba sched ok fit ex] by blast
  have cnt: "cnt = int (length b)" using good wr by (auto simp: is_active_def write_outcome_def)
  have guard: "\<not> (int off < 0 \<or> int64 (int off + int (length b)) > c_size c)"
    using size fit int64_in_range [of "int off + int (length b)"] by simp
  have normal: "writeInNormalMode (bops E) sched c b (int off) w = Some (cnt, err, c, w')"
    using rw E by (simp add: writeInNormalMode_def)
  from wr have "err = None \<and> (\<forall>a. is_active c a \<longrightarrow> \<not> fail_write F a) \<or>
      (\<exists>es. err = Some (BackendErr es) \<and> es \<noteq> [] \<and> (\<forall>(a, e) \<in> set es. e = io_error) \<and> fst ` set es = ?F)"
    by (simp add: write_outcome_def)
  then show ?thesis
  proof
    assume none: "err = None \<and> (\<forall>a. is_active c a \<longrightarrow> \<not> fail_write F a)"
    let ?c = "recordMetrics c False (int (length b)) lat"
    have "demoted c {} ?c"
      using inv by (simp add: demoted_def ctl_inv_cong [of ?c c] backend_of_def) (simp add: recordMetrics_def Let_def)
    moreover have "?F = {}" using none by blast
    ultimately have "demoted c ?F ?c" by metis
    then show ?thesis
      using guard nowo normal none cnt demoted_sync [OF _ sync wr] by (simp add: ctl_WriteAt_def Let_def)
  next
    assume "\<exists>es. err = Some (BackendErr es) \<and> es \<noteq> [] \<and> (\<forall>(a, e) \<in> set es. e = io_error) \<and> fst ` set es = ?F"
    then obtain es where es: "err = Some (BackendErr es)" "es \<noteq> []" "\<forall>(a, e) \<in> set es. e = io_error" "fst ` set es = ?F" by blast
    obtain c' where "handleErrorNoLock (bops E) c err w' = Some (None, c', w')" "demoted c ?F c'"
      using handle_write_errors [OF inv good es, of dops rest w'] unfolding E by blast
    then show ?thesis
      using guard nowo normal cnt es(1) demoted_sync [OF _ sync wr] by (simp add: ctl_WriteAt_def Let_def)
  qed
qed

section \<open>A read with fail-over\<close>

text \<open>The readers from index \<open>ix\<close> on until the first healthy one; its failed predecessors are in the error map.\<close>

lemma read_loop_pool:
  assumes dl: "disk_layer dops V" and fit: "off + m \<le> n"
    and rd: "\<And>i. i < length (readers r) \<Longrightarrow> \<exists>h. readers r ! i = Some h \<and> index_name (readerIndex r) i = h \<and>
      volume_ok V n (w h) \<and> (\<forall>p < n. content V (w h) p = data p)"
    and good: "\<exists>j < k. \<not> fail_read F (the (readers r ! tried r ix j))"
    and ix: "ix < length (readers r)"
    and errs: "\<forall>(a, e) \<in> set errs. e = io_error \<and> fail_read F a \<and> Some a \<in> set (readers r)"
  shows "\<exists>errs'. read_loop (pool_ops dops F rest) r (int off) w k ix (zeros m) c0 errs =
      Some (int m, errs', map data [off ..< off + m]) \<and>
    (\<forall>(a, e) \<in> set errs'. e = io_error \<and> fail_read F a \<and> Some a \<in> set (readers r))"
  using good ix errs
proof (induction k arbitrary: ix c0 errs)
  case (Suc k)
  let ?N = "length (readers r)"
  obtain h where h: "readers r ! ix = Some h" "index_name (readerIndex r) ix = h" "volume_ok V n (w h)"
    "\<forall>p < n. content V (w h) p = data p"
    using rd [OF Suc.prems(2)] by blast
  have t0: "tried r ix 0 = ix" using Suc.prems(2) by (simp add: tried_def)
  show ?case
  proof (cases "fail_read F h")
    case False
    have "map (content V (w h)) [off ..< off + m] = map data [off ..< off + m]" using h(4) fit by simp
    then have "pool_ReadAt dops F h (zeros m) (int off) w = (int m, None, map data [off ..< off + m])"
      using pool_read_ok [where w = w and h = h, OF dl h(3) fit False] by simp
    then show ?thesis using h(1) Suc.prems(3) by simp
  next
    case True
    then obtain j where j: "j < Suc k" "\<not> fail_read F (the (readers r ! tried r ix j))" using Suc.prems(1) by blast
    then obtain i where i: "j = Suc i" using True t0 h(1) by (cases j) auto
    have lt: "(ix + 1) mod ?N < ?N" using Suc.prems(2) by (intro mod_less_divisor) linarith
    have "tried r ((ix + 1) mod ?N) i = tried r ix (Suc i)" by (simp add: tried_def mod_add_left_eq)
    then have g: "\<exists>j < k. \<not> fail_read F (the (readers r ! tried r ((ix + 1) mod ?N) j))" using j i by auto
    have "set (AList.update h io_error errs) \<subseteq> insert (h, io_error) (set errs)"
      by (induction errs) auto
    moreover have "Some h \<in> set (readers r)" using h(1) Suc.prems(2) by (metis nth_mem)
    ultimately have e: "\<forall>(a, e) \<in> set (AList.update h io_error errs). e = io_error \<and> fail_read F a \<and> Some a \<in> set (readers r)"
      using Suc.prems(3) True by blast
    have "pool_ReadAt dops F h (zeros m) (int off) w = (0, Some io_error, zeros m)" using True by (simp add: pool_ReadAt_def)
    then show ?thesis using Suc.IH [OF g lt e, of 0] h(1,2) by simp
  qed
qed simp

lemma readers_pool:
  assumes inv: "ctl_inv c" and ba: "by_address c" and sync: "in_sync V n c w data" and av: "backendsAvailable (c_backend c)"
    and i: "i < length (readers (c_backend c))"
  shows "\<exists>h. readers (c_backend c) ! i = Some h \<and> index_name (readerIndex (c_backend c)) i = h \<and>
      map_of (c_replicas c) h = Some RW \<and> volume_ok V n (w h) \<and> (\<forall>p < n. content V (w h) p = data p)"
proof -
  let ?r = "c_backend c"
  have bt: "readers ?r = handles (readable (backends ?r))" "names_match (readerIndex ?r) (readable (backends ?r))"
    using available_built [OF ctl_invD(2) [OF inv] av] by (simp_all add: built_def)
  obtain a b where ab: "readable (backends ?r) ! i = (a, b)" by (cases "readable (backends ?r) ! i")
  have il: "i < length (readable (backends ?r))" using i bt(1) by simp
  then have "(a, b) \<in> set (readable (backends ?r))" using ab by (metis nth_mem)
  then have m: "(a, b) \<in> set (backends ?r)" "bw_mode b = RW" by (auto simp: readable_def)
  have rw: "map_of (c_replicas c) a = Some RW" using backend_entry(1) [OF inv ba m(1)] m(2) by simp
  have "bw_backend b = Some a" using backend_entry(2) [OF inv ba m(1)] rep_invD(2) [OF ctl_invD(2) [OF inv] m(1)] m(2) by auto
  then show ?thesis using ab il bt index_name_match [OF bt(2) il] rw sync by (simp add: in_sync_def)
qed

lemma rw_is_reader:
  assumes inv: "ctl_inv c" and ba: "by_address c" and rw: "map_of (c_replicas c) a = Some RW"
  shows "Some a \<in> set (readers (c_backend c))"
proof -
  let ?r = "c_backend c"
  have av: "backendsAvailable ?r" using available_iff [OF inv] rw by blast
  obtain b where "(a, b) \<in> set (active (backends ?r))" using active_exists [OF inv] rw by (auto simp: is_active_def)
  then have b: "(a, b) \<in> set (backends ?r)" "bw_backend b = Some a" using active_entry(2) [OF inv ba] by (auto simp: active_def)
  then have "bw_mode b = RW" using backend_entry(1) [OF inv ba b(1)] rw by simp
  then have "(a, b) \<in> set (readable (backends ?r))" using b(1) by (simp add: readable_def)
  then show ?thesis using b(2) available_built [OF ctl_invD(2) [OF inv] av] by (force simp: built_def)
qed

lemma tried_all:
  assumes "ix < length (readers r)" "i < length (readers r)"
  shows "\<exists>j < length (readers r). tried r ix j = i"
proof (cases "ix \<le> i")
  case True
  then show ?thesis using assms by (intro exI [of _ "i - ix"]) (auto simp: tried_def)
next
  case False
  then have "(ix + (i + length (readers r) - ix)) mod length (readers r) = i" using assms by simp
  then show ?thesis using assms False by (intro exI [of _ "i + length (readers r) - ix"]) (auto simp: tried_def)
qed

lemma rep_read_pool:
  assumes dl: "disk_layer dops V" and inv: "ctl_inv c" and ba: "by_address c" and sync: "in_sync V n c w data"
    and fit: "off + m \<le> n" and good: "\<exists>a. map_of (c_replicas c) a = Some RW \<and> \<not> fail_read F a"
  shows "\<exists>errs k. rep_ReadAt (pool_ops dops F rest) (c_backend c) (zeros m) (int off) w =
      Some (int m, if errs \<noteq> [] then Some (BackendErr errs) else None, map data [off ..< off + m], (c_backend c)\<lparr>r_next := k\<rparr>) \<and>
    (\<forall>(a, e) \<in> set errs. e = io_error \<and> fail_read F a \<and> map_of (c_replicas c) a = Some RW)"
proof -
  let ?r = "c_backend c"
  let ?r' = "?r\<lparr>r_next := (r_next ?r + 1) smod int (length (readers ?r))\<rparr>"
  let ?ix = "nat (r_next ?r')"
  obtain a where a: "map_of (c_replicas c) a = Some RW" "\<not> fail_read F a" using good by blast
  have av: "backendsAvailable ?r" using available_iff [OF inv] a by blast
  have rd: "\<exists>h. readers ?r' ! i = Some h \<and> index_name (readerIndex ?r') i = h \<and>
      volume_ok V n (w h) \<and> (\<forall>p < n. content V (w h) p = data p)" if "i < length (readers ?r')" for i
    using readers_pool [OF inv ba sync av] that by auto
  obtain i where i: "i < length (readers ?r)" "readers ?r ! i = Some a"
    using rw_is_reader [OF inv ba a(1)] by (auto simp: in_set_conv_nth)
  then have ne: "readers ?r \<noteq> []" by auto
  then have ix: "?ix < length (readers ?r')" using next_reader_less [of "length (readers ?r)" "r_next ?r + 1"] by simp
  obtain j where "j < length (readers ?r')" "tried ?r' ?ix j = i" using tried_all [OF ix, of i] i(1) by auto
  then have g: "\<exists>j < length (readers ?r'). \<not> fail_read F (the (readers ?r' ! tried ?r' ?ix j))" using i(2) a(2) by auto
  obtain errs where e: "read_loop (pool_ops dops F rest) ?r' (int off) w (length (readers ?r')) ?ix (zeros m) 0 [] =
      Some (int m, errs, map data [off ..< off + m])"
    "\<forall>(a, e) \<in> set errs. e = io_error \<and> fail_read F a \<and> Some a \<in> set (readers ?r')"
    using read_loop_pool [where w = w and rest = rest and errs = "[]" and ?c0.0 = 0, OF dl fit rd g ix] by auto
  have "map_of (c_replicas c) x = Some RW" if "Some x \<in> set (readers ?r')" for x
    using readers_pool [OF inv ba sync av] that by (auto simp: in_set_conv_nth)
  then have "\<forall>(a, e) \<in> set errs. e = io_error \<and> fail_read F a \<and> map_of (c_replicas c) a = Some RW" using e(2) by fast
  then show ?thesis using av ne e(1) by (auto simp: rep_ReadAt_def Let_def)
qed

text \<open>
  A read through the controller returns the common content, as long as one replica in mode RW
  answers; the replicas that failed before it are set to ERR.
\<close>

lemma ctl_read_sync:
  assumes E: "bops E = pool_ops dops F rest"
    and dl: "disk_layer dops V" and inv: "ctl_inv c" and ba: "by_address c"
    and sync: "in_sync V n c w data" and size: "c_size c = int n" "int n \<le> maxInt64" and fit: "off + m \<le> n"
    and good: "\<exists>a. map_of (c_replicas c) a = Some RW \<and> \<not> fail_read F a"
  shows "\<exists>c' as. ctl_ReadAt E lat c (zeros m) (int off) w = Some (int m, None, map data [off ..< off + m], c', w) \<and>
    as \<subseteq> {a. fail_read F a \<and> map_of (c_replicas c) a = Some RW} \<and> demoted c as c' \<and> in_sync V n c' w data"
proof -
  obtain errs k where r: "rep_ReadAt (pool_ops dops F rest) (c_backend c) (zeros m) (int off) w =
      Some (int m, if errs \<noteq> [] then Some (BackendErr errs) else None, map data [off ..< off + m], (c_backend c)\<lparr>r_next := k\<rparr>)"
    "\<forall>(a, e) \<in> set errs. e = io_error \<and> fail_read F a \<and> map_of (c_replicas c) a = Some RW"
    using rep_read_pool [OF dl inv ba sync fit good] by blast
  let ?c = "c\<lparr>c_backend := (c_backend c)\<lparr>r_next := k\<rparr>\<rparr>"
  have guard: "\<not> (int off < 0 \<or> int64 (int off + int m) > c_size c)"
    using size fit int64_in_range [of "int off + int m"] by simp
  have dem: "demoted c {} ?c" using inv by (simp add: demoted_def backend_of_def)
  have sub: "in_sync V n c' w data" if "demoted c as c'" for as c'
    using that sync by (auto simp: in_sync_def demoted_def split: if_splits)
  show ?thesis
  proof (cases "errs = []")
    case True
    let ?c' = "recordMetrics ?c True (int m) lat"
    have "demoted ?c {} ?c'" using inv
      by (simp add: demoted_def ctl_inv_cong [of ?c' ?c] backend_of_def) (simp add: recordMetrics_def Let_def)
    then have d: "demoted c {} ?c'" using demoted_trans [OF dem] by fastforce
    have "ctl_ReadAt E lat c (zeros m) (int off) w = Some (int m, None, map data [off ..< off + m], ?c', w)"
      using guard r(1) True E by (simp add: ctl_ReadAt_def Let_def)
    then show ?thesis using d sub [OF d] by blast
  next
    case False
    have ne: "\<not> isSnapshotDiskExist e" if "(a, e) \<in> set errs" for a e using r(2) that by auto
    have ci: "ctl_inv ?c" using inv by simp
    obtain c' where h: "handleErrorNoLock (pool_ops dops F rest) ?c (Some (BackendErr errs)) w =
        Some (if \<exists>x. map_of (c_replicas ?c) x = Some RW \<and> x \<notin> fst ` set errs then None else Some (BackendErr errs), c', w)"
      "demoted ?c (fst ` set errs) c'"
      using handleErrorNoLock_effect [OF ci pool_ops_simps(3) False, of dops F rest w] ne by blast
    have "\<exists>x. map_of (c_replicas ?c) x = Some RW \<and> x \<notin> fst ` set errs" using good r(2) by force
    then have "ctl_ReadAt E lat c (zeros m) (int off) w = Some (int m, None, map data [off ..< off + m], c', w)"
      using guard r(1) False E h(1) by (simp add: ctl_ReadAt_def Let_def)
    moreover have d: "demoted c (fst ` set errs) c'" using demoted_trans [OF dem h(2)] by simp
    moreover have "fst ` set errs \<subseteq> {a. fail_read F a \<and> map_of (c_replicas c) a = Some RW}" using r(2) by force
    ultimately show ?thesis using sub [OF d] by blast
  qed
qed

section \<open>Writing while a replica is rebuilt\<close>

text \<open>The aligned buffer that writeInWOMode assembles overwrites the same bytes as the request.\<close>

lemma overwrite_aligned:
  assumes "s \<le> off" "off + length b \<le> e"
  shows "overwrite data s (blit (map data [s ..< e]) (off - s) b) = overwrite data off b"
proof
  fix p
  have lb: "length (blit (map data [s ..< e]) (off - s) b) = e - s" using assms by simp
  show "overwrite data s (blit (map data [s ..< e]) (off - s) b) p = overwrite data off b p"
  proof (cases "s \<le> p \<and> p < e")
    case True
    then have "blit (map data [s ..< e]) (off - s) b ! (p - s) = (if off \<le> p \<and> p < off + length b then b ! (p - off) else data p)"
      using assms nth_blit [of "off - s" "map data [s ..< e]" "p - s" b] by auto
    then show ?thesis using True lb by (simp add: overwrite_def)
  next
    case False
    then show ?thesis using lb assms by (auto simp: overwrite_def)
  qed
qed

lemma write_outcome_aligned:
  assumes "write_outcome V F n c w s (blit (map data [s ..< e]) (off - s) b) cnt err w'" "in_sync V n c w data"
    and "s \<le> off" "off + length b \<le> e" "demoted c {a. is_active c a \<and> fail_write F a} c'"
  shows "in_sync V n c' w' (overwrite data off b)"
  using demoted_sync [OF assms(5,2,1)] overwrite_aligned [OF assms(3,4), of data] by simp

text \<open>What writeInWOMode does: a write of \<open>b'\<close> at \<open>s\<close> that amounts to the request.\<close>

definition wo_written ::
  "('h, 's) layer_view \<Rightarrow> ('h, 's) faults \<Rightarrow> nat \<Rightarrow> (string, 'f) controller \<Rightarrow> (string \<Rightarrow> ('h, 's) volume) \<Rightarrow> (nat \<Rightarrow> byte) \<Rightarrow>
     nat \<Rightarrow> bytes \<Rightarrow> (int \<times> error option \<times> (string, 'f) controller \<times> (string \<Rightarrow> ('h, 's) volume)) option \<Rightarrow> bool" where
  "wo_written V F n c w data off b res \<longleftrightarrow>
     (\<exists>cnt cnt' err k w' s b'. res = Some (cnt, err, c\<lparr>c_backend := (c_backend c)\<lparr>r_next := k\<rparr>\<rparr>, w') \<and>
        write_outcome V F n c w s b' cnt' err w' \<and> overwrite data s b' = overwrite data off b)"

lemma wo_write_unaligned:
  assumes dl: "disk_layer dops V" and inv: "ctl_inv c" and ba: "by_address c" and sched: "schedule (c_backend c) sched"
    and sync: "in_sync V n c w data" and size: "int n \<le> maxInt64 - 4096" "4096 dvd n"
    and ok: "\<And>a. is_active c a \<Longrightarrow> volume_ok V n (w a)" and fit: "off + length b \<le> n"
    and ex: "\<exists>a. map_of (c_replicas c) a = Some RW" and reads: "\<And>a. map_of (c_replicas c) a = Some RW \<Longrightarrow> \<not> fail_read F a"
    and f: "b \<noteq> []" "\<not> (int off mod 4096 = 0 \<and> int (length b) mod 4096 = 0)"
  shows "wo_written V F n c w data off b (writeInWOMode (pool_ops dops F rest) sched c b (int off) w)"
proof -
  have rgood: "\<exists>a. map_of (c_replicas c) a = Some RW \<and> \<not> fail_read F a" using ex reads by blast
  have lim: "int off + int (length b) \<le> maxInt64 - 4096" using size(1) fit by linarith
  define s where "s = off - off mod 4096"
  have ist: "int off - int off mod 4096 = int s" by (simp add: s_def of_nat_diff zmod_int)
  have so: "s \<le> off" "off mod 4096 = off - s" by (simp_all add: s_def)
  obtain e where e: "int off + int (length b) \<le> e" "e < int off + int (length b) + 4096" "e mod 4096 = 0"
    "writeInWOMode (pool_ops dops F rest) sched c b (int off) w = do {
       (_, err, readBuf, r) \<leftarrow> rep_ReadAt (pool_ops dops F rest) (c_backend c) (zeros (nat (e - int s))) (int s) w;
       (case err of
          Some x \<Rightarrow> Some (0, Some (Wrapped ''failed to retrieve aligned sectors from RW replicas'' x), c\<lparr>c_backend := r\<rparr>, w)
        | None \<Rightarrow> do {
            _ \<leftarrow> slice_of readBuf (int off mod 4096) (int off mod 4096 + int (length b));
            (n, err, w') \<leftarrow> rep_WriteAt (pool_ops dops F rest) sched r (blit readBuf (nat (int off mod 4096)) b) (int s) w;
            Some (if err = None then int (length b)
                  else if n < int off mod 4096 then 0
                  else if n - int off mod 4096 < int (length b) then n - int off mod 4096 else int (length b),
                  err, c\<lparr>c_backend := r\<rparr>, w')
          })
     }"
    using writeInWOMode_eq [OF _ lim f, of "pool_ops dops F rest" sched c w] unfolding ist by auto
  define en where "en = nat e"
  have en: "e = int en" "off + length b \<le> en" using e(1) by (simp_all add: en_def)
  have "en \<le> n"
  proof -
    have "4096 dvd en" using e(3) en(1) by presburger
    then obtain q r where "en = 4096 * q" "n = 4096 * r" using size(2) by (auto elim!: dvdE)
    moreover have "en < off + length b + 4096" using e(2) en(1) by linarith
    ultimately show ?thesis using fit by simp
  qed
  obtain errs k where r: "rep_ReadAt (pool_ops dops F rest) (c_backend c) (zeros (en - s)) (int s) w =
      Some (int (en - s), if errs \<noteq> [] then Some (BackendErr errs) else None, map data [s ..< s + (en - s)], (c_backend c)\<lparr>r_next := k\<rparr>)"
    "\<forall>(a, e) \<in> set errs. e = io_error \<and> fail_read F a \<and> map_of (c_replicas c) a = Some RW"
    using rep_read_pool [OF dl inv ba sync _ rgood, of s "en - s" rest] \<open>en \<le> n\<close> so en(2) by auto
  have errs: "errs = []" using r(2) reads by (cases errs) auto
  let ?b = "blit (map data [s ..< en]) (off - s) b"
  let ?c = "c\<lparr>c_backend := (c_backend c)\<lparr>r_next := k\<rparr>\<rparr>"
  have c: "ctl_inv ?c" "by_address ?c" "schedule (c_backend ?c) sched" "\<exists>a. map_of (c_replicas ?c) a = Some RW"
    using inv ba sched ex by (simp_all add: by_address_def backend_of_def schedule_def)
  have act: "is_active ?c = is_active c" by (auto simp: is_active_def fun_eq_iff)
  have okc: "volume_ok V n (w a)" if "is_active ?c a" for a using ok that act by simp
  have len: "s + length ?b \<le> n" using so en(2) \<open>en \<le> n\<close> by simp
  obtain cnt err w' where wr: "rep_WriteAt (pool_ops dops F rest) sched (c_backend ?c) ?b (int s) w = Some (cnt, err, w')"
    "write_outcome V F n ?c w s ?b cnt err w'"
    using rep_write_pool [where w = w and F = F and rest = rest, OF dl c(1-3) okc len c(4)] by blast
  have "write_outcome V F n c w s ?b cnt err w'" using wr(2) act by (simp add: write_outcome_def)
  moreover have "\<exists>cnt. writeInWOMode (pool_ops dops F rest) sched c b (int off) w = Some (cnt, err, ?c, w')"
  proof -
    have "int off mod 4096 = int (off - s)" using so(2) by (metis of_nat_numeral zmod_int)
    then have eqs: "s + (en - s) = en" "nat (int en - int s) = en - s" "int off mod 4096 = int (off - s)"
      using so(1) en(2) by linarith+
    obtain sl where "slice_of (map data [s ..< en]) (int (off - s)) (int (off - s) + int (length b)) = Some sl"
      using so(1) en(2) by (simp add: slice_of_def)
    then show ?thesis
      unfolding e(4) en(1) eqs(2,3) by (simp add: r(1) [unfolded eqs(1)] errs wr(1) [simplified])
  qed
  ultimately show ?thesis using overwrite_aligned [OF so(1) en(2), of data] unfolding wo_written_def by blast
qed

lemma ctl_write_rebuild_sync:
  assumes E: "bops E = pool_ops dops F rest"
    and dl: "disk_layer dops V" and inv: "ctl_inv c" and ba: "by_address c" and sched: "schedule (c_backend c) sched"
    and sync: "in_sync V n c w data" and size: "c_size c = int n" "int n \<le> maxInt64 - 4096" "4096 dvd n"
    and wo: "hasWOReplica c" "\<And>a. map_of (c_replicas c) a = Some WO \<Longrightarrow> volume_ok V n (w a)"
    and fit: "off + length b \<le> n"
    and good: "\<exists>a. map_of (c_replicas c) a = Some RW \<and> \<not> fail_write F a"
    and reads: "\<And>a. map_of (c_replicas c) a = Some RW \<Longrightarrow> \<not> fail_read F a"
  shows "\<exists>cnt c' w'. ctl_WriteAt E sched lat c b (int off) w = Some (cnt, None, c', w') \<and>
    demoted c {a. is_active c a \<and> fail_write F a} c' \<and> in_sync V n c' w' (overwrite data off b)"
proof -
  let ?F = "{a. is_active c a \<and> fail_write F a}"
  have ok: "volume_ok V n (w a)" if "is_active c a" for a using that sync wo(2) by (auto simp: is_active_def in_sync_def)
  have ex: "\<exists>a. map_of (c_replicas c) a = Some RW" using good by blast
  have guard: "\<not> (int off < 0 \<or> int64 (int off + int (length b)) > c_size c)"
    using size fit int64_in_range [of "int off + int (length b)"] by simp
  let ?res = "writeInWOMode (pool_ops dops F rest) sched c b (int off) w"
  have "wo_written V F n c w data off b ?res"
  proof (cases "b = [] \<or> (int off mod 4096 = 0 \<and> int (length b) mod 4096 = 0)")
    case True
    then have al: "int (length b) = 0 \<or> int off smod VolumeSectorSize = 0 \<and> int (length b) smod VolumeSectorSize = 0"
      by (auto simp: VolumeSectorSize_def smod_nonneg)
    obtain cnt err w' where "rep_WriteAt (pool_ops dops F rest) sched (c_backend c) b (int off) w = Some (cnt, err, w')"
      "write_outcome V F n c w off b cnt err w'"
      using rep_write_pool [where w = w and F = F and rest = rest, OF dl inv ba sched ok fit ex] by blast
    moreover from this(1) have "?res = Some (cnt, err, c\<lparr>c_backend := (c_backend c)\<lparr>r_next := r_next (c_backend c)\<rparr>\<rparr>, w')"
      using al by (auto simp: writeInWOMode_def Let_def)
    ultimately show ?thesis unfolding wo_written_def by blast
  next
    case False
    then show ?thesis using wo_write_unaligned [OF dl inv ba sched sync size(2,3) ok fit ex reads] by blast
  qed
  then obtain cnt cnt' err k w' s b' where res: "?res = Some (cnt, err, c\<lparr>c_backend := (c_backend c)\<lparr>r_next := k\<rparr>\<rparr>, w')"
    and wr: "write_outcome V F n c w s b' cnt' err w'" and ov: "overwrite data s b' = overwrite data off b"
    unfolding wo_written_def by blast
  let ?c = "c\<lparr>c_backend := (c_backend c)\<lparr>r_next := k\<rparr>\<rparr>"
  have dem: "demoted c {} ?c" using inv by (simp add: demoted_def backend_of_def)
  have act: "is_active ?c = is_active c" by (auto simp: is_active_def fun_eq_iff)
  from wr consider "err = None" "\<forall>a. is_active c a \<longrightarrow> \<not> fail_write F a"
    | es where "err = Some (BackendErr es)" "es \<noteq> []" "\<forall>(a, e) \<in> set es. e = io_error" "fst ` set es = {a. is_active ?c a \<and> fail_write F a}"
    unfolding act by (auto simp: write_outcome_def)
  then show ?thesis
  proof cases
    case 1
    let ?c' = "recordMetrics ?c False (int (length b)) lat"
    have "demoted ?c {} ?c'" using inv
      by (simp add: demoted_def ctl_inv_cong [of ?c' ?c] backend_of_def) (simp add: recordMetrics_def Let_def)
    then have "demoted c {} ?c'" using demoted_trans [OF dem] by fastforce
    moreover have "?F = {}" using 1 by blast
    ultimately have "demoted c ?F ?c'" by metis
    then show ?thesis
      using guard wo(1) res 1 E ov demoted_sync [OF _ sync wr] by (auto simp: ctl_WriteAt_def Let_def)
  next
    case 2
    have "\<exists>a. map_of (c_replicas ?c) a = Some RW \<and> \<not> fail_write F a" and "ctl_inv ?c" using good inv by simp_all
    then obtain c' where h: "handleErrorNoLock (pool_ops dops F rest) ?c err w' = Some (None, c', w')"
      "demoted ?c {a. is_active ?c a \<and> fail_write F a} c'"
      using handle_write_errors [of ?c F err es dops rest w'] 2 by blast
    have "demoted c ?F c'" using demoted_trans [OF dem h(2)] act by simp
    then show ?thesis
      using guard wo(1) res 2(1) E h(1) ov demoted_sync [OF _ sync wr] by (auto simp: ctl_WriteAt_def Let_def)
  qed
qed

end
