(* ===== verification/Controller_Thms.thy ===== *)
theory Controller_Thms
  imports Volume_Sync
begin

text \<open>
  The properties of the controller and the replicator, with witnesses on a controller over two volumes
  of the sparse-file store.
\<close>

section \<open>A controller with two replicas\<close>

type_synonym demo_world = "string \<Rightarrow> (string, sstore) volume"

definition demo_rest :: "(string, demo_world) backend_ops" where
  "demo_rest = \<lparr>be_ReadAt = \<lambda>h b off w. (0, None, b), be_WriteAt = \<lambda>h b off w. (0, None, w), be_UnmapAt = \<lambda>h l off w. (0, None, w),
     be_Snapshot = \<lambda>h n u cr l w. (None, w), be_Expand = \<lambda>h n w. (None, w), be_Size = \<lambda>h w. (8, None), be_SectorSize = \<lambda>h w. (2, None),
     be_GetRevisionCounter = \<lambda>h w. (if h = ''a'' then 7 else 5, None), be_SetRevisionCounter = \<lambda>h n w. (None, w),
     be_GetState = \<lambda>h w. (''open'', None), be_StopMonitoring = \<lambda>h w. w, be_IsRevisionCounterDisabled = \<lambda>h w. (False, None),
     be_GetLastModifyTime = \<lambda>h w. (0, None), be_GetHeadFileSize = \<lambda>h w. (0, None),
     be_GetUnmapMarkSnapChainRemoved = \<lambda>h w. (False, None), be_SetUnmapMarkSnapChainRemoved = \<lambda>h e w. (None, w),
     be_ResetRebuild = \<lambda>h w. (None, w), be_SetSnapshotMaxCount = \<lambda>h n w. (None, w), be_SetSnapshotMaxSize = \<lambda>h n w. (None, w),
     be_GetSnapshotCountAndSizeUsage = \<lambda>h w. (0, 0, None), be_Close = \<lambda>h w. (None, w)\<rparr>"

definition demo_host :: "demo_world host_ops" where
  "demo_host = \<lparr>mt_List = \<lambda>w. ([], None), mt_IsMountPoint = \<lambda>p w. (False, None), mt_Mount = \<lambda>s t w. (None, w),
     mt_GetDeviceNameFromMount = \<lambda>p w. ('''', None), mt_CleanupMountPoint = \<lambda>p w. (None, w), os_MkdirAll = \<lambda>p w. (None, w),
     ex_fsfreeze = \<lambda>as w. (None, w), ns_Sync = \<lambda>w. (None, w)\<rparr>"

definition no_faults :: "(string, sstore) faults" where
  "no_faults = \<lparr>fail_read = \<lambda>a. False, fail_write = \<lambda>a. False, garble = id\<rparr>"

text \<open>Replica b fails.\<close>

definition b_fails :: "(string, sstore) faults" where
  "b_fails = \<lparr>fail_read = \<lambda>a. a = ''b'', fail_write = \<lambda>a. a = ''b'', garble = \<lambda>x. (ex_dd, Map.empty)\<rparr>"

definition demo_env :: "nat \<Rightarrow> (string, sstore) faults \<Rightarrow> (string, unit, demo_world) ctl_env" where
  "demo_env bs F = \<lparr>bops = pool_ops (sf_ops bs) F demo_rest, factory_Create = \<lambda>a w. (Inr a, w), fe_FrontendName = \<lambda>f. ''rest'',
     fe_State = \<lambda>f w. ''up'', fe_Init = \<lambda>f v sz ss w. (None, w), fe_Startup = \<lambda>f w. (None, w), fe_Shutdown = \<lambda>f w. (None, w),
     fe_Upgrade = \<lambda>f v sz ss w. (None, w), fe_Expand = \<lambda>f n w. (None, w), fe_Endpoint = \<lambda>f w. '''', rest_New = (), socket_New = (),
     tgt_New = \<lambda>k x y z. (), host = demo_host, env_now = \<lambda>w. ''now'', env_UUID = \<lambda>w. ''id''\<rparr>"

definition demo_world :: demo_world where
  "demo_world a = (ex_dd, ex_store)"

definition demo_new :: "(string, unit) controller" where
  "demo_new = (NewController ''vol'' (Some ()) False False False False 15 250 0)\<lparr>c_size := 8\<rparr>"

text \<open>Two replicas in mode RW, and one in mode RW with one in mode WO.\<close>

definition demo_ctl :: "mode \<Rightarrow> (string, unit) controller" where
  "demo_ctl mo = added (added demo_new (Some ''a'') ''a'' RW) (Some ''b'') ''b'' mo"

lemma demo_env_bops [simp]: "bops (demo_env bs F) = pool_ops (sf_ops bs) F demo_rest"
  by (simp add: demo_env_def)

lemma backend_of_added:
  assumes "ctl_inv c" "fst (canAdd c a)"
  shows "backend_of (added c nb a mo) x = (if x = a then nb else backend_of c x)"
proof -
  have "map_of (c_replicas c) a = None" using assms(2) by (simp add: canAdd_iff hasReplica_iff map_of_eq_None_iff)
  then have "map_of (backends (c_backend c)) a = None" using ctl_invD(4) [OF assms(1), of a] by simp
  then show ?thesis
    by (auto simp: backend_of_def added_def AddBackend_def build_built(2) map_add_def split: option.split)
qed

lemma demo_ctl_facts:
  "ctl_inv (demo_ctl mo)" "by_address (demo_ctl mo)" "c_size (demo_ctl mo) = 8"
  "map_of (c_replicas (demo_ctl mo)) x = (if x = ''a'' then Some RW else if x = ''b'' then Some mo else None)"
proof -
  have can: "fst (canAdd demo_new ''a'')" "fst (canAdd (added demo_new (Some ''a'') ''a'' RW) ''b'')" by code_simp+
  have i0: "ctl_inv demo_new" by (simp add: demo_new_def)
  have i1: "ctl_inv (added demo_new (Some ''a'') ''a'' RW)" by (rule added_inv [OF i0 can(1)]) simp
  then show "ctl_inv (demo_ctl mo)" unfolding demo_ctl_def by (rule added_inv [OF _ can(2)]) simp
  have "backend_of demo_new x = None" for x
    by (simp add: backend_of_def demo_new_def NewController_def c_reset_def new_replicator_def)
  then show "by_address (demo_ctl mo)"
    unfolding by_address_def demo_ctl_def
    by (simp add: backend_of_added [OF i1 can(2)] backend_of_added [OF i0 can(1)])
  show "c_size (demo_ctl mo) = 8" by (simp add: demo_ctl_def added_def demo_new_def)
  show "map_of (c_replicas (demo_ctl mo)) x = (if x = ''a'' then Some RW else if x = ''b'' then Some mo else None)"
    by (simp add: demo_ctl_def added_def demo_new_def NewController_def c_reset_def)
qed

lemma demo_schedule: "mo \<noteq> ERR \<Longrightarrow> schedule (c_backend (demo_ctl mo)) [1, 0]"
  by (cases mo) (simp_all, code_simp+)

lemma demo_volume_ok: "volume_ok (sf_view 2) 8 (demo_world a)"
proof -
  have "{1 ..< 3 :: nat} = {1, 2}" by auto
  then show ?thesis using ex_wf
    by (simp add: volume_ok_def demo_world_def ex_simps)
      (simp add: ex_dd_def layer_size_def sf_view_def ex_store_def numeral_3_eq_3)
qed

lemma demo_sync: "in_sync (sf_view 2) 8 (demo_ctl mo) demo_world (content (sf_view 2) (ex_dd, ex_store))"
  using demo_volume_ok by (simp add: in_sync_def demo_world_def)

definition demo_rclient :: "demo_world rclient" where
  "demo_rclient = \<lparr>rc_New = \<lambda>a i. None, rc_GetReplica = \<lambda>a w. Inl io_error, rc_RemoveDisk = \<lambda>a d f w. (None, w),
     rc_Revert = \<lambda>a n t w. (None, w), rc_LaunchReceiver = \<lambda>a t w. (Inr (''host'', 1), w), rc_SendFile = \<lambda>a f h p w. (None, w)\<rparr>"

definition demo_start :: "(string, unit) controller" where
  "demo_start = NewController ''vol'' (Some ()) False False False False 15 250 0"

text \<open>The states after adding replica a, and after its monitor has failed.\<close>

definition demo_one :: "mode \<Rightarrow> (string, unit) controller" where
  "demo_one mo = (demo_start\<lparr>c_size := 8\<rparr>)\<lparr>c_replicas := [(''a'', mo)],
     c_backend := buildReaderWriterUnmappers (new_replicator\<lparr>backends := [(''a'', \<lparr>bw_backend = Some ''a'', bw_mode = mo\<rparr>)]\<rparr>)\<rparr>"

lemma demo_steps:
  "ctl_step (demo_env 2 no_faults) demo_rclient (demo_start, demo_world) (demo_one RW, demo_world)"
  "ctl_step (demo_env 2 no_faults) demo_rclient (demo_one RW, demo_world) (demo_one ERR, demo_world)"
  "ctl_step (demo_env 2 no_faults) demo_rclient (demo_one ERR, demo_world) (demo_one ERR, demo_world)"
proof -
  have "addReplica (demo_env 2 no_faults) demo_start ''a'' False RW demo_world = Some (None, demo_one RW, demo_world)"
    by (simp add: addReplica_def canAdd_def hasReplica_def hasWOReplica_def demo_start_def demo_one_def NewController_def c_reset_def
        new_replicator_def demo_env_def pool_ops_def demo_rest_def addReplicaNoLock_def AddBackend_def)
  then show "ctl_step (demo_env 2 no_faults) demo_rclient (demo_start, demo_world) (demo_one RW, demo_world)"
    by (rule step_addReplica)
  have b: "backends (buildReaderWriterUnmappers r) = backends r" for r :: "string replicator" by (rule build_built(2))
  have re: "buildReaderWriterUnmappers ((buildReaderWriterUnmappers (new_replicator\<lparr>backends := [(''a'', \<lparr>bw_backend = Some ''a'', bw_mode = m\<rparr>)]\<rparr>))
      \<lparr>backends := [(''a'', \<lparr>bw_backend = Some ''a'', bw_mode = ERR\<rparr>)]\<rparr>) =
      buildReaderWriterUnmappers (new_replicator\<lparr>backends := [(''a'', \<lparr>bw_backend = Some ''a'', bw_mode = ERR\<rparr>)]\<rparr>)" for m
    by (cases m) (simp_all add: buildReaderWriterUnmappers_def reset_def new_replicator_def)
  have "SetReplicaMode (bops (demo_env 2 no_faults)) (demo_one RW) ''a'' ERR demo_world = Some (None, demo_one ERR, demo_world)"
    by (simp add: SetReplicaMode_def setReplicaModeNoLock_def demo_one_def SetMode_def b re pool_ops_def)
  then show "ctl_step (demo_env 2 no_faults) demo_rclient (demo_one RW, demo_world) (demo_one ERR, demo_world)"
    by (rule step_SetReplicaMode)
  have "SetReplicaMode (bops (demo_env 2 no_faults)) (demo_one ERR) ''a'' RW demo_world = Some (None, demo_one ERR, demo_world)"
    by (simp add: SetReplicaMode_def setReplicaModeNoLock_def demo_one_def)
  then show "ctl_step (demo_env 2 no_faults) demo_rclient (demo_one ERR, demo_world) (demo_one ERR, demo_world)"
    by (rule step_SetReplicaMode)
qed

section \<open>The state machine\<close>

text \<open>
  C12: In every state that the controller can reach from NewController, by any interleaving of the locked
  sections of its operations and any behaviour of the backends, the replicas have distinct
  addresses, the replicator's backends are those replicas with the same modes, its reader, writer and unmapper
  lists and their index maps are the ones built from the modes, every backend that is not ERR has a
  connection, and at most one replica is in mode WO.
\<close>

theorem controller_reachable_inv:
  assumes "(ctl_step E R)\<^sup>*\<^sup>* (NewController n f u d s m t mc ms, w0) (c, w)"
  shows "ctl_inv c"
  using ctl_steps_inv [OF assms] by simp

theorem controller_reachable_inv_witness:
  "(ctl_step (demo_env 2 no_faults) demo_rclient)\<^sup>*\<^sup>* (NewController ''vol'' (Some ()) False False False False 15 250 0, demo_world)
     (demo_one ERR, demo_world) \<and> ctl_inv (demo_one ERR)"
proof -
  have s: "(ctl_step (demo_env 2 no_faults) demo_rclient)\<^sup>*\<^sup>* (NewController ''vol'' (Some ()) False False False False 15 250 0, demo_world)
      (demo_one ERR, demo_world)"
    using demo_steps(1,2) unfolding demo_start_def by (meson converse_rtranclp_into_rtranclp rtranclp.rtrancl_refl)
  then show ?thesis using controller_reachable_inv [OF s] by simp
qed

text \<open>
  C14: Mode ERR is final: in a reachable state, whatever step comes next, a replica in mode ERR that
  is still listed afterwards is in mode ERR.
\<close>

theorem controller_ERR_final:
  assumes "(ctl_step E R)\<^sup>*\<^sup>* (NewController n f u d s m t mc ms, w0) (c, w)" "ctl_step E R (c, w) (c', w')"
    and "map_of (c_replicas c) a = Some ERR" "map_of (c_replicas c') a = Some mo"
  shows "mo = ERR"
  using ctl_step_preserves [OF assms(2) ctl_steps_inv [OF assms(1)]] assms(3,4) by (auto simp: err_sticky_def)

theorem controller_ERR_final_witness:
  "\<exists>mo. map_of (c_replicas (demo_one ERR)) ''a'' = Some mo \<and> mo = ERR"
proof -
  have s: "(ctl_step (demo_env 2 no_faults) demo_rclient)\<^sup>*\<^sup>* (NewController ''vol'' (Some ()) False False False False 15 250 0, demo_world)
      (demo_one ERR, demo_world)"
    using demo_steps(1,2) unfolding demo_start_def by (meson converse_rtranclp_into_rtranclp rtranclp.rtrancl_refl)
  have "map_of (c_replicas (demo_one ERR)) ''a'' = Some ERR" by (simp add: demo_one_def)
  then show ?thesis using controller_ERR_final [OF s demo_steps(3)] by blast
qed



section \<open>Replication\<close>

text \<open>
  C1: A write through the controller, with replicas in mode RW and none under rebuild, refines the
  write of one volume: if all RW replicas hold the bytes \<open>data\<close>, then, for any order of the goroutines and any set of
  replicas whose write fails (leaving them in any state) as long as one RW replica succeeds, the
  write returns the full count without error, every failed replica is ERR, and all remaining RW replicas hold \<open>data\<close> with
  exactly the request's bytes overwritten.
\<close>

theorem controller_write_replicates:
  assumes "bops E = pool_ops dops F rest" "disk_layer dops V" "ctl_inv c" "by_address c" "schedule (c_backend c) sched"
    and "in_sync V n c w data" "c_size c = int n" "int n \<le> maxInt64" "\<not> hasWOReplica c" "off + length b \<le> n"
    and "\<exists>a. map_of (c_replicas c) a = Some RW \<and> \<not> fail_write F a"
  shows "\<exists>c' w'. ctl_WriteAt E sched lat c b (int off) w = Some (int (length b), None, c', w') \<and>
    demoted c {a. is_active c a \<and> fail_write F a} c' \<and> in_sync V n c' w' (overwrite data off b)"
  by (rule ctl_write_sync [OF assms])

lemma demo_RW: "\<not> hasWOReplica (demo_ctl RW)" "\<exists>a. map_of (c_replicas (demo_ctl mo)) a = Some RW \<and> a \<noteq> ''b''"
proof -
  show "\<not> hasWOReplica (demo_ctl RW)" by code_simp
  show "\<exists>a. map_of (c_replicas (demo_ctl mo)) a = Some RW \<and> a \<noteq> ''b''"
    by (rule exI [of _ "''a''"]) (simp add: demo_ctl_facts(4))
qed

theorem controller_write_replicates_witness:
  "\<exists>c' w'. ctl_WriteAt (demo_env 2 b_fails) [1, 0] 0 (demo_ctl RW) [21, 22, 23] (int 3) demo_world =
      Some (int (length [21, 22, 23 :: byte]), None, c', w') \<and>
    demoted (demo_ctl RW) {a. is_active (demo_ctl RW) a \<and> fail_write b_fails a} c' \<and>
    in_sync (sf_view 2) 8 c' w' (overwrite (content (sf_view 2) (ex_dd, ex_store)) 3 [21, 22, 23])"
proof (rule controller_write_replicates [OF demo_env_bops ex_layer demo_ctl_facts(1,2) _ demo_sync])
  show "\<exists>a. map_of (c_replicas (demo_ctl RW)) a = Some RW \<and> \<not> fail_write b_fails a"
    using demo_RW(2) by (simp add: b_fails_def)
  show "schedule (c_backend (demo_ctl RW)) [1, 0]" by (rule demo_schedule) simp
qed (simp_all add: demo_ctl_facts(3) demo_RW(1) maxInt64_def)

text \<open>
  A read through the controller returns the bytes that the RW replicas hold, with the full count
  and without error, as long as one RW replica answers: the replicas that fail before it in the round-robin order are
  set to ERR and the others stay in sync.
\<close>

lemma controller_read_failover:
  assumes "bops E = pool_ops dops F rest" "disk_layer dops V" "ctl_inv c" "by_address c"
    and "in_sync V n c w data" "c_size c = int n" "int n \<le> maxInt64" "off + m \<le> n"
    and "\<exists>a. map_of (c_replicas c) a = Some RW \<and> \<not> fail_read F a"
  shows "\<exists>c' as. ctl_ReadAt E lat c (zeros m) (int off) w = Some (int m, None, map data [off ..< off + m], c', w) \<and>
    as \<subseteq> {a. fail_read F a \<and> map_of (c_replicas c) a = Some RW} \<and> demoted c as c' \<and> in_sync V n c' w data"
  by (rule ctl_read_sync [OF assms])

text \<open>
  C13: While a replica is rebuilt (mode WO), a write of any alignment is widened to whole 4096-byte
  sectors with bytes read from an RW replica, and this changes nothing but the requested bytes: the RW replicas stay in
  sync and hold \<open>data\<close> with exactly the request overwritten, for any order of the goroutines and any failing writes.
\<close>

theorem controller_write_during_rebuild:
  assumes "bops E = pool_ops dops F rest" "disk_layer dops V" "ctl_inv c" "by_address c" "schedule (c_backend c) sched"
    and "in_sync V n c w data" "c_size c = int n" "int n \<le> maxInt64 - 4096" "4096 dvd n" "hasWOReplica c"
    and "\<And>a. map_of (c_replicas c) a = Some WO \<Longrightarrow> volume_ok V n (w a)" "off + length b \<le> n"
    and "\<exists>a. map_of (c_replicas c) a = Some RW \<and> \<not> fail_write F a"
    and "\<And>a. map_of (c_replicas c) a = Some RW \<Longrightarrow> \<not> fail_read F a"
  shows "\<exists>cnt c' w'. ctl_WriteAt E sched lat c b (int off) w = Some (cnt, None, c', w') \<and>
    demoted c {a. is_active c a \<and> fail_write F a} c' \<and> in_sync V n c' w' (overwrite data off b)"
  by (rule ctl_write_rebuild_sync [OF assms])

text \<open>A volume of one sector of 4096 bytes.\<close>

definition page_volume :: "(string, sstore) volume" where
  "page_volume = (\<lparr>location = [0], files = [None, Some ''head''], sectorSize = 4096, dd_size = 4096\<rparr>, [''head'' \<mapsto> sf_hole 4096 1])"

lemma page_volume_ok: "volume_ok (sf_view 4096) 4096 page_volume"
proof -
  have "{1 ..< 2 :: nat} = {1}" by auto
  moreover have "length (sf_bytes (sf_hole 4096 1)) = 4096" "sf_open (sf_hole 4096 1)" by (simp_all add: sf_hole_def)
  ultimately show ?thesis
    by (simp add: volume_ok_def page_volume_def dd_wf_def sf_view_def layer_size_def numeral_2_eq_2)
qed

theorem controller_write_during_rebuild_witness:
  "\<exists>cnt c' w'. ctl_WriteAt (demo_env 4096 no_faults) [1, 0] 0 ((demo_ctl WO)\<lparr>c_size := 4096\<rparr>) [7, 8] (int 100) (\<lambda>a. page_volume) =
      Some (cnt, None, c', w') \<and>
    demoted ((demo_ctl WO)\<lparr>c_size := 4096\<rparr>) {a. is_active ((demo_ctl WO)\<lparr>c_size := 4096\<rparr>) a \<and> fail_write no_faults a} c' \<and>
    in_sync (sf_view 4096) 4096 c' w' (overwrite (content (sf_view 4096) page_volume) 100 [7, 8])"
proof (rule controller_write_during_rebuild [OF demo_env_bops])
  show "disk_layer (sf_ops 4096) (sf_view 4096)" by (rule disk_layer_sf) simp
  show "ctl_inv ((demo_ctl WO)\<lparr>c_size := 4096\<rparr>)" using demo_ctl_facts(1) by simp
  show "by_address ((demo_ctl WO)\<lparr>c_size := 4096\<rparr>)" using demo_ctl_facts(2) by (simp add: by_address_def backend_of_def)
  show "schedule (c_backend ((demo_ctl WO)\<lparr>c_size := 4096\<rparr>)) [1, 0]" using demo_schedule [of WO] by simp
  show "in_sync (sf_view 4096) 4096 ((demo_ctl WO)\<lparr>c_size := 4096\<rparr>) (\<lambda>a. page_volume) (content (sf_view 4096) page_volume)"
    using page_volume_ok by (simp add: in_sync_def)
  show "hasWOReplica ((demo_ctl WO)\<lparr>c_size := 4096\<rparr>)" by code_simp
  show "\<exists>a. map_of (c_replicas ((demo_ctl WO)\<lparr>c_size := 4096\<rparr>)) a = Some RW \<and> \<not> fail_write no_faults a"
    using demo_RW(2) by (auto simp: no_faults_def)
qed (simp_all add: page_volume_ok maxInt64_def no_faults_def)

end
