(* ===== verification/Controller_Checks.thy ===== *)
theory Controller_Checks
  imports Controller_Errors
begin

text \<open>
  What the checks at the start of a volume decide: the revision counters and the salvage of
  a volume without them.
\<close>

section \<open>Revision counters\<close>

definition actives :: "(string \<times> mode) list \<Rightarrow> string list" where
  "actives rs = map fst (filter (\<lambda>(a, m). m \<noteq> ERR) rs)"

lemma actives_simps [simp]: "actives [] = []" "actives ((a, m) # rs) = (if m \<noteq> ERR then a # actives rs else actives rs)"
  by (simp_all add: actives_def)

lemma actives_subset: "set (actives rs) \<subseteq> fst ` set rs"
  by (auto simp: actives_def)

lemma actives_iff:
  assumes "ctl_inv c"
  shows "a \<in> set (actives (c_replicas c)) \<longleftrightarrow> (\<exists>mo. map_of (c_replicas c) a = Some mo \<and> mo \<noteq> ERR)"
  using ctl_invD(1) [OF assms] by (force simp: actives_def map_of_eq_Some_iff)

lemma rep_GetRevisionCounter_ok:
  assumes "backend_of c a = Some h" "be_GetRevisionCounter ops h w = (n, None)"
  shows "rep_GetRevisionCounter ops (c_backend c) a w = Some (n, None)"
  using assms by (cases "map_of (backends (c_backend c)) a") (auto simp: backend_of_def rep_GetRevisionCounter_def)

definition larger :: "(string \<Rightarrow> int) \<Rightarrow> string \<Rightarrow> int \<Rightarrow> int" where
  "larger cnt a e = (if cnt a > e then cnt a else e)"

lemma fold_larger: "fold (larger cnt) xs e = Max (insert e (cnt ` set xs))"
proof (induction xs arbitrary: e)
  case (Cons x xs)
  have "Max (insert e (cnt ` set (x # xs))) = Max (insert (larger cnt x e) (cnt ` set xs))"
    by (cases "xs = []") (auto simp: larger_def max_def)
  then show ?case using Cons by simp
qed simp

lemma counters_loop_result:
  assumes "\<And>a. a \<in> set (actives rs) \<Longrightarrow> rep_GetRevisionCounter ops (c_backend c) a w = Some (cnt a, None)"
    and "distinct (map fst rs)" "fst ` set m \<inter> fst ` set rs = {}"
  shows "counters_loop ops c w rs e m =
    Some (Inr (fold (larger cnt) (actives rs) e, m @ map (\<lambda>a. (a, cnt a)) (actives rs)))"
  using assms
proof (induction rs arbitrary: e m)
  case (Cons x rs)
  obtain a mo where x: "x = (a, mo)" by (cases x)
  show ?case
  proof (cases "mo = ERR")
    case True
    then show ?thesis using Cons x by auto
  next
    case False
    have "AList.update a (cnt a) m = m @ [(a, cnt a)]" using Cons.prems(3) x by (intro update_fresh) auto
    moreover have "fst ` set (m @ [(a, cnt a)]) \<inter> fst ` set rs = {}" using Cons.prems(2,3) x by auto
    ultimately show ?thesis
      using Cons.IH [of "m @ [(a, cnt a)]" "larger cnt a e"] Cons.prems False x by (simp add: larger_def)
  qed
qed simp

lemma conflict_loop_effect:
  assumes "quiet_stop ops"
  shows "ctl_inv c \<Longrightarrow> \<exists>c'. conflict_loop ops e m c w = Some (c', w) \<and> demoted c {a. \<exists>n. (a, n) \<in> set m \<and> n \<noteq> e} c'"
proof (induction m arbitrary: c)
  case Nil
  then show ?case using demoted_refl by simp
next
  case (Cons x m)
  obtain a n where x: "x = (a, n)" by (cases x)
  show ?case
  proof (cases "n = e")
    case True
    have "{y. \<exists>k. (y, k) \<in> set (x # m) \<and> k \<noteq> e} = {y. \<exists>k. (y, k) \<in> set m \<and> k \<noteq> e}" using True x by auto
    then show ?thesis using Cons True x by simp
  next
    case False
    obtain c1 where c1: "setReplicaModeNoLock ops c a ERR w = Some (c1, w)" "demoted c {a} c1"
      using demoted_set_mode [OF Cons.prems assms, of a w] .
    then obtain c' where c': "conflict_loop ops e m c1 w = Some (c', w)" "demoted c1 {a. \<exists>n. (a, n) \<in> set m \<and> n \<noteq> e} c'"
      using Cons.IH [of c1] by (auto simp: demoted_def)
    have "{y. \<exists>k. (y, k) \<in> set (x # m) \<and> k \<noteq> e} = {a} \<union> {y. \<exists>k. (y, k) \<in> set m \<and> k \<noteq> e}" using False x by auto
    then show ?thesis using demoted_trans [OF c1(2) c'(2)] c1(1) c'(1) False x by simp
  qed
qed

lemma revision_check_effect:
  assumes inv: "ctl_inv c" and q: "quiet_stop ops"
    and cnt: "\<And>a h. backend_of c a = Some h \<Longrightarrow> a \<in> set (actives (c_replicas c)) \<Longrightarrow> be_GetRevisionCounter ops h w = (cnt a, None)"
  shows "\<exists>c'. checkReplicasRevisionCounter ops c w = Some (None, c', w) \<and>
    demoted c {a \<in> set (actives (c_replicas c)). cnt a \<noteq> Max (insert 0 (cnt ` set (actives (c_replicas c))))} c'"
proof -
  let ?as = "actives (c_replicas c)"
  have "rep_GetRevisionCounter ops (c_backend c) a w = Some (cnt a, None)" if a: "a \<in> set ?as" for a
  proof -
    obtain h where "backend_of c a = Some h" using a backend_of_Some [OF inv] actives_iff [OF inv] by metis
    then show ?thesis using rep_GetRevisionCounter_ok cnt a by metis
  qed
  then have l: "counters_loop ops c w (c_replicas c) 0 [] = Some (Inr (fold (larger cnt) ?as 0, map (\<lambda>a. (a, cnt a)) ?as))"
    using counters_loop_result [of "c_replicas c" ops c w cnt "[]" 0] ctl_invD(1) [OF inv] by simp
  obtain c' where "conflict_loop ops (fold (larger cnt) ?as 0) (map (\<lambda>a. (a, cnt a)) ?as) c w = Some (c', w)"
    "demoted c {a. \<exists>n. (a, n) \<in> set (map (\<lambda>a. (a, cnt a)) ?as) \<and> n \<noteq> fold (larger cnt) ?as 0} c'"
    using conflict_loop_effect [OF q inv] by blast
  moreover have "{a. \<exists>n. (a, n) \<in> set (map (\<lambda>a. (a, cnt a)) ?as) \<and> n \<noteq> fold (larger cnt) ?as 0} =
      {a \<in> set ?as. cnt a \<noteq> Max (insert 0 (cnt ` set ?as))}"
    by (auto simp: fold_larger)
  ultimately show ?thesis using l by (simp add: checkReplicasRevisionCounter_def)
qed

section \<open>Salvage\<close>

lemma candidates_loop_result:
  assumes "\<And>a. a \<in> set (actives rs) \<Longrightarrow> \<exists>h. backend_of c a = Some h \<and> be_GetLastModifyTime ops h w = (t a, None) \<and>
      be_GetHeadFileSize ops h w = (sz a, None)"
  shows "candidates_loop ops c w rs cands latest =
    Some (Inr (cands @ map (\<lambda>a. \<lparr>si_Address = a, si_LastModifyTime = t a, si_HeadFileSize = sz a\<rparr>) (actives rs),
      fold (\<lambda>a l. case l of None \<Rightarrow> Some (t a) | Some x \<Rightarrow> if t a > x then Some (t a) else l) (actives rs) latest))"
  using assms
proof (induction rs arbitrary: cands latest)
  case (Cons x rs)
  obtain a mo where x: "x = (a, mo)" by (cases x)
  show ?case
  proof (cases "mo = ERR")
    case False
    then obtain h where "backend_of c a = Some h" "be_GetLastModifyTime ops h w = (t a, None)" "be_GetHeadFileSize ops h w = (sz a, None)"
      using Cons.prems [of a] x by auto
    then show ?thesis using Cons False x by simp
  qed (use Cons x in auto)
qed simp

lemma fold_latest:
  fixes t :: "string \<Rightarrow> int"
  shows "fold (\<lambda>a l. case l of None \<Rightarrow> Some (t a) | Some x \<Rightarrow> if t a > x then Some (t a) else l) as (Some e) =
  Some (Max (insert e (t ` set as)))"
proof -
  have "fold (\<lambda>a l. case l of None \<Rightarrow> Some (t a) | Some x \<Rightarrow> if t a > x then Some (t a) else l) as (Some e) =
      Some (fold (larger t) as e)" for e
    by (induction as arbitrary: e) (simp_all add: larger_def)
  then show ?thesis by (simp add: fold_larger)
qed

text \<open>The best of the recent candidates: none of them is better.\<close>

lemma best_loop_optimal:
  assumes "\<forall>b. best = Some b \<longrightarrow> recent latest b"
  shows "case best_loop latest ss best of
      None \<Rightarrow> best = None \<and> (\<forall>s \<in> set ss. \<not> recent latest s)
    | Some b \<Rightarrow> (Some b = best \<or> b \<in> set ss) \<and> recent latest b \<and> (\<forall>s \<in> set ss. recent latest s \<longrightarrow> \<not> better s b) \<and>
        (\<forall>b0. best = Some b0 \<longrightarrow> \<not> better b0 b)"
  using assms
proof (induction ss arbitrary: best)
  case Nil
  then show ?case by (cases best) (auto simp: better_def)
next
  case (Cons s ss)
  let ?best = "if recent latest s \<and> (case best of None \<Rightarrow> True | Some b \<Rightarrow> better s b) then Some s else best"
  have IH: "case best_loop latest ss ?best of
      None \<Rightarrow> ?best = None \<and> (\<forall>s \<in> set ss. \<not> recent latest s)
    | Some b \<Rightarrow> (Some b = ?best \<or> b \<in> set ss) \<and> recent latest b \<and> (\<forall>s \<in> set ss. recent latest s \<longrightarrow> \<not> better s b) \<and>
        (\<forall>b0. ?best = Some b0 \<longrightarrow> \<not> better b0 b)"
    by (rule Cons.IH) (use Cons.prems in \<open>simp split: if_splits\<close>)
  have nt: "\<not> better x y \<Longrightarrow> \<not> better y z \<Longrightarrow> \<not> better x z" and asym: "better x y \<Longrightarrow> \<not> better y x" for x y z
    unfolding better_def by linarith+
  show ?case
  proof (cases "best_loop latest ss ?best")
    case None
    then show ?thesis using IH by (auto split: if_splits option.splits)
  next
    case (Some b)
    then show ?thesis using IH by (auto split: if_splits option.splits dest: nt asym)
  qed
qed

text \<open>Setting every replica but the best to ERR.\<close>

lemma salvage_modes_effect:
  assumes q: "quiet_stop ops"
  shows "ctl_inv c \<Longrightarrow> i + k = length (c_replicas c) \<Longrightarrow>
    (\<exists>c'. salvage_modes ops best k i c w = Some (c', w) \<and> ctl_inv c' \<and> map fst (c_replicas c') = map fst (c_replicas c) \<and>
      (\<forall>x. map_of (c_replicas c') x =
        (if x \<in> set (drop i (map fst (c_replicas c)))
         then map_option (\<lambda>m. if m = ERR \<or> x \<noteq> best then ERR else RW) (map_of (c_replicas c) x) else map_of (c_replicas c) x)))"
proof (induction k arbitrary: i c)
  case 0
  then show ?case by auto
next
  case (Suc k)
  let ?a = "fst (c_replicas c ! i)" and ?as = "map fst (c_replicas c)"
  let ?mo = "if ?a \<noteq> best then ERR else RW"
  have mo: "?mo \<noteq> WO" by simp
  obtain r where r: "setReplicaModeNoLock ops c ?a ?mo w = Some (c\<lparr>c_replicas := set_mode ?a ?mo (c_replicas c), c_backend := r\<rparr>, w)"
    "ctl_inv (c\<lparr>c_replicas := set_mode ?a ?mo (c_replicas c), c_backend := r\<rparr>)"
    using set_mode_effect [OF Suc.prems(1) mo q, of ?a w] by blast
  let ?c = "c\<lparr>c_replicas := set_mode ?a ?mo (c_replicas c), c_backend := r\<rparr>"
  obtain c' where c': "salvage_modes ops best k (Suc i) ?c w = Some (c', w)" "ctl_inv c'" "map fst (c_replicas c') = ?as"
    "\<And>x. map_of (c_replicas c') x = (if x \<in> set (drop (Suc i) ?as)
       then map_option (\<lambda>m. if m = ERR \<or> x \<noteq> best then ERR else RW) (map_of (c_replicas ?c) x) else map_of (c_replicas ?c) x)"
    using Suc.IH [OF r(2), of "Suc i"] Suc.prems(2) by auto
  have il: "i < length ?as" using Suc.prems(2) by simp
  then have d: "drop i ?as = ?a # drop (Suc i) ?as" by (simp add: Cons_nth_drop_Suc [symmetric])
  have nin: "?a \<notin> set (drop (Suc i) ?as)"
    using ctl_invD(1) [OF Suc.prems(1)] d by (metis distinct.simps(2) distinct_drop)
  have "map_of (c_replicas c') x = (if x \<in> set (drop i ?as)
      then map_option (\<lambda>m. if m = ERR \<or> x \<noteq> best then ERR else RW) (map_of (c_replicas c) x) else map_of (c_replicas c) x)" for x
    using nin unfolding c'(4) d by (cases "map_of (c_replicas c) x") (auto simp: map_of_set_mode)
  then show ?case using c' r(1) by (simp add: Let_def)
qed

lemma salvage_effect:
  assumes inv: "ctl_inv c" and q: "quiet_stop ops" and ne: "actives (c_replicas c) \<noteq> []"
    and info: "\<And>a h. backend_of c a = Some h \<Longrightarrow> a \<in> set (actives (c_replicas c)) \<Longrightarrow>
      be_GetLastModifyTime ops h w = (t a, None) \<and> be_GetHeadFileSize ops h w = (sz a, None)"
  defines "as \<equiv> set (actives (c_replicas c))"
  defines "late \<equiv> {a \<in> as. t a + 5 * second > Max (t ` as)}"
  shows "\<exists>c' best. salvageRevisionCounterDisabledReplicas ops c w = Some (None, c', w) \<and> ctl_inv c' \<and>
    best \<in> late \<and> (\<forall>a \<in> late. sz a < sz best \<or> sz a = sz best \<and> t a \<le> t best) \<and>
    (\<forall>x. map_of (c_replicas c') x = (if x = best then Some RW else map_option (\<lambda>_. ERR) (map_of (c_replicas c) x)))"
proof -
  let ?as = "actives (c_replicas c)"
  let ?si = "\<lambda>a. \<lparr>si_Address = a, si_LastModifyTime = t a, si_HeadFileSize = sz a\<rparr>"
  obtain x xs where xs: "?as = x # xs" using ne by (cases ?as) auto
  have "\<exists>h. backend_of c a = Some h \<and> be_GetLastModifyTime ops h w = (t a, None) \<and> be_GetHeadFileSize ops h w = (sz a, None)"
    if "a \<in> set ?as" for a
    using that info backend_of_Some [OF inv] actives_iff [OF inv] by metis
  then have cl: "candidates_loop ops c w (c_replicas c) [] None = Some (Inr (map ?si ?as, Some (Max (t ` as))))"
    using candidates_loop_result [of "c_replicas c" c ops w t sz "[]" None] xs fold_latest [of t xs "t x"] by (simp add: as_def)
  have rec: "recent (Some (Max (t ` as))) (?si a) \<longleftrightarrow> t a + 5 * second > Max (t ` as)" for a
    by (simp add: recent_def lastModifyCheckPeriod_def)
  have "Max (t ` as) \<in> t ` as" using ne by (intro Max_in) (auto simp: as_def)
  then obtain m where m: "m \<in> as" "recent (Some (Max (t ` as))) (?si m)" unfolding rec by (auto simp: second_def)
  obtain b where b: "best_loop (Some (Max (t ` as))) (map ?si ?as) None = Some b" "b \<in> set (map ?si ?as)"
    "recent (Some (Max (t ` as))) b" "\<forall>s \<in> set (map ?si ?as). recent (Some (Max (t ` as))) s \<longrightarrow> \<not> better s b"
    using best_loop_optimal [of None "Some (Max (t ` as))" "map ?si ?as"] m by (auto simp: as_def split: option.splits)
  obtain best where best: "b = ?si best" "best \<in> as" using b(2) by (auto simp: as_def)
  have "best \<in> late" using best b(3) rec by (simp add: late_def)
  moreover have "sz a < sz best \<or> sz a = sz best \<and> t a \<le> t best" if "a \<in> late" for a
  proof -
    have "\<not> better (?si a) b" using that b(4) rec by (auto simp: late_def as_def)
    then show ?thesis unfolding better_def best(1) by auto
  qed
  moreover obtain c' where c': "salvage_modes ops best (length (c_replicas c)) 0 c w = Some (c', w)" "ctl_inv c'"
    "\<And>x. map_of (c_replicas c') x = (if x \<in> set (map fst (c_replicas c))
       then map_option (\<lambda>m. if m = ERR \<or> x \<noteq> best then ERR else RW) (map_of (c_replicas c) x) else map_of (c_replicas c) x)"
    using salvage_modes_effect [OF q inv, of 0 "length (c_replicas c)" best w] by auto
  have "map_of (c_replicas c') x = (if x = best then Some RW else map_option (\<lambda>_. ERR) (map_of (c_replicas c) x))" for x
  proof (cases "map_of (c_replicas c) x")
    case None
    then show ?thesis using c'(3) [of x] best(2) actives_iff [OF inv, of x] by (auto simp: as_def)
  next
    case (Some mo)
    then have "x \<in> set (map fst (c_replicas c))" by (auto dest: map_of_SomeD intro: rev_image_eqI)
    then show ?thesis using c'(3) [of x] Some best(2) actives_iff [OF inv, of x] by (auto simp: as_def)
  qed
  moreover have "salvageRevisionCounterDisabledReplicas ops c w = Some (None, c', w)"
    using cl b(1) c'(1) best(1) xs by (simp add: salvageRevisionCounterDisabledReplicas_def)
  ultimately show ?thesis using c'(2) by blast
qed

end
