(* ===== verification/Controller_Laws.thy ===== *)
theory Controller_Laws
  imports Controller_Thms Controller_Checks
begin

text \<open>
  The checks of the controller when it starts and at the end of a rebuild, and two departures of its data path from what it means to do.
\<close>

section \<open>Replicas that disagree\<close>

text \<open>
  The check of the revision counters keeps exactly the replicas with the largest revision counter: every other replica
  that was usable becomes ERR, no other mode changes.
\<close>

lemma controller_revision_check:
  assumes "ctl_inv c" "quiet_stop ops"
    and "\<forall>a h. backend_of c a = Some h \<longrightarrow> a \<in> set (actives (c_replicas c)) \<longrightarrow> be_GetRevisionCounter ops h w = (cnt a, None)"
  shows "\<exists>c'. checkReplicasRevisionCounter ops c w = Some (None, c', w) \<and> ctl_inv c' \<and>
    (\<forall>x. map_of (c_replicas c') x =
      (if x \<in> set (actives (c_replicas c)) \<and> cnt x \<noteq> Max (insert 0 (cnt ` set (actives (c_replicas c)))) then Some ERR
       else map_of (c_replicas c) x))"
proof -
  obtain c' where c': "checkReplicasRevisionCounter ops c w = Some (None, c', w)"
    "demoted c {a \<in> set (actives (c_replicas c)). cnt a \<noteq> Max (insert 0 (cnt ` set (actives (c_replicas c))))} c'"
    using revision_check_effect [where cnt = cnt and w = w, OF assms(1,2)] assms(3) by blast
  have "map_of (c_replicas c) x \<noteq> None" if "x \<in> set (actives (c_replicas c))" for x
    using that actives_iff [OF assms(1)] by auto
  then show ?thesis using c' by (auto simp: demoted_def)
qed

lemma demo_quiet: "quiet_stop demo_rest"
  by (simp add: quiet_stop_def demo_rest_def)

lemma demo_actives: "set (actives (c_replicas (demo_ctl RW))) = {''a'', ''b''}"
proof -
  have "actives (c_replicas (demo_ctl RW)) = [''a'', ''b'']" by code_simp
  then show ?thesis by simp
qed

lemma demo_backend: "backend_of (demo_ctl RW) x = Some h \<Longrightarrow> h = x"
  using demo_ctl_facts(2) [of RW] by (auto simp: by_address_def)

text \<open>
  Salvage without revision counters picks one replica: among those modified within five seconds of
  the latest one, it has the largest head file, and the latest modification among those.  It becomes RW, all others ERR.
\<close>

lemma controller_salvage:
  assumes "ctl_inv c" "quiet_stop ops" "actives (c_replicas c) \<noteq> []"
    and "\<forall>a h. backend_of c a = Some h \<longrightarrow> a \<in> set (actives (c_replicas c)) \<longrightarrow>
      be_GetLastModifyTime ops h w = (t a, None) \<and> be_GetHeadFileSize ops h w = (sz a, None)"
  shows "\<exists>c' best. salvageRevisionCounterDisabledReplicas ops c w = Some (None, c', w) \<and> ctl_inv c' \<and>
    best \<in> set (actives (c_replicas c)) \<and> t best + 5 * second > Max (t ` set (actives (c_replicas c))) \<and>
    (\<forall>a \<in> set (actives (c_replicas c)). t a + 5 * second > Max (t ` set (actives (c_replicas c))) \<longrightarrow>
       sz a < sz best \<or> sz a = sz best \<and> t a \<le> t best) \<and>
    (\<forall>x. map_of (c_replicas c') x = (if x = best then Some RW else map_option (\<lambda>_. ERR) (map_of (c_replicas c) x)))"
proof -
  obtain c' best where "salvageRevisionCounterDisabledReplicas ops c w = Some (None, c', w)" "ctl_inv c'"
    "best \<in> {a \<in> set (actives (c_replicas c)). t a + 5 * second > Max (t ` set (actives (c_replicas c)))}"
    "\<forall>a \<in> {a \<in> set (actives (c_replicas c)). t a + 5 * second > Max (t ` set (actives (c_replicas c)))}. sz a < sz best \<or> sz a = sz best \<and> t a \<le> t best"
    "\<forall>x. map_of (c_replicas c') x = (if x = best then Some RW else map_option (\<lambda>_. ERR) (map_of (c_replicas c) x))"
    using salvage_effect [where t = t and sz = sz and w = w, OF assms(1-3)] assms(4) by blast
  then show ?thesis by (intro exI [of _ c'] exI [of _ best]) blast
qed

section \<open>The end of a rebuild\<close>

text \<open>
  C16: VerifyRebuildReplica lets a replica become RW only when it has as many disks as an RW replica and each of them by
  name, and, unless revision counters are disabled, after the counter of that RW replica has been read and written to it.
\<close>

theorem controller_VerifyRebuild_promotes:
  assumes "ctl_inv c" "VerifyRebuildReplica ops R c a inst w = Some (err, c', w')"
    and "map_of (c_replicas c) a = Some WO" "map_of (c_replicas c') a = Some RW"
  shows "\<exists>rw fromDisks h1 toDisks h2. map_of (c_replicas c) rw = Some RW \<and>
    GetReplicaDisksAndHead R rw '''' w = Inr (fromDisks, h1) \<and> GetReplicaDisksAndHead R a inst w = Inr (toDisks, h2) \<and>
    length fromDisks = length toDisks \<and> fst ` set fromDisks \<subseteq> fst ` set toDisks \<and>
    (revisionCounterDisabled c \<or> (\<exists>counter w1. rep_GetRevisionCounter ops (c_backend c) rw w = Some (counter, None) \<and> counter \<noteq> - 1 \<and>
       rep_SetRevisionCounter ops (c_backend c) a counter w = Some (None, w1)))"
proof -
  have same: "c' = c \<Longrightarrow> False" using assms(3,4) by auto
  obtain cur rw where cr: "getCurrentAndRWReplica c a = Inr (cur, rw)"
    using assms(2) same by (cases "getCurrentAndRWReplica c a") (auto simp: VerifyRebuildReplica_def)
  note mem = getCurrentAndRWReplica_mem [OF cr]
  have d: "distinct (map fst (c_replicas c))" by (rule ctl_invD(1) [OF assms(1)])
  have mc: "cur = (a, WO)" using mem(1,2) assms(3) d by (metis map_of_is_SomeI option.inject prod.collapse)
  have mr: "map_of (c_replicas c) (fst rw) = Some RW" using mem(3,5) d by (metis map_of_is_SomeI prod.collapse)
  obtain fd h1 where f: "GetReplicaDisksAndHead R (fst rw) '''' w = Inr (fd, h1)"
    using assms(2) same cr mc by (cases rw; cases "GetReplicaDisksAndHead R (fst rw) '''' w") (auto simp: VerifyRebuildReplica_def)
  obtain td h2 where t: "GetReplicaDisksAndHead R a inst w = Inr (td, h2)"
    using assms(2) same cr mc f by (cases rw; cases "GetReplicaDisksAndHead R a inst w") (auto simp: VerifyRebuildReplica_def)
  have len: "length fd = length td" and sub: "list_all (\<lambda>(n, _). map_of td n \<noteq> None) fd"
    using assms(2) same cr mc f t by (cases rw; auto simp: VerifyRebuildReplica_def split: if_splits)+
  have names: "fst ` set fd \<subseteq> fst ` set td"
  proof
    fix n assume "n \<in> fst ` set fd"
    then have "map_of td n \<noteq> None" using sub by (auto simp: list_all_iff)
    then show "n \<in> fst ` set td" by (simp add: map_of_eq_None_iff)
  qed
  have "revisionCounterDisabled c \<or> (\<exists>err w1. copy_revision_counter ops c (fst rw) a w = Some (True, err, w1))"
    using assms(2) same cr mc f t len sub by (cases rw) (auto simp: VerifyRebuildReplica_def bind_eq_Some_conv split: if_splits)
  then have "revisionCounterDisabled c \<or> (\<exists>counter w1. rep_GetRevisionCounter ops (c_backend c) (fst rw) w = Some (counter, None) \<and> counter \<noteq> - 1 \<and>
       rep_SetRevisionCounter ops (c_backend c) a counter w = Some (None, w1))"
    by (auto simp: copy_revision_counter_def bind_eq_Some_conv split: if_splits)
  then show ?thesis using mr f t len names by blast
qed

text \<open>Replicas with a head and a snapshot of the same name.\<close>

definition demo_info :: "string \<Rightarrow> ReplicaInfo" where
  "demo_info head = \<lparr>ri_Dirty = False, ri_Rebuilding = False, ri_Head = head, ri_Parent = ''snap'', ri_Size = ''8'', ri_SectorSize = 2,
     ri_BackingFile = '''', ri_State = ''open'', ri_Chain = [head, ''snap''],
     ri_Disks = map (\<lambda>n. (n, \<lparr>di_Name = n, di_Parent = '''', di_Children = [], di_Removed = False, di_UserCreated = False, di_Created = '''',
       di_Size = ''0'', di_Labels = []\<rparr>)) [head, ''snap''],
     ri_RemainSnapshots = 9, ri_RevisionCounter = 1, ri_LastModifyTime = 0, ri_HeadFileSize = 0, ri_RevisionCounterDisabled = False,
     ri_UnmapMarkDiskChainRemoved = False, ri_SnapshotCountUsage = 1, ri_SnapshotSizeUsage = 0\<rparr>"

definition demo_verify :: "demo_world rclient" where
  "demo_verify = demo_rclient\<lparr>rc_GetReplica := \<lambda>a w. Inr (demo_info (''head-'' @ a))\<rparr>"

theorem controller_VerifyRebuild_promotes_witness:
  "\<exists>err c' w'. VerifyRebuildReplica demo_rest demo_verify (demo_ctl WO) ''b'' ''i'' demo_world = Some (err, c', w') \<and>
     map_of (c_replicas c') ''b'' = Some RW \<and>
     (\<exists>rw fromDisks h1 toDisks h2. map_of (c_replicas (demo_ctl WO)) rw = Some RW \<and>
       GetReplicaDisksAndHead demo_verify rw '''' demo_world = Inr (fromDisks, h1) \<and>
       GetReplicaDisksAndHead demo_verify ''b'' ''i'' demo_world = Inr (toDisks, h2) \<and>
       length fromDisks = length toDisks \<and> fst ` set fromDisks \<subseteq> fst ` set toDisks)"
proof -
  have "case VerifyRebuildReplica demo_rest demo_verify (demo_ctl WO) ''b'' ''i'' demo_world of
      Some (err, c', w') \<Rightarrow> map_of (c_replicas c') ''b'' = Some RW | None \<Rightarrow> False" by code_simp
  then obtain err c' w' where run: "VerifyRebuildReplica demo_rest demo_verify (demo_ctl WO) ''b'' ''i'' demo_world = Some (err, c', w')"
    "map_of (c_replicas c') ''b'' = Some RW" by (auto split: option.splits)
  have "map_of (c_replicas (demo_ctl WO)) ''b'' = Some WO" by (simp add: demo_ctl_facts(4))
  from controller_VerifyRebuild_promotes [OF demo_ctl_facts(1) run(1) this run(2)] obtain rw fd h1 td h2 where
    "map_of (c_replicas (demo_ctl WO)) rw = Some RW" "GetReplicaDisksAndHead demo_verify rw '''' demo_world = Inr (fd, h1)"
    "GetReplicaDisksAndHead demo_verify ''b'' ''i'' demo_world = Inr (td, h2)" "length fd = length td" "fst ` set fd \<subseteq> fst ` set td" by blast
  with run show ?thesis by (intro exI conjI)
qed

section \<open>Requests at the end of the address space\<close>

text \<open>
  The bounds check of WriteAt adds the offset and the length in int64: a write of two bytes at the largest offset
  wraps to a negative number, passes the check and reaches the replicas, although it lies beyond the volume.
\<close>

lemma controller_bounds_overflow:
  "\<exists>n c' w'. ctl_WriteAt ((demo_env 2 no_faults)\<lparr>bops := demo_rest\<rparr>) [1, 0] 0 (demo_ctl RW) [1, 2] maxInt64 demo_world = Some (n, None, c', w') \<and>
     c_size (demo_ctl RW) < maxInt64"
proof -
  have "case ctl_WriteAt ((demo_env 2 no_faults)\<lparr>bops := demo_rest\<rparr>) [1, 0] 0 (demo_ctl RW) [1, 2] maxInt64 demo_world of
      Some (n, None, c', w') \<Rightarrow> True | _ \<Rightarrow> False" by code_simp
  moreover have "c_size (demo_ctl RW) < maxInt64" by code_simp
  ultimately show ?thesis by (auto split: option.splits prod.splits)
qed

section \<open>Failed unmaps\<close>

text \<open>
  When an unmap fails on one replica the controller punishes another one: replicator.UnmapAt tests for the error type of the
  fan-out of writes, which the fan-out of unmaps never returns, and blames the first replica.  Here replica b fails and stays RW,
  while replica a, which did its work, becomes ERR.
\<close>

lemma controller_unmap_blames_first:
  "\<exists>n c' w'. ctl_UnmapAt ((demo_env 2 no_faults)\<lparr>bops := demo_rest\<lparr>be_UnmapAt := \<lambda>h l off w. (0, if h = ''b'' then Some io_error else None, w)\<rparr>\<rparr>)
       [1, 0] (demo_ctl RW) 4 0 demo_world = Some (n, None, c', w') \<and>
     map_of (c_replicas c') ''a'' = Some ERR \<and> map_of (c_replicas c') ''b'' = Some RW"
proof -
  have "case ctl_UnmapAt ((demo_env 2 no_faults)\<lparr>bops := demo_rest\<lparr>be_UnmapAt := \<lambda>h l off w. (0, if h = ''b'' then Some io_error else None, w)\<rparr>\<rparr>)
       [1, 0] (demo_ctl RW) 4 0 demo_world of
      Some (n, None, c', w') \<Rightarrow> map_of (c_replicas c') ''a'' = Some ERR \<and> map_of (c_replicas c') ''b'' = Some RW | _ \<Rightarrow> False" by code_simp
  then show ?thesis by (auto split: option.splits prod.splits)
qed

end
