(* ===== verification/Replica_Files.thy ===== *)
theory Replica_Files
  imports Diff_Disk Disk_Names Fs_Freeze Resources "HOL-Library.AList" "HOL-Library.Char_ord" "HOL-Library.List_Lexorder"
begin

text \<open>
  The directory of a replica: the part of package os that src/pkg/replica/replica.go uses, on
  regular files, and the metadata files that the replica keeps there as JSON.

  A metadata file is only written by creating a temporary file that is then renamed, so a
  directory entry holds its content; the entry of a data file holds the number of an inode, so that
  hard links share the data.  What is done with the data of an inode (sparse-tools and the
  kernel) is the parameter fs_env.  Any call may fail: the \<open>k\<close>-th call fails when
  \<open>faults k\<close> is an error, and then changes nothing but what is said at the definition.
\<close>

section \<open>Metadata\<close>

text \<open>
  The structs Info and disk.  The field Info.BackingFile, which is not part of the JSON text, is
  a field of the replica (theory Replica); a nil map of labels is None.
\<close>

record Info =
  i_Size :: int
  i_Head :: string
  i_Dirty :: bool
  i_Rebuilding :: bool
  i_Error :: string
  i_Parent :: string
  i_SectorSize :: int
  i_BackingFilePath :: string

record disk =
  d_Name :: string
  d_Parent :: string
  d_Removed :: bool
  d_UserCreated :: bool
  d_Created :: string
  d_Labels :: "(string \<times> string) list option"

definition zero_Info :: Info where
  "zero_Info = \<lparr>i_Size = 0, i_Head = '''', i_Dirty = False, i_Rebuilding = False, i_Error = '''', i_Parent = '''',
     i_SectorSize = 0, i_BackingFilePath = ''''\<rparr>"

definition zero_disk :: disk where
  "zero_disk = \<lparr>d_Name = '''', d_Parent = '''', d_Removed = False, d_UserCreated = False, d_Created = '''', d_Labels = None\<rparr>"

text \<open>What a metadata file holds: the text of a struct, nothing yet, or a text cut short.\<close>

datatype fcontent = JInfo Info | JDisk disk | Blank | Cut

datatype fentry = Meta fcontent | Data nat

text \<open>
  Decoding into a struct: the fields of the text are matched by name with those of the struct, and
  Parent is the only name that the two structs share.
\<close>

definition decode_Info :: "fcontent \<Rightarrow> Info \<Rightarrow> error + Info" where
  "decode_Info c info = (case c of
       JInfo i \<Rightarrow> Inr i
     | JDisk d \<Rightarrow> Inr (info\<lparr>i_Parent := d_Parent d\<rparr>)
     | Blank \<Rightarrow> Inl EOF
     | Cut \<Rightarrow> Inl ErrUnexpectedEOF)"

definition decode_disk :: "fcontent \<Rightarrow> disk \<Rightarrow> error + disk" where
  "decode_disk c d = (case c of
       JInfo i \<Rightarrow> Inr (d\<lparr>d_Parent := i_Parent i\<rparr>)
     | JDisk d' \<Rightarrow> Inr d'
     | Blank \<Rightarrow> Inl EOF
     | Cut \<Rightarrow> Inl ErrUnexpectedEOF)"

section \<open>The directory\<close>

text \<open>The state shared by the replicas of a process: the directory entries, the next free inode, the number of calls made, the
  data of the inodes, and the package variable revisionCounterBuf.\<close>

record 's fsys =
  fs_files :: "(string \<times> fentry) list"
  fs_next :: nat
  fs_calls :: nat
  fs_data :: 's
  revisionCounterBuf :: bytes

record ('h, 's) fs_env =
  faults :: "nat \<Rightarrow> error option"
  dops :: "('h, 's) disk_ops"
  open_inode :: "nat \<Rightarrow> bool \<Rightarrow> 's \<Rightarrow> 'h \<times> 's"
  truncate_inode :: "nat \<Rightarrow> int \<Rightarrow> 's \<Rightarrow> 's"
  inode_size :: "nat \<Rightarrow> 's \<Rightarrow> int"
  inode_mtime :: "nat \<Rightarrow> 's \<Rightarrow> int"
  meta_stat :: "int \<times> int"
  extent_errno :: "error option"
  rnow :: string

abbreviation entry :: "'s fsys \<Rightarrow> string \<Rightarrow> fentry option" where
  "entry fs \<equiv> map_of (fs_files fs)"

text \<open>One call of the operating system: whether it fails, and the state with the call counted.\<close>

definition call :: "('h, 's) fs_env \<Rightarrow> 's fsys \<Rightarrow> error option \<times> 's fsys" where
  "call E fs = (faults E (fs_calls fs), fs\<lparr>fs_calls := Suc (fs_calls fs)\<rparr>)"

definition os_Stat :: "('h, 's) fs_env \<Rightarrow> string \<Rightarrow> 's fsys \<Rightarrow> error option \<times> 's fsys" where
  "os_Stat E p fs = (case call E fs of
       (Some e, fs') \<Rightarrow> (Some e, fs')
     | (None, fs') \<Rightarrow> (if entry fs p = None then Some (ErrNotExist p) else None, fs'))"

definition os_Remove :: "('h, 's) fs_env \<Rightarrow> string \<Rightarrow> 's fsys \<Rightarrow> error option \<times> 's fsys" where
  "os_Remove E p fs = (case call E fs of
       (Some e, fs') \<Rightarrow> (Some e, fs')
     | (None, fs') \<Rightarrow> if entry fs p = None then (Some (ErrNotExist p), fs')
                     else (None, fs'\<lparr>fs_files := AList.delete p (fs_files fs')\<rparr>))"

definition os_RemoveAll :: "('h, 's) fs_env \<Rightarrow> string \<Rightarrow> 's fsys \<Rightarrow> error option \<times> 's fsys" where
  "os_RemoveAll E p fs = (case call E fs of
       (Some e, fs') \<Rightarrow> (Some e, fs')
     | (None, fs') \<Rightarrow> (None, fs'\<lparr>fs_files := AList.delete p (fs_files fs')\<rparr>))"

definition os_Link :: "('h, 's) fs_env \<Rightarrow> string \<Rightarrow> string \<Rightarrow> 's fsys \<Rightarrow> error option \<times> 's fsys" where
  "os_Link E old new fs = (case call E fs of
       (Some e, fs') \<Rightarrow> (Some e, fs')
     | (None, fs') \<Rightarrow> (case entry fs old of
           None \<Rightarrow> (Some (ErrNotExist old), fs')
         | Some x \<Rightarrow> if entry fs new \<noteq> None then (Some (Errorf ''file exists''), fs')
                    else (None, fs'\<lparr>fs_files := AList.update new x (fs_files fs')\<rparr>)))"

definition os_Rename :: "('h, 's) fs_env \<Rightarrow> string \<Rightarrow> string \<Rightarrow> 's fsys \<Rightarrow> error option \<times> 's fsys" where
  "os_Rename E old new fs = (case call E fs of
       (Some e, fs') \<Rightarrow> (Some e, fs')
     | (None, fs') \<Rightarrow> (case entry fs old of
           None \<Rightarrow> (Some (ErrNotExist old), fs')
         | Some x \<Rightarrow> (None, fs'\<lparr>fs_files := AList.update new x (AList.delete old (fs_files fs'))\<rparr>)))"

text \<open>os.Create of a metadata file, writing its text, which may be cut short by a failure, and closing it.\<close>

definition os_Create :: "('h, 's) fs_env \<Rightarrow> string \<Rightarrow> 's fsys \<Rightarrow> error option \<times> 's fsys" where
  "os_Create E p fs = (case call E fs of
       (Some e, fs') \<Rightarrow> (Some e, fs')
     | (None, fs') \<Rightarrow> (None, fs'\<lparr>fs_files := AList.update p (Meta Blank) (fs_files fs')\<rparr>))"

definition json_Encode :: "('h, 's) fs_env \<Rightarrow> string \<Rightarrow> fcontent \<Rightarrow> 's fsys \<Rightarrow> error option \<times> 's fsys" where
  "json_Encode E p c fs = (case call E fs of
       (Some e, fs') \<Rightarrow> (Some e, fs'\<lparr>fs_files := AList.update p (Meta Cut) (fs_files fs')\<rparr>)
     | (None, fs') \<Rightarrow> (None, fs'\<lparr>fs_files := AList.update p (Meta c) (fs_files fs')\<rparr>))"

text \<open>os.ReadDir: the plain names in the directory, sorted.\<close>

definition names_in :: "string \<Rightarrow> string list \<Rightarrow> string list" where
  "names_in dir ps = sort (map (drop (Suc (length dir)))
     (filter (\<lambda>p. HasPrefix p (dir @ ''/'') \<and> CHR ''/'' \<notin> set (drop (Suc (length dir)) p)) ps))"

definition os_ReadDir :: "('h, 's) fs_env \<Rightarrow> string \<Rightarrow> 's fsys \<Rightarrow> (error + string list) \<times> 's fsys" where
  "os_ReadDir E dir fs = (case call E fs of
       (Some e, fs') \<Rightarrow> (Inl e, fs')
     | (None, fs') \<Rightarrow> (Inr (names_in dir (map fst (fs_files fs))), fs'))"

text \<open>os.Open of a metadata file and decoding its text with \<open>dec\<close>.\<close>

definition os_OpenDecode :: "('h, 's) fs_env \<Rightarrow> string \<Rightarrow> (fcontent \<Rightarrow> error + 'a) \<Rightarrow> 's fsys \<Rightarrow> (error + 'a) \<times> 's fsys" where
  "os_OpenDecode E p dec fs = (case call E fs of
       (Some e, fs') \<Rightarrow> (Inl e, fs')
     | (None, fs') \<Rightarrow> (case entry fs p of
           None \<Rightarrow> (Inl (ErrNotExist p), fs')
         | Some (Meta c) \<Rightarrow> (dec c, fs')
         | Some (Data i) \<Rightarrow> (Inl (Errorf ''invalid character''), fs')))"

section \<open>Data files\<close>

text \<open>
  sparse.NewDirectFileIoProcessor(name, flag, perm, isCreate): opens the file, with a second attempt that creates
  it when the first one fails.
\<close>

definition open_existing :: "('h, 's) fs_env \<Rightarrow> string \<Rightarrow> bool \<Rightarrow> 's fsys \<Rightarrow> (error + 'h) \<times> 's fsys" where
  "open_existing E p trunc fs = (case call E fs of
       (Some e, fs') \<Rightarrow> (Inl e, fs')
     | (None, fs') \<Rightarrow> (case entry fs p of
           None \<Rightarrow> (Inl (ErrNotExist p), fs')
         | Some (Meta c) \<Rightarrow> (Inl (Errorf ''invalid argument''), fs')
         | Some (Data i) \<Rightarrow> (let (h, s) = open_inode E i trunc (fs_data fs) in (Inr h, fs'\<lparr>fs_data := s\<rparr>))))"

definition open_create :: "('h, 's) fs_env \<Rightarrow> string \<Rightarrow> bool \<Rightarrow> 's fsys \<Rightarrow> (error + 'h) \<times> 's fsys" where
  "open_create E p trunc fs = (case call E fs of
       (Some e, fs') \<Rightarrow> (Inl e, fs')
     | (None, fs') \<Rightarrow> (case entry fs p of
           None \<Rightarrow> (let i = fs_next fs; (h, s) = open_inode E i trunc (fs_data fs)
                   in (Inr h, fs'\<lparr>fs_files := AList.update p (Data i) (fs_files fs'), fs_next := Suc i, fs_data := s\<rparr>))
         | Some (Meta c) \<Rightarrow> (Inl (Errorf ''invalid argument''), fs')
         | Some (Data i) \<Rightarrow> (let (h, s) = open_inode E i trunc (fs_data fs) in (Inr h, fs'\<lparr>fs_data := s\<rparr>))))"

definition NewDirectFileIoProcessor ::
  "('h, 's) fs_env \<Rightarrow> string \<Rightarrow> bool \<Rightarrow> bool \<Rightarrow> 's fsys \<Rightarrow> (error + 'h) \<times> 's fsys" where
  "NewDirectFileIoProcessor E p trunc isCreate fs = (case open_existing E p trunc fs of
       (Inl e, fs') \<Rightarrow> if isCreate then open_create E p trunc fs' else (Inl e, fs')
     | (Inr h, fs') \<Rightarrow> (Inr h, fs'))"

definition sys_Truncate :: "('h, 's) fs_env \<Rightarrow> string \<Rightarrow> int \<Rightarrow> 's fsys \<Rightarrow> error option \<times> 's fsys" where
  "sys_Truncate E p n fs = (case call E fs of
       (Some e, fs') \<Rightarrow> (Some e, fs')
     | (None, fs') \<Rightarrow> (case entry fs p of
           Some (Data i) \<Rightarrow> (None, fs'\<lparr>fs_data := truncate_inode E i n (fs_data fs)\<rparr>)
         | Some (Meta c) \<Rightarrow> (Some (Errorf ''invalid argument''), fs')
         | None \<Rightarrow> (Some (ErrNotExist p), fs')))"

definition close_handle :: "('h, 's) fs_env \<Rightarrow> 'h \<Rightarrow> 's fsys \<Rightarrow> error option \<times> 's fsys" where
  "close_handle E h fs = (let (err, s) = op_Close (dops E) h (fs_data fs) in (err, fs\<lparr>fs_data := s\<rparr>))"

text \<open>util.GetFileActualSize, and the layer operations with it.\<close>

definition GetFileActualSize :: "('h, 's) fs_env \<Rightarrow> 's fsys \<Rightarrow> string \<Rightarrow> 's \<Rightarrow> int" where
  "GetFileActualSize E fs p s = (case entry fs p of Some (Data i) \<Rightarrow> inode_size E i s | Some (Meta c) \<Rightarrow> snd (meta_stat E) | None \<Rightarrow> - 1)"

definition data_ops :: "('h, 's) fs_env \<Rightarrow> 's fsys \<Rightarrow> ('h, 's) disk_ops" where
  "data_ops E fs = (dops E)\<lparr>op_ActualSize := GetFileActualSize E fs\<rparr>"

text \<open>util.GetHeadFileModifyTimeAndSize.\<close>

definition GetHeadFileModifyTimeAndSize :: "('h, 's) fs_env \<Rightarrow> 's fsys \<Rightarrow> string \<Rightarrow> int \<times> int \<times> error option" where
  "GetHeadFileModifyTimeAndSize E fs p = (case entry fs p of
       Some (Data i) \<Rightarrow> (inode_mtime E i (fs_data fs), inode_size E i (fs_data fs), None)
     | Some (Meta c) \<Rightarrow> (fst (meta_stat E), snd (meta_stat E), None)
     | None \<Rightarrow> (0, 0, Some (ErrNotExist p)))"

section \<open>Paths\<close>

definition IsAbs :: "string \<Rightarrow> bool" where
  "IsAbs p = HasPrefix p ''/''"

text \<open>Replica.diskPath, for an absolute directory.\<close>

definition diskPath :: "string \<Rightarrow> string \<Rightarrow> string" where
  "diskPath dir name = (if IsAbs name then name else path_Join dir name)"

end
