(* ===== verification/Replica.thy ===== *)
theory Replica
  imports Replica_Files
begin

text \<open>
  A replica (src/pkg/replica/replica.go): the metadata of its disks in memory and on disk, the
  live chain, and the operations that create, remove, mark, replace and revert disks.

  diskData and activeDiskData hold pointers to the same disk structs and the code changes them
  through either, so the structs live in a heap (r_heap) and both hold addresses.  A Go map is an association list
  whose order stands for the arbitrary order of range.  An operation returns None when it panics
  or does not return.
\<close>

definition volumeMetaData :: string where "volumeMetaData = ''volume.meta''"
definition maximumChainLength :: nat where "maximumChainLength = 250"
definition tmpFileSuffix :: string where "tmpFileSuffix = ''.tmp''"
definition revisionCounterFile :: string where "revisionCounterFile = ''revision.counter''"

record 'h replica =
  r_volume :: "'h diffDisk"
  r_dir :: string
  r_info :: Info
  r_BackingFile :: "(string \<times> 'h) option"
  r_heap :: "disk list"
  r_diskData :: "(string \<times> nat) list"
  r_diskChildrenMap :: "(string \<times> string list) list"
  r_activeDiskData :: "nat option list"
  r_readOnly :: bool
  r_revisionCache :: int
  r_revisionFile :: "'h option"
  r_revisionCounterDisabled :: bool
  r_unmapMarkDiskChainRemoved :: bool
  r_snapshotMaxCount :: int
  r_snapshotMaxSize :: int

type_synonym ('h, 's) rollback = "'h replica \<Rightarrow> 's fsys \<Rightarrow> error option \<times> 'h replica \<times> 's fsys"

definition at :: "'h replica \<Rightarrow> nat \<Rightarrow> disk" where
  "at r p = r_heap r ! p"

definition disk_of :: "'h replica \<Rightarrow> string \<Rightarrow> disk option" where
  "disk_of r name = map_option (at r) (map_of (r_diskData r) name)"

definition poke :: "nat \<Rightarrow> (disk \<Rightarrow> disk) \<Rightarrow> 'h replica \<Rightarrow> 'h replica" where
  "poke p f r = r\<lparr>r_heap := (r_heap r)[p := f (at r p)]\<rparr>"

text \<open>The address of a new struct and the heap with it.\<close>

definition alloc :: "disk \<Rightarrow> 'h replica \<Rightarrow> nat \<times> 'h replica" where
  "alloc d r = (length (r_heap r), r\<lparr>r_heap := r_heap r @ [d]\<rparr>)"

definition meta_name :: "string \<Rightarrow> string" where
  "meta_name name = name @ DiskMetadataSuffix"

section \<open>Files\<close>

abbreviation path_of :: "'h replica \<Rightarrow> string \<Rightarrow> string" where
  "path_of r name \<equiv> diskPath (r_dir r) name"

definition rp_openFile :: "('h, 's) fs_env \<Rightarrow> 'h replica \<Rightarrow> string \<Rightarrow> bool \<Rightarrow> 's fsys \<Rightarrow> (error + 'h) \<times> 's fsys" where
  "rp_openFile E r name trunc fs = NewDirectFileIoProcessor E (path_of r name) trunc True fs"

definition unmarshalInfo :: "('h, 's) fs_env \<Rightarrow> string \<Rightarrow> string \<Rightarrow> Info \<Rightarrow> 's fsys \<Rightarrow> (error + Info) \<times> 's fsys" where
  "unmarshalInfo E dir file info fs = os_OpenDecode E (diskPath dir file) (\<lambda>c. decode_Info c info) fs"

definition unmarshalDisk :: "('h, 's) fs_env \<Rightarrow> string \<Rightarrow> string \<Rightarrow> 's fsys \<Rightarrow> (error + disk) \<times> 's fsys" where
  "unmarshalDisk E dir file fs = os_OpenDecode E (diskPath dir file) (\<lambda>c. decode_disk c zero_disk) fs"

definition ReadInfo :: "('h, 's) fs_env \<Rightarrow> string \<Rightarrow> 's fsys \<Rightarrow> (error + Info) \<times> 's fsys" where
  "ReadInfo E dir fs = unmarshalInfo E dir volumeMetaData zero_Info fs"

text \<open>encodeToFile: the temporary file is created, filled, closed and renamed.\<close>

definition encode_steps :: "('h, 's) fs_env \<Rightarrow> string \<Rightarrow> string \<Rightarrow> fcontent \<Rightarrow> 's fsys \<Rightarrow> error option \<times> 's fsys" where
  "encode_steps E tmp file c fs =
     (case os_Create E tmp fs of
        (Some e, fs) \<Rightarrow> (Some (Wrapped (''failed to create the tmp file for file '' @ file) e), fs)
      | (None, fs) \<Rightarrow> (case json_Encode E tmp c fs of
          (Some e, fs) \<Rightarrow> (Some e, fs)
        | (None, fs) \<Rightarrow> (case call E fs of
            (Some e, fs) \<Rightarrow> (Some e, fs)
          | (None, fs) \<Rightarrow> os_Rename E tmp file fs)))"

definition remove_rollback :: "('h, 's) fs_env \<Rightarrow> string \<Rightarrow> ('h, 's) rollback" where
  "remove_rollback E p r fs = (let (e, fs) = os_RemoveAll E p fs in (e, r, fs))"

definition encodeToFile ::
  "('h, 's) fs_env \<Rightarrow> 'h replica \<Rightarrow> fcontent \<Rightarrow> string \<Rightarrow> 's fsys \<Rightarrow> ('h, 's) rollback option \<times> error option \<times> 's fsys" where
  "encodeToFile E r c file fs =
     (if r_readOnly r then (None, None, fs)
      else
        let tmp = path_of r (file @ tmpFileSuffix)
        in case encode_steps E tmp (path_of r file) c fs of
             (None, fs) \<Rightarrow> (Some (remove_rollback E tmp), None, fs)
           | (Some err, fs) \<Rightarrow>
               let (re, fs) = os_RemoveAll E tmp fs
               in (None, GenerateFunctionErrorWithRollback (Some err) re, fs))"

definition writeVolumeMetaData :: "('h, 's) fs_env \<Rightarrow> 'h replica \<Rightarrow> bool \<Rightarrow> bool \<Rightarrow> 's fsys \<Rightarrow> error option \<times> 's fsys" where
  "writeVolumeMetaData E r dirty rebuilding fs =
     (let (_, err, fs) = encodeToFile E r (JInfo ((r_info r)\<lparr>i_Dirty := dirty, i_Rebuilding := rebuilding\<rparr>)) volumeMetaData fs
      in (err, fs))"

definition rp_SetRebuilding :: "('h, 's) fs_env \<Rightarrow> 'h replica \<Rightarrow> bool \<Rightarrow> 's fsys \<Rightarrow> error option \<times> 'h replica \<times> 's fsys" where
  "rp_SetRebuilding E r rebuilding fs =
     (case writeVolumeMetaData E r True rebuilding fs of
        (Some e, fs) \<Rightarrow> (Some e, r, fs)
      | (None, fs) \<Rightarrow> (None, r\<lparr>r_info := (r_info r)\<lparr>i_Rebuilding := rebuilding\<rparr>\<rparr>, fs))"

definition later :: "error option \<Rightarrow> error option \<Rightarrow> error option" where
  "later old new = (case new of None \<Rightarrow> old | Some e \<Rightarrow> Some e)"

definition rmDisk :: "('h, 's) fs_env \<Rightarrow> 'h replica \<Rightarrow> string \<Rightarrow> 's fsys \<Rightarrow> error option \<times> 's fsys" where
  "rmDisk E r name fs =
     (if name = '''' then (None, fs)
      else
        let (e1, fs) = os_RemoveAll E (path_of r name) fs;
            (e2, fs) = os_RemoveAll E (path_of r (meta_name name)) fs;
            (e3, fs) = os_RemoveAll E (path_of r (name @ DiskChecksumSuffix)) fs
        in (later (later e1 e2) e3, fs))"

definition rm_rollback :: "('h, 's) fs_env \<Rightarrow> string \<Rightarrow> ('h, 's) rollback" where
  "rm_rollback E name r fs = (let (e, fs) = rmDisk E r name fs in (e, r, fs))"

section \<open>New heads and snapshots\<close>

text \<open>
  The match of diskPattern, volume-head-(\d)+.img, anywhere in a text: the group repeats, so what
  it captures is its last digit.
\<close>

definition img_after :: "nat \<Rightarrow> string \<Rightarrow> bool" where
  "img_after k s = (case drop k s of c # rest \<Rightarrow> c \<noteq> CHR 0x0A \<and> HasPrefix rest ''img'' | [] \<Rightarrow> False)"

definition match_digits :: "string \<Rightarrow> char option" where
  "match_digits s =
     (let n = length (takeWhile isDigit s)
      in map_option (\<lambda>k. s ! (k - 1)) (List.find (\<lambda>k. img_after k s) (rev [1 ..< Suc n])))"

fun match_head :: "string \<Rightarrow> char option" where
  "match_head [] = None"
| "match_head (x # xs) =
     (if HasPrefix (x # xs) VolumeHeadDiskPrefix
      then (case match_digits (drop (length VolumeHeadDiskPrefix) (x # xs)) of Some c \<Rightarrow> Some c | None \<Rightarrow> match_head xs)
      else match_head xs)"

text \<open>fmt.Sprintf("%03d", n).\<close>

definition pad3 :: "nat \<Rightarrow> string" where
  "pad3 n = (let s = showNat n in replicate (3 - length s) CHR ''0'' @ s)"

definition head_name :: "nat \<Rightarrow> string" where
  "head_name n = VolumeHeadDiskPrefix @ pad3 n @ VolumeHeadDiskSuffix"

definition nextFile :: "string \<Rightarrow> error + string" where
  "nextFile parent =
     (if parent = '''' then Inr (head_name 0)
      else case match_head parent of
        None \<Rightarrow> Inl (Errorf (''invalid name '' @ parent @ '' does not match pattern: volume-head-('' @ [CHR 0x5C] @ ''d)+.img''))
      | Some c \<Rightarrow> Inr (head_name (digitVal c + 1)))"

text \<open>createNewHead: the handle, the new disk and the rollback, or the error.\<close>

definition head_rollback :: "('h, 's) fs_env \<Rightarrow> 'h \<Rightarrow> string \<Rightarrow> ('h, 's) rollback option \<Rightarrow> ('h, 's) rollback" where
  "head_rollback E h newHeadName sub r fs =
     (let (_, fs) = close_handle E h fs
      in case sub of
           Some f \<Rightarrow> (let (e1, r, fs) = f r fs; (e2, fs) = rmDisk E r newHeadName fs in (CombineErrors [e1, e2], r, fs))
         | None \<Rightarrow> (let (e, fs) = rmDisk E r newHeadName fs in (e, r, fs)))"

definition head_failed ::
  "('h, 's) fs_env \<Rightarrow> 'h replica \<Rightarrow> 'h \<Rightarrow> string \<Rightarrow> error \<Rightarrow> 's fsys \<Rightarrow> (error + 'x) \<times> 's fsys" where
  "head_failed E r h newHeadName err fs =
     (let (re, _, fs) = head_rollback E h newHeadName None r fs
      in (Inl (the (GenerateFunctionErrorWithRollback (Some err) re)), fs))"

definition createNewHead ::
  "('h, 's) fs_env \<Rightarrow> 'h replica \<Rightarrow> string \<Rightarrow> string \<Rightarrow> string \<Rightarrow> int \<Rightarrow> 's fsys \<Rightarrow>
     (error + 'h \<times> disk \<times> ('h, 's) rollback) \<times> 's fsys" where
  "createNewHead E r oldHead parent created size' fs =
     (case nextFile oldHead of
        Inl e \<Rightarrow> (Inl e, fs)
      | Inr newHeadName \<Rightarrow> (case os_Stat E (path_of r newHeadName) fs of
          (None, fs) \<Rightarrow> (Inl (Errorf (newHeadName @ '' already exists'')), fs)
        | (Some _, fs) \<Rightarrow> (case rp_openFile E r (path_of r newHeadName) True fs of
            (Inl e, fs) \<Rightarrow> (Inl e, fs)
          | (Inr h, fs) \<Rightarrow> (case sys_Truncate E (path_of r newHeadName) size' fs of
              (Some e, fs) \<Rightarrow> head_failed E r h newHeadName e fs
            | (None, fs) \<Rightarrow>
                let newDisk = zero_disk\<lparr>d_Parent := parent, d_Name := newHeadName, d_Created := created\<rparr>
                in case encodeToFile E r (JDisk newDisk) (meta_name newHeadName) fs of
                     (_, Some e, fs) \<Rightarrow> head_failed E r h newHeadName e fs
                   | (sub, None, fs) \<Rightarrow> (Inr (h, newDisk, head_rollback E h newHeadName sub), fs)))))"

definition clean_up :: "('h, 's) fs_env \<Rightarrow> string \<Rightarrow> string \<Rightarrow> 's fsys \<Rightarrow> error option \<times> 's fsys" where
  "clean_up E what p fs =
     (case os_RemoveAll E p fs of
        (Some e, fs) \<Rightarrow> (Some (Wrapped (''failed to clean up new disk '' @ what @ '' '' @ p @ '' before linking'') e), fs)
      | (None, fs) \<Rightarrow> (None, fs))"

definition link_failed :: "('h, 's) fs_env \<Rightarrow> 'h replica \<Rightarrow> string \<Rightarrow> error \<Rightarrow> 's fsys \<Rightarrow> ('h, 's) rollback option \<times> error option \<times> 's fsys" where
  "link_failed E r newName err fs =
     (let (re, fs) = rmDisk E r newName fs in (None, GenerateFunctionErrorWithRollback (Some err) re, fs))"

definition linkDisk ::
  "('h, 's) fs_env \<Rightarrow> 'h replica \<Rightarrow> string \<Rightarrow> string \<Rightarrow> 's fsys \<Rightarrow> ('h, 's) rollback option \<times> error option \<times> 's fsys" where
  "linkDisk E r oldName newName fs =
     (if oldName = '''' then (None, None, fs)
      else case clean_up E ''metadata file'' (path_of r (meta_name newName)) fs of
        (Some e, fs) \<Rightarrow> (None, Some e, fs)
      | (None, fs) \<Rightarrow> (case clean_up E ''checksum file'' (path_of r (newName @ DiskChecksumSuffix)) fs of
          (Some e, fs) \<Rightarrow> (None, Some e, fs)
        | (None, fs) \<Rightarrow> (case clean_up E ''file'' (path_of r newName) fs of
            (Some e, fs) \<Rightarrow> (None, Some e, fs)
          | (None, fs) \<Rightarrow> (case os_Link E (path_of r oldName) (path_of r newName) fs of
              (Some e, fs) \<Rightarrow> link_failed E r newName e fs
            | (None, fs) \<Rightarrow> (case os_Link E (path_of r (meta_name oldName)) (path_of r (meta_name newName)) fs of
                (Some e, fs) \<Rightarrow> link_failed E r newName e fs
              | (None, fs) \<Rightarrow> (Some (rm_rollback E newName), None, fs))))))"

section \<open>Parents and children\<close>

definition addChildDisk :: "string \<Rightarrow> string \<Rightarrow> 'h replica \<Rightarrow> 'h replica" where
  "addChildDisk parent child r =
     (let children = (case map_of (r_diskChildrenMap r) parent of None \<Rightarrow> [] | Some cs \<Rightarrow> cs)
      in r\<lparr>r_diskChildrenMap := AList.update parent (List.insert child children) (r_diskChildrenMap r)\<rparr>)"

definition rmChildDisk :: "string \<Rightarrow> string \<Rightarrow> 'h replica \<Rightarrow> 'h replica" where
  "rmChildDisk parent child r =
     (case map_of (r_diskChildrenMap r) parent of
        None \<Rightarrow> r
      | Some children \<Rightarrow>
          if child \<notin> set children then r
          else
            let children = remove1 child children
            in if children = [] then r\<lparr>r_diskChildrenMap := AList.delete parent (r_diskChildrenMap r)\<rparr>
               else r\<lparr>r_diskChildrenMap := AList.update parent children (r_diskChildrenMap r)\<rparr>)"

definition updateChildDisk :: "string \<Rightarrow> string \<Rightarrow> 'h replica \<Rightarrow> 'h replica option" where
  "updateChildDisk oldName newName r = do {
     d \<leftarrow> disk_of r oldName;
     let r = rmChildDisk (d_Parent d) oldName r;
     Some (if newName \<noteq> '''' then addChildDisk (d_Parent d) newName r else r)
   }"

definition updateParentDisk ::
  "('h, 's) fs_env \<Rightarrow> string \<Rightarrow> string \<Rightarrow> 'h replica \<Rightarrow> 's fsys \<Rightarrow> (error option \<times> 'h replica \<times> 's fsys) option" where
  "updateParentDisk E name oldParent r fs = do {
     p \<leftarrow> map_of (r_diskData r) name;
     parent \<leftarrow> (if oldParent \<noteq> '''' then map_option d_Parent (disk_of r oldParent) else Some '''');
     let r = poke p (\<lambda>d. d\<lparr>d_Parent := parent\<rparr>) r;
     let r = r\<lparr>r_diskData := AList.update name p (r_diskData r)\<rparr>;
     let (_, err, fs) = encodeToFile E r (JDisk (at r p)) (meta_name (d_Name (at r p))) fs;
     Some (err, r, fs)
   }"

section \<open>Chain\<close>

text \<open>Chain and DisplayChain: they follow the parents until the empty name; a cycle is never left.\<close>

partial_function (option) chain_loop :: "(string \<Rightarrow> disk option) \<Rightarrow> string \<Rightarrow> string list \<Rightarrow> (error + string list) option" where
  "chain_loop dd cur result =
     (if cur = '''' then Some (Inr result)
      else case dd cur of
        None \<Rightarrow> Some (Inl (Errorf (''failed to find metadata for '' @ cur)))
      | Some d \<Rightarrow> chain_loop dd (d_Parent d) (result @ [cur]))"

declare chain_loop.simps [code]

definition Chain :: "'h replica \<Rightarrow> (error + string list) option" where
  "Chain r = chain_loop (disk_of r) (i_Head (r_info r)) []"

partial_function (option) display_loop :: "(string \<Rightarrow> disk option) \<Rightarrow> string \<Rightarrow> string list \<Rightarrow> (error + string list) option" where
  "display_loop dd cur result =
     (if cur = '''' then Some (Inr result)
      else case dd cur of
        None \<Rightarrow> Some (Inl (Errorf (''failed to find metadata for '' @ cur)))
      | Some d \<Rightarrow> display_loop dd (d_Parent d) (if d_Removed d then result else result @ [cur]))"

declare display_loop.simps [code]

definition DisplayChain :: "'h replica \<Rightarrow> (error + string list) option" where
  "DisplayChain r = display_loop (disk_of r) (i_Head (r_info r)) []"

fun find_from :: "'h replica \<Rightarrow> string \<Rightarrow> nat \<Rightarrow> nat option list \<Rightarrow> nat option" where
  "find_from r name i [] = Some 0"
| "find_from r name i (x # xs) =
     (if i = 0 then find_from r name (Suc i) xs
      else do { p \<leftarrow> x; (if d_Name (at r p) = name then Some i else find_from r name (Suc i) xs) })"

definition findDisk :: "'h replica \<Rightarrow> string \<Rightarrow> nat option" where
  "findDisk r name = find_from r name 0 (r_activeDiskData r)"

fun open_chain ::
  "('h, 's) fs_env \<Rightarrow> string list \<Rightarrow> 'h replica \<Rightarrow> 's fsys \<Rightarrow> error option \<times> 'h replica \<times> 's fsys" where
  "open_chain E [] r fs = (None, r, fs)"
| "open_chain E (n # ns) r fs =
     (case rp_openFile E r n False fs of
        (Inl e, fs) \<Rightarrow> (Some e, r, fs)
      | (Inr f, fs) \<Rightarrow> open_chain E ns (r\<lparr>r_volume := (r_volume r)\<lparr>files := files (r_volume r) @ [Some f]\<rparr>,
           r_activeDiskData := r_activeDiskData r @ [map_of (r_diskData r) n]\<rparr>) fs)"

definition openLiveChain :: "('h, 's) fs_env \<Rightarrow> 'h replica \<Rightarrow> 's fsys \<Rightarrow> (error option \<times> 'h replica \<times> 's fsys) option" where
  "openLiveChain E r fs = do {
     res \<leftarrow> Chain r;
     Some (case res of
        Inl e \<Rightarrow> (Some e, r, fs)
      | Inr chain \<Rightarrow>
          if length chain > maximumChainLength then (Some (Errorf (''live chain is too long: '' @ showNat (length chain))), r, fs)
          else open_chain E (rev chain) r fs)
   }"

section \<open>Limits\<close>

text \<open>The name of the backing disk is taken from activeDiskData[0].\<close>

definition backingDiskName :: "'h replica \<Rightarrow> string" where
  "backingDiskName r = (case r_activeDiskData r of Some p # _ \<Rightarrow> d_Name (at r p) | _ \<Rightarrow> '''')"

definition counted :: "'h replica \<Rightarrow> disk \<Rightarrow> bool" where
  "counted r d = (\<not> (d_Removed d \<or> d_Name d = backingDiskName r \<or> d_Name d = i_Head (r_info r)))"

definition getSnapshotCountUsage :: "'h replica \<Rightarrow> int" where
  "getSnapshotCountUsage r = int (length (filter (\<lambda>(n, p). counted r (at r p)) (r_diskData r)))"

definition getRemainSnapshotCounts :: "'h replica \<Rightarrow> int" where
  "getRemainSnapshotCounts r = r_snapshotMaxCount r - getSnapshotCountUsage r"

definition getDiskSize :: "('h, 's) fs_env \<Rightarrow> 's fsys \<Rightarrow> string \<Rightarrow> 'h replica \<Rightarrow> int \<times> 'h replica" where
  "getDiskSize E fs name r =
     (let ret = GetFileActualSize E fs (path_of r name) (fs_data fs)
      in if ret = - 1 \<and> i_Error (r_info r) = ''''
         then (ret, r\<lparr>r_info := (r_info r)\<lparr>i_Error := ''Failed to get file '' @ path_of r name @ '' size''\<rparr>\<rparr>)
         else (ret, r))"

fun size_usage_loop :: "('h, 's) fs_env \<Rightarrow> 's fsys \<Rightarrow> nat option list \<Rightarrow> int \<Rightarrow> 'h replica \<Rightarrow> int \<times> 'h replica" where
  "size_usage_loop E fs [] acc r = (acc, r)"
| "size_usage_loop E fs (x # xs) acc r =
     (case x of
        None \<Rightarrow> size_usage_loop E fs xs acc r
      | Some p \<Rightarrow>
          if \<not> counted r (at r p) then size_usage_loop E fs xs acc r
          else let (n, r) = getDiskSize E fs (d_Name (at r p)) r in size_usage_loop E fs xs (acc + n) r)"

definition rp_GetSnapshotSizeUsage :: "('h, 's) fs_env \<Rightarrow> 's fsys \<Rightarrow> 'h replica \<Rightarrow> int \<times> 'h replica" where
  "rp_GetSnapshotSizeUsage E fs r = size_usage_loop E fs (r_activeDiskData r) 0 r"

definition GetReplicaStat :: "('h, 's) fs_env \<Rightarrow> 's fsys \<Rightarrow> 'h replica \<Rightarrow> (int \<times> int) \<times> 'h replica" where
  "GetReplicaStat E fs r =
     (case GetHeadFileModifyTimeAndSize E fs (path_of r (i_Head (r_info r))) of
        (t, n, None) \<Rightarrow> ((t, n), r)
      | (t, n, Some e) \<Rightarrow> ((t, n), if i_Error (r_info r) = '''' then r\<lparr>r_info := (r_info r)\<lparr>i_Error := Error_msg e\<rparr>\<rparr> else r))"

section \<open>Creating a disk\<close>

text \<open>The rollback functions run in the order in which they were registered, and their errors are combined.\<close>

fun run_rollbacks :: "('h, 's) rollback option list \<Rightarrow> error option \<Rightarrow> 'h replica \<Rightarrow> 's fsys \<Rightarrow> error option \<times> 'h replica \<times> 's fsys" where
  "run_rollbacks [] rollbackErr r fs = (rollbackErr, r, fs)"
| "run_rollbacks (None # rs) rollbackErr r fs = run_rollbacks rs rollbackErr r fs"
| "run_rollbacks (Some f # rs) rollbackErr r fs =
     (let (e, r, fs) = f r fs in run_rollbacks rs (CombineErrors [rollbackErr, e]) r fs)"

definition createDisk_failed ::
  "string \<Rightarrow> ('h, 's) rollback option list \<Rightarrow> error \<Rightarrow> 'h replica \<Rightarrow> 's fsys \<Rightarrow> error option \<times> 'h replica \<times> 's fsys" where
  "createDisk_failed name rollbacks err r fs =
     (let (rollbackErr, r, fs) = run_rollbacks rollbacks None r fs
      in (WrapError (GenerateFunctionErrorWithRollback (Some err) rollbackErr) (''failed to create new disk '' @ name), r, fs))"

definition meta_rollback :: "('h, 's) fs_env \<Rightarrow> ('h, 's) rollback option \<Rightarrow> ('h, 's) rollback" where
  "meta_rollback E encodeRollback r fs =
     (let (_, err, fs) = encodeToFile E r (JInfo (r_info r)) volumeMetaData fs
      in case encodeRollback of
           Some f \<Rightarrow> (let (e, r, fs) = f r fs in (CombineErrors [e, err], r, fs))
         | None \<Rightarrow> (err, r, fs))"

definition maps_rollback :: "string \<Rightarrow> string \<Rightarrow> ('h, 's) rollback" where
  "maps_rollback newHead newSnap r fs =
     (None, r\<lparr>r_diskData := AList.delete newSnap (AList.delete newHead (r_diskData r)),
              r_diskChildrenMap := AList.delete newSnap (r_diskChildrenMap r)\<rparr>, fs)"

text \<open>
  The changes of the maps: adding the new head, and making the struct of the old head the new
  snapshot's.  The last step appends the new head to the volume and to activeDiskData.
\<close>

definition add_snapshot :: "string \<Rightarrow> string \<Rightarrow> string \<Rightarrow> bool \<Rightarrow> string \<Rightarrow> (string \<times> string) list option \<Rightarrow> 'h replica \<Rightarrow> 'h replica option" where
  "add_snapshot oldHead newHead newSnapName userCreated created labels r = do {
     let r = addChildDisk newSnapName newHead r;
     p \<leftarrow> map_of (r_diskData r) oldHead;
     let r = r\<lparr>r_diskData := AList.update newSnapName p (r_diskData r)\<rparr>;
     Some (poke p (\<lambda>d. d\<lparr>d_UserCreated := userCreated, d_Created := created, d_Labels := labels\<rparr>) r)
   }"

definition rename_last :: "string \<Rightarrow> 'h replica \<Rightarrow> 'h replica option" where
  "rename_last name r = do {
     x \<leftarrow> index (r_activeDiskData r) (int (length (r_activeDiskData r)) - 1);
     p \<leftarrow> x;
     Some (poke p (\<lambda>d. d\<lparr>d_Name := name\<rparr>) r)
   }"

definition finish_create :: "('h, 's) fs_env \<Rightarrow> string \<Rightarrow> Info \<Rightarrow> 'h \<Rightarrow> nat \<Rightarrow> 'h replica \<Rightarrow> 's fsys \<Rightarrow> error option \<times> 'h replica \<times> 's fsys" where
  "finish_create E oldHead info f headPtr r fs =
     (let r = r\<lparr>r_diskData := AList.delete oldHead (r_diskData r), r_info := info,
               r_volume := (r_volume r)\<lparr>files := files (r_volume r) @ [Some f]\<rparr>,
               r_activeDiskData := r_activeDiskData r @ [Some headPtr]\<rparr>;
          (_, fs) = rmDisk E r oldHead fs
      in (None, r, fs))"

definition create_steps ::
  "('h, 's) fs_env \<Rightarrow> 'h replica \<Rightarrow> string \<Rightarrow> string \<Rightarrow> bool \<Rightarrow> string \<Rightarrow> (string \<times> string) list option \<Rightarrow> int \<Rightarrow> 's fsys \<Rightarrow>
     (error option \<times> 'h replica \<times> 's fsys) option" where
  "create_steps E r name newSnapName userCreated created labels size' fs =
     (let oldHead = i_Head (r_info r) in
      case createNewHead E r oldHead newSnapName created size' fs of
        (Inl e, fs) \<Rightarrow> Some (createDisk_failed name [] e r fs)
      | (Inr (f, newHeadDisk, rb1), fs) \<Rightarrow> (case linkDisk E r oldHead newSnapName fs of
          (_, Some e, fs) \<Rightarrow> Some (createDisk_failed name [Some rb1] e r fs)
        | (rb2, None, fs) \<Rightarrow>
            let info = (r_info r)\<lparr>i_Head := d_Name newHeadDisk, i_Dirty := True, i_Parent := newSnapName, i_Size := size'\<rparr>
            in case encodeToFile E r (JInfo info) volumeMetaData fs of
                 (_, Some e, fs) \<Rightarrow> Some (createDisk_failed name [Some rb1, rb2] e r fs)
               | (mrb, None, fs) \<Rightarrow>
                   let rbs = [Some rb1, rb2, Some (meta_rollback E mrb)];
                       (q, r) = alloc newHeadDisk r;
                       r = r\<lparr>r_diskData := AList.update (d_Name newHeadDisk) q (r_diskData r)\<rparr>
                   in if newSnapName = '''' then Some (finish_create E oldHead info f q r fs)
                   else do {
                     r \<leftarrow> add_snapshot oldHead (d_Name newHeadDisk) newSnapName userCreated created labels r;
                     sd \<leftarrow> disk_of r newSnapName;
                     (case encodeToFile E r (JDisk sd) (meta_name newSnapName) fs of
                        (_, Some e, fs) \<Rightarrow>
                          Some (createDisk_failed name (rbs @ [Some (maps_rollback (d_Name newHeadDisk) newSnapName)]) e r fs)
                      | (_, None, fs) \<Rightarrow> do {
                          r \<leftarrow> updateChildDisk oldHead newSnapName r;
                          r \<leftarrow> rename_last newSnapName r;
                          Some (finish_create E oldHead info f q r fs)
                        })
                   }))"

definition createDisk ::
  "('h, 's) fs_env \<Rightarrow> 'h replica \<Rightarrow> string \<Rightarrow> bool \<Rightarrow> string \<Rightarrow> (string \<times> string) list option \<Rightarrow> int \<Rightarrow> 's fsys \<Rightarrow>
     (error option \<times> 'h replica \<times> 's fsys) option" where
  "createDisk E r name userCreated created labels size' fs =
     (if r_readOnly r then Some (Some (Errorf ''cannot create disk on read-only replica''), r, fs)
      else if getRemainSnapshotCounts r \<le> 0
      then Some (Some (Errorf (''too many active disks: '' @ showInt (int (length (r_activeDiskData r)) - 2 + 1))), r, fs)
      else
        let newSnapName = (if i_Head (r_info r) = '''' then '''' else GenerateSnapshotDiskName name)
        in if newSnapName \<noteq> '''' \<and> map_of (r_diskData r) newSnapName \<noteq> None
           then Some (Some (Errorf (''snapshot '' @ newSnapName @ '' is already existing'')), r, fs)
           else create_steps E r name newSnapName userCreated created labels size' fs)"

definition rp_Snapshot ::
  "('h, 's) fs_env \<Rightarrow> 'h replica \<Rightarrow> string \<Rightarrow> bool \<Rightarrow> string \<Rightarrow> (string \<times> string) list option \<Rightarrow> 's fsys \<Rightarrow>
     (error option \<times> 'h replica \<times> 's fsys) option" where
  "rp_Snapshot E r name userCreated created labels fs = createDisk E r name userCreated created labels (i_Size (r_info r)) fs"

definition rp_Expand :: "('h, 's) fs_env \<Rightarrow> 'h replica \<Rightarrow> int \<Rightarrow> 's fsys \<Rightarrow> (error option \<times> 'h replica \<times> 's fsys) option" where
  "rp_Expand E r size' fs =
     (if size' smod VolumeSectorSize \<noteq> 0
      then Some (Some (Errorf (''failed to expend volume replica size '' @ showInt size' @
             '', because it is not multiple of volume sector size '' @ showInt VolumeSectorSize)), r, fs)
      else if i_Size (r_info r) > size'
      then Some (Some (Errorf (''cannot expand replica to a smaller size '' @ showInt size')), r, fs)
      else if i_Size (r_info r) = size' then Some (None, r, fs)
      else do {
        (err, r, fs) \<leftarrow> createDisk E r (GenerateExpansionSnapshotName size') False (rnow E)
           (Some (GenerateExpansionSnapshotLabels size')) size' fs;
        (case err of
           Some e \<Rightarrow> Some (Some e, r, fs)
         | None \<Rightarrow> do { v \<leftarrow> Expand (r_volume r) size'; Some (None, r\<lparr>r_volume := v\<rparr>, fs) })
      })"

section \<open>Removing disks\<close>

text \<open>removeDiskNode; the child that inherits is the last one that range delivers.\<close>

definition removeDiskNode ::
  "('h, 's) fs_env \<Rightarrow> 'h replica \<Rightarrow> string \<Rightarrow> bool \<Rightarrow> 's fsys \<Rightarrow> (error option \<times> 'h replica \<times> 's fsys) option" where
  "removeDiskNode E r name force fs =
     (case map_of (r_diskChildrenMap r) name of
        None \<Rightarrow> do {
          r \<leftarrow> updateChildDisk name '''' r;
          Some (None, r\<lparr>r_diskData := AList.delete name (r_diskData r)\<rparr>, fs)
        }
      | Some children \<Rightarrow>
          if length children > 1 \<and> \<not> force
          then Some (Some (Errorf (''cannot remove snapshot '' @ name @ '' with '' @ showNat (length children) @ '' children'')), r, fs)
          else
            let child = (if children = [] then '''' else last children)
            in do {
              r \<leftarrow> updateChildDisk name child r;
              (err, r, fs) \<leftarrow> updateParentDisk E child name r fs;
              (case err of
                 Some e \<Rightarrow> Some (Some e, r, fs)
               | None \<Rightarrow>
                   let r = r\<lparr>r_diskData := AList.delete name (r_diskData r),
                             r_diskChildrenMap := AList.delete name (r_diskChildrenMap r)\<rparr>
                   in do {
                     i \<leftarrow> findDisk r name;
                     (if i = 0 then Some (None, r, fs)
                      else do {
                        (err, v, s) \<leftarrow> RemoveIndex (dops E) (r_volume r) (int i) (fs_data fs);
                        let fs = fs\<lparr>fs_data := s\<rparr>;
                        (case err of
                           Some e \<Rightarrow> Some (Some e, r\<lparr>r_volume := v\<rparr>, fs)
                         | None \<Rightarrow> do {
                             info \<leftarrow> (if int (length (r_activeDiskData r)) - 2 = int i
                                      then map_option (\<lambda>d. (r_info r)\<lparr>i_Parent := d_Parent d\<rparr>) (disk_of r (i_Head (r_info r)))
                                      else Some (r_info r));
                             Some (None, r\<lparr>r_volume := v, r_info := info,
                               r_activeDiskData := take i (r_activeDiskData r) @ drop (Suc i) (r_activeDiskData r)\<rparr>, fs)
                           })
                      })
                   })
            })"

definition RemoveDiffDisk ::
  "('h, 's) fs_env \<Rightarrow> 'h replica \<Rightarrow> string \<Rightarrow> bool \<Rightarrow> 's fsys \<Rightarrow> (error option \<times> 'h replica \<times> 's fsys) option" where
  "RemoveDiffDisk E r name force fs =
     (if name = i_Head (r_info r) then Some (Some (Errorf ''cannot delete the active differencing disk''), r, fs)
      else do {
        (err, r, fs) \<leftarrow> removeDiskNode E r name force fs;
        (case err of
           Some e \<Rightarrow> Some (Some e, r, fs)
         | None \<Rightarrow> let (err, fs) = rmDisk E r name fs in Some (err, r, fs))
      })"

definition markDiskAsRemoved :: "('h, 's) fs_env \<Rightarrow> 'h replica \<Rightarrow> string \<Rightarrow> 's fsys \<Rightarrow> error option \<times> 'h replica \<times> 's fsys" where
  "markDiskAsRemoved E r name fs =
     (case map_of (r_diskData r) name of
        None \<Rightarrow> (Some (Errorf (''cannot find disk '' @ name)), r, fs)
      | Some p \<Rightarrow> (case os_Stat E (path_of r name) fs of
          (Some _, fs) \<Rightarrow> (Some (Errorf (''cannot find disk file '' @ name)), r, fs)
        | (None, fs) \<Rightarrow> (case os_Stat E (path_of r (meta_name name)) fs of
            (Some _, fs) \<Rightarrow> (Some (Errorf (''cannot find disk metafile '' @ meta_name name)), r, fs)
          | (None, fs) \<Rightarrow>
              let r = poke p (\<lambda>d. d\<lparr>d_Removed := True\<rparr>) r;
                  r = r\<lparr>r_diskData := AList.update name p (r_diskData r)\<rparr>;
                  (_, err, fs) = encodeToFile E r (JDisk (at r p)) (meta_name name) fs
              in (err, r, fs))))"

text \<open>The disk that a name or a snapshot name stands for.\<close>

definition resolve :: "'h replica \<Rightarrow> string \<Rightarrow> string option" where
  "resolve r name =
     (if map_of (r_diskData r) name \<noteq> None then Some name
      else if map_of (r_diskData r) (GenerateSnapshotDiskName name) \<noteq> None then Some (GenerateSnapshotDiskName name)
      else None)"

definition MarkDiskAsRemoved :: "('h, 's) fs_env \<Rightarrow> 'h replica \<Rightarrow> string \<Rightarrow> 's fsys \<Rightarrow> error option \<times> 'h replica \<times> 's fsys" where
  "MarkDiskAsRemoved E r name fs =
     (case resolve r name of
        None \<Rightarrow> (None, r, fs)
      | Some d \<Rightarrow>
          if d = i_Head (r_info r) then (Some (Errorf ''cannot mark the active differencing disk as removed''), r, fs)
          else let (err, r, fs) = markDiskAsRemoved E r d fs
               in (Wrapf err (''failed to mark disk '' @ d @ '' as removed''), r, fs))"

definition OpCoalesce :: string where "OpCoalesce = ''coalesce''"
definition OpRemove :: string where "OpRemove = ''remove''"
definition OpReplace :: string where "OpReplace = ''replace''"
definition OpPrune :: string where "OpPrune = ''prune''"

definition action :: "string \<Rightarrow> string \<Rightarrow> string \<Rightarrow> PrepareRemoveAction" where
  "action op source target = \<lparr>pa_Action = op, pa_Source = source, pa_Target = target\<rparr>"

definition processPrepareRemoveDisks :: "'h replica \<Rightarrow> string \<Rightarrow> error + PrepareRemoveAction list" where
  "processPrepareRemoveDisks r d =
     (if map_of (r_diskData r) d = None then Inl (Errorf (''wrong disk '' @ d @ '' doesn't exist''))
      else case map_of (r_diskChildrenMap r) d of
        None \<Rightarrow> Inr [action OpRemove d '''']
      | Some children \<Rightarrow>
          if length children = 1
          then let child = last children
               in if child \<noteq> i_Head (r_info r) then Inr [action OpCoalesce d child, action OpReplace d child]
                  else Inr [action OpPrune d child]
          else Inr [])"

definition PrepareRemoveDisk :: "'h replica \<Rightarrow> string \<Rightarrow> error + PrepareRemoveAction list" where
  "PrepareRemoveDisk r name =
     (case resolve r name of
        None \<Rightarrow> Inr []
      | Some d \<Rightarrow>
          if d = i_Head (r_info r) then Inl (Errorf ''cannot delete the active differencing disk'')
          else if \<not> d_Removed (the (disk_of r d)) then Inl (Errorf (''disk '' @ d @ '' hasn't been marked as removed''))
          else processPrepareRemoveDisks r d)"

definition hardlinkDisk :: "('h, 's) fs_env \<Rightarrow> 'h replica \<Rightarrow> string \<Rightarrow> string \<Rightarrow> 's fsys \<Rightarrow> error option \<times> 's fsys" where
  "hardlinkDisk E r target source fs =
     (case os_Stat E (path_of r source) fs of
        (Some _, fs) \<Rightarrow> (Some (Errorf (''cannot find source of replacing: '' @ source)), fs)
      | (None, fs) \<Rightarrow>
          let (staterr, fs) = os_Stat E (path_of r target) fs;
              (rmerr, fs) = (if staterr = None then os_Remove E (path_of r target) fs else (None, fs))
          in case rmerr of
               Some e \<Rightarrow> (Some (Wrapped (''failed to remove '' @ target) e), fs)
             | None \<Rightarrow> (case os_Link E (path_of r source) (path_of r target) fs of
                 (Some _, fs) \<Rightarrow> (Some (Errorf (''failed to hard link '' @ source @ '' to '' @ target)), fs)
               | (None, fs) \<Rightarrow> (None, fs)))"

text \<open>ReplaceDisk: the target file is replaced by the source, whose node leaves the chain; then the handle is refreshed.\<close>

definition refresh_target ::
  "('h, 's) fs_env \<Rightarrow> 'h replica \<Rightarrow> string \<Rightarrow> 's fsys \<Rightarrow> (error option \<times> 'h replica \<times> 's fsys) option" where
  "refresh_target E r target fs = do {
     i \<leftarrow> findDisk r target;
     (if i = 0 then Some (None, r, fs)
      else do {
        h \<leftarrow> file_at (r_volume r) (int i);
        (case close_handle E h fs of
           (Some e, fs) \<Rightarrow> Some (Some e, r, fs)
         | (None, fs) \<Rightarrow> do {
             x \<leftarrow> index (r_activeDiskData r) (int i);
             p \<leftarrow> x;
             Some (case rp_openFile E r (d_Name (at r p)) False fs of
                (Inl e, fs) \<Rightarrow> (Some e, r, fs)
              | (Inr h', fs) \<Rightarrow> (None, r\<lparr>r_volume := (r_volume r)\<lparr>files := (files (r_volume r))[i := Some h']\<rparr>\<rparr>, fs))
           })
      })
   }"

definition ReplaceDisk ::
  "('h, 's) fs_env \<Rightarrow> 'h replica \<Rightarrow> string \<Rightarrow> string \<Rightarrow> 's fsys \<Rightarrow> (error option \<times> 'h replica \<times> 's fsys) option" where
  "ReplaceDisk E r target source fs =
     (if target = i_Head (r_info r) then Some (Some (Errorf ''cannot replace the active differencing disk''), r, fs)
      else case hardlinkDisk E r target source fs of
        (Some e, fs) \<Rightarrow> Some (Some e, r, fs)
      | (None, fs) \<Rightarrow> do {
          (err, r, fs) \<leftarrow> removeDiskNode E r source False fs;
          (case err of
             Some e \<Rightarrow> Some (Some e, r, fs)
           | None \<Rightarrow> (case rmDisk E r source fs of
               (Some e, fs) \<Rightarrow> Some (Some e, r, fs)
             | (None, fs) \<Rightarrow> refresh_target E r target fs))
        })"

end
