(* ===== verification/Replica_Open.thy ===== *)
theory Replica_Open
  imports Replica
begin

text \<open>
  Opening, reloading, reverting, closing and deleting a replica, its data path, and the file of
  the revision counter (src/pkg/replica/replica.go and src/pkg/replica/revision_counter.go).
\<close>

section \<open>The file of the revision counter\<close>

definition revisionBlockSize :: nat where "revisionBlockSize = 4096"

text \<open>strings.Trim(s, "\x00").\<close>

definition trim_zeros :: "string \<Rightarrow> string" where
  "trim_zeros s = rev (dropWhile (\<lambda>c. c = CHR 0x00) (rev (dropWhile (\<lambda>c. c = CHR 0x00) s)))"

definition readRevisionCounter :: "('h, 's) fs_env \<Rightarrow> 'h replica \<Rightarrow> 's fsys \<Rightarrow> error + int" where
  "readRevisionCounter E r fs =
     (case r_revisionFile r of
        None \<Rightarrow> Inl (Errorf ''BUG: revision file wasn't initialized'')
      | Some h \<Rightarrow>
          let (n, err, buf) = op_ReadAt (dops E) h (zeros revisionBlockSize) 0 (fs_data fs)
          in case err of
               None \<Rightarrow> (case ParseInt (trim_zeros (bytes_text buf)) of
                   None \<Rightarrow> Inl (Errorf ''failed to parse revision counter file'') | Some c \<Rightarrow> Inr c)
             | Some EOF \<Rightarrow> (case ParseInt (trim_zeros (bytes_text buf)) of
                   None \<Rightarrow> Inl (Errorf ''failed to parse revision counter file'') | Some c \<Rightarrow> Inr c)
             | Some e \<Rightarrow> Inl (Wrapped ''failed to read from revision counter file'' e))"

text \<open>The reused buffer: the digits are copied to its front and the rest of its first 20 bytes is cleared.\<close>

definition fill_counter :: "bytes \<Rightarrow> int \<Rightarrow> bytes" where
  "fill_counter buf counter =
     (let counterBytes = text_bytes (showInt counter)
      in blit (blit buf 0 counterBytes) (length counterBytes) (zeros (20 - length counterBytes)))"

definition writeRevisionCounter ::
  "('h, 's) fs_env \<Rightarrow> 'h replica \<Rightarrow> int \<Rightarrow> 's fsys \<Rightarrow> error option \<times> 's fsys" where
  "writeRevisionCounter E r counter fs =
     (case r_revisionFile r of
        None \<Rightarrow> (Some (Errorf ''BUG: revision file wasn't initialized''), fs)
      | Some h \<Rightarrow>
          let buf = fill_counter (revisionCounterBuf fs) counter;
              (n, err, s) = op_WriteAt (dops E) h buf 0 (fs_data fs)
          in (Wrapf err ''failed to write to revision counter file'', fs\<lparr>fs_data := s, revisionCounterBuf := buf\<rparr>))"

definition rp_SetRevisionCounter ::
  "('h, 's) fs_env \<Rightarrow> 'h replica \<Rightarrow> int \<Rightarrow> 's fsys \<Rightarrow> error option \<times> 'h replica \<times> 's fsys" where
  "rp_SetRevisionCounter E r counter fs =
     (case writeRevisionCounter E r counter fs of
        (Some e, fs) \<Rightarrow> (Some e, r, fs)
      | (None, fs) \<Rightarrow> (None, r\<lparr>r_revisionCache := counter\<rparr>, fs))"

definition openRevisionFile ::
  "('h, 's) fs_env \<Rightarrow> 'h replica \<Rightarrow> bool \<Rightarrow> 's fsys \<Rightarrow> error option \<times> 'h replica \<times> 's fsys" where
  "openRevisionFile E r isCreate fs =
     (case NewDirectFileIoProcessor E (path_of r revisionCounterFile) False isCreate fs of
        (Inl e, fs) \<Rightarrow> (Some e, r\<lparr>r_revisionFile := None\<rparr>, fs)
      | (Inr h, fs) \<Rightarrow> (None, r\<lparr>r_revisionFile := Some h\<rparr>, fs))"

text \<open>initRevisionCounter up to the start of the goroutine (theory Revision_Counter).\<close>

definition load_counter :: "('h, 's) fs_env \<Rightarrow> 'h replica \<Rightarrow> 's fsys \<Rightarrow> error option \<times> 'h replica \<times> 's fsys" where
  "load_counter E r fs =
     (case readRevisionCounter E r fs of Inl e \<Rightarrow> (Some e, r, fs) | Inr counter \<Rightarrow> (None, r\<lparr>r_revisionCache := counter\<rparr>, fs))"

definition initRevisionCounter :: "('h, 's) fs_env \<Rightarrow> 'h replica \<Rightarrow> 's fsys \<Rightarrow> error option \<times> 'h replica \<times> 's fsys" where
  "initRevisionCounter E r fs =
     (if r_readOnly r then (None, r, fs)
      else case os_Stat E (path_of r revisionCounterFile) fs of
        (Some (ErrNotExist p), fs) \<Rightarrow> (case openRevisionFile E r True fs of
            (Some e, r, fs) \<Rightarrow> (Some e, r, fs)
          | (None, r, fs) \<Rightarrow> (case writeRevisionCounter E r 0 fs of
              (Some e, fs) \<Rightarrow> (Some e, r, fs)
            | (None, fs) \<Rightarrow> load_counter E r fs))
      | (Some e, fs) \<Rightarrow> (Some e, r, fs)
      | (None, fs) \<Rightarrow> (case openRevisionFile E r False fs of
            (Some e, r, fs) \<Rightarrow> (Some e, r, fs)
          | (None, r, fs) \<Rightarrow> load_counter E r fs))"

section \<open>Reading the metadata\<close>

definition readDiskData :: "('h, 's) fs_env \<Rightarrow> string \<Rightarrow> 'h replica \<Rightarrow> 's fsys \<Rightarrow> error option \<times> 'h replica \<times> 's fsys" where
  "readDiskData E file r fs =
     (case unmarshalDisk E (r_dir r) file fs of
        (Inl e, fs) \<Rightarrow> (Some e, r, fs)
      | (Inr data, fs) \<Rightarrow>
          let name = take (length file - length DiskMetadataSuffix) file;
              (p, r) = alloc (data\<lparr>d_Name := name\<rparr>) r;
              r = r\<lparr>r_diskData := AList.update name p (r_diskData r)\<rparr>
          in (None, if d_Parent data \<noteq> '''' then addChildDisk (d_Parent data) name r else r, fs))"

fun read_files :: "('h, 's) fs_env \<Rightarrow> string list \<Rightarrow> 'h replica \<Rightarrow> 's fsys \<Rightarrow> error option \<times> 'h replica \<times> 's fsys" where
  "read_files E [] r fs = (None, r, fs)"
| "read_files E (f # fl) r fs =
     (if f = volumeMetaData
      then (case unmarshalInfo E (r_dir r) f (r_info r) fs of
          (Inl e, fs) \<Rightarrow> (Some e, r, fs)
        | (Inr info, fs) \<Rightarrow>
            read_files E fl (r\<lparr>r_info := info, r_volume := (r_volume r)\<lparr>sectorSize := VolumeSectorSize, dd_size := i_Size info\<rparr>\<rparr>) fs)
      else if HasSuffix f DiskMetadataSuffix
      then (case readDiskData E f r fs of
          (Some e, r, fs) \<Rightarrow> (Some e, r, fs)
        | (None, r, fs) \<Rightarrow> read_files E fl r fs)
      else read_files E fl r fs)"

definition readMetadata :: "('h, 's) fs_env \<Rightarrow> 'h replica \<Rightarrow> 's fsys \<Rightarrow> (error + bool) \<times> 'h replica \<times> 's fsys" where
  "readMetadata E r fs =
     (let r = r\<lparr>r_diskData := []\<rparr> in
      case os_ReadDir E (r_dir r) fs of
        (Inl (ErrNotExist p), fs) \<Rightarrow> (Inr False, r, fs)
      | (Inl e, fs) \<Rightarrow> (Inl e, r, fs)
      | (Inr fl, fs) \<Rightarrow> (case read_files E fl r fs of
          (Some e, r, fs) \<Rightarrow> (Inl e, r, fs)
        | (None, r, fs) \<Rightarrow> (Inr (r_diskData r \<noteq> []), r, fs)))"

text \<open>checkValidVolumeMetaData on the directory and the info it decodes into.\<close>

definition checkValidVolumeMetaData :: "('h, 's) fs_env \<Rightarrow> string \<Rightarrow> Info \<Rightarrow> 's fsys \<Rightarrow> (error + bool) \<times> Info \<times> 's fsys" where
  "checkValidVolumeMetaData E dir info fs =
     (case unmarshalInfo E dir (diskPath dir volumeMetaData) info fs of
        (Inr info, fs) \<Rightarrow> (Inr True, info, fs)
      | (Inl (ErrNotExist p), fs) \<Rightarrow> (Inr False, info, fs)
      | (Inl EOF, fs) \<Rightarrow> (Inr False, info, fs)
      | (Inl e, fs) \<Rightarrow> (Inl e, info, fs))"

definition VolumeHeadName :: string where "VolumeHeadName = ''volume-head''"

definition find_head :: "('h, 's) fs_env \<Rightarrow> 'h replica \<Rightarrow> 's fsys \<Rightarrow> error option \<times> 'h replica \<times> 's fsys" where
  "find_head E r fs =
     (if i_Head (r_info r) \<noteq> '''' then (None, r, fs)
      else case os_ReadDir E (r_dir r) fs of
        (Inl e, fs) \<Rightarrow> (Some e, r, fs)
      | (Inr fl, fs) \<Rightarrow>
          (None, (case List.find (\<lambda>f. Contains f VolumeHeadName) fl of
                    None \<Rightarrow> r | Some f \<Rightarrow> r\<lparr>r_info := (r_info r)\<lparr>i_Head := f\<rparr>\<rparr>), fs))"

definition tryRecoverVolumeMetaFile ::
  "('h, 's) fs_env \<Rightarrow> string \<Rightarrow> 'h replica \<Rightarrow> 's fsys \<Rightarrow> error option \<times> 'h replica \<times> 's fsys" where
  "tryRecoverVolumeMetaFile E head r fs =
     (case checkValidVolumeMetaData E (r_dir r) (r_info r) fs of
        (Inl e, info, fs) \<Rightarrow> (Some e, r\<lparr>r_info := info\<rparr>, fs)
      | (Inr True, info, fs) \<Rightarrow> (None, r\<lparr>r_info := info\<rparr>, fs)
      | (Inr False, info, fs) \<Rightarrow>
          let r = r\<lparr>r_info := (if head \<noteq> '''' then info\<lparr>i_Head := head\<rparr> else info)\<rparr>
          in case find_head E r fs of
               (Some e, r, fs) \<Rightarrow> (Some e, r, fs)
             | (None, r, fs) \<Rightarrow>
                 let (err, fs) = writeVolumeMetaData E r True (i_Rebuilding (r_info r)) fs in (err, r, fs))"

section \<open>Construction\<close>

definition isExtentSupported :: "('h, 's) fs_env \<Rightarrow> 'h replica \<Rightarrow> 's fsys \<Rightarrow> error option \<times> 's fsys" where
  "isExtentSupported E r fs =
     (case os_Stat E (path_of r (meta_name (i_Head (r_info r)))) fs of
        (Some e, fs) \<Rightarrow> (Some e, fs)
      | (None, fs) \<Rightarrow> (case call E fs of
          (Some e, fs) \<Rightarrow> (Some e, fs)
        | (None, fs) \<Rightarrow> (extent_errno E, fs)))"

definition insertBackingFile :: "'h replica \<Rightarrow> 'h replica" where
  "insertBackingFile r =
     (case r_BackingFile r of
        None \<Rightarrow> r
      | Some (path, h) \<Rightarrow>
          let (p0, r) = alloc zero_disk r;
              (p, r) = alloc (zero_disk\<lparr>d_Name := path\<rparr>) r
          in r\<lparr>r_activeDiskData := [Some p0, Some p] @ drop 1 (r_activeDiskData r),
               r_volume := (r_volume r)\<lparr>files := [None, Some h] @ drop 1 (files (r_volume r))\<rparr>,
               r_diskData := AList.update path p (r_diskData r)\<rparr>)"

definition new_replica ::
  "bool \<Rightarrow> int \<Rightarrow> int \<Rightarrow> string \<Rightarrow> bool \<Rightarrow> bool \<Rightarrow> int \<Rightarrow> int \<Rightarrow> 'h replica" where
  "new_replica readonly size' ss dir disableRevCounter unmapMark maxCount maxSize =
     \<lparr>r_volume = \<lparr>location = [], files = [], sectorSize = VolumeSectorSize, dd_size = 0\<rparr>, r_dir = dir,
      r_info = zero_Info\<lparr>i_Size := size', i_SectorSize := ss\<rparr>, r_BackingFile = None, r_heap = [], r_diskData = [],
      r_diskChildrenMap = [], r_activeDiskData = [None], r_readOnly = readonly, r_revisionCache = 0,
      r_revisionFile = None, r_revisionCounterDisabled = disableRevCounter, r_unmapMarkDiskChainRemoved = unmapMark,
      r_snapshotMaxCount = maxCount, r_snapshotMaxSize = maxSize\<rparr>"

text \<open>The live chain is opened, or the first head is created.\<close>

definition open_or_create ::
  "('h, 's) fs_env \<Rightarrow> int \<Rightarrow> bool \<Rightarrow> 'h replica \<Rightarrow> 's fsys \<Rightarrow> (error option \<times> 'h replica \<times> 's fsys) option" where
  "open_or_create E size' exists r fs =
     (if exists then openLiveChain E r fs
      else if size' \<le> 0 then Some (Some (ErrNotExist ''''), r, fs)
      else createDisk E r ''000'' False (rnow E) None size' fs)"

definition finish_open :: "('h, 's) fs_env \<Rightarrow> 'h replica \<Rightarrow> 's fsys \<Rightarrow> ((error + 'h replica) \<times> 's fsys) option" where
  "finish_open E r fs =
     (case isExtentSupported E r fs of
        (Some e, fs) \<Rightarrow> Some (Inl (Wrapped ''file extent is unsupported'' e), fs)
      | (None, fs) \<Rightarrow> do {
          d \<leftarrow> disk_of r (i_Head (r_info r));
          let r = insertBackingFile (r\<lparr>r_info := (r_info r)\<lparr>i_Parent := d_Parent d\<rparr>\<rparr>);
          Some (case writeVolumeMetaData E r True (i_Rebuilding (r_info r)) fs of
             (Some e, fs) \<Rightarrow> (Inl e, fs)
           | (None, fs) \<Rightarrow> (Inr r, fs))
        })"

definition open_volume ::
  "('h, 's) fs_env \<Rightarrow> int \<Rightarrow> string \<Rightarrow> bool \<Rightarrow> 'h replica \<Rightarrow> 's fsys \<Rightarrow> ((error + 'h replica) \<times> 's fsys) option" where
  "open_volume E size' head exists r fs =
     (let locationSize = i_Size (r_info r) sdiv sectorSize (r_volume r) + (if size' smod VolumeSectorSize \<noteq> 0 then 1 else 0)
      in if locationSize < 0 then None
      else
        let r = r\<lparr>r_volume := (r_volume r)\<lparr>location := replicate (nat locationSize) 0, files := [None], dd_size := i_Size (r_info r)\<rparr>\<rparr>
        in if r_readOnly r \<and> \<not> exists then Some (Inl (ErrNotExist ''''), fs)
        else
          let r = (if head \<noteq> '''' then r\<lparr>r_info := (r_info r)\<lparr>i_Head := head\<rparr>\<rparr> else r)
          in do {
            (err, r, fs) \<leftarrow> open_or_create E size' exists r fs;
            (case err of Some e \<Rightarrow> Some (Inl e, fs) | None \<Rightarrow> finish_open E r fs)
          })"

definition set_backing :: "(string \<times> 'h) option \<Rightarrow> 'h replica \<Rightarrow> 'h replica" where
  "set_backing backing r =
     r\<lparr>r_BackingFile := backing,
       r_info := (case backing of None \<Rightarrow> r_info r | Some (path, h) \<Rightarrow> (r_info r)\<lparr>i_BackingFilePath := path\<rparr>)\<rparr>"

definition construct ::
  "('h, 's) fs_env \<Rightarrow> bool \<Rightarrow> int \<Rightarrow> int \<Rightarrow> string \<Rightarrow> string \<Rightarrow> (string \<times> 'h) option \<Rightarrow> bool \<Rightarrow> bool \<Rightarrow> int \<Rightarrow> int \<Rightarrow> 's fsys \<Rightarrow>
     ((error + 'h replica) \<times> 's fsys) option" where
  "construct E readonly size' ss dir head backing disableRevCounter unmapMark maxCount maxSize fs =
     (if ss = 0 then None
      else if size' smod ss \<noteq> 0
      then Some (Inl (Errorf (''size '' @ showInt size' @ '' not a multiple of sector size '' @ showInt ss)), fs)
      else case call E fs of
        (Some e, fs) \<Rightarrow> Some (Inl e, fs)
      | (None, fs) \<Rightarrow>
          (case tryRecoverVolumeMetaFile E head (new_replica readonly size' ss dir disableRevCounter unmapMark maxCount maxSize) fs of
             (Some e, r, fs) \<Rightarrow> Some (Inl e, fs)
           | (None, r, fs) \<Rightarrow> (case readMetadata E r fs of
               (Inl e, r, fs) \<Rightarrow> Some (Inl e, fs)
             | (Inr exists, r, fs) \<Rightarrow>
                 let r = set_backing backing r in
                 (case (if r_revisionCounterDisabled r then (None, r, fs) else initRevisionCounter E r fs) of
                    (Some e, r, fs) \<Rightarrow> Some (Inl e, fs)
                  | (None, r, fs) \<Rightarrow> open_volume E size' head exists r fs))))"

definition rp_New ::
  "('h, 's) fs_env \<Rightarrow> int \<Rightarrow> int \<Rightarrow> string \<Rightarrow> (string \<times> 'h) option \<Rightarrow> bool \<Rightarrow> bool \<Rightarrow> int \<Rightarrow> int \<Rightarrow> 's fsys \<Rightarrow>
     ((error + 'h replica) \<times> 's fsys) option" where
  "rp_New E size' ss dir backing disableRevCounter unmapMark maxCount maxSize fs =
     construct E False size' ss dir '''' backing disableRevCounter unmapMark maxCount maxSize fs"

definition NewReadOnly ::
  "('h, 's) fs_env \<Rightarrow> string \<Rightarrow> string \<Rightarrow> (string \<times> 'h) option \<Rightarrow> 's fsys \<Rightarrow> ((error + 'h replica) \<times> 's fsys) option" where
  "NewReadOnly E dir head backing fs = construct E True 0 ReplicaSectorSize dir head backing False False 250 0 fs"

text \<open>OpenSnapshot, with backingfile.OpenBackingFile as a parameter.\<close>

definition OpenSnapshot ::
  "('h, 's) fs_env \<Rightarrow> (string \<Rightarrow> 's fsys \<Rightarrow> (error + (string \<times> 'h) option) \<times> 's fsys) \<Rightarrow> string \<Rightarrow> string \<Rightarrow> 's fsys \<Rightarrow>
     ((error + 'h replica) \<times> 's fsys) option" where
  "OpenSnapshot E OpenBackingFile dir snapshotName fs =
     (case ReadInfo E dir fs of
        (Inl e, fs) \<Rightarrow> Some (Inl e, fs)
      | (Inr info, fs) \<Rightarrow>
          (case (if i_BackingFilePath info = '''' then (Inr None, fs)
                 else case os_Stat E (i_BackingFilePath info) fs of
                        (Some e, fs) \<Rightarrow> (Inl e, fs)
                      | (None, fs) \<Rightarrow> OpenBackingFile (i_BackingFilePath info) fs) of
             (Inl e, fs) \<Rightarrow> Some (Inl e, fs)
           | (Inr backing, fs) \<Rightarrow> NewReadOnly E dir (GenerateSnapshotDiskName snapshotName) backing fs))"

definition rp_Reload :: "('h, 's) fs_env \<Rightarrow> 'h replica \<Rightarrow> 's fsys \<Rightarrow> ((error + 'h replica) \<times> 's fsys) option" where
  "rp_Reload E r fs = do {
     (res, fs) \<leftarrow> rp_New E (i_Size (r_info r)) (i_SectorSize (r_info r)) (r_dir r) (r_BackingFile r) (r_revisionCounterDisabled r)
        (r_unmapMarkDiskChainRemoved r) (r_snapshotMaxCount r) (r_snapshotMaxSize r) fs;
     Some (case res of
        Inl e \<Rightarrow> (Inl e, fs)
      | Inr r' \<Rightarrow> (Inr (r'\<lparr>r_info := (r_info r')\<lparr>i_Dirty := i_Dirty (r_info r)\<rparr>\<rparr>), fs))
   }"

text \<open>revertDisk; the error of the second attempt to write the volume metadata replaces the first.\<close>

definition swap_head :: "('h, 's) fs_env \<Rightarrow> 'h replica \<Rightarrow> disk \<Rightarrow> 's fsys \<Rightarrow> ((error option + 'h replica) \<times> 's fsys) option" where
  "swap_head E r newHeadDisk fs =
     (let info = (r_info r)\<lparr>i_Head := d_Name newHeadDisk, i_Dirty := True, i_Parent := d_Parent newHeadDisk\<rparr>
      in case encodeToFile E r (JInfo info) volumeMetaData fs of
           (_, Some e, fs) \<Rightarrow> (let (_, err, fs) = encodeToFile E r (JInfo (r_info r)) volumeMetaData fs in Some (Inl err, fs))
         | (_, None, fs) \<Rightarrow> (case rmDisk E r (i_Head (r_info r)) fs of
             (Some e, fs) \<Rightarrow> Some (Inl (Some e), fs)
           | (None, fs) \<Rightarrow> do {
               (res, fs) \<leftarrow> rp_Reload E r fs;
               Some (case res of Inl e \<Rightarrow> (Inl (Some e), fs) | Inr r' \<Rightarrow> (Inr r', fs))
             }))"

definition revertDisk ::
  "('h, 's) fs_env \<Rightarrow> 'h replica \<Rightarrow> string \<Rightarrow> string \<Rightarrow> 's fsys \<Rightarrow> ((error option + 'h replica) \<times> 's fsys) option" where
  "revertDisk E r parentDiskFileName created fs =
     (case os_Stat E (path_of r parentDiskFileName) fs of
        (Some e, fs) \<Rightarrow> Some (Inl (Some e), fs)
      | (None, fs) \<Rightarrow> (case disk_of r parentDiskFileName of
          None \<Rightarrow> Some (Inl (Some (Errorf (''cannot revert to disk file '' @ parentDiskFileName @ '' since it's not in the disk chain''))), fs)
        | Some d \<Rightarrow>
            if d_Removed d
            then Some (Inl (Some (Errorf (''cannot revert to disk file '' @ parentDiskFileName @ '' since it's already marked as removed''))), fs)
            else (case createNewHead E r (i_Head (r_info r)) parentDiskFileName created (i_Size (r_info r)) fs of
                (Inl e, fs) \<Rightarrow> Some (Inl (Some e), fs)
              | (Inr (f, newHeadDisk, _), fs) \<Rightarrow> do {
                  (res, fs) \<leftarrow> swap_head E r newHeadDisk fs;
                  let (_, fs) = close_handle E f fs;
                  Some (res, fs)
                })))"

section \<open>Closing and deleting\<close>

definition isBackingFile :: "'h replica \<Rightarrow> int \<Rightarrow> bool" where
  "isBackingFile r ix = (r_BackingFile r \<noteq> None \<and> ix = 1)"

fun close_files :: "('h, 's) fs_env \<Rightarrow> 'h replica \<Rightarrow> nat \<Rightarrow> 'h option list \<Rightarrow> 's fsys \<Rightarrow> 's fsys" where
  "close_files E r i [] fs = fs"
| "close_files E r i (f # fl) fs =
     (case f of
        Some h \<Rightarrow> if isBackingFile r (int i) then close_files E r (Suc i) fl fs
                  else close_files E r (Suc i) fl (snd (close_handle E h fs))
      | None \<Rightarrow> close_files E r (Suc i) fl fs)"

definition closeWithoutWritingMetaData :: "('h, 's) fs_env \<Rightarrow> 'h replica \<Rightarrow> 's fsys \<Rightarrow> 's fsys" where
  "closeWithoutWritingMetaData E r fs = close_files E r 0 (files (r_volume r)) fs"

definition rp_close :: "('h, 's) fs_env \<Rightarrow> 'h replica \<Rightarrow> 's fsys \<Rightarrow> error option \<times> 's fsys" where
  "rp_close E r fs = writeVolumeMetaData E r False (i_Rebuilding (r_info r)) (closeWithoutWritingMetaData E r fs)"

fun delete_loop :: "('h, 's) fs_env \<Rightarrow> 'h replica \<Rightarrow> string list \<Rightarrow> 's fsys \<Rightarrow> 's fsys" where
  "delete_loop E r [] fs = fs"
| "delete_loop E r (n # ns) fs =
     (if n \<noteq> i_BackingFilePath (r_info r) then delete_loop E r ns (snd (rmDisk E r n fs)) else delete_loop E r ns fs)"

definition rp_Delete :: "('h, 's) fs_env \<Rightarrow> 'h replica \<Rightarrow> 's fsys \<Rightarrow> error option \<times> 's fsys" where
  "rp_Delete E r fs =
     (let fs = delete_loop E r (map fst (r_diskData r)) fs;
          (_, fs) = os_Remove E (path_of r volumeMetaData) fs;
          (_, fs) = os_Remove E (path_of r revisionCounterFile) fs
      in (None, fs))"

section \<open>Data path\<close>

text \<open>
  WriteAt and UnmapAt wait for an answer of the goroutine of the revision counter; \<open>ack\<close> is what
  the channel delivers (theory Revision_Counter).
\<close>

definition rp_WriteAt ::
  "('h, 's) fs_env \<Rightarrow> error option \<Rightarrow> 'h replica \<Rightarrow> bytes \<Rightarrow> int \<Rightarrow> 's fsys \<Rightarrow> (int \<times> error option \<times> 'h replica \<times> 's fsys) option" where
  "rp_WriteAt E ack r buf offset fs =
     (if r_readOnly r then Some (0, Some (Errorf ''cannot write on read-only replica''), r, fs)
      else
        let r = r\<lparr>r_info := (r_info r)\<lparr>i_Dirty := True\<rparr>\<rparr> in do {
          (c, err, v, s) \<leftarrow> WriteAt (data_ops E fs) (r_volume r) buf offset (fs_data fs);
          Some (c, if err \<noteq> None then err else if r_revisionCounterDisabled r then None else ack,
                r\<lparr>r_volume := v\<rparr>, fs\<lparr>fs_data := s\<rparr>)
        })"

definition rp_ReadAt :: "('h, 's) fs_env \<Rightarrow> 'h replica \<Rightarrow> bytes \<Rightarrow> int \<Rightarrow> 's fsys \<Rightarrow> (int \<times> error option \<times> bytes \<times> 'h replica) option" where
  "rp_ReadAt E r buf offset fs = do {
     (c, err, buf, v) \<leftarrow> ReadAt (data_ops E fs) (r_volume r) buf offset (fs_data fs);
     Some (c, err, buf, r\<lparr>r_volume := v\<rparr>)
   }"

text \<open>The disks below the head that can be unmapped; the loop goes from the head's parent down to index \<open>low\<close>.\<close>

definition child_count :: "'h replica \<Rightarrow> string \<Rightarrow> nat" where
  "child_count r name = (case map_of (r_diskChildrenMap r) name of None \<Rightarrow> 0 | Some cs \<Rightarrow> length cs)"

fun unmappable ::
  "('h, 's) fs_env \<Rightarrow> nat list \<Rightarrow> string list \<Rightarrow> 'h replica \<Rightarrow> 's fsys \<Rightarrow> ((error + string list) \<times> 'h replica \<times> 's fsys) option" where
  "unmappable E [] acc r fs = Some (Inr acc, r, fs)"
| "unmappable E (idx # ids) acc r fs = do {
     x \<leftarrow> index (r_activeDiskData r) (int idx);
     p \<leftarrow> x;
     (if child_count r (d_Name (at r p)) > 1 then Some (Inr acc, r, fs)
      else case (if r_unmapMarkDiskChainRemoved r then markDiskAsRemoved E r (d_Name (at r p)) fs else (None, r, fs)) of
        (Some e, r, fs) \<Rightarrow>
          Some (Inl (Wrapped (''failed to mark snapshot disk '' @ d_Name (at r p) @ '' as removed before unmap'') e), r, fs)
      | (None, r, fs) \<Rightarrow>
          unmappable E ids (if d_Removed (at r p) then acc @ [path_of r (d_Name (at r p))] else acc) r fs)
   }"

definition rp_UnmapAt ::
  "('h, 's) fs_env \<Rightarrow> error option \<Rightarrow> 'h replica \<Rightarrow> 32 word \<Rightarrow> int \<Rightarrow> 's fsys \<Rightarrow> (int \<times> error option \<times> 'h replica \<times> 's fsys) option" where
  "rp_UnmapAt E ack r len offset fs =
     (if r_readOnly r then Some (0, Some (Errorf ''can not unmap on read-only replica''), r, fs)
      else do {
        x \<leftarrow> index (r_activeDiskData r) (int (length (r_activeDiskData r)) - 1);
        p \<leftarrow> x;
        let low = (if isBackingFile r 1 then 2 else 1);
        (res, r, fs) \<leftarrow> unmappable E (rev [low ..< length (r_activeDiskData r) - 1]) [path_of r (d_Name (at r p))] r fs;
        (case res of
           Inl e \<Rightarrow> Some (0, Some e, r, fs)
         | Inr unmappableDisks \<Rightarrow>
             let r = r\<lparr>r_info := (r_info r)\<lparr>i_Dirty := True\<rparr>\<rparr> in do {
               (n, err, s) \<leftarrow> UnmapAt (data_ops E fs) (r_volume r) unmappableDisks len offset (fs_data fs);
               let fs = fs\<lparr>fs_data := s\<rparr>;
               Some (if err \<noteq> None then 0 else n, if err \<noteq> None then err else if r_revisionCounterDisabled r then None else ack, r, fs)
             })
      })"

definition Preload :: "('h, 's) fs_env \<Rightarrow> bool \<Rightarrow> 'h replica \<Rightarrow> 's fsys \<Rightarrow> (error option \<times> 'h replica) option" where
  "Preload E includeBackingFileLayer r fs =
     (let v = initializeSectorLocation (r_volume r) (if includeBackingFileLayer \<and> r_BackingFile r \<noteq> None then 1 else 0)
      in do {
        (err, v) \<leftarrow> preload (data_ops E fs) (r_BackingFile r \<noteq> None) v (fs_data fs);
        Some (err, r\<lparr>r_volume := v\<rparr>)
      })"

text \<open>GetDataLayout: the intervals that go through the channel, when the context is not cancelled; True is SparseData.\<close>

fun layout_loop :: "int \<Rightarrow> 8 word list \<Rightarrow> nat \<Rightarrow> bool \<Rightarrow> int \<Rightarrow> (bool \<times> int \<times> int) list \<Rightarrow> bool \<times> int \<times> (bool \<times> int \<times> int) list" where
  "layout_loop ss [] sectorIndex lastType lastOffset out = (lastType, lastOffset, out)"
| "layout_loop ss (diskIndex # loc) sectorIndex lastType lastOffset out =
     (let offset = int sectorIndex * ss;
          currentType = (diskIndex \<ge> 1)
      in if currentType \<noteq> lastType
         then layout_loop ss loc (Suc sectorIndex) currentType offset (if lastOffset < offset then out @ [(lastType, lastOffset, offset)] else out)
         else layout_loop ss loc (Suc sectorIndex) lastType lastOffset out)"

definition GetDataLayout :: "'h replica \<Rightarrow> (bool \<times> int \<times> int) list" where
  "GetDataLayout r =
     (let v = r_volume r;
          (lastType, lastOffset, out) = layout_loop (sectorSize v) (location v) 0 False 0 []
      in if lastOffset < dd_size v then out @ [(lastType, lastOffset, dd_size v)] else out)"

fun list_disks :: "('h, 's) fs_env \<Rightarrow> 's fsys \<Rightarrow> nat list \<Rightarrow> (string \<times> DiskInfo) list \<Rightarrow> 'h replica \<Rightarrow> (string \<times> DiskInfo) list \<times> 'h replica" where
  "list_disks E fs [] result r = (result, r)"
| "list_disks E fs (p # ps) result r =
     (let d = at r p;
          (n, r) = getDiskSize E fs (d_Name d) r;
          info = \<lparr>di_Name = d_Name d, di_Parent = d_Parent d,
                  di_Children = (case map_of (r_diskChildrenMap r) (d_Name d) of None \<Rightarrow> [] | Some cs \<Rightarrow> map (\<lambda>c. (c, True)) cs),
                  di_Removed = d_Removed d, di_UserCreated = d_UserCreated d, di_Created = d_Created d, di_Size = showInt n,
                  di_Labels = (case d_Labels d of None \<Rightarrow> [] | Some l \<Rightarrow> l)\<rparr>
      in list_disks E fs ps (AList.update (d_Name d) info result) r)"

definition ListDisks :: "('h, 's) fs_env \<Rightarrow> 's fsys \<Rightarrow> 'h replica \<Rightarrow> (string \<times> DiskInfo) list \<times> 'h replica" where
  "ListDisks E fs r = list_disks E fs (map snd (r_diskData r)) [] r"

end
