(* ===== verification/Replica_Inv.thy ===== *)
theory Replica_Inv
  imports Replica_Open
begin

text \<open>
  The invariant of a replica's metadata in memory: the disks form a forest whose inverse is the
  children map, the live chain runs from a disk without a parent to the head, and diskData and
  activeDiskData share its structs.
\<close>

section \<open>Well-formed metadata\<close>

definition kids :: "'h replica \<Rightarrow> string \<Rightarrow> string list" where
  "kids r n = (case map_of (r_diskChildrenMap r) n of None \<Rightarrow> [] | Some cs \<Rightarrow> cs)"

definition tree_ok :: "'h replica \<Rightarrow> bool" where
  "tree_ok r \<longleftrightarrow> distinct (map fst (r_diskData r)) \<and>
     (\<forall>n p. map_of (r_diskData r) n = Some p \<longrightarrow> p < length (r_heap r) \<and> d_Name (at r p) = n \<and> n \<noteq> '''') \<and>
     (\<forall>n d. disk_of r n = Some d \<longrightarrow> d_Parent d = '''' \<or> map_of (r_diskData r) (d_Parent d) \<noteq> None) \<and>
     (\<exists>rank :: string \<Rightarrow> nat. \<forall>n d. disk_of r n = Some d \<longrightarrow> d_Parent d \<noteq> '''' \<longrightarrow> rank (d_Parent d) < rank n)"

definition kids_ok :: "'h replica \<Rightarrow> bool" where
  "kids_ok r \<longleftrightarrow>
     (\<forall>n. n \<noteq> '''' \<longrightarrow> distinct (kids r n) \<and> set (kids r n) = {c. \<exists>d. disk_of r c = Some d \<and> d_Parent d = n}) \<and>
     (\<forall>n cs. n \<noteq> '''' \<longrightarrow> map_of (r_diskChildrenMap r) n = Some cs \<longrightarrow> cs \<noteq> [])"

fun linked :: "'h replica \<Rightarrow> string \<Rightarrow> nat list \<Rightarrow> bool" where
  "linked r parent [] = True"
| "linked r parent (p # ps) = (d_Parent (at r p) = parent \<and> linked r (d_Name (at r p)) ps)"

text \<open>The addresses of the live chain, oldest disk first: what follows nil and the backing file.\<close>

definition base :: "'h replica \<Rightarrow> nat" where
  "base r = (if r_BackingFile r = None then 1 else 2)"

definition live :: "'h replica \<Rightarrow> nat list" where
  "live r = map the (drop (base r) (r_activeDiskData r))"

definition live_names :: "'h replica \<Rightarrow> string list" where
  "live_names r = map (\<lambda>p. d_Name (at r p)) (live r)"

definition live_ok :: "'h replica \<Rightarrow> bool" where
  "live_ok r \<longleftrightarrow> None \<notin> set (drop (base r) (r_activeDiskData r)) \<and> live r \<noteq> [] \<and> distinct (live r) \<and>
     (\<forall>p \<in> set (live r). map_of (r_diskData r) (d_Name (at r p)) = Some p) \<and> linked r '''' (live r) \<and>
     last (live_names r) = i_Head (r_info r) \<and> base r \<le> length (r_activeDiskData r)"

definition backing_ok :: "'h replica \<Rightarrow> bool" where
  "backing_ok r \<longleftrightarrow> (case r_BackingFile r of
       None \<Rightarrow> r_activeDiskData r \<noteq> [] \<and> hd (r_activeDiskData r) = None
     | Some (path, h) \<Rightarrow> \<exists>p0 p. take 2 (r_activeDiskData r) = [Some p0, Some p] \<and> map_of (r_diskData r) path = Some p \<and>
         d_Parent (at r p) = '''' \<and> p \<notin> set (live r) \<and> p0 < length (r_heap r) \<and> d_Name (at r p0) = '''')"

definition head_ok :: "'h replica \<Rightarrow> bool" where
  "head_ok r \<longleftrightarrow> (\<forall>n. map_of (r_diskData r) n \<noteq> None \<longrightarrow> n \<noteq> i_Head (r_info r) \<longrightarrow> \<not> IsHeadDisk n) \<and>
     (\<forall>n d. disk_of r n = Some d \<longrightarrow> d_Parent d \<noteq> i_Head (r_info r)) \<and>
     map_option d_Parent (disk_of r (i_Head (r_info r))) = Some (i_Parent (r_info r)) \<and>
     length (files (r_volume r)) = length (r_activeDiskData r) \<and> None \<notin> set (drop 1 (files (r_volume r)))"

definition rep_wf :: "'h replica \<Rightarrow> bool" where
  "rep_wf r \<longleftrightarrow> tree_ok r \<and> kids_ok r \<and> live_ok r \<and> backing_ok r \<and> head_ok r"

lemma rep_wfD:
  assumes "rep_wf r"
  shows "tree_ok r" "kids_ok r" "live_ok r" "backing_ok r" "head_ok r"
  using assms by (simp_all add: rep_wf_def)

lemma tree_okD:
  assumes "tree_ok r"
  shows "distinct (map fst (r_diskData r))"
    "map_of (r_diskData r) n = Some p \<Longrightarrow> p < length (r_heap r) \<and> d_Name (at r p) = n \<and> n \<noteq> ''''"
    "disk_of r n = Some d \<Longrightarrow> d_Parent d = '''' \<or> map_of (r_diskData r) (d_Parent d) \<noteq> None"
  using assms unfolding tree_ok_def by blast+

lemma live_okD:
  assumes "live_ok r"
  shows "None \<notin> set (drop (base r) (r_activeDiskData r))" "live r \<noteq> []" "distinct (live r)"
    "p \<in> set (live r) \<Longrightarrow> map_of (r_diskData r) (d_Name (at r p)) = Some p" "linked r '''' (live r)"
    "last (live_names r) = i_Head (r_info r)" "base r \<le> length (r_activeDiskData r)"
  using assms unfolding live_ok_def by blast+

text \<open>The head is the last of the live chain.\<close>

lemma head_ptr:
  assumes "rep_wf r"
  shows "map_of (r_diskData r) (i_Head (r_info r)) = Some (last (live r))" "d_Name (at r (last (live r))) = i_Head (r_info r)"
    "last (live r) \<in> set (live r)" "i_Head (r_info r) \<noteq> ''''" "r_activeDiskData r \<noteq> []" "last (r_activeDiskData r) = Some (last (live r))"
proof -
  note w = rep_wfD [OF assms] and l = live_okD [OF rep_wfD(3) [OF assms]]
  show mem: "last (live r) \<in> set (live r)" using l(2) by simp
  show nm: "d_Name (at r (last (live r))) = i_Head (r_info r)" using l(2,6) by (simp add: live_names_def last_map)
  show e: "map_of (r_diskData r) (i_Head (r_info r)) = Some (last (live r))" using l(4) [OF mem] nm by simp
  show "i_Head (r_info r) \<noteq> ''''" using tree_okD(2) [OF w(1) e] by simp
  have ne: "drop (base r) (r_activeDiskData r) \<noteq> []" using l(2) by (auto simp: live_def)
  then show "r_activeDiskData r \<noteq> []" by auto
  have "last (r_activeDiskData r) = last (drop (base r) (r_activeDiskData r))" using ne by (simp add: last_drop)
  also have "\<dots> \<in> set (drop (base r) (r_activeDiskData r))" by (rule last_in_set [OF ne])
  finally have "last (r_activeDiskData r) \<noteq> None" using l(1) by metis
  then show "last (r_activeDiskData r) = Some (last (live r))"
    using ne by (simp add: live_def last_map last_drop)
qed

text \<open>Only the names and the parents of the structs matter.\<close>

definition same_tree :: "disk \<Rightarrow> disk \<Rightarrow> bool" where
  "same_tree d d' \<longleftrightarrow> d_Name d' = d_Name d \<and> d_Parent d' = d_Parent d \<and> d_Removed d' = d_Removed d"

lemma same_tree_refl [simp]: "same_tree d d"
  by (simp add: same_tree_def)

definition heap_like :: "disk list \<Rightarrow> disk list \<Rightarrow> bool" where
  "heap_like hp hp' \<longleftrightarrow> length hp \<le> length hp' \<and> (\<forall>p < length hp. same_tree (hp ! p) (hp' ! p))"

lemma rep_wf_heap:
  assumes wf: "rep_wf r" and like: "heap_like (r_heap r) hp"
  shows "rep_wf (r\<lparr>r_heap := hp\<rparr>)"
proof -
  let ?r = "r\<lparr>r_heap := hp\<rparr>"
  note w = rep_wfD [OF wf] and l = live_okD [OF rep_wfD(3) [OF wf]]
  have same: "d_Name (at ?r p) = d_Name (at r p)" "d_Parent (at ?r p) = d_Parent (at r p)" if "p < length (r_heap r)" for p
    using like that by (auto simp: heap_like_def same_tree_def at_def)
  have le: "length (r_heap r) \<le> length hp" using like by (simp add: heap_like_def)
  have dd: "map_of (r_diskData r) n = Some p \<Longrightarrow> p < length (r_heap r)" for n p using tree_okD(2) [OF w(1)] by blast
  have dk: "map_option d_Parent (disk_of ?r n) = map_option d_Parent (disk_of r n)"
    "map_option d_Name (disk_of ?r n) = map_option d_Name (disk_of r n)" for n
    using dd [of n] same by (cases "map_of (r_diskData r) n"; simp add: disk_of_def)+
  have dk': "(\<exists>d. disk_of ?r c = Some d \<and> d_Parent d = n) \<longleftrightarrow> (\<exists>d. disk_of r c = Some d \<and> d_Parent d = n)" for c n
    using dk(1) [of c] by (cases "disk_of ?r c"; cases "disk_of r c") auto
  have livp: "p \<in> set (live r) \<Longrightarrow> p < length (r_heap r)" for p using l(4) dd by blast
  have lv: "live ?r = live r" "base ?r = base r" by (simp_all add: live_def base_def)
  have ln: "live_names ?r = live_names r" using livp same(1) by (simp add: live_names_def lv)
  have "tree_ok ?r"
    unfolding tree_ok_def
  proof (intro conjI allI impI)
    fix n p assume a: "map_of (r_diskData ?r) n = Some p"
    then have "map_of (r_diskData r) n = Some p" by simp
    from tree_okD(2) [OF w(1) this] show "p < length (r_heap ?r)" "d_Name (at ?r p) = n" "n \<noteq> ''''"
      using le same(1) by auto
  next
    fix n d assume "disk_of ?r n = Some d"
    then obtain d' where "disk_of r n = Some d'" "d_Parent d' = d_Parent d" using dk' by blast
    then show "d_Parent d = '''' \<or> map_of (r_diskData ?r) (d_Parent d) \<noteq> None" using tree_okD(3) [OF w(1)] by (metis replica.select_convs(6) replica.update_convs(5) replica.surjective)
  next
    obtain rank :: "string \<Rightarrow> nat" where "\<forall>n d. disk_of r n = Some d \<longrightarrow> d_Parent d \<noteq> '''' \<longrightarrow> rank (d_Parent d) < rank n"
      using w(1) unfolding tree_ok_def by blast
    then have "\<forall>n d. disk_of ?r n = Some d \<longrightarrow> d_Parent d \<noteq> '''' \<longrightarrow> rank (d_Parent d) < rank n" using dk' by metis
    then show "\<exists>rank :: string \<Rightarrow> nat. \<forall>n d. disk_of ?r n = Some d \<longrightarrow> d_Parent d \<noteq> '''' \<longrightarrow> rank (d_Parent d) < rank n" by blast
  qed (use tree_okD(1) [OF w(1)] in simp)
  moreover have "kids_ok ?r" using w(2) dk' by (simp add: kids_ok_def kids_def)
  moreover have "linked ?r n ps = linked r n ps" if "set ps \<subseteq> set (live r)" for n ps
    using that livp same by (induction ps arbitrary: n) auto
  then have "live_ok ?r" using w(3) livp same(1) by (auto simp: live_ok_def lv ln)
  moreover have "backing_ok ?r"
    using w(4) le same dd by (fastforce simp: backing_ok_def lv split: option.splits)
  moreover have "\<forall>n d. disk_of ?r n = Some d \<longrightarrow> d_Parent d \<noteq> i_Head (r_info r)"
    using w(5) dk' unfolding head_ok_def by metis
  then have "head_ok ?r" using w(5) dk(1) by (simp add: head_ok_def)
  ultimately show ?thesis by (simp add: rep_wf_def)
qed

end
