(* ===== verification/Replica_Create.thy ===== *)
theory Replica_Create
  imports Replica_Inv
begin

text \<open>
  Creating a disk: the names of the heads, and what createDisk does to the metadata in memory,
  whatever calls of the operating system fail.
\<close>

section \<open>Names of heads\<close>

lemma match_digits_digit: "match_digits s = Some c \<Longrightarrow> isDigit c"
proof -
  assume "match_digits s = Some c"
  then obtain k where k: "List.find (\<lambda>k. img_after k s) (rev [1 ..< Suc (length (takeWhile isDigit s))]) = Some k" "c = s ! (k - 1)"
    by (auto simp: match_digits_def Let_def)
  then have "k \<in> set (rev [1 ..< Suc (length (takeWhile isDigit s))])"
    unfolding find_Some_iff by (metis nth_mem)
  then have "k - 1 < length (takeWhile isDigit s)" by auto
  then have "c \<in> set (takeWhile isDigit s)" using k(2) by (metis nth_mem takeWhile_nth)
  then show "isDigit c" by (rule set_takeWhileD [THEN conjunct2])
qed

lemma match_head_digit: "match_head s = Some c \<Longrightarrow> isDigit c"
  by (induction s rule: match_head.induct) (auto split: if_splits option.splits dest: match_digits_digit)

lemma digitVal_le: "isDigit c \<Longrightarrow> digitVal c \<le> 9"
  by (auto simp: isDigit_def digitVal_def)

lemma nextFile_cases:
  assumes "nextFile p = Inr n"
  obtains "p = ''''" "n = head_name 0"
  | c where "p \<noteq> ''''" "match_head p = Some c" "isDigit c" "n = head_name (digitVal c + 1)"
  using assms match_head_digit [of p] unfolding nextFile_def by (cases "match_head p") (auto split: if_splits)

lemma IsHeadDisk_head_name [simp]: "IsHeadDisk (head_name k)"
proof -
  have "HasSuffix (VolumeHeadDiskPrefix @ pad3 k @ VolumeHeadDiskSuffix) VolumeHeadDiskSuffix"
    using HasSuffix_append [of "VolumeHeadDiskPrefix @ pad3 k" VolumeHeadDiskSuffix] by simp
  then show ?thesis by (simp add: IsHeadDisk_def head_name_def)
qed

lemma nextFile_head: "nextFile p = Inr n \<Longrightarrow> IsHeadDisk n"
  by (erule nextFile_cases) simp_all

text \<open>The digit that diskPattern captures in a generated name is the last one.\<close>

lemma match_head_next: "k \<le> 9 \<Longrightarrow> match_head (head_name (k + 1)) = Some (pad3 (k + 1) ! 2)"
proof -
  have "\<forall>k \<in> set [0 ..< 10]. match_head (head_name (k + 1)) = Some (pad3 (k + 1) ! 2)" by code_simp
  moreover assume "k \<le> 9"
  then have "k \<in> set [0 ..< 10]" by simp
  ultimately show ?thesis by (rule bspec)
qed

lemma digit_next: "k \<le> 9 \<Longrightarrow> digitVal (pad3 (k + 1) ! 2) = (k + 1) mod 10"
proof -
  assume "k \<le> 9"
  then have "k = 0 \<or> k = 1 \<or> k = 2 \<or> k = 3 \<or> k = 4 \<or> k = 5 \<or> k = 6 \<or> k = 7 \<or> k = 8 \<or> k = 9" by arith
  then show ?thesis by (elim disjE) (simp_all add: pad3_def digitVal_def showNat.simps nth_append)
qed

lemma nextFile_neq:
  assumes "nextFile p = Inr n"
  shows "n \<noteq> p"
  using assms
proof (cases rule: nextFile_cases)
  case 1
  then show ?thesis by (simp add: head_name_def VolumeHeadDiskPrefix_def)
next
  case (2 c)
  show ?thesis
  proof
    assume "n = p"
    then have "c = pad3 (digitVal c + 1) ! 2" using 2 match_head_next [OF digitVal_le [OF 2(3)]] by simp
    then have "digitVal c = (digitVal c + 1) mod 10" using digit_next [OF digitVal_le [OF 2(3)]] by simp
    then show False using digitVal_le [OF 2(3)] by (cases "digitVal c = 9") auto
  qed
qed

section \<open>Parts that leave the memory alone\<close>

definition keeps :: "('h, 's) rollback \<Rightarrow> bool" where
  "keeps rb \<longleftrightarrow> (\<forall>r fs. fst (snd (rb r fs)) = r)"

lemma keeps_parts [simp]:
  "keeps (remove_rollback E p)" "keeps (rm_rollback E n)"
  by (simp_all add: keeps_def remove_rollback_def rm_rollback_def split: prod.split)

lemma encodeToFile_rollback: "encodeToFile E r c f fs = (Some rb, err, fs') \<Longrightarrow> keeps rb"
  by (auto simp: encodeToFile_def Let_def split: if_splits prod.splits option.splits)

lemma keeps_head_rollback:
  assumes "\<And>f. sub = Some f \<Longrightarrow> keeps f"
  shows "keeps (head_rollback E h n sub)"
  using assms by (auto simp: keeps_def head_rollback_def Let_def split: prod.splits option.splits) (metis fst_conv snd_conv)

lemma keeps_meta_rollback:
  assumes "\<And>f. sub = Some f \<Longrightarrow> keeps f"
  shows "keeps (meta_rollback E sub)"
  using assms by (auto simp: keeps_def meta_rollback_def Let_def split: prod.splits option.splits) (metis fst_conv snd_conv)

lemma run_rollbacks_keeps:
  "(\<And>f. Some f \<in> set rbs \<Longrightarrow> keeps f) \<Longrightarrow> fst (snd (run_rollbacks rbs e r fs)) = r"
proof (induction rbs e r fs rule: run_rollbacks.induct)
  case (3 f rs e r fs)
  obtain e' r' fs' where s: "f r fs = (e', r', fs')" by (cases "f r fs") auto
  have "keeps f" using "3.prems" by simp
  then have "r' = r" using s unfolding keeps_def by (metis fst_conv snd_conv)
  then show ?case using 3 s by simp
qed simp_all

lemma run_rollbacks_append:
  "run_rollbacks (as @ bs) e r fs = (let (e, r, fs) = run_rollbacks as e r fs in run_rollbacks bs e r fs)"
  by (induction as e r fs rule: run_rollbacks.induct) (auto split: prod.split)

definition new_head_disk :: "string \<Rightarrow> string \<Rightarrow> string \<Rightarrow> disk" where
  "new_head_disk name parent created = zero_disk\<lparr>d_Parent := parent, d_Name := name, d_Created := created\<rparr>"

lemma new_head_disk_simps [simp]:
  "d_Name (new_head_disk n p c) = n" "d_Parent (new_head_disk n p c) = p" "d_Removed (new_head_disk n p c) = False"
  "d_UserCreated (new_head_disk n p c) = False" "d_Created (new_head_disk n p c) = c" "d_Labels (new_head_disk n p c) = None"
  by (simp_all add: new_head_disk_def zero_disk_def)

lemma createNewHead_Inr:
  assumes "createNewHead E r old parent created n fs = (Inr (h, nd, rb), fs')"
  shows "\<exists>nh. nextFile old = Inr nh \<and> nd = new_head_disk nh parent created \<and> keeps rb"
proof (cases "nextFile old")
  case (Inr nh)
  obtain e1 fs1 where s1: "os_Stat E (path_of r nh) fs = (e1, fs1)" by fastforce
  obtain e2 fs2 where s2: "rp_openFile E r (path_of r nh) True fs1 = (e2, fs2)" by fastforce
  obtain e3 fs3 where s3: "sys_Truncate E (path_of r nh) n fs2 = (e3, fs3)" by fastforce
  obtain sub e4 fs4 where s4: "encodeToFile E r (JDisk (new_head_disk nh parent created)) (meta_name nh) fs3 = (sub, e4, fs4)"
    using prod_cases3 by blast
  have ok: "e1 \<noteq> None \<and> e2 = Inr h \<and> e3 = None \<and> e4 = None \<and> rb = head_rollback E h nh sub \<and> nd = new_head_disk nh parent created"
    using assms Inr s1 s2 s3 s4
    by (auto simp: createNewHead_def head_failed_def new_head_disk_def [symmetric] Let_def split: option.splits sum.splits prod.splits)
  then have "keeps rb" using s4 encodeToFile_rollback keeps_head_rollback by metis
  then show ?thesis using ok Inr by blast
qed (use assms in \<open>simp add: createNewHead_def\<close>)

lemma linkDisk_rollback:
  assumes "linkDisk E r old new fs = (Some rb, err, fs')"
  shows "keeps rb"
  using assms by (auto simp: linkDisk_def link_failed_def Let_def split: if_splits prod.splits option.splits)

section \<open>The new snapshot and the new head\<close>

text \<open>The metadata after a successful createDisk, for a replica that has a head.\<close>

definition snapshotted ::
  "'h replica \<Rightarrow> string \<Rightarrow> string \<Rightarrow> bool \<Rightarrow> string \<Rightarrow> (string \<times> string) list option \<Rightarrow> int \<Rightarrow> 'h \<Rightarrow> 'h replica \<Rightarrow> bool" where
  "snapshotted r nh snap userCreated created labels n f r' \<longleftrightarrow>
     (let oldHead = i_Head (r_info r); p = last (live r); q = length (r_heap r); pp = d_Parent (at r p) in
      r_heap r' = (r_heap r)[p := (at r p)\<lparr>d_UserCreated := userCreated, d_Created := created, d_Labels := labels, d_Name := snap\<rparr>]
                    @ [new_head_disk nh snap created] \<and>
      r_diskData r' = AList.delete oldHead (AList.update snap p (AList.update nh q (r_diskData r))) \<and>
      r_diskChildrenMap r' = r_diskChildrenMap (addChildDisk pp snap (rmChildDisk pp oldHead (addChildDisk snap nh r))) \<and>
      r_activeDiskData r' = r_activeDiskData r @ [Some q] \<and>
      r_info r' = (r_info r)\<lparr>i_Head := nh, i_Dirty := True, i_Parent := snap, i_Size := n\<rparr> \<and>
      r_volume r' = (r_volume r)\<lparr>files := files (r_volume r) @ [Some f]\<rparr> \<and>
      r_BackingFile r' = r_BackingFile r \<and> r_dir r' = r_dir r \<and> r_readOnly r' = r_readOnly r \<and>
      r_snapshotMaxCount r' = r_snapshotMaxCount r \<and> r_snapshotMaxSize r' = r_snapshotMaxSize r \<and>
      r_revisionCounterDisabled r' = r_revisionCounterDisabled r \<and> r_revisionFile r' = r_revisionFile r \<and>
      r_revisionCache r' = r_revisionCache r \<and> r_unmapMarkDiskChainRemoved r' = r_unmapMarkDiskChainRemoved r)"

lemma child_maps [simp]:
  "r_heap (addChildDisk a b r) = r_heap r" "r_diskData (addChildDisk a b r) = r_diskData r"
  "r_activeDiskData (addChildDisk a b r) = r_activeDiskData r" "r_info (addChildDisk a b r) = r_info r"
  "r_volume (addChildDisk a b r) = r_volume r" "r_BackingFile (addChildDisk a b r) = r_BackingFile r"
  "r_dir (addChildDisk a b r) = r_dir r" "r_readOnly (addChildDisk a b r) = r_readOnly r"
  "r_heap (rmChildDisk a b r) = r_heap r" "r_diskData (rmChildDisk a b r) = r_diskData r"
  "r_activeDiskData (rmChildDisk a b r) = r_activeDiskData r" "r_info (rmChildDisk a b r) = r_info r"
  "r_volume (rmChildDisk a b r) = r_volume r" "r_BackingFile (rmChildDisk a b r) = r_BackingFile r"
  "r_dir (rmChildDisk a b r) = r_dir r" "r_readOnly (rmChildDisk a b r) = r_readOnly r"
  by (simp_all add: addChildDisk_def rmChildDisk_def Let_def split: option.split)

lemma child_limits [simp]:
  "r_snapshotMaxCount (addChildDisk a b r) = r_snapshotMaxCount r" "r_snapshotMaxSize (addChildDisk a b r) = r_snapshotMaxSize r"
  "r_revisionCounterDisabled (addChildDisk a b r) = r_revisionCounterDisabled r" "r_revisionFile (addChildDisk a b r) = r_revisionFile r"
  "r_revisionCache (addChildDisk a b r) = r_revisionCache r" "r_unmapMarkDiskChainRemoved (addChildDisk a b r) = r_unmapMarkDiskChainRemoved r"
  "r_snapshotMaxCount (rmChildDisk a b r) = r_snapshotMaxCount r" "r_snapshotMaxSize (rmChildDisk a b r) = r_snapshotMaxSize r"
  "r_revisionCounterDisabled (rmChildDisk a b r) = r_revisionCounterDisabled r" "r_revisionFile (rmChildDisk a b r) = r_revisionFile r"
  "r_revisionCache (rmChildDisk a b r) = r_revisionCache r" "r_unmapMarkDiskChainRemoved (rmChildDisk a b r) = r_unmapMarkDiskChainRemoved r"
  by (simp_all add: addChildDisk_def rmChildDisk_def Let_def split: option.split)

lemma addChildDisk_children:
  "r_diskChildrenMap (addChildDisk a b r) = AList.update a (List.insert b (kids r a)) (r_diskChildrenMap r)"
  by (simp add: addChildDisk_def kids_def Let_def)

text \<open>The two failures after the maps were touched, and the success.\<close>

definition touched :: "'h replica \<Rightarrow> string \<Rightarrow> string \<Rightarrow> bool \<Rightarrow> string \<Rightarrow> (string \<times> string) list option \<Rightarrow> 'h replica" where
  "touched r nh snap userCreated created labels =
     r\<lparr>r_heap := (r_heap r)[last (live r) := (at r (last (live r)))\<lparr>d_UserCreated := userCreated, d_Created := created, d_Labels := labels\<rparr>]
                    @ [new_head_disk nh snap created]\<rparr>"

definition fresh_names :: "'h replica \<Rightarrow> string \<Rightarrow> string \<Rightarrow> bool" where
  "fresh_names r nh snap \<longleftrightarrow> map_of (r_diskData r) nh = None \<and> map_of (r_diskData r) snap = None \<and> nh \<noteq> snap \<and>
     snap \<noteq> '''' \<and> map_of (r_diskChildrenMap r) snap = None"

lemma fresh_after_wf:
  assumes wf: "rep_wf r" and nh: "nextFile (i_Head (r_info r)) = Inr nh"
    and snap: "map_of (r_diskData r) (GenerateSnapshotDiskName name) = None"
  shows "fresh_names r nh (GenerateSnapshotDiskName name)"
proof -
  let ?s = "GenerateSnapshotDiskName name"
  note w = rep_wfD [OF wf]
  have "map_of (r_diskData r) nh = None"
    using w(5) nextFile_head [OF nh] nextFile_neq [OF nh] unfolding head_ok_def by blast
  moreover have "nh \<noteq> ?s" using nextFile_head [OF nh] IsHeadDisk_snapshot [of name] by metis
  moreover have ne: "?s \<noteq> ''''" by (simp add: GenerateSnapshotDiskName_def SnapshotDiskPrefix_def)
  moreover have "kids r ?s = []"
  proof -
    have "set (kids r ?s) = {c. \<exists>d. disk_of r c = Some d \<and> d_Parent d = ?s}" using w(2) ne unfolding kids_ok_def by blast
    moreover have "\<not> (\<exists>d. disk_of r c = Some d \<and> d_Parent d = ?s)" for c using tree_okD(3) [OF w(1), of c] snap ne by auto
    ultimately show ?thesis by simp
  qed
  then have "map_of (r_diskChildrenMap r) ?s = None"
    using w(2) ne unfolding kids_ok_def kids_def by (cases "map_of (r_diskChildrenMap r) ?s") auto
  ultimately show ?thesis using snap by (simp add: fresh_names_def)
qed

lemma delete_update_fresh: "map_of al k = None \<Longrightarrow> AList.delete k (AList.update k v al) = al"
  by (simp add: delete_update_same delete_idem map_of_eq_None_iff)

lemma head_lt:
  assumes "rep_wf r"
  shows "last (live r) < length (r_heap r)"
  using tree_okD(2) [OF rep_wfD(1) [OF assms] head_ptr(1) [OF assms]] by simp

definition r_after :: "'h replica \<Rightarrow> string \<Rightarrow> string \<Rightarrow> bool \<Rightarrow> string \<Rightarrow> (string \<times> string) list option \<Rightarrow> 'h replica" where
  "r_after r nh snap userCreated created labels =
     addChildDisk snap nh (touched r nh snap userCreated created labels
       \<lparr>r_diskData := AList.update snap (last (live r)) (AList.update nh (length (r_heap r)) (r_diskData r))\<rparr>)"

lemma add_snapshot_run:
  assumes wf: "rep_wf r" and fr: "fresh_names r nh snap"
  shows "add_snapshot (i_Head (r_info r)) nh snap uc cr lb
      (r\<lparr>r_heap := r_heap r @ [new_head_disk nh snap cr], r_diskData := AList.update nh (length (r_heap r)) (r_diskData r)\<rparr>) =
    Some (r_after r nh snap uc cr lb)"
proof -
  have ne: "nh \<noteq> i_Head (r_info r)" using fr head_ptr(1) [OF wf] by (auto simp: fresh_names_def)
  show ?thesis
    using head_ptr(1) [OF wf] head_lt [OF wf] ne
    by (simp add: add_snapshot_def r_after_def touched_def addChildDisk_def kids_def poke_def at_def update_conv' Let_def
        list_update_append nth_append)
qed

lemma maps_rollback_run:
  assumes "fresh_names r nh snap"
  shows "maps_rollback nh snap (r_after r nh snap uc cr lb) fs = (None, touched r nh snap uc cr lb, fs)"
proof -
  let ?dd = "r_diskData r"
  have "AList.delete snap (AList.delete nh (AList.update snap p (AList.update nh q ?dd))) = ?dd" for p q
  proof -
    have "AList.delete snap (AList.delete nh (AList.update snap p (AList.update nh q ?dd))) =
        AList.delete nh (AList.delete snap (AList.update snap p (AList.update nh q ?dd)))"
      by (simp add: delete_twist)
    also have "\<dots> = AList.delete nh (AList.update nh q ?dd)"
      using assms by (subst delete_update_fresh) (auto simp: fresh_names_def update_conv')
    finally show ?thesis using assms by (simp add: delete_update_fresh fresh_names_def)
  qed
  moreover have "map_of (r_diskChildrenMap r) snap = None" using assms by (simp add: fresh_names_def)
  ultimately show ?thesis
    by (simp add: maps_rollback_def r_after_def addChildDisk_def touched_def Let_def delete_update_fresh)
qed

lemma children_cong:
  assumes "r_diskChildrenMap r1 = r_diskChildrenMap r2"
  shows "r_diskChildrenMap (addChildDisk a b r1) = r_diskChildrenMap (addChildDisk a b r2)"
    "r_diskChildrenMap (rmChildDisk a b r1) = r_diskChildrenMap (rmChildDisk a b r2)"
  using assms by (simp_all add: addChildDisk_def rmChildDisk_def Let_def split: option.split)

lemma rmDisk_err_state: "\<exists>e fs'. rmDisk E r n fs = (e, fs')"
  by (meson surj_pair)

lemma finish_run:
  assumes wf: "rep_wf r" and fr: "fresh_names r nh snap"
  shows "\<exists>r'. (do { r1 \<leftarrow> updateChildDisk (i_Head (r_info r)) snap (r_after r nh snap uc cr lb);
      r2 \<leftarrow> rename_last snap r1;
      Some (finish_create E (i_Head (r_info r)) ((r_info r)\<lparr>i_Head := nh, i_Dirty := True, i_Parent := snap, i_Size := n\<rparr>) f
        (length (r_heap r)) r2 fs) }) = Some (None, r', snd (rmDisk E r' (i_Head (r_info r)) fs)) \<and>
    snapshotted r nh snap uc cr lb n f r'"
proof -
  let ?o = "i_Head (r_info r)" and ?p = "last (live r)" and ?q = "length (r_heap r)" and ?ra = "r_after r nh snap uc cr lb"
  let ?pp = "d_Parent (at r ?p)"
  have ne: "nh \<noteq> ?o" "snap \<noteq> ?o" using fr head_ptr(1) [OF wf] by (auto simp: fresh_names_def)
  have lt: "?p < length (r_heap r)" by (rule head_lt [OF wf])
  have dk: "disk_of ?ra ?o = Some ((at r ?p)\<lparr>d_UserCreated := uc, d_Created := cr, d_Labels := lb\<rparr>)"
    using head_ptr(1) [OF wf] ne lt by (simp add: disk_of_def r_after_def touched_def at_def update_conv' nth_append)
  define r1 where "r1 = addChildDisk ?pp snap (rmChildDisk ?pp ?o ?ra)"
  have u: "updateChildDisk ?o snap ?ra = Some r1"
    using dk fr by (simp add: updateChildDisk_def r1_def fresh_names_def)
  have act: "r_activeDiskData r1 = r_activeDiskData r" by (simp add: r1_def r_after_def touched_def)
  have "index (r_activeDiskData r1) (int (length (r_activeDiskData r1)) - 1) = Some (Some ?p)"
    using head_ptr(5,6) [OF wf] by (auto simp: act index_def last_conv_nth nat_minus_as_int)
  then have rn: "rename_last snap r1 = Some (poke ?p (\<lambda>d. d\<lparr>d_Name := snap\<rparr>) r1)" by (simp add: rename_last_def)
  let ?info = "(r_info r)\<lparr>i_Head := nh, i_Dirty := True, i_Parent := snap, i_Size := n\<rparr>"
  define r' where "r' = (let r2 = poke ?p (\<lambda>d. d\<lparr>d_Name := snap\<rparr>) r1 in r2\<lparr>r_diskData := AList.delete ?o (r_diskData r2), r_info := ?info,
     r_volume := (r_volume r2)\<lparr>files := files (r_volume r2) @ [Some f]\<rparr>, r_activeDiskData := r_activeDiskData r2 @ [Some ?q]\<rparr>)"
  have fin: "finish_create E ?o ?info f ?q (poke ?p (\<lambda>d. d\<lparr>d_Name := snap\<rparr>) r1) fs = (None, r', snd (rmDisk E r' ?o fs))"
    by (simp add: finish_create_def r'_def Let_def split: prod.split)
  have "r_diskChildrenMap r1 = r_diskChildrenMap (addChildDisk ?pp snap (rmChildDisk ?pp ?o (addChildDisk snap nh r)))"
    unfolding r1_def r_after_def by (intro children_cong) (simp add: touched_def)
  then have "snapshotted r nh snap uc cr lb n f r'"
    using lt by (simp add: snapshotted_def r'_def poke_def Let_def r1_def r_after_def touched_def at_def list_update_append nth_append)
  then show ?thesis using u rn fin by simp
qed

section \<open>createDisk under any failures\<close>

lemma createDisk_failed_result:
  "\<exists>e r' fs'. createDisk_failed name rbs err r fs = (Some e, r', fs') \<and> r' = fst (snd (run_rollbacks rbs None r fs))"
  by (auto simp: createDisk_failed_def GenerateFunctionErrorWithRollback_def WrapError_def NewError_def split: prod.split option.split error.split)

lemma createDisk_failed_keeps:
  assumes "\<And>f. Some f \<in> set rbs \<Longrightarrow> keeps f"
  shows "\<exists>e fs'. createDisk_failed name rbs err r fs = (Some e, r, fs')"
  using createDisk_failed_result [of name rbs err r fs] run_rollbacks_keeps [OF assms] by force

theorem create_steps_outcome:
  assumes wf: "rep_wf r" and snap: "map_of (r_diskData r) (GenerateSnapshotDiskName name) = None"
  defines "s \<equiv> GenerateSnapshotDiskName name"
  shows "\<exists>err r' fs'. create_steps E r name s uc cr lb n fs = Some (err, r', fs') \<and>
    (case err of
       None \<Rightarrow> \<exists>nh f. nextFile (i_Head (r_info r)) = Inr nh \<and> snapshotted r nh s uc cr lb n f r'
     | Some e \<Rightarrow> r' = r \<or> (\<exists>nh. nextFile (i_Head (r_info r)) = Inr nh \<and> r' = touched r nh s uc cr lb))"
proof (cases "createNewHead E r (i_Head (r_info r)) s cr n fs")
  case (Pair res fs1)
  show ?thesis
  proof (cases res)
    case (Inl e)
    obtain e' fs' where "createDisk_failed name [] e r fs1 = (Some e', r, fs')" using createDisk_failed_keeps [of "[]"] by fastforce
    then show ?thesis using Pair Inl by (simp add: create_steps_def)
  next
    case (Inr x)
    obtain f nd rb1 where x: "x = (f, nd, rb1)" by (cases x)
    obtain nh where nh: "nextFile (i_Head (r_info r)) = Inr nh" "nd = new_head_disk nh s cr" and k1: "keeps rb1"
      using createNewHead_Inr Pair Inr x by metis
    have fr: "fresh_names r nh s" unfolding s_def by (rule fresh_after_wf [OF wf nh(1) snap])
    obtain rb2 e2 fs2 where l: "linkDisk E r (i_Head (r_info r)) s fs1 = (rb2, e2, fs2)" using prod_cases3 by blast
    have k2: "\<And>g. rb2 = Some g \<Longrightarrow> keeps g" using l linkDisk_rollback by metis
    let ?info = "(r_info r)\<lparr>i_Head := nh, i_Dirty := True, i_Parent := s, i_Size := n\<rparr>"
    obtain rb3 e3 fs3 where m: "encodeToFile E r (JInfo ?info) volumeMetaData fs2 = (rb3, e3, fs3)" using prod_cases3 by blast
    have k3: "keeps (meta_rollback E rb3)" using m encodeToFile_rollback keeps_meta_rollback by metis
    let ?ra = "r_after r nh s uc cr lb"
    have as: "add_snapshot (i_Head (r_info r)) nh s uc cr lb
        (r\<lparr>r_heap := r_heap r @ [new_head_disk nh s cr], r_diskData := AList.update nh (length (r_heap r)) (r_diskData r)\<rparr>) = Some ?ra"
      by (rule add_snapshot_run [OF wf fr])
    have "map_of (r_diskData ?ra) s = Some (last (live r))" by (simp add: r_after_def update_conv')
    then obtain sd where sd: "disk_of ?ra s = Some sd" by (simp add: disk_of_def)
    obtain rb4 e4 fs4 where sm: "encodeToFile E ?ra (JDisk sd) (meta_name s) fs3 = (rb4, e4, fs4)" using prod_cases3 by blast
    have sne: "s \<noteq> ''''" using fr by (simp add: fresh_names_def)
    note run = create_steps_def Let_def alloc_def
    show ?thesis
    proof (cases e2)
      case (Some e)
      then have "create_steps E r name s uc cr lb n fs = Some (createDisk_failed name [Some rb1] e r fs2)"
        using Pair Inr x l nh(2) by (simp add: run)
      moreover have "\<And>g. Some g \<in> set [Some rb1] \<Longrightarrow> keeps g" using k1 by simp
      from createDisk_failed_keeps [OF this] obtain e' fs' where "createDisk_failed name [Some rb1] e r fs2 = (Some e', r, fs')" by blast
      ultimately show ?thesis by simp
    next
      case None
      note e2 = this
      show ?thesis
      proof (cases e3)
        case (Some e)
        then have "create_steps E r name s uc cr lb n fs = Some (createDisk_failed name [Some rb1, rb2] e r fs3)"
          using Pair Inr x l e2 m nh(2) by (simp add: run)
        moreover have "\<And>g. Some g \<in> set [Some rb1, rb2] \<Longrightarrow> keeps g" using k1 k2 by auto
        from createDisk_failed_keeps [OF this] obtain e' fs' where "createDisk_failed name [Some rb1, rb2] e r fs3 = (Some e', r, fs')" by blast
        ultimately show ?thesis by simp
      next
        case None
        note e3 = this
        have tail: "create_steps E r name s uc cr lb n fs = (case e4 of
            Some e \<Rightarrow> Some (createDisk_failed name ([Some rb1, rb2, Some (meta_rollback E rb3)] @ [Some (maps_rollback nh s)]) e ?ra fs4)
          | None \<Rightarrow> do { r1 \<leftarrow> updateChildDisk (i_Head (r_info r)) s ?ra; r2 \<leftarrow> rename_last s r1;
              Some (finish_create E (i_Head (r_info r)) ?info f (length (r_heap r)) r2 fs4) })"
          using Pair Inr x l e2 m e3 nh(2) as sd sm sne by (simp add: run split: option.split)
        show ?thesis
        proof (cases e4)
          case (Some e)
          let ?rbs = "[Some rb1, rb2, Some (meta_rollback E rb3)]"
          have "\<And>g. Some g \<in> set ?rbs \<Longrightarrow> keeps g" using k1 k2 k3 by auto
          from run_rollbacks_keeps [OF this] obtain e' fs' where rr: "run_rollbacks ?rbs None ?ra fs4 = (e', ?ra, fs')"
            by (metis prod.collapse)
          have "fst (snd (run_rollbacks (?rbs @ [Some (maps_rollback nh s)]) None ?ra fs4)) = touched r nh s uc cr lb"
            by (simp only: run_rollbacks_append rr) (simp add: maps_rollback_run [OF fr])
          then show ?thesis
            using createDisk_failed_result [of name "?rbs @ [Some (maps_rollback nh s)]" e ?ra fs4] tail Some nh(1) by auto
        next
          case None
          then show ?thesis using tail finish_run [OF wf fr, of uc cr lb E n f fs4] nh(1) by force
        qed
      qed
    qed
  qed
qed

section \<open>The invariant is kept\<close>

text \<open>The disks after a snapshot, as a map.\<close>

lemma snapshotted_ptrs:
  assumes wf: "rep_wf r" and s: "snapshotted r nh snap uc cr lb n f r'" and fr: "fresh_names r nh snap"
  shows "map_of (r_diskData r') x = (if x = i_Head (r_info r) then None else if x = snap then Some (last (live r))
      else if x = nh then Some (length (r_heap r)) else map_of (r_diskData r) x)"
    "p < length (r_heap r) \<Longrightarrow> at r' p = (if p = last (live r) then (at r p)\<lparr>d_UserCreated := uc, d_Created := cr, d_Labels := lb, d_Name := snap\<rparr> else at r p)"
    "at r' (length (r_heap r)) = new_head_disk nh snap cr" "length (r_heap r') = Suc (length (r_heap r))"
  using s head_lt [OF wf] by (auto simp: snapshotted_def Let_def at_def update_conv' delete_conv' nth_append nth_list_update)

lemma snapshotted_disk_of:
  assumes wf: "rep_wf r" and s: "snapshotted r nh snap uc cr lb n f r'" and fr: "fresh_names r nh snap"
  shows "disk_of r' = (disk_of r)(i_Head (r_info r) := None, nh \<mapsto> new_head_disk nh snap cr,
    snap \<mapsto> (at r (last (live r)))\<lparr>d_UserCreated := uc, d_Created := cr, d_Labels := lb, d_Name := snap\<rparr>)"
proof
  fix x
  have ne: "nh \<noteq> i_Head (r_info r)" "snap \<noteq> i_Head (r_info r)" "nh \<noteq> snap" using fr head_ptr(1) [OF wf] by (auto simp: fresh_names_def)
  have other: "p < length (r_heap r) \<and> p \<noteq> last (live r)" if "map_of (r_diskData r) x = Some p" "x \<noteq> i_Head (r_info r)" for p
    using tree_okD(2) [OF rep_wfD(1) [OF wf] that(1)] that(2) head_ptr(2) [OF wf] by auto
  show "disk_of r' x = ((disk_of r)(i_Head (r_info r) := None, nh \<mapsto> new_head_disk nh snap cr,
    snap \<mapsto> (at r (last (live r)))\<lparr>d_UserCreated := uc, d_Created := cr, d_Labels := lb, d_Name := snap\<rparr>)) x"
    using ne other head_lt [OF wf] snapshotted_ptrs [OF wf s fr]
    by (cases "map_of (r_diskData r) x") (auto simp: disk_of_def)
qed

lemma snapshotted_parents:
  assumes "rep_wf r" "snapshotted r nh snap uc cr lb n f r'" "fresh_names r nh snap" "disk_of r' x = Some d"
  shows "d = new_head_disk nh snap cr \<or> d_Parent d = d_Parent (at r (last (live r))) \<or> disk_of r x = Some d"
  using assms(4) unfolding snapshotted_disk_of [OF assms(1-3)]
  by (cases "x = snap"; cases "x = nh"; cases "x = i_Head (r_info r)") auto

lemma map_of_children:
  "map_of (r_diskChildrenMap (addChildDisk a b r)) n = (if n = a then Some (List.insert b (kids r a)) else map_of (r_diskChildrenMap r) n)"
  "map_of (r_diskChildrenMap (rmChildDisk a b r)) n =
     (if n = a \<and> b \<in> set (kids r a) then (if remove1 b (kids r a) = [] then None else Some (remove1 b (kids r a)))
      else map_of (r_diskChildrenMap r) n)"
  by (auto simp: addChildDisk_def rmChildDisk_def kids_def Let_def update_conv' delete_conv' split: option.split)

lemma kids_add: "kids (addChildDisk a b r) n = (if n = a then List.insert b (kids r a) else kids r n)"
  by (simp add: kids_def [of "addChildDisk a b r"] map_of_children kids_def [of r n])

lemma kids_rm: "kids (rmChildDisk a b r) n = (if n = a then remove1 b (kids r a) else kids r n)"
proof (cases "n = a \<and> b \<in> set (kids r a)")
  case True
  then show ?thesis by (auto simp: kids_def [of "rmChildDisk a b r"] map_of_children)
next
  case False
  then have "kids (rmChildDisk a b r) n = kids r n" unfolding kids_def [of "rmChildDisk a b r"] map_of_children kids_def [of r n] by auto
  then show ?thesis using False by (auto simp: remove1_idem)
qed

lemma kids_add_ne: "map_of (r_diskChildrenMap (addChildDisk a b r)) n = Some cs \<Longrightarrow> cs \<noteq> [] \<or> map_of (r_diskChildrenMap r) n = Some cs"
proof -
  have "List.insert b xs \<noteq> []" for b :: string and xs by (simp add: List.insert_def) auto
  then show "map_of (r_diskChildrenMap (addChildDisk a b r)) n = Some cs \<Longrightarrow> ?thesis" by (auto simp: map_of_children split: if_splits)
qed

lemma kids_rm_ne: "map_of (r_diskChildrenMap (rmChildDisk a b r)) n = Some cs \<Longrightarrow> cs \<noteq> [] \<or> map_of (r_diskChildrenMap r) n = Some cs"
  by (auto simp: map_of_children split: if_splits)

lemma snapshotted_kids:
  assumes wf: "rep_wf r" and s: "snapshotted r nh snap uc cr lb n f r'" and fr: "fresh_names r nh snap"
  shows "kids_ok r'"
proof -
  let ?o = "i_Head (r_info r)" and ?d = "at r (last (live r))"
  note w = rep_wfD [OF wf]
  let ?c = "addChildDisk (d_Parent ?d) snap (rmChildDisk (d_Parent ?d) ?o (addChildDisk snap nh r))"
  have ch: "r_diskChildrenMap r' = r_diskChildrenMap ?c" using s by (simp add: snapshotted_def Let_def)
  have k0: "kids r snap = []" using fr by (simp add: fresh_names_def kids_def)
  have hd: "disk_of r ?o = Some ?d" using head_ptr(1) [OF wf] by (simp add: disk_of_def)
  have pp: "d_Parent ?d \<noteq> snap" using tree_okD(3) [OF w(1) hd] fr by (auto simp: fresh_names_def)
  have nos: "disk_of r x = Some d \<Longrightarrow> d_Parent d \<noteq> snap" for x d
    using tree_okD(3) [OF w(1), of x d] fr by (auto simp: fresh_names_def)
  have nho: "nh \<noteq> ?o" "snap \<noteq> ?o" "nh \<noteq> snap" "disk_of r nh = None" "disk_of r snap = None"
    using fr head_ptr(1) [OF wf] by (auto simp: fresh_names_def disk_of_def)
  have kids: "kids r' n = (if n = d_Parent ?d then List.insert snap (remove1 ?o (kids r n)) else if n = snap then [nh] else kids r n)" for n
  proof -
    have "kids r' n = kids ?c n" using ch by (simp add: kids_def)
    then show ?thesis using pp k0 by (simp add: kids_add kids_rm)
  qed
  show ?thesis
    unfolding kids_ok_def
  proof (intro conjI allI impI)
    fix n :: string assume n: "n \<noteq> ''''"
    have K: "distinct (kids r n)" "set (kids r n) = {c. \<exists>d. disk_of r c = Some d \<and> d_Parent d = n}"
      using w(2) n unfolding kids_ok_def by blast+
    show "distinct (kids r' n)" using K(1) by (cases "n = d_Parent ?d") (simp_all add: kids distinct_remove1)
    have "(\<exists>d. disk_of r' c = Some d \<and> d_Parent d = n) \<longleftrightarrow>
        (if c = snap then n = d_Parent ?d else if c = nh then n = snap else c \<noteq> ?o \<and> c \<in> set (kids r n))" for c
      unfolding snapshotted_disk_of [OF wf s fr] K(2) using nho by auto
    moreover have "c \<in> set (kids r' n) \<longleftrightarrow> (if c = snap then n = d_Parent ?d else if c = nh then n = snap else c \<noteq> ?o \<and> c \<in> set (kids r n))" for c
    proof -
      have "snap \<notin> set (kids r n)" "nh \<notin> set (kids r n)" unfolding K(2) using nho by auto
      moreover have "?o \<in> set (kids r n) \<longleftrightarrow> n = d_Parent ?d" unfolding K(2) using hd by auto
      ultimately show ?thesis using K(1) nho pp k0 by (auto simp: kids set_remove1_eq)
    qed
    ultimately show "set (kids r' n) = {c. \<exists>d. disk_of r' c = Some d \<and> d_Parent d = n}" by blast
  next
    fix n cs assume n: "n \<noteq> ''''" and a: "map_of (r_diskChildrenMap r') n = Some cs"
    have "cs \<noteq> [] \<or> map_of (r_diskChildrenMap r) n = Some cs"
      using a unfolding ch by (meson kids_add_ne kids_rm_ne)
    then show "cs \<noteq> []" using w(2) n unfolding kids_ok_def by blast
  qed
qed

lemma linked_append: "linked r n (xs @ ys) \<longleftrightarrow> linked r n xs \<and> linked r (if xs = [] then n else d_Name (at r (last xs))) ys"
  by (induction xs arbitrary: n) auto

lemma linked_cong:
  "(\<And>p. p \<in> set ps \<Longrightarrow> d_Name (at r' p) = d_Name (at r p) \<and> d_Parent (at r' p) = d_Parent (at r p)) \<Longrightarrow> linked r' n ps = linked r n ps"
  by (induction ps arbitrary: n) simp_all

lemma live_lt:
  assumes "rep_wf r" "p \<in> set (live r)"
  shows "p < length (r_heap r)"
  using tree_okD(2) [OF rep_wfD(1) [OF assms(1)] live_okD(4) [OF rep_wfD(3) [OF assms(1)] assms(2)]] by simp

lemma live_split:
  assumes "rep_wf r"
  shows "live r = butlast (live r) @ [last (live r)]" "last (live r) \<notin> set (butlast (live r))"
proof -
  show s: "live r = butlast (live r) @ [last (live r)]" using live_okD(2) [OF rep_wfD(3) [OF assms]] by simp
  have "distinct (butlast (live r) @ [last (live r)])" using live_okD(3) [OF rep_wfD(3) [OF assms]] s by simp
  then show "last (live r) \<notin> set (butlast (live r))" by simp
qed

lemma snapshotted_butlast:
  assumes wf: "rep_wf r" and s: "snapshotted r nh snap uc cr lb n f r'" and fr: "fresh_names r nh snap" and p: "p \<in> set (butlast (live r))"
  shows "at r' p = at r p"
  using snapshotted_ptrs(2) [OF wf s fr live_lt [OF wf in_set_butlastD [OF p]]] live_split(2) [OF wf] p by auto

lemma snapshotted_live:
  assumes wf: "rep_wf r" and s: "snapshotted r nh snap uc cr lb n f r'" and fr: "fresh_names r nh snap"
  shows "live r' = live r @ [length (r_heap r)]" "base r' = base r"
    "live_names r' = butlast (live_names r) @ [snap, nh]"
proof -
  note l = live_okD [OF rep_wfD(3) [OF wf]]
  have b: "base r' = base r" using s by (simp add: snapshotted_def base_def Let_def)
  then show "base r' = base r" .
  show lv: "live r' = live r @ [length (r_heap r)]"
    using s l(7) by (simp add: live_def b) (simp add: snapshotted_def Let_def)
  note sp = live_split(1) [OF wf]
  have names: "map (\<lambda>p. d_Name (at r' p)) (butlast (live r)) = map (\<lambda>p. d_Name (at r p)) (butlast (live r))"
    using snapshotted_butlast [OF wf s fr] by simp
  have "live_names r' = map (\<lambda>p. d_Name (at r' p)) (butlast (live r)) @ map (\<lambda>p. d_Name (at r' p)) [last (live r), length (r_heap r)]"
    unfolding live_names_def lv by (subst sp) simp
  then show "live_names r' = butlast (live_names r) @ [snap, nh]"
    using names snapshotted_ptrs(2,3) [OF wf s fr] head_lt [OF wf] by (simp add: live_names_def map_butlast)
qed

lemma snapshotted_live_ok:
  assumes wf: "rep_wf r" and s: "snapshotted r nh snap uc cr lb n f r'" and fr: "fresh_names r nh snap"
  shows "live_ok r'"
proof -
  note l = live_okD [OF rep_wfD(3) [OF wf]] and lv = snapshotted_live [OF wf s fr] and P = snapshotted_ptrs [OF wf s fr]
  let ?p = "last (live r)" and ?q = "length (r_heap r)"
  note lt = live_lt [OF wf] and sp = live_split(1) [OF wf] and np = snapshotted_butlast [OF wf s fr]
  have act: "r_activeDiskData r' = r_activeDiskData r @ [Some ?q]" using s by (simp add: snapshotted_def Let_def)
  have "linked r' '''' (butlast (live r) @ [?p])"
  proof -
    have "linked r '''' (butlast (live r) @ [?p])" using l(5) sp by simp
    moreover have "linked r' '''' (butlast (live r)) = linked r '''' (butlast (live r))"
      using np by (intro linked_cong) simp
    moreover have "butlast (live r) \<noteq> [] \<Longrightarrow> d_Name (at r' (last (butlast (live r)))) = d_Name (at r (last (butlast (live r))))"
      using np [OF last_in_set] by simp
    ultimately show ?thesis using P(2) [OF head_lt [OF wf]] by (auto simp: linked_append)
  qed
  then have lk: "linked r' '''' (live r)" using sp by simp
  have nm: "d_Name (at r' ?p) = snap" "d_Name (at r' ?q) = nh" "d_Parent (at r' ?q) = snap" using P(2) [OF head_lt [OF wf]] P(3) by simp_all
  have ptr: "map_of (r_diskData r') (d_Name (at r' p)) = Some p" if p: "p \<in> set (live r')" for p
  proof (cases "p = ?p \<or> p = ?q")
    case True
    then show ?thesis using nm fr head_ptr(1) [OF wf] P(1) by (auto simp: fresh_names_def)
  next
    case False
    then have m: "p \<in> set (live r)" using p lv(1) by auto
    have "d_Name (at r p) \<noteq> i_Head (r_info r)" using l(4) [OF m] head_ptr(1) [OF wf] False by auto
    moreover have "d_Name (at r p) \<noteq> snap" "d_Name (at r p) \<noteq> nh" using l(4) [OF m] fr by (auto simp: fresh_names_def)
    ultimately show ?thesis using False P(2) [OF lt [OF m]] P(1) l(4) [OF m] by simp
  qed
  have "None \<notin> set (drop (base r') (r_activeDiskData r'))" using l(1,7) lv(2) act by simp
  moreover have "distinct (live r')" using l(3) lt lv(1) by auto
  moreover have "linked r' '''' (live r')" using lk nm l(2) lv(1) by (simp add: linked_append)
  moreover have "last (live_names r') = i_Head (r_info r')" using lv(3) s by (simp add: snapshotted_def Let_def)
  ultimately show ?thesis using ptr lv l(7) act by (simp add: live_ok_def)
qed

theorem snapshotted_wf:
  assumes wf: "rep_wf r" and s: "snapshotted r nh snap uc cr lb n f r'" and fr: "fresh_names r nh snap"
    and hd: "\<not> IsHeadDisk snap" "nh \<noteq> ''''"
  shows "rep_wf r'"
proof -
  note w = rep_wfD [OF wf] and P = snapshotted_ptrs [OF wf s fr] and D = snapshotted_disk_of [OF wf s fr]
  let ?o = "i_Head (r_info r)" and ?p = "last (live r)"
  have nho: "nh \<noteq> ?o" "snap \<noteq> ?o" "nh \<noteq> snap" using fr head_ptr(1) [OF wf] by (auto simp: fresh_names_def)
  have "tree_ok r'"
    unfolding tree_ok_def
  proof (intro conjI allI impI)
    show "distinct (map fst (r_diskData r'))"
      using s tree_okD(1) [OF w(1)] by (simp add: snapshotted_def Let_def distinct_update distinct_delete)
  next
    fix x p assume a: "map_of (r_diskData r') x = Some p"
    then consider "x = snap" "p = ?p" | "x = nh" "p = length (r_heap r)" | "x \<noteq> ?o" "x \<noteq> snap" "x \<noteq> nh" "map_of (r_diskData r) x = Some p"
      using P(1) by (metis option.distinct(1) option.inject)
    then have "p < length (r_heap r') \<and> d_Name (at r' p) = x \<and> x \<noteq> ''''"
    proof cases
      case 1
      then show ?thesis using P(2) [OF head_lt [OF wf]] P(4) head_lt [OF wf] fr by (simp add: fresh_names_def)
    next
      case 2
      then show ?thesis using P(3,4) hd by simp
    next
      case 3
      note t = tree_okD(2) [OF w(1) 3(4)]
      then have "p \<noteq> ?p" using 3(1) head_ptr(2) [OF wf] by auto
      then show ?thesis using P(2) [of p] P(4) t by simp
    qed
    then show "p < length (r_heap r')" "d_Name (at r' p) = x" "x \<noteq> ''''" by auto
  next
    fix x d assume a: "disk_of r' x = Some d"
    have pre: "d_Parent d' = '''' \<or> map_of (r_diskData r') (d_Parent d') \<noteq> None" if "disk_of r y = Some d'" for y d'
      using tree_okD(3) [OF w(1) that] w(5) that P(1) unfolding head_ok_def by auto
    have "disk_of r ?o = Some (at r ?p)" using head_ptr(1) [OF wf] by (simp add: disk_of_def)
    note pre_hd = pre [OF this]
    from snapshotted_parents [OF wf s fr a]
    consider "d = new_head_disk nh snap cr" | "d_Parent d = d_Parent (at r ?p)" | "disk_of r x = Some d" by blast
    then show "d_Parent d = '''' \<or> map_of (r_diskData r') (d_Parent d) \<noteq> None"
    proof cases
      case 1
      then show ?thesis using nho P(1) by simp
    next
      case 2
      then show ?thesis using pre_hd by simp
    next
      case 3
      then show ?thesis by (rule pre)
    qed
  next
    obtain rank :: "string \<Rightarrow> nat" where rk: "\<And>n d. disk_of r n = Some d \<Longrightarrow> d_Parent d \<noteq> '''' \<Longrightarrow> rank (d_Parent d) < rank n"
      using w(1) unfolding tree_ok_def by blast
    let ?rank = "\<lambda>x. if x = snap then rank ?o else if x = nh then Suc (rank ?o) else rank x"
    have ho: "disk_of r ?o = Some (at r ?p)" using head_ptr(1) [OF wf] by (simp add: disk_of_def)
    have par: "d_Parent d \<noteq> snap \<and> d_Parent d \<noteq> nh" if "disk_of r y = Some d" for y d
      using tree_okD(3) [OF w(1) that] fr hd by (auto simp: fresh_names_def)
    have "?rank (d_Parent d) < ?rank x" if a: "disk_of r' x = Some d" "d_Parent d \<noteq> ''''" for x d
    proof -
      consider "x = snap" | "x = nh" | "x \<noteq> snap" "x \<noteq> nh" "disk_of r x = Some d"
        using a(1) unfolding D by (cases "x = snap"; cases "x = nh"; cases "x = ?o") auto
      then show ?thesis
      proof cases
        case 1
        then have "d_Parent d = d_Parent (at r ?p)" using a(1) unfolding D by auto
        then show ?thesis using 1 rk [OF ho] par [OF ho] a(2) by simp
      next
        case 2
        then have "d_Parent d = snap" using a(1) nho unfolding D by auto
        then show ?thesis using 2 nho by simp
      next
        case 3
        then show ?thesis using rk [OF 3(3) a(2)] par [OF 3(3)] by simp
      qed
    qed
    then show "\<exists>rank :: string \<Rightarrow> nat. \<forall>n d. disk_of r' n = Some d \<longrightarrow> d_Parent d \<noteq> '''' \<longrightarrow> rank (d_Parent d) < rank n"
      by (intro exI [of _ ?rank]) blast
  qed
  moreover have "backing_ok r'"
  proof (cases "r_BackingFile r")
    case None
    then show ?thesis using w(4) s by (auto simp: backing_ok_def snapshotted_def Let_def)
  next
    case (Some b)
    obtain path h where b: "b = (path, h)" by (cases b)
    obtain p0 p where B: "take 2 (r_activeDiskData r) = [Some p0, Some p]" "map_of (r_diskData r) path = Some p"
      "d_Parent (at r p) = ''''" "p \<notin> set (live r)" "p0 < length (r_heap r)" "d_Name (at r p0) = ''''"
      using w(4) Some b by (auto simp: backing_ok_def)
    have pp: "p < length (r_heap r)" "p \<noteq> ?p" using tree_okD(2) [OF w(1) B(2)] B(4) head_ptr(3) [OF wf] by auto
    have "p0 \<noteq> ?p" using B(6) head_ptr(2,4) [OF wf] by auto
    moreover have "path \<noteq> ?o" using B(2) head_ptr(1) [OF wf] pp(2) by auto
    moreover have "path \<noteq> snap" "path \<noteq> nh" using B(2) fr by (auto simp: fresh_names_def)
    moreover have "length (take 2 (r_activeDiskData r)) = 2" using B(1) by simp
    then have "2 \<le> length (r_activeDiskData r)" by (simp split: if_splits)
    then have "take 2 (r_activeDiskData r') = [Some p0, Some p]" using B(1) s by (simp add: snapshotted_def Let_def)
    ultimately show ?thesis
      using Some b B pp s P snapshotted_live(1) [OF wf s fr] unfolding backing_ok_def by (auto simp: snapshotted_def Let_def)
  qed
  moreover have "head_ok r'"
    unfolding head_ok_def
  proof (intro conjI allI impI)
    have info: "i_Head (r_info r') = nh" "i_Parent (r_info r') = snap" using s by (simp_all add: snapshotted_def Let_def)
    fix x assume "map_of (r_diskData r') x \<noteq> None" "x \<noteq> i_Head (r_info r')"
    then show "\<not> IsHeadDisk x" using w(5) hd info P(1) [of x] unfolding head_ok_def by (auto split: if_splits)
  next
    have info: "i_Head (r_info r') = nh" using s by (simp add: snapshotted_def Let_def)
    fix x d assume a: "disk_of r' x = Some d"
    have "d_Parent d' \<noteq> nh" if "disk_of r y = Some d'" for y d'
      using tree_okD(3) [OF w(1) that] fr hd by (auto simp: fresh_names_def)
    note par = this
    have "disk_of r ?o = Some (at r ?p)" using head_ptr(1) [OF wf] by (simp add: disk_of_def)
    note par_hd = par [OF this]
    show "d_Parent d \<noteq> i_Head (r_info r')" using snapshotted_parents [OF wf s fr a] par par_hd nho info by auto
  next
    show "map_option d_Parent (disk_of r' (i_Head (r_info r'))) = Some (i_Parent (r_info r'))"
      using s nho unfolding D by (simp add: snapshotted_def Let_def)
    show "length (files (r_volume r')) = length (r_activeDiskData r')"
      using s w(5) by (simp add: snapshotted_def Let_def head_ok_def)
    obtain x xs where fl: "files (r_volume r) = x # xs"
      using w(5) head_ptr(5) [OF wf] by (cases "files (r_volume r)") (auto simp: head_ok_def)
    have "files (r_volume r') = files (r_volume r) @ [Some f]" using s by (simp add: snapshotted_def Let_def)
    then show "None \<notin> set (drop 1 (files (r_volume r')))"
      using w(5) fl by (simp add: head_ok_def)
  qed
  ultimately show ?thesis
    using snapshotted_kids [OF wf s fr] snapshotted_live_ok [OF wf s fr] by (simp add: rep_wf_def)
qed

section \<open>createDisk\<close>

lemma touched_like: "last (live r) < length (r_heap r) \<Longrightarrow> heap_like (r_heap r) (r_heap (touched r nh snap uc cr lb))"
  by (auto simp: heap_like_def touched_def same_tree_def at_def nth_append nth_list_update)

text \<open>What a failed createDisk may leave changed: the struct of the head, in three fields.\<close>

definition tree_kept :: "'h replica \<Rightarrow> 'h replica \<Rightarrow> bool" where
  "tree_kept r r' \<longleftrightarrow> heap_like (r_heap r) (r_heap r') \<and> r' = r\<lparr>r_heap := r_heap r'\<rparr> \<and>
     (\<forall>n. n \<noteq> i_Head (r_info r) \<longrightarrow> disk_of r' n = disk_of r n)"

lemma tree_kept_refl [simp]: "tree_kept r r"
  by (simp add: tree_kept_def heap_like_def)

lemma touched_kept:
  assumes "rep_wf r"
  shows "tree_kept r (touched r nh snap uc cr lb)"
  unfolding tree_kept_def
proof (intro conjI allI impI)
  show "heap_like (r_heap r) (r_heap (touched r nh snap uc cr lb))" by (rule touched_like [OF head_lt [OF assms]])
  show "touched r nh snap uc cr lb = r\<lparr>r_heap := r_heap (touched r nh snap uc cr lb)\<rparr>" by (simp add: touched_def)
  fix n assume n: "n \<noteq> i_Head (r_info r)"
  show "disk_of (touched r nh snap uc cr lb) n = disk_of r n"
  proof (cases "map_of (r_diskData r) n")
    case (Some p)
    then have "p < length (r_heap r)" "p \<noteq> last (live r)"
      using tree_okD(2) [OF rep_wfD(1) [OF assms] Some] n head_ptr(2) [OF assms] by auto
    then show ?thesis using Some by (simp add: disk_of_def touched_def at_def nth_append)
  qed (simp add: disk_of_def touched_def)
qed

lemma tree_kept_wf: "rep_wf r \<Longrightarrow> tree_kept r r' \<Longrightarrow> rep_wf r'"
  unfolding tree_kept_def using rep_wf_heap by metis

theorem createDisk_outcome:
  assumes wf: "rep_wf r"
  shows "\<exists>err r' fs'. createDisk E r name uc cr lb n fs = Some (err, r', fs') \<and> rep_wf r' \<and>
    (case err of
       None \<Rightarrow> \<exists>nh f. nextFile (i_Head (r_info r)) = Inr nh \<and> fresh_names r nh (GenerateSnapshotDiskName name) \<and>
         snapshotted r nh (GenerateSnapshotDiskName name) uc cr lb n f r' \<and> 0 < getRemainSnapshotCounts r
     | Some e \<Rightarrow> tree_kept r r')"
proof -
  let ?s = "GenerateSnapshotDiskName name"
  have nehd: "i_Head (r_info r) \<noteq> ''''" by (rule head_ptr(4) [OF wf])
  have sne: "?s \<noteq> ''''" by (simp add: GenerateSnapshotDiskName_def SnapshotDiskPrefix_def)
  consider "r_readOnly r" | "\<not> r_readOnly r" "getRemainSnapshotCounts r \<le> 0" | "\<not> r_readOnly r" "0 < getRemainSnapshotCounts r" "map_of (r_diskData r) ?s \<noteq> None"
    | "\<not> r_readOnly r" "0 < getRemainSnapshotCounts r" "map_of (r_diskData r) ?s = None" by linarith
  then show ?thesis
  proof cases
    case 4
    obtain err r' fs' where c: "create_steps E r name ?s uc cr lb n fs = Some (err, r', fs')"
      "case err of None \<Rightarrow> \<exists>nh f. nextFile (i_Head (r_info r)) = Inr nh \<and> snapshotted r nh ?s uc cr lb n f r'
        | Some e \<Rightarrow> r' = r \<or> (\<exists>nh. nextFile (i_Head (r_info r)) = Inr nh \<and> r' = touched r nh ?s uc cr lb)"
      using create_steps_outcome [OF wf 4(3), of E uc cr lb n fs] by blast
    have run: "createDisk E r name uc cr lb n fs = Some (err, r', fs')"
      using 4 nehd c(1) by (simp add: createDisk_def)
    show ?thesis
    proof (cases err)
      case None
      then obtain nh f where s: "nextFile (i_Head (r_info r)) = Inr nh" "snapshotted r nh ?s uc cr lb n f r'" using c(2) by auto
      have fr: "fresh_names r nh ?s" by (rule fresh_after_wf [OF wf s(1) 4(3)])
      have "nh \<noteq> ''''" using nextFile_head [OF s(1)] by (auto simp: IsHeadDisk_def VolumeHeadDiskPrefix_def)
      then have "rep_wf r'" using snapshotted_wf [OF wf s(2) fr] by simp
      then show ?thesis using run s fr 4(2) None by auto
    next
      case (Some e)
      then have "tree_kept r r'" using c(2) touched_kept [OF wf] by auto
      then show ?thesis using run Some tree_kept_wf [OF wf] by simp
    qed
  qed (use wf nehd sne in \<open>simp_all add: createDisk_def\<close>)
qed

section \<open>The chain\<close>

lemma chain_loop_Some: "cur \<noteq> '''' \<Longrightarrow> dd cur = Some d \<Longrightarrow> chain_loop dd cur result = chain_loop dd (d_Parent d) (result @ [cur])"
  by (subst chain_loop.simps) simp

lemma chain_loop_end: "chain_loop dd '''' result = Some (Inr result)"
  by (subst chain_loop.simps) simp

lemma chain_of_live:
  assumes wf: "rep_wf r"
  shows "set (xs) \<subseteq> set (live r) \<Longrightarrow> linked r '''' xs \<Longrightarrow> xs \<noteq> [] \<Longrightarrow>
    chain_loop (disk_of r) (d_Name (at r (last xs))) result = Some (Inr (result @ rev (map (\<lambda>p. d_Name (at r p)) xs)))"
proof (induction xs arbitrary: result rule: rev_induct)
  case (snoc p xs)
  have m: "map_of (r_diskData r) (d_Name (at r p)) = Some p" using live_okD(4) [OF rep_wfD(3) [OF wf], of p] snoc.prems(1) by simp
  have ne: "d_Name (at r p) \<noteq> ''''" using tree_okD(2) [OF rep_wfD(1) [OF wf] m] by simp
  have d: "disk_of r (d_Name (at r p)) = Some (at r p)" using m by (simp add: disk_of_def)
  show ?case
  proof (cases "xs = []")
    case True
    then show ?thesis using snoc.prems ne d by (simp add: chain_loop_Some chain_loop_end)
  next
    case False
    have "d_Parent (at r p) = d_Name (at r (last xs))" "linked r '''' xs" using snoc.prems(2) False by (auto simp: linked_append)
    then show ?thesis using snoc False ne d by (simp add: chain_loop_Some)
  qed
qed simp

theorem Chain_live:
  assumes "rep_wf r"
  shows "Chain r = Some (Inr (rev (live_names r)))"
  using chain_of_live [OF assms, of "live r" "[]"] live_okD(2,5) [OF rep_wfD(3) [OF assms]] head_ptr(2) [OF assms]
  by (simp add: Chain_def live_names_def)

lemma display_loop_Some:
  "cur \<noteq> '''' \<Longrightarrow> dd cur = Some d \<Longrightarrow>
     display_loop dd cur result = display_loop dd (d_Parent d) (if d_Removed d then result else result @ [cur])"
  by (subst display_loop.simps) simp

lemma display_loop_end: "display_loop dd '''' result = Some (Inr result)"
  by (subst display_loop.simps) simp

lemma display_of_live:
  assumes wf: "rep_wf r"
  shows "set (xs) \<subseteq> set (live r) \<Longrightarrow> linked r '''' xs \<Longrightarrow> xs \<noteq> [] \<Longrightarrow>
    display_loop (disk_of r) (d_Name (at r (last xs))) result =
      Some (Inr (result @ rev (map (\<lambda>p. d_Name (at r p)) (filter (\<lambda>p. \<not> d_Removed (at r p)) xs))))"
proof (induction xs arbitrary: result rule: rev_induct)
  case (snoc p xs)
  have m: "map_of (r_diskData r) (d_Name (at r p)) = Some p" using live_okD(4) [OF rep_wfD(3) [OF wf], of p] snoc.prems(1) by simp
  have ne: "d_Name (at r p) \<noteq> ''''" using tree_okD(2) [OF rep_wfD(1) [OF wf] m] by simp
  have d: "disk_of r (d_Name (at r p)) = Some (at r p)" using m by (simp add: disk_of_def)
  show ?case
  proof (cases "xs = []")
    case True
    then show ?thesis using snoc.prems ne d by (simp add: display_loop_Some display_loop_end)
  next
    case False
    have "d_Parent (at r p) = d_Name (at r (last xs))" "linked r '''' xs" using snoc.prems(2) False by (auto simp: linked_append)
    then show ?thesis using snoc False ne d by (simp add: display_loop_Some)
  qed
qed simp

theorem DisplayChain_live:
  assumes "rep_wf r"
  shows "DisplayChain r = Some (Inr (rev (map (\<lambda>p. d_Name (at r p)) (filter (\<lambda>p. \<not> d_Removed (at r p)) (live r)))))"
  using display_of_live [OF assms, of "live r" "[]"] live_okD(2,5) [OF rep_wfD(3) [OF assms]] head_ptr(2) [OF assms]
  by (simp add: DisplayChain_def)

section \<open>The limit of the number of snapshots\<close>

lemma backingDiskName_wf: "rep_wf r \<Longrightarrow> backingDiskName r = ''''"
proof -
  assume "rep_wf r"
  then have b: "backing_ok r" by (rule rep_wfD)
  show ?thesis
  proof (cases "r_BackingFile r")
    case None
    then show ?thesis using b by (cases "r_activeDiskData r") (auto simp: backing_ok_def backingDiskName_def)
  next
    case (Some x)
    then obtain p0 p where "take 2 (r_activeDiskData r) = [Some p0, Some p]" "d_Name (at r p0) = ''''"
      using b by (auto simp: backing_ok_def)
    then show ?thesis by (cases "r_activeDiskData r") (auto simp: backingDiskName_def)
  qed
qed

lemma count_usage_wf:
  assumes "rep_wf r"
  shows "getSnapshotCountUsage r = int (card {n. \<exists>d. disk_of r n = Some d \<and> \<not> d_Removed d \<and> n \<noteq> i_Head (r_info r)})"
proof -
  note t = tree_okD [OF rep_wfD(1) [OF assms]]
  let ?P = "\<lambda>(n, p). counted r (at r p)"
  have "distinct (map fst (filter ?P (r_diskData r)))" using t(1) by (simp add: distinct_map_filter)
  then have "length (filter ?P (r_diskData r)) = card (fst ` set (filter ?P (r_diskData r)))"
    by (metis distinct_card length_map list.set_map)
  also have "fst ` set (filter ?P (r_diskData r)) = {n. \<exists>d. disk_of r n = Some d \<and> \<not> d_Removed d \<and> n \<noteq> i_Head (r_info r)}"
  proof (intro equalityI subsetI)
    fix n assume "n \<in> fst ` set (filter ?P (r_diskData r))"
    then obtain p where p: "(n, p) \<in> set (r_diskData r)" "counted r (at r p)" by auto
    then have m: "map_of (r_diskData r) n = Some p" using t(1) by simp
    then show "n \<in> {n. \<exists>d. disk_of r n = Some d \<and> \<not> d_Removed d \<and> n \<noteq> i_Head (r_info r)}"
      using p(2) t(2) [OF m] by (auto simp: counted_def disk_of_def)
  next
    fix n assume "n \<in> {n. \<exists>d. disk_of r n = Some d \<and> \<not> d_Removed d \<and> n \<noteq> i_Head (r_info r)}"
    then obtain p where m: "map_of (r_diskData r) n = Some p" "\<not> d_Removed (at r p)" "n \<noteq> i_Head (r_info r)"
      by (auto simp: disk_of_def)
    then have "counted r (at r p)" using t(2) [OF m(1)] backingDiskName_wf [OF assms] by (simp add: counted_def)
    then show "n \<in> fst ` set (filter ?P (r_diskData r))" using map_of_SomeD [OF m(1)] by force
  qed
  finally show ?thesis by (simp add: getSnapshotCountUsage_def)
qed

theorem snapshotted_count:
  assumes wf: "rep_wf r" and s: "snapshotted r nh snap uc cr lb n f r'" and fr: "fresh_names r nh snap"
    and hd: "\<not> IsHeadDisk snap" "nh \<noteq> ''''"
  shows "getSnapshotCountUsage r' = getSnapshotCountUsage r + (if d_Removed (at r (last (live r))) then 0 else 1)"
proof -
  let ?A = "{n. \<exists>d. disk_of r n = Some d \<and> \<not> d_Removed d \<and> n \<noteq> i_Head (r_info r)}"
  have wf': "rep_wf r'" by (rule snapshotted_wf [OF wf s fr hd])
  have hd': "i_Head (r_info r') = nh" using s by (simp add: snapshotted_def Let_def)
  have nho: "nh \<noteq> i_Head (r_info r)" "snap \<noteq> i_Head (r_info r)" "nh \<noteq> snap" "disk_of r nh = None" "disk_of r snap = None"
    using fr head_ptr(1) [OF wf] by (auto simp: fresh_names_def disk_of_def)
  have "{n. \<exists>d. disk_of r' n = Some d \<and> \<not> d_Removed d \<and> n \<noteq> nh} = (if d_Removed (at r (last (live r))) then ?A else insert snap ?A)"
    unfolding snapshotted_disk_of [OF wf s fr] using nho by auto
  moreover have "snap \<notin> ?A" using nho(5) by simp
  moreover have "finite ?A"
  proof (rule finite_subset)
    show "?A \<subseteq> dom (map_of (r_diskData r))" by (auto simp: disk_of_def)
  qed (rule finite_dom_map_of)
  ultimately show ?thesis using count_usage_wf [OF wf] count_usage_wf [OF wf'] hd' by auto
qed

end
