(* ===== verification/Replica_Data.thy ===== *)
theory Replica_Data
  imports Replica_Create Diff_Disk_Thms
begin

text \<open>
  The data of the volume across a snapshot: the new head is an empty file of the size of the volume,
  so the volume reads as before.
\<close>

section \<open>The contract of the data files\<close>

text \<open>
  Creating a data file: opening an inode that is not in use and setting its size gives a new open handle to a file
  without data, and leaves every other file alone.
\<close>

locale data_store = disk_layer "dops E" V for E :: "('h, 's) fs_env" and V +
  fixes unused :: "nat \<Rightarrow> 's \<Rightarrow> bool"
  assumes create_law: "unused i s \<Longrightarrow> v_bs V dvd n \<Longrightarrow> open_inode E i True s = (h, s1) \<Longrightarrow> s2 = truncate_inode E i (int n) s1 \<Longrightarrow>
      \<not> v_live V s h \<and> v_live V s2 h \<and> v_size V s2 h = n \<and> (\<forall>b. \<not> v_alloc V s2 h b) \<and>
      (\<forall>h'. h' \<noteq> h \<longrightarrow> v_live V s2 h' = v_live V s h' \<and> v_size V s2 h' = v_size V s h' \<and>
         v_data V s2 h' = v_data V s h' \<and> v_alloc V s2 h' = v_alloc V s h')"
begin

text \<open>An empty file on top of a chain of files.\<close>

lemma empty_top:
  assumes wf: "dd_wf V s v" and u: "unused i s" and o: "open_inode E i True s = (h, s1)" "s2 = truncate_inode E i (int (vol_size V v)) s1"
    and room: "length (files v) < 256" "files v ! 0 = None"
  defines "v2 \<equiv> v\<lparr>files := files v @ [Some h]\<rparr>"
  shows "dd_wf V s2 v2" "p < vol_size V v \<Longrightarrow> vol_byte V s2 v2 p = vol_byte V s v p" "coherent V s v \<Longrightarrow> coherent V s2 v2"
proof -
  have d: "v_bs V dvd vol_size V v" by simp
  note law = create_law [OF u d o]
  have old: "hh \<noteq> h" if "1 \<le> k" "k < length (files v)" "files v ! k = Some hh" for k hh
  proof -
    have "\<exists>hh. files v ! k = Some hh \<and> v_live V s hh" using wf that(1,2) unfolding dd_wf_def by simp
    then show ?thesis using that(3) law by auto
  qed
  have nth: "files v2 ! k = files v ! k" if "k < length (files v)" for k using that by (simp add: v2_def nth_append)
  have len: "length (files v2) = Suc (length (files v))" "location v2 = location v" by (simp_all add: v2_def)
  have two: "2 \<le> length (files v)" using wf by (simp add: dd_wf_def)
  have has: "has_sector V s2 (files v2) sec k = has_sector V s (files v) sec k" if "1 \<le> k" "k < length (files v)" for sec k
    using that law old nth by (auto simp: has_sector_def split: option.split)
  have top: "\<not> has_sector V s2 (files v2) sec (length (files v))" for sec
    using law by (simp add: has_sector_def v2_def nth_append)
  have lay: "layer_of V s2 (files v2) sec = layer_of V s (files v) sec" for sec
  proof -
    obtain m where m: "length (files v) = Suc m" using two by (cases "length (files v)") auto
    have "topmost V s2 (files v2) sec (Suc m) = topmost V s2 (files v2) sec m" using top [of sec] m by simp
    also have "\<dots> = topmost V s (files v) sec m" using has m by (intro topmost_cong) auto
    finally show ?thesis by (simp add: layer_of_def len m)
  qed
  have hold: "holder V s2 v2 sec = holder V s v sec" for sec by (simp add: holder_def len lay)
  have sz: "layer_size V s2 (files v2) k = layer_size V s (files v) k" if "1 \<le> k" "k < length (files v)" for k
    using that law old nth by (auto simp: layer_size_def split: option.split)
  have "\<exists>h. files v2 ! k = Some h \<and> v_live V s2 h" if k: "k \<in> {1 ..< length (files v2)}" for k
  proof (cases "k < length (files v)")
    case True
    then have k': "k \<in> {1 ..< length (files v)}" using k by simp
    have "\<exists>hh. files v ! k = Some hh \<and> v_live V s hh" using wf k' unfolding dd_wf_def by simp
    then obtain hh where hh: "files v ! k = Some hh" "v_live V s hh" by blast
    moreover have "hh \<noteq> h" using old [of k hh] hh(1) k' by simp
    ultimately show ?thesis using True law nth by simp
  next
    case False
    then have "files v2 ! k = Some h" using k len by (simp add: v2_def nth_append)
    then show ?thesis using law by simp
  qed
  moreover have "distinct (files v2)"
  proof -
    have "Some h \<notin> set (files v)"
    proof
      assume "Some h \<in> set (files v)"
      then obtain k where k: "k < length (files v)" "files v ! k = Some h" by (metis in_set_conv_nth)
      have "k \<noteq> 0" using k(2) room(2) by (cases k) auto
      then show False using old [of k h] k by simp
    qed
    then show ?thesis using wf by (simp add: v2_def dd_wf_def)
  qed
  moreover have "layer_size V s2 (files v2) (length (files v2) - 1) = vol_size V v"
    using law by (simp add: layer_size_def len) (simp add: v2_def nth_append)
  moreover have "\<forall>l \<in> set (location v2). unat l < length (files v2)" using wf unfolding dd_wf_def by (auto simp: len)
  ultimately show "dd_wf V s2 v2" using wf room two unfolding dd_wf_def by (simp add: len) (simp add: v2_def)
  show "vol_byte V s2 v2 p = vol_byte V s v p" if p: "p < vol_size V v"
  proof -
    have "p div v_bs V < length (location v)" using p by (rule less_mult_imp_div_less)
    then have k: "1 \<le> holder V s v (p div v_bs V)" "holder V s v (p div v_bs V) < length (files v)" using holder_bounds [OF wf] by auto
    have "\<exists>hh. files v ! holder V s v (p div v_bs V) = Some hh \<and> v_live V s hh" using wf k unfolding dd_wf_def by simp
    then obtain hh where hh: "files v ! holder V s v (p div v_bs V) = Some hh" by blast
    then show ?thesis using old [OF k hh] nth [OF k(2)] law by (simp add: vol_byte_def hold layer_byte_def)
  qed
  show "coherent V s2 v2" if "coherent V s v" using that by (simp add: coherent_def len lay)
qed

end

section \<open>Calls that leave the data alone\<close>

lemma path_abs [simp]: "diskPath dir (diskPath dir n) = diskPath dir n"
  by (simp add: diskPath_def path_Join_def IsAbs_def HasPrefix_iff)

lemma data_calls:
  "fs_data (snd (call E fs)) = fs_data fs" "fs_data (snd (os_Stat E p fs)) = fs_data fs" "fs_data (snd (os_RemoveAll E p fs)) = fs_data fs"
  "fs_data (snd (os_Link E p q fs)) = fs_data fs" "fs_data (snd (os_Rename E p q fs)) = fs_data fs" "fs_data (snd (os_Create E p fs)) = fs_data fs"
  "fs_data (snd (json_Encode E p c fs)) = fs_data fs"
  by (simp_all add: call_def os_Stat_def os_RemoveAll_def os_Link_def os_Rename_def os_Create_def json_Encode_def split: option.split)

lemma data_eqs:
  "call E fs = (e, fs') \<Longrightarrow> fs_data fs' = fs_data fs" "os_RemoveAll E p fs = (e, fs') \<Longrightarrow> fs_data fs' = fs_data fs"
  "os_Link E p q fs = (e, fs') \<Longrightarrow> fs_data fs' = fs_data fs" "os_Rename E p q fs = (e, fs') \<Longrightarrow> fs_data fs' = fs_data fs"
  "os_Create E p fs = (e, fs') \<Longrightarrow> fs_data fs' = fs_data fs" "json_Encode E p c fs = (e, fs') \<Longrightarrow> fs_data fs' = fs_data fs"
  using data_calls by (metis snd_conv)+

lemma files_calls:
  "fs_files (snd (call E fs)) = fs_files fs" "fs_files (snd (os_Stat E p fs)) = fs_files fs"
  "fs_next (snd (call E fs)) = fs_next fs" "fs_next (snd (os_Stat E p fs)) = fs_next fs"
  by (simp_all add: call_def os_Stat_def split: option.split)

lemma encode_steps_data: "encode_steps E tmp f c fs = (e, fs') \<Longrightarrow> fs_data fs' = fs_data fs"
  by (auto simp: encode_steps_def split: prod.splits option.splits dest!: data_eqs)

lemma encodeToFile_data: "encodeToFile E r c f fs = (rb, err, fs') \<Longrightarrow> fs_data fs' = fs_data fs"
  by (auto simp: encodeToFile_def Let_def split: if_splits prod.splits option.splits dest!: data_eqs encode_steps_data)

lemma rmDisk_data: "rmDisk E r n fs = (err, fs') \<Longrightarrow> fs_data fs' = fs_data fs"
  by (auto simp: rmDisk_def Let_def split: if_splits prod.splits dest!: data_eqs)

lemma clean_up_data: "clean_up E w p fs = (err, fs') \<Longrightarrow> fs_data fs' = fs_data fs"
  by (auto simp: clean_up_def split: prod.splits option.splits dest!: data_eqs)

lemma linkDisk_data: "linkDisk E r old new fs = (rb, None, fs') \<Longrightarrow> fs_data fs' = fs_data fs"
proof (cases "old = ''''")
  case False
  assume a: "linkDisk E r old new fs = (rb, None, fs')"
  obtain e1 fs1 where s1: "clean_up E ''metadata file'' (path_of r (meta_name new)) fs = (e1, fs1)" by fastforce
  obtain e2 fs2 where s2: "clean_up E ''checksum file'' (path_of r (new @ DiskChecksumSuffix)) fs1 = (e2, fs2)" by fastforce
  obtain e3 fs3 where s3: "clean_up E ''file'' (path_of r new) fs2 = (e3, fs3)" by fastforce
  obtain e4 fs4 where s4: "os_Link E (path_of r old) (path_of r new) fs3 = (e4, fs4)" by fastforce
  obtain e5 fs5 where s5: "os_Link E (path_of r (meta_name old)) (path_of r (meta_name new)) fs4 = (e5, fs5)" by fastforce
  have "fs' = fs5" using a False s1 s2 s3 s4 s5
    by (auto simp: linkDisk_def link_failed_def GenerateFunctionErrorWithRollback_def Let_def split: option.splits prod.splits)
  then show "fs_data fs' = fs_data fs" using clean_up_data [OF s1] clean_up_data [OF s2] clean_up_data [OF s3] data_eqs(3) [OF s4] data_eqs(3) [OF s5] by simp
qed (simp add: linkDisk_def)

section \<open>The file of the new head\<close>

lemma openFile_new:
  assumes "rp_openFile E r p True fs = (Inr h, fs')" "entry fs (path_of r p) = None"
  shows "open_inode E (fs_next fs) True (fs_data fs) = (h, fs_data fs')" "entry fs' (path_of r p) = Some (Data (fs_next fs))"
proof -
  obtain e fs1 where c1: "call E fs = (e, fs1)" by fastforce
  have k1: "fs_data fs1 = fs_data fs" "fs_files fs1 = fs_files fs" "fs_next fs1 = fs_next fs" using c1 by (auto simp: call_def)
  obtain e2 where ex: "open_existing E (path_of r p) True fs = (Inl e2, fs1)" using c1 assms(2) by (cases e) (auto simp: open_existing_def)
  then have "open_create E (path_of r p) True fs1 = (Inr h, fs')" using assms(1) by (simp add: rp_openFile_def NewDirectFileIoProcessor_def)
  then show "open_inode E (fs_next fs) True (fs_data fs) = (h, fs_data fs')" "entry fs' (path_of r p) = Some (Data (fs_next fs))"
    using assms(2) k1 by (auto simp: open_create_def call_def Let_def update_conv' split: option.splits prod.splits)
qed

lemma createNewHead_data:
  assumes run: "createNewHead E r old parent created n fs = (Inr (h, nd, rb), fs')" and nh: "nextFile old = Inr nh" and new: "entry fs (path_of r nh) = None"
  shows "\<exists>s1. open_inode E (fs_next fs) True (fs_data fs) = (h, s1) \<and> fs_data fs' = truncate_inode E (fs_next fs) n s1"
proof -
  obtain e1 fs1 where s1: "os_Stat E (path_of r nh) fs = (e1, fs1)" by fastforce
  obtain e2 fs2 where s2: "rp_openFile E r (path_of r nh) True fs1 = (e2, fs2)" by fastforce
  obtain e3 fs3 where s3: "sys_Truncate E (path_of r nh) n fs2 = (e3, fs3)" by fastforce
  obtain sub e4 fs4 where s4: "encodeToFile E r (JDisk (new_head_disk nh parent created)) (meta_name nh) fs3 = (sub, e4, fs4)"
    using prod_cases3 by blast
  have ok: "e2 = Inr h" "e3 = None" "fs' = fs4"
    using run nh s1 s2 s3 s4
    by (auto simp: createNewHead_def head_failed_def new_head_disk_def [symmetric] Let_def split: option.splits sum.splits prod.splits)
  have k: "fs_data fs1 = fs_data fs" "fs_files fs1 = fs_files fs" "fs_next fs1 = fs_next fs"
    using data_calls(2) [of E "path_of r nh" fs] files_calls(2) [of E "path_of r nh" fs] files_calls(4) [of E "path_of r nh" fs] s1 by simp_all
  note opn = openFile_new [OF s2 [unfolded ok(1)]]
  have op: "open_inode E (fs_next fs) True (fs_data fs) = (h, fs_data fs2)" "entry fs2 (path_of r nh) = Some (Data (fs_next fs))"
    using opn new k by simp_all
  have "fs_data fs3 = truncate_inode E (fs_next fs) n (fs_data fs2)"
    using s3 ok(2) op(2) by (auto simp: sys_Truncate_def call_def split: option.splits)
  then show ?thesis using op(1) ok(3) encodeToFile_data [OF s4] by auto
qed

lemma create_steps_data:
  assumes run: "create_steps E r name snap uc cr lb n fs = Some (None, r', fs')" and nh: "nextFile (i_Head (r_info r)) = Inr nh"
    and new: "entry fs (path_of r nh) = None" and files: "files (r_volume r') = files (r_volume r) @ [Some f]" and snap: "snap \<noteq> ''''"
  shows "\<exists>s1. open_inode E (fs_next fs) True (fs_data fs) = (f, s1) \<and> fs_data fs' = truncate_inode E (fs_next fs) n s1"
proof -
  obtain res fs1 where c1: "createNewHead E r (i_Head (r_info r)) snap cr n fs = (res, fs1)" by fastforce
  have nofail: "createDisk_failed a b c d e \<noteq> (None, r', fs')" for a b c d e using createDisk_failed_result [of a b c d e] by auto
  obtain h nd rb where res: "res = Inr (h, nd, rb)" using run c1 nofail by (cases res) (auto simp: create_steps_def)
  obtain rb2 e2 fs2 where l: "linkDisk E r (i_Head (r_info r)) snap fs1 = (rb2, e2, fs2)" using prod_cases3 by blast
  have e2: "e2 = None" using run c1 res l nofail by (cases e2) (auto simp: create_steps_def)
  let ?info = "(r_info r)\<lparr>i_Head := d_Name nd, i_Dirty := True, i_Parent := snap, i_Size := n\<rparr>"
  obtain rb3 e3 fs3 where m: "encodeToFile E r (JInfo ?info) volumeMetaData fs2 = (rb3, e3, fs3)" using prod_cases3 by blast
  have e3: "e3 = None" using run c1 res l m e2 nofail by (cases e3) (auto simp: create_steps_def Let_def)
  have run: "(do {
      x \<leftarrow> add_snapshot (i_Head (r_info r)) (d_Name nd) snap uc cr lb
         (r\<lparr>r_heap := r_heap r @ [nd], r_diskData := AList.update (d_Name nd) (length (r_heap r)) (r_diskData r)\<rparr>);
      sd \<leftarrow> disk_of x snap;
      (case encodeToFile E x (JDisk sd) (meta_name snap) fs3 of
         (_, Some e, fs) \<Rightarrow> Some (createDisk_failed name ([Some rb, rb2, Some (meta_rollback E rb3)] @ [Some (maps_rollback (d_Name nd) snap)]) e x fs)
       | (_, None, fs) \<Rightarrow> do { y \<leftarrow> updateChildDisk (i_Head (r_info r)) snap x; z \<leftarrow> rename_last snap y;
            Some (finish_create E (i_Head (r_info r)) ?info h (length (r_heap r)) z fs) })
    }) = Some (None, r', fs')"
    using run c1 res l m e2 e3 snap by (simp add: create_steps_def Let_def alloc_def)
  then obtain x sd rb4 e4 fs4 where x: "add_snapshot (i_Head (r_info r)) (d_Name nd) snap uc cr lb
         (r\<lparr>r_heap := r_heap r @ [nd], r_diskData := AList.update (d_Name nd) (length (r_heap r)) (r_diskData r)\<rparr>) = Some x"
    "disk_of x snap = Some sd" "encodeToFile E x (JDisk sd) (meta_name snap) fs3 = (rb4, e4, fs4)"
    by (auto simp: bind_eq_Some_conv) (metis prod_cases3)
  then have "e4 = None" using run nofail by (cases e4) auto
  then obtain y z where yz: "updateChildDisk (i_Head (r_info r)) snap x = Some y" "rename_last snap y = Some z"
    "finish_create E (i_Head (r_info r)) ?info h (length (r_heap r)) z fs4 = (None, r', fs')"
    using run x by (auto simp: bind_eq_Some_conv)
  have "r_volume x = r_volume r" using x(1) by (auto simp: add_snapshot_def poke_def addChildDisk_def Let_def bind_eq_Some_conv)
  moreover have "r_volume y = r_volume x" using yz(1) by (auto simp: updateChildDisk_def addChildDisk_def rmChildDisk_def Let_def bind_eq_Some_conv split: if_splits option.splits)
  moreover have "r_volume z = r_volume y" using yz(2) by (auto simp: rename_last_def poke_def bind_eq_Some_conv)
  ultimately have "files (r_volume r') = files (r_volume r) @ [Some h]" "fs_data fs' = fs_data fs4"
    using yz(3) by (auto simp: finish_create_def Let_def split: prod.splits dest: rmDisk_data)
  then have "f = h" "fs_data fs' = fs_data fs1"
    using files encodeToFile_data [OF x(3)] encodeToFile_data [OF m] linkDisk_data [OF l [unfolded e2]] by simp_all
  then show ?thesis using createNewHead_data [OF c1 [unfolded res] nh new] by simp
qed

section \<open>The content of the volume\<close>

text \<open>What a snapshot relies on: the head is not a file yet, its inode is unused, and there is an index for it.\<close>

definition snap_ready :: "('h, 's) layer_view \<Rightarrow> (nat \<Rightarrow> 's \<Rightarrow> bool) \<Rightarrow> 'h replica \<Rightarrow> 's fsys \<Rightarrow> bool" where
  "snap_ready V unused r fs \<longleftrightarrow> rep_wf r \<and> dd_wf V (fs_data fs) (r_volume r) \<and> unused (fs_next fs) (fs_data fs) \<and>
     i_Size (r_info r) = int (vol_size V (r_volume r)) \<and> length (files (r_volume r)) < 256 \<and> files (r_volume r) ! 0 = None \<and>
     (case nextFile (i_Head (r_info r)) of Inr nh \<Rightarrow> entry fs (path_of r nh) = None | Inl e \<Rightarrow> True)"

context data_store begin

lemma snapshot_content:
  assumes rdy: "snap_ready V unused r fs" and run: "rp_Snapshot E r name uc cr lb fs = Some (None, r', fs')"
  shows "dd_wf V (fs_data fs') (r_volume r') \<and> vol_size V (r_volume r') = vol_size V (r_volume r) \<and>
    (\<forall>p < vol_size V (r_volume r). vol_byte V (fs_data fs') (r_volume r') p = vol_byte V (fs_data fs) (r_volume r) p) \<and>
    (coherent V (fs_data fs) (r_volume r) \<longrightarrow> coherent V (fs_data fs') (r_volume r'))"
proof -
  let ?s = "GenerateSnapshotDiskName name" and ?n = "i_Size (r_info r)"
  have wf: "rep_wf r" and sz: "?n = int (vol_size V (r_volume r))" using rdy by (simp_all add: snap_ready_def)
  have run: "createDisk E r name uc cr lb ?n fs = Some (None, r', fs')" using run by (simp add: rp_Snapshot_def)
  from createDisk_outcome [OF wf, of E name uc cr lb ?n fs] obtain nh f where
    nh: "nextFile (i_Head (r_info r)) = Inr nh" and s: "snapshotted r nh ?s uc cr lb ?n f r'" unfolding run by auto
  have v: "r_volume r' = (r_volume r)\<lparr>files := files (r_volume r) @ [Some f]\<rparr>" using s by (simp add: snapshotted_def Let_def)
  have sne: "?s \<noteq> ''''" by (simp add: GenerateSnapshotDiskName_def SnapshotDiskPrefix_def)
  have "create_steps E r name ?s uc cr lb ?n fs = Some (None, r', fs')"
    using run head_ptr(4) [OF wf] by (auto simp: createDisk_def Let_def split: if_splits)
  from create_steps_data [OF this nh _ _ sne] obtain s1 where
    op: "open_inode E (fs_next fs) True (fs_data fs) = (f, s1)" "fs_data fs' = truncate_inode E (fs_next fs) (int (vol_size V (r_volume r))) s1"
    using rdy nh v sz by (auto simp: snap_ready_def)
  have pre: "dd_wf V (fs_data fs) (r_volume r)" "unused (fs_next fs) (fs_data fs)" "length (files (r_volume r)) < 256" "files (r_volume r) ! 0 = None"
    using rdy by (simp_all add: snap_ready_def)
  show ?thesis
    using empty_top [OF pre(1,2) op pre(3,4)] by (simp add: v)
qed

end

section \<open>Sparse files in memory\<close>

text \<open>A directory over the sparse files of theory Disk_Layer; an inode is named by its number.\<close>

definition mem_open :: "nat \<Rightarrow> nat \<Rightarrow> bool \<Rightarrow> sstore \<Rightarrow> string \<times> sstore" where
  "mem_open bs i trunc s = (showNat i, s(showNat i \<mapsto>
     (case s (showNat i) of None \<Rightarrow> sf_hole bs 0 | Some f \<Rightarrow> if trunc then sf_hole bs 0 else f\<lparr>sf_open := True\<rparr>)))"

definition mem_truncate :: "nat \<Rightarrow> nat \<Rightarrow> int \<Rightarrow> sstore \<Rightarrow> sstore" where
  "mem_truncate bs i n s = s(showNat i \<mapsto> sf_hole bs (nat n div bs))"

definition mem_env :: "nat \<Rightarrow> (nat \<Rightarrow> error option) \<Rightarrow> (string, sstore) fs_env" where
  "mem_env bs f = \<lparr>faults = f, dops = sf_ops bs, open_inode = mem_open bs, truncate_inode = mem_truncate bs,
     inode_size = (\<lambda>i. sf_actual_size bs (showNat i)), inode_mtime = (\<lambda>i s. 0), meta_stat = (0, 0), extent_errno = None, rnow = ''now''\<rparr>"

definition mem_unused :: "nat \<Rightarrow> sstore \<Rightarrow> bool" where
  "mem_unused i s \<longleftrightarrow> s (showNat i) = None"

lemma data_store_mem: "0 < bs \<Longrightarrow> data_store (mem_env bs f) (sf_view bs) mem_unused"
proof (intro data_store.intro data_store_axioms.intro)
  assume bs: "0 < bs"
  show "disk_layer (dops (mem_env bs f)) (sf_view bs)" using disk_layer_sf [OF bs] by (simp add: mem_env_def)
  fix i s n h s1 s2
  assume a: "mem_unused i s" "v_bs (sf_view bs) dvd n" "open_inode (mem_env bs f) i True s = (h, s1)" "s2 = truncate_inode (mem_env bs f) i (int n) s1"
  have h: "h = showNat i" "s2 = s(showNat i \<mapsto> sf_hole bs (n div bs))" using a by (auto simp: mem_env_def mem_open_def mem_truncate_def)
  have "n div bs * bs = n" using a(2) by (simp add: sf_view_def)
  then show "\<not> v_live (sf_view bs) s h \<and> v_live (sf_view bs) s2 h \<and> v_size (sf_view bs) s2 h = n \<and> (\<forall>b. \<not> v_alloc (sf_view bs) s2 h b) \<and>
      (\<forall>h'. h' \<noteq> h \<longrightarrow> v_live (sf_view bs) s2 h' = v_live (sf_view bs) s h' \<and> v_size (sf_view bs) s2 h' = v_size (sf_view bs) s h' \<and>
         v_data (sf_view bs) s2 h' = v_data (sf_view bs) s h' \<and> v_alloc (sf_view bs) s2 h' = v_alloc (sf_view bs) s h')"
    using a(1) bs sf_wf_hole [OF bs, of "n div bs"] by (auto simp: h mem_unused_def sf_view_def) (simp_all add: sf_hole_def)
qed

interpretation mem: data_store "mem_env 2 f" "sf_view 2" mem_unused for f
  by (rule data_store_mem) simp

section \<open>An executable check of the invariant\<close>

text \<open>The disks listed with parents first; every condition of rep_wf is tested on the entries of the maps.\<close>

definition tree_check :: "string list \<Rightarrow> 'h replica \<Rightarrow> bool" where
  "tree_check order r \<longleftrightarrow> distinct (map fst (r_diskData r)) \<and>
     list_all (\<lambda>(n, p). p < length (r_heap r) \<and> d_Name (at r p) = n \<and> n \<noteq> '''' \<and>
       (d_Parent (at r p) = '''' \<or> map_of (r_diskData r) (d_Parent (at r p)) \<noteq> None \<and>
          length (takeWhile ((\<noteq>) (d_Parent (at r p))) order) < length (takeWhile ((\<noteq>) n) order))) (r_diskData r)"

definition kids_check :: "'h replica \<Rightarrow> bool" where
  "kids_check r \<longleftrightarrow>
     list_all (\<lambda>(n, cs). n = '''' \<or> cs \<noteq> [] \<and> distinct cs \<and> list_all (\<lambda>c. map_option d_Parent (disk_of r c) = Some n) cs) (r_diskChildrenMap r) \<and>
     list_all (\<lambda>(c, p). d_Parent (at r p) = '''' \<or> c \<in> set (kids r (d_Parent (at r p)))) (r_diskData r)"

definition head_check :: "'h replica \<Rightarrow> bool" where
  "head_check r \<longleftrightarrow> list_all (\<lambda>(n, p). (n = i_Head (r_info r) \<or> \<not> IsHeadDisk n) \<and> d_Parent (at r p) \<noteq> i_Head (r_info r)) (r_diskData r) \<and>
     map_option d_Parent (disk_of r (i_Head (r_info r))) = Some (i_Parent (r_info r)) \<and>
     length (files (r_volume r)) = length (r_activeDiskData r) \<and> None \<notin> set (drop 1 (files (r_volume r)))"

definition live_check :: "'h replica \<Rightarrow> bool" where
  "live_check r \<longleftrightarrow> r_BackingFile r = None \<and> r_activeDiskData r \<noteq> [] \<and> hd (r_activeDiskData r) = None \<and>
     None \<notin> set (drop 1 (r_activeDiskData r)) \<and> live r \<noteq> [] \<and> distinct (live r) \<and>
     list_all (\<lambda>p. map_of (r_diskData r) (d_Name (at r p)) = Some p) (live r) \<and> linked r '''' (live r) \<and>
     last (live_names r) = i_Head (r_info r)"

definition rep_check :: "string list \<Rightarrow> 'h replica \<Rightarrow> bool" where
  "rep_check order r \<longleftrightarrow> tree_check order r \<and> kids_check r \<and> live_check r \<and> head_check r"

lemma tree_check_ok: "tree_check order r \<Longrightarrow> tree_ok r"
proof -
  assume c: "tree_check order r"
  let ?rank = "\<lambda>n. length (takeWhile ((\<noteq>) n) order)"
  have e: "p < length (r_heap r) \<and> d_Name (at r p) = n \<and> n \<noteq> '''' \<and>
       (d_Parent (at r p) = '''' \<or> map_of (r_diskData r) (d_Parent (at r p)) \<noteq> None \<and> ?rank (d_Parent (at r p)) < ?rank n)"
    if "map_of (r_diskData r) n = Some p" for n p
    using c map_of_SomeD [OF that] unfolding tree_check_def list_all_iff by blast
  have d: "d_Parent d = '''' \<or> map_of (r_diskData r) (d_Parent d) \<noteq> None \<and> ?rank (d_Parent d) < ?rank n" if "disk_of r n = Some d" for n d
  proof -
    from that obtain p where p: "map_of (r_diskData r) n = Some p" "at r p = d" unfolding disk_of_def map_option_eq_Some by blast
    show ?thesis using e [OF p(1)] unfolding p(2) by blast
  qed
  have "distinct (map fst (r_diskData r))" using c by (simp add: tree_check_def)
  then show ?thesis unfolding tree_ok_def
  proof (intro conjI exI [where x = ?rank] allI impI)
    fix n p assume "map_of (r_diskData r) n = Some p"
    from e [OF this] show "p < length (r_heap r)" "d_Name (at r p) = n" "n \<noteq> ''''" by blast+
  next
    fix n dk assume "disk_of r n = Some dk"
    from d [OF this] show "d_Parent dk = '''' \<or> map_of (r_diskData r) (d_Parent dk) \<noteq> None" by blast
  next
    fix n dk assume "disk_of r n = Some dk" "d_Parent dk \<noteq> ''''"
    with d [OF this(1)] show "?rank (d_Parent dk) < ?rank n" by blast
  qed
qed

lemma kids_check_ok: "distinct (map fst (r_diskData r)) \<Longrightarrow> kids_check r \<Longrightarrow> kids_ok r"
proof -
  assume c: "kids_check r" and dis: "distinct (map fst (r_diskData r))"
  have cs: "cs \<noteq> [] \<and> distinct cs \<and> (\<forall>c \<in> set cs. \<exists>d. disk_of r c = Some d \<and> d_Parent d = n)"
    if "map_of (r_diskChildrenMap r) n = Some cs" "n \<noteq> ''''" for n cs
  proof -
    have "cs \<noteq> [] \<and> distinct cs \<and> (\<forall>c \<in> set cs. map_option d_Parent (disk_of r c) = Some n)"
      using c map_of_SomeD [OF that(1)] that(2) unfolding kids_check_def list_all_iff by blast
    then show ?thesis by auto
  qed
  have bk: "c \<in> set (kids r (d_Parent d))" if "disk_of r c = Some d" "d_Parent d \<noteq> ''''" for c d
  proof -
    from that(1) obtain p where p: "map_of (r_diskData r) c = Some p" "d = at r p" unfolding disk_of_def map_option_eq_Some by blast
    then show ?thesis using c map_of_SomeD [OF p(1)] that(2) unfolding kids_check_def list_all_iff by blast
  qed
  show ?thesis
    unfolding kids_ok_def
  proof (intro conjI allI impI)
    fix n :: string assume n: "n \<noteq> ''''"
    show "distinct (kids r n)"
    proof (cases "map_of (r_diskChildrenMap r) n")
      case (Some xs)
      then show ?thesis using cs [OF Some n] by (simp add: kids_def)
    qed (simp add: kids_def)
    have "\<exists>d. disk_of r c = Some d \<and> d_Parent d = n" if "c \<in> set (kids r n)" for c
    proof (cases "map_of (r_diskChildrenMap r) n")
      case (Some xs)
      then show ?thesis using cs [OF Some n] that by (simp add: kids_def)
    qed (use that in \<open>simp add: kids_def\<close>)
    moreover have "c \<in> set (kids r n)" if "disk_of r c = Some d" "d_Parent d = n" for c d using bk [OF that(1)] that(2) n by simp
    ultimately show "set (kids r n) = {c. \<exists>d. disk_of r c = Some d \<and> d_Parent d = n}" by blast
  qed (use cs in blast)
qed

lemma head_check_ok: "head_check r \<Longrightarrow> head_ok r"
proof -
  assume c: "head_check r"
  have e: "(n = i_Head (r_info r) \<or> \<not> IsHeadDisk n) \<and> d_Parent (at r p) \<noteq> i_Head (r_info r)" if "map_of (r_diskData r) n = Some p" for n p
    using c map_of_SomeD [OF that] unfolding head_check_def list_all_iff by blast
  have "d_Parent d \<noteq> i_Head (r_info r)" if "disk_of r n = Some d" for n d using that e by (auto simp: disk_of_def)
  then show ?thesis using c e unfolding head_ok_def head_check_def by (intro conjI) blast+
qed

theorem rep_check_wf: "rep_check order r \<Longrightarrow> rep_wf r"
proof -
  assume c: "rep_check order r"
  then have lc: "live_check r" by (simp add: rep_check_def)
  then have b: "r_BackingFile r = None" "base r = 1" by (simp_all add: live_check_def base_def)
  have "live_ok r" using lc unfolding live_ok_def live_check_def b(2) list_all_iff by (auto simp: Suc_le_eq)
  moreover have "backing_ok r" using lc by (simp add: backing_ok_def live_check_def)
  moreover have tc: "tree_check order r" "kids_check r" "head_check r" using c by (simp_all add: rep_check_def)
  moreover have "kids_ok r" using kids_check_ok [of r] tc by (simp add: tree_check_def)
  ultimately show ?thesis using tree_check_ok [OF tc(1)] head_check_ok [OF tc(3)] by (simp add: rep_wf_def)
qed

text \<open>The sizes that util.GetFileActualSize reports play no role in the contract of a layer.\<close>

lemma data_ops_layer: "disk_layer (dops E) V \<Longrightarrow> disk_layer (data_ops E fs) V"
  by (simp add: disk_layer_def data_ops_def)

section \<open>A small replica\<close>

text \<open>
  The volume of theory Diff_Disk_Thms as a replica: a snapshot, its child that is marked as
  removed, and the head.
\<close>

definition ex_disk :: "string \<Rightarrow> string \<Rightarrow> bool \<Rightarrow> disk" where
  "ex_disk n p rm = zero_disk\<lparr>d_Name := n, d_Parent := p, d_Removed := rm\<rparr>"

definition ex_rep :: "string replica" where
  "ex_rep = \<lparr>r_volume = \<lparr>location = [1, 0, 0, 0], files = [None, Some ''base'', Some ''new'', Some ''head''], sectorSize = 2, dd_size = 8\<rparr>,
     r_dir = ''/r'', r_info = zero_Info\<lparr>i_Size := 8, i_SectorSize := 2, i_Head := ''volume-head-002.img'', i_Parent := ''volume-snap-b.img''\<rparr>,
     r_BackingFile = None,
     r_heap = [ex_disk ''volume-snap-a.img'' '''' False, ex_disk ''volume-snap-b.img'' ''volume-snap-a.img'' True,
       ex_disk ''volume-head-002.img'' ''volume-snap-b.img'' False],
     r_diskData = [(''volume-snap-a.img'', 0), (''volume-snap-b.img'', 1), (''volume-head-002.img'', 2)],
     r_diskChildrenMap = [('''', [''volume-snap-a.img'']), (''volume-snap-a.img'', [''volume-snap-b.img'']), (''volume-snap-b.img'', [''volume-head-002.img''])],
     r_activeDiskData = [None, Some 0, Some 1, Some 2], r_readOnly = False, r_revisionCache = 1, r_revisionFile = None,
     r_revisionCounterDisabled = True, r_unmapMarkDiskChainRemoved = False, r_snapshotMaxCount = 250, r_snapshotMaxSize = 0\<rparr>"

definition ex_fs :: "sstore fsys" where
  "ex_fs = \<lparr>fs_files = [(''/r/volume-snap-a.img'', Data 10), (''/r/volume-snap-a.img.meta'', Meta (JDisk (ex_disk ''volume-snap-a.img'' '''' False))),
      (''/r/volume-snap-b.img'', Data 11), (''/r/volume-snap-b.img.meta'', Meta (JDisk (ex_disk ''volume-snap-b.img'' ''volume-snap-a.img'' True))),
      (''/r/volume-head-002.img'', Data 12), (''/r/volume-head-002.img.meta'', Meta (JDisk (ex_disk ''volume-head-002.img'' ''volume-snap-b.img'' False))),
      (''/r/volume.meta'', Meta (JInfo (r_info ex_rep)))],
     fs_next = 13, fs_calls = 0, fs_data = ex_store, revisionCounterBuf = []\<rparr>"

lemma ex_disk_simps [simp]: "d_Name (ex_disk n p b) = n" "d_Parent (ex_disk n p b) = p" "d_Removed (ex_disk n p b) = b"
  by (simp_all add: ex_disk_def zero_disk_def)

lemma ex_rep_wf: "rep_wf ex_rep"
proof (rule rep_check_wf)
  show "rep_check [''volume-snap-a.img'', ''volume-snap-b.img'', ''volume-head-002.img''] ex_rep" by code_simp
qed

lemma ex_ready: "snap_ready (sf_view 2) mem_unused ex_rep ex_fs"
proof -
  have "nextFile (i_Head (r_info ex_rep)) = Inr ''volume-head-003.img''" "path_of ex_rep ''volume-head-003.img'' = ''/r/volume-head-003.img''" by code_simp+
  moreover have "entry ex_fs ''/r/volume-head-003.img'' = None" "mem_unused (fs_next ex_fs) (fs_data ex_fs)" by code_simp+
  moreover have "dd_wf (sf_view 2) (fs_data ex_fs) (r_volume ex_rep)"
    unfolding dd_wf_def
  proof (intro conjI ballI)
    fix k assume "k \<in> {1 ..< length (files (r_volume ex_rep))}"
    then have "k = 1 \<or> k = 2 \<or> k = 3" by (auto simp: ex_rep_def)
    then show "\<exists>h. files (r_volume ex_rep) ! k = Some h \<and> v_live (sf_view 2) (fs_data ex_fs) h"
      by (elim disjE) (simp_all add: ex_rep_def ex_fs_def sf_view_def ex_store_def sf_wf_def sf_hole_def less_Suc_eq nth_Cons' numeral_3_eq_3)
  qed (auto simp: ex_rep_def ex_fs_def sf_view_def ex_store_def layer_size_def)
  ultimately show ?thesis using ex_rep_wf by (simp add: snap_ready_def) (simp add: ex_rep_def ex_fs_def sf_view_def)
qed

end
