(* ===== verification/Replica_Remove.thy ===== *)
theory Replica_Remove
  imports Replica_Create
begin

text \<open>
  Removing a disk from the metadata: a disk without children is dropped, a disk with one child hands its
  parent to the child, in the forest and in the live chain alike.
\<close>

lemma rep_wf_kids:
  assumes "rep_wf r" "n \<noteq> ''''"
  shows "distinct (kids r n)" "c \<in> set (kids r n) \<longleftrightarrow> (\<exists>d. disk_of r c = Some d \<and> d_Parent d = n)"
    "map_of (r_diskChildrenMap r) n = (if kids r n = [] then None else Some (kids r n))"
proof -
  have K: "distinct (kids r n) \<and> set (kids r n) = {c. \<exists>d. disk_of r c = Some d \<and> d_Parent d = n}"
    and N: "\<And>cs. map_of (r_diskChildrenMap r) n = Some cs \<Longrightarrow> cs \<noteq> []"
    using rep_wfD(2) [OF assms(1)] assms(2) unfolding kids_ok_def by blast+
  show "distinct (kids r n)" "c \<in> set (kids r n) \<longleftrightarrow> (\<exists>d. disk_of r c = Some d \<and> d_Parent d = n)" using K by auto
  show "map_of (r_diskChildrenMap r) n = (if kids r n = [] then None else Some (kids r n))"
    using N by (cases "map_of (r_diskChildrenMap r) n") (auto simp: kids_def)
qed

lemma rank_ex:
  assumes "rep_wf r"
  obtains rank :: "string \<Rightarrow> nat" where "\<And>n d. disk_of r n = Some d \<Longrightarrow> d_Parent d \<noteq> '''' \<Longrightarrow> rank (d_Parent d) < rank n"
  using rep_wfD(1) [OF assms] unfolding tree_ok_def by blast

text \<open>The disk before another one in the live chain is its parent; so a live disk that is not the head has a child.\<close>

lemma linked_nth:
  "linked r n ps \<Longrightarrow> Suc i < length ps \<Longrightarrow> d_Parent (at r (ps ! Suc i)) = d_Name (at r (ps ! i))"
proof (induction ps arbitrary: n i)
  case (Cons p ps)
  then show ?case by (cases ps; cases i) auto
qed simp

lemma live_child:
  assumes wf: "rep_wf r" and p: "p \<in> set (live r)" "p \<noteq> last (live r)"
  obtains q where "q \<in> set (live r)" "d_Parent (at r q) = d_Name (at r p)" "d_Name (at r q) \<in> set (kids r (d_Name (at r p)))"
proof -
  note l = live_okD [OF rep_wfD(3) [OF wf]]
  obtain i where i: "i < length (live r)" "live r ! i = p" using p(1) by (metis in_set_conv_nth)
  then have si: "Suc i < length (live r)" using p(2) l(2) by (metis Suc_lessI diff_Suc_1 last_conv_nth)
  let ?q = "live r ! Suc i"
  have q: "?q \<in> set (live r)" using si by simp
  have par: "d_Parent (at r ?q) = d_Name (at r p)" using linked_nth [OF l(5) si] i(2) by simp
  have "disk_of r (d_Name (at r ?q)) = Some (at r ?q)" using l(4) [OF q] by (simp add: disk_of_def)
  moreover have "d_Name (at r p) \<noteq> ''''" using tree_okD(2) [OF rep_wfD(1) [OF wf] l(4) [OF p(1)]] by simp
  ultimately have "d_Name (at r ?q) \<in> set (kids r (d_Name (at r p)))" using rep_wf_kids(2) [OF wf] par by blast
  then show ?thesis using that q par by blast
qed

section \<open>A disk without children\<close>

lemma leaf_not_live:
  assumes wf: "rep_wf r" and p: "map_of (r_diskData r) name = Some p" "name \<noteq> i_Head (r_info r)" "kids r name = []"
  shows "p \<notin> set (live r)"
proof
  assume m: "p \<in> set (live r)"
  have nm: "d_Name (at r p) = name" using tree_okD(2) [OF rep_wfD(1) [OF wf] p(1)] by simp
  then have "p \<noteq> last (live r)" using head_ptr(2) [OF wf] p(2) by auto
  then show False using live_child [OF wf m] nm p(3) by (metis empty_iff list.set(1))
qed

lemma remove_leaf:
  assumes wf: "rep_wf r" and p: "map_of (r_diskData r) name = Some p" "name \<noteq> i_Head (r_info r)" "kids r name = []"
    and nb: "\<And>path h. r_BackingFile r = Some (path, h) \<Longrightarrow> name \<noteq> path"
  defines "r' \<equiv> rmChildDisk (d_Parent (at r p)) name r\<lparr>r_diskData := AList.delete name (r_diskData r)\<rparr>"
  shows "rep_wf r'" "disk_of r' = (disk_of r)(name := None)" "live r' = live r" "live_names r' = live_names r"
proof -
  note w = rep_wfD [OF wf] and l = live_okD [OF rep_wfD(3) [OF wf]]
  have hp: "r_heap r' = r_heap r" "at r' = at r" by (simp_all add: r'_def at_def fun_eq_iff)
  have dd: "map_of (r_diskData r') = (map_of (r_diskData r))(name := None)" by (simp add: r'_def delete_conv')
  show D: "disk_of r' = (disk_of r)(name := None)" by (auto simp: disk_of_def dd hp)
  have act: "r_activeDiskData r' = r_activeDiskData r" "r_BackingFile r' = r_BackingFile r" "r_info r' = r_info r" "r_volume r' = r_volume r"
    by (simp_all add: r'_def)
  show lv: "live r' = live r" by (simp add: live_def base_def act)
  show ln: "live_names r' = live_names r" by (simp add: live_names_def lv hp)
  note nl = leaf_not_live [OF wf p]
  have nolive: "d_Name (at r q) \<noteq> name" if "q \<in> set (live r)" for q using l(4) [OF that] p(1) nl that by auto
  have nm: "name \<noteq> ''''" using tree_okD(2) [OF w(1) p(1)] by simp
  have nopar: "d_Parent d \<noteq> name" if "disk_of r x = Some d" for x d
    using rep_wf_kids(2) [OF wf nm, of x] that p(3) by auto
  have "tree_ok r'"
    unfolding tree_ok_def
  proof (intro conjI allI impI)
    show "distinct (map fst (r_diskData r'))" using tree_okD(1) [OF w(1)] by (simp add: r'_def distinct_delete)
  next
    fix x q assume "map_of (r_diskData r') x = Some q"
    then have "map_of (r_diskData r) x = Some q" by (auto simp: dd split: if_splits)
    from tree_okD(2) [OF w(1) this] show "q < length (r_heap r')" "d_Name (at r' q) = x" "x \<noteq> ''''" by (simp_all add: hp)
  next
    fix x d assume "disk_of r' x = Some d"
    then have "disk_of r x = Some d" by (auto simp: D split: if_splits)
    then show "d_Parent d = '''' \<or> map_of (r_diskData r') (d_Parent d) \<noteq> None"
      using tree_okD(3) [OF w(1)] nopar by (auto simp: dd)
  next
    obtain rank :: "string \<Rightarrow> nat" where "\<And>n d. disk_of r n = Some d \<Longrightarrow> d_Parent d \<noteq> '''' \<Longrightarrow> rank (d_Parent d) < rank n"
      using rank_ex [OF wf] by blast
    then show "\<exists>rank :: string \<Rightarrow> nat. \<forall>n d. disk_of r' n = Some d \<longrightarrow> d_Parent d \<noteq> '''' \<longrightarrow> rank (d_Parent d) < rank n"
      by (auto simp: D)
  qed
  moreover have "kids_ok r'"
    unfolding kids_ok_def
  proof (intro conjI allI impI)
    fix n :: string assume n: "n \<noteq> ''''"
    note K = rep_wf_kids [OF wf n]
    have kd: "kids r' n = (if n = d_Parent (at r p) then remove1 name (kids r n) else kids r n)"
      unfolding r'_def by (simp add: kids_def [of "rmChildDisk _ _ _\<lparr>r_diskData := _\<rparr>"]) (simp add: kids_def [symmetric] kids_rm)
    show "distinct (kids r' n)" using K(1) by (auto simp: kd distinct_remove1)
    have "c \<in> set (kids r' n) \<longleftrightarrow> (\<exists>d. disk_of r' c = Some d \<and> d_Parent d = n)" for c
    proof -
      have "name \<in> set (kids r n) \<longleftrightarrow> n = d_Parent (at r p)" using K(2) [of name] p(1) by (auto simp: disk_of_def)
      then show ?thesis using K(1) K(2) [of c] by (cases "c = name") (auto simp: kd D set_remove1_eq)
    qed
    then show "set (kids r' n) = {c. \<exists>d. disk_of r' c = Some d \<and> d_Parent d = n}" by blast
  next
    fix n cs assume n: "n \<noteq> ''''" and a: "map_of (r_diskChildrenMap r') n = Some cs"
    have "cs \<noteq> [] \<or> map_of (r_diskChildrenMap r) n = Some cs" using a kids_rm_ne unfolding r'_def by (metis replica.select_convs(7) replica.simps(22) replica.surjective replica.update_convs(6))
    then show "cs \<noteq> []" using rep_wf_kids(3) [OF wf n] by (auto split: if_splits)
  qed
  moreover have "linked r' '''' (live r) = linked r '''' (live r)" by (rule linked_cong) (simp add: hp)
  then have "live_ok r'"
    using w(3) nolive unfolding live_ok_def by (simp add: lv ln act dd hp base_def live_def [symmetric])
  moreover have "backing_ok r'"
    using w(4) nb unfolding backing_ok_def by (auto simp: act lv hp dd split: option.splits)
  moreover have "head_ok r'" using w(5) p(2) unfolding head_ok_def by (auto simp: act D dd)
  ultimately show "rep_wf r'" by (simp add: rep_wf_def)
qed

section \<open>A disk with one child\<close>

text \<open>The metadata once the child has inherited the parent and the disk has left the live chain.\<close>

definition relinked :: "'h replica \<Rightarrow> string \<Rightarrow> string \<Rightarrow> 'h replica \<Rightarrow> bool" where
  "relinked r name c r' \<longleftrightarrow>
     (let p = the (map_of (r_diskData r) name); pc = the (map_of (r_diskData r) c); pp = d_Parent (at r p) in
      r_heap r' = (r_heap r)[pc := (at r pc)\<lparr>d_Parent := pp\<rparr>] \<and>
      r_diskData r' = AList.delete name (r_diskData r) \<and>
      r_diskChildrenMap r' = AList.delete name (r_diskChildrenMap (addChildDisk pp c (rmChildDisk pp name r))) \<and>
      live r' = remove1 p (live r) \<and> take (base r) (r_activeDiskData r') = take (base r) (r_activeDiskData r) \<and>
      None \<notin> set (drop (base r) (r_activeDiskData r')) \<and> base r \<le> length (r_activeDiskData r') \<and>
      r_info r' = (if c = i_Head (r_info r) then (r_info r)\<lparr>i_Parent := pp\<rparr> else r_info r) \<and>
      length (files (r_volume r')) = length (r_activeDiskData r') \<and> None \<notin> set (drop 1 (files (r_volume r'))) \<and>
      r_BackingFile r' = r_BackingFile r)"

text \<open>The setting of the lemmas below: \<open>name\<close> is neither the head nor the backing file, and \<open>c\<close> is its only child.\<close>

definition only_child :: "'h replica \<Rightarrow> string \<Rightarrow> string \<Rightarrow> bool" where
  "only_child r name c \<longleftrightarrow> map_of (r_diskData r) name \<noteq> None \<and> name \<noteq> i_Head (r_info r) \<and> kids r name = [c] \<and>
     (\<forall>path h. r_BackingFile r = Some (path, h) \<longrightarrow> name \<noteq> path)"

lemma only_childD:
  assumes wf: "rep_wf r" and oc: "only_child r name c"
  defines "p \<equiv> the (map_of (r_diskData r) name)" and "pc \<equiv> the (map_of (r_diskData r) c)"
  shows "map_of (r_diskData r) name = Some p" "map_of (r_diskData r) c = Some pc" "d_Name (at r p) = name" "d_Name (at r pc) = c"
    "d_Parent (at r pc) = name" "c \<noteq> name" "p \<noteq> pc" "p < length (r_heap r)" "pc < length (r_heap r)" "name \<noteq> ''''" "c \<noteq> ''''"
    "d_Parent (at r p) \<noteq> name" "d_Parent (at r p) \<noteq> c"
proof -
  note t = tree_okD(2) [OF rep_wfD(1) [OF wf]]
  show m: "map_of (r_diskData r) name = Some p" using oc by (auto simp: only_child_def p_def)
  note tp = t [OF m]
  show "d_Name (at r p) = name" "p < length (r_heap r)" and nm: "name \<noteq> ''''" using tp by simp_all
  have "c \<in> set (kids r name)" using oc by (simp add: only_child_def)
  then obtain d where d: "disk_of r c = Some d" "d_Parent d = name" using rep_wf_kids(2) [OF wf nm] by blast
  then show mc: "map_of (r_diskData r) c = Some pc" by (auto simp: disk_of_def pc_def)
  note tc = t [OF mc]
  show nc: "d_Name (at r pc) = c" "pc < length (r_heap r)" "c \<noteq> ''''" using tc by simp_all
  show par: "d_Parent (at r pc) = name" using d mc by (simp add: disk_of_def)
  obtain rank :: "string \<Rightarrow> nat" where rk: "\<And>n d. disk_of r n = Some d \<Longrightarrow> d_Parent d \<noteq> '''' \<Longrightarrow> rank (d_Parent d) < rank n"
    using rank_ex [OF wf] by blast
  have rc: "rank name < rank c" using rk [OF d(1)] d(2) nm by simp
  then show cn: "c \<noteq> name" by auto
  show "p \<noteq> pc" using cn tp tc by auto
  have rp: "d_Parent (at r p) \<noteq> '''' \<Longrightarrow> rank (d_Parent (at r p)) < rank name" using rk [of name "at r p"] m by (simp add: disk_of_def)
  show "d_Parent (at r p) \<noteq> name" using rp nm by auto
  show "d_Parent (at r p) \<noteq> c" using rp rc nc(3) by auto
qed

lemma relinked_disks:
  assumes wf: "rep_wf r" and oc: "only_child r name c" and rl: "relinked r name c r'"
  defines "p \<equiv> the (map_of (r_diskData r) name)" and "pc \<equiv> the (map_of (r_diskData r) c)"
  shows "at r' q = (if q = pc then (at r pc)\<lparr>d_Parent := d_Parent (at r p)\<rparr> else at r q)"
    "map_of (r_diskData r') = (map_of (r_diskData r))(name := None)"
    "disk_of r' = (disk_of r)(name := None, c \<mapsto> (at r pc)\<lparr>d_Parent := d_Parent (at r p)\<rparr>)"
proof -
  note o = only_childD [OF wf oc, folded p_def pc_def]
  show a: "at r' q = (if q = pc then (at r pc)\<lparr>d_Parent := d_Parent (at r p)\<rparr> else at r q)" for q
    using rl o(9) by (auto simp: relinked_def Let_def p_def pc_def at_def)
  show m: "map_of (r_diskData r') = (map_of (r_diskData r))(name := None)"
    using rl by (simp add: relinked_def Let_def delete_conv')
  show "disk_of r' = (disk_of r)(name := None, c \<mapsto> (at r pc)\<lparr>d_Parent := d_Parent (at r p)\<rparr>)"
  proof
    fix x
    have "q \<noteq> pc" if "map_of (r_diskData r) x = Some q" "x \<noteq> c" for q
      using tree_okD(2) [OF rep_wfD(1) [OF wf] that(1)] that(2) o(4) by auto
    then show "disk_of r' x = ((disk_of r)(name := None, c \<mapsto> (at r pc)\<lparr>d_Parent := d_Parent (at r p)\<rparr>)) x"
      using o(2,6) by (cases "map_of (r_diskData r) x") (auto simp: disk_of_def m a)
  qed
qed

lemma relinked_kids:
  assumes wf: "rep_wf r" and oc: "only_child r name c" and rl: "relinked r name c r'"
  shows "kids_ok r'"
proof -
  define p pc where "p = the (map_of (r_diskData r) name)" and "pc = the (map_of (r_diskData r) c)"
  note o = only_childD [OF wf oc, folded p_def pc_def] and D = relinked_disks(3) [OF wf oc rl, folded p_def pc_def]
  let ?pp = "d_Parent (at r p)" and ?rc = "addChildDisk (d_Parent (at r p)) c (rmChildDisk (d_Parent (at r p)) name r)"
  have ch: "map_of (r_diskChildrenMap r') = (map_of (r_diskChildrenMap ?rc))(name := None)"
    using rl by (simp add: relinked_def Let_def delete_conv' p_def)
  have kd: "kids r' n = (if n = name then [] else if n = ?pp then List.insert c (remove1 name (kids r n)) else kids r n)" for n
  proof -
    have "kids r' n = (if n = name then [] else kids ?rc n)" by (simp add: kids_def ch)
    then show ?thesis by (simp add: kids_add kids_rm)
  qed
  have kn: "kids r name = [c]" using oc by (simp add: only_child_def)
  show ?thesis
    unfolding kids_ok_def
  proof (intro conjI allI impI)
    fix n :: string assume n: "n \<noteq> ''''"
    note K = rep_wf_kids [OF wf n]
    show "distinct (kids r' n)" using K(1) by (auto simp: kd distinct_remove1)
    have nin: "name \<in> set (kids r n) \<longleftrightarrow> n = ?pp" using K(2) [of name] o(1) by (auto simp: disk_of_def)
    have cin: "c \<in> set (kids r n) \<longleftrightarrow> n = name" using K(2) [of c] o(2,5) by (auto simp: disk_of_def)
    have "x \<in> set (kids r' n) \<longleftrightarrow> (\<exists>d. disk_of r' x = Some d \<and> d_Parent d = n)" for x
    proof (cases "x = name \<or> x = c")
      case True
      then show ?thesis using o(6,12,13) K(1) nin cin by (auto simp: kd D set_remove1_eq)
    next
      case False
      have "x \<in> set (kids r' n) \<longleftrightarrow> x \<in> set (kids r n) \<and> n \<noteq> name" using False K(1) by (auto simp: kd set_remove1_eq)
      moreover have "x \<notin> set (kids r name)" using kn False by simp
      moreover have "(\<exists>d. disk_of r' x = Some d \<and> d_Parent d = n) \<longleftrightarrow> x \<in> set (kids r n)" using K(2) [of x] False by (simp add: D)
      ultimately show ?thesis by auto
    qed
    then show "set (kids r' n) = {x. \<exists>d. disk_of r' x = Some d \<and> d_Parent d = n}" by blast
  next
    fix n cs assume n: "n \<noteq> ''''" and a: "map_of (r_diskChildrenMap r') n = Some cs"
    then have "map_of (r_diskChildrenMap ?rc) n = Some cs" by (auto simp: ch split: if_splits)
    then have "cs \<noteq> [] \<or> map_of (r_diskChildrenMap r) n = Some cs" by (meson kids_add_ne kids_rm_ne)
    then show "cs \<noteq> []" using rep_wf_kids(3) [OF wf n] by (auto split: if_splits)
  qed
qed

lemma only_child_position:
  assumes wf: "rep_wf r" and oc: "only_child r name c"
  defines "p \<equiv> the (map_of (r_diskData r) name)" and "pc \<equiv> the (map_of (r_diskData r) c)"
  shows "p \<in> set (live r) \<Longrightarrow> \<exists>xs ys. live r = xs @ p # pc # ys" "p \<notin> set (live r) \<Longrightarrow> pc \<notin> set (live r)"
proof -
  note o = only_childD [OF wf oc, folded p_def pc_def] and l = live_okD [OF rep_wfD(3) [OF wf]]
  have kn: "kids r name = [c]" "name \<noteq> i_Head (r_info r)" using oc by (simp_all add: only_child_def)
  assume m: "p \<in> set (live r)"
  obtain xs zs where xs: "live r = xs @ p # zs" using m by (meson split_list)
  have "p \<noteq> last (live r)" using head_ptr(2) [OF wf] o(3) kn(2) by auto
  then obtain q ys where q: "zs = q # ys" using xs by (cases zs) auto
  have qm: "q \<in> set (live r)" using xs q by simp
  have "linked r '''' (xs @ p # q # ys)" using l(5) xs q by simp
  then have par: "d_Parent (at r q) = name" using o(3) by (simp add: linked_append)
  have "disk_of r (d_Name (at r q)) = Some (at r q)" using l(4) [OF qm] by (simp add: disk_of_def)
  then have "d_Name (at r q) \<in> set (kids r name)" using rep_wf_kids(2) [OF wf o(10)] par by blast
  then have "d_Name (at r q) = c" using kn(1) by simp
  then have "q = pc" using l(4) [OF qm] o(2) by simp
  then show "\<exists>xs ys. live r = xs @ p # pc # ys" using xs q by blast
next
  note o = only_childD [OF wf oc, folded p_def pc_def] and l = live_okD [OF rep_wfD(3) [OF wf]]
  assume nm: "p \<notin> set (live r)"
  show "pc \<notin> set (live r)"
  proof
    assume "pc \<in> set (live r)"
    then obtain xs ys where xs: "live r = xs @ pc # ys" by (meson split_list)
    have lk: "linked r '''' (xs @ pc # ys)" using l(5) xs by simp
    show False
    proof (cases "xs = []")
      case True
      then show ?thesis using lk o(5,10) by simp
    next
      case False
      then have "d_Name (at r (last xs)) = name" "last xs \<in> set (live r)" using lk o(5) xs by (simp_all add: linked_append)
      then show ?thesis using l(4) o(1) nm by (metis option.inject)
    qed
  qed
qed

lemma relinked_live:
  assumes wf: "rep_wf r" and oc: "only_child r name c" and rl: "relinked r name c r'"
  shows "linked r' '''' (live r')" "live r' \<noteq> []" "last (live r') = last (live r)" "live_names r' = remove1 name (live_names r)"
    "set (live r') \<subseteq> set (live r)" "the (map_of (r_diskData r) name) \<notin> set (live r')" "distinct (live r')"
proof -
  define p pc where "p = the (map_of (r_diskData r) name)" and "pc = the (map_of (r_diskData r) c)"
  note o = only_childD [OF wf oc, folded p_def pc_def] and l = live_okD [OF rep_wfD(3) [OF wf]]
    and A = relinked_disks(1) [OF wf oc rl, folded p_def pc_def] and pos = only_child_position [OF wf oc, folded p_def pc_def]
  have lv: "live r' = remove1 p (live r)" using rl by (simp add: relinked_def Let_def p_def)
  show "set (live r') \<subseteq> set (live r)" using lv by (simp add: set_remove1_subset)
  show "the (map_of (r_diskData r) name) \<notin> set (live r')" using lv l(3) by (simp add: p_def [symmetric] set_remove1_eq)
  show "distinct (live r')" using lv l(3) by (simp add: distinct_remove1)
  have nm: "d_Name (at r' q) = d_Name (at r q)" for q by (simp add: A)
  have inj: "d_Name (at r q) = name \<longleftrightarrow> q = p" if "q \<in> set (live r)" for q
    using l(4) [OF that] o(1,3) by (metis option.inject)
  have all: "linked r' '''' (live r') \<and> live r' \<noteq> [] \<and> last (live r') = last (live r)"
  proof (cases "p \<in> set (live r)")
    case True
    then obtain xs ys where xs: "live r = xs @ p # pc # ys" using pos(1) by blast
    then have d: "p \<notin> set xs" "pc \<notin> set xs" "pc \<notin> set ys" using l(3) by auto
    have lv': "live r' = xs @ pc # ys" using xs d lv by (simp add: remove1_append)
    have lk: "linked r '''' (xs @ p # pc # ys)" using l(5) xs by simp
    have c1: "linked r' '''' xs = linked r '''' xs" using d A by (intro linked_cong) auto
    have c2: "linked r' n ys = linked r n ys" for n using d A by (intro linked_cong) auto
    have "linked r' '''' (xs @ pc # ys)"
      using lk c1 c2 nm A [of pc] by (auto simp: linked_append)
    then show ?thesis using lv' xs by simp
  next
    case False
    then have "live r' = live r" using lv by (simp add: remove1_idem)
    moreover have "linked r' '''' (live r) = linked r '''' (live r)" using pos(2) [OF False] A by (intro linked_cong) auto
    ultimately show ?thesis using l(2,5) by simp
  qed
  then show "linked r' '''' (live r')" "live r' \<noteq> []" "last (live r') = last (live r)" by auto
  have "map (\<lambda>q. d_Name (at r q)) (remove1 p qs) = remove1 name (map (\<lambda>q. d_Name (at r q)) qs)" if "set qs \<subseteq> set (live r)" for qs
    using that inj by (induction qs) auto
  then show "live_names r' = remove1 name (live_names r)" by (simp add: live_names_def lv nm)
qed

theorem relinked_wf:
  assumes wf: "rep_wf r" and oc: "only_child r name c" and rl: "relinked r name c r'"
  shows "rep_wf r'"
proof -
  define p pc where "p = the (map_of (r_diskData r) name)" and "pc = the (map_of (r_diskData r) c)"
  note o = only_childD [OF wf oc, folded p_def pc_def] and l = live_okD [OF rep_wfD(3) [OF wf]] and w = rep_wfD [OF wf]
    and A = relinked_disks [OF wf oc rl, folded p_def pc_def] and L = relinked_live [OF wf oc rl, folded p_def]
  let ?pp = "d_Parent (at r p)"
  have nmh: "name \<noteq> i_Head (r_info r)" and nb: "\<And>path h. r_BackingFile r = Some (path, h) \<Longrightarrow> name \<noteq> path"
    and kn: "kids r name = [c]" using oc by (auto simp: only_child_def)
  have bs: "base r' = base r" "r_BackingFile r' = r_BackingFile r" using rl by (simp_all add: relinked_def base_def Let_def)
  have hl: "length (r_heap r') = length (r_heap r)" using rl by (simp add: relinked_def Let_def)
  have nm: "d_Name (at r' q) = d_Name (at r q)" for q by (simp add: A(1))
  have info: "i_Head (r_info r') = i_Head (r_info r)" using rl by (simp add: relinked_def Let_def)
  have ppin: "?pp = '''' \<or> map_of (r_diskData r) ?pp \<noteq> None" using tree_okD(3) [OF w(1), of name "at r p"] o(1) by (simp add: disk_of_def)
  have dpar: "(disk_of r x = Some d \<and> x \<noteq> name \<and> x \<noteq> c) \<or> (x = c \<and> d_Parent d = ?pp)" if "disk_of r' x = Some d" for x d
    using that unfolding A(3) by (cases "x = c"; cases "x = name") auto
  have nopar: "d_Parent d \<noteq> name" if "disk_of r x = Some d" "x \<noteq> c" for x d
    using rep_wf_kids(2) [OF wf o(10), of x] that kn by auto
  have "tree_ok r'"
    unfolding tree_ok_def
  proof (intro conjI allI impI)
    show "distinct (map fst (r_diskData r'))"
      using tree_okD(1) [OF w(1)] rl by (simp add: relinked_def Let_def distinct_delete)
  next
    fix x q assume "map_of (r_diskData r') x = Some q"
    then have "map_of (r_diskData r) x = Some q" by (auto simp: A(2) split: if_splits)
    from tree_okD(2) [OF w(1) this] show "q < length (r_heap r')" "d_Name (at r' q) = x" "x \<noteq> ''''" by (simp_all add: hl nm)
  next
    fix x d assume a: "disk_of r' x = Some d"
    show "d_Parent d = '''' \<or> map_of (r_diskData r') (d_Parent d) \<noteq> None"
      using dpar [OF a] ppin o(12) tree_okD(3) [OF w(1), of x d] nopar [of x d] by (auto simp: A(2))
  next
    obtain rank :: "string \<Rightarrow> nat" where rk: "\<And>n d. disk_of r n = Some d \<Longrightarrow> d_Parent d \<noteq> '''' \<Longrightarrow> rank (d_Parent d) < rank n"
      using rank_ex [OF wf] by blast
    have "disk_of r name = Some (at r p)" "disk_of r c = Some (at r pc)" using o(1,2) by (simp_all add: disk_of_def)
    then have "?pp \<noteq> '''' \<Longrightarrow> rank ?pp < rank c" using rk [of name "at r p"] rk [of c "at r pc"] o(5,10) by auto
    then have "rank (d_Parent d) < rank x" if "disk_of r' x = Some d" "d_Parent d \<noteq> ''''" for x d
      using dpar [OF that(1)] that(2) rk [of x d] by auto
    then show "\<exists>rank :: string \<Rightarrow> nat. \<forall>n d. disk_of r' n = Some d \<longrightarrow> d_Parent d \<noteq> '''' \<longrightarrow> rank (d_Parent d) < rank n" by blast
  qed
  moreover have "live_ok r'"
    unfolding live_ok_def
  proof (intro conjI ballI)
    fix q assume q: "q \<in> set (live r')"
    then have ql: "q \<in> set (live r)" "q \<noteq> p" using L(5,6) by auto
    then have "d_Name (at r q) \<noteq> name" using l(4) [OF ql(1)] o(1) by auto
    then show "map_of (r_diskData r') (d_Name (at r' q)) = Some q" using l(4) [OF ql(1)] by (simp add: nm A(2))
  next
    show "last (live_names r') = i_Head (r_info r')"
      using L(2,3) head_ptr(2) [OF wf] by (simp add: live_names_def last_map nm info)
  qed (use L rl in \<open>simp_all add: bs relinked_def Let_def\<close>)
  moreover have "backing_ok r'"
  proof (cases "r_BackingFile r")
    case None
    then have "base r = 1" by (simp add: base_def)
    then have "take 1 (r_activeDiskData r') = take 1 (r_activeDiskData r)" using rl by (simp add: relinked_def Let_def)
    then show ?thesis using w(4) None bs(2) by (cases "r_activeDiskData r"; cases "r_activeDiskData r'") (auto simp: backing_ok_def)
  next
    case (Some b)
    obtain path h where b: "b = (path, h)" by (cases b)
    obtain p0 q where B: "take 2 (r_activeDiskData r) = [Some p0, Some q]" "map_of (r_diskData r) path = Some q"
      "d_Parent (at r q) = ''''" "q \<notin> set (live r)" "p0 < length (r_heap r)" "d_Name (at r p0) = ''''"
      using w(4) Some b by (auto simp: backing_ok_def)
    have "base r = 2" using Some by (simp add: base_def)
    then have "take 2 (r_activeDiskData r') = [Some p0, Some q]" using rl B(1) by (simp add: relinked_def Let_def)
    moreover have "d_Parent (at r' q) = ''''" using B(3) o(5,10) A(1) [of q] by auto
    ultimately show ?thesis using B nb [of path h] Some b L(5) bs(2) hl nm A(2) unfolding backing_ok_def by auto
  qed
  moreover have "head_ok r'"
    unfolding head_ok_def
  proof (intro conjI allI impI)
    fix x assume "map_of (r_diskData r') x \<noteq> None" "x \<noteq> i_Head (r_info r')"
    then show "\<not> IsHeadDisk x" using w(5) info unfolding head_ok_def by (auto simp: A(2) split: if_splits)
  next
    have hd: "d_Parent d \<noteq> i_Head (r_info r)" if "disk_of r x = Some d" for x d using w(5) that unfolding head_ok_def by blast
    fix x d assume a: "disk_of r' x = Some d"
    have "?pp \<noteq> i_Head (r_info r)" using hd [of name "at r p"] o(1) by (simp add: disk_of_def)
    then show "d_Parent d \<noteq> i_Head (r_info r')" using dpar [OF a] hd [of x d] info by auto
  next
    have "map_option d_Parent (disk_of r (i_Head (r_info r))) = Some (i_Parent (r_info r))" using w(5) by (simp add: head_ok_def)
    then show "map_option d_Parent (disk_of r' (i_Head (r_info r'))) = Some (i_Parent (r_info r'))"
      using rl nmh unfolding info A(3) by (auto simp: relinked_def Let_def p_def pc_def)
  qed (use rl in \<open>simp_all add: relinked_def Let_def\<close>)
  ultimately show ?thesis using relinked_kids [OF wf oc rl] by (simp add: rep_wf_def)
qed

section \<open>removeDiskNode\<close>

lemma find_from_hit:
  "0 < i \<Longrightarrow> None \<notin> set us \<Longrightarrow> (\<And>q. Some q \<in> set us \<Longrightarrow> d_Name (at r q) \<noteq> name) \<Longrightarrow> d_Name (at r p) = name \<Longrightarrow>
   find_from r name i (us @ Some p # vs) = Some (i + length us)"
proof (induction us arbitrary: i)
  case (Cons u us)
  then obtain q where "u = Some q" by (cases u) auto
  then show ?case using Cons by simp
qed simp

lemma find_from_miss:
  "0 < i \<Longrightarrow> None \<notin> set us \<Longrightarrow> (\<And>q. Some q \<in> set us \<Longrightarrow> d_Name (at r q) \<noteq> name) \<Longrightarrow> find_from r name i us = Some 0"
proof (induction us arbitrary: i)
  case (Cons u us)
  then obtain q where "u = Some q" by (cases u) auto
  then show ?case using Cons by simp
qed simp

text \<open>activeDiskData: nil or the empty disk, the backing file if there is one, and the live chain.\<close>

lemma map_Some_the: "None \<notin> set xs \<Longrightarrow> map Some (map the xs) = xs"
  by (induction xs) auto

lemma active_split:
  assumes wf: "rep_wf r"
  obtains x bs where "r_activeDiskData r = x # map Some bs @ map Some (live r)" "base r = Suc (length bs)"
    "\<And>b. b \<in> set bs \<Longrightarrow> \<exists>path h. r_BackingFile r = Some (path, h) \<and> map_of (r_diskData r) path = Some b"
proof -
  note l = live_okD [OF rep_wfD(3) [OF wf]] and B = rep_wfD(4) [OF wf]
  have dr: "drop (base r) (r_activeDiskData r) = map Some (live r)"
    unfolding live_def by (rule map_Some_the [OF l(1), symmetric])
  have sp: "r_activeDiskData r = take (base r) (r_activeDiskData r) @ map Some (live r)" using dr by (metis append_take_drop_id)
  show ?thesis
  proof (cases "r_BackingFile r")
    case None
    then obtain x xs where "r_activeDiskData r = x # xs" using B by (cases "r_activeDiskData r") (auto simp: backing_ok_def)
    then show ?thesis using that [of x "[]"] sp None by (simp add: base_def)
  next
    case (Some b)
    obtain path h where b: "b = (path, h)" by (cases b)
    obtain p0 q where q: "take 2 (r_activeDiskData r) = [Some p0, Some q]" "map_of (r_diskData r) path = Some q"
      using B Some b by (auto simp: backing_ok_def)
    then show ?thesis using that [of "Some p0" "[q]"] sp Some b by (simp add: base_def)
  qed
qed

lemma findDisk_wf:
  assumes wf: "rep_wf r" and nm: "\<And>q. d_Name (at r1 q) = d_Name (at r q)" "r_activeDiskData r1 = r_activeDiskData r"
    and p: "map_of (r_diskData r) name = Some p" and nb: "\<forall>path h. r_BackingFile r = Some (path, h) \<longrightarrow> name \<noteq> path"
  shows "p \<notin> set (live r) \<Longrightarrow> findDisk r1 name = Some 0"
    "live r = xs @ p # ys \<Longrightarrow> findDisk r1 name = Some (base r + length xs)"
proof -
  note l = live_okD [OF rep_wfD(3) [OF wf]] and t = tree_okD(2) [OF rep_wfD(1) [OF wf]]
  obtain x bs where a: "r_activeDiskData r = x # map Some bs @ map Some (live r)" "base r = Suc (length bs)"
    "\<And>b. b \<in> set bs \<Longrightarrow> \<exists>path h. r_BackingFile r = Some (path, h) \<and> map_of (r_diskData r) path = Some b"
    using active_split [OF wf] by blast
  have bn: "d_Name (at r b) \<noteq> name" if "b \<in> set bs" for b using a(3) [OF that] t nb by metis
  have ln: "d_Name (at r q) \<noteq> name" if "q \<in> set (live r)" "q \<noteq> p" for q using l(4) [OF that(1)] that(2) p by auto
  have f: "findDisk r1 name = find_from r1 name 1 (map Some bs @ map Some (live r))" by (simp add: findDisk_def nm(2) a(1))
  {
    assume n: "p \<notin> set (live r)"
    show "findDisk r1 name = Some 0" unfolding f
      using bn ln n nm(1) by (intro find_from_miss) auto
  }
  assume s: "live r = xs @ p # ys"
  then have "p \<notin> set xs" using l(3) by auto
  then have "q \<in> set bs \<union> set xs \<Longrightarrow> d_Name (at r1 q) \<noteq> name" for q using bn ln s nm(1) by auto
  then have "find_from r1 name 1 ((map Some bs @ map Some xs) @ Some p # map Some ys) = Some (1 + length (map Some bs @ map Some xs))"
    using t [OF p] nm(1) by (intro find_from_hit) auto
  then show "findDisk r1 name = Some (base r + length xs)" unfolding f s by (simp add: a(2))
qed

lemma updateParentDisk_run:
  assumes "map_of (r_diskData r) c = Some pc" "map_of (r_diskData r) name = Some p" "name \<noteq> ''''"
  shows "\<exists>err fs'. updateParentDisk E c name r fs = Some (err, poke pc (\<lambda>d. d\<lparr>d_Parent := d_Parent (at r p)\<rparr>) r, fs')"
  using assms by (auto simp: updateParentDisk_def disk_of_def poke_def update_triv Let_def split: prod.split)

theorem removeDiskNode_one_child:
  assumes wf: "rep_wf r" and oc: "only_child r name c"
  shows "\<exists>err r' fs'. removeDiskNode E r name force fs = Some (err, r', fs') \<and> (err = None \<longrightarrow> relinked r name c r')"
proof -
  define p pc where "p = the (map_of (r_diskData r) name)" and "pc = the (map_of (r_diskData r) c)"
  note o = only_childD [OF wf oc, folded p_def pc_def] and l = live_okD [OF rep_wfD(3) [OF wf]] and w = rep_wfD [OF wf]
  let ?pp = "d_Parent (at r p)"
  have kn: "kids r name = [c]" and nmh: "name \<noteq> i_Head (r_info r)" and nb: "\<forall>path h. r_BackingFile r = Some (path, h) \<longrightarrow> name \<noteq> path"
    using oc by (auto simp: only_child_def)
  have ch: "map_of (r_diskChildrenMap r) name = Some [c]" using rep_wf_kids(3) [OF wf o(10)] kn by simp
  define r1 where "r1 = addChildDisk ?pp c (rmChildDisk ?pp name r)"
  have u: "updateChildDisk name c r = Some r1" using o(1,11) by (simp add: updateChildDisk_def disk_of_def r1_def)
  have r1: "r_diskData r1 = r_diskData r" "at r1 = at r" "r_heap r1 = r_heap r" by (simp_all add: r1_def at_def fun_eq_iff)
  obtain err fs1 where up: "updateParentDisk E c name r1 fs = Some (err, poke pc (\<lambda>d. d\<lparr>d_Parent := ?pp\<rparr>) r1, fs1)"
    using updateParentDisk_run [of r1 c pc name p E fs] o by (auto simp: r1)
  define r2 where "r2 = poke pc (\<lambda>d. d\<lparr>d_Parent := ?pp\<rparr>) r1"
  define r3 where "r3 = r2\<lparr>r_diskData := AList.delete name (r_diskData r2), r_diskChildrenMap := AList.delete name (r_diskChildrenMap r2)\<rparr>"
  have hp: "r_heap r3 = (r_heap r)[pc := (at r pc)\<lparr>d_Parent := ?pp\<rparr>]" by (simp add: r3_def r2_def poke_def r1)
  have nm: "d_Name (at r3 q) = d_Name (at r q)" for q
    using o(9) by (cases "q < length (r_heap r)") (auto simp: at_def hp nth_list_update)
  have act: "r_activeDiskData r3 = r_activeDiskData r" "r_info r3 = r_info r" "r_volume r3 = r_volume r" "r_BackingFile r3 = r_BackingFile r"
    "r_diskData r3 = AList.delete name (r_diskData r)" "r_diskChildrenMap r3 = AList.delete name (r_diskChildrenMap r1)"
    by (simp_all add: r3_def r2_def poke_def r1_def)
  note F = findDisk_wf [OF wf nm act(1) o(1) nb] and pos = only_child_position [OF wf oc, folded p_def pc_def]
  note run = removeDiskNode_def ch u up r2_def [symmetric] r3_def [symmetric] Let_def
  show ?thesis
  proof (cases err)
    case (Some e)
    then show ?thesis by (simp add: run)
  next
    case None
    show ?thesis
    proof (cases "p \<in> set (live r)")
      case False
      have nohead: "c \<noteq> i_Head (r_info r)" using pos(2) [OF False] head_ptr(1,3) [OF wf] o(2) by auto
      have "live r3 = remove1 p (live r)" using False by (simp add: live_def base_def act remove1_idem)
      then have "relinked r name c r3"
        using hp act nohead l(1,7) w(5) r1_def by (simp add: relinked_def Let_def p_def pc_def head_ok_def)
      then show ?thesis using None F(1) [OF False] by (simp add: run)
    next
      case True
      then obtain xs ys where xs: "live r = xs @ p # pc # ys" using pos(1) by blast
      define i where "i = base r + length xs"
      let ?v = "r_volume r" and ?a = "r_activeDiskData r"
      have len: "length ?a = base r + length (live r)" using l(7) by (simp add: live_def)
      have flen: "length (files ?v) = length ?a" "None \<notin> set (drop 1 (files ?v))" using w(5) by (simp_all add: head_ok_def)
      have il: "i < length (files ?v)" "0 < i" using len flen xs by (simp_all add: base_def i_def)
      have "i - 1 < length (drop 1 (files ?v))" using il unfolding length_drop by linarith
      moreover have "drop 1 (files ?v) ! (i - 1) = files ?v ! i" using il by (subst nth_drop) auto
      ultimately have "files ?v ! i \<in> set (drop 1 (files ?v))" by (metis nth_mem)
      then obtain h where "files ?v ! i = Some h" using flen(2) by (metis option.exhaust)
      then have h: "file_at ?v (int i) = Some h" using index_nat [OF il(1)] by (simp add: file_at_def)
      obtain ce s where cl: "op_Close (dops E) h (fs_data fs1) = (ce, s)" by fastforce
      have fd: "findDisk r3 name = Some i" using F(2) xs by (simp add: i_def)
      show ?thesis
      proof (cases ce)
        case (Some e)
        then show ?thesis using None fd il(2) h cl by (simp add: run act RemoveIndex_def)
      next
        case None': None
        define v where "v = ?v\<lparr>location := map (\<lambda>l. if l = of_int (int i) then 0 else if l > of_int (int i) then l - 1 else l) (location ?v),
          files := take i (files ?v) @ drop (i + 1) (files ?v)\<rparr>"
        have ri: "RemoveIndex (dops E) (r_volume r3) (int i) (fs_data fs1) = Some (None, v, s)"
          using h cl None' by (simp add: RemoveIndex_def act v_def)
        have second: "length ?a - 2 = i \<and> 2 \<le> length ?a \<longleftrightarrow> ys = []" using len xs by (auto simp: base_def i_def)
        have hd: "pc = last (live r) \<longleftrightarrow> ys = []" using xs l(3) by auto
        have chd: "c = i_Head (r_info r) \<longleftrightarrow> ys = []" using head_ptr(1,2) [OF wf] o(2,4) hd by auto
        have dk: "ys = [] \<Longrightarrow> disk_of r3 (i_Head (r_info r)) = Some ((at r pc)\<lparr>d_Parent := ?pp\<rparr>)"
          using chd o(2,6,9) act(5) by (auto simp: disk_of_def delete_conv' at_def hp)
        define info where "info = (if c = i_Head (r_info r) then (r_info r)\<lparr>i_Parent := ?pp\<rparr> else r_info r)"
        define r4 where "r4 = r3\<lparr>r_volume := v, r_info := info, r_activeDiskData := take i ?a @ drop (Suc i) ?a\<rparr>"
        have inf: "(if int (length ?a) - 2 = int i then map_option (\<lambda>d. (r_info r)\<lparr>i_Parent := d_Parent d\<rparr>) (disk_of r3 (i_Head (r_info r))) else Some (r_info r)) = Some info"
          using second chd dk act(2) by (cases "ys = []") (auto simp: info_def)
        have res: "removeDiskNode E r name force fs = Some (None, r4, fs1\<lparr>fs_data := s\<rparr>)"
          using None fd il(2) ri inf by (cases "int (length ?a) - 2 = int i") (auto simp: run act r4_def)
        have lv: "live r4 = xs @ pc # ys" "take (base r) (r_activeDiskData r4) = take (base r) ?a" "None \<notin> set (drop (base r) (r_activeDiskData r4))"
          "Suc (length (r_activeDiskData r4)) = length ?a" "base r4 = base r"
        proof -
          obtain x bs where A: "?a = x # map Some bs @ map Some (live r)" "base r = Suc (length bs)"
            using active_split [OF wf] by blast
          have a4: "r_activeDiskData r4 = x # map Some bs @ map Some xs @ map Some (pc # ys)" by (simp add: r4_def A xs i_def)
          show b4: "base r4 = base r" by (simp add: r4_def base_def act)
          show "live r4 = xs @ pc # ys" by (simp add: live_def b4 a4 A(2) comp_def)
          show "take (base r) (r_activeDiskData r4) = take (base r) ?a" "None \<notin> set (drop (base r) (r_activeDiskData r4))"
            "Suc (length (r_activeDiskData r4)) = length ?a" by (auto simp: a4 A xs)
        qed
        have "p \<notin> set xs" using xs l(3) by auto
        then have "live r4 = remove1 p (live r)" using lv(1) xs by (simp add: remove1_append)
        moreover have "length (files (r_volume r4)) = length (r_activeDiskData r4)" using lv(4) il flen(1) by (simp add: r4_def v_def)
        moreover have "None \<notin> set (drop 1 (files (r_volume r4)))"
        proof -
          have "set (drop 1 (take i (files ?v) @ drop (i + 1) (files ?v))) \<subseteq> set (drop 1 (files ?v))"
          proof -
            have "drop 1 (take i (files ?v)) = take (i - 1) (drop 1 (files ?v))" by (simp add: drop_take)
            moreover have "set (drop (i + 1) (files ?v)) \<subseteq> set (drop 1 (files ?v))" by (rule set_drop_subset_set_drop) simp
            ultimately show ?thesis using il by (auto dest: in_set_takeD)
          qed
          then show ?thesis using flen(2) by (auto simp: r4_def v_def)
        qed
        moreover have "base r \<le> length (r_activeDiskData r4)" using lv(4) len xs by simp
        ultimately have "relinked r name c r4"
          using hp act lv(2,3) by (simp add: relinked_def Let_def p_def [symmetric] pc_def [symmetric] r4_def info_def r1_def)
        then show ?thesis using res by simp
      qed
    qed
  qed
qed

end
