(* ===== verification/Replica_Server.thy ===== *)
theory Replica_Server
  imports Replica_Open
begin

text \<open>
  The replica server (src/pkg/replica/server.go): the state machine around one replica, which is
  initial, closed, open, dirty, rebuilding or in error, and the guards of its operations.
  The server's lock makes each operation one step.
\<close>

datatype replicaState = Initial | Open | Closed | Dirty | Rebuilding | Error

definition state_name :: "replicaState \<Rightarrow> string" where
  "state_name st = (case st of Initial \<Rightarrow> ''initial'' | Open \<Rightarrow> ''open'' | Closed \<Rightarrow> ''closed'' | Dirty \<Rightarrow> ''dirty''
     | Rebuilding \<Rightarrow> ''rebuilding'' | Error \<Rightarrow> ''error'')"

text \<open>The backing file with its path, disk and sector size.\<close>

record 'h server =
  s_r :: "'h replica option"
  s_dir :: string
  s_sectorSize :: int
  s_backing :: "(string \<times> 'h \<times> int) option"
  s_revisionCounterDisabled :: bool
  s_unmapMarkDiskChainRemoved :: bool
  s_snapshotMaxCount :: int
  s_snapshotMaxSize :: int

definition NewServer :: "string \<Rightarrow> (string \<times> 'h \<times> int) option \<Rightarrow> int \<Rightarrow> bool \<Rightarrow> bool \<Rightarrow> int \<Rightarrow> int \<Rightarrow> 'h server" where
  "NewServer dir backing ss disableRevCounter unmapMark maxCount maxSize =
     \<lparr>s_r = None, s_dir = dir, s_sectorSize = ss, s_backing = backing, s_revisionCounterDisabled = disableRevCounter,
      s_unmapMarkDiskChainRemoved = unmapMark, s_snapshotMaxCount = maxCount, s_snapshotMaxSize = maxSize\<rparr>"

definition getSectorSize :: "'h server \<Rightarrow> int" where
  "getSectorSize s = (case s_backing s of Some (path, h, ss) \<Rightarrow> if ss > 0 then ss else s_sectorSize s | None \<Rightarrow> s_sectorSize s)"

definition open_state :: "Info \<Rightarrow> replicaState" where
  "open_state info =
     (if i_Error info \<noteq> '''' then Error else if i_Rebuilding info then Rebuilding else if i_Dirty info then Dirty else Open)"

definition Status :: "('h, 's) fs_env \<Rightarrow> 'h server \<Rightarrow> 's fsys \<Rightarrow> replicaState \<times> Info \<times> 's fsys" where
  "Status E s fs =
     (case s_r s of
        Some r \<Rightarrow> (open_state (r_info r), r_info r, fs)
      | None \<Rightarrow> (case ReadInfo E (s_dir s) fs of
          (Inl (ErrNotExist p), fs) \<Rightarrow> (Initial, zero_Info, fs)
        | (res, fs) \<Rightarrow> (case checkValidVolumeMetaData E (s_dir s) zero_Info fs of
            (Inl e, _, fs) \<Rightarrow> (Error, zero_Info, fs)
          | (Inr False, _, fs) \<Rightarrow> (Initial, zero_Info, fs)
          | (Inr True, _, fs) \<Rightarrow> (case res of Inl e \<Rightarrow> (Error, zero_Info, fs) | Inr info \<Rightarrow> (Closed, info, fs)))))"

definition new_of :: "('h, 's) fs_env \<Rightarrow> 'h server \<Rightarrow> int \<Rightarrow> 's fsys \<Rightarrow> ((error + 'h replica) \<times> 's fsys) option" where
  "new_of E s size' fs = rp_New E size' (getSectorSize s) (s_dir s) (map_option (\<lambda>(path, h, ss). (path, h)) (s_backing s))
     (s_revisionCounterDisabled s) (s_unmapMarkDiskChainRemoved s) (s_snapshotMaxCount s) (s_snapshotMaxSize s) fs"

definition srv_Create :: "('h, 's) fs_env \<Rightarrow> 'h server \<Rightarrow> int \<Rightarrow> 's fsys \<Rightarrow> (error option \<times> 's fsys) option" where
  "srv_Create E s size' fs =
     (case Status E s fs of (state, _, fs) \<Rightarrow>
        if state \<noteq> Initial then Some (None, fs)
        else do {
          (res, fs) \<leftarrow> new_of E s size' fs;
          Some (case res of Inl e \<Rightarrow> (Some e, fs) | Inr r \<Rightarrow> rp_close E r fs)
        })"

definition srv_Open :: "('h, 's) fs_env \<Rightarrow> 'h server \<Rightarrow> 's fsys \<Rightarrow> (error option \<times> 'h server \<times> 's fsys) option" where
  "srv_Open E s fs =
     (if s_r s \<noteq> None then Some (Some (Errorf ''replica is already open''), s, fs)
      else case Status E s fs of (_, info, fs) \<Rightarrow> do {
        (res, fs) \<leftarrow> new_of E s (i_Size info) fs;
        Some (case res of Inl e \<Rightarrow> (Some e, s, fs) | Inr r \<Rightarrow> (None, s\<lparr>s_r := Some r\<rparr>, fs))
      })"

definition srv_Reload :: "('h, 's) fs_env \<Rightarrow> 'h server \<Rightarrow> 's fsys \<Rightarrow> (error option \<times> 'h server \<times> 's fsys) option" where
  "srv_Reload E s fs =
     (case s_r s of
        None \<Rightarrow> Some (None, s, fs)
      | Some r \<Rightarrow> do {
          (res, fs) \<leftarrow> rp_Reload E r fs;
          Some (case res of
             Inl e \<Rightarrow> (Some e, s, fs)
           | Inr r' \<Rightarrow> (let (_, fs) = rp_close E r fs in (None, s\<lparr>s_r := Some r'\<rparr>, fs)))
        })"

definition srv_SetRebuilding :: "('h, 's) fs_env \<Rightarrow> 'h server \<Rightarrow> bool \<Rightarrow> 's fsys \<Rightarrow> (error option \<times> 'h server \<times> 's fsys) option" where
  "srv_SetRebuilding E s rebuilding fs =
     (case Status E s fs of (state, _, fs) \<Rightarrow>
        if (rebuilding \<and> state \<noteq> Open \<and> state \<noteq> Dirty) \<or> (\<not> rebuilding \<and> state \<noteq> Rebuilding)
        then Some (Some (Errorf (''cannot set rebuilding='' @ (if rebuilding then ''true'' else ''false'') @ '' from state '' @ state_name state)), s, fs)
        else do {
          r \<leftarrow> s_r s;
          let (err, r, fs) = rp_SetRebuilding E r rebuilding fs;
          Some (err, s\<lparr>s_r := Some r\<rparr>, fs)
        })"

text \<open>Revert: a nil error with a nil replica closes the server's replica.\<close>

definition srv_Revert :: "('h, 's) fs_env \<Rightarrow> 'h server \<Rightarrow> string \<Rightarrow> string \<Rightarrow> 's fsys \<Rightarrow> (error option \<times> 'h server \<times> 's fsys) option" where
  "srv_Revert E s name created fs =
     (case s_r s of
        None \<Rightarrow> Some (None, s, fs)
      | Some r \<Rightarrow> do {
          (res, fs) \<leftarrow> revertDisk E r name created fs;
          Some (case res of
             Inl (Some e) \<Rightarrow> (Some e, s, fs)
           | Inl None \<Rightarrow> (None, s\<lparr>s_r := None\<rparr>, fs)
           | Inr r' \<Rightarrow> (None, s\<lparr>s_r := Some r'\<rparr>, fs))
        })"

text \<open>The operations that are passed on to an open replica and do nothing otherwise.\<close>

definition on_open ::
  "'h server \<Rightarrow> 's fsys \<Rightarrow> ('h replica \<Rightarrow> (error option \<times> 'h replica \<times> 's fsys) option) \<Rightarrow> (error option \<times> 'h server \<times> 's fsys) option" where
  "on_open s fs f =
     (case s_r s of
        None \<Rightarrow> Some (None, s, fs)
      | Some r \<Rightarrow> do { (err, r, fs) \<leftarrow> f r; Some (err, s\<lparr>s_r := Some r\<rparr>, fs) })"

definition srv_Snapshot ::
  "('h, 's) fs_env \<Rightarrow> 'h server \<Rightarrow> string \<Rightarrow> bool \<Rightarrow> string \<Rightarrow> (string \<times> string) list option \<Rightarrow> 's fsys \<Rightarrow>
     (error option \<times> 'h server \<times> 's fsys) option" where
  "srv_Snapshot E s name userCreated created labels fs = on_open s fs (\<lambda>r. rp_Snapshot E r name userCreated created labels fs)"

definition srv_Expand :: "('h, 's) fs_env \<Rightarrow> 'h server \<Rightarrow> int \<Rightarrow> 's fsys \<Rightarrow> (error option \<times> 'h server \<times> 's fsys) option" where
  "srv_Expand E s size' fs = on_open s fs (\<lambda>r. rp_Expand E r size' fs)"

definition srv_RemoveDiffDisk :: "('h, 's) fs_env \<Rightarrow> 'h server \<Rightarrow> string \<Rightarrow> bool \<Rightarrow> 's fsys \<Rightarrow> (error option \<times> 'h server \<times> 's fsys) option" where
  "srv_RemoveDiffDisk E s name force fs = on_open s fs (\<lambda>r. RemoveDiffDisk E r name force fs)"

definition srv_ReplaceDisk :: "('h, 's) fs_env \<Rightarrow> 'h server \<Rightarrow> string \<Rightarrow> string \<Rightarrow> 's fsys \<Rightarrow> (error option \<times> 'h server \<times> 's fsys) option" where
  "srv_ReplaceDisk E s target source fs = on_open s fs (\<lambda>r. ReplaceDisk E r target source fs)"

definition srv_MarkDiskAsRemoved :: "('h, 's) fs_env \<Rightarrow> 'h server \<Rightarrow> string \<Rightarrow> 's fsys \<Rightarrow> (error option \<times> 'h server \<times> 's fsys) option" where
  "srv_MarkDiskAsRemoved E s name fs = on_open s fs (\<lambda>r. Some (MarkDiskAsRemoved E r name fs))"

definition srv_SetRevisionCounter :: "('h, 's) fs_env \<Rightarrow> 'h server \<Rightarrow> int \<Rightarrow> 's fsys \<Rightarrow> (error option \<times> 'h server \<times> 's fsys) option" where
  "srv_SetRevisionCounter E s counter fs = on_open s fs (\<lambda>r. Some (rp_SetRevisionCounter E r counter fs))"

definition srv_PrepareRemoveDisk :: "'h server \<Rightarrow> string \<Rightarrow> error + PrepareRemoveAction list" where
  "srv_PrepareRemoveDisk s name = (case s_r s of None \<Rightarrow> Inr [] | Some r \<Rightarrow> PrepareRemoveDisk r name)"

definition srv_SetUnmapMarkDiskChainRemoved :: "'h server \<Rightarrow> bool \<Rightarrow> 'h server" where
  "srv_SetUnmapMarkDiskChainRemoved s enabled =
     s\<lparr>s_unmapMarkDiskChainRemoved := enabled, s_r := map_option (\<lambda>r. r\<lparr>r_unmapMarkDiskChainRemoved := enabled\<rparr>) (s_r s)\<rparr>"

definition srv_SetSnapshotMaxCount :: "'h server \<Rightarrow> int \<Rightarrow> 'h server" where
  "srv_SetSnapshotMaxCount s count = s\<lparr>s_snapshotMaxCount := count, s_r := map_option (\<lambda>r. r\<lparr>r_snapshotMaxCount := count\<rparr>) (s_r s)\<rparr>"

definition srv_SetSnapshotMaxSize :: "'h server \<Rightarrow> int \<Rightarrow> 'h server" where
  "srv_SetSnapshotMaxSize s size' = s\<lparr>s_snapshotMaxSize := size', s_r := map_option (\<lambda>r. r\<lparr>r_snapshotMaxSize := size'\<rparr>) (s_r s)\<rparr>"

definition srv_Delete :: "('h, 's) fs_env \<Rightarrow> 'h server \<Rightarrow> 's fsys \<Rightarrow> error option \<times> 'h server \<times> 's fsys" where
  "srv_Delete E s fs =
     (case s_r s of
        None \<Rightarrow> (None, s, fs)
      | Some r \<Rightarrow> (case rp_close E r fs of
          (Some e, fs) \<Rightarrow> (Some e, s, fs)
        | (None, fs) \<Rightarrow> (let (err, fs) = rp_Delete E r fs in (err, s\<lparr>s_r := None\<rparr>, fs))))"

definition srv_Close :: "('h, 's) fs_env \<Rightarrow> 'h server \<Rightarrow> 's fsys \<Rightarrow> error option \<times> 'h server \<times> 's fsys" where
  "srv_Close E s fs =
     (case s_r s of
        None \<Rightarrow> (None, s, fs)
      | Some r \<Rightarrow> (case rp_close E r fs of
          (Some e, fs) \<Rightarrow> (Some e, s, fs)
        | (None, fs) \<Rightarrow> (None, s\<lparr>s_r := None\<rparr>, fs)))"

definition gone :: error where "gone = Errorf ''replica no longer exist''"

definition srv_WriteAt ::
  "('h, 's) fs_env \<Rightarrow> error option \<Rightarrow> 'h server \<Rightarrow> bytes \<Rightarrow> int \<Rightarrow> 's fsys \<Rightarrow> (int \<times> error option \<times> 'h server \<times> 's fsys) option" where
  "srv_WriteAt E ack s buf offset fs =
     (case s_r s of
        None \<Rightarrow> Some (0, Some gone, s, fs)
      | Some r \<Rightarrow> do { (n, err, r, fs) \<leftarrow> rp_WriteAt E ack r buf offset fs; Some (n, err, s\<lparr>s_r := Some r\<rparr>, fs) })"

definition srv_ReadAt ::
  "('h, 's) fs_env \<Rightarrow> 'h server \<Rightarrow> bytes \<Rightarrow> int \<Rightarrow> 's fsys \<Rightarrow> (int \<times> error option \<times> bytes \<times> 'h server) option" where
  "srv_ReadAt E s buf offset fs =
     (case s_r s of
        None \<Rightarrow> Some (0, Some gone, buf, s)
      | Some r \<Rightarrow> do { (n, err, buf, r) \<leftarrow> rp_ReadAt E r buf offset fs; Some (n, err, buf, s\<lparr>s_r := Some r\<rparr>) })"

definition srv_UnmapAt ::
  "('h, 's) fs_env \<Rightarrow> error option \<Rightarrow> 'h server \<Rightarrow> 32 word \<Rightarrow> int \<Rightarrow> 's fsys \<Rightarrow> (int \<times> error option \<times> 'h server \<times> 's fsys) option" where
  "srv_UnmapAt E ack s len offset fs =
     (case s_r s of
        None \<Rightarrow> Some (0, Some gone, s, fs)
      | Some r \<Rightarrow> do { (n, err, r, fs) \<leftarrow> rp_UnmapAt E ack r len offset fs; Some (n, err, s\<lparr>s_r := Some r\<rparr>, fs) })"

definition PingResponse :: "('h, 's) fs_env \<Rightarrow> 'h server \<Rightarrow> 's fsys \<Rightarrow> error option" where
  "PingResponse E s fs =
     (case Status E s fs of (state, info, _) \<Rightarrow>
        if state = Error then Some (Errorf (''ping failure due to '' @ i_Error info))
        else if state \<noteq> Open \<and> state \<noteq> Dirty \<and> state \<noteq> Rebuilding
        then Some (Errorf (''ping failure: replica state '' @ state_name state))
        else None)"

end
