(* ===== verification/Replica_Thms.thy ===== *)
theory Replica_Thms
  imports Replica_Data Replica_Remove Replica_Server
begin

text \<open>
  The properties of a replica: its metadata as a forest of disks, what snapshots and removals do to it under any
  failures of the operating system, and the behaviour of the code where it departs from its
  comments.
\<close>

section \<open>The forest of disks\<close>

text \<open>The abstract state: the parent of every disk.  A snapshot renames the head and hangs a new head below it; removing a disk gives its parent to its children.\<close>

definition forest :: "'h replica \<Rightarrow> string \<Rightarrow> string option" where
  "forest r n = map_option d_Parent (disk_of r n)"

definition spec_snapshot :: "string \<Rightarrow> string \<Rightarrow> string \<Rightarrow> (string \<Rightarrow> string option) \<Rightarrow> string \<Rightarrow> string option" where
  "spec_snapshot head newHead snap F = F(head := None, snap := F head, newHead \<mapsto> snap)"

definition spec_remove :: "string \<Rightarrow> (string \<Rightarrow> string option) \<Rightarrow> string \<Rightarrow> string option" where
  "spec_remove name F n = (if n = name then None else if F n = Some name then F name else F n)"

lemma forest_head:
  assumes "rep_wf r"
  shows "forest r (i_Head (r_info r)) = Some (d_Parent (at r (last (live r))))"
  using head_ptr(1) [OF assms] by (simp add: forest_def disk_of_def)

lemma snapshotted_forest:
  assumes "rep_wf r" "snapshotted r nh snap uc cr lb n f r'" "fresh_names r nh snap"
  shows "forest r' = spec_snapshot (i_Head (r_info r)) nh snap (forest r)"
proof
  fix x
  show "forest r' x = spec_snapshot (i_Head (r_info r)) nh snap (forest r) x"
    using assms(3) forest_head [OF assms(1)]
    by (auto simp: forest_def [of r'] snapshotted_disk_of [OF assms] spec_snapshot_def fresh_names_def) (simp_all add: forest_def)
qed

lemma leaf_forest:
  assumes wf: "rep_wf r" and k: "kids r name = []" "name \<noteq> ''''" and d: "disk_of r' = (disk_of r)(name := None)"
  shows "forest r' = spec_remove name (forest r)"
proof
  fix x
  have "forest r x \<noteq> Some name" using rep_wf_kids(2) [OF wf k(2), of x] k(1) by (auto simp: forest_def)
  then show "forest r' x = spec_remove name (forest r) x" by (simp add: spec_remove_def) (simp add: forest_def d)
qed

lemma relinked_forest:
  assumes wf: "rep_wf r" and oc: "only_child r name c" and rl: "relinked r name c r'"
  shows "forest r' = spec_remove name (forest r)"
proof
  fix x
  note o = only_childD [OF wf oc] and D = relinked_disks(3) [OF wf oc rl]
  have "forest r x = Some name \<longleftrightarrow> x = c"
    using rep_wf_kids(2) [OF wf o(10), of x] oc by (auto simp: forest_def only_child_def)
  moreover obtain p where "map_of (r_diskData r) name = Some p" using o(1) by blast
  ultimately show "forest r' x = spec_remove name (forest r) x"
    using o(6) by (simp add: spec_remove_def forest_def [of r'] D) (simp add: forest_def disk_of_def)
qed

lemma tree_kept_same:
  assumes wf: "rep_wf r" and k: "tree_kept r r'"
  shows "forest r' = forest r" "live_names r' = live_names r" "r_info r' = r_info r" "r_volume r' = r_volume r"
proof -
  have like: "heap_like (r_heap r) (r_heap r')" and e: "r' = r\<lparr>r_heap := r_heap r'\<rparr>" using k by (simp_all add: tree_kept_def)
  have same: "d_Name (at r' p) = d_Name (at r p) \<and> d_Parent (at r' p) = d_Parent (at r p)" if "p < length (r_heap r)" for p
    using like that by (auto simp: heap_like_def same_tree_def at_def)
  have dd: "r_diskData r' = r_diskData r" "live r' = live r" by (subst e, simp add: live_def base_def)+
  show "r_info r' = r_info r" "r_volume r' = r_volume r" by (subst e, simp)+
  show "forest r' = forest r"
  proof
    fix x
    show "forest r' x = forest r x"
      using same tree_okD(2) [OF rep_wfD(1) [OF wf], of x] by (cases "map_of (r_diskData r) x") (auto simp: forest_def disk_of_def dd)
  qed
  show "live_names r' = live_names r" using same live_lt [OF wf] by (simp add: live_names_def dd)
qed

section \<open>Snapshots\<close>



text \<open>
  C18: taking a snapshot does not change what the volume reads: the new head is an empty layer on
  top of the old ones, so every byte of the volume, the invariant of the differencing disk and the coherence of its
  location cache are kept.
\<close>

theorem replica_Snapshot_keeps_data:
  assumes "data_store E V unused" "snap_ready V unused r fs" "rp_Snapshot E r name uc cr lb fs = Some (None, r', fs')"
  shows "dd_wf V (fs_data fs') (r_volume r') \<and> vol_size V (r_volume r') = vol_size V (r_volume r) \<and>
    (\<forall>p < vol_size V (r_volume r). vol_byte V (fs_data fs') (r_volume r') p = vol_byte V (fs_data fs) (r_volume r) p) \<and>
    (coherent V (fs_data fs) (r_volume r) \<longrightarrow> coherent V (fs_data fs') (r_volume r'))"
  by (rule data_store.snapshot_content [OF assms])

lemma ex_snapshot:
  "case rp_Snapshot (mem_env 2 (\<lambda>_. None)) ex_rep ''s'' True ''t'' None ex_fs of Some (None, r', fs') \<Rightarrow> True | _ \<Rightarrow> False"
  by code_simp

theorem replica_Snapshot_keeps_data_witness:
  "\<exists>r' fs'. rp_Snapshot (mem_env 2 (\<lambda>_. None)) ex_rep ''s'' True ''t'' None ex_fs = Some (None, r', fs') \<and>
    dd_wf (sf_view 2) (fs_data fs') (r_volume r') \<and>
    vol_byte (sf_view 2) (fs_data fs') (r_volume r') 5 = vol_byte (sf_view 2) (fs_data ex_fs) (r_volume ex_rep) 5"
proof -
  obtain r' fs' where run: "rp_Snapshot (mem_env 2 (\<lambda>_. None)) ex_rep ''s'' True ''t'' None ex_fs = Some (None, r', fs')"
    using ex_snapshot by (auto split: option.splits prod.splits)
  have "5 < vol_size (sf_view 2) (r_volume ex_rep)" by (simp add: ex_rep_def sf_view_def)
  then show ?thesis using replica_Snapshot_keeps_data [OF data_store_mem ex_ready run] run by auto
qed

text \<open>
  The limit on snapshots holds: a snapshot that succeeds leaves at most snapshotMaxCount disks counted
  by getSnapshotCountUsage, which are the disks that are neither the head nor marked as removed.
\<close>

lemma replica_Snapshot_within_limit:
  assumes "rep_wf r" "rp_Snapshot E r name uc cr lb fs = Some (None, r', fs')"
  shows "getSnapshotCountUsage r' \<le> r_snapshotMaxCount r' \<and>
    getSnapshotCountUsage r' = int (card {n. \<exists>d. disk_of r' n = Some d \<and> \<not> d_Removed d \<and> n \<noteq> i_Head (r_info r')})"
proof -
  from createDisk_outcome [OF assms(1), of E name uc cr lb "i_Size (r_info r)" fs] assms(2) obtain nh f where
    s: "nextFile (i_Head (r_info r)) = Inr nh" "fresh_names r nh (GenerateSnapshotDiskName name)"
      "snapshotted r nh (GenerateSnapshotDiskName name) uc cr lb (i_Size (r_info r)) f r'" "0 < getRemainSnapshotCounts r" "rep_wf r'"
    unfolding rp_Snapshot_def by auto
  have "nh \<noteq> ''''" using nextFile_head [OF s(1)] by (auto simp: IsHeadDisk_def VolumeHeadDiskPrefix_def)
  from snapshotted_count [OF assms(1) s(3,2) IsHeadDisk_snapshot this] s(4)
  have "getSnapshotCountUsage r' \<le> r_snapshotMaxCount r" by (auto simp: getRemainSnapshotCounts_def split: if_splits)
  moreover have "r_snapshotMaxCount r' = r_snapshotMaxCount r" using s(3) by (simp add: snapshotted_def Let_def)
  ultimately show ?thesis using count_usage_wf [OF s(5)] by simp
qed

section \<open>Removing disks\<close>

lemma removeDiskNode_many:
  assumes "rep_wf r" "name \<noteq> ''''" "1 < length (kids r name)"
  shows "removeDiskNode E r name False fs =
    Some (Some (Errorf (''cannot remove snapshot '' @ name @ '' with '' @ showNat (length (kids r name)) @ '' children'')), r, fs)"
  using rep_wf_kids(3) [OF assms(1,2)] assms(3) by (cases "kids r name") (auto simp: removeDiskNode_def)

lemma removeDiskNode_leaf:
  assumes wf: "rep_wf r" and p: "map_of (r_diskData r) name = Some p" "kids r name = []"
  shows "removeDiskNode E r name force fs =
    Some (None, rmChildDisk (d_Parent (at r p)) name r\<lparr>r_diskData := AList.delete name (r_diskData r)\<rparr>, fs)"
proof -
  have "name \<noteq> ''''" using tree_okD(2) [OF rep_wfD(1) [OF wf] p(1)] by simp
  then have "map_of (r_diskChildrenMap r) name = None" using rep_wf_kids(3) [OF wf] p(2) by simp
  then show ?thesis using p(1) by (simp add: removeDiskNode_def updateChildDisk_def disk_of_def)
qed

text \<open>
  C19: removeDiskNode of a disk that is neither the head nor the backing file returns.  With several
  children and without force it reports an error and changes nothing.  Otherwise, when it reports no error, the
  invariant holds again, the forest is the one of the specification (the child inherits the parent) and the disk has
  left the live chain, if it was there.
\<close>

theorem replica_removeDiskNode_refines:
  assumes "rep_wf r" "map_of (r_diskData r) name \<noteq> None" "name \<noteq> i_Head (r_info r)"
    and "\<forall>path h. r_BackingFile r = Some (path, h) \<longrightarrow> name \<noteq> path" "length (kids r name) \<le> 1 \<or> \<not> force"
  shows "\<exists>err r' fs'. removeDiskNode E r name force fs = Some (err, r', fs') \<and>
    (if 1 < length (kids r name) then err \<noteq> None \<and> r' = r \<and> fs' = fs
     else err = None \<longrightarrow> rep_wf r' \<and> forest r' = spec_remove name (forest r) \<and> live_names r' = remove1 name (live_names r))"
proof -
  obtain p where p: "map_of (r_diskData r) name = Some p" using assms(2) by blast
  have nm: "name \<noteq> ''''" using tree_okD(2) [OF rep_wfD(1) [OF assms(1)] p] by simp
  consider "1 < length (kids r name)" | "kids r name = []" | c where "kids r name = [c]"
    by (cases "kids r name"; cases "tl (kids r name)") auto
  then show ?thesis
  proof cases
    case 1
    then show ?thesis using removeDiskNode_many [OF assms(1) nm 1, of E fs] assms(5) by simp
  next
    case 2
    define r' where "r' = rmChildDisk (d_Parent (at r p)) name r\<lparr>r_diskData := AList.delete name (r_diskData r)\<rparr>"
    note R = remove_leaf [OF assms(1) p assms(3) 2, folded r'_def]
    have nb: "\<And>path h. r_BackingFile r = Some (path, h) \<Longrightarrow> name \<noteq> path" using assms(4) by blast
    have "name \<notin> set (live_names r)"
      using leaf_not_live [OF assms(1) p assms(3) 2] live_okD(4) [OF rep_wfD(3) [OF assms(1)]] p by (auto simp: live_names_def)
    then have "live_names r' = remove1 name (live_names r)" using R(4) [OF nb] by (simp add: remove1_idem)
    then show ?thesis using R(1) [OF nb] leaf_forest [OF assms(1) 2 nm R(2) [OF nb]] removeDiskNode_leaf [OF assms(1) p 2, of E force fs] 2
      by (simp add: r'_def)
  next
    case (3 c)
    then have oc: "only_child r name c" using assms(2-4) by (simp add: only_child_def)
    obtain err r' fs' where run: "removeDiskNode E r name force fs = Some (err, r', fs')" "err = None \<longrightarrow> relinked r name c r'"
      using removeDiskNode_one_child [OF assms(1) oc] by blast
    then show ?thesis
      using relinked_wf [OF assms(1) oc] relinked_forest [OF assms(1) oc] relinked_live(4) [OF assms(1) oc] 3 by auto
  qed
qed

theorem replica_removeDiskNode_refines_witness:
  "\<exists>err r' fs'. removeDiskNode (mem_env 2 (\<lambda>_. None)) ex_rep ''volume-snap-b.img'' False ex_fs = Some (err, r', fs') \<and> err = None \<and>
     rep_wf r' \<and> forest r' = spec_remove ''volume-snap-b.img'' (forest ex_rep) \<and>
     live_names r' = [''volume-snap-a.img'', ''volume-head-002.img'']"
proof -
  let ?run = "removeDiskNode (mem_env 2 (\<lambda>_. None)) ex_rep ''volume-snap-b.img'' False ex_fs"
  have e: "map_option fst ?run = Some None" by code_simp
  have k: "length (kids ex_rep ''volume-snap-b.img'') = 1" "remove1 ''volume-snap-b.img'' (live_names ex_rep) = [''volume-snap-a.img'', ''volume-head-002.img'']"
    by code_simp+
  have "map_of (r_diskData ex_rep) ''volume-snap-b.img'' \<noteq> None" "''volume-snap-b.img'' \<noteq> i_Head (r_info ex_rep)"
    "\<forall>path h. r_BackingFile ex_rep = Some (path, h) \<longrightarrow> ''volume-snap-b.img'' \<noteq> path" by (simp_all add: ex_rep_def)
  from replica_removeDiskNode_refines [OF ex_rep_wf this, of False "mem_env 2 (\<lambda>_. None)" ex_fs] e show ?thesis by (auto simp: k)
qed

text \<open>
  RemoveDiffDisk of a name that is not in the maps panics: updateChildDisk dereferences the
  struct of an unknown disk.
\<close>

lemma replica_RemoveDiffDisk_unknown:
  assumes "map_of (r_diskData r) name = None" "map_of (r_diskChildrenMap r) name = None" "name \<noteq> i_Head (r_info r)"
  shows "RemoveDiffDisk E r name force fs = None"
  using assms by (simp add: RemoveDiffDisk_def removeDiskNode_def updateChildDisk_def disk_of_def)

section \<open>The chain\<close>

text \<open>
  The loop of Replica.Chain ends on well-formed metadata, and returns the live chain with the head first;
  DisplayChain returns it without the disks marked as removed.
\<close>

lemma replica_Chain_terminates:
  assumes "rep_wf r"
  shows "Chain r = Some (Inr (rev (live_names r))) \<and>
    DisplayChain r = Some (Inr (rev (filter (\<lambda>n. \<exists>d. disk_of r n = Some d \<and> \<not> d_Removed d) (live_names r))))"
proof -
  have d: "disk_of r (d_Name (at r p)) = Some (at r p)" if "p \<in> set (live r)" for p
    using live_okD(4) [OF rep_wfD(3) [OF assms] that] by (simp add: disk_of_def)
  have "filter (\<lambda>n. \<exists>d. disk_of r n = Some d \<and> \<not> d_Removed d) (live_names r) = map (\<lambda>p. d_Name (at r p)) (filter (\<lambda>p. \<not> d_Removed (at r p)) (live r))"
    using d by (simp add: live_names_def filter_map comp_def cong: filter_cong)
  then show ?thesis using Chain_live [OF assms] DisplayChain_live [OF assms] by simp
qed

text \<open>
  Nothing in the loop guards against a cycle in the metadata files: from a disk all of whose
  ancestors have a parent, Chain never returns.
\<close>

lemma replica_Chain_cycle:
  assumes "\<forall>n \<in> A. \<exists>d. dd n = Some d \<and> d_Parent d \<in> A" "'''' \<notin> A" "cur \<in> A"
  shows "chain_loop dd cur result = None"
proof -
  have "(\<forall>n \<in> A. \<exists>d. dd n = Some d \<and> d_Parent d \<in> A) \<longrightarrow> cur \<notin> A" if "chain_loop dd cur result = Some res" for res
  proof (rule chain_loop.raw_induct [OF _ that])
    fix loop :: "(string \<Rightarrow> disk option) \<Rightarrow> string \<Rightarrow> string list \<Rightarrow> (error + string list) option" and dd cur result res
    assume 1: "\<And>dd cur result res. loop dd cur result = Some res \<Longrightarrow> (\<forall>n \<in> A. \<exists>d. dd n = Some d \<and> d_Parent d \<in> A) \<longrightarrow> cur \<notin> A"
      "(if cur = '''' then Some (Inr result)
        else case dd cur of
             None \<Rightarrow> Some (Inl (Errorf (''failed to find metadata for '' @ cur)))
             | Some d \<Rightarrow> loop dd (d_Parent d) (result @ [cur])) = Some res"
    show "(\<forall>n \<in> A. \<exists>d. dd n = Some d \<and> d_Parent d \<in> A) \<longrightarrow> cur \<notin> A"
    proof (intro impI notI)
      assume A: "\<forall>n \<in> A. \<exists>d. dd n = Some d \<and> d_Parent d \<in> A" "cur \<in> A"
      then obtain d where d: "dd cur = Some d" "d_Parent d \<in> A" by blast
      then have "loop dd (d_Parent d) (result @ [cur]) = Some res" using 1(2) A(2) assms(2) by (auto split: if_splits)
      then show False using 1(1) A(1) d(2) by blast
    qed
  qed
  then show ?thesis using assms(1,3) by (cases "chain_loop dd cur result") auto
qed

section \<open>Names of heads\<close>

text \<open>
  The number of the head does not grow: the group of diskPattern captures only the last digit,
  so after head 10 comes head 1 again, and the numbers 1 to 10 repeat for ever.
\<close>

lemma replica_nextFile_cycles:
  assumes "k \<le> 10"
  shows "nextFile (head_name k) = Inr (head_name (k mod 10 + 1))"
proof -
  have "\<forall>k \<in> set [0 ..< 11]. nextFile (head_name k) = Inr (head_name (k mod 10 + 1))" by code_simp
  moreover have "k \<in> set [0 ..< 11]" using assms by simp
  ultimately show ?thesis by (rule bspec)
qed

section \<open>Rollback\<close>

text \<open>
  The rollback of createDisk is not complete.  When the metadata of the new snapshot cannot be
  written, the snapshot fails and the maps are restored, but the struct of the head keeps the labels, the creation time
  and the UserCreated flag of the snapshot.
\<close>

lemma replica_createDisk_rollback_incomplete:
  "\<exists>e r' fs'. createDisk (mem_env 2 (\<lambda>k. if k = 17 then Some EOF else None)) ex_rep ''s'' True ''t'' (Some [(''k'', ''v'')]) 8 ex_fs = Some (Some e, r', fs') \<and>
     disk_of ex_rep (i_Head (r_info ex_rep)) = Some (ex_disk ''volume-head-002.img'' ''volume-snap-b.img'' False) \<and>
     disk_of r' (i_Head (r_info r')) = Some ((ex_disk ''volume-head-002.img'' ''volume-snap-b.img'' False)\<lparr>d_UserCreated := True, d_Created := ''t'', d_Labels := Some [(''k'', ''v'')]\<rparr>)"
proof -
  have "case createDisk (mem_env 2 (\<lambda>k. if k = 17 then Some EOF else None)) ex_rep ''s'' True ''t'' (Some [(''k'', ''v'')]) 8 ex_fs of
      Some (Some e, r', fs') \<Rightarrow> disk_of r' (i_Head (r_info r')) = Some ((ex_disk ''volume-head-002.img'' ''volume-snap-b.img'' False)\<lparr>d_UserCreated := True, d_Created := ''t'', d_Labels := Some [(''k'', ''v'')]\<rparr>)
    | _ \<Rightarrow> False" by code_simp
  moreover have "disk_of ex_rep (i_Head (r_info ex_rep)) = Some (ex_disk ''volume-head-002.img'' ''volume-snap-b.img'' False)" by code_simp
  ultimately show ?thesis by (auto split: option.splits prod.splits)
qed

section \<open>Reverting\<close>

definition ex_srv :: "string server" where
  "ex_srv = (NewServer ''/r'' None 2 True False 250 0)\<lparr>s_r := Some ex_rep\<rparr>"

text \<open>
  Server.Revert can report success and drop the replica.  When the new volume metadata cannot be written but the
  old one can be written again, revertDisk returns a nil replica with a nil error, and the server takes
  the nil for the reverted replica.
\<close>

lemma server_Revert_loses_replica:
  "\<exists>s' fs'. srv_Revert (mem_env 2 (\<lambda>k. if k = 9 then Some EOF else None)) ex_srv ''volume-snap-a.img'' ''t'' ex_fs = Some (None, s', fs') \<and>
     s_r ex_srv \<noteq> None \<and> s_r s' = None"
proof -
  have "case srv_Revert (mem_env 2 (\<lambda>k. if k = 9 then Some EOF else None)) ex_srv ''volume-snap-a.img'' ''t'' ex_fs of
      Some (None, s', fs') \<Rightarrow> (case s_r s' of None \<Rightarrow> True | Some _ \<Rightarrow> False) | _ \<Rightarrow> False" by code_simp
  then show ?thesis by (auto simp: ex_srv_def split: option.splits prod.splits)
qed

section \<open>Unmapping\<close>

text \<open>
  The files that Replica.UnmapAt hands to the differencing disk (when disks are not marked on the way): the head, and the
  disks marked as removed among those that come before the first disk with several children, from
  the head's parent on.
\<close>

lemma replica_unmappable_disks:
  assumes "\<not> r_unmapMarkDiskChainRemoved r" "\<forall>i \<in> set ids. \<exists>p. index (r_activeDiskData r) (int i) = Some (Some p)"
  shows "unmappable E ids acc r fs = Some (Inr (acc @ map (\<lambda>d. path_of r (d_Name d)) (filter d_Removed
    (takeWhile (\<lambda>d. child_count r (d_Name d) \<le> 1) (map (\<lambda>i. at r (the (the (index (r_activeDiskData r) (int i))))) ids)))), r, fs)"
  using assms(2)
proof (induction ids arbitrary: acc)
  case (Cons i ids)
  then obtain p where p: "index (r_activeDiskData r) (int i) = Some (Some p)" by auto
  show ?case
  proof (cases "child_count r (d_Name (at r p)) > 1")
    case True
    then show ?thesis using p by simp
  next
    case False
    have prem: "\<forall>i \<in> set ids. \<exists>p. index (r_activeDiskData r) (int i) = Some (Some p)" using Cons.prems by simp
    show ?thesis using p assms(1) False Cons.IH [OF prem] by (simp add: not_less)
  qed
qed simp

text \<open>The small replica with the marks the other way round: the older snapshot is marked as removed, the newer one, which holds the data, is kept.\<close>

definition unmap_rep :: "string replica" where
  "unmap_rep = ex_rep\<lparr>r_heap := [ex_disk ''volume-snap-a.img'' '''' True, ex_disk ''volume-snap-b.img'' ''volume-snap-a.img'' False,
       ex_disk ''volume-head-002.img'' ''volume-snap-b.img'' False],
     r_volume := \<lparr>location = [0, 0, 0, 0], files = [None, Some ''10'', Some ''11'', Some ''12''], sectorSize = 2, dd_size = 8\<rparr>\<rparr>"

definition unmap_fs :: "sstore fsys" where
  "unmap_fs = ex_fs\<lparr>fs_data := [''10'' \<mapsto> sf_hole 2 4,
     ''11'' \<mapsto> \<lparr>sf_bytes = [1, 2, 3, 4, 5, 6, 7, 8], sf_blocks = [True, True, True, True], sf_open = True\<rparr>, ''12'' \<mapsto> sf_hole 2 4]\<rparr>"


section \<open>The layout of the data\<close>

text \<open>Consecutive intervals from \<open>a\<close> to \<open>b\<close>, none of them empty and neighbours of different type.\<close>

fun tiles :: "int \<Rightarrow> int \<Rightarrow> (bool \<times> int \<times> int) list \<Rightarrow> bool" where
  "tiles a b [] \<longleftrightarrow> a = b"
| "tiles a b ((t, l, u) # xs) \<longleftrightarrow> l = a \<and> l < u \<and> (case xs of [] \<Rightarrow> True | (t', _) # _ \<Rightarrow> t' \<noteq> t) \<and> tiles u b xs"

lemma tiles_snoc:
  "tiles a b (xs @ [(t, l, u)]) \<longleftrightarrow> tiles a l xs \<and> l < u \<and> u = b \<and> (xs \<noteq> [] \<longrightarrow> fst (last xs) \<noteq> t)"
proof (induction xs arbitrary: a)
  case (Cons x xs)
  obtain t' l' u' where "x = (t', l', u')" by (cases x)
  then show ?case using Cons by (cases xs) auto
qed auto

lemma tiles_le: "tiles a b xs \<Longrightarrow> a \<le> b \<and> (xs \<noteq> [] \<longrightarrow> a < b)"
  by (induction a b xs rule: tiles.induct) auto

text \<open>What the loop has done after \<open>i\<close> sectors: the intervals sent reach up to lastOffset, and the type of every sector is right.\<close>

definition sector_ok :: "int \<Rightarrow> 8 word list \<Rightarrow> nat \<Rightarrow> bool \<Rightarrow> int \<Rightarrow> (bool \<times> int \<times> int) list \<Rightarrow> bool" where
  "sector_ok ss L j t x out \<longleftrightarrow>
     (if int j * ss < x then \<exists>l u. (L ! j \<ge> 1, l, u) \<in> set out \<and> l \<le> int j * ss \<and> int (Suc j) * ss \<le> u else (L ! j \<ge> 1) = t)"

definition layout_inv :: "int \<Rightarrow> 8 word list \<Rightarrow> nat \<Rightarrow> bool \<Rightarrow> int \<Rightarrow> (bool \<times> int \<times> int) list \<Rightarrow> bool" where
  "layout_inv ss L i t x out \<longleftrightarrow> tiles 0 x out \<and> (out \<noteq> [] \<longrightarrow> fst (last out) \<noteq> t) \<and> x \<le> int i * ss \<and> (0 < i \<longrightarrow> x < int i * ss) \<and>
     (\<exists>k. x = int k * ss) \<and>
     (\<forall>j < i. sector_ok ss L j t x out)"

lemma layout_step:
  assumes inv: "layout_inv ss L i t x out" and ss: "0 < ss" and cur: "c = (L ! i \<ge> 1)"
  shows "c = t \<Longrightarrow> layout_inv ss L (Suc i) t x out"
    "c \<noteq> t \<Longrightarrow> layout_inv ss L (Suc i) c (int i * ss) (if x < int i * ss then out @ [(t, x, int i * ss)] else out)"
proof -
  have le: "x \<le> int i * ss" "int i * ss < int (Suc i) * ss" using inv ss by (auto simp: layout_inv_def distrib_right)
  note I = inv [unfolded layout_inv_def]
  have J: "sector_ok ss L j t x out" if "j < i" for j
    using I that by blast
  { assume "c = t"
    then have "sector_ok ss L j t x out" if "j < Suc i" for j
      using J [of j] that le(1) cur by (cases "j = i") (auto simp: sector_ok_def)
    then show "layout_inv ss L (Suc i) t x out" unfolding layout_inv_def using I le by (intro conjI) auto }
  assume ne: "c \<noteq> t"
  let ?out = "if x < int i * ss then out @ [(t, x, int i * ss)] else out"
  have "sector_ok ss L j c (int i * ss) ?out" if "j < Suc i" for j
  proof (cases "j = i")
    case False
    then have ji: "j < i" "int (Suc j) * ss \<le> int i * ss" using that ss by (auto intro: mult_right_mono)
    then have lt: "int j * ss < int i * ss" using ss by simp
    show ?thesis
    proof (cases "int j * ss < x")
      case True
      then show ?thesis using J [OF ji(1)] lt by (auto simp: sector_ok_def)
    next
      case False
      then have "(L ! j \<ge> 1) = t" "x < int i * ss" using J [OF ji(1)] I ji(1) by (auto simp: sector_ok_def)
      then have "(L ! j \<ge> 1, x, int i * ss) \<in> set ?out" "x \<le> int j * ss" using False by auto
      then show ?thesis using lt ji(2) unfolding sector_ok_def by (simp only: if_True) blast
    qed
  qed (use cur in \<open>simp add: sector_ok_def\<close>)
  moreover have "tiles 0 (int i * ss) ?out" using I by (auto simp: tiles_snoc)
  moreover have "?out \<noteq> [] \<longrightarrow> fst (last ?out) \<noteq> c"
  proof (cases "x < int i * ss")
    case False
    then have "i = 0" using I by auto
    then have "out = []" using I tiles_le [of 0 x out] by (cases "out = []") auto
    then show ?thesis using False by simp
  qed (use ne in auto)
  ultimately show "layout_inv ss L (Suc i) c (int i * ss) ?out" unfolding layout_inv_def using le by (intro conjI) auto
qed

lemma layout_loop_inv:
  "layout_inv ss L i t x out \<Longrightarrow> 0 < ss \<Longrightarrow> drop i L = loc \<Longrightarrow>
   layout_loop ss loc i t x out = (t', x', out') \<Longrightarrow> layout_inv ss L (max i (length L)) t' x' out'"
proof (induction loc arbitrary: i t x out)
  case Nil
  then show ?case by (simp add: max_def)
next
  case (Cons c loc)
  have "\<not> length L \<le> i" using Cons.prems(3) by auto
  then have il: "i < length L" by simp
  then have c: "L ! i = c" "drop (Suc i) L = loc" using Cons.prems(3) by (simp_all add: Cons_nth_drop_Suc [symmetric])
  have m: "max i (length L) = max (Suc i) (length L)" using il by simp
  note st = layout_step [OF Cons.prems(1,2) refl, unfolded c(1)]
  show ?case
  proof (cases "(c \<ge> 1) = t")
    case True
    have "layout_loop ss loc (Suc i) t x out = (t', x', out')" using Cons.prems(4) True by (auto simp: Let_def)
    then show ?thesis unfolding m using Cons.IH [OF st(1) [OF True] Cons.prems(2) c(2)] by simp
  next
    case False
    have "layout_loop ss loc (Suc i) (c \<ge> 1) (int i * ss) (if x < int i * ss then out @ [(t, x, int i * ss)] else out) = (t', x', out')"
      using Cons.prems(4) False by (simp add: Let_def)
    then show ?thesis unfolding m using Cons.IH [OF st(2) [OF False] Cons.prems(2) c(2)] by simp
  qed
qed

text \<open>
  GetDataLayout describes the whole volume: its intervals follow each other without a gap from 0 to the size of
  the volume, neighbours have different types, and every sector lies in an interval of its type, data when the
  location of the sector is known and hole otherwise.
\<close>

lemma replica_GetDataLayout_tiles:
  assumes "0 < sectorSize (r_volume r)" "dd_size (r_volume r) = int (length (location (r_volume r))) * sectorSize (r_volume r)"
  shows "tiles 0 (dd_size (r_volume r)) (GetDataLayout r) \<and>
    (\<forall>j < length (location (r_volume r)). \<exists>l u. (location (r_volume r) ! j \<ge> 1, l, u) \<in> set (GetDataLayout r) \<and>
       l \<le> int j * sectorSize (r_volume r) \<and> int (Suc j) * sectorSize (r_volume r) \<le> u)"
proof -
  define ss L where "ss = sectorSize (r_volume r)" and "L = location (r_volume r)"
  obtain t x out where run: "layout_loop ss L 0 False 0 [] = (t, x, out)" using prod_cases3 by blast
  have "\<exists>k. (0 :: int) = int k * ss" by (rule exI [of _ 0]) simp
  then have "layout_inv ss L 0 False 0 []" by (simp add: layout_inv_def)
  from layout_loop_inv [OF this _ _ run] have I: "layout_inv ss L (length L) t x out" using assms(1) by (simp add: ss_def)
  have sz: "dd_size (r_volume r) = int (length L) * ss" using assms(2) by (simp add: ss_def L_def)
  have lay: "GetDataLayout r = (if x < int (length L) * ss then out @ [(t, x, int (length L) * ss)] else out)"
    using run by (simp add: GetDataLayout_def ss_def [symmetric] L_def [symmetric] sz)
  have tl: "tiles 0 (int (length L) * ss) (GetDataLayout r)" using I by (auto simp: lay layout_inv_def tiles_snoc)
  have "\<exists>l u. (L ! j \<ge> 1, l, u) \<in> set (GetDataLayout r) \<and> l \<le> int j * ss \<and> int (Suc j) * ss \<le> u" if j: "j < length L" for j
  proof -
    have s: "sector_ok ss L j t x out" using I j by (simp add: layout_inv_def)
    have "Suc j \<le> length L" using j by simp
    then have b: "int (Suc j) * ss \<le> int (length L) * ss" using assms(1) by (intro mult_right_mono) (auto simp: ss_def)
    have xl: "x < int (length L) * ss" using I j by (auto simp: layout_inv_def)
    show ?thesis
    proof (cases "int j * ss < x")
      case True
      then show ?thesis using s xl by (auto simp: sector_ok_def lay)
    next
      case False
      then have "(L ! j \<ge> 1, x, int (length L) * ss) \<in> set (GetDataLayout r)" "x \<le> int j * ss" using s xl by (auto simp: sector_ok_def lay)
      then show ?thesis using b by blast
    qed
  qed
  then show ?thesis using tl by (simp add: sz ss_def [symmetric] L_def [symmetric])
qed

end
