(* ===== verification/Server_Thms.thy ===== *)
theory Server_Thms
  imports Replica_Thms
begin

text \<open>
  The states of the replica server and the file of the revision counter.
\<close>

section \<open>States\<close>

text \<open>
  The guard of SetRebuilding.  The flag can be set only in the states open and dirty and cleared only in the state
  rebuilding; when the call succeeds the state becomes rebuilding, or dirty or open again, and
  when it is refused nothing changes.
\<close>

lemma server_SetRebuilding_states:
  assumes "s_r s = Some r"
  shows "\<exists>err s' fs'. srv_SetRebuilding E s b fs = Some (err, s', fs') \<and>
    (if (if b then fst (Status E s fs) \<in> {Open, Dirty} else fst (Status E s fs) = Rebuilding)
     then err = None \<longrightarrow> fst (Status E s' fs') = (if b then Rebuilding else if i_Dirty (r_info r) then Dirty else Open)
     else err \<noteq> None \<and> s' = s)"
proof -
  obtain err r' fs' where run: "rp_SetRebuilding E r b fs = (err, r', fs')" using prod_cases3 by blast
  have eff: "err = None \<longrightarrow> r_info r' = (r_info r)\<lparr>i_Rebuilding := b\<rparr>"
    using run by (auto simp: rp_SetRebuilding_def split: prod.splits option.splits)
  have st: "fst (Status E s fs) = open_state (r_info r)" using assms by (simp add: Status_def)
  show ?thesis
  proof (cases "if b then open_state (r_info r) \<in> {Open, Dirty} else open_state (r_info r) = Rebuilding")
    case True
    then have "srv_SetRebuilding E s b fs = Some (err, s\<lparr>s_r := Some r'\<rparr>, fs')"
      using run assms by (auto simp: srv_SetRebuilding_def Status_def split: if_splits)
    moreover have "i_Error (r_info r) = ''''" using True by (auto simp: open_state_def split: if_splits)
    ultimately show ?thesis using True eff st by (auto simp: Status_def open_state_def split: if_splits)
  next
    case False
    then show ?thesis using assms st by (cases b) (auto simp: srv_SetRebuilding_def Status_def)
  qed
qed

text \<open>
  PingResponse answers without an error exactly when a replica is open and has not recorded an error; a server whose
  replica is closed is never healthy.
\<close>

lemma server_PingResponse_healthy:
  "PingResponse E s fs = None \<longleftrightarrow> (\<exists>r. s_r s = Some r \<and> i_Error (r_info r) = '''')"
proof (cases "s_r s")
  case None
  obtain res fs1 where ri: "ReadInfo E (s_dir s) fs = (res, fs1)" by fastforce
  obtain v info fs2 where cv: "checkValidVolumeMetaData E (s_dir s) zero_Info fs1 = (v, info, fs2)" using prod_cases3 by blast
  have "fst (Status E s fs) \<in> {Initial, Error, Closed}"
    using None ri cv by (auto simp: Status_def split: sum.split error.split bool.split)
  then show ?thesis using None by (auto simp: PingResponse_def split: prod.splits)
next
  case (Some r)
  then show ?thesis by (auto simp: PingResponse_def Status_def open_state_def)
qed

section \<open>The revision counter on disk\<close>

lemma digits_not_zero: "list_all isDigit s \<Longrightarrow> CHR 0x00 \<notin> set s"
  by (auto simp: list_all_iff isDigit_def)

lemma showInt_not_zero: "CHR 0x00 \<notin> set (showInt i)"
  using digits_not_zero [OF showNat_digits] by (auto simp: showInt_def)

lemma showInt_ne: "showInt i \<noteq> []"
  by (simp add: showInt_def)

lemma trim_zeros_text:
  assumes "CHR 0x00 \<notin> set s" "s \<noteq> []"
  shows "trim_zeros (s @ replicate n CHR 0x00) = s"
proof -
  have d: "dropWhile (\<lambda>c. c = CHR 0x00) (t @ u) = t @ u" if "CHR 0x00 \<notin> set t" "t \<noteq> []" for t u
    using that by (cases t) auto
  have "dropWhile (\<lambda>c. c = CHR 0x00) (replicate n CHR 0x00 @ rev s) = rev s"
    using d [of "rev s" "[]"] assms by (induction n) auto
  then show ?thesis using d [OF assms] by (simp add: trim_zeros_def)
qed

lemma showNat_length: "n < 10 ^ Suc k \<Longrightarrow> length (showNat n) \<le> Suc k"
proof (induction k arbitrary: n)
  case (Suc k)
  have "n div 10 < 10 ^ Suc k" using Suc.prems by (simp add: less_mult_imp_div_less)
  then show ?case using Suc.IH [of "n div 10"] by (subst showNat.simps) simp
qed (simp add: showNat.simps)

lemma showInt_length:
  assumes "minInt64 \<le> i" "i \<le> maxInt64"
  shows "length (showInt i) \<le> 20"
proof -
  have "nat \<bar>i\<bar> < 10 ^ Suc 18" using assms by (simp add: minInt64_def maxInt64_def)
  from showNat_length [OF this] show ?thesis by (auto simp: showInt_def)
qed

text \<open>The buffer of the counter: only its first 20 bytes are ever used.\<close>

definition counter_buf_ok :: "bytes \<Rightarrow> bool" where
  "counter_buf_ok buf \<longleftrightarrow> length buf = revisionBlockSize \<and> (\<forall>k. 20 \<le> k \<longrightarrow> k < revisionBlockSize \<longrightarrow> buf ! k = 0)"

lemma fill_counter_eq:
  assumes "counter_buf_ok buf" "minInt64 \<le> c" "c \<le> maxInt64"
  shows "fill_counter buf c = text_bytes (showInt c) @ zeros (revisionBlockSize - length (showInt c))"
proof (rule nth_equalityI)
  have l: "length (text_bytes (showInt c)) = length (showInt c)" "length (showInt c) \<le> 20"
    using showInt_length [OF assms(2,3)] by (simp_all add: text_bytes_def)
  have b: "length buf = 4096" "\<And>k. 20 \<le> k \<Longrightarrow> k < 4096 \<Longrightarrow> buf ! k = 0"
    using assms(1) by (simp_all add: counter_buf_ok_def revisionBlockSize_def)
  show "length (fill_counter buf c) = length (text_bytes (showInt c) @ zeros (revisionBlockSize - length (showInt c)))"
    using l b(1) by (simp add: fill_counter_def Let_def revisionBlockSize_def)
  fix k assume "k < length (fill_counter buf c)"
  then have k: "k < 4096" using l b(1) by (simp add: fill_counter_def Let_def)
  consider "k < length (showInt c)" | "length (showInt c) \<le> k" "k < 20" | "20 \<le> k" by linarith
  then show "fill_counter buf c ! k = (text_bytes (showInt c) @ zeros (revisionBlockSize - length (showInt c))) ! k"
    using l b k by cases (simp_all add: fill_counter_def Let_def nth_blit nth_append revisionBlockSize_def)
qed

text \<open>
  C22: the revision counter survives a restart: what writeRevisionCounter wrote, for any int64, is what readRevisionCounter
  reads from the file, although the buffer is reused and only its first 20 bytes are cleared.
\<close>

theorem replica_revision_counter_roundtrip:
  assumes "disk_layer (dops E) V" "r_revisionFile r = Some h" "v_live V (fs_data fs) h" "revisionBlockSize \<le> v_size V (fs_data fs) h"
    and "v_bs V dvd revisionBlockSize" "counter_buf_ok (revisionCounterBuf fs)" "minInt64 \<le> c" "c \<le> maxInt64"
  shows "\<exists>fs'. writeRevisionCounter E r c fs = (None, fs') \<and> readRevisionCounter E r fs' = Inr c \<and>
    counter_buf_ok (revisionCounterBuf fs') \<and> v_live V (fs_data fs') h"
proof -
  let ?t = "showInt c"
  define buf where "buf = text_bytes ?t @ zeros (revisionBlockSize - length ?t)"
  have tl: "length ?t \<le> 20" by (rule showInt_length [OF assms(7,8)])
  have fb: "fill_counter (revisionCounterBuf fs) c = buf" using fill_counter_eq [OF assms(6-8)] by (simp add: buf_def)
  have bl: "length buf = revisionBlockSize" using tl by (simp add: buf_def text_bytes_def revisionBlockSize_def)
  from disk_layer.write_law [OF assms(1,3), of 0 buf] assms(4,5) bl obtain s' where
    w: "op_WriteAt (dops E) h buf 0 (fs_data fs) = (int (length buf), None, s')" "v_live V s' = v_live V (fs_data fs)"
      "v_size V s' = v_size V (fs_data fs)" and dt: "\<And>p. p < length buf \<Longrightarrow> v_data V s' h p = buf ! p" by auto
  define fs' where "fs' = fs\<lparr>fs_data := s', revisionCounterBuf := buf\<rparr>"
  have wr: "writeRevisionCounter E r c fs = (None, fs')"
    using assms(2) w(1) fb by (simp add: writeRevisionCounter_def fs'_def Wrapf_def)
  have "map (v_data V s' h) [0 ..< length buf] = buf" using dt by (intro nth_equalityI) simp_all
  then have rd: "op_ReadAt (dops E) h (zeros revisionBlockSize) 0 s' = (int revisionBlockSize, None, buf)"
    using disk_layer.read_law [OF assms(1), of s' h 0 "zeros revisionBlockSize"] w assms(3,4) bl by simp
  have "char_of (0 :: nat) = CHR 0x00" by code_simp
  then have "trim_zeros (bytes_text buf) = ?t"
    using trim_zeros_text [OF showInt_not_zero showInt_ne] by (simp add: buf_def bytes_text_def [of "_ @ _"] zeros_def) (simp add: bytes_text_def [symmetric])
  then have "readRevisionCounter E r fs' = Inr c"
    using assms(2) rd ParseInt_showInt [OF assms(7,8)] by (simp add: readRevisionCounter_def fs'_def)
  moreover have "counter_buf_ok buf"
    using bl tl by (auto simp: counter_buf_ok_def buf_def nth_append text_bytes_def revisionBlockSize_def)
  ultimately show ?thesis using wr w(2) assms(3) by (simp add: fs'_def)
qed

theorem replica_revision_counter_roundtrip_witness:
  "\<exists>fs'. writeRevisionCounter (mem_env 2 (\<lambda>_. None)) (ex_rep\<lparr>r_revisionFile := Some ''rc''\<rparr>) 1234
      (ex_fs\<lparr>fs_data := [''rc'' \<mapsto> sf_hole 2 2048], revisionCounterBuf := zeros 4096\<rparr>) = (None, fs') \<and>
    readRevisionCounter (mem_env 2 (\<lambda>_. None)) (ex_rep\<lparr>r_revisionFile := Some ''rc''\<rparr>) fs' = Inr 1234"
proof -
  let ?r = "ex_rep\<lparr>r_revisionFile := Some ''rc''\<rparr>" and ?fs = "ex_fs\<lparr>fs_data := [''rc'' \<mapsto> sf_hole 2 2048], revisionCounterBuf := zeros 4096\<rparr>"
  have "disk_layer (dops (mem_env 2 (\<lambda>_. None))) (sf_view 2)" using ex_layer by (simp add: mem_env_def)
  moreover have "r_revisionFile ?r = Some ''rc''" by simp
  moreover have "v_live (sf_view 2) (fs_data ?fs) ''rc''" by (simp add: sf_live_iff) (simp add: sf_hole_def)
  moreover have "revisionBlockSize \<le> v_size (sf_view 2) (fs_data ?fs) ''rc''" by (simp add: sf_view_def sf_hole_def revisionBlockSize_def)
  moreover have "v_bs (sf_view 2) dvd revisionBlockSize" by (simp add: sf_view_def revisionBlockSize_def)
  moreover have "counter_buf_ok (revisionCounterBuf ?fs)" by (simp add: counter_buf_ok_def revisionBlockSize_def)
  moreover have "minInt64 \<le> 1234" "1234 \<le> maxInt64" by (simp_all add: minInt64_def maxInt64_def)
  ultimately have "\<exists>fs'. writeRevisionCounter (mem_env 2 (\<lambda>_. None)) ?r 1234 ?fs = (None, fs') \<and>
      readRevisionCounter (mem_env 2 (\<lambda>_. None)) ?r fs' = Inr 1234 \<and> counter_buf_ok (revisionCounterBuf fs') \<and> v_live (sf_view 2) (fs_data fs') ''rc''"
    by (rule replica_revision_counter_roundtrip)
  then show ?thesis by blast
qed

end
