(* ===== verification/Revision_Counter.thy ===== *)
theory Revision_Counter
  imports Replica_Open
begin

text \<open>
  The goroutine that keeps the revision counter (src/pkg/replica/revision_counter.go) and its
  protocol with Replica.WriteAt and UnmapAt (src/pkg/replica/replica.go).

  A writer starts a goroutine that sends a request, writes its data, and then waits for an answer on a channel without a
  buffer; it does not matter whose request is answered.  The state counts the goroutines in each place; an event is one
  atomic step of one of them, so a list of events is an interleaving.
\<close>

section \<open>The state machine\<close>

text \<open>
  The goroutine of the counter: waiting in select, about to send the result of writeRevisionCounter, about to add one to the cache,
  about to close the channel, or gone.
\<close>

datatype worker = Idle | Acking "error option" | Adding | Closing | Stopped

record rc_state =
  rc_sending :: nat
  rc_queue :: nat
  rc_io :: nat
  rc_waiting :: nat
  rc_worker :: worker
  rc_cache :: int
  rc_file :: int
  rc_closed :: bool
  rc_ok :: nat
  rc_failed :: nat
  rc_spare :: nat

text \<open>The buffer of revisionCounterReqChan.\<close>

definition rc_capacity :: nat where "rc_capacity = 1024"

text \<open>
  The state after initRevisionCounter has read the counter \<open>c\<close>.  rc_ok and rc_failed count the writes that
  returned nil and an error; rc_spare counts the requests whose writer has failed before waiting.
\<close>

definition rc_init :: "int \<Rightarrow> rc_state" where
  "rc_init c = \<lparr>rc_sending = 0, rc_queue = 0, rc_io = 0, rc_waiting = 0, rc_worker = Idle, rc_cache = c, rc_file = c,
     rc_closed = False, rc_ok = 0, rc_failed = 0, rc_spare = 0\<rparr>"

datatype rc_event = Start | Send | DataOk | DataFail | Take "error option" | Ack | Add | CloseChan | AckClosed | Cancel

text \<open>
  Start: WriteAt is called and its goroutine is started.  Send: a request enters the buffer.  DataOk and DataFail: the data is
  written, or the write returns its error.  Take e: the worker takes a request and writeRevisionCounter(cache + 1)
  returns \<open>e\<close>.  Ack: the worker hands its result to a waiting writer.  AckClosed: a waiting writer receives
  nil from the closed channel.  Cancel: the context is done.
\<close>

definition finish_write :: "error option \<Rightarrow> rc_state \<Rightarrow> rc_state" where
  "finish_write e s = (case e of None \<Rightarrow> s\<lparr>rc_ok := Suc (rc_ok s)\<rparr> | Some _ \<Rightarrow> s\<lparr>rc_failed := Suc (rc_failed s)\<rparr>)"

fun rc_next :: "rc_event \<Rightarrow> rc_state \<Rightarrow> rc_state option" where
  "rc_next Start s = Some (s\<lparr>rc_sending := Suc (rc_sending s), rc_io := Suc (rc_io s)\<rparr>)"
| "rc_next Send s =
     (if rc_sending s > 0 \<and> rc_queue s < rc_capacity
      then Some (s\<lparr>rc_sending := rc_sending s - 1, rc_queue := Suc (rc_queue s)\<rparr>) else None)"
| "rc_next DataOk s =
     (if rc_io s > 0 then Some (s\<lparr>rc_io := rc_io s - 1, rc_waiting := Suc (rc_waiting s)\<rparr>) else None)"
| "rc_next DataFail s =
     (if rc_io s > 0 then Some (s\<lparr>rc_io := rc_io s - 1, rc_failed := Suc (rc_failed s), rc_spare := Suc (rc_spare s)\<rparr>) else None)"
| "rc_next (Take e) s =
     (if rc_worker s = Idle \<and> rc_queue s > 0
      then Some (s\<lparr>rc_queue := rc_queue s - 1, rc_worker := Acking e,
                   rc_file := (if e = None then rc_cache s + 1 else rc_file s)\<rparr>) else None)"
| "rc_next Ack s =
     (case rc_worker s of
        Acking e \<Rightarrow> if rc_waiting s > 0
          then Some (finish_write e (s\<lparr>rc_waiting := rc_waiting s - 1, rc_worker := (if e = None then Adding else Closing)\<rparr>)) else None
      | _ \<Rightarrow> None)"
| "rc_next Add s = (if rc_worker s = Adding then Some (s\<lparr>rc_worker := Idle, rc_cache := rc_cache s + 1\<rparr>) else None)"
| "rc_next CloseChan s = (if rc_worker s = Closing then Some (s\<lparr>rc_worker := Stopped, rc_closed := True\<rparr>) else None)"
| "rc_next AckClosed s =
     (if rc_closed s \<and> rc_waiting s > 0 then Some (finish_write None (s\<lparr>rc_waiting := rc_waiting s - 1\<rparr>)) else None)"
| "rc_next Cancel s = (if rc_worker s = Idle then Some (s\<lparr>rc_worker := Stopped\<rparr>) else None)"

fun rc_run :: "rc_event list \<Rightarrow> rc_state \<Rightarrow> rc_state option" where
  "rc_run [] s = Some s"
| "rc_run (ev # evs) s = (case rc_next ev s of None \<Rightarrow> None | Some s' \<Rightarrow> rc_run evs s')"

inductive rc_reach :: "int \<Rightarrow> rc_state \<Rightarrow> bool" for c where
  init: "rc_reach c (rc_init c)"
| step: "rc_reach c s \<Longrightarrow> rc_next ev s = Some s' \<Longrightarrow> rc_reach c s'"

lemma rc_run_reach: "rc_reach c s \<Longrightarrow> rc_run evs s = Some s' \<Longrightarrow> rc_reach c s'"
  by (induction evs arbitrary: s) (auto split: option.splits intro: rc_reach.step)

section \<open>The invariant\<close>

definition rc_busy :: "worker \<Rightarrow> nat" where
  "rc_busy w = (case w of Acking _ \<Rightarrow> 1 | _ \<Rightarrow> 0)"

text \<open>
  As long as the channel is open: the file is ahead of the cache by the increment under way, the writes that
  returned nil are counted in the cache (or the increment is under way), and every writer that waits or will wait has a request.
\<close>

definition rc_file_inv :: "rc_state \<Rightarrow> bool" where
  "rc_file_inv s \<longleftrightarrow> rc_file s = rc_cache s + (case rc_worker s of Acking None \<Rightarrow> 1 | Adding \<Rightarrow> 1 | _ \<Rightarrow> 0)"

definition rc_ok_inv :: "int \<Rightarrow> rc_state \<Rightarrow> bool" where
  "rc_ok_inv c s \<longleftrightarrow> rc_closed s \<or> c + int (rc_ok s) = rc_cache s + (case rc_worker s of Adding \<Rightarrow> 1 | _ \<Rightarrow> 0)"

definition rc_req_inv :: "rc_state \<Rightarrow> bool" where
  "rc_req_inv s \<longleftrightarrow> rc_closed s \<or> rc_worker s = Closing \<or>
     rc_sending s + rc_queue s + rc_busy (rc_worker s) = rc_io s + rc_waiting s + rc_spare s"

definition rc_inv :: "int \<Rightarrow> rc_state \<Rightarrow> bool" where
  "rc_inv c s \<longleftrightarrow> rc_file_inv s \<and> rc_ok_inv c s \<and> rc_req_inv s \<and> (rc_closed s \<longrightarrow> rc_worker s = Stopped)"

lemma rc_inv_init: "rc_inv c (rc_init c)"
  by (simp add: rc_inv_def rc_file_inv_def rc_ok_inv_def rc_req_inv_def rc_init_def rc_busy_def)

lemma rc_file_step: "rc_file_inv s \<Longrightarrow> rc_next ev s = Some s' \<Longrightarrow> rc_file_inv s'"
  by (cases ev) (auto simp: rc_file_inv_def finish_write_def split: if_splits worker.splits option.splits)

lemma rc_ok_step: "rc_ok_inv c s \<Longrightarrow> rc_next ev s = Some s' \<Longrightarrow> rc_ok_inv c s'"
  by (cases ev) (auto simp: rc_ok_inv_def finish_write_def split: if_splits worker.splits option.splits)

lemma rc_req_step: "rc_req_inv s \<Longrightarrow> rc_next ev s = Some s' \<Longrightarrow> rc_req_inv s'"
  by (cases ev) (auto simp: rc_req_inv_def rc_busy_def finish_write_def split: if_splits worker.splits option.splits)

lemma rc_closed_step: "rc_closed s \<longrightarrow> rc_worker s = Stopped \<Longrightarrow> rc_next ev s = Some s' \<Longrightarrow> rc_closed s' \<longrightarrow> rc_worker s' = Stopped"
  by (cases ev) (auto simp: finish_write_def split: if_splits worker.splits option.splits)

lemma rc_inv_step: "rc_inv c s \<Longrightarrow> rc_next ev s = Some s' \<Longrightarrow> rc_inv c s'"
  unfolding rc_inv_def using rc_file_step rc_ok_step rc_req_step rc_closed_step by blast

lemma rc_reach_inv: "rc_reach c s \<Longrightarrow> rc_inv c s"
  by (induction rule: rc_reach.induct) (auto intro: rc_inv_init rc_inv_step)


definition rc_one_write :: "rc_event list" where
  "rc_one_write = [Start, Send, DataOk, Take None, Ack, Add]"


text \<open>
  A writer that waits for its answer is not stuck: as long as the goroutine has not been stopped, one of the goroutines it depends on
  (the sender of a request, or the goroutine of the counter) can make a step.
\<close>

lemma revision_counter_progress:
  assumes "rc_reach c s" "0 < rc_waiting s" "rc_worker s \<noteq> Stopped"
  shows "\<exists>ev s'. ev \<in> {Send, Take None, Ack, Add, CloseChan} \<and> rc_next ev s = Some s'"
proof -
  note inv = rc_reach_inv [OF assms(1)]
  show ?thesis
  proof (cases "rc_worker s")
    case Idle
    then have "0 < rc_sending s + rc_queue s" using inv assms(2) by (auto simp: rc_inv_def rc_req_inv_def rc_busy_def)
    then show ?thesis using Idle by (cases "0 < rc_queue s") (auto simp: rc_capacity_def)
  qed (use assms in auto)
qed

text \<open>
  After one failure to write the counter, the closed channel answers every later write with nil: the replica goes on
  acknowledging writes while its revision counter stands still.
\<close>

lemma revision_counter_lost_after_failure:
  "\<exists>s. rc_run ([Start, Send, DataOk, Take (Some EOF), Ack, CloseChan] @ concat (replicate n [Start, DataOk, AckClosed])) (rc_init c) = Some s \<and>
     rc_ok s = n \<and> rc_file s = c \<and> rc_cache s = c"
proof -
  let ?s = "\<lambda>k. \<lparr>rc_sending = k, rc_queue = 0, rc_io = 0, rc_waiting = 0, rc_worker = Stopped, rc_cache = c, rc_file = c,
     rc_closed = True, rc_ok = k, rc_failed = 1, rc_spare = 0\<rparr>"
  have app: "rc_run (xs @ ys) s = (case rc_run xs s of None \<Rightarrow> None | Some s' \<Rightarrow> rc_run ys s')" for xs ys s
    by (induction xs arbitrary: s) (auto split: option.split)
  have one: "rc_run [Start, Send, DataOk, Take (Some EOF), Ack, CloseChan] (rc_init c) = Some (?s 0)"
    by (simp add: rc_init_def rc_capacity_def finish_write_def)
  have more: "rc_run (concat (replicate n [Start, DataOk, AckClosed])) (?s k) = Some (?s (k + n))" for k
  proof (induction n arbitrary: k)
    case (Suc n)
    have "rc_run [Start, DataOk, AckClosed] (?s k) = Some (?s (Suc k))" by (simp add: finish_write_def)
    then show ?case using Suc [of "Suc k"] app [of "[Start, DataOk, AckClosed]" "concat (replicate n [Start, DataOk, AckClosed])" "?s k"]
      by (simp del: rc_run.simps rc_next.simps)
  qed simp
  show ?thesis unfolding app one using more [of 0] by simp
qed

end
