(* ===== verification/Data_Wire.thy ===== *)
theory Data_Wire
  imports Types_Error
begin

text \<open>
  The wire format of the data connection between controller and replica (src/pkg/dataconn/wire.go,
  types.go): a message is a header of 26 bytes in little endian, followed by its data.
\<close>

definition TypeRead :: "32 word" where "TypeRead = 0"
definition TypeWrite :: "32 word" where "TypeWrite = 1"
definition TypeResponse :: "32 word" where "TypeResponse = 2"
definition TypeError :: "32 word" where "TypeError = 3"
definition TypeEOF :: "32 word" where "TypeEOF = 4"
definition TypeClose :: "32 word" where "TypeClose = 5"
definition TypePing :: "32 word" where "TypePing = 6"
definition TypeUnmap :: "32 word" where "TypeUnmap = 7"

lemmas msg_types = TypeRead_def TypeWrite_def TypeResponse_def TypeError_def TypeEOF_def TypeClose_def TypePing_def TypeUnmap_def

definition MagicVersion :: "16 word" where "MagicVersion = 0x1b01"

text \<open>The fields of a Message that travel; no data is the empty list.\<close>

record Message =
  m_MagicVersion :: "16 word"
  m_Seq :: "32 word"
  m_Type :: "32 word"
  m_Offset :: int
  m_Size :: "32 word"
  m_Data :: bytes

definition zero_Message :: Message where
  "zero_Message = \<lparr>m_MagicVersion = 0, m_Seq = 0, m_Type = 0, m_Offset = 0, m_Size = 0, m_Data = []\<rparr>"

section \<open>Little endian\<close>

fun put_le :: "nat \<Rightarrow> nat \<Rightarrow> bytes" where
  "put_le 0 x = []"
| "put_le (Suc k) x = word_of_nat (x mod 256) # put_le k (x div 256)"

fun get_le :: "bytes \<Rightarrow> nat" where
  "get_le [] = 0"
| "get_le (b # bs) = unat b + 256 * get_le bs"

lemma length_put_le [simp]: "length (put_le k x) = k"
  by (induction k arbitrary: x) simp_all

lemma get_put_le: "get_le (put_le k x) = x mod 256 ^ k"
proof (induction k arbitrary: x)
  case (Suc k)
  have "unat (word_of_nat (x mod 256) :: 8 word) = x mod 256" by (simp add: unat_of_nat)
  then show ?case using Suc by (simp add: mod_mult2_eq)
qed simp

section \<open>Writing\<close>

definition getRequestHeaderSize :: nat where "getRequestHeaderSize = 2 + 4 + 4 + 8 + 4 + 4"

text \<open>The header that Wire.Write fills in; the length of the data is cut to 32 bits.\<close>

definition wire_header :: "Message \<Rightarrow> bytes" where
  "wire_header msg =
     put_le 2 (unat (m_MagicVersion msg)) @ put_le 4 (unat (m_Seq msg)) @ put_le 4 (unat (m_Type msg)) @
     put_le 8 (unat (word_of_int (m_Offset msg) :: 64 word)) @ put_le 4 (unat (m_Size msg)) @ put_le 4 (length (m_Data msg) mod 2 ^ 32)"

text \<open>The buffered writer of the connection.\<close>

record 'w wire_writer =
  bw_Write :: "bytes \<Rightarrow> 'w \<Rightarrow> error option \<times> 'w"
  bw_Flush :: "'w \<Rightarrow> error option \<times> 'w"

definition wire_Write :: "'w wire_writer \<Rightarrow> Message \<Rightarrow> 'w \<Rightarrow> error option \<times> 'w" where
  "wire_Write W msg w =
     (case bw_Write W (wire_header msg) w of
        (Some e, w) \<Rightarrow> (Some e, w)
      | (None, w) \<Rightarrow>
          (case (if length (m_Data msg) > 0 then bw_Write W (m_Data msg) w else (None, w)) of
             (Some e, w) \<Rightarrow> (Some e, w)
           | (None, w) \<Rightarrow> bw_Flush W w))"

text \<open>What a write that succeeds puts on the connection.\<close>

definition wire_bytes :: "Message \<Rightarrow> bytes" where
  "wire_bytes msg = wire_header msg @ m_Data msg"

section \<open>Reading\<close>

text \<open>The bytes that are still to come on the connection, and the error after the last one.\<close>

type_synonym stream = "bytes \<times> error"

text \<open>io.ReadFull.\<close>

definition ReadFull :: "nat \<Rightarrow> stream \<Rightarrow> (error + bytes) \<times> stream" where
  "ReadFull n s =
     (if n \<le> length (fst s) then (Inr (take n (fst s)), (drop n (fst s), snd s))
      else (Inl (if snd s = EOF \<and> fst s \<noteq> [] then ErrUnexpectedEOF else snd s), ([], snd s)))"

definition show_hex :: "16 word \<Rightarrow> string" where
  "show_hex x = (let d = (\<lambda>n. if n < 10 then char_of (48 + n) else char_of (87 + n)); n = unat x
     in dropWhile (\<lambda>c. c = CHR ''0'') [d (n div 4096 mod 16), d (n div 256 mod 16), d (n div 16 mod 16)] @ [d (n mod 16)])"

definition wire_Read :: "stream \<Rightarrow> (error + Message) \<times> stream" where
  "wire_Read s =
     (case ReadFull getRequestHeaderSize s of
        (Inl e, s) \<Rightarrow> (Inl e, s)
      | (Inr h, s) \<Rightarrow>
          let magic = word_of_nat (get_le (take 2 h)) :: 16 word
          in if magic \<noteq> MagicVersion
             then (Inl (Errorf (''wrong API version received: 0x'' @ show_hex magic)), s)
             else
               let msg = \<lparr>m_MagicVersion = magic, m_Seq = word_of_nat (get_le (take 4 (drop 2 h))),
                     m_Type = word_of_nat (get_le (take 4 (drop 6 h))),
                     m_Offset = sint (word_of_nat (get_le (take 8 (drop 10 h))) :: 64 word),
                     m_Size = word_of_nat (get_le (take 4 (drop 18 h))), m_Data = []\<rparr>;
                   len = get_le (take 4 (drop 22 h))
               in if len > 0
                  then (case ReadFull len s of
                      (Inl e, s) \<Rightarrow> (Inl e, s)
                    | (Inr d, s) \<Rightarrow> (Inr (msg\<lparr>m_Data := d\<rparr>), s))
                  else (Inr msg, s))"

section \<open>Round trip\<close>

definition msg_ok :: "Message \<Rightarrow> bool" where
  "msg_ok m \<longleftrightarrow> m_MagicVersion m = MagicVersion \<and> - (2 ^ 63) \<le> m_Offset m \<and> m_Offset m < 2 ^ 63 \<and> length (m_Data m) < 2 ^ 32"

lemma header_fields:
  shows "length (wire_header m) = 26"
    "take 2 (wire_header m) = put_le 2 (unat (m_MagicVersion m))"
    "take 4 (drop 2 (wire_header m)) = put_le 4 (unat (m_Seq m))"
    "take 4 (drop 6 (wire_header m)) = put_le 4 (unat (m_Type m))"
    "take 8 (drop 10 (wire_header m)) = put_le 8 (unat (word_of_int (m_Offset m) :: 64 word))"
    "take 4 (drop 18 (wire_header m)) = put_le 4 (unat (m_Size m))"
    "take 4 (drop 22 (wire_header m)) = put_le 4 (length (m_Data m) mod 2 ^ 32)"
  by (simp_all add: wire_header_def)

lemma word_get_put:
  "(word_of_nat (get_le (put_le 2 (unat (a :: 16 word)))) :: 16 word) = a"
  "(word_of_nat (get_le (put_le 4 (unat (b :: 32 word)))) :: 32 word) = b"
  "(word_of_nat (get_le (put_le 8 (unat (c :: 64 word)))) :: 64 word) = c"
proof -
  have "unat a < 2 ^ 16" "unat b < 2 ^ 32" "unat c < 2 ^ 64" using unsigned_less [of a] unsigned_less [of b] unsigned_less [of c] by simp_all
  then show "(word_of_nat (get_le (put_le 2 (unat a))) :: 16 word) = a" "(word_of_nat (get_le (put_le 4 (unat b))) :: 32 word) = b"
    "(word_of_nat (get_le (put_le 8 (unat c))) :: 64 word) = c" by (simp_all add: get_put_le)
qed

lemma offset_round: "- (2 ^ 63) \<le> x \<Longrightarrow> x < 2 ^ 63 \<Longrightarrow> sint (word_of_int x :: 64 word) = x"
  by (simp add: int_word_sint)

theorem wire_Read_bytes:
  assumes "msg_ok m"
  shows "wire_Read (wire_bytes m @ rest, e) = (Inr m, (rest, e))"
proof -
  have len: "get_le (put_le 4 (length (m_Data m))) = length (m_Data m)"
    using assms by (simp add: msg_ok_def get_put_le)
  have rf: "ReadFull getRequestHeaderSize (wire_bytes m @ rest, e) = (Inr (wire_header m), (m_Data m @ rest, e))"
    using header_fields(1) [of m] by (simp add: ReadFull_def wire_bytes_def getRequestHeaderSize_def)
  have data: "ReadFull (length (m_Data m)) (m_Data m @ rest, e) = (Inr (m_Data m), (rest, e))" by (simp add: ReadFull_def)
  show ?thesis
    using assms offset_round [of "m_Offset m"]
    by (simp add: wire_Read_def rf header_fields word_get_put len data msg_ok_def Let_def)
qed

fun wire_read_all :: "nat \<Rightarrow> stream \<Rightarrow> Message list \<times> stream" where
  "wire_read_all 0 s = ([], s)"
| "wire_read_all (Suc k) s = (case wire_Read s of
     (Inl e, s) \<Rightarrow> ([], s) | (Inr m, s) \<Rightarrow> (let (ms, s) = wire_read_all k s in (m # ms, s)))"

lemma wire_read_all_bytes:
  "list_all msg_ok ms \<Longrightarrow> wire_read_all (length ms) (concat (map wire_bytes ms) @ rest, e) = (ms, (rest, e))"
proof (induction ms)
  case (Cons m ms)
  then have "wire_Read (concat (map wire_bytes (m # ms)) @ rest, e) = (Inr m, (concat (map wire_bytes ms) @ rest, e))"
    using wire_Read_bytes [of m "concat (map wire_bytes ms) @ rest" e] by simp
  then show ?case using Cons by simp
qed simp

end
