(* ===== verification/Data_Conn.thy ===== *)
theory Data_Conn
  imports Data_Wire
begin

text \<open>
  The two ends of the data connection: the server that passes requests on to a replica
  (src/pkg/dataconn/server.go), the loop of the client that numbers requests and matches responses
  (src/pkg/dataconn/client.go), and the timeouts that the clients of a volume share
  (src/pkg/util/shared_timeouts.go).
\<close>

section \<open>The server\<close>

text \<open>types.DataProcessor, the replica behind the server; its methods may panic.\<close>

record 'w data_processor =
  dp_ReadAt :: "bytes \<Rightarrow> int \<Rightarrow> 'w \<Rightarrow> (int \<times> error option \<times> bytes \<times> 'w) option"
  dp_WriteAt :: "bytes \<Rightarrow> int \<Rightarrow> 'w \<Rightarrow> (int \<times> error option \<times> 'w) option"
  dp_UnmapAt :: "32 word \<Rightarrow> int \<Rightarrow> 'w \<Rightarrow> (int \<times> error option \<times> 'w) option"
  dp_PingResponse :: "'w \<Rightarrow> error option"

text \<open>The message with its size set to the length of its data.\<close>

definition sized :: "Message \<Rightarrow> Message" where
  "sized msg = msg\<lparr>m_Size := word_of_nat (length (m_Data msg))\<rparr>"

definition pushResponse :: "int \<Rightarrow> Message \<Rightarrow> error option \<Rightarrow> Message option" where
  "pushResponse count msg err =
     (let msg = sized (msg\<lparr>m_MagicVersion := MagicVersion\<rparr>);
          msg = (if m_Type msg = TypeWrite \<or> m_Type msg = TypeUnmap then msg\<lparr>m_Data := [], m_Size := word_of_int count\<rparr> else msg);
          msg = msg\<lparr>m_Type := TypeResponse\<rparr>
      in case err of
           None \<Rightarrow> Some msg
         | Some EOF \<Rightarrow> do { d \<leftarrow> slice_of (m_Data msg) 0 count; Some (sized (msg\<lparr>m_Type := TypeEOF, m_Data := d\<rparr>)) }
         | Some e \<Rightarrow> Some (sized (msg\<lparr>m_Type := TypeError, m_Data := text_bytes (Error_msg e)\<rparr>)))"

definition handleRead :: "'w data_processor \<Rightarrow> Message \<Rightarrow> 'w \<Rightarrow> (Message \<times> 'w) option" where
  "handleRead D msg w = do {
     (c, err, d, w) \<leftarrow> dp_ReadAt D (zeros (unat (m_Size msg))) (m_Offset msg) w;
     m \<leftarrow> pushResponse c (msg\<lparr>m_Data := d\<rparr>) err;
     Some (m, w)
   }"

definition handleWrite :: "'w data_processor \<Rightarrow> Message \<Rightarrow> 'w \<Rightarrow> (Message \<times> 'w) option" where
  "handleWrite D msg w = do {
     (c, err, w) \<leftarrow> dp_WriteAt D (m_Data msg) (m_Offset msg) w;
     m \<leftarrow> pushResponse c msg err;
     Some (m, w)
   }"

definition handleUnmap :: "'w data_processor \<Rightarrow> Message \<Rightarrow> 'w \<Rightarrow> (Message \<times> 'w) option" where
  "handleUnmap D msg w = do {
     (c, err, w) \<leftarrow> dp_UnmapAt D (m_Size msg) (m_Offset msg) w;
     m \<leftarrow> pushResponse c msg err;
     Some (m, w)
   }"

definition handlePing :: "'w data_processor \<Rightarrow> Message \<Rightarrow> 'w \<Rightarrow> (Message \<times> 'w) option" where
  "handlePing D msg w = do { m \<leftarrow> pushResponse 0 msg (dp_PingResponse D w); Some (m, w) }"

text \<open>The switch of readFromWire: the goroutine that is started for a message, and its response, if there is one.\<close>

definition server_handle :: "'w data_processor \<Rightarrow> Message \<Rightarrow> 'w \<Rightarrow> (Message option \<times> 'w) option" where
  "server_handle D msg w =
     (if m_Type msg = TypeRead then map_option (apfst Some) (handleRead D msg w)
      else if m_Type msg = TypeWrite then map_option (apfst Some) (handleWrite D msg w)
      else if m_Type msg = TypeUnmap then map_option (apfst Some) (handleUnmap D msg w)
      else if m_Type msg = TypePing then map_option (apfst Some) (handlePing D msg w)
      else Some (None, w))"

text \<open>Server.read, when it is not stopped: the messages that are handled, until the connection ends with an error.\<close>

lemma wire_Read_shrinks: "wire_Read s = (Inr m, s') \<Longrightarrow> length (fst s') < length (fst s)"
  by (auto simp: wire_Read_def ReadFull_def getRequestHeaderSize_def Let_def split: if_splits sum.splits prod.splits)

function server_read :: "stream \<Rightarrow> Message list \<times> error" where
  "server_read s = (case wire_Read s of
     (Inl e, s') \<Rightarrow> ([], e)
   | (Inr m, s') \<Rightarrow> (let (ms, e) = server_read s' in (m # ms, e)))"
  by auto
termination
  by (relation "measure (\<lambda>s. length (fst s))") (simp, use wire_Read_shrinks [OF sym] in fastforce)

declare server_read.simps [simp del]

text \<open>The message that Server.write sends when it is stopped.\<close>

definition close_message :: Message where
  "close_message = zero_Message\<lparr>m_Type := TypeClose\<rparr>"

section \<open>Shared timeouts\<close>

record shared_timeouts =
  longTimeout :: int
  shortTimeout :: int
  numConsumers :: int

definition NewSharedTimeouts :: "int \<Rightarrow> int \<Rightarrow> shared_timeouts" where
  "NewSharedTimeouts short long = \<lparr>longTimeout = long, shortTimeout = short, numConsumers = 0\<rparr>"

definition Increment :: "shared_timeouts \<Rightarrow> shared_timeouts" where
  "Increment t = t\<lparr>numConsumers := numConsumers t + 1\<rparr>"

definition Decrement :: "shared_timeouts \<Rightarrow> shared_timeouts" where
  "Decrement t = t\<lparr>numConsumers := numConsumers t - 1\<rparr>"

definition CheckAndDecrement :: "int \<Rightarrow> shared_timeouts \<Rightarrow> int \<times> shared_timeouts" where
  "CheckAndDecrement duration t =
     (if duration > longTimeout t then (longTimeout t, Decrement t)
      else if duration > shortTimeout t \<and> numConsumers t > 1 then (shortTimeout t, Decrement t)
      else (0, t))"

section \<open>The client\<close>

text \<open>
  The state of Client.loop.  A request is the pointer to its message, here a number, with the message; cl_sent is what went to
  the channel of the wires, cl_done the requests whose channel Complete was signalled, with their
  messages at that moment.
\<close>

record client =
  cl_seq :: "32 word"
  cl_messages :: "(32 word \<times> nat \<times> Message) list"
  cl_error :: "error option"
  cl_ioInflight :: int
  cl_timeOfLastActivity :: "int option"
  cl_decremented :: bool
  cl_sent :: "Message list"
  cl_done :: "(nat \<times> Message) list"
  cl_ended :: bool

definition new_client :: client where
  "new_client = \<lparr>cl_seq = 0, cl_messages = [], cl_error = None, cl_ioInflight = 0, cl_timeOfLastActivity = None,
     cl_decremented = False, cl_sent = [], cl_done = [], cl_ended = False\<rparr>"

definition is_io :: "32 word \<Rightarrow> bool" where
  "is_io t = (t = TypeRead \<or> t = TypeWrite \<or> t = TypeUnmap)"

definition ErrRWTimeout :: error where "ErrRWTimeout = Errorf ''r/w timeout''"

definition replyError :: "nat \<times> Message \<Rightarrow> error \<Rightarrow> client \<Rightarrow> client" where
  "replyError req err c =
     c\<lparr>cl_messages := AList.delete (m_Seq (snd req)) (cl_messages c),
       cl_done := cl_done c @ [(fst req, (snd req)\<lparr>m_Type := TypeError, m_Data := text_bytes (Error_msg err)\<rparr>)]\<rparr>"

definition handleRequest :: "nat \<times> Message \<Rightarrow> client \<Rightarrow> client" where
  "handleRequest req c =
     (let seq = cl_seq c + 1; msg = (snd req)\<lparr>m_MagicVersion := MagicVersion, m_Seq := seq\<rparr>
      in c\<lparr>cl_seq := seq, cl_messages := AList.update seq (fst req, msg) (cl_messages c), cl_sent := cl_sent c @ [msg]\<rparr>)"

definition handleResponse :: "Message \<Rightarrow> client \<Rightarrow> client" where
  "handleResponse resp c =
     (case map_of (cl_messages c) (m_Seq resp) of
        None \<Rightarrow> c
      | Some (rid, req) \<Rightarrow>
          c\<lparr>cl_messages := AList.delete (m_Seq resp) (cl_messages c),
            cl_done := cl_done c @ [(rid, req\<lparr>m_Type := m_Type resp, m_Size := m_Size resp, m_Data := m_Data resp\<rparr>)]\<rparr>)"

definition handleClientError :: "error \<Rightarrow> client \<Rightarrow> client" where
  "handleClientError err c =
     (let c = fold (\<lambda>(_, req). replyError req err) (cl_messages c) (c\<lparr>cl_error := Some err\<rparr>)
      in c\<lparr>cl_ioInflight := 0, cl_timeOfLastActivity := None\<rparr>)"

text \<open>One round of the select: the tick, a request, a response, an error of a wire, or the end.\<close>

datatype client_event = Tick | Request "nat \<times> Message" | Response Message | TransportErr error | End

fun client_step :: "int \<Rightarrow> client_event \<Rightarrow> client \<times> shared_timeouts \<Rightarrow> client \<times> shared_timeouts" where
  "client_step now Tick (c, t) =
     (case cl_timeOfLastActivity c of
        None \<Rightarrow> (c, t)
      | Some since \<Rightarrow>
          if cl_ioInflight c = 0 then (c, t)
          else
            let (exceeded, t) = CheckAndDecrement (now - since) t
            in if exceeded > 0 then (handleClientError ErrRWTimeout (c\<lparr>cl_decremented := True\<rparr>), t) else (c, t))"
| "client_step now (Request req) (c, t) =
     (case cl_error c of
        Some e \<Rightarrow> (replyError req e c, t)
      | None \<Rightarrow>
          let c = (if is_io (m_Type (snd req))
                   then c\<lparr>cl_timeOfLastActivity := (if cl_ioInflight c = 0 then Some now else cl_timeOfLastActivity c),
                          cl_ioInflight := cl_ioInflight c + 1\<rparr>
                   else c)
          in (handleRequest req c, t))"
| "client_step now (TransportErr e) (c, t) = (handleClientError e c, t)"
| "client_step now (Response resp) (c, t) =
     (case map_of (cl_messages c) (m_Seq resp) of
        None \<Rightarrow> (c, t)
      | Some req \<Rightarrow>
          let c = (if is_io (m_Type (snd req))
                   then c\<lparr>cl_ioInflight := cl_ioInflight c - 1, cl_timeOfLastActivity := Some now\<rparr> else c)
          in case cl_error c of
               Some e \<Rightarrow> (replyError req e c, t)
             | None \<Rightarrow> (handleResponse resp c, t))"
| "client_step now End (c, t) = (c\<lparr>cl_ended := True\<rparr>, if cl_decremented c then t else Decrement t)"

text \<open>The steps of the loop, which begins by announcing itself to the shared timeouts and stops at End.\<close>

fun client_run :: "(int \<times> client_event) list \<Rightarrow> client \<times> shared_timeouts \<Rightarrow> client \<times> shared_timeouts" where
  "client_run [] s = s"
| "client_run ((now, ev) # evs) s = (if cl_ended (fst s) then s else client_run evs (client_step now ev s))"

definition client_loop :: "(int \<times> client_event) list \<Rightarrow> shared_timeouts \<Rightarrow> client \<times> shared_timeouts" where
  "client_loop evs t = client_run evs (new_client, Increment t)"

text \<open>Client.operation: the message that is sent, and the result that is read off the completed one.\<close>

definition op_message :: "32 word \<Rightarrow> bytes \<Rightarrow> 32 word \<Rightarrow> int \<Rightarrow> Message" where
  "op_message ty buf len offset =
     zero_Message\<lparr>m_Type := ty, m_Offset := offset, m_Size := len, m_Data := (if ty = TypeWrite then buf else [])\<rparr>"

definition op_result :: "32 word \<Rightarrow> bytes \<Rightarrow> Message \<Rightarrow> int \<times> error option \<times> bytes" where
  "op_result ty buf msg =
     (let buf = (if ty = TypeRead \<and> (m_Type msg = TypeResponse \<or> m_Type msg = TypeEOF) then blit buf 0 (m_Data msg) else buf)
      in if m_Type msg = TypeError then (0, Some (Errorf (bytes_text (m_Data msg))), buf)
         else if m_Type msg = TypeEOF then (uint (m_Size msg), Some EOF, buf)
         else (uint (m_Size msg), None, buf))"

definition client_WriteAt_msg :: "bytes \<Rightarrow> int \<Rightarrow> Message" where
  "client_WriteAt_msg buf offset = op_message TypeWrite buf (word_of_nat (length buf)) offset"

definition client_ReadAt_msg :: "bytes \<Rightarrow> int \<Rightarrow> Message" where
  "client_ReadAt_msg buf offset = op_message TypeRead buf (word_of_nat (length buf)) offset"

definition client_UnmapAt_msg :: "32 word \<Rightarrow> int \<Rightarrow> Message" where
  "client_UnmapAt_msg len offset = op_message TypeUnmap [] len offset"

definition client_Ping_msg :: Message where
  "client_Ping_msg = op_message TypePing [] 0 0"

end
