(* ===== verification/Data_Conn_Thms.thy ===== *)
theory Data_Conn_Thms
  imports Data_Conn "HOL-Library.Multiset"
begin

text \<open>
  The properties of the data connection: the wire format loses nothing, every request is completed
  once, and an operation through the connection is the operation on the replica.
\<close>

section \<open>The wire\<close>


definition ex_msg :: Message where
  "ex_msg = (op_message TypeWrite [1, 2, 3] 3 4096)\<lparr>m_MagicVersion := MagicVersion, m_Seq := 7\<rparr>"


text \<open>The message with which a stopped server says goodbye is refused by the other end: its version is not set.\<close>

lemma close_message_refused:
  "fst (wire_Read (wire_bytes close_message @ rest, e)) = Inl (Errorf ''wrong API version received: 0x0'')"
proof -
  have rf: "ReadFull getRequestHeaderSize (wire_bytes close_message @ rest, e) = (Inr (wire_header close_message), (m_Data close_message @ rest, e))"
    using header_fields(1) [of close_message] by (simp add: ReadFull_def wire_bytes_def getRequestHeaderSize_def)
  have "(word_of_nat (get_le (take 2 (wire_header close_message))) :: 16 word) = 0"
    by (simp add: header_fields get_put_le close_message_def zero_Message_def)
  moreover have "show_hex 0 = ''0''" by code_simp
  ultimately show ?thesis by (simp add: wire_Read_def rf MagicVersion_def Let_def)
qed

section \<open>The client completes every request once\<close>

definition pending :: "client \<Rightarrow> nat list" where
  "pending c = map (\<lambda>x. fst (snd x)) (cl_messages c)"

definition pending_io :: "client \<Rightarrow> nat" where
  "pending_io c = length (filter (\<lambda>x. is_io (m_Type (snd (snd x)))) (cl_messages c))"

definition cl_inv :: "nat \<Rightarrow> nat list \<Rightarrow> client \<Rightarrow> bool" where
  "cl_inv n issued c \<longleftrightarrow> cl_seq c = word_of_nat n \<and> distinct (map fst (cl_messages c)) \<and>
     (\<forall>x \<in> set (cl_messages c). m_Seq (snd (snd x)) = fst x \<and> 0 < unat (fst x) \<and> unat (fst x) \<le> n) \<and>
     mset (pending c) + mset (map fst (cl_done c)) = mset issued \<and>
     (cl_error c \<noteq> None \<longrightarrow> cl_messages c = []) \<and> cl_ioInflight c = int (pending_io c)"

lemma delete_entry:
  assumes "distinct (map fst xs)" "map_of xs k = Some v"
  shows "mset (map f xs) = add_mset (f (k, v)) (mset (map f (AList.delete k xs)))"
    "length (filter P xs) = length (filter P (AList.delete k xs)) + (if P (k, v) then 1 else 0)"
proof -
  have "mset (map f xs) = add_mset (f (k, v)) (mset (map f (AList.delete k xs))) \<and>
    length (filter P xs) = length (filter P (AList.delete k xs)) + (if P (k, v) then 1 else 0)"
    using assms
  proof (induction xs)
    case (Cons x xs)
    obtain k' v' where x: "x = (k', v')" by (cases x)
    show ?case
    proof (cases "k' = k")
      case True
      then have "k \<notin> fst ` set xs" using Cons.prems x by auto
      then have "AList.delete k xs = xs" by (simp add: delete_idem)
      then show ?thesis using True Cons.prems x by simp
    next
      case False
      then show ?thesis using Cons x by auto
    qed
  qed simp
  then show "mset (map f xs) = add_mset (f (k, v)) (mset (map f (AList.delete k xs)))"
    "length (filter P xs) = length (filter P (AList.delete k xs)) + (if P (k, v) then 1 else 0)" by simp_all
qed

lemma fold_replyError:
  "(\<forall>x \<in> set xs. m_Seq (snd (snd x)) = fst x) \<Longrightarrow>
   cl_messages (fold (\<lambda>(_, req). replyError req e) xs c) = filter (\<lambda>y. fst y \<notin> fst ` set xs) (cl_messages c) \<and>
   map fst (cl_done (fold (\<lambda>(_, req). replyError req e) xs c)) = map fst (cl_done c) @ map (\<lambda>x. fst (snd x)) xs \<and>
   cl_seq (fold (\<lambda>(_, req). replyError req e) xs c) = cl_seq c \<and> cl_error (fold (\<lambda>(_, req). replyError req e) xs c) = cl_error c \<and>
   cl_decremented (fold (\<lambda>(_, req). replyError req e) xs c) = cl_decremented c \<and> cl_ended (fold (\<lambda>(_, req). replyError req e) xs c) = cl_ended c"
proof (induction xs arbitrary: c)
  case (Cons x xs)
  obtain s i m where x: "x = (s, i, m)" by (cases x)
  let ?c = "replyError (i, m) e c"
  have "m_Seq m = s" using Cons.prems x by simp
  then have "cl_messages ?c = filter (\<lambda>y. fst y \<noteq> s) (cl_messages c)" by (auto simp: replyError_def AList.delete_eq intro!: filter_cong)
  moreover have "map fst (cl_done ?c) = map fst (cl_done c) @ [i]" "cl_seq ?c = cl_seq c" "cl_error ?c = cl_error c"
    "cl_decremented ?c = cl_decremented c" "cl_ended ?c = cl_ended c" by (simp_all add: replyError_def)
  ultimately show ?case using Cons.IH [of ?c] Cons.prems x by (auto intro!: filter_cong)
qed simp

lemma client_error_effect:
  assumes "cl_inv n issued c"
  shows "cl_inv n issued (handleClientError e c)" "cl_error (handleClientError e c) = Some e"
    "cl_decremented (handleClientError e c) = cl_decremented c" "cl_ended (handleClientError e c) = cl_ended c"
proof -
  let ?xs = "cl_messages c" and ?c = "c\<lparr>cl_error := Some e\<rparr>"
  have "\<forall>x \<in> set ?xs. m_Seq (snd (snd x)) = fst x" using assms by (simp add: cl_inv_def)
  note F = fold_replyError [OF this, of e ?c]
  have none: "cl_messages (fold (\<lambda>(_, req). replyError req e) ?xs ?c) = []" using F by (simp add: filter_empty_conv)
  then show "cl_inv n issued (handleClientError e c)" using F assms
    by (simp add: cl_inv_def handleClientError_def pending_def pending_io_def Let_def add.commute)
  show "cl_error (handleClientError e c) = Some e" "cl_decremented (handleClientError e c) = cl_decremented c"
    "cl_ended (handleClientError e c) = cl_ended c" using F by (simp_all add: handleClientError_def Let_def)
qed

lemma request_effect:
  assumes inv: "cl_inv n issued c" and bound: "Suc n < 2 ^ 32" and err: "cl_error c = None"
  shows "cl_inv (Suc n) (issued @ [i])
    (handleRequest (i, m) (if is_io (m_Type m) then c\<lparr>cl_timeOfLastActivity := t, cl_ioInflight := cl_ioInflight c + 1\<rparr> else c))"
proof -
  let ?s = "word_of_nat n + 1 :: 32 word"
  have s: "?s = word_of_nat (Suc n)" by simp
  have us: "unat ?s = Suc n" unfolding s using bound by (simp add: unat_of_nat del: of_nat_Suc)
  have fresh: "?s \<notin> fst ` set (cl_messages c)"
  proof
    assume "?s \<in> fst ` set (cl_messages c)"
    then have "unat ?s \<le> n" using inv by (auto simp: cl_inv_def)
    then show False using us by simp
  qed
  then have up: "AList.update ?s v (cl_messages c) = cl_messages c @ [(?s, v)]" for v
    by (rule update_fresh)
  show ?thesis
    using inv fresh us err by (auto simp: cl_inv_def handleRequest_def up pending_def pending_io_def Let_def)
qed

lemma response_effect:
  assumes inv: "cl_inv n issued c" and p: "map_of (cl_messages c) (m_Seq resp) = Some (i, m)"
  shows "cl_inv n issued
    (handleResponse resp (if is_io (m_Type m) then c\<lparr>cl_ioInflight := cl_ioInflight c - 1, cl_timeOfLastActivity := t\<rparr> else c))"
proof -
  have d: "distinct (map fst (cl_messages c))" using inv by (simp add: cl_inv_def)
  note del = delete_entry [OF d p]
  have sub: "set (AList.delete (m_Seq resp) (cl_messages c)) \<subseteq> set (cl_messages c)" by (auto simp: AList.delete_eq)
  show ?thesis
    using inv p del(1) [of "\<lambda>x. fst (snd x)"] del(2) [of "\<lambda>x. is_io (m_Type (snd (snd x)))"] sub distinct_delete [OF d, of "m_Seq resp"]
    by (auto simp: cl_inv_def handleResponse_def pending_def pending_io_def)
qed

text \<open>The requests among the events.\<close>

fun requests :: "(int \<times> client_event) list \<Rightarrow> nat list" where
  "requests [] = []"
| "requests ((now, Request (i, m)) # evs) = i # requests evs"
| "requests ((now, ev) # evs) = requests evs"

text \<open>The shared counter holds this client until it has timed out.\<close>

definition cl_counted :: "int \<Rightarrow> client \<times> shared_timeouts \<Rightarrow> bool" where
  "cl_counted k s \<longleftrightarrow> numConsumers (snd s) = k + (if cl_decremented (fst s) then 0 else 1) \<and> (cl_decremented (fst s) \<longrightarrow> cl_error (fst s) \<noteq> None) \<and>
     0 < longTimeout (snd s) \<and> 0 < shortTimeout (snd s)"

lemma client_step_inv:
  assumes inv: "cl_inv n issued c" and bound: "Suc n < 2 ^ 32" and cnt: "cl_counted k (c, t)" and ev: "ev \<noteq> End"
  shows "\<exists>n' c' t'. client_step now ev (c, t) = (c', t') \<and> cl_inv n' (issued @ requests [(now, ev)]) c' \<and> n' \<le> n + length (requests [(now, ev)]) \<and>
    cl_counted k (c', t') \<and> cl_ended c' = cl_ended c \<and> (cl_error c \<noteq> None \<longrightarrow> cl_error c' \<noteq> None)"
proof (cases ev)
  case Tick
  show ?thesis
  proof (cases "cl_timeOfLastActivity c = None \<or> cl_ioInflight c = 0")
    case True
    then show ?thesis using inv cnt Tick by (cases "cl_timeOfLastActivity c") auto
  next
    case False
    then obtain since where s: "cl_timeOfLastActivity c = Some since" by auto
    obtain x t' where x: "CheckAndDecrement (now - since) t = (x, t')" by fastforce
    have err: "cl_error c = None" using inv False by (auto simp: cl_inv_def pending_io_def)
    then have nd: "\<not> cl_decremented c" using cnt by (auto simp: cl_counted_def)
    have i2: "cl_inv n issued (c\<lparr>cl_decremented := True\<rparr>)" using inv by (simp add: cl_inv_def pending_def pending_io_def)
    show ?thesis
    proof (cases "x > 0")
      case True
      have "numConsumers t' = numConsumers t - 1" "longTimeout t' = longTimeout t" "shortTimeout t' = shortTimeout t"
        using x True by (auto simp: CheckAndDecrement_def Decrement_def split: if_splits)
      then show ?thesis using client_error_effect [OF i2, of ErrRWTimeout] x s False True Tick cnt nd by (auto simp: cl_counted_def)
    next
      case nx: False
      then have "t' = t" using x cnt by (auto simp: CheckAndDecrement_def cl_counted_def split: if_splits)
      then show ?thesis using inv cnt x s False nx Tick by auto
    qed
  qed
next
  case (Request req)
  obtain i m where req: "req = (i, m)" by (cases req)
  show ?thesis
  proof (cases "cl_error c")
    case None
    have "cl_inv (Suc n) (issued @ [i]) (fst (client_step now ev (c, t)))"
      using request_effect [OF inv bound None, of i m] None Request req by (simp add: Let_def)
    then show ?thesis using None Request req cnt
      by (auto simp: Let_def handleRequest_def cl_counted_def intro!: exI [of _ "Suc n"])
  next
    case (Some e)
    then have "cl_inv n (issued @ [i]) (replyError req e c)" using inv req by (auto simp: cl_inv_def replyError_def pending_def pending_io_def)
    then show ?thesis using Some Request req cnt by (auto simp: replyError_def cl_counted_def intro!: exI [of _ n])
  qed
next
  case (Response resp)
  show ?thesis
  proof (cases "map_of (cl_messages c) (m_Seq resp)")
    case None
    then show ?thesis using inv cnt Response by auto
  next
    case (Some req)
    obtain i m where req: "req = (i, m)" by (cases req)
    then have err: "cl_error c = None" using inv Some by (auto simp: cl_inv_def)
    have "cl_inv n issued (fst (client_step now ev (c, t)))"
      using response_effect [OF inv Some [unfolded req], of "Some now"] Some req Response err by (simp add: Let_def split: if_splits)
    then show ?thesis using Some req Response err cnt
      by (auto simp: Let_def handleResponse_def cl_counted_def intro!: exI [of _ n] split: option.split)
  qed
next
  case (TransportErr e)
  then show ?thesis using client_error_effect [OF inv, of e] cnt by (auto simp: cl_counted_def)
qed (use ev in simp)

lemma client_run_inv:
  assumes "cl_inv n issued c" "n + length (requests evs) < 2 ^ 32 - 1" "cl_counted k (c, t)" "\<forall>ev \<in> set evs. snd ev \<noteq> End" "\<not> cl_ended c"
  shows "\<exists>n' c' t'. client_run evs (c, t) = (c', t') \<and> cl_inv n' (issued @ requests evs) c' \<and> cl_counted k (c', t') \<and> \<not> cl_ended c'"
  using assms
proof (induction evs arbitrary: n issued c t)
  case (Cons x evs)
  obtain now ev where x: "x = (now, ev)" by (cases x)
  have ne: "ev \<noteq> End" using Cons.prems(4) x by simp
  have rq: "requests (x # evs) = requests [x] @ requests evs" by (cases x; cases "snd x") auto
  have b: "Suc n < 2 ^ 32" using Cons.prems(2) by simp
  obtain n1 c1 t1 where s: "client_step now ev (c, t) = (c1, t1)" "cl_inv n1 (issued @ requests [x]) c1"
    "n1 \<le> n + length (requests [x])" "cl_counted k (c1, t1)" "cl_ended c1 = cl_ended c"
    using client_step_inv [OF Cons.prems(1) b Cons.prems(3) ne, of now] x by auto
  have "n1 + length (requests evs) < 2 ^ 32 - 1" using s(3) Cons.prems(2) rq by simp
  from Cons.IH [OF s(2) this s(4)] Cons.prems(4,5) s(5) show ?case unfolding rq by (simp add: x s(1) Cons.prems(5))
qed auto

text \<open>
  C24: the client of a replica loses no request and answers none twice: in every run of its loop, with any responses
  (late, repeated or unknown), transport errors and timeouts, the requests made are those that are pending and those
  that were completed, each counted as often as it was made; once the connection has failed nothing is pending; and the count of I/O in
  flight, on which the timeout depends, is the number of pending reads, writes and unmaps.
\<close>

theorem data_client_completes_once:
  assumes "length (requests evs) < 2 ^ 32 - 1" "\<forall>ev \<in> set evs. snd ev \<noteq> End" "0 < longTimeout t0" "0 < shortTimeout t0"
  shows "\<exists>c t. client_loop evs t0 = (c, t) \<and> mset (pending c) + mset (map fst (cl_done c)) = mset (requests evs) \<and>
    (cl_error c \<noteq> None \<longrightarrow> pending c = []) \<and> cl_ioInflight c = int (pending_io c) \<and>
    numConsumers t = numConsumers t0 + (if cl_decremented c then 0 else 1)"
proof -
  have "cl_inv 0 [] new_client" by (simp add: cl_inv_def new_client_def pending_def pending_io_def)
  moreover have "cl_counted (numConsumers t0) (new_client, Increment t0)" using assms(3,4) by (simp add: cl_counted_def new_client_def Increment_def)
  moreover have "\<not> cl_ended new_client" by (simp add: new_client_def)
  ultimately obtain n' c' t' where "client_loop evs t0 = (c', t')" "cl_inv n' (requests evs) c'" "cl_counted (numConsumers t0) (c', t')"
    unfolding client_loop_def using client_run_inv [of 0 "[]" new_client evs "numConsumers t0" "Increment t0"] assms(1,2) by auto
  then show ?thesis by (auto simp: cl_inv_def cl_counted_def pending_def)
qed

theorem data_client_completes_once_witness:
  "\<exists>c t. client_loop [(1, Request (5, client_Ping_msg)), (2, Request (6, client_ReadAt_msg [0] 0)), (3, TransportErr EOF)] (NewSharedTimeouts 8 15) = (c, t) \<and>
    mset (pending c) + mset (map fst (cl_done c)) = mset [5, 6]"
proof -
  let ?evs = "[(1, Request (5, client_Ping_msg)), (2, Request (6, client_ReadAt_msg [0] 0)), (3, TransportErr EOF)]"
  have "\<exists>c t. client_loop ?evs (NewSharedTimeouts 8 15) = (c, t) \<and> mset (pending c) + mset (map fst (cl_done c)) = mset (requests ?evs) \<and>
    (cl_error c \<noteq> None \<longrightarrow> pending c = []) \<and> cl_ioInflight c = int (pending_io c) \<and>
    numConsumers t = numConsumers (NewSharedTimeouts 8 15) + (if cl_decremented c then 0 else 1)"
    by (rule data_client_completes_once) (simp_all add: NewSharedTimeouts_def)
  then show ?thesis by auto
qed

section \<open>Through the connection\<close>

text \<open>
  An operation on a connection without other traffic: the request goes through the loop of the client and over the wire,
  the server handles it, and the response comes back over the wire and through the loop.
\<close>

definition remote_operation ::
  "'w data_processor \<Rightarrow> 32 word \<Rightarrow> bytes \<Rightarrow> 32 word \<Rightarrow> int \<Rightarrow> client \<Rightarrow> 'w \<Rightarrow> ((int \<times> error option \<times> bytes) \<times> client \<times> 'w) option" where
  "remote_operation D ty buf len offset c w =
     (let c = handleRequest (0, op_message ty buf len offset) c
      in case wire_Read (wire_bytes (last (cl_sent c)), EOF) of
           (Inl e, _) \<Rightarrow> None
         | (Inr req, _) \<Rightarrow> do {
             (resp, w) \<leftarrow> server_handle D req w;
             resp \<leftarrow> resp;
             (case wire_Read (wire_bytes resp, EOF) of
                (Inl e, _) \<Rightarrow> None
              | (Inr resp, _) \<Rightarrow> let c = handleResponse resp c in Some (op_result ty buf (snd (last (cl_done c))), c, w))
           })"

lemma remote_operation_eq:
  assumes "- (2 ^ 63) \<le> offset" "offset < 2 ^ 63" "length (if ty = TypeWrite then buf else []) < 2 ^ 32"
    and h: "server_handle D ((op_message ty buf len offset)\<lparr>m_MagicVersion := MagicVersion, m_Seq := cl_seq c + 1\<rparr>) w = Some (Some resp, w')"
    and resp: "msg_ok resp" "m_Seq resp = cl_seq c + 1"
  shows "\<exists>c' m. remote_operation D ty buf len offset c w = Some (op_result ty buf m, c', w') \<and>
    m_Type m = m_Type resp \<and> m_Size m = m_Size resp \<and> m_Data m = m_Data resp"
proof -
  let ?m = "(op_message ty buf len offset)\<lparr>m_MagicVersion := MagicVersion, m_Seq := cl_seq c + 1\<rparr>"
  have ok: "msg_ok ?m" using assms(1-3) by (simp add: msg_ok_def op_message_def)
  have r1: "wire_Read (wire_bytes ?m, EOF) = (Inr ?m, ([], EOF))" using wire_Read_bytes [OF ok, of "[]" EOF] by simp
  have r2: "wire_Read (wire_bytes resp, EOF) = (Inr resp, ([], EOF))" using wire_Read_bytes [OF resp(1), of "[]" EOF] by simp
  define c1 where "c1 = handleRequest (0, op_message ty buf len offset) c"
  have c1: "last (cl_sent c1) = ?m" "map_of (cl_messages c1) (m_Seq resp) = Some (0, ?m)"
    by (simp_all add: c1_def handleRequest_def Let_def resp(2) update_conv')
  show ?thesis
    by (simp add: remote_operation_def c1_def [symmetric] c1 r1 r2 h handleResponse_def Let_def)
      (intro exI conjI, rule refl, simp_all)
qed

lemma server_handle_types:
  "m_Type m = TypeRead \<Longrightarrow> server_handle D m w = map_option (apfst Some) (handleRead D m w)"
  "m_Type m = TypeWrite \<Longrightarrow> server_handle D m w = map_option (apfst Some) (handleWrite D m w)"
  by (simp_all add: server_handle_def msg_types)

definition remote_error :: "error \<Rightarrow> error option" where
  "remote_error e = Some (Errorf (Error_msg e))"

lemma push_read:
  assumes "m_Type m = TypeRead" "length (m_Data m) < 2 ^ 32" "err = Some EOF \<longrightarrow> 0 \<le> k \<and> k \<le> int (length (m_Data m))"
    and "\<forall>e. err = Some e \<longrightarrow> length (Error_msg e) < 2 ^ 32" "- (2 ^ 63) \<le> m_Offset m" "m_Offset m < 2 ^ 63"
  shows "\<exists>resp. pushResponse k m err = Some resp \<and> msg_ok resp \<and> m_Seq resp = m_Seq m \<and>
    (\<forall>buf x. length buf = length (m_Data m) \<longrightarrow> m_Type x = m_Type resp \<longrightarrow> m_Size x = m_Size resp \<longrightarrow> m_Data x = m_Data resp \<longrightarrow>
      op_result TypeRead buf x = (case err of
        None \<Rightarrow> (int (length buf), None, m_Data m)
      | Some e \<Rightarrow> if e = EOF then (k, Some EOF, blit buf 0 (take (nat k) (m_Data m))) else (0, remote_error e, buf)))"
proof (cases err)
  case None
  then show ?thesis using assms(1,2,5,6)
    by (simp add: pushResponse_def sized_def msg_ok_def op_result_def msg_types uint_nat unat_of_nat blit_def)
next
  case (Some e)
  show ?thesis
  proof (cases "e = EOF")
    case True
    then have k: "0 \<le> k" "k \<le> int (length (m_Data m))" using assms(3) Some by simp_all
    define d where "d = take (nat k) (m_Data m)"
    have d: "length d = nat k" "length d < 2 ^ 32" "slice_of (m_Data m) 0 k = Some d"
      using k assms(2) by (simp_all add: d_def slice_of_def)
    define resp where "resp = sized (m\<lparr>m_MagicVersion := MagicVersion, m_Size := word_of_nat (length (m_Data m)), m_Type := TypeEOF, m_Data := d\<rparr>)"
    have push: "pushResponse k m err = Some resp"
      using True Some assms(1) d(3) by (simp add: pushResponse_def resp_def sized_def msg_types)
    have flds: "m_Type resp = TypeEOF" "m_Size resp = word_of_nat (length d)" "m_Data resp = d" "m_Seq resp = m_Seq m" "msg_ok resp"
      using d(2) assms(5,6) by (simp_all add: resp_def sized_def msg_ok_def)
    have "unat (word_of_nat (length d) :: 32 word) = nat k" using d(2) unfolding d(1) by (simp add: unat_of_nat)
    then have sz: "uint (word_of_nat (length d) :: 32 word) = k" using k(1) unfolding uint_nat by linarith
    show ?thesis
      unfolding push using flds True Some sz by (simp add: op_result_def msg_types d_def)
  next
    case False
    then have "pushResponse k m err = Some (sized (m\<lparr>m_MagicVersion := MagicVersion, m_Size := word_of_nat (length (m_Data m)), m_Type := TypeError,
        m_Data := text_bytes (Error_msg e)\<rparr>))" using Some assms(1) by (cases e) (simp_all add: pushResponse_def sized_def msg_types)
    then show ?thesis using False Some assms(1,4,5,6)
      by (simp add: sized_def msg_ok_def op_result_def msg_types remote_error_def text_bytes_def)
        (simp add: text_bytes_def [symmetric])
  qed
qed

text \<open>
  A read through the data connection is the read of the replica: the client gets the count, the bytes and the end of file
  of the replica's ReadAt, and any other error with its text; the state of the replica is the one after that read.
\<close>

lemma remote_ReadAt:
  assumes "dp_ReadAt D (zeros (length buf)) offset w = Some (k, err, d, w')" "length d = length buf" "length buf < 2 ^ 32"
    and "err = Some EOF \<longrightarrow> 0 \<le> k \<and> k \<le> int (length buf)" "\<forall>e. err = Some e \<longrightarrow> length (Error_msg e) < 2 ^ 32"
    and "- (2 ^ 63) \<le> offset" "offset < 2 ^ 63"
  shows "\<exists>c'. remote_operation D TypeRead buf (word_of_nat (length buf)) offset c w = Some (case err of
      None \<Rightarrow> (int (length buf), None, d)
    | Some e \<Rightarrow> if e = EOF then (k, Some EOF, blit buf 0 (take (nat k) d)) else (0, remote_error e, buf), c', w')"
proof -
  let ?m = "(op_message TypeRead buf (word_of_nat (length buf)) offset)\<lparr>m_MagicVersion := MagicVersion, m_Seq := cl_seq c + 1\<rparr>"
  have t: "m_Type ?m = TypeRead" "m_Offset ?m = offset" "unat (m_Size ?m) = length buf"
    using assms(3) by (simp_all add: op_message_def unat_of_nat)
  define md where "md = ?m\<lparr>m_Data := d\<rparr>"
  have md: "m_Type md = TypeRead" "m_Data md = d" "m_Offset md = offset" "m_Seq md = cl_seq c + 1" using t(1,2) by (simp_all add: md_def)
  have pr: "length d < 2 ^ 32" "err = Some EOF \<longrightarrow> 0 \<le> k \<and> k \<le> int (length d)" using assms(2-4) by simp_all
  obtain resp where resp: "pushResponse k md err = Some resp" "msg_ok resp" "m_Seq resp = cl_seq c + 1"
    and res: "\<forall>b x. length b = length d \<longrightarrow> m_Type x = m_Type resp \<longrightarrow> m_Size x = m_Size resp \<longrightarrow> m_Data x = m_Data resp \<longrightarrow>
      op_result TypeRead b x = (case err of None \<Rightarrow> (int (length b), None, d)
        | Some e \<Rightarrow> if e = EOF then (k, Some EOF, blit b 0 (take (nat k) d)) else (0, remote_error e, b))"
    using push_read [of md err k, unfolded md, OF refl pr assms(5-7)] by blast
  have "server_handle D ?m w = Some (Some resp, w')"
    unfolding server_handle_types(1) [OF t(1)] using t assms(1) resp(1) by (simp add: handleRead_def md_def)
  note handle = this
  have len: "length (if TypeRead = TypeWrite then buf else []) < 2 ^ 32" by (simp add: msg_types)
  obtain c' m where run: "remote_operation D TypeRead buf (word_of_nat (length buf)) offset c w = Some (op_result TypeRead buf m, c', w')"
    and m: "m_Type m = m_Type resp" "m_Size m = m_Size resp" "m_Data m = m_Data resp"
    using remote_operation_eq [OF assms(6,7) len handle resp(2,3)] by (elim exE conjE)
  have "op_result TypeRead buf m = (case err of None \<Rightarrow> (int (length buf), None, d)
        | Some e \<Rightarrow> if e = EOF then (k, Some EOF, blit buf 0 (take (nat k) d)) else (0, remote_error e, buf))"
    using res [rule_format, OF _ m] assms(2) by simp
  then show ?thesis using run by (intro exI) simp
qed

text \<open>
  A write through the data connection is the write of the replica.  (An end of file of WriteAt is excluded: the
  server would slice the data that it has dropped.)
\<close>

lemma push_write:
  assumes "m_Type m = TypeWrite" "0 \<le> k" "k < 2 ^ 32" "err \<noteq> Some EOF"
    and "\<forall>e. err = Some e \<longrightarrow> length (Error_msg e) < 2 ^ 32" "- (2 ^ 63) \<le> m_Offset m" "m_Offset m < 2 ^ 63"
  shows "\<exists>resp. pushResponse k m err = Some resp \<and> msg_ok resp \<and> m_Seq resp = m_Seq m \<and>
    (\<forall>buf x. m_Type x = m_Type resp \<longrightarrow> m_Size x = m_Size resp \<longrightarrow> m_Data x = m_Data resp \<longrightarrow>
      op_result TypeWrite buf x = (case err of None \<Rightarrow> (k, None, buf) | Some e \<Rightarrow> (0, remote_error e, buf)))"
proof (cases err)
  case None
  have "uint (word_of_int k :: 32 word) = k" using assms(2,3) by (simp add: uint_word_of_int)
  then show ?thesis using None assms(1,6,7) by (simp add: pushResponse_def sized_def msg_ok_def op_result_def msg_types)
next
  case (Some e)
  define resp where "resp = sized (m\<lparr>m_MagicVersion := MagicVersion, m_Size := word_of_int k, m_Type := TypeError, m_Data := text_bytes (Error_msg e)\<rparr>)"
  have push: "pushResponse k m err = Some resp"
    using Some assms(1,4) by (cases e) (simp_all add: pushResponse_def resp_def sized_def msg_types)
  have flds: "m_Type resp = TypeError" "m_Data resp = text_bytes (Error_msg e)" "m_Seq resp = m_Seq m"
    by (simp_all add: resp_def sized_def)
  have "msg_ok resp" using Some assms(5-7) by (simp add: resp_def sized_def msg_ok_def text_bytes_def)
  then show ?thesis unfolding push using flds Some by (simp add: op_result_def msg_types remote_error_def)
qed

lemma remote_WriteAt:
  assumes "dp_WriteAt D buf offset w = Some (k, err, w')" "length buf < 2 ^ 32" "0 \<le> k" "k < 2 ^ 32" "err \<noteq> Some EOF"
    and "\<forall>e. err = Some e \<longrightarrow> length (Error_msg e) < 2 ^ 32" "- (2 ^ 63) \<le> offset" "offset < 2 ^ 63"
  shows "\<exists>c'. remote_operation D TypeWrite buf (word_of_nat (length buf)) offset c w = Some (case err of
      None \<Rightarrow> (k, None, buf) | Some e \<Rightarrow> (0, remote_error e, buf), c', w')"
proof -
  let ?m = "(op_message TypeWrite buf (word_of_nat (length buf)) offset)\<lparr>m_MagicVersion := MagicVersion, m_Seq := cl_seq c + 1\<rparr>"
  have t: "m_Type ?m = TypeWrite" "m_Offset ?m = offset" "m_Data ?m = buf" "m_Seq ?m = cl_seq c + 1" by (simp_all add: op_message_def)
  obtain resp where resp: "pushResponse k ?m err = Some resp" "msg_ok resp" "m_Seq resp = cl_seq c + 1"
    and res: "\<forall>b x. m_Type x = m_Type resp \<longrightarrow> m_Size x = m_Size resp \<longrightarrow> m_Data x = m_Data resp \<longrightarrow>
      op_result TypeWrite b x = (case err of None \<Rightarrow> (k, None, b) | Some e \<Rightarrow> (0, remote_error e, b))"
    using push_write [of ?m k err, unfolded t, OF refl assms(3-8)] by blast
  have handle: "server_handle D ?m w = Some (Some resp, w')"
    unfolding server_handle_types(2) [OF t(1)] using t assms(1) resp(1) by (simp add: handleWrite_def)
  have len: "length (if TypeWrite = TypeWrite then buf else []) < 2 ^ 32" using assms(2) by simp
  obtain c' m where run: "remote_operation D TypeWrite buf (word_of_nat (length buf)) offset c w = Some (op_result TypeWrite buf m, c', w')"
    and m: "m_Type m = m_Type resp" "m_Size m = m_Size resp" "m_Data m = m_Data resp"
    using remote_operation_eq [OF assms(7,8) len handle resp(2,3)] by (elim exE conjE)
  show ?thesis using run res [rule_format, OF m] by (intro exI) simp
qed

end
