(* ===== verification/Remote_Volume.thy ===== *)
theory Remote_Volume
  imports Data_Conn_Thms Server_Thms
begin

text \<open>
  The replica behind the data connection (src/pkg/replica/rpc/dataserver.go): the server of dataconn works on
  a replica.Server.  The lemmas lift the reads and writes of the differencing disk through the replica and its
  server to the client at the other end of the connection.
\<close>

section \<open>The replica as a data processor\<close>

definition replica_processor :: "('h, 's) fs_env \<Rightarrow> error option \<Rightarrow> ('h server \<times> 's fsys) data_processor" where
  "replica_processor E ack =
     \<lparr>dp_ReadAt = \<lambda>buf offset (s, fs). do { (n, err, buf, s) \<leftarrow> srv_ReadAt E s buf offset fs; Some (n, err, buf, s, fs) },
      dp_WriteAt = \<lambda>buf offset (s, fs). srv_WriteAt E ack s buf offset fs,
      dp_UnmapAt = \<lambda>len offset (s, fs). srv_UnmapAt E ack s len offset fs,
      dp_PingResponse = \<lambda>(s, fs). PingResponse E s fs\<rparr>"

text \<open>A server with an open, writable replica on well-formed layers.\<close>

definition serving :: "('h, 's) layer_view \<Rightarrow> 'h server \<Rightarrow> 's fsys \<Rightarrow> 'h replica \<Rightarrow> bool" where
  "serving V s fs r \<longleftrightarrow> s_r s = Some r \<and> \<not> r_readOnly r \<and> dd_wf V (fs_data fs) (r_volume r)"

lemma server_writes:
  assumes "disk_layer (dops E) V" "serving V s fs r" "off + length buf \<le> vol_size V (r_volume r)" "r_revisionCounterDisabled r \<or> ack = None"
  shows "\<exists>s' fs' r'. dp_WriteAt (replica_processor E ack) buf (int off) (s, fs) =
      Some (int (WriteAt_count (v_bs V) off (length buf)), None, s', fs') \<and>
    serving V s' fs' r' \<and> write_effect V (fs_data fs) (r_volume r) off buf (fs_data fs') (r_volume r')"
proof -
  have r: "s_r s = Some r" "\<not> r_readOnly r" "dd_wf V (fs_data fs) (r_volume r)" using assms(2) by (simp_all add: serving_def)
  obtain t d where w: "WriteAt (data_ops E fs) (r_volume r) buf (int off) (fs_data fs) = Some (int (WriteAt_count (v_bs V) off (length buf)), None, d, t)"
    "write_effect V (fs_data fs) (r_volume r) off buf t d"
    using disk_layer.WriteAt_effect [OF data_ops_layer [OF assms(1)] r(3) assms(3)] by blast
  define r' where "r' = r\<lparr>r_info := (r_info r)\<lparr>i_Dirty := True\<rparr>, r_volume := d\<rparr>"
  have "srv_WriteAt E ack s buf (int off) fs = Some (int (WriteAt_count (v_bs V) off (length buf)), None, s\<lparr>s_r := Some r'\<rparr>, fs\<lparr>fs_data := t\<rparr>)"
    using r(1,2) assms(4) w(1) by (auto simp add: srv_WriteAt_def rp_WriteAt_def Let_def r'_def)
  moreover have "serving V (s\<lparr>s_r := Some r'\<rparr>) (fs\<lparr>fs_data := t\<rparr>) r'"
    using r(2) w(2) by (simp add: serving_def r'_def write_effect_def)
  moreover have "r_volume r' = d" by (simp add: r'_def)
  ultimately show ?thesis using w(2)
    by (intro exI [of _ "s\<lparr>s_r := Some r'\<rparr>"] exI [of _ "fs\<lparr>fs_data := t\<rparr>"] exI [of _ r']) (simp add: replica_processor_def)
qed

lemma server_reads:
  assumes "disk_layer (dops E) V" "serving V s fs r" "off + n \<le> vol_size V (r_volume r)" "tail_covered V (fs_data fs) (r_volume r) off n"
  shows "\<exists>s' r'. dp_ReadAt (replica_processor E ack) (zeros n) (int off) (s, fs) =
      Some (int n, None, vol_range V (fs_data fs) (r_volume r) off n, s', fs) \<and>
    serving V s' fs r' \<and> same_volume V (fs_data fs) (r_volume r) (r_volume r')"
proof -
  have r: "s_r s = Some r" "\<not> r_readOnly r" "dd_wf V (fs_data fs) (r_volume r)" using assms(2) by (simp_all add: serving_def)
  obtain d where d: "ReadAt (data_ops E fs) (r_volume r) (zeros n) (int off) (fs_data fs) =
      Some (int n, None, vol_range V (fs_data fs) (r_volume r) off n, d)" "same_volume V (fs_data fs) (r_volume r) d"
    using disk_layer.ReadAt_zeros [OF data_ops_layer [OF assms(1)] r(3) assms(3,4)] by blast
  have "srv_ReadAt E s (zeros n) (int off) fs = Some (int n, None, vol_range V (fs_data fs) (r_volume r) off n, s\<lparr>s_r := Some (r\<lparr>r_volume := d\<rparr>)\<rparr>)"
    using r(1) d(1) by (simp add: srv_ReadAt_def rp_ReadAt_def)
  moreover have "serving V (s\<lparr>s_r := Some (r\<lparr>r_volume := d\<rparr>)\<rparr>) fs (r\<lparr>r_volume := d\<rparr>)"
    using r same_volume_wf [OF d(2) r(3)] by (simp add: serving_def)
  ultimately show ?thesis using d(2)
    by (intro exI [of _ "s\<lparr>s_r := Some (r\<lparr>r_volume := d\<rparr>)\<rparr>"] exI [of _ "r\<lparr>r_volume := d\<rparr>"]) (simp add: replica_processor_def)
qed

lemma WriteAt_count_small: "n < 2 ^ 32 \<Longrightarrow> bs < 2 ^ 32 \<Longrightarrow> int (WriteAt_count bs off n) < 2 ^ 32"
  by (simp add: WriteAt_count_def)

lemma write_effect_range:
  assumes "write_effect V s d off buf s' d'" "off + length buf \<le> vol_size V d"
  shows "vol_range V s' d' off (length buf) = buf"
  using assms by (intro list_eq_pointwise) (auto simp: write_effect_def)

lemma write_effect_size: "write_effect V s d off buf s' d' \<Longrightarrow> vol_size V d' = vol_size V d"
  by (simp add: write_effect_def)

section \<open>A server for the small replica\<close>

definition ex_server :: "string server" where
  "ex_server = \<lparr>s_r = Some ex_rep, s_dir = ''/r'', s_sectorSize = 2, s_backing = None, s_revisionCounterDisabled = True,
     s_unmapMarkDiskChainRemoved = False, s_snapshotMaxCount = 250, s_snapshotMaxSize = 0\<rparr>"

lemma ex_serving: "serving (sf_view 2) ex_server ex_fs ex_rep"
  using ex_ready by (simp add: serving_def ex_server_def snap_ready_def) (simp add: ex_rep_def)

end
