(* ===== verification/Backup.thy ===== *)
theory Backup
  imports Replica_Server
begin

text \<open>
  Backups and restores of a replica: the status of a backup with the comparison of snapshots that finds
  the blocks to copy (src/pkg/replica/backup.go), and the status of a restore (src/pkg/replica/restore.go).
  The locks serialise the methods.
\<close>

section \<open>The status of a backup\<close>

definition backupBlockSize :: int where "backupBlockSize = 2097152"
definition ProgressStateInProgress :: string where "ProgressStateInProgress = ''in_progress''"
definition ProgressStateComplete :: string where "ProgressStateComplete = ''complete''"
definition ProgressStateError :: string where "ProgressStateError = ''error''"

record 'h BackupStatus =
  b_Name :: string
  b_backingFile :: "(string \<times> 'h) option"
  b_replica :: "'h replica option"
  b_volumeID :: string
  b_SnapshotID :: string
  b_Error :: string
  b_Progress :: int
  b_BackupURL :: string
  b_State :: string
  b_IsIncremental :: bool
  b_IsOpened :: bool

text \<open>NewBackup, with the name that butil.GenerateName would make as an argument.\<close>

definition NewBackup :: "string \<Rightarrow> string \<Rightarrow> string \<Rightarrow> string \<Rightarrow> (string \<times> 'h) option \<Rightarrow> 'h BackupStatus" where
  "NewBackup generated name volumeID snapID backing =
     \<lparr>b_Name = (if name = '''' then generated else name), b_backingFile = backing, b_replica = None, b_volumeID = volumeID,
      b_SnapshotID = GenerateSnapshotDiskName snapID, b_Error = '''', b_Progress = 0, b_BackupURL = '''',
      b_State = ProgressStateInProgress, b_IsIncremental = False, b_IsOpened = False\<rparr>"

definition isVolumeSnapshotMatched :: "'h BackupStatus \<Rightarrow> string \<Rightarrow> string \<Rightarrow> bool" where
  "isVolumeSnapshotMatched rb sid volumeID \<longleftrightarrow> \<not> (b_volumeID rb \<noteq> volumeID \<or> b_SnapshotID rb \<noteq> sid)"

definition mismatch :: "'h BackupStatus \<Rightarrow> string \<Rightarrow> string \<Rightarrow> error" where
  "mismatch rb sid volumeID = Errorf (''invalid volume ['' @ b_volumeID rb @ ''] and snapshot ['' @ b_SnapshotID rb @
     ''], not volume ['' @ volumeID @ ''], snapshot ['' @ sid @ '']'')"

definition UpdateBackupStatus ::
  "'h BackupStatus \<Rightarrow> string \<Rightarrow> string \<Rightarrow> string \<Rightarrow> int \<Rightarrow> string \<Rightarrow> string \<Rightarrow> error option \<times> 'h BackupStatus" where
  "UpdateBackupStatus rb snapID volumeID state progress url errString =
     (let sid = GenerateSnapshotDiskName snapID
      in if \<not> isVolumeSnapshotMatched rb sid volumeID then (Some (mismatch rb sid volumeID), rb)
         else if b_State rb = ProgressStateComplete \<or> b_State rb = ProgressStateError then (None, rb)
         else
           let rb = rb\<lparr>b_State := state, b_Progress := progress, b_BackupURL := url, b_Error := errString\<rparr>
           in (None, if b_Progress rb = 100 then rb\<lparr>b_State := ProgressStateComplete\<rparr>
                     else if b_Error rb \<noteq> '''' then rb\<lparr>b_State := ProgressStateError\<rparr> else rb))"

section \<open>The snapshot of a backup\<close>

text \<open>findIndex; a nil replica or a nil disk panics.\<close>

fun find_index :: "'h replica \<Rightarrow> string \<Rightarrow> nat \<Rightarrow> nat option list \<Rightarrow> int option" where
  "find_index r sid i [] = Some (- 1)"
| "find_index r sid i (x # xs) =
     (if i = 0 then find_index r sid (Suc i) xs
      else do { p \<leftarrow> x; (if d_Name (at r p) = sid then Some (int i) else find_index r sid (Suc i) xs) })"

definition findIndex :: "'h BackupStatus \<Rightarrow> string \<Rightarrow> int option" where
  "findIndex rb sid =
     (if sid = '''' then Some (if b_backingFile rb = None then 0 else 1)
      else do { r \<leftarrow> b_replica rb; find_index r sid 0 (r_activeDiskData r) })"

definition HasSnapshot :: "'h BackupStatus \<Rightarrow> string \<Rightarrow> string \<Rightarrow> bool option" where
  "HasSnapshot rb snapID volumeID =
     (if b_volumeID rb \<noteq> volumeID then Some False
      else do { i \<leftarrow> findIndex rb (GenerateSnapshotDiskName snapID); Some (i \<ge> 0) })"

text \<open>OpenSnapshot, with the result of os.Getwd.\<close>

definition bk_OpenSnapshot ::
  "('h, 's) fs_env \<Rightarrow> error + string \<Rightarrow> 'h BackupStatus \<Rightarrow> string \<Rightarrow> string \<Rightarrow> 's fsys \<Rightarrow> (error option \<times> 'h BackupStatus \<times> 's fsys) option" where
  "bk_OpenSnapshot E cwd rb snapID volumeID fs =
     (let sid = GenerateSnapshotDiskName snapID
      in if b_IsOpened rb then Some (None, rb, fs)
         else case cwd of
           Inl e \<Rightarrow> Some (Wrapf (Some e) ''cannot get working directory'', rb, fs)
         | Inr dir \<Rightarrow> do {
             (res, fs) \<leftarrow> NewReadOnly E dir sid (b_backingFile rb) fs;
             (case res of
                Inl e \<Rightarrow> Some (Some e, rb, fs)
              | Inr r \<Rightarrow> Some (None, rb\<lparr>b_replica := Some r, b_volumeID := volumeID, b_SnapshotID := sid, b_IsOpened := True\<rparr>, fs))
           })"

definition assertOpen :: "'h BackupStatus \<Rightarrow> string \<Rightarrow> string \<Rightarrow> error option" where
  "assertOpen rb sid volumeID =
     (if b_volumeID rb \<noteq> volumeID \<or> b_SnapshotID rb \<noteq> sid then Some (mismatch rb sid volumeID)
      else if \<not> b_IsOpened rb then Some (Errorf (''volume ['' @ volumeID @ ''] and snapshot ['' @ sid @ ''] are not opened''))
      else None)"

definition ReadSnapshot ::
  "('h, 's) fs_env \<Rightarrow> 'h BackupStatus \<Rightarrow> string \<Rightarrow> string \<Rightarrow> int \<Rightarrow> bytes \<Rightarrow> 's fsys \<Rightarrow> (error option \<times> bytes \<times> 'h BackupStatus) option" where
  "ReadSnapshot E rb snapID volumeID start data fs =
     (case assertOpen rb (GenerateSnapshotDiskName snapID) volumeID of
        Some e \<Rightarrow> Some (Some e, data, rb)
      | None \<Rightarrow> do {
          r \<leftarrow> b_replica rb;
          (_, err, data, r) \<leftarrow> rp_ReadAt E r data start fs;
          Some (err, data, rb\<lparr>b_replica := Some r\<rparr>)
        })"

definition CloseSnapshot ::
  "('h, 's) fs_env \<Rightarrow> 'h BackupStatus \<Rightarrow> string \<Rightarrow> string \<Rightarrow> 's fsys \<Rightarrow> (error option \<times> 'h BackupStatus \<times> 's fsys) option" where
  "CloseSnapshot E rb snapID volumeID fs =
     (case assertOpen rb (GenerateSnapshotDiskName snapID) volumeID of
        Some e \<Rightarrow> Some (Some e, rb, fs)
      | None \<Rightarrow>
          if b_volumeID rb = '''' then Some (None, rb, fs)
          else do {
            r \<leftarrow> b_replica rb;
            let (err, fs) = rp_close E r fs;
            Some (err, rb\<lparr>b_replica := None, b_IsOpened := False\<rparr>, fs)
          })"

text \<open>
  The loop of CompareSnapshot over the location table; \<open>prev\<close> is the offset of the last mapping, - 1 at first.
  A mapping is its offset and its size.
\<close>

fun compare_loop :: "int \<Rightarrow> 8 word \<Rightarrow> 8 word \<Rightarrow> nat \<Rightarrow> 8 word list \<Rightarrow> int \<Rightarrow> (int \<times> int) list \<Rightarrow> (int \<times> int) list" where
  "compare_loop ss from to i [] prev mappings = mappings"
| "compare_loop ss from to i (val # loc) prev mappings =
     (if val \<le> from \<and> val > to
      then
        let offset = int i * ss; offset = offset - offset smod backupBlockSize
        in if prev \<noteq> offset then compare_loop ss from to (Suc i) loc offset (mappings @ [(offset, backupBlockSize)])
           else compare_loop ss from to (Suc i) loc prev mappings
      else compare_loop ss from to (Suc i) loc prev mappings)"

definition CompareSnapshot ::
  "('h, 's) fs_env \<Rightarrow> 'h BackupStatus \<Rightarrow> string \<Rightarrow> string \<Rightarrow> string \<Rightarrow> 's fsys \<Rightarrow> ((error + (int \<times> int) list) \<times> 'h BackupStatus) option" where
  "CompareSnapshot E rb snapID compareSnapID volumeID fs =
     (let sid = GenerateSnapshotDiskName snapID;
          compareID = (if compareSnapID \<noteq> '''' then GenerateSnapshotDiskName compareSnapID else '''')
      in case assertOpen rb sid volumeID of
           Some e \<Rightarrow> Some (Inl e, rb)
         | None \<Rightarrow> do {
             r \<leftarrow> b_replica rb;
             from \<leftarrow> findIndex rb sid;
             (if from < 0 then Some (Inl (Errorf (''failed to find snapshot '' @ sid @ '' in chain'')), rb)
              else do {
                to \<leftarrow> findIndex rb compareID;
                (if to < 0 then Some (Inl (Errorf (''failed to find snapshot '' @ compareID @ '' in chain'')), rb)
                 else do {
                   (err, r) \<leftarrow> Preload E False r fs;
                   let rb = rb\<lparr>b_replica := Some r\<rparr>;
                   (case err of
                      Some e \<Rightarrow> Some (Inl e, rb)
                    | None \<Rightarrow> Some (Inr (compare_loop (sectorSize (r_volume r)) (word_of_int from) (word_of_int to) 0
                                (location (r_volume r)) (- 1) []), rb))
                 })
              })
           })"

section \<open>The status of a restore\<close>

record RestoreStatus =
  rs_replicaAddress :: string
  rs_Progress :: int
  rs_Error :: string
  rs_BackupURL :: string
  rs_State :: string
  rs_ToFileName :: string
  rs_SnapshotDiskName :: string
  rs_LastRestored :: string
  rs_CurrentRestoringBackup :: string
  rs_stopped :: bool

definition NewRestore :: "string \<Rightarrow> string \<Rightarrow> string \<Rightarrow> string \<Rightarrow> RestoreStatus" where
  "NewRestore snapshotName replicaAddress backupURL currentRestoringBackup =
     \<lparr>rs_replicaAddress = replicaAddress, rs_Progress = 0, rs_Error = '''', rs_BackupURL = backupURL, rs_State = ProgressStateInProgress,
      rs_ToFileName = snapshotName, rs_SnapshotDiskName = snapshotName, rs_LastRestored = '''',
      rs_CurrentRestoringBackup = currentRestoringBackup, rs_stopped = False\<rparr>"

definition StartNewRestore :: "string \<Rightarrow> string \<Rightarrow> string \<Rightarrow> string \<Rightarrow> bool \<Rightarrow> RestoreStatus \<Rightarrow> RestoreStatus" where
  "StartNewRestore backupURL currentRestoringBackup toFileName snapshotDiskName validLastRestoredBackup rs =
     rs\<lparr>rs_ToFileName := toFileName, rs_Progress := 0, rs_Error := '''', rs_BackupURL := backupURL, rs_State := ProgressStateInProgress,
        rs_SnapshotDiskName := snapshotDiskName, rs_LastRestored := (if validLastRestoredBackup then rs_LastRestored rs else ''''),
        rs_CurrentRestoringBackup := currentRestoringBackup\<rparr>"

definition UpdateRestoreStatus :: "string \<Rightarrow> int \<Rightarrow> error option \<Rightarrow> RestoreStatus \<Rightarrow> RestoreStatus" where
  "UpdateRestoreStatus snapshot rp re rs =
     (let rs = rs\<lparr>rs_ToFileName := snapshot, rs_Progress := rp\<rparr>
      in case re of
           None \<Rightarrow> rs
         | Some e \<Rightarrow> rs\<lparr>rs_Error := (if rs_Error rs \<noteq> '''' then Error_msg e @ '': '' @ rs_Error rs else Error_msg e),
                        rs_State := ProgressStateError, rs_CurrentRestoringBackup := ''''\<rparr>)"

definition FinishRestore :: "RestoreStatus \<Rightarrow> RestoreStatus" where
  "FinishRestore rs =
     (if rs_State rs \<noteq> ProgressStateError
      then rs\<lparr>rs_State := ProgressStateComplete, rs_LastRestored := rs_CurrentRestoringBackup rs, rs_CurrentRestoringBackup := ''''\<rparr>
      else rs)"

definition rs_Revert :: "RestoreStatus \<Rightarrow> RestoreStatus \<Rightarrow> RestoreStatus" where
  "rs_Revert previous rs =
     rs\<lparr>rs_BackupURL := rs_BackupURL previous, rs_Progress := rs_Progress previous, rs_State := rs_State previous,
        rs_Error := rs_Error previous, rs_ToFileName := rs_ToFileName previous, rs_SnapshotDiskName := rs_SnapshotDiskName previous,
        rs_LastRestored := rs_LastRestored previous, rs_CurrentRestoringBackup := rs_CurrentRestoringBackup previous\<rparr>"

text \<open>DeepCopy leaves out the address; the copy has a nil stop channel.\<close>

definition DeepCopy :: "RestoreStatus \<Rightarrow> RestoreStatus" where
  "DeepCopy rs =
     \<lparr>rs_replicaAddress = '''', rs_Progress = rs_Progress rs, rs_Error = rs_Error rs, rs_BackupURL = rs_BackupURL rs, rs_State = rs_State rs,
      rs_ToFileName = rs_ToFileName rs, rs_SnapshotDiskName = rs_SnapshotDiskName rs, rs_LastRestored = rs_LastRestored rs,
      rs_CurrentRestoringBackup = rs_CurrentRestoringBackup rs, rs_stopped = False\<rparr>"

definition rs_Stop :: "RestoreStatus \<Rightarrow> RestoreStatus" where
  "rs_Stop rs = rs\<lparr>rs_stopped := True\<rparr>"

end
