(* ===== verification/Backup_Thms.thy ===== *)
theory Backup_Thms
  imports Backup Replica_Data
begin

text \<open>
  The blocks that CompareSnapshot selects are enough for an incremental backup, and the status of a restore can
  be taken back.
\<close>

section \<open>The loop over the location table\<close>

definition block_of :: "int \<Rightarrow> nat \<Rightarrow> int" where
  "block_of ss i = int i * ss - (int i * ss) smod backupBlockSize"

definition selected :: "8 word \<Rightarrow> 8 word \<Rightarrow> 8 word \<Rightarrow> bool" where
  "selected from to val \<longleftrightarrow> val \<le> from \<and> val > to"

lemma block_size_pos [simp]: "0 < backupBlockSize"
  by (simp add: backupBlockSize_def)

lemma block_of_eq: "0 \<le> ss \<Longrightarrow> block_of ss i = (int i * ss) div backupBlockSize * backupBlockSize"
  by (simp add: block_of_def smod_nonneg minus_mod_eq_div_mult)

lemma block_of_mono: "0 \<le> ss \<Longrightarrow> i \<le> j \<Longrightarrow> block_of ss i \<le> block_of ss j"
  unfolding block_of_eq by (intro mult_right_mono zdiv_mono1) (simp_all add: mult_right_mono less_imp_le)

lemma block_of_nonneg: "0 \<le> ss \<Longrightarrow> 0 \<le> block_of ss i"
  unfolding block_of_eq by (intro mult_nonneg_nonneg) (simp_all add: pos_imp_zdiv_nonneg_iff less_imp_le)

lemma compare_loop_step:
  "compare_loop ss from to i (val # loc) prev ms =
     (if selected from to val \<and> prev \<noteq> block_of ss i then compare_loop ss from to (Suc i) loc (block_of ss i) (ms @ [(block_of ss i, backupBlockSize)])
      else compare_loop ss from to (Suc i) loc prev ms)"
  by (simp add: selected_def block_of_def Let_def)

declare compare_loop.simps(2) [simp del]

text \<open>What the loop keeps: the mappings so far, and the last of them.\<close>

definition compare_inv :: "int \<Rightarrow> nat \<Rightarrow> int \<Rightarrow> (int \<times> int) list \<Rightarrow> bool" where
  "compare_inv ss i prev ms \<longleftrightarrow> sorted_wrt (<) (map fst ms) \<and> (\<forall>m \<in> set ms. fst m \<le> prev \<and> snd m = backupBlockSize) \<and>
     (prev = - 1 \<or> (prev, backupBlockSize) \<in> set ms) \<and> prev \<le> block_of ss i"

lemma compare_inv_skip: "0 \<le> ss \<Longrightarrow> compare_inv ss i prev ms \<Longrightarrow> compare_inv ss (Suc i) prev ms"
  using block_of_mono [of ss i "Suc i"] by (auto simp: compare_inv_def)

lemma compare_inv_add:
  assumes "0 \<le> ss" "compare_inv ss i prev ms" "prev \<noteq> block_of ss i"
  shows "compare_inv ss (Suc i) (block_of ss i) (ms @ [(block_of ss i, backupBlockSize)])"
  using assms block_of_mono [of ss i "Suc i"] by (fastforce simp: compare_inv_def sorted_wrt_append)

lemma compare_loop_selects:
  assumes "0 \<le> ss" "compare_inv ss i prev ms"
  shows "sorted_wrt (<) (map fst (compare_loop ss from to i loc prev ms)) \<and>
    set (compare_loop ss from to i loc prev ms) =
      set ms \<union> {(block_of ss (i + j), backupBlockSize) | j. j < length loc \<and> selected from to (loc ! j)}"
  using assms(2)
proof (induction loc arbitrary: i prev ms)
  case Nil
  then show ?case by (simp add: compare_inv_def)
next
  case (Cons val loc)
  let ?rest = "{(block_of ss (Suc i + j), backupBlockSize) | j. j < length loc \<and> selected from to (loc ! j)}"
  have split: "{(block_of ss (i + j), backupBlockSize) | j. j < length (val # loc) \<and> selected from to ((val # loc) ! j)} =
      (if selected from to val then {(block_of ss i, backupBlockSize)} else {}) \<union> ?rest" (is "?L = _")
  proof -
    have "?L = {(block_of ss (i + j), backupBlockSize) | j. j = 0 \<and> selected from to val} \<union> ?rest"
    proof (intro set_eqI iffI)
      fix x assume "x \<in> ?L"
      then obtain j where "x = (block_of ss (i + j), backupBlockSize)" "j < Suc (length loc)" "selected from to ((val # loc) ! j)" by auto
      then show "x \<in> {(block_of ss (i + j), backupBlockSize) | j. j = 0 \<and> selected from to val} \<union> ?rest" by (cases j) auto
    next
      fix x assume "x \<in> {(block_of ss (i + j), backupBlockSize) | j. j = 0 \<and> selected from to val} \<union> ?rest"
      then show "x \<in> ?L" by (force intro: exI [of _ "Suc _"] exI [of _ 0])
    qed
    then show ?thesis by auto
  qed
  show ?case
  proof (cases "selected from to val \<and> prev \<noteq> block_of ss i")
    case True
    then have eq: "compare_loop ss from to i (val # loc) prev ms =
        compare_loop ss from to (Suc i) loc (block_of ss i) (ms @ [(block_of ss i, backupBlockSize)])" by (simp add: compare_loop_step)
    have "compare_inv ss (Suc i) (block_of ss i) (ms @ [(block_of ss i, backupBlockSize)])"
      using True by (intro compare_inv_add [OF assms(1) Cons.prems]) simp
    from Cons.IH [OF this] show ?thesis unfolding split eq using True by simp
  next
    case False
    have "(block_of ss i, backupBlockSize) \<in> set ms" if "selected from to val"
      using False that Cons.prems block_of_nonneg [OF assms(1), of i] by (auto simp: compare_inv_def)
    moreover have eq: "compare_loop ss from to i (val # loc) prev ms = compare_loop ss from to (Suc i) loc prev ms"
      using False by (auto simp: compare_loop_step)
    ultimately show ?thesis using Cons.IH [OF compare_inv_skip [OF assms(1) Cons.prems]] unfolding split eq by auto
  qed
qed

section \<open>The contents of a snapshot\<close>

text \<open>The volume as the layers up to index \<open>k\<close> hold it; no layer is a volume of zeros.\<close>

definition snap_byte :: "('h, 's) layer_view \<Rightarrow> 's \<Rightarrow> 'h option list \<Rightarrow> nat \<Rightarrow> nat \<Rightarrow> byte" where
  "snap_byte V s fs k p = (if k = 0 then 0 else layer_byte V s fs (topmost V s fs (p div v_bs V) k) p)"

lemma topmost_same:
  assumes "1 \<le> to" "to \<le> hi" "\<forall>k. to < k \<and> k \<le> hi \<longrightarrow> \<not> has_sector V s fs x k"
  shows "topmost V s fs x hi = topmost V s fs x to"
  using assms(2,3)
proof (induction hi rule: dec_induct)
  case (step n)
  then show ?case by simp
qed simp

lemma snap_byte_same:
  assumes "disk_layer ops V" "\<forall>h. fs ! 1 = Some h \<longrightarrow> v_live V s h" "to \<le> hi" "1 \<le> hi"
    and "\<forall>k. to < k \<and> k \<le> hi \<longrightarrow> \<not> has_sector V s fs (p div v_bs V) k"
  shows "snap_byte V s fs hi p = snap_byte V s fs to p"
proof (cases "to = 0")
  case False
  have "topmost V s fs (p div v_bs V) hi = topmost V s fs (p div v_bs V) to"
    using False assms(3,5) by (intro topmost_same) auto
  then show ?thesis using False assms(3) by (simp add: snap_byte_def)
next
  case True
  have "topmost V s fs (p div v_bs V) hi = topmost V s fs (p div v_bs V) 1"
    using assms(4,5) True by (intro topmost_same) auto
  moreover have "\<not> has_sector V s fs (p div v_bs V) 1" using assms(4,5) True by auto
  ultimately show ?thesis
    using disk_layer.hole_zero [OF assms(1)] assms(2,4) True by (auto simp: snap_byte_def layer_byte_def has_sector_def split: option.splits)
qed

lemma marks_newest:
  assumes "i \<le> n" "x < length loc" "\<forall>k. i \<le> k \<and> k < n \<longrightarrow> fs ! k \<noteq> None"
  shows "(\<forall>k. i \<le> k \<and> k < n \<longrightarrow> \<not> has_sector V s fs x k) \<and> marks V s fs [i ..< n] loc ! x = loc ! x \<or>
    (\<exists>k. i \<le> k \<and> k < n \<and> has_sector V s fs x k \<and> (\<forall>j. k < j \<and> j < n \<longrightarrow> \<not> has_sector V s fs x j) \<and>
       marks V s fs [i ..< n] loc ! x = of_nat k)"
  using assms(1,3)
proof (induction n rule: dec_induct)
  case base
  then show ?case by (auto simp: marks_def)
next
  case (step n)
  obtain h where h: "fs ! n = Some h" using step.prems step.hyps by auto
  have m: "marks V s fs [i ..< Suc n] loc = mark_layer V s h (of_nat n) (marks V s fs [i ..< n] loc)"
    using step.hyps(1) h by (simp add: marks_def)
  show ?case
  proof (cases "v_alloc V s h x")
    case True
    then have "has_sector V s fs x n" by (simp add: has_sector_def h)
    then show ?thesis using True step.hyps(1) assms(2) m by (intro disjI2 exI [of _ n]) auto
  next
    case False
    then have no: "\<not> has_sector V s fs x n" by (simp add: has_sector_def h)
    have "marks V s fs [i ..< Suc n] loc ! x = marks V s fs [i ..< n] loc ! x" using False assms(2) m by simp
    then show ?thesis using step.IH step.prems no by (auto simp: less_Suc_eq)
  qed
qed

section \<open>The blocks of an incremental backup\<close>

lemma Preload_marks:
  assumes "disk_layer (dops E) V" "dd_wf V (fs_data fs) (r_volume r)" "chain_ok V (fs_data fs) (r_volume r)" "vol_size V (r_volume r) < 2 ^ 64"
  shows "\<exists>d. Preload E False r fs = Some (None, r\<lparr>r_volume := d\<rparr>) \<and> sectorSize d = int (v_bs V) \<and>
    location d = marks V (fs_data fs) (files (r_volume r)) [(if r_BackingFile r = None then 1 else 2) ..< length (files (r_volume r))]
      (replicate (length (location (r_volume r))) 0)"
proof -
  let ?N = "length (files (r_volume r))" and ?bk = "r_BackingFile r \<noteq> None" and ?i = "if r_BackingFile r = None then 1 else 2 :: nat"
  define d0 where "d0 = initializeSectorLocation (r_volume r) 0"
  have N: "2 \<le> ?N" using dd_wfD(3) [OF assms(2)] .
  have d0: "sectorSize d0 = int (v_bs V)" "vol_size V d0 < 2 ^ 64" "chain_ok V (fs_data fs) d0" "files d0 = files (r_volume r)"
    "location d0 = replicate (length (location (r_volume r))) 0"
    using dd_wfD(1) [OF assms(2)] assms(3,4) by (simp_all add: d0_def initializeSectorLocation_def chain_ok_def map_replicate_const)
  have upt: "[0 ..< ?N] = 0 # [1 ..< ?N]" "[1 ..< ?N] = 1 # [2 ..< ?N]"
    using N by (auto simp: upt_rec [of 0] upt_rec [of "Suc 0"] numeral_2_eq_2)
  have "preload (data_ops E fs) ?bk d0 (fs_data fs) = preload_loop (data_ops E fs) ?bk (fs_data fs) [1 ..< ?N] d0"
    unfolding preload_def d0(4) upt(1) by simp
  also have "\<dots> = preload_loop (data_ops E fs) ?bk (fs_data fs) [?i ..< ?N] d0"
  proof (cases "r_BackingFile r = None")
    case False
    then have "preload_loop (data_ops E fs) True (fs_data fs) (1 # [2 ..< ?N]) d0 = preload_loop (data_ops E fs) True (fs_data fs) [2 ..< ?N] d0" by simp
    then show ?thesis using False unfolding upt(2) by auto
  qed simp
  finally have "preload (data_ops E fs) ?bk d0 (fs_data fs) = preload_loop (data_ops E fs) ?bk (fs_data fs) [?i ..< ?N] d0" .
  moreover have "\<exists>d. preload_loop (data_ops E fs) ?bk (fs_data fs) [?i ..< ?N] d0 = Some (None, d) \<and> sectorSize d = int (v_bs V) \<and>
      location d = marks V (fs_data fs) (files (r_volume r)) [?i ..< ?N] (replicate (length (location (r_volume r))) 0)"
  proof (cases "?i < ?N")
    case True
    then show ?thesis
      using disk_layer.preload_loop_marks [OF data_ops_layer [OF assms(1)] d0(1-3), of ?i ?bk] d0 by (auto split: if_splits)
  next
    case False
    then show ?thesis using d0 by (auto simp: marks_def)
  qed
  ultimately show ?thesis by (auto simp: Preload_def d0_def Let_def)
qed

lemma find_index_pos: "find_index r sid i xs = Some j \<Longrightarrow> j = - 1 \<or> (1 \<le> j \<and> int i \<le> j)"
  by (induction xs arbitrary: i) (fastforce split: if_splits bind_splits)+

lemma findIndex_zero: "findIndex rb sid = Some 0 \<Longrightarrow> b_backingFile rb = None"
  using find_index_pos by (fastforce simp: findIndex_def split: if_splits bind_splits)

lemma sector_in_block:
  assumes "0 < bs" "int bs dvd backupBlockSize"
  shows "block_of (int bs) (p div bs) \<le> int p \<and> int p < block_of (int bs) (p div bs) + backupBlockSize"
proof -
  obtain m where m: "backupBlockSize = int bs * int m" "0 < m"
    using assms block_size_pos by (metis dvdE int_dvd_int_iff nonneg_int_cases of_nat_0_less_iff of_nat_mult zero_less_mult_pos zero_less_imp_eq_int)
  have b: "block_of (int bs) (p div bs) = int (p div bs div m * m * bs)"
    using assms(1) m(2) by (simp add: block_of_eq m(1) zdiv_int algebra_simps)
  have "p div bs div m * m \<le> p div bs" "p div bs < p div bs div m * m + m"
    using m(2) by (simp_all add: div_mult_mod_eq [symmetric] mod_less_divisor) (metis div_mult_mod_eq mod_less_divisor nat_add_left_cancel_less)
  then have "p div bs div m * m * bs \<le> p div bs * bs" "p < (p div bs div m * m + m) * bs"
    using assms(1) by (simp_all add: div_less_iff_less_mult)
  then have "p div bs div m * m * bs \<le> p" "p < (p div bs div m * m + m) * bs"
    using div_times_less_eq_dividend [of p bs] by (blast intro: le_trans)+
  then show ?thesis unfolding b m(1) by (simp add: algebra_simps flip: of_nat_mult of_nat_add)
qed

text \<open>A snapshot that is open for a backup: the chain ends with it, and its layers are in order.\<close>

definition backup_open :: "('h, 's) layer_view \<Rightarrow> 's fsys \<Rightarrow> 'h BackupStatus \<Rightarrow> 'h replica \<Rightarrow> string \<Rightarrow> string \<Rightarrow> bool" where
  "backup_open V fs rb r snapID volumeID \<longleftrightarrow>
     assertOpen rb (GenerateSnapshotDiskName snapID) volumeID = None \<and> b_replica rb = Some r \<and> (r_BackingFile r = None) = (b_backingFile rb = None) \<and>
     findIndex rb (GenerateSnapshotDiskName snapID) = Some (int (length (files (r_volume r)) - 1)) \<and>
     dd_wf V (fs_data fs) (r_volume r) \<and> chain_ok V (fs_data fs) (r_volume r) \<and>
     vol_size V (r_volume r) < 2 ^ 64 \<and> int (v_bs V) dvd backupBlockSize"

lemma CompareSnapshot_eq:
  assumes "disk_layer (dops E) V" "backup_open V fs rb r snapID volumeID"
    and "findIndex rb (if compareSnapID = '''' then '''' else GenerateSnapshotDiskName compareSnapID) = Some (int to)"
  defines "loc \<equiv> marks V (fs_data fs) (files (r_volume r)) [(if r_BackingFile r = None then 1 else 2) ..< length (files (r_volume r))]
      (replicate (length (location (r_volume r))) 0)"
  shows "\<exists>rb'. CompareSnapshot E rb snapID compareSnapID volumeID fs =
    Some (Inr (compare_loop (int (v_bs V)) (of_nat (length (files (r_volume r)) - 1)) (of_nat to) 0 loc (- 1) []), rb')"
proof -
  note o = assms(2) [unfolded backup_open_def]
  obtain d where "Preload E False r fs = Some (None, r\<lparr>r_volume := d\<rparr>)" "sectorSize d = int (v_bs V)" "location d = loc"
    using Preload_marks [OF assms(1), of fs r] o unfolding loc_def by blast
  then show ?thesis using o assms(3) by (cases "compareSnapID = ''''") (simp_all add: CompareSnapshot_def Let_def)
qed

text \<open>A sector is selected exactly when a layer above the older snapshot has it.\<close>

lemma marks_selected:
  assumes "dd_wf V s d" "x < length (location d)" "to < length (files d)" "i \<le> Suc to" "1 \<le> i" "i \<le> length (files d)"
  shows "selected (of_nat (length (files d) - 1)) (of_nat to) (marks V s (files d) [i ..< length (files d)] (replicate (length (location d)) 0) ! x) \<longleftrightarrow>
    (\<exists>k. to < k \<and> k < length (files d) \<and> has_sector V s (files d) x k)"
proof -
  let ?N = "length (files d)" and ?v = "marks V s (files d) [i ..< length (files d)] (replicate (length (location d)) 0) ! x"
  have N: "?N \<le> 256" using dd_wfD(4) [OF assms(1)] .
  have fs: "\<forall>k. i \<le> k \<and> k < ?N \<longrightarrow> files d ! k \<noteq> None"
  proof (intro allI impI)
    fix k assume "i \<le> k \<and> k < ?N"
    then show "files d ! k \<noteq> None" using dd_wf_file [OF assms(1), of k] assms(5) by auto
  qed
  have u: "unat (of_nat k :: 8 word) = k" if "k < 256" for k using that by (rule unat_of_nat8)
  have "?N - 1 < 256" "to < 256" using N assms(3) by linarith+
  then have w: "(of_nat k :: 8 word) \<le> of_nat (?N - 1) \<longleftrightarrow> k \<le> ?N - 1" "(of_nat to :: 8 word) < of_nat k \<longleftrightarrow> to < k" if "k < 256" for k
    using that by (simp_all only: word_le_nat_alt word_less_nat_alt u)
  consider (none) "\<forall>k. i \<le> k \<and> k < ?N \<longrightarrow> \<not> has_sector V s (files d) x k" "?v = 0"
    | (top) k where "i \<le> k" "k < ?N" "has_sector V s (files d) x k" "\<forall>j. k < j \<and> j < ?N \<longrightarrow> \<not> has_sector V s (files d) x j" "?v = of_nat k"
    using marks_newest [OF assms(6), of x "replicate (length (location d)) 0" "files d" V s] fs assms(2) by auto
  then show ?thesis
  proof cases
    case none
    then show ?thesis using assms(4) by (auto simp: selected_def)
  next
    case top
    then have "k < 256" "k \<le> ?N - 1" using N by linarith+
    then have "selected (of_nat (?N - 1)) (of_nat to) ?v \<longleftrightarrow> to < k" using w [of k] unfolding selected_def top(5) by simp
    then show ?thesis using top(2-4) by (meson le_less_trans not_less less_le_trans linorder_neqE_nat order.strict_trans)
  qed
qed

text \<open>The mappings are the blocks of the sectors that a layer above the older snapshot has.\<close>

lemma CompareSnapshot_blocks:
  assumes "disk_layer (dops E) V" "backup_open V fs rb r snapID volumeID"
    and "findIndex rb (if compareSnapID = '''' then '''' else GenerateSnapshotDiskName compareSnapID) = Some (int to)" "to < length (files (r_volume r))"
  shows "\<exists>ms rb'. CompareSnapshot E rb snapID compareSnapID volumeID fs = Some (Inr ms, rb') \<and> sorted_wrt (<) (map fst ms) \<and>
    set ms = {(block_of (int (v_bs V)) x, backupBlockSize) | x. x < length (location (r_volume r)) \<and>
      (\<exists>k. to < k \<and> k < length (files (r_volume r)) \<and> has_sector V (fs_data fs) (files (r_volume r)) x k)}"
proof -
  let ?fl = "files (r_volume r)" and ?N = "length (files (r_volume r))" and ?s = "fs_data fs" and ?bs = "v_bs V"
  let ?i = "if r_BackingFile r = None then 1 else 2 :: nat"
  let ?loc = "marks V ?s ?fl [?i ..< ?N] (replicate (length (location (r_volume r))) 0)"
  note o = assms(2) [unfolded backup_open_def]
  have wf: "dd_wf V ?s (r_volume r)" using o by blast
  have i: "?i \<le> Suc to" using findIndex_zero [of rb] assms(3) o by (cases to) auto
  have i1: "1 \<le> ?i" "?i \<le> ?N" using dd_wfD(3) [OF wf] by simp_all
  obtain rb' where run: "CompareSnapshot E rb snapID compareSnapID volumeID fs =
      Some (Inr (compare_loop (int ?bs) (of_nat (?N - 1)) (of_nat to) 0 ?loc (- 1) []), rb')"
    using CompareSnapshot_eq [OF assms(1-3)] by blast
  define ms where "ms = compare_loop (int ?bs) (of_nat (?N - 1)) (of_nat to) 0 ?loc (- 1) []"
  have "compare_inv (int ?bs) 0 (- 1) []" using block_of_nonneg [of "int ?bs" 0] by (simp add: compare_inv_def)
  from compare_loop_selects [OF of_nat_0_le_iff this, of "of_nat (?N - 1)" "of_nat to" ?loc]
  have sorted: "sorted_wrt (<) (map fst ms)" and sel: "set ms = {(block_of (int ?bs) (0 + x), backupBlockSize) | x.
      x < length ?loc \<and> selected (of_nat (?N - 1)) (of_nat to) (?loc ! x)}"
    unfolding ms_def by (simp_all only: set_simps Un_empty_left)
  have "x < length ?loc \<and> selected (of_nat (?N - 1)) (of_nat to) (?loc ! x) \<longleftrightarrow>
      x < length (location (r_volume r)) \<and> (\<exists>k. to < k \<and> k < ?N \<and> has_sector V ?s ?fl x k)" for x
    using marks_selected [OF wf _ assms(4) i i1, of x] unfolding length_marks length_replicate by blast
  then have "set ms = {(block_of (int ?bs) x, backupBlockSize) | x.
      x < length (location (r_volume r)) \<and> (\<exists>k. to < k \<and> k < ?N \<and> has_sector V ?s ?fl x k)}"
    unfolding sel by (simp only: add_0_left)
  then show ?thesis using run sorted unfolding ms_def by blast
qed

text \<open>
  C25: CompareSnapshot finds what an incremental backup has to copy.  For a snapshot that is open for a backup and an older snapshot
  of its chain (or none, for a full backup) it returns block-aligned mappings in increasing order; every byte in which the
  two snapshots differ lies in one of them, so that the blocks of the newer snapshot, copied over a restore of the older
  one, give the newer one; and every mapping has a sector that a layer between the two snapshots holds, so that
  no block is copied in vain.
\<close>

theorem backup_CompareSnapshot_covers:
  assumes "disk_layer (dops E) V" "backup_open V fs rb r snapID volumeID"
    and "findIndex rb (if compareSnapID = '''' then '''' else GenerateSnapshotDiskName compareSnapID) = Some (int to)" "to < length (files (r_volume r))"
  shows "\<exists>ms rb'. CompareSnapshot E rb snapID compareSnapID volumeID fs = Some (Inr ms, rb') \<and>
    sorted_wrt (<) (map fst ms) \<and> (\<forall>(off, n) \<in> set ms. n = backupBlockSize \<and> backupBlockSize dvd off) \<and>
    (\<forall>p < vol_size V (r_volume r). snap_byte V (fs_data fs) (files (r_volume r)) (length (files (r_volume r)) - 1) p \<noteq>
        snap_byte V (fs_data fs) (files (r_volume r)) to p \<longrightarrow> (\<exists>(off, n) \<in> set ms. off \<le> int p \<and> int p < off + n)) \<and>
    (\<forall>(off, n) \<in> set ms. \<exists>x k. x < length (location (r_volume r)) \<and> off \<le> int (x * v_bs V) \<and> int (x * v_bs V) < off + n \<and>
        to < k \<and> k < length (files (r_volume r)) \<and> has_sector V (fs_data fs) (files (r_volume r)) x k)"
proof -
  let ?fl = "files (r_volume r)" and ?N = "length (files (r_volume r))" and ?s = "fs_data fs" and ?bs = "v_bs V"
  have wf: "dd_wf V ?s (r_volume r)" and bs: "0 < ?bs" "int ?bs dvd backupBlockSize"
    using assms(2) disk_layer.bs_pos [OF assms(1)] unfolding backup_open_def by auto
  have N: "2 \<le> ?N" using dd_wfD(3) [OF wf] .
  obtain ms rb' where run: "CompareSnapshot E rb snapID compareSnapID volumeID fs = Some (Inr ms, rb')"
    and sorted: "sorted_wrt (<) (map fst ms)" and set: "set ms = {(block_of (int ?bs) x, backupBlockSize) | x.
      x < length (location (r_volume r)) \<and> (\<exists>k. to < k \<and> k < ?N \<and> has_sector V ?s ?fl x k)}"
    using CompareSnapshot_blocks [OF assms] by blast
  have "1 < ?N" using N by linarith
  then obtain h1 where "?fl ! 1 = Some h1" "v_live V ?s h1" by (rule dd_wf_file [OF wf order_refl])
  then have live: "\<forall>h. ?fl ! 1 = Some h \<longrightarrow> v_live V ?s h" by simp
  have cover: "\<exists>(off, n) \<in> set ms. off \<le> int p \<and> int p < off + n"
    if pv: "p < vol_size V (r_volume r)" and ne: "snap_byte V ?s ?fl (?N - 1) p \<noteq> snap_byte V ?s ?fl to p" for p
  proof -
    have "to \<le> ?N - 1" "1 \<le> ?N - 1" using assms(4) N by linarith+
    then obtain k where k: "to < k" "k \<le> ?N - 1" "has_sector V ?s ?fl (p div ?bs) k"
      using snap_byte_same [OF assms(1) live, of to "?N - 1" p] ne by blast
    have "k < ?N" using k(2) N by linarith
    have "p div ?bs < length (location (r_volume r))" using pv by (rule less_mult_imp_div_less)
    then have "(block_of (int ?bs) (p div ?bs), backupBlockSize) \<in> set ms" using k(1,3) \<open>k < ?N\<close> unfolding set by blast
    then show ?thesis using sector_in_block [OF bs, of p] by blast
  qed
  have tight: "\<exists>x k. x < length (location (r_volume r)) \<and> off \<le> int (x * ?bs) \<and> int (x * ?bs) < off + n \<and>
        to < k \<and> k < ?N \<and> has_sector V ?s ?fl x k" if mem: "(off, n) \<in> set ms" for off n
  proof -
    obtain x where x: "off = block_of (int ?bs) x" "n = backupBlockSize" "x < length (location (r_volume r))" "\<exists>k. to < k \<and> k < ?N \<and> has_sector V ?s ?fl x k"
      using mem unfolding set by blast
    have "block_of (int ?bs) x \<le> int (x * ?bs) \<and> int (x * ?bs) < block_of (int ?bs) x + backupBlockSize"
      using sector_in_block [OF bs, of "x * ?bs"] bs(1) by simp
    then show ?thesis using x by blast
  qed
  have "\<forall>(off, n) \<in> set ms. n = backupBlockSize \<and> backupBlockSize dvd off" unfolding set by (auto simp: block_of_eq)
  then show ?thesis using run sorted cover tight by (intro exI conjI) blast+
qed

text \<open>The small replica without its head, opened for a backup of its newer snapshot, which is the file head of the store here.\<close>

definition ex_snap :: "string replica" where
  "ex_snap = ex_rep\<lparr>r_volume := ex_dd, r_activeDiskData := [None, Some 0, Some 1], r_readOnly := True\<rparr>"

definition ex_backup :: "string BackupStatus" where
  "ex_backup = (NewBackup ''backup-1'' '''' ''vol'' ''b'' None)\<lparr>b_replica := Some ex_snap, b_IsOpened := True\<rparr>"

lemma ex_backup_open: "backup_open (sf_view 2) ex_fs ex_backup ex_snap ''b'' ''vol''"
proof -
  have "assertOpen ex_backup (GenerateSnapshotDiskName ''b'') ''vol'' = None" "findIndex ex_backup (GenerateSnapshotDiskName ''b'') = Some 2" by code_simp+
  then show ?thesis using ex_wf ex_chain_ok
    by (simp add: backup_open_def ex_snap_def) (simp add: ex_backup_def ex_snap_def NewBackup_def ex_rep_def ex_fs_def ex_dd_def sf_view_def backupBlockSize_def)
qed

theorem backup_CompareSnapshot_covers_witness:
  "\<exists>ms rb'. CompareSnapshot (mem_env 2 (\<lambda>_. None)) ex_backup ''b'' ''a'' ''vol'' ex_fs = Some (Inr ms, rb') \<and> sorted_wrt (<) (map fst ms)"
proof -
  have "findIndex ex_backup (if ''a'' = '''' then '''' else GenerateSnapshotDiskName ''a'') = Some (int 1)" by code_simp
  moreover have "1 < length (files (r_volume ex_snap))" by (simp add: ex_snap_def ex_dd_def)
  ultimately show ?thesis
    using backup_CompareSnapshot_covers [where E = "mem_env 2 (\<lambda>_. None)", OF mem.disk_layer_axioms ex_backup_open] by meson
qed

section \<open>The status of a backup and of a restore\<close>

text \<open>One method of a RestoreStatus between DeepCopy and Revert.\<close>

datatype restore_op = RStart string string string string bool | RUpdate string int "error option" | RFinish | RStop

fun restore_step :: "restore_op \<Rightarrow> RestoreStatus \<Rightarrow> RestoreStatus" where
  "restore_step (RStart url cur to disk valid) rs = StartNewRestore url cur to disk valid rs"
| "restore_step (RUpdate snapshot rp re) rs = UpdateRestoreStatus snapshot rp re rs"
| "restore_step RFinish rs = FinishRestore rs"
| "restore_step RStop rs = rs_Stop rs"

lemma restore_step_address: "rs_replicaAddress (restore_step a rs) = rs_replicaAddress rs"
  by (cases a) (auto simp: StartNewRestore_def UpdateRestoreStatus_def FinishRestore_def rs_Stop_def Let_def split: option.split)

lemma restore_steps_address: "rs_replicaAddress (fold restore_step as rs) = rs_replicaAddress rs"
  by (induction as arbitrary: rs) (simp_all add: restore_step_address)

text \<open>
  Revert takes back whatever happened to the status of a restore since the copy that it is given was made: after any
  sequence of starts, updates and ends of restores the status is the one at the time of DeepCopy; only a stop stays.
\<close>

lemma restore_Revert_roundtrip:
  "rs_Revert (DeepCopy rs) (fold restore_step as rs) = rs\<lparr>rs_stopped := rs_stopped (fold restore_step as rs)\<rparr>"
  using restore_steps_address [of as rs] by (simp add: rs_Revert_def DeepCopy_def)

text \<open>One call of UpdateBackupStatus.\<close>

definition update_backup :: "string \<times> string \<times> string \<times> int \<times> string \<times> string \<Rightarrow> 'h BackupStatus \<Rightarrow> 'h BackupStatus" where
  "update_backup u rb = (case u of (snapID, volumeID, state, progress, url, err) \<Rightarrow> snd (UpdateBackupStatus rb snapID volumeID state progress url err))"

text \<open>
  The end of a backup is final: once its state is complete or error, no sequence of updates changes anything of its
  status, and an update that reports the progress 100 or an error ends it.
\<close>

lemma backup_end_final:
  assumes "isVolumeSnapshotMatched rb (GenerateSnapshotDiskName snapID) volumeID" "progress = 100 \<or> err \<noteq> ''''"
  shows "\<exists>rb'. UpdateBackupStatus rb snapID volumeID state progress url err = (None, rb') \<and>
    b_State rb' \<in> {ProgressStateComplete, ProgressStateError} \<and> fold update_backup us rb' = rb'"
proof -
  have stay: "fold update_backup us x = x" if "b_State x \<in> {ProgressStateComplete, ProgressStateError}" for us and x :: "'a BackupStatus"
    using that by (induction us) (auto simp: update_backup_def UpdateBackupStatus_def Let_def)
  define rb' where "rb' = snd (UpdateBackupStatus rb snapID volumeID state progress url err)"
  have "UpdateBackupStatus rb snapID volumeID state progress url err = (None, rb')" "b_State rb' \<in> {ProgressStateComplete, ProgressStateError}"
    using assms unfolding rb'_def by (auto simp: UpdateBackupStatus_def Let_def)
  with stay show ?thesis by blast
qed

end
