(* ===== verification/Task_List.thy ===== *)
theory Task_List
  imports Backup
begin

text \<open>
  The lists of backups and of snapshot hash jobs that a sync agent keeps (src/pkg/sync/rpc/list.go).  An entry is a name and a
  pointer to a status that others change; \<open>st\<close> reads the state behind the pointer, None is a nil pointer.  A list is a Go
  slice: None is the nil slice.
\<close>

type_synonym 'j infos = "(string \<times> 'j) list option"

definition items :: "'j infos \<Rightarrow> (string \<times> 'j) list" where
  "items b = (case b of None \<Rightarrow> [] | Some l \<Rightarrow> l)"

definition list_remove :: "string \<Rightarrow> 'j infos \<Rightarrow> int \<Rightarrow> error + 'j infos" where
  "list_remove name b ix =
     (case b of
        None \<Rightarrow> Inl (Errorf ''empty list'')
      | Some l \<Rightarrow>
          if ix \<ge> int (length l) \<or> ix < 0
          then Inl (Errorf (''BUG: attempting to delete an out of range index entry from '' @ name))
          else Inr (Some (take (nat ix) l @ drop (nat ix + 1) l)))"

section \<open>Pruning\<close>

text \<open>
  The two loops of refresh and purgePartialRetained for one state, with the index plus one: the scan from the end, which stops
  at the entry after the last one to retain, and the removal from there on.
\<close>

fun scan_loop :: "('j \<Rightarrow> string option) \<Rightarrow> string \<Rightarrow> nat \<Rightarrow> 'j infos \<Rightarrow> nat \<Rightarrow> nat \<Rightarrow> (nat \<times> nat) option" where
  "scan_loop st state limit b 0 count = Some (0, count)"
| "scan_loop st state limit b (Suc i) count = do {
     (name, j) \<leftarrow> index (items b) (int i);
     s \<leftarrow> st j;
     (if s = state
      then if count = limit then Some (Suc i, count) else scan_loop st state limit b i (Suc count)
      else scan_loop st state limit b i count)
   }"

fun purge_loop :: "('j \<Rightarrow> string option) \<Rightarrow> string \<Rightarrow> string \<Rightarrow> nat \<Rightarrow> 'j infos \<Rightarrow> (error option \<times> 'j infos) option" where
  "purge_loop st list_name state 0 b = Some (None, b)"
| "purge_loop st list_name state (Suc i) b = do {
     (name, j) \<leftarrow> index (items b) (int i);
     s \<leftarrow> st j;
     (if s = state
      then case list_remove list_name b (int i) of
             Inl e \<Rightarrow> Some (Some e, b)
           | Inr b \<Rightarrow> purge_loop st list_name state (i - 1) b
      else purge_loop st list_name state i b)
   }"

definition purge_state :: "('j \<Rightarrow> string option) \<Rightarrow> string \<Rightarrow> string \<Rightarrow> nat \<Rightarrow> 'j infos \<Rightarrow> (error option \<times> 'j infos) option" where
  "purge_state st list_name state limit b = do {
     (n, count) \<leftarrow> scan_loop st state limit b (length (items b)) 0;
     (if count = limit then purge_loop st list_name state n b else Some (None, b))
   }"

fun purge_states :: "('j \<Rightarrow> string option) \<Rightarrow> string \<Rightarrow> (string \<times> nat) list \<Rightarrow> 'j infos \<Rightarrow> (error option \<times> 'j infos) option" where
  "purge_states st list_name [] b = Some (None, b)"
| "purge_states st list_name ((state, limit) # rest) b = do {
     (err, b) \<leftarrow> purge_state st list_name state limit b;
     (case err of Some e \<Rightarrow> Some (Some e, b) | None \<Rightarrow> purge_states st list_name rest b)
   }"

section \<open>The list of backups\<close>

definition retainBackupStateCounts :: "(string \<times> nat) list" where
  "retainBackupStateCounts = [(ProgressStateComplete, 5), (ProgressStateError, 10)]"

text \<open>refresh, with the order in which Go ranges over the map.\<close>

definition backup_refresh :: "(string \<times> nat) list \<Rightarrow> ('j \<Rightarrow> string option) \<Rightarrow> 'j infos \<Rightarrow> (error option \<times> 'j infos) option" where
  "backup_refresh order st b = purge_states st ''backupList'' order b"

fun delete_at :: "string \<Rightarrow> string \<Rightarrow> (string \<times> 'j) list \<Rightarrow> nat \<Rightarrow> 'j infos \<Rightarrow> (error option \<times> 'j infos) option" where
  "delete_at list_name name [] i b = None"
| "delete_at list_name name (e # es) i b =
     (if fst e = name
      then Some (case list_remove list_name b (int i) of Inl err \<Rightarrow> (Some err, b) | Inr b \<Rightarrow> (None, b))
      else delete_at list_name name es (Suc i) b)"

definition BackupDelete :: "string \<Rightarrow> 'j infos \<Rightarrow> error option \<times> 'j infos" where
  "BackupDelete backupID b =
     (case delete_at ''backupList'' backupID (items b) 0 b of
        Some r \<Rightarrow> r
      | None \<Rightarrow> (Some (Errorf (''backup not found '' @ backupID)), b))"

text \<open>BackupAdd; the high water mark, which is only logged, is left out.\<close>

definition BackupAdd :: "(string \<times> nat) list \<Rightarrow> ('j \<Rightarrow> string option) \<Rightarrow> string \<Rightarrow> 'j \<Rightarrow> 'j infos \<Rightarrow> (error option \<times> 'j infos) option" where
  "BackupAdd order st backupID backup b =
     (if backupID = '''' then Some (Some (Errorf ''empty backupID''), b)
      else
        let (_, b) = BackupDelete backupID b;
            b = Some (items b @ [(backupID, backup)])
        in backup_refresh order st b)"

definition BackupGet :: "(string \<times> nat) list \<Rightarrow> ('j \<Rightarrow> string option) \<Rightarrow> string \<Rightarrow> 'j infos \<Rightarrow> ((error + 'j) \<times> 'j infos) option" where
  "BackupGet order st backupID b =
     (if backupID = '''' then Some (Inl (Errorf ''empty backupID''), b)
      else do {
        (err, b) \<leftarrow> backup_refresh order st b;
        (case err of
           Some e \<Rightarrow> Some (Inl e, b)
         | None \<Rightarrow> (case find (\<lambda>e. fst e = backupID) (items b) of
             Some (_, j) \<Rightarrow> Some (Inr j, b)
           | None \<Rightarrow> Some (Inl (Errorf (''backup not found '' @ backupID)), b)))
      })"

section \<open>The list of hash jobs\<close>

definition MaxSnapshotHashJobSize :: nat where "MaxSnapshotHashJobSize = 10"

definition hash_refresh :: "('j \<Rightarrow> string option) \<Rightarrow> 'j infos \<Rightarrow> (error option \<times> 'j infos) option" where
  "hash_refresh st b = purge_states st ''snapshotHashList''
     (map (\<lambda>state. (state, MaxSnapshotHashJobSize)) [ProgressStateComplete, ProgressStateError]) b"

text \<open>The loop of Add: the list without the old job of the snapshot, or the error.\<close>

fun replace_job :: "('j \<Rightarrow> string option) \<Rightarrow> string \<Rightarrow> (string \<times> 'j) list \<Rightarrow> nat \<Rightarrow> 'j infos \<Rightarrow> error + 'j infos" where
  "replace_job st name [] i b = Inr b"
| "replace_job st name (e # es) i b =
     (if fst e = name
      then case st (snd e) of
             None \<Rightarrow> Inl (Errorf (''BUG: snapshot '' @ name @ '' job is nil''))
           | Some s \<Rightarrow>
               if s = ProgressStateComplete \<or> s = ProgressStateError then list_remove ''snapshotHashList'' b (int i)
               else Inl (Errorf (''hashing snapshot '' @ name @ '' is in progress''))
      else replace_job st name es (Suc i) b)"

definition hash_Add :: "('j \<Rightarrow> string option) \<Rightarrow> string \<Rightarrow> 'j \<Rightarrow> 'j infos \<Rightarrow> (error option \<times> 'j infos) option" where
  "hash_Add st snapshotName job b =
     (if snapshotName = '''' then Some (Some (Errorf ''snapshot name is required''), b)
      else case replace_job st snapshotName (items b) 0 b of
        Inl e \<Rightarrow> Some (Some e, b)
      | Inr b \<Rightarrow> hash_refresh st (Some (items b @ [(snapshotName, job)])))"

definition hash_Get :: "('j \<Rightarrow> string option) \<Rightarrow> string \<Rightarrow> 'j infos \<Rightarrow> ((error + 'j) \<times> 'j infos) option" where
  "hash_Get st snapshotName b =
     (if snapshotName = '''' then Some (Inl (Errorf ''snapshot name is required''), b)
      else do {
        (err, b) \<leftarrow> hash_refresh st b;
        (case err of
           Some e \<Rightarrow> Some (Inl e, b)
         | None \<Rightarrow> (case find (\<lambda>e. fst e = snapshotName) (items b) of
             Some (_, j) \<Rightarrow> Some (Inr j, b)
           | None \<Rightarrow> Some (Inl (Errorf (''snapshot '' @ snapshotName @ '' is not found'')), b)))
      })"

definition hash_Delete :: "string \<Rightarrow> 'j infos \<Rightarrow> error option \<times> 'j infos" where
  "hash_Delete snapshotName b =
     (case delete_at ''snapshotHashList'' snapshotName (items b) 0 b of Some r \<Rightarrow> r | None \<Rightarrow> (None, b))"

definition hash_GetSize :: "'j infos \<Rightarrow> nat" where
  "hash_GetSize b = length (items b)"

end
