(* ===== verification/Task_List_Thms.thy ===== *)
theory Task_List_Thms
  imports Task_List "HOL-Library.Multiset" "HOL-Library.Sublist"
begin

text \<open>
  The loops that prune a task list, compared with a recursive function over the list from its newest entry, and what follows
  for the lists.
\<close>

section \<open>A reference for the pruning\<close>

text \<open>
  From the newest entry on: the first \<open>k\<close> entries of the state are retained.  Behind them, an entry of the state is removed and the
  entry before it is passed over without a look.
\<close>

fun prune_old :: "('a \<Rightarrow> bool) \<Rightarrow> 'a list \<Rightarrow> 'a list" where
  "prune_old P [] = []"
| "prune_old P (x # xs) = (if P x then (case xs of [] \<Rightarrow> [] | y # ys \<Rightarrow> y # prune_old P ys) else x # prune_old P xs)"

fun prune :: "('a \<Rightarrow> bool) \<Rightarrow> nat \<Rightarrow> 'a list \<Rightarrow> 'a list" where
  "prune P k [] = []"
| "prune P k (x # xs) = (if P x then (case k of 0 \<Rightarrow> prune_old P (x # xs) | Suc k' \<Rightarrow> x # prune P k' xs) else x # prune P k xs)"

definition in_state :: "('j \<Rightarrow> string option) \<Rightarrow> string \<Rightarrow> string \<times> 'j \<Rightarrow> bool" where
  "in_state st state e \<longleftrightarrow> st (snd e) = Some state"

lemma items_Some [simp]: "items (Some l) = l"
  by (simp add: items_def)

lemma rev_take_Suc: "i < length l \<Longrightarrow> rev (take (Suc i) l) = l ! i # rev (take i l)"
  by (simp add: take_Suc_conv_app_nth)



lemma list_remove_nat: "i < length l \<Longrightarrow> list_remove name (Some l) (int i) = Inr (Some (take i l @ drop (Suc i) l))"
  by (simp add: list_remove_def)

lemma purge_loop_prune:
  assumes "\<forall>e \<in> set l. st (snd e) \<noteq> None" "n \<le> length l"
  shows "purge_loop st name state n (Some l) = Some (None, Some (rev (prune_old (in_state st state) (rev (take n l))) @ drop n l))"
  using assms
proof (induction n arbitrary: l rule: less_induct)
  case (less n)
  show ?case
  proof (cases n)
    case (Suc i)
    have i: "i < length l" using less.prems(2) Suc by simp
    obtain s where s: "st (snd (l ! i)) = Some s" using less.prems(1) i by fastforce
    then have ins: "in_state st state (l ! i) \<longleftrightarrow> s = state" by (simp add: in_state_def)
    show ?thesis
    proof (cases "s = state")
      case False
      have "drop i l = l ! i # drop (Suc i) l" using i by (simp add: Cons_nth_drop_Suc)
      then show ?thesis using less.IH [of i l] less.prems False s i Suc
        by (simp add: index_nat rev_take_Suc ins case_prod_beta)
    next
      case True
      let ?l = "take i l @ drop (Suc i) l"
      have run: "purge_loop st name state n (Some l) = purge_loop st name state (i - 1) (Some ?l)"
        using True s i Suc by (simp add: index_nat list_remove_nat case_prod_beta)
      have pr: "\<forall>e \<in> set ?l. st (snd e) \<noteq> None" using less.prems(1) by (auto dest: in_set_takeD in_set_dropD)
      show ?thesis
      proof (cases i)
        case 0
        then show ?thesis using run True s i Suc ins by (simp add: rev_take_Suc)
      next
        case (Suc k)
        have k: "take k ?l = take k l" "drop k ?l = l ! k # drop (Suc i) l" using i Suc
          by (simp_all add: min_def drop_take take_Suc_conv_app_nth)
        have "purge_loop st name state k (Some ?l) = Some (None, Some (rev (prune_old (in_state st state) (rev (take k ?l))) @ drop k ?l))"
          using less.IH [of k ?l] pr i Suc \<open>n = Suc i\<close> by simp
        then show ?thesis using run True s i Suc \<open>n = Suc i\<close> ins unfolding k by (simp add: rev_take_Suc)
      qed
    qed
  qed simp
qed

lemma scan_purge:
  assumes "\<forall>e \<in> set l. st (snd e) \<noteq> None" "n \<le> length l" "c \<le> limit"
  shows "do { (m, count) \<leftarrow> scan_loop st state limit (Some l) n c;
              (if count = limit then purge_loop st name state m (Some l) else Some (None, Some l)) } =
    Some (None, Some (rev (prune (in_state st state) (limit - c) (rev (take n l))) @ drop n l))"
  using assms(2,3)
proof (induction n arbitrary: c)
  case (Suc i)
  then have i: "i < length l" by simp
  obtain s where s: "st (snd (l ! i)) = Some s" using assms(1) i by fastforce
  then have ins: "in_state st state (l ! i) \<longleftrightarrow> s = state" by (simp add: in_state_def)
  have d: "drop i l = l ! i # drop (Suc i) l" using i by (simp add: Cons_nth_drop_Suc)
  consider "s \<noteq> state" | "s = state" "c = limit" | "s = state" "c < limit" using Suc.prems(2) by linarith
  then show ?case
  proof cases
    case 1
    then show ?thesis using Suc.IH [of c] Suc.prems s i by (simp add: index_nat rev_take_Suc ins case_prod_beta d)
  next
    case 2
    then show ?thesis using purge_loop_prune [OF assms(1), of "Suc i" name state] Suc.prems s i
      by (simp add: index_nat rev_take_Suc ins case_prod_beta del: purge_loop.simps)
  next
    case 3
    then obtain k where k: "limit - c = Suc k" "limit - Suc c = k" by (cases "limit - c") auto
    then show ?thesis using Suc.IH [of "Suc c"] Suc.prems s i 3 by (simp add: index_nat rev_take_Suc ins case_prod_beta d)
  qed
qed simp

lemma purge_state_prune:
  assumes "\<forall>e \<in> set l. st (snd e) \<noteq> None"
  shows "purge_state st name state limit (Some l) = Some (None, Some (rev (prune (in_state st state) limit (rev l))))"
  using scan_purge [OF assms order_refl le0, of state limit name] by (simp add: purge_state_def)

section \<open>What pruning keeps\<close>

lemma subseq_rev: "subseq xs ys \<Longrightarrow> subseq (rev xs) (rev ys)"
  by (induction rule: list_emb.induct) (auto intro: subseq_rev_drop_many list_emb_append_mono)

lemma subseq_set: "subseq xs ys \<Longrightarrow> set xs \<subseteq> set ys"
  by (induction rule: list_emb.induct) auto

lemma prune_old_subseq: "subseq (prune_old P xs) xs"
proof (induction P xs rule: prune_old.induct)
  case (2 P x xs)
  then show ?case by (cases xs) auto
qed simp

lemma prune_subseq: "subseq (prune P k xs) xs"
  by (induction P k xs rule: prune.induct) (auto split: nat.split intro: prune_old_subseq simp del: prune_old.simps)

lemma prune_old_other: "\<forall>x. Q x \<longrightarrow> \<not> P x \<Longrightarrow> filter Q (prune_old P xs) = filter Q xs"
proof (induction P xs rule: prune_old.induct)
  case (2 P x xs)
  then show ?case by (cases xs) auto
qed simp

lemma prune_other: "\<forall>x. Q x \<longrightarrow> \<not> P x \<Longrightarrow> filter Q (prune P k xs) = filter Q xs"
  by (induction P k xs rule: prune.induct) (auto split: nat.split simp: prune_old_other simp del: prune_old.simps)

lemma prune_newest: "take k (filter P (prune P k xs)) = take k (filter P xs)"
  by (induction P k xs rule: prune.induct) (auto split: nat.split)

lemma prune_old_count: "length (filter P (prune_old P xs)) \<le> length (filter P xs)"
  using subseq_filter [OF prune_old_subseq, THEN list_emb_length] .

lemma prune_old_shrinks: "P x \<Longrightarrow> length (filter P (prune_old P (x # xs))) < length (filter P (x # xs))"
  using prune_old_count [of P "tl xs"] by (cases xs) auto

lemma prune_count: "length (filter P (prune P k xs)) \<le> max k (length (filter P xs) - 1)"
proof (induction P k xs rule: prune.induct)
  case (2 P k x xs)
  show ?case
  proof (cases "P x \<and> k = 0")
    case True
    then show ?thesis using prune_old_shrinks [of P x xs] by simp
  next
    case False
    then show ?thesis using 2 by (cases k) auto
  qed
qed simp

text \<open>The list after all states have been pruned.\<close>

definition pruned :: "('j \<Rightarrow> string option) \<Rightarrow> (string \<times> nat) list \<Rightarrow> (string \<times> 'j) list \<Rightarrow> (string \<times> 'j) list \<Rightarrow> bool" where
  "pruned st order l l' \<longleftrightarrow> subseq l' l \<and>
     filter (\<lambda>e. the (st (snd e)) \<notin> fst ` set order) l' = filter (\<lambda>e. the (st (snd e)) \<notin> fst ` set order) l \<and>
     (\<forall>(state, limit) \<in> set order.
        take limit (filter (in_state st state) (rev l')) = take limit (filter (in_state st state) (rev l)) \<and>
        length (filter (in_state st state) l') \<le> max limit (length (filter (in_state st state) l) - 1))"

lemma purge_states_filter:
  assumes "\<forall>e \<in> set l. st (snd e) \<noteq> None"
  shows "\<exists>l'. purge_states st name order (Some l) = Some (None, Some l') \<and> subseq l' l \<and>
    (\<forall>Q. (\<forall>x s. Q x \<longrightarrow> s \<in> fst ` set order \<longrightarrow> \<not> in_state st s x) \<longrightarrow> filter Q l' = filter Q l)"
  using assms
proof (induction order arbitrary: l)
  case Nil
  then show ?case by auto
next
  case (Cons o1 order)
  obtain state limit where o1: "o1 = (state, limit)" by fastforce
  let ?l = "rev (prune (in_state st state) limit (rev l))"
  have sub: "subseq ?l l" using subseq_rev [OF prune_subseq [of "in_state st state" limit "rev l"]] by simp
  then have pr: "\<forall>e \<in> set ?l. st (snd e) \<noteq> None" using Cons.prems subseq_set by blast
  obtain l' where l': "purge_states st name order (Some ?l) = Some (None, Some l')" "subseq l' ?l"
    "\<forall>Q. (\<forall>x s. Q x \<longrightarrow> s \<in> fst ` set order \<longrightarrow> \<not> in_state st s x) \<longrightarrow> filter Q l' = filter Q ?l"
    using Cons.IH [OF pr] by blast
  have "filter Q l' = filter Q l" if q: "\<forall>x s. Q x \<longrightarrow> s \<in> fst ` set (o1 # order) \<longrightarrow> \<not> in_state st s x" for Q
  proof -
    have "filter Q l' = filter Q ?l" using l'(3) q by auto
    also have "\<dots> = filter Q l" using prune_other [of Q "in_state st state" limit "rev l"] q o1 by (simp add: rev_filter flip: rev_filter)
    finally show ?thesis .
  qed
  then show ?case using l'(1,2) sub purge_state_prune [OF Cons.prems, of name state limit] o1
    by (auto intro: subseq_order.trans)
qed

lemma pruned_at:
  assumes "pruned st order l l'" "(s, k) \<in> set order"
  shows "take k (filter (in_state st s) (rev l')) = take k (filter (in_state st s) (rev l)) \<and>
    length (filter (in_state st s) l') \<le> max k (length (filter (in_state st s) l) - 1)"
  using assms unfolding pruned_def by blast

lemma in_state_unique: "in_state st s e \<Longrightarrow> in_state st s' e \<Longrightarrow> s = s'"
  by (simp add: in_state_def)

lemma rev_prune_other:
  assumes "s \<noteq> state"
  shows "filter (in_state st s) (rev (prune (in_state st state) limit (rev l))) = filter (in_state st s) l"
  using prune_other [of "in_state st s" "in_state st state" limit "rev l"] assms in_state_unique by (metis rev_filter rev_rev_ident)

lemma purge_states_pruned:
  assumes "\<forall>e \<in> set l. st (snd e) \<noteq> None" "distinct (map fst order)"
  shows "\<exists>l'. purge_states st name order (Some l) = Some (None, Some l') \<and> pruned st order l l'"
  using assms
proof (induction order arbitrary: l)
  case Nil
  then show ?case by (simp add: pruned_def)
next
  case (Cons o1 order)
  obtain state limit where o1: "o1 = (state, limit)" by fastforce
  let ?l = "rev (prune (in_state st state) limit (rev l))"
  have sub: "subseq ?l l" using subseq_rev [OF prune_subseq [of "in_state st state" limit "rev l"]] by simp
  then have pr: "\<forall>e \<in> set ?l. st (snd e) \<noteq> None" using Cons.prems(1) subseq_set by blast
  have new: "state \<notin> fst ` set order" "distinct (map fst order)" using Cons.prems(2) o1 by auto
  obtain l' where l': "purge_states st name order (Some ?l) = Some (None, Some l')" "pruned st order ?l l'"
    using Cons.IH [OF pr new(2)] by blast
  obtain l1 where "purge_states st name (o1 # order) (Some l) = Some (None, Some l1)" and
    keep: "filter Q l1 = filter Q l" if "\<forall>x s. Q x \<longrightarrow> s \<in> fst ` set (o1 # order) \<longrightarrow> \<not> in_state st s x" for Q
    using purge_states_filter [OF Cons.prems(1), of name "o1 # order"] by blast
  moreover have run: "purge_states st name (o1 # order) (Some l) = Some (None, Some l')"
    using l'(1) purge_state_prune [OF Cons.prems(1), of name state limit] o1 by simp
  ultimately have keep: "filter Q l' = filter Q l" if "\<forall>x s. Q x \<longrightarrow> s \<in> fst ` set (o1 # order) \<longrightarrow> \<not> in_state st s x" for Q
    using that by auto
  obtain l2 where "purge_states st name order (Some ?l) = Some (None, Some l2)" and
    "filter (in_state st state) l2 = filter (in_state st state) ?l"
    using purge_states_filter [OF pr, of name order] new(1) in_state_unique by metis
  then have hd: "filter (in_state st state) l' = filter (in_state st state) ?l" using l'(1) by simp
  have 1: "take limit (filter (in_state st state) (rev l')) = take limit (filter (in_state st state) (rev l))"
    using hd prune_newest [of limit "in_state st state" "rev l"] by (simp add: rev_filter [symmetric] flip: rev_filter)
  have 2: "length (filter (in_state st state) l') \<le> max limit (length (filter (in_state st state) l) - 1)"
    using hd prune_count [of "in_state st state" limit "rev l"] by (simp flip: rev_filter)
  have 3: "take k (filter (in_state st s) (rev l')) = take k (filter (in_state st s) (rev l)) \<and>
      length (filter (in_state st s) l') \<le> max k (length (filter (in_state st s) l) - 1)" if "(s, k) \<in> set order" for s k
  proof -
    have "s \<noteq> state" using that new(1) by force
    then have "filter (in_state st s) ?l = filter (in_state st s) l" by (rule rev_prune_other)
    moreover from this have "filter (in_state st s) (rev ?l) = filter (in_state st s) (rev l)" by (metis rev_filter)
    ultimately show ?thesis using pruned_at [OF l'(2) that] by metis
  qed
  have 4: "filter (\<lambda>e. the (st (snd e)) \<notin> fst ` set (o1 # order)) l' = filter (\<lambda>e. the (st (snd e)) \<notin> fst ` set (o1 # order)) l"
    by (rule keep) (metis in_state_def option.sel)
  have "subseq l' l" using l'(2) sub subseq_order.trans unfolding pruned_def by blast
  with 4 have "pruned st (o1 # order) l l'" using 1 2 3 o1 unfolding pruned_def by auto
  then show ?case using run by blast
qed

section \<open>The lists\<close>

text \<open>
  C26: refresh of the list of backups, in whichever order Go ranges over the table of states: it never fails, keeps the order of the
  entries, never drops a backup that is in progress, keeps the five newest complete and the ten newest failed backups, and
  whenever there are more of them it drops at least one, so that refreshes bring the list down to those bounds.
\<close>

theorem backup_list_refresh:
  assumes "\<forall>e \<in> set l. st (snd e) \<noteq> None" "mset order = mset retainBackupStateCounts"
  shows "\<exists>l'. backup_refresh order st (Some l) = Some (None, Some l') \<and> subseq l' l \<and>
    filter (\<lambda>e. the (st (snd e)) \<notin> {ProgressStateComplete, ProgressStateError}) l' =
      filter (\<lambda>e. the (st (snd e)) \<notin> {ProgressStateComplete, ProgressStateError}) l \<and>
    (\<forall>(state, limit) \<in> {(ProgressStateComplete, 5), (ProgressStateError, 10)}.
       take limit (filter (in_state st state) (rev l')) = take limit (filter (in_state st state) (rev l)) \<and>
       length (filter (in_state st state) l') \<le> max limit (length (filter (in_state st state) l) - 1))"
proof -
  have set: "set order = {(ProgressStateComplete, 5), (ProgressStateError, 10)}"
    using assms(2) by (metis set_mset_mset retainBackupStateCounts_def list.set(1,2))
  have "mset (map fst order) = mset (map fst retainBackupStateCounts)" using assms(2) by simp
  moreover have "distinct (map fst retainBackupStateCounts)" by (simp add: retainBackupStateCounts_def ProgressStateComplete_def ProgressStateError_def)
  ultimately have "distinct (map fst order)" using mset_eq_imp_distinct_iff by blast
  then show ?thesis
    using purge_states_pruned [OF assms(1), of order "''backupList''"] unfolding backup_refresh_def pruned_def set by simp
qed

theorem backup_list_refresh_witness:
  "\<exists>l'. backup_refresh retainBackupStateCounts Some (Some [(''a'', ''complete''), (''b'', ''in_progress'')]) = Some (None, Some l')"
  using backup_list_refresh [of "[(''a'', ''complete''), (''b'', ''in_progress'')]" Some retainBackupStateCounts] by auto

text \<open>
  One refresh does not reach the bounds: of seven complete backups six are left, because the loop that removes decrements the index
  twice after a removal and passes over the next entry.
\<close>

lemma backup_list_refresh_skips:
  "backup_refresh retainBackupStateCounts Some (Some (map (\<lambda>i. ([char_of i], ProgressStateComplete)) [1 :: nat, 2, 3, 4, 5, 6, 7])) =
     Some (None, Some (map (\<lambda>i. ([char_of i], ProgressStateComplete)) [1 :: nat, 3, 4, 5, 6, 7]))"
  by code_simp

lemma purge_states_last:
  assumes "\<forall>x \<in> set (l @ [e]). st (snd x) \<noteq> None" "\<forall>(s, k) \<in> set order. 0 < k"
  shows "\<exists>l'. purge_states st name order (Some (l @ [e])) = Some (None, Some (l' @ [e])) \<and> subseq l' l"
  using assms
proof (induction order arbitrary: l)
  case Nil
  then show ?case by auto
next
  case (Cons o1 order)
  obtain state limit where o1: "o1 = (state, Suc limit)" using Cons.prems(2) by (cases o1; cases "snd o1") auto
  obtain k where k: "prune (in_state st state) (Suc limit) (rev (l @ [e])) = e # prune (in_state st state) k (rev l)" by (cases "in_state st state e") auto
  let ?l = "rev (prune (in_state st state) k (rev l))"
  have sub: "subseq ?l l" using subseq_rev [OF prune_subseq [of "in_state st state" k "rev l"]] by simp
  then have "\<forall>x \<in> set (?l @ [e]). st (snd x) \<noteq> None" using Cons.prems(1) subseq_set [OF sub] by auto
  then obtain l' where "purge_states st name order (Some (?l @ [e])) = Some (None, Some (l' @ [e]))" "subseq l' ?l"
    using Cons.IH [of ?l] Cons.prems(2) by auto
  then show ?case using purge_state_prune [OF Cons.prems(1), of name state "Suc limit"] o1 sub k subseq_order.trans by fastforce
qed

lemma filter_absent: "name \<notin> fst ` set l \<Longrightarrow> filter (\<lambda>e. fst e \<noteq> name) l = l"
  by (auto simp: filter_id_conv)

lemma delete_at_filter:
  assumes "l = pre @ es" "distinct (map fst l)" "name \<notin> fst ` set pre"
  shows "(case delete_at ln name es (length pre) (Some l) of Some (err, b) \<Rightarrow> items b | None \<Rightarrow> l) = filter (\<lambda>e. fst e \<noteq> name) l"
  using assms
proof (induction es arbitrary: pre)
  case Nil
  then show ?case using filter_absent [of name pre] by simp
next
  case (Cons e es)
  show ?case
  proof (cases "fst e = name")
    case True
    then have "filter (\<lambda>e. fst e \<noteq> name) l = pre @ es" using Cons.prems filter_absent [of name pre] filter_absent [of name es] by auto
    then show ?thesis using True Cons.prems(1) by (simp add: list_remove_nat)
  next
    case False
    then show ?thesis using Cons.IH [of "pre @ [e]"] Cons.prems by simp
  qed
qed

lemma BackupDelete_items: "distinct (map fst (items b)) \<Longrightarrow> items (snd (BackupDelete name b)) = filter (\<lambda>e. fst e \<noteq> name) (items b)"
  using delete_at_filter [of "items b" "[]" "items b" name "''backupList''"]
  by (cases b) (auto simp: BackupDelete_def items_def split: option.splits prod.splits)

lemma retain_positive: "mset order = mset retainBackupStateCounts \<Longrightarrow> \<forall>(s, k) \<in> set order. 0 < k"
  by (drule mset_eq_setD) (simp add: retainBackupStateCounts_def)

lemma subseq_distinct: "subseq xs ys \<Longrightarrow> distinct (map f ys) \<Longrightarrow> distinct (map f xs)"
  by (induction rule: list_emb.induct) (auto dest: subseq_set)

lemma find_last: "name \<notin> fst ` set l \<Longrightarrow> find (\<lambda>e. fst e = name) (l @ [(name, j)]) = Some (name, j)"
  by (induction l) auto

text \<open>
  What BackupAdd adds, BackupGet finds: for a list in which every name occurs once, BackupGet of the name that was just added
  returns the backup that was added, whatever was in the list under that name before, whatever the refreshes drop, and whatever states the backups have by then.
\<close>

lemma backup_list_add_get:
  assumes "distinct (map fst (items b))" "\<forall>e \<in> set (items b). st (snd e) \<noteq> None \<and> st' (snd e) \<noteq> None" "st backup \<noteq> None" "st' backup \<noteq> None"
    and "backupID \<noteq> []" "mset order = mset retainBackupStateCounts" "mset order' = mset retainBackupStateCounts"
  shows "\<exists>b' b''. BackupAdd order st backupID backup b = Some (None, b') \<and> BackupGet order' st' backupID b' = Some (Inr backup, b'') \<and>
    distinct (map fst (items b'')) \<and> set (items b'') \<subseteq> insert (backupID, backup) (set (items b))"
proof -
  let ?l = "filter (\<lambda>e. fst e \<noteq> backupID) (items b)" and ?e = "(backupID, backup)"
  have ok: "\<forall>x \<in> set (?l @ [?e]). st (snd x) \<noteq> None" "\<forall>x \<in> set (?l @ [?e]). st' (snd x) \<noteq> None" using assms(2-4) by auto
  obtain l1 where l1: "purge_states st ''backupList'' order (Some (?l @ [?e])) = Some (None, Some (l1 @ [?e]))" "subseq l1 ?l"
    using purge_states_last [OF ok(1) retain_positive [OF assms(6)]] by blast
  have "\<forall>x \<in> set (l1 @ [?e]). st' (snd x) \<noteq> None" using ok(2) subseq_set [OF l1(2)] by auto
  then obtain l2 where l2: "purge_states st' ''backupList'' order' (Some (l1 @ [?e])) = Some (None, Some (l2 @ [?e]))" "subseq l2 l1"
    using purge_states_last [OF _ retain_positive [OF assms(7)]] by blast
  have new: "backupID \<notin> fst ` set l2" and sub: "set l2 \<subseteq> set (items b)" using subseq_set [OF l1(2)] subseq_set [OF l2(2)] by auto
  have "distinct (map fst ?l)" using assms(1) by (induction "items b") (auto simp: distinct_map_filter)
  then have "distinct (map fst l2)" using subseq_distinct [OF l2(2) subseq_distinct [OF l1(2)]] by blast
  then have "distinct (map fst (l2 @ [?e]))" using new by simp
  moreover have "BackupAdd order st backupID backup b = Some (None, Some (l1 @ [?e]))"
    using assms(5) l1(1) BackupDelete_items [OF assms(1), of backupID] by (simp add: BackupAdd_def backup_refresh_def case_prod_beta)
  moreover have "BackupGet order' st' backupID (Some (l1 @ [?e])) = Some (Inr backup, Some (l2 @ [?e]))"
    using assms(5) l2(1) find_last [OF new, of backup] by (simp add: BackupGet_def backup_refresh_def)
  ultimately show ?thesis using sub by auto
qed

end
