(* ===== verification/Float32.thy ===== *)
theory Float32
  imports Complex_Main "HOL-Library.Log_Nat"
begin

text \<open>
  The float32 arithmetic of the progress percentages (src/pkg/sync/rpc/server.go): rounding of a rational to a mantissa of 24 bits, to the
  nearest and on a tie to the even one, for values in the normal range of a float32.  Integers of 64 bits and their
  quotients are in that range.
\<close>

section \<open>Rounding\<close>

definition round_even :: "rat \<Rightarrow> int" where
  "round_even q = (let n = \<lfloor>q\<rfloor>; r = q - of_int n
     in if r < 1 / 2 \<or> r = 1 / 2 \<and> even n then n else n + 1)"

text \<open>The exponent of the leading bit of a positive number.\<close>

definition exponent :: "rat \<Rightarrow> int" where
  "exponent x = (let (n, d) = quotient_of x; k = bitlen n - bitlen d in if 2 powi k \<le> x then k else k - 1)"

definition f32_pos :: "rat \<Rightarrow> rat" where
  "f32_pos x = (let u = 2 powi (exponent x - 23) in of_int (round_even (x / u)) * u)"

definition f32 :: "rat \<Rightarrow> rat" where
  "f32 x = (if x = 0 then 0 else if 0 < x then f32_pos x else - f32_pos (- x))"

text \<open>The conversion of a float to an int drops the fraction.\<close>

definition trunc :: "rat \<Rightarrow> int" where
  "trunc x = (if 0 \<le> x then \<lfloor>x\<rfloor> else \<lceil>x\<rceil>)"

section \<open>Laws\<close>

lemma round_even_of_int [simp]: "round_even (of_int n) = n"
  by (simp add: round_even_def)

lemma round_even_near: "round_even q = \<lfloor>q\<rfloor> \<or> round_even q = \<lfloor>q\<rfloor> + 1"
  by (simp add: round_even_def Let_def)

lemma round_even_mono:
  assumes "p \<le> q"
  shows "round_even p \<le> round_even q"
proof (cases "\<lfloor>p\<rfloor> = \<lfloor>q\<rfloor>")
  case True
  with assms show ?thesis by (auto simp: round_even_def Let_def)
next
  case False
  with floor_mono [OF assms] have "\<lfloor>p\<rfloor> + 1 \<le> \<lfloor>q\<rfloor>" by simp
  with round_even_near [of p] round_even_near [of q] show ?thesis by auto
qed

lemma exponent_bounds:
  assumes "0 < x"
  shows "2 powi exponent x \<le> x" and "x < 2 powi (exponent x + 1)"
proof -
  obtain n d where q: "quotient_of x = (n, d)" by (cases "quotient_of x")
  have d: "0 < d" by (rule quotient_of_denom_pos [OF q])
  have x: "x = of_int n / of_int d" by (rule quotient_of_div [OF q])
  with assms d have n: "0 < n" by (simp add: zero_less_divide_iff)
  let ?k = "bitlen n - bitlen d"
  have b: "2 powi (bitlen m - 1) \<le> (of_int m :: rat) \<and> (of_int m :: rat) < 2 powi bitlen m" if "0 < m" for m
  proof -
    have l: "0 < bitlen m" using that bitlen_bounds [OF that] by (cases "bitlen m \<le> 0") auto
    have "2 ^ nat (bitlen m - 1) \<le> m" "m < 2 ^ nat (bitlen m)" using bitlen_bounds [OF that] by auto
    then have "(of_int (2 ^ nat (bitlen m - 1)) :: rat) \<le> of_int m" "(of_int m :: rat) < of_int (2 ^ nat (bitlen m))"
      by (simp_all only: of_int_le_iff of_int_less_iff)
    with l show ?thesis by (simp add: power_int_def)
  qed
  have "x < 2 powi (?k + 1)"
  proof -
    have "x < 2 powi bitlen n / 2 powi (bitlen d - 1)"
      unfolding x using b [OF n] b [OF d] d n by (intro frac_less) auto
    also have "\<dots> = 2 powi (?k + 1)" by (simp add: power_int_diff [symmetric] algebra_simps)
    finally show ?thesis .
  qed
  moreover have "2 powi (?k - 1) \<le> x"
  proof -
    have "2 powi (?k - 1) = (2 powi (bitlen n - 1) / 2 powi bitlen d :: rat)" by (simp add: power_int_diff [symmetric] algebra_simps)
    also have "\<dots> \<le> x" unfolding x using b [OF n] b [OF d] d n by (intro frac_le) auto
    finally show ?thesis .
  qed
  ultimately show "2 powi exponent x \<le> x" "x < 2 powi (exponent x + 1)"
    by (auto simp: exponent_def q Let_def)
qed

lemma f32_pos_bounds:
  assumes "0 < x"
  shows "2 powi exponent x \<le> f32_pos x" and "f32_pos x \<le> 2 powi (exponent x + 1)"
proof -
  let ?u = "2 powi (exponent x - 23) :: rat"
  have u: "0 < ?u" by simp
  have p: "2 powi exponent x = of_int (2 ^ 23) * ?u" "2 powi (exponent x + 1) = of_int (2 ^ 24) * ?u"
    using power_int_add [of "2 :: rat" 23 "exponent x - 23"] power_int_add [of "2 :: rat" 24 "exponent x - 23"]
    by (simp_all add: algebra_simps)
  have "of_int (2 ^ 23) \<le> x / ?u" "x / ?u \<le> of_int (2 ^ 24)"
    using exponent_bounds [OF assms] u unfolding p by (simp_all add: pos_le_divide_eq pos_divide_le_eq)
  then have "2 ^ 23 \<le> round_even (x / ?u)" "round_even (x / ?u) \<le> 2 ^ 24"
    using round_even_mono [of "of_int (2 ^ 23)" "x / ?u"] round_even_mono [of "x / ?u" "of_int (2 ^ 24)"] by (simp_all only: round_even_of_int)
  then have "of_int (2 ^ 23) \<le> (of_int (round_even (x / ?u)) :: rat)" "(of_int (round_even (x / ?u)) :: rat) \<le> of_int (2 ^ 24)"
    by (simp_all only: of_int_le_iff)
  with u show "2 powi exponent x \<le> f32_pos x" "f32_pos x \<le> 2 powi (exponent x + 1)"
    unfolding p f32_pos_def Let_def by (simp_all only: mult_le_cancel_right_pos)
qed

lemma f32_pos_mono:
  assumes "0 < x" "x \<le> y"
  shows "f32_pos x \<le> f32_pos y"
proof -
  have y: "0 < y" using assms by simp
  have "(2 :: rat) powi exponent x < 2 powi (exponent y + 1)" using exponent_bounds [OF assms(1)] exponent_bounds [OF y] assms(2) by linarith
  then have le: "exponent x \<le> exponent y"
    using power_int_increasing [of "exponent y + 1" "exponent x" "2 :: rat"] by (cases "exponent x \<le> exponent y") auto
  show ?thesis
  proof (cases "exponent x = exponent y")
    case True
    have "round_even (x / 2 powi (exponent y - 23)) \<le> round_even (y / 2 powi (exponent y - 23))"
      by (rule round_even_mono) (simp add: assms(2) divide_right_mono)
    then show ?thesis unfolding f32_pos_def Let_def True by (intro mult_right_mono) simp_all
  next
    case False
    have "f32_pos x \<le> 2 powi (exponent x + 1)" by (rule f32_pos_bounds [OF assms(1)])
    also have "\<dots> \<le> 2 powi exponent y" using le False by (intro power_int_increasing) auto
    also have "\<dots> \<le> f32_pos y" by (rule f32_pos_bounds [OF y])
    finally show ?thesis .
  qed
qed

lemma f32_0 [simp]: "f32 0 = 0"
  by (simp add: f32_def)

lemma f32_1 [simp]: "f32 1 = 1"
  by code_simp

lemma f32_100 [simp]: "f32 100 = 100"
  by code_simp

lemma f32_positive:
  assumes "0 < x"
  shows "0 < f32 x"
proof -
  have "(0 :: rat) < 2 powi exponent x" by simp
  also have "\<dots> \<le> f32_pos x" by (rule f32_pos_bounds [OF assms])
  finally show ?thesis using assms by (simp add: f32_def)
qed

lemma f32_nonneg: "0 \<le> x \<Longrightarrow> 0 \<le> f32 x"
  using f32_positive [of x] by (cases "x = 0") auto

lemma f32_mono:
  assumes "0 \<le> x" "x \<le> y"
  shows "f32 x \<le> f32 y"
  using assms f32_nonneg [of y] f32_pos_mono [of x y] by (cases "x = 0") (auto simp: f32_def)

end
