(* ===== verification/Sync_Agent.thy ===== *)
theory Sync_Agent
  imports Float32 Task_List Resources Disk_Names Fs_Freeze
begin

text \<open>
  The sync agent of a replica (src/pkg/sync/rpc/server.go): its ports, and the states of restoring, rebuilding, cloning and
  purging.  A handler returns its error, the state of the agent and the world \<open>'w\<close> of the files and of the other processes, which the
  agent reaches through the calls of agent_env.  The mutex of the agent makes the short operations atomic.
\<close>

section \<open>State\<close>

record PurgeStatus =
  ps_Error :: string
  ps_Progress :: int
  ps_State :: string
  ps_processed :: int
  ps_total :: int

record RebuildStatus =
  rb_Error :: string
  rb_Progress :: int
  rb_State :: string
  rb_FromReplicaAddress :: string
  rb_processedSize :: int
  rb_totalSize :: int

record CloneStatus =
  cs_Error :: string
  cs_Progress :: int
  cs_State :: string
  cs_FromReplicaAddress :: string
  cs_SnapshotName :: string
  cs_processedSize :: int
  cs_totalSize :: int

text \<open>SyncAgentServer; the entries of its lists are pointers, here numbers.\<close>

record agent =
  sa_currentPort :: int
  sa_startPort :: int
  sa_endPort :: int
  sa_processesByPort :: "(int \<times> string) list"
  sa_isPurging :: bool
  sa_isRestoring :: bool
  sa_isRebuilding :: bool
  sa_isCloning :: bool
  sa_replicaAddress :: string
  sa_volumeName :: string
  sa_instanceName :: string
  sa_BackupList :: "nat infos"
  sa_SnapshotHashList :: "nat infos"
  sa_RestoreInfo :: "RestoreStatus option"
  sa_PurgeStatus :: PurgeStatus
  sa_RebuildStatus :: RebuildStatus
  sa_CloneStatus :: CloneStatus

definition zero_PurgeStatus :: PurgeStatus where
  "zero_PurgeStatus = \<lparr>ps_Error = '''', ps_Progress = 0, ps_State = '''', ps_processed = 0, ps_total = 0\<rparr>"

definition zero_RebuildStatus :: RebuildStatus where
  "zero_RebuildStatus = \<lparr>rb_Error = '''', rb_Progress = 0, rb_State = '''', rb_FromReplicaAddress = '''', rb_processedSize = 0, rb_totalSize = 0\<rparr>"

definition zero_CloneStatus :: CloneStatus where
  "zero_CloneStatus = \<lparr>cs_Error = '''', cs_Progress = 0, cs_State = '''', cs_FromReplicaAddress = '''', cs_SnapshotName = '''',
     cs_processedSize = 0, cs_totalSize = 0\<rparr>"

definition zero_RestoreStatus :: RestoreStatus where
  "zero_RestoreStatus = \<lparr>rs_replicaAddress = '''', rs_Progress = 0, rs_Error = '''', rs_BackupURL = '''', rs_State = '''', rs_ToFileName = '''',
     rs_SnapshotDiskName = '''', rs_LastRestored = '''', rs_CurrentRestoringBackup = '''', rs_stopped = False\<rparr>"

definition NewSyncAgentServer :: "int \<Rightarrow> int \<Rightarrow> string \<Rightarrow> string \<Rightarrow> string \<Rightarrow> agent" where
  "NewSyncAgentServer startPort endPort replicaAddress volumeName instanceName =
     \<lparr>sa_currentPort = startPort, sa_startPort = startPort, sa_endPort = endPort, sa_processesByPort = [],
      sa_isPurging = False, sa_isRestoring = False, sa_isRebuilding = False, sa_isCloning = False,
      sa_replicaAddress = replicaAddress, sa_volumeName = volumeName, sa_instanceName = instanceName,
      sa_BackupList = None, sa_SnapshotHashList = None, sa_RestoreInfo = Some zero_RestoreStatus,
      sa_PurgeStatus = zero_PurgeStatus, sa_RebuildStatus = zero_RebuildStatus, sa_CloneStatus = zero_CloneStatus\<rparr>"

text \<open>
  What the agent calls: the replica service and the files of its directory, sparse-tools, the backup store and the clock.
  A call that transfers a file returns the sizes that its receiver was told, and the ports of receivers that ended meanwhile; a call
  that folds or prunes a file returns the percentages it reported.  ae_nan is what the conversion of a NaN to an int gives.
\<close>

record 'w agent_env =
  ae_NewClient :: "string \<Rightarrow> 'w \<Rightarrow> error option \<times> 'w"
  ae_GetReplica :: "string \<Rightarrow> 'w \<Rightarrow> (error + ReplicaInfo) \<times> 'w"
  ae_SendFile :: "string \<Rightarrow> string \<Rightarrow> string \<Rightarrow> int \<Rightarrow> 'w \<Rightarrow> error option \<times> int list \<times> int list \<times> 'w"
  ae_ExportVolume :: "string \<Rightarrow> string \<Rightarrow> string \<Rightarrow> int \<Rightarrow> 'w \<Rightarrow> error option \<times> int list \<times> int list \<times> 'w"
  ae_ReplicaReload :: "string \<Rightarrow> 'w \<Rightarrow> error option \<times> 'w"
  ae_ReplicaRevert :: "string \<Rightarrow> string \<Rightarrow> string \<Rightarrow> 'w \<Rightarrow> error option \<times> 'w"
  ae_DiskMarkAsRemoved :: "string \<Rightarrow> string \<Rightarrow> 'w \<Rightarrow> error option \<times> 'w"
  ae_DiskPrepareRemove :: "string \<Rightarrow> string \<Rightarrow> 'w \<Rightarrow> (error + PrepareRemoveAction list) \<times> 'w"
  ae_DiskRemove :: "string \<Rightarrow> string \<Rightarrow> 'w \<Rightarrow> error option \<times> 'w"
  ae_DiskReplace :: "string \<Rightarrow> string \<Rightarrow> string \<Rightarrow> 'w \<Rightarrow> error option \<times> 'w"
  ae_FoldFile :: "string \<Rightarrow> string \<Rightarrow> 'w \<Rightarrow> error option \<times> int list \<times> 'w"
  ae_PruneFile :: "string \<Rightarrow> string \<Rightarrow> 'w \<Rightarrow> error option \<times> int list \<times> 'w"
  ae_SyncLocalFile :: "string \<Rightarrow> string \<Rightarrow> 'w \<Rightarrow> error option \<times> 'w"
  ae_CheckIsFileSizeSame :: "string \<Rightarrow> string \<Rightarrow> 'w \<Rightarrow> error option \<times> 'w"
  ae_Remove :: "string \<Rightarrow> 'w \<Rightarrow> error option \<times> 'w"
  ae_Rename :: "string \<Rightarrow> string \<Rightarrow> 'w \<Rightarrow> error option \<times> 'w"
  ae_Create :: "string \<Rightarrow> 'w \<Rightarrow> error option \<times> 'w"
  ae_Write :: "string \<Rightarrow> string \<Rightarrow> 'w \<Rightarrow> error option \<times> 'w"
  ae_Close :: "string \<Rightarrow> 'w \<Rightarrow> error option \<times> 'w"
  ae_InspectBackup :: "string \<Rightarrow> 'w \<Rightarrow> error option \<times> 'w"
  ae_Restore :: "string \<Rightarrow> string \<Rightarrow> int \<Rightarrow> 'w \<Rightarrow> error option \<times> 'w"
  ae_RestoreIncrementally :: "string \<Rightarrow> string \<Rightarrow> string \<Rightarrow> int \<Rightarrow> 'w \<Rightarrow> error option \<times> 'w"
  ae_Now :: "'w \<Rightarrow> string"
  ae_nan :: int

section \<open>Progress\<close>

text \<open>int((float32(a) / float32(b)) * 100).\<close>

definition percent :: "'w agent_env \<Rightarrow> int \<Rightarrow> int \<Rightarrow> int" where
  "percent E a b =
     (if b = 0 then ae_nan E
      else trunc (f32 (f32 (f32 (of_int a) / f32 (of_int b)) * 100)))"

definition UpdateFileHandlingProgress :: "int \<Rightarrow> PurgeStatus \<Rightarrow> PurgeStatus" where
  "UpdateFileHandlingProgress progress ps =
     ps\<lparr>ps_Progress :=
       (if ps_total ps = 0 then 100
        else let t = f32 (of_int (ps_total ps))
             in trunc (f32 (f32 (f32 (f32 (of_int (ps_processed ps)) / t) + f32 (f32 (of_int progress) / f32 (t * 100))) * 100)))\<rparr>"

definition rb_UpdateSyncFileProgress :: "'w agent_env \<Rightarrow> int \<Rightarrow> RebuildStatus \<Rightarrow> RebuildStatus" where
  "rb_UpdateSyncFileProgress E sz rs =
     (let rs = rs\<lparr>rb_processedSize := rb_processedSize rs + sz\<rparr>
      in rs\<lparr>rb_Progress := percent E (rb_processedSize rs) (rb_totalSize rs)\<rparr>)"

definition cs_UpdateSyncFileProgress :: "'w agent_env \<Rightarrow> int \<Rightarrow> CloneStatus \<Rightarrow> CloneStatus" where
  "cs_UpdateSyncFileProgress E sz cs =
     (let cs = cs\<lparr>cs_processedSize := cs_processedSize cs + sz\<rparr>
      in cs\<lparr>cs_Progress := percent E (cs_processedSize cs) (cs_totalSize cs)\<rparr>)"

section \<open>Ports\<close>

fun port_loop :: "nat \<Rightarrow> string \<Rightarrow> agent \<Rightarrow> (error + int) \<times> agent" where
  "port_loop 0 processName s = (Inl (Errorf ''out of ports''), s)"
| "port_loop (Suc n) processName s =
     (let port = sa_currentPort s;
          s = s\<lparr>sa_currentPort := (if port + 1 > sa_endPort s then sa_startPort s else port + 1)\<rparr>
      in if map_of (sa_processesByPort s) port \<noteq> None then port_loop n processName s
         else (Inr port, s\<lparr>sa_processesByPort := AList.update port processName (sa_processesByPort s)\<rparr>))"

definition nextPort :: "string \<Rightarrow> agent \<Rightarrow> (error + int) \<times> agent" where
  "nextPort processName s = port_loop (nat (sa_endPort s - sa_startPort s + 1)) processName s"

text \<open>launchReceiver: the goroutine of the receiver only matters by the release of its port when it ends.\<close>

definition launchReceiver :: "string \<Rightarrow> agent \<Rightarrow> (error + int) \<times> agent" where
  "launchReceiver processName s = nextPort processName s"

definition release_port :: "int \<Rightarrow> agent \<Rightarrow> agent" where
  "release_port port s = s\<lparr>sa_processesByPort := AList.delete port (sa_processesByPort s)\<rparr>"

section \<open>Restoring\<close>

text \<open>strings.Replace(s, old, new, 1).\<close>

fun replace_first :: "string \<Rightarrow> string \<Rightarrow> string \<Rightarrow> string" where
  "replace_first [] old new = (if old = [] then new else [])"
| "replace_first (c # s) old new =
     (if take (length old) (c # s) = old then new @ drop (length old) (c # s) else c # replace_first s old new)"

text \<open>strings.TrimLeft and TrimRight with the cutset of the two quotes.\<close>

definition is_quote :: "char \<Rightarrow> bool" where
  "is_quote c \<longleftrightarrow> c = CHR 0x22 \<or> c = CHR 0x27"

definition UnescapeURL :: "string \<Rightarrow> string" where
  "UnescapeURL url =
     (let result = replace_first url (CHR 0x5C # ''u0026'') ''&'';
          result = replace_first result ''u0026'' ''&'';
          result = dropWhile is_quote result
      in rev (dropWhile is_quote (rev result)))"

definition canDoIncrementalRestore :: "'w agent_env \<Rightarrow> RestoreStatus \<Rightarrow> string \<Rightarrow> string \<Rightarrow> 'w \<Rightarrow> bool \<times> 'w" where
  "canDoIncrementalRestore E status backupURL requestedBackupName w =
     (if rs_LastRestored status = '''' then (False, w)
      else let (err, w) = ae_InspectBackup E (replace_first backupURL requestedBackupName (rs_LastRestored status)) w in (err = None, w))"

text \<open>backup.DoBackupRestore and backup.DoBackupRestoreIncrementally.\<close>

definition DoBackupRestore :: "'w agent_env \<Rightarrow> string \<Rightarrow> string \<Rightarrow> int \<Rightarrow> 'w \<Rightarrow> error option \<times> 'w" where
  "DoBackupRestore E backupURL toFile concurrentLimit w = ae_Restore E (UnescapeURL backupURL) toFile concurrentLimit w"

definition DoBackupRestoreIncrementally :: "'w agent_env \<Rightarrow> string \<Rightarrow> string \<Rightarrow> string \<Rightarrow> int \<Rightarrow> 'w \<Rightarrow> error option \<times> 'w" where
  "DoBackupRestoreIncrementally E url deltaFile lastRestored concurrentLimit w =
     ae_RestoreIncrementally E (UnescapeURL url) deltaFile lastRestored concurrentLimit w"

definition StartRestore :: "'w agent_env \<Rightarrow> string \<Rightarrow> string \<Rightarrow> string \<Rightarrow> int \<Rightarrow> agent \<Rightarrow> 'w \<Rightarrow> error option \<times> agent \<times> 'w" where
  "StartRestore E backupURL requestedBackupName snapshotDiskName concurrentLimit s w =
     (if sa_isRestoring s then (Some (Errorf ''cannot initiate backup restore as there is one already in progress''), s, w)
      else case sa_RestoreInfo s of
        None \<Rightarrow> (Some (Errorf ''BUG: the restore status is not initialized in the sync agent server''), s, w)
      | Some ri \<Rightarrow>
          let restoreStatus = DeepCopy ri
          in if rs_State restoreStatus = ProgressStateError
             then (Some (Errorf ''cannot start backup restore of the previous restore fails''), s, w)
             else if rs_LastRestored restoreStatus = requestedBackupName
             then (Some (Errorf (''already restored backup '' @ requestedBackupName)), s, w)
             else
               let (ri, w) = (if rs_LastRestored restoreStatus = '''' \<and> rs_State restoreStatus = ''''
                    then (NewRestore snapshotDiskName (sa_replicaAddress s) backupURL requestedBackupName, w)
                    else
                      let (valid, w) = canDoIncrementalRestore E restoreStatus backupURL requestedBackupName w;
                          toFileName = (if valid then GenerateDeltaFileName (rs_LastRestored restoreStatus) else GenerateSnapTempFileName snapshotDiskName)
                      in (StartNewRestore backupURL requestedBackupName toFileName snapshotDiskName valid ri, w));
                   newStatus = DeepCopy ri;
                   (err, w) = (if rs_LastRestored newStatus = ''''
                    then let (err, w) = DoBackupRestore E backupURL (rs_ToFileName newStatus) concurrentLimit w
                         in (Wrapf err ''error initiating full backup restore'', w)
                    else let (err, w) = DoBackupRestoreIncrementally E backupURL (rs_ToFileName newStatus) (rs_LastRestored newStatus) concurrentLimit w
                         in (Wrapf err ''error initiating incremental backup restore'', w))
               in case err of
                    None \<Rightarrow> (None, s\<lparr>sa_RestoreInfo := Some ri, sa_isRestoring := True\<rparr>, w)
                  | Some e \<Rightarrow>
                      let w = (if rs_ToFileName newStatus \<noteq> rs_SnapshotDiskName newStatus then snd (ae_Remove E (rs_ToFileName newStatus) w) else w)
                      in (Some e, s\<lparr>sa_RestoreInfo := Some (rs_Revert restoreStatus ri)\<rparr>, w))"

definition agent_FinishRestore :: "error option \<Rightarrow> agent \<Rightarrow> error option \<times> agent" where
  "agent_FinishRestore restoreErr s =
     (let (err, restoreErr, s) =
            (if \<not> sa_isRestoring s
             then let err = Some (Errorf ''BUG: volume is not restoring'')
                  in (err, if restoreErr \<noteq> None then CombineErrors [err, restoreErr] else err, s)
             else (None, restoreErr, s\<lparr>sa_isRestoring := False\<rparr>))
      in (err, s\<lparr>sa_RestoreInfo := map_option (\<lambda>ri. if restoreErr \<noteq> None then UpdateRestoreStatus (rs_ToFileName ri) 0 restoreErr ri
                                               else FinishRestore ri) (sa_RestoreInfo s)\<rparr>))"

definition agent_Reset :: "agent \<Rightarrow> error option \<times> agent" where
  "agent_Reset s =
     (if sa_isRestoring s then (Some (Errorf ''replica is currently restoring, cannot reset''), s)
      else (None, s\<lparr>sa_isRestoring := False, sa_BackupList := None, sa_SnapshotHashList := None, sa_RestoreInfo := Some zero_RestoreStatus,
              sa_RebuildStatus := zero_RebuildStatus, sa_PurgeStatus := zero_PurgeStatus, sa_CloneStatus := zero_CloneStatus\<rparr>))"

section \<open>Rebuilding\<close>

definition PrepareRebuild :: "'w agent_env \<Rightarrow> SyncFileInfo list \<Rightarrow> string \<Rightarrow> agent \<Rightarrow> error option \<times> agent" where
  "PrepareRebuild E infos fromReplicaAddress s =
     (if sa_isPurging s then (Some (Errorf ''replica is purging snapshots''), s)
      else if sa_isRebuilding s then (Some (Errorf ''replica is already rebuilding''), s)
      else
        let sz = 1 + sum_list (map ActualSize infos)
        in (None, s\<lparr>sa_isRebuilding := True,
              sa_RebuildStatus := \<lparr>rb_Error = '''', rb_Progress = percent E 1 sz, rb_State = ProgressStateInProgress,
                rb_FromReplicaAddress = fromReplicaAddress, rb_processedSize = 1, rb_totalSize = sz\<rparr>\<rparr>))"

definition FinishRebuild :: "agent \<Rightarrow> error option \<times> agent" where
  "FinishRebuild s =
     (if \<not> sa_isRebuilding s then (Some (Errorf ''BUG: replica is not rebuilding''), s)
      else (None, s\<lparr>sa_isRebuilding := False\<rparr>))"

text \<open>
  fileSyncLocal.  The second component of the loop's result is the variable err of the function, which the deferred clean-up looks at;
  the error of the size check is in a variable of its own.
\<close>

fun sync_local_loop ::
  "'w agent_env \<Rightarrow> string \<Rightarrow> string \<Rightarrow> SyncFileInfo list \<Rightarrow> string list \<Rightarrow> 'w \<Rightarrow> error option \<times> error option \<times> string list \<times> 'w" where
  "sync_local_loop E sourceDir targetDir [] targetPaths w = (None, None, targetPaths, w)"
| "sync_local_loop E sourceDir targetDir (info # infos) targetPaths w =
     (let sourcePath = path_Join ''/host'' (sourceDir @ ''/'' @ FromFileName info);
          targetPath = path_Join ''/host'' (targetDir @ ''/'' @ ToFileName info);
          targetPaths = targetPaths @ [targetPath];
          (err, w) = ae_SyncLocalFile E sourcePath targetPath w
      in if err \<noteq> None then (err, err, targetPaths, w)
         else
           let (err2, w) = ae_CheckIsFileSizeSame E sourcePath targetPath w
           in if err2 \<noteq> None then (Wrapf err2 (''failed to check file size for file '' @ sourcePath), err, targetPaths, w)
              else sync_local_loop E sourceDir targetDir infos targetPaths w)"

fun remove_files :: "'w agent_env \<Rightarrow> string list \<Rightarrow> 'w \<Rightarrow> 'w" where
  "remove_files E [] w = w"
| "remove_files E (p # ps) w = remove_files E ps (snd (ae_Remove E p w))"

definition fileSyncLocal :: "'w agent_env \<Rightarrow> string \<Rightarrow> string \<Rightarrow> SyncFileInfo list \<Rightarrow> 'w \<Rightarrow> error option \<times> 'w" where
  "fileSyncLocal E sourceDir targetDir infos w =
     (let (ret, err, targetPaths, w) = sync_local_loop E sourceDir targetDir infos [] w
      in (ret, if err = None then w else remove_files E targetPaths w))"

fun sync_remote_loop :: "'w agent_env \<Rightarrow> string \<Rightarrow> string \<Rightarrow> SyncFileInfo list \<Rightarrow> agent \<Rightarrow> 'w \<Rightarrow> error option \<times> agent \<times> 'w" where
  "sync_remote_loop E fromAddress toHost [] s w = (None, s, w)"
| "sync_remote_loop E fromAddress toHost (info # infos) s w =
     (case launchReceiver ''FilesSync'' s of
        (Inl e, s) \<Rightarrow> (Wrapf (Some e) (''failed to launch receiver for file '' @ ToFileName info), s, w)
      | (Inr port, s) \<Rightarrow>
          let (err, sizes, released, w) = ae_SendFile E fromAddress (FromFileName info) toHost port w;
              s = (if ActualSize info = 0 then s
                   else s\<lparr>sa_RebuildStatus := fold (rb_UpdateSyncFileProgress E) sizes (sa_RebuildStatus s)\<rparr>);
              s = fold release_port released s
          in case err of
               Some e \<Rightarrow> (Wrapf (Some e) (''replica '' @ fromAddress @ '' failed to send file '' @ ToFileName info @ '' to '' @ toHost @ '':'' @ showInt port), s, w)
             | None \<Rightarrow> sync_remote_loop E fromAddress toHost infos s w)"

definition fileSyncRemote :: "'w agent_env \<Rightarrow> string \<Rightarrow> string \<Rightarrow> SyncFileInfo list \<Rightarrow> agent \<Rightarrow> 'w \<Rightarrow> error option \<times> agent \<times> 'w" where
  "fileSyncRemote E fromAddress toHost infos s w =
     (let (err, w) = ae_NewClient E fromAddress w
      in if err \<noteq> None then (err, s, w) else sync_remote_loop E fromAddress toHost infos s w)"

text \<open>FilesSync: the deferred function, and the handler; the local sync is None or its two directories.\<close>

definition rebuild_done :: "error option \<Rightarrow> agent \<Rightarrow> error option \<times> agent" where
  "rebuild_done err s =
     (let s = s\<lparr>sa_RebuildStatus := (case err of
            Some e \<Rightarrow> (sa_RebuildStatus s)\<lparr>rb_Error := Error_msg e, rb_State := ProgressStateError\<rparr>
          | None \<Rightarrow> (sa_RebuildStatus s)\<lparr>rb_State := ProgressStateComplete\<rparr>)\<rparr>;
          (finishErr, s) = FinishRebuild s
      in case finishErr of
           None \<Rightarrow> (err, s)
         | Some fe \<Rightarrow>
             let fe = Wrapped ''could not finish rebuilding'' fe
             in (Some (case err of None \<Rightarrow> fe | Some e \<Rightarrow> Wrapped (Error_msg fe) e), s))"

definition FilesSync ::
  "'w agent_env \<Rightarrow> (string \<times> string) option \<Rightarrow> string \<Rightarrow> string \<Rightarrow> SyncFileInfo list \<Rightarrow> agent \<Rightarrow> 'w \<Rightarrow> error option \<times> agent \<times> 'w" where
  "FilesSync E localSync fromAddress toHost infos s w =
     (let (err, s) = PrepareRebuild E infos fromAddress s
      in if err \<noteq> None then (err, s, w)
         else
           let (synced, w) = (case localSync of
                  None \<Rightarrow> (False, w)
                | Some (sourceDir, targetDir) \<Rightarrow> let (err, w) = fileSyncLocal E sourceDir targetDir infos w in (err = None, w));
               (err, s, w) = (if synced then (None, s, w) else fileSyncRemote E fromAddress toHost infos s w);
               (err, s) = rebuild_done err s
           in (err, s, w))"

section \<open>Cloning\<close>

definition prepareClone :: "'w agent_env \<Rightarrow> string \<Rightarrow> string \<Rightarrow> int \<Rightarrow> agent \<Rightarrow> error option \<times> agent" where
  "prepareClone E fromReplicaAddress snapshotName snapshotSize s =
     (let cs = sa_CloneStatus s
      in if sa_isCloning s
         then (Some (Errorf (''replica is cloning snapshot '' @ cs_SnapshotName cs @ '' from replica address '' @ cs_FromReplicaAddress cs)), s)
         else
           let sz = (if snapshotSize = 0 then 1 else snapshotSize)
           in (None, s\<lparr>sa_isCloning := True,
                 sa_CloneStatus := cs\<lparr>cs_FromReplicaAddress := fromReplicaAddress, cs_SnapshotName := snapshotName, cs_Error := '''',
                   cs_State := ProgressStateInProgress, cs_totalSize := sz, cs_Progress := percent E (cs_processedSize cs) sz\<rparr>\<rparr>))"

definition FinishClone :: "agent \<Rightarrow> error option \<times> agent" where
  "FinishClone s =
     (if \<not> sa_isCloning s then (Some (Errorf ''BUG: replica is not cloning''), s)
      else (None, s\<lparr>sa_isCloning := False\<rparr>))"

definition GetGRPCAddress :: "string \<Rightarrow> string" where
  "GetGRPCAddress address = TrimSuffix (TrimPrefix (TrimPrefix address ''tcp://'') ''http://'') ''/v1''"

definition startCloning :: "'w agent_env \<Rightarrow> string \<Rightarrow> string \<Rightarrow> string \<Rightarrow> agent \<Rightarrow> 'w \<Rightarrow> error option \<times> agent \<times> 'w" where
  "startCloning E snapshotFileName fromAddress toHost s w =
     (case launchReceiver ''SnapshotClone'' s of
        (Inl e, s) \<Rightarrow> (Wrapf (Some e) (''failed to launch receiver for snapshot '' @ snapshotFileName), s, w)
      | (Inr port, s) \<Rightarrow>
          let (err, sizes, released, w) = ae_ExportVolume E fromAddress snapshotFileName (GetGRPCAddress toHost) port w;
              s = fold release_port released (s\<lparr>sa_CloneStatus := fold (cs_UpdateSyncFileProgress E) sizes (sa_CloneStatus s)\<rparr>)
          in (Wrapf err (''failed to export snapshot '' @ snapshotFileName @ '' from replica '' @ fromAddress @ '' to '' @ toHost @ '':'' @ showInt port), s, w))"

definition reloadReplica :: "'w agent_env \<Rightarrow> agent \<Rightarrow> 'w \<Rightarrow> error option \<times> 'w" where
  "reloadReplica E s w =
     (let (err, w) = ae_NewClient E (sa_replicaAddress s) w
      in if err \<noteq> None then (Wrapf err (''cannot connect to ReplicaService '' @ sa_replicaAddress s), w)
         else let (err, w) = ae_ReplicaReload E (sa_replicaAddress s) w
              in (Wrapf err (''failed to reload replica '' @ sa_replicaAddress s), w))"

definition replicaRevert :: "'w agent_env \<Rightarrow> string \<Rightarrow> string \<Rightarrow> agent \<Rightarrow> 'w \<Rightarrow> error option \<times> 'w" where
  "replicaRevert E name created s w =
     (let (err, w) = ae_NewClient E (sa_replicaAddress s) w
      in if err \<noteq> None then (Wrapf err (''cannot connect to ReplicaService '' @ sa_replicaAddress s), w)
         else let (err, w) = ae_ReplicaRevert E (sa_replicaAddress s) name created w
              in (Wrapf err (''failed to revert replica '' @ sa_replicaAddress s), w))"

text \<open>backup.CreateNewSnapshotMetafile; the deferred Close comes last.\<close>

definition CreateNewSnapshotMetafile :: "'w agent_env \<Rightarrow> string \<Rightarrow> 'w \<Rightarrow> error option \<times> 'w" where
  "CreateNewSnapshotMetafile E file w =
     (let tmp = file @ ''.tmp'';
          (err, w) = ae_Create E tmp w
      in if err \<noteq> None then (err, w)
         else
           let (err, w) = ae_Write E tmp (''{'' @ [CHR 0x22] @ ''Parent'' @ [CHR 0x22] @ '':'' @ [CHR 0x22, CHR 0x22] @ ''}'' @ [CHR 0x0A]) w;
               (err, w) = (if err \<noteq> None then (err, w) else ae_Close E tmp w);
               (err, w) = (if err \<noteq> None then (err, w) else ae_Rename E tmp file w)
           in (err, snd (ae_Close E tmp w)))"

definition postCloning :: "'w agent_env \<Rightarrow> agent \<Rightarrow> 'w \<Rightarrow> error option \<times> 'w" where
  "postCloning E s w =
     (let snapshotDiskName = GenerateSnapshotDiskName (cs_SnapshotName (sa_CloneStatus s));
          (err, w) = CreateNewSnapshotMetafile E (snapshotDiskName @ ''.meta'') w
      in if err \<noteq> None then (Wrapf err ''failed creating meta snapshot file'', w)
         else
           let (err, w) = reloadReplica E s w
           in if err \<noteq> None
              then (Wrapf err (''failed to reload replica '' @ sa_replicaAddress s @ '' during cloning snapshot '' @ snapshotDiskName), w)
              else
                let (err, w) = replicaRevert E snapshotDiskName (ae_Now E w) s w
                in (Wrapf err (''error on reverting to '' @ snapshotDiskName @ '' on '' @ sa_replicaAddress s), w))"

text \<open>SnapshotClone: the deferred function, whose call of FinishClone overwrites the result, and the handler.\<close>

definition clone_done :: "error option \<Rightarrow> agent \<Rightarrow> error option \<times> agent" where
  "clone_done err s =
     FinishClone (s\<lparr>sa_CloneStatus := (case err of
         Some e \<Rightarrow> (sa_CloneStatus s)\<lparr>cs_Error := Error_msg e, cs_State := ProgressStateError\<rparr>
       | None \<Rightarrow> (sa_CloneStatus s)\<lparr>cs_Progress := 100, cs_State := ProgressStateComplete\<rparr>)\<rparr>)"

definition clone_body :: "'w agent_env \<Rightarrow> string \<Rightarrow> string \<Rightarrow> string \<Rightarrow> agent \<Rightarrow> 'w \<Rightarrow> error option \<times> agent \<times> 'w" where
  "clone_body E snapshotFileName fromAddress toHost s w =
     (let (err, s, w) = startCloning E snapshotFileName fromAddress toHost s w
      in if err \<noteq> None then (err, s, w) else let (err, w) = postCloning E s w in (err, s, w))"

definition clone_source :: "'w agent_env \<Rightarrow> string \<Rightarrow> string \<Rightarrow> 'w \<Rightarrow> (error + int) \<times> 'w" where
  "clone_source E snapshotFileName fromAddress w =
     (let (err, w) = ae_NewClient E fromAddress w
      in case err of
           Some e \<Rightarrow> (Inl e, w)
         | None \<Rightarrow> (case ae_GetReplica E fromAddress w of
             (Inl e, w) \<Rightarrow> (Inl e, w)
           | (Inr src, w) \<Rightarrow>
               if map_of (ri_Disks src) (GenerateSnapshotDiskName snapshotFileName) = None
               then (Inl (Errorf (''cannot find snapshot '' @ snapshotFileName @ '' in the source replica '' @ fromAddress)), w)
               else (case ParseInt (ri_Size src) of
                   None \<Rightarrow> Inl (Errorf (''strconv.ParseInt: parsing '' @ ri_Size src))
                 | Some sz \<Rightarrow> Inr sz, w)))"

definition SnapshotClone :: "'w agent_env \<Rightarrow> string \<Rightarrow> string \<Rightarrow> string \<Rightarrow> agent \<Rightarrow> 'w \<Rightarrow> error option \<times> agent \<times> 'w" where
  "SnapshotClone E snapshotFileName fromAddress toHost s w =
     (case clone_source E snapshotFileName fromAddress w of
        (Inl e, w) \<Rightarrow> (Some e, s, w)
      | (Inr snapshotSize, w) \<Rightarrow>
          let (err, s) = prepareClone E fromAddress snapshotFileName snapshotSize s;
              (err, s, w) = (if err \<noteq> None then (err, s, w) else clone_body E snapshotFileName fromAddress toHost s w);
              (err, s) = clone_done err s
          in (err, s, w))"

end
