(* ===== verification/Sync_Purge.thy ===== *)
theory Sync_Purge
  imports Sync_Agent Replica
begin

text \<open>
  The background work of the sync agent (src/pkg/sync/rpc/server.go): the end of a restore and the purge of snapshots.
\<close>

section \<open>The end of a restore\<close>

text \<open>waitForRestoreComplete, on the status of the restore at each tick; None while it still waits.\<close>

fun wait_loop :: "RestoreStatus list \<Rightarrow> agent \<Rightarrow> (error option \<times> agent) option" where
  "wait_loop [] s = None"
| "wait_loop (ri # ticks) s =
     (let s = s\<lparr>sa_RestoreInfo := Some ri\<rparr>
      in if rs_Progress ri = 100 then Some (None, s)
         else if rs_Error ri \<noteq> '''' then Some (Some (Errorf (rs_Error ri)), s)
         else wait_loop ticks s)"

definition extraIncrementalFullRestoreOperations :: "'w agent_env \<Rightarrow> RestoreStatus \<Rightarrow> agent \<Rightarrow> 'w \<Rightarrow> error option \<times> 'w" where
  "extraIncrementalFullRestoreOperations E rs s w =
     (let tmpName = rs_ToFileName rs
      in case GetSnapshotNameFromTempFileName tmpName of
           Inl e \<Rightarrow> (Some e, w)
         | Inr diskName \<Rightarrow>
             let metaName = GenerateSnapshotDiskMetaName diskName;
                 tmpMetaName = GenerateSnapshotDiskMetaName tmpName;
                 (err, w) = ae_Rename E tmpName diskName w;
                 (err, w) = (if err \<noteq> None
                   then (Wrapf err (''failed to replace old snapshot '' @ diskName @ '' with the new fully restored file '' @ tmpName), w)
                   else
                     let (err, w) = ae_Rename E tmpMetaName metaName w
                     in if err \<noteq> None
                        then (Wrapf err (''failed to replace old snapshot meta file '' @ metaName @ '' with the new restored meta file '' @ tmpMetaName), w)
                        else let (err, w) = reloadReplica E s w in (Wrapf err ''failed to reload replica after the full restore'', w));
                 (_, w) = ae_Remove E tmpName w;
                 (_, w) = ae_Remove E tmpMetaName w
             in (err, w))"

definition postFullRestoreOperations :: "'w agent_env \<Rightarrow> RestoreStatus \<Rightarrow> agent \<Rightarrow> 'w \<Rightarrow> error option \<times> 'w" where
  "postFullRestoreOperations E rs s w =
     (let (err, w) = CreateNewSnapshotMetafile E (rs_ToFileName rs @ ''.meta'') w
      in if err \<noteq> None then (err, w)
         else if HasSuffix (rs_ToFileName rs) ''.snap_tmp'' then extraIncrementalFullRestoreOperations E rs s w
         else
           let (err, w) = reloadReplica E s w
           in if err \<noteq> None then (Wrapf err (''failed to reload replica '' @ sa_replicaAddress s @ '' for the full restore''), w)
              else
                let (err, w) = replicaRevert E (rs_ToFileName rs) (ae_Now E w) s w
                in (Wrapf err (''failed to revert to '' @ rs_ToFileName rs @ '' for replica '' @ sa_replicaAddress s), w))"

text \<open>The progress of this fold goes to a PurgeStatus of its own.\<close>

definition postIncrementalRestoreOperations :: "'w agent_env \<Rightarrow> RestoreStatus \<Rightarrow> agent \<Rightarrow> 'w \<Rightarrow> error option \<times> 'w" where
  "postIncrementalRestoreOperations E rs s w =
     (let deltaFileName = rs_ToFileName rs;
          (err, _, w) = ae_FoldFile E deltaFileName (rs_SnapshotDiskName rs) w;
          (err, w) = (if err \<noteq> None then (err, w) else reloadReplica E s w);
          (_, w) = ae_Remove E deltaFileName w
      in (err, w))"

definition completeBackupRestore :: "'w agent_env \<Rightarrow> RestoreStatus list \<Rightarrow> agent \<Rightarrow> 'w \<Rightarrow> (error option \<times> agent \<times> 'w) option" where
  "completeBackupRestore E ticks s w = do {
     (err, s) \<leftarrow> wait_loop ticks s;
     ri \<leftarrow> sa_RestoreInfo s;
     let restoreStatus = DeepCopy ri;
     let (err, w) = (if err \<noteq> None then (Wrapf err ''failed to wait for restore complete'', w)
          else if rs_LastRestored restoreStatus \<noteq> '''' then postIncrementalRestoreOperations E restoreStatus s w
          else postFullRestoreOperations E restoreStatus s w);
     let (_, s) = agent_FinishRestore err s;
     Some (err, s, w)
   }"

section \<open>Purging\<close>

definition PreparePurge :: "agent \<Rightarrow> error option \<times> agent" where
  "PreparePurge s =
     (if sa_isPurging s then (Some (Errorf ''replica is already purging snapshots''), s)
      else (None, s\<lparr>sa_isPurging := True,
              sa_PurgeStatus := \<lparr>ps_Error = '''', ps_Progress = 0, ps_State = ProgressStateInProgress, ps_processed = 0, ps_total = 0\<rparr>\<rparr>))"

definition FinishPurge :: "agent \<Rightarrow> error option \<times> agent" where
  "FinishPurge s =
     (if \<not> sa_isPurging s then (Some (Errorf ''BUG: replica is not purging snapshots''), s)
      else (None, s\<lparr>sa_isPurging := False\<rparr>))"

text \<open>getSnapshotsInfo: the disks by the names of their snapshots, and how many are marked as removed.\<close>

definition snapshot_name :: "string \<Rightarrow> error + string" where
  "snapshot_name disk = (if \<not> IsHeadDisk disk then GetSnapshotNameFromDiskName disk else Inr VolumeHeadName)"

fun child_names :: "(string \<times> bool) list \<Rightarrow> (string \<times> bool) list \<Rightarrow> error + (string \<times> bool) list" where
  "child_names [] acc = Inr acc"
| "child_names ((child, _) # cs) acc =
     (case snapshot_name child of Inl e \<Rightarrow> Inl e | Inr n \<Rightarrow> child_names cs (AList.update n True acc))"

fun snapshots_loop :: "(string \<times> DiskInfo) list \<Rightarrow> (string \<times> DiskInfo) list \<Rightarrow> int \<Rightarrow> error + (string \<times> DiskInfo) list \<times> int" where
  "snapshots_loop [] acc removedCount = Inr (acc, removedCount)"
| "snapshots_loop ((name, d) # ds) acc removedCount =
     (case snapshot_name name of
        Inl e \<Rightarrow> Inl e
      | Inr snapshot \<Rightarrow> (case child_names (di_Children d) [] of
          Inl e \<Rightarrow> Inl e
        | Inr children \<Rightarrow> (case (if di_Parent d \<noteq> '''' then GetSnapshotNameFromDiskName (di_Parent d) else Inr '''') of
            Inl e \<Rightarrow> Inl e
          | Inr parent \<Rightarrow>
              snapshots_loop ds
                (AList.update snapshot \<lparr>di_Name = snapshot, di_Parent = parent, di_Children = children, di_Removed = di_Removed d,
                   di_UserCreated = di_UserCreated d, di_Created = di_Created d, di_Size = di_Size d, di_Labels = di_Labels d\<rparr> acc)
                (if di_Removed d then removedCount + 1 else removedCount))))"

definition getSnapshotsInfo :: "'w agent_env \<Rightarrow> agent \<Rightarrow> 'w \<Rightarrow> (error + (string \<times> DiskInfo) list \<times> int) \<times> 'w" where
  "getSnapshotsInfo E s w =
     (case ae_GetReplica E (sa_replicaAddress s) w of
        (Inl e, w) \<Rightarrow> (Inl e, w)
      | (Inr resp, w) \<Rightarrow> (snapshots_loop (filter (\<lambda>(name, d). name \<noteq> ri_BackingFile resp) (ri_Disks resp)) [] 0, w))"

definition markSnapshotAsRemoved :: "'w agent_env \<Rightarrow> string \<Rightarrow> agent \<Rightarrow> 'w \<Rightarrow> error option \<times> 'w" where
  "markSnapshotAsRemoved E snapshot s w =
     (let (err, w) = ae_NewClient E (sa_replicaAddress s) w
      in if err \<noteq> None then (Wrapf err (''cannot connect to ReplicaService '' @ sa_replicaAddress s), w)
         else ae_DiskMarkAsRemoved E (sa_replicaAddress s) snapshot w)"

definition agent_rmDisk :: "'w agent_env \<Rightarrow> string \<Rightarrow> agent \<Rightarrow> 'w \<Rightarrow> error option \<times> 'w" where
  "agent_rmDisk E dk s w =
     (let (err, w) = ae_NewClient E (sa_replicaAddress s) w
      in if err \<noteq> None then (Wrapf err (''cannot connect to ReplicaService '' @ sa_replicaAddress s), w)
         else ae_DiskRemove E (sa_replicaAddress s) dk w)"

definition agent_replaceDisk :: "'w agent_env \<Rightarrow> string \<Rightarrow> string \<Rightarrow> agent \<Rightarrow> 'w \<Rightarrow> error option \<times> 'w" where
  "agent_replaceDisk E source target s w =
     (let (err, w) = ae_NewClient E (sa_replicaAddress s) w
      in if err \<noteq> None then (Wrapf err (''cannot connect to ReplicaService '' @ sa_replicaAddress s), w)
         else ae_DiskReplace E (sa_replicaAddress s) source target w)"

definition report :: "int list \<Rightarrow> agent \<Rightarrow> agent" where
  "report ps s = s\<lparr>sa_PurgeStatus := fold UpdateFileHandlingProgress ps (sa_PurgeStatus s)\<rparr>"

definition remove_op :: "'w agent_env \<Rightarrow> PrepareRemoveAction \<Rightarrow> agent \<Rightarrow> 'w \<Rightarrow> error option \<times> agent \<times> 'w" where
  "remove_op E a s w =
     (if pa_Action a = OpCoalesce then let (err, ps, w) = ae_FoldFile E (pa_Target a) (pa_Source a) w in (err, report ps s, w)
      else if pa_Action a = OpRemove then let (err, w) = agent_rmDisk E (pa_Source a) s w in (err, s, w)
      else if pa_Action a = OpReplace then let (err, w) = agent_replaceDisk E (pa_Source a) (pa_Target a) s w in (err, s, w)
      else if pa_Action a = OpPrune then let (err, ps, w) = ae_PruneFile E (pa_Source a) (pa_Target a) w in (err, report ps s, w)
      else (None, s, w))"

fun remove_ops :: "'w agent_env \<Rightarrow> PrepareRemoveAction list \<Rightarrow> agent \<Rightarrow> 'w \<Rightarrow> error option \<times> agent \<times> 'w" where
  "remove_ops E [] s w = (None, s, w)"
| "remove_ops E (a # as) s w =
     (let (err, s, w) = remove_op E a s w in if err \<noteq> None then (err, s, w) else remove_ops E as s w)"

definition processRemoveSnapshot :: "'w agent_env \<Rightarrow> string \<Rightarrow> agent \<Rightarrow> 'w \<Rightarrow> error option \<times> agent \<times> 'w" where
  "processRemoveSnapshot E snapshot s w =
     (let (err, w) = ae_NewClient E (sa_replicaAddress s) w
      in if err \<noteq> None then (Wrapf err (''cannot connect to ReplicaService '' @ sa_replicaAddress s), s, w)
         else case ae_DiskPrepareRemove E (sa_replicaAddress s) snapshot w of
           (Inl e, w) \<Rightarrow> (Some e, s, w)
         | (Inr ops, w) \<Rightarrow> remove_ops E ops s w)"

text \<open>The first loop of purgeSnapshots, over the map of the snapshots: the leaves, and the marking of system snapshots.\<close>

fun mark_loop :: "'w agent_env \<Rightarrow> (string \<times> DiskInfo) list \<Rightarrow> string list \<Rightarrow> agent \<Rightarrow> 'w \<Rightarrow> (error + string list) \<times> 'w" where
  "mark_loop E [] leaves s w = (Inr leaves, w)"
| "mark_loop E ((snapshot, info) # rest) leaves s w =
     (let leaves = (if di_Children info = [] then leaves @ [snapshot] else leaves)
      in if di_Name info = VolumeHeadName then mark_loop E rest leaves s w
         else if \<not> di_UserCreated info \<and> \<not> di_Removed info
         then (case markSnapshotAsRemoved E snapshot s w of
                 (Some e, w) \<Rightarrow> (Inl e, w)
               | (None, w) \<Rightarrow> mark_loop E rest leaves s w)
         else mark_loop E rest leaves s w)"

definition set_purge :: "(PurgeStatus \<Rightarrow> PurgeStatus) \<Rightarrow> agent \<Rightarrow> agent" where
  "set_purge f s = s\<lparr>sa_PurgeStatus := f (sa_PurgeStatus s)\<rparr>"

text \<open>The walk from a leaf to the root; it does not return when the parents form a cycle.\<close>

partial_function (option) trace_loop ::
  "'w agent_env \<Rightarrow> (string \<times> DiskInfo) list \<Rightarrow> string \<Rightarrow> string \<Rightarrow> int \<Rightarrow> agent \<Rightarrow> 'w \<Rightarrow> (error option \<times> string \<times> int \<times> agent \<times> 'w) option" where
  "trace_loop E infos snapshot latest removed s w =
     (if snapshot = '''' then Some (None, latest, removed, s, w)
      else case map_of infos snapshot of
        None \<Rightarrow> Some (None, latest, removed, s, w)
      | Some info \<Rightarrow>
          if \<not> di_Removed info then trace_loop E infos (di_Parent info) latest removed s w
          else if di_Name info = VolumeHeadName then Some (Some (Errorf ''BUG: Volume head was marked as removed''), latest, removed, s, w)
          else if latest = '''' \<and> VolumeHeadName \<in> fst ` set (di_Children info)
          then trace_loop E infos (di_Parent info) snapshot removed s w
          else case processRemoveSnapshot E snapshot s w of
            (Some e, s, w) \<Rightarrow> Some (Some e, latest, removed, s, w)
          | (None, s, w) \<Rightarrow> trace_loop E infos (di_Parent info) latest (removed + 1) (set_purge (\<lambda>ps. ps\<lparr>ps_processed := removed + 1\<rparr>) s) w)"

declare trace_loop.simps [code]

fun leaves_loop ::
  "'w agent_env \<Rightarrow> string list \<Rightarrow> (string \<times> DiskInfo) list \<Rightarrow> string \<Rightarrow> int \<Rightarrow> agent \<Rightarrow> 'w \<Rightarrow> (error option \<times> string \<times> int \<times> agent \<times> 'w) option" where
  "leaves_loop E [] infos latest removed s w = Some (None, latest, removed, s, w)"
| "leaves_loop E (leaf # leaves) infos latest removed s w =
     (if map_of infos leaf = None then leaves_loop E leaves infos latest removed s w
      else do {
        (err, latest, removed, s, w) \<leftarrow> trace_loop E infos leaf latest removed s w;
        (if err \<noteq> None then Some (err, latest, removed, s, w)
         else case getSnapshotsInfo E s w of
           (Inl e, w) \<Rightarrow> Some (Some e, latest, removed, s, w)
         | (Inr (infos, marked), w) \<Rightarrow>
             leaves_loop E leaves infos latest removed
               (set_purge (\<lambda>ps. ps\<lparr>ps_total := marked + removed, ps_Progress := percent E removed (marked + removed)\<rparr>) s) w)
      })"

definition purge_body :: "'w agent_env \<Rightarrow> agent \<Rightarrow> 'w \<Rightarrow> (error option \<times> agent \<times> 'w) option" where
  "purge_body E s w =
     (case ae_NewClient E (sa_replicaAddress s) w of
        (Some e, w) \<Rightarrow> Some (Some e, s, w)
      | (None, w) \<Rightarrow> (case getSnapshotsInfo E s w of
          (Inl e, w) \<Rightarrow> Some (Some e, s, w)
        | (Inr (infos, _), w) \<Rightarrow> (case mark_loop E infos [] s w of
            (Inl e, w) \<Rightarrow> Some (Some e, s, w)
          | (Inr leaves, w) \<Rightarrow> (case getSnapshotsInfo E s w of
              (Inl e, w) \<Rightarrow> Some (Some e, s, w)
            | (Inr (infos, marked), w) \<Rightarrow> do {
                (err, latest, removed, s, w) \<leftarrow> leaves_loop E leaves infos '''' 0 (set_purge (\<lambda>ps. ps\<lparr>ps_total := marked\<rparr>) s) w;
                (if err \<noteq> None then Some (err, s, w)
                 else if latest \<noteq> ''''
                 then (case processRemoveSnapshot E latest s w of
                         (Some e, s, w) \<Rightarrow> Some (Some e, s, w)
                       | (None, s, w) \<Rightarrow>
                           let s = set_purge (\<lambda>ps. ps\<lparr>ps_processed := removed + 1, ps_total := ps_total ps + 1,
                                 ps_Progress := percent E (removed + 1) (ps_total ps + 1)\<rparr>) s
                           in Some (None, set_purge (\<lambda>ps. ps\<lparr>ps_Progress := 100\<rparr>) s, w))
                 else Some (None, set_purge (\<lambda>ps. ps\<lparr>ps_Progress := 100\<rparr>) s, w))
              }))))"

definition purge_done :: "error option \<Rightarrow> agent \<Rightarrow> agent" where
  "purge_done err s =
     snd (FinishPurge (set_purge (\<lambda>ps. case err of
         Some e \<Rightarrow> ps\<lparr>ps_Error := Error_msg e, ps_State := ProgressStateError\<rparr>
       | None \<Rightarrow> ps\<lparr>ps_State := ProgressStateComplete\<rparr>) s))"

text \<open>SnapshotPurge, whose goroutine runs purgeSnapshots when the purge was accepted.\<close>

definition SnapshotPurge :: "agent \<Rightarrow> error option \<times> agent" where
  "SnapshotPurge s = PreparePurge s"

definition purgeSnapshots :: "'w agent_env \<Rightarrow> agent \<Rightarrow> 'w \<Rightarrow> (error option \<times> agent \<times> 'w) option" where
  "purgeSnapshots E s w = do { (err, s, w) \<leftarrow> purge_body E s w; Some (err, purge_done err s, w) }"

end
