(* ===== verification/Sync_Agent_Thms.thy ===== *)
theory Sync_Agent_Thms
  imports Sync_Purge
begin

text \<open>
  What the sync agent keeps: the allocation of its ports, and that its flags admit one rebuild, one purge and one restore at a time.
\<close>

text \<open>An environment in which every call succeeds, on a world that counts the calls.\<close>

definition ex_agent_env :: "nat agent_env" where
  "ex_agent_env = \<lparr>ae_NewClient = \<lambda>_ w. (None, w + 1),
     ae_GetReplica = \<lambda>_ w. (Inl (Errorf ''no replica''), w + 1),
     ae_SendFile = \<lambda>_ _ _ port w. (None, [1], [port], w + 1),
     ae_ExportVolume = \<lambda>_ _ _ port w. (None, [1], [port], w + 1),
     ae_ReplicaReload = \<lambda>_ w. (None, w + 1),
     ae_ReplicaRevert = \<lambda>_ _ _ w. (None, w + 1),
     ae_DiskMarkAsRemoved = \<lambda>_ _ w. (None, w + 1),
     ae_DiskPrepareRemove = \<lambda>_ _ w. (Inr [], w + 1),
     ae_DiskRemove = \<lambda>_ _ w. (None, w + 1),
     ae_DiskReplace = \<lambda>_ _ _ w. (None, w + 1),
     ae_FoldFile = \<lambda>_ _ w. (None, [100], w + 1),
     ae_PruneFile = \<lambda>_ _ w. (None, [100], w + 1),
     ae_SyncLocalFile = \<lambda>_ _ w. (None, w + 1),
     ae_CheckIsFileSizeSame = \<lambda>_ _ w. (None, w + 1),
     ae_Remove = \<lambda>_ w. (None, w + 1),
     ae_Rename = \<lambda>_ _ w. (None, w + 1),
     ae_Create = \<lambda>_ w. (None, w + 1),
     ae_Write = \<lambda>_ _ w. (None, w + 1),
     ae_Close = \<lambda>_ w. (None, w + 1),
     ae_InspectBackup = \<lambda>_ w. (None, w + 1),
     ae_Restore = \<lambda>_ _ _ w. (None, w + 1),
     ae_RestoreIncrementally = \<lambda>_ _ _ _ w. (None, w + 1),
     ae_Now = \<lambda>_. ''now'',
     ae_nan = 0\<rparr>"

section \<open>Ports\<close>

definition next_current :: "int \<Rightarrow> int \<Rightarrow> int \<Rightarrow> int" where
  "next_current a b p = (if p + 1 > b then a else p + 1)"

lemma next_current_mod:
  assumes "a \<le> b" "0 \<le> k"
  shows "next_current a b (a + k mod (b - a + 1)) = a + (k + 1) mod (b - a + 1)"
proof -
  let ?n = "b - a + 1"
  have r: "0 \<le> k mod ?n" "k mod ?n < ?n" using assms pos_mod_bound [of ?n k] by auto
  show ?thesis
  proof (cases "k mod ?n = ?n - 1")
    case True
    have "(k + 1) mod ?n = (k mod ?n + 1) mod ?n" by (simp add: mod_add_left_eq)
    with True have "(k + 1) mod ?n = 0" by simp
    with True show ?thesis by (simp add: next_current_def)
  next
    case False
    have "(k + 1) mod ?n = (k mod ?n + 1) mod ?n" by (simp add: mod_add_left_eq)
    also have "\<dots> = k mod ?n + 1" using r False by (intro mod_pos_pos_trivial) auto
    finally show ?thesis using r False by (simp add: next_current_def)
  qed
qed

definition ports_ok :: "agent \<Rightarrow> bool" where
  "ports_ok s \<longleftrightarrow> sa_startPort s \<le> sa_currentPort s \<and> sa_currentPort s \<le> sa_endPort s"

lemma port_loop_Suc:
  "port_loop (Suc n) name s =
     (let port = sa_currentPort s; s' = s\<lparr>sa_currentPort := next_current (sa_startPort s) (sa_endPort s) port\<rparr>
      in if map_of (sa_processesByPort s) port \<noteq> None then port_loop n name s'
         else (Inr port, s'\<lparr>sa_processesByPort := AList.update port name (sa_processesByPort s)\<rparr>))"
  by (simp add: next_current_def Let_def)

text \<open>The loop asks for the ports in turn, from the current one on and around the range.\<close>

lemma port_loop_spec:
  assumes "a \<le> b" "0 \<le> k" "sa_startPort s = a" "sa_endPort s = b" "sa_currentPort s = a + k mod (b - a + 1)"
  shows "case port_loop n name s of
      (Inl e, s') \<Rightarrow> (\<forall>i < n. map_of (sa_processesByPort s) (a + (k + int i) mod (b - a + 1)) \<noteq> None) \<and>
        (\<exists>c. a \<le> c \<and> c \<le> b \<and> s' = s\<lparr>sa_currentPort := c\<rparr>)
    | (Inr p, s') \<Rightarrow> a \<le> p \<and> p \<le> b \<and> map_of (sa_processesByPort s) p = None \<and>
        (\<exists>c. a \<le> c \<and> c \<le> b \<and> s' = s\<lparr>sa_currentPort := c, sa_processesByPort := AList.update p name (sa_processesByPort s)\<rparr>)"
  using assms
proof (induction n arbitrary: k s)
  case 0
  have "a \<le> a + k mod (b - a + 1)" "a + k mod (b - a + 1) \<le> b" using 0 pos_mod_bound [of "b - a + 1" k] by auto
  with 0 show ?case by (auto intro!: exI [of _ "sa_currentPort s"])
next
  case (Suc n)
  note nx = next_current_mod [OF Suc.prems(1,2)]
  have rng: "a \<le> a + j mod (b - a + 1) \<and> a + j mod (b - a + 1) \<le> b" for j
    using Suc.prems(1) pos_mod_bound [of "b - a + 1" j] by auto
  let ?p = "a + k mod (b - a + 1)" and ?s = "s\<lparr>sa_currentPort := a + (k + 1) mod (b - a + 1)\<rparr>"
  have step: "port_loop (Suc n) name s =
      (if map_of (sa_processesByPort s) ?p \<noteq> None then port_loop n name ?s
       else (Inr ?p, ?s\<lparr>sa_processesByPort := AList.update ?p name (sa_processesByPort s)\<rparr>))"
    using nx Suc.prems by (simp only: port_loop_Suc Let_def)
  show ?case
  proof (cases "map_of (sa_processesByPort s) ?p")
    case None
    then show ?thesis unfolding step using rng by (auto intro!: exI [of _ "a + (k + 1) mod (b - a + 1)"])
  next
    case (Some x)
    have all: "\<forall>i < Suc n. map_of (sa_processesByPort s) (a + (k + int i) mod (b - a + 1)) \<noteq> None"
      if h: "\<forall>i < n. map_of (sa_processesByPort s) (a + (k + 1 + int i) mod (b - a + 1)) \<noteq> None"
    proof (intro allI impI)
      fix i assume "i < Suc n"
      then show "map_of (sa_processesByPort s) (a + (k + int i) mod (b - a + 1)) \<noteq> None"
        using h [rule_format, of "i - 1"] Some by (cases i) (auto simp: add_ac)
    qed
    have ih: "case port_loop n name ?s of
      (Inl e, s') \<Rightarrow> (\<forall>i < n. map_of (sa_processesByPort s) (a + (k + 1 + int i) mod (b - a + 1)) \<noteq> None) \<and>
        (\<exists>c. a \<le> c \<and> c \<le> b \<and> s' = s\<lparr>sa_currentPort := c\<rparr>)
    | (Inr p, s') \<Rightarrow> a \<le> p \<and> p \<le> b \<and> map_of (sa_processesByPort s) p = None \<and>
        (\<exists>c. a \<le> c \<and> c \<le> b \<and> s' = s\<lparr>sa_currentPort := c, sa_processesByPort := AList.update p name (sa_processesByPort s)\<rparr>)"
      using Suc.IH [of "k + 1" ?s] Suc.prems by (cases "port_loop n name ?s") (simp split: sum.splits)
    have "port_loop (Suc n) name s = port_loop n name ?s" using step Some by simp
    with ih all show ?thesis by (cases "port_loop n name ?s") (simp split: sum.splits)
  qed
qed

text \<open>Within the length of the range, that is every port.\<close>

lemma port_orbit:
  assumes "a \<le> p" "p \<le> b" "0 \<le> k"
  obtains i where "i < nat (b - a + 1)" "p = a + (k + int i) mod (b - a + 1)"
proof
  let ?n = "b - a + 1" and ?i = "(p - a - k) mod (b - a + 1)"
  have "0 \<le> ?i" "?i < ?n" using assms pos_mod_bound [of ?n "p - a - k"] by auto
  then show "nat ?i < nat ?n" by simp
  have "(k + ?i) mod ?n = (p - a) mod ?n" by (simp add: mod_add_right_eq)
  also have "\<dots> = p - a" using assms by (intro mod_pos_pos_trivial) auto
  finally show "p = a + (k + int (nat ?i)) mod ?n" using \<open>0 \<le> ?i\<close> by simp
qed

lemma nextPort_cases:
  assumes "ports_ok s"
  shows "case nextPort name s of
      (Inl e, s') \<Rightarrow> (\<exists>c. sa_startPort s \<le> c \<and> c \<le> sa_endPort s \<and> s' = s\<lparr>sa_currentPort := c\<rparr>) \<and>
        (\<forall>p. sa_startPort s \<le> p \<and> p \<le> sa_endPort s \<longrightarrow> map_of (sa_processesByPort s) p \<noteq> None)
    | (Inr p, s') \<Rightarrow> sa_startPort s \<le> p \<and> p \<le> sa_endPort s \<and> map_of (sa_processesByPort s) p = None \<and>
        (\<exists>c. sa_startPort s \<le> c \<and> c \<le> sa_endPort s \<and>
          s' = s\<lparr>sa_currentPort := c, sa_processesByPort := AList.update p name (sa_processesByPort s)\<rparr>)"
proof -
  let ?a = "sa_startPort s" and ?b = "sa_endPort s"
  let ?k = "sa_currentPort s - ?a"
  have ab: "?a \<le> ?b" "0 \<le> ?k" "?k < ?b - ?a + 1" using assms by (auto simp: ports_ok_def)
  then have "sa_currentPort s = ?a + ?k mod (?b - ?a + 1)" by (simp add: mod_pos_pos_trivial)
  note spec = port_loop_spec [OF ab(1,2) refl refl this, of "nat (?b - ?a + 1)" name, folded nextPort_def]
  have full: "\<forall>p. ?a \<le> p \<and> p \<le> ?b \<longrightarrow> map_of (sa_processesByPort s) p \<noteq> None"
    if "\<forall>i < nat (?b - ?a + 1). map_of (sa_processesByPort s) (?a + (?k + int i) mod (?b - ?a + 1)) \<noteq> None"
    using that port_orbit [OF _ _ ab(2)] by metis
  show ?thesis
  proof (cases "nextPort name s")
    case (Pair r s')
    with spec full show ?thesis by (cases r) auto
  qed
qed

text \<open>
  With the current port in its range, nextPort returns a free port of the range, which from then on belongs to the process; it fails
  only when every port of the range is taken, and then takes none.  The current port stays in the range.
\<close>

lemma nextPort_allocates:
  assumes "ports_ok s"
  shows "case nextPort name s of
      (Inl e, s') \<Rightarrow> ports_ok s' \<and> sa_processesByPort s' = sa_processesByPort s \<and>
        (\<forall>p. sa_startPort s \<le> p \<and> p \<le> sa_endPort s \<longrightarrow> map_of (sa_processesByPort s) p \<noteq> None)
    | (Inr p, s') \<Rightarrow> ports_ok s' \<and> sa_startPort s \<le> p \<and> p \<le> sa_endPort s \<and> map_of (sa_processesByPort s) p = None \<and>
        map_of (sa_processesByPort s') = (map_of (sa_processesByPort s))(p \<mapsto> name)"
proof (cases "nextPort name s")
  case (Pair r s')
  with nextPort_cases [OF assms, of name] show ?thesis by (cases r) (auto simp: ports_ok_def update_conv')
qed

section \<open>Progress\<close>

lemma percent_bounds:
  assumes "0 \<le> a" "a \<le> b" "0 < b"
  shows "0 \<le> percent E a b" and "percent E a b \<le> 100"
proof -
  let ?q = "f32 (of_int a) / f32 (of_int b)"
  have b: "0 < f32 (of_int b)" using assms by (intro f32_positive) simp
  have "0 \<le> f32 (of_int a)" "f32 (of_int a) \<le> f32 (of_int b)" using assms by (auto intro!: f32_nonneg f32_mono)
  with b have q: "0 \<le> ?q" "?q \<le> 1" by (auto simp: divide_le_eq_1)
  then have "0 \<le> f32 ?q" "f32 ?q \<le> 1" using f32_nonneg [of ?q] f32_mono [of ?q 1] by auto
  then have "0 \<le> f32 (f32 ?q * 100)" "f32 (f32 ?q * 100) \<le> 100" using f32_nonneg [of "f32 ?q * 100"] f32_mono [of "f32 ?q * 100" 100] by auto
  then show "0 \<le> percent E a b" "percent E a b \<le> 100"
    using assms(3) by (auto simp: percent_def trunc_def)
qed

text \<open>The reported progress of a rebuild, after the blocks of the sizes were written.\<close>

lemma rebuild_progress_fold:
  assumes "\<forall>x \<in> set sizes. 0 \<le> x" "0 \<le> rb_processedSize rs" "rb_processedSize rs + sum_list sizes \<le> rb_totalSize rs" "0 < rb_totalSize rs"
    "0 \<le> rb_Progress rs" "rb_Progress rs \<le> 100"
  shows "0 \<le> rb_Progress (fold (rb_UpdateSyncFileProgress E) sizes rs) \<and> rb_Progress (fold (rb_UpdateSyncFileProgress E) sizes rs) \<le> 100"
  using assms
proof (induction sizes arbitrary: rs)
  case (Cons x xs)
  have "0 \<le> sum_list xs" using Cons.prems(1) by (intro sum_list_nonneg) auto
  moreover have "rb_UpdateSyncFileProgress E x rs =
      rs\<lparr>rb_processedSize := rb_processedSize rs + x, rb_Progress := percent E (rb_processedSize rs + x) (rb_totalSize rs)\<rparr>"
    by (simp add: rb_UpdateSyncFileProgress_def Let_def)
  ultimately show ?case
    using Cons.prems percent_bounds [of "rb_processedSize rs + x" "rb_totalSize rs" E] Cons.IH [of "rb_UpdateSyncFileProgress E x rs"]
    by simp
qed simp


section \<open>Jobs\<close>

text \<open>
  The jobs of the agent as a state machine: a step is the part of a handler that holds the mutex, between which the other handlers run.
  The jobs are those that were accepted and have not ended.
\<close>

datatype job = Rebuild | Purge | Restore | Clone

inductive agent_step :: "'w agent_env \<Rightarrow> agent \<times> job list \<Rightarrow> agent \<times> job list \<Rightarrow> bool" for E where
  rebuild: "PrepareRebuild E infos fromAddress s = (None, s') \<Longrightarrow> agent_step E (s, js) (s', Rebuild # js)"
| rebuild_end: "Rebuild \<in> set js \<Longrightarrow> agent_step E (s, js) (snd (rebuild_done err s), remove1 Rebuild js)"
| rebuild_progress: "agent_step E (s, js) (s\<lparr>sa_RebuildStatus := rb_UpdateSyncFileProgress E n (sa_RebuildStatus s)\<rparr>, js)"
| purge: "SnapshotPurge s = (None, s') \<Longrightarrow> agent_step E (s, js) (s', Purge # js)"
| purge_end: "Purge \<in> set js \<Longrightarrow> agent_step E (s, js) (purge_done err s, remove1 Purge js)"
| purge_progress: "agent_step E (s, js) (set_purge f s, js)"
| restore: "StartRestore E url name disk n s w = (None, s', w') \<Longrightarrow> agent_step E (s, js) (s', Restore # js)"
| restore_failed: "StartRestore E url name disk n s w = (Some e, s', w') \<Longrightarrow> agent_step E (s, js) (s', js)"
| restore_end: "Restore \<in> set js \<Longrightarrow> agent_step E (s, js) (snd (agent_FinishRestore err s), remove1 Restore js)"
| restore_progress: "agent_step E (s, js) (s\<lparr>sa_RestoreInfo := Some ri\<rparr>, js)"
| clone: "prepareClone E fromAddress name n s = (None, s') \<Longrightarrow> agent_step E (s, js) (s', Clone # js)"
| clone_refused: "prepareClone E fromAddress name n s = (Some e, s') \<Longrightarrow> agent_step E (s, js) (snd (clone_done (Some e) s'), js)"
| clone_end: "Clone \<in> set js \<Longrightarrow> agent_step E (s, js) (snd (clone_done err s), remove1 Clone js)"
| clone_progress: "agent_step E (s, js) (s\<lparr>sa_CloneStatus := cs_UpdateSyncFileProgress E n (sa_CloneStatus s)\<rparr>, js)"
| reset: "agent_step E (s, js) (snd (agent_Reset s), js)"
| port: "agent_step E (s, js) (snd (nextPort name s), js)"
| port_end: "agent_step E (s, js) (release_port p s, js)"

definition flags_ok :: "agent \<Rightarrow> job list \<Rightarrow> bool" where
  "flags_ok s js \<longleftrightarrow> count_list js Rebuild = of_bool (sa_isRebuilding s) \<and> count_list js Purge = of_bool (sa_isPurging s) \<and>
     count_list js Restore = of_bool (sa_isRestoring s) \<and> ports_ok s"

lemma count_remove1: "count_list (remove1 x xs) y = count_list xs y - of_bool (x = y \<and> x \<in> set xs)"
  by (induction xs) (auto simp: count_list_0_iff Suc_diff_le count_notin)

lemma nextPort_flags:
  assumes "flags_ok s js"
  shows "flags_ok (snd (nextPort name s)) js"
proof (cases "nextPort name s")
  case (Pair r s')
  have "ports_ok s" using assms by (simp add: flags_ok_def)
  from nextPort_cases [OF this, of name] Pair assms show ?thesis by (cases r) (auto simp: flags_ok_def ports_ok_def)
qed

lemma StartRestore_flags:
  assumes "StartRestore E url name disk n s w = (err, s', w')"
  shows "\<exists>ri. s' = s\<lparr>sa_RestoreInfo := ri, sa_isRestoring := (err = None \<or> sa_isRestoring s)\<rparr> \<and> (err = None \<longrightarrow> \<not> sa_isRestoring s)"
proof (cases "sa_isRestoring s")
  case True
  with assms show ?thesis by (auto simp: StartRestore_def intro!: exI [of _ "sa_RestoreInfo s"])
next
  case False
  with assms show ?thesis
    by (auto simp: StartRestore_def Let_def split: option.splits if_splits prod.splits intro!: exI [of _ "sa_RestoreInfo s'"])
qed

lemmas flag_defs = flags_ok_def ports_ok_def count_remove1 PrepareRebuild_def rebuild_done_def FinishRebuild_def SnapshotPurge_def PreparePurge_def
  purge_done_def set_purge_def FinishPurge_def agent_FinishRestore_def prepareClone_def clone_done_def FinishClone_def agent_Reset_def
  release_port_def Let_def

lemma flags_ok_step:
  assumes "agent_step E c c'" "flags_ok (fst c) (snd c)"
  shows "flags_ok (fst c') (snd c')"
  using assms
proof (induction rule: agent_step.induct)
  case (restore url name disk n s w s' w' js)
  from StartRestore_flags [OF restore(1)] restore(2) show ?case by (auto simp: flag_defs)
next
  case (restore_failed url name disk n s w e s' w' js)
  from StartRestore_flags [OF restore_failed(1)] restore_failed(2) show ?case by (auto simp: flag_defs)
next
  case (port s js name)
  then show ?case by (simp add: nextPort_flags)
qed (auto simp: flag_defs count_list_0_iff split: if_splits option.splits prod.splits)

lemma flags_ok_reachable:
  assumes "(agent_step E)\<^sup>*\<^sup>* c c'" "flags_ok (fst c) (snd c)"
  shows "flags_ok (fst c') (snd c')"
  using assms by (induction rule: rtranclp_induct) (auto intro: flags_ok_step)

lemma flags_ok_new: "startPort \<le> endPort \<Longrightarrow> flags_ok (NewSyncAgentServer startPort endPort r v i) []"
  by (simp add: flags_ok_def ports_ok_def NewSyncAgentServer_def)

text \<open>
  C27: in every state that the handlers of a new agent reach, in whatever order their atomic parts run, at most one rebuild, one purge and one
  restore are running, the flags of the agent say which, and the current port is in the range.
\<close>

theorem agent_single_jobs:
  assumes "(agent_step E)\<^sup>*\<^sup>* (NewSyncAgentServer startPort endPort r v i, []) (s, js)" "startPort \<le> endPort"
  shows "count_list js Rebuild = of_bool (sa_isRebuilding s) \<and> count_list js Purge = of_bool (sa_isPurging s) \<and>
    count_list js Restore = of_bool (sa_isRestoring s) \<and> ports_ok s"
  using flags_ok_reachable [OF assms(1)] flags_ok_new [OF assms(2)] by (simp add: flags_ok_def)

lemma agent_single_jobs_trace:
  "(agent_step E)\<^sup>*\<^sup>* (NewSyncAgentServer 1 2 [] [] [], [])
     (snd (SnapshotPurge (snd (PrepareRebuild E [] [] (NewSyncAgentServer 1 2 [] [] [])))), [Purge, Rebuild])"
proof -
  let ?n = "NewSyncAgentServer 1 2 [] [] []"
  have "agent_step E (?n, []) (snd (PrepareRebuild E [] [] ?n), [Rebuild])"
    by (rule agent_step.rebuild [where infos = "[]" and fromAddress = "[]"]) (simp add: PrepareRebuild_def NewSyncAgentServer_def Let_def)
  moreover have "agent_step E (snd (PrepareRebuild E [] [] ?n), [Rebuild]) (snd (SnapshotPurge (snd (PrepareRebuild E [] [] ?n))), [Purge, Rebuild])"
    by (rule agent_step.purge) (simp add: PrepareRebuild_def NewSyncAgentServer_def SnapshotPurge_def PreparePurge_def Let_def)
  ultimately show ?thesis by (rule converse_rtranclp_into_rtranclp [OF _ r_into_rtranclp])
qed

text \<open>The hypotheses hold of an agent that accepts a purge during a rebuild.\<close>

theorem agent_single_jobs_witness:
  "\<exists>s. (agent_step ex_agent_env)\<^sup>*\<^sup>* (NewSyncAgentServer 1 2 [] [] [], []) (s, [Purge, Rebuild]) \<and> sa_isRebuilding s \<and> sa_isPurging s"
proof -
  let ?s = "snd (SnapshotPurge (snd (PrepareRebuild ex_agent_env [] [] (NewSyncAgentServer 1 2 [] [] []))))"
  have "sa_isRebuilding ?s \<and> sa_isPurging ?s"
    using agent_single_jobs [OF agent_single_jobs_trace [of ex_agent_env]] by (auto simp: of_bool_def split: if_splits)
  then show ?thesis using agent_single_jobs_trace [of ex_agent_env] by blast
qed

text \<open>
  The flag of a clone does not keep that promise.  The deferred function of a clone that was refused, since one is running, clears the flag of the
  running one, so that a third request is accepted: every new agent can reach a state with two clones at work.
\<close>

lemma agent_two_clones:
  "\<exists>s. (agent_step E)\<^sup>*\<^sup>* (NewSyncAgentServer startPort endPort r v i, []) (s, [Clone, Clone])"
proof -
  let ?n = "NewSyncAgentServer startPort endPort r v i"
  obtain s1 where 1: "prepareClone E [] [] 1 ?n = (None, s1)" "sa_isCloning s1" by (auto simp: prepareClone_def NewSyncAgentServer_def Let_def)
  obtain e where 2: "prepareClone E [] [] 1 s1 = (Some e, s1)" using 1(2) by (auto simp: prepareClone_def Let_def)
  have "\<not> sa_isCloning (snd (clone_done (Some e) s1))" by (simp add: clone_done_def FinishClone_def)
  then obtain s2 where 3: "prepareClone E [] [] 1 (snd (clone_done (Some e) s1)) = (None, s2)" by (auto simp: prepareClone_def Let_def)
  have "(agent_step E)\<^sup>*\<^sup>* (?n, []) (s1, [Clone])" using agent_step.clone [OF 1(1)] by (rule r_into_rtranclp)
  also have "agent_step E (s1, [Clone]) (snd (clone_done (Some e) s1), [Clone])" by (rule agent_step.clone_refused [OF 2])
  also have "agent_step E (snd (clone_done (Some e) s1), [Clone]) (s2, [Clone, Clone])" by (rule agent_step.clone [OF 3])
  finally show ?thesis by blast
qed

section \<open>Handlers\<close>

text \<open>Transfers only touch the ports and the status.\<close>

lemma launchReceiver_keeps:
  assumes "launchReceiver name s = (r, s')"
  shows "sa_isRebuilding s' = sa_isRebuilding s" "sa_isCloning s' = sa_isCloning s" "sa_CloneStatus s' = sa_CloneStatus s"
proof -
  have "sa_isRebuilding (snd (port_loop n name s)) = sa_isRebuilding s \<and> sa_isCloning (snd (port_loop n name s)) = sa_isCloning s \<and>
      sa_CloneStatus (snd (port_loop n name s)) = sa_CloneStatus s" for n
  proof (induction n arbitrary: s)
    case (Suc n)
    then show ?case by (simp only: port_loop_Suc Let_def split: if_splits) simp
  qed simp
  then show "sa_isRebuilding s' = sa_isRebuilding s" "sa_isCloning s' = sa_isCloning s" "sa_CloneStatus s' = sa_CloneStatus s"
    using assms unfolding launchReceiver_def nextPort_def by (metis snd_conv)+
qed

lemma release_keeps [simp]:
  "sa_isRebuilding (fold release_port ps s) = sa_isRebuilding s"
  "sa_isCloning (fold release_port ps s) = sa_isCloning s"
  by (induction ps arbitrary: s) (auto simp: release_port_def)

lemma sync_remote_keeps: "sync_remote_loop E fromAddress toHost infos s w = (err, s', w') \<Longrightarrow> sa_isRebuilding s' = sa_isRebuilding s"
proof (induction infos arbitrary: s w)
  case (Cons info infos)
  from Cons.prems show ?case
    by (auto simp: Let_def split: prod.splits sum.splits option.splits if_splits dest!: Cons.IH launchReceiver_keeps(1))
qed simp

text \<open>
  C29: an accepted FilesSync ends with the replica no longer rebuilding, and with the state complete when it succeeded, and the state error
  with the message of the returned error when it failed.
\<close>

theorem FilesSync_finishes:
  assumes "\<not> sa_isPurging s" "\<not> sa_isRebuilding s" "FilesSync E localSync fromAddress toHost infos s w = (err, s', w')"
  shows "\<not> sa_isRebuilding s' \<and>
    (case err of None \<Rightarrow> rb_State (sa_RebuildStatus s') = ProgressStateComplete
     | Some e \<Rightarrow> rb_State (sa_RebuildStatus s') = ProgressStateError \<and> rb_Error (sa_RebuildStatus s') = Error_msg e)"
proof -
  obtain s1 where p: "PrepareRebuild E infos fromAddress s = (None, s1)" "sa_isRebuilding s1" using assms(1,2) by (simp add: PrepareRebuild_def Let_def)
  have d: "\<not> sa_isRebuilding s' \<and>
    (case err of None \<Rightarrow> rb_State (sa_RebuildStatus s') = ProgressStateComplete
     | Some e \<Rightarrow> rb_State (sa_RebuildStatus s') = ProgressStateError \<and> rb_Error (sa_RebuildStatus s') = Error_msg e)"
    if "rebuild_done r x = (err, s')" "sa_isRebuilding x" for r x
    using that by (auto simp: rebuild_done_def FinishRebuild_def Let_def split: option.splits)
  have k: "sa_isRebuilding x" if "fileSyncRemote E fromAddress toHost infos s1 v = (r, x, v')" for r x v v'
    using that p(2) by (auto simp: fileSyncRemote_def Let_def split: prod.splits if_splits dest!: sync_remote_keeps)
  from assms(3) p(1) obtain synced v r x v' where
    "(if synced then (None, s1, v) else fileSyncRemote E fromAddress toHost infos s1 v) = (r, x, v')" "rebuild_done r x = (err, s')"
    by (auto simp: FilesSync_def Let_def split: prod.splits)
  with d k p(2) show ?thesis by (cases synced) auto
qed

text \<open>The clone keeps its flag until the deferred function.\<close>

lemma clone_body_keeps: "clone_body E name fromAddress toHost s w = (err, s', w') \<Longrightarrow> sa_isCloning s' = sa_isCloning s"
  by (auto simp: clone_body_def startCloning_def Let_def split: prod.splits sum.splits if_splits dest!: launchReceiver_keeps(2))

text \<open>
  A clone that was accepted never reports an error to its caller.  The deferred function records the failure in the status, and then
  overwrites the result with that of FinishClone, which succeeds.
\<close>

lemma SnapshotClone_hides_errors:
  assumes "clone_source E name fromAddress w = (Inr sz, w1)" "\<not> sa_isCloning s"
    and "clone_body E name fromAddress toHost (snd (prepareClone E fromAddress name sz s)) w1 = (err, s2, w2)"
  shows "\<exists>s'. SnapshotClone E name fromAddress toHost s w = (None, s', w2) \<and> \<not> sa_isCloning s' \<and>
    cs_State (sa_CloneStatus s') = (if err = None then ProgressStateComplete else ProgressStateError)"
proof -
  obtain s1 where p: "prepareClone E fromAddress name sz s = (None, s1)" "sa_isCloning s1" using assms(2) by (simp add: prepareClone_def Let_def)
  have "sa_isCloning s2" using clone_body_keeps [of E name fromAddress toHost s1 w1 err s2 w2] assms(3) p by simp
  then show ?thesis using assms(1,3) p by (auto simp: SnapshotClone_def clone_done_def FinishClone_def Let_def split: option.splits)
qed

text \<open>
  fileSyncLocal cleans up only after a copy that failed.  When a copy has the wrong size, its error is returned from a variable that
  the deferred clean-up does not see: the copied files stay, the state of the world is the one that the size check left.
\<close>

lemma fileSyncLocal_size_mismatch_leaves_files:
  assumes "ae_SyncLocalFile E (path_Join ''/host'' (src @ ''/'' @ FromFileName info)) (path_Join ''/host'' (dst @ ''/'' @ ToFileName info)) w = (None, w1)"
    and "ae_CheckIsFileSizeSame E (path_Join ''/host'' (src @ ''/'' @ FromFileName info)) (path_Join ''/host'' (dst @ ''/'' @ ToFileName info)) w1 = (Some e, w2)"
  shows "\<exists>e'. fileSyncLocal E src dst (info # infos) w = (Some e', w2)"
  using assms by (simp add: fileSyncLocal_def Let_def Wrapf_def)

section \<open>Purging\<close>

text \<open>The parents of a description of the snapshots lead to a root.\<close>

definition parents_wf :: "(string \<times> DiskInfo) list \<Rightarrow> bool" where
  "parents_wf infos \<longleftrightarrow> (\<exists>f :: string \<Rightarrow> nat. \<forall>n i. map_of infos n = Some i \<longrightarrow> di_Parent i \<noteq> [] \<longrightarrow> f (di_Parent i) < f n)"

text \<open>Every description that the replica gives is of this kind.\<close>

definition infos_wf :: "'w agent_env \<Rightarrow> bool" where
  "infos_wf E \<longleftrightarrow> (\<forall>s w infos m w'. getSnapshotsInfo E s w = (Inr (infos, m), w') \<longrightarrow> parents_wf infos)"

lemma infos_wfD: "infos_wf E \<Longrightarrow> getSnapshotsInfo E s w = (Inr (infos, m), w') \<Longrightarrow> parents_wf infos"
  unfolding infos_wf_def by blast

lemma processRemove_keeps: "processRemoveSnapshot E n s w = (err, s', w') \<Longrightarrow> sa_isPurging s' = sa_isPurging s"
proof -
  have op: "remove_op E a s w = (err, s', w') \<Longrightarrow> sa_isPurging s' = sa_isPurging s" for a s w err s' w'
    by (auto simp: remove_op_def report_def Let_def split: prod.splits if_splits)
  have ops: "remove_ops E as s w = (err, s', w') \<Longrightarrow> sa_isPurging s' = sa_isPurging s" for as s w err s' w'
    by (induction as arbitrary: s w) (auto simp: Let_def split: prod.splits if_splits dest: op)
  show "processRemoveSnapshot E n s w = (err, s', w') \<Longrightarrow> sa_isPurging s' = sa_isPurging s"
    by (auto simp: processRemoveSnapshot_def Let_def split: prod.splits sum.splits if_splits dest: ops)
qed

lemma trace_loop_returns:
  assumes "parents_wf infos"
  shows "\<exists>err l r s' w'. trace_loop E infos n latest removed s w = Some (err, l, r, s', w') \<and> sa_isPurging s' = sa_isPurging s"
proof -
  obtain f :: "string \<Rightarrow> nat" where f: "\<And>n i. map_of infos n = Some i \<Longrightarrow> di_Parent i \<noteq> [] \<Longrightarrow> f (di_Parent i) < f n"
    using assms by (auto simp: parents_wf_def)
  define rank where "rank n = (if n = [] then 0 else Suc (f n))" for n
  have rk: "rank (di_Parent i) < rank n" if "map_of infos n = Some i" "n \<noteq> []" for n i
    using f [OF that(1)] that(2) by (auto simp: rank_def)
  show ?thesis
  proof (induction "rank n" arbitrary: n latest removed s w rule: less_induct)
    case less
    show ?case
    proof (cases "n = [] \<or> map_of infos n = None")
      case True
      then show ?thesis by (subst trace_loop.simps) auto
    next
      case False
      then obtain i where i: "map_of infos n = Some i" "n \<noteq> []" by auto
      note ih = less(1) [OF rk [OF i]]
      show ?thesis
      proof (cases "processRemoveSnapshot E n s w")
        case (fields err s1 w1)
        have p: "sa_isPurging (set_purge g s1) = sa_isPurging s" for g
          using processRemove_keeps [OF fields] by (simp add: set_purge_def)
        show ?thesis
          using ih [of latest removed s w] ih [of n removed s w]
            ih [of latest "removed + 1" "set_purge (\<lambda>ps. ps\<lparr>ps_processed := removed + 1\<rparr>) s1" w1] i fields p processRemove_keeps [OF fields]
          by (subst trace_loop.simps) (auto split: option.splits)
      qed
    qed
  qed
qed

lemma getSnapshotsInfo_cases:
  obtains e w' where "getSnapshotsInfo E s w = (Inl e, w')" | infos m w' where "getSnapshotsInfo E s w = (Inr (infos, m), w')"
  by (cases "getSnapshotsInfo E s w") (metis old.sum.exhaust prod.exhaust)

lemma leaves_loop_returns:
  assumes wf: "infos_wf E" and "parents_wf infos"
  shows "\<exists>err l r s' w'. leaves_loop E leaves infos latest removed s w = Some (err, l, r, s', w') \<and> sa_isPurging s' = sa_isPurging s"
  using assms(2)
proof (induction leaves arbitrary: infos latest removed s w)
  case (Cons leaf leaves)
  obtain err l r s1 w1 where t: "trace_loop E infos leaf latest removed s w = Some (err, l, r, s1, w1)" "sa_isPurging s1 = sa_isPurging s"
    using trace_loop_returns [OF Cons.prems] by metis
  consider (err) e w2 where "getSnapshotsInfo E s1 w1 = (Inl e, w2)" | (ok) is' m w2 where "getSnapshotsInfo E s1 w1 = (Inr (is', m), w2)"
    by (rule getSnapshotsInfo_cases)
  then show ?case
  proof cases
    case err
    then show ?thesis using t Cons by auto
  next
    case ok
    let ?s = "set_purge (\<lambda>ps. ps\<lparr>ps_total := m + r, ps_Progress := percent E r (m + r)\<rparr>) s1"
    have "sa_isPurging ?s = sa_isPurging s" using t(2) by (simp add: set_purge_def)
    then show ?thesis using t ok Cons.IH [OF infos_wfD [OF wf ok], of l r ?s w2] Cons.IH [OF Cons.prems, of latest removed s w] by auto
  qed
qed simp

lemma purge_body_returns:
  assumes wf: "infos_wf E"
  shows "\<exists>err s' w'. purge_body E s w = Some (err, s', w') \<and> sa_isPurging s' = sa_isPurging s \<and>
    (err = None \<longrightarrow> ps_Progress (sa_PurgeStatus s') = 100)"
proof -
  have tail: "\<exists>err s' w'. (case getSnapshotsInfo E s v of
      (Inl e, w) \<Rightarrow> Some (Some e, s, w)
    | (Inr (infos, marked), w) \<Rightarrow> Option.bind (leaves_loop E leaves infos [] 0 (set_purge (\<lambda>ps. ps\<lparr>ps_total := marked\<rparr>) s) w)
        (\<lambda>(err, latest, removed, s, w). if err \<noteq> None then Some (err, s, w)
           else if latest \<noteq> [] then (case processRemoveSnapshot E latest s w of
                (Some e, s, w) \<Rightarrow> Some (Some e, s, w)
              | (None, s, w) \<Rightarrow> let s = set_purge (\<lambda>ps. ps\<lparr>ps_processed := removed + 1, ps_total := ps_total ps + 1,
                                 ps_Progress := percent E (removed + 1) (ps_total ps + 1)\<rparr>) s
                           in Some (None, set_purge (\<lambda>ps. ps\<lparr>ps_Progress := 100\<rparr>) s, w))
           else Some (None, set_purge (\<lambda>ps. ps\<lparr>ps_Progress := 100\<rparr>) s, w))) = Some (err, s', w') \<and>
      sa_isPurging s' = sa_isPurging s \<and> (err = None \<longrightarrow> ps_Progress (sa_PurgeStatus s') = 100)" for v leaves
  proof (rule getSnapshotsInfo_cases [of E s v])
    fix infos m v'
    assume g: "getSnapshotsInfo E s v = (Inr (infos, m), v')"
    obtain err l r s1 w1 where "leaves_loop E leaves infos [] 0 (set_purge (\<lambda>ps. ps\<lparr>ps_total := m\<rparr>) s) v' = Some (err, l, r, s1, w1)"
      "sa_isPurging s1 = sa_isPurging s"
      using leaves_loop_returns [of E infos leaves "[]" 0 "set_purge (\<lambda>ps. ps\<lparr>ps_total := m\<rparr>) s" v', OF wf infos_wfD [OF wf g]] by (auto simp: set_purge_def)
    then show ?thesis using g by (auto simp: set_purge_def Let_def dest: processRemove_keeps split: option.splits prod.splits)
  qed auto
  show ?thesis
  proof (cases "ae_NewClient E (sa_replicaAddress s) w")
    case (Pair err w1)
    show ?thesis
    proof (cases err)
      case None
      show ?thesis
      proof (rule getSnapshotsInfo_cases [of E s w1])
        fix infos m w2
        assume g: "getSnapshotsInfo E s w1 = (Inr (infos, m), w2)"
        show ?thesis
        proof (cases "mark_loop E infos [] s w2")
          case (Pair r w3)
          then show ?thesis using g \<open>ae_NewClient E (sa_replicaAddress s) w = (err, w1)\<close> None tail [where v = w3] by (cases r) (auto simp: purge_body_def)
        qed
      qed (use Pair None in \<open>auto simp: purge_body_def\<close>)
    qed (use Pair in \<open>auto simp: purge_body_def\<close>)
  qed
qed

text \<open>
  C28: a purge of snapshots whose parents lead to a root ends, with the replica no longer purging: with the state complete and progress 100, or the
  state error and the message of the error that stopped it.
\<close>

theorem purgeSnapshots_finishes:
  assumes "infos_wf E" "sa_isPurging s"
  shows "\<exists>err s' w'. purgeSnapshots E s w = Some (err, s', w') \<and> \<not> sa_isPurging s' \<and>
    (case err of None \<Rightarrow> ps_State (sa_PurgeStatus s') = ProgressStateComplete \<and> ps_Progress (sa_PurgeStatus s') = 100
     | Some e \<Rightarrow> ps_State (sa_PurgeStatus s') = ProgressStateError \<and> ps_Error (sa_PurgeStatus s') = Error_msg e)"
proof -
  obtain err s1 w1 where "purge_body E s w = Some (err, s1, w1)" "sa_isPurging s1"
    "err = None \<longrightarrow> ps_Progress (sa_PurgeStatus s1) = 100"
    using purge_body_returns [of E s w, OF assms(1)] assms(2) by blast
  then show ?thesis by (auto simp: purgeSnapshots_def purge_done_def set_purge_def FinishPurge_def split: option.splits)
qed

text \<open>A replica with a head over a system snapshot over a removed one.\<close>

definition ex_disk :: "string \<Rightarrow> string \<Rightarrow> string list \<Rightarrow> bool \<Rightarrow> DiskInfo" where
  "ex_disk name parent children removed = \<lparr>di_Name = name, di_Parent = parent, di_Children = map (\<lambda>c. (c, True)) children, di_Removed = removed,
     di_UserCreated = False, di_Created = '''', di_Size = ''0'', di_Labels = []\<rparr>"

definition ex_replica_info :: ReplicaInfo where
  "ex_replica_info = \<lparr>ri_Dirty = False, ri_Rebuilding = False, ri_Head = ''volume-head-000.img'', ri_Parent = '''', ri_Size = ''4096'', ri_SectorSize = 512,
     ri_BackingFile = '''', ri_State = ''open'', ri_Chain = [],
     ri_Disks = [(''volume-head-000.img'', ex_disk ''volume-head-000.img'' ''volume-snap-b.img'' [] False),
       (''volume-snap-b.img'', ex_disk ''volume-snap-b.img'' ''volume-snap-a.img'' [''volume-head-000.img''] False),
       (''volume-snap-a.img'', ex_disk ''volume-snap-a.img'' '''' [''volume-snap-b.img''] True)],
     ri_RemainSnapshots = 250, ri_RevisionCounter = 0, ri_LastModifyTime = 0, ri_HeadFileSize = 0, ri_RevisionCounterDisabled = False,
     ri_UnmapMarkDiskChainRemoved = False, ri_SnapshotCountUsage = 2, ri_SnapshotSizeUsage = 0\<rparr>"

definition ex_purge_env :: "nat agent_env" where
  "ex_purge_env = ex_agent_env\<lparr>ae_GetReplica := \<lambda>_ w. (Inr ex_replica_info, w + 1),
     ae_DiskPrepareRemove := \<lambda>_ n w. (Inr [\<lparr>pa_Action = OpRemove, pa_Source = n, pa_Target = ''''\<rparr>], w + 1),
     ae_ExportVolume := \<lambda>_ _ _ port w. (Some (Errorf ''disconnected''), [1], [port], w + 1)\<rparr>"

lemma ex_snapshots:
  "snapshots_loop (filter (\<lambda>(name, d). name \<noteq> ri_BackingFile ex_replica_info) (ri_Disks ex_replica_info)) [] 0 =
     Inr ([(''volume-head'', (ex_disk ''volume-head'' ''b'' [] False)), (''b'', ex_disk ''b'' ''a'' [''volume-head''] False), (''a'', ex_disk ''a'' '''' [''b''] True)], 1)"
  by code_simp

lemma ex_purge_env_wf: "infos_wf ex_purge_env"
proof -
  let ?f = "\<lambda>n :: string. if n = ''volume-head'' then 2 else if n = ''b'' then 1 else 0 :: nat"
  have "parents_wf [(''volume-head'', (ex_disk ''volume-head'' ''b'' [] False)), (''b'', ex_disk ''b'' ''a'' [''volume-head''] False), (''a'', ex_disk ''a'' '''' [''b''] True)]"
    unfolding parents_wf_def by (intro exI [of _ ?f]) (auto simp: ex_disk_def)
  then show ?thesis
    unfolding infos_wf_def getSnapshotsInfo_def ex_purge_env_def using ex_snapshots by simp
qed

theorem purgeSnapshots_finishes_witness:
  "\<exists>err s' w'. purgeSnapshots ex_purge_env (snd (SnapshotPurge (NewSyncAgentServer 1 2 [] [] []))) 0 = Some (err, s', w') \<and> \<not> sa_isPurging s'"
  using purgeSnapshots_finishes [OF ex_purge_env_wf, of "snd (SnapshotPurge (NewSyncAgentServer 1 2 [] [] []))" 0]
  by (auto simp: SnapshotPurge_def PreparePurge_def NewSyncAgentServer_def)


theorem FilesSync_finishes_witness:
  "\<exists>err s' w'. FilesSync ex_agent_env None ''from'' ''to'' [\<lparr>FromFileName = ''a'', ToFileName = ''a'', ActualSize = 6\<rparr>] (NewSyncAgentServer 1 2 [] [] []) 0 = (err, s', w')
     \<and> \<not> sa_isRebuilding s'"
proof (cases "FilesSync ex_agent_env None ''from'' ''to'' [\<lparr>FromFileName = ''a'', ToFileName = ''a'', ActualSize = 6\<rparr>] (NewSyncAgentServer 1 2 [] [] []) 0")
  case (fields err s' w')
  with FilesSync_finishes [OF _ _ fields] show ?thesis by (simp add: NewSyncAgentServer_def)
qed

end
