(* ===== verification/Snapshot_Hash.thy ===== *)
theory Snapshot_Hash
  imports Replica Task_List
begin

text \<open>
  The hashing of snapshots (src/pkg/replica/hash.go).  A job reads the data of the snapshot's disk file, and keeps the checksum with the change
  time of the file in a checksum file.  The calls of the operating system and of sparse-tools are the fields of hash_env, on a world
  \<open>'w\<close> that other processes may change during each of them.
\<close>

section \<open>The checksum\<close>

text \<open>hash/crc64 with the ISO table.\<close>

definition iso_poly :: "64 word" where
  "iso_poly = 0xD800000000000000"

primrec crc_shift :: "nat \<Rightarrow> 64 word \<Rightarrow> 64 word" where
  "crc_shift 0 crc = crc"
| "crc_shift (Suc n) crc = crc_shift n (if bit crc 0 then xor (drop_bit 1 crc) iso_poly else drop_bit 1 crc)"

definition crc_table :: "8 word \<Rightarrow> 64 word" where
  "crc_table b = crc_shift 8 (ucast b)"

definition crc_update :: "64 word \<Rightarrow> bytes \<Rightarrow> 64 word" where
  "crc_update crc p = not (fold (\<lambda>v crc. xor (crc_table (xor (ucast crc) v)) (drop_bit 8 crc)) p (not crc))"

text \<open>hex.EncodeToString of the big-endian sum.\<close>

definition hex_digit :: "nat \<Rightarrow> char" where
  "hex_digit n = (if n < 10 then char_of (48 + n) else char_of (87 + n))"

definition hex_sum :: "64 word \<Rightarrow> string" where
  "hex_sum crc = map (\<lambda>i. hex_digit (unat (and (drop_bit (4 * i) crc) 15))) (rev [0..<16])"

section \<open>Data\<close>

record SnapshotHashInfo =
  shi_Method :: string
  shi_Checksum :: string
  shi_ChangeTime :: string
  shi_LastHashedAt :: string
  shi_SilentlyCorrupted :: bool

record SnapshotHashJob =
  hj_SnapshotName :: string
  hj_Rehash :: bool
  hj_State :: string
  hj_Checksum :: string
  hj_Error :: string
  hj_SilentlyCorrupted :: bool

definition NewSnapshotHashJob :: "string \<Rightarrow> bool \<Rightarrow> SnapshotHashJob" where
  "NewSnapshotHashJob snapshotName rehash = \<lparr>hj_SnapshotName = snapshotName, hj_Rehash = rehash, hj_State = ProgressStateInProgress,
     hj_Checksum = '''', hj_Error = '''', hj_SilentlyCorrupted = False\<rparr>"

definition defaultHashMethod :: string where "defaultHashMethod = ''crc64''"
definition FileLockDirectory :: string where "FileLockDirectory = ''/host/var/lib/longhorn/.lock''"
definition HashLockFileName :: string where "HashLockFileName = ''hash''"

text \<open>
  he_Stat is the change time of a file, he_ReadInfo opens and decodes a checksum file.  he_Read is one read of the data, with whether the context
  of the job was cancelled before it; the error EOF is the end of the file.
\<close>

record 'w hash_env =
  he_Getwd :: "'w \<Rightarrow> (error + string) \<times> 'w"
  he_MkdirAll :: "string \<Rightarrow> 'w \<Rightarrow> error option \<times> 'w"
  he_Lock :: "string \<Rightarrow> 'w \<Rightarrow> error option \<times> 'w"
  he_Unlock :: "string \<Rightarrow> 'w \<Rightarrow> error option \<times> 'w"
  he_TryLock :: "string \<Rightarrow> 'w \<Rightarrow> (error + bool) \<times> 'w"
  he_Stat :: "string \<Rightarrow> 'w \<Rightarrow> (error + string) \<times> 'w"
  he_ReadInfo :: "string \<Rightarrow> 'w \<Rightarrow> (error + SnapshotHashInfo) \<times> 'w"
  he_Create :: "string \<Rightarrow> 'w \<Rightarrow> error option \<times> 'w"
  he_Encode :: "SnapshotHashInfo \<Rightarrow> string \<Rightarrow> 'w \<Rightarrow> error option \<times> 'w"
  he_Rename :: "string \<Rightarrow> string \<Rightarrow> 'w \<Rightarrow> error option \<times> 'w"
  he_Remove :: "string \<Rightarrow> 'w \<Rightarrow> error option \<times> 'w"
  he_RemoveAll :: "string \<Rightarrow> 'w \<Rightarrow> error option \<times> 'w"
  he_OpenData :: "string \<Rightarrow> 'w \<Rightarrow> error option \<times> 'w"
  he_Read :: "string \<Rightarrow> 'w \<Rightarrow> (bool \<times> bytes \<times> error option) \<times> 'w"
  he_Now :: "'w \<Rightarrow> string"

section \<open>Files\<close>

definition checksum_path :: "string \<Rightarrow> string \<Rightarrow> string" where
  "checksum_path dir snapshotName = path_Join dir (GenerateSnapshotDiskChecksumName (GenerateSnapshotDiskName snapshotName))"

definition GetSnapshotChangeTime :: "'w hash_env \<Rightarrow> string \<Rightarrow> 'w \<Rightarrow> (error + string) \<times> 'w" where
  "GetSnapshotChangeTime E snapshotName w = he_Stat E (GenerateSnapshotDiskName snapshotName) w"

definition GetSnapshotHashInfoFromChecksumFile :: "'w hash_env \<Rightarrow> string \<Rightarrow> 'w \<Rightarrow> (error + SnapshotHashInfo) \<times> 'w" where
  "GetSnapshotHashInfoFromChecksumFile E snapshotName w =
     (case he_Getwd E w of
        (Inl e, w) \<Rightarrow> (Inl (Wrapped ''failed to get working directory when getting snapshot hash info'' e), w)
      | (Inr dir, w) \<Rightarrow> he_ReadInfo E (checksum_path dir snapshotName) w)"

text \<open>hash_encodeToFile, with its deferred removal of the temporary file.\<close>

definition hash_encodeToFile :: "'w hash_env \<Rightarrow> SnapshotHashInfo \<Rightarrow> string \<Rightarrow> 'w \<Rightarrow> error option \<times> 'w" where
  "hash_encodeToFile E obj path w =
     (let tmpPath = path @ ''.'' @ tmpFileSuffix;
          (err, w) = he_Create E tmpPath w;
          (err, w) = (if err \<noteq> None then (err, w) else he_Encode E obj tmpPath w);
          (err, w) = (if err \<noteq> None then (err, w) else he_Rename E tmpPath path w)
      in if err = None then (GenerateFunctionErrorWithRollback None None, w)
         else case he_Stat E tmpPath w of
           (Inl _, w) \<Rightarrow> (GenerateFunctionErrorWithRollback err None, w)
         | (Inr _, w) \<Rightarrow> let (rollbackErr, w) = he_Remove E tmpPath w in (GenerateFunctionErrorWithRollback err rollbackErr, w))"

definition SetSnapshotHashInfoToChecksumFile :: "'w hash_env \<Rightarrow> string \<Rightarrow> SnapshotHashInfo \<Rightarrow> 'w \<Rightarrow> error option \<times> 'w" where
  "SetSnapshotHashInfoToChecksumFile E snapshotName info w =
     (case he_Getwd E w of
        (Inl e, w) \<Rightarrow> (Some (Wrapped ''failed to get working directory when setting snapshot hash info'' e), w)
      | (Inr dir, w) \<Rightarrow> hash_encodeToFile E (info\<lparr>shi_Method := defaultHashMethod\<rparr>) (checksum_path dir snapshotName) w)"

definition DeleteSnapshotHashInfoChecksumFile :: "'w hash_env \<Rightarrow> string \<Rightarrow> 'w \<Rightarrow> error option \<times> 'w" where
  "DeleteSnapshotHashInfoChecksumFile E snapshotName w =
     (case he_Getwd E w of
        (Inl e, w) \<Rightarrow> (Some (Wrapped ''failed to get working directory when deleting snapshot hash info'' e), w)
      | (Inr dir, w) \<Rightarrow> he_RemoveAll E (checksum_path dir snapshotName) w)"

section \<open>Hashing\<close>

text \<open>io.Copy from the file to the hash; None when the file never ends.\<close>

partial_function (option) dataCopy :: "'w hash_env \<Rightarrow> string \<Rightarrow> 64 word \<Rightarrow> 'w \<Rightarrow> ((error + 64 word) \<times> 'w) option" where
  "dataCopy E path h w =
     (case he_Read E path w of
        ((cancelled, p, err), w) \<Rightarrow>
          if cancelled then Some (Inl (Errorf ''context canceled''), w)
          else let h = crc_update h p
               in case err of
                    Some e \<Rightarrow> Some (if e = EOF then Inr h else Inl e, w)
                  | None \<Rightarrow> dataCopy E path h w)"

declare dataCopy.simps [code]

definition newHashMethod :: "string \<Rightarrow> error + 64 word" where
  "newHashMethod meth = (if meth = ''crc64'' then Inr 0 else Inl (Errorf (''invalid hash method '' @ meth)))"

definition hashSnapshot :: "'w hash_env \<Rightarrow> string \<Rightarrow> 'w \<Rightarrow> ((error + string) \<times> 'w) option" where
  "hashSnapshot E snapshotName w =
     (case he_Getwd E w of
        (Inl e, w) \<Rightarrow> Some (Inl (Wrapped (''failed to get working directory when hashing snapshot '' @ snapshotName) e), w)
      | (Inr dir, w) \<Rightarrow>
          let path = path_Join dir (GenerateSnapshotDiskName snapshotName)
          in case he_OpenData E path w of
               (Some e, w) \<Rightarrow> Some (Inl (Wrapped (''failed to open '' @ path) e), w)
             | (None, w) \<Rightarrow> (case newHashMethod defaultHashMethod of
                 Inl e \<Rightarrow> Some (Inl e, w)
               | Inr h \<Rightarrow> do {
                   (r, w) \<leftarrow> dataCopy E path h w;
                   Some (case r of Inl e \<Rightarrow> Inl e | Inr h \<Rightarrow> Inr (hex_sum h), w)
                 }))"

definition isChangeTimeRemain :: "'w hash_env \<Rightarrow> SnapshotHashJob \<Rightarrow> string \<Rightarrow> 'w \<Rightarrow> bool \<times> error option \<times> 'w" where
  "isChangeTimeRemain E t oldChangeTime w =
     (case GetSnapshotChangeTime E (hj_SnapshotName t) w of
        (Inl e, w) \<Rightarrow> (False, Some e, w)
      | (Inr newChangeTime, w) \<Rightarrow> (oldChangeTime = newChangeTime, None, w))"

definition ENOENT :: string where "ENOENT = ''no such file or directory''"

definition isSilentCorruptionAlreadyDetected :: "'w hash_env \<Rightarrow> SnapshotHashJob \<Rightarrow> string \<Rightarrow> 'w \<Rightarrow> (error + bool) \<times> 'w" where
  "isSilentCorruptionAlreadyDetected E t currentChangeTime w =
     (case GetSnapshotHashInfoFromChecksumFile E (hj_SnapshotName t) w of
        (Inl e, w) \<Rightarrow>
          (if \<not> Contains (Error_msg e) ENOENT
           then Inl (Wrapped (''failed to get snapshot '' @ hj_SnapshotName t @ '' last hash info from checksum file'') e) else Inr False, w)
      | (Inr info, w) \<Rightarrow> (Inr (currentChangeTime = shi_ChangeTime info \<and> shi_SilentlyCorrupted info), w))"

definition isRehashRequired :: "'w hash_env \<Rightarrow> SnapshotHashJob \<Rightarrow> string \<Rightarrow> 'w \<Rightarrow> (error + bool \<times> string) \<times> 'w" where
  "isRehashRequired E t currentChangeTime w =
     (case GetSnapshotHashInfoFromChecksumFile E (hj_SnapshotName t) w of
        (Inl e, w) \<Rightarrow>
          (if \<not> Contains (Error_msg e) ENOENT
           then Inl (Wrapped (''failed to get snapshot '' @ hj_SnapshotName t @ '' last hash info from checksum file'') e) else Inr (True, ''''), w)
      | (Inr info, w) \<Rightarrow>
          (if shi_ChangeTime info \<noteq> currentChangeTime \<or> shi_Checksum info = '''' then Inr (True, '''') else Inr (False, shi_Checksum info), w))"

definition isSnapshotSilentlyCorrupted :: "'w hash_env \<Rightarrow> SnapshotHashJob \<Rightarrow> string \<Rightarrow> 'w \<Rightarrow> bool \<times> 'w" where
  "isSnapshotSilentlyCorrupted E t checksum w =
     (case GetSnapshotHashInfoFromChecksumFile E (hj_SnapshotName t) w of
        (Inl _, w) \<Rightarrow> (False, w)
      | (Inr info, w) \<Rightarrow>
          if shi_Checksum info = '''' \<or> shi_ChangeTime info = '''' then (False, w)
          else let (remain, _, w) = isChangeTimeRemain E t (shi_ChangeTime info) w
               in (remain \<and> checksum \<noteq> shi_Checksum info, w))"

text \<open>
  LockFile: a return statement sets the lock of the deferred function to nil, so that its removal of the lock file never
  happens.
\<close>

definition hash_lock_path :: string where
  "hash_lock_path = path_Join FileLockDirectory HashLockFileName"

definition LockFile :: "'w hash_env \<Rightarrow> SnapshotHashJob \<Rightarrow> 'w \<Rightarrow> (error + string) \<times> 'w" where
  "LockFile E t w =
     (let (err, w) = he_MkdirAll E FileLockDirectory w;
          (fileLock, err, w) = (if err \<noteq> None then (None, err, w)
             else let (err, w) = he_Lock E hash_lock_path w
                  in if err \<noteq> None then (None, Wrapf err (''failed to fetch the file lock for hashing snapshot '' @ hj_SnapshotName t), w)
                     else (Some hash_lock_path, None, w));
          w = (if err \<noteq> None \<and> fileLock \<noteq> None then snd (he_RemoveAll E (the fileLock) w) else w)
      in (case err of Some e \<Rightarrow> Inl e | None \<Rightarrow> Inr hash_lock_path, w))"

definition UnlockFile :: "'w hash_env \<Rightarrow> string \<Rightarrow> 'w \<Rightarrow> 'w" where
  "UnlockFile E fileLock w = snd (he_Unlock E fileLock w)"

text \<open>The variables of Execute that its deferred function reads.\<close>

record hash_vars =
  hv_checksum :: string
  hv_changeTime :: string
  hv_lastHashedAt :: string
  hv_silentlyCorrupted :: bool

definition zero_vars :: hash_vars where
  "zero_vars = \<lparr>hv_checksum = '''', hv_changeTime = '''', hv_lastHashedAt = '''', hv_silentlyCorrupted = False\<rparr>"

text \<open>The part of Execute from the computation of the checksum on.\<close>

definition execute_hash :: "'w hash_env \<Rightarrow> SnapshotHashJob \<Rightarrow> hash_vars \<Rightarrow> 'w \<Rightarrow> (error option \<times> hash_vars \<times> 'w) option" where
  "execute_hash E t v w = do {
     let v = v\<lparr>hv_lastHashedAt := he_Now E w\<rparr>;
     (r, w) \<leftarrow> hashSnapshot E (hj_SnapshotName t) w;
     (case r of
        Inl e \<Rightarrow> Some (Some e, v\<lparr>hv_checksum := ''''\<rparr>, w)
      | Inr checksum \<Rightarrow>
          let v = v\<lparr>hv_checksum := checksum\<rparr>; (corrupted, w) = isSnapshotSilentlyCorrupted E t checksum w
          in if \<not> corrupted then Some (None, v, w)
             else case GetSnapshotHashInfoFromChecksumFile E (hj_SnapshotName t) w of
               (Inl e, w) \<Rightarrow> Some (Some e, v\<lparr>hv_silentlyCorrupted := True\<rparr>, w)
             | (Inr info, w) \<Rightarrow> Some (None, \<lparr>hv_checksum = shi_Checksum info, hv_changeTime = shi_ChangeTime info,
                 hv_lastHashedAt = shi_LastHashedAt info, hv_silentlyCorrupted = True\<rparr>, w))
   }"

text \<open>Execute with the lock held.\<close>

definition execute_locked :: "'w hash_env \<Rightarrow> SnapshotHashJob \<Rightarrow> 'w \<Rightarrow> (error option \<times> hash_vars \<times> 'w) option" where
  "execute_locked E t w =
     (case GetSnapshotChangeTime E (hj_SnapshotName t) w of
        (Inl e, w) \<Rightarrow> Some (Some e, zero_vars, w)
      | (Inr changeTime, w) \<Rightarrow>
          let v = zero_vars\<lparr>hv_changeTime := changeTime\<rparr>
          in case isSilentCorruptionAlreadyDetected E t changeTime w of
               (Inl e, w) \<Rightarrow> Some (Some e, v, w)
             | (Inr True, w) \<Rightarrow> Some (None, v\<lparr>hv_silentlyCorrupted := True\<rparr>, w)
             | (Inr False, w) \<Rightarrow>
                 if hj_Rehash t then execute_hash E t v w
                 else case isRehashRequired E t changeTime w of
                   (Inl e, w) \<Rightarrow> Some (Some e, v, w)
                 | (Inr (requireRehash, checksum), w) \<Rightarrow>
                     let v = v\<lparr>hv_checksum := checksum\<rparr> in if requireRehash then execute_hash E t v w else Some (None, v, w))"

text \<open>The deferred function: the error it ends with, and the job.\<close>

definition execute_record :: "'w hash_env \<Rightarrow> hash_vars \<Rightarrow> SnapshotHashJob \<Rightarrow> 'w \<Rightarrow> error option \<times> 'w" where
  "execute_record E v t w =
     (if hv_lastHashedAt v = '''' then (None, w)
      else
        let (_, w) = SetSnapshotHashInfoToChecksumFile E (hj_SnapshotName t)
              \<lparr>shi_Method = defaultHashMethod, shi_Checksum = hv_checksum v, shi_ChangeTime = hv_changeTime v, shi_LastHashedAt = hv_lastHashedAt v,
               shi_SilentlyCorrupted = hv_silentlyCorrupted v\<rparr> w;
            (remain, err, w) = isChangeTimeRemain E t (hv_changeTime v) w
        in if remain then (err, w)
           else
             let err = (if err = None then Some (Errorf (''snapshot '' @ hj_SnapshotName t @ '' modification time is changed'')) else err);
                 (_, w) = DeleteSnapshotHashInfoChecksumFile E (hj_SnapshotName t) w
             in (err, w))"

definition execute_done :: "'w hash_env \<Rightarrow> error option \<Rightarrow> hash_vars \<Rightarrow> SnapshotHashJob \<Rightarrow> 'w \<Rightarrow> error option \<times> SnapshotHashJob \<times> 'w" where
  "execute_done E err v t w =
     (let t = t\<lparr>hj_Checksum := hv_checksum v, hj_SilentlyCorrupted := hv_silentlyCorrupted v\<rparr>;
          (err, t, w) = (if err \<noteq> None then (err, t, w)
             else let t = t\<lparr>hj_State := ProgressStateComplete\<rparr>; (err, w) = execute_record E v t w in (err, t, w))
      in (err, case err of None \<Rightarrow> t | Some e \<Rightarrow> t\<lparr>hj_State := ProgressStateError, hj_Error := Error_msg e\<rparr>, w))"

definition Execute :: "'w hash_env \<Rightarrow> SnapshotHashJob \<Rightarrow> 'w \<Rightarrow> (error option \<times> SnapshotHashJob \<times> 'w) option" where
  "Execute E t w =
     (case LockFile E t w of
        (Inl e, w) \<Rightarrow> Some (execute_done E (Some e) zero_vars t w)
      | (Inr fileLock, w) \<Rightarrow> do {
          (err, v, w) \<leftarrow> execute_locked E t w;
          let w = UnlockFile E fileLock w;
          Some (execute_done E err v t w)
        })"

section \<open>The handlers of the sync agent\<close>

definition checkSnapshotHashStatusFromChecksumFile :: "'w hash_env \<Rightarrow> string \<Rightarrow> 'w \<Rightarrow> (error + string) \<times> 'w" where
  "checkSnapshotHashStatusFromChecksumFile E snapshotName w =
     (case GetSnapshotHashInfoFromChecksumFile E snapshotName w of
        (Inl e, w) \<Rightarrow> (Inl e, w)
      | (Inr info, w) \<Rightarrow> (case GetSnapshotChangeTime E snapshotName w of
          (Inl e, w) \<Rightarrow> (Inl e, w)
        | (Inr currentChangeTime, w) \<Rightarrow>
            (if shi_ChangeTime info \<noteq> currentChangeTime then Inl (Errorf (''snapshot '' @ snapshotName @ '' is changed'')) else Inr (shi_Checksum info), w)))"

record SnapshotHashStatusResponse =
  shr_State :: string
  shr_Checksum :: string
  shr_Error :: string
  shr_SilentlyCorrupted :: bool

text \<open>SnapshotHashStatus, on the list of the agent and the jobs \<open>js\<close> behind its pointers.\<close>

definition SnapshotHashStatus ::
  "'w hash_env \<Rightarrow> (nat \<Rightarrow> SnapshotHashJob) \<Rightarrow> string \<Rightarrow> nat infos \<Rightarrow> 'w \<Rightarrow> (SnapshotHashStatusResponse \<times> nat infos \<times> 'w) option" where
  "SnapshotHashStatus E js snapshotName b w = do {
     (r, b) \<leftarrow> hash_Get (\<lambda>j. Some (hj_State (js j))) snapshotName b;
     Some (case r of
         Inl _ \<Rightarrow>
           (case checkSnapshotHashStatusFromChecksumFile E snapshotName w of
              (Inl e, w) \<Rightarrow> (\<lparr>shr_State = ProgressStateError, shr_Checksum = '''', shr_Error = Error_msg e, shr_SilentlyCorrupted = False\<rparr>, b, w)
            | (Inr checksum, w) \<Rightarrow> (\<lparr>shr_State = ProgressStateComplete, shr_Checksum = checksum, shr_Error = '''', shr_SilentlyCorrupted = False\<rparr>, b, w))
       | Inr j \<Rightarrow> (\<lparr>shr_State = hj_State (js j), shr_Checksum = hj_Checksum (js j), shr_Error = hj_Error (js j),
           shr_SilentlyCorrupted = hj_SilentlyCorrupted (js j)\<rparr>, b, w))
   }"

text \<open>SnapshotHash: the request, and the goroutine that adds a new job with the pointer \<open>j\<close> to the list and executes it.\<close>

definition SnapshotHash :: "string \<Rightarrow> error option" where
  "SnapshotHash snapshotName = (if snapshotName = '''' then Some (Errorf ''snapshot name is required'') else None)"

definition hash_task ::
  "'w hash_env \<Rightarrow> (nat \<Rightarrow> SnapshotHashJob) \<Rightarrow> nat \<Rightarrow> string \<Rightarrow> bool \<Rightarrow> nat infos \<Rightarrow> 'w \<Rightarrow> ((nat \<Rightarrow> SnapshotHashJob) \<times> nat infos \<times> 'w) option" where
  "hash_task E js j snapshotName rehash b w = do {
     let js = js(j := NewSnapshotHashJob snapshotName rehash);
     (err, b) \<leftarrow> hash_Add (\<lambda>j. Some (hj_State (js j))) snapshotName j b;
     (if err \<noteq> None then Some (js, b, w)
      else do {
        (_, t, w) \<leftarrow> Execute E (js j) w;
        Some (js(j := t), b, w)
      })
   }"

text \<open>SnapshotHashCancel: the job to cancel, if any.\<close>

definition SnapshotHashCancel :: "(nat \<Rightarrow> SnapshotHashJob) \<Rightarrow> string \<Rightarrow> nat infos \<Rightarrow> ((error + nat option) \<times> nat infos) option" where
  "SnapshotHashCancel js snapshotName b =
     (if snapshotName = '''' then Some (Inl (Errorf ''snapshot name is required''), b)
      else do {
        (r, b) \<leftarrow> hash_Get (\<lambda>j. Some (hj_State (js j))) snapshotName b;
        Some (case r of
            Inl e \<Rightarrow> if Contains (Error_msg e) ''not found'' then Inr None
                     else Inl (Wrapped (''failed to cancel snapshot '' @ snapshotName @ '' hash task'') e)
          | Inr j \<Rightarrow> Inr (Some j), b)
      })"

definition SnapshotHashLockState :: "'w hash_env \<Rightarrow> 'w \<Rightarrow> (error + bool) \<times> 'w" where
  "SnapshotHashLockState E w =
     (case he_MkdirAll E FileLockDirectory w of
        (Some e, w) \<Rightarrow> (Inl e, w)
      | (None, w) \<Rightarrow> (case he_TryLock E hash_lock_path w of
          (Inl e, w) \<Rightarrow> (Inl (Wrapped (''failed to try lock '' @ hash_lock_path) e), w)
        | (Inr isLocked, w) \<Rightarrow> (Inr (\<not> isLocked), snd (he_Unlock E hash_lock_path w))))"

end
