(* ===== verification/Snapshot_Hash_Thms.thy ===== *)
theory Snapshot_Hash_Thms
  imports Snapshot_Hash
begin

text \<open>
  A completed job carries the checksum of one version of the data, although others may change the file while it is read.
\<close>

section \<open>The checksum of a file read in pieces\<close>

lemma crc_update_append: "crc_update h (a @ b) = crc_update (crc_update h a) b"
  by (simp add: crc_update_def)

lemma crc_update_Nil [simp]: "crc_update h [] = h"
  by (simp add: crc_update_def)

lemma dataCopy_rule [consumes 1, case_names cancel stop more]:
  assumes "dataCopy E path h w = Some (r, w')"
    and "\<And>h w bs err w'. he_Read E path w = ((True, bs, err), w') \<Longrightarrow> P h w (Inl (Errorf ''context canceled'')) w'"
    and "\<And>h w bs e w'. he_Read E path w = ((False, bs, Some e), w') \<Longrightarrow> P h w (if e = EOF then Inr (crc_update h bs) else Inl e) w'"
    and "\<And>h w bs w1 r w'. he_Read E path w = ((False, bs, None), w1) \<Longrightarrow> P (crc_update h bs) w1 r w' \<Longrightarrow> P h w r w'"
  shows "P h w r w'"
proof -
  have "F = E \<and> q = path \<longrightarrow> P h w (fst y) (snd y)" if "dataCopy F q h w = Some y" for F q h w y
    using that
  proof (rule dataCopy.raw_induct [rotated])
    fix f F q h w y
    assume ih: "\<And>F q h w y. f F q h w = Some y \<Longrightarrow> F = E \<and> q = path \<longrightarrow> P h w (fst y) (snd y)"
      and b: "(case he_Read F q w of ((cancelled, p, err), w) \<Rightarrow>
          if cancelled then Some (Inl (Errorf ''context canceled''), w)
          else let h = crc_update h p
               in case err of Some e \<Rightarrow> Some (if e = EOF then Inr h else Inl e, w) | None \<Rightarrow> f F q h w) = Some y"
    show "F = E \<and> q = path \<longrightarrow> P h w (fst y) (snd y)"
    proof (intro impI)
      assume e: "F = E \<and> q = path"
      obtain c bs err w1 where rd: "he_Read E path w = ((c, bs, err), w1)" by (metis prod.exhaust)
      show "P h w (fst y) (snd y)"
      proof (cases err)
        case (Some x)
        with rd b e assms(2,3) show ?thesis by (cases c) auto
      next
        case None
        with rd b e assms(2) ih [of E path "crc_update h bs" w1 y] assms(4) [of w bs w1 h] show ?thesis by (cases c) auto
      qed
    qed
  qed
  from this [OF assms(1)] show ?thesis by simp
qed

lemma execute_done_complete:
  assumes "execute_done E e v t w = (err, t', w')" "hj_State t' = ProgressStateComplete"
  obtains "e = None" "execute_done E None v t w = (err, t', w')"
  using assms by (cases e) (auto simp: execute_done_def ProgressStateError_def ProgressStateComplete_def)

section \<open>Change times\<close>

text \<open>
  What the job relies on: the file has versions, each with a change time of its own; a call that meets only one version reads that
  version, from the position where the last read ended.
\<close>

locale change_time =
  fixes E :: "'w hash_env" and snapshot :: string and version :: "'w \<Rightarrow> nat" and pos :: "'w \<Rightarrow> nat"
    and content :: "nat \<Rightarrow> bytes" and stamp :: "nat \<Rightarrow> string"
  assumes stamp_inj: "stamp i = stamp j \<Longrightarrow> i = j"
    and Getwd: "version w \<le> version (snd (he_Getwd E w))"
    and MkdirAll: "version w \<le> version (snd (he_MkdirAll E p w))"
    and Lock: "version w \<le> version (snd (he_Lock E p w))"
    and Unlock: "version w \<le> version (snd (he_Unlock E p w))"
    and Stat: "version w \<le> version (snd (he_Stat E p w))"
    and ReadInfo: "version w \<le> version (snd (he_ReadInfo E p w))"
    and Create: "version w \<le> version (snd (he_Create E p w))"
    and Encode: "version w \<le> version (snd (he_Encode E obj p w))"
    and Rename: "version w \<le> version (snd (he_Rename E p q w))"
    and Remove: "version w \<le> version (snd (he_Remove E p w))"
    and RemoveAll: "version w \<le> version (snd (he_RemoveAll E p w))"
    and OpenData: "version w \<le> version (snd (he_OpenData E p w))"
    and Read: "version w \<le> version (snd (he_Read E p w))"
    and Stat_stamp: "he_Stat E (GenerateSnapshotDiskName snapshot) w = (Inr t, w') \<Longrightarrow> \<exists>v. version w \<le> v \<and> v \<le> version w' \<and> t = stamp v"
    and OpenData_pos: "he_OpenData E (path_Join dir (GenerateSnapshotDiskName snapshot)) w = (None, w') \<Longrightarrow> pos w' = 0"
    and Read_content: "he_Read E (path_Join dir (GenerateSnapshotDiskName snapshot)) w = ((False, bs, err), w') \<Longrightarrow> version w' = version w \<Longrightarrow>
      pos w \<le> length (content (version w)) \<Longrightarrow> bs = take (length bs) (drop (pos w) (content (version w))) \<and> pos w' = pos w + length bs \<and> pos w' \<le> length (content (version w)) \<and>
      (err = Some EOF \<longrightarrow> pos w' = length (content (version w)))"
    and Now: "he_Now E w \<noteq> ''''"
begin

lemma monoD:
  "he_Getwd E w = (r1, w') \<Longrightarrow> version w \<le> version w'"
  "he_MkdirAll E p w = (r2, w') \<Longrightarrow> version w \<le> version w'"
  "he_Lock E p w = (r2, w') \<Longrightarrow> version w \<le> version w'"
  "he_Unlock E p w = (r2, w') \<Longrightarrow> version w \<le> version w'"
  "he_Stat E p w = (r1, w') \<Longrightarrow> version w \<le> version w'"
  "he_ReadInfo E p w = (r3, w') \<Longrightarrow> version w \<le> version w'"
  "he_Create E p w = (r2, w') \<Longrightarrow> version w \<le> version w'"
  "he_Encode E obj p w = (r2, w') \<Longrightarrow> version w \<le> version w'"
  "he_Rename E p q w = (r2, w') \<Longrightarrow> version w \<le> version w'"
  "he_Remove E p w = (r2, w') \<Longrightarrow> version w \<le> version w'"
  "he_RemoveAll E p w = (r2, w') \<Longrightarrow> version w \<le> version w'"
  "he_OpenData E p w = (r2, w') \<Longrightarrow> version w \<le> version w'"
  "he_Read E p w = (r4, w') \<Longrightarrow> version w \<le> version w'"
  using Getwd [of w] MkdirAll [of w p] Lock [of w p] Unlock [of w p] Stat [of w p] ReadInfo [of w p] Create [of w p] Encode [of w obj p]
    Rename [of w p q] Remove [of w p] RemoveAll [of w p] OpenData [of w p] Read [of w p] by auto

text \<open>The version never goes back during the operations of the job.\<close>

lemma dataCopy_mono: "dataCopy E path h w = Some (r, w') \<Longrightarrow> version w \<le> version w'"
  by (induction rule: dataCopy_rule) (auto dest!: monoD(13))

text \<open>A copy that meets one version of the file hashes the rest of that version.\<close>

lemma dataCopy_content:
  assumes "dataCopy E (path_Join dir (GenerateSnapshotDiskName snapshot)) h w = Some (Inr k, w')" "version w' = version w"
    "pos w \<le> length (content (version w))"
  shows "k = crc_update h (drop (pos w) (content (version w)))"
proof -
  have "version w \<le> version w' \<and> (r = Inr k \<longrightarrow> version w' = version w \<longrightarrow> pos w \<le> length (content (version w)) \<longrightarrow>
      k = crc_update h (drop (pos w) (content (version w))))"
    if "dataCopy E (path_Join dir (GenerateSnapshotDiskName snapshot)) h w = Some (r, w')" for h w r w'
    using that
  proof (induction rule: dataCopy_rule)
    case (cancel h w bs err w')
    then show ?case by (auto dest: monoD(13))
  next
    case (stop h w bs e w')
    then show ?case using Read_content [OF stop] by (auto dest: monoD(13))
  next
    case (more h w bs w1 r w')
    have le: "version w \<le> version w1" using more(1) by (rule monoD(13))
    show ?case
    proof (intro conjI impI)
      show "version w \<le> version w'" using le more(2) by simp
    next
      assume a: "r = Inr k" "version w' = version w" "pos w \<le> length (content (version w))"
      then have v: "version w1 = version w" using le more(2) by simp
      note rc = Read_content [OF more(1) v a(3)]
      have "drop (pos w) (content (version w)) = bs @ drop (pos w1) (content (version w))"
        using rc by (metis add.commute append_take_drop_id drop_drop)
      moreover have "k = crc_update (crc_update h bs) (drop (pos w1) (content (version w)))" using more(2) a v rc by simp
      ultimately show "k = crc_update h (drop (pos w) (content (version w)))" by (simp add: crc_update_append)
    qed
  qed
  from this [OF assms(1)] assms(2,3) show ?thesis by simp
qed

lemma hashSnapshot_mono: "hashSnapshot E n w = Some (r, w') \<Longrightarrow> version w \<le> version w'"
  by (auto simp: hashSnapshot_def Let_def split: prod.splits sum.splits option.splits bind_splits dest!: monoD dataCopy_mono)

lemma hashSnapshot_content:
  assumes "hashSnapshot E snapshot w = Some (Inr c, w')" "version w' = version w"
  shows "c = hex_sum (crc_update 0 (content (version w)))"
proof -
  from assms(1) obtain dir w1 w2 k where h: "he_Getwd E w = (Inr dir, w1)"
    "he_OpenData E (path_Join dir (GenerateSnapshotDiskName snapshot)) w1 = (None, w2)"
    "dataCopy E (path_Join dir (GenerateSnapshotDiskName snapshot)) 0 w2 = Some (Inr k, w')" "c = hex_sum k"
    by (auto simp: hashSnapshot_def newHashMethod_def defaultHashMethod_def Let_def split: prod.splits sum.splits option.splits bind_splits)
  have "version w \<le> version w1" "version w1 \<le> version w2" "version w2 \<le> version w'"
    using monoD(1) [OF h(1)] monoD(12) [OF h(2)] dataCopy_mono [OF h(3)] by auto
  with assms(2) have "version w2 = version w" "version w' = version w2" by auto
  with dataCopy_content [OF h(3)] OpenData_pos [OF h(2)] h(4) show ?thesis by simp
qed

lemma info_mono: "GetSnapshotHashInfoFromChecksumFile E n w = (r, w') \<Longrightarrow> version w \<le> version w'"
  by (auto simp: GetSnapshotHashInfoFromChecksumFile_def split: prod.splits sum.splits dest!: monoD)

lemma remain_mono: "isChangeTimeRemain E t c w = (r, e, w') \<Longrightarrow> version w \<le> version w'"
  by (auto simp: isChangeTimeRemain_def GetSnapshotChangeTime_def split: prod.splits sum.splits dest!: monoD)

lemma corrupted_mono: "isSnapshotSilentlyCorrupted E t c w = (r, w') \<Longrightarrow> version w \<le> version w'"
  by (auto simp: isSnapshotSilentlyCorrupted_def Let_def split: prod.splits sum.splits if_splits dest!: info_mono remain_mono)

lemma encode_mono: "hash_encodeToFile E obj p w = (r, w') \<Longrightarrow> version w \<le> version w'"
  by (auto simp: hash_encodeToFile_def Let_def split: prod.splits sum.splits if_splits dest!: monoD)

lemma set_mono: "SetSnapshotHashInfoToChecksumFile E n i w = (r, w') \<Longrightarrow> version w \<le> version w'"
  by (auto simp: SetSnapshotHashInfoToChecksumFile_def split: prod.splits sum.splits dest!: monoD(1) encode_mono)

lemma lock_mono: "LockFile E t w = (Inr l, w') \<Longrightarrow> version w \<le> version w'"
  by (auto simp: LockFile_def Let_def split: prod.splits if_splits option.splits dest!: monoD)

text \<open>What a job has established when it succeeds without having found a corruption.\<close>

lemma execute_hash_ok:
  assumes "execute_hash E t v w = Some (None, v', w')" "\<not> hv_silentlyCorrupted v'"
  shows "\<exists>w1. hashSnapshot E (hj_SnapshotName t) w = Some (Inr (hv_checksum v'), w1) \<and> version w1 \<le> version w' \<and>
    hv_changeTime v' = hv_changeTime v \<and> hv_lastHashedAt v' \<noteq> []"
  using assms Now by (auto simp: execute_hash_def Let_def split: bind_splits prod.splits sum.splits if_splits dest!: corrupted_mono)

lemma execute_locked_ok:
  assumes "execute_locked E t w = Some (None, v, w')" "hj_Rehash t" "\<not> hv_silentlyCorrupted v"
  shows "\<exists>w1 w2 w3. he_Stat E (GenerateSnapshotDiskName (hj_SnapshotName t)) w = (Inr (hv_changeTime v), w1) \<and> version w1 \<le> version w2 \<and>
    hashSnapshot E (hj_SnapshotName t) w2 = Some (Inr (hv_checksum v), w3) \<and> version w3 \<le> version w' \<and> hv_lastHashedAt v \<noteq> []"
proof -
  obtain ct w1 where st: "GetSnapshotChangeTime E (hj_SnapshotName t) w = (Inr ct, w1)"
    using assms(1) by (auto simp: execute_locked_def split: prod.splits sum.splits)
  obtain w2 where al: "isSilentCorruptionAlreadyDetected E t ct w1 = (Inr False, w2)"
    and ex: "execute_hash E t (zero_vars\<lparr>hv_changeTime := ct\<rparr>) w2 = Some (None, v, w')"
    using assms st by (auto simp: execute_locked_def Let_def split: prod.splits sum.splits bool.splits)
  have "version w1 \<le> version w2" using al by (auto simp: isSilentCorruptionAlreadyDetected_def split: prod.splits sum.splits dest!: info_mono)
  with execute_hash_ok [OF ex assms(3)] st show ?thesis by (auto simp: GetSnapshotChangeTime_def)
qed

lemma execute_record_ok:
  assumes "execute_record E v t w = (None, w')" "hv_lastHashedAt v \<noteq> []"
  shows "\<exists>w1. version w \<le> version w1 \<and> he_Stat E (GenerateSnapshotDiskName (hj_SnapshotName t)) w1 = (Inr (hv_changeTime v), w')"
  using assms by (auto simp: execute_record_def isChangeTimeRemain_def GetSnapshotChangeTime_def Let_def split: prod.splits sum.splits if_splits dest!: set_mono)

lemma Execute_complete:
  assumes "Execute E t w = Some (err, t', w')" "hj_State t' = ProgressStateComplete" "hj_Rehash t" "\<not> hj_SilentlyCorrupted t'"
    "hj_SnapshotName t = snapshot"
  shows "\<exists>v. version w \<le> v \<and> v \<le> version w' \<and> hj_Checksum t' = hex_sum (crc_update 0 (content v))"
proof -
  have ne: "ProgressStateError \<noteq> ProgressStateComplete" by (simp add: ProgressStateError_def ProgressStateComplete_def)
  from assms(1,2) ne obtain l w1 v w2 where x: "LockFile E t w = (Inr l, w1)" "execute_locked E t w1 = Some (None, v, w2)"
    "execute_done E None v t (UnlockFile E l w2) = (err, t', w')"
    by (auto simp: Execute_def Let_def split: prod.splits sum.splits bind_splits elim: execute_done_complete)
  from x(3) assms(2) ne have d: "\<exists>t. execute_record E v t (UnlockFile E l w2) = (None, w') \<and> hj_SnapshotName t = snapshot"
    "hj_Checksum t' = hv_checksum v" "hj_SilentlyCorrupted t' = hv_silentlyCorrupted v"
    using assms(5) by (auto simp: execute_done_def Let_def split: prod.splits option.splits)
  from execute_locked_ok [OF x(2) assms(3)] d(3) assms(4,5) obtain w3 w4 w5 where l:
    "he_Stat E (GenerateSnapshotDiskName snapshot) w1 = (Inr (hv_changeTime v), w3)" "version w3 \<le> version w4"
    "hashSnapshot E snapshot w4 = Some (Inr (hv_checksum v), w5)" "version w5 \<le> version w2" "hv_lastHashedAt v \<noteq> []" by auto
  from execute_record_ok d(1) l(5) obtain w6 where r: "version (UnlockFile E l w2) \<le> version w6"
    "he_Stat E (GenerateSnapshotDiskName snapshot) w6 = (Inr (hv_changeTime v), w')" by blast
  from Stat_stamp [OF l(1)] Stat_stamp [OF r(2)] stamp_inj obtain i where
    i: "version w1 \<le> i" "i \<le> version w3" "version w6 \<le> i" "i \<le> version w'" by metis
  have "version w2 \<le> version (UnlockFile E l w2)" by (simp add: UnlockFile_def Unlock)
  with l(2,4) r(1) i hashSnapshot_mono [OF l(3)] have "version w4 = i" "version w5 = i" by linarith+
  with hashSnapshot_content [OF l(3)] d(2) i lock_mono [OF x(1)] show ?thesis by (intro exI [of _ i]) simp
qed

end

section \<open>A file in memory\<close>

text \<open>
  A file whose versions are given, with the versions of the file that others write between the calls, and its checksum file; every call
  succeeds.
\<close>

record file_world =
  fw_version :: nat
  fw_pos :: nat
  fw_changes :: "bool list"
  fw_tmp :: "SnapshotHashInfo option"
  fw_info :: "SnapshotHashInfo option"

definition tick :: "file_world \<Rightarrow> file_world" where
  "tick w = (case fw_changes w of [] \<Rightarrow> w | c # cs \<Rightarrow> w\<lparr>fw_version := (if c then Suc (fw_version w) else fw_version w), fw_changes := cs\<rparr>)"

definition stamp_of :: "nat \<Rightarrow> string" where
  "stamp_of n = ''version '' @ replicate n (CHR ''i'')"

definition file_env :: "(nat \<Rightarrow> bytes) \<Rightarrow> file_world hash_env" where
  "file_env content =
     \<lparr>he_Getwd = \<lambda>w. (Inr ''/replica'', tick w),
      he_MkdirAll = \<lambda>_ w. (None, tick w),
      he_Lock = \<lambda>_ w. (None, tick w),
      he_Unlock = \<lambda>_ w. (None, tick w),
      he_TryLock = \<lambda>_ w. (Inr True, tick w),
      he_Stat = \<lambda>_ w. let w = tick w in (Inr (stamp_of (fw_version w)), w),
      he_ReadInfo = \<lambda>p w. let w = tick w in (case fw_info w of None \<Rightarrow> Inl (ErrNotExist p) | Some i \<Rightarrow> Inr i, w),
      he_Create = \<lambda>_ w. (None, tick w),
      he_Encode = \<lambda>obj _ w. (None, (tick w)\<lparr>fw_tmp := Some obj\<rparr>),
      he_Rename = \<lambda>_ _ w. let w = tick w in (None, w\<lparr>fw_info := fw_tmp w, fw_tmp := None\<rparr>),
      he_Remove = \<lambda>_ w. (None, (tick w)\<lparr>fw_tmp := None\<rparr>),
      he_RemoveAll = \<lambda>_ w. (None, (tick w)\<lparr>fw_info := None\<rparr>),
      he_OpenData = \<lambda>_ w. (None, (tick w)\<lparr>fw_pos := 0\<rparr>),
      he_Read = \<lambda>_ w. let w = tick w; c = content (fw_version w); bs = take 2 (drop (fw_pos w) c); n = fw_pos w + length bs
        in ((False, bs, if length c \<le> n then Some EOF else None), w\<lparr>fw_pos := n\<rparr>),
      he_Now = \<lambda>_. ''now''\<rparr>"

lemma tick_simps [simp]:
  "fw_version w \<le> fw_version (tick w)" "fw_pos (tick w) = fw_pos w" "fw_info (tick w) = fw_info w" "fw_tmp (tick w) = fw_tmp w"
  by (auto simp: tick_def split: list.splits)

interpretation hf: change_time "file_env content" snapshot fw_version fw_pos content stamp_of
proof unfold_locales
  show "stamp_of i = stamp_of j \<Longrightarrow> i = j" for i j
    by (simp add: stamp_of_def replicate_eq_replicate)
  show "he_Stat (file_env content) (GenerateSnapshotDiskName snapshot) w = (Inr t, w') \<Longrightarrow>
      \<exists>v. fw_version w \<le> v \<and> v \<le> fw_version w' \<and> t = stamp_of v" for w w' t
    by (auto simp: file_env_def Let_def intro!: exI [of _ "fw_version (tick w)"])
  show "he_Read (file_env content) (path_Join dir (GenerateSnapshotDiskName snapshot)) w = ((False, bs, err), w') \<Longrightarrow>
      fw_version w' = fw_version w \<Longrightarrow> fw_pos w \<le> length (content (fw_version w)) \<Longrightarrow>
      bs = take (length bs) (drop (fw_pos w) (content (fw_version w))) \<and> fw_pos w' = fw_pos w + length bs \<and>
      fw_pos w' \<le> length (content (fw_version w)) \<and> (err = Some EOF \<longrightarrow> fw_pos w' = length (content (fw_version w)))" for dir w bs err w'
    by (auto simp: file_env_def Let_def split: if_splits)
qed (simp_all add: file_env_def Let_def)

text \<open>On such a file every job returns: the changes come to an end, and then every read gets closer to the end of the file.\<close>

lemma file_dataCopy_returns: "\<exists>r w'. dataCopy (file_env content) p h w = Some (r, w')"
proof (induction "(length (fw_changes w), length (content (fw_version w)) - fw_pos w)" arbitrary: h w rule: wf_induct_rule [OF wf_less_than [THEN wf_lex_prod, OF wf_less_than]])
  case (1 w h)
  let ?w = "tick w"
  let ?c = "content (fw_version ?w)"
  let ?bs = "take 2 (drop (fw_pos w) ?c)"
  let ?n = "fw_pos w + length ?bs"
  have rd: "he_Read (file_env content) p w = ((False, ?bs, if length ?c \<le> ?n then Some EOF else None), ?w\<lparr>fw_pos := ?n\<rparr>)"
    by (simp add: file_env_def Let_def)
  show ?case
  proof (cases "length ?c \<le> ?n")
    case True
    then show ?thesis by (subst dataCopy.simps) (simp only: rd, simp)
  next
    case False
    have "((length (fw_changes (?w\<lparr>fw_pos := ?n\<rparr>)), length (content (fw_version (?w\<lparr>fw_pos := ?n\<rparr>))) - fw_pos (?w\<lparr>fw_pos := ?n\<rparr>)),
        (length (fw_changes w), length (content (fw_version w)) - fw_pos w)) \<in> less_than <*lex*> less_than"
      using False by (cases "fw_changes w") (auto simp: tick_def)
    from 1 [OF this, of "crc_update h ?bs"] show ?thesis
      using False by (subst dataCopy.simps) (simp only: rd, simp add: Let_def)
  qed
qed

lemma file_Execute_returns: "\<exists>err t' w'. Execute (file_env content) t w = Some (err, t', w')"
proof -
  have h: "\<exists>r w'. hashSnapshot (file_env content) n v = Some (r, w')" for n v
    by (auto simp: hashSnapshot_def newHashMethod_def defaultHashMethod_def Let_def split: prod.splits sum.splits option.splits bind_splits)
      (metis file_dataCopy_returns option.distinct(1))
  have e: "\<exists>err v' w'. execute_hash (file_env content) t v u = Some (err, v', w')" for v u
    using h [of "hj_SnapshotName t" u] by (auto simp: execute_hash_def Let_def split: prod.splits sum.splits)
  have "\<exists>err v w'. execute_locked (file_env content) t u = Some (err, v, w')" for u
    using e by (auto simp: execute_locked_def Let_def split: prod.splits sum.splits bool.splits)
  then show ?thesis
    by (auto simp: Execute_def Let_def split: prod.splits sum.splits bind_splits) (metis option.distinct(1) prod_cases3)+
qed


text \<open>A file of one version, whose checksum file is empty.\<close>

definition ex_content :: "nat \<Rightarrow> bytes" where
  "ex_content n = [1, 2]"

definition ex_file :: file_world where
  "ex_file = \<lparr>fw_version = 0, fw_pos = 0, fw_changes = [], fw_tmp = None,
     fw_info = Some \<lparr>shi_Method = [], shi_Checksum = [], shi_ChangeTime = [], shi_LastHashedAt = [], shi_SilentlyCorrupted = False\<rparr>\<rparr>"

lemma file_env_calls:
  "he_Getwd (file_env c) = (\<lambda>w. (Inr ''/replica'', tick w))" "he_MkdirAll (file_env c) = (\<lambda>_ w. (None, tick w))"
  "he_Lock (file_env c) = (\<lambda>_ w. (None, tick w))" "he_Unlock (file_env c) = (\<lambda>_ w. (None, tick w))"
  "he_Stat (file_env c) = (\<lambda>_ w. (Inr (stamp_of (fw_version (tick w))), tick w))"
  "he_ReadInfo (file_env c) = (\<lambda>p w. (case fw_info w of None \<Rightarrow> Inl (ErrNotExist p) | Some i \<Rightarrow> Inr i, tick w))"
  "he_Create (file_env c) = (\<lambda>_ w. (None, tick w))" "he_Encode (file_env c) = (\<lambda>obj _ w. (None, (tick w)\<lparr>fw_tmp := Some obj\<rparr>))"
  "he_Rename (file_env c) = (\<lambda>_ _ w. (None, (tick w)\<lparr>fw_info := fw_tmp w, fw_tmp := None\<rparr>))"
  "he_OpenData (file_env c) = (\<lambda>_ w. (None, (tick w)\<lparr>fw_pos := 0\<rparr>))" "he_Now (file_env c) = (\<lambda>_. ''now'')"
  by (simp_all add: file_env_def Let_def)

lemma tick_quiet: "fw_changes w = [] \<Longrightarrow> tick w = w"
  by (simp add: tick_def)

lemma ex_dataCopy: "fw_changes w = [] \<Longrightarrow> fw_pos w = 0 \<Longrightarrow>
    dataCopy (file_env ex_content) p h w = Some (Inr (crc_update h [1, 2]), w\<lparr>fw_pos := 2\<rparr>)"
  by (subst dataCopy.simps) (simp add: file_env_def ex_content_def tick_def Let_def)

lemmas hash_job_defs = Execute_def LockFile_def execute_locked_def GetSnapshotChangeTime_def isSilentCorruptionAlreadyDetected_def
  GetSnapshotHashInfoFromChecksumFile_def execute_hash_def hashSnapshot_def newHashMethod_def defaultHashMethod_def
  isSnapshotSilentlyCorrupted_def execute_done_def execute_record_def SetSnapshotHashInfoToChecksumFile_def hash_encodeToFile_def
  isChangeTimeRemain_def UnlockFile_def zero_vars_def NewSnapshotHashJob_def GenerateFunctionErrorWithRollback_def


end
