(* ===== verification/Sync_Task.thy ===== *)
theory Sync_Task
  imports Controller_Rebuild Sync_Purge Snapshot_Hash
begin

text \<open>
  The tasks of a volume (src/pkg/sync/sync.go), which a command of the engine runs: it asks the controller for the replicas and their modes, and calls the
  replicas and their sync agents.  The calls are the fields of task_env, on a world \<open>'w\<close>.  Calls that the source makes in parallel, one for
  each replica, happen in the order that \<open>sched\<close> gives.
\<close>

section \<open>Calls\<close>

record task_status =
  ts_IsRunning :: bool
  ts_Error :: string
  ts_Progress :: int
  ts_State :: string
  ts_FromReplicaAddress :: string
  ts_SnapshotName :: string

record 'w task_env =
  te_ReplicaList :: "'w \<Rightarrow> (error + (string \<times> mode) list) \<times> 'w"
  te_VolumeGet :: "'w \<Rightarrow> (error + nat \<times> int) \<times> 'w"
  te_VolumeStart :: "int \<Rightarrow> int \<Rightarrow> string list \<Rightarrow> 'w \<Rightarrow> error option \<times> 'w"
  te_ReplicaCreate :: "string \<Rightarrow> bool \<Rightarrow> mode \<Rightarrow> 'w \<Rightarrow> error option \<times> 'w"
  te_ReplicaPrepareRebuild :: "string \<Rightarrow> string \<Rightarrow> 'w \<Rightarrow> (error + SyncFileInfo list) \<times> 'w"
  te_ReplicaVerifyRebuild :: "string \<Rightarrow> string \<Rightarrow> 'w \<Rightarrow> error option \<times> 'w"
  te_NewReplicaClient :: "string \<Rightarrow> string \<Rightarrow> 'w \<Rightarrow> error option \<times> 'w"
  te_GetReplica :: "string \<Rightarrow> 'w \<Rightarrow> (error + ReplicaInfo) \<times> 'w"
  te_OpenReplica :: "string \<Rightarrow> 'w \<Rightarrow> error option \<times> 'w"
  te_CloseReplica :: "string \<Rightarrow> 'w \<Rightarrow> error option \<times> 'w"
  te_ExpandReplica :: "string \<Rightarrow> int \<Rightarrow> 'w \<Rightarrow> error option \<times> 'w"
  te_ReloadReplica :: "string \<Rightarrow> 'w \<Rightarrow> error option \<times> 'w"
  te_SetRebuilding :: "string \<Rightarrow> bool \<Rightarrow> 'w \<Rightarrow> error option \<times> 'w"
  te_SyncFiles :: "string \<Rightarrow> string \<Rightarrow> SyncFileInfo list \<Rightarrow> 'w \<Rightarrow> error option \<times> 'w"
  te_MarkDiskAsRemoved :: "string \<Rightarrow> string \<Rightarrow> 'w \<Rightarrow> error option \<times> 'w"
  te_SnapshotPurge :: "string \<Rightarrow> 'w \<Rightarrow> error option \<times> 'w"
  te_SnapshotPurgeStatus :: "string \<Rightarrow> 'w \<Rightarrow> (error + task_status) \<times> 'w"
  te_RestoreStatus :: "string \<Rightarrow> 'w \<Rightarrow> (error + string) \<times> 'w"
  te_ReplicaRebuildStatus :: "string \<Rightarrow> 'w \<Rightarrow> (error + task_status) \<times> 'w"
  te_CloneSnapshot :: "string \<Rightarrow> string \<Rightarrow> string \<Rightarrow> 'w \<Rightarrow> error option \<times> 'w"
  te_SnapshotCloneStatus :: "string \<Rightarrow> 'w \<Rightarrow> (error + task_status) \<times> 'w"
  te_SnapshotHash :: "string \<Rightarrow> string \<Rightarrow> bool \<Rightarrow> 'w \<Rightarrow> error option \<times> 'w"
  te_SnapshotHashStatus :: "string \<Rightarrow> string \<Rightarrow> 'w \<Rightarrow> (error + SnapshotHashStatusResponse option) \<times> 'w"
  te_SnapshotHashCancel :: "string \<Rightarrow> string \<Rightarrow> 'w \<Rightarrow> error option \<times> 'w"
  te_SnapshotHashLockState :: "string \<Rightarrow> 'w \<Rightarrow> (error + bool) \<times> 'w"

section \<open>Errors of several replicas\<close>

text \<open>TaskError: the addresses and the messages.\<close>

definition ReplicaError_msg :: "string \<times> string \<Rightarrow> string" where
  "ReplicaError_msg re = fst re @ '': '' @ snd re"

definition TaskError_msg :: "(string \<times> string) list \<Rightarrow> string" where
  "TaskError_msg res = (if res = [] then ''Unknown'' else join ''; '' (map ReplicaError_msg res))"

definition NewReplicaError :: "string \<Rightarrow> error \<Rightarrow> string \<times> string" where
  "NewReplicaError address err = (address, Error_msg err)"

text \<open>What a task returns for its collected errors.\<close>

definition task_result :: "(string \<times> string) list \<Rightarrow> error option" where
  "task_result res = (if res \<noteq> [] then Some (Errorf (TaskError_msg res)) else None)"

text \<open>The goroutines, one per replica, which store their errors by address, and the loop that collects them.\<close>

fun fan_out :: "(string \<Rightarrow> 'w \<Rightarrow> error option \<times> 'w) \<Rightarrow> string list \<Rightarrow> (string \<times> error) list \<Rightarrow> 'w \<Rightarrow> (string \<times> error) list \<times> 'w" where
  "fan_out act [] errorMap w = (errorMap, w)"
| "fan_out act (a # as) errorMap w =
     (case act a w of
        (None, w) \<Rightarrow> fan_out act as errorMap w
      | (Some e, w) \<Rightarrow> fan_out act as (AList.update a e errorMap) w)"

definition collect_errors :: "(error \<Rightarrow> bool) \<Rightarrow> (string \<times> error) list \<Rightarrow> (string \<times> mode) list \<Rightarrow> (string \<times> string) list" where
  "collect_errors ignored errorMap replicas =
     concat (map (\<lambda>(a, _). case map_of errorMap a of None \<Rightarrow> [] | Some e \<Rightarrow> if ignored e then [] else [NewReplicaError a e]) replicas)"

text \<open>A act through a client that may not be had.\<close>

definition with_client :: "'w task_env \<Rightarrow> string \<Rightarrow> string \<Rightarrow> ('w \<Rightarrow> (error + 'a) \<times> 'w) \<Rightarrow> 'w \<Rightarrow> (error + 'a) \<times> 'w" where
  "with_client E address instanceName act w =
     (case te_NewReplicaClient E address instanceName w of
        (Some e, w) \<Rightarrow> (Inl e, w)
      | (None, w) \<Rightarrow> act w)"

definition as_error :: "error option \<times> 'w \<Rightarrow> (error + unit) \<times> 'w" where
  "as_error r = (case r of (None, w) \<Rightarrow> (Inr (), w) | (Some e, w) \<Rightarrow> (Inl e, w))"

definition of_error :: "(error + unit) \<times> 'w \<Rightarrow> error option \<times> 'w" where
  "of_error r = (case r of (Inr _, w) \<Rightarrow> (None, w) | (Inl e, w) \<Rightarrow> (Some e, w))"

section \<open>Checks\<close>

definition task_isRebuilding :: "'w task_env \<Rightarrow> string \<Rightarrow> 'w \<Rightarrow> (error + bool) \<times> 'w" where
  "task_isRebuilding E a = with_client E a '''' (\<lambda>w. case te_GetReplica E a w of (Inl e, w) \<Rightarrow> (Inl e, w) | (Inr r, w) \<Rightarrow> (Inr (ri_Rebuilding r), w))"

definition isHashingSnapshot :: "'w task_env \<Rightarrow> string \<Rightarrow> 'w \<Rightarrow> (error + bool) \<times> 'w" where
  "isHashingSnapshot E a = with_client E a '''' (te_SnapshotHashLockState E a)"

definition task_isPurging :: "'w task_env \<Rightarrow> string \<Rightarrow> 'w \<Rightarrow> (error + bool) \<times> 'w" where
  "task_isPurging E a = with_client E a ''''
     (\<lambda>w. case te_SnapshotPurgeStatus E a w of (Inl e, w) \<Rightarrow> (Inl e, w) | (Inr st, w) \<Rightarrow> (Inr (ts_IsRunning st), w))"

definition task_markSnapshotAsRemoved :: "'w task_env \<Rightarrow> string \<times> mode \<Rightarrow> string \<Rightarrow> 'w \<Rightarrow> error option \<times> 'w" where
  "task_markSnapshotAsRemoved E r snapshot w =
     (if snd r \<noteq> RW then (Some (Errorf (''can only mark snapshot as removed from replica in mode RW, got '' @ mode_name (snd r))), w)
      else of_error (with_client E (fst r) '''' (\<lambda>w. as_error (te_MarkDiskAsRemoved E (fst r) snapshot w)) w))"

definition cancelSnapshotHashJob :: "'w task_env \<Rightarrow> string \<Rightarrow> string \<Rightarrow> 'w \<Rightarrow> error option \<times> 'w" where
  "cancelSnapshotHashJob E a snapshot w = of_error (with_client E a '''' (\<lambda>w. as_error (te_SnapshotHashCancel E a snapshot w)) w)"

section \<open>Snapshots\<close>

fun delete_check :: "'w task_env \<Rightarrow> (string \<times> mode) list \<Rightarrow> 'w \<Rightarrow> error option \<times> 'w" where
  "delete_check E [] w = (None, w)"
| "delete_check E (r # rs) w =
     (case task_isRebuilding E (fst r) w of
        (Inl e, w) \<Rightarrow> (Some e, w)
      | (Inr True, w) \<Rightarrow> (Some (Errorf (''cannot remove a snapshot because '' @ fst r @ '' is rebuilding'')), w)
      | (Inr False, w) \<Rightarrow> delete_check E rs w)"

fun mark_removed_loop :: "'w task_env \<Rightarrow> string \<Rightarrow> (string \<times> mode) list \<Rightarrow> 'w \<Rightarrow> error option \<times> 'w" where
  "mark_removed_loop E snapshot [] w = (None, w)"
| "mark_removed_loop E snapshot (r # rs) w =
     (case task_markSnapshotAsRemoved E r snapshot w of
        (Some e, w) \<Rightarrow> (Some e, w)
      | (None, w) \<Rightarrow> (case cancelSnapshotHashJob E (fst r) snapshot w of
          (Some e, w) \<Rightarrow> (Some e, w)
        | (None, w) \<Rightarrow> mark_removed_loop E snapshot rs w))"

definition DeleteSnapshot :: "'w task_env \<Rightarrow> string \<Rightarrow> 'w \<Rightarrow> error option \<times> 'w" where
  "DeleteSnapshot E snapshot w =
     (case te_ReplicaList E w of
        (Inl e, w) \<Rightarrow> (Some e, w)
      | (Inr replicas, w) \<Rightarrow> (case delete_check E replicas w of
          (Some e, w) \<Rightarrow> (Some e, w)
        | (None, w) \<Rightarrow> mark_removed_loop E snapshot replicas w))"

text \<open>The checks of PurgeSnapshots: None when the task returns at once, since a replica is purging and \<open>skip\<close> is set.\<close>

definition rebuilding_error :: "string \<Rightarrow> error + bool \<Rightarrow> (string \<times> string) list" where
  "rebuilding_error a r = (case r of
       Inl e \<Rightarrow> [NewReplicaError a (Wrapped (''failed to check if replica '' @ a @ '' is rebuilding before purging'') e)]
     | Inr True \<Rightarrow> [NewReplicaError a (Errorf (''cannot purge snapshots because '' @ a @ '' is rebuilding''))]
     | Inr False \<Rightarrow> [])"

fun purge_check :: "'w task_env \<Rightarrow> bool \<Rightarrow> (string \<times> mode) list \<Rightarrow> (string \<times> string) list \<Rightarrow> 'w \<Rightarrow> (string \<times> string) list option \<times> 'w" where
  "purge_check E skip [] taskErr w = (Some taskErr, w)"
| "purge_check E skip (r # rs) taskErr w =
     (let a = fst r; (rb, w) = task_isRebuilding E a w; taskErr = taskErr @ rebuilding_error a rb
      in case task_isPurging E a w of
           (Inl e, w) \<Rightarrow> purge_check E skip rs (taskErr @ [NewReplicaError a (Wrapped (''failed to check if replica '' @ a @ '' is purging before purging'') e)]) w
         | (Inr True, w) \<Rightarrow> if skip then (None, w)
             else purge_check E skip rs (taskErr @ [NewReplicaError a (Errorf (''cannot purge snapshots because '' @ a @ '' is already purging snapshots''))]) w
         | (Inr False, w) \<Rightarrow> purge_check E skip rs taskErr w)"

definition purge_call :: "'w task_env \<Rightarrow> string \<Rightarrow> 'w \<Rightarrow> error option \<times> 'w" where
  "purge_call E a w =
     (case te_NewReplicaClient E a '''' w of
        (Some e, w) \<Rightarrow> (Some (Wrapped (''failed to get replica client '' @ a @ '' before purging'') e), w)
      | (None, w) \<Rightarrow> (case te_SnapshotPurge E a w of
          (Some e, w) \<Rightarrow> (Some (Wrapped (''replica '' @ a @ '' failed to execute snapshot purge'') e), w)
        | (None, w) \<Rightarrow> (None, w)))"

definition PurgeSnapshots :: "'w task_env \<Rightarrow> (string list \<Rightarrow> string list) \<Rightarrow> bool \<Rightarrow> 'w \<Rightarrow> error option \<times> 'w" where
  "PurgeSnapshots E sched skip w =
     (case te_ReplicaList E w of
        (Inl e, w) \<Rightarrow> (Some (Wrapped ''failed to list replicas before purging'' e), w)
      | (Inr replicas, w) \<Rightarrow> (case purge_check E skip replicas [] w of
          (None, w) \<Rightarrow> (None, w)
        | (Some taskErr, w) \<Rightarrow>
            if taskErr \<noteq> [] then (task_result taskErr, w)
            else
              let (errorMap, w) = fan_out (purge_call E) (sched (map fst replicas)) [] w
              in (task_result (collect_errors (\<lambda>e. skip \<and> IsAlreadyPurgingError e) errorMap replicas), w)))"

definition failed_status :: "string \<Rightarrow> task_status" where
  "failed_status msg = \<lparr>ts_IsRunning = False, ts_Error = msg, ts_Progress = 0, ts_State = '''', ts_FromReplicaAddress = '''', ts_SnapshotName = ''''\<rparr>"

fun purge_status_loop :: "'w task_env \<Rightarrow> (string \<times> mode) list \<Rightarrow> (string \<times> task_status) list \<Rightarrow> 'w \<Rightarrow> (error + (string \<times> task_status) list) \<times> 'w" where
  "purge_status_loop E [] m w = (Inr m, w)"
| "purge_status_loop E (r # rs) m w =
     (if snd r = ERR then purge_status_loop E rs m w
      else case te_NewReplicaClient E (fst r) '''' w of
        (Some e, w) \<Rightarrow> (Inl e, w)
      | (None, w) \<Rightarrow> (case te_SnapshotPurgeStatus E (fst r) w of
          (Inl e, w) \<Rightarrow> purge_status_loop E rs (AList.update (fst r) (failed_status (''failed to get snapshot purge status of '' @ fst r @ '': '' @ Error_msg e)) m) w
        | (Inr st, w) \<Rightarrow> purge_status_loop E rs (AList.update (fst r) st m) w))"

definition PurgeSnapshotStatus :: "'w task_env \<Rightarrow> 'w \<Rightarrow> (error + (string \<times> task_status) list) \<times> 'w" where
  "PurgeSnapshotStatus E w =
     (case te_ReplicaList E w of (Inl e, w) \<Rightarrow> (Inl e, w) | (Inr replicas, w) \<Rightarrow> purge_status_loop E replicas [] w)"

section \<open>Adding a replica\<close>

text \<open>checkRestoreReplicaSize; the deferred call is CloseReplica, which closes the replica and not the client.\<close>

definition checkRestoreReplicaSize :: "'w task_env \<Rightarrow> string \<Rightarrow> string \<Rightarrow> int \<Rightarrow> 'w \<Rightarrow> error option \<times> 'w" where
  "checkRestoreReplicaSize E address instanceName volumeSize w =
     (case te_NewReplicaClient E address instanceName w of
        (Some e, w) \<Rightarrow> (Some e, w)
      | (None, w) \<Rightarrow>
          let (err, w) = (case te_GetReplica E address w of
                (Inl e, w) \<Rightarrow> (Some e, w)
              | (Inr info, w) \<Rightarrow> (case ParseInt (ri_Size info) of
                  None \<Rightarrow> Some (Errorf (''strconv.ParseInt: parsing '' @ ri_Size info))
                | Some replicaSize \<Rightarrow>
                    if replicaSize \<noteq> volumeSize
                    then Some (Errorf (''rebuilding replica size '' @ showInt replicaSize @ '' is not the same as volume size '' @ showInt volumeSize))
                    else None, w));
              (closeErr, w) = te_CloseReplica E address w
          in (case closeErr of
                None \<Rightarrow> err
              | Some ce \<Rightarrow> (case err of None \<Rightarrow> Some ce
                  | Some e \<Rightarrow> Some (Errorf (''original error: '' @ Error_msg e @ '', close error: '' @ Error_msg ce))), w))"

definition AddRestoreReplica :: "'w task_env \<Rightarrow> int \<Rightarrow> int \<Rightarrow> string \<Rightarrow> string \<Rightarrow> 'w \<Rightarrow> error option \<times> 'w" where
  "AddRestoreReplica E volumeSize volumeCurrentSize address instanceName w =
     (case te_VolumeGet E w of
        (Inl e, w) \<Rightarrow> (Some e, w)
      | (Inr (replicaCount, sz), w) \<Rightarrow>
          if replicaCount = 0 then te_VolumeStart E volumeSize volumeCurrentSize [address] w
          else case checkRestoreReplicaSize E address instanceName sz w of
            (Some e, w) \<Rightarrow> (Some e, w)
          | (None, w) \<Rightarrow> te_ReplicaCreate E address False WO w)"

definition VerifyRebuildReplica_task :: "'w task_env \<Rightarrow> string \<Rightarrow> string \<Rightarrow> 'w \<Rightarrow> error option \<times> 'w" where
  "VerifyRebuildReplica_task E address instanceName w = te_ReplicaVerifyRebuild E address instanceName w"

text \<open>Calls one after the other, up to the first that fails.\<close>

fun steps :: "('w \<Rightarrow> error option \<times> 'w) list \<Rightarrow> 'w \<Rightarrow> error option \<times> 'w" where
  "steps [] w = (None, w)"
| "steps (f # fs) w = (case f w of (Some e, w) \<Rightarrow> (Some e, w) | (None, w) \<Rightarrow> steps fs w)"

definition checkAndResetFailedRebuild :: "'w task_env \<Rightarrow> string \<Rightarrow> string \<Rightarrow> 'w \<Rightarrow> error option \<times> 'w" where
  "checkAndResetFailedRebuild E address instanceName w =
     (case te_NewReplicaClient E address instanceName w of
        (Some e, w) \<Rightarrow> (Some e, w)
      | (None, w) \<Rightarrow> (case te_GetReplica E address w of
          (Inl e, w) \<Rightarrow> (Some e, w)
        | (Inr r, w) \<Rightarrow>
            if ri_State r = ''closed'' \<and> ri_Rebuilding r
            then steps [te_OpenReplica E address, te_SetRebuilding E address False, te_CloseReplica E address] w
            else (None, w)))"

definition checkAndExpandReplica :: "'w task_env \<Rightarrow> string \<Rightarrow> string \<Rightarrow> int \<Rightarrow> 'w \<Rightarrow> error option \<times> 'w" where
  "checkAndExpandReplica E address instanceName sz w =
     (case te_NewReplicaClient E address instanceName w of
        (Some e, w) \<Rightarrow> (Some e, w)
      | (None, w) \<Rightarrow> (case te_GetReplica E address w of
          (Inl e, w) \<Rightarrow> (Some e, w)
        | (Inr r, w) \<Rightarrow> (case ParseInt (ri_Size r) of
            None \<Rightarrow> (Some (Errorf (''strconv.ParseInt: parsing '' @ ri_Size r)), w)
          | Some replicaSize \<Rightarrow>
              if replicaSize > sz then (Some (Errorf (''cannot add new replica larger than size '' @ showInt sz)), w)
              else if replicaSize < sz
              then
                let needClose = (ri_State r = ''closed'')
                in steps ((if needClose then [te_OpenReplica E address] else []) @ [te_ExpandReplica E address sz] @
                          (if needClose then [te_CloseReplica E address] else [])) w
              else (None, w))))"

definition reloadAndVerify :: "'w task_env \<Rightarrow> string \<Rightarrow> string \<Rightarrow> 'w \<Rightarrow> error option \<times> 'w" where
  "reloadAndVerify E address instanceName w =
     steps [te_ReloadReplica E address, te_ReplicaVerifyRebuild E address instanceName, te_SetRebuilding E address False] w"

definition checkIfVolumeHeadExists :: "SyncFileInfo list \<Rightarrow> bool" where
  "checkIfVolumeHeadExists infoList = list_ex (\<lambda>info. Contains (FromFileName info) VolumeHeadName) infoList"

fun from_loop :: "'w task_env \<Rightarrow> (string \<times> mode) list \<Rightarrow> 'w \<Rightarrow> (error + string) \<times> 'w" where
  "from_loop E [] w = (Inl (Errorf ''failed to find good replica to copy from''), w)"
| "from_loop E (r # rs) w =
     (if snd r \<noteq> RW then from_loop E rs w
      else case te_NewReplicaClient E (fst r) '''' w of
        (Some _, w) \<Rightarrow> from_loop E rs w
      | (None, w) \<Rightarrow> (case te_SnapshotPurgeStatus E (fst r) w of
          (Inl _, w) \<Rightarrow> from_loop E rs w
        | (Inr st, w) \<Rightarrow> if ts_IsRunning st then from_loop E rs w else (Inr (fst r), w)))"

definition getFromReplicaClientForTransfer :: "'w task_env \<Rightarrow> 'w \<Rightarrow> (error + string) \<times> 'w" where
  "getFromReplicaClientForTransfer E w =
     (case te_ReplicaList E w of (Inl e, w) \<Rightarrow> (Inl e, w) | (Inr replicas, w) \<Rightarrow> from_loop E replicas w)"

definition getToReplicaClientForTransfer :: "'w task_env \<Rightarrow> string \<Rightarrow> string \<Rightarrow> 'w \<Rightarrow> (error + string) \<times> 'w" where
  "getToReplicaClientForTransfer E address instanceName w =
     (case te_ReplicaList E w of
        (Inl e, w) \<Rightarrow> (Inl e, w)
      | (Inr replicas, w) \<Rightarrow> (case find (\<lambda>r. fst r = address) replicas of
          None \<Rightarrow> (Inl (Errorf ''failed to find target replica to copy to''), w)
        | Some r \<Rightarrow>
            if snd r \<noteq> WO then (Inl (Errorf (''replica '' @ address @ '' is not in mode WO: '' @ mode_name (snd r))), w)
            else with_client E (fst r) instanceName (\<lambda>w. (Inr (fst r), w)) w))"

definition getTransferClients :: "'w task_env \<Rightarrow> string \<Rightarrow> string \<Rightarrow> 'w \<Rightarrow> (error + string \<times> string) \<times> 'w" where
  "getTransferClients E address instanceName w =
     (case getFromReplicaClientForTransfer E w of
        (Inl e, w) \<Rightarrow> (Inl e, w)
      | (Inr fromAddress, w) \<Rightarrow> (case getToReplicaClientForTransfer E address instanceName w of
          (Inl e, w) \<Rightarrow> (Inl e, w)
        | (Inr toAddress, w) \<Rightarrow> (Inr (fromAddress, toAddress), w)))"

text \<open>AddReplica: from the transfer clients on, and the whole.\<close>

definition add_transfer :: "'w task_env \<Rightarrow> string \<Rightarrow> string \<Rightarrow> 'w \<Rightarrow> error option \<times> 'w" where
  "add_transfer E address instanceName w =
     (case getTransferClients E address instanceName w of
        (Inl e, w) \<Rightarrow> (Some e, w)
      | (Inr (fromAddress, toAddress), w) \<Rightarrow> (case te_SetRebuilding E toAddress True w of
          (Some e, w) \<Rightarrow> (Some e, w)
        | (None, w) \<Rightarrow> (case te_ReplicaPrepareRebuild E address instanceName w of
            (Inl e, w) \<Rightarrow> (Some e, w)
          | (Inr resp, w) \<Rightarrow>
              if checkIfVolumeHeadExists resp then (Some (Errorf (''sync file list shouldn'' @ [CHR 0x27] @ ''t contain volume head'')), w)
              else (case te_SyncFiles E toAddress fromAddress resp w of
                  (Some e, w) \<Rightarrow> (Some e, w)
                | (None, w) \<Rightarrow> reloadAndVerify E address instanceName w))))"

definition AddReplica_task :: "'w task_env \<Rightarrow> int \<Rightarrow> int \<Rightarrow> string \<Rightarrow> string \<Rightarrow> 'w \<Rightarrow> error option \<times> 'w" where
  "AddReplica_task E volumeSize volumeCurrentSize address instanceName w =
     (case te_VolumeGet E w of
        (Inl e, w) \<Rightarrow> (Some e, w)
      | (Inr (replicaCount, sz), w) \<Rightarrow>
          if replicaCount = 0 then te_VolumeStart E volumeSize volumeCurrentSize [address] w
          else steps [checkAndExpandReplica E address instanceName sz, checkAndResetFailedRebuild E address instanceName,
                      te_ReplicaCreate E address True WO, add_transfer E address instanceName] w)"

definition StartWithReplicas :: "'w task_env \<Rightarrow> int \<Rightarrow> int \<Rightarrow> string list \<Rightarrow> 'w \<Rightarrow> error option \<times> 'w" where
  "StartWithReplicas E volumeSize volumeCurrentSize replicas w =
     (case te_VolumeGet E w of
        (Inl e, w) \<Rightarrow> (Some e, w)
      | (Inr (replicaCount, _), w) \<Rightarrow>
          if replicaCount \<noteq> 0 then (Some (Errorf ''cannot add multiple replicas if volume is already up''), w)
          else te_VolumeStart E volumeSize volumeCurrentSize replicas w)"

section \<open>Snapshots of a volume\<close>

definition getNonBackingDisks :: "'w task_env \<Rightarrow> string \<Rightarrow> 'w \<Rightarrow> (error + (string \<times> DiskInfo) list) \<times> 'w" where
  "getNonBackingDisks E address = with_client E address ''''
     (\<lambda>w. case te_GetReplica E address w of
        (Inl e, w) \<Rightarrow> (Inl e, w)
      | (Inr r, w) \<Rightarrow> (Inr (filter (\<lambda>(name, d). name \<noteq> ri_BackingFile r) (ri_Disks r)), w))"

text \<open>
  GetSnapshotsInfo: the translation of a replica's disks is that of getSnapshotsInfo of the sync agent.
\<close>

fun info_loop :: "'w task_env \<Rightarrow> (string \<times> mode) list \<Rightarrow> (string \<times> DiskInfo) list \<Rightarrow> 'w \<Rightarrow> (error + (string \<times> DiskInfo) list) \<times> 'w" where
  "info_loop E [] outputDisks w = (Inr outputDisks, w)"
| "info_loop E (r # rs) outputDisks w =
     (if snd r \<noteq> RW then info_loop E rs outputDisks w
      else case getNonBackingDisks E (fst r) w of
        (Inl e, w) \<Rightarrow> (Inl e, w)
      | (Inr disks, w) \<Rightarrow> (case snapshots_loop disks [] 0 of
          Inl e \<Rightarrow> (Inl e, w)
        | Inr (newDisks, _) \<Rightarrow> info_loop E rs (if length newDisks > length outputDisks then newDisks else outputDisks) w))"

definition GetSnapshotsInfo :: "'w task_env \<Rightarrow> (string \<times> mode) list \<Rightarrow> 'w \<Rightarrow> (error + (string \<times> DiskInfo) list) \<times> 'w" where
  "GetSnapshotsInfo E replicas w =
     (case info_loop E replicas [] w of
        (Inl e, w) \<Rightarrow> (Inl (Wrapped ''BUG: cannot get snapshot info'' e), w)
      | (Inr ds, w) \<Rightarrow> (Inr ds, w))"

section \<open>Rebuild status and clones\<close>

fun rebuild_status_loop :: "'w task_env \<Rightarrow> (string \<times> mode) list \<Rightarrow> (string \<times> task_status) list \<Rightarrow> 'w \<Rightarrow> (error + (string \<times> task_status) list) \<times> 'w" where
  "rebuild_status_loop E [] m w = (Inr m, w)"
| "rebuild_status_loop E (r # rs) m w =
     (if snd r \<noteq> WO then rebuild_status_loop E rs m w
      else case te_NewReplicaClient E (fst r) '''' w of
        (Some e, w) \<Rightarrow> (Inl e, w)
      | (None, w) \<Rightarrow> (case te_RestoreStatus E (fst r) w of
          (Inl e, w) \<Rightarrow> (Inl (Wrapped ''failed to check the restore status before fetching the rebuild status'' e), w)
        | (Inr destFileName, w) \<Rightarrow>
            if destFileName \<noteq> '''' then (Inr m, w)
            else (case te_ReplicaRebuildStatus E (fst r) w of
                (Inl e, w) \<Rightarrow> rebuild_status_loop E rs (AList.update (fst r) (failed_status (''failed to get replica rebuild status of '' @ fst r @ '': '' @ Error_msg e)) m) w
              | (Inr st, w) \<Rightarrow> rebuild_status_loop E rs (AList.update (fst r) st m) w)))"

definition task_RebuildStatus :: "'w task_env \<Rightarrow> 'w \<Rightarrow> (error + (string \<times> task_status) list) \<times> 'w" where
  "task_RebuildStatus E w =
     (case te_ReplicaList E w of (Inl e, w) \<Rightarrow> (Inl e, w) | (Inr replicas, w) \<Rightarrow> rebuild_status_loop E replicas [] w)"

text \<open>CloneSnapshot: the environments of the source volume and of the target volume.\<close>

definition CloneSnapshot :: "'w task_env \<Rightarrow> 'w task_env \<Rightarrow> (string list \<Rightarrow> string list) \<Rightarrow> string \<Rightarrow> 'w \<Rightarrow> error option \<times> 'w" where
  "CloneSnapshot E fromE sched snapshotFileName w =
     (case te_ReplicaList fromE w of
        (Inl e, w) \<Rightarrow> (Some e, w)
      | (Inr replicas, w) \<Rightarrow> (case find (\<lambda>r. snd r = RW) replicas of
          None \<Rightarrow> (Some (Errorf ''cannot find a RW replica in the source volume for cloning''), w)
        | Some sourceReplica \<Rightarrow> (case te_ReplicaList E w of
            (Inl e, w) \<Rightarrow> (Some e, w)
          | (Inr replicas, w) \<Rightarrow> (case find (\<lambda>r. snd r \<noteq> RW) replicas of
              Some r \<Rightarrow> (Some (Errorf (''cannot do snapshot clone because replica '' @ fst r @ '' in '' @ mode_name (snd r) @
                  '' mode. All replicas in the target volume must be in RW mode'')), w)
            | None \<Rightarrow>
                let (errorMap, w) = fan_out (\<lambda>a w. of_error (with_client E a '''' (\<lambda>w. as_error (te_CloneSnapshot E a (fst sourceReplica) snapshotFileName w)) w))
                      (sched (map fst replicas)) [] w
                in (task_result (collect_errors (\<lambda>_. False) errorMap replicas), w)))))"

fun clone_status_loop :: "'w task_env \<Rightarrow> (string \<times> mode) list \<Rightarrow> (string \<times> task_status) list \<Rightarrow> 'w \<Rightarrow> (error + (string \<times> task_status) list) \<times> 'w" where
  "clone_status_loop E [] m w = (Inr m, w)"
| "clone_status_loop E (r # rs) m w =
     (case te_NewReplicaClient E (fst r) '''' w of
        (Some e, w) \<Rightarrow> (Inl e, w)
      | (None, w) \<Rightarrow> (case te_SnapshotCloneStatus E (fst r) w of
          (Inl e, w) \<Rightarrow> clone_status_loop E rs (AList.update (fst r) (failed_status (''failed to get snapshot clone status of '' @ fst r @ '': '' @ Error_msg e)) m) w
        | (Inr st, w) \<Rightarrow> clone_status_loop E rs (AList.update (fst r) st m) w))"

definition task_CloneStatus :: "'w task_env \<Rightarrow> 'w \<Rightarrow> (error + (string \<times> task_status) list) \<times> 'w" where
  "task_CloneStatus E w =
     (case te_ReplicaList E w of (Inl e, w) \<Rightarrow> (Inl e, w) | (Inr replicas, w) \<Rightarrow> clone_status_loop E replicas [] w)"

section \<open>Hashing\<close>

definition CannotRequestHashingSnapshotPrefix :: string where
  "CannotRequestHashingSnapshotPrefix = ''cannot request hashing snapshot''"

fun hash_check :: "'w task_env \<Rightarrow> (string \<times> mode) list \<Rightarrow> 'w \<Rightarrow> error option \<times> 'w" where
  "hash_check E [] w = (None, w)"
| "hash_check E (r # rs) w =
     (if snd r \<noteq> RW
      then (Some (Errorf (CannotRequestHashingSnapshotPrefix @ '' because '' @ fst r @ '' is in '' @ mode_name (snd r) @ '' mode'')), w)
      else case task_isRebuilding E (fst r) w of
        (Inl e, w) \<Rightarrow> (Some e, w)
      | (Inr True, w) \<Rightarrow> (Some (Errorf (CannotRequestHashingSnapshotPrefix @ '' because '' @ fst r @ '' is rebuilding'')), w)
      | (Inr False, w) \<Rightarrow> (case isHashingSnapshot E (fst r) w of
          (Inl e, w) \<Rightarrow> (Some e, w)
        | (Inr True, w) \<Rightarrow> (Some (Errorf (CannotRequestHashingSnapshotPrefix @ '' because '' @ fst r @ '' is hashing snapshot'')), w)
        | (Inr False, w) \<Rightarrow> hash_check E rs w))"

definition HashSnapshot :: "'w task_env \<Rightarrow> (string list \<Rightarrow> string list) \<Rightarrow> string \<Rightarrow> bool \<Rightarrow> 'w \<Rightarrow> error option \<times> 'w" where
  "HashSnapshot E sched snapshotName rehash w =
     (case te_ReplicaList E w of
        (Inl e, w) \<Rightarrow> (Some e, w)
      | (Inr replicas, w) \<Rightarrow> (case hash_check E replicas w of
          (Some e, w) \<Rightarrow> (Some e, w)
        | (None, w) \<Rightarrow>
            let (errorMap, w) = fan_out (\<lambda>a w. of_error (with_client E a '''' (\<lambda>w. as_error (te_SnapshotHash E a snapshotName rehash w)) w))
                  (sched (map fst replicas)) [] w
            in (task_result (collect_errors (\<lambda>_. False) errorMap replicas), w)))"

text \<open>
  The goroutine of HashSnapshotStatus for one replica: the variables err and status that its deferred function reads.  The errors of the check for a
  rebuild stay in a variable of the if statement.
\<close>

definition hash_status_call :: "'w task_env \<Rightarrow> string \<Rightarrow> string \<times> mode \<Rightarrow> 'w \<Rightarrow> error option \<times> SnapshotHashStatusResponse option \<times> 'w" where
  "hash_status_call E snapshotName r w =
     (case te_NewReplicaClient E (fst r) '''' w of
        (Some e, w) \<Rightarrow> (Some (Wrapped (''failed to create replica client to '' @ fst r) e), None, w)
      | (None, w) \<Rightarrow>
          if snd r \<noteq> RW then (Some (Errorf (''replica '' @ fst r @ '' since it is in '' @ mode_name (snd r) @ '' mode'')), None, w)
          else (case task_isRebuilding E (fst r) w of
              (Inl _, w) \<Rightarrow> (None, None, w)
            | (Inr True, w) \<Rightarrow> (None, None, w)
            | (Inr False, w) \<Rightarrow> (case te_SnapshotHashStatus E (fst r) snapshotName w of
                (Inl e, w) \<Rightarrow> (Some (Wrapped (''failed to get snapshot hashing status of '' @ fst r) e), None, w)
              | (Inr None, w) \<Rightarrow> (Some (Errorf (''BUG: nil snapshot hashing status from '' @ fst r)), None, w)
              | (Inr (Some st), w) \<Rightarrow> (None, Some st, w))))"

text \<open>The deferred function; it calls a method of a nil error when both are nil, and the program ends.\<close>

definition hash_status_done :: "error option \<Rightarrow> SnapshotHashStatusResponse option \<Rightarrow> SnapshotHashStatusResponse option" where
  "hash_status_done err status =
     (case (err, status) of
        (None, Some st) \<Rightarrow> Some (st\<lparr>shr_SilentlyCorrupted := False\<rparr>)
      | (Some e, _) \<Rightarrow> Some \<lparr>shr_State = ProgressStateError, shr_Checksum = '''', shr_Error = Error_msg e, shr_SilentlyCorrupted = False\<rparr>
      | (None, None) \<Rightarrow> None)"

fun hash_status_loop :: "'w task_env \<Rightarrow> string \<Rightarrow> (string \<times> mode) list \<Rightarrow> (string \<times> SnapshotHashStatusResponse) list \<Rightarrow> 'w
    \<Rightarrow> ((string \<times> SnapshotHashStatusResponse) list \<times> 'w) option" where
  "hash_status_loop E snapshotName [] m w = Some (m, w)"
| "hash_status_loop E snapshotName (r # rs) m w =
     (case hash_status_call E snapshotName r w of
        (err, status, w) \<Rightarrow> do {
          st \<leftarrow> hash_status_done err status;
          hash_status_loop E snapshotName rs (AList.update (fst r) st m) w
        })"

definition HashSnapshotStatus ::
  "'w task_env \<Rightarrow> ((string \<times> mode) list \<Rightarrow> (string \<times> mode) list) \<Rightarrow> string \<Rightarrow> 'w \<Rightarrow> ((error + (string \<times> SnapshotHashStatusResponse) list) \<times> 'w) option" where
  "HashSnapshotStatus E sched snapshotName w =
     (case te_ReplicaList E w of
        (Inl e, w) \<Rightarrow> Some (Inl e, w)
      | (Inr replicas, w) \<Rightarrow> map_option (map_prod Inr id) (hash_status_loop E snapshotName (sched replicas) [] w))"

definition HashSnapshotCancel :: "'w task_env \<Rightarrow> (string list \<Rightarrow> string list) \<Rightarrow> string \<Rightarrow> 'w \<Rightarrow> error option \<times> 'w" where
  "HashSnapshotCancel E sched snapshotName w =
     (case te_ReplicaList E w of
        (Inl e, w) \<Rightarrow> (Some e, w)
      | (Inr replicas, w) \<Rightarrow>
          let (errorMap, w) = fan_out (\<lambda>a w. cancelSnapshotHashJob E a snapshotName w) (sched (map fst replicas)) [] w
          in (task_result (collect_errors (\<lambda>_. False) errorMap replicas), w))"

end
