(* ===== verification/Sync_Task_Thms.thy ===== *)
theory Sync_Task_Thms
  imports Sync_Task Controller_Laws
begin

text \<open>
  The tasks of a volume over its controller: a replica that AddReplica has added is in mode RW, a purge is not started while a replica rebuilds.
\<close>

section \<open>Adding a replica\<close>

text \<open>
  What AddReplica relies on: a state of the volume that every call keeps, and in which a successful ReplicaVerifyRebuild leaves the
  replica in mode RW.
\<close>

locale add_calls =
  fixes E :: "'w task_env" and modes :: "'w \<Rightarrow> (string \<times> mode) list" and good :: "'w \<Rightarrow> bool"
  assumes ReplicaList: "good w \<Longrightarrow> good (snd (te_ReplicaList E w))"
    and VolumeGet: "good w \<Longrightarrow> good (snd (te_VolumeGet E w))"
    and ReplicaCreate: "good w \<Longrightarrow> good (snd (te_ReplicaCreate E a sn mo w))"
    and PrepareRebuild: "good w \<Longrightarrow> good (snd (te_ReplicaPrepareRebuild E a i w))"
    and NewClient: "good w \<Longrightarrow> good (snd (te_NewReplicaClient E a i w))"
    and GetReplica: "good w \<Longrightarrow> good (snd (te_GetReplica E a w))"
    and OpenReplica: "good w \<Longrightarrow> good (snd (te_OpenReplica E a w))"
    and CloseReplica: "good w \<Longrightarrow> good (snd (te_CloseReplica E a w))"
    and ExpandReplica: "good w \<Longrightarrow> good (snd (te_ExpandReplica E a n w))"
    and ReloadReplica: "good w \<Longrightarrow> good (snd (te_ReloadReplica E a w))"
    and SetRebuilding: "good w \<Longrightarrow> good (snd (te_SetRebuilding E a b w))"
    and SyncFiles: "good w \<Longrightarrow> good (snd (te_SyncFiles E a f infos w))"
    and PurgeStatus: "good w \<Longrightarrow> good (snd (te_SnapshotPurgeStatus E a w))"
    and SetRebuilding_modes: "modes (snd (te_SetRebuilding E a b w)) = modes w"
    and Verify_RW: "good w \<Longrightarrow> te_ReplicaVerifyRebuild E a i w = (None, w') \<Longrightarrow> map_of (modes w') a = Some RW"
begin

lemma goodD:
  "te_ReplicaList E w = (r1, w') \<Longrightarrow> good w \<Longrightarrow> good w'"
  "te_VolumeGet E w = (r2, w') \<Longrightarrow> good w \<Longrightarrow> good w'"
  "te_ReplicaCreate E a sn mo w = (r3, w') \<Longrightarrow> good w \<Longrightarrow> good w'"
  "te_ReplicaPrepareRebuild E a i w = (r4, w') \<Longrightarrow> good w \<Longrightarrow> good w'"
  "te_NewReplicaClient E a i w = (r3, w') \<Longrightarrow> good w \<Longrightarrow> good w'"
  "te_GetReplica E a w = (r5, w') \<Longrightarrow> good w \<Longrightarrow> good w'"
  "te_OpenReplica E a w = (r3, w') \<Longrightarrow> good w \<Longrightarrow> good w'"
  "te_CloseReplica E a w = (r3, w') \<Longrightarrow> good w \<Longrightarrow> good w'"
  "te_ExpandReplica E a n w = (r3, w') \<Longrightarrow> good w \<Longrightarrow> good w'"
  "te_ReloadReplica E a w = (r3, w') \<Longrightarrow> good w \<Longrightarrow> good w'"
  "te_SetRebuilding E a b w = (r3, w') \<Longrightarrow> good w \<Longrightarrow> good w'"
  "te_SyncFiles E a f infos w = (r3, w') \<Longrightarrow> good w \<Longrightarrow> good w'"
  "te_SnapshotPurgeStatus E a w = (r6, w') \<Longrightarrow> good w \<Longrightarrow> good w'"
  using ReplicaList [of w] VolumeGet [of w] ReplicaCreate [of w a sn mo] PrepareRebuild [of w a i] NewClient [of w a i] GetReplica [of w a]
    OpenReplica [of w a] CloseReplica [of w a] ExpandReplica [of w a n] ReloadReplica [of w a] SetRebuilding [of w a b] SyncFiles [of w a f infos]
    PurgeStatus [of w a] by simp_all

lemma expand_good: "checkAndExpandReplica E a i n w = (r, w') \<Longrightarrow> good w \<Longrightarrow> good w'"
  by (auto simp: checkAndExpandReplica_def Let_def split: prod.splits option.splits sum.splits if_splits dest!: goodD)

lemma reset_good: "checkAndResetFailedRebuild E a i w = (r, w') \<Longrightarrow> good w \<Longrightarrow> good w'"
  by (auto simp: checkAndResetFailedRebuild_def split: prod.splits option.splits sum.splits if_splits dest!: goodD)

lemma from_good: "from_loop E rs w = (r, w') \<Longrightarrow> good w \<Longrightarrow> good w'"
  by (induction rs arbitrary: w) (auto split: prod.splits option.splits sum.splits if_splits dest!: goodD)

lemma clients_good: "getTransferClients E a i w = (r, w') \<Longrightarrow> good w \<Longrightarrow> good w'"
  by (auto simp: getTransferClients_def getFromReplicaClientForTransfer_def getToReplicaClientForTransfer_def with_client_def
      split: prod.splits option.splits sum.splits if_splits dest!: goodD from_good)

text \<open>The replica that is added is the target of the transfer.\<close>

lemma clients_target: "getTransferClients E a i w = (Inr (f, x), w') \<Longrightarrow> x = a"
  by (auto simp: getTransferClients_def getToReplicaClientForTransfer_def with_client_def
      find_Some_iff split: prod.splits option.splits sum.splits if_splits)

lemma add_transfer_RW:
  assumes "add_transfer E a i w = (None, w')" "good w"
  shows "map_of (modes w') a = Some RW"
proof -
  obtain f w1 w2 resp w3 w4 where "getTransferClients E a i w = (Inr (f, a), w1)" "te_SetRebuilding E a True w1 = (None, w2)"
    "te_ReplicaPrepareRebuild E a i w2 = (Inr resp, w3)" "te_SyncFiles E a f resp w3 = (None, w4)" "reloadAndVerify E a i w4 = (None, w')"
    using assms(1) by (auto simp: add_transfer_def split: prod.splits option.splits sum.splits if_splits dest: clients_target)
  moreover from this have "good w4" using assms(2) by (auto dest!: goodD clients_good)
  ultimately obtain w5 w6 where v: "te_ReloadReplica E a w4 = (None, w5)" "te_ReplicaVerifyRebuild E a i w5 = (None, w6)"
    "te_SetRebuilding E a False w6 = (None, w')"
    by (auto simp: reloadAndVerify_def split: prod.splits option.splits)
  have "good w5" using v(1) \<open>good w4\<close> by (rule goodD)
  with Verify_RW [OF _ v(2)] SetRebuilding_modes [of a False w6] v(3) show ?thesis by simp
qed

lemma AddReplica_RW:
  assumes "AddReplica_task E vs vcs a i w = (None, w')" "te_VolumeGet E w = (Inr (n, sz), w1)" "n \<noteq> 0" "good w"
  shows "map_of (modes w') a = Some RW"
proof -
  obtain w2 w3 w4 where s: "checkAndExpandReplica E a i sz w1 = (None, w2)" "checkAndResetFailedRebuild E a i w2 = (None, w3)"
    "te_ReplicaCreate E a True WO w3 = (None, w4)" "add_transfer E a i w4 = (None, w')"
    using assms(1,2,3) by (auto simp: AddReplica_task_def split: prod.splits option.splits)
  have "good w4" using assms(2,4) s(1,2,3) by (auto dest!: goodD expand_good reset_good)
  with s(4) show ?thesis by (rule add_transfer_RW)
qed

end

section \<open>Questions\<close>

text \<open>The calls that only ask.\<close>

definition queries_pure :: "'w task_env \<Rightarrow> bool" where
  "queries_pure E \<longleftrightarrow> (\<forall>w. snd (te_ReplicaList E w) = w \<and> (\<forall>a i n. snd (te_NewReplicaClient E a i w) = w \<and> snd (te_GetReplica E a w) = w \<and>
     snd (te_SnapshotPurgeStatus E a w) = w \<and> snd (te_SnapshotHashStatus E a n w) = w))"

lemma queries_pureD:
  assumes "queries_pure E"
  shows "te_ReplicaList E w = (r1, w') \<Longrightarrow> w' = w" "te_NewReplicaClient E a i w = (r2, w') \<Longrightarrow> w' = w" "te_GetReplica E a w = (r3, w') \<Longrightarrow> w' = w"
    "te_SnapshotPurgeStatus E a w = (r4, w') \<Longrightarrow> w' = w" "te_SnapshotHashStatus E a n w = (r5, w') \<Longrightarrow> w' = w"
  using assms unfolding queries_pure_def by (metis snd_conv)+

lemma isRebuilding_pure: "queries_pure E \<Longrightarrow> task_isRebuilding E a w = (r, w') \<Longrightarrow> w' = w"
  by (auto simp: task_isRebuilding_def with_client_def split: prod.splits option.splits sum.splits dest: queries_pureD)

lemma isPurging_pure: "queries_pure E \<Longrightarrow> task_isPurging E a w = (r, w') \<Longrightarrow> w' = w"
  by (auto simp: task_isPurging_def with_client_def split: prod.splits option.splits sum.splits dest: queries_pureD)

text \<open>The checks before a purge pass only when no replica is rebuilding or purging.\<close>

lemma purge_check_pass:
  assumes "queries_pure E" "purge_check E skip rs errs w = (res, w')"
  shows "w' = w \<and> (res = Some [] \<longrightarrow> errs = [] \<and>
    (\<forall>a \<in> fst ` set rs. fst (task_isRebuilding E a w) = Inr False \<and> fst (task_isPurging E a w) = Inr False))"
  using assms(2)
proof (induction rs arbitrary: errs res w')
  case (Cons r rs)
  obtain rb where 1: "task_isRebuilding E (fst r) w = (rb, w)" using isRebuilding_pure [OF assms(1)] by (metis prod.collapse)
  obtain pg where 2: "task_isPurging E (fst r) w = (pg, w)" using isPurging_pure [OF assms(1)] by (metis prod.collapse)
  have rb: "rebuilding_error (fst r) rb = [] \<Longrightarrow> rb = Inr False" by (auto simp: rebuilding_error_def split: sum.splits bool.splits)
  show ?case
  proof (cases pg)
    case (Inl e)
    from Cons.prems 1 2 Inl show ?thesis by (auto simp: Let_def dest!: Cons.IH)
  next
    case (Inr b)
    show ?thesis
    proof (cases b)
      case True
      then show ?thesis using Cons.prems 1 2 Inr Cons.IH by (cases skip) (fastforce simp: Let_def)+
    next
      case False
      from Cons.prems 1 2 Inr rb False show ?thesis by (auto simp: Let_def dest!: Cons.IH)
    qed
  qed
qed simp

text \<open>
  PurgeSnapshots starts no purge while a replica of the volume is rebuilding or purging, or cannot be asked: then the state of the replicas is as before the task.
\<close>

lemma purge_not_during_rebuild:
  assumes "queries_pure E" "te_ReplicaList E w = (Inr replicas, w)" "a \<in> fst ` set replicas"
    and "fst (task_isRebuilding E a w) \<noteq> Inr False \<or> fst (task_isPurging E a w) \<noteq> Inr False"
  shows "snd (PurgeSnapshots E sched skip w) = w"
proof -
  obtain res w' where c: "purge_check E skip replicas [] w = (res, w')" by (cases "purge_check E skip replicas [] w")
  from purge_check_pass [OF assms(1) c] assms(3,4) have "w' = w" "res \<noteq> Some []" by auto
  with c assms(2) show ?thesis by (cases res) (simp_all add: PurgeSnapshots_def)
qed

lemma hash_status_call_pure: "queries_pure E \<Longrightarrow> hash_status_call E n r w = (e, st, w') \<Longrightarrow> w' = w"
  by (auto simp: hash_status_call_def split: prod.splits option.splits sum.splits bool.splits if_splits dest: queries_pureD isRebuilding_pure)

lemma hash_status_loop_panics:
  assumes "queries_pure E" "fst (te_NewReplicaClient E a [] w) = None" "fst (task_isRebuilding E a w) \<noteq> Inr False"
  shows "(a, RW) \<in> set rs \<Longrightarrow> hash_status_loop E n rs m w = None"
proof (induction rs arbitrary: m)
  case (Cons r rs)
  obtain e st where c: "hash_status_call E n r w = (e, st, w)" using hash_status_call_pure [OF assms(1)] by (metis prod_cases3)
  show ?case
  proof (cases "r = (a, RW)")
    case True
    obtain x where "te_NewReplicaClient E a [] w = (x, w)" using queries_pureD(2) [OF assms(1)] by (metis prod.collapse)
    moreover obtain y where "task_isRebuilding E a w = (y, w)" using isRebuilding_pure [OF assms(1)] by (metis prod.collapse)
    ultimately have "e = None \<and> st = None" using c True assms(2,3) by (auto simp: hash_status_call_def split: sum.splits bool.splits)
    then show ?thesis using c by (simp add: hash_status_done_def)
  next
    case False
    then show ?thesis using c Cons by (auto split: bind_splits)
  qed
qed simp

text \<open>
  HashSnapshotStatus ends the program when an RW replica is rebuilding or cannot say so.  The error of that check is assigned to a variable of the if statement,
  and the deferred function calls a method of the nil error.
\<close>

lemma HashSnapshotStatus_panics:
  assumes "queries_pure E" "te_ReplicaList E w = (Inr replicas, w)" "(a, RW) \<in> set replicas" "set (sched replicas) = set replicas"
    and "fst (te_NewReplicaClient E a [] w) = None" "fst (task_isRebuilding E a w) \<noteq> Inr False"
  shows "HashSnapshotStatus E sched n w = None"
  using assms hash_status_loop_panics [OF assms(1,5,6), of "sched replicas"] by (simp add: HashSnapshotStatus_def)

section \<open>The snapshots of a volume\<close>

text \<open>GetSnapshotsInfo takes the description of the RW replica with the most snapshots.\<close>

lemma nonBacking_pure: "queries_pure E \<Longrightarrow> getNonBackingDisks E a w = (r, w') \<Longrightarrow> w' = w"
  by (auto simp: getNonBackingDisks_def with_client_def split: prod.splits option.splits sum.splits dest: queries_pureD)

lemma info_loop_max:
  assumes "queries_pure E" "info_loop E rs out w = (Inr ds, w')"
  shows "length out \<le> length ds \<and> (\<forall>a. (a, RW) \<in> set rs \<longrightarrow> (\<exists>disks nd k. getNonBackingDisks E a w = (Inr disks, w) \<and>
    snapshots_loop disks [] 0 = Inr (nd, k) \<and> length nd \<le> length ds))"
  using assms(2)
proof (induction rs arbitrary: out)
  case (Cons r rs)
  obtain res where 1: "getNonBackingDisks E (fst r) w = (res, w)" using nonBacking_pure [OF assms(1)] by (metis prod.collapse)
  show ?case
  proof (cases "snd r = RW")
    case False
    with Cons show ?thesis by (cases r) auto
  next
    case True
    then obtain disks where 2: "res = Inr disks" using Cons.prems 1 by (cases res) auto
    then obtain nd k where 3: "snapshots_loop disks [] 0 = Inr (nd, k)" using Cons.prems 1 True by (cases "snapshots_loop disks [] 0") auto
    have "info_loop E rs (if length nd > length out then nd else out) w = (Inr ds, w')" using Cons.prems 1 2 3 True by simp
    from Cons.IH [OF this] 1 2 3 True show ?thesis by (cases r) (auto split: if_splits)
  qed
qed simp

section \<open>Examples\<close>

text \<open>Calls that all succeed.\<close>

definition ex_task :: "'w task_env" where
  "ex_task =
     \<lparr>te_ReplicaList = (\<lambda>w. (Inr [], w)), te_VolumeGet = (\<lambda>w. (Inr (0, 0), w)), te_VolumeStart = (\<lambda>_ _ _ w. (None, w)),
      te_ReplicaCreate = (\<lambda>_ _ _ w. (None, w)), te_ReplicaPrepareRebuild = (\<lambda>_ _ w. (Inr [], w)), te_ReplicaVerifyRebuild = (\<lambda>_ _ w. (None, w)),
      te_NewReplicaClient = (\<lambda>_ _ w. (None, w)), te_GetReplica = (\<lambda>a w. (Inr ((demo_info a)\<lparr>ri_Size := ''8'', ri_State := ''closed''\<rparr>), w)),
      te_OpenReplica = (\<lambda>_ w. (None, w)), te_CloseReplica = (\<lambda>_ w. (None, w)), te_ExpandReplica = (\<lambda>_ _ w. (None, w)),
      te_ReloadReplica = (\<lambda>_ w. (None, w)), te_SetRebuilding = (\<lambda>_ _ w. (None, w)), te_SyncFiles = (\<lambda>_ _ _ w. (None, w)),
      te_MarkDiskAsRemoved = (\<lambda>_ _ w. (None, w)), te_SnapshotPurge = (\<lambda>_ w. (None, w)),
      te_SnapshotPurgeStatus = (\<lambda>_ w. (Inr (failed_status []), w)), te_RestoreStatus = (\<lambda>_ w. (Inr [], w)),
      te_ReplicaRebuildStatus = (\<lambda>_ w. (Inr (failed_status []), w)), te_CloneSnapshot = (\<lambda>_ _ _ w. (None, w)),
      te_SnapshotCloneStatus = (\<lambda>_ w. (Inr (failed_status []), w)), te_SnapshotHash = (\<lambda>_ _ _ w. (None, w)),
      te_SnapshotHashStatus = (\<lambda>_ _ w. (Inr None, w)), te_SnapshotHashCancel = (\<lambda>_ _ w. (None, w)), te_SnapshotHashLockState = (\<lambda>_ w. (Inr False, w))\<rparr>"

end
