(* ===== verification/Controller_Server.thy ===== *)
theory Controller_Server
  imports Controller_Rebuild
begin

text \<open>
  The gRPC service of the controller (src/pkg/controller/rpc/server.go): what a client of the controller can ask for, and the volume that it is shown.  A
  handler is a call of the controller; None is a panic of the controller.
\<close>

section \<open>The volume\<close>

record rpc_Volume =
  rv_Name :: string
  rv_Size :: int
  rv_ReplicaCount :: nat
  rv_Endpoint :: string
  rv_Frontend :: string
  rv_FrontendState :: string
  rv_IsExpanding :: bool
  rv_LastExpansionError :: string
  rv_LastExpansionFailedAt :: string
  rv_UnmapMarkSnapChainRemoved :: bool
  rv_SnapshotMaxCount :: int
  rv_SnapshotMaxSize :: int

definition FrontendName :: "('b, 'f, 'w) ctl_env \<Rightarrow> ('b, 'f) controller \<Rightarrow> string" where
  "FrontendName E c = (case c_frontend c of None \<Rightarrow> '''' | Some f \<Rightarrow> fe_FrontendName E f)"

definition getVolume :: "('b, 'f, 'w) ctl_env \<Rightarrow> ('b, 'f) controller \<Rightarrow> 'w \<Rightarrow> rpc_Volume" where
  "getVolume E c w = \<lparr>rv_Name = VolumeName c, rv_Size = c_size c, rv_ReplicaCount = length (c_replicas c), rv_Endpoint = Endpoint E c w,
     rv_Frontend = FrontendName E c, rv_FrontendState = FrontendState E c w, rv_IsExpanding = isExpanding c,
     rv_LastExpansionError = lastExpansionError c, rv_LastExpansionFailedAt = lastExpansionFailedAt c,
     rv_UnmapMarkSnapChainRemoved = unmapMarkSnapChainRemoved c, rv_SnapshotMaxCount = snapshotMaxCount c, rv_SnapshotMaxSize = snapshotMaxSize c\<rparr>"

definition replicaToControllerReplica :: "string \<times> mode \<Rightarrow> string \<times> grpcMode" where
  "replicaToControllerReplica r = (fst r, ReplicaModeToGRPCReplicaMode (snd r))"

definition getControllerReplica :: "('b, 'f) controller \<Rightarrow> string \<Rightarrow> (string \<times> grpcMode) option" where
  "getControllerReplica c address = map_option replicaToControllerReplica (find (\<lambda>r. fst r = address) (c_replicas c))"

definition listControllerReplica :: "('b, 'f) controller \<Rightarrow> (string \<times> grpcMode) list" where
  "listControllerReplica c = map replicaToControllerReplica (c_replicas c)"

section \<open>Handlers\<close>

text \<open>A handler that answers with the volume when the call of the controller succeeds.\<close>

definition volume_reply ::
  "('b, 'f, 'w) ctl_env \<Rightarrow> (error option \<times> ('b, 'f) controller \<times> 'w) option \<Rightarrow> ((error + rpc_Volume) \<times> ('b, 'f) controller \<times> 'w) option" where
  "volume_reply E r = map_option (\<lambda>(err, c, w). (case err of Some e \<Rightarrow> Inl e | None \<Rightarrow> Inr (getVolume E c w), c, w)) r"

definition replica_reply ::
  "string \<Rightarrow> (error option \<times> ('b, 'f) controller \<times> 'w) option \<Rightarrow> ((error + (string \<times> grpcMode) option) \<times> ('b, 'f) controller \<times> 'w) option" where
  "replica_reply address r = map_option (\<lambda>(err, c, w). (case err of Some e \<Rightarrow> Inl e | None \<Rightarrow> Inr (getControllerReplica c address), c, w)) r"

type_synonym ('b, 'f, 'w, 'a) handler = "('b, 'f) controller \<Rightarrow> 'w \<Rightarrow> ((error + 'a) \<times> ('b, 'f) controller \<times> 'w) option"

definition VolumeGet :: "('b, 'f, 'w) ctl_env \<Rightarrow> ('b, 'f, 'w, rpc_Volume) handler" where
  "VolumeGet E c w = Some (Inr (getVolume E c w), c, w)"

definition VolumeStart :: "('b, 'f, 'w) ctl_env \<Rightarrow> int \<Rightarrow> int \<Rightarrow> string list \<Rightarrow> ('b, 'f, 'w, rpc_Volume) handler" where
  "VolumeStart E sz currentSize replicaAddresses c w = volume_reply E (ctl_Start E c sz currentSize replicaAddresses w)"

definition VolumeShutdown :: "('b, 'f, 'w) ctl_env \<Rightarrow> ('b, 'f, 'w, rpc_Volume) handler" where
  "VolumeShutdown E c w = volume_reply E (Shutdown E c w)"

definition VolumeSnapshot :: "('b, 'f, 'w) ctl_env \<Rightarrow> string \<Rightarrow> (string \<times> string) list \<Rightarrow> bool \<Rightarrow> ('b, 'f, 'w, string) handler" where
  "VolumeSnapshot E name labels freezeFilesystem c w =
     map_option (\<lambda>(name, err, c, w). (case err of Some e \<Rightarrow> Inl e | None \<Rightarrow> Inr name, c, w)) (ctl_Snapshot E c name labels freezeFilesystem w)"

definition VolumeRevert :: "('b, 'f, 'w) ctl_env \<Rightarrow> 'w rclient \<Rightarrow> string \<Rightarrow> ('b, 'f, 'w, rpc_Volume) handler" where
  "VolumeRevert E R name c w = volume_reply E (ctl_Revert E R c name w)"

definition VolumeExpand :: "('b, 'f, 'w) ctl_env \<Rightarrow> int \<Rightarrow> ('b, 'f, 'w, rpc_Volume) handler" where
  "VolumeExpand E sz c w = volume_reply E (ctl_Expand E c sz w)"

definition VolumeFrontendStart :: "('b, 'f, 'w) ctl_env \<Rightarrow> string \<Rightarrow> ('b, 'f, 'w, rpc_Volume) handler" where
  "VolumeFrontendStart E frontend c w = volume_reply E (Some (StartFrontend E c frontend w))"

definition VolumeFrontendShutdown :: "('b, 'f, 'w) ctl_env \<Rightarrow> ('b, 'f, 'w, rpc_Volume) handler" where
  "VolumeFrontendShutdown E c w = volume_reply E (let (err, w) = shutdownFrontend E c w in Some (err, c, w))"

definition VolumeUnmapMarkSnapChainRemovedSet :: "('b, 'f, 'w) ctl_env \<Rightarrow> bool \<Rightarrow> ('b, 'f, 'w, rpc_Volume) handler" where
  "VolumeUnmapMarkSnapChainRemovedSet E enabled c w = volume_reply E (SetUnmapMarkSnapChainRemoved (bops E) c enabled w)"

definition VolumeSnapshotMaxCountSet :: "('b, 'f, 'w) ctl_env \<Rightarrow> int \<Rightarrow> ('b, 'f, 'w, rpc_Volume) handler" where
  "VolumeSnapshotMaxCountSet E cnt c w = volume_reply E (SetSnapshotMaxCount (bops E) c cnt w)"

definition VolumeSnapshotMaxSizeSet :: "('b, 'f, 'w) ctl_env \<Rightarrow> int \<Rightarrow> ('b, 'f, 'w, rpc_Volume) handler" where
  "VolumeSnapshotMaxSizeSet E sz c w = volume_reply E (SetSnapshotMaxSize (bops E) c sz w)"

definition ReplicaList :: "('b, 'f, 'w, (string \<times> grpcMode) list) handler" where
  "ReplicaList c w = Some (Inr (listControllerReplica c), c, w)"

definition ReplicaGet :: "string \<Rightarrow> ('b, 'f, 'w, (string \<times> grpcMode) option) handler" where
  "ReplicaGet address c w = Some (Inr (getControllerReplica c address), c, w)"

definition ControllerReplicaCreate :: "('b, 'f, 'w) ctl_env \<Rightarrow> string \<Rightarrow> bool \<Rightarrow> grpcMode \<Rightarrow> ('b, 'f, 'w, (string \<times> grpcMode) option) handler" where
  "ControllerReplicaCreate E address snapshotRequired mo c w =
     replica_reply address (addReplica E c address snapshotRequired (GRPCReplicaModeToReplicaMode mo) w)"

definition ReplicaDelete :: "('b, 'f, 'w) ctl_env \<Rightarrow> string \<Rightarrow> ('b, 'f, 'w, unit) handler" where
  "ReplicaDelete E address c w = (let (err, c, w) = RemoveReplica E c address w in Some (case err of Some e \<Rightarrow> Inl e | None \<Rightarrow> Inr (), c, w))"

definition ReplicaUpdate :: "('b, 'f, 'w) ctl_env \<Rightarrow> string \<Rightarrow> grpcMode \<Rightarrow> ('b, 'f, 'w, (string \<times> grpcMode) option) handler" where
  "ReplicaUpdate E address mo c w = replica_reply address (SetReplicaMode (bops E) c address (GRPCReplicaModeToReplicaMode mo) w)"

definition ReplicaPrepareRebuild ::
  "('b, 'f, 'w) ctl_env \<Rightarrow> 'w rclient \<Rightarrow> string \<Rightarrow> string \<Rightarrow> ('b, 'f, 'w, (string \<times> grpcMode) option \<times> SyncFileInfo list) handler" where
  "ReplicaPrepareRebuild E R address instanceName c w =
     map_option (\<lambda>(r, w). (case r of Inl e \<Rightarrow> Inl e | Inr infos \<Rightarrow> Inr (getControllerReplica c address, infos), c, w))
       (PrepareRebuildReplica (bops E) R c address instanceName w)"

definition ReplicaVerifyRebuild :: "('b, 'f, 'w) ctl_env \<Rightarrow> 'w rclient \<Rightarrow> string \<Rightarrow> string \<Rightarrow> ('b, 'f, 'w, (string \<times> grpcMode) option) handler" where
  "ReplicaVerifyRebuild E R address instanceName c w = replica_reply address (VerifyRebuildReplica (bops E) R c address instanceName w)"

end
