(* ===== verification/Grpc.thy ===== *)
theory Grpc
  imports Types_Error
begin

text \<open>
  The calls of the gRPC services, as the clients of the controller, the replica and the sync agent make them.  gRPC is a parameter \<open>T\<close>, which may
  lose a request before it reaches the handler or a reply after it; the error of a handler reaches the client as the text of a status.
\<close>

text \<open>The conversion to int32 of a field of a message.\<close>

definition int32 :: "int \<Rightarrow> int" where
  "int32 i = sint (word_of_int i :: 32 word)"

datatype delivery = Lost error | Delivered | ReplyLost error

text \<open>A handler works on the state of its server and the world around it; None is a panic of the server.\<close>

type_synonym ('c, 'w, 'a) rpc = "'c \<Rightarrow> 'w \<Rightarrow> ((error + 'a) \<times> 'c \<times> 'w) option"

definition rpc_error :: "error \<Rightarrow> error" where
  "rpc_error e = Errorf (''rpc error: code = Unknown desc = '' @ Error_msg e)"

definition rpc_call :: "('w \<Rightarrow> delivery) \<Rightarrow> ('c, 'w, 'a) rpc \<Rightarrow> ('c, 'w, 'a) rpc" where
  "rpc_call T h c w =
     (case T w of
        Lost e \<Rightarrow> Some (Inl e, c, w)
      | Delivered \<Rightarrow> map_option (\<lambda>(r, c, w). (case r of Inl e \<Rightarrow> Inl (rpc_error e) | Inr x \<Rightarrow> Inr x, c, w)) (h c w)
      | ReplyLost e \<Rightarrow> map_option (\<lambda>(_, c, w). (Inl e, c, w)) (h c w))"

text \<open>A call whose error is wrapped with a text.\<close>

definition client_call :: "('w \<Rightarrow> delivery) \<Rightarrow> string \<Rightarrow> ('c, 'w, 'a) rpc \<Rightarrow> ('c, 'w, 'a) rpc" where
  "client_call T msg h c w = map_option (\<lambda>(r, c, w). (case r of Inl e \<Rightarrow> Inl (Wrapped msg e) | Inr x \<Rightarrow> Inr x, c, w)) (rpc_call T h c w)"

definition client_do :: "('w \<Rightarrow> delivery) \<Rightarrow> string \<Rightarrow> ('c, 'w, 'a) rpc \<Rightarrow> ('c, 'w, unit) rpc" where
  "client_do T msg h c w = map_option (\<lambda>(r, c, w). (case r of Inl e \<Rightarrow> Inl e | Inr _ \<Rightarrow> Inr (), c, w)) (client_call T msg h c w)"

section \<open>Statuses\<close>

text \<open>status.Errorf, and what status.FromError finds: a status is its text here.\<close>

definition status_error :: "string \<Rightarrow> string \<Rightarrow> error" where
  "status_error code msg = Errorf (''rpc error: code = '' @ code @ '' desc = '' @ msg)"

fun after_first :: "string \<Rightarrow> string \<Rightarrow> string option" where
  "after_first sub [] = None"
| "after_first sub (c # s) = (if HasPrefix (c # s) sub then Some (drop (length sub) (c # s)) else after_first sub s)"

definition FromError :: "error \<Rightarrow> string option" where
  "FromError e = (case e of Errorf s \<Rightarrow> if HasPrefix s ''rpc error: code = '' then after_first '' desc = '' s else None | _ \<Rightarrow> None)"

text \<open>A call of a handler that answers with a status of its own.\<close>

definition status_call :: "('w \<Rightarrow> delivery) \<Rightarrow> ('c \<Rightarrow> 'w \<Rightarrow> ((string \<times> string + 'a) \<times> 'c \<times> 'w) option) \<Rightarrow> ('c, 'w, 'a) rpc" where
  "status_call T h c w =
     (case T w of
        Lost e \<Rightarrow> Some (Inl e, c, w)
      | Delivered \<Rightarrow> map_option (\<lambda>(r, c, w). (case r of Inl (code, msg) \<Rightarrow> Inl (status_error code msg) | Inr x \<Rightarrow> Inr x, c, w)) (h c w)
      | ReplyLost e \<Rightarrow> map_option (\<lambda>(_, c, w). (Inl e, c, w)) (h c w))"

lemma FromError_Internal: "FromError (status_error ''Internal'' msg) = Some msg"
  by (simp add: FromError_def status_error_def)

section \<open>Calls and handlers\<close>

text \<open>A call of the client is a call of the handler or none.\<close>

lemma client_call_cases:
  assumes "client_call T msg h c w = Some (r, c', w')"
  obtains "c' = c" | r' where "h c w = Some (r', c', w')"
  using assms by (auto simp: client_call_def rpc_call_def split: delivery.splits)

lemma client_do_cases:
  assumes "client_do T msg h c w = Some (r, c', w')"
  obtains "c' = c" | r' where "h c w = Some (r', c', w')"
  using assms by (auto simp: client_do_def elim: client_call_cases)

lemma client_do_ok:
  assumes "client_do T msg h c w = Some (Inr x, c', w')"
  shows "\<exists>y. h c w = Some (Inr y, c', w')"
proof (cases "h c w")
  case None
  then show ?thesis using assms by (auto simp: client_do_def client_call_def rpc_call_def split: delivery.splits)
next
  case (Some z)
  obtain r c1 w1 where "z = (r, c1, w1)" by (cases z)
  then show ?thesis using Some assms by (cases r) (auto simp: client_do_def client_call_def rpc_call_def split: delivery.splits)
qed

end
