(* ===== verification/Controller_Client.thy ===== *)
theory Controller_Client
  imports Controller_Server Grpc
begin

text \<open>
  The client of the controller's service (src/pkg/controller/client/controller_client.go) on its handlers.
\<close>

section \<open>Calls\<close>

definition GetControllerReplicaInfo :: "string \<times> grpcMode \<Rightarrow> string \<times> mode" where
  "GetControllerReplicaInfo cr = (fst cr, GRPCReplicaModeToReplicaMode (snd cr))"

text \<open>The reply without a replica has no address, which is dereferenced.\<close>

definition replica_info ::
  "((error + (string \<times> grpcMode) option) \<times> ('b, 'f) controller \<times> 'w) option \<Rightarrow> ((error + string \<times> mode) \<times> ('b, 'f) controller \<times> 'w) option" where
  "replica_info x = do {
     (r, c, w) \<leftarrow> x;
     (case r of
        Inl e \<Rightarrow> Some (Inl e, c, w)
      | Inr None \<Rightarrow> None
      | Inr (Some cr) \<Rightarrow> Some (Inr (GetControllerReplicaInfo cr), c, w))
   }"

definition cl_VolumeGet :: "('w \<Rightarrow> delivery) \<Rightarrow> string \<Rightarrow> ('b, 'f, 'w) ctl_env \<Rightarrow> ('b, 'f, 'w, rpc_Volume) handler" where
  "cl_VolumeGet T url E = client_call T (''failed to get volume '' @ url) (VolumeGet E)"

definition cl_VolumeStart :: "('w \<Rightarrow> delivery) \<Rightarrow> string \<Rightarrow> ('b, 'f, 'w) ctl_env \<Rightarrow> int \<Rightarrow> int \<Rightarrow> string list \<Rightarrow> ('b, 'f, 'w, unit) handler" where
  "cl_VolumeStart T url E sz currentSize replicas = client_do T (''failed to start volume '' @ url) (VolumeStart E sz currentSize replicas)"

definition cl_VolumeSnapshot :: "('w \<Rightarrow> delivery) \<Rightarrow> string \<Rightarrow> ('b, 'f, 'w) ctl_env \<Rightarrow> string \<Rightarrow> (string \<times> string) list \<Rightarrow> bool \<Rightarrow> ('b, 'f, 'w, string) handler" where
  "cl_VolumeSnapshot T url E name labels freezeFilesystem =
     client_call T (''failed to create snapshot '' @ name @ '' for volume '' @ url) (VolumeSnapshot E name labels freezeFilesystem)"

definition cl_VolumeRevert :: "('w \<Rightarrow> delivery) \<Rightarrow> string \<Rightarrow> ('b, 'f, 'w) ctl_env \<Rightarrow> 'w rclient \<Rightarrow> string \<Rightarrow> ('b, 'f, 'w, unit) handler" where
  "cl_VolumeRevert T url E R snapshot = client_do T (''failed to revert to snapshot '' @ snapshot @ '' for volume '' @ url) (VolumeRevert E R snapshot)"

definition cl_VolumeExpand :: "('w \<Rightarrow> delivery) \<Rightarrow> string \<Rightarrow> ('b, 'f, 'w) ctl_env \<Rightarrow> int \<Rightarrow> ('b, 'f, 'w, unit) handler" where
  "cl_VolumeExpand T url E sz = client_do T (''failed to expand to size '' @ showInt sz @ '' for volume '' @ url) (VolumeExpand E sz)"

definition cl_VolumeFrontendStart :: "('w \<Rightarrow> delivery) \<Rightarrow> string \<Rightarrow> ('b, 'f, 'w) ctl_env \<Rightarrow> string \<Rightarrow> ('b, 'f, 'w, unit) handler" where
  "cl_VolumeFrontendStart T url E frontend = client_do T (''failed to start frontend '' @ frontend @ '' for volume '' @ url) (VolumeFrontendStart E frontend)"

definition cl_VolumeFrontendShutdown :: "('w \<Rightarrow> delivery) \<Rightarrow> string \<Rightarrow> ('b, 'f, 'w) ctl_env \<Rightarrow> ('b, 'f, 'w, unit) handler" where
  "cl_VolumeFrontendShutdown T url E = client_do T (''failed to shutdown frontend for volume '' @ url) (VolumeFrontendShutdown E)"

definition cl_VolumeUnmapMarkSnapChainRemovedSet :: "('w \<Rightarrow> delivery) \<Rightarrow> string \<Rightarrow> ('b, 'f, 'w) ctl_env \<Rightarrow> bool \<Rightarrow> ('b, 'f, 'w, unit) handler" where
  "cl_VolumeUnmapMarkSnapChainRemovedSet T url E enabled =
     client_do T (''failed to set UnmapMarkSnapChainRemoved to '' @ (if enabled then ''true'' else ''false'') @ '' for volume '' @ url)
       (VolumeUnmapMarkSnapChainRemovedSet E enabled)"

definition cl_VolumeSnapshotMaxCountSet :: "('w \<Rightarrow> delivery) \<Rightarrow> string \<Rightarrow> ('b, 'f, 'w) ctl_env \<Rightarrow> int \<Rightarrow> ('b, 'f, 'w, unit) handler" where
  "cl_VolumeSnapshotMaxCountSet T url E cnt =
     client_do T (''failed to set SnapshotMaxCount to '' @ showInt cnt @ '' for volume '' @ url) (VolumeSnapshotMaxCountSet E cnt)"

definition cl_VolumeSnapshotMaxSizeSet :: "('w \<Rightarrow> delivery) \<Rightarrow> string \<Rightarrow> ('b, 'f, 'w) ctl_env \<Rightarrow> int \<Rightarrow> ('b, 'f, 'w, unit) handler" where
  "cl_VolumeSnapshotMaxSizeSet T url E sz =
     client_do T (''failed to set SnapshotMaxSize to '' @ showInt sz @ '' for volume '' @ url) (VolumeSnapshotMaxSizeSet E sz)"

definition cl_ReplicaList :: "('w \<Rightarrow> delivery) \<Rightarrow> string \<Rightarrow> ('b, 'f, 'w, (string \<times> mode) list) handler" where
  "cl_ReplicaList T url c w =
     map_option (\<lambda>(r, c, w). (case r of Inl e \<Rightarrow> Inl e | Inr crs \<Rightarrow> Inr (map GetControllerReplicaInfo crs), c, w))
       (client_call T (''failed to list replicas for volume '' @ url) ReplicaList c w)"

definition cl_ReplicaGet :: "('w \<Rightarrow> delivery) \<Rightarrow> string \<Rightarrow> string \<Rightarrow> ('b, 'f, 'w, string \<times> mode) handler" where
  "cl_ReplicaGet T url address c w =
     replica_info (client_call T (''failed to get replica '' @ address @ '' for volume '' @ url) (ReplicaGet address) c w)"

definition cl_ReplicaCreate :: "('w \<Rightarrow> delivery) \<Rightarrow> string \<Rightarrow> ('b, 'f, 'w) ctl_env \<Rightarrow> string \<Rightarrow> bool \<Rightarrow> mode \<Rightarrow> ('b, 'f, 'w, string \<times> mode) handler" where
  "cl_ReplicaCreate T url E address snapshotRequired mo c w =
     replica_info (client_call T (''failed to create replica '' @ address @ '' for volume '' @ url)
       (ControllerReplicaCreate E address snapshotRequired (ReplicaModeToGRPCReplicaMode mo)) c w)"

definition cl_ReplicaDelete :: "('w \<Rightarrow> delivery) \<Rightarrow> string \<Rightarrow> ('b, 'f, 'w) ctl_env \<Rightarrow> string \<Rightarrow> ('b, 'f, 'w, unit) handler" where
  "cl_ReplicaDelete T url E address = client_do T (''failed to delete replica '' @ address @ '' for volume '' @ url) (ReplicaDelete E address)"

definition cl_ReplicaUpdate :: "('w \<Rightarrow> delivery) \<Rightarrow> string \<Rightarrow> ('b, 'f, 'w) ctl_env \<Rightarrow> string \<Rightarrow> mode \<Rightarrow> ('b, 'f, 'w, string \<times> mode) handler" where
  "cl_ReplicaUpdate T url E address mo c w =
     replica_info (client_call T (''failed to update replica '' @ address @ '' for volume '' @ url)
       (ReplicaUpdate E address (ReplicaModeToGRPCReplicaMode mo)) c w)"

definition cl_ReplicaPrepareRebuild ::
  "('w \<Rightarrow> delivery) \<Rightarrow> string \<Rightarrow> ('b, 'f, 'w) ctl_env \<Rightarrow> 'w rclient \<Rightarrow> string \<Rightarrow> string \<Rightarrow> ('b, 'f, 'w, SyncFileInfo list) handler" where
  "cl_ReplicaPrepareRebuild T url E R address instanceName c w =
     map_option (\<lambda>(r, c, w). (case r of Inl e \<Rightarrow> Inl e | Inr (_, infos) \<Rightarrow> Inr infos, c, w))
       (client_call T (''failed to prepare rebuilding replica '' @ address @ '' for volume '' @ url) (ReplicaPrepareRebuild E R address instanceName) c w)"

definition cl_ReplicaVerifyRebuild ::
  "('w \<Rightarrow> delivery) \<Rightarrow> string \<Rightarrow> ('b, 'f, 'w) ctl_env \<Rightarrow> 'w rclient \<Rightarrow> string \<Rightarrow> string \<Rightarrow> ('b, 'f, 'w, unit) handler" where
  "cl_ReplicaVerifyRebuild T url E R address instanceName =
     client_do T (''failed to verify rebuilt replica '' @ address @ '' for volume '' @ url) (ReplicaVerifyRebuild E R address instanceName)"

end
