(* ===== verification/Volume_Task.thy ===== *)
theory Volume_Task
  imports Sync_Task Sync_Task_Thms Controller_Client
begin

text \<open>
  The tasks of a volume on the controller: the calls of the task go through the client of the controller to its handlers, the calls to the replicas are those
  of an environment of replicas.
\<close>

section \<open>The calls\<close>

text \<open>A call of a controller that panicked is answered by the transport.\<close>

definition volume_call :: "('b, 'f, 'w, 'a) handler \<Rightarrow> ('b, 'f) controller \<times> 'w \<Rightarrow> (error + 'a) \<times> ('b, 'f) controller \<times> 'w" where
  "volume_call h s = (case h (fst s) (snd s) of None \<Rightarrow> (Inl (Errorf ''rpc error: code = Unavailable''), s) | Some (r, c, w) \<Rightarrow> (r, (c, w)))"

definition replica_call :: "('w \<Rightarrow> 'a \<times> 'w) \<Rightarrow> 'c \<times> 'w \<Rightarrow> 'a \<times> 'c \<times> 'w" where
  "replica_call f s = (let (r, w) = f (snd s) in (r, (fst s, w)))"

definition drop_reply :: "(error + 'a) \<times> 's \<Rightarrow> error option \<times> 's" where
  "drop_reply r = (case r of (Inl e, s) \<Rightarrow> (Some e, s) | (Inr _, s) \<Rightarrow> (None, s))"

definition volume_task ::
  "('w \<Rightarrow> delivery) \<Rightarrow> string \<Rightarrow> ('b, 'f, 'w) ctl_env \<Rightarrow> 'w rclient \<Rightarrow> 'w task_env \<Rightarrow> (('b, 'f) controller \<times> 'w) task_env" where
  "volume_task T url E R F =
     \<lparr>te_ReplicaList = volume_call (cl_ReplicaList T url),
      te_VolumeGet = (\<lambda>s. case volume_call (cl_VolumeGet T url E) s of (Inl e, s) \<Rightarrow> (Inl e, s) | (Inr v, s) \<Rightarrow> (Inr (rv_ReplicaCount v, rv_Size v), s)),
      te_VolumeStart = (\<lambda>sz cur as s. drop_reply (volume_call (cl_VolumeStart T url E sz cur as) s)),
      te_ReplicaCreate = (\<lambda>a sn mo s. drop_reply (volume_call (cl_ReplicaCreate T url E a sn mo) s)),
      te_ReplicaPrepareRebuild = (\<lambda>a i. volume_call (cl_ReplicaPrepareRebuild T url E R a i)),
      te_ReplicaVerifyRebuild = (\<lambda>a i s. drop_reply (volume_call (cl_ReplicaVerifyRebuild T url E R a i) s)),
      te_NewReplicaClient = (\<lambda>a i. replica_call (te_NewReplicaClient F a i)),
      te_GetReplica = (\<lambda>a. replica_call (te_GetReplica F a)),
      te_OpenReplica = (\<lambda>a. replica_call (te_OpenReplica F a)),
      te_CloseReplica = (\<lambda>a. replica_call (te_CloseReplica F a)),
      te_ExpandReplica = (\<lambda>a n. replica_call (te_ExpandReplica F a n)),
      te_ReloadReplica = (\<lambda>a. replica_call (te_ReloadReplica F a)),
      te_SetRebuilding = (\<lambda>a b. replica_call (te_SetRebuilding F a b)),
      te_SyncFiles = (\<lambda>a f infos. replica_call (te_SyncFiles F a f infos)),
      te_MarkDiskAsRemoved = (\<lambda>a n. replica_call (te_MarkDiskAsRemoved F a n)),
      te_SnapshotPurge = (\<lambda>a. replica_call (te_SnapshotPurge F a)),
      te_SnapshotPurgeStatus = (\<lambda>a. replica_call (te_SnapshotPurgeStatus F a)),
      te_RestoreStatus = (\<lambda>a. replica_call (te_RestoreStatus F a)),
      te_ReplicaRebuildStatus = (\<lambda>a. replica_call (te_ReplicaRebuildStatus F a)),
      te_CloneSnapshot = (\<lambda>a f n. replica_call (te_CloneSnapshot F a f n)),
      te_SnapshotCloneStatus = (\<lambda>a. replica_call (te_SnapshotCloneStatus F a)),
      te_SnapshotHash = (\<lambda>a n b. replica_call (te_SnapshotHash F a n b)),
      te_SnapshotHashStatus = (\<lambda>a n. replica_call (te_SnapshotHashStatus F a n)),
      te_SnapshotHashCancel = (\<lambda>a n. replica_call (te_SnapshotHashCancel F a n)),
      te_SnapshotHashLockState = (\<lambda>a. replica_call (te_SnapshotHashLockState F a))\<rparr>"

section \<open>The controller keeps its invariant\<close>

text \<open>A revision counter is never -1, which VerifyRebuildReplica takes for a failure that it does not report.\<close>

definition counters_ok :: "('b, 'w) backend_ops \<Rightarrow> bool" where
  "counters_ok ops \<longleftrightarrow> (\<forall>h w. be_GetRevisionCounter ops h w \<noteq> (- 1, None))"

lemma VerifyRebuild_RW:
  assumes inv: "ctl_inv c" and ok: "counters_ok ops" and v: "VerifyRebuildReplica ops R c a i w = Some (None, c', w')"
  shows "map_of (c_replicas c') a = Some RW"
proof -
  obtain cur rw where x: "getCurrentAndRWReplica c a = Inr (cur, rw)"
  proof (cases "getCurrentAndRWReplica c a")
    case (Inl e)
    then show ?thesis using v by (simp add: VerifyRebuildReplica_def)
  next
    case (Inr x)
    then show ?thesis using that by (cases x) simp
  qed
  then obtain mo where g: "getCurrentAndRWReplica c a = Inr ((a, mo), rw)"
    using getCurrentAndRWReplica_mem(1) [OF x] by (cases cur) simp
  have m: "map_of (c_replicas c) a = Some mo"
    using getCurrentAndRWReplica_mem(2) [OF g] replicas_map_of [OF inv] by simp
  have gc: "n \<noteq> - 1" if q: "rep_GetRevisionCounter ops r b w1 = Some (n, None)" for r b w1 n
  proof -
    obtain x h where "map_of (backends r) b = Some x" "bw_backend x = Some h"
      using q by (cases "map_of (backends r) b"; cases "bw_backend (the (map_of (backends r) b))") (auto simp: rep_GetRevisionCounter_def)
    then show ?thesis using q ok
      by (cases "be_GetRevisionCounter ops h w1"; cases "snd (be_GetRevisionCounter ops h w1)")
        (auto simp: rep_GetRevisionCounter_def counters_ok_def)
  qed
  have nc: "copy_revision_counter ops c b a w1 \<noteq> Some (False, None, w2)" for b w1 w2
    using gc [of "c_backend c" b w1] by (auto simp: copy_revision_counter_def Wrapf_def bind_eq_Some_conv split: if_splits)
  show ?thesis
  proof (cases "mo = RW")
    case True
    then show ?thesis using v g m by (cases rw) (simp add: VerifyRebuildReplica_def)
  next
    case False
    then obtain w1 w2 where s: "setReplicaModeNoLock ops c a RW w1 = Some (c', w2)" "mo = WO"
      using v g nc by (cases rw) (auto simp: VerifyRebuildReplica_def bind_eq_Some_conv split: if_splits sum.splits)
    obtain r w3 where "setReplicaModeNoLock ops c a RW w1 = Some (c\<lparr>c_replicas := set_mode a RW (c_replicas c), c_backend := r\<rparr>, w3)"
      by (rule setReplicaModeNoLock_spec [OF inv, of RW ops a w1]) auto
    with s m show ?thesis by (auto simp: map_of_set_mode)
  qed
qed

lemma volume_do_ok:
  assumes "drop_reply (volume_call (client_do T msg h) s) = (None, s')"
  shows "\<exists>y. h (fst s) (snd s) = Some (Inr y, fst s', snd s')"
proof (cases "client_do T msg h (fst s) (snd s)")
  case None
  then show ?thesis using assms by (simp add: drop_reply_def volume_call_def)
next
  case (Some z)
  obtain r c1 w1 where "z = (r, c1, w1)" by (cases z)
  then show ?thesis using Some assms client_do_ok [of T msg h "fst s" "snd s"] by (cases r) (auto simp: drop_reply_def volume_call_def)
qed

lemma volume_call_inv:
  assumes "ctl_inv (fst s)" "\<And>r c w. h (fst s) (snd s) = Some (r, c, w) \<Longrightarrow> ctl_inv c"
  shows "ctl_inv (fst (snd (volume_call h s)))"
  using assms by (auto simp: volume_call_def split: option.splits)

lemma replica_info_Some:
  assumes "replica_info x = Some (r, c, w)"
  shows "\<exists>y. x = Some (y, c, w)"
proof (cases x)
  case (Some z)
  obtain y c1 w1 where z: "z = (y, c1, w1)" by (cases z)
  show ?thesis
  proof (cases y)
    case (Inr cr)
    then show ?thesis using assms Some z by (cases cr) (simp_all add: replica_info_def)
  qed (use assms Some z in \<open>simp add: replica_info_def\<close>)
qed (use assms in \<open>simp add: replica_info_def\<close>)

lemma create_inv:
  assumes "ctl_inv c" "cl_ReplicaCreate T url E a sn mo c w = Some (r, c', w')"
  shows "ctl_inv c'"
proof -
  obtain x where "client_call T (''failed to create replica '' @ a @ '' for volume '' @ url)
      (ControllerReplicaCreate E a sn (ReplicaModeToGRPCReplicaMode mo)) c w = Some (x, c', w')"
    using replica_info_Some [OF assms(2) [unfolded cl_ReplicaCreate_def]] by (elim exE)
  then show ?thesis
  proof (rule client_call_cases)
    fix y assume "ControllerReplicaCreate E a sn (ReplicaModeToGRPCReplicaMode mo) c w = Some (y, c', w')"
    with addReplica_inv [OF assms(1), of E a sn mo w] show "ctl_inv c'" by (auto simp: ControllerReplicaCreate_def replica_reply_def)
  qed (simp add: assms(1))
qed

lemma prepare_inv: "ctl_inv c \<Longrightarrow> cl_ReplicaPrepareRebuild T url E R a i c w = Some (r, c', w') \<Longrightarrow> ctl_inv c'"
  by (auto simp: cl_ReplicaPrepareRebuild_def ReplicaPrepareRebuild_def elim!: client_call_cases)

lemma list_inv: "ctl_inv c \<Longrightarrow> cl_ReplicaList T url c w = Some (r, c', w') \<Longrightarrow> ctl_inv c'"
  by (auto simp: cl_ReplicaList_def ReplicaList_def elim!: client_call_cases)

lemma get_inv: "ctl_inv c \<Longrightarrow> cl_VolumeGet T url E c w = Some (r, c', w') \<Longrightarrow> ctl_inv c'"
  by (auto simp: cl_VolumeGet_def VolumeGet_def elim!: client_call_cases)

lemma drop_reply_simps [simp]: "snd (drop_reply x) = snd x" "fst (drop_reply x) = None \<longleftrightarrow> (\<exists>y. fst x = Inr y)"
  by (auto simp: drop_reply_def split: prod.splits sum.splits)

lemma replica_call_simps [simp]: "fst (snd (replica_call f s)) = fst s"
  by (simp add: replica_call_def split: prod.splits)

lemma vt_inv [simp]:
  assumes "ctl_inv (fst s)"
  shows "ctl_inv (fst (snd (te_VolumeGet (volume_task T url E R F) s)))" "ctl_inv (fst (snd (te_ReplicaList (volume_task T url E R F) s)))"
    "ctl_inv (fst (snd (te_ReplicaCreate (volume_task T url E R F) a sn mo s)))"
    "ctl_inv (fst (snd (te_ReplicaPrepareRebuild (volume_task T url E R F) a i s)))"
proof -
  have "ctl_inv (fst (snd (volume_call (cl_VolumeGet T url E) s)))" by (rule volume_call_inv [OF assms]) (rule get_inv [OF assms])
  then show "ctl_inv (fst (snd (te_VolumeGet (volume_task T url E R F) s)))" by (auto simp: volume_task_def split: prod.splits sum.splits)
  have "ctl_inv (fst (snd (volume_call (cl_ReplicaList T url) s)))" by (rule volume_call_inv [OF assms]) (rule list_inv [OF assms])
  then show "ctl_inv (fst (snd (te_ReplicaList (volume_task T url E R F) s)))" by (simp add: volume_task_def)
  have "ctl_inv (fst (snd (volume_call (cl_ReplicaCreate T url E a sn mo) s)))" by (rule volume_call_inv [OF assms]) (rule create_inv [OF assms])
  then show "ctl_inv (fst (snd (te_ReplicaCreate (volume_task T url E R F) a sn mo s)))" by (simp add: volume_task_def)
  have "ctl_inv (fst (snd (volume_call (cl_ReplicaPrepareRebuild T url E R a i) s)))" by (rule volume_call_inv [OF assms]) (rule prepare_inv [OF assms])
  then show "ctl_inv (fst (snd (te_ReplicaPrepareRebuild (volume_task T url E R F) a i s)))" by (simp add: volume_task_def)
qed

lemma vt_replicas [simp]:
  "fst (snd (te_NewReplicaClient (volume_task T url E R F) a i s)) = fst s" "fst (snd (te_GetReplica (volume_task T url E R F) a s)) = fst s"
  "fst (snd (te_OpenReplica (volume_task T url E R F) a s)) = fst s" "fst (snd (te_CloseReplica (volume_task T url E R F) a s)) = fst s"
  "fst (snd (te_ExpandReplica (volume_task T url E R F) a n s)) = fst s" "fst (snd (te_ReloadReplica (volume_task T url E R F) a s)) = fst s"
  "fst (snd (te_SetRebuilding (volume_task T url E R F) a b s)) = fst s" "fst (snd (te_SyncFiles (volume_task T url E R F) a f infos s)) = fst s"
  "fst (snd (te_SnapshotPurgeStatus (volume_task T url E R F) a s)) = fst s"
  by (simp_all add: volume_task_def)

lemma vt_verify:
  assumes "ctl_inv (fst s)" "counters_ok (bops E)" "te_ReplicaVerifyRebuild (volume_task T url E R F) a i s = (None, s')"
  shows "map_of (c_replicas (fst s')) a = Some RW"
proof -
  obtain y where "ReplicaVerifyRebuild E R a i (fst s) (snd s) = Some (Inr y, fst s', snd s')"
    using assms(3) volume_do_ok [of T _ "ReplicaVerifyRebuild E R a i" s s'] by (auto simp: volume_task_def cl_ReplicaVerifyRebuild_def)
  then have "VerifyRebuildReplica (bops E) R (fst s) a i (snd s) = Some (None, fst s', snd s')"
    by (auto simp: ReplicaVerifyRebuild_def replica_reply_def split: option.splits)
  with assms(1,2) show ?thesis by (blast intro: VerifyRebuild_RW)
qed

interpretation vt: add_calls "volume_task T url E R F" "\<lambda>s. c_replicas (fst s)" "\<lambda>s. ctl_inv (fst s) \<and> counters_ok (bops E)"
  by unfold_locales (auto intro: vt_verify)


text \<open>A controller with two replicas, to which a third is added.\<close>

definition ex_volume :: "((string, unit) controller \<times> demo_world) task_env" where
  "ex_volume = volume_task (\<lambda>_. Delivered) ''vol'' ((demo_env 2 no_faults)\<lparr>bops := demo_rest\<rparr>) demo_verify ex_task"

lemma ex_add: "fst (AddReplica_task ex_volume 8 8 ''c'' ''i'' (demo_ctl RW, demo_world)) = None"
  by code_simp


end
