(* ===== verification/Labels.thy ===== *)
theory Labels
  imports Disk_Names
begin

text \<open>
  Names and labels (src/pkg/util/validation.go and ParseLabels, ValidVolumeName of util.go).  The regular expressions of the source are terms, matched with
  derivatives; \<open>matches\<close> is what a match means, and the matcher decides it.
\<close>

section \<open>Regular expressions\<close>

datatype re = Never | Empty | Cls "char \<Rightarrow> bool" | Seq re re | Alt re re | Star re

inductive matches :: "re \<Rightarrow> string \<Rightarrow> bool" where
  m_empty: "matches Empty []"
| m_cls: "p c \<Longrightarrow> matches (Cls p) [c]"
| m_seq: "matches r a \<Longrightarrow> matches q b \<Longrightarrow> matches (Seq r q) (a @ b)"
| m_left: "matches r a \<Longrightarrow> matches (Alt r q) a"
| m_right: "matches q a \<Longrightarrow> matches (Alt r q) a"
| m_none: "matches (Star r) []"
| m_more: "matches r a \<Longrightarrow> matches (Star r) b \<Longrightarrow> matches (Star r) (a @ b)"

inductive_cases never_cases [elim!]: "matches Never s"
inductive_cases empty_cases [elim!]: "matches Empty s"
inductive_cases cls_cases [elim!]: "matches (Cls p) s"
inductive_cases seq_cases [elim!]: "matches (Seq r q) s"
inductive_cases alt_cases [elim!]: "matches (Alt r q) s"

primrec nullable :: "re \<Rightarrow> bool" where
  "nullable Never = False"
| "nullable Empty = True"
| "nullable (Cls p) = False"
| "nullable (Seq r q) = (nullable r \<and> nullable q)"
| "nullable (Alt r q) = (nullable r \<or> nullable q)"
| "nullable (Star r) = True"

primrec deriv :: "char \<Rightarrow> re \<Rightarrow> re" where
  "deriv c Never = Never"
| "deriv c Empty = Never"
| "deriv c (Cls p) = (if p c then Empty else Never)"
| "deriv c (Seq r q) = (if nullable r then Alt (Seq (deriv c r) q) (deriv c q) else Seq (deriv c r) q)"
| "deriv c (Alt r q) = Alt (deriv c r) (deriv c q)"
| "deriv c (Star r) = Seq (deriv c r) (Star r)"

definition MatchString :: "re \<Rightarrow> string \<Rightarrow> bool" where
  "MatchString r s = nullable (foldl (\<lambda>r c. deriv c r) r s)"

lemma nullable_iff: "nullable r \<longleftrightarrow> matches r []"
  by (induction r) (auto intro: matches.intros m_seq [where a = "[]" and b = "[]", simplified])

lemma star_Cons:
  "matches (Star r) s \<Longrightarrow> s = c # t \<Longrightarrow> \<exists>a b. t = a @ b \<and> matches r (c # a) \<and> matches (Star r) b"
proof (induction "Star r" s arbitrary: t rule: matches.induct)
  case (m_more a b)
  then show ?case by (cases a) auto
qed auto

lemma deriv_iff: "matches (deriv c r) s \<longleftrightarrow> matches r (c # s)"
proof (induction r arbitrary: s)
  case (Seq r q)
  show ?case
  proof
    assume "matches (deriv c (Seq r q)) s"
    then show "matches (Seq r q) (c # s)"
      using Seq m_seq [of r "[]" q "c # s"] by (auto simp: nullable_iff split: if_splits dest: m_seq [of r _ q] simp flip: append_Cons)
  next
    assume "matches (Seq r q) (c # s)"
    then obtain a b where ab: "c # s = a @ b" "matches r a" "matches q b" by auto
    then show "matches (deriv c (Seq r q)) s"
    proof (cases a)
      case Nil
      then show ?thesis using ab Seq by (auto simp: nullable_iff intro: m_right)
    next
      case (Cons x xs)
      then show ?thesis using ab Seq by (auto intro: m_left m_seq)
    qed
  qed
next
  case (Star r)
  show ?case
  proof
    assume "matches (deriv c (Star r)) s"
    then show "matches (Star r) (c # s)" using Star by (auto dest: m_more simp flip: append_Cons)
  next
    assume "matches (Star r) (c # s)"
    then obtain a b where "s = a @ b" "matches r (c # a)" "matches (Star r) b" using star_Cons by blast
    then show "matches (deriv c (Star r)) s" using Star by (simp add: m_seq)
  qed
qed (auto intro: matches.intros)

lemma MatchString_iff: "MatchString r s \<longleftrightarrow> matches r s"
  unfolding MatchString_def by (induction s arbitrary: r) (simp_all add: nullable_iff deriv_iff)

section \<open>Qualified names\<close>

definition between :: "nat \<Rightarrow> nat \<Rightarrow> char \<Rightarrow> bool" where
  "between a b c \<longleftrightarrow> a \<le> (of_char c :: nat) \<and> (of_char c :: nat) \<le> b"

definition alnum_lower :: "char \<Rightarrow> bool" where "alnum_lower c \<longleftrightarrow> between 97 122 c \<or> isDigit c"
definition alnum :: "char \<Rightarrow> bool" where "alnum c \<longleftrightarrow> alnum_lower c \<or> between 65 90 c"

definition opt :: "re \<Rightarrow> re" where "opt r = Alt r Empty"

definition qnameCharFmt :: re where "qnameCharFmt = Cls alnum"
definition qnameExtCharFmt :: re where "qnameExtCharFmt = Cls (\<lambda>c. alnum c \<or> c \<in> set ''-_.'')"
definition qualifiedNameFmt :: re where "qualifiedNameFmt = Seq (opt (Seq qnameCharFmt (Star qnameExtCharFmt))) qnameCharFmt"
definition dns1123LabelFmt :: re where
  "dns1123LabelFmt = Seq (Cls alnum_lower) (opt (Seq (Star (Cls (\<lambda>c. alnum_lower c \<or> c = CHR ''-''))) (Cls alnum_lower)))"
definition dns1123SubdomainFmt :: re where "dns1123SubdomainFmt = Seq dns1123LabelFmt (Star (Seq (Cls (\<lambda>c. c = CHR ''.'')) dns1123LabelFmt))"
definition validVolumeName :: re where
  "validVolumeName = Seq (Cls alnum) (Seq (Cls (\<lambda>c. alnum c \<or> c \<in> set ''_.-'')) (Star (Cls (\<lambda>c. alnum c \<or> c \<in> set ''_.-''))))"

text \<open>The texts of the expressions, for the messages.\<close>

definition qualifiedNameFmt_text :: string where "qualifiedNameFmt_text = ''([A-Za-z0-9][-A-Za-z0-9_.]*)?[A-Za-z0-9]''"
definition dns1123LabelFmt_text :: string where "dns1123LabelFmt_text = ''[a-z0-9]([-a-z0-9]*[a-z0-9])?''"
definition dns1123SubdomainFmt_text :: string where
  "dns1123SubdomainFmt_text = dns1123LabelFmt_text @ ''('' @ [CHR 0x5C] @ ''.'' @ dns1123LabelFmt_text @ '')*''"
definition quoted :: "string \<Rightarrow> string" where "quoted s = CHR 0x27 # s @ [CHR 0x27]"
definition qualifiedNameErrMsg :: string where
  "qualifiedNameErrMsg = ''must consist of alphanumeric characters, '' @ quoted ''-'' @ '', '' @ quoted ''_'' @ '' or '' @ quoted ''.'' @
     '', and must start and end with an alphanumeric character''"
definition dns1123SubdomainErrorMsg :: string where
  "dns1123SubdomainErrorMsg = ''a DNS-1123 subdomain must consist of lower case alphanumeric characters, '' @ quoted ''-'' @ '' or '' @ quoted ''.'' @
     '', and must start and end with an alphanumeric character''"

definition MaxLenError :: "nat \<Rightarrow> string" where
  "MaxLenError n = ''must be no more than '' @ showNat n @ '' characters''"

definition RegexError :: "string \<Rightarrow> string \<Rightarrow> string list \<Rightarrow> string" where
  "RegexError msg fmt examples =
     (if examples = [] then msg @ '' (regex used for validation is '' @ quoted fmt @ '')''
      else msg @ '' (e.g. '' @ join '' or '' (map (\<lambda>e. quoted e @ '', '') examples) @ ''regex used for validation is '' @ quoted fmt @ '')'')"

definition EmptyError :: string where "EmptyError = ''must be non-empty''"

definition prefixEach :: "string list \<Rightarrow> string \<Rightarrow> string list" where
  "prefixEach msgs prefix = map (\<lambda>m. prefix @ m) msgs"

definition IsDNS1123Subdomain :: "string \<Rightarrow> string list" where
  "IsDNS1123Subdomain value =
     (if length value > 253 then [MaxLenError 253] else []) @
     (if \<not> MatchString dns1123SubdomainFmt value then [RegexError dns1123SubdomainErrorMsg dns1123SubdomainFmt_text [''example.com'']] else [])"

text \<open>strings.Split at a character.\<close>

fun Split :: "char \<Rightarrow> string \<Rightarrow> string list" where
  "Split c [] = [[]]"
| "Split c (x # s) = (if x = c then [] # Split c s else case Split c s of p # ps \<Rightarrow> (x # p) # ps | [] \<Rightarrow> [[x]])"

definition qname_error :: string where
  "qname_error = RegexError qualifiedNameErrMsg qualifiedNameFmt_text [''MyName'', ''my.name'', ''123-abc'']"

definition name_errors :: "string \<Rightarrow> string list" where
  "name_errors name =
     (if name = '''' then [''name part '' @ EmptyError] else if length name > 63 then [''name part '' @ MaxLenError 63] else []) @
     (if \<not> MatchString qualifiedNameFmt name then [''name part '' @ qname_error] else [])"

definition IsQualifiedName :: "string \<Rightarrow> string list" where
  "IsQualifiedName value =
     (case Split CHR ''/'' value of
        [name] \<Rightarrow> name_errors name
      | [prefix, name] \<Rightarrow>
          (if prefix = '''' then [''prefix part '' @ EmptyError] else prefixEach (IsDNS1123Subdomain prefix) ''prefix part '') @ name_errors name
      | _ \<Rightarrow> [''a qualified name '' @ qname_error @ '' with an optional DNS subdomain prefix and '' @ quoted ''/'' @ '' (e.g. '' @ quoted ''example.com/MyName'' @ '')''])"

definition ValidVolumeName :: "string \<Rightarrow> bool" where
  "ValidVolumeName name = (if length name > 64 then False else MatchString validVolumeName name)"

definition Volume2ISCSIName :: "string \<Rightarrow> string" where
  "Volume2ISCSIName name = map (\<lambda>c. if c = CHR ''_'' then CHR '':'' else c) name"

section \<open>Labels\<close>

text \<open>strings.SplitN with limit 2 at a character that occurs.\<close>

definition cut :: "char \<Rightarrow> string \<Rightarrow> (string \<times> string) option" where
  "cut c s = (if c \<in> set s then Some (takeWhile (\<lambda>x. x \<noteq> c) s, tl (dropWhile (\<lambda>x. x \<noteq> c) s)) else None)"

fun labels_loop :: "string list \<Rightarrow> (string \<times> string) list \<Rightarrow> error + (string \<times> string) list" where
  "labels_loop [] result = Inr result"
| "labels_loop (label # labels) result =
     (case cut CHR ''='' label of
        None \<Rightarrow> Inl (Errorf (''invalid label not in <key>=<value> format '' @ label))
      | Some (key, value) \<Rightarrow>
          (case IsQualifiedName key of
             e # _ \<Rightarrow> Inl (Errorf (''invalid key '' @ key @ '' for label: '' @ e))
           | [] \<Rightarrow> if value = '''' then Inl (Errorf (''invalid empty value for label with key '' @ key))
                  else labels_loop labels (AList.update key value result)))"

definition ParseLabels :: "string list \<Rightarrow> error + (string \<times> string) list" where
  "ParseLabels labels = labels_loop labels []"

section \<open>What is accepted\<close>

lemma star_cls: "matches (Star (Cls p)) s \<longleftrightarrow> list_all p s"
proof
  assume "matches (Star (Cls p)) s"
  then show "list_all p s" by (induction "Star (Cls p)" s rule: matches.induct) auto
next
  assume "list_all p s"
  then show "matches (Star (Cls p)) s"
  proof (induction s)
    case (Cons c s)
    then show ?case using m_more [OF m_cls [of p c], of s] by simp
  qed (simp add: m_none)
qed

lemma matches_simps:
  "matches (Cls p) s \<longleftrightarrow> (\<exists>c. s = [c] \<and> p c)"
  "matches (Seq r q) s \<longleftrightarrow> (\<exists>a b. s = a @ b \<and> matches r a \<and> matches q b)"
  "matches (opt r) s \<longleftrightarrow> s = [] \<or> matches r s"
  by (auto simp: opt_def intro: matches.intros)

lemma qualified_name_iff:
  "MatchString qualifiedNameFmt s \<longleftrightarrow> s \<noteq> [] \<and> alnum (hd s) \<and> alnum (last s) \<and> list_all (\<lambda>c. alnum c \<or> c \<in> set ''-_.'') s"
proof
  assume "MatchString qualifiedNameFmt s"
  then show "s \<noteq> [] \<and> alnum (hd s) \<and> alnum (last s) \<and> list_all (\<lambda>c. alnum c \<or> c \<in> set ''-_.'') s"
    by (auto simp: MatchString_iff qualifiedNameFmt_def qnameCharFmt_def qnameExtCharFmt_def matches_simps star_cls hd_append)
next
  assume a: "s \<noteq> [] \<and> alnum (hd s) \<and> alnum (last s) \<and> list_all (\<lambda>c. alnum c \<or> c \<in> set ''-_.'') s"
  then obtain t x where s: "s = t @ [x]" by (metis rev_exhaust)
  show "MatchString qualifiedNameFmt s"
  proof (cases t)
    case Nil
    then have "matches (Cls alnum) s" using a s by (auto simp: matches_simps)
    then show ?thesis using m_seq [of "opt (Seq qnameCharFmt (Star qnameExtCharFmt))" "[]"]
      by (simp add: MatchString_iff qualifiedNameFmt_def qnameCharFmt_def matches_simps(3))
  next
    case (Cons c u)
    have "matches (opt (Seq (Cls alnum) (Star (Cls (\<lambda>c. alnum c \<or> c \<in> set ''-_.''))))) t"
      unfolding matches_simps star_cls using a s Cons by (intro disjI2 exI [of _ "[c]"] exI [of _ u]) simp
    then show ?thesis using a s
      by (auto simp: MatchString_iff qualifiedNameFmt_def qnameCharFmt_def qnameExtCharFmt_def matches_simps(1) intro!: m_seq)
  qed
qed

lemma cut_iff: "cut c s = Some (k, v) \<longleftrightarrow> s = k @ c # v \<and> c \<notin> set k"
proof
  assume "cut c s = Some (k, v)"
  then have i: "c \<in> set s" "k = takeWhile (\<lambda>x. x \<noteq> c) s" "v = tl (dropWhile (\<lambda>x. x \<noteq> c) s)" by (auto simp: cut_def split: if_splits)
  obtain d ds where d: "dropWhile (\<lambda>x. x \<noteq> c) s = d # ds" using i(1) by (cases "dropWhile (\<lambda>x. x \<noteq> c) s") auto
  then have "d = c" using hd_dropWhile [of "\<lambda>x. x \<noteq> c" s] by (metis list.distinct(1) list.sel(1))
  then have "s = k @ c # v" using i d takeWhile_dropWhile_id [of "\<lambda>x. x \<noteq> c" s] by simp
  then show "s = k @ c # v \<and> c \<notin> set k" using i(2) by (auto dest: set_takeWhileD)
next
  assume "s = k @ c # v \<and> c \<notin> set k"
  then show "cut c s = Some (k, v)" by (auto simp: cut_def takeWhile_append dropWhile_append)
qed

text \<open>A label is a key that is a qualified name, an equals sign and a value that is not empty.\<close>

definition label_ok :: "string \<Rightarrow> string \<times> string \<Rightarrow> bool" where
  "label_ok label kv \<longleftrightarrow> label = fst kv @ CHR ''='' # snd kv \<and> CHR ''='' \<notin> set (fst kv) \<and> IsQualifiedName (fst kv) = [] \<and> snd kv \<noteq> ''''"

lemma labels_loop_iff:
  "labels_loop labels result = Inr m \<longleftrightarrow> (\<exists>kvs. list_all2 label_ok labels kvs \<and> m = fold (\<lambda>(k, v). AList.update k v) kvs result)"
proof (induction labels arbitrary: result)
  case (Cons label labels)
  show ?case
  proof (cases "cut CHR ''='' label")
    case None
    then have "\<not> label_ok label kv" for kv using cut_iff [of "CHR ''=''" label "fst kv" "snd kv"] by (auto simp: label_ok_def)
    then show ?thesis using None by (auto simp: list_all2_Cons1)
  next
    case (Some kv)
    then have kv: "label_ok label x \<longleftrightarrow> x = kv \<and> IsQualifiedName (fst kv) = [] \<and> snd kv \<noteq> ''''" for x
      using cut_iff [of "CHR ''=''" label "fst kv" "snd kv"] cut_iff [of "CHR ''=''" label "fst x" "snd x"] by (auto simp: label_ok_def)
    show ?thesis
      using Some Cons.IH by (cases kv) (auto simp: list_all2_Cons1 kv split: list.splits)
  qed
qed auto

lemma fold_update_map_of: "map_of (fold (\<lambda>(k, v). AList.update k v) kvs result) = map_of result ++ map_of (rev kvs)"
  by (induction kvs arbitrary: result) (auto simp: update_conv' map_add_def fun_eq_iff split: option.splits)


lemma unprefixed_name_iff:
  "CHR ''/'' \<notin> set k \<Longrightarrow> IsQualifiedName k = [] \<longleftrightarrow> k \<noteq> [] \<and> length k \<le> 63 \<and> MatchString qualifiedNameFmt k"
proof -
  have "CHR ''/'' \<notin> set k \<Longrightarrow> Split CHR ''/'' k = [k]" by (induction k) auto
  then show "CHR ''/'' \<notin> set k \<Longrightarrow> IsQualifiedName k = [] \<longleftrightarrow> k \<noteq> [] \<and> length k \<le> 63 \<and> MatchString qualifiedNameFmt k"
    by (simp add: IsQualifiedName_def name_errors_def)
qed

lemma labels_loop_Inl: "labels_loop labels result = Inl e \<Longrightarrow> list_ex (\<lambda>label. \<forall>kv. \<not> label_ok label kv) labels"
proof (induction labels arbitrary: result)
  case (Cons label labels)
  show ?case
  proof (cases "\<exists>kv. label_ok label kv")
    case True
    then obtain k v where ok: "label_ok label (k, v)" by (metis surj_pair)
    then have "cut CHR ''='' label = Some (k, v)" by (simp add: cut_iff label_ok_def)
    then have "labels_loop labels (AList.update k v result) = Inl e" using ok Cons.prems by (simp add: label_ok_def)
    then show ?thesis using Cons.IH by auto
  qed simp
qed simp


end
