(* ===== verification/Replica_Service.thy ===== *)
theory Replica_Service
  imports Replica_Server Grpc
begin

text \<open>
  The gRPC service of a replica (src/pkg/replica/rpc/server.go).  A handler works on the server of the replica and its directory; None is a panic or a
  walk along the parents that does not end.  Describing the replica measures its files, and a file that cannot be measured puts the replica in error.
\<close>

section \<open>The replica\<close>

definition listReplicaDisks :: "('h, 's) fs_env \<Rightarrow> 'h server \<Rightarrow> 's fsys \<Rightarrow> (string \<times> DiskInfo) list \<times> 'h server" where
  "listReplicaDisks E s fs =
     (case s_r s of
        None \<Rightarrow> ([], s)
      | Some r \<Rightarrow> (let (ds, r) = ListDisks E fs r in (ds, s\<lparr>s_r := Some r\<rparr>)))"

definition closed_replica :: "replicaState \<Rightarrow> Info \<Rightarrow> (string \<times> DiskInfo) list \<Rightarrow> ReplicaInfo" where
  "closed_replica state info disks =
     \<lparr>ri_Dirty = i_Dirty info, ri_Rebuilding = i_Rebuilding info, ri_Head = i_Head info, ri_Parent = i_Parent info, ri_Size = showInt (i_Size info),
      ri_SectorSize = i_SectorSize info, ri_BackingFile = i_BackingFilePath info, ri_State = state_name state, ri_Chain = [], ri_Disks = disks,
      ri_RemainSnapshots = 0, ri_RevisionCounter = 0, ri_LastModifyTime = 0, ri_HeadFileSize = 0, ri_RevisionCounterDisabled = False,
      ri_UnmapMarkDiskChainRemoved = False, ri_SnapshotCountUsage = 0, ri_SnapshotSizeUsage = 0\<rparr>"

text \<open>The error of DisplayChain is dropped, and its chain is then nil.\<close>

definition open_replica ::
  "('h, 's) fs_env \<Rightarrow> 'h replica \<Rightarrow> 's fsys \<Rightarrow> ReplicaInfo \<Rightarrow> (ReplicaInfo \<times> 'h replica) option" where
  "open_replica E r fs rep = do {
     chain \<leftarrow> DisplayChain r;
     let remain = int32 (getRemainSnapshotCounts r);
     let cnt = int32 (getSnapshotCountUsage r);
     let (sizeUsage, r) = rp_GetSnapshotSizeUsage E fs r;
     let disabled = r_revisionCounterDisabled r;
     let ((modifyTime, headFileSize), r) = GetReplicaStat E fs r;
     Some (rep\<lparr>ri_Chain := (case chain of Inl _ \<Rightarrow> [] | Inr c \<Rightarrow> c), ri_RemainSnapshots := remain, ri_SnapshotCountUsage := cnt,
             ri_SnapshotSizeUsage := sizeUsage, ri_RevisionCounter := (if disabled then 0 else r_revisionCache r), ri_RevisionCounterDisabled := disabled,
             ri_LastModifyTime := modifyTime, ri_HeadFileSize := headFileSize, ri_UnmapMarkDiskChainRemoved := r_unmapMarkDiskChainRemoved r\<rparr>, r)
   }"

definition getReplica :: "('h, 's) fs_env \<Rightarrow> 'h server \<Rightarrow> 's fsys \<Rightarrow> (ReplicaInfo \<times> 'h server \<times> 's fsys) option" where
  "getReplica E s fs =
     (let (state, info, fs) = Status E s fs;
          (disks, s) = listReplicaDisks E s fs;
          rep = closed_replica state info disks
      in case s_r s of
           None \<Rightarrow> Some (rep, s, fs)
         | Some r \<Rightarrow> do { (rep, r) \<leftarrow> open_replica E r fs rep; Some (rep, s\<lparr>s_r := Some r\<rparr>, fs) })"

section \<open>Handlers\<close>

type_synonym ('h, 's, 'a) rhandler = "('h server, 's fsys, 'a) rpc"

text \<open>A handler that answers with the replica when the call of the server succeeds.\<close>

definition replica_answer ::
  "('h, 's) fs_env \<Rightarrow> (error option \<times> 'h server \<times> 's fsys) option \<Rightarrow> ((error + ReplicaInfo) \<times> 'h server \<times> 's fsys) option" where
  "replica_answer E x = do {
     (err, s, fs) \<leftarrow> x;
     (case err of
        Some e \<Rightarrow> Some (Inl e, s, fs)
      | None \<Rightarrow> do { (rep, s, fs) \<leftarrow> getReplica E s fs; Some (Inr rep, s, fs) })
   }"

text \<open>strconv.ParseInt: the error carries the text.\<close>

definition parse_error :: "string \<Rightarrow> error" where
  "parse_error s = Errorf (''strconv.ParseInt: parsing '' @ s)"

definition rs_ReplicaCreate :: "('h, 's) fs_env \<Rightarrow> string \<Rightarrow> ('h, 's, ReplicaInfo) rhandler" where
  "rs_ReplicaCreate E sz s fs =
     (case (if sz = '''' then Some 0 else ParseInt sz) of
        None \<Rightarrow> Some (Inl (parse_error sz), s, fs)
      | Some n \<Rightarrow> replica_answer E (map_option (\<lambda>(err, fs). (err, s, fs)) (srv_Create E s n fs)))"

definition rs_ReplicaDelete :: "('h, 's) fs_env \<Rightarrow> ('h, 's, unit) rhandler" where
  "rs_ReplicaDelete E s fs = (let (err, s, fs) = srv_Delete E s fs in Some (case err of Some e \<Rightarrow> Inl e | None \<Rightarrow> Inr (), s, fs))"

definition rs_ReplicaGet :: "('h, 's) fs_env \<Rightarrow> ('h, 's, ReplicaInfo) rhandler" where
  "rs_ReplicaGet E s fs = replica_answer E (Some (None, s, fs))"

definition rs_ReplicaOpen :: "('h, 's) fs_env \<Rightarrow> ('h, 's, ReplicaInfo) rhandler" where
  "rs_ReplicaOpen E s fs = replica_answer E (srv_Open E s fs)"

definition rs_ReplicaClose :: "('h, 's) fs_env \<Rightarrow> ('h, 's, ReplicaInfo) rhandler" where
  "rs_ReplicaClose E s fs = replica_answer E (Some (srv_Close E s fs))"

definition rs_ReplicaReload :: "('h, 's) fs_env \<Rightarrow> ('h, 's, ReplicaInfo) rhandler" where
  "rs_ReplicaReload E s fs = replica_answer E (srv_Reload E s fs)"

definition named_request :: "string \<Rightarrow> string \<Rightarrow> error option" where
  "named_request name created =
     (if name = '''' then Some (Errorf ''cannot accept empty snapshot name'')
      else if created = '''' then Some (Errorf ''need to specific created time'') else None)"

definition rs_ReplicaRevert :: "('h, 's) fs_env \<Rightarrow> string \<Rightarrow> string \<Rightarrow> ('h, 's, ReplicaInfo) rhandler" where
  "rs_ReplicaRevert E name created s fs =
     (case named_request name created of
        Some e \<Rightarrow> Some (Inl e, s, fs)
      | None \<Rightarrow> replica_answer E (srv_Revert E s name created fs))"

definition rs_ReplicaSnapshot ::
  "('h, 's) fs_env \<Rightarrow> string \<Rightarrow> bool \<Rightarrow> string \<Rightarrow> (string \<times> string) list option \<Rightarrow> ('h, 's, ReplicaInfo) rhandler" where
  "rs_ReplicaSnapshot E name userCreated created labels s fs =
     (case named_request name created of
        Some e \<Rightarrow> Some (Inl e, s, fs)
      | None \<Rightarrow> replica_answer E (srv_Snapshot E s name userCreated created labels fs))"

text \<open>An error of Expand is sent as the JSON text of a types.Error; \<open>J\<close> is json.Marshal of the three fields.\<close>

definition code_of :: "error \<Rightarrow> string \<times> string \<times> string" where
  "code_of e = (case e of TypesError code msg rb \<Rightarrow> (code, msg, rb) | _ \<Rightarrow> (ErrorCodeFunctionFailedWithoutRollback, Error_msg e, ''''))"

definition rs_ReplicaExpand ::
  "(string \<times> string \<times> string \<Rightarrow> string) \<Rightarrow> ('h, 's) fs_env \<Rightarrow> int \<Rightarrow> 'h server \<Rightarrow> 's fsys \<Rightarrow> ((string \<times> string + ReplicaInfo) \<times> 'h server \<times> 's fsys) option" where
  "rs_ReplicaExpand J E sz s fs =
     map_option (\<lambda>(r, s, fs). (case r of Inl e \<Rightarrow> Inl (''Internal'', J (code_of e)) | Inr rep \<Rightarrow> Inr rep, s, fs)) (replica_answer E (srv_Expand E s sz fs))"

definition rs_DiskRemove :: "('h, 's) fs_env \<Rightarrow> string \<Rightarrow> bool \<Rightarrow> ('h, 's, ReplicaInfo) rhandler" where
  "rs_DiskRemove E name force s fs = replica_answer E (srv_RemoveDiffDisk E s name force fs)"

definition rs_DiskReplace :: "('h, 's) fs_env \<Rightarrow> string \<Rightarrow> string \<Rightarrow> ('h, 's, ReplicaInfo) rhandler" where
  "rs_DiskReplace E target source s fs = replica_answer E (srv_ReplaceDisk E s target source fs)"

definition rs_DiskPrepareRemove :: "string \<Rightarrow> ('h, 's, PrepareRemoveAction list) rhandler" where
  "rs_DiskPrepareRemove name s fs = Some (srv_PrepareRemoveDisk s name, s, fs)"

definition rs_DiskMarkAsRemoved :: "('h, 's) fs_env \<Rightarrow> string \<Rightarrow> ('h, 's, ReplicaInfo) rhandler" where
  "rs_DiskMarkAsRemoved E name s fs = replica_answer E (srv_MarkDiskAsRemoved E s name fs)"

definition rs_RebuildingSet :: "('h, 's) fs_env \<Rightarrow> bool \<Rightarrow> ('h, 's, ReplicaInfo) rhandler" where
  "rs_RebuildingSet E rebuilding s fs = replica_answer E (srv_SetRebuilding E s rebuilding fs)"

definition rs_RevisionCounterSet :: "('h, 's) fs_env \<Rightarrow> int \<Rightarrow> ('h, 's, ReplicaInfo) rhandler" where
  "rs_RevisionCounterSet E counter s fs = replica_answer E (srv_SetRevisionCounter E s counter fs)"

definition rs_UnmapMarkDiskChainRemovedSet :: "('h, 's) fs_env \<Rightarrow> bool \<Rightarrow> ('h, 's, ReplicaInfo) rhandler" where
  "rs_UnmapMarkDiskChainRemovedSet E enabled s fs = replica_answer E (Some (None, srv_SetUnmapMarkDiskChainRemoved s enabled, fs))"

definition rs_SnapshotMaxCountSet :: "('h, 's) fs_env \<Rightarrow> int \<Rightarrow> ('h, 's, ReplicaInfo) rhandler" where
  "rs_SnapshotMaxCountSet E cnt s fs = replica_answer E (Some (None, srv_SetSnapshotMaxCount s cnt, fs))"

definition rs_SnapshotMaxSizeSet :: "('h, 's) fs_env \<Rightarrow> int \<Rightarrow> ('h, 's, ReplicaInfo) rhandler" where
  "rs_SnapshotMaxSizeSet E sz s fs = replica_answer E (Some (None, srv_SetSnapshotMaxSize s sz, fs))"

end
