(* ===== verification/Addresses.thy ===== *)
theory Addresses
  imports Disk_Names
begin

text \<open>
  The addresses of the services of a replica (src/pkg/util/util.go): a replica listens on three consecutive ports, for its service, its data and its sync
  agent.  SplitHostPort and JoinHostPort are those of package net.
\<close>

section \<open>Host and port\<close>

text \<open>The text before and after the last occurrence of a character.\<close>

definition split_last :: "char \<Rightarrow> string \<Rightarrow> (string \<times> string) option" where
  "split_last c s = (if c \<in> set s then Some (rev (tl (dropWhile (\<lambda>x. x \<noteq> c) (rev s))), rev (takeWhile (\<lambda>x. x \<noteq> c) (rev s))) else None)"

definition addr_error :: "string \<Rightarrow> string \<Rightarrow> error" where
  "addr_error why hostport = Errorf (''address '' @ hostport @ '': '' @ why)"

definition SplitHostPort :: "string \<Rightarrow> error + string \<times> string" where
  "SplitHostPort hostport =
     (case split_last CHR '':'' hostport of
        None \<Rightarrow> Inl (addr_error ''missing port in address'' hostport)
      | Some (pre, port) \<Rightarrow>
          if hd hostport = CHR ''['' then
            (if CHR '']'' \<notin> set hostport then Inl (addr_error (''missing '' @ [CHR '']''] @ '' in address'') hostport)
             else
               let host = takeWhile (\<lambda>c. c \<noteq> CHR '']'') (tl hostport);
                   rest = drop (Suc (length host)) (tl hostport)
               in if rest = CHR '':'' # port then
                    (if CHR ''['' \<in> set (tl hostport) then Inl (addr_error (''unexpected '' @ [CHR ''['']  @ '' in address'') hostport)
                     else if CHR '']'' \<in> set rest then Inl (addr_error (''unexpected '' @ [CHR '']''] @ '' in address'') hostport)
                     else Inr (host, port))
                  else if rest \<noteq> [] \<and> hd rest = CHR '':'' then Inl (addr_error ''too many colons in address'' hostport)
                  else Inl (addr_error ''missing port in address'' hostport))
          else if CHR '':'' \<in> set pre then Inl (addr_error ''too many colons in address'' hostport)
          else if CHR ''['' \<in> set hostport then Inl (addr_error (''unexpected '' @ [CHR ''['']  @ '' in address'') hostport)
          else if CHR '']'' \<in> set hostport then Inl (addr_error (''unexpected '' @ [CHR '']''] @ '' in address'') hostport)
          else Inr (pre, port))"

definition JoinHostPort :: "string \<Rightarrow> string \<Rightarrow> string" where
  "JoinHostPort host port =
     (if CHR '':'' \<in> set host then CHR ''['' # host @ CHR '']'' # CHR '':'' # port else host @ CHR '':'' # port)"

text \<open>strconv.Atoi: the value that comes with an error is 0, or the nearest int when the number is too large.\<close>

definition Atoi :: "string \<Rightarrow> int \<times> error option" where
  "Atoi s =
     (let (neg, ds) = (case s of c # r \<Rightarrow> if c = CHR ''-'' then (True, r) else if c = CHR ''+'' then (False, r) else (False, s) | [] \<Rightarrow> (False, s))
      in case parseDigits ds of
           None \<Rightarrow> (0, Some (Errorf (''strconv.Atoi: parsing '' @ s @ '': invalid syntax'')))
         | Some n \<Rightarrow> (let i = (if neg then - int n else int n)
             in if i < minInt64 then (minInt64, Some (Errorf (''strconv.Atoi: parsing '' @ s @ '': value out of range'')))
                else if i > maxInt64 then (maxInt64, Some (Errorf (''strconv.Atoi: parsing '' @ s @ '': value out of range'')))
                else (i, None)))"

section \<open>The addresses of a replica\<close>

definition ParseAddresses :: "string \<Rightarrow> error + string \<times> string \<times> string \<times> int" where
  "ParseAddresses name =
     (case SplitHostPort name of
        Inl _ \<Rightarrow> Inl (Errorf (''invalid address '' @ name @ '' : couldn't find host and port''))
      | Inr (host, strPort) \<Rightarrow>
          (let port = fst (Atoi strPort)
           in Inr (JoinHostPort host (showInt port), JoinHostPort host (showInt (int64 (port + 1))), JoinHostPort host (showInt (int64 (port + 2))),
                   int64 (port + 2))))"

definition GetPortFromAddress :: "string \<Rightarrow> error + int" where
  "GetPortFromAddress address =
     (let address = TrimSuffix address ''/v1''
      in case SplitHostPort address of
           Inl _ \<Rightarrow> Inl (Errorf (''invalid address '' @ address @ '', must have a port in it''))
         | Inr (_, strPort) \<Rightarrow> (case Atoi strPort of (_, Some e) \<Rightarrow> Inl e | (port, None) \<Rightarrow> Inr port))"

definition unixDomainSocketDirectoryInContainer :: string where
  "unixDomainSocketDirectoryInContainer = ''/host/var/lib/longhorn/unix-domain-socket/''"

datatype DataServerProtocol = TCP | UNIX | OtherProtocol string

definition protocol_name :: "DataServerProtocol \<Rightarrow> string" where
  "protocol_name p = (case p of TCP \<Rightarrow> ''tcp'' | UNIX \<Rightarrow> ''unix'' | OtherProtocol n \<Rightarrow> n)"

text \<open>filepath.Join of the directory, which ends in a slash, and a volume name without slashes.\<close>

definition GetAddresses :: "string \<Rightarrow> string \<Rightarrow> DataServerProtocol \<Rightarrow> error + string \<times> string \<times> string \<times> int" where
  "GetAddresses volumeName address p =
     (case p of
        TCP \<Rightarrow> ParseAddresses address
      | UNIX \<Rightarrow> (case ParseAddresses address of
          Inl e \<Rightarrow> Inl e
        | Inr (controlAddress, _, syncAddress, syncPort) \<Rightarrow>
            Inr (controlAddress, unixDomainSocketDirectoryInContainer @ volumeName @ ''.sock'', syncAddress, syncPort))
      | OtherProtocol n \<Rightarrow> Inl (Errorf (''unsupported protocol: '' @ n)))"

section \<open>Round trips\<close>

lemma split_last_append: "c \<notin> set b \<Longrightarrow> split_last c (a @ c # b) = Some (a, b)"
  by (simp add: split_last_def dropWhile_append takeWhile_append)

definition plain :: "string \<Rightarrow> bool" where
  "plain s \<longleftrightarrow> CHR ''['' \<notin> set s \<and> CHR '']'' \<notin> set s"

lemma takeWhile_until: "c \<notin> set a \<Longrightarrow> takeWhile (\<lambda>x. x \<noteq> c) (a @ c # b) = a"
  by (simp add: takeWhile_append)

lemma SplitHostPort_Join:
  assumes "plain host" "plain port" "CHR '':'' \<notin> set port"
  shows "SplitHostPort (JoinHostPort host port) = Inr (host, port)"
proof (cases "CHR '':'' \<in> set host")
  case True
  have "CHR ''['' # host @ CHR '']'' # CHR '':'' # port = (CHR ''['' # host @ [CHR '']'']) @ CHR '':'' # port" by simp
  then have "split_last CHR '':'' (CHR ''['' # host @ CHR '']'' # CHR '':'' # port) = Some (CHR ''['' # host @ [CHR '']''], port)"
    using split_last_append [OF assms(3)] by metis
  then show ?thesis using True assms by (simp add: SplitHostPort_def JoinHostPort_def plain_def takeWhile_until)
next
  case False
  have "hd (host @ CHR '':'' # port) \<noteq> CHR ''[''" using assms(1) by (cases host) (auto simp: plain_def)
  then show ?thesis using False assms split_last_append [OF assms(3)] by (simp add: SplitHostPort_def JoinHostPort_def plain_def)
qed

lemma ParseInt_Atoi: "ParseInt s = Some i \<Longrightarrow> Atoi s = (i, None)"
  by (auto simp: ParseInt_def Atoi_def Let_def split: list.splits if_splits option.splits)

lemma digits_plain:
  assumes "0 \<le> i"
  shows "plain (showInt i)" "CHR '':'' \<notin> set (showInt i)"
proof -
  have d: "isDigit c" if "c \<in> set (showInt i)" for c
    using that showNat_digits [of "nat i"] assms by (simp add: showInt_def list_all_iff)
  then show "plain (showInt i)" "CHR '':'' \<notin> set (showInt i)"
    by (auto simp: plain_def isDigit_def dest!: d)
qed

lemma JoinHostPort_inj:
  assumes "JoinHostPort h p = JoinHostPort h' p'" "plain h" "plain h'" "plain p" "plain p'" "CHR '':'' \<notin> set p" "CHR '':'' \<notin> set p'"
  shows "h = h' \<and> p = p'"
  using assms SplitHostPort_Join by (metis Pair_inject sum.inject(2))

lemma ParseAddresses_ports:
  assumes "plain host" "0 \<le> port" "port \<le> 65533"
  shows "ParseAddresses (JoinHostPort host (showInt port)) =
    Inr (JoinHostPort host (showInt port), JoinHostPort host (showInt (port + 1)), JoinHostPort host (showInt (port + 2)), port + 2)"
proof -
  have b: "minInt64 \<le> port" "port \<le> maxInt64" "int64 (port + 1) = port + 1" "int64 (port + 2) = port + 2"
    using assms(2,3) by (simp_all add: minInt64_def maxInt64_def)
  have "Atoi (showInt port) = (port, None)" using ParseInt_Atoi [OF ParseInt_showInt] b(1,2) by blast
  then show ?thesis using b SplitHostPort_Join [OF assms(1) digits_plain [OF assms(2)]] by (simp add: ParseAddresses_def)
qed

text \<open>The services of two replicas on a host do not share a port when the ports of the replicas are three apart.\<close>

lemma addresses_disjoint:
  assumes "plain host" "0 \<le> p" "p + 3 \<le> q" "q \<le> 65533"
    and "ParseAddresses (JoinHostPort host (showInt p)) = Inr (a1, a2, a3, n)" "ParseAddresses (JoinHostPort host (showInt q)) = Inr (b1, b2, b3, m)"
  shows "distinct [a1, a2, a3, b1, b2, b3]"
proof -
  have j: "JoinHostPort host (showInt i) = JoinHostPort host (showInt k) \<longleftrightarrow> i = k" if "0 \<le> i" "0 \<le> k" for i k
    using JoinHostPort_inj [of host "showInt i" host "showInt k"] digits_plain [OF that(1)] digits_plain [OF that(2)] assms(1) showInt_inj by blast
  show ?thesis using assms(2-6) ParseAddresses_ports [OF assms(1), of p] ParseAddresses_ports [OF assms(1), of q] j by auto
qed

end
