(* ===== verification/Remote_Backend.thy ===== *)
theory Remote_Backend
  imports Replica_Service Addresses Data_Conn
begin

text \<open>
  The backend of the controller for a replica elsewhere (src/pkg/backend/remote/remote.go): its control operations are calls of the replica's service, its
  data go through a data connection.  The world of a remote is the number of calls made so far and the directory of the replica.
\<close>

section \<open>Calls\<close>

text \<open>Dialling, by the number of calls made; the data connections, by their index; and the delivery of a call.\<close>

record transport =
  t_dial :: "nat \<Rightarrow> error option"
  t_deliver :: "nat \<Rightarrow> delivery"
  t_connect :: "string \<Rightarrow> nat \<Rightarrow> error option"

type_synonym ('h, 's, 'a) remote_op = "('h server, nat \<times> 's fsys, 'a) rpc"

definition lift_fs :: "('c \<Rightarrow> 'v \<Rightarrow> ('r \<times> 'c \<times> 'v) option) \<Rightarrow> 'c \<Rightarrow> nat \<times> 'v \<Rightarrow> ('r \<times> 'c \<times> nat \<times> 'v) option" where
  "lift_fs h s w = map_option (\<lambda>(r, s, fs). (r, s, fst w, fs)) (h s (snd w))"

definition next_call :: "nat \<times> 'v \<Rightarrow> nat \<times> 'v" where
  "next_call w = (Suc (fst w), snd w)"

text \<open>A call of the service: the texts are those of a failed dial and of a failed call.\<close>

definition remote_call :: "transport \<Rightarrow> string \<Rightarrow> string \<Rightarrow> ('h, 's, 'a) rhandler \<Rightarrow> ('h, 's, 'a) remote_op" where
  "remote_call X dialText text h s w =
     (case t_dial X (fst w) of
        Some e \<Rightarrow> Some (Inl (Wrapped dialText e), s, next_call w)
      | None \<Rightarrow> client_call (\<lambda>_. t_deliver X (fst w)) text (lift_fs h) s (next_call w))"

definition reply_error :: "((error + 'a) \<times> 'c \<times> 'w) option \<Rightarrow> (error option \<times> 'c \<times> 'w) option" where
  "reply_error x = map_option (\<lambda>(r, c, w). (case r of Inl e \<Rightarrow> Some e | Inr _ \<Rightarrow> None, c, w)) x"

section \<open>The remote\<close>

record remote =
  rm_name :: string
  rm_replicaServiceURL :: string
  rm_volumeName :: string
  rm_client :: "client option"

definition cannot_connect :: "remote \<Rightarrow> string" where
  "cannot_connect r = ''cannot connect to ReplicaService '' @ rm_replicaServiceURL r"

text \<open>Close ends the data connection first; the shared timeouts are \<open>t\<close> and the time is \<open>now\<close>.\<close>

definition remote_Close ::
  "transport \<Rightarrow> ('h, 's) fs_env \<Rightarrow> int \<Rightarrow> remote \<Rightarrow> shared_timeouts \<Rightarrow> 'h server \<Rightarrow> nat \<times> 's fsys \<Rightarrow>
     (error option \<times> remote \<times> shared_timeouts \<times> 'h server \<times> nat \<times> 's fsys) option" where
  "remote_Close X E now r t s w =
     (let (r, t) = (case rm_client r of None \<Rightarrow> (r, t) | Some c \<Rightarrow> (let (c, t) = client_step now End (c, t) in (r\<lparr>rm_client := Some c\<rparr>, t)))
      in map_option (\<lambda>(err, s, w). (err, r, t, s, w))
           (reply_error (remote_call X (cannot_connect r) (''failed to close replica '' @ rm_replicaServiceURL r @ '' from remote'') (rs_ReplicaClose E) s w)))"

definition remote_open :: "transport \<Rightarrow> ('h, 's) fs_env \<Rightarrow> remote \<Rightarrow> 'h server \<Rightarrow> nat \<times> 's fsys \<Rightarrow> (error option \<times> 'h server \<times> nat \<times> 's fsys) option" where
  "remote_open X E r s w =
     reply_error (remote_call X (cannot_connect r) (''failed to open replica '' @ rm_replicaServiceURL r @ '' from remote'') (rs_ReplicaOpen E) s w)"

text \<open>gRPC does not tell an empty map from a nil one.\<close>

definition remote_Snapshot ::
  "transport \<Rightarrow> ('h, 's) fs_env \<Rightarrow> remote \<Rightarrow> string \<Rightarrow> bool \<Rightarrow> string \<Rightarrow> (string \<times> string) list \<Rightarrow> 'h server \<Rightarrow> nat \<times> 's fsys \<Rightarrow>
     (error option \<times> 'h server \<times> nat \<times> 's fsys) option" where
  "remote_Snapshot X E r name userCreated created labels s w =
     reply_error (remote_call X (cannot_connect r) (''failed to snapshot replica '' @ rm_replicaServiceURL r @ '' from remote'')
       (rs_ReplicaSnapshot E name userCreated created (if labels = [] then None else Some labels)) s w)"

text \<open>Expand: the error is decoded from the status and gets its text from the deferred WrapError; \<open>J\<close> and \<open>U\<close> are json.Marshal and json.Unmarshal.\<close>

definition remote_Expand ::
  "transport \<Rightarrow> (string \<times> string \<times> string \<Rightarrow> string) \<Rightarrow> (string \<Rightarrow> error + string \<times> string \<times> string) \<Rightarrow> ('h, 's) fs_env \<Rightarrow> remote \<Rightarrow> int \<Rightarrow>
     'h server \<Rightarrow> nat \<times> 's fsys \<Rightarrow> (error option \<times> 'h server \<times> nat \<times> 's fsys) option" where
  "remote_Expand X J U E r sz s w =
     map_option (\<lambda>(err, s, w). (WrapError err (''failed to expand replica '' @ rm_replicaServiceURL r @ '' from remote''), s, w))
       (case t_dial X (fst w) of
          Some e \<Rightarrow> Some (Some (Wrapped (cannot_connect r) e), s, next_call w)
        | None \<Rightarrow>
            map_option (\<lambda>(res, s, w). (case res of Inl e \<Rightarrow> Some (UnmarshalGRPCError FromError U e) | Inr _ \<Rightarrow> None, s, w))
              (status_call (\<lambda>_. t_deliver X (fst w)) (lift_fs (rs_ReplicaExpand J E sz)) s (next_call w)))"

definition remote_SetRevisionCounter ::
  "transport \<Rightarrow> ('h, 's) fs_env \<Rightarrow> remote \<Rightarrow> int \<Rightarrow> 'h server \<Rightarrow> nat \<times> 's fsys \<Rightarrow> (error option \<times> 'h server \<times> nat \<times> 's fsys) option" where
  "remote_SetRevisionCounter X E r counter s w =
     reply_error (remote_call X (cannot_connect r)
       (''failed to set revision counter to '' @ showInt counter @ '' for replica '' @ rm_replicaServiceURL r @ '' from remote'')
       (rs_RevisionCounterSet E counter) s w)"

section \<open>What the replica says of itself\<close>

definition GetDiskInfo :: "DiskInfo \<Rightarrow> DiskInfo" where
  "GetDiskInfo info = \<lparr>di_Name = di_Name info, di_Parent = di_Parent info, di_Children = di_Children info, di_Removed = di_Removed info,
     di_UserCreated = di_UserCreated info, di_Created = di_Created info, di_Size = di_Size info, di_Labels = di_Labels info\<rparr>"

definition GetReplicaInfo :: "ReplicaInfo \<Rightarrow> ReplicaInfo" where
  "GetReplicaInfo r = r\<lparr>ri_Disks := map (\<lambda>(diskName, diskInfo). (diskName, GetDiskInfo diskInfo)) (ri_Disks r)\<rparr>"

definition remote_info :: "transport \<Rightarrow> ('h, 's) fs_env \<Rightarrow> remote \<Rightarrow> ('h, 's, ReplicaInfo) remote_op" where
  "remote_info X E r s w =
     map_option (apfst (map_sum id GetReplicaInfo))
       (remote_call X (cannot_connect r) (''failed to get replica '' @ rm_replicaServiceURL r @ '' info from remote'') (rs_ReplicaGet E) s w)"

text \<open>A getter: a part of the info, or an error.\<close>

definition remote_get :: "transport \<Rightarrow> ('h, 's) fs_env \<Rightarrow> (ReplicaInfo \<Rightarrow> error + 'a) \<Rightarrow> remote \<Rightarrow> ('h, 's, 'a) remote_op" where
  "remote_get X E f r s w = map_option (\<lambda>(res, s, w). (case res of Inl e \<Rightarrow> Inl e | Inr info \<Rightarrow> f info, s, w)) (remote_info X E r s w)"

definition remote_Size :: "transport \<Rightarrow> ('h, 's) fs_env \<Rightarrow> remote \<Rightarrow> ('h, 's, int) remote_op" where
  "remote_Size X E = remote_get X E (\<lambda>info. case ParseInt (ri_Size info) of None \<Rightarrow> Inl (parse_error (ri_Size info)) | Some n \<Rightarrow> Inr n)"

definition remote_IsRevisionCounterDisabled :: "transport \<Rightarrow> ('h, 's) fs_env \<Rightarrow> remote \<Rightarrow> ('h, 's, bool) remote_op" where
  "remote_IsRevisionCounterDisabled X E = remote_get X E (\<lambda>info. Inr (ri_RevisionCounterDisabled info))"

definition remote_IsReplicaRebuilding :: "transport \<Rightarrow> ('h, 's) fs_env \<Rightarrow> remote \<Rightarrow> ('h, 's, bool) remote_op" where
  "remote_IsReplicaRebuilding X E = remote_get X E (\<lambda>info. Inr (ri_Rebuilding info))"

definition remote_GetLastModifyTime :: "transport \<Rightarrow> ('h, 's) fs_env \<Rightarrow> remote \<Rightarrow> ('h, 's, int) remote_op" where
  "remote_GetLastModifyTime X E = remote_get X E (\<lambda>info. Inr (ri_LastModifyTime info))"

definition remote_GetHeadFileSize :: "transport \<Rightarrow> ('h, 's) fs_env \<Rightarrow> remote \<Rightarrow> ('h, 's, int) remote_op" where
  "remote_GetHeadFileSize X E = remote_get X E (\<lambda>info. Inr (ri_HeadFileSize info))"

definition remote_SectorSize :: "transport \<Rightarrow> ('h, 's) fs_env \<Rightarrow> remote \<Rightarrow> ('h, 's, int) remote_op" where
  "remote_SectorSize X E = remote_get X E (\<lambda>info. Inr (ri_SectorSize info))"

definition remote_GetSnapshotCountAndSizeUsage :: "transport \<Rightarrow> ('h, 's) fs_env \<Rightarrow> remote \<Rightarrow> ('h, 's, int \<times> int) remote_op" where
  "remote_GetSnapshotCountAndSizeUsage X E = remote_get X E (\<lambda>info.
     if ri_State info \<in> {''open'', ''dirty'', ''rebuilding''} then Inr (ri_SnapshotCountUsage info, ri_SnapshotSizeUsage info)
     else Inl (Errorf (''invalid state '' @ ri_State info @ '' for counting snapshots'')))"

definition remote_GetRevisionCounter :: "transport \<Rightarrow> ('h, 's) fs_env \<Rightarrow> remote \<Rightarrow> ('h, 's, int) remote_op" where
  "remote_GetRevisionCounter X E = remote_get X E (\<lambda>info.
     if ri_State info \<in> {''open'', ''dirty''} then Inr (ri_RevisionCounter info)
     else Inl (Errorf (''invalid state '' @ ri_State info @ '' for getting revision counter'')))"

definition remote_GetState :: "transport \<Rightarrow> ('h, 's) fs_env \<Rightarrow> remote \<Rightarrow> ('h, 's, string) remote_op" where
  "remote_GetState X E = remote_get X E (\<lambda>info. Inr (ri_State info))"

definition remote_GetUnmapMarkSnapChainRemoved :: "transport \<Rightarrow> ('h, 's) fs_env \<Rightarrow> remote \<Rightarrow> ('h, 's, bool) remote_op" where
  "remote_GetUnmapMarkSnapChainRemoved X E = remote_get X E (\<lambda>info. Inr (ri_UnmapMarkDiskChainRemoved info))"

section \<open>Settings\<close>

definition failed_connecting :: "remote \<Rightarrow> string" where
  "failed_connecting r = ''failed connecting to ReplicaService '' @ rm_replicaServiceURL r"

definition remote_SetUnmapMarkSnapChainRemoved ::
  "transport \<Rightarrow> ('h, 's) fs_env \<Rightarrow> remote \<Rightarrow> bool \<Rightarrow> 'h server \<Rightarrow> nat \<times> 's fsys \<Rightarrow> (error option \<times> 'h server \<times> nat \<times> 's fsys) option" where
  "remote_SetUnmapMarkSnapChainRemoved X E r enabled s w =
     reply_error (remote_call X (failed_connecting r)
       (''failed to set UnmapMarkDiskChainRemoved to '' @ (if enabled then ''true'' else ''false'') @ '' for replica '' @ rm_replicaServiceURL r @ '' from remote'')
       (rs_UnmapMarkDiskChainRemovedSet E enabled) s w)"

definition remote_ResetRebuild :: "transport \<Rightarrow> ('h, 's) fs_env \<Rightarrow> remote \<Rightarrow> 'h server \<Rightarrow> nat \<times> 's fsys \<Rightarrow> (error option \<times> 'h server \<times> nat \<times> 's fsys) option" where
  "remote_ResetRebuild X E r s w = do {
     (res, s, w) \<leftarrow> remote_IsReplicaRebuilding X E r s w;
     (case res of
        Inl e \<Rightarrow> Some (Some e, s, w)
      | Inr False \<Rightarrow> Some (None, s, w)
      | Inr True \<Rightarrow> reply_error (remote_call X (failed_connecting r) (''failed to set replica '' @ rm_replicaServiceURL r @ '' rebuild to false'')
          (rs_RebuildingSet E False) s w))
   }"

definition remote_SetSnapshotMaxCount ::
  "transport \<Rightarrow> ('h, 's) fs_env \<Rightarrow> remote \<Rightarrow> int \<Rightarrow> 'h server \<Rightarrow> nat \<times> 's fsys \<Rightarrow> (error option \<times> 'h server \<times> nat \<times> 's fsys) option" where
  "remote_SetSnapshotMaxCount X E r cnt s w =
     reply_error (remote_call X (cannot_connect r)
       (''failed to set SnapshotMaxCount to '' @ showInt cnt @ '' for replica '' @ rm_replicaServiceURL r @ '' from remote'')
       (rs_SnapshotMaxCountSet E (int32 cnt)) s w)"

definition remote_SetSnapshotMaxSize ::
  "transport \<Rightarrow> ('h, 's) fs_env \<Rightarrow> remote \<Rightarrow> int \<Rightarrow> 'h server \<Rightarrow> nat \<times> 's fsys \<Rightarrow> (error option \<times> 'h server \<times> nat \<times> 's fsys) option" where
  "remote_SetSnapshotMaxSize X E r sz s w =
     reply_error (remote_call X (cannot_connect r)
       (''failed to set SnapshotMaxSize to '' @ showInt sz @ '' for replica '' @ rm_replicaServiceURL r @ '' from remote'')
       (rs_SnapshotMaxSizeSet E sz) s w)"

section \<open>Factory\<close>

definition NumberOfConnections :: nat where "NumberOfConnections = 2"

definition rm_connect :: "transport \<Rightarrow> DataServerProtocol \<Rightarrow> string \<Rightarrow> nat \<Rightarrow> error option" where
  "rm_connect X p address i =
     (case p of OtherProtocol n \<Rightarrow> Some (Errorf (''unsupported protocol: '' @ n)) | _ \<Rightarrow> t_connect X address i)"

fun connect_loop :: "transport \<Rightarrow> DataServerProtocol \<Rightarrow> string \<Rightarrow> nat \<Rightarrow> nat \<Rightarrow> error option" where
  "connect_loop X p address i 0 = None"
| "connect_loop X p address i (Suc n) =
     (case rm_connect X p address i of Some e \<Rightarrow> Some e | None \<Rightarrow> connect_loop X p address (Suc i) n)"

text \<open>The goroutine of the new client announces itself to the shared timeouts \<open>t\<close>, and nothing ends it when the replica cannot be opened.\<close>

definition remote_Create ::
  "transport \<Rightarrow> ('h, 's) fs_env \<Rightarrow> string \<Rightarrow> string \<Rightarrow> DataServerProtocol \<Rightarrow> shared_timeouts \<Rightarrow> 'h server \<Rightarrow> nat \<times> 's fsys \<Rightarrow>
     ((error + remote) \<times> shared_timeouts \<times> 'h server \<times> nat \<times> 's fsys) option" where
  "remote_Create X E volumeName address p t s w =
     (case GetAddresses volumeName address p of
        Inl e \<Rightarrow> Some (Inl e, t, s, w)
      | Inr (controlAddress, dataAddress, _, _) \<Rightarrow> do {
          let r = \<lparr>rm_name = address, rm_replicaServiceURL = controlAddress, rm_volumeName = volumeName, rm_client = None\<rparr>;
          (res, s, w) \<leftarrow> remote_info X E r s w;
          (case res of
             Inl e \<Rightarrow> Some (Inl e, t, s, w)
           | Inr replica \<Rightarrow>
               if ri_State replica \<noteq> state_name Closed
               then Some (Inl (Errorf (''replica must be closed, cannot add in state: '' @ ri_State replica)), t, s, w)
               else case connect_loop X p dataAddress 0 NumberOfConnections of
                 Some e \<Rightarrow> Some (Inl e, t, s, w)
               | None \<Rightarrow> do {
                   let (c, t) = client_loop [] t;
                   let r = r\<lparr>rm_client := Some c\<rparr>;
                   (err, s, w) \<leftarrow> remote_open X E r s w;
                   Some (case err of Some e \<Rightarrow> Inl e | None \<Rightarrow> Inr r, t, s, w)
                 })
        })"

section \<open>Monitoring\<close>

text \<open>
  The rounds of monitorPing: a request to stop, or a tick with the answer to the ping.  The result says whether the goroutine has ended, what it has sent to the
  monitor channel, and what it has told the client of the data connection.
\<close>

datatype monitor_event = CloseRequested | PingTick "error option"

fun monitorPing :: "monitor_event list \<Rightarrow> bool \<times> error option list \<times> client_event list" where
  "monitorPing [] = (False, [], [])"
| "monitorPing (CloseRequested # evs) = (True, [None], [])"
| "monitorPing (PingTick None # evs) = monitorPing evs"
| "monitorPing (PingTick (Some e) # evs) = (True, [Some e], [TransportErr e])"

end
