(* ===== verification/Remote_Thms.thy ===== *)
theory Remote_Thms
  imports Remote_Backend Replica_Data
begin

text \<open>
  The remote backend on the service of a replica: connecting to a replica opens it, the code of a failed expansion reaches the controller, and what a failed ping
  does to the data connection.
\<close>

section \<open>Calls\<close>

lemma client_call_Inr:
  assumes "client_call T msg h c w = Some (Inr x, c', w')"
  shows "h c w = Some (Inr x, c', w')"
proof (cases "h c w")
  case None
  then show ?thesis using assms by (auto simp: client_call_def rpc_call_def split: delivery.splits)
next
  case (Some z)
  obtain r c1 w1 where "z = (r, c1, w1)" by (cases z)
  then show ?thesis using Some assms by (cases r) (auto simp: client_call_def rpc_call_def split: delivery.splits)
qed

lemma remote_call_Inr:
  assumes "remote_call X d m h s w = Some (Inr x, s', w')"
  shows "\<exists>fs'. h s (snd w) = Some (Inr x, s', fs') \<and> w' = (Suc (fst w), fs')"
proof -
  have "client_call (\<lambda>_. t_deliver X (fst w)) m (lift_fs h) s (next_call w) = Some (Inr x, s', w')"
    using assms by (auto simp: remote_call_def split: option.splits)
  from client_call_Inr [OF this] show ?thesis by (auto simp: lift_fs_def next_call_def)
qed

lemma remote_call_Lost:
  "t_dial X (fst w) = None \<Longrightarrow> t_deliver X (fst w) = Lost e \<Longrightarrow> remote_call X d m h s w = Some (Inl (Wrapped m e), s, next_call w)"
  by (simp add: remote_call_def client_call_def rpc_call_def)

lemma remote_call_Delivered:
  "t_dial X (fst w) = None \<Longrightarrow> t_deliver X (fst w) = Delivered \<Longrightarrow> h s (snd w) = Some (Inr x, s', fs') \<Longrightarrow>
     remote_call X d m h s w = Some (Inr x, s', Suc (fst w), fs')"
  by (simp add: remote_call_def client_call_def rpc_call_def lift_fs_def next_call_def)

lemma reply_error_None: "reply_error x = Some (None, s, w) \<Longrightarrow> \<exists>y. x = Some (Inr y, s, w)"
  by (cases x) (auto simp: reply_error_def split: sum.splits)

section \<open>Describing the replica\<close>

lemma open_replica_state:
  assumes "open_replica E r fs rep = Some (rep', r')"
  shows "ri_State rep' = ri_State rep"
proof -
  obtain n r1 where u: "rp_GetSnapshotSizeUsage E fs r = (n, r1)" by (cases "rp_GetSnapshotSizeUsage E fs r")
  obtain mt hs r2 where "GetReplicaStat E fs r1 = ((mt, hs), r2)" by (cases "GetReplicaStat E fs r1") auto
  then show ?thesis using assms u by (auto simp: open_replica_def Let_def bind_eq_Some_conv)
qed

lemma getReplica_state:
  assumes "getReplica E s fs = Some (rep, s', fs')"
  shows "ri_State rep = state_name (fst (Status E s fs))" "s_r s' = None \<longleftrightarrow> s_r s = None" "fs' = snd (snd (Status E s fs))"
proof -
  obtain state info fs1 where st: "Status E s fs = (state, info, fs1)" by (cases "Status E s fs")
  have "ri_State rep = state_name state \<and> (s_r s' = None \<longleftrightarrow> s_r s = None) \<and> fs' = fs1"
  proof (cases "s_r s")
    case None
    then show ?thesis using assms st by (auto simp: getReplica_def listReplicaDisks_def closed_replica_def)
  next
    case (Some r)
    obtain ds r1 where "ListDisks E fs1 r = (ds, r1)" by (cases "ListDisks E fs1 r")
    then obtain rep1 r2 where "open_replica E r1 fs1 (closed_replica state info ds) = Some (rep, r2)" "s' = s\<lparr>s_r := Some r2\<rparr>" "fs' = fs1"
      using assms st Some by (auto simp: getReplica_def listReplicaDisks_def bind_eq_Some_conv)
    then show ?thesis using Some open_replica_state by (fastforce simp: closed_replica_def)
  qed
  then show "ri_State rep = state_name (fst (Status E s fs))" "s_r s' = None \<longleftrightarrow> s_r s = None" "fs' = snd (snd (Status E s fs))"
    using st by simp_all
qed

lemma replica_answer_Inr:
  assumes "replica_answer E x = Some (Inr rep, s', fs')"
  shows "\<exists>s fs. x = Some (None, s, fs) \<and> getReplica E s fs = Some (rep, s', fs')"
  using assms by (auto simp: replica_answer_def bind_eq_Some_conv split: option.splits)

lemma getReplica_closed: "s_r s = None \<Longrightarrow> \<exists>rep. getReplica E s fs = Some (rep, s, snd (snd (Status E s fs)))"
  by (cases "Status E s fs") (simp add: getReplica_def listReplicaDisks_def)

lemma state_name_inj: "state_name a = state_name b \<longleftrightarrow> a = b"
  by (cases a; cases b) (simp_all add: state_name_def)

lemma Status_closed: "fst (Status E s fs) = Closed \<Longrightarrow> s_r s = None"
  by (cases "s_r s") (auto simp: Status_def open_state_def split: if_splits)

lemma srv_Open_opens: "srv_Open E s fs = Some (None, s', fs') \<Longrightarrow> s_r s' \<noteq> None"
proof -
  assume a: "srv_Open E s fs = Some (None, s', fs')"
  obtain st info fs1 where st: "Status E s fs = (st, info, fs1)" by (cases "Status E s fs")
  obtain res fs2 where n: "new_of E s (i_Size info) fs1 = Some (res, fs2)" using a st by (auto simp: srv_Open_def bind_eq_Some_conv split: if_splits)
  then show "s_r s' \<noteq> None" using a st by (cases res) (auto simp: srv_Open_def split: if_splits)
qed

section \<open>Connecting\<close>

lemma remote_info_Inr:
  assumes "remote_info X E r s w = Some (Inr info, s', w')"
  shows "ri_State info = state_name (fst (Status E s (snd w)))" "s_r s' = None \<longleftrightarrow> s_r s = None"
    "w' = (Suc (fst w), snd (snd (Status E s (snd w))))"
proof -
  obtain res where c: "remote_call X (cannot_connect r) (''failed to get replica '' @ rm_replicaServiceURL r @ '' info from remote'') (rs_ReplicaGet E) s w =
      Some (res, s', w')" and m: "Inr info = map_sum id GetReplicaInfo res"
    using assms by (auto simp: remote_info_def)
  obtain rep where res: "res = Inr rep" and i: "info = GetReplicaInfo rep" using m by (cases res) simp_all
  from remote_call_Inr [OF c [unfolded res]] obtain fs' where "rs_ReplicaGet E s (snd w) = Some (Inr rep, s', fs')" and w: "w' = (Suc (fst w), fs')" by blast
  then have "getReplica E s (snd w) = Some (rep, s', fs')" using replica_answer_Inr by (fastforce simp: rs_ReplicaGet_def)
  from getReplica_state [OF this] i w
  show "ri_State info = state_name (fst (Status E s (snd w)))" "s_r s' = None \<longleftrightarrow> s_r s = None"
    "w' = (Suc (fst w), snd (snd (Status E s (snd w))))" by (simp_all add: GetReplicaInfo_def)
qed

lemma remote_open_None:
  assumes "remote_open X E r s w = Some (None, s', w')"
  shows "s_r s' \<noteq> None"
proof -
  obtain rep where "remote_call X (cannot_connect r) (''failed to open replica '' @ rm_replicaServiceURL r @ '' from remote'') (rs_ReplicaOpen E) s w =
      Some (Inr rep, s', w')"
    using reply_error_None [OF assms [unfolded remote_open_def]] by blast
  from remote_call_Inr [OF this] obtain fs' where "rs_ReplicaOpen E s (snd w) = Some (Inr rep, s', fs')" by blast
  then obtain s1 fs1 where "srv_Open E s (snd w) = Some (None, s1, fs1)" "getReplica E s1 fs1 = Some (rep, s', fs')"
    using replica_answer_Inr by (fastforce simp: rs_ReplicaOpen_def)
  then show ?thesis using srv_Open_opens getReplica_state(2) by blast
qed


lemma remote_call_cases:
  assumes "remote_call X d m h s w = Some (res, s', w')"
  obtains "s' = s" | r' fs' where "h s (snd w) = Some (r', s', fs')"
proof (cases "t_dial X (fst w)")
  case None
  then have "client_call (\<lambda>_. t_deliver X (fst w)) m (lift_fs h) s (next_call w) = Some (res, s', w')" using assms by (simp add: remote_call_def)
  then show ?thesis by (rule client_call_cases) (use that in \<open>auto simp: lift_fs_def next_call_def\<close>)
next
  case (Some e)
  then show ?thesis using assms that(1) by (simp add: remote_call_def)
qed

lemma remote_info_keeps:
  assumes "remote_info X E r s w = Some (res, s', w')"
  shows "s_r s' = None \<longleftrightarrow> s_r s = None"
proof -
  obtain res1 where "remote_call X (cannot_connect r) (''failed to get replica '' @ rm_replicaServiceURL r @ '' info from remote'') (rs_ReplicaGet E) s w =
      Some (res1, s', w')"
    using assms by (auto simp: remote_info_def)
  then show ?thesis
  proof (rule remote_call_cases)
    fix r' fs'
    assume "rs_ReplicaGet E s (snd w) = Some (r', s', fs')"
    then have "\<exists>rep. getReplica E s (snd w) = Some (rep, s', fs')" by (auto simp: rs_ReplicaGet_def replica_answer_def bind_eq_Some_conv)
    then show ?thesis using getReplica_state(2) by blast
  qed simp
qed

text \<open>The steps of Create, in the order in which they can fail.\<close>

lemma remote_Create_cases:
  assumes "remote_Create X E volumeName address p t s w = Some (res, t', s', w')"
  obtains (no_address) e where "GetAddresses volumeName address p = Inl e" "res = Inl e" "t' = t" "s' = s"
  | (no_info) r e where "remote_info X E r s w = Some (Inl e, s', w')" "res = Inl e" "t' = t"
  | (not_closed) r info e where "remote_info X E r s w = Some (Inr info, s', w')" "ri_State info \<noteq> state_name Closed" "res = Inl e" "t' = t"
  | (no_data) r info e where "remote_info X E r s w = Some (Inr info, s', w')" "ri_State info = state_name Closed" "res = Inl e" "t' = t"
  | (opened) r info s1 w1 err where "remote_info X E r s w = Some (Inr info, s1, w1)" "ri_State info = state_name Closed"
      "remote_open X E (r\<lparr>rm_client := Some new_client\<rparr>) s1 w1 = Some (err, s', w')"
      "res = (case err of Some e \<Rightarrow> Inl e | None \<Rightarrow> Inr (r\<lparr>rm_client := Some new_client\<rparr>))" "t' = Increment t"
proof (cases "GetAddresses volumeName address p")
  case (Inl e)
  then show ?thesis using assms no_address by (simp add: remote_Create_def)
next
  case (Inr a)
  obtain ca da sa n where a: "a = (ca, da, sa, n)" by (cases a)
  define r where "r = \<lparr>rm_name = address, rm_replicaServiceURL = ca, rm_volumeName = volumeName, rm_client = None\<rparr>"
  obtain ri s1 w1 where info: "remote_info X E r s w = Some (ri, s1, w1)"
    using assms Inr a by (cases "remote_info X E r s w") (auto simp: remote_Create_def simp flip: r_def)
  show ?thesis
  proof (cases ri)
    case Inl': (Inl e)
    then show ?thesis using assms Inr a info no_info by (simp add: remote_Create_def Let_def flip: r_def)
  next
    case Inr': (Inr rep)
    show ?thesis
    proof (cases "ri_State rep = state_name Closed")
      case False
      then show ?thesis using assms Inr a info Inr' by (intro not_closed [of r rep]) (auto simp: remote_Create_def Let_def simp flip: r_def)
    next
      case True
      show ?thesis
      proof (cases "connect_loop X p da 0 NumberOfConnections")
        case (Some e)
        then show ?thesis using assms Inr a info Inr' True by (intro no_data [of r rep e]) (auto simp: remote_Create_def Let_def simp flip: r_def)
      next
        case None
        then obtain err where "remote_open X E (r\<lparr>rm_client := Some new_client\<rparr>) s1 w1 = Some (err, s', w')"
            "res = (case err of Some e \<Rightarrow> Inl e | None \<Rightarrow> Inr (r\<lparr>rm_client := Some new_client\<rparr>))" "t' = Increment t"
          using assms Inr a info Inr' True by (auto simp: remote_Create_def client_loop_def Let_def bind_eq_Some_conv simp flip: r_def)
        then show ?thesis using opened info Inr' True by blast
      qed
    qed
  qed
qed

text \<open>
  C32: A remote is only created for a replica that was closed, and then the replica is open and the client of its data connection counts as a consumer of the
  shared timeouts; a replica that is open, in any state, is refused and its server keeps its replica.
\<close>

theorem remote_Create_opens:
  assumes "remote_Create X E volumeName address p t s w = Some (res, t', s', w')"
  shows "(\<not> isl res \<longrightarrow> fst (Status E s (snd w)) = Closed \<and> s_r s' \<noteq> None \<and> t' = Increment t \<and> rm_client (projr res) = Some new_client) \<and>
    (s_r s \<noteq> None \<longrightarrow> isl res \<and> s_r s' \<noteq> None \<and> t' = t)"
  using assms
proof (cases rule: remote_Create_cases)
  case no_address
  then show ?thesis by simp
next
  case (no_info r e)
  then show ?thesis using remote_info_keeps by fastforce
next
  case (not_closed r info e)
  then show ?thesis using remote_info_keeps by fastforce
next
  case (no_data r info e)
  then show ?thesis using remote_info_Inr(1) [OF no_data(1)] Status_closed [of E s "snd w"] by (simp add: state_name_inj)
next
  case (opened r info s1 w1 err)
  have "fst (Status E s (snd w)) = Closed" using remote_info_Inr(1) [OF opened(1)] opened(2) by (simp add: state_name_inj)
  then have "fst (Status E s (snd w)) = Closed" "s_r s = None" using Status_closed by blast+
  then show ?thesis using opened(3-5) remote_open_None [of X E _ s1 w1 s' w'] by (cases err) auto
qed

text \<open>A replica in memory that is closed, and a transport that delivers everything.\<close>

definition ex_closed :: "string server" where
  "ex_closed = NewServer ''/r'' None 2 True False 250 0"

definition ex_transport :: "(nat \<Rightarrow> delivery) \<Rightarrow> transport" where
  "ex_transport d = \<lparr>t_dial = (\<lambda>_. None), t_deliver = d, t_connect = (\<lambda>_ _. None)\<rparr>"

definition ex_Create :: "shared_timeouts \<Rightarrow> (nat \<Rightarrow> delivery) \<Rightarrow> ((error + remote) \<times> shared_timeouts \<times> string server \<times> nat \<times> sstore fsys) option" where
  "ex_Create t d = remote_Create (ex_transport d) (mem_env 2 (\<lambda>_. None)) ''v'' ''h:10'' TCP t ex_closed (0, ex_fs)"

lemma ex_Create_ok: "case ex_Create (NewSharedTimeouts 8 16) (\<lambda>_. Delivered) of None \<Rightarrow> False | Some (res, t, s, w) \<Rightarrow> \<not> isl res"
  by code_simp

theorem remote_Create_opens_witness:
  "\<exists>res t' s' w'. ex_Create (NewSharedTimeouts 8 16) (\<lambda>_. Delivered) = Some (res, t', s', w') \<and> \<not> isl res \<and> s_r s' \<noteq> None \<and>
     fst (Status (mem_env 2 (\<lambda>_. None)) ex_closed ex_fs) = Closed"
proof -
  obtain res t' s' w' where c: "ex_Create (NewSharedTimeouts 8 16) (\<lambda>_. Delivered) = Some (res, t', s', w')" and r: "\<not> isl res"
    using ex_Create_ok by (auto split: option.splits)
  then show ?thesis using remote_Create_opens [OF c [unfolded ex_Create_def]] by auto
qed

section \<open>A replica that cannot be opened\<close>

text \<open>
  When the call that opens the replica is lost, Create fails and the goroutine of its client stays a consumer of the shared timeouts; from then on the short
  timeout applies to the last replica of the volume, for which the long one is meant.
\<close>

lemma remote_Create_leaks_consumer:
  assumes a: "GetAddresses volumeName address p = Inr (ca, da, sa, n)" and closed: "Status E s (snd w) = (Closed, info, fs')"
    and X: "\<And>k. t_dial X k = None" "t_deliver X (fst w) = Delivered" "t_deliver X (Suc (fst w)) = Lost e" "connect_loop X p da 0 NumberOfConnections = None"
    and t: "numConsumers t = 1" "shortTimeout t < d" "d \<le> longTimeout t"
  shows "\<exists>err t'. remote_Create X E volumeName address p t s w = Some (Inl err, t', s, Suc (Suc (fst w)), fs') \<and>
    CheckAndDecrement d t = (0, t) \<and> fst (CheckAndDecrement d t') = shortTimeout t"
proof -
  have n: "s_r s = None" using closed Status_closed [of E s "snd w"] by simp
  obtain rep where g: "getReplica E s (snd w) = Some (rep, s, fs')" using getReplica_closed [OF n, of E "snd w"] closed by auto
  have st: "ri_State rep = state_name Closed" using getReplica_state(1) [OF g] closed by simp
  define r where "r = \<lparr>rm_name = address, rm_replicaServiceURL = ca, rm_volumeName = volumeName, rm_client = None\<rparr>"
  have i: "remote_info X E r s w = Some (Inr (GetReplicaInfo rep), s, Suc (fst w), fs')"
    using X(1,2) g by (simp add: remote_info_def remote_call_Delivered rs_ReplicaGet_def replica_answer_def)
  have op: "remote_open X E q s (Suc (fst w), fs') =
      Some (Some (Wrapped (''failed to open replica '' @ rm_replicaServiceURL q @ '' from remote'') e), s, Suc (Suc (fst w)), fs')" for q
    using X(1,3) by (simp add: remote_open_def remote_call_Lost reply_error_def next_call_def)
  have "\<exists>err. remote_Create X E volumeName address p t s w = Some (Inl err, Increment t, s, Suc (Suc (fst w)), fs')"
    using a i op st X(4) by (simp add: remote_Create_def Let_def client_loop_def GetReplicaInfo_def flip: r_def)
  moreover have "CheckAndDecrement d t = (0, t)" "fst (CheckAndDecrement d (Increment t)) = shortTimeout t"
    using t by (simp_all add: CheckAndDecrement_def Increment_def)
  ultimately show ?thesis by blast
qed

lemma ex_Status: "fst (Status (mem_env 2 (\<lambda>_. None)) ex_closed ex_fs) = Closed"
  by code_simp

lemma ex_addresses: "GetAddresses ''v'' ''h:10'' TCP = Inr (''h:10'', ''h:11'', ''h:12'', 12)"
  by code_simp

section \<open>Expansion\<close>

text \<open>
  The error of a failed expansion reaches the controller with the code that the replica gave it, which tells the controller whether the replica rolled back; an
  error without a code arrives as one that was not rolled back.  json.Unmarshal has to read the text that json.Marshal wrote.
\<close>

lemma remote_Expand_code:
  assumes "U (J (code, msg, rb)) = Inr (code, msg, rb)" "t_dial X (fst w) = None" "t_deliver X (fst w) = Delivered" "srv_Expand E s sz (snd w) = Some (Some e, s', fs')"
    "code_of e = (code, msg, rb)"
  shows "remote_Expand X J U E r sz s w =
    Some (Some (TypesError code (''failed to expand replica '' @ rm_replicaServiceURL r @ '' from remote: '' @ msg) rb), s', Suc (fst w), fs')"
proof -
  have "rs_ReplicaExpand J E sz s (snd w) = Some (Inl (''Internal'', J (code, msg, rb)), s', fs')"
    using assms(4,5) by (simp add: rs_ReplicaExpand_def replica_answer_def)
  then have "status_call (\<lambda>_. t_deliver X (fst w)) (lift_fs (rs_ReplicaExpand J E sz)) s (next_call w) =
      Some (Inl (status_error ''Internal'' (J (code, msg, rb))), s', Suc (fst w), fs')"
    using assms(3) by (simp add: status_call_def lift_fs_def next_call_def)
  moreover have "UnmarshalGRPCError FromError U (status_error ''Internal'' (J (code, msg, rb))) = TypesError code msg rb"
    using assms(1) by (simp add: UnmarshalGRPCError_def FromError_Internal)
  ultimately show ?thesis using assms(2) by (simp add: remote_Expand_def WrapError_def)
qed

definition ex_J :: "string \<times> string \<times> string \<Rightarrow> string" where
  "ex_J x = (case x of (a, b, c) \<Rightarrow> a @ CHR 0x0A # b @ CHR 0x0A # c)"

definition line_of :: "string \<Rightarrow> string \<times> string" where
  "line_of s = (takeWhile (\<lambda>c. c \<noteq> CHR 0x0A) s, tl (dropWhile (\<lambda>c. c \<noteq> CHR 0x0A) s))"

definition ex_U :: "string \<Rightarrow> error + string \<times> string \<times> string" where
  "ex_U s = (case line_of s of (a, s) \<Rightarrow> case line_of s of (b, c) \<Rightarrow> Inr (a, b, c))"

definition ex_refused :: string where
  "ex_refused = ''failed to expend volume replica size '' @ showInt 1 @ '', because it is not multiple of volume sector size '' @ showInt VolumeSectorSize"

definition ex_opened :: "string server" where
  "ex_opened = ex_closed\<lparr>s_r := Some ex_rep\<rparr>"

lemma ex_JU: "CHR 0x0A \<notin> set a \<Longrightarrow> CHR 0x0A \<notin> set b \<Longrightarrow> ex_U (ex_J (a, b, c)) = Inr (a, b, c)"
  by (simp add: ex_U_def ex_J_def line_of_def takeWhile_until dropWhile_append)

lemma ex_refused_line: "CHR 0x0A \<notin> set ex_refused"
proof -
  have "CHR 0x0A \<notin> set (showInt i)" if "0 \<le> i" for i
    using that showNat_digits [of "nat i"] by (auto simp: showInt_def list_all_iff isDigit_def)
  then show ?thesis by (simp add: ex_refused_def VolumeSectorSize_def)
qed

lemma ex_srv_Expand: "srv_Expand (mem_env 2 (\<lambda>_. None)) ex_opened 1 ex_fs = Some (Some (Errorf ex_refused), ex_opened, ex_fs)"
proof -
  have "(1 :: int) smod VolumeSectorSize \<noteq> 0" by code_simp
  then show ?thesis by (simp add: srv_Expand_def on_open_def ex_opened_def rp_Expand_def ex_refused_def)
qed

section \<open>Monitoring\<close>

text \<open>The goroutine reports once, and a failed ping makes the client refuse every later request.\<close>

lemma monitorPing_once: "monitorPing evs = (ended, sent, posted) \<Longrightarrow> length sent \<le> 1 \<and> (ended \<longleftrightarrow> sent \<noteq> []) \<and> posted = map TransportErr (somes sent)"
  by (induction evs arbitrary: ended sent posted rule: monitorPing.induct) (auto simp: somes_def)

lemma handleClientError_error: "cl_error (handleClientError e c) = Some e"
proof -
  have "cl_error (fold (\<lambda>(_, req). replyError req e) ms d) = cl_error d" for ms and d :: client
    by (induction ms arbitrary: d) (auto simp: replyError_def)
  from this [of "cl_messages c" "c\<lparr>cl_error := Some e\<rparr>"] show ?thesis by (simp add: handleClientError_def Let_def)
qed

lemma failed_ping_refuses:
  assumes "monitorPing evs = (True, [Some e], posted)" "\<not> cl_ended c"
  shows "cl_error (fst (client_run (map (Pair now) posted) (c, t))) = Some e"
proof -
  have "posted = [TransportErr e]" using monitorPing_once [OF assms(1)] by (simp add: somes_def)
  then show ?thesis using assms(2) by (simp add: handleClientError_error)
qed

end
