(* ===== verification/Sync_Handlers.thy ===== *)
theory Sync_Handlers
  imports Sync_Purge Task_List Backup Grpc Labels Addresses
begin

text \<open>
  The handlers of the sync agent (src/pkg/sync/rpc/server.go) that serve files, backups, restores and the status of its jobs, and the beginning of a backup
  (src/pkg/backup/main.go).  The store of backups, sparse-tools and the commands that are started are parameters.
\<close>

section \<open>Files\<close>

text \<open>filepath.Ext, and strings.TrimSpace on ASCII text.\<close>

definition path_Ext :: "string \<Rightarrow> string" where
  "path_Ext p = (case dropWhile (\<lambda>c. c \<noteq> CHR ''/'' \<and> c \<noteq> CHR ''.'') (rev p) of
       c # _ \<Rightarrow> if c = CHR ''.'' then CHR ''.'' # rev (takeWhile (\<lambda>c. c \<noteq> CHR ''/'' \<and> c \<noteq> CHR ''.'') (rev p)) else ''''
     | [] \<Rightarrow> '''')"

definition is_space :: "char \<Rightarrow> bool" where
  "is_space c \<longleftrightarrow> c \<in> {CHR 0x20, CHR 0x09, CHR 0x0A, CHR 0x0B, CHR 0x0C, CHR 0x0D}"

definition TrimSpace :: "string \<Rightarrow> string" where
  "TrimSpace s = rev (dropWhile is_space (rev (dropWhile is_space s)))"

text \<open>sparse.SyncFile (file, address, timeout, directIO, fastSync) and a command of the backup tool.\<close>

record 'w file_tools =
  ft_Remove :: "string \<Rightarrow> 'w \<Rightarrow> error option \<times> 'w"
  ft_Rename :: "string \<Rightarrow> string \<Rightarrow> 'w \<Rightarrow> error option \<times> 'w"
  ft_SyncFile :: "string \<Rightarrow> string \<Rightarrow> int \<Rightarrow> bool \<Rightarrow> bool \<Rightarrow> 'w \<Rightarrow> error option \<times> 'w"
  ft_StartDelete :: "string \<Rightarrow> 'w \<Rightarrow> error option \<times> 'w"
  ft_WaitDelete :: "string \<Rightarrow> 'w \<Rightarrow> error option \<times> 'w"

text \<open>A handler that only acts on the world, and one that only acts on the agent.\<close>

definition on_world :: "('w \<Rightarrow> error option \<times> 'w) \<Rightarrow> (agent, 'w, unit) rpc" where
  "on_world f s w = (case f w of (Some e, w) \<Rightarrow> Some (Inl e, s, w) | (None, w) \<Rightarrow> Some (Inr (), s, w))"

definition on_agent :: "(agent \<Rightarrow> error option \<times> agent) \<Rightarrow> (agent, 'w, unit) rpc" where
  "on_agent f s w = (case f s of (Some e, s) \<Rightarrow> Some (Inl e, s, w) | (None, s) \<Rightarrow> Some (Inr (), s, w))"

definition on_both :: "(agent \<Rightarrow> 'w \<Rightarrow> error option \<times> agent \<times> 'w) \<Rightarrow> (agent, 'w, unit) rpc" where
  "on_both f s w = (case f s w of (Some e, s, w) \<Rightarrow> Some (Inl e, s, w) | (None, s, w) \<Rightarrow> Some (Inr (), s, w))"

definition FileRemove :: "'w file_tools \<Rightarrow> string \<Rightarrow> (agent, 'w, unit) rpc" where
  "FileRemove F name = on_world (ft_Remove F name)"

definition FileRename :: "'w file_tools \<Rightarrow> string \<Rightarrow> string \<Rightarrow> (agent, 'w, unit) rpc" where
  "FileRename F old new = on_world (ft_Rename F old new)"

definition FileSend :: "'w file_tools \<Rightarrow> string \<Rightarrow> string \<Rightarrow> int \<Rightarrow> bool \<Rightarrow> int \<Rightarrow> (agent, 'w, unit) rpc" where
  "FileSend F fromFile host' port fastSync timeout =
     (let address = JoinHostPort host' (showInt port);
          directIO = (path_Ext (TrimSpace fromFile) \<noteq> ''.meta'')
      in on_world (ft_SyncFile F fromFile address timeout directIO fastSync))"

definition ReceiverLaunch :: "(agent, 'w, int) rpc" where
  "ReceiverLaunch s w = (case launchReceiver ''ReceiverLaunch'' s of (r, s) \<Rightarrow> Some (r, s, w))"

definition BackupRemove :: "'w file_tools \<Rightarrow> string \<Rightarrow> (agent, 'w, unit) rpc" where
  "BackupRemove F backup =
     on_world (\<lambda>w. case ft_StartDelete F backup w of (Some e, w) \<Rightarrow> (Some e, w) | (None, w) \<Rightarrow> ft_WaitDelete F backup w)"

text \<open>
  VolumeExport on the directory of the replica; \<open>getwd\<close> is the result of os.Getwd and \<open>sync\<close> is sparse.SyncContent with the file name, the replica as the
  reader, its size, the address, the timeout, and directIO and fastSync, which are fixed.
\<close>

definition VolumeExport ::
  "('h, 's) fs_env \<Rightarrow> (string \<Rightarrow> 's fsys \<Rightarrow> (error + (string \<times> 'h) option) \<times> 's fsys) \<Rightarrow> error + string \<Rightarrow>
     (string \<Rightarrow> 'h replica \<Rightarrow> int \<Rightarrow> string \<Rightarrow> int \<Rightarrow> 's fsys \<Rightarrow> error option \<times> 's fsys) \<Rightarrow>
     string \<Rightarrow> string \<Rightarrow> int \<Rightarrow> bool \<Rightarrow> int \<Rightarrow> (agent, 's fsys, unit) rpc" where
  "VolumeExport E OpenBackingFile getwd sync snapshotFileName host' port exportBackingImage timeout s fs =
     (case getwd of
        Inl e \<Rightarrow> Some (Inl (Wrapped ''cannot get working directory'' e), s, fs)
      | Inr dir \<Rightarrow> do {
          (res, fs) \<leftarrow> OpenSnapshot E OpenBackingFile dir snapshotFileName fs;
          (case res of
             Inl e \<Rightarrow> Some (Inl e, s, fs)
           | Inr r \<Rightarrow> do {
               (err, r) \<leftarrow> Preload E exportBackingImage r fs;
               let (err, fs) = (case err of
                   Some e \<Rightarrow> (Some e, fs)
                 | None \<Rightarrow> sync snapshotFileName r (i_Size (r_info r)) (JoinHostPort host' (showInt port)) timeout fs);
               let fs = closeWithoutWritingMetaData E r fs;
               Some (case err of Some e \<Rightarrow> Inl e | None \<Rightarrow> Inr (), s, fs)
             })
        })"

section \<open>Status\<close>

record job_status =
  js_active :: bool
  js_Error :: string
  js_Progress :: int
  js_State :: string
  js_FromReplicaAddress :: string
  js_SnapshotName :: string

definition ReplicaRebuildStatus :: "(agent, 'w, job_status) rpc" where
  "ReplicaRebuildStatus s w =
     (let st = sa_RebuildStatus s
      in Some (Inr \<lparr>js_active = sa_isRebuilding s, js_Error = rb_Error st, js_Progress = int32 (rb_Progress st), js_State = rb_State st,
           js_FromReplicaAddress = rb_FromReplicaAddress st, js_SnapshotName = ''''\<rparr>, s, w))"

definition SnapshotCloneStatus :: "(agent, 'w, job_status) rpc" where
  "SnapshotCloneStatus s w =
     (let st = sa_CloneStatus s
      in Some (Inr \<lparr>js_active = sa_isCloning s, js_Error = cs_Error st, js_Progress = int32 (cs_Progress st), js_State = cs_State st,
           js_FromReplicaAddress = cs_FromReplicaAddress st, js_SnapshotName = cs_SnapshotName st\<rparr>, s, w))"

definition SnapshotPurgeStatus :: "(agent, 'w, job_status) rpc" where
  "SnapshotPurgeStatus s w =
     (let st = sa_PurgeStatus s
      in Some (Inr \<lparr>js_active = sa_isPurging s, js_Error = ps_Error st, js_Progress = int32 (ps_Progress st), js_State = ps_State st,
           js_FromReplicaAddress = '''', js_SnapshotName = ''''\<rparr>, s, w))"

record restore_status =
  rr_IsRestoring :: bool
  rr_LastRestored :: string
  rr_DestFileName :: string
  rr_BackupUrl :: string
  rr_Progress :: int
  rr_Error :: string
  rr_State :: string
  rr_CurrentRestoringBackup :: string

definition RestoreStatus_handler :: "(agent, 'w, restore_status) rpc" where
  "RestoreStatus_handler s w =
     Some (Inr (case sa_RestoreInfo s of
         None \<Rightarrow> \<lparr>rr_IsRestoring = sa_isRestoring s, rr_LastRestored = '''', rr_DestFileName = '''', rr_BackupUrl = '''', rr_Progress = 0, rr_Error = '''',
           rr_State = '''', rr_CurrentRestoringBackup = ''''\<rparr>
       | Some ri \<Rightarrow> (let st = DeepCopy ri in
           \<lparr>rr_IsRestoring = sa_isRestoring s, rr_LastRestored = rs_LastRestored st, rr_DestFileName = rs_SnapshotDiskName st, rr_BackupUrl = rs_BackupURL st,
            rr_Progress = int32 (rs_Progress st), rr_Error = rs_Error st, rr_State = rs_State st, rr_CurrentRestoringBackup = rs_CurrentRestoringBackup st\<rparr>)),
       s, w)"

section \<open>Creating a backup\<close>

record CreateBackupParameters =
  cbp_BackupName :: string
  cbp_VolumeName :: string
  cbp_SnapshotName :: string
  cbp_DestURL :: string
  cbp_BackingImageName :: string
  cbp_BackingImageChecksum :: string
  cbp_CompressionMethod :: string
  cbp_ConcurrentLimit :: int
  cbp_StorageClassName :: string
  cbp_Labels :: "string list option"
  cbp_Parameters :: "(string \<times> string) list"

text \<open>DeltaBackupConfig with its Volume and Snapshot; its DeltaOps is the backup itself.\<close>

record DeltaBackupConfig =
  dc_BackupName :: string
  dc_ConcurrentLimit :: int
  dc_VolumeName :: string
  dc_VolumeSize :: int
  dc_Labels :: "(string \<times> string) list option"
  dc_BackingImageName :: string
  dc_BackingImageChecksum :: string
  dc_CompressionMethod :: string
  dc_StorageClassName :: string
  dc_VolumeCreatedTime :: string
  dc_SnapshotName :: string
  dc_SnapshotCreatedTime :: string
  dc_DestURL :: string
  dc_Parameters :: "(string \<times> string) list"

text \<open>The backups behind the pointers of the list, and the directory of the replica.\<close>

record ('h, 's) backups =
  bk_heap :: "'h BackupStatus list"
  bk_fs :: "'s fsys"

text \<open>The library of the backup store, os.Getwd, backingfile.OpenBackingFile, the name for a backup without one, and the clock.\<close>

record ('h, 's) backup_tools =
  bt_CheckBackupType :: "string \<Rightarrow> error + string"
  bt_SetupCredential :: "string \<Rightarrow> (string \<times> string) list \<Rightarrow> error option"
  bt_DecodeBackupURL :: "string \<Rightarrow> error + string"
  bt_CreateDeltaBlockBackup :: "nat \<Rightarrow> DeltaBackupConfig \<Rightarrow> ('h, 's) backups \<Rightarrow> (error + bool) \<times> ('h, 's) backups"
  bt_Getwd :: "error + string"
  bt_OpenBackingFile :: "string \<Rightarrow> 's fsys \<Rightarrow> (error + (string \<times> 'h) option) \<times> 's fsys"
  bt_generated :: string
  bt_now :: string

definition getVolumeInfoFromVolumeMeta :: "('h, 's) fs_env \<Rightarrow> ('h, 's) backup_tools \<Rightarrow> 's fsys \<Rightarrow> (error + Info) \<times> 's fsys" where
  "getVolumeInfoFromVolumeMeta E B fs = (case bt_Getwd B of Inl e \<Rightarrow> (Inl e, fs) | Inr dir \<Rightarrow> ReadInfo E dir fs)"

definition openBackingFile :: "('h, 's) fs_env \<Rightarrow> ('h, 's) backup_tools \<Rightarrow> string \<Rightarrow> 's fsys \<Rightarrow> (error + (string \<times> 'h) option) \<times> 's fsys" where
  "openBackingFile E B path fs =
     (if path = '''' then (Inr None, fs)
      else case os_Stat E path fs of (Some e, fs) \<Rightarrow> (Inl e, fs) | (None, fs) \<Rightarrow> bt_OpenBackingFile B path fs)"

definition backup_config :: "('h, 's) backup_tools \<Rightarrow> CreateBackupParameters \<Rightarrow> (string \<times> string) list option \<Rightarrow> Info \<Rightarrow> DeltaBackupConfig" where
  "backup_config B params labelMap info =
     \<lparr>dc_BackupName = cbp_BackupName params, dc_ConcurrentLimit = cbp_ConcurrentLimit params, dc_VolumeName = cbp_VolumeName params,
      dc_VolumeSize = i_Size info, dc_Labels = labelMap, dc_BackingImageName = cbp_BackingImageName params,
      dc_BackingImageChecksum = cbp_BackingImageChecksum params, dc_CompressionMethod = cbp_CompressionMethod params,
      dc_StorageClassName = cbp_StorageClassName params, dc_VolumeCreatedTime = bt_now B, dc_SnapshotName = cbp_SnapshotName params,
      dc_SnapshotCreatedTime = bt_now B, dc_DestURL = cbp_DestURL params, dc_Parameters = cbp_Parameters params\<rparr>"

definition check_params :: "CreateBackupParameters \<Rightarrow> error + (string \<times> string) list option" where
  "check_params params =
     (if cbp_VolumeName params = '''' \<or> cbp_SnapshotName params = '''' \<or> cbp_DestURL params = '''' then Inl (Errorf ''missing input parameter'')
      else if \<not> ValidVolumeName (cbp_VolumeName params)
      then Inl (Errorf (''invalid volume name '' @ cbp_VolumeName params @ '' for backup '' @ cbp_BackupName params))
      else case cbp_Labels params of
        None \<Rightarrow> Inr None
      | Some ls \<Rightarrow> (case ParseLabels ls of
          Inl e \<Rightarrow> Inl (Wrapped (''cannot parse backup labels for backup '' @ cbp_BackupName params) e)
        | Inr m \<Rightarrow> Inr (Some m)))"

definition DoBackupInit ::
  "('h, 's) fs_env \<Rightarrow> ('h, 's) backup_tools \<Rightarrow> CreateBackupParameters \<Rightarrow> 's fsys \<Rightarrow> (error + 'h BackupStatus \<times> DeltaBackupConfig) \<times> 's fsys" where
  "DoBackupInit E B params fs =
     (case check_params params of
        Inl e \<Rightarrow> (Inl e, fs)
      | Inr labelMap \<Rightarrow> (case getVolumeInfoFromVolumeMeta E B fs of
          (Inl e, fs) \<Rightarrow> (Inl e, fs)
        | (Inr info, fs) \<Rightarrow> (case openBackingFile E B (i_BackingFilePath info) fs of
            (Inl e, fs) \<Rightarrow> (Inl e, fs)
          | (Inr backing, fs) \<Rightarrow>
              (Inr (NewBackup (bt_generated B) (cbp_BackupName params) (cbp_VolumeName params) (cbp_SnapshotName params) backing,
                 backup_config B params labelMap info), fs))))"

definition DoBackupCreate ::
  "('h, 's) backup_tools \<Rightarrow> nat \<Rightarrow> DeltaBackupConfig \<Rightarrow> ('h, 's) backups \<Rightarrow> error option \<times> ('h, 's) backups" where
  "DoBackupCreate B p config w =
     (case bt_CreateDeltaBlockBackup B p config w of
        (Inl e, w) \<Rightarrow> (Some e, w)
      | (Inr isIncremental, w) \<Rightarrow> (None, w\<lparr>bk_heap := (bk_heap w)[p := (bk_heap w ! p)\<lparr>b_IsIncremental := isIncremental\<rparr>]\<rparr>))"

definition backup_state :: "('h, 's) backups \<Rightarrow> nat \<Rightarrow> string option" where
  "backup_state w p = (if p < length (bk_heap w) then Some (b_State (bk_heap w ! p)) else None)"

text \<open>BackupCreate: the backup is in the list before the store is asked for it.\<close>

definition BackupCreate ::
  "('h, 's) fs_env \<Rightarrow> ('h, 's) backup_tools \<Rightarrow> (string \<times> nat) list \<Rightarrow> (string \<times> string) list \<Rightarrow> CreateBackupParameters \<Rightarrow>
     (agent, ('h, 's) backups, string \<times> bool) rpc" where
  "BackupCreate E B order credential params s w =
     (case bt_CheckBackupType B (cbp_DestURL params) of
        Inl e \<Rightarrow> Some (Inl e, s, w)
      | Inr ty \<Rightarrow> (case bt_SetupCredential B ty credential of
          Some e \<Rightarrow> Some (Inl e, s, w)
        | None \<Rightarrow> (case DoBackupInit E B params (bk_fs w) of
            (Inl e, fs) \<Rightarrow> Some (Inl e, s, w\<lparr>bk_fs := fs\<rparr>)
          | (Inr (status, config), fs) \<Rightarrow> do {
              let p = length (bk_heap w);
              let w = w\<lparr>bk_heap := bk_heap w @ [status], bk_fs := fs\<rparr>;
              (err, l) \<leftarrow> BackupAdd order (backup_state w) (b_Name status) p (sa_BackupList s);
              let s = s\<lparr>sa_BackupList := l\<rparr>;
              (case err of
                 Some e \<Rightarrow> Some (Inl (Wrapped (''failed to add the backup object '' @ b_Name status) e), s, w)
               | None \<Rightarrow> (case DoBackupCreate B p config w of
                   (Some e, w) \<Rightarrow> Some (Inl e, s, w)
                 | (None, w) \<Rightarrow> Some (Inr (b_Name status, b_IsIncremental (bk_heap w ! p)), s, w)))
            })))"

record backup_status =
  bs_Progress :: int
  bs_BackupUrl :: string
  bs_Error :: string
  bs_SnapshotName :: string
  bs_State :: string

definition BackupStatus_handler :: "(string \<times> nat) list \<Rightarrow> string \<Rightarrow> (agent, ('h, 's) backups, backup_status) rpc" where
  "BackupStatus_handler order backup s w =
     (if backup = '''' then Some (Inl (Errorf ''bad request: empty backup name''), s, w)
      else do {
        (res, l) \<leftarrow> BackupGet order (backup_state w) backup (sa_BackupList s);
        let s = s\<lparr>sa_BackupList := l\<rparr>;
        Some (case res of
            Inl e \<Rightarrow> Inl e
          | Inr p \<Rightarrow> (let b = bk_heap w ! p
              in case GetSnapshotNameFromDiskName (b_SnapshotID b) of
                   Inl e \<Rightarrow> Inl (Wrapped (''couldn'' @ [CHR 0x27] @ ''t get snapshot name'') e)
                 | Inr name \<Rightarrow> Inr \<lparr>bs_Progress = int32 (b_Progress b), bs_BackupUrl = b_BackupURL b, bs_Error = b_Error b, bs_SnapshotName = name,
                     bs_State = b_State b\<rparr>), s, w)
      })"

section \<open>Restoring a backup\<close>

text \<open>BackupRestore up to the goroutine of completeBackupRestore (theory Sync_Purge), which it starts.\<close>

definition BackupRestore ::
  "'w agent_env \<Rightarrow> ('h, 's) backup_tools \<Rightarrow> string \<Rightarrow> string \<Rightarrow> (string \<times> string) list \<Rightarrow> int \<Rightarrow> (agent, 'w, unit) rpc" where
  "BackupRestore A B backup snapshotDiskName credential concurrentLimit s w =
     (if snapshotDiskName = '''' then Some (Inl (Errorf ''empty snapshot disk name for the restore''), s, w)
      else if backup = '''' then Some (Inl (Errorf ''empty backup URL for the restore''), s, w)
      else case bt_CheckBackupType B backup of
        Inl e \<Rightarrow> Some (Inl (Wrapped (''failed to check the type for backup '' @ backup) e), s, w)
      | Inr ty \<Rightarrow> (case bt_SetupCredential B ty credential of
          Some e \<Rightarrow> Some (Inl (Wrapped (''failed to setup credential for backup '' @ backup) e), s, w)
        | None \<Rightarrow> (case bt_DecodeBackupURL B (UnescapeURL backup) of
            Inl e \<Rightarrow> Some (Inl e, s, w)
          | Inr requestedBackupName \<Rightarrow>
              (case StartRestore A backup requestedBackupName snapshotDiskName concurrentLimit s w of
                 (Some e, s, w) \<Rightarrow> Some (Inl (Wrapped ''error starting backup restore'' e), s, w)
               | (None, s, w) \<Rightarrow> Some (Inr (), s, w)))))"

end
