(* ===== verification/Sync_Handlers_Thms.thy ===== *)
theory Sync_Handlers_Thms
  imports Sync_Handlers Task_List_Thms Replica_Data
begin

text \<open>A backup that the agent has accepted is in its list, whatever the store answers.\<close>

text \<open>The names in the list of the agent are distinct, and its pointers lead to backups.\<close>

definition backups_ok :: "agent \<Rightarrow> ('h, 's) backups \<Rightarrow> bool" where
  "backups_ok s w \<longleftrightarrow> distinct (map fst (items (sa_BackupList s))) \<and> (\<forall>e \<in> set (items (sa_BackupList s)). snd e < length (bk_heap w))"

text \<open>What the agent needs of the store: it leaves the backups where they are, and the snapshot of the new one as it is.\<close>

definition store_keeps :: "('h, 's) backup_tools \<Rightarrow> bool" where
  "store_keeps B \<longleftrightarrow> (\<forall>p config w. length (bk_heap (snd (bt_CreateDeltaBlockBackup B p config w))) = length (bk_heap w) \<and>
     b_SnapshotID (bk_heap (snd (bt_CreateDeltaBlockBackup B p config w)) ! p) = b_SnapshotID (bk_heap w ! p))"

lemma DoBackupCreate_keeps:
  assumes "store_keeps B" "DoBackupCreate B p config w = (err, w')"
  shows "length (bk_heap w') = length (bk_heap w)" "p < length (bk_heap w) \<Longrightarrow> b_SnapshotID (bk_heap w' ! p) = b_SnapshotID (bk_heap w ! p)"
proof -
  obtain res w1 where c: "bt_CreateDeltaBlockBackup B p config w = (res, w1)" by (cases "bt_CreateDeltaBlockBackup B p config w")
  have k: "length (bk_heap w1) = length (bk_heap w)" "b_SnapshotID (bk_heap w1 ! p) = b_SnapshotID (bk_heap w ! p)"
    using assms(1) c unfolding store_keeps_def by (metis snd_conv)+
  show "length (bk_heap w') = length (bk_heap w)" "p < length (bk_heap w) \<Longrightarrow> b_SnapshotID (bk_heap w' ! p) = b_SnapshotID (bk_heap w ! p)"
    using assms(2) c k by (cases res; auto simp: DoBackupCreate_def)+
qed

lemma DoBackupInit_status:
  assumes "DoBackupInit E B params fs = (Inr (status, config), fs')"
  shows "b_SnapshotID status = GenerateSnapshotDiskName (cbp_SnapshotName params)"
    "b_Name status = (if cbp_BackupName params = '''' then bt_generated B else cbp_BackupName params)"
  using assms by (auto simp: DoBackupInit_def NewBackup_def split: sum.splits prod.splits)

text \<open>
  C33: A backup that the agent has accepted is known to it from then on, even when the store refuses it: the status of the backup can be asked for, and it is the
  status of the requested snapshot.
\<close>

theorem BackupCreate_then_status:
  assumes ok: "backups_ok s w" "store_keeps B" "bt_generated B \<noteq> ''''"
    and orders: "mset order = mset retainBackupStateCounts" "mset order' = mset retainBackupStateCounts"
    and accepted: "bt_CheckBackupType B (cbp_DestURL params) = Inr ty" "bt_SetupCredential B ty credential = None"
      "DoBackupInit E B params (bk_fs w) = (Inr (status, config), fs)"
  shows "\<exists>res s' w' st s''. BackupCreate E B order credential params s w = Some (res, s', w') \<and>
    BackupStatus_handler order' (b_Name status) s' w' = Some (Inr st, s'', w') \<and> bs_SnapshotName st = cbp_SnapshotName params \<and> backups_ok s'' w'"
proof -
  let ?p = "length (bk_heap w)" and ?w = "w\<lparr>bk_heap := bk_heap w @ [status], bk_fs := fs\<rparr>"
  obtain err w' where c: "DoBackupCreate B ?p config ?w = (err, w')" by (cases "DoBackupCreate B ?p config ?w")
  have k: "length (bk_heap w') = Suc ?p" "b_SnapshotID (bk_heap w' ! ?p) = GenerateSnapshotDiskName (cbp_SnapshotName params)"
    using DoBackupCreate_keeps [OF ok(2) c] DoBackupInit_status(1) [OF accepted(3)] by simp_all
  have n: "b_Name status \<noteq> ''''" using DoBackupInit_status(2) [OF accepted(3)] ok(3) by simp
  have st: "\<forall>e \<in> set (items (sa_BackupList s)). backup_state ?w (snd e) \<noteq> None \<and> backup_state w' (snd e) \<noteq> None"
      "backup_state ?w ?p \<noteq> None" "backup_state w' ?p \<noteq> None"
    using ok(1) k(1) by (auto simp: backups_ok_def backup_state_def)
  obtain l l' where l: "BackupAdd order (backup_state ?w) (b_Name status) ?p (sa_BackupList s) = Some (None, l)"
      "BackupGet order' (backup_state w') (b_Name status) l = Some (Inr ?p, l')" "distinct (map fst (items l'))"
      "set (items l') \<subseteq> insert (b_Name status, ?p) (set (items (sa_BackupList s)))"
    using backup_list_add_get [OF _ st n orders] ok(1) unfolding backups_ok_def by blast
  have "\<exists>res. BackupCreate E B order credential params s w = Some (res, s\<lparr>sa_BackupList := l\<rparr>, w')"
    using accepted l(1) c by (cases err) (simp_all add: BackupCreate_def Let_def)
  moreover have "\<exists>st. BackupStatus_handler order' (b_Name status) (s\<lparr>sa_BackupList := l\<rparr>) w' = Some (Inr st, s\<lparr>sa_BackupList := l'\<rparr>, w') \<and>
      bs_SnapshotName st = cbp_SnapshotName params"
    using n l(2) k(2) by (simp add: BackupStatus_handler_def Let_def)
  moreover have "snd e < length (bk_heap w')" if "e \<in> set (items l')" for e
    using subsetD [OF l(4) that] ok(1) k(1) by (auto simp: backups_ok_def)
  then have "backups_ok (s\<lparr>sa_BackupList := l'\<rparr>) w'" using l(3) by (simp add: backups_ok_def)
  ultimately show ?thesis by blast
qed

text \<open>A store that refuses every backup.\<close>

definition ex_tools :: "(string, sstore) backup_tools" where
  "ex_tools = \<lparr>bt_CheckBackupType = (\<lambda>_. Inr ''s3''), bt_SetupCredential = (\<lambda>_ _. None), bt_DecodeBackupURL = Inr,
     bt_CreateDeltaBlockBackup = (\<lambda>_ _ w. (Inl (Errorf ''store is full''), w)), bt_Getwd = Inr ''/r'', bt_OpenBackingFile = (\<lambda>_ fs. (Inr None, fs)),
     bt_generated = ''backup-1'', bt_now = ''now''\<rparr>"

definition ex_params :: CreateBackupParameters where
  "ex_params = \<lparr>cbp_BackupName = ''b1'', cbp_VolumeName = ''v1'', cbp_SnapshotName = ''a'', cbp_DestURL = ''s3://b'', cbp_BackingImageName = [],
     cbp_BackingImageChecksum = [], cbp_CompressionMethod = ''lz4'', cbp_ConcurrentLimit = 1, cbp_StorageClassName = [], cbp_Labels = Some [''k=v''],
     cbp_Parameters = []\<rparr>"

lemma ex_tools_simps: "bt_CheckBackupType ex_tools d = Inr ''s3''" "bt_SetupCredential ex_tools ty c = None"
  by (simp_all add: ex_tools_def)

lemma ex_params_name: "cbp_SnapshotName ex_params = ''a''" "cbp_BackupName ex_params = ''b1''"
  by (simp_all add: ex_params_def)

lemma ex_DoBackupInit: "\<not> isl (fst (DoBackupInit (mem_env 2 (\<lambda>_. None)) ex_tools ex_params ex_fs))"
  by code_simp

theorem BackupCreate_then_status_witness:
  "\<exists>res s' w' st s''. BackupCreate (mem_env 2 (\<lambda>_. None)) ex_tools retainBackupStateCounts [] ex_params
      (NewSyncAgentServer 1 9 ''r'' ''v1'' ''i'') \<lparr>bk_heap = [], bk_fs = ex_fs\<rparr> = Some (res, s', w') \<and>
    BackupStatus_handler retainBackupStateCounts ''b1'' s' w' = Some (Inr st, s'', w') \<and> bs_SnapshotName st = ''a''"
proof -
  obtain status config fs where i: "DoBackupInit (mem_env 2 (\<lambda>_. None)) ex_tools ex_params ex_fs = (Inr (status, config), fs)"
    using ex_DoBackupInit by (cases "DoBackupInit (mem_env 2 (\<lambda>_. None)) ex_tools ex_params ex_fs"; cases "fst (DoBackupInit (mem_env 2 (\<lambda>_. None)) ex_tools ex_params ex_fs)") auto
  have n: "b_Name status = ''b1''" using DoBackupInit_status(2) [OF i] by (simp add: ex_params_name)
  have a: "backups_ok (NewSyncAgentServer 1 9 ''r'' ''v1'' ''i'') \<lparr>bk_heap = [], bk_fs = ex_fs\<rparr>"
    by (simp add: backups_ok_def NewSyncAgentServer_def items_def)
  have b: "store_keeps ex_tools" "bt_generated ex_tools \<noteq> []" by (simp_all add: store_keeps_def ex_tools_def)
  have fs: "DoBackupInit (mem_env 2 (\<lambda>_. None)) ex_tools ex_params (bk_fs \<lparr>bk_heap = [], bk_fs = ex_fs\<rparr>) = (Inr (status, config), fs)" using i by simp
  from BackupCreate_then_status [OF a b refl refl ex_tools_simps fs, of "[]"] show ?thesis unfolding n ex_params_name by blast
qed

end
