(* ===== verification/Replica_Client.thy ===== *)
theory Replica_Client
  imports Remote_Backend Sync_Handlers Snapshot_Hash
begin

text \<open>
  The client of a replica (src/pkg/replica/client/client.go): the service of the replica and its sync agent, each connected to when it is first used
  (src/pkg/util/once.go).  The timeouts of the calls are part of the transport.
\<close>

section \<open>Connecting once\<close>

text \<open>Once.Do with the result that the function would have; the second component is the flag done.\<close>

definition Once_Do :: "bool \<Rightarrow> error option \<Rightarrow> error option \<times> bool" where
  "Once_Do finished result = (if finished then (None, True) else (result, result = None))"

record ReplicaClient =
  rc_host :: string
  rc_replicaServiceURL :: string
  rc_syncAgentServiceURL :: string
  rc_volumeName :: string
  rc_instanceName :: string
  rc_replicaOnce :: bool
  rc_syncOnce :: bool

definition NewReplicaClient :: "string \<Rightarrow> string \<Rightarrow> string \<Rightarrow> error + ReplicaClient" where
  "NewReplicaClient address volumeName instanceName =
     (let url = GetGRPCAddress address
      in case SplitHostPort url of
           Inl _ \<Rightarrow> Inl (Errorf (''invalid replica address '' @ url @ '', must have a port in it''))
         | Inr (host', strPort) \<Rightarrow> (case Atoi strPort of
             (_, Some e) \<Rightarrow> Inl e
           | (port, None) \<Rightarrow> Inr \<lparr>rc_host = host', rc_replicaServiceURL = url, rc_syncAgentServiceURL = JoinHostPort host' (showInt (int64 (port + 2))),
               rc_volumeName = volumeName, rc_instanceName = instanceName, rc_replicaOnce = False, rc_syncOnce = False\<rparr>))"

type_synonym ('c, 'w, 'a) client_op = "ReplicaClient \<Rightarrow> 'c \<Rightarrow> nat \<times> 'w \<Rightarrow> ((error + 'a) \<times> ReplicaClient \<times> 'c \<times> nat \<times> 'w) option"

definition keep_client :: "ReplicaClient \<Rightarrow> ((error + 'a) \<times> 'c \<times> nat \<times> 'w) option \<Rightarrow> ((error + 'a) \<times> ReplicaClient \<times> 'c \<times> nat \<times> 'w) option" where
  "keep_client C x = map_option (\<lambda>(r, s, w). (r, C, s, w)) x"

text \<open>getReplicaServiceClient and getSyncServiceClient: the connection, or the error of the dial.\<close>

definition getReplicaServiceClient :: "transport \<Rightarrow> ReplicaClient \<Rightarrow> nat \<Rightarrow> error option \<times> ReplicaClient" where
  "getReplicaServiceClient X C k = (case Once_Do (rc_replicaOnce C) (t_dial X k) of (err, d) \<Rightarrow> (err, C\<lparr>rc_replicaOnce := d\<rparr>))"

definition getSyncServiceClient :: "transport \<Rightarrow> ReplicaClient \<Rightarrow> nat \<Rightarrow> error option \<times> ReplicaClient" where
  "getSyncServiceClient X C k = (case Once_Do (rc_syncOnce C) (t_dial X k) of (err, d) \<Rightarrow> (err, C\<lparr>rc_syncOnce := d\<rparr>))"

definition replica_service :: "transport \<Rightarrow> string \<Rightarrow> ('c, 'w, 'a) rpc \<Rightarrow> ('c, 'w, 'a) client_op" where
  "replica_service X text h C s w =
     (case getReplicaServiceClient X C (fst w) of
        (Some e, C) \<Rightarrow> Some (Inl e, C, s, next_call w)
      | (None, C) \<Rightarrow> keep_client C (client_call (\<lambda>_. t_deliver X (fst w)) text (lift_fs h) s (next_call w)))"

definition sync_service :: "transport \<Rightarrow> string \<Rightarrow> ('c, 'w, 'a) rpc \<Rightarrow> ('c, 'w, 'a) client_op" where
  "sync_service X text h C s w =
     (case getSyncServiceClient X C (fst w) of
        (Some e, C) \<Rightarrow> Some (Inl e, C, s, next_call w)
      | (None, C) \<Rightarrow> keep_client C (client_call (\<lambda>_. t_deliver X (fst w)) text (lift_fs h) s (next_call w)))"

definition no_reply :: "('c, 'w, 'a) client_op \<Rightarrow> ('c, 'w, unit) client_op" where
  "no_reply f C s w = map_option (apfst (map_sum id (\<lambda>_. ()))) (f C s w)"

section \<open>The service of the replica\<close>

definition of_replica :: "string \<Rightarrow> ReplicaClient \<Rightarrow> string" where
  "of_replica text C = text @ rc_replicaServiceURL C"

definition rc_GetReplicaInfo :: "transport \<Rightarrow> ('h, 's) fs_env \<Rightarrow> ('h server, 's fsys, ReplicaInfo) client_op" where
  "rc_GetReplicaInfo X E C s w = map_option (apfst (map_sum id GetReplicaInfo)) (replica_service X (of_replica ''failed to get replica '' C) (rs_ReplicaGet E) C s w)"

definition OpenReplica :: "transport \<Rightarrow> ('h, 's) fs_env \<Rightarrow> ('h server, 's fsys, unit) client_op" where
  "OpenReplica X E C = no_reply (replica_service X (of_replica ''failed to open replica '' C) (rs_ReplicaOpen E)) C"

definition CloseReplica :: "transport \<Rightarrow> ('h, 's) fs_env \<Rightarrow> ('h server, 's fsys, unit) client_op" where
  "CloseReplica X E C = no_reply (replica_service X (of_replica ''failed to close replica '' C) (rs_ReplicaClose E)) C"

definition ReloadReplica :: "transport \<Rightarrow> ('h, 's) fs_env \<Rightarrow> ('h server, 's fsys, ReplicaInfo) client_op" where
  "ReloadReplica X E C s w =
     map_option (apfst (map_sum id GetReplicaInfo)) (replica_service X (of_replica ''failed to reload replica '' C) (rs_ReplicaReload E) C s w)"

definition ExpandReplica ::
  "transport \<Rightarrow> (string \<times> string \<times> string \<Rightarrow> string) \<Rightarrow> (string \<Rightarrow> error + string \<times> string \<times> string) \<Rightarrow> ('h, 's) fs_env \<Rightarrow> int \<Rightarrow>
     ('h server, 's fsys, ReplicaInfo) client_op" where
  "ExpandReplica X J U E sz C s w =
     (case getReplicaServiceClient X C (fst w) of
        (Some e, C) \<Rightarrow> Some (Inl e, C, s, next_call w)
      | (None, C) \<Rightarrow>
          keep_client C (map_option (\<lambda>(res, s, w).
              (case res of
                 Inl e \<Rightarrow> Inl (the (WrapError (Some (UnmarshalGRPCError FromError U e)) (of_replica ''failed to expand replica '' C)))
               | Inr rep \<Rightarrow> Inr (GetReplicaInfo rep), s, w))
            (status_call (\<lambda>_. t_deliver X (fst w)) (lift_fs (rs_ReplicaExpand J E sz)) s (next_call w))))"

definition rc_Revert_replica :: "transport \<Rightarrow> ('h, 's) fs_env \<Rightarrow> string \<Rightarrow> string \<Rightarrow> ('h server, 's fsys, unit) client_op" where
  "rc_Revert_replica X E name created C = no_reply (replica_service X (of_replica ''failed to revert replica '' C) (rs_ReplicaRevert E name created)) C"

definition RemoveDisk :: "transport \<Rightarrow> ('h, 's) fs_env \<Rightarrow> string \<Rightarrow> bool \<Rightarrow> ('h server, 's fsys, unit) client_op" where
  "RemoveDisk X E dk force C =
     no_reply (replica_service X (of_replica (''failed to remove disk '' @ dk @ '' for replica '') C) (rs_DiskRemove E dk force)) C"

definition rc_ReplaceDisk :: "transport \<Rightarrow> ('h, 's) fs_env \<Rightarrow> string \<Rightarrow> string \<Rightarrow> ('h server, 's fsys, unit) client_op" where
  "rc_ReplaceDisk X E target source C =
     no_reply (replica_service X (of_replica (''failed to replace disk '' @ target @ '' with '' @ source @ '' for replica '') C) (rs_DiskReplace E target source)) C"

definition rc_PrepareRemoveDisk :: "transport \<Rightarrow> string \<Rightarrow> ('h server, 's fsys, PrepareRemoveAction list) client_op" where
  "rc_PrepareRemoveDisk X dk C =
     replica_service X (of_replica (''failed to prepare removing disk '' @ dk @ '' for replica '') C) (rs_DiskPrepareRemove dk) C"

definition rc_MarkDiskAsRemoved :: "transport \<Rightarrow> ('h, 's) fs_env \<Rightarrow> string \<Rightarrow> ('h server, 's fsys, unit) client_op" where
  "rc_MarkDiskAsRemoved X E dk C =
     no_reply (replica_service X (of_replica (''failed to mark disk '' @ dk @ '' as removed for replica '') C) (rs_DiskMarkAsRemoved E dk)) C"

definition bool_arg :: "bool \<Rightarrow> string" where
  "bool_arg b = (if b then ''true'' else ''false'')"

definition rc_SetRebuilding :: "transport \<Rightarrow> ('h, 's) fs_env \<Rightarrow> bool \<Rightarrow> ('h server, 's fsys, unit) client_op" where
  "rc_SetRebuilding X E rebuilding C =
     no_reply (replica_service X (of_replica (''failed to set rebuilding to '' @ bool_arg rebuilding @ '' for replica '') C) (rs_RebuildingSet E rebuilding)) C"

definition rc_SetUnmapMarkDiskChainRemoved :: "transport \<Rightarrow> ('h, 's) fs_env \<Rightarrow> bool \<Rightarrow> ('h server, 's fsys, unit) client_op" where
  "rc_SetUnmapMarkDiskChainRemoved X E enabled C =
     no_reply (replica_service X (of_replica (''failed to set UnmapMarkDiskChainRemoved flag to '' @ bool_arg enabled @ '' for replica '') C)
       (rs_UnmapMarkDiskChainRemovedSet E enabled)) C"

section \<open>Files\<close>

definition RemoveFile :: "transport \<Rightarrow> 'w file_tools \<Rightarrow> string \<Rightarrow> (agent, 'w, unit) client_op" where
  "RemoveFile X F file = sync_service X (''failed to remove file '' @ file) (FileRemove F file)"

definition RenameFile :: "transport \<Rightarrow> 'w file_tools \<Rightarrow> string \<Rightarrow> string \<Rightarrow> (agent, 'w, unit) client_op" where
  "RenameFile X F oldFileName newFileName =
     sync_service X (''failed to rename or replace old file '' @ oldFileName @ '' with new file '' @ newFileName) (FileRename F oldFileName newFileName)"

definition SendFile :: "transport \<Rightarrow> 'w file_tools \<Rightarrow> string \<Rightarrow> string \<Rightarrow> int \<Rightarrow> int \<Rightarrow> bool \<Rightarrow> (agent, 'w, unit) client_op" where
  "SendFile X F src host' port timeout fastSync =
     sync_service X (''failed to send file '' @ src @ '' to '' @ host' @ '':'' @ showInt port) (FileSend F src host' port fastSync (int32 timeout))"

definition ExportVolume ::
  "transport \<Rightarrow> ('h, 's) fs_env \<Rightarrow> (string \<Rightarrow> 's fsys \<Rightarrow> (error + (string \<times> 'h) option) \<times> 's fsys) \<Rightarrow> error + string \<Rightarrow>
     (string \<Rightarrow> 'h replica \<Rightarrow> int \<Rightarrow> string \<Rightarrow> int \<Rightarrow> 's fsys \<Rightarrow> error option \<times> 's fsys) \<Rightarrow>
     string \<Rightarrow> string \<Rightarrow> int \<Rightarrow> bool \<Rightarrow> int \<Rightarrow> (agent, 's fsys, unit) client_op" where
  "ExportVolume X E OpenBackingFile getwd sync snapshotName host' port exportBackingImage timeout =
     sync_service X (''failed to export snapshot '' @ snapshotName @ '' to '' @ host' @ '':'' @ showInt port)
       (VolumeExport E OpenBackingFile getwd sync snapshotName host' port exportBackingImage (int32 timeout))"

definition LaunchReceiver :: "transport \<Rightarrow> string \<Rightarrow> (agent, 'w, string \<times> int) client_op" where
  "LaunchReceiver X toFilePath C s w =
     map_option (apfst (map_sum id (\<lambda>port. (rc_host C, int32 port)))) (sync_service X (''failed to launch receiver for '' @ toFilePath) ReceiverLaunch C s w)"

definition syncFileInfoListToSyncAgentGRPCFormat :: "SyncFileInfo list \<Rightarrow> SyncFileInfo list" where
  "syncFileInfoListToSyncAgentGRPCFormat l = map (\<lambda>i. \<lparr>FromFileName = FromFileName i, ToFileName = ToFileName i, ActualSize = ActualSize i\<rparr>) l"

text \<open>The list of files in the text of the error is left out.\<close>

definition SyncFiles :: "transport \<Rightarrow> 'w agent_env \<Rightarrow> string \<Rightarrow> SyncFileInfo list \<Rightarrow> (string \<times> string) option \<Rightarrow> (agent, 'w, unit) client_op" where
  "SyncFiles X A fromAddress infos localSync C =
     sync_service X (''failed to sync files from '' @ fromAddress)
       (on_both (FilesSync A localSync fromAddress (rc_host C) (syncFileInfoListToSyncAgentGRPCFormat infos))) C"

section \<open>Backups\<close>

definition CreateBackup ::
  "transport \<Rightarrow> ('h, 's) fs_env \<Rightarrow> ('h, 's) backup_tools \<Rightarrow> (string \<times> nat) list \<Rightarrow> (string \<times> string) list \<Rightarrow> CreateBackupParameters \<Rightarrow>
     (agent, ('h, 's) backups, string \<times> bool) client_op" where
  "CreateBackup X E B order credential params =
     sync_service X (''failed to create backup to '' @ cbp_DestURL params @ '' for volume '' @ cbp_VolumeName params) (BackupCreate E B order credential params)"

text \<open>The error of BackupStatus is passed on without a text.\<close>

definition rc_BackupStatus :: "transport \<Rightarrow> (string \<times> nat) list \<Rightarrow> string \<Rightarrow> (agent, ('h, 's) backups, backup_status) client_op" where
  "rc_BackupStatus X order backupName C s w =
     (case getSyncServiceClient X C (fst w) of
        (Some e, C) \<Rightarrow> Some (Inl e, C, s, next_call w)
      | (None, C) \<Rightarrow> keep_client C (rpc_call (\<lambda>_. t_deliver X (fst w)) (lift_fs (BackupStatus_handler order backupName)) s (next_call w)))"

definition RmBackup :: "transport \<Rightarrow> 'w file_tools \<Rightarrow> string \<Rightarrow> (agent, 'w, unit) client_op" where
  "RmBackup X F backup = sync_service X (''failed to remove backup '' @ backup) (BackupRemove F backup)"

definition RestoreBackup ::
  "transport \<Rightarrow> 'w agent_env \<Rightarrow> ('h, 's) backup_tools \<Rightarrow> string \<Rightarrow> string \<Rightarrow> (string \<times> string) list \<Rightarrow> int \<Rightarrow> (agent, 'w, unit) client_op" where
  "RestoreBackup X A B backup snapshotDiskName credential concurrentLimit =
     sync_service X (''failed to restore backup data '' @ backup @ '' to snapshot file '' @ snapshotDiskName)
       (BackupRestore A B backup snapshotDiskName credential (int32 concurrentLimit))"

definition rc_Reset :: "transport \<Rightarrow> (agent, 'w, unit) client_op" where
  "rc_Reset X = sync_service X ''failed to clean up restore info in Sync Agent Server'' (on_agent agent_Reset)"

definition rc_RestoreStatus :: "transport \<Rightarrow> (agent, 'w, restore_status) client_op" where
  "rc_RestoreStatus X = sync_service X ''failed to get restore status'' RestoreStatus_handler"

section \<open>Jobs\<close>

definition rc_SnapshotPurge :: "transport \<Rightarrow> (agent, 'w, unit) client_op" where
  "rc_SnapshotPurge X = sync_service X ''failed to start snapshot purge'' (on_agent SnapshotPurge)"

definition rc_SnapshotPurgeStatus :: "transport \<Rightarrow> (agent, 'w, job_status) client_op" where
  "rc_SnapshotPurgeStatus X = sync_service X ''failed to get snapshot purge status'' SnapshotPurgeStatus"

definition rc_ReplicaRebuildStatus :: "transport \<Rightarrow> (agent, 'w, job_status) client_op" where
  "rc_ReplicaRebuildStatus X = sync_service X ''failed to get replica rebuild status'' ReplicaRebuildStatus"

definition rc_CloneSnapshot :: "transport \<Rightarrow> 'w agent_env \<Rightarrow> string \<Rightarrow> string \<Rightarrow> (agent, 'w, unit) client_op" where
  "rc_CloneSnapshot X A fromAddress snapshotFileName C =
     sync_service X (''failed to clone snapshot '' @ snapshotFileName @ '' from replica '' @ fromAddress @ '' to host '' @ rc_host C)
       (on_both (SnapshotClone A snapshotFileName fromAddress (rc_host C))) C"

definition rc_SnapshotCloneStatus :: "transport \<Rightarrow> (agent, 'w, job_status) client_op" where
  "rc_SnapshotCloneStatus X = sync_service X ''failed to get snapshot clone status'' SnapshotCloneStatus"

text \<open>The hash jobs behind the pointers of the agent are \<open>js\<close>; the goroutine of SnapshotHash is hash_task of theory Snapshot_Hash.\<close>

definition rc_SnapshotHash :: "transport \<Rightarrow> string \<Rightarrow> bool \<Rightarrow> (agent, 'w, unit) client_op" where
  "rc_SnapshotHash X snapshotName rehash = sync_service X ''failed to start hashing snapshot'' (on_agent (\<lambda>s. (SnapshotHash snapshotName, s)))"

definition rc_SnapshotHashStatus :: "transport \<Rightarrow> 'w hash_env \<Rightarrow> (nat \<Rightarrow> SnapshotHashJob) \<Rightarrow> string \<Rightarrow> (agent, 'w, SnapshotHashStatusResponse) client_op" where
  "rc_SnapshotHashStatus X H js snapshotName =
     sync_service X ''failed to get snapshot hash status''
       (\<lambda>s w. map_option (\<lambda>(r, l, w). (Inr r, s\<lparr>sa_SnapshotHashList := l\<rparr>, w)) (SnapshotHashStatus H js snapshotName (sa_SnapshotHashList s) w))"

definition rc_SnapshotHashCancel :: "transport \<Rightarrow> (nat \<Rightarrow> SnapshotHashJob) \<Rightarrow> string \<Rightarrow> (agent, 'w, nat option) client_op" where
  "rc_SnapshotHashCancel X js snapshotName =
     sync_service X (''failed to cancel snapshot '' @ snapshotName @ '' hash task'')
       (\<lambda>s w. map_option (\<lambda>(r, l). (r, s\<lparr>sa_SnapshotHashList := l\<rparr>, w)) (SnapshotHashCancel js snapshotName (sa_SnapshotHashList s)))"

definition rc_SnapshotHashLockState :: "transport \<Rightarrow> 'w hash_env \<Rightarrow> (agent, 'w, bool) client_op" where
  "rc_SnapshotHashLockState X H = sync_service X ''failed to get snapshot hash lock state'' (\<lambda>s w. case SnapshotHashLockState H w of (r, w) \<Rightarrow> Some (r, s, w))"

section \<open>Connections\<close>

text \<open>A client that has connected does not dial again, and one that has not tries again at the next call.\<close>

lemma Once_Do_done: "Once_Do finished result = (err, finished') \<Longrightarrow> (finished' \<longleftrightarrow> err = None) \<and> (finished \<longrightarrow> finished')"
  by (auto simp: Once_Do_def split: if_splits)

lemma client_dials_once: "rc_syncOnce C \<Longrightarrow> t_deliver X = t_deliver X' \<Longrightarrow> sync_service X text h C s w = sync_service X' text h C s w"
  by (simp add: sync_service_def getSyncServiceClient_def Once_Do_def)

end
