(* ===== verification/Backup_Task.thy ===== *)
theory Backup_Task
  imports Sync_Task Sync_Task_Thms Sync_Handlers
begin

text \<open>
  The tasks of a volume that concern backups (src/pkg/sync/backup.go): creating one from a replica in mode RW, and restoring one on all replicas.  The calls to
  the replicas are those of theory Sync_Task and the ones below.
\<close>

section \<open>Calls\<close>

record volume_state =
  vs_Name :: string
  vs_Size :: int
  vs_FrontendState :: string

record 'w backup_env =
  be_task :: "'w task_env"
  be_Volume :: "'w \<Rightarrow> (error + volume_state) \<times> 'w"
  be_CreateBackup :: "string \<Rightarrow> CreateBackupParameters \<Rightarrow> 'w \<Rightarrow> (error + string \<times> bool) \<times> 'w"
  be_BackupStatus :: "string \<Rightarrow> string \<Rightarrow> 'w \<Rightarrow> (error + backup_status) \<times> 'w"
  be_RestoreBackup :: "string \<Rightarrow> string \<Rightarrow> string \<Rightarrow> (string \<times> string) list \<Rightarrow> int \<Rightarrow> 'w \<Rightarrow> error option \<times> 'w"
  be_Reset :: "string \<Rightarrow> 'w \<Rightarrow> error option \<times> 'w"
  be_RestoreStatus :: "string \<Rightarrow> 'w \<Rightarrow> (error + restore_status) \<times> 'w"
  be_InspectBackup :: "string \<Rightarrow> 'w \<Rightarrow> (error + string \<times> int) \<times> 'w"
  be_UUID :: "'w \<Rightarrow> string"

section \<open>Creating a backup\<close>

definition findRWReplica :: "'w backup_env \<Rightarrow> 'w \<Rightarrow> (error + string \<times> mode) \<times> 'w" where
  "findRWReplica E w =
     (case te_ReplicaList (be_task E) w of
        (Inl e, w) \<Rightarrow> (Inl (Wrapped ''failed to list replicas for backup'' e), w)
      | (Inr replicas, w) \<Rightarrow> (case find (\<lambda>r. snd r = RW) replicas of
          Some r \<Rightarrow> (Inr r, w)
        | None \<Rightarrow> (Inl (Errorf ''cannot find an available replica for backup''), w)))"

definition createBackup :: "'w backup_env \<Rightarrow> string \<times> mode \<Rightarrow> CreateBackupParameters \<Rightarrow> 'w \<Rightarrow> (error + string \<times> bool \<times> string) \<times> 'w" where
  "createBackup E r params w =
     (if snd r \<noteq> RW then (Inl (Errorf (''can only create backup from replica in mode RW, got '' @ mode_name (snd r))), w)
      else with_client (be_task E) (fst r) '''' (\<lambda>w.
        case te_GetReplica (be_task E) (fst r) w of
          (Inl e, w) \<Rightarrow> (Inl e, w)
        | (Inr rep, w) \<Rightarrow>
            let diskName = GenerateSnapshotDiskName (cbp_SnapshotName params)
            in if map_of (ri_Disks rep) diskName = None
               then (Inl (Errorf (''snapshot disk '' @ diskName @ '' not found on replica '' @ fst r)), w)
               else case be_CreateBackup E (fst r) params w of
                 (Inl e, w) \<Rightarrow> (Inl e, w)
               | (Inr (backup, isIncremental), w) \<Rightarrow> (Inr (backup, isIncremental, fst r), w)) w)"

text \<open>CreateBackup; the volume name of the parameters is that of the controller.\<close>

definition CreateBackup_task :: "'w backup_env \<Rightarrow> CreateBackupParameters \<Rightarrow> 'w \<Rightarrow> (error + string \<times> bool \<times> string) \<times> 'w" where
  "CreateBackup_task E params w =
     (if cbp_SnapshotName params = VolumeHeadName then (Inl (Errorf ''cannot backup the head disk in the chain''), w)
      else case be_Volume E w of
        (Inl e, w) \<Rightarrow> (Inl e, w)
      | (Inr v, w) \<Rightarrow> (case findRWReplica E w of
          (Inl e, w) \<Rightarrow> (Inl e, w)
        | (Inr r, w) \<Rightarrow> createBackup E r (params\<lparr>cbp_VolumeName := vs_Name v\<rparr>) w))"

definition FetchBackupStatus :: "'w backup_env \<Rightarrow> string \<Rightarrow> string \<Rightarrow> 'w \<Rightarrow> (backup_status \<times> string) \<times> 'w" where
  "FetchBackupStatus E backupID replicaAddr w =
     (case be_BackupStatus E replicaAddr backupID w of
        (Inl e, w) \<Rightarrow> ((\<lparr>bs_Progress = 0, bs_BackupUrl = '''', bs_Error = ''Failed to get backup status on '' @ replicaAddr @ '' for '' @ backupID @ '': '' @ Error_msg e,
            bs_SnapshotName = '''', bs_State = ''''\<rparr>, ''''), w)
      | (Inr bs, w) \<Rightarrow> ((bs, replicaAddr), w))"

section \<open>The status of the restores\<close>

definition failed_restore :: "string \<Rightarrow> restore_status" where
  "failed_restore msg = \<lparr>rr_IsRestoring = False, rr_LastRestored = '''', rr_DestFileName = '''', rr_BackupUrl = '''', rr_Progress = 0, rr_Error = msg, rr_State = '''',
     rr_CurrentRestoringBackup = ''''\<rparr>"

fun restore_status_loop ::
  "'w backup_env \<Rightarrow> (string \<times> mode) list \<Rightarrow> (string \<times> restore_status) list \<Rightarrow> 'w \<Rightarrow> (error + (string \<times> restore_status) list) \<times> 'w" where
  "restore_status_loop E [] m w = (Inr m, w)"
| "restore_status_loop E (r # rs) m w =
     (if snd r = ERR then restore_status_loop E rs m w
      else case te_NewReplicaClient (be_task E) (fst r) '''' w of
        (Some e, w) \<Rightarrow> (Inl e, w)
      | (None, w) \<Rightarrow> (case be_RestoreStatus E (fst r) w of
          (Inl e, w) \<Rightarrow> restore_status_loop E rs
             (AList.update (fst r) (failed_restore (''Failed to get restoring status on '' @ fst r @ '': '' @ Error_msg e)) m) w
        | (Inr st, w) \<Rightarrow> restore_status_loop E rs (AList.update (fst r) st m) w))"

definition RestoreStatus_task :: "'w backup_env \<Rightarrow> 'w \<Rightarrow> (error + (string \<times> restore_status) list) \<times> 'w" where
  "RestoreStatus_task E w =
     (case te_ReplicaList (be_task E) w of (Inl e, w) \<Rightarrow> (Inl e, w) | (Inr replicas, w) \<Rightarrow> restore_status_loop E replicas [] w)"

section \<open>Restoring\<close>

fun restore_check :: "'w task_env \<Rightarrow> (string \<times> mode) list \<Rightarrow> (string \<times> string) list \<Rightarrow> 'w \<Rightarrow> (string \<times> string) list \<times> 'w" where
  "restore_check E [] taskErr w = (taskErr, w)"
| "restore_check E (r # rs) taskErr w =
     (case task_isRebuilding E (fst r) w of
        (Inl e, w) \<Rightarrow> restore_check E rs (taskErr @ [NewReplicaError (fst r) e]) w
      | (Inr True, w) \<Rightarrow> restore_check E rs (taskErr @ [NewReplicaError (fst r) (Errorf ''cannot do restore for normal rebuilding replica'')]) w
      | (Inr False, w) \<Rightarrow> restore_check E rs taskErr w)"

text \<open>The status of the replicas in the order of the map: whether a backup was restored before, and the file of a restore that is running.\<close>

definition restore_target :: "(string \<times> restore_status) list \<Rightarrow> bool \<times> string" where
  "restore_target m =
     (list_ex (\<lambda>(_, rs). rr_LastRestored rs \<noteq> '''') m,
      fold (\<lambda>(_, rs) name. if rr_IsRestoring rs \<and> rr_DestFileName rs \<noteq> '''' then rr_DestFileName rs else name) m '''')"

text \<open>The disk to restore to, from the snapshots of the volume; the replicas in the texts are left out.  None asks for a purge.\<close>

definition choose_disk :: "bool \<Rightarrow> string \<Rightarrow> string \<Rightarrow> (string \<times> DiskInfo) list \<Rightarrow> (error + string) option" where
  "choose_disk isIncremental snapshotDiskName uuid snapshots =
     (if length snapshots = 0 then Some (Inl (Errorf ''BUG: replicas do not contain any snapshots and volume head''))
      else if length snapshots = 1 then
        Some (if isIncremental then Inl (Errorf ''BUG: replicas of DR volume should contains at least 2 disk files: the volume head and a snapshot storing restore data'')
              else Inr (if snapshotDiskName = '''' then GenerateSnapshotDiskName uuid else snapshotDiskName))
      else if length snapshots = 2 then
        Some (Inr (case find (\<lambda>(_, s). di_Name s = VolumeHeadName) snapshots of
            Some (_, s) \<Rightarrow> GenerateSnapshotDiskName (di_Parent s)
          | None \<Rightarrow> snapshotDiskName))
      else None)"

definition check_size :: "volume_state \<Rightarrow> bool \<Rightarrow> string \<times> int \<Rightarrow> error option" where
  "check_size v isIncremental b =
     (if snd b < vs_Size v
      then Some (Errorf (''BUG: The backup volume '' @ fst b @ '' size '' @ showInt (snd b) @ '' cannot be smaller than the DR volume '' @ vs_Name v @ '' size '' @ showInt (vs_Size v)))
      else if snd b > vs_Size v
      then Some (Errorf (if \<not> isIncremental
             then ''BUG: The backup volume '' @ fst b @ '' size '' @ showInt (snd b) @ '' cannot be larger than normal restore volume '' @ vs_Name v @ '' size '' @ showInt (vs_Size v)
             else ''need to expand the DR volume '' @ vs_Name v @ '' to size '' @ showInt (snd b) @ '' before incremental restoration''))
      else None)"

definition restoreBackup :: "'w backup_env \<Rightarrow> string \<Rightarrow> string \<Rightarrow> (string \<times> string) list \<Rightarrow> int \<Rightarrow> (string \<times> mode) list \<Rightarrow> string \<Rightarrow> 'w \<Rightarrow> error option \<times> 'w" where
  "restoreBackup E backup snapshotFile credential concurrentLimit replicas a w =
     (if map_of replicas a = Some ERR then (Some (Errorf ''cannot restore backup from replica in mode ERR''), w)
      else of_error (with_client (be_task E) a '''' (\<lambda>w. as_error (be_RestoreBackup E a backup snapshotFile credential concurrentLimit w)) w))"

definition restore_all ::
  "'w backup_env \<Rightarrow> (string list \<Rightarrow> string list) \<Rightarrow> string \<Rightarrow> string \<Rightarrow> (string \<times> string) list \<Rightarrow> int \<Rightarrow> (string \<times> mode) list \<Rightarrow> 'w \<Rightarrow> error option \<times> 'w" where
  "restore_all E sched backup file credential concurrentLimit replicas w =
     (let (errorMap, w) = fan_out (restoreBackup E backup file credential concurrentLimit replicas) (sched (map fst replicas)) [] w
      in (task_result (collect_errors (\<lambda>_. False) errorMap replicas), w))"

text \<open>From the snapshots on.\<close>

definition restore_to ::
  "'w backup_env \<Rightarrow> (string list \<Rightarrow> string list) \<Rightarrow> string \<Rightarrow> (string \<times> string) list \<Rightarrow> int \<Rightarrow> volume_state \<Rightarrow> (string \<times> mode) list \<Rightarrow> bool \<Rightarrow>
     (error + string) option \<Rightarrow> 'w \<Rightarrow> error option \<times> 'w" where
  "restore_to E sched backup credential concurrentLimit v replicas isIncremental chosen w =
     (case chosen of
        None \<Rightarrow> (case PurgeSnapshots (be_task E) sched True w of
          (Some e, w) \<Rightarrow> (Some e, w)
        | (None, w) \<Rightarrow> (Some (Errorf ''found more than 1 snapshot in the replicas, hence started to purge snapshots before the restore''), w))
      | Some (Inl e) \<Rightarrow> (Some e, w)
      | Some (Inr file) \<Rightarrow> (case be_InspectBackup E backup w of
          (Inl e, w) \<Rightarrow> (task_result (map (\<lambda>(a, _). NewReplicaError a (Wrapped ''failed to get the current restoring backup info'' e)) replicas), w)
        | (Inr b, w) \<Rightarrow> (case check_size v isIncremental b of
            Some e \<Rightarrow> (Some e, w)
          | None \<Rightarrow> restore_all E sched backup file credential concurrentLimit replicas w)))"

text \<open>The order in which Go ranges over the status of the restores is \<open>order\<close>.\<close>

definition RestoreBackup_task ::
  "'w backup_env \<Rightarrow> (string list \<Rightarrow> string list) \<Rightarrow> ((string \<times> restore_status) list \<Rightarrow> (string \<times> restore_status) list) \<Rightarrow>
     string \<Rightarrow> (string \<times> string) list \<Rightarrow> int \<Rightarrow> 'w \<Rightarrow> error option \<times> 'w" where
  "RestoreBackup_task E sched order backup credential concurrentLimit w =
     (case be_Volume E w of
        (Inl e, w) \<Rightarrow> (Some (Wrapped ''failed to get volume'' e), w)
      | (Inr v, w) \<Rightarrow>
          if vs_FrontendState v = ''up'' then (Some (Errorf ''volume frontend enabled, cannot perform restore''), w)
          else case te_ReplicaList (be_task E) w of
            (Inl e, w) \<Rightarrow> (Some (Wrapped ''failed to list replicas before the restore'' e), w)
          | (Inr replicas, w) \<Rightarrow> (case restore_check (be_task E) replicas [] w of
              (taskErr, w) \<Rightarrow>
                if taskErr \<noteq> [] then (task_result taskErr, w)
                else case PurgeSnapshotStatus (be_task E) w of
                  (Inl e, w) \<Rightarrow> (Some e, w)
                | (Inr ps, w) \<Rightarrow>
                    if list_ex (\<lambda>(_, st). ts_IsRunning st) ps
                    then (Some (Errorf ''cannot do restore now since replicas are purging snapshots''), w)
                    else case RestoreStatus_task E w of
                      (Inl e, w) \<Rightarrow> (Some e, w)
                    | (Inr m, w) \<Rightarrow> (case restore_target (order m) of (isIncremental, name) \<Rightarrow>
                        (case GetSnapshotsInfo (be_task E) replicas w of
                           (Inl e, w) \<Rightarrow> (Some (Wrapped ''failed to get snapshot info before the incremental restore'' e), w)
                         | (Inr snapshots, w) \<Rightarrow>
                             restore_to E sched backup credential concurrentLimit v replicas isIncremental
                               (choose_disk isIncremental name (be_UUID E w) snapshots) w))))"

section \<open>Reset\<close>

fun reset_check :: "'w task_env \<Rightarrow> (string \<times> mode) list \<Rightarrow> 'w \<Rightarrow> error option \<times> 'w" where
  "reset_check E [] w = (None, w)"
| "reset_check E (r # rs) w =
     (case task_isRebuilding E (fst r) w of
        (Inl e, w) \<Rightarrow> (Some e, w)
      | (Inr True, w) \<Rightarrow> (Some (Errorf (''cannot reset Restore info as replica('' @ fst r @ '') is rebuilding'')), w)
      | (Inr False, w) \<Rightarrow> reset_check E rs w)"

fun reset_loop :: "'w backup_env \<Rightarrow> (string \<times> mode) list \<Rightarrow> 'w \<Rightarrow> error option \<times> 'w" where
  "reset_loop E [] w = (None, w)"
| "reset_loop E (r # rs) w =
     (case te_NewReplicaClient (be_task E) (fst r) '''' w of
        (Some e, w) \<Rightarrow> (Some e, w)
      | (None, w) \<Rightarrow> (case be_Reset E (fst r) w of
          (Some e, w) \<Rightarrow> (Some e, w)
        | (None, w) \<Rightarrow> reset_loop E rs w))"

definition Reset_task :: "'w backup_env \<Rightarrow> 'w \<Rightarrow> error option \<times> 'w" where
  "Reset_task E w =
     (case te_ReplicaList (be_task E) w of
        (Inl e, w) \<Rightarrow> (Some e, w)
      | (Inr replicas, w) \<Rightarrow> (case reset_check (be_task E) replicas w of (Some e, w) \<Rightarrow> (Some e, w) | (None, w) \<Rightarrow> reset_loop E replicas w))"

end
