(* ===== verification/Backup_Task_Thms.thy ===== *)
theory Backup_Task_Thms
  imports Backup_Task
begin

text \<open>When a restore is started, and on which file.\<close>

definition asks_pure :: "'w backup_env \<Rightarrow> bool" where
  "asks_pure E \<longleftrightarrow> queries_pure (be_task E) \<and> (\<forall>w. snd (be_Volume E w) = w \<and> (\<forall>a. snd (be_RestoreStatus E a w) = w \<and> snd (be_InspectBackup E a w) = w))"

lemma asks_pureD:
  assumes "asks_pure E"
  shows "queries_pure (be_task E)" "be_Volume E w = (r1, w') \<Longrightarrow> w' = w" "be_RestoreStatus E a w = (r2, w') \<Longrightarrow> w' = w" "be_InspectBackup E a w = (r3, w') \<Longrightarrow> w' = w"
  using assms unfolding asks_pure_def by (simp, (metis snd_conv)+)

lemma purge_status_pure: "queries_pure E \<Longrightarrow> purge_status_loop E rs m w = (r, w') \<Longrightarrow> w' = w"
  by (induction rs arbitrary: m) (auto split: prod.splits option.splits sum.splits if_splits dest: queries_pureD)

lemma PurgeSnapshotStatus_pure: "queries_pure E \<Longrightarrow> PurgeSnapshotStatus E w = (r, w') \<Longrightarrow> w' = w"
  by (auto simp: PurgeSnapshotStatus_def split: prod.splits sum.splits dest: queries_pureD purge_status_pure)

lemma restore_status_pure: "asks_pure E \<Longrightarrow> restore_status_loop E rs m w = (r, w') \<Longrightarrow> w' = w"
  by (induction rs arbitrary: m) (auto split: prod.splits option.splits sum.splits if_splits dest: queries_pureD [OF asks_pureD(1)] asks_pureD(3))

lemma RestoreStatus_pure: "asks_pure E \<Longrightarrow> RestoreStatus_task E w = (r, w') \<Longrightarrow> w' = w"
  by (auto simp: RestoreStatus_task_def split: prod.splits sum.splits dest: queries_pureD [OF asks_pureD(1)] restore_status_pure)

lemma getNonBackingDisks_pure: "queries_pure E \<Longrightarrow> getNonBackingDisks E a w = (r, w') \<Longrightarrow> w' = w"
  by (auto simp: getNonBackingDisks_def with_client_def split: prod.splits option.splits sum.splits dest: queries_pureD)

lemma info_loop_pure: "queries_pure E \<Longrightarrow> info_loop E rs ds w = (r, w') \<Longrightarrow> w' = w"
  by (induction rs arbitrary: ds) (auto split: prod.splits sum.splits if_splits dest: getNonBackingDisks_pure)

lemma GetSnapshotsInfo_pure: "queries_pure E \<Longrightarrow> GetSnapshotsInfo E rs w = (r, w') \<Longrightarrow> w' = w"
  by (auto simp: GetSnapshotsInfo_def split: prod.splits sum.splits dest: info_loop_pure)

lemma restore_check_pass:
  assumes "queries_pure E" "restore_check E rs errs w = (errs', w')"
  shows "w' = w" "errs' = [] \<Longrightarrow> errs = [] \<and> (\<forall>a \<in> fst ` set rs. fst (task_isRebuilding E a w) = Inr False)"
proof -
  have "w' = w \<and> (errs' = [] \<longrightarrow> errs = [] \<and> (\<forall>a \<in> fst ` set rs. fst (task_isRebuilding E a w) = Inr False))"
    using assms(2)
  proof (induction rs arbitrary: errs)
    case (Cons r rs)
    obtain rb where rb: "task_isRebuilding E (fst r) w = (rb, w)" using isRebuilding_pure [OF assms(1)] by (metis prod.collapse)
    show ?case
    proof (cases rb)
      case (Inl e)
      then show ?thesis using Cons.prems rb by (auto dest!: Cons.IH)
    next
      case (Inr b)
      then show ?thesis using Cons.prems rb by (cases b) (auto dest!: Cons.IH)
    qed
  qed simp
  then show "w' = w" "errs' = [] \<Longrightarrow> errs = [] \<and> (\<forall>a \<in> fst ` set rs. fst (task_isRebuilding E a w) = Inr False)" by auto
qed

text \<open>The last part of the task: nothing, a purge, or the same restore on every replica.\<close>

lemma restore_to_cases:
  assumes "asks_pure E"
  shows "snd (restore_to E sched backup credential limit v replicas inc chosen w) \<in>
    {w, snd (PurgeSnapshots (be_task E) sched True w)} \<union> range (\<lambda>nm. snd (restore_all E sched backup nm credential limit replicas w))"
proof (cases chosen)
  case None
  then show ?thesis by (cases "PurgeSnapshots (be_task E) sched True w") (auto simp: restore_to_def split: option.splits)
next
  case (Some c)
  show ?thesis
  proof (cases c)
    case (Inl e)
    then show ?thesis using Some by (simp add: restore_to_def)
  next
    case (Inr nm)
    obtain b where b: "be_InspectBackup E backup w = (b, w)" using asks_pureD(4) [OF assms] by (metis prod.collapse)
    show ?thesis
    proof (cases b)
      case Inl': (Inl e)
      then show ?thesis using Some Inr b by (simp add: restore_to_def)
    next
      case Inr': (Inr i)
      then show ?thesis using Some Inr b by (cases "check_size v inc i") (simp_all add: restore_to_def)
    qed
  qed
qed


text \<open>One replica with only a head, a volume whose frontend is down and a backup of its size; the world counts the restores.\<close>

definition ex_restore :: "nat backup_env" where
  "ex_restore = \<lparr>be_task = ex_task\<lparr>te_ReplicaList := (\<lambda>w. (Inr [([], RW)], w)),
       te_GetReplica := (\<lambda>a w. (Inr ((demo_info a)\<lparr>ri_BackingFile := ''b'', ri_Disks := [(''volume-head-000.img'', \<lparr>di_Name = ''volume-head-000.img'', di_Parent = [], di_Children = [],
         di_Removed = False, di_UserCreated = False, di_Created = [], di_Size = [], di_Labels = []\<rparr>)]\<rparr>), w))\<rparr>,
     be_Volume = (\<lambda>w. (Inr \<lparr>vs_Name = [], vs_Size = 8, vs_FrontendState = ''down''\<rparr>, w)), be_CreateBackup = (\<lambda>_ _ w. (Inr ([], False), w)),
     be_BackupStatus = (\<lambda>_ _ w. (Inl (Errorf []), w)), be_RestoreBackup = (\<lambda>_ _ _ _ _ w. (None, w + 1)), be_Reset = (\<lambda>_ w. (None, w)),
     be_RestoreStatus = (\<lambda>_ w. (Inr (failed_restore []), w)), be_InspectBackup = (\<lambda>_ w. (Inr ([], 8), w)), be_UUID = (\<lambda>_. ''u'')\<rparr>"

lemma ex_restore_pure: "asks_pure ex_restore"
  by (simp add: asks_pure_def queries_pure_def ex_restore_def ex_task_def)

lemma ex_restore_facts: "be_Volume ex_restore w = (Inr \<lparr>vs_Name = [], vs_Size = 8, vs_FrontendState = ''down''\<rparr>, w)"
  "te_ReplicaList (be_task ex_restore) w = (Inr [([], RW)], w)"
  by (simp_all add: ex_restore_def)

lemma ex_restore_starts: "snd (RestoreBackup_task ex_restore id id ''bk'' [] 1 0) = 1"
  by code_simp


end
