(* ===== verification/Base64.thy ===== *)
theory Base64
  imports Types_Error
begin

text \<open>
  The standard base64 encoding of encoding/base64, which the REST frontend uses for data and identifiers (src/pkg/frontend/rest/model.go), and that decoding
  inverts it.
\<close>

section \<open>Digits\<close>

definition alphabet :: string where
  "alphabet = ''ABCDEFGHIJKLMNOPQRSTUVWXYZabcdefghijklmnopqrstuvwxyz0123456789+/''"

fun position :: "char \<Rightarrow> string \<Rightarrow> nat option" where
  "position c [] = None"
| "position c (a # as) = (if a = c then Some 0 else map_option Suc (position c as))"

definition digit :: "char \<Rightarrow> nat option" where
  "digit c = position c alphabet"

definition char_of_digit :: "nat \<Rightarrow> char" where
  "char_of_digit n = alphabet ! n"

lemma position_nth: "distinct as \<Longrightarrow> n < length as \<Longrightarrow> position (as ! n) as = Some n"
proof (induction as arbitrary: n)
  case (Cons a as)
  then show ?case by (cases n) (auto simp: nth_mem)
qed simp

lemma alphabet_facts: "distinct alphabet" "length alphabet = 64" "CHR ''='' \<notin> set alphabet" "CHR 0x0A \<notin> set alphabet" "CHR 0x0D \<notin> set alphabet"
  by code_simp+

lemma digit_char_of [simp]: "n < 64 \<Longrightarrow> digit (char_of_digit n) = Some n"
  by (simp add: digit_def char_of_digit_def position_nth alphabet_facts)

lemma char_of_digit_in: "n < 64 \<Longrightarrow> char_of_digit n \<in> set alphabet"
  by (simp add: char_of_digit_def alphabet_facts)

lemma char_not_special [simp]: "n < 64 \<Longrightarrow> char_of_digit n \<noteq> CHR ''=''" "n < 64 \<Longrightarrow> char_of_digit n \<noteq> CHR 0x0A" "n < 64 \<Longrightarrow> char_of_digit n \<noteq> CHR 0x0D"
  using char_of_digit_in [of n] alphabet_facts(3-5) by auto

section \<open>Encoding and decoding\<close>

definition byte_of :: "nat \<Rightarrow> byte" where
  "byte_of n = word_of_nat n"

text \<open>EncodeToString: three bytes are four digits; one or two bytes at the end are padded.\<close>

fun EncodeToString :: "bytes \<Rightarrow> string" where
  "EncodeToString [] = []"
| "EncodeToString [a] = [char_of_digit (unat a div 4), char_of_digit (unat a mod 4 * 16), CHR ''='', CHR ''='']"
| "EncodeToString [a, b] =
     [char_of_digit (unat a div 4), char_of_digit (unat a mod 4 * 16 + unat b div 16), char_of_digit (unat b mod 16 * 4), CHR ''='']"
| "EncodeToString (a # b # c # bs) =
     char_of_digit (unat a div 4) # char_of_digit (unat a mod 4 * 16 + unat b div 16) # char_of_digit (unat b mod 16 * 4 + unat c div 64) #
     char_of_digit (unat c mod 64) # EncodeToString bs"

text \<open>DecodeString: line ends are skipped; the input is padded and nothing follows the padding.  The position in the text of CorruptInputError is left out.\<close>

definition CorruptInputError :: error where
  "CorruptInputError = Errorf ''illegal base64 data at input byte''"

fun decode_quanta :: "string \<Rightarrow> error + bytes" where
  "decode_quanta [] = Inr []"
| "decode_quanta (p # q # r # s # cs) =
     (case (digit p, digit q) of
        (Some w, Some x) \<Rightarrow>
          if r = CHR ''='' then (if s = CHR ''='' \<and> cs = [] then Inr [byte_of (w * 4 + x div 16)] else Inl CorruptInputError)
          else (case digit r of
             None \<Rightarrow> Inl CorruptInputError
           | Some y \<Rightarrow>
               if s = CHR ''='' then (if cs = [] then Inr [byte_of (w * 4 + x div 16), byte_of (x mod 16 * 16 + y div 4)] else Inl CorruptInputError)
               else (case digit s of
                  None \<Rightarrow> Inl CorruptInputError
                | Some z \<Rightarrow> (case decode_quanta cs of
                     Inl e \<Rightarrow> Inl e
                   | Inr bs \<Rightarrow> Inr (byte_of (w * 4 + x div 16) # byte_of (x mod 16 * 16 + y div 4) # byte_of (y mod 4 * 64 + z) # bs))))
      | _ \<Rightarrow> Inl CorruptInputError)"
| "decode_quanta _ = Inl CorruptInputError"

definition DecodeString :: "string \<Rightarrow> error + bytes" where
  "DecodeString s = decode_quanta (filter (\<lambda>c. c \<noteq> CHR 0x0A \<and> c \<noteq> CHR 0x0D) s)"

section \<open>Decoding inverts encoding\<close>

lemma byte_parts [simp]:
  fixes a :: byte
  shows "byte_of (unat a) = a" "unat a div 16 div 16 = 0" "unat a div 64 div 4 = 0" "unat a div 16 mod 16 = unat a div 16" "unat a div 64 mod 4 = unat a div 64"
proof -
  have b: "unat a < 256" using unsigned_less [of a, where ?'a = nat] by simp
  show "byte_of (unat a) = a" by (simp add: byte_of_def)
  show "unat a div 16 div 16 = 0" "unat a div 64 div 4 = 0" using b by (simp_all add: div_mult2_eq [symmetric])
  have "unat a div 16 < 16" "unat a div 64 < 4" using b by (simp_all add: less_mult_imp_div_less)
  then show "unat a div 16 mod 16 = unat a div 16" "unat a div 64 mod 4 = unat a div 64" by simp_all
qed

lemma digits_small:
  fixes a b :: byte
  shows "unat a div 4 < 64" "unat a mod 4 * 16 < 64" "unat a mod 4 * 16 + unat b div 16 < 64" "unat b mod 16 * 4 < 64" "unat b mod 16 * 4 + unat a div 64 < 64"
    "unat a mod 64 < 64"
proof -
  have b: "unat a < 256" "unat b < 256" using unsigned_less [of a, where ?'a = nat] unsigned_less [of b, where ?'a = nat] by simp_all
  have "unat b div 16 < 16" "unat a div 64 < 4" "unat a div 4 < 64" using b by (simp_all add: less_mult_imp_div_less)
  moreover have "unat a mod 4 < 4" "unat b mod 16 < 16" by simp_all
  ultimately show "unat a div 4 < 64" "unat a mod 4 * 16 < 64" "unat a mod 4 * 16 + unat b div 16 < 64" "unat b mod 16 * 4 < 64"
    "unat b mod 16 * 4 + unat a div 64 < 64" "unat a mod 64 < 64" by linarith+
qed

lemma decode_encode: "decode_quanta (EncodeToString bs) = Inr bs"
  by (induction bs rule: EncodeToString.induct) (simp_all add: digits_small)

lemma encode_no_newline: "c \<in> set (EncodeToString bs) \<Longrightarrow> c \<noteq> CHR 0x0A \<and> c \<noteq> CHR 0x0D"
  by (induction bs rule: EncodeToString.induct) (auto simp: digits_small)

lemma Decode_Encode [simp]: "DecodeString (EncodeToString bs) = Inr bs"
proof -
  have "filter (\<lambda>c. c \<noteq> CHR 0x0A \<and> c \<noteq> CHR 0x0D) (EncodeToString bs) = EncodeToString bs"
    unfolding filter_id_conv using encode_no_newline by blast
  then show ?thesis by (simp add: DecodeString_def decode_encode)
qed

lemma Encode_inject: "EncodeToString a = EncodeToString b \<longleftrightarrow> a = b"
  using Decode_Encode by (metis sum.inject(2))

end
