(* ===== verification/Frontend.thy ===== *)
theory Frontend
  imports Base64 Controller_Start Data_Conn
begin

text \<open>
  The frontends that export a volume: the socket (src/pkg/frontend/socket/frontend.go), the iSCSI target on top of it (src/pkg/frontend/tgt/frontend.go) and the
  REST device (src/pkg/frontend/rest).  The device service of go-iscsi-helper and the operating system are the record below.  The result None is a panic.
\<close>

record ('d, 'w) fe_env =
  fx_host :: "'w host_ops"
  fx_Stat :: "string \<Rightarrow> 'w \<Rightarrow> error + bool"
  fx_Remove :: "string \<Rightarrow> 'w \<Rightarrow> error option \<times> 'w"
  fx_Listen :: "string \<Rightarrow> 'w \<Rightarrow> 'w"
  fx_StopServer :: "'w \<Rightarrow> 'w"
  fx_ListenAndServe :: "'w \<Rightarrow> 'w"
  NewDevice :: "string \<Rightarrow> int \<Rightarrow> string \<Rightarrow> int \<Rightarrow> int \<Rightarrow> int \<Rightarrow> 'w \<Rightarrow> (error + 'd) \<times> 'w"
  InitDevice :: "'d \<Rightarrow> 'w \<Rightarrow> error option \<times> 'w"
  StartDevice :: "'d \<Rightarrow> 'w \<Rightarrow> error option \<times> 'w"
  ShutdownDevice :: "'d \<Rightarrow> 'w \<Rightarrow> error option \<times> 'w"
  PrepareUpgrade :: "'d \<Rightarrow> 'w \<Rightarrow> error option \<times> 'w"
  FinishUpgrade :: "'d \<Rightarrow> 'w \<Rightarrow> error option \<times> 'w"
  ExpandDevice :: "'d \<Rightarrow> int \<Rightarrow> 'w \<Rightarrow> error option \<times> 'w"
  GetEndpoint :: "'d \<Rightarrow> 'w \<Rightarrow> string"

definition state_of :: "bool \<Rightarrow> string" where
  "state_of isUp = (if isUp then ''up'' else ''down'')"

section \<open>The socket\<close>

text \<open>Of socketServer it matters only whether it is set.\<close>

record Socket =
  sk_Volume :: string
  sk_Size :: int
  sk_SectorSize :: int
  sk_isUp :: bool
  sk_socketPath :: string
  sk_socketServer :: bool

definition Socket_New :: Socket where
  "Socket_New = \<lparr>sk_Volume = '''', sk_Size = 0, sk_SectorSize = 0, sk_isUp = False, sk_socketPath = '''', sk_socketServer = False\<rparr>"

definition Socket_Shutdown :: "('d, 'w) fe_env \<Rightarrow> Socket \<Rightarrow> 'w \<Rightarrow> error option \<times> Socket \<times> 'w" where
  "Socket_Shutdown E t w =
     (let (t, w) = (if sk_Volume t \<noteq> '''' \<and> sk_socketServer t then (t\<lparr>sk_socketServer := False\<rparr>, fx_StopServer E w) else (t, w))
      in (None, t\<lparr>sk_isUp := False\<rparr>, w))"

definition Socket_Init :: "('d, 'w) fe_env \<Rightarrow> Socket \<Rightarrow> string \<Rightarrow> int \<Rightarrow> int \<Rightarrow> 'w \<Rightarrow> error option \<times> Socket \<times> 'w" where
  "Socket_Init E t name sz sectorSize w = Socket_Shutdown E (t\<lparr>sk_Volume := name, sk_Size := sz, sk_SectorSize := sectorSize\<rparr>) w"

definition GetSocketPath :: "Socket \<Rightarrow> string option" where
  "GetSocketPath t = (if sk_Volume t = '''' then None else Some (path_Join ''/var/run'' (''longhorn-'' @ sk_Volume t @ ''.sock'')))"

text \<open>filepath.Dir of a rooted path.\<close>

definition path_Dir :: "string \<Rightarrow> string" where
  "path_Dir p = CHR ''/'' # join ''/'' (clean_loop (split_path [] (rev (dropWhile (\<lambda>c. c \<noteq> CHR ''/'') (rev p)))) [])"

text \<open>The goroutine that accepts connections is started by \<open>fx_Listen\<close>.\<close>

definition startSocketServer :: "('d, 'w) fe_env \<Rightarrow> Socket \<Rightarrow> 'w \<Rightarrow> (error option \<times> Socket \<times> 'w) option" where
  "startSocketServer E t w = do {
     socketPath \<leftarrow> GetSocketPath t;
     Some (case os_MkdirAll (fx_host E) (path_Dir socketPath) w of
        (Some e, w) \<Rightarrow> (Some (Wrapped (''cannot create directory '' @ path_Dir socketPath) e), t, w)
      | (None, w) \<Rightarrow>
          (case (if fx_Stat E socketPath w = Inr False then fx_Remove E socketPath w else (None, w)) of
             (Some e, w) \<Rightarrow> (Some e, t, w)
           | (None, w) \<Rightarrow> (None, t\<lparr>sk_socketPath := socketPath\<rparr>, fx_Listen E socketPath w)))
   }"

definition Socket_Startup :: "('d, 'w) fe_env \<Rightarrow> Socket \<Rightarrow> 'w \<Rightarrow> (error option \<times> Socket \<times> 'w) option" where
  "Socket_Startup E t w = do {
     (err, t, w) \<leftarrow> startSocketServer E t w;
     Some (if err \<noteq> None then (err, t, w) else (None, t\<lparr>sk_isUp := True\<rparr>, w))
   }"

definition Socket_State :: "Socket \<Rightarrow> string" where
  "Socket_State t = state_of (sk_isUp t)"

definition Socket_Endpoint :: "Socket \<Rightarrow> string option" where
  "Socket_Endpoint t = (if sk_isUp t then GetSocketPath t else Some '''')"

definition not_supported :: "string \<Rightarrow> error option" where
  "not_supported what = Some (Errorf (what @ '' is not supported''))"

text \<open>The data processor of a connection to the socket: the controller, which answers pings at once.\<close>

definition NewDataProcessorWrapper :: "'w data_processor \<Rightarrow> 'w data_processor" where
  "NewDataProcessorWrapper rwu =
     \<lparr>dp_ReadAt = dp_ReadAt rwu, dp_WriteAt = dp_WriteAt rwu, dp_UnmapAt = dp_UnmapAt rwu, dp_PingResponse = \<lambda>_. None\<rparr>"

section \<open>The iSCSI target\<close>

record 'd Tgt =
  t_s :: Socket
  t_isUp :: bool
  t_dev :: "'d option"
  t_frontendName :: string
  t_scsiTimeout :: int
  t_iscsiAbortTimeout :: int
  t_iscsiTargetRequestTimeout :: int

definition Tgt_New :: "string \<Rightarrow> int \<Rightarrow> int \<Rightarrow> int \<Rightarrow> 'd Tgt" where
  "Tgt_New frontendName scsiTimeout iscsiAbortTimeout requestTimeout =
     \<lparr>t_s = Socket_New, t_isUp = False, t_dev = None, t_frontendName = frontendName, t_scsiTimeout = scsiTimeout, t_iscsiAbortTimeout = iscsiAbortTimeout,
      t_iscsiTargetRequestTimeout = requestTimeout\<rparr>"

text \<open>The call of NewDevice that Init and Upgrade share; timeouts are given in whole seconds.\<close>

definition tgt_device :: "('d, 'w) fe_env \<Rightarrow> 'd Tgt \<Rightarrow> string \<Rightarrow> int \<Rightarrow> 'w \<Rightarrow> (error + 'd) \<times> 'w" where
  "tgt_device E t name sz =
     NewDevice E name sz (t_frontendName t) (t_scsiTimeout t sdiv second) (t_iscsiAbortTimeout t sdiv second) (t_iscsiTargetRequestTimeout t sdiv second)"

definition Tgt_Init :: "('d, 'w) fe_env \<Rightarrow> 'd Tgt \<Rightarrow> string \<Rightarrow> int \<Rightarrow> int \<Rightarrow> 'w \<Rightarrow> error option \<times> 'd Tgt \<times> 'w" where
  "Tgt_Init E t name sz sectorSize w =
     (case Socket_Init E (t_s t) name sz sectorSize w of
        (Some e, s, w) \<Rightarrow> (Some e, t\<lparr>t_s := s\<rparr>, w)
      | (None, s, w) \<Rightarrow> (case tgt_device E t name sz w of
          (Inl e, w) \<Rightarrow> (Some e, t\<lparr>t_s := s\<rparr>, w)
        | (Inr dev, w) \<Rightarrow> (case InitDevice E dev w of
            (Some e, w) \<Rightarrow> (Some e, t\<lparr>t_s := s, t_dev := Some dev\<rparr>, w)
          | (None, w) \<Rightarrow> (None, t\<lparr>t_s := s, t_dev := Some dev, t_isUp := False\<rparr>, w))))"

definition Tgt_Startup :: "('d, 'w) fe_env \<Rightarrow> 'd Tgt \<Rightarrow> 'w \<Rightarrow> (error option \<times> 'd Tgt \<times> 'w) option" where
  "Tgt_Startup E t w = do {
     (err, s, w) \<leftarrow> Socket_Startup E (t_s t) w;
     let t = t\<lparr>t_s := s\<rparr>;
     (if err \<noteq> None then Some (err, t, w)
      else do {
        dev \<leftarrow> t_dev t;
        Some (case StartDevice E dev w of (Some e, w) \<Rightarrow> (Some e, t, w) | (None, w) \<Rightarrow> (None, t\<lparr>t_isUp := True\<rparr>, w))
      })
   }"

definition Tgt_State :: "'d Tgt \<Rightarrow> string" where
  "Tgt_State t = state_of (t_isUp t)"

definition Tgt_Endpoint :: "('d, 'w) fe_env \<Rightarrow> 'd Tgt \<Rightarrow> 'w \<Rightarrow> string option" where
  "Tgt_Endpoint E t w = (if t_isUp t then map_option (\<lambda>dev. GetEndpoint E dev w) (t_dev t) else Some '''')"

definition Tgt_Shutdown :: "('d, 'w) fe_env \<Rightarrow> 'd Tgt \<Rightarrow> 'w \<Rightarrow> (error option \<times> 'd Tgt \<times> 'w) option" where
  "Tgt_Shutdown E t w = do {
     endpoint \<leftarrow> Tgt_Endpoint E t w;
     let w = snd (UnfreezeFilesystemForDevice (fx_host E) endpoint w);
     Some (case (case t_dev t of None \<Rightarrow> (None, w) | Some dev \<Rightarrow> ShutdownDevice E dev w) of
        (Some e, w) \<Rightarrow> (Some e, t, w)
      | (None, w) \<Rightarrow> (case Socket_Shutdown E (t_s t) w of
          (Some e, s, w) \<Rightarrow> (Some e, t\<lparr>t_s := s\<rparr>, w)
        | (None, s, w) \<Rightarrow> (None, t\<lparr>t_s := s, t_isUp := False\<rparr>, w)))
   }"

definition Tgt_Upgrade :: "('d, 'w) fe_env \<Rightarrow> 'd Tgt \<Rightarrow> string \<Rightarrow> int \<Rightarrow> int \<Rightarrow> 'w \<Rightarrow> (error option \<times> 'd Tgt \<times> 'w) option" where
  "Tgt_Upgrade E t name sz sectorSize w =
     (case tgt_device E t name sz w of
        (Inl e, w) \<Rightarrow> Some (Some e, t, w)
      | (Inr dev, w) \<Rightarrow> (let t = t\<lparr>t_dev := Some dev\<rparr> in case PrepareUpgrade E dev w of
          (Some e, w) \<Rightarrow> Some (Some e, t, w)
        | (None, w) \<Rightarrow> (case Socket_Init E (t_s t) name sz sectorSize w of
            (Some e, s, w) \<Rightarrow> Some (Some e, t\<lparr>t_s := s\<rparr>, w)
          | (None, s, w) \<Rightarrow> do {
              (err, s, w) \<leftarrow> Socket_Startup E s w;
              let t = t\<lparr>t_s := s\<rparr>;
              Some (if err \<noteq> None then (err, t, w)
                    else case FinishUpgrade E dev w of (Some e, w) \<Rightarrow> (Some e, t, w) | (None, w) \<Rightarrow> (None, t\<lparr>t_isUp := True\<rparr>, w))
            })))"

definition Tgt_Expand :: "('d, 'w) fe_env \<Rightarrow> 'd Tgt \<Rightarrow> int \<Rightarrow> 'w \<Rightarrow> error option \<times> 'w" where
  "Tgt_Expand E t sz w = (case t_dev t of Some dev \<Rightarrow> ExpandDevice E dev sz w | None \<Rightarrow> (None, w))"

section \<open>The REST device\<close>

record 'r Device =
  d_Name :: string
  d_Size :: int
  d_SectorSize :: int
  d_isUp :: bool
  d_backend :: "'r option"

definition Device_New :: "'r Device" where
  "Device_New = \<lparr>d_Name = '''', d_Size = 0, d_SectorSize = 0, d_isUp = False, d_backend = None\<rparr>"

definition Device_Init :: "'r Device \<Rightarrow> string \<Rightarrow> int \<Rightarrow> int \<Rightarrow> error option \<times> 'r Device" where
  "Device_Init d name sz sectorSize = (None, d\<lparr>d_Name := name, d_Size := sz, d_SectorSize := sectorSize\<rparr>)"

definition Device_Startup :: "('d, 'w) fe_env \<Rightarrow> 'r Device \<Rightarrow> 'r \<Rightarrow> 'w \<Rightarrow> error option \<times> 'r Device \<times> 'w" where
  "Device_Startup E d rwu w = (None, d\<lparr>d_backend := Some rwu, d_isUp := True\<rparr>, fx_ListenAndServe E w)"

definition Device_Shutdown :: "'r Device \<Rightarrow> error option \<times> 'r Device" where
  "Device_Shutdown d = (None, d\<lparr>d_isUp := False\<rparr>)"

definition Device_State :: "'r Device \<Rightarrow> string" where
  "Device_State d = state_of (d_isUp d)"

definition Device_Endpoint :: "'r Device \<Rightarrow> string" where
  "Device_Endpoint d = (if d_isUp d then ''http://localhost:9414'' else '''')"

subsection \<open>Its requests\<close>

definition string_bytes :: "string \<Rightarrow> bytes" where
  "string_bytes s = map (\<lambda>c. word_of_nat (of_char c)) s"

definition bytes_string :: "bytes \<Rightarrow> string" where
  "bytes_string bs = map (\<lambda>b. char_of (unat b)) bs"

definition EncodeData :: "bytes \<Rightarrow> string" where
  "EncodeData = EncodeToString"

definition DecodeData :: "string \<Rightarrow> error + bytes" where
  "DecodeData = DecodeString"

definition EncodeID :: "string \<Rightarrow> string" where
  "EncodeID i = EncodeData (string_bytes i)"

definition DecodeID :: "string \<Rightarrow> error + string" where
  "DecodeID i = map_sum id bytes_string (DecodeData i)"

text \<open>A volume of the API; the links of its actions are built by go-rancher.\<close>

record api_volume =
  v_Id :: string
  v_Type :: string
  v_Name :: string
  v_Actions :: "(string \<times> string) list"

definition NewVolume :: "(string \<Rightarrow> string \<Rightarrow> string \<Rightarrow> string) \<Rightarrow> string \<Rightarrow> api_volume" where
  "NewVolume ActionLink name = (let i = EncodeID name in
     \<lparr>v_Id = i, v_Type = ''volume'', v_Name = name,
      v_Actions = [(''readat'', ActionLink i ''volume'' ''readat''), (''writeat'', ActionLink i ''volume'' ''writeat'')]\<rparr>)"

definition rest_listVolumes :: "(string \<Rightarrow> string \<Rightarrow> string \<Rightarrow> string) \<Rightarrow> 'r Device \<Rightarrow> api_volume list" where
  "rest_listVolumes link d = [NewVolume link (d_Name d)]"

definition rest_getVolume :: "(string \<Rightarrow> string \<Rightarrow> string \<Rightarrow> string) \<Rightarrow> 'r Device \<Rightarrow> string \<Rightarrow> api_volume option" where
  "rest_getVolume link d i = find (\<lambda>v. v_Id v = i) (rest_listVolumes link d)"

text \<open>An answer is the status 404 or an object; an error of a handler is written by HandleError.\<close>

datatype 'a answer = StatusNotFound | Written 'a

definition rest_ListVolumes :: "(string \<Rightarrow> string \<Rightarrow> string \<Rightarrow> string) \<Rightarrow> 'r Device \<Rightarrow> api_volume list answer" where
  "rest_ListVolumes link d = Written [rest_listVolumes link d ! 0]"

definition rest_GetVolume :: "(string \<Rightarrow> string \<Rightarrow> string \<Rightarrow> string) \<Rightarrow> 'r Device \<Rightarrow> string \<Rightarrow> api_volume answer" where
  "rest_GetVolume link d i = (case rest_getVolume link d i of None \<Rightarrow> StatusNotFound | Some v \<Rightarrow> Written v)"

record ReadInput =
  ri_Offset :: int
  ri_Length :: int

record WriteInput =
  wi_Offset :: int
  wi_Length :: int
  wi_Data :: string

text \<open>The input is what apiContext.Read made of the body; make panics on a negative length, and a device that was never started has no backend.\<close>

definition rest_ReadAt ::
  "(string \<Rightarrow> string \<Rightarrow> string \<Rightarrow> string) \<Rightarrow> 'w data_processor Device \<Rightarrow> string \<Rightarrow> error + ReadInput \<Rightarrow> 'w \<Rightarrow> ((error + string answer) \<times> 'w) option" where
  "rest_ReadAt link d i body w =
     (case rest_getVolume link d i of
        None \<Rightarrow> Some (Inr StatusNotFound, w)
      | Some _ \<Rightarrow> (case body of
          Inl e \<Rightarrow> Some (Inl e, w)
        | Inr input \<Rightarrow>
            if ri_Length input < 0 then None
            else do {
              backend \<leftarrow> d_backend d;
              (_, err, buf, w) \<leftarrow> dp_ReadAt backend (zeros (nat (ri_Length input))) (ri_Offset input) w;
              Some (case err of
                 Some e \<Rightarrow> (Inl (Wrapped ''read failed'' e), w)
               | None \<Rightarrow> (Inr (Written (EncodeData buf)), w))
            }))"

definition rest_WriteAt ::
  "(string \<Rightarrow> string \<Rightarrow> string \<Rightarrow> string) \<Rightarrow> 'w data_processor Device \<Rightarrow> string \<Rightarrow> error + WriteInput \<Rightarrow> 'w \<Rightarrow> ((error + unit answer) \<times> 'w) option" where
  "rest_WriteAt link d i body w =
     (case rest_getVolume link d i of
        None \<Rightarrow> Some (Inr StatusNotFound, w)
      | Some _ \<Rightarrow> (case body of
          Inl e \<Rightarrow> Some (Inl e, w)
        | Inr input \<Rightarrow> (case DecodeData (wi_Data input) of
            Inl e \<Rightarrow> Some (Inl e, w)
          | Inr buf \<Rightarrow>
              if int (length buf) \<noteq> wi_Length input then Some (Inl (Errorf ''inconsistent length in request''), w)
              else do {
                backend \<leftarrow> d_backend d;
                (_, err, w) \<leftarrow> dp_WriteAt backend buf (wi_Offset input) w;
                Some (case err of Some e \<Rightarrow> (Inl e, w) | None \<Rightarrow> (Inr (Written ()), w))
              })))"

section \<open>One of them\<close>

datatype ('d, 'r) frontend = RestDevice "'r Device" | SocketFrontend Socket | TgtFrontend "'d Tgt"

fun frontend_FrontendName :: "('d, 'r) frontend \<Rightarrow> string" where
  "frontend_FrontendName (RestDevice d) = ''rest''"
| "frontend_FrontendName (SocketFrontend t) = ''socket''"
| "frontend_FrontendName (TgtFrontend t) = t_frontendName t"

fun frontend_State :: "('d, 'r) frontend \<Rightarrow> string" where
  "frontend_State (RestDevice d) = Device_State d"
| "frontend_State (SocketFrontend t) = Socket_State t"
| "frontend_State (TgtFrontend t) = Tgt_State t"

fun frontend_Endpoint :: "('d, 'w) fe_env \<Rightarrow> ('d, 'r) frontend \<Rightarrow> 'w \<Rightarrow> string option" where
  "frontend_Endpoint E (RestDevice d) w = Some (Device_Endpoint d)"
| "frontend_Endpoint E (SocketFrontend t) w = Socket_Endpoint t"
| "frontend_Endpoint E (TgtFrontend t) w = Tgt_Endpoint E t w"

fun frontend_Init :: "('d, 'w) fe_env \<Rightarrow> ('d, 'r) frontend \<Rightarrow> string \<Rightarrow> int \<Rightarrow> int \<Rightarrow> 'w \<Rightarrow> error option \<times> ('d, 'r) frontend \<times> 'w" where
  "frontend_Init E (RestDevice d) name sz ss w = (case Device_Init d name sz ss of (err, d) \<Rightarrow> (err, RestDevice d, w))"
| "frontend_Init E (SocketFrontend t) name sz ss w = (case Socket_Init E t name sz ss w of (err, t, w) \<Rightarrow> (err, SocketFrontend t, w))"
| "frontend_Init E (TgtFrontend t) name sz ss w = (case Tgt_Init E t name sz ss w of (err, t, w) \<Rightarrow> (err, TgtFrontend t, w))"

fun frontend_Startup :: "('d, 'w) fe_env \<Rightarrow> ('d, 'r) frontend \<Rightarrow> 'r \<Rightarrow> 'w \<Rightarrow> (error option \<times> ('d, 'r) frontend \<times> 'w) option" where
  "frontend_Startup E (RestDevice d) rwu w = (case Device_Startup E d rwu w of (err, d, w) \<Rightarrow> Some (err, RestDevice d, w))"
| "frontend_Startup E (SocketFrontend t) rwu w = map_option (\<lambda>(err, t, w). (err, SocketFrontend t, w)) (Socket_Startup E t w)"
| "frontend_Startup E (TgtFrontend t) rwu w = map_option (\<lambda>(err, t, w). (err, TgtFrontend t, w)) (Tgt_Startup E t w)"

fun frontend_Shutdown :: "('d, 'w) fe_env \<Rightarrow> ('d, 'r) frontend \<Rightarrow> 'w \<Rightarrow> (error option \<times> ('d, 'r) frontend \<times> 'w) option" where
  "frontend_Shutdown E (RestDevice d) w = (case Device_Shutdown d of (err, d) \<Rightarrow> Some (err, RestDevice d, w))"
| "frontend_Shutdown E (SocketFrontend t) w = (case Socket_Shutdown E t w of (err, t, w) \<Rightarrow> Some (err, SocketFrontend t, w))"
| "frontend_Shutdown E (TgtFrontend t) w = map_option (\<lambda>(err, t, w). (err, TgtFrontend t, w)) (Tgt_Shutdown E t w)"

fun frontend_Upgrade :: "('d, 'w) fe_env \<Rightarrow> ('d, 'r) frontend \<Rightarrow> string \<Rightarrow> int \<Rightarrow> int \<Rightarrow> 'w \<Rightarrow> (error option \<times> ('d, 'r) frontend \<times> 'w) option" where
  "frontend_Upgrade E (RestDevice d) name sz ss w = Some (not_supported ''upgrade'', RestDevice d, w)"
| "frontend_Upgrade E (SocketFrontend t) name sz ss w = Some (not_supported ''upgrade'', SocketFrontend t, w)"
| "frontend_Upgrade E (TgtFrontend t) name sz ss w = map_option (\<lambda>(err, t, w). (err, TgtFrontend t, w)) (Tgt_Upgrade E t name sz ss w)"

fun frontend_Expand :: "('d, 'w) fe_env \<Rightarrow> ('d, 'r) frontend \<Rightarrow> int \<Rightarrow> 'w \<Rightarrow> error option \<times> 'w" where
  "frontend_Expand E (RestDevice d) sz w = (not_supported ''expand'', w)"
| "frontend_Expand E (SocketFrontend t) sz w = (not_supported ''expand'', w)"
| "frontend_Expand E (TgtFrontend t) sz w = Tgt_Expand E t sz w"

end
