(* ===== verification/Frontend_Thms.thy ===== *)
theory Frontend_Thms
  imports Frontend Data_Conn_Thms Volume_Sync Controller_Thms
begin

text \<open>
  What the frontends promise to the controller, stated as a contract of their life cycle, and the volume as a client of a frontend sees it.
\<close>

section \<open>The contract of a frontend\<close>

text \<open>\<open>wf\<close> holds for a frontend in every state, \<open>ready\<close> after it has been initialised for a volume with a name.\<close>

locale exporter =
  fixes wf :: "'f \<Rightarrow> bool" and ready :: "'f \<Rightarrow> bool" and State :: "'f \<Rightarrow> string" and Endpoint :: "'f \<Rightarrow> 'w \<Rightarrow> string option"
    and Init :: "'f \<Rightarrow> string \<Rightarrow> int \<Rightarrow> int \<Rightarrow> 'w \<Rightarrow> error option \<times> 'f \<times> 'w"
    and Startup :: "'f \<Rightarrow> 'r \<Rightarrow> 'w \<Rightarrow> (error option \<times> 'f \<times> 'w) option"
    and Shutdown :: "'f \<Rightarrow> 'w \<Rightarrow> (error option \<times> 'f \<times> 'w) option"
    and Upgrade :: "'f \<Rightarrow> string \<Rightarrow> int \<Rightarrow> int \<Rightarrow> 'w \<Rightarrow> (error option \<times> 'f \<times> 'w) option"
  assumes Endpoint_wf: "wf f \<Longrightarrow> Endpoint f w \<noteq> None"
    and Endpoint_down: "State f = ''down'' \<Longrightarrow> Endpoint f w = Some ''''"
    and Init_wf: "Init f name sz ss w = (err, f', w') \<Longrightarrow> wf f \<Longrightarrow> name \<noteq> '''' \<Longrightarrow> wf f' \<and> (err = None \<longrightarrow> ready f')"
    and Startup_ready: "wf f \<Longrightarrow> ready f \<Longrightarrow> Startup f rwu w \<noteq> None"
    and Startup_wf: "Startup f rwu w = Some (err, f', w') \<Longrightarrow> wf f \<Longrightarrow> wf f' \<and> State f' = (if err = None then ''up'' else State f)"
    and Shutdown_wf: "wf f \<Longrightarrow> \<exists>err f' w'. Shutdown f w = Some (err, f', w') \<and> wf f' \<and> State f' = (if err = None then ''down'' else State f)"
    and Upgrade_wf: "wf f \<Longrightarrow> name \<noteq> '''' \<Longrightarrow>
      \<exists>err f' w'. Upgrade f name sz ss w = Some (err, f', w') \<and> wf f' \<and> State f' = (if err = None then ''up'' else State f)"
begin

text \<open>The calls of the controller: Init and Startup for a start, Upgrade, and Shutdown.\<close>

inductive life :: "string \<Rightarrow> 'f \<Rightarrow> 'f \<Rightarrow> bool" for name where
  life_refl: "life name f f"
| life_init: "life name f f1 \<Longrightarrow> Init f1 name sz ss w = (Some e, f2, w') \<Longrightarrow> life name f f2"
| life_start: "life name f f1 \<Longrightarrow> Init f1 name sz ss w = (None, f2, w') \<Longrightarrow> Startup f2 rwu w' = Some (err, f3, w'') \<Longrightarrow> life name f f3"
| life_upgrade: "life name f f1 \<Longrightarrow> Upgrade f1 name sz ss w = Some (err, f2, w') \<Longrightarrow> life name f f2"
| life_shutdown: "life name f f1 \<Longrightarrow> Shutdown f1 w = Some (err, f2, w') \<Longrightarrow> life name f f2"

lemma life_wf: "life name f f' \<Longrightarrow> wf f \<Longrightarrow> name \<noteq> '''' \<Longrightarrow> wf f'"
proof (induction rule: life.induct)
  case (life_init f f1 sz ss w e f2 w')
  then show ?case using Init_wf by blast
next
  case (life_start f f1 sz ss w f2 w' rwu err f3 w'')
  then show ?case using Init_wf Startup_wf by blast
next
  case (life_upgrade f f1 sz ss w err f2 w')
  then show ?case using Upgrade_wf [of f1 name sz ss w] by auto
next
  case (life_shutdown f f1 w err f2 w')
  then show ?case using Shutdown_wf [of f1 w] by auto
qed simp

lemma start_and_stop:
  assumes "life name f f1" "wf f" "name \<noteq> ''''"
  shows "Endpoint f1 w \<noteq> None" "Upgrade f1 name sz ss w \<noteq> None"
    "Init f1 name sz ss w = (None, f2, w') \<Longrightarrow> \<exists>err f3 w''. Startup f2 rwu w' = Some (err, f3, w'') \<and> (err = None \<longrightarrow> State f3 = ''up'')"
    "\<exists>err f2 w'. Shutdown f1 w = Some (err, f2, w') \<and> (err = None \<longrightarrow> State f2 = ''down'' \<and> Endpoint f2 v = Some '''')"
proof -
  have f1: "wf f1" using life_wf assms by blast
  show "Endpoint f1 w \<noteq> None" by (rule Endpoint_wf [OF f1])
  show "Upgrade f1 name sz ss w \<noteq> None" using Upgrade_wf [OF f1 assms(3), of sz ss w] by auto
  show "\<exists>err f3 w''. Startup f2 rwu w' = Some (err, f3, w'') \<and> (err = None \<longrightarrow> State f3 = ''up'')" if "Init f1 name sz ss w = (None, f2, w')"
    using Init_wf [OF that f1 assms(3)] Startup_ready [of f2 rwu w'] Startup_wf [of f2 rwu w'] by fastforce
  show "\<exists>err f2 w'. Shutdown f1 w = Some (err, f2, w') \<and> (err = None \<longrightarrow> State f2 = ''down'' \<and> Endpoint f2 v = Some '''')"
    using Shutdown_wf [OF f1, of w] Endpoint_down by fastforce
qed

end

lemma state_of_simps [simp]: "state_of b = ''down'' \<longleftrightarrow> \<not> b" "state_of b = ''up'' \<longleftrightarrow> b" "state_of False = ''down''" "state_of True = ''up''" "state_of a = state_of b \<longleftrightarrow> a = b"
  by (simp_all add: state_of_def)

definition Socket_wf :: "Socket \<Rightarrow> bool" where
  "Socket_wf t \<longleftrightarrow> (sk_isUp t \<longrightarrow> sk_Volume t \<noteq> '''')"

lemma Socket_Init_result: "\<exists>s w'. Socket_Init E t name sz ss w = (None, s, w') \<and> sk_Volume s = name \<and> \<not> sk_isUp s"
  by (simp add: Socket_Init_def Socket_Shutdown_def Let_def split: prod.split)

lemma Socket_Shutdown_result: "\<exists>s w'. Socket_Shutdown E t w = (None, s, w') \<and> \<not> sk_isUp s"
  by (simp add: Socket_Shutdown_def Let_def split: prod.split)

lemma Socket_Startup_result:
  assumes "sk_Volume t \<noteq> ''''"
  shows "\<exists>err s w'. Socket_Startup E t w = Some (err, s, w') \<and> sk_Volume s = sk_Volume t \<and> sk_isUp s = (err = None \<or> sk_isUp t)"
  using assms by (auto simp: Socket_Startup_def startSocketServer_def GetSocketPath_def split: prod.splits option.splits if_splits)

interpretation sock: exporter Socket_wf "\<lambda>t. sk_Volume t \<noteq> ''''" Socket_State "\<lambda>t w. Socket_Endpoint t" "Socket_Init E" "\<lambda>t (rwu :: 'r) w. Socket_Startup E t w"
    "\<lambda>t w. Some (Socket_Shutdown E t w)" "\<lambda>t name sz ss w. Some (not_supported ''upgrade'', t, w)" for E :: "('d, 'w) fe_env"
proof (unfold_locales, goal_cases)
  case (1 f w)
  then show ?case by (simp add: Socket_wf_def Socket_Endpoint_def GetSocketPath_def)
next
  case (2 f w)
  then show ?case by (simp add: Socket_State_def Socket_Endpoint_def)
next
  case (3 f name sz ss w err f' w')
  then show ?case using Socket_Init_result [of E f name sz ss w] by (auto simp: Socket_wf_def)
next
  case (4 f rwu w)
  then show ?case using Socket_Startup_result [of f E w] by auto
next
  case (5 f rwu w err f' w')
  then have "sk_Volume f \<noteq> ''''" by (auto simp: Socket_Startup_def startSocketServer_def GetSocketPath_def)
  with 5 show ?case using Socket_Startup_result [of f E w] by (auto simp: Socket_wf_def Socket_State_def)
next
  case (6 f w)
  then show ?case using Socket_Shutdown_result [of E f w] by (auto simp: Socket_wf_def Socket_State_def)
next
  case (7 f name sz ss w)
  then show ?case by (simp add: not_supported_def)
qed

definition Tgt_wf :: "'d Tgt \<Rightarrow> bool" where
  "Tgt_wf t \<longleftrightarrow> (t_isUp t \<longrightarrow> t_dev t \<noteq> None)"

definition Tgt_ready :: "'d Tgt \<Rightarrow> bool" where
  "Tgt_ready t \<longleftrightarrow> t_dev t \<noteq> None \<and> sk_Volume (t_s t) \<noteq> ''''"

interpretation tgt: exporter Tgt_wf Tgt_ready Tgt_State "Tgt_Endpoint E" "Tgt_Init E" "\<lambda>t (rwu :: 'r) w. Tgt_Startup E t w" "Tgt_Shutdown E" "Tgt_Upgrade E"
    for E :: "('d, 'w) fe_env"
proof (unfold_locales, goal_cases)
  case (1 f w)
  then show ?case by (auto simp: Tgt_wf_def Tgt_Endpoint_def)
next
  case (2 f w)
  then show ?case by (simp add: Tgt_State_def Tgt_Endpoint_def)
next
  case (3 f name sz ss w err f' w')
  then show ?case using Socket_Init_result [of E "t_s f" name sz ss w]
    by (auto simp: Tgt_wf_def Tgt_ready_def Tgt_Init_def split: prod.splits sum.splits option.splits)
next
  case (4 f rwu w)
  then obtain dev where d: "t_dev f = Some dev" "sk_Volume (t_s f) \<noteq> []" by (auto simp: Tgt_ready_def)
  obtain err s w' where "Socket_Startup E (t_s f) w = Some (err, s, w')" using Socket_Startup_result [OF d(2), of E w] by blast
  moreover obtain e w2 where "StartDevice E dev w' = (e, w2)" by (metis surj_pair)
  ultimately show ?case using d(1) by (cases e) (simp_all add: Tgt_Startup_def Let_def)
next
  case (5 f rwu w err f' w')
  obtain e1 s w1 where s: "Socket_Startup E (t_s f) w = Some (e1, s, w1)" using 5(1) by (cases "Socket_Startup E (t_s f) w") (auto simp: Tgt_Startup_def)
  show ?case
  proof (cases e1)
    case None
    obtain dev where d: "t_dev f = Some dev" using 5(1) s None by (cases "t_dev f") (auto simp: Tgt_Startup_def Let_def)
    obtain e2 w2 where "StartDevice E dev w1 = (e2, w2)" by (metis surj_pair)
    then show ?thesis using 5 s None d by (cases e2) (auto simp: Tgt_Startup_def Let_def Tgt_wf_def Tgt_State_def)
  next
    case (Some e)
    then show ?thesis using 5 s by (auto simp: Tgt_Startup_def Let_def Tgt_wf_def Tgt_State_def)
  qed
next
  case (6 f w)
  obtain e where e: "Tgt_Endpoint E f w = Some e" using 6 by (cases "t_isUp f") (auto simp: Tgt_wf_def Tgt_Endpoint_def)
  let ?w = "snd (UnfreezeFilesystemForDevice (fx_host E) e w)"
  obtain err w1 where d: "(case t_dev f of None \<Rightarrow> (None, ?w) | Some dev \<Rightarrow> ShutdownDevice E dev ?w) = (err, w1)" by (metis surj_pair)
  obtain s w2 where s: "Socket_Shutdown E (t_s f) w1 = (None, s, w2)" using Socket_Shutdown_result [of E "t_s f" w1] by blast
  show ?case using 6 e d s by (cases err) (simp_all add: Tgt_Shutdown_def Let_def Tgt_wf_def Tgt_State_def)
next
  case (7 f name sz ss w)
  obtain dev w1 where d: "tgt_device E f name sz w = (dev, w1)" by (metis surj_pair)
  show ?case
  proof (cases dev)
    case (Inl e)
    then show ?thesis using 7 d by (simp add: Tgt_Upgrade_def)
  next
    case (Inr v)
    obtain e1 w2 where p: "PrepareUpgrade E v w1 = (e1, w2)" by (metis surj_pair)
    obtain s w3 where i: "Socket_Init E (t_s f) name sz ss w2 = (None, s, w3)" "sk_Volume s = name" using Socket_Init_result [of E "t_s f" name sz ss w2] by blast
    obtain e2 s' w4 where st: "Socket_Startup E s w3 = Some (e2, s', w4)" using Socket_Startup_result [of s E w3] 7(2) i(2) by auto
    show ?thesis using 7(1) d Inr p i(1) st
      by (cases e1; cases e2; cases "fst (FinishUpgrade E v w4)") (auto simp: Tgt_Upgrade_def Let_def Tgt_wf_def Tgt_State_def split: prod.split)
  qed
qed

interpretation device: exporter "\<lambda>_. True" "\<lambda>_. True" Device_State "\<lambda>d w. Some (Device_Endpoint d)" "\<lambda>d name sz ss w. case Device_Init d name sz ss of (err, d) \<Rightarrow> (err, d, w)"
    "\<lambda>d (rwu :: 'r) w. Some (Device_Startup E d rwu w)" "\<lambda>d w. case Device_Shutdown d of (err, d) \<Rightarrow> Some (err, d, w)"
    "\<lambda>d name sz ss w. Some (not_supported ''upgrade'', d, w)" for E :: "('d, 'w) fe_env"
  by unfold_locales (auto simp: Device_State_def Device_Endpoint_def Device_Init_def Device_Startup_def Device_Shutdown_def not_supported_def)

fun frontend_wf :: "('d, 'r) frontend \<Rightarrow> bool" where
  "frontend_wf (RestDevice d) = True"
| "frontend_wf (SocketFrontend t) = Socket_wf t"
| "frontend_wf (TgtFrontend t) = Tgt_wf t"

fun frontend_ready :: "('d, 'r) frontend \<Rightarrow> bool" where
  "frontend_ready (RestDevice d) = True"
| "frontend_ready (SocketFrontend t) = (sk_Volume t \<noteq> '''')"
| "frontend_ready (TgtFrontend t) = Tgt_ready t"

interpretation fe: exporter frontend_wf frontend_ready frontend_State "frontend_Endpoint E" "frontend_Init E" "frontend_Startup E" "frontend_Shutdown E" "frontend_Upgrade E"
    for E :: "('d, 'w) fe_env"
proof (unfold_locales, goal_cases)
  case (1 f w)
  then show ?case using sock.Endpoint_wf tgt.Endpoint_wf by (cases f) simp_all
next
  case (2 f w)
  then show ?case using sock.Endpoint_down tgt.Endpoint_down device.Endpoint_down by (cases f) simp_all
next
  case (3 f name sz ss w err f' w')
  then show ?case by (cases f) (auto split: prod.splits dest: sock.Init_wf tgt.Init_wf)
next
  case (4 f rwu w)
  then show ?case using sock.Startup_ready tgt.Startup_ready by (cases f) (auto split: prod.split)
next
  case (5 f rwu w err f' w')
  then show ?case
  proof (cases f)
    case (RestDevice d)
    then show ?thesis using 5 device.Startup_wf [of E d rwu w] by (auto split: prod.splits)
  next
    case (SocketFrontend t)
    then show ?thesis using 5 sock.Startup_wf [of E t w] by auto
  next
    case (TgtFrontend t)
    then show ?thesis using 5 tgt.Startup_wf [of E t w] by auto
  qed
next
  case (6 f w)
  then show ?case
  proof (cases f)
    case (RestDevice d)
    then show ?thesis by (simp add: Device_Shutdown_def Device_State_def)
  next
    case (SocketFrontend t)
    then show ?thesis using 6 sock.Shutdown_wf [of t E w] by auto
  next
    case (TgtFrontend t)
    then show ?thesis using 6 tgt.Shutdown_wf [of t E w] by auto
  qed
next
  case (7 f name sz ss w)
  then show ?case
  proof (cases f)
    case (TgtFrontend t)
    then show ?thesis using 7 tgt.Upgrade_wf [of t name E sz ss w] by auto
  qed (simp_all add: not_supported_def)
qed

text \<open>The states of a frontend that the controller drives, from a new one.\<close>

definition frontend_life :: "('d, 'w) fe_env \<Rightarrow> string \<Rightarrow> ('d, 'r) frontend \<Rightarrow> ('d, 'r) frontend \<Rightarrow> bool" where
  "frontend_life E = exporter.life (frontend_Init E) (frontend_Startup E) (frontend_Shutdown E) (frontend_Upgrade E)"

definition new_frontend :: "('d, 'r) frontend \<Rightarrow> bool" where
  "new_frontend f \<longleftrightarrow> f = RestDevice Device_New \<or> f = SocketFrontend Socket_New \<or> (\<exists>name a b c. f = TgtFrontend (Tgt_New name a b c))"

lemma new_frontend_wf: "new_frontend f \<Longrightarrow> frontend_wf f"
  by (auto simp: new_frontend_def Socket_wf_def Socket_New_def Tgt_wf_def Tgt_New_def)

text \<open>
  C37: However the controller has started, upgraded and shut down a frontend of a volume with a name, and whichever of these calls failed, no call panics: the
  endpoint can be asked, an upgrade and a shutdown return, and after a successful Init so does Startup.  A start without error leaves the frontend up, a shutdown
  without error leaves it down, with no endpoint.
\<close>

theorem frontend_life_safe:
  assumes "new_frontend f" "frontend_life E name f f1" "name \<noteq> ''''"
  shows "frontend_Endpoint E f1 w \<noteq> None \<and> frontend_Upgrade E f1 name sz ss w \<noteq> None \<and>
    (\<forall>f2 w'. frontend_Init E f1 name sz ss w = (None, f2, w') \<longrightarrow>
      (\<exists>err f3 w''. frontend_Startup E f2 rwu w' = Some (err, f3, w'') \<and> (err = None \<longrightarrow> frontend_State f3 = ''up''))) \<and>
    (\<exists>err f2 w'. frontend_Shutdown E f1 w = Some (err, f2, w') \<and> (err = None \<longrightarrow> frontend_State f2 = ''down'' \<and> frontend_Endpoint E f2 v = Some ''''))"
  using fe.start_and_stop [OF assms(2) [unfolded frontend_life_def] new_frontend_wf [OF assms(1)] assms(3)] by blast

section \<open>The volume behind a frontend\<close>

text \<open>The controller as a frontend uses it; \<open>sched\<close> gives the order of the fan-out.\<close>

definition controller_rwu :: "('b, 'f, 'w) ctl_env \<Rightarrow> (('b, 'f) controller \<Rightarrow> nat list) \<Rightarrow> int \<Rightarrow> (('b, 'f) controller \<times> 'w) data_processor" where
  "controller_rwu E sched lat =
     \<lparr>dp_ReadAt = \<lambda>b off (c, w). ctl_ReadAt E lat c b off w, dp_WriteAt = \<lambda>b off (c, w). ctl_WriteAt E (sched c) lat c b off w,
      dp_UnmapAt = \<lambda>len off (c, w). ctl_UnmapAt E (sched c) c len off w, dp_PingResponse = \<lambda>_. None\<rparr>"

text \<open>
  A volume of \<open>n\<close> bytes with no rebuild, of whose replicas in sync one answers reads and writes.
\<close>

definition healthy ::
  "('h, 's) layer_view \<Rightarrow> ('h, 's) disk_ops \<Rightarrow> ('h, 's) faults \<Rightarrow> nat \<Rightarrow> (nat \<Rightarrow> byte) \<Rightarrow> (string, 'f) controller \<Rightarrow> (string \<Rightarrow> ('h, 's) volume) \<Rightarrow> bool" where
  "healthy V dops F n data c w \<longleftrightarrow> disk_layer dops V \<and> ctl_inv c \<and> by_address c \<and> in_sync V n c w data \<and> c_size c = int n \<and> int n \<le> maxInt64 \<and> \<not> hasWOReplica c \<and>
     (\<exists>a. map_of (c_replicas c) a = Some RW \<and> \<not> fail_write F a \<and> \<not> fail_read F a)"

lemma hasWO_iff: "ctl_inv c \<Longrightarrow> hasWOReplica c \<longleftrightarrow> (\<exists>a. map_of (c_replicas c) a = Some WO)"
  using ctl_invD(1) [of c] by (auto simp: hasWOReplica_def list_ex_iff dest: map_of_SomeD)

lemma healthy_write:
  assumes "healthy V dops F n data c w" "bops E = pool_ops dops F rest" "\<And>c. schedule (c_backend c) (sched c)" "off + length b \<le> n"
  shows "\<exists>c' w'. dp_WriteAt (controller_rwu E sched lat) b (int off) (c, w) = Some (int (length b), None, c', w') \<and> healthy V dops F n (overwrite data off b) c' w'"
proof -
  have h: "disk_layer dops V" "ctl_inv c" "by_address c" "in_sync V n c w data" "c_size c = int n" "int n \<le> maxInt64" "\<not> hasWOReplica c"
    "\<exists>a. map_of (c_replicas c) a = Some RW \<and> \<not> fail_write F a" and ok: "\<exists>a. map_of (c_replicas c) a = Some RW \<and> \<not> fail_write F a \<and> \<not> fail_read F a"
    using assms(1) by (auto simp: healthy_def)
  obtain c' w' where c': "ctl_WriteAt E (sched c) lat c b (int off) w = Some (int (length b), None, c', w')" "demoted c {a. is_active c a \<and> fail_write F a} c'"
    "in_sync V n c' w' (overwrite data off b)"
    using ctl_write_sync [OF assms(2) h(1-3) assms(3) h(4-7) assms(4) h(8), of lat] by blast
  have "\<exists>a. map_of (c_replicas c') a = Some RW \<and> \<not> fail_write F a \<and> \<not> fail_read F a" using ok c'(2) by (auto simp: demoted_def)
  moreover have "\<not> hasWOReplica c'" using h(7) c'(2) hasWO_iff [OF h(2)] hasWO_iff [of c'] by (auto simp: demoted_def split: if_splits)
  ultimately have "healthy V dops F n (overwrite data off b) c' w'"
    using h(1,5,6) c'(2,3) demoted_by_address [OF c'(2) h(3)] by (simp add: healthy_def demoted_def)
  then show ?thesis using c'(1) by (simp add: controller_rwu_def)
qed

lemma healthy_read:
  assumes "healthy V dops F n data c w" "bops E = pool_ops dops F rest" "off + m \<le> n"
  shows "\<exists>c'. dp_ReadAt (controller_rwu E sched lat) (zeros m) (int off) (c, w) = Some (int m, None, map data [off ..< off + m], c', w)"
proof -
  have h: "disk_layer dops V" "ctl_inv c" "by_address c" "in_sync V n c w data" "c_size c = int n" "int n \<le> maxInt64"
    "\<exists>a. map_of (c_replicas c) a = Some RW \<and> \<not> fail_read F a"
    using assms(1) by (auto simp: healthy_def)
  show ?thesis using ctl_read_sync [OF assms(2) h(1-6) assms(3) h(7), of lat] by (auto simp: controller_rwu_def)
qed

lemma overwrite_range: "map (overwrite data off b) [off ..< off + length b] = b"
  by (rule nth_equalityI) (simp_all add: overwrite_def)


text \<open>
  C36: A client of the REST frontend reads what it has written: a request to write a buffer in base64 is answered without error, and a request to read the range
  answers with a text that decodes to the buffer.  It does not matter whether the device is up: the handlers do not ask, so requests are served after Shutdown too.
\<close>

theorem rest_write_then_read:
  assumes "healthy V dops F n data c w" "bops E = pool_ops dops F rest" "\<And>c. schedule (c_backend c) (sched c)" "off + length buf \<le> n"
    and "d_backend d = Some (controller_rwu E sched lat)"
  shows "\<exists>s1 s2 t. rest_WriteAt link d (EncodeID (d_Name d)) (Inr \<lparr>wi_Offset = int off, wi_Length = int (length buf), wi_Data = EncodeData buf\<rparr>) (c, w) =
      Some (Inr (Written ()), s1) \<and>
    rest_ReadAt link d (EncodeID (d_Name d)) (Inr \<lparr>ri_Offset = int off, ri_Length = int (length buf)\<rparr>) s1 = Some (Inr (Written t), s2) \<and> DecodeData t = Inr buf"
proof -
  obtain c1 w1 where w: "dp_WriteAt (controller_rwu E sched lat) buf (int off) (c, w) = Some (int (length buf), None, c1, w1)"
    and h: "healthy V dops F n (overwrite data off buf) c1 w1"
    using healthy_write [OF assms(1-4), of lat] by blast
  obtain c2 where r: "dp_ReadAt (controller_rwu E sched lat) (zeros (length buf)) (int off) (c1, w1) = Some (int (length buf), None, buf, c2, w1)"
    using healthy_read [OF h assms(2,4), of sched lat] unfolding overwrite_range by blast
  have v: "rest_getVolume link d (EncodeID (d_Name d)) \<noteq> None" by (simp add: rest_getVolume_def rest_listVolumes_def NewVolume_def Let_def)
  have "rest_WriteAt link d (EncodeID (d_Name d)) (Inr \<lparr>wi_Offset = int off, wi_Length = int (length buf), wi_Data = EncodeData buf\<rparr>) (c, w) = Some (Inr (Written ()), c1, w1)"
    using v w assms(5) by (auto simp: rest_WriteAt_def DecodeData_def EncodeData_def)
  moreover have "rest_ReadAt link d (EncodeID (d_Name d)) (Inr \<lparr>ri_Offset = int off, ri_Length = int (length buf)\<rparr>) (c1, w1) = Some (Inr (Written (EncodeData buf)), c2, w1)"
    using v r assms(5) by (auto simp: rest_ReadAt_def)
  moreover have "DecodeData (EncodeData buf) = Inr buf" by (simp add: DecodeData_def EncodeData_def)
  ultimately show ?thesis by blast
qed

lemma DecodeID_EncodeID: "DecodeID (EncodeID i) = Inr i"
proof -
  have "unat (word_of_nat (of_char c) :: byte) = of_char c" for c :: char
    using nat_of_char_less_256 [of c] by (simp add: unat_of_nat)
  then show ?thesis by (simp add: DecodeID_def EncodeID_def DecodeData_def EncodeData_def string_bytes_def bytes_string_def o_def)
qed

section \<open>Examples\<close>

definition in_order :: "('b, 'f) controller \<Rightarrow> nat list" where
  "in_order c = [0 ..< length (active (backends (c_backend c)))]"

lemma in_order_schedule: "schedule (c_backend c) (in_order c)"
  by (auto simp: schedule_def in_order_def)

lemma demo_healthy: "healthy (sf_view 2) (sf_ops 2) b_fails 8 (content (sf_view 2) (ex_dd, ex_store)) (demo_ctl RW) demo_world"
  unfolding healthy_def using demo_ctl_facts demo_sync demo_RW ex_layer by (auto simp: maxInt64_def b_fails_def)


theorem rest_write_then_read_witness:
  "\<exists>s1 s2 t. rest_WriteAt (\<lambda>_ _ _. []) (snd (Device_Shutdown (Device_New\<lparr>d_Name := ''v'', d_backend := Some (controller_rwu (demo_env 2 b_fails) in_order 0)\<rparr>))) (EncodeID ''v'')
      (Inr \<lparr>wi_Offset = int 3, wi_Length = 3, wi_Data = EncodeData [21, 22, 23]\<rparr>) (demo_ctl RW, demo_world) = Some (Inr (Written ()), s1) \<and>
    rest_ReadAt (\<lambda>_ _ _. []) (snd (Device_Shutdown (Device_New\<lparr>d_Name := ''v'', d_backend := Some (controller_rwu (demo_env 2 b_fails) in_order 0)\<rparr>))) (EncodeID ''v'')
      (Inr \<lparr>ri_Offset = int 3, ri_Length = 3\<rparr>) s1 = Some (Inr (Written t), s2) \<and> DecodeData t = Inr [21, 22, 23]"
  using rest_write_then_read [OF demo_healthy demo_env_bops in_order_schedule, of 3 "[21, 22, 23]" "snd (Device_Shutdown (Device_New\<lparr>d_Name := ''v'', d_backend := Some (controller_rwu (demo_env 2 b_fails) in_order 0)\<rparr>))" 0 "\<lambda>_ _ _. []"]
  by (simp add: Device_Shutdown_def Device_New_def)

text \<open>Calls that succeed; the device is its name.\<close>

definition ex_fe :: "(string, nat) fe_env" where
  "ex_fe = \<lparr>fx_host = \<lparr>mt_List = \<lambda>w. ([], None), mt_IsMountPoint = \<lambda>_ w. (False, None), mt_Mount = \<lambda>_ _ w. (None, w), mt_GetDeviceNameFromMount = \<lambda>_ w. ([], None),
       mt_CleanupMountPoint = \<lambda>_ w. (None, w), os_MkdirAll = \<lambda>_ w. (None, w), ex_fsfreeze = \<lambda>_ w. (None, w), ns_Sync = \<lambda>w. (None, w)\<rparr>,
     fx_Stat = \<lambda>_ _. Inr False, fx_Remove = \<lambda>_ w. (None, w), fx_Listen = \<lambda>_ w. w + 1, fx_StopServer = \<lambda>w. w, fx_ListenAndServe = \<lambda>w. w,
     NewDevice = \<lambda>name _ _ _ _ _ w. (Inr name, w), InitDevice = \<lambda>_ w. (None, w), StartDevice = \<lambda>_ w. (None, w), ShutdownDevice = \<lambda>_ w. (None, w),
     PrepareUpgrade = \<lambda>_ w. (None, w), FinishUpgrade = \<lambda>_ w. (None, w), ExpandDevice = \<lambda>_ _ w. (None, w), GetEndpoint = \<lambda>d _. d\<rparr>"

definition ex_tgt :: "(string, unit) frontend" where
  "ex_tgt = TgtFrontend (Tgt_New ''tgt-blockdev'' 60 15 15)"

lemma ex_tgt_new: "new_frontend ex_tgt"
  by (auto simp: new_frontend_def ex_tgt_def)

text \<open>The target after Init and after Startup.\<close>

definition ex_ready :: "(string, unit) frontend" where
  "ex_ready = fst (snd (frontend_Init ex_fe ex_tgt ''v'' 8 2 0))"

definition ex_up :: "(string, unit) frontend" where
  "ex_up = fst (snd (the (frontend_Startup ex_fe ex_ready () 0)))"

lemma ex_started: "frontend_Init ex_fe ex_tgt ''v'' 8 2 0 = (None, ex_ready, 0)" "frontend_Startup ex_fe ex_ready () 0 = Some (None, ex_up, 1)" "frontend_State ex_up = ''up''"
  by code_simp+

lemma ex_up_life: "frontend_life ex_fe ''v'' ex_tgt ex_up"
  unfolding frontend_life_def by (rule fe.life_start [OF fe.life_refl ex_started(1,2)])

theorem frontend_life_safe_witness:
  "frontend_Endpoint ex_fe ex_up 1 \<noteq> None \<and>
    (\<exists>err f2 w'. frontend_Shutdown ex_fe ex_up 1 = Some (err, f2, w'))"
  using frontend_life_safe [OF ex_tgt_new ex_up_life, of 1 8 2 "()" 1] by auto

end
