(* ===== verification/Data_Conn_Run.thy ===== *)
theory Data_Conn_Run
  imports Data_Conn_Thms "HOL-Library.Sublist"
begin

text \<open>
  The two ends of a data connection at work together (src/pkg/dataconn/client.go and server.go): the loop of the client, the messages on the wires, the
  goroutine that the server starts for every message, and the responses on the way back, in any interleaving.  A client spreads its messages over several
  wires, so they may overtake each other in both directions; a wire that breaks loses messages.
\<close>

section \<open>The connection\<close>

text \<open>The other end reads what was written, as an error or a message.\<close>

definition wire_carry :: "Message \<Rightarrow> error + Message" where
  "wire_carry m = fst (wire_Read (wire_bytes m, EOF))"

text \<open>
  cn_issued are the requests that went to the wires, with the number of their caller; cn_log the messages that were handled, with their responses, in the order
  in which the replica saw them.
\<close>

record 'w conn =
  cn_client :: client
  cn_timeouts :: shared_timeouts
  cn_issued :: "(nat \<times> Message) list"
  cn_out :: "Message list"
  cn_handlers :: "Message list"
  cn_back :: "Message list"
  cn_world :: 'w
  cn_log :: "(Message \<times> Message option) list"

definition new_conn :: "shared_timeouts \<Rightarrow> 'w \<Rightarrow> 'w conn" where
  "new_conn t w = \<lparr>cn_client = new_client, cn_timeouts = Increment t, cn_issued = [], cn_out = [], cn_handlers = [], cn_back = [], cn_world = w, cn_log = []\<rparr>"

text \<open>A round of the client's loop; what it sends goes to the wires.\<close>

definition client_turn :: "int \<Rightarrow> client_event \<Rightarrow> 'w conn \<Rightarrow> 'w conn" where
  "client_turn now ev s =
     (let (c, t) = client_step now ev (cn_client s, cn_timeouts s);
          sent = drop (length (cl_sent (cn_client s))) (cl_sent c)
      in s\<lparr>cn_client := c, cn_timeouts := t, cn_out := cn_out s @ sent,
           cn_issued := cn_issued s @ (case ev of Request (i, _) \<Rightarrow> map (\<lambda>m. (i, m)) sent | _ \<Rightarrow> [])\<rparr>)"

definition response_event :: "Message \<Rightarrow> client_event" where
  "response_event m = (case wire_carry m of Inl e \<Rightarrow> TransportErr e | Inr m' \<Rightarrow> Response m')"

text \<open>
  The steps: a request of well-formed contents, a tick, a failing wire, the end of the client; a message arrives at the server, which starts its goroutine; a
  goroutine runs and pushes its response; a response arrives at the client; a message is lost; a server whose connection ended says goodbye.
\<close>

inductive conn_step :: "'w data_processor \<Rightarrow> 'w conn \<Rightarrow> 'w conn \<Rightarrow> bool" for D where
  request: "\<not> cl_ended (cn_client s) \<Longrightarrow> msg_ok (m\<lparr>m_MagicVersion := MagicVersion\<rparr>) \<Longrightarrow> conn_step D s (client_turn now (Request (i, m)) s)"
| client: "\<not> cl_ended (cn_client s) \<Longrightarrow> ev = Tick \<or> ev = End \<or> ev = TransportErr e \<Longrightarrow> conn_step D s (client_turn now ev s)"
| arrive: "cn_out s = xs @ m # ys \<Longrightarrow> wire_carry m = Inr m' \<Longrightarrow> conn_step D s (s\<lparr>cn_out := xs @ ys, cn_handlers := cn_handlers s @ [m']\<rparr>)"
| handle: "cn_handlers s = xs @ m # ys \<Longrightarrow> server_handle D m (cn_world s) = Some (r, w) \<Longrightarrow>
    conn_step D s (s\<lparr>cn_handlers := xs @ ys, cn_world := w, cn_back := cn_back s @ (case r of None \<Rightarrow> [] | Some m' \<Rightarrow> [m']), cn_log := cn_log s @ [(m, r)]\<rparr>)"
| answer: "cn_back s = xs @ m # ys \<Longrightarrow> \<not> cl_ended (cn_client s) \<Longrightarrow> conn_step D s (client_turn now (response_event m) (s\<lparr>cn_back := xs @ ys\<rparr>))"
| lose_out: "cn_out s = xs @ m # ys \<Longrightarrow> conn_step D s (s\<lparr>cn_out := xs @ ys\<rparr>)"
| lose_back: "cn_back s = xs @ m # ys \<Longrightarrow> conn_step D s (s\<lparr>cn_back := xs @ ys\<rparr>)"
| close: "conn_step D s (s\<lparr>cn_back := cn_back s @ [close_message]\<rparr>)"

section \<open>What was executed\<close>

text \<open>The log as a sequential run of the replica.\<close>

fun log_run :: "'w data_processor \<Rightarrow> 'w \<Rightarrow> (Message \<times> Message option) list \<Rightarrow> 'w option" where
  "log_run D w [] = Some w"
| "log_run D w ((m, r) # l) =
     (case server_handle D m w of Some (r', w') \<Rightarrow> if r' = r then log_run D w' l else None | None \<Rightarrow> None)"

lemma log_run_snoc: "log_run D w0 l = Some w \<Longrightarrow> server_handle D m w = Some (r, w') \<Longrightarrow> log_run D w0 (l @ [(m, r)]) = Some w'"
  by (induction l arbitrary: w0) (auto split: option.splits prod.splits if_splits)

lemma pushResponse_seq: "pushResponse k m err = Some r \<Longrightarrow> m_Seq r = m_Seq m"
  by (auto simp: pushResponse_def sized_def Let_def bind_eq_Some_conv split: option.splits error.splits if_splits)

lemma server_handle_seq: "server_handle D m w = Some (Some r, w') \<Longrightarrow> m_Seq r = m_Seq m"
  by (auto simp: server_handle_def handleRead_def handleWrite_def handleUnmap_def handlePing_def bind_eq_Some_conv split: if_splits dest!: pushResponse_seq)

lemma wire_carry_ok: "msg_ok m \<Longrightarrow> wire_carry m = Inr m"
  using wire_Read_bytes [of m "[]" EOF] by (simp add: wire_carry_def)

lemma wire_carry_seq: "wire_carry m = Inr m' \<Longrightarrow> m_Seq m' = m_Seq m"
proof -
  assume a: "wire_carry m = Inr m'"
  have rf: "ReadFull getRequestHeaderSize (wire_bytes m, EOF) = (Inr (wire_header m), (m_Data m, EOF))"
    using header_fields(1) [of m] by (simp add: ReadFull_def wire_bytes_def getRequestHeaderSize_def)
  show ?thesis using a by (auto simp: wire_carry_def wire_Read_def rf header_fields word_get_put Let_def split: if_splits sum.splits prod.splits)
qed

lemma wire_carry_close: "wire_carry close_message = Inl (Errorf ''wrong API version received: 0x0'')"
  using close_message_refused [of "[]" EOF] by (simp add: wire_carry_def)

section \<open>The invariant\<close>

text \<open>A request was completed with the response of a goroutine that handled this very message.\<close>

definition completion :: "'w conn \<Rightarrow> nat \<Rightarrow> Message \<Rightarrow> bool" where
  "completion s i d \<longleftrightarrow> (\<exists>m r r'. (i, m) \<in> set (cn_issued s) \<and> (m, Some r) \<in> set (cn_log s) \<and> wire_carry r = Inr r' \<and>
     d = m\<lparr>m_Type := m_Type r', m_Size := m_Size r', m_Data := m_Data r'\<rparr>)"

definition settled :: "'w conn \<Rightarrow> bool" where
  "settled s \<longleftrightarrow> (\<forall>(i, d) \<in> set (cl_done (cn_client s)). completion s i d \<or> cl_error (cn_client s) \<noteq> None \<and> m_Type d = TypeError)"

definition client_inv :: "'w conn \<Rightarrow> bool" where
  "client_inv s \<longleftrightarrow> cl_seq (cn_client s) = word_of_nat (length (cn_issued s)) \<and>
     map (\<lambda>x. m_Seq (snd x)) (cn_issued s) = map word_of_nat [1 ..< Suc (length (cn_issued s))] \<and> (\<forall>x \<in> set (cn_issued s). msg_ok (snd x)) \<and>
     (\<forall>x \<in> set (cl_messages (cn_client s)). snd x \<in> set (cn_issued s) \<and> m_Seq (snd (snd x)) = fst x) \<and>
     (cl_error (cn_client s) \<noteq> None \<longrightarrow> cl_messages (cn_client s) = [])"

definition server_inv :: "'w data_processor \<Rightarrow> 'w \<Rightarrow> 'w conn \<Rightarrow> bool" where
  "server_inv D w0 s \<longleftrightarrow> mset (cn_out s) + mset (cn_handlers s) + mset (map fst (cn_log s)) \<subseteq># mset (map snd (cn_issued s)) \<and>
     (\<forall>m \<in> set (cn_back s). m = close_message \<or> (\<exists>q. (q, Some m) \<in> set (cn_log s))) \<and>
     (\<forall>q m. (q, Some m) \<in> set (cn_log s) \<longrightarrow> m_Seq m = m_Seq q) \<and> log_run D w0 (cn_log s) = Some (cn_world s)"

lemma issued_distinct:
  assumes "client_inv s" "length (cn_issued s) < 2 ^ 32"
  shows "distinct (map (\<lambda>x. m_Seq (snd x)) (cn_issued s))"
proof -
  have "inj_on (word_of_nat :: nat \<Rightarrow> 32 word) {1 ..< Suc (length (cn_issued s))}"
  proof (rule inj_onI)
    fix x y assume "x \<in> {1 ..< Suc (length (cn_issued s))}" "y \<in> {1 ..< Suc (length (cn_issued s))}" and e: "(word_of_nat x :: 32 word) = word_of_nat y"
    then have "x < 2 ^ 32" "y < 2 ^ 32" using assms(2) by auto
    then show "x = y" using arg_cong [OF e, of unat] by (simp add: unat_of_nat)
  qed
  then show ?thesis using assms(1) by (simp add: client_inv_def distinct_map del: upt_Suc)
qed

lemma completion_mono:
  "completion s i d \<Longrightarrow> set (cn_issued s) \<subseteq> set (cn_issued s') \<Longrightarrow> set (cn_log s) \<subseteq> set (cn_log s') \<Longrightarrow> completion s' i d"
  unfolding completion_def by blast

subsection \<open>The client\<close>

lemma fold_replyError_done:
  "cl_sent (fold (\<lambda>(_, req). replyError req e) xs c) = cl_sent c \<and>
   (\<forall>d \<in> set (cl_done (fold (\<lambda>(_, req). replyError req e) xs c)). d \<in> set (cl_done c) \<or> m_Type (snd d) = TypeError)"
proof (induction xs arbitrary: c)
  case (Cons x xs)
  obtain k req where x: "x = (k, req)" by (cases x)
  show ?case using Cons.IH [of "replyError req e c"] by (auto simp: x replyError_def)
qed simp

text \<open>The effect of an error of the client.\<close>

lemma error_turn:
  assumes "\<forall>x \<in> set (cl_messages c). m_Seq (snd (snd x)) = fst x"
  shows "cl_messages (handleClientError e c) = [] \<and> cl_error (handleClientError e c) = Some e \<and> cl_seq (handleClientError e c) = cl_seq c \<and>
    cl_sent (handleClientError e c) = cl_sent c \<and> (\<forall>d \<in> set (cl_done (handleClientError e c)). d \<in> set (cl_done c) \<or> m_Type (snd d) = TypeError)"
  using fold_replyError [OF assms, of e "c\<lparr>cl_error := Some e\<rparr>"] fold_replyError_done [of e "cl_messages c" "c\<lparr>cl_error := Some e\<rparr>"]
  by (auto simp: handleClientError_def Let_def filter_empty_conv)

text \<open>A turn without request and response changes nothing, or ends all pending requests with an error.\<close>

lemma other_turn:
  assumes "\<forall>x \<in> set (cl_messages c). m_Seq (snd (snd x)) = fst x" "ev = Tick \<or> ev = End \<or> ev = TransportErr e" "client_step now ev (c, t) = (c', t')"
  shows "cl_sent c' = cl_sent c \<and> cl_seq c' = cl_seq c \<and>
    (cl_messages c' = cl_messages c \<and> cl_error c' = cl_error c \<and> cl_done c' = cl_done c \<or>
     cl_messages c' = [] \<and> cl_error c' \<noteq> None \<and> (\<forall>d \<in> set (cl_done c'). d \<in> set (cl_done c) \<or> m_Type (snd d) = TypeError))"
proof -
  note E = error_turn [of "c\<lparr>cl_decremented := True\<rparr>" ErrRWTimeout] error_turn [OF assms(1), of e]
  show ?thesis using assms(2)
  proof (elim disjE)
    assume ev: "ev = Tick"
    show ?thesis using assms(1,3) E(1) unfolding ev by (auto simp: Let_def split: option.splits if_splits prod.splits)
  next
    assume ev: "ev = End"
    show ?thesis using assms(3) unfolding ev by auto
  next
    assume ev: "ev = TransportErr e"
    show ?thesis using assms(3) E(2) unfolding ev by auto
  qed
qed

lemma client_turn_other:
  assumes "client_inv s" "settled s" "ev = Tick \<or> ev = End \<or> ev = TransportErr e"
  shows "client_inv (client_turn now ev s) \<and> settled (client_turn now ev s) \<and> cn_issued (client_turn now ev s) = cn_issued s \<and> cn_out (client_turn now ev s) = cn_out s"
proof -
  have m: "\<forall>x \<in> set (cl_messages (cn_client s)). m_Seq (snd (snd x)) = fst x" using assms(1) by (auto simp: client_inv_def)
  obtain c t where c: "client_step now ev (cn_client s, cn_timeouts s) = (c, t)" by fastforce
  note T = other_turn [OF m assms(3) c]
  have s: "client_turn now ev s = s\<lparr>cn_client := c, cn_timeouts := t\<rparr>" using T assms(3) by (auto simp: client_turn_def c)
  have "settled (client_turn now ev s)" using assms(2) T unfolding s by (fastforce simp: settled_def completion_def)
  moreover have "client_inv (client_turn now ev s)" using assms(1) T unfolding s by (auto simp: client_inv_def)
  ultimately show ?thesis by (simp add: s)
qed

lemma in_set_updateD: "x \<in> set (AList.update k v xs) \<Longrightarrow> x = (k, v) \<or> x \<in> set xs"
  by (induction xs) (auto split: if_splits)

lemma client_turn_request:
  assumes "client_inv s" "settled s" "msg_ok (m\<lparr>m_MagicVersion := MagicVersion\<rparr>)"
  shows "client_inv (client_turn now (Request (i, m)) s) \<and> settled (client_turn now (Request (i, m)) s) \<and>
    (\<exists>ms. cn_issued (client_turn now (Request (i, m)) s) = cn_issued s @ map (\<lambda>m. (i, m)) ms \<and> cn_out (client_turn now (Request (i, m)) s) = cn_out s @ ms)"
proof (cases "cl_error (cn_client s)")
  case (Some e)
  have "client_turn now (Request (i, m)) s = s\<lparr>cn_client := replyError (i, m) e (cn_client s)\<rparr>" using Some by (simp add: client_turn_def) (simp add: replyError_def)
  then show ?thesis using assms(1,2) Some by (auto simp: client_inv_def settled_def completion_def replyError_def)
next
  case None
  let ?c = "cn_client s" and ?n = "length (cn_issued s)"
  define q where "q = m\<lparr>m_MagicVersion := MagicVersion, m_Seq := word_of_nat (Suc ?n)\<rparr>"
  obtain c' where c': "client_step now (Request (i, m)) (?c, cn_timeouts s) = (c', cn_timeouts s)" "cl_sent c' = cl_sent ?c @ [q]" "cl_seq c' = word_of_nat (Suc ?n)"
    "cl_messages c' = AList.update (word_of_nat (Suc ?n)) (i, q) (cl_messages ?c)" "cl_done c' = cl_done ?c" "cl_error c' = None"
    using None assms(1) by (auto simp: handleRequest_def Let_def q_def client_inv_def add.commute)
  have s: "client_turn now (Request (i, m)) s = s\<lparr>cn_client := c', cn_out := cn_out s @ [q], cn_issued := cn_issued s @ [(i, q)]\<rparr>"
    using c'(1,2) by (simp add: client_turn_def)
  have q: "msg_ok q" "m_Seq q = word_of_nat (Suc ?n)" using assms(3) by (simp_all add: q_def msg_ok_def)
  have "settled (client_turn now (Request (i, m)) s)" using assms(2) None c'(5,6) unfolding s by (fastforce simp: settled_def completion_def)
  moreover have "client_inv (client_turn now (Request (i, m)) s)"
    using assms(1) c'(3,4,6) q unfolding s by (auto simp: client_inv_def update_conv' dest!: in_set_updateD)
  ultimately show ?thesis by (simp add: s)
qed

text \<open>A response ends the request with its number.\<close>

lemma client_turn_response:
  assumes "client_inv s" "settled s" "(q, Some r) \<in> set (cn_log s)" "m_Seq r = m_Seq q" "q \<in> snd ` set (cn_issued s)" "wire_carry r = Inr r'" "length (cn_issued s) < 2 ^ 32"
  shows "client_inv (client_turn now (Response r') s) \<and> settled (client_turn now (Response r') s) \<and> cn_issued (client_turn now (Response r') s) = cn_issued s \<and>
    cn_out (client_turn now (Response r') s) = cn_out s"
proof (cases "map_of (cl_messages (cn_client s)) (m_Seq r')")
  case None
  then have "client_turn now (Response r') s = s" by (simp add: client_turn_def)
  then show ?thesis using assms by simp
next
  case (Some im)
  obtain i m where im: "im = (i, m)" by (cases im)
  have p: "(i, m) \<in> set (cn_issued s)" "m_Seq m = m_Seq r'" using assms(1) map_of_SomeD [OF Some] by (auto simp: client_inv_def im)
  have err: "cl_error (cn_client s) = None" using assms(1) Some by (auto simp: client_inv_def)
  have "m_Seq q = m_Seq m" using p(2) wire_carry_seq [OF assms(6)] assms(4) by simp
  moreover obtain j where "(j, q) \<in> set (cn_issued s)" using assms(5) by auto
  moreover have "inj_on (\<lambda>x. m_Seq (snd x)) (set (cn_issued s))" using issued_distinct [OF assms(1,7)] by (simp add: distinct_map)
  ultimately have "(j, q) = (i, m)" using p(1) by (auto dest: inj_onD [of _ _ "(j, q)" "(i, m)"])
  then have q: "q = m" by simp
  define c0 where "c0 = (if is_io (m_Type m) then (cn_client s)\<lparr>cl_ioInflight := cl_ioInflight (cn_client s) - 1, cl_timeOfLastActivity := Some now\<rparr> else cn_client s)"
  have c0: "cl_messages c0 = cl_messages (cn_client s)" "cl_done c0 = cl_done (cn_client s)" "cl_seq c0 = cl_seq (cn_client s)" "cl_sent c0 = cl_sent (cn_client s)" "cl_error c0 = None"
    using err by (simp_all add: c0_def)
  have "client_turn now (Response r') s = s\<lparr>cn_client := handleResponse r' c0\<rparr>"
    using Some im err c0 by (simp add: client_turn_def Let_def c0_def [symmetric]) (simp add: handleResponse_def)
  moreover have "handleResponse r' c0 = c0\<lparr>cl_messages := AList.delete (m_Seq r') (cl_messages c0),
      cl_done := cl_done c0 @ [(i, m\<lparr>m_Type := m_Type r', m_Size := m_Size r', m_Data := m_Data r'\<rparr>)]\<rparr>"
    using Some im c0(1) by (simp add: handleResponse_def)
  moreover have "set (AList.delete (m_Seq r') (cl_messages (cn_client s))) \<subseteq> set (cl_messages (cn_client s))" by (auto simp: AList.delete_eq)
  ultimately show ?thesis using assms(1,2,3,6) p(1) q err c0 by (fastforce simp: client_inv_def settled_def completion_def)
qed

subsection \<open>All steps\<close>

lemma server_invD:
  assumes "server_inv D w0 s" "q \<in> set (cn_out s) \<union> set (cn_handlers s) \<union> fst ` set (cn_log s)"
  shows "q \<in> snd ` set (cn_issued s)"
proof -
  have "set_mset (mset (cn_out s) + mset (cn_handlers s) + mset (map fst (cn_log s))) \<subseteq> set_mset (mset (map snd (cn_issued s)))"
    using assms(1) unfolding server_inv_def by (metis set_mset_mono)
  then show ?thesis using assms(2) by auto
qed

definition conn_inv :: "'w data_processor \<Rightarrow> 'w \<Rightarrow> 'w conn \<Rightarrow> bool" where
  "conn_inv D w0 s \<longleftrightarrow> client_inv s \<and> settled s \<and> server_inv D w0 s"

lemma new_conn_inv: "conn_inv D w (new_conn t w)"
  by (simp add: conn_inv_def client_inv_def settled_def server_inv_def new_conn_def new_client_def)

text \<open>Steps of the server leave the client alone.\<close>

lemma conn_inv_server:
  assumes "conn_inv D w0 s" "cn_client s' = cn_client s" "cn_issued s' = cn_issued s" "set (cn_log s) \<subseteq> set (cn_log s')" "server_inv D w0 s'"
  shows "conn_inv D w0 s'"
proof -
  have "completion s i d \<Longrightarrow> completion s' i d" for i d using completion_mono [of s i d s'] assms(3,4) by simp
  then show ?thesis using assms unfolding conn_inv_def client_inv_def settled_def by fastforce
qed

lemma turn_keeps [simp]:
  "cn_handlers (client_turn now ev s) = cn_handlers s" "cn_back (client_turn now ev s) = cn_back s" "cn_world (client_turn now ev s) = cn_world s"
  "cn_log (client_turn now ev s) = cn_log s"
  by (simp_all add: client_turn_def Let_def split: prod.split)

lemma subset_mset_add_both: "A + B + C \<subseteq># X \<Longrightarrow> A + M + B + C \<subseteq># X + M"
  using subset_mset.add_right_mono [of "A + B + C" X M] by (simp add: ac_simps)

lemma conn_step_inv:
  assumes "conn_step D s s'" "conn_inv D w0 s" "length (cn_issued s') < 2 ^ 32"
  shows "conn_inv D w0 s'"
  using assms
proof (cases rule: conn_step.cases)
  case (request m now i)
  obtain ms where ms: "cn_issued s' = cn_issued s @ map (\<lambda>m. (i, m)) ms" "cn_out s' = cn_out s @ ms" and c: "client_inv s'" "settled s'"
    using assms(2) client_turn_request [of s m now i] request by (auto simp: conn_inv_def)
  have "server_inv D w0 s'" using assms(2) ms request(1) subset_mset_add_both [where M = "mset ms"] by (auto simp: conn_inv_def server_inv_def image_mset.compositionality o_def)
  then show ?thesis using c by (simp add: conn_inv_def)
next
  case (client ev e now)
  then show ?thesis using assms(2) client_turn_other [of s ev e now] by (auto simp: conn_inv_def server_inv_def)
next
  case (arrive xs m ys m')
  have "m \<in> snd ` set (cn_issued s)" using server_invD [of D w0 s m] assms(2) arrive(2) by (auto simp: conn_inv_def)
  then have "msg_ok m" using assms(2) by (auto simp: conn_inv_def client_inv_def)
  then have "m' = m" using arrive(3) wire_carry_ok by simp
  then have "server_inv D w0 s'" using assms(2) arrive by (auto simp: conn_inv_def server_inv_def)
  then show ?thesis using conn_inv_server [OF assms(2), of s'] arrive(1) by simp
next
  case (handle xs m ys r w)
  have "server_inv D w0 s'"
    using assms(2) handle log_run_snoc [of D w0 "cn_log s" "cn_world s" m r w] server_handle_seq [of D m "cn_world s" _ w]
    by (auto simp: conn_inv_def server_inv_def split: option.splits)
  then show ?thesis using conn_inv_server [OF assms(2), of s'] handle(1) by auto
next
  case (answer xs m ys now)
  let ?s = "s\<lparr>cn_back := xs @ ys\<rparr>"
  have i: "conn_inv D w0 ?s" using conn_inv_server [OF assms(2), of ?s] assms(2) answer(2) by (auto simp: conn_inv_def server_inv_def)
  show ?thesis
  proof (cases "wire_carry m")
    case (Inl e)
    then show ?thesis using i client_turn_other [of ?s "TransportErr e" e now] answer(1) by (auto simp: conn_inv_def server_inv_def response_event_def)
  next
    case (Inr r')
    then have "m \<noteq> close_message" using wire_carry_close by auto
    then obtain q where q: "(q, Some m) \<in> set (cn_log s)" "m_Seq m = m_Seq q" using assms(2) answer(2) by (auto simp: conn_inv_def server_inv_def)
    then have "q \<in> snd ` set (cn_issued ?s)" using server_invD [of D w0 s q] assms(2) by (force simp: conn_inv_def)
    moreover have "length (cn_issued ?s) < 2 ^ 32" using assms(3) answer(1) by (simp add: client_turn_def Let_def split: prod.splits)
    ultimately show ?thesis using i client_turn_response [of ?s q m r' now] q Inr answer(1) by (auto simp: conn_inv_def server_inv_def response_event_def)
  qed
next
  case (lose_out xs m ys)
  then have "mset (cn_out s') + mset (cn_handlers s') + mset (map fst (cn_log s')) \<subseteq># mset (cn_out s) + mset (cn_handlers s) + mset (map fst (cn_log s))" by simp
  then have "mset (cn_out s') + mset (cn_handlers s') + mset (map fst (cn_log s')) \<subseteq># mset (map snd (cn_issued s))"
    using assms(2) unfolding conn_inv_def server_inv_def by (meson subset_mset.order_trans)
  then have "server_inv D w0 s'" using assms(2) lose_out(1) by (simp add: conn_inv_def server_inv_def)
  then show ?thesis using conn_inv_server [OF assms(2), of s'] lose_out(1) by simp
next
  case (lose_back xs m ys)
  then show ?thesis using conn_inv_server [OF assms(2), of s'] assms(2) by (auto simp: conn_inv_def server_inv_def)
next
  case close
  then show ?thesis using conn_inv_server [OF assms(2), of s'] assms(2) by (auto simp: conn_inv_def server_inv_def)
qed

text \<open>Requests, and what was handled, only accumulate.\<close>

lemma conn_step_grows: "conn_step D s s' \<Longrightarrow> prefix (cn_log s) (cn_log s') \<and> length (cn_issued s) \<le> length (cn_issued s')"
  by (induction rule: conn_step.induct) (auto simp: client_turn_def Let_def split: prod.splits)

lemma conn_steps_inv:
  assumes "(conn_step D)\<^sup>*\<^sup>* s s'" "conn_inv D w0 s"
  shows "prefix (cn_log s) (cn_log s') \<and> length (cn_issued s) \<le> length (cn_issued s') \<and> (length (cn_issued s') < 2 ^ 32 \<longrightarrow> conn_inv D w0 s')"
  using assms
proof (induction rule: rtranclp_induct)
  case (step s1 s2)
  note g = conn_step_grows [OF step.hyps(2)]
  have "conn_inv D w0 s2" if "length (cn_issued s2) < 2 ^ 32" using conn_step_inv [OF step.hyps(2) _ that] step.IH [OF step.prems] g that by auto
  then show ?case using step.IH [OF step.prems] g by (meson order_trans prefix_order.trans)
qed simp

lemma distinct_submset:
  assumes "mset xs \<subseteq># mset ys" "distinct ys"
  shows "distinct xs"
proof -
  have "count (mset ys) a \<le> 1" for a using assms(2) unfolding distinct_count_atmost_1 by (cases "a \<in> set ys") (auto simp: count_mset_0_iff)
  then have "count (mset xs) a \<le> 1" for a using mset_subset_eq_count [OF assms(1), of a] le_trans by blast
  moreover have "a \<in> set xs \<Longrightarrow> 0 < count (mset xs) a" for a by simp
  ultimately show ?thesis by (fastforce simp: distinct_count_atmost_1 count_mset_0_iff le_Suc_eq)
qed

lemma conn_inv_once:
  assumes "conn_inv D w0 s" "length (cn_issued s) < 2 ^ 32"
  shows "distinct (map (\<lambda>x. m_Seq (fst x)) (cn_log s))"
proof -
  have i: "client_inv s" "server_inv D w0 s" using assms(1) by (simp_all add: conn_inv_def)
  have d: "distinct (map m_Seq (map snd (cn_issued s)))" using issued_distinct [OF i(1) assms(2)] by (simp add: o_def)
  have "mset (map fst (cn_log s)) \<subseteq># mset (map snd (cn_issued s))"
    using i(2) unfolding server_inv_def by (meson mset_subset_eq_add_right subset_mset.order_trans)
  from image_mset_subseteq_mono [OF this, of m_Seq] have "mset (map m_Seq (map fst (cn_log s))) \<subseteq># mset (map m_Seq (map snd (cn_issued s)))" by (simp add: image_mset.compositionality)
  then have "distinct (map m_Seq (map fst (cn_log s)))" using d distinct_submset by blast
  then show ?thesis by (simp add: o_def)
qed

section \<open>Linearizability\<close>


section \<open>A write\<close>

text \<open>A replica that keeps the last buffer.\<close>

definition ex_register :: "bytes data_processor" where
  "ex_register = \<lparr>dp_ReadAt = \<lambda>buf off w. Some (int (length w), None, w, w), dp_WriteAt = \<lambda>buf off w. Some (int (length buf), None, buf),
     dp_UnmapAt = \<lambda>len off w. Some (0, None, w), dp_PingResponse = \<lambda>w. None\<rparr>"

definition ex_request :: Message where
  "ex_request = (client_WriteAt_msg [7] 0)\<lparr>m_MagicVersion := MagicVersion, m_Seq := 1\<rparr>"

definition ex_response :: Message where
  "ex_response = ex_request\<lparr>m_Type := TypeResponse, m_Data := [], m_Size := 1\<rparr>"

definition ex_conn1 :: "bytes conn" where
  "ex_conn1 = client_turn 1 (Request (5, client_WriteAt_msg [7] 0)) (new_conn (NewSharedTimeouts 8 15) [])"

definition ex_conn3 :: "bytes conn" where
  "ex_conn3 = ex_conn1\<lparr>cn_out := [], cn_handlers := [], cn_world := [7], cn_back := [ex_response], cn_log := [(ex_request, Some ex_response)]\<rparr>"

definition ex_conn4 :: "bytes conn" where
  "ex_conn4 = client_turn 2 (response_event ex_response) (ex_conn3\<lparr>cn_back := []\<rparr>)"

lemma ex_conn1_facts: "cn_out ex_conn1 = [ex_request]" "cn_handlers ex_conn1 = []" "cn_world ex_conn1 = []" "cn_back ex_conn1 = []" "cn_log ex_conn1 = []"
  "cl_ended (cn_client ex_conn1) = False" "cn_issued ex_conn1 = [(5, ex_request)]"
  by (simp_all add: ex_conn1_def new_conn_def client_turn_def new_client_def ex_request_def client_WriteAt_msg_def op_message_def zero_Message_def handleRequest_def Let_def
    is_io_def msg_types)

lemma ex_messages_ok: "msg_ok ex_request" "msg_ok ex_response" "msg_ok ((client_WriteAt_msg [7] 0)\<lparr>m_MagicVersion := MagicVersion\<rparr>)"
  by (simp_all add: msg_ok_def ex_request_def ex_response_def client_WriteAt_msg_def op_message_def zero_Message_def)

lemma ex_handled: "server_handle ex_register ex_request w = Some (Some ex_response, [7])"
  by (simp add: server_handle_def handleWrite_def ex_register_def pushResponse_def sized_def ex_response_def ex_request_def client_WriteAt_msg_def op_message_def zero_Message_def
    msg_types)

lemma ex_conn_steps: "(conn_step ex_register)\<^sup>*\<^sup>* (new_conn (NewSharedTimeouts 8 15) []) ex_conn4"
proof -
  let ?s0 = "new_conn (NewSharedTimeouts 8 15) [] :: bytes conn" and ?s2 = "ex_conn1\<lparr>cn_out := [], cn_handlers := [ex_request]\<rparr>"
  have "conn_step ex_register ?s0 ex_conn1"
    unfolding ex_conn1_def by (rule conn_step.request [OF _ ex_messages_ok(3)]) (simp add: new_conn_def new_client_def)
  moreover have "conn_step ex_register ex_conn1 ?s2"
    using conn_step.arrive [of ex_conn1 "[]" ex_request "[]" ex_request ex_register] ex_conn1_facts wire_carry_ok [OF ex_messages_ok(1)] by simp
  moreover have "conn_step ex_register ?s2 ex_conn3"
    using conn_step.handle [of ?s2 "[]" ex_request "[]" ex_register "Some ex_response" "[7]"] ex_conn1_facts ex_handled by (simp add: ex_conn3_def)
  moreover have "conn_step ex_register ex_conn3 ex_conn4"
    using conn_step.answer [of ex_conn3 "[]" ex_response "[]" ex_register 2] ex_conn1_facts by (simp add: ex_conn4_def ex_conn3_def)
  ultimately show ?thesis by (meson rtranclp.rtrancl_into_rtrancl rtranclp.rtrancl_refl)
qed

lemma ex_conn4_facts: "length (cn_issued ex_conn4) < 2 ^ 32" "cn_log ex_conn4 = [(ex_request, Some ex_response)]" "cn_world ex_conn4 = [7]"
  by (simp_all add: ex_conn4_def ex_conn3_def ex_conn1_facts response_event_def wire_carry_ok [OF ex_messages_ok(2)])
    (simp add: client_turn_def ex_conn1_facts Let_def split: prod.split)

lemma ex_conn4_done: "cl_error (cn_client ex_conn4) = None" "fst ` set (cl_done (cn_client ex_conn4)) = {5}"
proof -
  have "cl_messages (cn_client ex_conn1) = [(1, 5, ex_request)]" "cl_done (cn_client ex_conn1) = []" "cl_error (cn_client ex_conn1) = None"
    by (simp_all add: ex_conn1_def new_conn_def client_turn_def new_client_def ex_request_def client_WriteAt_msg_def op_message_def zero_Message_def handleRequest_def Let_def
      is_io_def msg_types)
  moreover have "m_Seq ex_response = 1" by (simp add: ex_response_def ex_request_def)
  ultimately show "cl_error (cn_client ex_conn4) = None" "fst ` set (cl_done (cn_client ex_conn4)) = {5}"
    by (simp_all add: ex_conn4_def ex_conn3_def response_event_def wire_carry_ok [OF ex_messages_ok(2)] client_turn_def handleResponse_def Let_def)
qed


end
