(* ===== verification/Interceptor.thy ===== *)
theory Interceptor
  imports Grpc
begin

text \<open>
  The check of the identity of a service on every call (src/pkg/interceptor/interceptor.go): a client sends the names of the volume and the instance it means, and
  a server that is another one refuses.  The metadata of a call is a list of keys and values.
\<close>

definition md_Get :: "(string \<times> string) list \<Rightarrow> string \<Rightarrow> string list" where
  "md_Get md key = map snd (filter (\<lambda>x. fst x = key) md)"

text \<open>A name is taken only when there is exactly one.\<close>

definition incoming_name :: "(string \<times> string) list \<Rightarrow> string \<Rightarrow> string" where
  "incoming_name md key = (if length (md_Get md key) = 1 then md_Get md key ! 0 else '''')"

definition identityValidationServerInterceptor ::
  "string \<Rightarrow> string \<Rightarrow> string \<Rightarrow> (string \<times> string) list option \<Rightarrow> ('c, 'w, 'a) rpc \<Rightarrow> ('c, 'w, 'a) rpc" where
  "identityValidationServerInterceptor volumeName instanceName serverType md handler c w =
     (case md of
        None \<Rightarrow> handler c w
      | Some md \<Rightarrow>
          let incomingVolumeName = incoming_name md ''volume-name''; incomingInstanceName = incoming_name md ''instance-name''
          in if incomingVolumeName \<noteq> '''' \<and> volumeName \<noteq> '''' \<and> incomingVolumeName \<noteq> volumeName
             then Some (Inl (status_error ''FailedPrecondition'' (''incorrect volume name '' @ incomingVolumeName @ ''; check '' @ serverType @ '' address'')), c, w)
             else if incomingInstanceName \<noteq> '''' \<and> instanceName \<noteq> '''' \<and> incomingInstanceName \<noteq> instanceName
             then Some (Inl (status_error ''FailedPrecondition'' (''incorrect instance name '' @ incomingInstanceName @ ''; check '' @ serverType @ '' address'')), c, w)
             else handler c w)"

text \<open>The metadata that a client adds to that of its context.\<close>

definition identityValidationClientInterceptor :: "string \<Rightarrow> string \<Rightarrow> (string \<times> string) list \<Rightarrow> ((string \<times> string) list \<Rightarrow> 'r) \<Rightarrow> 'r" where
  "identityValidationClientInterceptor volumeName instanceName ctx invoker =
     (let ctx = (if volumeName \<noteq> '''' then ctx @ [(''volume-name'', volumeName)] else ctx);
          ctx = (if instanceName \<noteq> '''' then ctx @ [(''instance-name'', instanceName)] else ctx)
      in invoker ctx)"

text \<open>A call of a client for one pair of names to a server with another.\<close>

definition identified_call :: "string \<times> string \<Rightarrow> string \<times> string \<Rightarrow> string \<Rightarrow> (string \<times> string) list \<Rightarrow> ('c, 'w, 'a) rpc \<Rightarrow> ('c, 'w, 'a) rpc" where
  "identified_call client server serverType ctx handler c w =
     identityValidationClientInterceptor (fst client) (snd client) ctx
       (\<lambda>md. identityValidationServerInterceptor (fst server) (snd server) serverType (Some md) handler c w)"

definition agrees :: "string \<Rightarrow> string \<Rightarrow> bool" where
  "agrees a b \<longleftrightarrow> a = '''' \<or> b = '''' \<or> a = b"

lemma sent_names:
  assumes "md_Get ctx ''volume-name'' = []" "md_Get ctx ''instance-name'' = []"
  obtains md where "\<And>invoker. identityValidationClientInterceptor v i ctx invoker = invoker md" "incoming_name md ''volume-name'' = v" "incoming_name md ''instance-name'' = i"
proof
  let ?md = "(if v \<noteq> [] then ctx @ [(''volume-name'', v)] else ctx) @ (if i \<noteq> [] then [(''instance-name'', i)] else [])"
  show "identityValidationClientInterceptor v i ctx invoker = invoker ?md" for invoker by (simp add: identityValidationClientInterceptor_def)
  show "incoming_name ?md ''volume-name'' = v" "incoming_name ?md ''instance-name'' = i" using assms by (simp_all add: incoming_name_def md_Get_def)
qed

text \<open>
  C38: A call reaches the handler exactly when the names of volume and instance that client and server have agree, where both have one; otherwise the handler is
  not run, the state is kept, and the client gets an error.
\<close>

theorem identity_checked:
  assumes "md_Get ctx ''volume-name'' = []" "md_Get ctx ''instance-name'' = []"
  shows "if agrees (fst cl) (fst sv) \<and> agrees (snd cl) (snd sv) then identified_call cl sv serverType ctx handler c w = handler c w
    else \<exists>e. identified_call cl sv serverType ctx handler c w = Some (Inl e, c, w)"
proof -
  obtain md where md: "identified_call cl sv serverType ctx handler c w = identityValidationServerInterceptor (fst sv) (snd sv) serverType (Some md) handler c w"
    "incoming_name md ''volume-name'' = fst cl" "incoming_name md ''instance-name'' = snd cl"
    using sent_names [OF assms, of "fst cl" "snd cl"] unfolding identified_call_def by metis
  then show ?thesis by (auto simp: identityValidationServerInterceptor_def agrees_def Let_def)
qed

theorem identity_checked_witness:
  "\<exists>e. identified_call (''vol-a'', []) (''vol-b'', ''r1'') ''replica'' [] (\<lambda>c w. Some (Inr (), c, Suc w)) () (0 :: nat) = Some (Inl e, (), 0)"
  using identity_checked [of "[]" "(''vol-a'', [])" "(''vol-b'', ''r1'')" "''replica''" "\<lambda>c w. Some (Inr (), c, Suc w)" "()" 0]
  by (simp add: md_Get_def agrees_def)

end
