(* ===== verification/Backends.thy ===== *)
theory Backends
  imports Controller_Errors Sync_Handlers
begin

text \<open>
  The backend of the controller that is a plain file (src/pkg/backend/file/file.go), the factory that chooses a backend by the scheme of an address
  (src/pkg/backend/dynamic/dynamic.go), and the backing file of a replica (src/pkg/backingfile/backingfile.go).
\<close>

section \<open>A file\<close>

text \<open>The methods of os.File; a stat gives the size and the time of the last change.\<close>

record 'w file_os =
  fo_OpenFile :: "string \<Rightarrow> 'w \<Rightarrow> error option \<times> 'w"
  fo_ReadAt :: "string \<Rightarrow> bytes \<Rightarrow> int \<Rightarrow> 'w \<Rightarrow> int \<times> error option \<times> bytes"
  fo_WriteAt :: "string \<Rightarrow> bytes \<Rightarrow> int \<Rightarrow> 'w \<Rightarrow> int \<times> error option \<times> 'w"
  fo_Stat :: "string \<Rightarrow> 'w \<Rightarrow> error + int \<times> int"
  fo_Truncate :: "string \<Rightarrow> int \<Rightarrow> 'w \<Rightarrow> error option \<times> 'w"
  fo_Close :: "string \<Rightarrow> 'w \<Rightarrow> error option \<times> 'w"

definition file_Size :: "'w file_os \<Rightarrow> string \<Rightarrow> 'w \<Rightarrow> int \<times> error option" where
  "file_Size X h w = (case fo_Stat X h w of Inl e \<Rightarrow> (0, Some e) | Inr (sz, _) \<Rightarrow> (sz, None))"

definition file_GetLastModifyTime :: "'w file_os \<Rightarrow> string \<Rightarrow> 'w \<Rightarrow> int \<times> error option" where
  "file_GetLastModifyTime X h w = (case fo_Stat X h w of Inl e \<Rightarrow> (0, Some e) | Inr (_, t) \<Rightarrow> (t, None))"

text \<open>The outer deferred function of Expand: an error without a code gets one.\<close>

definition coded :: "error option \<Rightarrow> error option" where
  "coded err =
     (case err of
        None \<Rightarrow> None
      | Some (TypesError code msg rb) \<Rightarrow> Some (TypesError code msg rb)
      | Some e \<Rightarrow> Some (NewError ErrorCodeFunctionFailedWithoutRollback (Error_msg e) ''''))"

text \<open>The inner deferred function cuts the file back when it could not be extended.\<close>

definition file_Expand :: "'w file_os \<Rightarrow> string \<Rightarrow> int \<Rightarrow> 'w \<Rightarrow> error option \<times> 'w" where
  "file_Expand X h sz w =
     (case file_Size X h w of
        (_, Some e) \<Rightarrow> (coded (Some e), w)
      | (currentSize, None) \<Rightarrow>
          if sz < currentSize
          then (coded (Some (Errorf (''cannot truncate to a smaller size '' @ showInt sz @ '' for the backend type file''))), w)
          else if sz = currentSize then (None, w)
          else case fo_Truncate X h sz w of
            (None, w) \<Rightarrow> (None, w)
          | (Some e, w) \<Rightarrow> (case fo_Truncate X h currentSize w of
              (rollbackErr, w) \<Rightarrow>
                (coded (WrapError (GenerateFunctionErrorWithRollback (Some e) rollbackErr) (''failed to expand the file to size '' @ showInt sz)), w)))"

definition file_Create :: "'w file_os \<Rightarrow> string \<Rightarrow> 'w \<Rightarrow> (error + string) \<times> 'w" where
  "file_Create X address w = (case fo_OpenFile X address w of (Some e, w) \<Rightarrow> (Inl e, w) | (None, w) \<Rightarrow> (Inr address, w))"

text \<open>The file as a backend.\<close>

definition file_backend :: "'w file_os \<Rightarrow> (string, 'w) backend_ops" where
  "file_backend X =
     \<lparr>be_ReadAt = fo_ReadAt X, be_WriteAt = fo_WriteAt X, be_UnmapAt = \<lambda>h len off w. (0, None, w), be_Snapshot = \<lambda>h name user created labels w. (None, w),
      be_Expand = file_Expand X, be_Size = file_Size X, be_SectorSize = \<lambda>h w. (4096, None), be_GetRevisionCounter = \<lambda>h w. (1, None),
      be_SetRevisionCounter = \<lambda>h counter w. (None, w), be_GetState = \<lambda>h w. (''open'', None), be_StopMonitoring = \<lambda>h w. w,
      be_IsRevisionCounterDisabled = \<lambda>h w. (False, None), be_GetLastModifyTime = file_GetLastModifyTime X, be_GetHeadFileSize = file_Size X,
      be_GetUnmapMarkSnapChainRemoved = \<lambda>h w. (False, None), be_SetUnmapMarkSnapChainRemoved = \<lambda>h enabled w. (None, w), be_ResetRebuild = \<lambda>h w. (None, w),
      be_SetSnapshotMaxCount = \<lambda>h count w. (None, w), be_SetSnapshotMaxSize = \<lambda>h sz w. (None, w), be_GetSnapshotCountAndSizeUsage = \<lambda>h w. (1, 0, None),
      be_Close = fo_Close X\<rparr>"

lemma file_backend_quiet: "quiet_stop (file_backend X)"
  by (simp add: quiet_stop_def file_backend_def)

text \<open>
  The code of a failed expansion tells the state of the file: without rollback the file was not touched; after a rollback that succeeded it was cut to its size.
\<close>

lemma file_Expand_codes:
  assumes "file_Expand X h sz w = (Some err, w')"
  obtains code msg rb where "err = TypesError code msg rb"
    "code = ErrorCodeFunctionFailedWithoutRollback \<and> w' = w \<or> (case file_Size X h w of (cur, _) \<Rightarrow>
     cur < sz \<and> (\<exists>e w1. fo_Truncate X h sz w = (Some e, w1) \<and> snd (fo_Truncate X h cur w1) = w' \<and>
       code = (if fst (fo_Truncate X h cur w1) = None then ErrorCodeFunctionFailedRollbackSucceeded else ErrorCodeFunctionFailedRollbackFailed)))
     \<or> (\<exists>code' msg' rb'. fo_Stat X h w = Inl (TypesError code' msg' rb'))"
proof (cases "file_Size X h w")
  case (Pair cur serr)
  show ?thesis
  proof (cases serr)
    case (Some e)
    then show ?thesis using that assms Pair
      by (cases e) (auto simp: file_Expand_def coded_def NewError_def file_Size_def split: sum.splits prod.splits)
  next
    case None
    obtain t1 w1 where t: "fo_Truncate X h sz w = (t1, w1)" by fastforce
    obtain t2 w2 where t2: "fo_Truncate X h cur w1 = (t2, w2)" by fastforce
    show ?thesis using that assms Pair None t t2
      by (cases t1; cases t2)
        (auto simp: file_Expand_def coded_def NewError_def WrapError_def GenerateFunctionErrorWithRollback_def split: if_splits)
  qed
qed

section \<open>The scheme of an address\<close>

text \<open>strings.SplitN with two parts.\<close>

fun split_first :: "string \<Rightarrow> string \<Rightarrow> (string \<times> string) option" where
  "split_first sep [] = None"
| "split_first sep (c # s) =
     (if HasPrefix (c # s) sep then Some ([], drop (length sep) (c # s)) else map_option (\<lambda>(a, b). (c # a, b)) (split_first sep s))"

definition dynamic_Create :: "(string \<times> (string \<Rightarrow> 'w \<Rightarrow> (error + 'b) \<times> 'w)) list \<Rightarrow> string \<Rightarrow> 'w \<Rightarrow> (error + 'b) \<times> 'w" where
  "dynamic_Create factories address w =
     (case split_first ''://'' address of
        Some (scheme, rest) \<Rightarrow> (case map_of factories scheme of
            Some create \<Rightarrow> create rest w
          | None \<Rightarrow> (Inl (Errorf (''failed to find factory for '' @ address)), w))
      | None \<Rightarrow> (Inl (Errorf (''failed to find factory for '' @ address)), w))"

lemma split_first_scheme: "CHR '':'' \<notin> set scheme \<Longrightarrow> split_first ''://'' (scheme @ ''://'' @ rest) = Some (scheme, rest)"
  by (induction scheme) (auto simp: HasPrefix_iff)

lemma dynamic_Create_scheme:
  assumes "CHR '':'' \<notin> set scheme" "map_of factories scheme = Some create"
  shows "dynamic_Create factories (scheme @ ''://'' @ address) w = create address w"
  unfolding dynamic_Create_def split_first_scheme [OF assms(1)] using assms(2) by simp

section \<open>The backing file\<close>

record ('h, 'w) image_env =
  ie_Open :: "string \<Rightarrow> 'w \<Rightarrow> error option"
  ie_IsDir :: "string \<Rightarrow> 'w \<Rightarrow> error + bool"
  ie_Readdir :: "string \<Rightarrow> 'w \<Rightarrow> error + (string \<times> bool) list"
  ie_qemu_img :: "string \<Rightarrow> 'w \<Rightarrow> error + string"
  ie_qcow :: "string \<Rightarrow> 'w \<Rightarrow> error + 'h"
  ie_direct :: "string \<Rightarrow> 'w \<Rightarrow> error + 'h"
  ie_Size :: "'h \<Rightarrow> 'w \<Rightarrow> error + int"

record 'h BackingFile =
  bf_Path :: string
  bf_Disk :: 'h
  bf_Size :: int
  bf_SectorSize :: int

text \<open>A directory stands for the only file in it.\<close>

definition ResolveBackingFilepath :: "('h, 'w) image_env \<Rightarrow> string \<Rightarrow> 'w \<Rightarrow> error + string" where
  "ResolveBackingFilepath E p w =
     (case ie_Open E p w of
        Some e \<Rightarrow> Inl e
      | None \<Rightarrow> (case ie_IsDir E p w of
          Inl e \<Rightarrow> Inl e
        | Inr False \<Rightarrow> Inr p
        | Inr True \<Rightarrow> (case ie_Readdir E p w of
            Inl e \<Rightarrow> Inl e
          | Inr entries \<Rightarrow>
              if length entries \<noteq> 1 then Inl (Errorf (''expected exactly one file, found '' @ showInt (int (length entries)) @ '' files/subdirectories''))
              else if snd (entries ! 0) then Inl (Errorf ''expected exactly one file, found a subdirectory'')
              else Inr (path_Join p (fst (entries ! 0))))))"

text \<open>The lines of a text; bufio.Scanner gives up at a line of more than 64 KiB, which qemu-img does not print.\<close>

fun scan_lines :: "string \<Rightarrow> string \<Rightarrow> string list" where
  "scan_lines cur [] = (if cur = [] then [] else [rev cur])"
| "scan_lines cur (c # cs) = (if c = CHR 0x0A then rev cur # scan_lines [] cs else scan_lines (c # cur) cs)"

definition format_in :: "string \<Rightarrow> string option" where
  "format_in output =
     map_option (\<lambda>line. TrimPrefix line ''file format: '') (find (\<lambda>line. HasPrefix line ''file format: '') (map TrimSpace (scan_lines [] output)))"

definition detectFileFormat :: "('h, 'w) image_env \<Rightarrow> string \<Rightarrow> 'w \<Rightarrow> error + string" where
  "detectFileFormat E p w =
     (case ie_qemu_img E p w of
        Inl e \<Rightarrow> Inl (Errorf (''failed to check backing file format with command [qume-img info '' @ p @ '']: '' @ Error_msg e))
      | Inr output \<Rightarrow> (case format_in output of
          Some format \<Rightarrow> Inr format
        | None \<Rightarrow> Inl (Errorf (''cannot find the file format in the output '' @ output))))"

definition OpenBackingFile :: "('h, 'w) image_env \<Rightarrow> string \<Rightarrow> 'w \<Rightarrow> error + 'h BackingFile option" where
  "OpenBackingFile E p w =
     (if p = '''' then Inr None
      else case ResolveBackingFilepath E p w of
        Inl e \<Rightarrow> Inl e
      | Inr q \<Rightarrow> (case detectFileFormat E q w of
          Inl e \<Rightarrow> Inl e
        | Inr format \<Rightarrow>
            (case (if format = ''qcow2'' then ie_qcow E q w else if format = ''raw'' then ie_direct E q w
                   else Inl (Errorf (''format '' @ format @ '' of the backing file '' @ q @ '' is not supported''))) of
               Inl e \<Rightarrow> Inl e
             | Inr f \<Rightarrow> (case ie_Size E f w of
                 Inl e \<Rightarrow> Inl e
               | Inr sz \<Rightarrow>
                   if sz smod BackingImageSectorSize \<noteq> 0
                   then Inl (Errorf (''the backing file size '' @ showInt sz @ '' should be a multiple of '' @ showInt BackingImageSectorSize @
                          '' bytes since Longhorn uses directIO by default''))
                   else Inr (Some \<lparr>bf_Path = q, bf_Disk = f, bf_Size = sz, bf_SectorSize = BackingImageSectorSize\<rparr>)))))"

text \<open>What a backing file that was opened is: whole sectors, of one of the two formats, which qemu-img reported for its path.\<close>

lemma OpenBackingFile_sound:
  assumes "OpenBackingFile E p w = Inr (Some b)"
  shows "ResolveBackingFilepath E p w = Inr (bf_Path b) \<and> bf_SectorSize b dvd bf_Size b \<and> ie_Size E (bf_Disk b) w = Inr (bf_Size b) \<and>
    (detectFileFormat E (bf_Path b) w = Inr ''qcow2'' \<and> ie_qcow E (bf_Path b) w = Inr (bf_Disk b) \<or>
     detectFileFormat E (bf_Path b) w = Inr ''raw'' \<and> ie_direct E (bf_Path b) w = Inr (bf_Disk b))"
proof -
  have dvd: "BackingImageSectorSize dvd sz" if "sz smod BackingImageSectorSize = 0" for sz
    using that sdiv_mult_smod_eq [of sz BackingImageSectorSize] by (metis add.right_neutral dvd_triv_right)
  obtain q where q: "ResolveBackingFilepath E p w = Inr q" using assms by (cases "ResolveBackingFilepath E p w") (auto simp: OpenBackingFile_def split: if_splits)
  obtain format where f: "detectFileFormat E q w = Inr format" using assms q by (cases "detectFileFormat E q w") (auto simp: OpenBackingFile_def split: if_splits)
  define r where "r = (if format = ''qcow2'' then ie_qcow E q w else if format = ''raw'' then ie_direct E q w
    else Inl (Errorf (''format '' @ format @ '' of the backing file '' @ q @ '' is not supported'')))"
  obtain h where h: "r = Inr h" using assms q f by (cases r) (auto simp: OpenBackingFile_def r_def [symmetric] split: if_splits)
  obtain sz where sz: "ie_Size E h w = Inr sz" using assms q f h by (cases "ie_Size E h w") (auto simp: OpenBackingFile_def r_def [symmetric] split: if_splits)
  have b: "sz smod BackingImageSectorSize = 0" "b = \<lparr>bf_Path = q, bf_Disk = h, bf_Size = sz, bf_SectorSize = BackingImageSectorSize\<rparr>"
    using assms q f h sz by (auto simp: OpenBackingFile_def r_def [symmetric] split: if_splits)
  show ?thesis using q f h sz dvd [OF b(1)] unfolding b(2) by (auto simp: r_def split: if_splits)
qed

end
