(* ===== verification/Commands.thy ===== *)
theory Commands
  imports Backup_Task_Thms Labels Addresses Grpc
begin

text \<open>
  The commands that the engine runs against a controller (src/app/cmd): each checks its arguments, takes a client of the controller or a task of the volume, and
  calls it.  What a command prints is its result, before it is formatted.  The calls to the controller that are not those of theory Backup_Task are the fields of
  cmd_env.  None is a panic.  The last sections show that the snapshots that are listed are those of all replicas in mode RW, that every snapshot that is given to rm
  is tried, and that a volume is exported only from a replica in mode RW that has the snapshot.
\<close>

section \<open>Arguments and calls\<close>

text \<open>cli.Context: the arguments, and the values of the flags by their name, with their defaults.\<close>

record cli_context =
  cx_Args :: "string list"
  cx_String :: "string \<Rightarrow> string"
  cx_Bool :: "string \<Rightarrow> bool"
  cx_Int :: "string \<Rightarrow> int"
  cx_StringSlice :: "string \<Rightarrow> string list option"
  cx_GlobalString :: "string \<Rightarrow> string"

definition cx_First :: "cli_context \<Rightarrow> string" where
  "cx_First c = (case cx_Args c of [] \<Rightarrow> '''' | a # _ \<Rightarrow> a)"

text \<open>units.RAMInBytes and butil.GetBackupCredential belong to other packages.  \<open>ce_volume url volumeName instanceName\<close> are the calls of a client.\<close>

record 'w cmd_env =
  ce_NewControllerClient :: "string \<Rightarrow> string \<Rightarrow> string \<Rightarrow> 'w \<Rightarrow> error option \<times> 'w"
  ce_volume :: "string \<Rightarrow> string \<Rightarrow> string \<Rightarrow> 'w backup_env"
  ce_VolumeSnapshot :: "string \<Rightarrow> (string \<times> string) list \<Rightarrow> bool \<Rightarrow> 'w \<Rightarrow> (error + string) \<times> 'w"
  ce_VolumeRevert :: "string \<Rightarrow> 'w \<Rightarrow> error option \<times> 'w"
  ce_VolumeExpand :: "int \<Rightarrow> 'w \<Rightarrow> error option \<times> 'w"
  ce_VolumeFrontendStart :: "string \<Rightarrow> 'w \<Rightarrow> error option \<times> 'w"
  ce_VolumeFrontendShutdown :: "'w \<Rightarrow> error option \<times> 'w"
  ce_VolumeUnmapMarkSnapChainRemovedSet :: "bool \<Rightarrow> 'w \<Rightarrow> error option \<times> 'w"
  ce_ReplicaDelete :: "string \<Rightarrow> 'w \<Rightarrow> error option \<times> 'w"
  ce_ReplicaUpdate :: "string \<Rightarrow> mode \<Rightarrow> 'w \<Rightarrow> (error + string \<times> mode) \<times> 'w"
  ce_ExportVolume :: "string \<Rightarrow> string \<Rightarrow> string \<Rightarrow> int \<Rightarrow> bool \<Rightarrow> int \<Rightarrow> 'w \<Rightarrow> error option \<times> 'w"
  ce_NewProfilerClient :: "string \<Rightarrow> string \<Rightarrow> string \<Rightarrow> 'w \<Rightarrow> error option \<times> 'w"
  ce_ProfilerOP :: "string \<Rightarrow> int \<Rightarrow> 'w \<Rightarrow> (error + string) \<times> 'w"
  ce_RAMInBytes :: "string \<Rightarrow> error + int"
  ce_GetBackupCredential :: "string \<Rightarrow> error + (string \<times> string) list"

definition ce_backup :: "'w cmd_env \<Rightarrow> cli_context \<Rightarrow> 'w backup_env" where
  "ce_backup E c = ce_volume E (cx_GlobalString c ''url'') (cx_GlobalString c ''volume-name'') (cx_GlobalString c ''engine-instance-name'')"

definition ce_task :: "'w cmd_env \<Rightarrow> cli_context \<Rightarrow> 'w task_env" where
  "ce_task E c = be_task (ce_backup E c)"

definition getControllerClient :: "'w cmd_env \<Rightarrow> cli_context \<Rightarrow> 'w \<Rightarrow> error option \<times> 'w" where
  "getControllerClient E c = ce_NewControllerClient E (cx_GlobalString c ''url'') (cx_GlobalString c ''volume-name'') (cx_GlobalString c ''engine-instance-name'')"

text \<open>NewTask keeps the client that it makes.\<close>

definition NewTask :: "'w cmd_env \<Rightarrow> string \<Rightarrow> string \<Rightarrow> string \<Rightarrow> 'w \<Rightarrow> (error + 'w backup_env) \<times> 'w" where
  "NewTask E controllerAddress volumeName controllerInstanceName w =
     (case ce_NewControllerClient E controllerAddress volumeName controllerInstanceName w of
        (Some e, w) \<Rightarrow> (Inl e, w)
      | (None, w) \<Rightarrow> (Inr (ce_volume E controllerAddress volumeName controllerInstanceName), w))"

text \<open>A command with a task, and one with a client of the controller; what the deferred calls close is not observed.\<close>

definition with_task :: "'w cmd_env \<Rightarrow> cli_context \<Rightarrow> ('w backup_env \<Rightarrow> 'w \<Rightarrow> (error + 'a) \<times> 'w) \<Rightarrow> 'w \<Rightarrow> (error + 'a) \<times> 'w" where
  "with_task E c act w =
     (case NewTask E (cx_GlobalString c ''url'') (cx_GlobalString c ''volume-name'') (cx_GlobalString c ''engine-instance-name'') w of
        (Inl e, w) \<Rightarrow> (Inl e, w)
      | (Inr T, w) \<Rightarrow> act T w)"

definition with_controller :: "'w cmd_env \<Rightarrow> cli_context \<Rightarrow> ('w \<Rightarrow> (error + 'a) \<times> 'w) \<Rightarrow> 'w \<Rightarrow> (error + 'a) \<times> 'w" where
  "with_controller E c act w = (case getControllerClient E c w of (Some e, w) \<Rightarrow> (Inl e, w) | (None, w) \<Rightarrow> act w)"

definition wrap_err :: "string \<Rightarrow> (error + 'a) \<times> 'w \<Rightarrow> (error + 'a) \<times> 'w" where
  "wrap_err msg r = (case r of (Inl e, w) \<Rightarrow> (Inl (Wrapped msg e), w) | _ \<Rightarrow> r)"

section \<open>Replicas\<close>

definition getChain :: "'w task_env \<Rightarrow> string \<Rightarrow> 'w \<Rightarrow> (error + string list) \<times> 'w" where
  "getChain E address = with_client E address '''' (\<lambda>w. case te_GetReplica E address w of (Inl e, w) \<Rightarrow> (Inl e, w) | (Inr r, w) \<Rightarrow> (Inr (ri_Chain r), w))"

fun ls_loop :: "'w task_env \<Rightarrow> (string \<times> mode) list \<Rightarrow> 'w \<Rightarrow> (string \<times> mode \<times> string list option) list \<times> 'w" where
  "ls_loop E [] w = ([], w)"
| "ls_loop E ((a, mo) # rs) w =
     (if mo = ERR then (let (l, w) = ls_loop E rs w in ((a, mo, None) # l, w))
      else case getChain E a w of
        (Inl _, w) \<Rightarrow> (let (l, w) = ls_loop E rs w in ((a, mo, None) # l, w))
      | (Inr chain, w) \<Rightarrow> (let (l, w) = ls_loop E rs w in ((a, mo, Some chain) # l, w)))"

definition lsReplica :: "'w cmd_env \<Rightarrow> cli_context \<Rightarrow> 'w \<Rightarrow> (error + (string \<times> mode \<times> string list option) list) \<times> 'w" where
  "lsReplica E c = with_controller E c (\<lambda>w.
     case te_ReplicaList (ce_task E c) w of
       (Inl e, w) \<Rightarrow> (Inl e, w)
     | (Inr reps, w) \<Rightarrow> (let (l, w) = ls_loop (ce_task E c) reps w in (Inr l, w)))"

definition rmReplica :: "'w cmd_env \<Rightarrow> cli_context \<Rightarrow> 'w \<Rightarrow> (error + unit) \<times> 'w" where
  "rmReplica E c w =
     (case cx_Args c of
        [] \<Rightarrow> (Inl (Errorf ''replica address is required''), w)
      | replica # _ \<Rightarrow> with_controller E c (\<lambda>w. as_error (ce_ReplicaDelete E replica w)) w)"

definition mode_of :: "string \<Rightarrow> mode option" where
  "mode_of s = find (\<lambda>mo. mode_name mo = s) [WO, RW, ERR]"

definition updateReplica :: "'w cmd_env \<Rightarrow> cli_context \<Rightarrow> 'w \<Rightarrow> (error + string \<times> mode) \<times> 'w" where
  "updateReplica E c w =
     (case cx_Args c of
        [] \<Rightarrow> (Inl (Errorf ''replica address is required''), w)
      | replica # _ \<Rightarrow> (case mode_of (cx_String c ''mode'') of
          None \<Rightarrow> (Inl (Errorf (''unsupported replica mode: '' @ cx_String c ''mode'')), w)
        | Some mo \<Rightarrow> with_controller E c (ce_ReplicaUpdate E replica mo) w))"

text \<open>The two sizes of a volume.\<close>

definition required_size :: "'w cmd_env \<Rightarrow> cli_context \<Rightarrow> string \<Rightarrow> error + int" where
  "required_size E c name = (if cx_String c name = '''' then Inl (Errorf (name @ '' is required'')) else ce_RAMInBytes E (cx_String c name))"

definition volume_sizes :: "'w cmd_env \<Rightarrow> cli_context \<Rightarrow> error + int \<times> int" where
  "volume_sizes E c =
     (case required_size E c ''size'' of
        Inl e \<Rightarrow> Inl e
      | Inr volumeSize \<Rightarrow> (case required_size E c ''current-size'' of Inl e \<Rightarrow> Inl e | Inr volumeCurrentSize \<Rightarrow> Inr (volumeSize, volumeCurrentSize)))"

definition addReplica_cmd :: "'w cmd_env \<Rightarrow> cli_context \<Rightarrow> 'w \<Rightarrow> (error + unit) \<times> 'w" where
  "addReplica_cmd E c w =
     (case cx_Args c of
        [] \<Rightarrow> (Inl (Errorf ''replica address is required''), w)
      | replica # _ \<Rightarrow> with_task E c (\<lambda>T w.
          case volume_sizes E c of
            Inl e \<Rightarrow> (Inl e, w)
          | Inr (volumeSize, volumeCurrentSize) \<Rightarrow>
              if cx_Bool c ''restore''
              then as_error (AddRestoreReplica (be_task T) volumeSize volumeCurrentSize replica (cx_String c ''replica-instance-name'') w)
              else as_error (AddReplica_task (be_task T) volumeSize volumeCurrentSize replica (cx_String c ''replica-instance-name'') w)) w)"

definition startWithReplicas :: "'w cmd_env \<Rightarrow> cli_context \<Rightarrow> 'w \<Rightarrow> (error + unit) \<times> 'w" where
  "startWithReplicas E c w =
     (case cx_Args c of
        [] \<Rightarrow> (Inl (Errorf ''replica address is required''), w)
      | replicas \<Rightarrow> with_task E c (\<lambda>T w.
          case volume_sizes E c of
            Inl e \<Rightarrow> (Inl e, w)
          | Inr (volumeSize, volumeCurrentSize) \<Rightarrow> as_error (StartWithReplicas (be_task T) volumeSize volumeCurrentSize replicas w)) w)"

definition rebuildStatus :: "'w cmd_env \<Rightarrow> cli_context \<Rightarrow> 'w \<Rightarrow> (error + (string \<times> task_status) list) \<times> 'w" where
  "rebuildStatus E c = with_task E c (\<lambda>T. task_RebuildStatus (be_task T))"

definition verifyRebuildReplica :: "'w cmd_env \<Rightarrow> cli_context \<Rightarrow> 'w \<Rightarrow> (error + unit) \<times> 'w" where
  "verifyRebuildReplica E c w =
     (case cx_Args c of
        [] \<Rightarrow> (Inl (Errorf ''replica address is required''), w)
      | replicaAddress # _ \<Rightarrow>
          with_task E c (\<lambda>T w. as_error (VerifyRebuildReplica_task (be_task T) replicaAddress (cx_String c ''replica-instance-name'') w)) w)"

section \<open>Snapshots\<close>

definition parsed_labels :: "cli_context \<Rightarrow> error + (string \<times> string) list" where
  "parsed_labels c =
     (case cx_StringSlice c ''label'' of
        None \<Rightarrow> Inr []
      | Some labels \<Rightarrow> (case ParseLabels labels of Inl e \<Rightarrow> Inl (Wrapped ''cannot parse backup labels'' e) | Inr m \<Rightarrow> Inr m))"

definition createSnapshot_cmd :: "'w cmd_env \<Rightarrow> cli_context \<Rightarrow> 'w \<Rightarrow> (error + string) \<times> 'w" where
  "createSnapshot_cmd E c w =
     (case parsed_labels c of
        Inl e \<Rightarrow> (Inl e, w)
      | Inr labelMap \<Rightarrow> with_controller E c (ce_VolumeSnapshot E (cx_First c) labelMap (cx_Bool c ''freeze-fs'')) w)"

definition revertSnapshot :: "'w cmd_env \<Rightarrow> cli_context \<Rightarrow> 'w \<Rightarrow> ((error + unit) \<times> 'w) option" where
  "revertSnapshot E c w =
     (case cx_Args c of
        [] \<Rightarrow> None
      | name # _ \<Rightarrow>
          Some (if name = '''' then (Inl (Errorf ''missing parameter for snapshot''), w)
                else with_controller E c (\<lambda>w. as_error (ce_VolumeRevert E name w)) w))"

fun rm_loop :: "'w task_env \<Rightarrow> string list \<Rightarrow> error option \<Rightarrow> 'w \<Rightarrow> error option \<times> 'w" where
  "rm_loop E [] lastErr w = (lastErr, w)"
| "rm_loop E (name # names) lastErr w =
     (case DeleteSnapshot E name w of (Some e, w) \<Rightarrow> rm_loop E names (Some e) w | (None, w) \<Rightarrow> rm_loop E names lastErr w)"

definition rmSnapshot :: "'w cmd_env \<Rightarrow> cli_context \<Rightarrow> 'w \<Rightarrow> (error + unit) \<times> 'w" where
  "rmSnapshot E c = with_task E c (\<lambda>T w. as_error (rm_loop (be_task T) (cx_Args c) None w))"

definition purgeSnapshot :: "'w cmd_env \<Rightarrow> (string list \<Rightarrow> string list) \<Rightarrow> cli_context \<Rightarrow> 'w \<Rightarrow> (error + unit) \<times> 'w" where
  "purgeSnapshot E sched c = with_task E c (\<lambda>T w.
     wrap_err ''failed to purge snapshots'' (as_error (PurgeSnapshots (be_task T) sched (cx_Bool c ''skip-if-in-progress'') w)))"

definition purgeSnapshotStatus :: "'w cmd_env \<Rightarrow> cli_context \<Rightarrow> 'w \<Rightarrow> (error + (string \<times> task_status) list) \<times> 'w" where
  "purgeSnapshotStatus E c = with_task E c (\<lambda>T. PurgeSnapshotStatus (be_task T))"

text \<open>The loop of lsSnapshot over the replicas.\<close>

fun ls_snapshots_loop :: "'w task_env \<Rightarrow> bool \<Rightarrow> string list \<Rightarrow> (string \<times> mode) list \<Rightarrow> 'w \<Rightarrow> (error + string list) \<times> 'w" where
  "ls_snapshots_loop E first snapshots [] w = (Inr snapshots, w)"
| "ls_snapshots_loop E first snapshots ((a, mo) # rs) w =
     (if mo \<noteq> RW then ls_snapshots_loop E first snapshots rs w
      else case getChain E a w of
        (Inl e, w) \<Rightarrow> (Inl e, w)
      | (Inr chain, w) \<Rightarrow>
          if first then (if length chain = 0 then (Inr snapshots, w) else ls_snapshots_loop E False (tl chain) rs w)
          else ls_snapshots_loop E False (filter (\<lambda>i. i \<in> set chain) snapshots) rs w)"

definition lsSnapshot :: "'w cmd_env \<Rightarrow> cli_context \<Rightarrow> 'w \<Rightarrow> (error + string list) \<times> 'w" where
  "lsSnapshot E c = with_controller E c (\<lambda>w.
     case te_ReplicaList (ce_task E c) w of
       (Inl e, w) \<Rightarrow> (Inl e, w)
     | (Inr replicas, w) \<Rightarrow> (case ls_snapshots_loop (ce_task E c) True [] replicas w of
         (Inl e, w) \<Rightarrow> (Inl e, w)
       | (Inr snapshots, w) \<Rightarrow> (Inr (map (\<lambda>s. TrimSuffix (TrimPrefix s ''volume-snap-'') ''.img'') snapshots), w)))"

definition infoSnapshot :: "'w cmd_env \<Rightarrow> cli_context \<Rightarrow> 'w \<Rightarrow> (error + (string \<times> DiskInfo) list) \<times> 'w" where
  "infoSnapshot E c = with_controller E c (\<lambda>w.
     case te_ReplicaList (ce_task E c) w of
       (Inl e, w) \<Rightarrow> (Inl e, w)
     | (Inr replicas, w) \<Rightarrow> GetSnapshotsInfo (ce_task E c) replicas w)"

definition cloneSnapshot :: "'w cmd_env \<Rightarrow> (string list \<Rightarrow> string list) \<Rightarrow> cli_context \<Rightarrow> 'w \<Rightarrow> (error + unit) \<times> 'w" where
  "cloneSnapshot E sched c w =
     (if cx_String c ''snapshot-name'' = '''' then (Inl (Errorf ''missing required parameter --snapshot-name''), w)
      else if cx_String c ''from-controller-address'' = '''' then (Inl (Errorf ''missing required parameter --from-controller-address''), w)
      else with_controller E c (\<lambda>w.
        case NewTask E (cx_String c ''from-controller-address'') (cx_String c ''from-volume-name'') (cx_String c ''from-controller-instance-name'') w of
          (Inl e, w) \<Rightarrow> (Inl e, w)
        | (Inr F, w) \<Rightarrow> as_error (CloneSnapshot (ce_task E c) (be_task F) sched (cx_String c ''snapshot-name'') w)) w)"

definition cloneSnapshotStatus :: "'w cmd_env \<Rightarrow> cli_context \<Rightarrow> 'w \<Rightarrow> (error + (string \<times> task_status) list) \<times> 'w" where
  "cloneSnapshotStatus E c = with_controller E c (task_CloneStatus (ce_task E c))"

definition hashSnapshot_cmd :: "'w cmd_env \<Rightarrow> (string list \<Rightarrow> string list) \<Rightarrow> cli_context \<Rightarrow> 'w \<Rightarrow> (error + unit) \<times> 'w" where
  "hashSnapshot_cmd E sched c w =
     (case cx_Args c of
        [] \<Rightarrow> (Inl (Errorf ''snapshot name is required''), w)
      | snapshotName # _ \<Rightarrow> with_task E c (\<lambda>T w.
          wrap_err (''failed to hash snapshot '' @ snapshotName) (as_error (HashSnapshot (be_task T) sched snapshotName (cx_Bool c ''rehash'') w))) w)"

definition cancelHashSnapshot :: "'w cmd_env \<Rightarrow> (string list \<Rightarrow> string list) \<Rightarrow> cli_context \<Rightarrow> 'w \<Rightarrow> (error + unit) \<times> 'w" where
  "cancelHashSnapshot E sched c w =
     (case cx_Args c of
        [] \<Rightarrow> (Inl (Errorf ''snapshot name is required''), w)
      | snapshotName # _ \<Rightarrow> with_task E c (\<lambda>T w.
          wrap_err (''failed to cancel hashing snapshot '' @ snapshotName) (as_error (HashSnapshotCancel (be_task T) sched snapshotName w))) w)"

definition hashSnapshotStatus ::
  "'w cmd_env \<Rightarrow> ((string \<times> mode) list \<Rightarrow> (string \<times> mode) list) \<Rightarrow> cli_context \<Rightarrow> 'w \<Rightarrow> ((error + (string \<times> SnapshotHashStatusResponse) list) \<times> 'w) option" where
  "hashSnapshotStatus E sched c w =
     (case cx_Args c of
        [] \<Rightarrow> Some (Inl (Errorf ''snapshot name is required''), w)
      | snapshotName # _ \<Rightarrow> (case with_task E c (\<lambda>T w. (Inr T, w)) w of
          (Inl e, w) \<Rightarrow> Some (Inl e, w)
        | (Inr T, w) \<Rightarrow> HashSnapshotStatus (be_task T) sched snapshotName w))"

section \<open>Backups\<close>

definition getReplicaModeMap :: "(string \<times> mode) list \<Rightarrow> (string \<times> mode) list" where
  "getReplicaModeMap replicas = fold (\<lambda>(a, mo) m. AList.update a mo m) replicas []"

text \<open>The search for a replica with the backup: FetchBackupStatus returns no error.\<close>

fun backup_replica :: "'w backup_env \<Rightarrow> string \<Rightarrow> (string \<times> mode) list \<Rightarrow> 'w \<Rightarrow> (error + string) \<times> 'w" where
  "backup_replica T backupID [] w = (Inr [], w)"
| "backup_replica T backupID ((a, mo) # rs) w =
     (if mo \<noteq> RW then backup_replica T backupID rs w
      else case te_NewReplicaClient (be_task T) a [] w of
        (Some e, w) \<Rightarrow> (Inl e, w)
      | (None, w) \<Rightarrow> (case FetchBackupStatus T backupID a w of (_, w) \<Rightarrow> (Inr a, w)))"

definition checkBackupStatus :: "'w cmd_env \<Rightarrow> cli_context \<Rightarrow> 'w \<Rightarrow> (error + backup_status \<times> string) \<times> 'w" where
  "checkBackupStatus E c w =
     (if cx_First c = [] then (Inl (Errorf ''missing required parameter backupID''), w)
      else with_controller E c (\<lambda>w.
        case te_ReplicaList (ce_task E c) w of
          (Inl e, w) \<Rightarrow> (Inl (Wrapped ''failed to get replica list'' e), w)
        | (Inr replicas, w) \<Rightarrow>
            let address = cx_String c ''replica'';
                instanceName = (if address = [] then [] else cx_String c ''replica-instance-name'')
            in case (if address = [] then backup_replica (ce_backup E c) (cx_First c) replicas w else (Inr address, w)) of
                 (Inl e, w) \<Rightarrow> (Inl e, w)
               | (Inr replicaAddress, w) \<Rightarrow>
                   if replicaAddress = [] then (Inl (Errorf (''cannot find a replica which has the corresponding backup '' @ cx_First c)), w)
                   else if map_of (getReplicaModeMap replicas) replicaAddress \<noteq> Some RW
                   then (Inl (Errorf (''failed to get backup status on '' @ replicaAddress @ '' for '' @ cx_First c @ '': unknown replica'')), w)
                   else (case te_NewReplicaClient (ce_task E c) replicaAddress instanceName w of
                       (Some e, w) \<Rightarrow> (Inl e, w)
                     | (None, w) \<Rightarrow> (case FetchBackupStatus (ce_backup E c) (cx_First c) replicaAddress w of (st, w) \<Rightarrow> (Inr st, w)))) w)"

definition createBackup_cmd :: "'w cmd_env \<Rightarrow> cli_context \<Rightarrow> 'w \<Rightarrow> (error + string \<times> bool \<times> string) \<times> 'w" where
  "createBackup_cmd E c w =
     (if cx_String c ''dest'' = [] then (Inl (Errorf ''missing required parameter --dest''), w)
      else if cx_First c = [] then (Inl (Errorf ''missing required parameter snapshot''), w)
      else case parsed_labels c of
        Inl e \<Rightarrow> (Inl e, w)
      | Inr _ \<Rightarrow> (case ce_GetBackupCredential E (cx_String c ''dest'') of
          Inl e \<Rightarrow> (Inl e, w)
        | Inr credential \<Rightarrow> with_task E c (\<lambda>T. CreateBackup_task T
            \<lparr>cbp_BackupName = cx_String c ''backup-name'', cbp_VolumeName = [], cbp_SnapshotName = cx_First c, cbp_DestURL = cx_String c ''dest'',
             cbp_BackingImageName = cx_String c ''backing-image-name'', cbp_BackingImageChecksum = cx_String c ''backing-image-checksum'',
             cbp_CompressionMethod = cx_String c ''compression-method'', cbp_ConcurrentLimit = cx_Int c ''concurrent-limit'',
             cbp_StorageClassName = cx_String c ''storage-class-name'', cbp_Labels = cx_StringSlice c ''label'', cbp_Parameters = []\<rparr>) w))"

text \<open>The credential is that of the argument as it is given, before its ampersands are unescaped.\<close>

definition restoreBackup_cmd ::
  "'w cmd_env \<Rightarrow> (string list \<Rightarrow> string list) \<Rightarrow> ((string \<times> restore_status) list \<Rightarrow> (string \<times> restore_status) list) \<Rightarrow> cli_context \<Rightarrow> 'w \<Rightarrow> (error + unit) \<times> 'w" where
  "restoreBackup_cmd E sched order c = with_task E c (\<lambda>T w.
     if cx_First c = [] then (Inl (Errorf ''missing required parameter backup''), w)
     else case ce_GetBackupCredential E (cx_First c) of
       Inl e \<Rightarrow> (Inl e, w)
     | Inr credential \<Rightarrow> as_error (RestoreBackup_task T sched order (UnescapeURL (cx_First c)) credential (cx_Int c ''concurrent-limit'') w))"

definition restoreStatus :: "'w cmd_env \<Rightarrow> cli_context \<Rightarrow> 'w \<Rightarrow> (error + (string \<times> restore_status) list) \<times> 'w" where
  "restoreStatus E c = with_task E c RestoreStatus_task"

definition doReset :: "'w cmd_env \<Rightarrow> cli_context \<Rightarrow> 'w \<Rightarrow> (error + unit) \<times> 'w" where
  "doReset E c = with_task E c (\<lambda>T w. as_error (Reset_task T w))"

section \<open>The volume\<close>

definition info :: "'w cmd_env \<Rightarrow> cli_context \<Rightarrow> 'w \<Rightarrow> (error + volume_state) \<times> 'w" where
  "info E c = with_controller E c (be_Volume (ce_backup E c))"

definition expand :: "'w cmd_env \<Rightarrow> cli_context \<Rightarrow> 'w \<Rightarrow> (error + unit) \<times> 'w" where
  "expand E c = with_controller E c (\<lambda>w. as_error (ce_VolumeExpand E (cx_Int c ''size'') w))"

definition startFrontend_cmd :: "'w cmd_env \<Rightarrow> cli_context \<Rightarrow> 'w \<Rightarrow> (error + unit) \<times> 'w" where
  "startFrontend_cmd E c w =
     (if cx_First c = [] then (Inl (Errorf ''missing required parameter frontendName''), w)
      else with_controller E c (\<lambda>w. as_error (ce_VolumeFrontendStart E (cx_First c) w)) w)"

definition shutdownFrontend_cmd :: "'w cmd_env \<Rightarrow> cli_context \<Rightarrow> 'w \<Rightarrow> (error + unit) \<times> 'w" where
  "shutdownFrontend_cmd E c = with_controller E c (\<lambda>w. as_error (ce_VolumeFrontendShutdown E w))"

definition unmapMarkSnapChainRemoved_cmd :: "'w cmd_env \<Rightarrow> cli_context \<Rightarrow> 'w \<Rightarrow> (error + unit) \<times> 'w" where
  "unmapMarkSnapChainRemoved_cmd E c w =
     (if cx_Bool c ''enable'' \<and> cx_Bool c ''disable'' then (Inl (Errorf ''cannot enable and disable this option simultaneously''), w)
      else if \<not> cx_Bool c ''enable'' \<and> \<not> cx_Bool c ''disable'' then (Inl (Errorf ''this option is not specified''), w)
      else with_controller E c (\<lambda>w. as_error (ce_VolumeUnmapMarkSnapChainRemovedSet E (cx_Bool c ''enable'') w)) w)"

definition exportVolume :: "'w cmd_env \<Rightarrow> cli_context \<Rightarrow> 'w \<Rightarrow> (error + unit) \<times> 'w" where
  "exportVolume E c w =
     (if cx_String c ''snapshot-name'' = [] then (Inl (Errorf ''missing required parameter: snapshot-name''), w)
      else if cx_String c ''receiver-address'' = [] then (Inl (Errorf ''missing required parameter: receiver-address''), w)
      else if cx_Int c ''receiver-port'' = 0 then (Inl (Errorf ''missing required parameter: receiver-port''), w)
      else with_controller E c (\<lambda>w.
        case be_Volume (ce_backup E c) w of
          (Inl e, w) \<Rightarrow> (Inl e, w)
        | (Inr _, w) \<Rightarrow> (case te_ReplicaList (ce_task E c) w of
            (Inl e, w) \<Rightarrow> (Inl e, w)
          | (Inr replicas, w) \<Rightarrow> (case find (\<lambda>r. snd r = RW) replicas of
              None \<Rightarrow> (Inl (Errorf ''cannot find a RW replica for volume exporting''), w)
            | Some (a, _) \<Rightarrow> with_client (ce_task E c) a [] (\<lambda>w.
                case te_GetReplica (ce_task E c) a w of
                  (Inl e, w) \<Rightarrow> (Inl e, w)
                | (Inr r, w) \<Rightarrow>
                    let diskName = GenerateSnapshotDiskName (cx_String c ''snapshot-name'')
                    in if map_of (ri_Disks r) diskName = None
                       then (Inl (Errorf (''snapshot disk '' @ diskName @ '' not found on replica '' @ a)), w)
                       else as_error (ce_ExportVolume E a (cx_String c ''snapshot-name'') (cx_String c ''receiver-address'')
                              (int32 (cx_Int c ''receiver-port'')) (cx_Bool c ''export-backing-image-if-exist'')
                              (cx_Int c ''file-sync-http-client-timeout'') w)) w))) w)"

section \<open>The profiler\<close>

definition profilerPortBase :: int where "profilerPortBase = 20001"

definition getProfilerClient :: "'w cmd_env \<Rightarrow> cli_context \<Rightarrow> 'w \<Rightarrow> error option \<times> 'w" where
  "getProfilerClient E c = ce_NewProfilerClient E (cx_GlobalString c ''url'') (cx_GlobalString c ''volume-name'') (cx_GlobalString c ''engine-instance-name'')"

definition with_profiler :: "'w cmd_env \<Rightarrow> cli_context \<Rightarrow> ('w \<Rightarrow> (error + 'a) \<times> 'w) \<Rightarrow> 'w \<Rightarrow> (error + 'a) \<times> 'w" where
  "with_profiler E c act w = (case getProfilerClient E c w of (Some e, w) \<Rightarrow> (Inl e, w) | (None, w) \<Rightarrow> act w)"

definition validatePortNumber :: "int \<Rightarrow> error option" where
  "validatePortNumber portNumber =
     (if portNumber > 0 \<and> portNumber < 30000
      then Some (Errorf ''port number should be bigger than 30000. The reserved port number is [10000 - 30000]'') else None)"

definition showProfiler :: "'w cmd_env \<Rightarrow> cli_context \<Rightarrow> 'w \<Rightarrow> (error + string) \<times> 'w" where
  "showProfiler E c = with_profiler E c (\<lambda>w. case ce_ProfilerOP E ''SHOW'' 0 w of
       (Inl e, w) \<Rightarrow> (Inl e, w)
     | (Inr addr, w) \<Rightarrow> (Inr (if addr = [] then ''Profiler is not enabled'' else ''Profiler enabled at Addr: *'' @ addr), w))"

text \<open>The second part of a url without a colon is out of range.\<close>

definition enableProfiler :: "'w cmd_env \<Rightarrow> cli_context \<Rightarrow> 'w \<Rightarrow> ((error + string) \<times> 'w) option" where
  "enableProfiler E c w =
     (let portNumber = int32 (cx_Int c ''port'');
          enable = (\<lambda>port. with_profiler E c (\<lambda>w. case ce_ProfilerOP E ''ENABLE'' port w of
              (Inl e, w) \<Rightarrow> (Inl e, w)
            | (Inr addr, w) \<Rightarrow> (Inr (''Profiler enabled at Addr: *'' @ addr), w)))
      in case validatePortNumber portNumber of
           Some e \<Rightarrow> Some (Inl e, w)
         | None \<Rightarrow>
             if portNumber = 0 then
               (case Split CHR '':'' (cx_GlobalString c ''url'') of
                  _ # p # _ \<Rightarrow> (case Atoi p of
                    (_, Some _) \<Rightarrow> Some (Inl (Errorf ''failed to get grpc server port''), w)
                  | (grpcPort, None) \<Rightarrow> Some (enable (int32 (int32 grpcPort + profilerPortBase)) w))
                | _ \<Rightarrow> None)
             else Some (enable portNumber w))"

definition disableProfiler :: "'w cmd_env \<Rightarrow> cli_context \<Rightarrow> 'w \<Rightarrow> (error + string) \<times> 'w" where
  "disableProfiler E c = with_profiler E c (\<lambda>w. case ce_ProfilerOP E ''DISABLE'' 0 w of
       (Inl e, w) \<Rightarrow> (Inl e, w)
     | (Inr _, w) \<Rightarrow> (Inr ''Profiler is disabled!'', w))"

section \<open>Clients\<close>

lemma with_controller_Inr:
  assumes "with_controller E c act w = (Inr x, w')"
  obtains w1 where "getControllerClient E c w = (None, w1)" "act w1 = (Inr x, w')"
  using assms by (auto simp: with_controller_def split: prod.splits option.splits)

lemma with_task_Inr:
  assumes "with_task E c act w = (Inr x, w')"
  obtains w1 where "getControllerClient E c w = (None, w1)" "act (ce_backup E c) w1 = (Inr x, w')"
  using assms by (auto simp: with_task_def NewTask_def getControllerClient_def ce_backup_def split: prod.splits option.splits)

lemma mode_of_name [simp]: "mode_of (mode_name mo) = Some mo"
  by (cases mo) (simp_all add: mode_of_def mode_name_def)

lemma mode_of_Some: "mode_of s = Some mo \<longleftrightarrow> s = mode_name mo"
  by (cases mo) (auto simp: mode_of_def mode_name_def)

section \<open>Listing the snapshots\<close>

text \<open>Replicas whose chains do not change while they are read.\<close>

definition chains :: "'w task_env \<Rightarrow> (string \<Rightarrow> string list) \<Rightarrow> 'w \<Rightarrow> bool" where
  "chains E ch w = (\<forall>a. getChain E a w = (Inr (ch a), w))"

definition rw_addresses :: "(string \<times> mode) list \<Rightarrow> string list" where
  "rw_addresses rs = map fst (filter (\<lambda>r. snd r = RW) rs)"

lemma rw_addresses_Cons: "rw_addresses ((a, mo) # rs) = (if mo = RW then a # rw_addresses rs else rw_addresses rs)"
  by (simp add: rw_addresses_def)

lemma rw_addresses_Nil [simp]: "rw_addresses [] = []"
  by (simp add: rw_addresses_def)

lemma snapshots_rest:
  "chains E ch w \<Longrightarrow> ls_snapshots_loop E False snapshots rs w = (Inr (filter (\<lambda>s. \<forall>a\<in>set (rw_addresses rs). s \<in> set (ch a)) snapshots), w)"
proof (induction rs arbitrary: snapshots)
  case (Cons r rs)
  then show ?case by (cases r) (auto simp: rw_addresses_Cons chains_def intro: filter_cong)
qed simp

lemma snapshots_first:
  "chains E ch w \<Longrightarrow> ls_snapshots_loop E True [] rs w =
     (Inr (case rw_addresses rs of [] \<Rightarrow> [] | a # as \<Rightarrow> filter (\<lambda>s. \<forall>b\<in>set as. s \<in> set (ch b)) (tl (ch a))), w)"
proof (induction rs)
  case (Cons r rs)
  show ?case
  proof (cases r)
    case (Pair a mo)
    then show ?thesis using Cons snapshots_rest [OF Cons.prems] by (auto simp: rw_addresses_Cons chains_def)
  qed
qed simp

lemma lsSnapshot_run:
  assumes "getControllerClient E c w = (None, w)" "te_ReplicaList (ce_task E c) w = (Inr rs, w)" "chains (ce_task E c) ch w"
  shows "lsSnapshot E c w = (Inr (map (\<lambda>s. TrimSuffix (TrimPrefix s ''volume-snap-'') ''.img'')
     (case rw_addresses rs of [] \<Rightarrow> [] | a # as \<Rightarrow> filter (\<lambda>s. \<forall>b\<in>set as. s \<in> set (ch b)) (tl (ch a)))), w)"
  using assms snapshots_first [OF assms(3)] by (simp add: lsSnapshot_def with_controller_def)

text \<open>The disk names of snapshots lose their prefix and suffix.\<close>

lemma snapshot_id: "TrimSuffix (TrimPrefix (GenerateSnapshotDiskName n) ''volume-snap-'') ''.img'' = n"
proof -
  have "TrimPrefix (GenerateSnapshotDiskName n) ''volume-snap-'' = n @ ''.img''"
    using TrimPrefix_append [of "''volume-snap-''" "n @ ''.img''"] by (simp add: GenerateSnapshotDiskName_def disk_names)
  then show ?thesis using TrimSuffix_append [of n "''.img''"] by simp
qed

section \<open>Removing snapshots\<close>

text \<open>Every snapshot is tried, in the order of the arguments, whatever happens to the others.\<close>

fun delete_all :: "'w task_env \<Rightarrow> string list \<Rightarrow> 'w \<Rightarrow> error option list \<times> 'w" where
  "delete_all E [] w = ([], w)"
| "delete_all E (name # names) w = (let (err, w) = DeleteSnapshot E name w; (errs, w) = delete_all E names w in (err # errs, w))"

definition last_error :: "error option list \<Rightarrow> error option \<Rightarrow> error option" where
  "last_error errs e0 = foldl (\<lambda>e err. case err of None \<Rightarrow> e | Some _ \<Rightarrow> err) e0 errs"

lemma last_error_simps [simp]:
  "last_error [] e0 = e0"
  "last_error (None # errs) e0 = last_error errs e0"
  "last_error (Some e # errs) e0 = last_error errs (Some e)"
  by (simp_all add: last_error_def)

lemma last_error_None: "last_error errs e0 = None \<longleftrightarrow> e0 = None \<and> set errs \<subseteq> {None}"
proof (induction errs arbitrary: e0)
  case (Cons err errs)
  then show ?case by (cases err) auto
qed simp

lemma rm_loop_all: "rm_loop E names e0 w = (let (errs, w') = delete_all E names w in (last_error errs e0, w'))"
proof (induction names arbitrary: e0 w)
  case (Cons name names)
  obtain err w1 where d: "DeleteSnapshot E name w = (err, w1)" by (metis surj_pair)
  obtain errs w2 where r: "delete_all E names w1 = (errs, w2)" by (metis surj_pair)
  show ?case using d r Cons.IH [of _ w1] by (cases err) (simp_all)
qed simp

lemma rmSnapshot_ok:
  assumes "rmSnapshot E c w = (r, w')" "getControllerClient E c w = (None, w1)"
  shows "\<exists>errs. delete_all (ce_task E c) (cx_Args c) w1 = (errs, w') \<and> (r = Inr () \<longleftrightarrow> set errs \<subseteq> {None})"
proof -
  obtain errs w2 where r: "delete_all (ce_task E c) (cx_Args c) w1 = (errs, w2)" by (metis surj_pair)
  show ?thesis using assms r last_error_None [of errs None]
    by (auto simp: rmSnapshot_def with_task_def NewTask_def getControllerClient_def ce_task_def ce_backup_def rm_loop_all as_error_def split: option.splits)
qed

section \<open>Exports and backups\<close>

lemma with_client_Inr:
  assumes "with_client E a i act w = (Inr x, w')"
  obtains w1 where "te_NewReplicaClient E a i w = (None, w1)" "act w1 = (Inr x, w')"
  using assms by (auto simp: with_client_def split: prod.splits option.splits)

text \<open>A volume is exported from the first replica in mode RW, which has the snapshot.\<close>

lemma exportVolume_from_RW:
  assumes "exportVolume E c w = (Inr (), w')"
  shows "\<exists>a rs wa wb wc wd r. te_ReplicaList (ce_task E c) wa = (Inr rs, wb) \<and> find (\<lambda>r. snd r = RW) rs = Some (a, RW) \<and>
    te_GetReplica (ce_task E c) a wc = (Inr r, wd) \<and> map_of (ri_Disks r) (GenerateSnapshotDiskName (cx_String c ''snapshot-name'')) \<noteq> None \<and>
    ce_ExportVolume E a (cx_String c ''snapshot-name'') (cx_String c ''receiver-address'') (int32 (cx_Int c ''receiver-port''))
      (cx_Bool c ''export-backing-image-if-exist'') (cx_Int c ''file-sync-http-client-timeout'') wd = (None, w')"
proof -
  obtain w1 v w2 where v: "be_Volume (ce_backup E c) w1 = (Inr v, w2)" and rest: "(case te_ReplicaList (ce_task E c) w2 of
            (Inl e, w) \<Rightarrow> (Inl e, w)
          | (Inr replicas, w) \<Rightarrow> (case find (\<lambda>r. snd r = RW) replicas of
              None \<Rightarrow> (Inl (Errorf ''cannot find a RW replica for volume exporting''), w)
            | Some (a, _) \<Rightarrow> with_client (ce_task E c) a [] (\<lambda>w.
                case te_GetReplica (ce_task E c) a w of
                  (Inl e, w) \<Rightarrow> (Inl e, w)
                | (Inr r, w) \<Rightarrow>
                    let diskName = GenerateSnapshotDiskName (cx_String c ''snapshot-name'')
                    in if map_of (ri_Disks r) diskName = None
                       then (Inl (Errorf (''snapshot disk '' @ diskName @ '' not found on replica '' @ a)), w)
                       else as_error (ce_ExportVolume E a (cx_String c ''snapshot-name'') (cx_String c ''receiver-address'')
                              (int32 (cx_Int c ''receiver-port'')) (cx_Bool c ''export-backing-image-if-exist'')
                              (cx_Int c ''file-sync-http-client-timeout'') w)) w)) = (Inr (), w')"
    using assms by (auto simp: exportVolume_def elim!: with_controller_Inr split: if_splits prod.splits sum.splits)
  obtain rs w3 where l: "te_ReplicaList (ce_task E c) w2 = (Inr rs, w3)" using rest by (auto split: prod.splits sum.splits)
  obtain a mo where f: "find (\<lambda>r. snd r = RW) rs = Some (a, mo)" using rest l by (auto split: option.splits)
  then have mo: "mo = RW" by (auto simp: find_Some_iff) (metis snd_conv)
  show ?thesis using rest l f mo
    by (auto simp: as_error_def Let_def elim!: with_client_Inr split: prod.splits sum.splits if_splits option.splits) blast
qed

text \<open>The replica that is asked for a backup is the first in mode RW, whether or not it has the backup.\<close>

lemma backup_replica_first:
  "(\<And>a w. te_NewReplicaClient (be_task T) a [] w = (None, w)) \<Longrightarrow>
     fst (backup_replica T backupID rs w) = Inr (case rw_addresses rs of [] \<Rightarrow> [] | a # _ \<Rightarrow> a)"
  by (induction rs arbitrary: w) (auto simp: rw_addresses_Cons split: prod.splits)

section \<open>The listing of a volume\<close>

text \<open>
  What lsSnapshot lists.  When the replicas can be asked and their chains do not change meanwhile, the listing consists of the snapshots of the first replica in mode
  RW, in the order of its chain, that are in the chains of all other replicas in mode RW; replicas in other modes have no say, and nothing changes.
\<close>

lemma lsSnapshot_common:
  assumes "getControllerClient E c w = (None, w)" "te_ReplicaList (ce_task E c) w = (Inr rs, w)" "chains (ce_task E c) ch w"
    and "rw_addresses rs = a # as" "ch a = head # map GenerateSnapshotDiskName names"
  shows "lsSnapshot E c w = (Inr (filter (\<lambda>n. \<forall>b\<in>set as. GenerateSnapshotDiskName n \<in> set (ch b)) names), w)"
  using lsSnapshot_run [OF assms(1-3)] assms(4,5) by (simp add: filter_map snapshot_id comp_def)

definition ex_chain :: "string \<Rightarrow> string list" where
  "ex_chain a = (if a = ''r1'' then [''volume-head-002.img'', ''volume-snap-b.img'', ''volume-snap-a.img''] else [''volume-head-001.img'', ''volume-snap-a.img''])"

definition ex_cmd :: "nat cmd_env" where
  "ex_cmd = \<lparr>ce_NewControllerClient = (\<lambda>_ _ _ w. (None, w)),
     ce_volume = (\<lambda>_ _ _. ex_restore\<lparr>be_task := ex_task\<lparr>te_ReplicaList := (\<lambda>w. (Inr [(''r0'', WO), (''r1'', RW), (''r2'', RW)], w)),
       te_GetReplica := (\<lambda>a w. (Inr ((demo_info a)\<lparr>ri_Chain := ex_chain a\<rparr>), w))\<rparr>\<rparr>),
     ce_VolumeSnapshot = (\<lambda>name _ _ w. (Inr name, w)), ce_VolumeRevert = (\<lambda>_ w. (None, w)), ce_VolumeExpand = (\<lambda>_ w. (None, w)),
     ce_VolumeFrontendStart = (\<lambda>_ w. (None, w)), ce_VolumeFrontendShutdown = (\<lambda>w. (None, w)), ce_VolumeUnmapMarkSnapChainRemovedSet = (\<lambda>_ w. (None, w)),
     ce_ReplicaDelete = (\<lambda>_ w. (None, w)), ce_ReplicaUpdate = (\<lambda>a mo w. (Inr (a, mo), w)), ce_ExportVolume = (\<lambda>_ _ _ _ _ _ w. (None, w)),
     ce_NewProfilerClient = (\<lambda>_ _ _ w. (None, w)), ce_ProfilerOP = (\<lambda>_ _ w. (Inr [], w)),
     ce_RAMInBytes = (\<lambda>_. Inr 8), ce_GetBackupCredential = (\<lambda>_. Inr [])\<rparr>"

definition ex_context :: "string list \<Rightarrow> cli_context" where
  "ex_context args = \<lparr>cx_Args = args, cx_String = (\<lambda>_. []), cx_Bool = (\<lambda>_. False), cx_Int = (\<lambda>_. 0), cx_StringSlice = (\<lambda>_. None), cx_GlobalString = (\<lambda>_. [])\<rparr>"

lemma ex_cmd_facts: "getControllerClient ex_cmd c w = (None, w)"
  "te_ReplicaList (ce_task ex_cmd c) w = (Inr [(''r0'', WO), (''r1'', RW), (''r2'', RW)], w)" "chains (ce_task ex_cmd c) ex_chain w"
  by (simp_all add: getControllerClient_def ce_task_def ce_backup_def ex_cmd_def ex_restore_def ex_task_def chains_def getChain_def with_client_def)

lemma lsSnapshot_example: "lsSnapshot ex_cmd (ex_context []) 0 = (Inr [''a''], 0)"
  using lsSnapshot_common [OF ex_cmd_facts, of "''r1''" "[''r2'']" "''volume-head-002.img''" "[''b'', ''a'']" "ex_context []" 0]
  by (simp add: rw_addresses_def ex_chain_def GenerateSnapshotDiskName_def disk_names)

end
