(* ===== verification/Engine_Start.thy ===== *)
theory Engine_Start
  imports Commands Backends Controller_Step Replica_Server Sync_Agent
begin

text \<open>
  The processes of the engine (src/app/cmd: controller.go, replica.go, sync_agent.go, shutdown.go): how the arguments of the commands become a controller, the
  server of a replica and a sync agent, up to the point where they listen, and what a signal does.  None is a panic.
\<close>

section \<open>Signals\<close>

text \<open>addShutdown keeps the hooks in order; the handler of a signal runs them all and ends the process.\<close>

definition addShutdown :: "'a list \<Rightarrow> 'a \<Rightarrow> 'a list" where
  "addShutdown hooks f = hooks @ [f]"

fun run_hooks :: "('w \<Rightarrow> (error option \<times> 'w) option) list \<Rightarrow> int \<Rightarrow> 'w \<Rightarrow> (int \<times> 'w) option" where
  "run_hooks [] exitCode w = Some (exitCode, w)"
| "run_hooks (hook # hooks) exitCode w = do {
     (err, w) \<leftarrow> hook w;
     run_hooks hooks (if err \<noteq> None then 1 else exitCode) w
   }"

definition registerShutdown :: "('w \<Rightarrow> (error option \<times> 'w) option) list \<Rightarrow> 'w \<Rightarrow> (int \<times> 'w) option" where
  "registerShutdown hooks w = run_hooks hooks 0 w"

section \<open>The controller\<close>

text \<open>What a command that starts a process comes to: an error that it returns, the end of the process, or a running service.\<close>

datatype 'a outcome = Failed error | Exited int | Serving 'a

text \<open>
  What the controller is built on: the calls of theory Controller, whose factory of backends the command replaces, the two factories of backends, the directory of
  the devices, and units.RAMInBytes.
\<close>

record ('b, 'f, 'w) engine_env =
  en_ctl :: "('b, 'f, 'w) ctl_env"
  en_file :: "string \<Rightarrow> 'w \<Rightarrow> (error + 'b) \<times> 'w"
  en_remote :: "string \<Rightarrow> 'w \<Rightarrow> (error + 'b) \<times> 'w"
  en_DevPath :: string
  en_RAMInBytes :: "string \<Rightarrow> error + int"

text \<open>The timeouts for a replica and for the last replica, and the one of the frontend's requests.\<close>

definition engine_timeouts :: "int \<Rightarrow> int \<times> int \<times> int" where
  "engine_timeouts timeout =
     (let short = DetermineEngineReplicaTimeout (int64 (timeout * second));
          long = int64 (2 * short)
      in (short, long, DetermineIscsiTargetRequestTimeout long))"

definition engine_sizes :: "(string \<Rightarrow> error + int) \<Rightarrow> cli_context \<Rightarrow> error + int \<times> int" where
  "engine_sizes units c =
     (if cx_String c ''size'' = [] then Inl (Errorf ''size is required'')
      else case units (cx_String c ''size'') of
        Inl e \<Rightarrow> Inl e
      | Inr volumeSize \<Rightarrow>
          if cx_String c ''current-size'' = [] then Inl (Errorf ''current-size is required'')
          else (case units (cx_String c ''current-size'') of Inl e \<Rightarrow> Inl e | Inr volumeCurrentSize \<Rightarrow> Inr (volumeSize, volumeCurrentSize)))"

definition max_size :: "(string \<Rightarrow> error + int) \<Rightarrow> cli_context \<Rightarrow> error + int" where
  "max_size units c = (if cx_String c ''snapshot-max-size'' = [] then Inr 0 else units (cx_String c ''snapshot-max-size''))"

text \<open>The factories of the backends by name; None ends the process, at a name that is not known.\<close>

fun factories :: "('b, 'f, 'w) engine_env \<Rightarrow> string list \<Rightarrow> (string \<times> (string \<Rightarrow> 'w \<Rightarrow> (error + 'b) \<times> 'w)) list
    \<Rightarrow> (string \<times> (string \<Rightarrow> 'w \<Rightarrow> (error + 'b) \<times> 'w)) list option" where
  "factories E [] m = Some m"
| "factories E (b # bs) m =
     (if b = ''file'' then factories E bs (AList.update b (en_file E) m)
      else if b = ''tcp'' then factories E bs (AList.update b (en_remote E) m)
      else None)"

definition engine_frontend :: "('b, 'f, 'w) engine_env \<Rightarrow> string \<Rightarrow> int \<Rightarrow> error + 'f option" where
  "engine_frontend E frontendName timeout =
     (if frontendName = [] then Inr None
      else case NewFrontend (en_ctl E) frontendName timeout of
        Inl e \<Rightarrow> Inl (Wrapped (''failed to find frontend: '' @ frontendName) e)
      | Inr f \<Rightarrow> Inr (Some f))"

definition StartGRPCServer :: "string \<Rightarrow> error option" where
  "StartGRPCServer address =
     (case GetPortFromAddress address of
        Inl e \<Rightarrow> Some e
      | Inr port \<Rightarrow> if address = [] \<or> port = 0 then Some (Errorf ''cannot find grpc address or port'') else None)"

definition ENODATA :: int where "ENODATA = 61"

definition exit_code :: "error \<Rightarrow> int" where
  "exit_code err = (if Contains (Error_msg err) ''no available backend due to replica error'' then ENODATA else 1)"

text \<open>The controller of the arguments, and its environment.\<close>

definition engine_new :: "('b, 'f, 'w) engine_env \<Rightarrow> cli_context \<Rightarrow> (error + ('b, 'f, 'w) ctl_env \<times> ('b, 'f) controller \<times> int \<times> int) option" where
  "engine_new E c =
     (case cx_Args c of
        [] \<Rightarrow> Some (Inl (Errorf ''volume name is required''))
      | volumeName # _ \<Rightarrow>
          if \<not> ValidVolumeName volumeName then Some (Inl (Errorf ''invalid target name''))
          else case engine_sizes (en_RAMInBytes E) c of
            Inl e \<Rightarrow> Some (Inl e)
          | Inr (volumeSize, volumeCurrentSize) \<Rightarrow> (case max_size (en_RAMInBytes E) c of
              Inl e \<Rightarrow> Some (Inl e)
            | Inr maxSize \<Rightarrow>
                (case factories E (case cx_StringSlice c ''enable-backend'' of None \<Rightarrow> [] | Some bs \<Rightarrow> bs) [] of
                   None \<Rightarrow> None
                 | Some fs \<Rightarrow> (case engine_timeouts (cx_Int c ''engine-replica-timeout'') of
                     (short, long, iscsi) \<Rightarrow> (case engine_frontend E (cx_String c ''frontend'') iscsi of
                       Inl e \<Rightarrow> Some (Inl e)
                     | Inr frontend \<Rightarrow> Some (Inr ((en_ctl E)\<lparr>factory_Create := dynamic_Create fs\<rparr>,
                         NewController volumeName frontend (cx_Bool c ''upgrade'') (cx_Bool c ''disableRevCounter'') (cx_Bool c ''salvageRequested'')
                           (cx_Bool c ''unmap-mark-snap-chain-removed'') iscsi (cx_Int c ''snapshot-max-count'') maxSize,
                         volumeSize, volumeCurrentSize)))))))"

text \<open>
  The command: a file system that a crash left frozen is thawed before the replicas are started; a failed start ends the process.  The result is the running
  controller and the error of its gRPC server, which is only logged.
\<close>

definition startController ::
  "('b, 'f, 'w) engine_env \<Rightarrow> cli_context \<Rightarrow> 'w \<Rightarrow> ((('b, 'f) controller \<times> error option) outcome \<times> 'w) option" where
  "startController E c w =
     (case engine_new E c of
        None \<Rightarrow> Some (Exited 1, w)
      | Some (Inl e) \<Rightarrow> Some (Failed e, w)
      | Some (Inr (C, control, volumeSize, volumeCurrentSize)) \<Rightarrow>
          let w = snd (UnfreezeFilesystemForDevice (host C) (GetDevicePathFromVolumeName (en_DevPath E) (VolumeName control)) w);
              grpc = StartGRPCServer (GetGRPCAddress (cx_String c ''listen''));
              replicas = (case cx_StringSlice c ''replica'' of None \<Rightarrow> [] | Some rs \<Rightarrow> rs)
          in if replicas = [] then Some (Serving (control, grpc), w)
             else do {
               (err, control, w) \<leftarrow> ctl_Start C control volumeSize volumeCurrentSize replicas w;
               (case err of Some e \<Rightarrow> Some (Exited (exit_code e), w) | None \<Rightarrow> Some (Serving (control, grpc), w))
             })"

text \<open>The hook of the controller, on its state when the signal comes.\<close>

definition shutdown_hook :: "('b, 'f, 'w) ctl_env \<Rightarrow> ('b, 'f) controller \<Rightarrow> 'w \<Rightarrow> (error option \<times> 'w) option" where
  "shutdown_hook C control w = map_option (\<lambda>(err, _, w). (err, w)) (Shutdown C control w)"

section \<open>The replica\<close>

record ('h, 's) replica_env =
  rn_fs :: "('h, 's) fs_env"
  rn_image :: "('h, 's fsys) image_env"
  rn_RAMInBytes :: "string \<Rightarrow> error + int"
  rn_exe :: "error + string"

record 'h replica_process =
  rp_server :: "'h server"
  rp_control :: string
  rp_data :: string
  rp_agent :: "string list option"

definition protocol_of :: "string \<Rightarrow> DataServerProtocol" where
  "protocol_of s = (if s = ''tcp'' then TCP else if s = ''unix'' then UNIX else OtherProtocol s)"

text \<open>The arguments of the sync agent; its ports follow its own.\<close>

definition agent_range :: "int \<Rightarrow> int \<Rightarrow> string" where
  "agent_range syncPort cnt = showInt (int64 (syncPort + 1)) @ ''-'' @ showInt (int64 (syncPort + cnt))"

definition agent_args :: "string \<Rightarrow> string \<Rightarrow> string \<Rightarrow> int \<Rightarrow> int \<Rightarrow> string \<Rightarrow> string list" where
  "agent_args volumeName syncAddress controlAddress syncPort cnt instanceName =
     [''--volume-name'', volumeName, ''sync-agent'', ''--listen'', syncAddress, ''--replica'', controlAddress,
      ''--listen-port-range'', agent_range syncPort cnt, ''--replica-instance-name'', instanceName]"

definition create_sized :: "('h, 's) replica_env \<Rightarrow> cli_context \<Rightarrow> 'h server \<Rightarrow> 's fsys \<Rightarrow> (error option \<times> 's fsys) option" where
  "create_sized E c s fs =
     (if cx_String c ''size'' = [] then Some (None, fs)
      else case rn_RAMInBytes E (cx_String c ''size'') of Inl e \<Rightarrow> Some (Some e, fs) | Inr sz \<Rightarrow> srv_Create (rn_fs E) s sz fs)"

definition listen_replica :: "('h, 's) replica_env \<Rightarrow> cli_context \<Rightarrow> 'h server \<Rightarrow> 'h replica_process outcome" where
  "listen_replica E c s =
     (case GetAddresses (cx_GlobalString c ''volume-name'') (cx_String c ''listen'') (protocol_of (cx_String c ''data-server-protocol'')) of
        Inl e \<Rightarrow> Failed e
      | Inr (controlAddress, dataAddress, syncAddress, syncPort) \<Rightarrow>
          let p = (\<lambda>agent. Serving \<lparr>rp_server = s, rp_control = controlAddress, rp_data = dataAddress, rp_agent = agent\<rparr>)
          in if \<not> cx_Bool c ''sync-agent'' then p None
             else case rn_exe E of
               Inl e \<Rightarrow> Failed e
             | Inr exe \<Rightarrow> p (Some (exe # agent_args (cx_GlobalString c ''volume-name'') syncAddress controlAddress syncPort (cx_Int c ''sync-agent-port-count'')
                              (cx_String c ''replica-instance-name''))))"

definition startReplica :: "('h, 's) replica_env \<Rightarrow> cli_context \<Rightarrow> 's fsys \<Rightarrow> ('h replica_process outcome \<times> 's fsys) option" where
  "startReplica E c fs =
     (if length (cx_Args c) \<noteq> 1 then Some (Failed (Errorf ''directory name is required''), fs)
      else case OpenBackingFile (rn_image E) (cx_String c ''backing-file'') fs of
        Inl e \<Rightarrow> Some (Failed e, fs)
      | Inr backing \<Rightarrow> (case max_size (rn_RAMInBytes E) c of
          Inl e \<Rightarrow> Some (Failed e, fs)
        | Inr maxSize \<Rightarrow>
            let s = NewServer (cx_First c) (map_option (\<lambda>b. (bf_Path b, bf_Disk b, bf_SectorSize b)) backing) ReplicaSectorSize (cx_Bool c ''disableRevCounter'')
                      (cx_Bool c ''unmap-mark-disk-chain-removed'') (cx_Int c ''snapshot-max-count'') maxSize
            in do {
              (err, fs) \<leftarrow> create_sized E c s fs;
              (case err of Some e \<Rightarrow> Some (Failed e, fs) | None \<Rightarrow> Some (listen_replica E c s, fs))
            }))"

section \<open>The sync agent\<close>

text \<open>\<open>listen\<close> is net.Listen.\<close>

definition startSyncAgent :: "(string \<Rightarrow> error option) \<Rightarrow> cli_context \<Rightarrow> error + agent" where
  "startSyncAgent listen c =
     (case Split CHR ''-'' (cx_String c ''listen-port-range'') of
        [p0, p1] \<Rightarrow> (case Atoi (TrimSpace p0) of
            (_, Some e) \<Rightarrow> Inl e
          | (start, None) \<Rightarrow> (case Atoi (TrimSpace p1) of
              (_, Some e) \<Rightarrow> Inl e
            | (end', None) \<Rightarrow> (case listen (cx_String c ''listen'') of
                Some e \<Rightarrow> Inl (Wrapped ''failed to listen'' e)
              | None \<Rightarrow> Inr (NewSyncAgentServer start end' (cx_String c ''replica'') (cx_GlobalString c ''volume-name'') (cx_String c ''replica-instance-name'')))))
      | _ \<Rightarrow> Inl (Errorf (''invalid format for range: '' @ cx_String c ''listen-port-range'')))"

end
