(* ===== verification/Engine_Thms.thy ===== *)
theory Engine_Thms
  imports Engine_Start Controller_Thms Server_Thms
begin

text \<open>
  What the commands that start the processes of the engine promise: a controller that serves satisfies its invariant and has timeouts in order, a sync agent gets
  the ports that follow those of its replica, and a signal runs every hook.
\<close>

section \<open>Timeouts\<close>

lemma engine_timeouts_bounds:
  assumes "engine_timeouts timeout = (short, long, iscsi)"
  shows "8 * second \<le> short" "short \<le> 30 * second" "long = 2 * short" "iscsi = long + 7 * second"
proof -
  have s: "8 * second \<le> short" "short \<le> 30 * second" and l: "long = int64 (2 * short)" and i: "iscsi = int64 (long + 7 * second)"
    using assms by (auto simp: engine_timeouts_def DetermineEngineReplicaTimeout_def DetermineIscsiTargetRequestTimeout_def Let_def second_def split: if_splits)
  then show "8 * second \<le> short" "short \<le> 30 * second" by simp_all
  show 2: "long = 2 * short" using s l by (simp add: second_def minInt64_def maxInt64_def)
  show "iscsi = long + 7 * second" using s 2 i by (simp add: second_def minInt64_def maxInt64_def)
qed

section \<open>The controller\<close>

lemma engine_new_controller:
  assumes "engine_new E c = Some (Inr (C, control, vs, vcs))"
  shows "\<exists>volumeName rest frontend u d s mk short long iscsi mc ms. cx_Args c = volumeName # rest \<and> ValidVolumeName volumeName \<and>
    engine_timeouts (cx_Int c ''engine-replica-timeout'') = (short, long, iscsi) \<and> control = NewController volumeName frontend u d s mk iscsi mc ms"
proof -
  obtain short long iscsi where t: "engine_timeouts (cx_Int c ''engine-replica-timeout'') = (short, long, iscsi)" by (metis prod_cases3)
  show ?thesis using assms t by (fastforce simp: engine_new_def split: list.splits if_splits sum.splits option.splits prod.splits)
qed

lemma startController_run:
  assumes "engine_new E c = Some (Inr (C, control, vs, vcs))"
  shows "\<exists>out w'. startController E c w = Some (out, w') \<and>
    (\<forall>control' g. out = Serving (control', g) \<longrightarrow> (\<exists>w1. control' = control \<and> w' = w1 \<or> (\<exists>as. ctl_Start C control vs vcs as w1 = Some (None, control', w'))))"
proof -
  let ?w = "snd (UnfreezeFilesystemForDevice (host C) (GetDevicePathFromVolumeName (en_DevPath E) (VolumeName control)) w)"
  let ?as = "case cx_StringSlice c ''replica'' of None \<Rightarrow> [] | Some rs \<Rightarrow> rs"
  have inv: "ctl_inv control" using engine_new_controller [OF assms] by auto
  obtain err c1 w1 where s: "ctl_Start C control vs vcs ?as ?w = Some (err, c1, w1)" using ctl_Start_inv [OF inv] by metis
  show ?thesis
  proof (cases "?as = []")
    case True
    then show ?thesis using assms by (auto simp: startController_def Let_def)
  next
    case False
    then show ?thesis using assms s by (cases err) (auto simp: startController_def Let_def)
  qed
qed

section \<open>Signals\<close>

text \<open>All hooks run, in order; the process ends with 0 exactly when none of them failed.\<close>

fun hook_errors :: "('w \<Rightarrow> (error option \<times> 'w) option) list \<Rightarrow> 'w \<Rightarrow> (error option list \<times> 'w) option" where
  "hook_errors [] w = Some ([], w)"
| "hook_errors (hook # hooks) w = do { (err, w) \<leftarrow> hook w; (errs, w) \<leftarrow> hook_errors hooks w; Some (err # errs, w) }"

lemma run_hooks_errors:
  "run_hooks hooks code w = map_option (\<lambda>(errs, w'). (if set errs \<subseteq> {None} then code else 1, w')) (hook_errors hooks w)"
proof (induction hooks arbitrary: code w)
  case (Cons hook hooks)
  show ?case
  proof (cases "hook w")
    case (Some r)
    obtain err w1 where r: "r = (err, w1)" by (cases r)
    show ?thesis using Some r Cons.IH [of _ w1] by (cases "hook_errors hooks w1") (auto split: if_splits)
  qed simp
qed simp

lemma registerShutdown_exit:
  "registerShutdown hooks w = Some (code, w') \<Longrightarrow> \<exists>errs. hook_errors hooks w = Some (errs, w') \<and> (code = 0 \<longleftrightarrow> set errs \<subseteq> {None})"
  by (auto simp: registerShutdown_def run_hooks_errors split: if_splits)

lemma addShutdown_runs: "hook_errors hooks w = Some (errs, w1) \<Longrightarrow> hook w1 = Some (err, w2) \<Longrightarrow> hook_errors (addShutdown hooks hook) w = Some (errs @ [err], w2)"
  unfolding addShutdown_def
proof (induction hooks arbitrary: w errs)
  case (Cons h hooks)
  obtain e w3 where h: "h w = Some (e, w3)" using Cons.prems(1) by (cases "h w") auto
  obtain es w4 where "hook_errors hooks w3 = Some (es, w4)" "errs = e # es" "w4 = w1" using Cons.prems(1) h by (cases "hook_errors hooks w3") auto
  then show ?case using Cons.IH [of w3 es] Cons.prems(2) h by simp
qed simp

section \<open>The ports of the sync agent\<close>

lemma Split_append: "c \<notin> set a \<Longrightarrow> c \<notin> set b \<Longrightarrow> Split c (a @ c # b) = [a, b]"
proof (induction a)
  case Nil
  have "Split c b = [b]" using Nil(2) by (induction b) auto
  then show ?case by simp
qed auto

lemma digits_trim:
  assumes "0 \<le> i"
  shows "TrimSpace (showInt i) = showInt i" "CHR ''-'' \<notin> set (showInt i)"
proof -
  have d: "isDigit c" if "c \<in> set (showInt i)" for c
    using that showNat_digits [of "nat i"] assms by (simp add: showInt_def list_all_iff)
  then have n: "\<not> is_space c" if "c \<in> set (showInt i)" for c using that by (auto simp: isDigit_def is_space_def dest!: d)
  have "dropWhile is_space s = s" if "\<forall>c\<in>set s. \<not> is_space c" for s :: string using that by (cases s) auto
  from this [of "showInt i"] this [of "rev (showInt i)"] show "TrimSpace (showInt i) = showInt i" using n by (simp add: TrimSpace_def)
  show "CHR ''-'' \<notin> set (showInt i)" using d by (auto simp: isDigit_def dest!: d)
qed

lemma Atoi_showInt: "minInt64 \<le> i \<Longrightarrow> i \<le> maxInt64 \<Longrightarrow> Atoi (showInt i) = (i, None)"
  by (rule ParseInt_Atoi [OF ParseInt_showInt])

lemma startSyncAgent_range:
  assumes "0 \<le> a" "a \<le> maxInt64" "0 \<le> b" "b \<le> maxInt64" "cx_String c ''listen-port-range'' = showInt a @ ''-'' @ showInt b"
    and "listen (cx_String c ''listen'') = None"
  shows "startSyncAgent listen c =
    Inr (NewSyncAgentServer a b (cx_String c ''replica'') (cx_GlobalString c ''volume-name'') (cx_String c ''replica-instance-name''))"
proof -
  have "Split CHR ''-'' (showInt a @ ''-'' @ showInt b) = [showInt a, showInt b]"
    using Split_append [OF digits_trim(2) [OF assms(1)] digits_trim(2) [OF assms(3)]] by simp
  then show ?thesis using assms(2,4-6) digits_trim(1) [OF assms(1)] digits_trim(1) [OF assms(3)] Atoi_showInt [of a] Atoi_showInt [of b] assms(1,3)
    by (simp add: startSyncAgent_def minInt64_def)
qed


lemma shutdown_hook_total: "ctl_inv control \<Longrightarrow> \<exists>err w'. shutdown_hook C control w = Some (err, w')"
  using shutdownBackend_inv [of control "bops C" "snd (shutdownFrontend C control w)"]
  by (auto simp: shutdown_hook_def Shutdown_def split: prod.splits)

section \<open>Properties\<close>

text \<open>No arguments make the command panic.\<close>

lemma startController_total: "\<exists>out w'. startController E c w = Some (out, w')"
proof (cases "engine_new E c")
  case (Some r)
  then show ?thesis
  proof (cases r)
    case (Inr x)
    obtain C control vs vcs where "x = (C, control, vs, vcs)" by (cases x)
    then show ?thesis using startController_run [of E c C control vs vcs w] Some Inr by auto
  qed (simp add: startController_def)
qed (simp add: startController_def)


text \<open>A controller of the volume vol with one replica.\<close>

definition ex_engine :: "(string, unit, demo_world) engine_env" where
  "ex_engine = \<lparr>en_ctl = demo_env 2 no_faults, en_file = (\<lambda>a w. (Inl (Errorf []), w)), en_remote = (\<lambda>a w. (Inr a, w)), en_DevPath = ''/dev'', en_RAMInBytes = (\<lambda>_. Inr 8)\<rparr>"

definition ex_flags :: cli_context where
  "ex_flags = (ex_context [''vol''])\<lparr>cx_String := (\<lambda>n. if n = ''listen'' then ''localhost:9501'' else if n = ''size'' \<or> n = ''current-size'' then ''8'' else []),
     cx_StringSlice := (\<lambda>n. if n = ''enable-backend'' then Some [''tcp''] else if n = ''replica'' then Some [''tcp://a''] else None)\<rparr>"

lemma ex_engine_serves:
  "map_option (\<lambda>(out, _). case out of Serving (control, g) \<Rightarrow> Some (c_replicas control, g) | _ \<Rightarrow> None) (startController ex_engine ex_flags demo_world) =
     Some (Some ([(''tcp://a'', RW)], None))"
  by code_simp

lemma ex_engine_started:
  "\<exists>control w'. startController ex_engine ex_flags demo_world = Some (Serving (control, None), w') \<and> c_replicas control = [(''tcp://a'', RW)]"
proof -
  obtain out w' where s: "startController ex_engine ex_flags demo_world = Some (out, w')" using startController_total [of ex_engine ex_flags demo_world] by blast
  show ?thesis using ex_engine_serves s by (cases out) auto
qed


lemma startReplica_agent:
  assumes "startReplica E c fs = Some (Serving proc, fs')" "rp_agent proc = Some args" "plain h"
    "cx_String c ''listen'' = JoinHostPort h (showInt p)" "0 \<le> p" "p \<le> 65533"
  shows "\<exists>exe. args = exe # agent_args (cx_GlobalString c ''volume-name'') (JoinHostPort h (showInt (p + 2))) (JoinHostPort h (showInt p)) (p + 2)
    (cx_Int c ''sync-agent-port-count'') (cx_String c ''replica-instance-name'') \<and> rp_control proc = JoinHostPort h (showInt p)"
proof -
  obtain s where l: "listen_replica E c s = Serving proc"
    using assms(1) by (auto simp: startReplica_def Let_def bind_eq_Some_conv split: if_splits sum.splits option.splits prod.splits)
  then show ?thesis using assms(2) ParseAddresses_ports [OF assms(3,5,6)]
    by (auto simp: listen_replica_def GetAddresses_def assms(4) Let_def protocol_of_def split: sum.splits if_splits)
qed

text \<open>
  C40: a replica hands its sync agent the ports after its own.  When the replica listens on port p and gives its agent n ports, the agent that is started with the
  arguments of the replica accepts its range, which are the n ports from p + 3 on: none of them is a port of the services of the replica, its data or its agent.
\<close>

theorem agent_ports_handed_over:
  assumes "startReplica E c fs = Some (Serving proc, fs')" "rp_agent proc = Some args" "plain h"
    and "cx_String c ''listen'' = JoinHostPort h (showInt p)" "0 \<le> p" "1 \<le> n" "p + 2 + n \<le> 65535" "cx_Int c ''sync-agent-port-count'' = n"
    and "cx_String c' ''listen-port-range'' = args ! 9" "cx_String c' ''replica'' = args ! 7" "listen (cx_String c' ''listen'') = None"
  shows "\<exists>agent. startSyncAgent listen c' = Inr agent \<and> sa_startPort agent = p + 3 \<and> sa_endPort agent = p + 2 + n \<and>
    sa_replicaAddress agent = JoinHostPort h (showInt p) \<and> rp_control proc = JoinHostPort h (showInt p)"
proof -
  have p: "p \<le> 65533" using assms(6,7) by simp
  obtain exe where a: "args = exe # agent_args (cx_GlobalString c ''volume-name'') (JoinHostPort h (showInt (p + 2))) (JoinHostPort h (showInt p)) (p + 2)
      n (cx_String c ''replica-instance-name'')" "rp_control proc = JoinHostPort h (showInt p)"
    using startReplica_agent [OF assms(1-5) p] assms(8) by auto
  have "args ! 9 = showInt (p + 3) @ ''-'' @ showInt (p + 2 + n)" "args ! 7 = JoinHostPort h (showInt p)"
    using assms(5-7) by (simp_all add: a agent_args_def agent_range_def minInt64_def maxInt64_def eval_nat_numeral add.assoc)
  then show ?thesis using startSyncAgent_range [of "p + 3" "p + 2 + n" c' listen] assms(5-7,9-11) a(2) by (simp add: NewSyncAgentServer_def maxInt64_def)
qed

definition ex_replica_start :: "(string, sstore) replica_env" where
  "ex_replica_start = \<lparr>rn_fs = mem_env 2 (\<lambda>_. None),
     rn_image = \<lparr>ie_Open = (\<lambda>_ _. None), ie_IsDir = (\<lambda>_ _. Inr False), ie_Readdir = (\<lambda>_ _. Inr []), ie_qemu_img = (\<lambda>_ _. Inr []),
       ie_qcow = (\<lambda>p _. Inr p), ie_direct = (\<lambda>p _. Inr p), ie_Size = (\<lambda>_ _. Inr 0)\<rparr>,
     rn_RAMInBytes = (\<lambda>_. Inr 8), rn_exe = Inr ''longhorn''\<rparr>"

definition ex_replica_flags :: cli_context where
  "ex_replica_flags = (ex_context [''dir''])\<lparr>cx_String := (\<lambda>n. if n = ''listen'' then ''localhost:2'' else if n = ''data-server-protocol'' then ''tcp'' else []),
     cx_Bool := (\<lambda>n. n = ''sync-agent''), cx_Int := (\<lambda>_. 3)\<rparr>"

definition ex_agent_flags :: cli_context where
  "ex_agent_flags = (ex_context [])\<lparr>cx_String := (\<lambda>n. if n = ''listen-port-range'' then ''5-7'' else if n = ''replica'' then ''localhost:2'' else ''localhost:4'')\<rparr>"

lemma ex_replica_agent:
  "map_option (\<lambda>(out, _). case out of Serving proc \<Rightarrow> map_option (\<lambda>args. (args ! 9, args ! 7)) (rp_agent proc) | _ \<Rightarrow> None)
     (startReplica ex_replica_start ex_replica_flags ex_fs) = Some (Some (''5-7'', ''localhost:2''))"
  by code_simp

lemma ex_replica_starts:
  "\<exists>proc args fs. startReplica ex_replica_start ex_replica_flags ex_fs = Some (Serving proc, fs) \<and> rp_agent proc = Some args \<and>
     args ! 9 = ''5-7'' \<and> args ! 7 = ''localhost:2''"
proof (cases "startReplica ex_replica_start ex_replica_flags ex_fs")
  case (Some r)
  obtain out fs where r: "r = (out, fs)" by (cases r)
  show ?thesis using ex_replica_agent Some r by (cases out) auto
qed (use ex_replica_agent in simp)

theorem agent_ports_handed_over_witness:
  "\<exists>agent. startSyncAgent (\<lambda>_. None) ex_agent_flags = Inr agent \<and> sa_startPort agent = 5 \<and> sa_endPort agent = 7"
proof -
  obtain proc args fs where s: "startReplica ex_replica_start ex_replica_flags ex_fs = Some (Serving proc, fs)" "rp_agent proc = Some args"
    "args ! 9 = ''5-7''" "args ! 7 = ''localhost:2''" using ex_replica_starts by blast
  have 1: "plain ''localhost''" by code_simp
  have 2: "cx_String ex_replica_flags ''listen'' = JoinHostPort ''localhost'' (showInt 2)" by code_simp
  have 3: "cx_Int ex_replica_flags ''sync-agent-port-count'' = 3" by code_simp
  have 4: "cx_String ex_agent_flags ''listen-port-range'' = args ! 9" unfolding s(3) by code_simp
  have 5: "cx_String ex_agent_flags ''replica'' = args ! 7" unfolding s(4) by code_simp
  show ?thesis using agent_ports_handed_over [OF s(1,2) 1 2 _ _ _ 3 4 5, of "\<lambda>_. None"] by auto
qed

end
