(* ===== verification/Restore_File.thy ===== *)
theory Restore_File
  imports Commands Backends
begin

text \<open>
  Restoring a backup to an image file (src/app/cmd/restore_to_file.go).  The work is done by qemu-img and cp, which are run by \<open>rf_exec\<close>, and by the backup store,
  whose progress is read between two ticks of a clock; waiting for a restore that never ends is None.
\<close>

section \<open>Commands\<close>

record 'w restore_env =
  rf_exec :: "string \<Rightarrow> string list \<Rightarrow> 'w \<Rightarrow> (error + string) \<times> 'w"
  rf_Abs :: "string \<Rightarrow> error + string"
  rf_Remove :: "string \<Rightarrow> 'w \<Rightarrow> error option \<times> 'w"
  rf_DecodeBackupURL :: "string \<Rightarrow> error + string"
  rf_RestoreDeltaBlockBackup :: "string \<Rightarrow> string \<Rightarrow> int \<Rightarrow> 'w \<Rightarrow> error option \<times> 'w"
  rf_tick :: "'w \<Rightarrow> 'w"
  rf_status :: "'w \<Rightarrow> int \<times> string"

definition DefaultOutputFormat :: string where "DefaultOutputFormat = ''qcow2''"
definition DefaultOutputFileName :: string where "DefaultOutputFileName = ''volume''"
definition QEMUImageBinary :: string where "QEMUImageBinary = ''qemu-img''"
definition BackupFilePath :: string where "BackupFilePath = ''backup.img''"
definition BackupFileConverted :: string where "BackupFileConverted = ''backup.img.converted''"
definition BackingFileCopy :: string where "BackingFileCopy = ''backing.img.cp''"

definition SupportedImageFormats :: "string list" where "SupportedImageFormats = [''qcow2'', ''raw'']"

lemmas image_names = DefaultOutputFormat_def DefaultOutputFileName_def QEMUImageBinary_def BackupFilePath_def BackupFileConverted_def BackingFileCopy_def

definition outputFormatSupported :: "string \<Rightarrow> bool" where
  "outputFormatSupported desiredFormat = list_ex (\<lambda>supportedFormat. desiredFormat = supportedFormat) SupportedImageFormats"

text \<open>A run of a program whose output is not read, with the text that wraps its error.\<close>

definition run_img :: "'w restore_env \<Rightarrow> string \<Rightarrow> string list \<Rightarrow> 'w \<Rightarrow> error option \<times> 'w" where
  "run_img E msg args w = (case rf_exec E QEMUImageBinary args w of (Inl e, w) \<Rightarrow> (Some (Wrapped msg e), w) | (Inr _, w) \<Rightarrow> (None, w))"

definition CheckBackingFileFormat :: "'w restore_env \<Rightarrow> string \<Rightarrow> 'w \<Rightarrow> error option \<times> 'w" where
  "CheckBackingFileFormat E backingFilePath w =
     (case rf_exec E QEMUImageBinary [''info'', backingFilePath] w of
        (Inl e, w) \<Rightarrow> (Some (Wrapped (''failed CheckBackingFileFormat '' @ backingFilePath) e), w)
      | (Inr output, w) \<Rightarrow>
          (if \<not> Contains output ''file format: qcow2'' then Some (Errorf (''the format of backing file is not qcow2. backing file info='' @ output)) else None, w))"

definition CopyFile :: "'w restore_env \<Rightarrow> string \<Rightarrow> string \<Rightarrow> 'w \<Rightarrow> error option \<times> 'w" where
  "CopyFile E backingFilepath outputFile w =
     (case rf_exec E ''cp'' [backingFilepath, outputFile] w of (Inl e, w) \<Rightarrow> (Some e, w) | (Inr _, w) \<Rightarrow> (None, w))"

definition ConvertImage :: "'w restore_env \<Rightarrow> string \<Rightarrow> string \<Rightarrow> string \<Rightarrow> 'w \<Rightarrow> error option \<times> 'w" where
  "ConvertImage E srcFilepath dstFilepath format =
     run_img E (''failed convertImage ('' @ format @ '') '' @ srcFilepath @ '' -> '' @ dstFilepath) [''convert'', ''-O'', format, srcFilepath, dstFilepath]"

definition rebaseSnapshot :: "'w restore_env \<Rightarrow> string \<Rightarrow> string \<Rightarrow> 'w \<Rightarrow> error option \<times> 'w" where
  "rebaseSnapshot E snapFilepath backingFilepath =
     run_img E (''failed rebaseSnapshot '' @ snapFilepath @ '' -> '' @ backingFilepath)
       [''rebase'', ''-u'', ''-b'', backingFilepath, ''-F'', DefaultOutputFormat, snapFilepath]"

definition commitSnapshot :: "'w restore_env \<Rightarrow> string \<Rightarrow> 'w \<Rightarrow> error option \<times> 'w" where
  "commitSnapshot E snapFilepath = run_img E (''failed commitSnapshot '' @ snapFilepath) [''commit'', snapFilepath]"

definition MergeSnapshotsToBackingFile :: "'w restore_env \<Rightarrow> string \<Rightarrow> string \<Rightarrow> 'w \<Rightarrow> error option \<times> 'w" where
  "MergeSnapshotsToBackingFile E snapFilepath backingFilepath w =
     (case rebaseSnapshot E snapFilepath backingFilepath w of
        (Some e, w) \<Rightarrow> (Some (Wrapped (''failed MergeSnapshotsToBackingFile '' @ snapFilepath @ '' -> '' @ backingFilepath) e), w)
      | (None, w) \<Rightarrow> commitSnapshot E snapFilepath w)"

text \<open>The files that CleanupTempFiles removes; errors are only logged.\<close>

fun cleanup_loop :: "'w restore_env \<Rightarrow> string \<Rightarrow> string list \<Rightarrow> 'w \<Rightarrow> 'w" where
  "cleanup_loop E outputFilePath [] w = w"
| "cleanup_loop E outputFilePath (f # fs) w =
     (case rf_Abs E f of
        Inl _ \<Rightarrow> cleanup_loop E outputFilePath fs w
      | Inr filePath \<Rightarrow> cleanup_loop E outputFilePath fs (if filePath = outputFilePath then w else snd (rf_Remove E filePath w)))"

definition CleanupTempFiles :: "'w restore_env \<Rightarrow> string \<Rightarrow> string list \<Rightarrow> 'w \<Rightarrow> 'w" where
  "CleanupTempFiles E outputFile tmp w = (case rf_Abs E outputFile of Inl _ \<Rightarrow> w | Inr outputFilePath \<Rightarrow> cleanup_loop E outputFilePath tmp w)"

section \<open>Restoring\<close>

text \<open>The loop over the ticks.\<close>

partial_function (option) restore_wait :: "'w restore_env \<Rightarrow> 'w \<Rightarrow> (error option \<times> 'w) option" where
  "restore_wait E w =
     (let w = rf_tick E w; (progress, err) = rf_status E w
      in if progress = 100 then Some (None, w)
         else if err \<noteq> [] then Some (Some (Errorf err), w)
         else restore_wait E w)"

definition restore_url :: "'w restore_env \<Rightarrow> string \<Rightarrow> int \<Rightarrow> 'w \<Rightarrow> (error option \<times> 'w) option" where
  "restore_url E url concurrentLimit w =
     (let backupURL = UnescapeURL url
      in case rf_DecodeBackupURL E backupURL of
           Inl e \<Rightarrow> Some (Some e, w)
         | Inr requestedBackupName \<Rightarrow> (case rf_RestoreDeltaBlockBackup E backupURL BackupFilePath (int32 concurrentLimit) w of
             (Some e, w) \<Rightarrow> Some (Some e, w)
           | (None, w) \<Rightarrow> restore_wait E w))"

text \<open>What follows the restore: a volume without a backing file is converted; otherwise it is merged into a copy of the backing file first.\<close>

definition make_image :: "'w restore_env \<Rightarrow> ('h, 'w) image_env \<Rightarrow> string \<Rightarrow> string \<Rightarrow> string \<Rightarrow> 'w \<Rightarrow> error option \<times> 'w" where
  "make_image E I backingFileOrDir outputFile outputFormat w =
     (if backingFileOrDir = [] then ConvertImage E BackupFilePath outputFile outputFormat w
      else case ResolveBackingFilepath I backingFileOrDir w of
        Inl e \<Rightarrow> (Some e, w)
      | Inr backingFilepath \<Rightarrow>
          steps [CheckBackingFileFormat E backingFilepath, CopyFile E backingFilepath BackingFileCopy,
                 ConvertImage E BackupFilePath BackupFileConverted DefaultOutputFormat,
                 MergeSnapshotsToBackingFile E BackupFileConverted BackingFileCopy,
                 ConvertImage E BackingFileCopy outputFile outputFormat] w)"

definition output_file :: "cli_context \<Rightarrow> string" where
  "output_file c = (if cx_String c ''output-file'' = [] then DefaultOutputFileName @ ''.'' @ cx_String c ''output-format'' else cx_String c ''output-file'')"

text \<open>The temporary files are removed however the restore ends.\<close>

definition restoreToFile :: "'w restore_env \<Rightarrow> ('h, 'w) image_env \<Rightarrow> cli_context \<Rightarrow> 'w \<Rightarrow> (error option \<times> 'w) option" where
  "restoreToFile E I c w =
     (if \<not> outputFormatSupported (cx_String c ''output-format'') then Some (Some (Errorf (''unsupported output image format: '' @ cx_String c ''output-format'')), w)
      else if cx_First c = [] then Some (Some (Errorf ''missing the first argument, it should be backup-url''), w)
      else case rf_Abs E (output_file c) of
        Inl e \<Rightarrow> Some (Some (Wrapped ''error confirming output file path'' e), w)
      | Inr _ \<Rightarrow> do {
          (err, w) \<leftarrow> restore_url E (cx_First c) (cx_Int c ''concurrent-limit'') w;
          let (err, w) = (case err of Some e \<Rightarrow> (Some e, w) | None \<Rightarrow> make_image E I (cx_String c ''backing-file'') (output_file c) (cx_String c ''output-format'') w);
          Some (err, CleanupTempFiles E (output_file c) [BackupFilePath, BackupFileConverted, BackingFileCopy] w)
        })"

section \<open>What the command promises\<close>

text \<open>A restore ends as soon as its progress is complete or it has an error.\<close>

lemma restore_wait_now:
  assumes "fst (rf_status E (rf_tick E w)) = 100 \<or> snd (rf_status E (rf_tick E w)) \<noteq> []"
  shows "\<exists>err. restore_wait E w = Some (err, rf_tick E w)"
  using assms unfolding restore_wait.simps [of E w] by (auto simp: Let_def split: prod.splits)

lemma restore_wait_later:
  assumes "\<not> (fst (rf_status E (rf_tick E w)) = 100 \<or> snd (rf_status E (rf_tick E w)) \<noteq> [])"
  shows "restore_wait E w = restore_wait E (rf_tick E w)"
  using assms by (subst restore_wait.simps) (auto simp: Let_def split: prod.splits)

lemma restore_wait_ends:
  assumes "fst (rf_status E ((rf_tick E ^^ Suc n) w)) = 100 \<or> snd (rf_status E ((rf_tick E ^^ Suc n) w)) \<noteq> []"
  shows "\<exists>err m. m \<le> Suc n \<and> restore_wait E w = Some (err, (rf_tick E ^^ m) w)"
  using assms
proof (induction n arbitrary: w)
  case 0
  then have "\<exists>err. restore_wait E w = Some (err, (rf_tick E ^^ Suc 0) w)" using restore_wait_now by simp
  then show ?case by blast
next
  case (Suc n)
  show ?case
  proof (cases "fst (rf_status E (rf_tick E w)) = 100 \<or> snd (rf_status E (rf_tick E w)) \<noteq> []")
    case True
    from restore_wait_now [OF this] have "\<exists>err. restore_wait E w = Some (err, (rf_tick E ^^ Suc 0) w)" by simp
    then show ?thesis by (meson Suc_le_mono le0)
  next
    case False
    have "(rf_tick E ^^ Suc (Suc n)) w = (rf_tick E ^^ Suc n) (rf_tick E w)" by (simp add: funpow_swap1)
    then obtain e m where m: "m \<le> Suc n" "restore_wait E (rf_tick E w) = Some (e, (rf_tick E ^^ m) (rf_tick E w))"
      using Suc.IH [of "rf_tick E w"] Suc.prems by metis
    then have "restore_wait E w = Some (e, (rf_tick E ^^ Suc m) w)" using restore_wait_later [OF False] by (simp add: funpow_swap1)
    then show ?thesis using m(1) Suc_le_mono by blast
  qed
qed

text \<open>The clean-up removes every temporary file but the output, whatever name the output has.\<close>

lemma cleanup_keeps_output:
  assumes "\<And>p w. p \<noteq> outputFilePath \<Longrightarrow> Q w \<Longrightarrow> Q (snd (rf_Remove E p w))" "rf_Abs E outputFile = Inr outputFilePath" "Q w"
  shows "Q (CleanupTempFiles E outputFile tmp w)"
proof -
  have "Q (cleanup_loop E outputFilePath tmp w)" using assms(3)
    by (induction tmp arbitrary: w) (auto simp: assms(1) split: sum.splits)
  then show ?thesis by (simp add: CleanupTempFiles_def assms(2))
qed

lemma steps_last:
  assumes "steps (fs @ [f]) w = (None, w')"
  shows "\<exists>w1. f w1 = (None, w')"
  using assms
proof (induction fs arbitrary: w)
  case (Cons g fs)
  then show ?case by (cases "g w") (auto split: option.splits)
qed (auto split: prod.splits option.splits)

text \<open>A command that ends without an error has written the output file in the format that was asked for, as its last run of a program.\<close>

lemma make_image_converts:
  assumes "make_image E I backing outputFile outputFormat w = (None, w')"
  shows "\<exists>src w1 out. rf_exec E QEMUImageBinary [''convert'', ''-O'', outputFormat, src, outputFile] w1 = (Inr out, w')"
proof -
  have c: "\<exists>out. rf_exec E QEMUImageBinary [''convert'', ''-O'', outputFormat, src, outputFile] w1 = (Inr out, w')"
    if "ConvertImage E src outputFile outputFormat w1 = (None, w')" for src w1
    using that by (auto simp: ConvertImage_def run_img_def split: prod.splits sum.splits)
  show ?thesis
  proof (cases "backing = []")
    case True
    then show ?thesis using assms c [of BackupFilePath w] by (auto simp: make_image_def)
  next
    case False
    obtain p where "steps ([CheckBackingFileFormat E p, CopyFile E p BackingFileCopy, ConvertImage E BackupFilePath BackupFileConverted DefaultOutputFormat,
        MergeSnapshotsToBackingFile E BackupFileConverted BackingFileCopy] @ [ConvertImage E BackingFileCopy outputFile outputFormat]) w = (None, w')"
      using assms False by (auto simp: make_image_def split: sum.splits)
    from steps_last [OF this] c show ?thesis by blast
  qed
qed

end
