(* ===== verification/Service_Queries.thy ===== *)
theory Service_Queries
  imports Controller_Client Replica_Service Sync_Agent
begin

text \<open>
  Queries of the services: metrics and version of the controller (src/pkg/controller/rpc/server.go and its client, src/pkg/meta), the checks of health, and the
  creation of clients; and the device nodes of src/pkg/util/util.go.
\<close>

unbundle bit_operations_syntax

section \<open>Clients\<close>

text \<open>grpc.NewClient is the parameter \<open>dial\<close>.\<close>

definition NewControllerClient :: "(string \<Rightarrow> 'w \<Rightarrow> error option \<times> 'w) \<Rightarrow> string \<Rightarrow> string \<Rightarrow> 'w \<Rightarrow> (error + string \<times> string) \<times> 'w" where
  "NewControllerClient dial address volumeName w =
     (let serviceURL = GetGRPCAddress address
      in case dial serviceURL w of
           (Some e, w) \<Rightarrow> (Inl (Wrapped (''cannot connect to ControllerService '' @ serviceURL) e), w)
         | (None, w) \<Rightarrow> (Inr (serviceURL, volumeName), w))"

section \<open>Metrics\<close>

text \<open>enginerpc.Metrics.\<close>

record rpc_Metrics =
  ReadThroughput :: "64 word"
  WriteThroughput :: "64 word"
  ReadLatency :: "64 word"
  WriteLatency :: "64 word"
  ReadIOPS :: "64 word"
  WriteIOPS :: "64 word"

definition getAverageLatency :: "64 word \<Rightarrow> 64 word \<Rightarrow> 64 word option" where
  "getAverageLatency totalLatency iops = (if iops = 0 then None else Some (totalLatency div iops))"

definition MetricsGet :: "('b, 'f, 'w, rpc_Metrics) handler" where
  "MetricsGet c w =
     (let m = latestMetrics c;
          average = (\<lambda>total iops. if iops \<noteq> 0 then getAverageLatency total iops else Some 0)
      in do {
        r \<leftarrow> average (m_Read (TotalLatency m)) (m_Read (IOPS m));
        wr \<leftarrow> average (m_Write (TotalLatency m)) (m_Write (IOPS m));
        Some (Inr \<lparr>ReadThroughput = m_Read (Throughput m), WriteThroughput = m_Write (Throughput m), ReadLatency = r, WriteLatency = wr,
                   ReadIOPS = m_Read (IOPS m), WriteIOPS = m_Write (IOPS m)\<rparr>, c, w)
      })"

definition cl_MetricsGet :: "('w \<Rightarrow> delivery) \<Rightarrow> string \<Rightarrow> ('b, 'f, 'w, metrics) handler" where
  "cl_MetricsGet T url c w =
     map_option (\<lambda>(r, c, w). (case r of
          Inl e \<Rightarrow> Inl e
        | Inr m \<Rightarrow> Inr \<lparr>Throughput = \<lparr>m_Read = ReadThroughput m, m_Write = WriteThroughput m\<rparr>,
             TotalLatency = \<lparr>m_Read = ReadLatency m, m_Write = WriteLatency m\<rparr>, IOPS = \<lparr>m_Read = ReadIOPS m, m_Write = WriteIOPS m\<rparr>\<rparr>, c, w))
       (client_call T (''failed to get metrics for volume '' @ url) MetricsGet c w)"

text \<open>The counters of a second: the operations that recordMetrics has seen since the last tick.\<close>

lemma MetricsGet_never_divides: "\<exists>m. MetricsGet c w = Some (Inr m, c, w)"
  by (simp add: MetricsGet_def getAverageLatency_def Let_def)

lemma MetricsGet_latest:
  assumes "MetricsGet c w = Some (Inr m, c', w')"
  shows "GetLatestMetics c = ((ReadThroughput m, ReadLatency m, ReadIOPS m), (WriteThroughput m, WriteLatency m, WriteIOPS m))" "c' = c"
  using assms by (auto simp: MetricsGet_def GetLatestMetics_def getAverageLatency_def Let_def split: if_splits)

text \<open>The metrics of a client are the throughput and the operations of the last second, with the average latency in place of the total.\<close>

lemma cl_MetricsGet_latest:
  assumes "cl_MetricsGet T url c w = Some (Inr m, c', w')"
  shows "Throughput m = Throughput (latestMetrics c)" "IOPS m = IOPS (latestMetrics c)"
    "m_Read (IOPS m) \<noteq> 0 \<Longrightarrow> m_Read (TotalLatency m) = m_Read (TotalLatency (latestMetrics c)) div m_Read (IOPS m)"
    "m_Write (IOPS m) \<noteq> 0 \<Longrightarrow> m_Write (TotalLatency m) = m_Write (TotalLatency (latestMetrics c)) div m_Write (IOPS m)"
proof -
  obtain x where x: "MetricsGet c w = Some (Inr x, c, w)" using MetricsGet_never_divides [of c w] by blast
  have d: "T w = Delivered" using assms x by (cases "T w") (auto simp: cl_MetricsGet_def client_call_def rpc_call_def)
  then have m: "m = \<lparr>Throughput = \<lparr>m_Read = ReadThroughput x, m_Write = WriteThroughput x\<rparr>,
      TotalLatency = \<lparr>m_Read = ReadLatency x, m_Write = WriteLatency x\<rparr>, IOPS = \<lparr>m_Read = ReadIOPS x, m_Write = WriteIOPS x\<rparr>\<rparr>"
    using assms x by (simp add: cl_MetricsGet_def client_call_def rpc_call_def)
  show "Throughput m = Throughput (latestMetrics c)" "IOPS m = IOPS (latestMetrics c)"
    "m_Read (IOPS m) \<noteq> 0 \<Longrightarrow> m_Read (TotalLatency m) = m_Read (TotalLatency (latestMetrics c)) div m_Read (IOPS m)"
    "m_Write (IOPS m) \<noteq> 0 \<Longrightarrow> m_Write (TotalLatency m) = m_Write (TotalLatency (latestMetrics c)) div m_Write (IOPS m)"
    using MetricsGet_latest(1) [OF x] by (auto simp: m GetLatestMetics_def Let_def)
qed

section \<open>Versions\<close>

record VersionOutput =
  v_Version :: string
  v_GitCommit :: string
  v_BuildDate :: string
  v_CLIAPIVersion :: int
  v_CLIAPIMinVersion :: int
  v_ControllerAPIVersion :: int
  v_ControllerAPIMinVersion :: int
  v_DataFormatVersion :: int
  v_DataFormatMinVersion :: int

text \<open>GetVersion: the build fills in the three texts.\<close>

definition GetVersion :: "string \<Rightarrow> string \<Rightarrow> string \<Rightarrow> VersionOutput" where
  "GetVersion version gitCommit buildDate =
     \<lparr>v_Version = version, v_GitCommit = gitCommit, v_BuildDate = buildDate, v_CLIAPIVersion = 10, v_CLIAPIMinVersion = 8,
      v_ControllerAPIVersion = 5, v_ControllerAPIMinVersion = 4, v_DataFormatVersion = 1, v_DataFormatMinVersion = 1\<rparr>"

text \<open>The conversions to int64 and back keep the numbers, so a message has the fields of the record.\<close>

definition VersionDetailGet :: "VersionOutput \<Rightarrow> ('b, 'f, 'w, VersionOutput) handler" where
  "VersionDetailGet version c w = Some (Inr version, c, w)"

definition cl_VersionDetailGet :: "('w \<Rightarrow> delivery) \<Rightarrow> VersionOutput \<Rightarrow> ('b, 'f, 'w, VersionOutput) handler" where
  "cl_VersionDetailGet T version = client_call T ''failed to get version detail'' (VersionDetailGet version)"

text \<open>A manager accepts an engine when the versions overlap; the minimal versions are never above the versions.\<close>

lemma GetVersion_ranges: "v_CLIAPIMinVersion (GetVersion a b d) \<le> v_CLIAPIVersion (GetVersion a b d)"
  "v_ControllerAPIMinVersion (GetVersion a b d) \<le> v_ControllerAPIVersion (GetVersion a b d)"
  "v_DataFormatMinVersion (GetVersion a b d) \<le> v_DataFormatVersion (GetVersion a b d)"
  by (simp_all add: GetVersion_def)

section \<open>Health\<close>

datatype health = SERVING | NOT_SERVING

text \<open>A server is healthy when it has its controller or its replica server.\<close>

definition health_Check :: "'c option \<Rightarrow> health" where
  "health_Check c = (if c \<noteq> None then SERVING else NOT_SERVING)"

text \<open>What Watch sends until the client goes away: one status per second, for as many seconds as it is called.\<close>

fun health_Watch :: "nat \<Rightarrow> (nat \<Rightarrow> 'c option) \<Rightarrow> health list" where
  "health_Watch 0 c = []"
| "health_Watch (Suc n) c = health_Watch n c @ [health_Check (c n)]"

lemma health_Watch_nth: "i < n \<Longrightarrow> health_Watch n c ! i = health_Check (c i)" "length (health_Watch n c) = n"
  by (induction n) (auto simp: nth_append less_Suc_eq)

text \<open>The client: \<open>ask\<close> is the call of the health service.\<close>

definition cl_Check :: "(string \<Rightarrow> 'w \<Rightarrow> error option \<times> 'w) \<Rightarrow> (string \<Rightarrow> 'w \<Rightarrow> (error + health) \<times> 'w) \<Rightarrow> string \<Rightarrow> 'w \<Rightarrow> error option \<times> 'w" where
  "cl_Check dial ask serviceURL w =
     (case dial serviceURL w of
        (Some e, w) \<Rightarrow> (Some (Wrapped (''cannot connect to ControllerService '' @ serviceURL) e), w)
      | (None, w) \<Rightarrow> (case ask serviceURL w of
          (Inl e, w) \<Rightarrow> (Some (Wrapped (''failed to check health for gRPC controller server '' @ serviceURL) e), w)
        | (Inr st, w) \<Rightarrow> (if st \<noteq> SERVING then Some (Errorf ''gRPC controller server is not serving'') else None, w)))"

section \<open>Device nodes\<close>

text \<open>The calls of the kernel.\<close>

record 'w dev_ops =
  dv_Stat :: "string \<Rightarrow> 'w \<Rightarrow> error + 64 word"
  dv_Mknod :: "string \<Rightarrow> 64 word \<Rightarrow> 'w \<Rightarrow> error option \<times> 'w"
  dv_Chmod :: "string \<Rightarrow> 'w \<Rightarrow> error option \<times> 'w"
  dv_Remove :: "string \<Rightarrow> 'w \<Rightarrow> error option \<times> 'w"

definition mknod_dev :: "64 word \<Rightarrow> 64 word \<Rightarrow> 64 word" where
  "mknod_dev major minor = (push_bit 8 major OR (minor AND 0xff)) OR push_bit 12 (minor AND 0xfff00)"

definition mknod :: "'w dev_ops \<Rightarrow> string \<Rightarrow> 64 word \<Rightarrow> 64 word \<Rightarrow> 'w \<Rightarrow> error option \<times> 'w" where
  "mknod D device major minor = dv_Mknod D device (mknod_dev major minor)"

definition DuplicateDevice :: "'w dev_ops \<Rightarrow> string \<Rightarrow> string \<Rightarrow> 'w \<Rightarrow> error option \<times> 'w" where
  "DuplicateDevice D src dest w =
     (case dv_Stat D src w of
        Inl e \<Rightarrow> (Some (Errorf (''cannot duplicate device because cannot find '' @ src @ '': '' @ Error_msg e)), w)
      | Inr rdev \<Rightarrow> (case mknod D dest (rdev div 256) (rdev mod 256) w of
          (Some _, w) \<Rightarrow> (Some (Errorf (''cannot duplicate device '' @ src @ '' to '' @ dest)), w)
        | (None, w) \<Rightarrow> (case dv_Chmod D dest w of
            (Some e, w) \<Rightarrow> (Some (Errorf (''couldn't change permission of the device '' @ dest @ '': '' @ Error_msg e)), w)
          | (None, w) \<Rightarrow> (None, w))))"

text \<open>remove waits for the goroutine, or for the clock when \<open>late\<close> holds; the goroutine removes the file in either case.\<close>

definition remove_path :: "'w dev_ops \<Rightarrow> bool \<Rightarrow> string \<Rightarrow> 'w \<Rightarrow> error option \<times> 'w" where
  "remove_path D late path w =
     (case dv_Remove D path w of
        (err, w) \<Rightarrow> if late then (Some (Errorf (''timeout trying to delete '' @ path)), w)
                   else (case err of Some (ErrNotExist _) \<Rightarrow> None | _ \<Rightarrow> err, w))"

definition RemoveDevice :: "'w dev_ops \<Rightarrow> bool \<Rightarrow> string \<Rightarrow> 'w \<Rightarrow> error option \<times> 'w" where
  "RemoveDevice D late dev w =
     (case dv_Stat D dev w of
        Inl _ \<Rightarrow> (None, w)
      | Inr _ \<Rightarrow> (case remove_path D late dev w of
          (Some e, w) \<Rightarrow> (Some (Errorf (''failed to removing device '' @ dev @ '', '' @ Error_msg e)), w)
        | (None, w) \<Rightarrow> (None, w)))"

text \<open>Taking a device number apart and putting it together gives the same device, also when its minor number does not fit in eight bits.\<close>

lemma mknod_dev_same: "mknod_dev (rdev div 256) (rdev mod 256) = rdev"
proof -
  have d: "rdev div 256 = drop_bit 8 rdev" "rdev mod 256 = take_bit 8 rdev" by (simp_all add: drop_bit_eq_div take_bit_eq_mod)
  have m: "take_bit 8 rdev AND 0xff = take_bit 8 rdev" by (simp add: take_bit_eq_mask mask_eq_exp_minus_1 and.assoc)
  have low: "\<not> bit (0xfff00 :: 64 word) n" if "n < 8" for n
    using that bit_push_bit_iff [of 8 "0xfff :: 64 word" n] by simp
  have z: "take_bit 8 rdev AND 0xfff00 = 0"
    by (rule bit_word_eqI) (auto simp: bit_and_iff bit_take_bit_iff dest: low)
  show ?thesis unfolding mknod_dev_def d m z
    by (rule bit_word_eqI) (auto simp: bit_or_iff bit_push_bit_iff bit_drop_bit_eq bit_take_bit_iff)
qed

lemma DuplicateDevice_same:
  assumes "DuplicateDevice D src dest w = (None, w')"
  shows "\<exists>rdev w1. dv_Stat D src w = Inr rdev \<and> dv_Mknod D dest rdev w = (None, w1) \<and> dv_Chmod D dest w1 = (None, w')"
  using assms by (auto simp: DuplicateDevice_def mknod_def mknod_dev_same split: sum.splits prod.splits option.splits)

end
