(* ===== verification/Command_Table.thy ===== *)
theory Command_Table
  imports Commands Engine_Start Restore_File Service_Queries
begin

text \<open>
  The table of commands of the engine (src/main.go and the constructors of src/app/cmd): names, short names, flags with their kinds and defaults, subcommands and
  the function that a command runs; the texts for help are left out.  The commands that the backup store provides are only named.
\<close>

section \<open>Tables\<close>

datatype flag = StringFlag string string | BoolFlag string | BoolTFlag string | IntFlag string int | Int64Flag string int | StringSliceFlag string "string list option"

datatype cmd_action =
    a_startController | a_startReplica | a_startSyncAgent | a_doReset | a_startWithReplicas | a_addReplica | a_verifyRebuildReplica | a_lsReplica | a_rmReplica
  | a_updateReplica | a_rebuildStatus | a_lsSnapshot | a_createSnapshot | a_revertSnapshot | a_rmSnapshot | a_purgeSnapshot | a_purgeSnapshotStatus | a_infoSnapshot
  | a_cloneSnapshot | a_cloneSnapshotStatus | a_hashSnapshot | a_cancelHashSnapshot | a_hashSnapshotStatus | a_createBackup | a_checkBackupStatus | a_restoreBackup
  | a_restoreToFile | a_restoreStatus | a_expand | a_unmapMarkSnapChainRemoved | a_journal | a_info | a_startFrontend | a_shutdownFrontend | a_exportVolume
  | a_showProfiler | a_enableProfiler | a_disableProfiler | a_version

text \<open>A command of this program, or one of another package by the name of its constructor.\<close>

datatype command = Command (c_Name: string) (c_ShortName: string) (c_Flags: "flag list") (c_Subcommands: "command list") (c_Action: "cmd_action option")
  | External string

definition leaf :: "string \<Rightarrow> string \<Rightarrow> flag list \<Rightarrow> cmd_action \<Rightarrow> command" where
  "leaf name short fs a = Command name short fs [] (Some a)"

section \<open>Processes\<close>

definition ControllerCmd :: command where
  "ControllerCmd = leaf ''controller'' []
     [StringFlag ''listen'' ''localhost:9501'', StringFlag ''size'' [], StringFlag ''current-size'' [], StringFlag ''frontend'' [],
      StringSliceFlag ''enable-backend'' (Some [''tcp'']), StringSliceFlag ''replica'' None, BoolFlag ''upgrade'', BoolFlag ''disableRevCounter'',
      BoolFlag ''salvageRequested'', Int64Flag ''engine-replica-timeout'' 8, StringFlag ''data-server-protocol'' ''tcp'', BoolFlag ''unmap-mark-snap-chain-removed'',
      IntFlag ''file-sync-http-client-timeout'' 5, IntFlag ''snapshot-max-count'' 250, StringFlag ''snapshot-max-size'' []] a_startController"

definition ReplicaCmd :: command where
  "ReplicaCmd = leaf ''replica'' []
     [StringFlag ''listen'' ''localhost:9502'', StringFlag ''backing-file'' [], BoolTFlag ''sync-agent'', StringFlag ''size'' [], StringFlag ''restore-from'' [],
      StringFlag ''restore-name'' [], IntFlag ''sync-agent-port-count'' 10, BoolFlag ''disableRevCounter'', StringFlag ''data-server-protocol'' ''tcp'',
      BoolFlag ''unmap-mark-disk-chain-removed'', StringFlag ''replica-instance-name'' [], IntFlag ''snapshot-max-count'' 250, StringFlag ''snapshot-max-size'' []]
     a_startReplica"

definition SyncAgentCmd :: command where
  "SyncAgentCmd = leaf ''sync-agent'' []
     [StringFlag ''listen'' ''localhost:9504'', StringFlag ''listen-port-range'' ''9700-9800'', StringFlag ''replica'' [], StringFlag ''replica-instance-name'' []]
     a_startSyncAgent"

definition SyncAgentServerResetCmd :: command where
  "SyncAgentServerResetCmd = leaf ''sync-agent-server-reset'' [] [] a_doReset"

section \<open>Replicas\<close>

definition StartWithReplicasCmd :: command where
  "StartWithReplicasCmd = leaf ''start-with-replicas'' ''start'' [StringFlag ''size'' [], StringFlag ''current-size'' []] a_startWithReplicas"

definition AddReplicaCmd :: command where
  "AddReplicaCmd = leaf ''add-replica'' ''add''
     [BoolFlag ''restore'', StringFlag ''size'' [], StringFlag ''current-size'' [], BoolFlag ''fast-sync'', BoolFlag ''sync-local'',
      IntFlag ''file-sync-http-client-timeout'' 5, IntFlag ''grpc-timeout-seconds'' 0, StringFlag ''replica-instance-name'' []] a_addReplica"

definition VerifyRebuildReplicaCmd :: command where
  "VerifyRebuildReplicaCmd = leaf ''verify-rebuild-replica'' ''verify-rebuild'' [StringFlag ''replica-instance-name'' []] a_verifyRebuildReplica"

definition LsReplicaCmd :: command where
  "LsReplicaCmd = leaf ''ls-replica'' ''ls'' [] a_lsReplica"

definition RmReplicaCmd :: command where
  "RmReplicaCmd = leaf ''rm-replica'' ''rm'' [] a_rmReplica"

definition UpdateReplicaCmd :: command where
  "UpdateReplicaCmd = leaf ''update-replica'' ''update'' [StringFlag ''mode'' []] a_updateReplica"

definition RebuildStatusCmd :: command where
  "RebuildStatusCmd = leaf ''replica-rebuild-status'' ''rebuild-status'' [] a_rebuildStatus"

section \<open>Snapshots\<close>

definition SnapshotCreateCmd :: command where
  "SnapshotCreateCmd = leaf ''create'' [] [StringSliceFlag ''label'' None, BoolFlag ''freeze-fs''] a_createSnapshot"

definition SnapshotRevertCmd :: command where
  "SnapshotRevertCmd = leaf ''revert'' [] [] a_revertSnapshot"

definition SnapshotLsCmd :: command where
  "SnapshotLsCmd = leaf ''ls'' [] [] a_lsSnapshot"

definition SnapshotRmCmd :: command where
  "SnapshotRmCmd = leaf ''rm'' [] [] a_rmSnapshot"

definition SnapshotPurgeCmd :: command where
  "SnapshotPurgeCmd = leaf ''purge'' [] [BoolFlag ''skip-if-in-progress''] a_purgeSnapshot"

definition SnapshotPurgeStatusCmd :: command where
  "SnapshotPurgeStatusCmd = leaf ''purge-status'' [] [] a_purgeSnapshotStatus"

definition SnapshotInfoCmd :: command where
  "SnapshotInfoCmd = leaf ''info'' [] [] a_infoSnapshot"

definition SnapshotCloneCmd :: command where
  "SnapshotCloneCmd = leaf ''clone'' []
     [StringFlag ''snapshot-name'' [], StringFlag ''from-controller-address'' [], StringFlag ''from-volume-name'' [], StringFlag ''from-controller-instance-name'' [],
      BoolFlag ''export-backing-image-if-exist'', IntFlag ''file-sync-http-client-timeout'' 5, IntFlag ''grpc-timeout-seconds'' 0] a_cloneSnapshot"

definition SnapshotCloneStatusCmd :: command where
  "SnapshotCloneStatusCmd = leaf ''clone-status'' [] [] a_cloneSnapshotStatus"

definition SnapshotHashCmd :: command where
  "SnapshotHashCmd = leaf ''hash'' [] [BoolFlag ''rehash''] a_hashSnapshot"

definition SnapshotHashCancelCmd :: command where
  "SnapshotHashCancelCmd = leaf ''hash-cancel'' [] [] a_cancelHashSnapshot"

definition SnapshotHashStatusCmd :: command where
  "SnapshotHashStatusCmd = leaf ''hash-status'' [] [] a_hashSnapshotStatus"

definition SnapshotCmd :: command where
  "SnapshotCmd = Command ''snapshots'' ''snapshot'' []
     [SnapshotCreateCmd, SnapshotRevertCmd, SnapshotLsCmd, SnapshotRmCmd, SnapshotPurgeCmd, SnapshotPurgeStatusCmd, SnapshotInfoCmd, SnapshotCloneCmd,
      SnapshotCloneStatusCmd, SnapshotHashCmd, SnapshotHashCancelCmd, SnapshotHashStatusCmd] (Some a_lsSnapshot)"

section \<open>Backups\<close>

definition BackupCreateCmd :: command where
  "BackupCreateCmd = leaf ''create'' []
     [StringFlag ''dest'' [], StringFlag ''backing-image-name'' [], StringFlag ''backing-image-checksum'' [], StringSliceFlag ''label'' None,
      StringFlag ''backup-name'' [], StringFlag ''compression-method'' ''lz4'', IntFlag ''concurrent-limit'' 1, IntFlag ''storage-class-name'' 0] a_createBackup"

definition BackupStatusCmd :: command where
  "BackupStatusCmd = leaf ''status'' [] [StringFlag ''replica'' [], StringFlag ''replica-instance-name'' []] a_checkBackupStatus"

definition BackupRestoreCmd :: command where
  "BackupRestoreCmd = leaf ''restore'' [] [IntFlag ''concurrent-limit'' 1] a_restoreBackup"

definition RestoreToFileCmd :: command where
  "RestoreToFileCmd = leaf ''restore-to-file'' []
     [StringFlag ''backing-file'' [], StringFlag ''output-file'' [], StringFlag ''output-format'' DefaultOutputFormat, IntFlag ''concurrent-limit'' 5] a_restoreToFile"

definition RestoreStatusCmd :: command where
  "RestoreStatusCmd = leaf ''restore-status'' [] [] a_restoreStatus"

definition BackupCmd :: command where
  "BackupCmd = Command ''backups'' ''backup'' []
     ([BackupCreateCmd, BackupStatusCmd, BackupRestoreCmd, RestoreToFileCmd, RestoreStatusCmd] @
      map External [''BackupCleanupAllMountsCmd'', ''BackupRemoveCmd'', ''BackupListCmd'', ''InspectVolumeCmd'', ''InspectBackupCmd'', ''GetConfigMetadataCmd'',
        ''BackupBackingImageListCmd'', ''BackupBackingImageRemoveCmd'', ''InspectBackingImageCmd'']) None"

definition SystemBackupCmd :: command where
  "SystemBackupCmd = Command ''system-backup'' [] []
     (map External [''SystemBackupUploadCmd'', ''SystemBackupDeleteCmd'', ''SystemBackupDownloadCmd'', ''SystemBackupListCmd'', ''SystemBackupGetConfigCmd'']) None"

section \<open>The volume\<close>

definition ExpandCmd :: command where
  "ExpandCmd = leaf ''expand'' [] [Int64Flag ''size'' 0] a_expand"

definition UnmapMarkSnapChainRemovedCmd :: command where
  "UnmapMarkSnapChainRemovedCmd = leaf ''unmap-mark-snap-chain-removed'' ''unmap-mark-snap'' [BoolFlag ''enable'', BoolFlag ''disable''] a_unmapMarkSnapChainRemoved"

definition Journal :: command where
  "Journal = leaf ''journal'' [] [IntFlag ''limit'' 0] a_journal"

definition InfoCmd :: command where
  "InfoCmd = leaf ''info'' [] [] a_info"

definition FrontendStartCmd :: command where
  "FrontendStartCmd = leaf ''start'' [] [] a_startFrontend"

definition FrontendShutdownCmd :: command where
  "FrontendShutdownCmd = leaf ''shutdown'' [] [] a_shutdownFrontend"

definition FrontendCmd :: command where
  "FrontendCmd = Command ''frontend'' [] [] [FrontendStartCmd, FrontendShutdownCmd] None"

definition ExportVolumeCmd :: command where
  "ExportVolumeCmd = leaf ''export-volume'' ''export''
     [StringFlag ''snapshot-name'' [], StringFlag ''receiver-address'' [], IntFlag ''receiver-port'' 0, BoolFlag ''export-backing-image-if-exist'',
      IntFlag ''file-sync-http-client-timeout'' 5] a_exportVolume"

definition ProfilerShowCmd :: command where
  "ProfilerShowCmd = leaf ''show'' [] [] a_showProfiler"

definition ProfilerEnableCmd :: command where
  "ProfilerEnableCmd = leaf ''enable'' [] [IntFlag ''port'' 0] a_enableProfiler"

definition ProfilerDisableCmd :: command where
  "ProfilerDisableCmd = leaf ''disable'' [] [] a_disableProfiler"

definition ProfilerCmd :: command where
  "ProfilerCmd = Command ''profiler'' [] [] [ProfilerShowCmd, ProfilerEnableCmd, ProfilerDisableCmd] None"

definition VersionCmd :: command where
  "VersionCmd = leaf ''version'' [] [BoolFlag ''client-only''] a_version"

section \<open>The program\<close>

definition global_flags :: "flag list" where
  "global_flags = [StringFlag ''url'' ''http://localhost:9501'', StringFlag ''volume-name'' [], StringFlag ''engine-instance-name'' [], BoolFlag ''debug'']"

definition longhornCli :: "command list" where
  "longhornCli =
     [ControllerCmd, ReplicaCmd, SyncAgentCmd, SyncAgentServerResetCmd, StartWithReplicasCmd, AddReplicaCmd, VerifyRebuildReplicaCmd, LsReplicaCmd, RmReplicaCmd,
      UpdateReplicaCmd, RebuildStatusCmd, SnapshotCmd, SnapshotHashCmd, SnapshotHashCancelCmd, SnapshotHashStatusCmd, BackupCmd, ExpandCmd,
      UnmapMarkSnapChainRemovedCmd, Journal, InfoCmd, FrontendCmd, SystemBackupCmd, ProfilerCmd, VersionCmd]"

text \<open>The version of the client and of the controller; \<open>ask\<close> is VersionDetailGet of a client.\<close>

definition version_cmd ::
  "'w cmd_env \<Rightarrow> VersionOutput \<Rightarrow> ('w \<Rightarrow> (error + VersionOutput) \<times> 'w) \<Rightarrow> cli_context \<Rightarrow> 'w \<Rightarrow> (error + VersionOutput \<times> VersionOutput option) \<times> 'w" where
  "version_cmd E clientVersion ask c w =
     (if cx_Bool c ''client-only'' then (Inr (clientVersion, None), w)
      else with_controller E c (\<lambda>w. case ask w of (Inl e, w) \<Rightarrow> (Inl e, w) | (Inr v, w) \<Rightarrow> (Inr (clientVersion, Some v), w)) w)"

section \<open>The table is in order\<close>

primrec names :: "command \<Rightarrow> string list" where
  "names (Command n s _ _ _) = n # (if s = [] then [] else [s])"
| "names (External _) = []"

text \<open>No two commands of a level share a name, so each name means one command.\<close>

lemma names_distinct:
  "distinct (concat (map names longhornCli))" "distinct (concat (map names (c_Subcommands SnapshotCmd)))" "distinct (concat (map names (c_Subcommands BackupCmd)))"
  "distinct (concat (map names (c_Subcommands FrontendCmd)))" "distinct (concat (map names (c_Subcommands ProfilerCmd)))"
  by code_simp+

fun actions :: "command \<Rightarrow> cmd_action list" where
  "actions (Command _ _ _ subs a) = (case a of None \<Rightarrow> [] | Some a \<Rightarrow> [a]) @ concat (map actions subs)"
| "actions (External _) = []"

text \<open>Every function of the commands can be run but the export of a volume, whose command is not in the table.\<close>

lemma actions_reached: "a \<in> set (concat (map actions longhornCli)) \<longleftrightarrow> a \<noteq> a_exportVolume"
proof -
  have "concat (map actions longhornCli) =
    [a_startController, a_startReplica, a_startSyncAgent, a_doReset, a_startWithReplicas, a_addReplica, a_verifyRebuildReplica, a_lsReplica, a_rmReplica,
     a_updateReplica, a_rebuildStatus, a_lsSnapshot, a_createSnapshot, a_revertSnapshot, a_lsSnapshot, a_rmSnapshot, a_purgeSnapshot, a_purgeSnapshotStatus,
     a_infoSnapshot, a_cloneSnapshot, a_cloneSnapshotStatus, a_hashSnapshot, a_cancelHashSnapshot, a_hashSnapshotStatus, a_hashSnapshot, a_cancelHashSnapshot,
     a_hashSnapshotStatus, a_createBackup, a_checkBackupStatus, a_restoreBackup, a_restoreToFile, a_restoreStatus, a_expand, a_unmapMarkSnapChainRemoved, a_journal,
     a_info, a_startFrontend, a_shutdownFrontend, a_showProfiler, a_enableProfiler, a_disableProfiler, a_version]" by code_simp
  then show ?thesis by (cases a) simp_all
qed

section \<open>A command reads the flags that it declares\<close>

definition agree :: "command \<Rightarrow> cli_context \<Rightarrow> cli_context \<Rightarrow> bool" where
  "agree cmd c c' \<longleftrightarrow> cx_Args c = cx_Args c' \<and>
     list_all (\<lambda>f. case f of
         StringFlag n _ \<Rightarrow> cx_String c n = cx_String c' n
       | BoolFlag n \<Rightarrow> cx_Bool c n = cx_Bool c' n
       | BoolTFlag n \<Rightarrow> cx_Bool c n = cx_Bool c' n
       | IntFlag n _ \<Rightarrow> cx_Int c n = cx_Int c' n
       | Int64Flag n _ \<Rightarrow> cx_Int c n = cx_Int c' n
       | StringSliceFlag n _ \<Rightarrow> cx_StringSlice c n = cx_StringSlice c' n) (c_Flags cmd) \<and>
     cx_GlobalString c ''url'' = cx_GlobalString c' ''url'' \<and> cx_GlobalString c ''volume-name'' = cx_GlobalString c' ''volume-name'' \<and>
     cx_GlobalString c ''engine-instance-name'' = cx_GlobalString c' ''engine-instance-name''"

lemmas client_reads = with_task_def with_controller_def with_profiler_def getControllerClient_def getProfilerClient_def ce_task_def ce_backup_def cx_First_def

text \<open>The result of a command is the same for contexts that agree on its arguments, its own flags and the global ones.\<close>

lemmas branch_congs = if_cong option.case_cong sum.case_cong list.case_cong prod.case_cong

lemma process_flags:
  "agree ControllerCmd c c' \<Longrightarrow> startController D c w = startController D c' w"
  "agree ReplicaCmd c c' \<Longrightarrow> startReplica P c fs = startReplica P c' fs"
  "agree SyncAgentCmd c c' \<Longrightarrow> startSyncAgent listen c = startSyncAgent listen c'"
  "agree RestoreToFileCmd c c' \<Longrightarrow> restoreToFile F I c x = restoreToFile F I c' x"
  by (simp_all add: agree_def leaf_def ControllerCmd_def ReplicaCmd_def SyncAgentCmd_def RestoreToFileCmd_def cx_First_def
      startController_def engine_new_def engine_sizes_def max_size_def startReplica_def create_sized_def listen_replica_def startSyncAgent_def
      restoreToFile_def output_file_def cong: branch_congs)

lemma replica_flags:
  "agree SyncAgentServerResetCmd c c' \<Longrightarrow> doReset E c w = doReset E c' w"
  "agree StartWithReplicasCmd c c' \<Longrightarrow> startWithReplicas E c w = startWithReplicas E c' w"
  "agree AddReplicaCmd c c' \<Longrightarrow> addReplica_cmd E c w = addReplica_cmd E c' w"
  "agree VerifyRebuildReplicaCmd c c' \<Longrightarrow> verifyRebuildReplica E c w = verifyRebuildReplica E c' w"
  "agree LsReplicaCmd c c' \<Longrightarrow> lsReplica E c w = lsReplica E c' w"
  "agree RmReplicaCmd c c' \<Longrightarrow> rmReplica E c w = rmReplica E c' w"
  "agree UpdateReplicaCmd c c' \<Longrightarrow> updateReplica E c w = updateReplica E c' w"
  "agree RebuildStatusCmd c c' \<Longrightarrow> rebuildStatus E c w = rebuildStatus E c' w"
  by (simp_all add: agree_def leaf_def SyncAgentServerResetCmd_def StartWithReplicasCmd_def AddReplicaCmd_def VerifyRebuildReplicaCmd_def LsReplicaCmd_def
      RmReplicaCmd_def UpdateReplicaCmd_def RebuildStatusCmd_def client_reads doReset_def startWithReplicas_def addReplica_cmd_def verifyRebuildReplica_def
      lsReplica_def rmReplica_def updateReplica_def rebuildStatus_def volume_sizes_def required_size_def cong: branch_congs)

lemma snapshot_flags:
  "agree SnapshotCreateCmd c c' \<Longrightarrow> createSnapshot_cmd E c w = createSnapshot_cmd E c' w"
  "agree SnapshotRevertCmd c c' \<Longrightarrow> revertSnapshot E c w = revertSnapshot E c' w"
  "agree SnapshotLsCmd c c' \<Longrightarrow> lsSnapshot E c w = lsSnapshot E c' w"
  "agree SnapshotRmCmd c c' \<Longrightarrow> rmSnapshot E c w = rmSnapshot E c' w"
  "agree SnapshotPurgeCmd c c' \<Longrightarrow> purgeSnapshot E sched c w = purgeSnapshot E sched c' w"
  "agree SnapshotPurgeStatusCmd c c' \<Longrightarrow> purgeSnapshotStatus E c w = purgeSnapshotStatus E c' w"
  "agree SnapshotInfoCmd c c' \<Longrightarrow> infoSnapshot E c w = infoSnapshot E c' w"
  "agree SnapshotCloneCmd c c' \<Longrightarrow> cloneSnapshot E sched c w = cloneSnapshot E sched c' w"
  "agree SnapshotCloneStatusCmd c c' \<Longrightarrow> cloneSnapshotStatus E c w = cloneSnapshotStatus E c' w"
  "agree SnapshotHashCmd c c' \<Longrightarrow> hashSnapshot_cmd E sched c w = hashSnapshot_cmd E sched c' w"
  "agree SnapshotHashCancelCmd c c' \<Longrightarrow> cancelHashSnapshot E sched c w = cancelHashSnapshot E sched c' w"
  "agree SnapshotHashStatusCmd c c' \<Longrightarrow> hashSnapshotStatus E order c w = hashSnapshotStatus E order c' w"
  by (simp_all add: agree_def leaf_def SnapshotCreateCmd_def SnapshotRevertCmd_def SnapshotLsCmd_def SnapshotRmCmd_def SnapshotPurgeCmd_def
      SnapshotPurgeStatusCmd_def SnapshotInfoCmd_def SnapshotCloneCmd_def SnapshotCloneStatusCmd_def SnapshotHashCmd_def SnapshotHashCancelCmd_def
      SnapshotHashStatusCmd_def client_reads createSnapshot_cmd_def parsed_labels_def revertSnapshot_def lsSnapshot_def rmSnapshot_def purgeSnapshot_def
      purgeSnapshotStatus_def infoSnapshot_def cloneSnapshot_def cloneSnapshotStatus_def hashSnapshot_cmd_def cancelHashSnapshot_def hashSnapshotStatus_def
      cong: branch_congs)

text \<open>The storage class is the exception: its flag is declared as a number, and the command reads a text.\<close>

lemma backup_flags:
  "agree BackupCreateCmd c c' \<Longrightarrow> cx_String c ''storage-class-name'' = cx_String c' ''storage-class-name'' \<Longrightarrow> createBackup_cmd E c w = createBackup_cmd E c' w"
  "agree BackupStatusCmd c c' \<Longrightarrow> checkBackupStatus E c w = checkBackupStatus E c' w"
  "agree BackupRestoreCmd c c' \<Longrightarrow> restoreBackup_cmd E sched order c w = restoreBackup_cmd E sched order c' w"
  "agree RestoreStatusCmd c c' \<Longrightarrow> restoreStatus E c w = restoreStatus E c' w"
  by (simp_all add: agree_def leaf_def BackupCreateCmd_def BackupStatusCmd_def BackupRestoreCmd_def RestoreStatusCmd_def client_reads createBackup_cmd_def
      parsed_labels_def checkBackupStatus_def restoreBackup_cmd_def restoreStatus_def cong: branch_congs)

lemma volume_flags:
  "agree ExpandCmd c c' \<Longrightarrow> expand E c w = expand E c' w"
  "agree UnmapMarkSnapChainRemovedCmd c c' \<Longrightarrow> unmapMarkSnapChainRemoved_cmd E c w = unmapMarkSnapChainRemoved_cmd E c' w"
  "agree InfoCmd c c' \<Longrightarrow> info E c w = info E c' w"
  "agree FrontendStartCmd c c' \<Longrightarrow> startFrontend_cmd E c w = startFrontend_cmd E c' w"
  "agree FrontendShutdownCmd c c' \<Longrightarrow> shutdownFrontend_cmd E c w = shutdownFrontend_cmd E c' w"
  "agree ExportVolumeCmd c c' \<Longrightarrow> exportVolume E c w = exportVolume E c' w"
  "agree ProfilerShowCmd c c' \<Longrightarrow> showProfiler E c w = showProfiler E c' w"
  "agree ProfilerEnableCmd c c' \<Longrightarrow> enableProfiler E c w = enableProfiler E c' w"
  "agree ProfilerDisableCmd c c' \<Longrightarrow> disableProfiler E c w = disableProfiler E c' w"
  "agree VersionCmd c c' \<Longrightarrow> version_cmd E v ask c w = version_cmd E v ask c' w"
  by (simp_all add: agree_def leaf_def ExpandCmd_def UnmapMarkSnapChainRemovedCmd_def InfoCmd_def FrontendStartCmd_def FrontendShutdownCmd_def ExportVolumeCmd_def
      ProfilerShowCmd_def ProfilerEnableCmd_def ProfilerDisableCmd_def VersionCmd_def client_reads expand_def unmapMarkSnapChainRemoved_cmd_def info_def
      startFrontend_cmd_def shutdownFrontend_cmd_def exportVolume_def showProfiler_def enableProfiler_def disableProfiler_def version_cmd_def cong: branch_congs)

section \<open>Defaults\<close>

text \<open>The context of a command without flags.\<close>

fun flag_default :: "cli_context \<Rightarrow> flag \<Rightarrow> cli_context" where
  "flag_default c (StringFlag n v) = c\<lparr>cx_String := (cx_String c)(n := v)\<rparr>"
| "flag_default c (BoolFlag n) = c\<lparr>cx_Bool := (cx_Bool c)(n := False)\<rparr>"
| "flag_default c (BoolTFlag n) = c\<lparr>cx_Bool := (cx_Bool c)(n := True)\<rparr>"
| "flag_default c (IntFlag n v) = c\<lparr>cx_Int := (cx_Int c)(n := v), cx_String := (cx_String c)(n := showInt v)\<rparr>"
| "flag_default c (Int64Flag n v) = c\<lparr>cx_Int := (cx_Int c)(n := v), cx_String := (cx_String c)(n := showInt v)\<rparr>"
| "flag_default c (StringSliceFlag n v) = c\<lparr>cx_StringSlice := (cx_StringSlice c)(n := v)\<rparr>"

definition default_context :: "command \<Rightarrow> string list \<Rightarrow> cli_context" where
  "default_context cmd args = foldl flag_default
     \<lparr>cx_Args = args, cx_String = (\<lambda>_. []), cx_Bool = (\<lambda>_. False), cx_Int = (\<lambda>_. 0), cx_StringSlice = (\<lambda>_. None),
      cx_GlobalString = (\<lambda>n. if n = ''url'' then ''http://localhost:9501'' else [])\<rparr> (c_Flags cmd)"

text \<open>The default url has two colons, so the profiler cannot be enabled without a port.\<close>

lemma profiler_default_url: "enableProfiler E (default_context ProfilerEnableCmd []) w = Some (Inl (Errorf ''failed to get grpc server port''), w)"
proof -
  have s: "Split CHR '':'' ''http://localhost:9501'' = [''http'', ''//localhost'', ''9501'']" by code_simp
  have "snd (Atoi ''//localhost'') \<noteq> None" by code_simp
  then obtain n e where a: "Atoi ''//localhost'' = (n, Some e)" by (cases "Atoi ''//localhost''") auto
  show ?thesis by (simp add: enableProfiler_def default_context_def ProfilerEnableCmd_def leaf_def validatePortNumber_def int32_def s a)
qed

text \<open>A backup without a storage class gets the class 0.\<close>

lemma storage_class_default: "cx_String (default_context BackupCreateCmd []) ''storage-class-name'' = ''0''"
  by code_simp

text \<open>The controller of a command without flags but the sizes waits 8 seconds for a replica and 23 for a request.\<close>

lemma controller_default_timeouts:
  "engine_timeouts (cx_Int (default_context ControllerCmd args) ''engine-replica-timeout'') = (8 * second, 16 * second, 23 * second)"
  by (simp add: default_context_def ControllerCmd_def leaf_def engine_timeouts_def DetermineEngineReplicaTimeout_def DetermineIscsiTargetRequestTimeout_def Let_def
      second_def minInt64_def maxInt64_def)

end
